(* ===== verification/Prelude.thy ===== *)
theory Prelude
  imports Main "HOL-Library.Finite_Map" "HOL-Library.Sublist" "HOL-Library.Char_ord"
    "HOL-Library.List_Lexorder"
begin

section \<open>Prelude: results, Go maps, ranges\<close>

text \<open>
  The vocabulary every component theory shares:
  \<^item> \<open>failure\<close> and \<open>'a res\<close>: how a Go function of the repository can end, with a value, with an
    error value or with a run-time panic;
  \<^item> Go maps: \<open>'v gomap\<close> is \<open>nil\<close> or a finite map, with Go's reading of a missing key;
  \<^item> \<open>range_order\<close>: Go leaves the order in which \<open>range\<close> visits the keys of a map open, so every
    definition with such a loop takes the order as an argument, keyed by the place of the loop;
  \<^item> the lemma collections of the development and the generic lemmas on lists and finite maps.
\<close>

named_theorems api_defs \<open>definitions of one-line operations on API objects\<close>
named_theorems client_simps \<open>how the recording client behaves, operation by operation\<close>

type_synonym byte = char

subsection \<open>Errors and results\<close>

text \<open>
  \<open>StatusReason\<close> is the reason an API server attaches to a failed request; the controllers only
  distinguish the two reasons they test for. A Go \<open>error\<close> is an API error, an error of the JSON
  decoder, some other error of a library, or one of these wrapped with \<open>fmt.Errorf(text: %w)\<close>.
  \<open>Misformatted\<close> is what \<open>fmt.Errorf\<close> makes of a text that holds a formatting directive itself.
\<close>

datatype StatusReason = NotFound | AlreadyExists | OtherReason string

record api_error =
  api_reason :: StatusReason
  api_message :: string

datatype go_error =
    ApiError api_error
  | JsonError string
  | LibError string
  | Wrapped string go_error
  | Misformatted string go_error

datatype failure = Err go_error | Panic string

type_synonym 'a res = "failure + 'a"

definition nil_panic :: failure where
  "nil_panic = Panic ''runtime error: invalid memory address or nil pointer dereference''"

definition bind_res :: "'a res \<Rightarrow> ('a \<Rightarrow> 'b res) \<Rightarrow> 'b res" where
  "bind_res m f = (case m of Inl e \<Rightarrow> Inl e | Inr x \<Rightarrow> f x)"

lemma bind_res_simps [simp]: "bind_res (Inl e) f = Inl e" "bind_res (Inr x) f = f x"
  by (simp_all add: bind_res_def)

lemma bind_res_Inr: "bind_res m f = Inr y \<longleftrightarrow> (\<exists>x. m = Inr x \<and> f x = Inr y)"
  by (cases m) simp_all

text \<open>The message \<open>err.Error()\<close> returns; \<open>Misformatted\<close> texts are outside the repository's use.\<close>

fun error_text :: "go_error \<Rightarrow> string" where
  "error_text (ApiError e) = api_message e"
| "error_text (JsonError s) = s"
| "error_text (LibError s) = s"
| "error_text (Wrapped pre e) = pre @ error_text e"
| "error_text (Misformatted s e) = s"

fun error_root :: "go_error \<Rightarrow> go_error" where
  "error_root (Wrapped pre e) = error_root e"
| "error_root (Misformatted s e) = error_root e"
| "error_root e = e"

definition IsNotFound :: "api_error \<Rightarrow> bool" where
  [api_defs]: "IsNotFound e \<longleftrightarrow> api_reason e = NotFound"

definition IsAlreadyExists :: "api_error \<Rightarrow> bool" where
  [api_defs]: "IsAlreadyExists e \<longleftrightarrow> api_reason e = AlreadyExists"

text \<open>\<open>client.IgnoreNotFound\<close> and \<open>client.IgnoreAlreadyExists\<close> turn the one error into \<open>nil\<close>.\<close>

definition IgnoreNotFound :: "api_error option \<Rightarrow> api_error option" where
  [api_defs]: "IgnoreNotFound e =
     (case e of None \<Rightarrow> None | Some x \<Rightarrow> if IsNotFound x then None else Some x)"

definition IgnoreAlreadyExists :: "api_error option \<Rightarrow> api_error option" where
  [api_defs]: "IgnoreAlreadyExists e =
     (case e of None \<Rightarrow> None | Some x \<Rightarrow> if IsAlreadyExists x then None else Some x)"

subsection \<open>Go maps and the order of ranges\<close>

type_synonym 'v gomap = "(string, 'v) fmap option"

definition entries :: "'v gomap \<Rightarrow> (string, 'v) fmap" where
  "entries m = (case m of None \<Rightarrow> fmempty | Some f \<Rightarrow> f)"

text \<open>\<open>m[k]\<close> of a missing key (and of a nil map) is the zero value.\<close>

definition get_or :: "'v \<Rightarrow> (string, 'v) fmap \<Rightarrow> string \<Rightarrow> 'v" where
  "get_or zero m k = (case fmlookup m k of None \<Rightarrow> zero | Some v \<Rightarrow> v)"

type_synonym range_order = "string \<Rightarrow> string fset \<Rightarrow> string list"

definition range_ok :: "range_order \<Rightarrow> bool" where
  "range_ok \<rho> \<longleftrightarrow> (\<forall>at K. distinct (\<rho> at K) \<and> set (\<rho> at K) = fset K)"

lemma range_okD [simp]:
  assumes "range_ok \<rho>"
  shows "distinct (\<rho> at K)" and "set (\<rho> at K) = fset K"
  using assms by (auto simp: range_ok_def)

text \<open>One possible order, for evaluating the model on concrete inputs.\<close>

definition sorted_range :: range_order where
  "sorted_range at K = sorted_list_of_set (fset K)"

lemma sorted_range_ok [simp]: "range_ok sorted_range"
  by (simp add: range_ok_def sorted_range_def)

lemma range_ok_empty:
  assumes "range_ok \<rho>"
  shows "\<rho> at {||} = []"
proof -
  have "set (\<rho> at {||}) = {}"
    using range_okD(2) [OF assms, of "at" "{||}"] by simp
  then show ?thesis by simp
qed

lemma range_ok_length:
  assumes "range_ok \<rho>"
  shows "length (\<rho> at K) = fcard K"
  using assms by (metis distinct_card fcard.rep_eq range_okD)

lemma entries_simps [simp]: "entries None = fmempty" "entries (Some f) = f"
  by (simp_all add: entries_def)

lemma get_or_upd [simp]:
  "get_or z (fmupd k v m) j = (if k = j then v else get_or z m j)"
  by (simp add: get_or_def)

lemma get_or_Some: "fmlookup m k = Some v \<Longrightarrow> get_or z m k = v"
  by (simp add: get_or_def)

subsection \<open>Lists\<close>

lemma append_eq_same_length:
  assumes "xs @ ys = us @ vs" and "length ys = length vs"
  shows "xs = us \<and> ys = vs"
  using assms by (metis append_eq_append_conv)

lemma filter_neq_id: "x \<notin> set xs \<Longrightarrow> filter (\<lambda>y. y \<noteq> x) xs = xs"
  by (induction xs) auto

end
