(* ===== verification/Go_Text.thy ===== *)
theory Go_Text
  imports Prelude
begin

section \<open>Byte strings of Go\<close>

text \<open>
  A Go string is a sequence of bytes and \<open>char\<close> is a byte, so \<open>string\<close> is the model's Go string and
  \<open>length\<close> is Go's \<open>len\<close>. This theory holds what the repository uses of \<open>strings\<close> and \<open>strconv\<close>:
  \<open>strings.ToUpper\<close> of a one-byte string, the capitalisation \<open>strings.ToUpper(s[:1]) + s[1:]\<close> and
  decimal numerals.
\<close>

definition byte_val :: "byte \<Rightarrow> nat" where
  "byte_val b = of_char b"

definition byte_of :: "nat \<Rightarrow> byte" where
  "byte_of n = char_of n"

text \<open>
  \<open>strings.ToUpper\<close> of the string with the single byte \<open>b\<close>. A single byte from \<open>0x80\<close> on is not
  valid UTF-8; \<open>strings.ToUpper\<close> then goes through \<open>strings.Map\<close>, which writes the replacement
  character U+FFFD (three bytes) for it.
\<close>

definition to_upper_byte :: "byte \<Rightarrow> string" where
  "to_upper_byte b =
     (if byte_val b < 128
      then (if 97 \<le> byte_val b \<and> byte_val b \<le> 122 then [byte_of (byte_val b - 32)] else [b])
      else [byte_of 239, byte_of 191, byte_of 189])"

text \<open>
  \<open>strings.ToUpper(s[:1]) + s[1:]\<close>. Slicing the empty string with \<open>[:1]\<close> is out of range: \<open>None\<close>.
\<close>

fun capitalize :: "string \<Rightarrow> string option" where
  "capitalize [] = None"
| "capitalize (b # bs) = Some (to_upper_byte b @ bs)"

function digits :: "int \<Rightarrow> string" where
  "digits n =
     (if n < 10 then [byte_of (nat (48 + n))]
      else digits (n div 10) @ [byte_of (nat (48 + n mod 10))])"
  by pat_completeness auto
termination
  by (relation "measure nat") auto

declare digits.simps [simp del]

text \<open>\<open>strconv.Itoa\<close> and \<open>strconv.FormatInt(i, 10)\<close>.\<close>

definition itoa :: "int \<Rightarrow> string" where
  "itoa i = (if i < 0 then CHR ''-'' # digits (- i) else digits i)"

subsection \<open>Facts about numerals\<close>

lemma byte_val_of [simp]: "n < 256 \<Longrightarrow> byte_val (byte_of n) = n"
  by (simp add: byte_val_def byte_of_def)

lemma byte_val_less: "byte_val b < 256"
  by (simp add: byte_val_def)

lemma byte_of_val [simp]: "byte_of (byte_val b) = b"
  by (simp add: byte_val_def byte_of_def)

lemma byte_val_inj: "byte_val a = byte_val b \<longleftrightarrow> a = b"
  by (metis byte_of_val)

lemma byte_of_inj: "m < 256 \<Longrightarrow> n < 256 \<Longrightarrow> byte_of m = byte_of n \<longleftrightarrow> m = n"
  by (metis byte_val_of)

lemma digits_nonempty [simp]: "digits n \<noteq> []"
  by (subst digits.simps) simp

definition is_digit :: "byte \<Rightarrow> bool" where
  "is_digit b \<longleftrightarrow> 48 \<le> byte_val b \<and> byte_val b \<le> 57"

lemma digit_byte:
  assumes "0 \<le> n" and "n < 10"
  shows "is_digit (byte_of (nat (48 + n)))"
  using assms by (simp add: is_digit_def nat_add_distrib)

lemma digits_are_digits: "0 \<le> n \<Longrightarrow> b \<in> set (digits n) \<Longrightarrow> is_digit b"
proof (induction n rule: digits.induct)
  case (1 n)
  show ?case
  proof (cases "n < 10")
    case True
    with "1.prems" show ?thesis
      using digit_byte [of n] by (simp add: digits.simps [of n])
  next
    case False
    with 1 show ?thesis
      using digit_byte [of "n mod 10"] by (auto simp: digits.simps [of n])
  qed
qed

lemma digit_byte_inj:
  assumes "byte_of (nat (48 + m)) = byte_of (nat (48 + n))"
    and "0 \<le> m" "m < 10" "0 \<le> n" "n < 10"
  shows "m = n"
proof -
  have "nat (48 + m) = nat (48 + n)"
    using assms by (subst (asm) byte_of_inj) auto
  with assms show ?thesis by simp
qed

lemma last_digits: "0 \<le> n \<Longrightarrow> last (digits n) = byte_of (nat (48 + n mod 10))"
  by (subst digits.simps) simp

lemma digits_single: "digits n = [b] \<Longrightarrow> n < 10"
  by (metis append1_eq_conv append_Nil digits.simps digits_nonempty)

lemma digits_inj: "digits m = digits n \<Longrightarrow> 0 \<le> m \<Longrightarrow> 0 \<le> n \<Longrightarrow> m = n"
proof (induction m arbitrary: n rule: digits.induct)
  case (1 m)
  have l: "m mod 10 = n mod 10"
    using 1 last_digits [of m] last_digits [of n] by (intro digit_byte_inj) auto
  show ?case
  proof (cases "m < 10 \<or> n < 10")
    case True
    with "1.prems" have "m < 10 \<and> n < 10"
      using digits_single by (metis digits.simps)
    with l "1.prems" show ?thesis by simp
  next
    case False
    with "1.prems" have "digits (m div 10) = digits (n div 10)"
      by (simp add: digits.simps [of m] digits.simps [of n])
    moreover have "0 \<le> m div 10" "0 \<le> n div 10"
      using "1.prems" by (simp_all add: pos_imp_zdiv_nonneg_iff)
    ultimately have "m div 10 = n div 10"
      using False by (intro "1.IH") auto
    with l show ?thesis by (metis div_mult_mod_eq)
  qed
qed

lemma digits_no_sign: "0 \<le> n \<Longrightarrow> digits n \<noteq> CHR ''-'' # xs"
  using digits_are_digits [of n "CHR ''-''"] by (auto simp: is_digit_def byte_val_def)

lemma itoa_inj: "itoa i = itoa j \<Longrightarrow> i = j"
  using digits_no_sign [of i] digits_no_sign [of j]
  by (auto simp: itoa_def dest!: digits_inj split: if_splits) (metis digits_no_sign not_less)+

lemma itoa_nonempty [simp]: "itoa i \<noteq> []"
  by (simp add: itoa_def)

end
