(* ===== verification/Errors.thy ===== *)
theory Errors
  imports Go_Text
begin

section \<open>Error wrapping (\<^verbatim>\<open>pkg/controller/errors.go\<close>)\<close>

text \<open>
  \<open>errLogAndWrap\<close> returns the wrapped error and logs a capitalised text. The model returns both: the
  text of the log line (\<open>None\<close> when nothing is logged) and the error. \<open>fmt.Errorf(text + ": %w", err)\<close>
  reads its first argument as a format, so the text only appears as it is when it holds no
  directive.
\<close>

definition Errorf_w :: "string \<Rightarrow> go_error \<Rightarrow> go_error" where
  "Errorf_w text err =
     (if CHR ''%'' \<in> set text then Misformatted text err else Wrapped (text @ '': '') err)"

definition errLogAndWrap :: "go_error \<Rightarrow> string \<Rightarrow> string option \<times> go_error" where
  "errLogAndWrap err text =
     (case text of
        [] \<Rightarrow> (None, err)
      | [b] \<Rightarrow> (Some (to_upper_byte b), Errorf_w text err)
      | b # bs \<Rightarrow> (Some (to_upper_byte b @ bs), Errorf_w text err))"

text \<open>The error a controller returns, and the same for an error of the API client.\<close>

definition wrapErr :: "go_error \<Rightarrow> string \<Rightarrow> failure" where
  "wrapErr err text = Err (snd (errLogAndWrap err text))"

definition wrapApi :: "api_error \<Rightarrow> string \<Rightarrow> failure" where
  "wrapApi e text = wrapErr (ApiError e) text"

lemma errLogAndWrap_root: "error_root (snd (errLogAndWrap err text)) = error_root err"
  by (auto simp: errLogAndWrap_def Errorf_w_def split: list.splits)

lemma errLogAndWrap_text:
  "text \<noteq> [] \<Longrightarrow> CHR ''%'' \<notin> set text \<Longrightarrow>
   error_text (snd (errLogAndWrap err text)) = text @ '': '' @ error_text err"
  by (auto simp: errLogAndWrap_def Errorf_w_def split: list.splits)

lemma errLogAndWrap_log:
  "fst (errLogAndWrap err text) = capitalize text"
  by (auto simp: errLogAndWrap_def split: list.splits)

text \<open>
  Wrapping an error keeps its cause, prefixes its message with the text and a colon, and logs
  the text with its first letter in upper case; an empty text leaves the error alone and logs
  nothing.
\<close>

lemma errLogAndWrap_spec:
  "error_root (snd (errLogAndWrap err text)) = error_root err \<and>
   fst (errLogAndWrap err text) = capitalize text \<and>
   (text = [] \<longrightarrow> snd (errLogAndWrap err text) = err) \<and>
   (text \<noteq> [] \<and> CHR ''%'' \<notin> set text \<longrightarrow>
      error_text (snd (errLogAndWrap err text)) = text @ '': '' @ error_text err)"
  using errLogAndWrap_root errLogAndWrap_log errLogAndWrap_text
  by (auto simp: errLogAndWrap_def)

end
