(* ===== verification/Api_Types.thy ===== *)
theory Api_Types
  imports Go_Text
begin

section \<open>The API types of arc.bwi.de/v1alpha1\<close>

text \<open>
  The structs of \<^verbatim>\<open>api/arc/v1alpha1/*_types.go\<close> as records, field by field and in the source's order,
  and the phases of a workflow with their two predicates. The structs of the Kubernetes libraries
  they embed (\<open>TypeMeta\<close>, \<open>ObjectMeta\<close>, \<open>LocalObjectReference\<close>) carry the fields the repository
  reads, writes or copies.

  Conventions: a Go slice is a list (a nil slice and an empty one are not told apart, but for
  \<open>RawExtension.Raw\<close>, where the JSON encoder tells them apart); a Go map is a \<open>gomap\<close>; a pointer to
  a value is an option; a time is a number with \<open>0\<close> for the zero time; Go's \<open>int\<close> and \<open>int64\<close> fields
  are integers (the code only copies and prints them).
\<close>

subsection \<open>Structs of the Kubernetes libraries\<close>

record TypeMeta =
  TypeMeta_Kind :: string
  TypeMeta_APIVersion :: string

record OwnerReference =
  OwnerReference_APIVersion :: string
  OwnerReference_Kind :: string
  OwnerReference_Name :: string
  OwnerReference_UID :: string
  OwnerReference_Controller :: "bool option"

record ObjectMeta =
  Meta_Name :: string
  Meta_GenerateName :: string
  Meta_Namespace :: string
  Meta_UID :: string
  Meta_ResourceVersion :: string
  Meta_Generation :: int
  Meta_CreationTimestamp :: nat
  Meta_DeletionTimestamp :: "nat option"
  Meta_DeletionGracePeriodSeconds :: "int option"
  Meta_Labels :: "string gomap"
  Meta_Annotations :: "string gomap"
  Meta_OwnerReferences :: "OwnerReference list"
  Meta_Finalizers :: "string list"

record ListMeta =
  ListMeta_ResourceVersion :: string
  ListMeta_Continue :: string

record LocalObjectReference =
  Ref_Name :: string

text \<open>\<open>runtime.RawExtension\<close>: the bytes of a JSON document, or nil.\<close>

record RawExtension =
  Raw :: "byte list option"

definition zero_TypeMeta :: TypeMeta where
  "zero_TypeMeta = \<lparr>TypeMeta_Kind = [], TypeMeta_APIVersion = []\<rparr>"

definition zero_ObjectMeta :: ObjectMeta where
  "zero_ObjectMeta =
     \<lparr>Meta_Name = [], Meta_GenerateName = [], Meta_Namespace = [], Meta_UID = [],
      Meta_ResourceVersion = [], Meta_Generation = 0, Meta_CreationTimestamp = 0,
      Meta_DeletionTimestamp = None, Meta_DeletionGracePeriodSeconds = None,
      Meta_Labels = None, Meta_Annotations = None, Meta_OwnerReferences = [], Meta_Finalizers = []\<rparr>"

text \<open>\<open>(*metav1.Time).IsZero\<close>: a nil pointer and the zero time are zero.\<close>

definition IsZero :: "nat option \<Rightarrow> bool" where
  [api_defs]: "IsZero t \<longleftrightarrow> (case t of None \<Rightarrow> True | Some x \<Rightarrow> x = 0)"

subsection \<open>Orders\<close>

record OrderDefaults =
  OrderDefaults_SrcRef :: LocalObjectReference
  OrderDefaults_DstRef :: LocalObjectReference

record OrderArtifact =
  OrderArtifact_Type :: string
  OrderArtifact_SrcRef :: LocalObjectReference
  OrderArtifact_DstRef :: LocalObjectReference
  OrderArtifact_Spec :: RawExtension

record OrderSpec =
  OrderSpec_Defaults :: OrderDefaults
  OrderSpec_Artifacts :: "OrderArtifact list"

text \<open>
  \<open>WorkflowPhase\<close> is a string type with six named values; any other string can be stored in it.
\<close>

type_synonym WorkflowPhase = string

definition WorkflowUnknown :: WorkflowPhase where
  [api_defs]: "WorkflowUnknown = ''''"

definition WorkflowPending :: WorkflowPhase where
  [api_defs]: "WorkflowPending = ''Pending''"

definition WorkflowRunning :: WorkflowPhase where
  [api_defs]: "WorkflowRunning = ''Running''"

definition WorkflowSucceeded :: WorkflowPhase where
  [api_defs]: "WorkflowSucceeded = ''Succeeded''"

definition WorkflowFailed :: WorkflowPhase where
  [api_defs]: "WorkflowFailed = ''Failed''"

definition WorkflowError :: WorkflowPhase where
  [api_defs]: "WorkflowError = ''Error''"

definition Completed :: "WorkflowPhase \<Rightarrow> bool" where
  "Completed p \<longleftrightarrow> p = WorkflowSucceeded \<or> p = WorkflowFailed \<or> p = WorkflowError"

definition InProgress :: "WorkflowPhase \<Rightarrow> bool" where
  "InProgress p \<longleftrightarrow> p = WorkflowPending \<or> p = WorkflowRunning"

record OrderArtifactWorkflowStatus =
  OAWStatus_ArtifactIndex :: int
  OAWStatus_Phase :: WorkflowPhase
  OAWStatus_Message :: string

definition zero_OAWStatus :: OrderArtifactWorkflowStatus where
  "zero_OAWStatus =
     \<lparr>OAWStatus_ArtifactIndex = 0, OAWStatus_Phase = WorkflowUnknown, OAWStatus_Message = []\<rparr>"

record OrderStatus =
  OrderStatus_ArtifactWorkflows :: "OrderArtifactWorkflowStatus gomap"

record Order =
  Order_TypeMeta :: TypeMeta
  Order_ObjectMeta :: ObjectMeta
  Order_Spec :: OrderSpec
  Order_Status :: OrderStatus

record OrderList =
  OrderList_TypeMeta :: TypeMeta
  OrderList_ListMeta :: ListMeta
  OrderList_Items :: "Order list"

subsection \<open>Artifact workflows\<close>

record ArtifactWorkflowParameter =
  Parameter_Name :: string
  Parameter_Value :: string

record ArtifactWorkflowSpec =
  AWSpec_Type :: string
  AWSpec_Parameters :: "ArtifactWorkflowParameter list"
  AWSpec_SrcSecretRef :: LocalObjectReference
  AWSpec_DstSecretRef :: LocalObjectReference

record ArtifactWorkflowStatus =
  AWStatus_Phase :: WorkflowPhase
  AWStatus_Message :: string

definition zero_AWStatus :: ArtifactWorkflowStatus where
  "zero_AWStatus = \<lparr>AWStatus_Phase = WorkflowUnknown, AWStatus_Message = []\<rparr>"

record ArtifactWorkflow =
  AW_TypeMeta :: TypeMeta
  AW_ObjectMeta :: ObjectMeta
  AW_Spec :: ArtifactWorkflowSpec
  AW_Status :: ArtifactWorkflowStatus

record ArtifactWorkflowList =
  AWList_TypeMeta :: TypeMeta
  AWList_ListMeta :: ListMeta
  AWList_Items :: "ArtifactWorkflow list"

subsection \<open>Endpoints\<close>

type_synonym EndpointUsage = string

definition EndpointUsagePullOnly :: EndpointUsage where
  [api_defs]: "EndpointUsagePullOnly = ''PullOnly''"

definition EndpointUsagePushOnly :: EndpointUsage where
  [api_defs]: "EndpointUsagePushOnly = ''PushOnly''"

definition EndpointUsageAll :: EndpointUsage where
  [api_defs]: "EndpointUsageAll = ''All''"

record EndpointSpec =
  EndpointSpec_Type :: string
  EndpointSpec_RemoteURL :: string
  EndpointSpec_SecretRef :: LocalObjectReference
  EndpointSpec_Usage :: EndpointUsage

text \<open>\<open>EndpointStatus\<close> and \<open>ArtifactTypeStatus\<close> are empty structs.\<close>

type_synonym EndpointStatus = unit

record Endpoint =
  Endpoint_TypeMeta :: TypeMeta
  Endpoint_ObjectMeta :: ObjectMeta
  Endpoint_Spec :: EndpointSpec
  Endpoint_Status :: EndpointStatus

record EndpointList =
  EndpointList_TypeMeta :: TypeMeta
  EndpointList_ListMeta :: ListMeta
  EndpointList_Items :: "Endpoint list"

subsection \<open>Artifact types\<close>

record ArtifactTypeRules =
  Rules_SrcTypes :: "string list"
  Rules_DstTypes :: "string list"

record ArtifactTypeSpec =
  ATSpec_Rules :: ArtifactTypeRules
  ATSpec_Parameters :: "ArtifactWorkflowParameter list"
  ATSpec_WorkflowTemplateRef :: LocalObjectReference

type_synonym ArtifactTypeStatus = unit

record ArtifactType =
  AT_TypeMeta :: TypeMeta
  AT_ObjectMeta :: ObjectMeta
  AT_Spec :: ArtifactTypeSpec
  AT_Status :: ArtifactTypeStatus

record ArtifactTypeList =
  ATList_TypeMeta :: TypeMeta
  ATList_ListMeta :: ListMeta
  ATList_Items :: "ArtifactType list"

subsection \<open>Objects of other groups the controllers read and write\<close>

text \<open>\<open>corev1.Secret\<close>: the controllers use its metadata only.\<close>

record Secret =
  Secret_ObjectMeta :: ObjectMeta

definition zero_Secret :: Secret where
  "zero_Secret = \<lparr>Secret_ObjectMeta = zero_ObjectMeta\<rparr>"

text \<open>The parts of Argo's \<open>Workflow\<close> the artifact workflow controller writes, and its phase.\<close>

datatype VolumeSource = EmptyDir | SecretVolume string

record Volume =
  Volume_Name :: string
  Volume_Source :: VolumeSource

record WorkflowTemplateRef =
  TemplateRef_Name :: string
  TemplateRef_ClusterScope :: bool

record Workflow =
  Workflow_ObjectMeta :: ObjectMeta
  Workflow_TemplateRef :: WorkflowTemplateRef
  Workflow_Volumes :: "Volume list"
  Workflow_Parameters :: "(string \<times> string) list"
  Workflow_Phase :: string

subsection \<open>The phases\<close>

lemmas phase_defs = WorkflowUnknown_def WorkflowPending_def WorkflowRunning_def
  WorkflowSucceeded_def WorkflowFailed_def WorkflowError_def

text \<open>The three ways the artifact workflow controller tests a phase exclude each other.\<close>

lemma phase_tests_disjoint:
  shows Completed_not_InProgress: "Completed p \<Longrightarrow> \<not> InProgress p"
    and Completed_not_Unknown: "Completed p \<Longrightarrow> p \<noteq> WorkflowUnknown"
    and InProgress_not_Unknown: "InProgress p \<Longrightarrow> p \<noteq> WorkflowUnknown"
  by (auto simp: Completed_def InProgress_def phase_defs)

lemma Unknown_tests [simp]: "\<not> Completed WorkflowUnknown" "\<not> InProgress WorkflowUnknown"
  by (auto simp: Completed_def InProgress_def phase_defs)

lemma Pending_tests [simp]:
  "\<not> Completed WorkflowPending" "InProgress WorkflowPending" "WorkflowPending \<noteq> WorkflowUnknown"
  by (auto simp: Completed_def InProgress_def phase_defs)

end
