(* ===== verification/Go_Float.thy ===== *)
theory Go_Float
  imports Go_Text
begin

section \<open>Float64: decoding a JSON number and printing it with verb v\<close>

text \<open>
  \<open>encoding/json\<close> decodes every number of an artifact's spec as a \<open>float64\<close>
  (\<open>strconv.ParseFloat(s, 64)\<close>), and \<open>fmt.Sprintf("%v", x)\<close> prints it with \<open>strconv\<close>'s shortest
  \<open>%g\<close> format. Both are modelled exactly, on integers.

  A finite float64 is \<open>F64 neg mant expo\<close>, the number \<open>(-1)^neg * mant * 2^expo\<close> with
  \<open>mant < 2^53\<close>, and \<open>2^52 \<le> mant\<close> unless \<open>expo = -1074\<close>. Both signs of zero exist.
\<close>

datatype f64 = F64 bool int int

function bit_length :: "int \<Rightarrow> int" where
  "bit_length n = (if n \<le> 0 then 0 else 1 + bit_length (n div 2))"
  by pat_completeness auto
termination
  by (relation "measure nat") auto

declare bit_length.simps [simp del]

text \<open>The ratio \<open>num / den\<close> times \<open>base ^ k\<close>, for a signed \<open>k\<close>, as a ratio.\<close>

definition scale :: "int \<Rightarrow> int \<Rightarrow> int \<times> int \<Rightarrow> int \<times> int" where
  "scale base k r =
     (if 0 \<le> k then (fst r * base ^ nat k, snd r) else (fst r, snd r * base ^ nat (- k)))"

definition at_least_one :: "int \<times> int \<Rightarrow> bool" where
  "at_least_one r \<longleftrightarrow> snd r \<le> fst r"

text \<open>The floor of the binary logarithm of a positive ratio.\<close>

definition flog2 :: "int \<times> int \<Rightarrow> int" where
  "flog2 r =
     (let k = bit_length (fst r) - bit_length (snd r)
      in if at_least_one (scale 2 (- k) r) then k else k - 1)"

text \<open>
  Rounding a ratio to the nearest float64, ties to even; \<open>None\<close> is \<open>strconv.ErrRange\<close> (overflow).
\<close>

definition round_f64 :: "int \<times> int \<Rightarrow> (int \<times> int) option" where
  "round_f64 r =
     (if fst r = 0 then Some (0, - 1074)
      else let e = max (- 1074) (flog2 r - 52);
               s = scale 2 (- e) r;
               q = fst s div snd s;
               m = fst s mod snd s;
               q' = (if snd s < 2 * m \<or> (2 * m = snd s \<and> odd q) then q + 1 else q);
               me = (if q' = 2 ^ 53 then (2 ^ 52, e + 1) else (q', e))
           in if 971 < snd me then None else Some me)"

text \<open>\<open>parse_f64 neg ds e\<close> is \<open>ParseFloat\<close> of the decimal \<open>\<plusminus> ds * 10^e\<close>.\<close>

definition parse_f64 :: "bool \<Rightarrow> int \<Rightarrow> int \<Rightarrow> f64 option" where
  "parse_f64 neg ds e =
     map_option (\<lambda>(m, x). F64 neg m x) (round_f64 (scale 10 e (ds, 1)))"

subsection \<open>The shortest decimal that reads back as the same float\<close>

text \<open>
  The decimal point of a positive ratio: the \<open>k\<close> with \<open>10^(k-1) \<le> r < 10^k\<close>. The fuel bounds the
  leading zeros of the fraction; the least positive float64 has 323 of them.
\<close>

fun leading_zeros :: "nat \<Rightarrow> int \<times> int \<Rightarrow> int" where
  "leading_zeros 0 r = 0"
| "leading_zeros (Suc n) r =
     (if at_least_one (scale 10 1 r) then 0 else 1 + leading_zeros n (scale 10 1 r))"

definition decimal_point :: "int \<times> int \<Rightarrow> int" where
  "decimal_point r =
     (if at_least_one r then int (length (digits (fst r div snd r)))
      else - leading_zeros 400 r)"

text \<open>
  The value and the ends of its rounding interval, as ratios over the same denominator. Below a
  power of two the gap to the next smaller float64 is half as wide.
\<close>

definition interval :: "int \<Rightarrow> int \<Rightarrow> (int \<times> int) \<times> (int \<times> int) \<times> (int \<times> int)" where
  "interval m e =
     (scale 2 e ((if m = 2 ^ 52 \<and> - 1074 < e then 4 * m - 1 else 4 * m - 2), 4),
      scale 2 e (4 * m, 4),
      scale 2 e (4 * m + 2, 4))"

definition ratio_less :: "int \<times> int \<Rightarrow> int \<times> int \<Rightarrow> bool" where
  "ratio_less r s \<longleftrightarrow> fst r * snd s < fst s * snd r"

text \<open>
  The first length \<open>n\<close> at which rounding down or up stays in the interval; the result is a decimal
  \<open>d * 10^s\<close>. The fuel bounds the length: 17 digits always suffice for a float64.
\<close>

definition shortest_at :: "int \<Rightarrow> int \<Rightarrow> int \<Rightarrow> (int \<times> int) option" where
  "shortest_at n m e =
     (let lo = fst (interval m e);
          v = fst (snd (interval m e));
          hi = snd (snd (interval m e));
          s = decimal_point v - n;
          w = scale 10 (- s) v;
          d = fst w div snd w;
          down = scale 10 s (d, 1);
          up = scale 10 s (d + 1, 1);
          okdown = (if even m then \<not> ratio_less down lo else ratio_less lo down);
          okup = (if even m then \<not> ratio_less hi up else ratio_less up hi);
          m2 = 2 * (fst w mod snd w)
      in if okdown \<and> okup
         then Some ((if snd w < m2 \<or> (m2 = snd w \<and> odd d) then d + 1 else d), s)
         else if okdown then Some (d, s)
         else if okup then Some (d + 1, s)
         else None)"

fun shortest_from :: "nat \<Rightarrow> int \<Rightarrow> int \<Rightarrow> int \<Rightarrow> int \<times> int" where
  "shortest_from 0 n m e = (m, e)"
| "shortest_from (Suc fuel) n m e =
     (case shortest_at n m e of Some r \<Rightarrow> r | None \<Rightarrow> shortest_from fuel (n + 1) m e)"

definition trim_zeros :: "string \<Rightarrow> string" where
  "trim_zeros ds = rev (dropWhile (\<lambda>b. b = CHR ''0'') (rev ds))"

text \<open>The digits and the decimal point of a float64 (no digits and point 0 for zero).\<close>

definition shortest_digits :: "int \<Rightarrow> int \<Rightarrow> string \<times> int" where
  "shortest_digits m e =
     (if m = 0 then ([], 0)
      else let ds = shortest_from 20 1 m e
           in (trim_zeros (digits (fst ds)), int (length (digits (fst ds))) + snd ds))"

subsection \<open>The format \<open>%g\<close>\<close>

definition fmtE :: "string \<Rightarrow> int \<Rightarrow> string" where
  "fmtE ds point =
     (let x = point - 1;
          frac = (if length ds \<le> 1 then [] else CHR ''.'' # tl ds);
          xs = digits \<bar>x\<bar>
      in take 1 ds @ frac @ [CHR ''e'', (if x < 0 then CHR ''-'' else CHR ''+'')] @
         (if length xs < 2 then CHR ''0'' # xs else xs))"

definition fmtF :: "string \<Rightarrow> int \<Rightarrow> string" where
  "fmtF ds point =
     (let whole = (if 0 < point
                   then take (nat point) ds @ replicate (nat point - length ds) (CHR ''0'')
                   else ''0'');
          frac = (if point \<le> 0 then replicate (nat (- point)) (CHR ''0'') @ ds
                  else drop (nat point) ds)
      in whole @ (if ds = [] \<or> frac = [] then [] else CHR ''.'' # frac))"

text \<open>
  With the shortest precision, \<open>%g\<close> switches to the exponent form below \<open>10^-4\<close> and from
  \<open>10^6\<close> on.
\<close>

definition format_f64 :: "f64 \<Rightarrow> string" where
  "format_f64 f =
     (case f of F64 neg m e \<Rightarrow>
        (let ds = fst (shortest_digits m e); point = snd (shortest_digits m e)
         in (if neg then ''-'' else []) @
            (if point - 1 < - 4 \<or> 6 \<le> point - 1 then fmtE ds point else fmtF ds point)))"

subsection \<open>Rounding is exact on the integers a float64 holds\<close>

lemma bit_length_bounds:
  "0 < n \<Longrightarrow> 1 \<le> bit_length n \<and> 2 ^ nat (bit_length n - 1) \<le> n \<and> n < 2 ^ nat (bit_length n)"
proof (induction n rule: bit_length.induct)
  case (1 n)
  show ?case
  proof (cases "n div 2 \<le> 0")
    case True
    with "1.prems" have "n = 1" by linarith
    then show ?thesis by (simp add: bit_length.simps)
  next
    case False
    with 1 have IH: "1 \<le> bit_length (n div 2)" "2 ^ nat (bit_length (n div 2) - 1) \<le> n div 2"
        "n div 2 < 2 ^ nat (bit_length (n div 2))"
      by auto
    have "nat (bit_length (n div 2)) = Suc (nat (bit_length (n div 2) - 1))"
      using IH(1) by linarith
    then have two: "(2::int) ^ nat (bit_length (n div 2)) = 2 * 2 ^ nat (bit_length (n div 2) - 1)"
      by simp
    have up: "nat (1 + bit_length (n div 2)) = Suc (nat (bit_length (n div 2)))"
      using IH(1) by linarith
    from IH two have "2 ^ nat (bit_length (n div 2)) \<le> n" "n < 2 * 2 ^ nat (bit_length (n div 2))"
      by linarith+
    with "1.prems" IH(1) up show ?thesis by (simp add: bit_length.simps [of n])
  qed
qed

lemma bit_length_le:
  assumes "0 < n" and "n < 2 ^ k"
  shows "bit_length n \<le> int k"
proof -
  have "(2::int) ^ nat (bit_length n - 1) < 2 ^ k"
    using bit_length_bounds [OF assms(1)] assms(2) by linarith
  then have "nat (bit_length n - 1) < k" by (rule power_less_imp_less_exp [rotated]) simp
  then show ?thesis by linarith
qed

lemma flog2_int:
  assumes "0 < n"
  shows "flog2 (n, 1) = bit_length n - 1"
proof -
  have one: "bit_length 1 = 1" by (simp add: bit_length.simps)
  have "2 ^ nat (bit_length n - 1) \<le> n" "1 \<le> bit_length n"
    using bit_length_bounds [OF assms] by auto
  then have "at_least_one (scale 2 (- (bit_length n - 1)) (n, 1))"
    by (auto simp: at_least_one_def scale_def)
  then show ?thesis by (simp add: flog2_def Let_def one)
qed

text \<open>Every positive integer below \<open>2^53\<close> is decoded without rounding.\<close>

lemma parse_f64_exact:
  assumes "0 < n" and "n < 2 ^ 53"
  shows "\<exists>m e. parse_f64 neg n 0 = Some (F64 neg m e) \<and> e \<le> 0 \<and> m = n * 2 ^ nat (- e)"
proof -
  define k where "k = nat (53 - bit_length n)"
  have b: "n < 2 ^ nat (bit_length n)" "1 \<le> bit_length n" "bit_length n \<le> 53"
    using bit_length_bounds [OF assms(1)] bit_length_le [OF assms] by auto
  have e: "max (- 1074) (flog2 (n, 1) - 52) = - int k"
    using flog2_int [OF assms(1)] b by (simp add: k_def)
  have "n * 2 ^ k < 2 ^ nat (bit_length n) * 2 ^ k"
    using b(1) by simp
  also have "(2::int) ^ nat (bit_length n) * 2 ^ k = 2 ^ (nat (bit_length n) + k)"
    by (simp add: power_add)
  also have "nat (bit_length n) + k = 53" using b by (simp add: k_def)
  finally have small: "n * 2 ^ k < 2 ^ 53" .
  have s: "scale 2 (- (- int k)) (n, 1) = (n * 2 ^ k, 1)"
    by (simp add: scale_def)
  have "round_f64 (n, 1) = Some (n * 2 ^ k, - int k)"
    using assms(1) small unfolding round_f64_def Let_def e s by simp
  then have "parse_f64 neg n 0 = Some (F64 neg (n * 2 ^ k) (- int k))"
    by (simp add: parse_f64_def scale_def)
  then show ?thesis by (intro exI [of _ "n * 2 ^ k"] exI [of _ "- int k"]) simp
qed

end
