(* ===== verification/Go_Json.thy ===== *)
theory Go_Json
  imports Go_Float "HOL-Library.AList" "HOL-Library.Multiset"
begin

section \<open>JSON documents: \<open>json.Unmarshal\<close> and \<open>fmt.Sprintf("%v")\<close>\<close>

text \<open>
  What \<open>dawToParameters\<close> uses of \<open>encoding/json\<close> and \<open>fmt\<close>: decoding a document into a
  \<open>map[string]any\<close> and printing a decoded value with the verb \<open>%v\<close>.

  A decoded object is a Go map; here it is an association list with distinct keys whose order is the
  order in which the one \<open>range\<close> over it will visit the entries. Go leaves that order open, so the
  decoder takes it as an argument \<open>\<pi>\<close>, any rearrangement of a list of entries.
\<close>

datatype json =
    JNull
  | JBool bool
  | JNum f64
  | JStr string
  | JArr "json list"
  | JObj "(string \<times> json) list"

type_synonym entry_order = "(string \<times> json) list \<Rightarrow> (string \<times> json) list"

definition order_ok :: "entry_order \<Rightarrow> bool" where
  "order_ok \<pi> \<longleftrightarrow> (\<forall>kvs. mset (\<pi> kvs) = mset kvs)"

subsection \<open>UTF-8\<close>

definition cont :: "byte \<Rightarrow> bool" where
  "cont b \<longleftrightarrow> 128 \<le> byte_val b \<and> byte_val b \<le> 191"

definition within :: "nat \<Rightarrow> nat \<Rightarrow> byte \<Rightarrow> bool" where
  "within lo hi b \<longleftrightarrow> lo \<le> byte_val b \<and> byte_val b \<le> hi"

text \<open>
  The length of the well-formed UTF-8 sequence a string starts with, \<open>0\<close> if it starts with none
  (\<open>utf8.DecodeRune\<close> then returns \<open>RuneError\<close> and size 1).
\<close>

definition utf8_len :: "byte list \<Rightarrow> nat" where
  "utf8_len s =
     (case s of
        [] \<Rightarrow> 0
      | [a] \<Rightarrow> (if byte_val a < 128 then 1 else 0)
      | a # b # t \<Rightarrow>
          if byte_val a < 128 then 1
          else if within 194 223 a \<and> cont b then 2
          else case t of
            [] \<Rightarrow> 0
          | c # u \<Rightarrow>
              if cont c \<and> (byte_val a = 224 \<and> within 160 191 b \<or>
                           (within 225 236 a \<or> within 238 239 a) \<and> cont b \<or>
                           byte_val a = 237 \<and> within 128 159 b) then 3
              else case u of
                [] \<Rightarrow> 0
              | d # _ \<Rightarrow>
                  if cont c \<and> cont d \<and> (byte_val a = 240 \<and> within 144 191 b \<or>
                                       within 241 243 a \<and> cont b \<or>
                                       byte_val a = 244 \<and> within 128 143 b) then 4
                  else 0)"

definition replacement :: "byte list" where
  "replacement = [byte_of 239, byte_of 191, byte_of 189]"

definition encode_rune :: "nat \<Rightarrow> byte list" where
  "encode_rune r =
     (if r < 128 then [byte_of r]
      else if r < 2048 then [byte_of (192 + r div 64), byte_of (128 + r mod 64)]
      else if r < 65536
      then [byte_of (224 + r div 4096), byte_of (128 + r div 64 mod 64), byte_of (128 + r mod 64)]
      else [byte_of (240 + r div 262144), byte_of (128 + r div 4096 mod 64),
            byte_of (128 + r div 64 mod 64), byte_of (128 + r mod 64)])"

subsection \<open>Tokens\<close>

definition is_space :: "byte \<Rightarrow> bool" where
  "is_space b \<longleftrightarrow> byte_val b \<in> {32, 9, 13, 10}"

definition skip_space :: "byte list \<Rightarrow> byte list" where
  "skip_space = dropWhile is_space"

definition hex_val :: "byte \<Rightarrow> nat option" where
  "hex_val b =
     (let n = byte_val b in
      if 48 \<le> n \<and> n \<le> 57 then Some (n - 48)
      else if 97 \<le> n \<and> n \<le> 102 then Some (n - 87)
      else if 65 \<le> n \<and> n \<le> 70 then Some (n - 55)
      else None)"

fun hex4 :: "byte list \<Rightarrow> (nat \<times> byte list) option" where
  "hex4 (a # b # c # d # rest) =
     (case (hex_val a, hex_val b, hex_val c, hex_val d) of
        (Some w, Some x, Some y, Some z) \<Rightarrow> Some (4096 * w + 256 * x + 16 * y + z, rest)
      | _ \<Rightarrow> None)"
| "hex4 _ = None"

text \<open>
  A \<open>\\uXXXX\<close> escape after its \<open>u\<close>: a pair of surrogates is one rune, a lone surrogate becomes the
  replacement character (and only the first escape is consumed).
\<close>

definition unicode_escape :: "byte list \<Rightarrow> (byte list \<times> byte list) option" where
  "unicode_escape s =
     (case hex4 s of
        None \<Rightarrow> None
      | Some (r, rest) \<Rightarrow>
          if 55296 \<le> r \<and> r < 57344
          then (case rest of
                  a # b # t \<Rightarrow>
                    (if byte_val a = 92 \<and> byte_val b = 117
                     then (case hex4 t of
                             Some (r2, rest2) \<Rightarrow>
                               if r < 56320 \<and> 56320 \<le> r2 \<and> r2 < 57344
                               then Some (encode_rune (65536 + (r - 55296) * 1024 + (r2 - 56320)), rest2)
                               else Some (replacement, rest)
                           | None \<Rightarrow> Some (replacement, rest))
                     else Some (replacement, rest))
                | _ \<Rightarrow> Some (replacement, rest))
          else Some (encode_rune r, rest))"

definition simple_escape :: "byte \<Rightarrow> byte option" where
  "simple_escape b =
     map_of [(34, byte_of 34), (92, byte_of 92), (47, byte_of 47), (98, byte_of 8),
             (102, byte_of 12), (110, byte_of 10), (114, byte_of 13), (116, byte_of 9)] (byte_val b)"

text \<open>The content of a string literal after its opening quote; the fuel is the input's length.\<close>

fun scan_string :: "nat \<Rightarrow> byte list \<Rightarrow> (string \<times> byte list) option" where
  "scan_string 0 s = None"
| "scan_string (Suc n) [] = None"
| "scan_string (Suc n) (b # bs) =
     (if byte_val b = 34 then Some ([], bs)
      else if byte_val b < 32 then None
      else if byte_val b = 92
      then (case bs of
              [] \<Rightarrow> None
            | c # cs \<Rightarrow>
                if byte_val c = 117
                then (case unicode_escape cs of
                        None \<Rightarrow> None
                      | Some (r, rest) \<Rightarrow> map_option (apfst ((@) r)) (scan_string n rest))
                else (case simple_escape c of
                        None \<Rightarrow> None
                      | Some e \<Rightarrow> map_option (apfst ((#) e)) (scan_string n cs)))
      else if byte_val b < 128 then map_option (apfst ((#) b)) (scan_string n bs)
      else (let k = utf8_len (b # bs) in
            if k = 0 then map_option (apfst ((@) replacement)) (scan_string n bs)
            else map_option (apfst ((@) (take k (b # bs)))) (scan_string n (drop k (b # bs)))))"

definition digit_run :: "byte list \<Rightarrow> byte list \<times> byte list" where
  "digit_run s = (takeWhile is_digit s, dropWhile is_digit s)"

definition decimal :: "byte list \<Rightarrow> int" where
  "decimal ds = foldl (\<lambda>acc b. 10 * acc + int (byte_val b - 48)) 0 ds"

text \<open>
  A number: sign, integer part without superfluous zeros, fraction, exponent. The result is the
  sign, the digits as one integer and the decimal exponent.
\<close>

definition scan_exponent :: "byte list \<Rightarrow> (int \<times> byte list) option" where
  "scan_exponent s =
     (case s of
        [] \<Rightarrow> Some (0, [])
      | b # bs \<Rightarrow>
          if byte_val b \<in> {101, 69}
          then (let neg = (bs \<noteq> [] \<and> byte_val (hd bs) = 45);
                    t = (if bs \<noteq> [] \<and> byte_val (hd bs) \<in> {43, 45} then tl bs else bs);
                    (ds, rest) = digit_run t
                in if ds = [] then None else Some ((if neg then - decimal ds else decimal ds), rest))
          else Some (0, s))"

definition scan_number :: "byte list \<Rightarrow> ((bool \<times> int \<times> int) \<times> byte list) option" where
  "scan_number s =
     (let neg = (s \<noteq> [] \<and> byte_val (hd s) = 45);
          (ip, r1) = digit_run (if neg then tl s else s);
          (fp, r2) = (if r1 \<noteq> [] \<and> byte_val (hd r1) = 46 then digit_run (tl r1) else ([], r1))
      in if ip = [] \<or> (byte_val (hd ip) = 48 \<and> 1 < length ip)
            \<or> (r1 \<noteq> [] \<and> byte_val (hd r1) = 46 \<and> fp = [])
         then None
         else map_option (\<lambda>(x, rest). ((neg, decimal (ip @ fp), x - int (length fp)), rest))
                (scan_exponent r2))"

definition literal :: "string \<Rightarrow> byte list \<Rightarrow> byte list option" where
  "literal w s = (if take (length w) s = w then Some (drop (length w) s) else None)"

subsection \<open>The decoder\<close>

text \<open>A repeated key keeps its last value.\<close>

definition put_entry :: "string \<Rightarrow> json \<Rightarrow> (string \<times> json) list \<Rightarrow> (string \<times> json) list" where
  "put_entry k v kvs = AList.update k v kvs"

text \<open>
  Recursive descent. The first argument is fuel (two units per byte suffice), the second the
  nesting depth, which \<open>encoding/json\<close> bounds by 10000. \<open>None\<close> is a decoding error: a syntax error
  or a number no float64 holds.
\<close>

fun parse_value :: "nat \<Rightarrow> nat \<Rightarrow> entry_order \<Rightarrow> byte list \<Rightarrow> (json \<times> byte list) option"
  and parse_elems :: "nat \<Rightarrow> nat \<Rightarrow> entry_order \<Rightarrow> byte list \<Rightarrow> (json list \<times> byte list) option"
  and parse_members ::
    "nat \<Rightarrow> nat \<Rightarrow> entry_order \<Rightarrow> (string \<times> json) list \<Rightarrow> byte list
     \<Rightarrow> ((string \<times> json) list \<times> byte list) option" where
  "parse_value 0 d \<pi> s = None"
| "parse_value (Suc n) d \<pi> s =
     (case skip_space s of
        [] \<Rightarrow> None
      | b # bs \<Rightarrow>
          let c = byte_val b in
          if c = 123 then
            (if 10000 \<le> d then None
             else case skip_space bs of
               [] \<Rightarrow> None
             | q # qs \<Rightarrow>
                 if byte_val q = 125 then Some (JObj [], qs)
                 else map_option (apfst (\<lambda>kvs. JObj (\<pi> kvs))) (parse_members n (Suc d) \<pi> [] (q # qs)))
          else if c = 91 then
            (if 10000 \<le> d then None
             else case skip_space bs of
               [] \<Rightarrow> None
             | q # qs \<Rightarrow>
                 if byte_val q = 93 then Some (JArr [], qs)
                 else map_option (apfst JArr) (parse_elems n (Suc d) \<pi> (q # qs)))
          else if c = 34 then map_option (apfst JStr) (scan_string (length bs) bs)
          else if c = 116 then map_option (Pair (JBool True)) (literal ''true'' (b # bs))
          else if c = 102 then map_option (Pair (JBool False)) (literal ''false'' (b # bs))
          else if c = 110 then map_option (Pair JNull) (literal ''null'' (b # bs))
          else (case scan_number (b # bs) of
                  None \<Rightarrow> None
                | Some ((neg, ds, x), rest) \<Rightarrow>
                    map_option (\<lambda>f. (JNum f, rest)) (parse_f64 neg ds x)))"
| "parse_elems 0 d \<pi> s = None"
| "parse_elems (Suc n) d \<pi> s =
     (case parse_value n d \<pi> s of
        None \<Rightarrow> None
      | Some (v, rest) \<Rightarrow>
          (case skip_space rest of
             [] \<Rightarrow> None
           | b # bs \<Rightarrow>
               if byte_val b = 93 then Some ([v], bs)
               else if byte_val b = 44
               then map_option (apfst ((#) v)) (parse_elems n d \<pi> bs)
               else None))"
| "parse_members 0 d \<pi> acc s = None"
| "parse_members (Suc n) d \<pi> acc s =
     (case skip_space s of
        [] \<Rightarrow> None
      | b # bs \<Rightarrow>
          if byte_val b \<noteq> 34 then None
          else case scan_string (length bs) bs of
            None \<Rightarrow> None
          | Some (k, r1) \<Rightarrow>
              (case skip_space r1 of
                 [] \<Rightarrow> None
               | c # cs \<Rightarrow>
                   if byte_val c \<noteq> 58 then None
                   else case parse_value n d \<pi> cs of
                     None \<Rightarrow> None
                   | Some (v, r2) \<Rightarrow>
                       (case skip_space r2 of
                          [] \<Rightarrow> None
                        | e # es \<Rightarrow>
                            if byte_val e = 125 then Some (put_entry k v acc, es)
                            else if byte_val e = 44
                            then parse_members n d \<pi> (put_entry k v acc) es
                            else None)))"

text \<open>
  \<open>json.Unmarshal(raw, &spec)\<close> for a \<open>map[string]any\<close>: the whole input is one value; \<open>null\<close> leaves
  an empty (nil) map; a value that is not an object is an \<open>UnmarshalTypeError\<close>.
\<close>

definition Unmarshal :: "entry_order \<Rightarrow> byte list \<Rightarrow> go_error + (string \<times> json) list" where
  "Unmarshal \<pi> s =
     (case parse_value (2 * length s + 2) 0 \<pi> s of
        None \<Rightarrow> Inl (JsonError ''json'')
      | Some (v, rest) \<Rightarrow>
          if skip_space rest \<noteq> [] then Inl (JsonError ''json'')
          else (case v of
                  JObj kvs \<Rightarrow> Inr kvs
                | JNull \<Rightarrow> Inr []
                | _ \<Rightarrow> Inl (JsonError ''json: cannot unmarshal into Go value of type map[string]interface {}'')))"

subsection \<open>The verb \<open>%v\<close>\<close>

fun join :: "string \<Rightarrow> string list \<Rightarrow> string" where
  "join sep [] = []"
| "join sep [x] = x"
| "join sep (x # y # ys) = x @ sep @ join sep (y # ys)"

text \<open>Maps print with their keys in byte order.\<close>

fun fmt_v :: "json \<Rightarrow> string" where
  "fmt_v JNull = ''<nil>''"
| "fmt_v (JBool b) = (if b then ''true'' else ''false'')"
| "fmt_v (JNum f) = format_f64 f"
| "fmt_v (JStr s) = s"
| "fmt_v (JArr vs) = ''['' @ join '' '' (map fmt_v vs) @ '']''"
| "fmt_v (JObj kvs) =
     ''map['' @
     join '' '' (map (\<lambda>(k, t). k @ '':'' @ t)
       (sort_key (\<lambda>p. map byte_val (fst p)) (map (\<lambda>(k, v). (k, fmt_v v)) kvs))) @ '']''"

end
