(* ===== verification/Parameters.thy ===== *)
theory Parameters
  imports Api_Types Go_Json
begin

section \<open>Workflow parameters (\<^verbatim>\<open>pkg/controller/order_controller.go\<close>)\<close>

text \<open>
  How the order controller turns an artifact's endpoints and its JSON spec into the name/value
  parameters of an artifact workflow: \<open>paramName\<close>, \<open>flattenMap\<close>, \<open>dawToParameters\<close>. Slicing an empty
  key with \<open>k[:1]\<close> panics in Go; the functions then return \<open>Panic\<close>.

  \<open>flat_entries\<close> is the reference definition: the list of all assignments \<open>flattenMap\<close> makes to its
  destination, in order. The lemmas show that \<open>flattenMap\<close> performs exactly these, when it panics,
  where the names come from and when the order of the ranges cannot matter.
\<close>

definition slice_panic :: failure where
  "slice_panic = Panic ''runtime error: slice bounds out of range [:1] with length 0''"

definition paramName :: "string \<Rightarrow> string \<Rightarrow> string res" where
  "paramName pre suf =
     (case capitalize suf of None \<Rightarrow> Inl slice_panic | Some s \<Rightarrow> Inr (pre @ s))"

text \<open>The inner loop over a JSON array: \<open>dst[prefix+kt+strconv.Itoa(i)] = av\<close>.\<close>

fun put_elems :: "string \<Rightarrow> int \<Rightarrow> json list \<Rightarrow> (string, json) fmap \<Rightarrow> (string, json) fmap" where
  "put_elems name i [] dst = dst"
| "put_elems name i (v # vs) dst = put_elems name (i + 1) vs (fmupd (name @ itoa i) v dst)"

function flattenMap ::
  "string \<Rightarrow> (string \<times> json) list \<Rightarrow> (string, json) fmap \<Rightarrow> (string, json) fmap res" where
  "flattenMap pre [] dst = Inr dst"
| "flattenMap pre ((k, v) # src) dst =
     (case capitalize k of
        None \<Rightarrow> Inl slice_panic
      | Some kt \<Rightarrow>
          (case v of
             JObj child \<Rightarrow>
               bind_res (flattenMap (pre @ k) child dst) (\<lambda>dst'. flattenMap pre src dst')
           | JArr elems \<Rightarrow> flattenMap pre src (put_elems (pre @ kt) 0 elems dst)
           | _ \<Rightarrow> flattenMap pre src (fmupd (pre @ kt) v dst)))"
  by pat_completeness auto
termination
  by (relation "measure (\<lambda>(p, src, d). size_list (size_prod (\<lambda>_. 0) size) src)") auto

text \<open>What the desired state of one artifact workflow is computed from.\<close>

record desiredAW =
  daw_index :: int
  daw_objectMeta :: ObjectMeta
  daw_artifact :: OrderArtifact
  daw_srcEndpoint :: Endpoint
  daw_dstEndpoint :: Endpoint
  daw_srcSecret :: Secret
  daw_dstSecret :: Secret

definition bool_text :: "bool \<Rightarrow> string" where
  "bool_text b = (if b then ''true'' else ''false'')"

definition secretRefName :: "Endpoint \<Rightarrow> string" where
  [api_defs]: "secretRefName ep = Ref_Name (EndpointSpec_SecretRef (Endpoint_Spec ep))"

definition param :: "string \<Rightarrow> string \<Rightarrow> ArtifactWorkflowParameter" where
  "param n v = \<lparr>Parameter_Name = n, Parameter_Value = v\<rparr>"

definition endpointParameters :: "desiredAW \<Rightarrow> ArtifactWorkflowParameter list res" where
  "endpointParameters daw =
     bind_res (paramName ''src'' ''type'') (\<lambda>srcType.
     bind_res (paramName ''src'' ''remoteURL'') (\<lambda>srcURL.
     bind_res (paramName ''dst'' ''type'') (\<lambda>dstType.
     bind_res (paramName ''dst'' ''remoteURL'') (\<lambda>dstURL.
       Inr [param srcType (EndpointSpec_Type (Endpoint_Spec (daw_srcEndpoint daw))),
            param srcURL (EndpointSpec_RemoteURL (Endpoint_Spec (daw_srcEndpoint daw))),
            param dstType (EndpointSpec_Type (Endpoint_Spec (daw_dstEndpoint daw))),
            param dstURL (EndpointSpec_RemoteURL (Endpoint_Spec (daw_dstEndpoint daw))),
            param ''srcSecret'' (bool_text (secretRefName (daw_srcEndpoint daw) \<noteq> [])),
            param ''dstSecret'' (bool_text (secretRefName (daw_dstEndpoint daw) \<noteq> []))]))))"

text \<open>An absent or empty spec is read as the empty object.\<close>

definition raw_document :: "RawExtension \<Rightarrow> byte list" where
  "raw_document r = (case Raw r of None \<Rightarrow> ''{}'' | Some [] \<Rightarrow> ''{}'' | Some bs \<Rightarrow> bs)"

definition dawToParameters ::
  "range_order \<Rightarrow> entry_order \<Rightarrow> desiredAW \<Rightarrow> ArtifactWorkflowParameter list res" where
  "dawToParameters \<rho> \<pi> daw =
     bind_res (endpointParameters daw) (\<lambda>params.
       case Unmarshal \<pi> (raw_document (OrderArtifact_Spec (daw_artifact daw))) of
         Inl e \<Rightarrow> Inl (Err e)
       | Inr spec \<Rightarrow>
           bind_res (flattenMap ''spec'' spec fmempty) (\<lambda>flattened.
             Inr (params @
                  map (\<lambda>name. param name (fmt_v (get_or JNull flattened name)))
                      (\<rho> ''flattened'' (fmdom flattened)))))"

subsection \<open>The reference: all assignments, in order\<close>

fun elem_entries :: "string \<Rightarrow> int \<Rightarrow> json list \<Rightarrow> (string \<times> json) list" where
  "elem_entries name i [] = []"
| "elem_entries name i (v # vs) = (name @ itoa i, v) # elem_entries name (i + 1) vs"

function flat_entries :: "string \<Rightarrow> (string \<times> json) list \<Rightarrow> (string \<times> json) list" where
  "flat_entries pre [] = []"
| "flat_entries pre ((k, v) # src) =
     (case v of
        JObj child \<Rightarrow> flat_entries (pre @ k) child
      | JArr elems \<Rightarrow> elem_entries (pre @ the (capitalize k)) 0 elems
      | _ \<Rightarrow> [(pre @ the (capitalize k), v)]) @ flat_entries pre src"
  by pat_completeness auto
termination
  by (relation "measure (\<lambda>(p, src). size_list (size_prod (\<lambda>_. 0) size) src)") auto

text \<open>No key \<open>flattenMap\<close> reaches is empty.\<close>

function keys_nonempty :: "(string \<times> json) list \<Rightarrow> bool" where
  "keys_nonempty [] = True"
| "keys_nonempty ((k, v) # src) =
     (k \<noteq> [] \<and> (case v of JObj child \<Rightarrow> keys_nonempty child | _ \<Rightarrow> True) \<and> keys_nonempty src)"
  by pat_completeness auto
termination
  by (relation "measure (size_list (size_prod (\<lambda>_. 0) size))") auto

definition put_all :: "(string \<times> json) list \<Rightarrow> (string, json) fmap \<Rightarrow> (string, json) fmap" where
  "put_all es dst = fold (\<lambda>(k, v). fmupd k v) es dst"

lemma put_all_simps [simp]:
  "put_all [] dst = dst" "put_all ((k, v) # es) dst = put_all es (fmupd k v dst)"
  "put_all (es @ fs) dst = put_all fs (put_all es dst)"
  by (simp_all add: put_all_def)

lemma put_elems_entries: "put_elems name i vs dst = put_all (elem_entries name i vs) dst"
  by (induction vs arbitrary: i dst) simp_all

lemma capitalize_None [simp]: "capitalize k = None \<longleftrightarrow> k = []"
  by (cases k) simp_all

lemma flattenMap_entries:
  "flattenMap pre src dst =
     (if keys_nonempty src then Inr (put_all (flat_entries pre src) dst) else Inl slice_panic)"
proof (induction pre src dst rule: flattenMap.induct)
  case (2 pre k v src dst)
  show ?case
  proof (cases "capitalize k")
    case (Some kt)
    then have "k \<noteq> []" by auto
    with 2 Some show ?thesis
      by (cases v) (simp_all add: put_elems_entries)
  qed simp
qed simp

subsection \<open>Names\<close>

lemma elem_entries_names: "(n, v) \<in> set (elem_entries name i vs) \<Longrightarrow> prefix name n"
  by (induction vs arbitrary: i) auto

lemma flat_entries_names: "(n, v) \<in> set (flat_entries pre src) \<Longrightarrow> prefix pre n"
proof (induction pre src rule: flat_entries.induct)
  case (2 pre k w src)
  then show ?case
    by (cases w) (auto dest: append_prefixD elem_entries_names)
qed simp

lemma put_all_lookup:
  "fmlookup (put_all es dst) k = (case map_of (rev es) k of None \<Rightarrow> fmlookup dst k | Some v \<Rightarrow> Some v)"
  by (induction es arbitrary: dst) (auto simp: map_add_def split: option.splits)

lemma put_all_dom: "fset (fmdom (put_all es dst)) = fset (fmdom dst) \<union> fst ` set es"
proof (induction es arbitrary: dst)
  case (Cons e es)
  then show ?case by (cases e) simp
qed simp

lemma paramName_const [simp]:
  "paramName ''src'' ''type'' = Inr ''srcType''"
  "paramName ''src'' ''remoteURL'' = Inr ''srcRemoteURL''"
  "paramName ''dst'' ''type'' = Inr ''dstType''"
  "paramName ''dst'' ''remoteURL'' = Inr ''dstRemoteURL''"
  by code_simp+

lemma endpointParameters_eq:
  "endpointParameters daw =
     Inr [param ''srcType'' (EndpointSpec_Type (Endpoint_Spec (daw_srcEndpoint daw))),
          param ''srcRemoteURL'' (EndpointSpec_RemoteURL (Endpoint_Spec (daw_srcEndpoint daw))),
          param ''dstType'' (EndpointSpec_Type (Endpoint_Spec (daw_dstEndpoint daw))),
          param ''dstRemoteURL'' (EndpointSpec_RemoteURL (Endpoint_Spec (daw_dstEndpoint daw))),
          param ''srcSecret'' (bool_text (secretRefName (daw_srcEndpoint daw) \<noteq> [])),
          param ''dstSecret'' (bool_text (secretRefName (daw_dstEndpoint daw) \<noteq> []))]"
  by (simp add: endpointParameters_def)

text \<open>The parameters of the spec alone, after the six of the endpoints.\<close>

definition specParameters :: "range_order \<Rightarrow> (string \<times> json) list \<Rightarrow> ArtifactWorkflowParameter list" where
  "specParameters \<rho> spec =
     map (\<lambda>name. param name (fmt_v (get_or JNull (put_all (flat_entries ''spec'' spec) fmempty) name)))
       (\<rho> ''flattened'' (fmdom (put_all (flat_entries ''spec'' spec) fmempty)))"

lemma dawToParameters_Inr:
  "dawToParameters \<rho> \<pi> daw = Inr ps \<longleftrightarrow>
     (\<exists>spec fixed. endpointParameters daw = Inr fixed \<and>
        Unmarshal \<pi> (raw_document (OrderArtifact_Spec (daw_artifact daw))) = Inr spec \<and>
        keys_nonempty spec \<and> ps = fixed @ specParameters \<rho> spec)"
  by (auto simp: dawToParameters_def endpointParameters_eq bind_res_Inr flattenMap_entries
      specParameters_def split: sum.splits)

lemma specParameters_names:
  assumes "range_ok \<rho>"
  shows "distinct (map Parameter_Name (specParameters \<rho> spec))"
    and "p \<in> set (specParameters \<rho> spec) \<Longrightarrow> prefix ''spec'' (Parameter_Name p)"
  using assms
  by (auto simp: specParameters_def param_def comp_def put_all_dom dest: flat_entries_names)

lemma specParameters_values:
  assumes "range_ok \<rho>"
  shows "param n v \<in> set (specParameters \<rho> spec) \<longleftrightarrow>
    (\<exists>x. map_of (rev (flat_entries ''spec'' spec)) n = Some x \<and> v = fmt_v x)"
proof -
  have "n \<in> fst ` set (flat_entries ''spec'' spec) \<longleftrightarrow> map_of (rev (flat_entries ''spec'' spec)) n \<noteq> None"
    by (simp add: map_of_eq_None_iff)
  with assms show ?thesis
    by (auto simp: specParameters_def param_def put_all_dom get_or_def put_all_lookup
        split: option.splits)
qed

end
