(* ===== verification/Client.thy ===== *)
theory Client
  imports Api_Types Errors
begin

section \<open>The API client\<close>

text \<open>
  The controllers reach the cluster through controller-runtime's \<open>client.Client\<close>, which is not part
  of the repository. It is a parameter of the model: a record with one operation per kind of request
  the controllers make, over a type \<open>'w\<close> of worlds that nothing is assumed about. An operation takes
  the world as it finds it, answers, and leaves a new world; what other actors do to the cluster
  between two requests is part of that new world.

  \<open>recording c\<close> is the client \<open>c\<close> with a log of all requests. Statements about what a controller asks
  for (in every world, whatever the answers are) are statements about that log; the locale
  \<open>request_invariant\<close> is the interface they are proved through.
\<close>

type_synonym NamespacedName = "string \<times> string"

record ListOptions =
  ListOptions_FieldSelector :: "(string, string) fmap"
  ListOptions_Namespace :: string

record 'w Client =
  GetOrder :: "NamespacedName \<Rightarrow> 'w \<Rightarrow> (api_error + Order) \<times> 'w"
  GetEndpoint :: "NamespacedName \<Rightarrow> 'w \<Rightarrow> (api_error + Endpoint) \<times> 'w"
  GetSecret :: "NamespacedName \<Rightarrow> 'w \<Rightarrow> (api_error + Secret) \<times> 'w"
  GetArtifactType :: "NamespacedName \<Rightarrow> 'w \<Rightarrow> (api_error + ArtifactType) \<times> 'w"
  GetArtifactWorkflow :: "NamespacedName \<Rightarrow> 'w \<Rightarrow> (api_error + ArtifactWorkflow) \<times> 'w"
  GetWorkflow :: "NamespacedName \<Rightarrow> 'w \<Rightarrow> (api_error + Workflow) \<times> 'w"
  ListOrders :: "ListOptions \<Rightarrow> 'w \<Rightarrow> (api_error + Order list) \<times> 'w"
  CreateArtifactWorkflow :: "ArtifactWorkflow \<Rightarrow> 'w \<Rightarrow> api_error option \<times> 'w"
  CreateWorkflow :: "Workflow \<Rightarrow> 'w \<Rightarrow> api_error option \<times> 'w"
  DeleteArtifactWorkflow :: "ObjectMeta \<Rightarrow> 'w \<Rightarrow> api_error option \<times> 'w"
  DeleteWorkflow :: "ObjectMeta \<Rightarrow> 'w \<Rightarrow> api_error option \<times> 'w"
  UpdateOrder :: "Order \<Rightarrow> 'w \<Rightarrow> api_error option \<times> 'w"
  UpdateArtifactWorkflow :: "ArtifactWorkflow \<Rightarrow> 'w \<Rightarrow> api_error option \<times> 'w"
  UpdateOrderStatus :: "Order \<Rightarrow> 'w \<Rightarrow> api_error option \<times> 'w"
  UpdateArtifactWorkflowStatus :: "ArtifactWorkflow \<Rightarrow> 'w \<Rightarrow> api_error option \<times> 'w"

text \<open>\<open>ctrl.Result\<close>; the repository only sets \<open>Requeue\<close>.\<close>

record Result =
  Requeue :: bool

definition done_result :: Result where
  [api_defs]: "done_result = \<lparr>Requeue = False\<rparr>"

subsection \<open>Requests and their log\<close>

datatype request =
    ReqGetOrder NamespacedName
  | ReqGetEndpoint NamespacedName
  | ReqGetSecret NamespacedName
  | ReqGetArtifactType NamespacedName
  | ReqGetArtifactWorkflow NamespacedName
  | ReqGetWorkflow NamespacedName
  | ReqListOrders ListOptions
  | ReqCreateArtifactWorkflow ArtifactWorkflow
  | ReqCreateWorkflow Workflow
  | ReqDeleteArtifactWorkflow ObjectMeta
  | ReqDeleteWorkflow ObjectMeta
  | ReqUpdateOrder Order
  | ReqUpdateArtifactWorkflow ArtifactWorkflow
  | ReqUpdateOrderStatus Order
  | ReqUpdateArtifactWorkflowStatus ArtifactWorkflow

fun is_write :: "request \<Rightarrow> bool" where
  "is_write (ReqCreateArtifactWorkflow aw) = True"
| "is_write (ReqCreateWorkflow wfl) = True"
| "is_write (ReqDeleteArtifactWorkflow m) = True"
| "is_write (ReqDeleteWorkflow m) = True"
| "is_write (ReqUpdateOrder order) = True"
| "is_write (ReqUpdateArtifactWorkflow aw) = True"
| "is_write (ReqUpdateOrderStatus order) = True"
| "is_write (ReqUpdateArtifactWorkflowStatus aw) = True"
| "is_write r = False"

definition logged :: "('a \<Rightarrow> request) \<Rightarrow> ('a \<Rightarrow> 'w \<Rightarrow> 'r \<times> 'w) \<Rightarrow>
    'a \<Rightarrow> 'w \<times> request list \<Rightarrow> 'r \<times> 'w \<times> request list" where
  "logged req f x s = (fst (f x (fst s)), snd (f x (fst s)), snd s @ [req x])"

definition recording :: "'w Client \<Rightarrow> ('w \<times> request list) Client" where
  "recording c =
     \<lparr>GetOrder = logged ReqGetOrder (GetOrder c),
      GetEndpoint = logged ReqGetEndpoint (GetEndpoint c),
      GetSecret = logged ReqGetSecret (GetSecret c),
      GetArtifactType = logged ReqGetArtifactType (GetArtifactType c),
      GetArtifactWorkflow = logged ReqGetArtifactWorkflow (GetArtifactWorkflow c),
      GetWorkflow = logged ReqGetWorkflow (GetWorkflow c),
      ListOrders = logged ReqListOrders (ListOrders c),
      CreateArtifactWorkflow = logged ReqCreateArtifactWorkflow (CreateArtifactWorkflow c),
      CreateWorkflow = logged ReqCreateWorkflow (CreateWorkflow c),
      DeleteArtifactWorkflow = logged ReqDeleteArtifactWorkflow (DeleteArtifactWorkflow c),
      DeleteWorkflow = logged ReqDeleteWorkflow (DeleteWorkflow c),
      UpdateOrder = logged ReqUpdateOrder (UpdateOrder c),
      UpdateArtifactWorkflow = logged ReqUpdateArtifactWorkflow (UpdateArtifactWorkflow c),
      UpdateOrderStatus = logged ReqUpdateOrderStatus (UpdateOrderStatus c),
      UpdateArtifactWorkflowStatus = logged ReqUpdateArtifactWorkflowStatus (UpdateArtifactWorkflowStatus c)\<rparr>"

lemma logged_eq [simp]:
  "logged req f x (w, t) = (fst (f x w), snd (f x w), t @ [req x])"
  by (simp add: logged_def)

lemma recording_ops [client_simps]:
  "GetOrder (recording c) = logged ReqGetOrder (GetOrder c)"
  "GetEndpoint (recording c) = logged ReqGetEndpoint (GetEndpoint c)"
  "GetSecret (recording c) = logged ReqGetSecret (GetSecret c)"
  "GetArtifactType (recording c) = logged ReqGetArtifactType (GetArtifactType c)"
  "GetArtifactWorkflow (recording c) = logged ReqGetArtifactWorkflow (GetArtifactWorkflow c)"
  "GetWorkflow (recording c) = logged ReqGetWorkflow (GetWorkflow c)"
  "ListOrders (recording c) = logged ReqListOrders (ListOrders c)"
  "CreateArtifactWorkflow (recording c) = logged ReqCreateArtifactWorkflow (CreateArtifactWorkflow c)"
  "CreateWorkflow (recording c) = logged ReqCreateWorkflow (CreateWorkflow c)"
  "DeleteArtifactWorkflow (recording c) = logged ReqDeleteArtifactWorkflow (DeleteArtifactWorkflow c)"
  "DeleteWorkflow (recording c) = logged ReqDeleteWorkflow (DeleteWorkflow c)"
  "UpdateOrder (recording c) = logged ReqUpdateOrder (UpdateOrder c)"
  "UpdateArtifactWorkflow (recording c) = logged ReqUpdateArtifactWorkflow (UpdateArtifactWorkflow c)"
  "UpdateOrderStatus (recording c) = logged ReqUpdateOrderStatus (UpdateOrderStatus c)"
  "UpdateArtifactWorkflowStatus (recording c) =
     logged ReqUpdateArtifactWorkflowStatus (UpdateArtifactWorkflowStatus c)"
  by (simp_all add: recording_def)

subsection \<open>Invariants kept by permitted requests\<close>

text \<open>
  A client, a property \<open>I\<close> of worlds and a set \<open>P\<close> of requests such that every request in \<open>P\<close> keeps
  \<open>I\<close>. The controllers' theories prove, inside this locale, that their operations keep \<open>I\<close> if all
  requests they can make are in \<open>P\<close>.
\<close>

locale request_invariant =
  fixes c :: "'w Client" and I :: "'w \<Rightarrow> bool" and P :: "request \<Rightarrow> bool"
  assumes keep_GetOrder: "P (ReqGetOrder n) \<Longrightarrow> I w \<Longrightarrow> I (snd (GetOrder c n w))"
    and keep_GetEndpoint: "P (ReqGetEndpoint n) \<Longrightarrow> I w \<Longrightarrow> I (snd (GetEndpoint c n w))"
    and keep_GetSecret: "P (ReqGetSecret n) \<Longrightarrow> I w \<Longrightarrow> I (snd (GetSecret c n w))"
    and keep_GetArtifactType: "P (ReqGetArtifactType n) \<Longrightarrow> I w \<Longrightarrow> I (snd (GetArtifactType c n w))"
    and keep_GetArtifactWorkflow:
      "P (ReqGetArtifactWorkflow n) \<Longrightarrow> I w \<Longrightarrow> I (snd (GetArtifactWorkflow c n w))"
    and keep_GetWorkflow: "P (ReqGetWorkflow n) \<Longrightarrow> I w \<Longrightarrow> I (snd (GetWorkflow c n w))"
    and keep_ListOrders: "P (ReqListOrders o1) \<Longrightarrow> I w \<Longrightarrow> I (snd (ListOrders c o1 w))"
    and keep_CreateArtifactWorkflow:
      "P (ReqCreateArtifactWorkflow aw) \<Longrightarrow> I w \<Longrightarrow> I (snd (CreateArtifactWorkflow c aw w))"
    and keep_CreateWorkflow: "P (ReqCreateWorkflow wfl) \<Longrightarrow> I w \<Longrightarrow> I (snd (CreateWorkflow c wfl w))"
    and keep_DeleteArtifactWorkflow:
      "P (ReqDeleteArtifactWorkflow m) \<Longrightarrow> I w \<Longrightarrow> I (snd (DeleteArtifactWorkflow c m w))"
    and keep_DeleteWorkflow: "P (ReqDeleteWorkflow m) \<Longrightarrow> I w \<Longrightarrow> I (snd (DeleteWorkflow c m w))"
    and keep_UpdateOrder: "P (ReqUpdateOrder order) \<Longrightarrow> I w \<Longrightarrow> I (snd (UpdateOrder c order w))"
    and keep_UpdateArtifactWorkflow:
      "P (ReqUpdateArtifactWorkflow aw) \<Longrightarrow> I w \<Longrightarrow> I (snd (UpdateArtifactWorkflow c aw w))"
    and keep_UpdateOrderStatus:
      "P (ReqUpdateOrderStatus order) \<Longrightarrow> I w \<Longrightarrow> I (snd (UpdateOrderStatus c order w))"
    and keep_UpdateArtifactWorkflowStatus:
      "P (ReqUpdateArtifactWorkflowStatus aw) \<Longrightarrow> I w \<Longrightarrow> I (snd (UpdateArtifactWorkflowStatus c aw w))"
begin

lemmas keeps = keep_GetOrder keep_GetEndpoint keep_GetSecret keep_GetArtifactType
  keep_GetArtifactWorkflow keep_GetWorkflow keep_ListOrders keep_CreateArtifactWorkflow
  keep_CreateWorkflow keep_DeleteArtifactWorkflow keep_DeleteWorkflow keep_UpdateOrder
  keep_UpdateArtifactWorkflow keep_UpdateOrderStatus keep_UpdateArtifactWorkflowStatus

end

text \<open>The log grew, by requests in \<open>P\<close> only.\<close>

definition log_within :: "(request \<Rightarrow> bool) \<Rightarrow> request list \<Rightarrow> 'w \<times> request list \<Rightarrow> bool" where
  "log_within P t s \<longleftrightarrow> (\<exists>ts. snd s = t @ ts \<and> (\<forall>r \<in> set ts. P r))"

lemma log_within_start [simp]: "log_within P t (w, t)"
  by (simp add: log_within_def)

lemma log_within_logged: "P (req x) \<Longrightarrow> log_within P t s \<Longrightarrow> log_within P t (snd (logged req f x s))"
  by (auto simp: log_within_def logged_def)

interpretation rec: request_invariant "recording c" "log_within P t" P for c P t
  by unfold_locales (simp_all add: client_simps log_within_logged)

subsection \<open>Sequencing requests\<close>

text \<open>
  A piece of a handler: it reads and changes the world, and ends with a value or a failure that ends
  the handler. \<open>get_io\<close> and \<open>put_io\<close> are a request whose error is wrapped with a text and returned.
\<close>

type_synonym ('w, 'a) io = "'w \<Rightarrow> 'a res \<times> 'w"

definition return_io :: "'a \<Rightarrow> ('w, 'a) io" where
  "return_io x w = (Inr x, w)"

definition fail_io :: "failure \<Rightarrow> ('w, 'a) io" where
  "fail_io e w = (Inl e, w)"

definition bind_io :: "('w, 'a) io \<Rightarrow> ('a \<Rightarrow> ('w, 'b) io) \<Rightarrow> ('w, 'b) io" where
  "bind_io m f w = (case m w of (Inl e, w1) \<Rightarrow> (Inl e, w1) | (Inr x, w1) \<Rightarrow> f x w1)"

definition get_io :: "string \<Rightarrow> ('w \<Rightarrow> (api_error + 'a) \<times> 'w) \<Rightarrow> ('w, 'a) io" where
  "get_io text op w =
     (case op w of (Inl e, w1) \<Rightarrow> (Inl (wrapApi e text), w1) | (Inr x, w1) \<Rightarrow> (Inr x, w1))"

definition put_io :: "string \<Rightarrow> ('w \<Rightarrow> api_error option \<times> 'w) \<Rightarrow> ('w, unit) io" where
  "put_io text op w =
     (case op w of (Some e, w1) \<Rightarrow> (Inl (wrapApi e text), w1) | (None, w1) \<Rightarrow> (Inr (), w1))"

text \<open>
  Both controllers fetch a secret only if the reference names one, and use the zero \<open>Secret\<close>
  otherwise.
\<close>

definition fetchSecret ::
  "'w Client \<Rightarrow> string \<Rightarrow> string \<Rightarrow> string \<Rightarrow> ('w, Secret) io" where
  "fetchSecret c ns name text =
     (if name = [] then return_io zero_Secret else get_io text (GetSecret c (ns, name)))"

lemma io_simps [simp]:
  "return_io x w = (Inr x, w)" "fail_io e w = (Inl e, w)"
  by (simp_all add: return_io_def fail_io_def)

lemma bind_io_return [simp]:
  "bind_io (return_io x) f = f x" "bind_io (fail_io e) f = fail_io e"
  by (rule ext, simp add: bind_io_def)+

lemma bind_io_Inr:
  "bind_io m f w = (Inr y, w2) \<longleftrightarrow> (\<exists>x w1. m w = (Inr x, w1) \<and> f x w1 = (Inr y, w2))"
  by (auto simp: bind_io_def split: prod.splits sum.splits)

lemma get_io_Inr: "get_io text op w = (Inr x, w1) \<longleftrightarrow> op w = (Inr x, w1)"
  by (auto simp: get_io_def split: prod.splits sum.splits)

lemma put_io_Inr: "put_io text op w = (Inr u, w1) \<longleftrightarrow> op w = (None, w1)"
  by (auto simp: put_io_def split: prod.splits option.splits)

lemmas io_Inr = bind_io_Inr get_io_Inr put_io_Inr

lemma snd_get_io [simp]: "snd (get_io text op w) = snd (op w)"
  by (auto simp: get_io_def split: prod.splits sum.splits)

lemma snd_put_io [simp]: "snd (put_io text op w) = snd (op w)"
  by (auto simp: put_io_def split: prod.splits option.splits)

context request_invariant
begin

lemma keep_bind_io:
  assumes "I (snd (m w))"
    and "\<And>x w1. m w = (Inr x, w1) \<Longrightarrow> I w1 \<Longrightarrow> I (snd (f x w1))"
  shows "I (snd (bind_io m f w))"
  using assms by (cases "m w") (auto simp: bind_io_def split: sum.splits)

lemma keep_fetchSecret:
  assumes "I w" and "name \<noteq> [] \<Longrightarrow> P (ReqGetSecret (ns, name))"
  shows "I (snd (fetchSecret c ns name text w))"
  using assms keep_GetSecret [of "(ns, name)" w] by (simp add: fetchSecret_def)

end

subsection \<open>Two clients that answer alike\<close>

text \<open>
  Two operations on different worlds simulate each other along a relation if related worlds give the
  same answer and related worlds again. A client simulates another one if all its operations do; the
  controllers' theories show in the locale \<open>client_simulation\<close> that a whole reconciliation does then,
  too. The instance that matters is the recording client: writing the log changes nothing else.
\<close>

definition op_sim :: "('w \<Rightarrow> 'v \<Rightarrow> bool) \<Rightarrow> ('w \<Rightarrow> 'a \<times> 'w) \<Rightarrow> ('v \<Rightarrow> 'a \<times> 'v) \<Rightarrow> bool" where
  "op_sim R f g \<longleftrightarrow> (\<forall>w v. R w v \<longrightarrow> fst (f w) = fst (g v) \<and> R (snd (f w)) (snd (g v)))"

lemma op_simI:
  "(\<And>w v. R w v \<Longrightarrow> fst (f w) = fst (g v) \<and> R (snd (f w)) (snd (g v))) \<Longrightarrow> op_sim R f g"
  by (simp add: op_sim_def)

lemma op_simD:
  assumes "op_sim R f g" and "R w v"
  obtains x w1 v1 where "f w = (x, w1)" and "g v = (x, v1)" and "R w1 v1"
  using assms by (metis op_sim_def prod.collapse)

lemma op_sim_return [simp]: "op_sim R (return_io x) (return_io x)" "op_sim R (fail_io e) (fail_io e)"
  by (simp_all add: op_sim_def)

lemma op_sim_pair [simp]: "op_sim R (\<lambda>w. (x, w)) (\<lambda>w. (x, w))"
  by (simp add: op_sim_def)

lemma op_sim_bind [intro!]:
  assumes "op_sim R m n" and "\<And>x. op_sim R (f x) (g x)"
  shows "op_sim R (bind_io m f) (bind_io n g)"
proof (rule op_simI)
  fix w v
  assume "R w v"
  with assms(1) obtain x w1 v1 where 1: "m w = (x, w1)" "n v = (x, v1)" "R w1 v1" by (rule op_simD)
  then show "fst (bind_io m f w) = fst (bind_io n g v) \<and>
      R (snd (bind_io m f w)) (snd (bind_io n g v))"
    using assms(2) by (cases x) (auto simp: bind_io_def op_sim_def)
qed

lemma op_sim_get_io [intro!]: "op_sim R f g \<Longrightarrow> op_sim R (get_io text f) (get_io text g)"
  by (rule op_simI, erule (1) op_simD) (auto simp: get_io_def split: sum.splits)

lemma op_sim_put_io [intro!]: "op_sim R f g \<Longrightarrow> op_sim R (put_io text f) (put_io text g)"
  by (rule op_simI, erule (1) op_simD) (auto simp: put_io_def split: option.splits)

lemma op_sim_then:
  assumes "op_sim R f g" and "\<And>x. op_sim R (h x) (k x)"
  shows "op_sim R (\<lambda>w. case f w of (x, w1) \<Rightarrow> h x w1) (\<lambda>v. case g v of (x, v1) \<Rightarrow> k x v1)"
  using assms by (fastforce simp: op_sim_def split: prod.splits)

lemma op_sim_if:
  "op_sim R f g \<Longrightarrow> op_sim R h k \<Longrightarrow>
   op_sim R (\<lambda>w. if b then f w else h w) (\<lambda>v. if b then g v else k v)"
  by (simp add: op_sim_def)

locale client_simulation =
  fixes c :: "'w Client" and d :: "'v Client" and R :: "'w \<Rightarrow> 'v \<Rightarrow> bool"
  assumes sim_GetOrder: "op_sim R (GetOrder c x_GetOrder) (GetOrder d x_GetOrder)"
    and sim_GetEndpoint: "op_sim R (GetEndpoint c x_GetEndpoint) (GetEndpoint d x_GetEndpoint)"
    and sim_GetSecret: "op_sim R (GetSecret c x_GetSecret) (GetSecret d x_GetSecret)"
    and sim_GetArtifactType: "op_sim R (GetArtifactType c x_GetArtifactType) (GetArtifactType d x_GetArtifactType)"
    and sim_GetArtifactWorkflow: "op_sim R (GetArtifactWorkflow c x_GetArtifactWorkflow) (GetArtifactWorkflow d x_GetArtifactWorkflow)"
    and sim_GetWorkflow: "op_sim R (GetWorkflow c x_GetWorkflow) (GetWorkflow d x_GetWorkflow)"
    and sim_ListOrders: "op_sim R (ListOrders c x_ListOrders) (ListOrders d x_ListOrders)"
    and sim_CreateArtifactWorkflow: "op_sim R (CreateArtifactWorkflow c x_CreateArtifactWorkflow) (CreateArtifactWorkflow d x_CreateArtifactWorkflow)"
    and sim_CreateWorkflow: "op_sim R (CreateWorkflow c x_CreateWorkflow) (CreateWorkflow d x_CreateWorkflow)"
    and sim_DeleteArtifactWorkflow: "op_sim R (DeleteArtifactWorkflow c x_DeleteArtifactWorkflow) (DeleteArtifactWorkflow d x_DeleteArtifactWorkflow)"
    and sim_DeleteWorkflow: "op_sim R (DeleteWorkflow c x_DeleteWorkflow) (DeleteWorkflow d x_DeleteWorkflow)"
    and sim_UpdateOrder: "op_sim R (UpdateOrder c x_UpdateOrder) (UpdateOrder d x_UpdateOrder)"
    and sim_UpdateArtifactWorkflow: "op_sim R (UpdateArtifactWorkflow c x_UpdateArtifactWorkflow) (UpdateArtifactWorkflow d x_UpdateArtifactWorkflow)"
    and sim_UpdateOrderStatus: "op_sim R (UpdateOrderStatus c x_UpdateOrderStatus) (UpdateOrderStatus d x_UpdateOrderStatus)"
    and sim_UpdateArtifactWorkflowStatus: "op_sim R (UpdateArtifactWorkflowStatus c x_UpdateArtifactWorkflowStatus) (UpdateArtifactWorkflowStatus d x_UpdateArtifactWorkflowStatus)"
begin

lemmas sims [intro!] = sim_GetOrder sim_GetEndpoint sim_GetSecret sim_GetArtifactType sim_GetArtifactWorkflow
  sim_GetWorkflow sim_ListOrders sim_CreateArtifactWorkflow sim_CreateWorkflow
  sim_DeleteArtifactWorkflow sim_DeleteWorkflow sim_UpdateOrder sim_UpdateArtifactWorkflow
  sim_UpdateOrderStatus sim_UpdateArtifactWorkflowStatus

lemma sim_fetchSecret [intro]: "op_sim R (fetchSecret c ns name text) (fetchSecret d ns name text)"
  by (auto simp: fetchSecret_def)

end

lemma op_sim_logged: "op_sim (\<lambda>s w. fst s = w) (logged req f x) (f x)"
  by (auto simp: op_sim_def logged_def)

interpretation transparent: client_simulation "recording c" c "\<lambda>s w. fst s = w" for c
  by unfold_locales (simp_all add: client_simps op_sim_logged)

end
