(* ===== verification/Go_Marshal.thy ===== *)
theory Go_Marshal
  imports Go_Json
begin

section \<open>\<open>json.Marshal\<close> of the hashed data\<close>

text \<open>
  \<open>OrderReconciler.Reconcile\<close> hashes \<open>json.Marshal([]any{...})\<close> of strings, a byte slice and
  generation numbers. This theory holds the encoder for those kinds of values: strings with HTML
  escaping, byte slices as base64 (\<open>null\<close> for a nil slice), decimal integers. The main fact is
  \<open>marshal_array_inj\<close>: for valid UTF-8 texts the encoding loses nothing, so two artifacts with the
  same encoding have the same data.
\<close>

datatype any_value = AString string | ABytes "byte list option" | AInt int

subsection \<open>Strings\<close>

text \<open>A string cut into its UTF-8 sequences; a byte that starts none is a piece of its own.\<close>

function runes :: "byte list \<Rightarrow> byte list list" where
  "runes s = (if s = [] then [] else take (max 1 (utf8_len s)) s # runes (drop (max 1 (utf8_len s)) s))"
  by pat_completeness auto
termination
  by (relation "measure length") auto

declare runes.simps [simp del]

definition hex_digit :: "nat \<Rightarrow> byte" where
  "hex_digit n = (if n < 10 then byte_of (48 + n) else byte_of (87 + n))"

text \<open>The escape of a single byte below \<open>0x80\<close>; bytes of the HTML-safe set stand for themselves.\<close>

definition escape_ascii :: "byte \<Rightarrow> byte list" where
  "escape_ascii b =
     (let n = byte_val b in
      if n = 92 \<or> n = 34 then [byte_of 92, b]
      else if n = 8 then [byte_of 92, byte_of 98]
      else if n = 12 then [byte_of 92, byte_of 102]
      else if n = 10 then [byte_of 92, byte_of 110]
      else if n = 13 then [byte_of 92, byte_of 114]
      else if n = 9 then [byte_of 92, byte_of 116]
      else if n < 32 \<or> n = 60 \<or> n = 62 \<or> n = 38
      then [byte_of 92, byte_of 117, byte_of 48, byte_of 48, hex_digit (n div 16), hex_digit (n mod 16)]
      else [b])"

definition escape_rune :: "byte list \<Rightarrow> byte list" where
  "escape_rune r =
     (case r of
        [b] \<Rightarrow> (if byte_val b < 128 then escape_ascii b
                else [byte_of 92, byte_of 117, byte_of 102, byte_of 102, byte_of 102, byte_of 100])
      | _ \<Rightarrow>
          if map byte_val r = [226, 128, 168]
          then [byte_of 92, byte_of 117, byte_of 50, byte_of 48, byte_of 50, byte_of 56]
          else if map byte_val r = [226, 128, 169]
          then [byte_of 92, byte_of 117, byte_of 50, byte_of 48, byte_of 50, byte_of 57]
          else r)"

definition encode_string :: "string \<Rightarrow> byte list" where
  "encode_string s = byte_of 34 # concat (map escape_rune (runes s)) @ [byte_of 34]"

subsection \<open>Byte slices\<close>

definition b64_char :: "nat \<Rightarrow> byte" where
  "b64_char n =
     (if n < 26 then byte_of (65 + n)
      else if n < 52 then byte_of (71 + n)
      else if n < 62 then byte_of (n - 4)
      else if n = 62 then byte_of 43 else byte_of 47)"

definition b64_pad :: byte where
  "b64_pad = byte_of 61"

fun base64 :: "byte list \<Rightarrow> byte list" where
  "base64 [] = []"
| "base64 [a] =
     (let x = byte_val a in [b64_char (x div 4), b64_char (x mod 4 * 16), b64_pad, b64_pad])"
| "base64 [a, b] =
     (let x = byte_val a; y = byte_val b in
      [b64_char (x div 4), b64_char (x mod 4 * 16 + y div 16), b64_char (y mod 16 * 4), b64_pad])"
| "base64 (a # b # c # rest) =
     (let x = byte_val a; y = byte_val b; z = byte_val c in
      [b64_char (x div 4), b64_char (x mod 4 * 16 + y div 16),
       b64_char (y mod 16 * 4 + z div 64), b64_char (z mod 64)] @ base64 rest)"

definition encode_bytes :: "byte list option \<Rightarrow> byte list" where
  "encode_bytes r =
     (case r of None \<Rightarrow> ''null'' | Some s \<Rightarrow> byte_of 34 # base64 s @ [byte_of 34])"

subsection \<open>Arrays\<close>

fun encode_any :: "any_value \<Rightarrow> byte list" where
  "encode_any (AString s) = encode_string s"
| "encode_any (ABytes r) = encode_bytes r"
| "encode_any (AInt i) = itoa i"

fun encode_tail :: "any_value list \<Rightarrow> byte list" where
  "encode_tail [] = [byte_of 93]"
| "encode_tail (v # vs) = byte_of 44 # encode_any v @ encode_tail vs"

definition marshal_array :: "any_value list \<Rightarrow> byte list" where
  "marshal_array vs =
     byte_of 91 # (case vs of [] \<Rightarrow> [byte_of 93] | v # ws \<Rightarrow> encode_any v @ encode_tail ws)"

text \<open>\<open>json.Marshal\<close>: these kinds of values never fail to encode.\<close>

definition Marshal :: "any_value list \<Rightarrow> go_error + byte list" where
  "Marshal vs = Inr (marshal_array vs)"

subsection \<open>Nothing is lost\<close>

text \<open>Valid UTF-8: every piece is a whole sequence.\<close>

definition valid_utf8 :: "string \<Rightarrow> bool" where
  "valid_utf8 s \<longleftrightarrow> (\<forall>r \<in> set (runes s). utf8_len r \<noteq> 0)"

definition same_kind :: "any_value \<Rightarrow> any_value \<Rightarrow> bool" where
  "same_kind v w =
     (case (v, w) of
        (AString s, AString t) \<Rightarrow> valid_utf8 s \<and> valid_utf8 t
      | (ABytes r, ABytes q) \<Rightarrow> True
      | (AInt i, AInt j) \<Rightarrow> True
      | _ \<Rightarrow> False)"

text \<open>A whole UTF-8 sequence.\<close>

definition sequence :: "byte list \<Rightarrow> bool" where
  "sequence r \<longleftrightarrow> r \<noteq> [] \<and> utf8_len r = length r"

text \<open>The length of a sequence is read off the sequence alone.\<close>

lemma utf8_len_le: "utf8_len s \<le> length s"
  unfolding utf8_len_def by (auto split: list.splits)

lemma utf8_len_append:
  assumes "utf8_len r \<noteq> 0"
  shows "utf8_len (r @ t) = utf8_len r"
proof -
  consider "r = []" | a where "r = [a]" | a b where "r = [a, b]" | a b c where "r = [a, b, c]"
    | a b c d u where "r = a # b # c # d # u"
    by (metis list.exhaust)
  then show ?thesis
    by cases (use assms in \<open>auto simp: utf8_len_def split: if_splits list.splits\<close>)
qed

lemma utf8_len_take: "utf8_len (take (utf8_len s) s) = utf8_len s"
proof -
  consider "s = []" | a where "s = [a]" | a b where "s = [a, b]" | a b c where "s = [a, b, c]"
    | a b c d u where "s = a # b # c # d # u"
    by (metis list.exhaust)
  then show ?thesis
    by cases (auto simp: utf8_len_def)
qed

lemma sequence_prefix:
  assumes "sequence r" "sequence q" "r @ x = q @ y"
  shows "r = q \<and> x = y"
proof -
  have "utf8_len (r @ x) = length r" "utf8_len (q @ y) = length q"
    using assms(1,2) by (simp_all add: sequence_def utf8_len_append)
  with assms(3) show ?thesis by simp
qed

lemma rune_sequence:
  assumes "utf8_len (take (max 1 (utf8_len s)) s) \<noteq> 0"
  shows "sequence (take (max 1 (utf8_len s)) s)"
proof (cases "utf8_len s = 0")
  case True
  with assms show ?thesis
    by (cases s) (auto simp: utf8_len_def sequence_def split: if_splits)
next
  case False
  then have "max 1 (utf8_len s) = utf8_len s" by simp
  with False show ?thesis
    using utf8_len_take [of s] utf8_len_le [of s] by (auto simp: sequence_def)
qed

lemma valid_runes: "valid_utf8 s \<Longrightarrow> r \<in> set (runes s) \<Longrightarrow> sequence r"
proof (induction s rule: runes.induct)
  case (1 s)
  show ?case
  proof (cases "s = []")
    case True
    with 1 show ?thesis by (simp add: runes.simps)
  next
    case False
    let ?k = "max 1 (utf8_len s)"
    have eq: "runes s = take ?k s # runes (drop ?k s)"
      using False by (subst runes.simps) simp
    have "valid_utf8 (drop ?k s)"
      using "1.prems"(1) by (simp add: valid_utf8_def eq)
    moreover have "sequence (take ?k s)"
      using "1.prems"(1) by (intro rune_sequence) (simp add: valid_utf8_def eq)
    ultimately show ?thesis
      using "1.IH" [OF False] "1.prems"(2) by (auto simp: eq)
  qed
qed

lemma concat_runes: "concat (runes s) = s"
proof (induction s rule: runes.induct)
  case (1 s)
  then show ?case by (cases "s = []") (subst runes.simps, simp)+
qed

lemma sequence_cases:
  assumes "sequence r"
  obtains (ascii) b where "r = [b]" "byte_val b < 128"
    | (multi) a b t where "r = a # b # t" "194 \<le> byte_val a"
proof -
  from assms obtain a t where r: "r = a # t" by (cases r) (auto simp: sequence_def)
  show ?thesis
  proof (cases t)
    case Nil
    with assms r show ?thesis by (intro ascii [of a]) (auto simp: sequence_def utf8_len_def split: if_splits)
  next
    case (Cons b u)
    with assms r show ?thesis
      by (intro multi [of a b u])
        (auto simp: sequence_def utf8_len_def within_def split: if_splits list.splits)
  qed
qed

lemma byte_val_eq_of: "byte_val b = n \<longleftrightarrow> n < 256 \<and> b = byte_of n"
  using byte_val_less byte_val_of byte_of_val by metis

text \<open>Reading the escape of an ASCII byte back.\<close>

definition hex_back :: "byte \<Rightarrow> nat" where
  "hex_back b = (if byte_val b < 58 then byte_val b - 48 else byte_val b - 87)"

definition escape_back :: "byte list \<Rightarrow> nat" where
  "escape_back s =
     (if byte_val (s ! 0) \<noteq> 92 then byte_val (s ! 0)
      else let c = byte_val (s ! 1) in
           if c = 98 then 8 else if c = 102 then 12 else if c = 110 then 10
           else if c = 114 then 13 else if c = 116 then 9
           else if c = 117 then 16 * hex_back (s ! 4) + hex_back (s ! 5)
           else c)"

lemma hex_back_digit [simp]: "n < 16 \<Longrightarrow> hex_back (hex_digit n) = n"
  by (simp add: hex_back_def hex_digit_def)

lemma escape_back_ascii:
  assumes "byte_val b < 128"
  shows "escape_back (escape_ascii b @ x) = byte_val b"
proof -
  consider "byte_val b \<in> {92, 34}" | "byte_val b \<in> {8, 9, 10, 12, 13}"
    | "byte_val b \<notin> {92, 34, 8, 9, 10, 12, 13}" "byte_val b < 32 \<or> byte_val b \<in> {60, 62, 38}"
    | "byte_val b \<notin> {92, 34, 8, 9, 10, 12, 13, 60, 62, 38}" "\<not> byte_val b < 32"
    by blast
  then show ?thesis
    using assms by cases (auto simp: escape_ascii_def escape_back_def Let_def)
qed

lemma escape_ascii_prefix:
  assumes "byte_val a < 128" "byte_val b < 128" "escape_ascii a @ x = escape_ascii b @ y"
  shows "a = b"
proof -
  have "byte_val a = byte_val b"
    using escape_back_ascii [of a x] escape_back_ascii [of b y] assms by simp
  then show ?thesis by (simp add: byte_val_inj)
qed

text \<open>The first bytes of an escaped sequence tell its kind.\<close>

lemma escape_ascii_hd:
  assumes "byte_val b < 128"
  shows "escape_ascii b \<noteq> []" and "byte_val (hd (escape_ascii b)) < 128"
    and "hd (escape_ascii b) \<noteq> byte_of 34"
    and "escape_ascii b @ x \<noteq> byte_of 92 # byte_of 117 # byte_of 50 # y"
proof -
  have "byte_of (48::nat) \<noteq> byte_of 50" "b \<noteq> byte_of 34 \<or> byte_val b = 34"
    by (simp_all add: byte_of_inj)
  with assms show "escape_ascii b \<noteq> []" "byte_val (hd (escape_ascii b)) < 128"
    "hd (escape_ascii b) \<noteq> byte_of 34"
    "escape_ascii b @ x \<noteq> byte_of 92 # byte_of 117 # byte_of 50 # y"
    by (auto simp: escape_ascii_def Let_def byte_of_inj)
qed

lemma escape_rune_multi:
  assumes "194 \<le> byte_val a"
  shows "escape_rune (a # b # t) = a # b # t \<or>
    (\<exists>d \<in> {56, 57}. map byte_val (a # b # t) = [226, 128, 112 + d] \<and>
      escape_rune (a # b # t) = map byte_of [92, 117, 50, 48, 50, d])"
  using assms by (auto simp: escape_rune_def)

lemma escape_ascii_multi:
  assumes "byte_val a < 128" and "194 \<le> byte_val b"
  shows "escape_ascii a @ x \<noteq> escape_rune (b # c # t) @ y"
proof
  assume eq: "escape_ascii a @ x = escape_rune (b # c # t) @ y"
  from escape_rune_multi [OF assms(2), of c t] show False
  proof (elim disjE bexE conjE)
    assume "escape_rune (b # c # t) = b # c # t"
    with eq have "hd (escape_ascii a @ x) = b" by simp
    then show False
      using escape_ascii_hd(1,2) [OF assms(1)] assms(2) by simp
  next
    fix d assume "escape_rune (b # c # t) = map byte_of [92, 117, 50, 48, 50, d]"
    with eq escape_ascii_hd(4) [OF assms(1)] show False by simp
  qed
qed

lemma escape_multi_multi:
  assumes "194 \<le> byte_val a" and "194 \<le> byte_val c"
    and "sequence (a # b # t)" and "sequence (c # d # u)"
    and eq: "escape_rune (a # b # t) @ x = escape_rune (c # d # u) @ y"
  shows "a # b # t = c # d # u"
proof -
  have ne: "byte_of 92 \<noteq> a" "byte_of 92 \<noteq> c" "a \<noteq> byte_of 92" "c \<noteq> byte_of 92"
    using assms(1,2) by auto
  have same: "map byte_val (a # b # t) = map byte_val (c # d # u) \<Longrightarrow> ?thesis"
    using inj_map_eq_map [of byte_val] by (simp add: inj_def byte_val_inj)
  from escape_rune_multi [OF assms(1), of b t] escape_rune_multi [OF assms(2), of d u] show ?thesis
  proof (elim disjE bexE conjE)
    assume "escape_rune (a # b # t) = a # b # t" "escape_rune (c # d # u) = c # d # u"
    with eq sequence_prefix [OF assms(3,4)] show ?thesis by auto
  next
    fix k l assume "k \<in> {56, 57}" "map byte_val (a # b # t) = [226, 128, 112 + k]"
      "escape_rune (a # b # t) = map byte_of [92, 117, 50, 48, 50, k]"
      "l \<in> {56, 57}" "map byte_val (c # d # u) = [226, 128, 112 + l]"
      "escape_rune (c # d # u) = map byte_of [92, 117, 50, 48, 50, l]"
    with eq have "k = l" by (auto simp: byte_of_inj)
    with \<open>map byte_val (a # b # t) = [226, 128, 112 + k]\<close>
      \<open>map byte_val (c # d # u) = [226, 128, 112 + l]\<close>
    show ?thesis by (intro same) simp
  qed (use eq ne in auto)
qed

lemma escape_rune_prefix:
  assumes "sequence r" "sequence q" and eq: "escape_rune r @ x = escape_rune q @ y"
  shows "r = q"
proof -
  have one: "byte_val a < 128 \<Longrightarrow> escape_rune [a] = escape_ascii a" for a
    by (simp add: escape_rune_def)
  show ?thesis
    using assms(1)
  proof (cases rule: sequence_cases)
    case (ascii a)
    show ?thesis
      using assms(2)
      by (cases rule: sequence_cases)
        (use eq ascii one escape_ascii_prefix escape_ascii_multi in auto)
  next
    case (multi a b t)
    show ?thesis
      using assms(2)
    proof (cases rule: sequence_cases)
      case (ascii c)
      then show ?thesis
        using eq multi one escape_ascii_multi [OF ascii(2) multi(2), of y b t x] by simp
    next
      case (multi c d u)
      then show ?thesis
        using escape_multi_multi [OF \<open>194 \<le> byte_val a\<close> multi(2)] assms \<open>r = a # b # t\<close> by blast
    qed
  qed
qed

lemma escape_rune_starts:
  assumes "sequence r"
  shows "escape_rune r \<noteq> []" and "hd (escape_rune r) \<noteq> byte_of 34"
  using assms
proof (atomize (full), cases rule: sequence_cases)
  case (ascii b)
  then show "escape_rune r \<noteq> [] \<and> hd (escape_rune r) \<noteq> byte_of 34"
    using escape_ascii_hd by (simp add: escape_rune_def)
next
  case (multi a b t)
  then show "escape_rune r \<noteq> [] \<and> hd (escape_rune r) \<noteq> byte_of 34"
    using escape_rune_multi [OF multi(2), of b t] by (auto simp: byte_of_inj)
qed

lemma escaped_runes_prefix:
  assumes "\<forall>r \<in> set rs. sequence r" "\<forall>r \<in> set qs. sequence r"
    and "concat (map escape_rune rs) @ byte_of 34 # x = concat (map escape_rune qs) @ byte_of 34 # y"
  shows "rs = qs \<and> x = y"
  using assms
proof (induction rs arbitrary: qs)
  case Nil
  then show ?case
    using escape_rune_starts by (cases qs) (auto simp: Cons_eq_append_conv, metis hd_append list.sel(1))
next
  case (Cons r rs)
  show ?case
  proof (cases qs)
    case Nil
    with Cons.prems show ?thesis
      using escape_rune_starts [of r] by (auto simp: append_eq_Cons_conv)
  next
    case (Cons q ps)
    let ?tail = "\<lambda>l z. concat (map escape_rune l) @ byte_of 34 # z"
    have "r = q"
      using Cons.prems Cons escape_rune_prefix [of r q "?tail rs x" "?tail ps y"] by simp
    with Cons.prems Cons have "?tail rs x = ?tail ps y" by simp
    with Cons.IH [of ps] Cons.prems Cons \<open>r = q\<close> show ?thesis by auto
  qed
qed

lemma encode_string_prefix:
  assumes "valid_utf8 s" "valid_utf8 t" "encode_string s @ x = encode_string t @ y"
  shows "s = t \<and> x = y"
proof -
  have "runes s = runes t \<and> x = y"
    using assms valid_runes by (intro escaped_runes_prefix) (auto simp: encode_string_def)
  then show ?thesis by (metis concat_runes)
qed

lemma b64_char_inj [simp]: "m < 64 \<Longrightarrow> n < 64 \<Longrightarrow> b64_char m = b64_char n \<longleftrightarrow> m = n"
  by (auto simp: b64_char_def byte_of_inj split: if_splits)

lemma b64_char_ne [simp]:
  assumes "n < 64"
  shows "b64_char n \<noteq> byte_of 34" "b64_char n \<noteq> b64_pad" "byte_of 34 \<noteq> b64_char n" "b64_pad \<noteq> b64_char n"
  using assms by (auto simp: b64_char_def b64_pad_def byte_of_inj split: if_splits)

lemma radix_less:
  fixes p q k n :: nat
  assumes "p < n" and "q < k"
  shows "p * k + q < n * k"
proof -
  have "p * k + q < Suc p * k" using assms(2) by simp
  also have "\<dots> \<le> n * k" using assms(1) by (intro mult_le_mono1) simp
  finally show ?thesis .
qed

lemma radix_eq:
  fixes p q k u v :: nat
  assumes eq: "p * k + q = u * k + v" and q: "q < k" and v: "v < k"
  shows "p = u \<and> q = v"
proof -
  have "(p * k + q) div k = p" "(u * k + v) div k = u" using q v by simp_all
  with eq have "p = u" by simp
  with eq show ?thesis by simp
qed

lemma byte_div: "byte_val a div 4 < 64" "byte_val a div 16 < 16" "byte_val a div 64 < 4"
  using byte_val_less [of a] by (simp_all add: less_mult_imp_div_less)

lemma sextets [simp]:
  "byte_val a mod 4 * 16 + byte_val b div 16 < 64"
  "byte_val a mod 16 * 4 + byte_val b div 64 < 64"
  "byte_val a mod 4 * 16 < 64" "byte_val a mod 16 * 4 < 64" "byte_val a mod 64 < 64"
  "byte_val a div 4 < 64"
proof -
  have "byte_val a mod 4 < 4" "byte_val a mod 16 < 16" by simp_all
  from radix_less [OF this(1) byte_div(2), of b] radix_less [OF this(2) byte_div(3), of b]
  show "byte_val a mod 4 * 16 + byte_val b div 16 < 64"
    "byte_val a mod 16 * 4 + byte_val b div 64 < 64" by simp_all
qed (use byte_div(1) in auto)

lemma byte_quot_rem:
  "byte_val a div k = byte_val b div k \<Longrightarrow> byte_val a mod k = byte_val b mod k \<Longrightarrow> a = b"
  by (metis byte_val_inj div_mult_mod_eq)

lemma b64_first:
  assumes "byte_val a div 4 = byte_val b div 4"
    and "byte_val a mod 4 * 16 + byte_val c div 16 = byte_val b mod 4 * 16 + byte_val d div 16"
  shows "a = b \<and> byte_val c div 16 = byte_val d div 16"
  using radix_eq [OF assms(2) byte_div(2) byte_div(2)] assms(1) byte_quot_rem by blast

lemma b64_second:
  assumes "byte_val a div 16 = byte_val b div 16"
    and "byte_val a mod 16 * 4 + byte_val c div 64 = byte_val b mod 16 * 4 + byte_val d div 64"
  shows "a = b \<and> byte_val c div 64 = byte_val d div 64"
  using radix_eq [OF assms(2) byte_div(3) byte_div(3)] assms(1) byte_quot_rem by blast

lemma base64_prefix:
  "base64 s @ byte_of 34 # x = base64 t @ byte_of 34 # y \<Longrightarrow> s = t \<and> x = y"
proof (induction s arbitrary: t rule: base64.induct)
  case 1
  then show ?case
    by (cases t rule: base64.cases) (simp_all add: Let_def)
next
  case (2 a)
  then show ?case
    by (cases t rule: base64.cases)
      (use byte_quot_rem [of a 4] in \<open>auto simp: Let_def\<close>)
next
  case (3 a b)
  show ?case
  proof (cases t rule: base64.cases)
    case (3 c d)
    with "3.prems" have eq: "byte_val a div 4 = byte_val c div 4"
      "byte_val a mod 4 * 16 + byte_val b div 16 = byte_val c mod 4 * 16 + byte_val d div 16"
      "byte_val b mod 16 = byte_val d mod 16" "x = y"
      by (auto simp: Let_def)
    with b64_first [OF eq(1,2)] byte_quot_rem [of b 16 d] 3 show ?thesis by simp
  qed (use "3.prems" in \<open>auto simp: Let_def\<close>)
next
  case (4 a b c rest)
  show ?case
  proof (cases t rule: base64.cases)
    case (4 d e f more)
    with "4.prems" have eq: "byte_val a div 4 = byte_val d div 4"
      "byte_val a mod 4 * 16 + byte_val b div 16 = byte_val d mod 4 * 16 + byte_val e div 16"
      "byte_val b mod 16 * 4 + byte_val c div 64 = byte_val e mod 16 * 4 + byte_val f div 64"
      "byte_val c mod 64 = byte_val f mod 64"
      "base64 rest @ byte_of 34 # x = base64 more @ byte_of 34 # y"
      by (auto simp: Let_def)
    have ab: "a = d" "byte_val b div 16 = byte_val e div 16" using b64_first [OF eq(1,2)] by auto
    then have bc: "b = e" "byte_val c div 64 = byte_val f div 64"
      using b64_second [OF ab(2) eq(3)] by auto
    then have "c = f" using byte_quot_rem [of c 64 f] eq(4) by simp
    with "4.IH" [OF refl refl refl eq(5)] 4 ab bc show ?thesis by simp
  qed (use "4.prems" in \<open>auto simp: Let_def\<close>)
qed

text \<open>A numeral ends where its digits end.\<close>

lemma digit_run_prefix:
  assumes "p @ c # z = q @ d # w" and "\<forall>e \<in> set p. is_digit e" "\<forall>e \<in> set q. is_digit e"
    and "\<not> is_digit c" "\<not> is_digit d"
  shows "p = q \<and> c # z = d # w"
  using assms
proof (induction p arbitrary: q)
  case Nil
  then show ?case by (cases q) auto
next
  case (Cons a p)
  then show ?case by (cases q) auto
qed

lemma itoa_prefix:
  assumes eq: "itoa i @ a # x = itoa j @ b # y" and nd: "\<not> is_digit a" "\<not> is_digit b"
  shows "i = j \<and> a # x = b # y"
proof -
  have ds: "0 \<le> k \<Longrightarrow> \<forall>e \<in> set (digits k). is_digit e" for k
    using digits_are_digits by blast
  have sign: "digits k @ z \<noteq> CHR ''-'' # w" if "0 \<le> k" for k z w
    using digits_nonempty [of k] digits_no_sign [OF that] by (cases "digits k") auto
  consider "i < 0" "j < 0" | "0 \<le> i" "0 \<le> j" | "i < 0" "0 \<le> j" | "0 \<le> i" "j < 0"
    by linarith
  then show ?thesis
  proof cases
    case 1
    with eq have "digits (- i) @ a # x = digits (- j) @ b # y" by (simp add: itoa_def)
    then have "digits (- i) = digits (- j) \<and> a # x = b # y"
      using 1 nd ds [of "- i"] ds [of "- j"] by (intro digit_run_prefix) simp_all
    with 1 digits_inj [of "- i" "- j"] show ?thesis by auto
  next
    case 2
    with eq have "digits i @ a # x = digits j @ b # y" by (simp add: itoa_def)
    then have "digits i = digits j \<and> a # x = b # y"
      using 2 nd ds by (intro digit_run_prefix) simp_all
    with 2 digits_inj [of i j] show ?thesis by auto
  next
    case 3
    with eq sign [of j "b # y" "digits (- i) @ a # x"] show ?thesis by (simp add: itoa_def)
  next
    case 4
    with eq sign [of i "a # x" "digits (- j) @ b # y"] show ?thesis by (simp add: itoa_def)
  qed
qed

lemma encode_bytes_prefix:
  assumes "encode_bytes r @ x = encode_bytes q @ y"
  shows "r = q \<and> x = y"
proof -
  have n: "byte_of 34 \<noteq> CHR ''n''"
    using byte_val_of [of 34] by (auto simp: byte_val_def)
  show ?thesis
  proof (cases r; cases q)
    fix s t assume "r = Some s" "q = Some t"
    with assms have "base64 s @ byte_of 34 # x = base64 t @ byte_of 34 # y"
      by (simp add: encode_bytes_def)
    from base64_prefix [OF this] \<open>r = Some s\<close> \<open>q = Some t\<close> show ?thesis by simp
  qed (use assms n in \<open>simp_all add: encode_bytes_def\<close>)
qed

lemma encode_any_prefix:
  assumes "same_kind v w" and "encode_any v @ a # x = encode_any w @ b # y"
    and "\<not> is_digit a" "\<not> is_digit b"
  shows "v = w \<and> a # x = b # y"
  using assms
  by (cases v; cases w)
    (auto simp: same_kind_def dest: encode_string_prefix encode_bytes_prefix itoa_prefix)

lemma encode_tail_inj:
  assumes "list_all2 same_kind vs ws" and "encode_tail vs = encode_tail ws"
  shows "vs = ws"
proof -
  have nd: "\<not> is_digit (byte_of 44)" "\<not> is_digit (byte_of 93)" by (simp_all add: is_digit_def)
  have tl: "\<exists>a x. encode_tail us = a # x \<and> \<not> is_digit a" for us
    by (cases us) (use nd in auto)
  show ?thesis
    using assms
  proof (induction vs ws rule: list_all2_induct)
    case (Cons v vs w ws)
    obtain a x b y where e: "encode_tail vs = a # x" "\<not> is_digit a" "encode_tail ws = b # y" "\<not> is_digit b"
      using tl by meson
    with Cons.prems Cons.hyps(1) have "v = w \<and> a # x = b # y"
      by (intro encode_any_prefix) auto
    with e Cons.IH show ?case by simp
  qed simp
qed

lemma marshal_array_inj:
  assumes "list_all2 same_kind vs ws" and "marshal_array vs = marshal_array ws"
  shows "vs = ws"
proof -
  have "list_all2 same_kind vs ws \<Longrightarrow> encode_tail vs = encode_tail ws"
    using assms(2)
    by (cases vs; cases ws) (auto simp: marshal_array_def)
  with assms(1) show ?thesis using encode_tail_inj by blast
qed

end
