(* ===== verification/Go_Sha256.thy ===== *)
theory Go_Sha256
  imports Go_Text "HOL-Library.Word"
begin

unbundle bit_operations_syntax

section \<open>SHA-256 and hexadecimal text\<close>

text \<open>
  What the order controller uses of \<open>crypto/sha256\<close> and \<open>encoding/hex\<close>: the digest of a byte string
  (FIPS 180-4, on 32-bit words that wrap around) and its hexadecimal text. The controller's
  definitions take the digest function as an argument, so that its properties hold for whatever
  digests come out (equal digests of different data included); \<open>Sum256\<close> is the function the
  repository uses.
\<close>

type_synonym w32 = "32 word"

definition sha_k :: "w32 list" where
  "sha_k =
    [0x428a2f98, 0x71374491, 0xb5c0fbcf, 0xe9b5dba5, 0x3956c25b, 0x59f111f1, 0x923f82a4, 0xab1c5ed5,
     0xd807aa98, 0x12835b01, 0x243185be, 0x550c7dc3, 0x72be5d74, 0x80deb1fe, 0x9bdc06a7, 0xc19bf174,
     0xe49b69c1, 0xefbe4786, 0x0fc19dc6, 0x240ca1cc, 0x2de92c6f, 0x4a7484aa, 0x5cb0a9dc, 0x76f988da,
     0x983e5152, 0xa831c66d, 0xb00327c8, 0xbf597fc7, 0xc6e00bf3, 0xd5a79147, 0x06ca6351, 0x14292967,
     0x27b70a85, 0x2e1b2138, 0x4d2c6dfc, 0x53380d13, 0x650a7354, 0x766a0abb, 0x81c2c92e, 0x92722c85,
     0xa2bfe8a1, 0xa81a664b, 0xc24b8b70, 0xc76c51a3, 0xd192e819, 0xd6990624, 0xf40e3585, 0x106aa070,
     0x19a4c116, 0x1e376c08, 0x2748774c, 0x34b0bcb5, 0x391c0cb3, 0x4ed8aa4a, 0x5b9cca4f, 0x682e6ff3,
     0x748f82ee, 0x78a5636f, 0x84c87814, 0x8cc70208, 0x90befffa, 0xa4506ceb, 0xbef9a3f7, 0xc67178f2]"

definition sha_init :: "w32 list" where
  "sha_init =
    [0x6a09e667, 0xbb67ae85, 0x3c6ef372, 0xa54ff53a, 0x510e527f, 0x9b05688c, 0x1f83d9ab, 0x5be0cd19]"

definition sigma0 :: "w32 \<Rightarrow> w32" where
  "sigma0 x = word_rotr 7 x XOR word_rotr 18 x XOR drop_bit 3 x"

definition sigma1 :: "w32 \<Rightarrow> w32" where
  "sigma1 x = word_rotr 17 x XOR word_rotr 19 x XOR drop_bit 10 x"

definition Sigma0 :: "w32 \<Rightarrow> w32" where
  "Sigma0 x = word_rotr 2 x XOR word_rotr 13 x XOR word_rotr 22 x"

definition Sigma1 :: "w32 \<Rightarrow> w32" where
  "Sigma1 x = word_rotr 6 x XOR word_rotr 11 x XOR word_rotr 25 x"

definition ch :: "w32 \<Rightarrow> w32 \<Rightarrow> w32 \<Rightarrow> w32" where
  "ch x y z = (x AND y) XOR (NOT x AND z)"

definition maj :: "w32 \<Rightarrow> w32 \<Rightarrow> w32 \<Rightarrow> w32" where
  "maj x y z = (x AND y) XOR (x AND z) XOR (y AND z)"

text \<open>The message schedule: 16 words of the block extended to 64 (the list grows at its end).\<close>

fun schedule :: "nat \<Rightarrow> w32 list \<Rightarrow> w32 list" where
  "schedule 0 w = w"
| "schedule (Suc n) w =
     (let t = length w in
      schedule n (w @ [sigma1 (w ! (t - 2)) + w ! (t - 7) + sigma0 (w ! (t - 15)) + w ! (t - 16)]))"

fun sha_round :: "w32 list \<Rightarrow> w32 \<times> w32 \<Rightarrow> w32 list" where
  "sha_round [a, b, c, d, e, f, g, h] (k, w) =
     (let t1 = h + Sigma1 e + ch e f g + k + w;
          t2 = Sigma0 a + maj a b c
      in [t1 + t2, a, b, c, d + t1, e, f, g])"
| "sha_round st kw = st"

definition compress :: "w32 list \<Rightarrow> w32 list \<Rightarrow> w32 list" where
  "compress st block = map2 (+) st (foldl sha_round st (zip sha_k (schedule 48 block)))"

definition word_of_bytes :: "byte \<Rightarrow> byte \<Rightarrow> byte \<Rightarrow> byte \<Rightarrow> w32" where
  "word_of_bytes a b c d =
     word_of_int (((int (byte_val a) * 256 + int (byte_val b)) * 256 + int (byte_val c)) * 256 + int (byte_val d))"

fun words_of :: "byte list \<Rightarrow> w32 list" where
  "words_of (a # b # c # d # rest) = word_of_bytes a b c d # words_of rest"
| "words_of _ = []"

definition be_bytes :: "nat \<Rightarrow> int \<Rightarrow> byte list" where
  "be_bytes n x = map (\<lambda>i. byte_of (nat (x div 256 ^ (n - 1 - i) mod 256))) [0..<n]"

text \<open>Padding: \<open>0x80\<close>, zeros up to 56 modulo 64 bytes, the length in bits as a 64-bit number.\<close>

definition sha_pad :: "byte list \<Rightarrow> byte list" where
  "sha_pad m =
     m @ byte_of 128 # replicate ((119 - length m mod 64) mod 64) (byte_of 0)
       @ be_bytes 8 (8 * int (length m) mod 2 ^ 64)"

fun blocks :: "nat \<Rightarrow> w32 list \<Rightarrow> w32 list list" where
  "blocks 0 w = []"
| "blocks (Suc n) w = take 16 w # blocks n (drop 16 w)"

definition Sum256 :: "byte list \<Rightarrow> byte list" where
  "Sum256 m =
     (let w = words_of (sha_pad m)
      in concat (map (\<lambda>x. be_bytes 4 (uint x)) (foldl compress sha_init (blocks (length w div 16) w))))"

subsection \<open>Hexadecimal text\<close>

definition hex_char :: "nat \<Rightarrow> byte" where
  "hex_char n = (if n < 10 then byte_of (48 + n) else byte_of (87 + n))"

definition EncodeToString :: "byte list \<Rightarrow> string" where
  "EncodeToString bs = concat (map (\<lambda>b. [hex_char (byte_val b div 16), hex_char (byte_val b mod 16)]) bs)"

subsection \<open>Lengths\<close>

lemma length_sha_round [simp]: "length (sha_round st kw) = length st"
  by (cases "(st, kw)" rule: sha_round.cases) (simp_all add: Let_def)

lemma length_sha_rounds [simp]: "length (foldl sha_round st ks) = length st"
  by (induction ks arbitrary: st) simp_all

lemma length_compress [simp]: "length (compress st b) = length st"
  by (simp add: compress_def)

lemma length_compress_all [simp]: "length (foldl compress st bs) = length st"
  by (induction bs arbitrary: st) simp_all

lemma length_concat_const: "\<forall>x \<in> set xs. length (f x) = k \<Longrightarrow> length (concat (map f xs)) = k * length xs"
  by (induction xs) auto

text \<open>A digest has 32 bytes, its text 64 characters.\<close>

lemma length_Sum256 [simp]: "length (Sum256 m) = 32"
proof -
  have "length sha_init = 8" by (simp add: sha_init_def)
  then show ?thesis
    by (simp add: Sum256_def Let_def length_concat_const [where k = 4] be_bytes_def)
qed

lemma length_EncodeToString [simp]: "length (EncodeToString bs) = 2 * length bs"
  by (simp add: EncodeToString_def length_concat_const [where k = 2])

end
