(* ===== verification/Order_Controller.thy ===== *)
theory Order_Controller
  imports Client Parameters Go_Marshal Go_Sha256
begin

section \<open>The order controller (\<^verbatim>\<open>pkg/controller/order_controller.go\<close>)\<close>

text \<open>
  \<open>OrderReconciler_Reconcile\<close> is the method \<open>Reconcile\<close>, cut where the source has its loops and
  branches: \<open>reconcileDeletion\<close>, \<open>addFinalizer\<close> and \<open>reconcileArtifacts\<close>, the last one made of
  \<open>desiredLoop\<close>, \<open>createLoop\<close>, \<open>deleteLoop\<close>, \<open>phaseLoop\<close> and \<open>indexLoop\<close>. The order the loops visit
  maps in is \<open>\<rho>\<close>, the order JSON objects are ranged over is \<open>\<pi>\<close>; a theorem that holds for every such
  order holds for every run. Setting the controller reference is controller-runtime's, so the
  reconciler carries it as a function.
\<close>

record 'w OrderReconciler =
  OR_Client :: "'w Client"
  OR_SetControllerReference :: "Order \<Rightarrow> ArtifactWorkflow \<Rightarrow> go_error + ArtifactWorkflow"

definition orderFinalizer :: string where
  "orderFinalizer = ''arc.bwi.de/order-finalizer''"

definition namespacedName :: "string \<Rightarrow> string \<Rightarrow> NamespacedName" where
  [api_defs]: "namespacedName ns name = (ns, name)"

definition Order_Name :: "Order \<Rightarrow> string" where
  [api_defs]: "Order_Name order = Meta_Name (Order_ObjectMeta order)"

definition Order_Namespace :: "Order \<Rightarrow> string" where
  [api_defs]: "Order_Namespace order = Meta_Namespace (Order_ObjectMeta order)"

definition Order_Finalizers :: "Order \<Rightarrow> string list" where
  [api_defs]: "Order_Finalizers order = Meta_Finalizers (Order_ObjectMeta order)"

definition Order_deleting :: "Order \<Rightarrow> bool" where
  [api_defs]: "Order_deleting order \<longleftrightarrow> \<not> IsZero (Meta_DeletionTimestamp (Order_ObjectMeta order))"

definition set_Order_Finalizers :: "string list \<Rightarrow> Order \<Rightarrow> Order" where
  "set_Order_Finalizers fs order =
     order\<lparr>Order_ObjectMeta := (Order_ObjectMeta order)\<lparr>Meta_Finalizers := fs\<rparr>\<rparr>"

definition Order_ArtifactWorkflows :: "Order \<Rightarrow> OrderArtifactWorkflowStatus gomap" where
  [api_defs]: "Order_ArtifactWorkflows order = OrderStatus_ArtifactWorkflows (Order_Status order)"

definition set_ArtifactWorkflows :: "OrderArtifactWorkflowStatus gomap \<Rightarrow> Order \<Rightarrow> Order" where
  "set_ArtifactWorkflows m order =
     order\<lparr>Order_Status := (Order_Status order)\<lparr>OrderStatus_ArtifactWorkflows := m\<rparr>\<rparr>"

text \<open>The entries of the status map, and its updates by the loops.\<close>

definition statuses :: "Order \<Rightarrow> (string, OrderArtifactWorkflowStatus) fmap" where
  "statuses order = entries (Order_ArtifactWorkflows order)"

definition put_status :: "string \<Rightarrow> OrderArtifactWorkflowStatus \<Rightarrow> Order \<Rightarrow> Order" where
  "put_status sha s order = set_ArtifactWorkflows (Some (fmupd sha s (statuses order))) order"

definition drop_status :: "string \<Rightarrow> Order \<Rightarrow> Order" where
  "drop_status sha order =
     set_ArtifactWorkflows (map_option (fmdrop sha) (Order_ArtifactWorkflows order)) order"

definition awName :: "Order \<Rightarrow> string \<Rightarrow> string" where
  "awName order sha = Order_Name order @ ''-'' @ sha"

definition awObjectMeta :: "Order \<Rightarrow> string \<Rightarrow> ObjectMeta" where
  "awObjectMeta order sha =
     zero_ObjectMeta\<lparr>Meta_Namespace := Order_Namespace order, Meta_Name := awName order sha\<rparr>"

subsection \<open>Deletion and the finalizer\<close>

fun deleteAll :: "'w Client \<Rightarrow> Order \<Rightarrow> string list \<Rightarrow> 'w \<Rightarrow> Order \<times> 'w" where
  "deleteAll c order [] w = (order, w)"
| "deleteAll c order (sha # shas) w =
     (case DeleteArtifactWorkflow c (awObjectMeta order sha) w of
        (_, w1) \<Rightarrow> deleteAll c (drop_status sha order) shas w1)"

definition reconcileDeletion :: "range_order \<Rightarrow> 'w OrderReconciler \<Rightarrow> Order \<Rightarrow> ('w, Result) io" where
  "reconcileDeletion \<rho> r order w =
     (if statuses order \<noteq> fmempty then
        (case deleteAll (OR_Client r) order (\<rho> ''deletion'' (fmdom (statuses order))) w of
           (order1, w1) \<Rightarrow>
             bind_io (put_io ''failed to update order status'' (UpdateOrderStatus (OR_Client r) order1))
               (\<lambda>_. return_io \<lparr>Requeue = True\<rparr>) w1)
      else if orderFinalizer \<in> set (Order_Finalizers order) then
        bind_io (put_io ''failed to remove finalizer''
            (UpdateOrder (OR_Client r)
               (set_Order_Finalizers (filter (\<lambda>f. f \<noteq> orderFinalizer) (Order_Finalizers order)) order)))
          (\<lambda>_. return_io done_result) w
      else (Inr done_result, w))"

definition addFinalizer :: "'w OrderReconciler \<Rightarrow> Order \<Rightarrow> ('w, Result) io" where
  "addFinalizer r order =
     bind_io (put_io ''failed to add finalizer''
         (UpdateOrder (OR_Client r)
            (set_Order_Finalizers (Order_Finalizers order @ [orderFinalizer]) order)))
       (\<lambda>_. return_io done_result)"

subsection \<open>The desired artifact workflows\<close>

definition refName :: "LocalObjectReference \<Rightarrow> LocalObjectReference \<Rightarrow> string" where
  "refName ref fallback = (if Ref_Name ref = [] then Ref_Name fallback else Ref_Name ref)"

definition srcRefName :: "Order \<Rightarrow> OrderArtifact \<Rightarrow> string" where
  "srcRefName order artifact =
     refName (OrderArtifact_SrcRef artifact) (OrderDefaults_SrcRef (OrderSpec_Defaults (Order_Spec order)))"

definition dstRefName :: "Order \<Rightarrow> OrderArtifact \<Rightarrow> string" where
  "dstRefName order artifact =
     refName (OrderArtifact_DstRef artifact) (OrderDefaults_DstRef (OrderSpec_Defaults (Order_Spec order)))"

text \<open>The data the hash is made of, and the hash itself.\<close>

definition hashData ::
  "Order \<Rightarrow> OrderArtifact \<Rightarrow> Endpoint \<Rightarrow> Endpoint \<Rightarrow> Secret \<Rightarrow> Secret \<Rightarrow> any_value list" where
  "hashData order artifact srcEndpoint dstEndpoint srcSecret dstSecret =
     [AString (Order_Namespace order),
      AString (OrderArtifact_Type artifact), ABytes (Raw (OrderArtifact_Spec artifact)),
      AString (Meta_Name (Endpoint_ObjectMeta srcEndpoint)),
      AInt (Meta_Generation (Endpoint_ObjectMeta srcEndpoint)),
      AString (Meta_Name (Endpoint_ObjectMeta dstEndpoint)),
      AInt (Meta_Generation (Endpoint_ObjectMeta dstEndpoint)),
      AString (Meta_Name (Secret_ObjectMeta srcSecret)),
      AInt (Meta_Generation (Secret_ObjectMeta srcSecret)),
      AString (Meta_Name (Secret_ObjectMeta dstSecret)),
      AInt (Meta_Generation (Secret_ObjectMeta dstSecret))]"

definition shaOf :: "byte list \<Rightarrow> string" where
  "shaOf jsonData = take 16 (EncodeToString (Sum256 jsonData))"

definition desiredArtifact :: "'w Client \<Rightarrow> Order \<Rightarrow> int \<Rightarrow> OrderArtifact \<Rightarrow> ('w, string \<times> desiredAW) io" where
  "desiredArtifact c order i artifact =
     bind_io (get_io ''failed to fetch endpoint for source''
         (GetEndpoint c (namespacedName (Order_Namespace order) (srcRefName order artifact)))) (\<lambda>srcEndpoint.
     bind_io (get_io ''failed to fetch endpoint for destination''
         (GetEndpoint c (namespacedName (Order_Namespace order) (dstRefName order artifact)))) (\<lambda>dstEndpoint.
     bind_io (fetchSecret c (Order_Namespace order) (secretRefName srcEndpoint)
         ''failed to fetch secret for source'') (\<lambda>srcSecret.
     bind_io (fetchSecret c (Order_Namespace order) (secretRefName dstEndpoint)
         ''failed to fetch secret for destination'') (\<lambda>dstSecret.
       case Marshal (hashData order artifact srcEndpoint dstEndpoint srcSecret dstSecret) of
         Inl e \<Rightarrow> fail_io (wrapErr e ''failed to marshal fragment data'')
       | Inr jsonData \<Rightarrow>
           (let sha = shaOf jsonData in
            return_io (sha,
              \<lparr>daw_index = i, daw_objectMeta = awObjectMeta order sha, daw_artifact = artifact,
               daw_srcEndpoint = srcEndpoint, daw_dstEndpoint = dstEndpoint,
               daw_srcSecret = srcSecret, daw_dstSecret = dstSecret\<rparr>))))))"

fun desiredLoop :: "'w Client \<Rightarrow> Order \<Rightarrow> int \<Rightarrow> OrderArtifact list \<Rightarrow>
    (string, desiredAW) fmap \<Rightarrow> ('w, (string, desiredAW) fmap) io" where
  "desiredLoop c order i [] desiredAWs = return_io desiredAWs"
| "desiredLoop c order i (artifact # artifacts) desiredAWs =
     bind_io (desiredArtifact c order i artifact) (\<lambda>(sha, daw).
       desiredLoop c order (i + 1) artifacts (fmupd sha daw desiredAWs))"

definition createAWs :: "range_order \<Rightarrow> (string, desiredAW) fmap \<Rightarrow> Order \<Rightarrow> string list" where
  "createAWs \<rho> desiredAWs order =
     filter (\<lambda>sha. sha |\<notin>| fmdom (statuses order)) (\<rho> ''createAWs'' (fmdom desiredAWs))"

definition deleteAWs :: "range_order \<Rightarrow> (string, desiredAW) fmap \<Rightarrow> Order \<Rightarrow> string list" where
  "deleteAWs \<rho> desiredAWs order =
     filter (\<lambda>sha. sha |\<notin>| fmdom desiredAWs) (\<rho> ''deleteAWs'' (fmdom (statuses order)))"

text \<open>\<open>if order.Status.ArtifactWorkflows == nil\<close>: an empty map.\<close>

definition init_status :: "Order \<Rightarrow> Order" where
  "init_status order = set_ArtifactWorkflows (Some (statuses order)) order"

subsection \<open>Creating, deleting, updating\<close>

definition hydrateArtifactWorkflow ::
  "range_order \<Rightarrow> entry_order \<Rightarrow> desiredAW \<Rightarrow> ArtifactWorkflow res" where
  "hydrateArtifactWorkflow \<rho> \<pi> daw =
     bind_res (dawToParameters \<rho> \<pi> daw) (\<lambda>params.
       Inr \<lparr>AW_TypeMeta = zero_TypeMeta, AW_ObjectMeta = daw_objectMeta daw,
            AW_Spec =
              \<lparr>AWSpec_Type = OrderArtifact_Type (daw_artifact daw), AWSpec_Parameters = params,
               AWSpec_SrcSecretRef = EndpointSpec_SecretRef (Endpoint_Spec (daw_srcEndpoint daw)),
               AWSpec_DstSecretRef = EndpointSpec_SecretRef (Endpoint_Spec (daw_dstEndpoint daw))\<rparr>,
            AW_Status = zero_AWStatus\<rparr>)"

text \<open>
  One round of the loop up to the request: hydrate, then set the owner. An error is wrapped with its
  own text each time, a panic is passed on.
\<close>

definition ownedWorkflow ::
  "range_order \<Rightarrow> entry_order \<Rightarrow> 'w OrderReconciler \<Rightarrow> Order \<Rightarrow> desiredAW \<Rightarrow> ArtifactWorkflow res" where
  "ownedWorkflow \<rho> \<pi> r order daw =
     (case hydrateArtifactWorkflow \<rho> \<pi> daw of
        Inl (Panic p) \<Rightarrow> Inl (Panic p)
      | Inl (Err e) \<Rightarrow> Inl (wrapErr e ''failed to hydrate artifact workflow'')
      | Inr aw \<Rightarrow>
          (case OR_SetControllerReference r order aw of
             Inl e \<Rightarrow> Inl (wrapErr e ''failed to set controller reference'')
           | Inr aw1 \<Rightarrow> Inr aw1))"

text \<open>Whether the workflow was created now; \<open>False\<close> if it was there already.\<close>

definition createWorkflow :: "'w Client \<Rightarrow> ArtifactWorkflow \<Rightarrow> ('w, bool) io" where
  "createWorkflow c aw w =
     (case CreateArtifactWorkflow c aw w of
        (None, w1) \<Rightarrow> (Inr True, w1)
      | (Some e, w1) \<Rightarrow>
          if IsAlreadyExists e then (Inr False, w1)
          else (Inl (wrapApi e ''failed to create artifact workflow''), w1))"

fun createLoop :: "range_order \<Rightarrow> entry_order \<Rightarrow> 'w OrderReconciler \<Rightarrow> (string, desiredAW) fmap \<Rightarrow>
    string list \<Rightarrow> Order \<Rightarrow> ('w, Order) io" where
  "createLoop \<rho> \<pi> r desiredAWs [] order = return_io order"
| "createLoop \<rho> \<pi> r desiredAWs (sha # shas) order =
     (case fmlookup desiredAWs sha of
        None \<Rightarrow> fail_io nil_panic
      | Some daw \<Rightarrow>
          (case ownedWorkflow \<rho> \<pi> r order daw of
             Inl f \<Rightarrow> fail_io f
           | Inr aw \<Rightarrow>
               bind_io (createWorkflow (OR_Client r) aw) (\<lambda>created.
                 createLoop \<rho> \<pi> r desiredAWs shas
                   (if created
                    then put_status sha
                      (zero_OAWStatus\<lparr>OAWStatus_ArtifactIndex := daw_index daw,
                                      OAWStatus_Phase := WorkflowUnknown\<rparr>) order
                    else order))))"

definition deleteWorkflow :: "'w Client \<Rightarrow> ObjectMeta \<Rightarrow> ('w, unit) io" where
  "deleteWorkflow c m w =
     (case DeleteArtifactWorkflow c m w of
        (err, w1) \<Rightarrow>
          (case IgnoreNotFound err of
             Some e \<Rightarrow> (Inl (wrapApi e ''failed to delete artifact workflow''), w1)
           | None \<Rightarrow> (Inr (), w1)))"

fun deleteLoop :: "'w Client \<Rightarrow> string list \<Rightarrow> Order \<Rightarrow> ('w, Order) io" where
  "deleteLoop c [] order = return_io order"
| "deleteLoop c (sha # shas) order =
     bind_io (deleteWorkflow c (awObjectMeta order sha)) (\<lambda>_. deleteLoop c shas (drop_status sha order))"

definition status_of :: "Order \<Rightarrow> string \<Rightarrow> OrderArtifactWorkflowStatus" where
  "status_of order sha = get_or zero_OAWStatus (statuses order) sha"

fun phaseLoop :: "'w Client \<Rightarrow> (string, desiredAW) fmap \<Rightarrow> string list \<Rightarrow> string list \<Rightarrow>
    Order \<Rightarrow> bool \<Rightarrow> ('w, Order \<times> bool) io" where
  "phaseLoop c desiredAWs created [] order anyPhaseChanged = return_io (order, anyPhaseChanged)"
| "phaseLoop c desiredAWs created (sha # shas) order anyPhaseChanged =
     (if sha \<in> set created then phaseLoop c desiredAWs created shas order anyPhaseChanged
      else
        (case fmlookup desiredAWs sha of
           None \<Rightarrow> fail_io nil_panic
         | Some daw \<Rightarrow>
             bind_io (get_io ''failed to get artifact workflow''
                 (GetArtifactWorkflow c
                    (namespacedName (Meta_Namespace (daw_objectMeta daw)) (Meta_Name (daw_objectMeta daw)))))
               (\<lambda>aw.
                 if OAWStatus_Phase (status_of order sha) \<noteq> AWStatus_Phase (AW_Status aw)
                 then phaseLoop c desiredAWs created shas
                        (put_status sha
                           ((status_of order sha)\<lparr>OAWStatus_Phase := AWStatus_Phase (AW_Status aw)\<rparr>) order)
                        True
                 else phaseLoop c desiredAWs created shas order anyPhaseChanged)))"

fun indexLoop :: "(string, desiredAW) fmap \<Rightarrow> string list \<Rightarrow> Order \<Rightarrow> Order" where
  "indexLoop desiredAWs [] order = order"
| "indexLoop desiredAWs (sha # shas) order =
     (case fmlookup desiredAWs sha of
        None \<Rightarrow> indexLoop desiredAWs shas order
      | Some daw \<Rightarrow>
          indexLoop desiredAWs shas
            (put_status sha ((status_of order sha)\<lparr>OAWStatus_ArtifactIndex := daw_index daw\<rparr>) order))"

definition updateStatus :: "range_order \<Rightarrow> 'w Client \<Rightarrow> (string, desiredAW) fmap \<Rightarrow> bool \<Rightarrow>
    Order \<Rightarrow> ('w, Result) io" where
  "updateStatus \<rho> c desiredAWs changed order =
     (if changed then
        bind_io (put_io ''failed to update status''
            (UpdateOrderStatus c (indexLoop desiredAWs (\<rho> ''index'' (fmdom desiredAWs)) order)))
          (\<lambda>_. return_io done_result)
      else return_io done_result)"

text \<open>Lines 189 to 288: from the desired state to the requests and the status.\<close>

definition applyDesired :: "range_order \<Rightarrow> entry_order \<Rightarrow> 'w OrderReconciler \<Rightarrow> Order \<Rightarrow>
    (string, desiredAW) fmap \<Rightarrow> ('w, Result) io" where
  "applyDesired \<rho> \<pi> r order desiredAWs =
     (let missing = createAWs \<rho> desiredAWs order;
          order0 = init_status order;
          obsolete = deleteAWs \<rho> desiredAWs order0 in
      bind_io (createLoop \<rho> \<pi> r desiredAWs missing order0) (\<lambda>order1.
      bind_io (deleteLoop (OR_Client r) obsolete order1) (\<lambda>order2.
      bind_io (phaseLoop (OR_Client r) desiredAWs missing (\<rho> ''phases'' (fmdom desiredAWs)) order2 False)
        (\<lambda>(order3, anyPhaseChanged).
          updateStatus \<rho> (OR_Client r) desiredAWs
            (missing \<noteq> [] \<or> obsolete \<noteq> [] \<or> anyPhaseChanged) order3))))"

definition reconcileArtifacts ::
  "range_order \<Rightarrow> entry_order \<Rightarrow> 'w OrderReconciler \<Rightarrow> Order \<Rightarrow> ('w, Result) io" where
  "reconcileArtifacts \<rho> \<pi> r order =
     bind_io (desiredLoop (OR_Client r) order 0 (OrderSpec_Artifacts (Order_Spec order)) fmempty)
       (applyDesired \<rho> \<pi> r order)"

definition OrderReconciler_Reconcile ::
  "range_order \<Rightarrow> entry_order \<Rightarrow> 'w OrderReconciler \<Rightarrow> NamespacedName \<Rightarrow> ('w, Result) io" where
  "OrderReconciler_Reconcile \<rho> \<pi> r req w =
     (case GetOrder (OR_Client r) req w of
        (Inl e, w1) \<Rightarrow>
          if IsNotFound e then (Inr done_result, w1) else (Inl (wrapApi e ''failed to get object''), w1)
      | (Inr order, w1) \<Rightarrow>
          if Order_deleting order then reconcileDeletion \<rho> r order w1
          else if orderFinalizer \<notin> set (Order_Finalizers order) then addFinalizer r order w1
          else reconcileArtifacts \<rho> \<pi> r order w1)"

subsection \<open>Requests for the orders of an endpoint\<close>

definition endpointListOptions :: "ObjectMeta \<Rightarrow> ListOptions" where
  "endpointListOptions endpoint =
     \<lparr>ListOptions_FieldSelector =
        fmap_of_list [(''.spec.srcRef.name'', Meta_Name endpoint), (''.spec.dstRef.name'', Meta_Name endpoint)],
      ListOptions_Namespace = Meta_Namespace endpoint\<rparr>"

definition generateReconcileRequestsForEndpoint ::
  "'w OrderReconciler \<Rightarrow> ObjectMeta \<Rightarrow> 'w \<Rightarrow> NamespacedName list \<times> 'w" where
  "generateReconcileRequestsForEndpoint r endpoint w =
     (case ListOrders (OR_Client r) (endpointListOptions endpoint) w of
        (Inl e, w1) \<Rightarrow> ([], w1)
      | (Inr items, w1) \<Rightarrow>
          (map (\<lambda>item. namespacedName (Order_Namespace item) (Order_Name item)) items, w1))"


subsection \<open>The status map\<close>

lemma statuses_simps [simp]:
  "statuses (set_ArtifactWorkflows m order) = entries m"
  "statuses (put_status sha s order) = fmupd sha s (statuses order)"
  "statuses (drop_status sha order) = fmdrop sha (statuses order)"
  "statuses (init_status order) = statuses order"
  "statuses (set_Order_Finalizers fs order) = statuses order"
  by (simp_all add: statuses_def put_status_def drop_status_def init_status_def
      set_ArtifactWorkflows_def set_Order_Finalizers_def Order_ArtifactWorkflows_def entries_def
      split: option.splits)

text \<open>
  The loops only ever change the status map: \<open>same_but_status\<close> says that two orders agree in all
  the rest.
\<close>

definition same_but_status :: "Order \<Rightarrow> Order \<Rightarrow> bool" where
  "same_but_status a b \<longleftrightarrow> set_ArtifactWorkflows None a = set_ArtifactWorkflows None b"

lemma same_but_status_iff:
  "same_but_status a b \<longleftrightarrow> (\<exists>m. a = set_ArtifactWorkflows m b)"
proof
  assume "same_but_status a b"
  then have "a = set_ArtifactWorkflows (Order_ArtifactWorkflows a) b"
    by (cases a; cases b) (auto simp: same_but_status_def set_ArtifactWorkflows_def
        Order_ArtifactWorkflows_def intro!: OrderStatus.equality)
  then show "\<exists>m. a = set_ArtifactWorkflows m b" ..
qed (auto simp: same_but_status_def set_ArtifactWorkflows_def)

lemma same_but_status_refl [simp]: "same_but_status a a"
  by (simp add: same_but_status_def)

lemma same_but_status_trans: "same_but_status a b \<Longrightarrow> same_but_status b d \<Longrightarrow> same_but_status a d"
  by (simp add: same_but_status_def)

lemma same_but_status_set [simp]:
  "same_but_status (set_ArtifactWorkflows m a) b \<longleftrightarrow> same_but_status a b"
  "same_but_status (put_status sha s a) b \<longleftrightarrow> same_but_status a b"
  "same_but_status (drop_status sha a) b \<longleftrightarrow> same_but_status a b"
  "same_but_status (init_status a) b \<longleftrightarrow> same_but_status a b"
  "same_but_status a (set_ArtifactWorkflows m b) \<longleftrightarrow> same_but_status a b"
  "same_but_status a (put_status sha s b) \<longleftrightarrow> same_but_status a b"
  "same_but_status a (drop_status sha b) \<longleftrightarrow> same_but_status a b"
  "same_but_status a (init_status b) \<longleftrightarrow> same_but_status a b"
  by (simp_all add: same_but_status_def put_status_def drop_status_def init_status_def
      set_ArtifactWorkflows_def)

lemma same_but_status_meta:
  assumes "same_but_status a b"
  shows "awObjectMeta a sha = awObjectMeta b sha" and "Order_Name a = Order_Name b"
    and "Order_Namespace a = Order_Namespace b" and "Order_Spec a = Order_Spec b"
    and "Order_ObjectMeta a = Order_ObjectMeta b"
  using assms
  by (auto simp: same_but_status_iff awObjectMeta_def awName_def api_defs set_ArtifactWorkflows_def)

subsection \<open>Names\<close>

lemma length_shaOf [simp]: "length (shaOf bs) = 16"
  by (simp add: shaOf_def)

lemma awObjectMeta_simps [simp]:
  "Meta_Name (awObjectMeta order sha) = awName order sha"
  "Meta_Namespace (awObjectMeta order sha) = Order_Namespace order"
  by (simp_all add: awObjectMeta_def)

lemma awName_inj:
  assumes "awName a s = awName b t" and "length s = length t"
  shows "Order_Name a = Order_Name b \<and> s = t"
proof -
  have "(Order_Name a @ ''-'') @ s = (Order_Name b @ ''-'') @ t"
    using assms(1) by (simp add: awName_def)
  then show ?thesis
    using append_eq_same_length [OF _ assms(2)] by fastforce
qed


subsection \<open>The desired state, specified\<close>

text \<open>
  The key of a desired artifact workflow, and the abstract specification of the first loop: if the
  cluster answers reads from a fixed view, an entry is made for each artifact from the endpoints and
  secrets the view holds for it.
\<close>

definition daw_sha :: "Order \<Rightarrow> desiredAW \<Rightarrow> string" where
  "daw_sha order daw =
     shaOf (marshal_array (hashData order (daw_artifact daw) (daw_srcEndpoint daw) (daw_dstEndpoint daw)
        (daw_srcSecret daw) (daw_dstSecret daw)))"

record cluster_view =
  view_Endpoint :: "NamespacedName \<Rightarrow> api_error + Endpoint"
  view_Secret :: "NamespacedName \<Rightarrow> api_error + Secret"

definition answers :: "'w Client \<Rightarrow> cluster_view \<Rightarrow> 'w \<Rightarrow> bool" where
  "answers c v w \<longleftrightarrow>
     (\<forall>n. GetEndpoint c n w = (view_Endpoint v n, w)) \<and> (\<forall>n. GetSecret c n w = (view_Secret v n, w))"

definition secret_resolves :: "cluster_view \<Rightarrow> string \<Rightarrow> Endpoint \<Rightarrow> Secret \<Rightarrow> bool" where
  "secret_resolves v ns ep s \<longleftrightarrow>
     (if secretRefName ep = [] then s = zero_Secret else view_Secret v (ns, secretRefName ep) = Inr s)"

definition resolves :: "cluster_view \<Rightarrow> Order \<Rightarrow> int \<Rightarrow> OrderArtifact \<Rightarrow> desiredAW \<Rightarrow> bool" where
  "resolves v order i artifact daw \<longleftrightarrow>
     daw_index daw = i \<and> daw_artifact daw = artifact \<and>
     daw_objectMeta daw = awObjectMeta order (daw_sha order daw) \<and>
     view_Endpoint v (Order_Namespace order, srcRefName order artifact) = Inr (daw_srcEndpoint daw) \<and>
     view_Endpoint v (Order_Namespace order, dstRefName order artifact) = Inr (daw_dstEndpoint daw) \<and>
     secret_resolves v (Order_Namespace order) (daw_srcEndpoint daw) (daw_srcSecret daw) \<and>
     secret_resolves v (Order_Namespace order) (daw_dstEndpoint daw) (daw_dstSecret daw)"

lemma fetchSecret_answers:
  assumes "answers c v w"
  shows "fetchSecret c ns (secretRefName ep) text w = (Inr s, w1) \<longleftrightarrow> w1 = w \<and> secret_resolves v ns ep s"
  using assms by (auto simp: fetchSecret_def secret_resolves_def answers_def get_io_Inr)

lemma desiredArtifact_Inr:
  "desiredArtifact c order i artifact w = (Inr (sha, daw), w4) \<longleftrightarrow>
     (\<exists>w1 w2 w3.
        GetEndpoint c (Order_Namespace order, srcRefName order artifact) w = (Inr (daw_srcEndpoint daw), w1) \<and>
        GetEndpoint c (Order_Namespace order, dstRefName order artifact) w1 = (Inr (daw_dstEndpoint daw), w2) \<and>
        fetchSecret c (Order_Namespace order) (secretRefName (daw_srcEndpoint daw))
          ''failed to fetch secret for source'' w2 = (Inr (daw_srcSecret daw), w3) \<and>
        fetchSecret c (Order_Namespace order) (secretRefName (daw_dstEndpoint daw))
          ''failed to fetch secret for destination'' w3 = (Inr (daw_dstSecret daw), w4)) \<and>
     daw_index daw = i \<and> daw_artifact daw = artifact \<and> sha = daw_sha order daw \<and>
     daw_objectMeta daw = awObjectMeta order sha"
  by (cases daw) (auto simp: desiredArtifact_def io_Inr namespacedName_def Marshal_def daw_sha_def Let_def)

lemma desiredArtifact_answers:
  assumes "answers c v w"
  shows "desiredArtifact c order i artifact w = (Inr (sha, daw), w1) \<longleftrightarrow>
    w1 = w \<and> sha = daw_sha order daw \<and> resolves v order i artifact daw"
proof -
  have ep: "GetEndpoint c n w = (Inr e, w2) \<longleftrightarrow> w2 = w \<and> view_Endpoint v n = Inr e" for n e w2
    using assms by (cases n) (auto simp: answers_def)
  show ?thesis
    unfolding desiredArtifact_Inr resolves_def
    using ep fetchSecret_answers [OF assms] by auto
qed

fun resolve_all :: "cluster_view \<Rightarrow> Order \<Rightarrow> int \<Rightarrow> OrderArtifact list \<Rightarrow> desiredAW list \<Rightarrow> bool" where
  "resolve_all v order i [] daws \<longleftrightarrow> daws = []"
| "resolve_all v order i (a # as) daws \<longleftrightarrow>
     (case daws of [] \<Rightarrow> False | d # ds \<Rightarrow> resolves v order i a d \<and> resolve_all v order (i + 1) as ds)"

definition keyed :: "Order \<Rightarrow> desiredAW list \<Rightarrow> (string \<times> desiredAW) list" where
  "keyed order daws = map (\<lambda>d. (daw_sha order d, d)) daws"

lemma desiredLoop_answers:
  assumes "answers c v w"
  shows "desiredLoop c order i arts acc w = (Inr desired, w1) \<longleftrightarrow>
    w1 = w \<and> (\<exists>daws. resolve_all v order i arts daws \<and>
      desired = fold (\<lambda>(k, d). fmupd k d) (keyed order daws) acc)"
proof (induction arts arbitrary: i acc)
  case Nil
  show ?case by (auto simp: keyed_def)
next
  case (Cons a arts)
  have "desiredLoop c order i (a # arts) acc w = (Inr desired, w1) \<longleftrightarrow>
      (\<exists>daw. resolves v order i a daw \<and>
         desiredLoop c order (i + 1) arts (fmupd (daw_sha order daw) daw acc) w = (Inr desired, w1))"
    by (auto simp: bind_io_Inr desiredArtifact_answers [OF assms])
  also have "\<dots> \<longleftrightarrow> w1 = w \<and> (\<exists>daws. resolve_all v order i (a # arts) daws \<and>
      desired = fold (\<lambda>(k, d). fmupd k d) (keyed order daws) acc)"
    unfolding Cons.IH by (fastforce simp: keyed_def split: list.splits)
  finally show ?case .
qed


text \<open>What holds of the entries in every world, whatever the cluster answers.\<close>

definition daw_ok :: "Order \<Rightarrow> OrderArtifact list \<Rightarrow> string \<Rightarrow> desiredAW \<Rightarrow> bool" where
  "daw_ok order arts sha daw \<longleftrightarrow>
     sha = daw_sha order daw \<and> daw_objectMeta daw = awObjectMeta order sha \<and>
     0 \<le> daw_index daw \<and> nat (daw_index daw) < length arts \<and>
     daw_artifact daw = arts ! nat (daw_index daw)"

lemma desiredLoop_ok:
  assumes "desiredLoop c order (int (length done)) arts acc w = (Inr desired, w1)"
    and "\<And>sha daw. fmlookup acc sha = Some daw \<Longrightarrow> daw_ok order (done @ arts) sha daw"
    and "fmlookup desired sha = Some daw"
  shows "daw_ok order (done @ arts) sha daw"
  using assms
proof (induction arts arbitrary: "done" acc w)
  case (Cons a arts)
  obtain sha1 daw1 w2 where 1: "desiredArtifact c order (int (length done)) a w = (Inr (sha1, daw1), w2)"
    and 2: "desiredLoop c order (int (length (done @ [a]))) arts (fmupd sha1 daw1 acc) w2 = (Inr desired, w1)"
    using Cons.prems(1) by (auto simp: bind_io_Inr algebra_simps)
  have "daw_ok order (done @ a # arts) sha1 daw1"
    using 1 by (auto simp: desiredArtifact_Inr daw_ok_def)
  with Cons.prems(2) have "\<And>s d. fmlookup (fmupd sha1 daw1 acc) s = Some d \<Longrightarrow>
      daw_ok order ((done @ [a]) @ arts) s d"
    by (auto split: if_splits)
  from Cons.IH [OF 2 this Cons.prems(3)] show ?case by simp
qed auto

lemma desiredLoop_ok0:
  assumes "desiredLoop c order 0 arts fmempty w = (Inr desired, w1)"
    and "fmlookup desired sha = Some daw"
  shows "daw_ok order arts sha daw"
  using desiredLoop_ok [of c order "[]" arts fmempty w desired w1 sha daw] assms by simp

subsection \<open>The loops over the status map\<close>

lemma createLoop_status:
  assumes "createLoop \<rho> \<pi> r desired shas order w = (Inr order1, w1)"
  shows "same_but_status order1 order"
    and "k \<notin> set shas \<Longrightarrow> fmlookup (statuses order1) k = fmlookup (statuses order) k"
    and "fmdom' (statuses order) \<subseteq> fmdom' (statuses order1)"
    and "fmdom' (statuses order1) \<subseteq> fmdom' (statuses order) \<union> set shas"
    and "fmlookup (statuses order1) k = fmlookup (statuses order) k \<or>
      (\<exists>s. fmlookup (statuses order1) k = Some s \<and> OAWStatus_Phase s = WorkflowUnknown \<and>
         OAWStatus_Message s = [])"
proof -
  have "same_but_status order1 order \<and>
    (k \<notin> set shas \<longrightarrow> fmlookup (statuses order1) k = fmlookup (statuses order) k) \<and>
    fmdom' (statuses order) \<subseteq> fmdom' (statuses order1) \<and>
    fmdom' (statuses order1) \<subseteq> fmdom' (statuses order) \<union> set shas \<and>
    (fmlookup (statuses order1) k = fmlookup (statuses order) k \<or>
      (\<exists>s. fmlookup (statuses order1) k = Some s \<and> OAWStatus_Phase s = WorkflowUnknown \<and>
         OAWStatus_Message s = []))"
    using assms
  proof (induction shas arbitrary: order w)
    case (Cons sha shas)
    obtain b w2 and daw :: desiredAW where
      "createLoop \<rho> \<pi> r desired shas
         (if b then put_status sha (zero_OAWStatus\<lparr>OAWStatus_ArtifactIndex := daw_index daw,
              OAWStatus_Phase := WorkflowUnknown\<rparr>) order else order) w2 = (Inr order1, w1)"
      using Cons.prems by (auto simp: bind_io_Inr split: option.splits sum.splits)
    from Cons.IH [OF this] show ?case
      by (cases b) (auto simp: zero_OAWStatus_def split: if_splits)
  qed simp
  then show "same_but_status order1 order"
    and "k \<notin> set shas \<Longrightarrow> fmlookup (statuses order1) k = fmlookup (statuses order) k"
    and "fmdom' (statuses order) \<subseteq> fmdom' (statuses order1)"
    and "fmdom' (statuses order1) \<subseteq> fmdom' (statuses order) \<union> set shas"
    and "fmlookup (statuses order1) k = fmlookup (statuses order) k \<or>
      (\<exists>s. fmlookup (statuses order1) k = Some s \<and> OAWStatus_Phase s = WorkflowUnknown \<and>
         OAWStatus_Message s = [])"
    by auto
qed

lemma drop_all_lookup:
  "fmlookup (statuses (fold drop_status shas order)) k =
     (if k \<in> set shas then None else fmlookup (statuses order) k)"
  by (induction shas arbitrary: order) auto

lemma drop_all_same [simp]: "same_but_status (fold drop_status shas order) b \<longleftrightarrow> same_but_status order b"
  by (induction shas arbitrary: order) auto

lemma deleteLoop_status:
  "deleteLoop c shas order w = (Inr order1, w1) \<Longrightarrow> order1 = fold drop_status shas order"
  by (induction shas arbitrary: order w) (auto simp: bind_io_Inr)

lemma status_of_put [simp]:
  "status_of (put_status sha s order) k = (if sha = k then s else status_of order k)"
  by (simp add: status_of_def)

lemma phaseLoop_status:
  assumes "phaseLoop c desired created shas order b w = (Inr (order1, b1), w1)"
  shows "same_but_status order1 order \<and>
    fmdom' (statuses order) \<subseteq> fmdom' (statuses order1) \<and>
    fmdom' (statuses order1) \<subseteq> fmdom' (statuses order) \<union> (set shas \<inter> fmdom' desired) \<and>
    OAWStatus_ArtifactIndex (status_of order1 k) = OAWStatus_ArtifactIndex (status_of order k) \<and>
    (k \<in> set created \<or> k \<notin> set shas \<longrightarrow> fmlookup (statuses order1) k = fmlookup (statuses order) k) \<and>
    (b \<longrightarrow> b1) \<and> (\<not> b1 \<longrightarrow> order1 = order)"
  using assms
proof (induction shas arbitrary: order b w)
  case (Cons sha shas)
  show ?case
  proof (cases "sha \<in> set created")
    case True
    then show ?thesis using Cons.IH [of order b w] Cons.prems by auto
  next
    case False
    obtain daw w2 and aw :: ArtifactWorkflow where 1: "fmlookup desired sha = Some daw" and 2:
      "(if OAWStatus_Phase (status_of order sha) \<noteq> AWStatus_Phase (AW_Status aw)
        then phaseLoop c desired created shas
               (put_status sha ((status_of order sha)\<lparr>OAWStatus_Phase := AWStatus_Phase (AW_Status aw)\<rparr>) order)
               True
        else phaseLoop c desired created shas order b) w2 = (Inr (order1, b1), w1)"
      using Cons.prems False by (auto simp: bind_io_Inr split: option.splits simp del: if_split)
    have 3: "sha \<in> fmdom' desired" using 1 by (rule fmdom'I)
    show ?thesis
    proof (cases "OAWStatus_Phase (status_of order sha) = AWStatus_Phase (AW_Status aw)")
      case True
      with 2 Cons.IH [of order b w2] show ?thesis by auto
    next
      case neq: False
      with 2 have "phaseLoop c desired created shas
          (put_status sha ((status_of order sha)\<lparr>OAWStatus_Phase := AWStatus_Phase (AW_Status aw)\<rparr>) order)
          True w2 = (Inr (order1, b1), w1)" by simp
      from Cons.IH [OF this] 3 False show ?thesis by (cases "sha = k") auto
    qed
  qed
qed simp

lemma indexLoop_same [simp]: "same_but_status (indexLoop desired shas order) b = same_but_status order b"
  by (induction shas arbitrary: order) (auto split: option.splits)

lemma indexLoop_dom:
  "fmdom' (statuses (indexLoop desired shas order)) = fmdom' (statuses order) \<union> (set shas \<inter> fmdom' desired)"
  by (induction shas arbitrary: order) (auto split: option.splits simp: fmlookup_dom'_iff)

lemma indexLoop_phase:
  "OAWStatus_Phase (status_of (indexLoop desired shas order) k) = OAWStatus_Phase (status_of order k)"
  by (induction shas arbitrary: order) (auto split: option.splits)

lemma indexLoop_index:
  assumes "k \<in> set shas" and "fmlookup desired k = Some daw"
  shows "OAWStatus_ArtifactIndex (status_of (indexLoop desired shas order) k) = daw_index daw"
proof -
  have "OAWStatus_ArtifactIndex (status_of (indexLoop desired shas order) k) =
      (if k \<in> set shas then daw_index daw else OAWStatus_ArtifactIndex (status_of order k))"
    using assms(2) by (induction shas arbitrary: order) (auto split: option.splits)
  with assms(1) show ?thesis by simp
qed

end
