(* ===== verification/ArtifactWorkflow_Controller.thy ===== *)
theory ArtifactWorkflow_Controller
  imports Order_Controller
begin

section \<open>The artifact workflow controller (\<^verbatim>\<open>pkg/controller/artifactworkflow_controller.go\<close>)\<close>

text \<open>
  \<open>ArtifactWorkflowReconciler_Reconcile\<close> with its three helpers: the controller creates one Argo
  workflow for an artifact workflow whose phase is unknown, and copies the phase of that workflow
  while it is in progress. The phases an artifact workflow can take this way are the step relation
  \<open>phase_step\<close>.
\<close>

record 'w ArtifactWorkflowReconciler =
  AWR_Client :: "'w Client"
  AWR_SetControllerReference :: "ArtifactWorkflow \<Rightarrow> Workflow \<Rightarrow> go_error + Workflow"

definition artifactWorkflowFinalizer :: string where
  "artifactWorkflowFinalizer = ''arc.bwi.de/artifact-workflow-finalizer''"

definition AW_Name :: "ArtifactWorkflow \<Rightarrow> string" where
  [api_defs]: "AW_Name aw = Meta_Name (AW_ObjectMeta aw)"

definition AW_Namespace :: "ArtifactWorkflow \<Rightarrow> string" where
  [api_defs]: "AW_Namespace aw = Meta_Namespace (AW_ObjectMeta aw)"

definition AW_Finalizers :: "ArtifactWorkflow \<Rightarrow> string list" where
  [api_defs]: "AW_Finalizers aw = Meta_Finalizers (AW_ObjectMeta aw)"

definition AW_deleting :: "ArtifactWorkflow \<Rightarrow> bool" where
  [api_defs]: "AW_deleting aw \<longleftrightarrow> \<not> IsZero (Meta_DeletionTimestamp (AW_ObjectMeta aw))"

definition AW_Phase :: "ArtifactWorkflow \<Rightarrow> WorkflowPhase" where
  [api_defs]: "AW_Phase aw = AWStatus_Phase (AW_Status aw)"

definition set_AW_Finalizers :: "string list \<Rightarrow> ArtifactWorkflow \<Rightarrow> ArtifactWorkflow" where
  "set_AW_Finalizers fs aw = aw\<lparr>AW_ObjectMeta := (AW_ObjectMeta aw)\<lparr>Meta_Finalizers := fs\<rparr>\<rparr>"

definition set_AW_Phase :: "WorkflowPhase \<Rightarrow> ArtifactWorkflow \<Rightarrow> ArtifactWorkflow" where
  "set_AW_Phase p aw = aw\<lparr>AW_Status := (AW_Status aw)\<lparr>AWStatus_Phase := p\<rparr>\<rparr>"

text \<open>The metadata of the Argo workflow: namespace and name of the artifact workflow.\<close>

definition workflowMeta :: "ArtifactWorkflow \<Rightarrow> ObjectMeta" where
  "workflowMeta aw = zero_ObjectMeta\<lparr>Meta_Name := AW_Name aw, Meta_Namespace := AW_Namespace aw\<rparr>"

definition secretVolume :: "string \<Rightarrow> Secret \<Rightarrow> Volume" where
  "secretVolume name secret =
     \<lparr>Volume_Name = name,
      Volume_Source =
        (if Meta_Name (Secret_ObjectMeta secret) \<noteq> []
         then SecretVolume (Meta_Name (Secret_ObjectMeta secret)) else EmptyDir)\<rparr>"

definition argoParameters :: "ArtifactWorkflowParameter list \<Rightarrow> (string \<times> string) list" where
  "argoParameters ps = map (\<lambda>p. (Parameter_Name p, Parameter_Value p)) ps"

definition hydrateArgoWorkflow ::
  "ArtifactWorkflow \<Rightarrow> ArtifactType \<Rightarrow> Secret \<Rightarrow> Secret \<Rightarrow> Workflow" where
  "hydrateArgoWorkflow aw artifactType srcSecret dstSecret =
     \<lparr>Workflow_ObjectMeta = workflowMeta aw,
      Workflow_TemplateRef =
        \<lparr>TemplateRef_Name = Ref_Name (ATSpec_WorkflowTemplateRef (AT_Spec artifactType)),
         TemplateRef_ClusterScope = True\<rparr>,
      Workflow_Volumes = [secretVolume ''src-secret-vol'' srcSecret, secretVolume ''dst-secret-vol'' dstSecret],
      Workflow_Parameters =
        argoParameters (AWSpec_Parameters (AW_Spec aw)) @ argoParameters (ATSpec_Parameters (AT_Spec artifactType)),
      Workflow_Phase = []\<rparr>"

definition createArgo :: "'w Client \<Rightarrow> Workflow \<Rightarrow> ('w, unit) io" where
  "createArgo c wfl w =
     (case CreateWorkflow c wfl w of
        (err, w1) \<Rightarrow>
          (case IgnoreAlreadyExists err of
             Some e \<Rightarrow> (Inl (wrapApi e ''failed to create argo workflow''), w1)
           | None \<Rightarrow> (Inr (), w1)))"

definition createArgoWorkflow :: "'w ArtifactWorkflowReconciler \<Rightarrow> ArtifactWorkflow \<Rightarrow> ('w, Result) io" where
  "createArgoWorkflow r aw =
     bind_io (get_io ''failed to retrieve artifact type''
         (GetArtifactType (AWR_Client r) (namespacedName [] (AWSpec_Type (AW_Spec aw))))) (\<lambda>artifactType.
     bind_io (fetchSecret (AWR_Client r) (AW_Namespace aw) (Ref_Name (AWSpec_SrcSecretRef (AW_Spec aw)))
         ''failed to fetch secret for source'') (\<lambda>srcSecret.
     bind_io (fetchSecret (AWR_Client r) (AW_Namespace aw) (Ref_Name (AWSpec_DstSecretRef (AW_Spec aw)))
         ''failed to fetch secret for destination'') (\<lambda>dstSecret.
       case AWR_SetControllerReference r aw (hydrateArgoWorkflow aw artifactType srcSecret dstSecret) of
         Inl e \<Rightarrow> fail_io (wrapErr e ''failed to set controller reference'')
       | Inr wfl \<Rightarrow>
           bind_io (createArgo (AWR_Client r) wfl) (\<lambda>_.
           bind_io (put_io ''failed to update status''
               (UpdateArtifactWorkflowStatus (AWR_Client r) (set_AW_Phase WorkflowPending aw))) (\<lambda>_.
             return_io done_result)))))"

definition checkArgoWorkflow :: "'w ArtifactWorkflowReconciler \<Rightarrow> ArtifactWorkflow \<Rightarrow> ('w, Result) io" where
  "checkArgoWorkflow r aw =
     bind_io (get_io ''failed to get workflow''
         (GetWorkflow (AWR_Client r) (namespacedName (AW_Namespace aw) (AW_Name aw)))) (\<lambda>wfl.
     bind_io (put_io ''failed to update status''
         (UpdateArtifactWorkflowStatus (AWR_Client r) (set_AW_Phase (Workflow_Phase wfl) aw))) (\<lambda>_.
       return_io done_result))"

definition deleteArgo :: "'w Client \<Rightarrow> ObjectMeta \<Rightarrow> ('w, unit) io" where
  "deleteArgo c m w =
     (case DeleteWorkflow c m w of
        (err, w1) \<Rightarrow>
          (case IgnoreNotFound err of
             Some e \<Rightarrow> (Inl (wrapApi e ''workflow deletion failed''), w1)
           | None \<Rightarrow> (Inr (), w1)))"

definition deleteArtifactWorkflow :: "'w ArtifactWorkflowReconciler \<Rightarrow> ArtifactWorkflow \<Rightarrow> ('w, Result) io" where
  "deleteArtifactWorkflow r aw =
     bind_io (deleteArgo (AWR_Client r) (workflowMeta aw)) (\<lambda>_.
       if artifactWorkflowFinalizer \<in> set (AW_Finalizers aw) then
         bind_io (put_io ''failed to remove finalizer''
             (UpdateArtifactWorkflow (AWR_Client r)
                (set_AW_Finalizers (filter (\<lambda>f. f \<noteq> artifactWorkflowFinalizer) (AW_Finalizers aw)) aw)))
           (\<lambda>_. return_io done_result)
       else return_io done_result)"

definition addAWFinalizer :: "'w ArtifactWorkflowReconciler \<Rightarrow> ArtifactWorkflow \<Rightarrow> ('w, Result) io" where
  "addAWFinalizer r aw =
     bind_io (put_io ''failed to add finalizer''
         (UpdateArtifactWorkflow (AWR_Client r)
            (set_AW_Finalizers (AW_Finalizers aw @ [artifactWorkflowFinalizer]) aw)))
       (\<lambda>_. return_io done_result)"

definition reconcilePhase :: "'w ArtifactWorkflowReconciler \<Rightarrow> ArtifactWorkflow \<Rightarrow> ('w, Result) io" where
  "reconcilePhase r aw =
     (if Completed (AW_Phase aw) then return_io done_result
      else if AW_Phase aw = WorkflowUnknown then createArgoWorkflow r aw
      else if InProgress (AW_Phase aw) then checkArgoWorkflow r aw
      else return_io done_result)"

definition ArtifactWorkflowReconciler_Reconcile ::
  "'w ArtifactWorkflowReconciler \<Rightarrow> NamespacedName \<Rightarrow> ('w, Result) io" where
  "ArtifactWorkflowReconciler_Reconcile r req w =
     (case GetArtifactWorkflow (AWR_Client r) req w of
        (Inl e, w1) \<Rightarrow>
          if IsNotFound e then (Inr done_result, w1) else (Inl (wrapApi e ''failed to get object''), w1)
      | (Inr aw, w1) \<Rightarrow>
          if AW_deleting aw then deleteArtifactWorkflow r aw w1
          else if artifactWorkflowFinalizer \<notin> set (AW_Finalizers aw) then addAWFinalizer r aw w1
          else reconcilePhase r aw w1)"

subsection \<open>The phases\<close>

text \<open>How the controller can change the phase of an artifact workflow, given Argo's phases \<open>argo\<close>.\<close>

inductive phase_step :: "(WorkflowPhase \<Rightarrow> bool) \<Rightarrow> WorkflowPhase \<Rightarrow> WorkflowPhase \<Rightarrow> bool" for argo where
  submit: "phase_step argo WorkflowUnknown WorkflowPending"
| follow: "InProgress p \<Longrightarrow> argo q \<Longrightarrow> phase_step argo p q"

inductive_simps phase_step_from: "phase_step argo p q"
inductive_cases phase_stepE: "phase_step argo p q"

definition ArgoPhase :: "WorkflowPhase \<Rightarrow> bool" where
  "ArgoPhase p \<longleftrightarrow> p \<in> {WorkflowUnknown, WorkflowPending, WorkflowRunning, WorkflowSucceeded, WorkflowFailed, WorkflowError}"

lemma phase_steps_Completed:
  assumes "(phase_step argo)\<^sup>*\<^sup>* p q" and "Completed p"
  shows "q = p"
  using assms
proof (induction rule: converse_rtranclp_induct)
  case (step p q)
  then show ?case by (auto elim!: phase_stepE dest: Completed_not_InProgress)
qed simp

lemma phase_steps_known:
  assumes "(phase_step argo)\<^sup>*\<^sup>* p q" and "ArgoPhase p" and "\<And>q. argo q \<Longrightarrow> ArgoPhase q"
  shows "ArgoPhase q"
  using assms by (induction rule: rtranclp_induct) (auto elim!: phase_stepE simp: ArgoPhase_def)

subsection \<open>Requests\<close>

definition recorded_AWR :: "'w ArtifactWorkflowReconciler \<Rightarrow> ('w \<times> request list) ArtifactWorkflowReconciler" where
  "recorded_AWR r =
     \<lparr>AWR_Client = recording (AWR_Client r), AWR_SetControllerReference = AWR_SetControllerReference r\<rparr>"

definition aw_requests :: "'w ArtifactWorkflowReconciler \<Rightarrow> NamespacedName \<Rightarrow> 'w \<Rightarrow> request list" where
  "aw_requests r req w = snd (snd (ArtifactWorkflowReconciler_Reconcile (recorded_AWR r) req (w, [])))"

lemma recorded_AWR_simps [client_simps]:
  "AWR_Client (recorded_AWR r) = recording (AWR_Client r)"
  "AWR_SetControllerReference (recorded_AWR r) = AWR_SetControllerReference r"
  by (simp_all add: recorded_AWR_def)

context client_simulation
begin

lemma sim_createArgo: "op_sim R (createArgo c x) (createArgo d x)"
  by (rule op_simI, rule op_simD [OF sim_CreateWorkflow [of x]], assumption)
    (auto simp: createArgo_def split: option.splits)

lemma sim_deleteArgo: "op_sim R (deleteArgo c x) (deleteArgo d x)"
  by (rule op_simI, rule op_simD [OF sim_DeleteWorkflow [of x]], assumption)
    (auto simp: deleteArgo_def split: option.splits)

lemma sim_AW_Reconcile:
  assumes "AWR_Client r = c" "AWR_Client q = d" "AWR_SetControllerReference r = AWR_SetControllerReference q"
  shows "op_sim R (ArtifactWorkflowReconciler_Reconcile r req) (ArtifactWorkflowReconciler_Reconcile q req)"
proof (rule op_simI)
  fix w v
  assume "R w v"
  with sim_GetArtifactWorkflow obtain x w1 v1 where
    1: "GetArtifactWorkflow c req w = (x, w1)" "GetArtifactWorkflow d req v = (x, v1)" "R w1 v1" by (rule op_simD)
  have create: "op_sim R (createArgoWorkflow r aw) (createArgoWorkflow q aw)" for aw
    unfolding createArgoWorkflow_def assms
    by (auto intro!: op_sim_bind sim_createArgo split: sum.splits)
  have "op_sim R (checkArgoWorkflow r aw) (checkArgoWorkflow q aw)"
    "op_sim R (deleteArtifactWorkflow r aw) (deleteArtifactWorkflow q aw)"
    "op_sim R (addAWFinalizer r aw) (addAWFinalizer q aw)" for aw
    unfolding checkArgoWorkflow_def deleteArtifactWorkflow_def addAWFinalizer_def assms
    by (auto intro!: op_sim_bind sim_deleteArgo)
  with 1 assms create
  show "fst (ArtifactWorkflowReconciler_Reconcile r req w) = fst (ArtifactWorkflowReconciler_Reconcile q req v) \<and>
      R (snd (ArtifactWorkflowReconciler_Reconcile r req w)) (snd (ArtifactWorkflowReconciler_Reconcile q req v))"
    by (cases x) (auto simp: ArtifactWorkflowReconciler_Reconcile_def reconcilePhase_def op_sim_def)
qed

end


lemma aw_recorded_run:
  "fst (ArtifactWorkflowReconciler_Reconcile (recorded_AWR r) req s) =
     fst (ArtifactWorkflowReconciler_Reconcile r req (fst s)) \<and>
   fst (snd (ArtifactWorkflowReconciler_Reconcile (recorded_AWR r) req s)) =
     snd (ArtifactWorkflowReconciler_Reconcile r req (fst s))"
  using transparent.sim_AW_Reconcile [of "recorded_AWR r" "AWR_Client r" r req]
  by (cases s) (simp add: recorded_AWR_simps op_sim_def)

lemma AW_Reconcile_recording:
  assumes "GetArtifactWorkflow (AWR_Client r) req w = (Inr aw, w1)"
  shows "ArtifactWorkflowReconciler_Reconcile (recorded_AWR r) req (w, t) =
    (if AW_deleting aw then deleteArtifactWorkflow (recorded_AWR r) aw
     else if artifactWorkflowFinalizer \<notin> set (AW_Finalizers aw) then addAWFinalizer (recorded_AWR r) aw
     else reconcilePhase (recorded_AWR r) aw) (w1, t @ [ReqGetArtifactWorkflow req])"
  using assms by (simp add: ArtifactWorkflowReconciler_Reconcile_def client_simps)

lemma deleteArgo_recording:
  "deleteArgo (recording c) m (w, t) =
     (fst (deleteArgo c m w), snd (deleteArgo c m w), t @ [ReqDeleteWorkflow m])"
  by (simp add: deleteArgo_def client_simps split: option.splits prod.splits)

lemma createArgo_recording:
  "createArgo (recording c) x (w, t) =
     (fst (createArgo c x w), snd (createArgo c x w), t @ [ReqCreateWorkflow x])"
  by (simp add: createArgo_def client_simps split: option.splits prod.splits)

lemma get_io_recording:
  "get_io text (logged req f x) (w, t) = (fst (get_io text (f x) w), snd (get_io text (f x) w), t @ [req x])"
  by (simp add: get_io_def split: sum.splits prod.splits)

lemma put_io_recording:
  "put_io text (logged req f x) (w, t) = (fst (put_io text (f x) w), snd (put_io text (f x) w), t @ [req x])"
  by (simp add: put_io_def split: option.splits prod.splits)

lemma deleteArgo_ok: "fst (deleteArgo c m w) = Inr u \<longleftrightarrow> IgnoreNotFound (fst (DeleteWorkflow c m w)) = None"
  by (auto simp: deleteArgo_def split: prod.splits option.splits)

lemma snd_bind_put_return [simp]:
  "snd (snd (bind_io (put_io text (logged req f x)) (\<lambda>_. return_io y) (w, t))) = t @ [req x]"
  by (simp add: bind_io_def put_io_recording split: sum.splits)

lemma aw_deletion_log:
  assumes "GetArtifactWorkflow (AWR_Client r) req w = (Inr aw, w1)" and "AW_deleting aw"
  shows "aw_requests r req w =
    [ReqGetArtifactWorkflow req, ReqDeleteWorkflow (workflowMeta aw)] @
    (if IgnoreNotFound (fst (DeleteWorkflow (AWR_Client r) (workflowMeta aw) w1)) = None \<and>
        artifactWorkflowFinalizer \<in> set (AW_Finalizers aw)
     then [ReqUpdateArtifactWorkflow
             (set_AW_Finalizers (filter (\<lambda>f. f \<noteq> artifactWorkflowFinalizer) (AW_Finalizers aw)) aw)]
     else [])"
proof -
  have "snd (snd (deleteArtifactWorkflow (recorded_AWR r) aw (w1, t))) = t @ [ReqDeleteWorkflow (workflowMeta aw)] @
    (if IgnoreNotFound (fst (DeleteWorkflow (AWR_Client r) (workflowMeta aw) w1)) = None \<and>
        artifactWorkflowFinalizer \<in> set (AW_Finalizers aw)
     then [ReqUpdateArtifactWorkflow
             (set_AW_Finalizers (filter (\<lambda>f. f \<noteq> artifactWorkflowFinalizer) (AW_Finalizers aw)) aw)]
     else [])" for t
    using deleteArgo_ok [of "AWR_Client r" "workflowMeta aw" w1]
    by (cases "fst (deleteArgo (AWR_Client r) (workflowMeta aw) w1)")
      (auto simp: deleteArtifactWorkflow_def client_simps bind_io_def [of "deleteArgo c m" for c m] deleteArgo_recording)
  with assms show ?thesis
    by (simp add: aw_requests_def AW_Reconcile_recording)
qed

lemma aw_finalizer_log:
  assumes "GetArtifactWorkflow (AWR_Client r) req w = (Inr aw, w1)"
    and "\<not> AW_deleting aw" and "artifactWorkflowFinalizer \<notin> set (AW_Finalizers aw)"
  shows "aw_requests r req w =
    [ReqGetArtifactWorkflow req,
     ReqUpdateArtifactWorkflow (set_AW_Finalizers (AW_Finalizers aw @ [artifactWorkflowFinalizer]) aw)]"
  using assms
  by (simp add: aw_requests_def AW_Reconcile_recording addAWFinalizer_def client_simps)


subsection \<open>Creating and following the Argo workflow\<close>

definition main_branch :: "ArtifactWorkflow \<Rightarrow> bool" where
  "main_branch aw \<longleftrightarrow> \<not> AW_deleting aw \<and> artifactWorkflowFinalizer \<in> set (AW_Finalizers aw)"

lemma aw_requests_main:
  assumes "GetArtifactWorkflow (AWR_Client r) req w = (Inr aw, w1)" and "main_branch aw"
  shows "aw_requests r req w = snd (snd (reconcilePhase (recorded_AWR r) aw (w1, [ReqGetArtifactWorkflow req])))"
    and "fst (ArtifactWorkflowReconciler_Reconcile r req w) = fst (reconcilePhase r aw w1)"
  using assms
  by (simp add: aw_requests_def AW_Reconcile_recording main_branch_def)
    (use assms in \<open>simp add: main_branch_def ArtifactWorkflowReconciler_Reconcile_def\<close>)

lemma aw_follow_log:
  assumes "GetArtifactWorkflow (AWR_Client r) req w = (Inr aw, w1)" and "main_branch aw"
    and "AW_Phase aw \<noteq> WorkflowUnknown"
  shows "aw_requests r req w = ReqGetArtifactWorkflow req #
    (if \<not> InProgress (AW_Phase aw) then []
     else ReqGetWorkflow (AW_Namespace aw, AW_Name aw) #
       (case GetWorkflow (AWR_Client r) (AW_Namespace aw, AW_Name aw) w1 of
          (Inl e, _) \<Rightarrow> []
        | (Inr wfl, _) \<Rightarrow> [ReqUpdateArtifactWorkflowStatus (set_AW_Phase (Workflow_Phase wfl) aw)]))"
proof -
  have "snd (snd (checkArgoWorkflow (recorded_AWR r) aw (w1, t))) = t @ ReqGetWorkflow (AW_Namespace aw, AW_Name aw) #
       (case GetWorkflow (AWR_Client r) (AW_Namespace aw, AW_Name aw) w1 of
          (Inl e, _) \<Rightarrow> []
        | (Inr wfl, _) \<Rightarrow> [ReqUpdateArtifactWorkflowStatus (set_AW_Phase (Workflow_Phase wfl) aw)])" for t
    by (auto simp: checkArgoWorkflow_def bind_io_def [of "get_io s f" for s f] client_simps
        get_io_recording namespacedName_def get_io_def split: prod.splits sum.splits)
  with assms(3) Completed_not_InProgress show ?thesis
    by (auto simp: aw_requests_main [OF assms(1,2)] reconcilePhase_def)
qed

text \<open>The reads a creation makes, and the workflow it makes from them.\<close>

definition argo_reads :: "ArtifactWorkflow \<Rightarrow> request list" where
  "argo_reads aw =
     ReqGetArtifactType ([], AWSpec_Type (AW_Spec aw)) #
     map (\<lambda>n. ReqGetSecret (AW_Namespace aw, n))
       (filter (\<lambda>n. n \<noteq> []) [Ref_Name (AWSpec_SrcSecretRef (AW_Spec aw)), Ref_Name (AWSpec_DstSecretRef (AW_Spec aw))])"

lemma fetchSecret_recording:
  "fetchSecret (recording c) ns name text (w, t) =
     (fst (fetchSecret c ns name text w), snd (fetchSecret c ns name text w),
      t @ (if name = [] then [] else [ReqGetSecret (ns, name)]))"
  by (simp add: fetchSecret_def client_simps get_io_recording)

definition secret_read :: "'w Client \<Rightarrow> string \<Rightarrow> string \<Rightarrow> Secret \<Rightarrow> bool" where
  "secret_read c ns name s \<longleftrightarrow>
     (if name = [] then s = zero_Secret else \<exists>v v1. GetSecret c (ns, name) v = (Inr s, v1))"

lemma fetchSecret_read: "fst (fetchSecret c ns name text w) = Inr s \<Longrightarrow> secret_read c ns name s"
  by (auto simp: fetchSecret_def secret_read_def get_io_def split: if_splits prod.splits sum.splits)

lemma fst_get_io_Inr: "fst (get_io text op w) = Inr x \<longleftrightarrow> fst (op w) = Inr x"
  by (auto simp: get_io_def split: prod.splits sum.splits)

text \<open>What the Argo workflow is made from.\<close>

definition argo_made_from ::
  "'w ArtifactWorkflowReconciler \<Rightarrow> ArtifactWorkflow \<Rightarrow> 'w \<Rightarrow> Workflow \<Rightarrow> bool" where
  "argo_made_from r aw w wfl \<longleftrightarrow>
     (\<exists>artifactType srcSecret dstSecret.
        fst (GetArtifactType (AWR_Client r) ([], AWSpec_Type (AW_Spec aw)) w) = Inr artifactType \<and>
        secret_read (AWR_Client r) (AW_Namespace aw) (Ref_Name (AWSpec_SrcSecretRef (AW_Spec aw))) srcSecret \<and>
        secret_read (AWR_Client r) (AW_Namespace aw) (Ref_Name (AWSpec_DstSecretRef (AW_Spec aw))) dstSecret \<and>
        AWR_SetControllerReference r aw (hydrateArgoWorkflow aw artifactType srcSecret dstSecret) = Inr wfl)"

lemma createArgoWorkflow_log:
  assumes "createArgoWorkflow (recorded_AWR r) aw (w, t) = (Inr res, (w1, t1))"
  shows "res = done_result \<and> (\<exists>wfl. argo_made_from r aw w wfl \<and>
    t1 = t @ argo_reads aw @ [ReqCreateWorkflow wfl, ReqUpdateArtifactWorkflowStatus (set_AW_Phase WorkflowPending aw)])"
proof -
  obtain artifactType srcSecret dstSecret w2 t2 where
    1: "t2 = t @ argo_reads aw" "fst (GetArtifactType (AWR_Client r) ([], AWSpec_Type (AW_Spec aw)) w) = Inr artifactType"
    "secret_read (AWR_Client r) (AW_Namespace aw) (Ref_Name (AWSpec_SrcSecretRef (AW_Spec aw))) srcSecret"
    "secret_read (AWR_Client r) (AW_Namespace aw) (Ref_Name (AWSpec_DstSecretRef (AW_Spec aw))) dstSecret"
    "(case AWR_SetControllerReference r aw (hydrateArgoWorkflow aw artifactType srcSecret dstSecret) of
         Inl e \<Rightarrow> fail_io (wrapErr e ''failed to set controller reference'')
       | Inr wfl \<Rightarrow>
           bind_io (createArgo (recording (AWR_Client r)) wfl) (\<lambda>_.
           bind_io (put_io ''failed to update status''
               (UpdateArtifactWorkflowStatus (recording (AWR_Client r)) (set_AW_Phase WorkflowPending aw))) (\<lambda>_.
             return_io done_result))) (w2, t2) = (Inr res, (w1, t1))"
    using assms unfolding createArgoWorkflow_def bind_io_Inr recorded_AWR_simps recording_ops
    by (auto simp: get_io_recording fetchSecret_recording namespacedName_def argo_reads_def fst_get_io_Inr
        dest!: fetchSecret_read split: if_splits)
  then show ?thesis
    by (cases "AWR_SetControllerReference r aw (hydrateArgoWorkflow aw artifactType srcSecret dstSecret)")
      (auto simp: bind_io_Inr client_simps createArgo_recording put_io_recording argo_made_from_def)
qed

lemma aw_create_log:
  assumes "GetArtifactWorkflow (AWR_Client r) req w = (Inr aw, w1)" and "main_branch aw"
    and "AW_Phase aw = WorkflowUnknown" and "fst (ArtifactWorkflowReconciler_Reconcile r req w) = Inr res"
  shows "res = done_result \<and> (\<exists>wfl. argo_made_from r aw w1 wfl \<and>
    aw_requests r req w = ReqGetArtifactWorkflow req # argo_reads aw @
      [ReqCreateWorkflow wfl, ReqUpdateArtifactWorkflowStatus (set_AW_Phase WorkflowPending aw)])"
proof -
  have run: "ArtifactWorkflowReconciler_Reconcile (recorded_AWR r) req (w, []) =
      createArgoWorkflow (recorded_AWR r) aw (w1, [ReqGetArtifactWorkflow req])"
    using assms(1-3) by (simp add: AW_Reconcile_recording main_branch_def reconcilePhase_def)
  moreover have "fst (ArtifactWorkflowReconciler_Reconcile (recorded_AWR r) req (w, [])) = Inr res"
    using aw_recorded_run [of r req "(w, [])"] assms(4) by simp
  ultimately obtain w2 t2 where
    2: "createArgoWorkflow (recorded_AWR r) aw (w1, [ReqGetArtifactWorkflow req]) = (Inr res, (w2, t2))"
    by (metis prod.collapse)
  from createArgoWorkflow_log [OF 2] run 2 show ?thesis by (auto simp: aw_requests_def)
qed


subsection \<open>All the runs together\<close>

text \<open>The phases the cluster reports for the Argo workflow of an artifact workflow.\<close>

definition argo_reports :: "'w Client \<Rightarrow> ArtifactWorkflow \<Rightarrow> WorkflowPhase \<Rightarrow> bool" where
  "argo_reports c aw q \<longleftrightarrow>
     (\<exists>w wfl w1. GetWorkflow c (AW_Namespace aw, AW_Name aw) w = (Inr wfl, w1) \<and> Workflow_Phase wfl = q)"

context request_invariant
begin

lemma keep_createArgoWorkflow:
  assumes "AWR_Client r = c" and "I w"
    and "\<And>x. (\<And>aw1. x \<noteq> ReqUpdateArtifactWorkflowStatus aw1) \<Longrightarrow> P x"
    and "P (ReqUpdateArtifactWorkflowStatus (set_AW_Phase WorkflowPending aw))"
  shows "I (snd (createArgoWorkflow r aw w))"
proof -
  have argo: "I (snd (createArgo c x v))" if "I v" for x v
    using keep_CreateWorkflow [of x v] assms(3) that
    by (fastforce simp: createArgo_def split: prod.splits option.splits)
  have "I (snd ((case AWR_SetControllerReference r aw x of
         Inl e \<Rightarrow> fail_io (wrapErr e ''failed to set controller reference'')
       | Inr wfl \<Rightarrow>
           bind_io (createArgo c wfl) (\<lambda>_.
           bind_io (put_io ''failed to update status''
               (UpdateArtifactWorkflowStatus c (set_AW_Phase WorkflowPending aw))) (\<lambda>_.
             return_io done_result))) v))" if "I v" for x v
    using that assms(4) by (auto intro!: keep_bind_io argo keep_UpdateArtifactWorkflowStatus split: sum.splits)
  then show ?thesis
    unfolding createArgoWorkflow_def assms(1)
    by (intro keep_bind_io keep_fetchSecret) (auto intro!: keep_GetArtifactType assms(2,3))
qed

end

lemma phase_writes:
  assumes "GetArtifactWorkflow (AWR_Client r) req w = (Inr aw, w1)"
    and "ReqUpdateArtifactWorkflowStatus aw1 \<in> set (aw_requests r req w)"
  shows "\<exists>q. aw1 = set_AW_Phase q aw \<and> phase_step (argo_reports (AWR_Client r) aw) (AW_Phase aw) q"
proof -
  have main: "main_branch aw"
  proof (rule ccontr)
    assume "\<not> main_branch aw"
    then have "AW_deleting aw \<or> \<not> AW_deleting aw \<and> artifactWorkflowFinalizer \<notin> set (AW_Finalizers aw)"
      by (auto simp: main_branch_def)
    with assms(2) aw_deletion_log [OF assms(1)] aw_finalizer_log [OF assms(1)] show False
      by (auto split: if_splits)
  qed
  show ?thesis
  proof (cases "AW_Phase aw = WorkflowUnknown")
    case True
    have "log_within (\<lambda>x. \<forall>aw2. x = ReqUpdateArtifactWorkflowStatus aw2 \<longrightarrow> aw2 = set_AW_Phase WorkflowPending aw)
        [ReqGetArtifactWorkflow req]
        (snd (createArgoWorkflow (recorded_AWR r) aw (w1, [ReqGetArtifactWorkflow req])))"
      by (rule rec.keep_createArgoWorkflow) (auto simp: client_simps)
    with assms(2) True have "aw1 = set_AW_Phase WorkflowPending aw"
      by (auto simp: aw_requests_main [OF assms(1) main] reconcilePhase_def log_within_def)
    with True show ?thesis by (auto intro: phase_step.submit)
  next
    case False
    with assms(2) obtain wfl w2 where "InProgress (AW_Phase aw)"
      "GetWorkflow (AWR_Client r) (AW_Namespace aw, AW_Name aw) w1 = (Inr wfl, w2)"
      "aw1 = set_AW_Phase (Workflow_Phase wfl) aw"
      by (auto simp: aw_follow_log [OF assms(1) main False] split: if_splits prod.splits sum.splits dest: sym)
    moreover from this have "argo_reports (AWR_Client r) aw (Workflow_Phase wfl)"
      unfolding argo_reports_def by blast
    ultimately show ?thesis by (blast intro: phase_step.follow)
  qed
qed

text \<open>
  A history of an artifact workflow under the controller: each run finds it as the last status
  update left it.
\<close>

inductive aw_history :: "'w ArtifactWorkflowReconciler \<Rightarrow> NamespacedName \<Rightarrow> ArtifactWorkflow \<Rightarrow> ArtifactWorkflow \<Rightarrow> bool"
  for r req a where
  start: "aw_history r req a a"
| run: "aw_history r req a b \<Longrightarrow> GetArtifactWorkflow (AWR_Client r) req w = (Inr b, w1) \<Longrightarrow>
    ReqUpdateArtifactWorkflowStatus b1 \<in> set (aw_requests r req w) \<Longrightarrow> aw_history r req a b1"

lemma set_AW_Phase_simps [simp]:
  "AW_Phase (set_AW_Phase q aw) = q" "AW_Name (set_AW_Phase q aw) = AW_Name aw"
  "AW_Namespace (set_AW_Phase q aw) = AW_Namespace aw"
  "set_AW_Phase p (set_AW_Phase q aw) = set_AW_Phase p aw"
  "argo_reports c (set_AW_Phase q aw) = argo_reports c aw"
  by (simp_all add: set_AW_Phase_def api_defs argo_reports_def fun_eq_iff)

lemma set_AW_Phase_own: "set_AW_Phase (AW_Phase aw) aw = aw"
  by (simp add: set_AW_Phase_def AW_Phase_def)

lemma aw_history_steps:
  assumes "aw_history r req a b"
  shows "\<exists>q. b = set_AW_Phase q a \<and> (phase_step (argo_reports (AWR_Client r) a))\<^sup>*\<^sup>* (AW_Phase a) q"
  using assms
proof induction
  case start
  show ?case using set_AW_Phase_own [of a] by (intro exI [of _ "AW_Phase a"]) simp
next
  case (run b w w1 b1)
  then obtain p where p: "b = set_AW_Phase p a" "(phase_step (argo_reports (AWR_Client r) a))\<^sup>*\<^sup>* (AW_Phase a) p"
    by blast
  from phase_writes [OF run.hyps(2,3)] p obtain q where
    "b1 = set_AW_Phase q a" "phase_step (argo_reports (AWR_Client r) a) p q" by auto
  with p show ?case by (auto intro: rtranclp.rtrancl_into_rtrancl)
qed

end
