(* ===== verification/Demo.thy ===== *)
theory Demo
  imports ArtifactWorkflow_Controller
begin

section \<open>Concrete objects and a concrete cluster\<close>

text \<open>
  The inputs the instances of the theorems are evaluated on: a client whose cluster always answers
  the same, an order with one artifact, endpoints.
\<close>

definition static_client ::
  "(api_error + Order) \<Rightarrow> (string \<Rightarrow> api_error + Endpoint) \<Rightarrow> WorkflowPhase \<Rightarrow> api_error option \<Rightarrow> 'w Client" where
  "static_client order eps phase answer =
     \<lparr>GetOrder = \<lambda>n w. (order, w),
      GetEndpoint = \<lambda>n w. (eps (snd n), w),
      GetSecret = \<lambda>n w. (Inr zero_Secret, w),
      GetArtifactType = \<lambda>n w. (Inl \<lparr>api_reason = NotFound, api_message = ''not found''\<rparr>, w),
      GetArtifactWorkflow = \<lambda>n w.
        (Inr \<lparr>AW_TypeMeta = zero_TypeMeta,
              AW_ObjectMeta = zero_ObjectMeta\<lparr>Meta_Namespace := fst n, Meta_Name := snd n\<rparr>,
              AW_Spec = \<lparr>AWSpec_Type = [], AWSpec_Parameters = [],
                         AWSpec_SrcSecretRef = \<lparr>Ref_Name = []\<rparr>, AWSpec_DstSecretRef = \<lparr>Ref_Name = []\<rparr>\<rparr>,
              AW_Status = zero_AWStatus\<lparr>AWStatus_Phase := phase\<rparr>\<rparr>, w),
      GetWorkflow = \<lambda>n w. (Inl \<lparr>api_reason = NotFound, api_message = ''not found''\<rparr>, w),
      ListOrders = \<lambda>n w. (Inr [], w),
      CreateArtifactWorkflow = \<lambda>x w. (answer, w),
      CreateWorkflow = \<lambda>x w. (answer, w),
      DeleteArtifactWorkflow = \<lambda>x w. (answer, w),
      DeleteWorkflow = \<lambda>x w. (answer, w),
      UpdateOrder = \<lambda>x w. (None, w),
      UpdateArtifactWorkflow = \<lambda>x w. (None, w),
      UpdateOrderStatus = \<lambda>x w. (None, w),
      UpdateArtifactWorkflowStatus = \<lambda>x w. (None, w)\<rparr>"

definition static_OR :: "'w Client \<Rightarrow> 'w OrderReconciler" where
  "static_OR c = \<lparr>OR_Client = c, OR_SetControllerReference = \<lambda>order aw. Inr aw\<rparr>"

definition demo_order :: "string list \<Rightarrow> nat option \<Rightarrow> OrderArtifact list \<Rightarrow>
    OrderArtifactWorkflowStatus gomap \<Rightarrow> Order" where
  "demo_order finalizers deleted artifacts status =
     \<lparr>Order_TypeMeta = zero_TypeMeta,
      Order_ObjectMeta = zero_ObjectMeta\<lparr>Meta_Name := ''demo'', Meta_Namespace := ''default'',
        Meta_Finalizers := finalizers, Meta_DeletionTimestamp := deleted\<rparr>,
      Order_Spec = \<lparr>OrderSpec_Defaults = \<lparr>OrderDefaults_SrcRef = \<lparr>Ref_Name = ''src''\<rparr>,
                                        OrderDefaults_DstRef = \<lparr>Ref_Name = ''dst''\<rparr>\<rparr>,
                    OrderSpec_Artifacts = artifacts\<rparr>,
      Order_Status = \<lparr>OrderStatus_ArtifactWorkflows = status\<rparr>\<rparr>"

definition demo_artifact :: OrderArtifact where
  "demo_artifact = \<lparr>OrderArtifact_Type = ''oci'', OrderArtifact_SrcRef = \<lparr>Ref_Name = []\<rparr>,
     OrderArtifact_DstRef = \<lparr>Ref_Name = ''other''\<rparr>, OrderArtifact_Spec = \<lparr>Raw = None\<rparr>\<rparr>"

definition demo_endpoint :: "string \<Rightarrow> Endpoint" where
  "demo_endpoint name =
     \<lparr>Endpoint_TypeMeta = zero_TypeMeta,
      Endpoint_ObjectMeta = zero_ObjectMeta\<lparr>Meta_Name := name, Meta_Namespace := ''default''\<rparr>,
      Endpoint_Spec = \<lparr>EndpointSpec_Type = ''oci'', EndpointSpec_RemoteURL = ''https://example.org'',
        EndpointSpec_SecretRef = \<lparr>Ref_Name = []\<rparr>, EndpointSpec_Usage = EndpointUsageAll\<rparr>,
      Endpoint_Status = ()\<rparr>"

lemmas demo_defs = static_client_def static_OR_def demo_order_def demo_artifact_def demo_endpoint_def

lemma demo_order_simps [simp]:
  "Order_Finalizers (demo_order fs d as m) = fs"
  "Order_deleting (demo_order fs d as m) \<longleftrightarrow> \<not> IsZero d"
  "statuses (demo_order fs d as m) = entries m"
  "Order_Namespace (demo_order fs d as m) = ''default''"
  "Order_Name (demo_order fs d as m) = ''demo''"
  "OrderSpec_Artifacts (Order_Spec (demo_order fs d as m)) = as"
  "OrderSpec_Defaults (Order_Spec (demo_order fs d as m)) =
     \<lparr>OrderDefaults_SrcRef = \<lparr>Ref_Name = ''src''\<rparr>, OrderDefaults_DstRef = \<lparr>Ref_Name = ''dst''\<rparr>\<rparr>"
  by (simp_all add: demo_order_def api_defs statuses_def)

lemma static_simps [simp]:
  "OR_Client (static_OR c) = c"
  "OR_SetControllerReference (static_OR c) order aw = Inr aw"
  "GetOrder (static_client ord eps ph ans) n w = (ord, w)"
  "GetEndpoint (static_client ord eps ph ans) n w = (eps (snd n), w)"
  "GetSecret (static_client ord eps ph ans) n w = (Inr zero_Secret, w)"
  "CreateArtifactWorkflow (static_client ord eps ph ans) aw w = (ans, w)"
  "DeleteArtifactWorkflow (static_client ord eps ph ans) m w = (ans, w)"
  "UpdateOrderStatus (static_client ord eps ph ans) order w = (None, w)"
  by (simp_all add: static_OR_def static_client_def)

definition demo_view :: "string \<Rightarrow> api_error + Endpoint" where
  "demo_view n = (if n = ''gone'' then Inl \<lparr>api_reason = NotFound, api_message = ''not found''\<rparr>
                  else Inr (demo_endpoint n))"


definition demo_aw :: "string list \<Rightarrow> nat option \<Rightarrow> WorkflowPhase \<Rightarrow> ArtifactWorkflow" where
  "demo_aw finalizers deleted phase =
     \<lparr>AW_TypeMeta = zero_TypeMeta,
      AW_ObjectMeta = zero_ObjectMeta\<lparr>Meta_Name := ''demo-0'', Meta_Namespace := ''default'',
        Meta_Finalizers := finalizers, Meta_DeletionTimestamp := deleted\<rparr>,
      AW_Spec = \<lparr>AWSpec_Type = ''oci'', AWSpec_Parameters = [param ''srcType'' ''oci''],
                 AWSpec_SrcSecretRef = \<lparr>Ref_Name = ''creds''\<rparr>, AWSpec_DstSecretRef = \<lparr>Ref_Name = []\<rparr>\<rparr>,
      AW_Status = zero_AWStatus\<lparr>AWStatus_Phase := phase\<rparr>\<rparr>"

definition demo_type :: ArtifactType where
  "demo_type =
     \<lparr>AT_TypeMeta = zero_TypeMeta, AT_ObjectMeta = zero_ObjectMeta\<lparr>Meta_Name := ''oci''\<rparr>,
      AT_Spec = \<lparr>ATSpec_Rules = \<lparr>Rules_SrcTypes = [''oci''], Rules_DstTypes = [''oci'']\<rparr>,
                 ATSpec_Parameters = [param ''srcType'' ''helm''],
                 ATSpec_WorkflowTemplateRef = \<lparr>Ref_Name = ''oci-template''\<rparr>\<rparr>,
      AT_Status = ()\<rparr>"

definition demo_workflow :: "string \<Rightarrow> Workflow" where
  "demo_workflow phase =
     \<lparr>Workflow_ObjectMeta = zero_ObjectMeta,
      Workflow_TemplateRef = \<lparr>TemplateRef_Name = [], TemplateRef_ClusterScope = True\<rparr>,
      Workflow_Volumes = [], Workflow_Parameters = [], Workflow_Phase = phase\<rparr>"

definition demo_AWR :: "ArtifactWorkflow \<Rightarrow> string \<Rightarrow> api_error option \<Rightarrow> unit ArtifactWorkflowReconciler" where
  "demo_AWR aw phase answer =
     \<lparr>AWR_Client = (static_client (Inr (demo_order [] None [] None)) demo_view [] answer)
        \<lparr>GetArtifactWorkflow := \<lambda>n w. (Inr aw, w), GetArtifactType := \<lambda>n w. (Inr demo_type, w),
         GetWorkflow := \<lambda>n w. (Inr (demo_workflow phase), w)\<rparr>,
      AWR_SetControllerReference = \<lambda>aw wfl. Inr wfl\<rparr>"

lemma demo_AWR_simps [simp]:
  "GetArtifactWorkflow (AWR_Client (demo_AWR aw ph ans)) n w = (Inr aw, w)"
  "GetArtifactType (AWR_Client (demo_AWR aw ph ans)) n w = (Inr demo_type, w)"
  "GetWorkflow (AWR_Client (demo_AWR aw ph ans)) n w = (Inr (demo_workflow ph), w)"
  "GetSecret (AWR_Client (demo_AWR aw ph ans)) n w = (Inr zero_Secret, w)"
  "DeleteWorkflow (AWR_Client (demo_AWR aw ph ans)) m w = (ans, w)"
  "CreateWorkflow (AWR_Client (demo_AWR aw ph ans)) x w = (ans, w)"
  "UpdateArtifactWorkflowStatus (AWR_Client (demo_AWR aw ph ans)) aw1 w = (None, w)"
  "AWR_SetControllerReference (demo_AWR aw ph ans) aw1 wfl = Inr wfl"
  by (simp_all add: demo_AWR_def static_client_def)

lemma demo_aw_simps [simp]:
  "AW_Finalizers (demo_aw fs d ph) = fs" "AW_deleting (demo_aw fs d ph) \<longleftrightarrow> \<not> IsZero d"
  "AW_Phase (demo_aw fs d ph) = ph" "AW_Name (demo_aw fs d ph) = ''demo-0''"
  "AW_Namespace (demo_aw fs d ph) = ''default''" "Workflow_Phase (demo_workflow p) = p"
  by (simp_all add: demo_aw_def demo_workflow_def api_defs zero_AWStatus_def)

end
