(* ===== verification/Parameter_Theorems.thy ===== *)
theory Parameter_Theorems
  imports Parameters Demo
begin

section \<open>Correctness of the workflow parameters\<close>

text \<open>
  What \<open>flattenMap\<close> and \<open>dawToParameters\<close> compute for every spec, and three concrete specs that show
  where the result is not what a reader of the documentation expects.
\<close>

text \<open>
  C10: \<open>flattenMap\<close> panics exactly if some object it reaches has an empty key; otherwise it performs
  the assignments of the reference \<open>flat_entries\<close>, in their order, on the destination map, so that a
  name maps to the last value assigned to it and all other names are kept.
\<close>

theorem flattenMap_reference:
  "flattenMap pre src dst =
     (if keys_nonempty src then Inr (put_all (flat_entries pre src) dst) else Inl slice_panic) \<and>
   fmlookup (put_all (flat_entries pre src) dst) k =
     (case map_of (rev (flat_entries pre src)) k of None \<Rightarrow> fmlookup dst k | Some v \<Rightarrow> Some v)"
  by (simp add: flattenMap_entries put_all_lookup)

lemma fixed_not_spec:
  assumes "p \<in> set fixed" and "endpointParameters daw = Inr fixed"
  shows "\<not> prefix ''spec'' (Parameter_Name p)"
  using assms by (auto simp: endpointParameters_eq param_def)

abbreviation name_value :: "ArtifactWorkflowParameter \<Rightarrow> string \<times> string" where
  "name_value p \<equiv> (Parameter_Name p, Parameter_Value p)"

text \<open>What the fixed parameters should say.\<close>

definition fixed_values :: "desiredAW \<Rightarrow> (string \<times> string) list" where
  "fixed_values daw =
     [(''srcType'', EndpointSpec_Type (Endpoint_Spec (daw_srcEndpoint daw))),
      (''srcRemoteURL'', EndpointSpec_RemoteURL (Endpoint_Spec (daw_srcEndpoint daw))),
      (''dstType'', EndpointSpec_Type (Endpoint_Spec (daw_dstEndpoint daw))),
      (''dstRemoteURL'', EndpointSpec_RemoteURL (Endpoint_Spec (daw_dstEndpoint daw))),
      (''srcSecret'', if Ref_Name (EndpointSpec_SecretRef (Endpoint_Spec (daw_srcEndpoint daw))) \<noteq> []
                      then ''true'' else ''false''),
      (''dstSecret'', if Ref_Name (EndpointSpec_SecretRef (Endpoint_Spec (daw_dstEndpoint daw))) \<noteq> []
                      then ''true'' else ''false'')]"

lemma endpointParameters_values: "endpointParameters daw = Inr fixed \<Longrightarrow> map name_value fixed = fixed_values daw"
  by (auto simp: endpointParameters_eq fixed_values_def param_def secretRefName_def bool_text_def)

lemma name_value_mem: "(n, v) \<in> set (map name_value ps) \<longleftrightarrow> param n v \<in> set ps"
proof -
  have "name_value p = (n, v) \<longleftrightarrow> p = param n v" for p by (cases p) (auto simp: param_def)
  then show ?thesis unfolding set_map image_iff by metis
qed

lemma dawToParameters_values:
  assumes "range_ok \<rho>" and "dawToParameters \<rho> \<pi> daw = Inr ps"
  shows "\<exists>spec rest.
    Unmarshal \<pi> (raw_document (OrderArtifact_Spec (daw_artifact daw))) = Inr spec \<and>
    map name_value ps = fixed_values daw @ rest \<and> distinct (map Parameter_Name ps) \<and>
    (\<forall>n v. (n, v) \<in> set rest \<longrightarrow> prefix ''spec'' n) \<and>
    (\<forall>n v. (n, v) \<in> set rest \<longleftrightarrow>
       (\<exists>x. map_of (rev (flat_entries ''spec'' spec)) n = Some x \<and> v = fmt_v x))"
proof -
  obtain spec fixed where *: "endpointParameters daw = Inr fixed"
    "Unmarshal \<pi> (raw_document (OrderArtifact_Spec (daw_artifact daw))) = Inr spec"
    "ps = fixed @ specParameters \<rho> spec"
    using assms(2) by (auto simp: dawToParameters_Inr)
  have names: "map Parameter_Name fixed =
      [''srcType'', ''srcRemoteURL'', ''dstType'', ''dstRemoteURL'', ''srcSecret'', ''dstSecret'']"
    using *(1) by (auto simp: endpointParameters_eq param_def)
  have "Parameter_Name ` set fixed \<inter> Parameter_Name ` set (specParameters \<rho> spec) = {}"
    using fixed_not_spec [OF _ *(1)] specParameters_names(2) [OF assms(1)] by fastforce
  moreover have "distinct (map Parameter_Name fixed)" unfolding names by simp
  ultimately have "distinct (map Parameter_Name ps)"
    using *(3) specParameters_names(1) [OF assms(1)] by simp
  moreover have "\<forall>n v. (n, v) \<in> set (map name_value (specParameters \<rho> spec)) \<longrightarrow> prefix ''spec'' n"
    using specParameters_names(2) [OF assms(1)] unfolding name_value_mem by (force simp: param_def)
  moreover have "map name_value ps = fixed_values daw @ map name_value (specParameters \<rho> spec)"
    using *(3) endpointParameters_values [OF *(1)] by simp
  ultimately show ?thesis
    using *(2) specParameters_values [OF assms(1)] name_value_mem by blast
qed

text \<open>
  C9: the parameters of an artifact workflow, by name and value. First come the type and the remote
  URL of the source endpoint, then those of the destination, then the texts ``true'' or ``false'' that
  say whether the source and the destination endpoint name a secret. One parameter for each name the
  flattened spec assigns follows, with the text of the last value assigned to it. All names are
  distinct, and the names from the spec start with ``spec'', so that none can hide a fixed one.
\<close>

theorem dawToParameters_spec:
  assumes "range_ok \<rho>" and "dawToParameters \<rho> \<pi> daw = Inr ps"
  shows "\<exists>spec rest.
    Unmarshal \<pi> (raw_document (OrderArtifact_Spec (daw_artifact daw))) = Inr spec \<and>
    map (\<lambda>p. (Parameter_Name p, Parameter_Value p)) ps =
      [(''srcType'', EndpointSpec_Type (Endpoint_Spec (daw_srcEndpoint daw))),
       (''srcRemoteURL'', EndpointSpec_RemoteURL (Endpoint_Spec (daw_srcEndpoint daw))),
       (''dstType'', EndpointSpec_Type (Endpoint_Spec (daw_dstEndpoint daw))),
       (''dstRemoteURL'', EndpointSpec_RemoteURL (Endpoint_Spec (daw_dstEndpoint daw))),
       (''srcSecret'', if Ref_Name (EndpointSpec_SecretRef (Endpoint_Spec (daw_srcEndpoint daw))) \<noteq> []
                       then ''true'' else ''false''),
       (''dstSecret'', if Ref_Name (EndpointSpec_SecretRef (Endpoint_Spec (daw_dstEndpoint daw))) \<noteq> []
                       then ''true'' else ''false'')] @ rest \<and>
    distinct (map Parameter_Name ps) \<and>
    (\<forall>n v. (n, v) \<in> set rest \<longrightarrow> prefix ''spec'' n) \<and>
    (\<forall>n v. (n, v) \<in> set rest \<longleftrightarrow>
       (\<exists>x. map_of (rev (flat_entries ''spec'' spec)) n = Some x \<and> v = fmt_v x))"
  by (rule dawToParameters_values [OF assms, unfolded fixed_values_def])

text \<open>An artifact whose spec is a given JSON text; \<open>`\<close> stands for the quotation mark.\<close>

definition quoted :: "string \<Rightarrow> string" where
  "quoted s = map (\<lambda>c. if c = CHR ''`'' then CHR 0x22 else c) s"

definition demo_daw :: "string \<Rightarrow> desiredAW" where
  "demo_daw json =
     \<lparr>daw_index = 0, daw_objectMeta = zero_ObjectMeta,
      daw_artifact = demo_artifact\<lparr>OrderArtifact_Spec := \<lparr>Raw = Some (quoted json)\<rparr>\<rparr>,
      daw_srcEndpoint = demo_endpoint ''src'', daw_dstEndpoint = demo_endpoint ''dst'',
      daw_srcSecret = zero_Secret, daw_dstSecret = zero_Secret\<rparr>"

definition specNames :: "range_order \<Rightarrow> entry_order \<Rightarrow> string \<Rightarrow> (string \<times> string) list res" where
  "specNames \<rho> \<pi> json =
     bind_res (dawToParameters \<rho> \<pi> (demo_daw json))
       (\<lambda>ps. Inr (map (\<lambda>p. (Parameter_Name p, Parameter_Value p)) (drop 6 ps)))"


lemma sorted_range_fset: "sorted_range at (fset_of_list ks) = sorted_list_of_set (set ks)"
  by (simp add: sorted_range_def fset_of_list.rep_eq)

lemma specNames_eval:
  assumes "Unmarshal \<pi> (quoted json) = Inr spec" and "quoted json \<noteq> []" and "keys_nonempty spec"
  shows "specNames \<rho> \<pi> json =
    Inr (map (\<lambda>name. (name, fmt_v (get_or JNull (put_all (flat_entries ''spec'' spec) fmempty) name)))
      (\<rho> ''flattened'' (fmdom (put_all (flat_entries ''spec'' spec) fmempty))))"
proof -
  have "raw_document \<lparr>Raw = Some (quoted json)\<rparr> = quoted json"
    using assms(2) by (cases "quoted json") (simp_all add: raw_document_def)
  with assms(1,3) show ?thesis
    by (simp add: specNames_def dawToParameters_def endpointParameters_eq demo_daw_def flattenMap_entries
        param_def comp_def)
qed

lemma parse_nested:
  "Unmarshal id (quoted ''{`image`:{`tagName`:`v1`},`sizes`:[1,1000000]}'') =
     Inr [(''image'', JObj [(''tagName'', JStr ''v1'')]), (''sizes'', JArr [JNum (F64 False 4503599627370496 (- 52)), JNum (F64 False 8589934592000000 (- 33))])]"
  by code_simp


lemma format_million: "format_f64 (F64 False 8589934592000000 (- 33)) = ''1e+06''"
proof -
  have point: "decimal_point (34359738368000000, 34359738368) = 7" by code_simp
  have "shortest_at 1 8589934592000000 (- 33) = Some (1, 6)"
    by (simp add: shortest_at_def interval_def scale_def Let_def ratio_less_def point)
  then have short: "shortest_from 20 1 8589934592000000 (- 33) = (1, 6)"
    using shortest_from.simps(2) [of 19] by simp
  have ds: "digits 1 = ''1''" "digits 6 = ''6''" "trim_zeros ''1'' = ''1''" by code_simp+
  have "shortest_digits 8589934592000000 (- 33) = (''1'', 7)"
    unfolding shortest_digits_def by (simp add: Let_def short ds)
  then show ?thesis by (simp add: format_f64_def fmtE_def Let_def ds)
qed

text \<open>
  What the flattening does to names and numbers, on a spec with a nested object and an array:
  the key of a nested object is not capitalised (\<open>specimageTagName\<close>), the elements of an array are
  numbered, and a number of a million is passed in exponent form.
\<close>

lemma nested_names_and_large_numbers:
  "specNames sorted_range id ''{`image`:{`tagName`:`v1`},`sizes`:[1,1000000]}'' =
     Inr [(''specSizes0'', ''1''), (''specSizes1'', ''1e+06''), (''specimageTagName'', ''v1'')]"
proof -
  have flat: "to_upper_byte CHR ''s'' = ''S''" "to_upper_byte CHR ''t'' = ''T''" "itoa 0 = ''0''" "itoa 1 = ''1''"
    by code_simp+
  have vals: "format_f64 (F64 False 4503599627370496 (- 52)) = ''1''"
    "fmt_v (JStr ''v1'') = ''v1''"
    by code_simp+
  have ord: "sorted_range at {|''specSizes1'', ''specSizes0'', ''specimageTagName''|} =
      [''specSizes0'', ''specSizes1'', ''specimageTagName'']" for at
    by (simp add: sorted_range_def)
  show ?thesis
    by (subst specNames_eval [OF parse_nested]) (simp_all add: flat vals format_million ord quoted_def get_or_def)
qed

text \<open>
  Where two keys of a spec flatten to the same name, the value of the parameter depends on the
  order in which the program ranges over the JSON object, which Go leaves open: the same spec can
  give different parameters in different runs.
\<close>

lemma colliding_names_depend_on_order:
  "order_ok id \<and> order_ok rev \<and>
   specNames sorted_range id ''{`a`:`x`,`A`:`y`}'' = Inr [(''specA'', ''y'')] \<and>
   specNames sorted_range rev ''{`a`:`x`,`A`:`y`}'' = Inr [(''specA'', ''x'')]"
proof -
  have parse: "Unmarshal id (quoted ''{`a`:`x`,`A`:`y`}'') = Inr [(''a'', JStr ''x''), (''A'', JStr ''y'')]"
    "Unmarshal rev (quoted ''{`a`:`x`,`A`:`y`}'') = Inr [(''A'', JStr ''y''), (''a'', JStr ''x'')]"
    by code_simp+
  have up: "to_upper_byte CHR ''a'' = ''A''" "to_upper_byte CHR ''A'' = ''A''"
    by code_simp+
  have "sorted_range at {|k|} = [k]" for at k by (simp add: sorted_range_def)
  with specNames_eval [OF parse(1), of sorted_range] specNames_eval [OF parse(2), of sorted_range] show ?thesis
    by (simp add: up order_ok_def quoted_def get_or_def)
qed

theorem dawToParameters_spec_witness:
  "\<exists>ps. dawToParameters sorted_range id (demo_daw ''{`a`:`x`}'') = Inr ps \<and>
    map (\<lambda>p. (Parameter_Name p, Parameter_Value p)) (take 6 ps) =
      [(''srcType'', ''oci''), (''srcRemoteURL'', ''https://example.org''), (''dstType'', ''oci''), (''dstRemoteURL'', ''https://example.org''),
       (''srcSecret'', ''false''), (''dstSecret'', ''false'')] \<and> distinct (map Parameter_Name ps)"
proof -
  have "Unmarshal id (quoted ''{`a`:`x`}'') = Inr [(''a'', JStr ''x'')]" by code_simp
  then have "\<exists>ps. dawToParameters sorted_range id (demo_daw ''{`a`:`x`}'') = Inr ps"
    by (simp add: dawToParameters_def endpointParameters_eq demo_daw_def raw_document_def quoted_def flattenMap_entries)
  then obtain ps where ps: "dawToParameters sorted_range id (demo_daw ''{`a`:`x`}'') = Inr ps" ..
  note spec = dawToParameters_spec [OF sorted_range_ok ps]
  then have "distinct (map Parameter_Name ps)" by (elim exE conjE)
  moreover have "take 6 (map (\<lambda>p. (Parameter_Name p, Parameter_Value p)) ps) =
      [(''srcType'', ''oci''), (''srcRemoteURL'', ''https://example.org''), (''dstType'', ''oci''), (''dstRemoteURL'', ''https://example.org''),
       (''srcSecret'', ''false''), (''dstSecret'', ''false'')]"
    using spec by (elim exE conjE) (simp only:, simp add: demo_daw_def demo_endpoint_def)
  ultimately show ?thesis using ps by (simp add: take_map)
qed

end
