(* ===== verification/Order_Requests.thy ===== *)
theory Order_Requests
  imports Order_Controller
begin

section \<open>What the order controller asks the cluster for\<close>

text \<open>
  Statements about the requests of one run of \<open>OrderReconciler_Reconcile\<close>, in every world and for
  every answer of the cluster: the exact requests of the deletion branch and of the branch that adds
  the finalizer, the requests the main branch may make even if it fails, and the exact requests of
  the main branch when it succeeds.
\<close>

definition recorded_OR :: "'w OrderReconciler \<Rightarrow> ('w \<times> request list) OrderReconciler" where
  "recorded_OR r =
     \<lparr>OR_Client = recording (OR_Client r), OR_SetControllerReference = OR_SetControllerReference r\<rparr>"

definition order_requests ::
  "range_order \<Rightarrow> entry_order \<Rightarrow> 'w OrderReconciler \<Rightarrow> NamespacedName \<Rightarrow> 'w \<Rightarrow> request list" where
  "order_requests \<rho> \<pi> r req w = snd (snd (OrderReconciler_Reconcile \<rho> \<pi> (recorded_OR r) req (w, [])))"

lemma recorded_OR_simps [client_simps]:
  "OR_Client (recorded_OR r) = recording (OR_Client r)"
  "OR_SetControllerReference (recorded_OR r) = OR_SetControllerReference r"
  by (simp_all add: recorded_OR_def)

subsection \<open>Recording is transparent\<close>

lemma ownedWorkflow_cong:
  "OR_SetControllerReference r = OR_SetControllerReference q \<Longrightarrow>
   ownedWorkflow \<rho> \<pi> r order daw = ownedWorkflow \<rho> \<pi> q order daw"
  by (auto simp: ownedWorkflow_def split: sum.splits failure.splits)

context client_simulation
begin

lemma sim_desiredArtifact: "op_sim R (desiredArtifact c order i a) (desiredArtifact d order i a)"
  by (auto simp: desiredArtifact_def Marshal_def Let_def intro!: op_sim_bind)

lemma sim_desiredLoop: "op_sim R (desiredLoop c order i as acc) (desiredLoop d order i as acc)"
  by (induction as arbitrary: i acc) (auto intro!: op_sim_bind sim_desiredArtifact)

lemma sim_deleteAll: "op_sim R (deleteAll c order shas) (deleteAll d order shas)"
proof (induction shas arbitrary: order)
  case (Cons sha shas)
  then show ?case
    unfolding deleteAll.simps [abs_def] by (intro op_sim_then sims)
qed (simp add: op_sim_def)

lemma sim_createWorkflow: "op_sim R (createWorkflow c aw) (createWorkflow d aw)"
  by (rule op_simI, rule op_simD [OF sim_CreateArtifactWorkflow [of aw]], assumption)
    (auto simp: createWorkflow_def split: option.splits)

lemma sim_deleteWorkflow: "op_sim R (deleteWorkflow c m) (deleteWorkflow d m)"
  by (rule op_simI, rule op_simD [OF sim_DeleteArtifactWorkflow [of m]], assumption)
    (auto simp: deleteWorkflow_def split: option.splits)

lemma sim_deleteLoop: "op_sim R (deleteLoop c shas order) (deleteLoop d shas order)"
  by (induction shas arbitrary: order) (auto intro: sim_deleteWorkflow)

lemma sim_phaseLoop:
  "op_sim R (phaseLoop c desired created shas order b) (phaseLoop d desired created shas order b)"
  by (induction shas arbitrary: order b) (auto intro!: op_sim_bind split: option.splits)

lemma sim_createLoop:
  assumes "OR_Client r = c" "OR_Client q = d" "OR_SetControllerReference r = OR_SetControllerReference q"
  shows "op_sim R (createLoop \<rho> \<pi> r desired shas order) (createLoop \<rho> \<pi> q desired shas order)"
proof -
  have "op_sim R (createWorkflow (OR_Client r) aw) (createWorkflow (OR_Client q) aw)" for aw
    using sim_createWorkflow assms by simp
  then show ?thesis
    by (induction shas arbitrary: order)
      (auto simp: ownedWorkflow_cong [OF assms(3)] intro!: op_sim_bind split: option.splits sum.splits)
qed

lemma sim_reconcileDeletion:
  assumes "OR_Client r = c" "OR_Client q = d"
  shows "op_sim R (reconcileDeletion \<rho> r order) (reconcileDeletion \<rho> q order)"
  unfolding reconcileDeletion_def [abs_def] assms
  by (intro op_sim_if op_sim_then sim_deleteAll) auto

lemma sim_reconcileArtifacts:
  assumes "OR_Client r = c" "OR_Client q = d" "OR_SetControllerReference r = OR_SetControllerReference q"
  shows "op_sim R (reconcileArtifacts \<rho> \<pi> r order) (reconcileArtifacts \<rho> \<pi> q order)"
  unfolding reconcileArtifacts_def applyDesired_def updateStatus_def Let_def assms(1,2)
  by (auto intro!: op_sim_bind sim_desiredLoop sim_createLoop [OF assms] sim_deleteLoop sim_phaseLoop)

lemma sim_Reconcile:
  assumes "OR_Client r = c" "OR_Client q = d" "OR_SetControllerReference r = OR_SetControllerReference q"
  shows "op_sim R (OrderReconciler_Reconcile \<rho> \<pi> r req) (OrderReconciler_Reconcile \<rho> \<pi> q req)"
proof (rule op_simI)
  fix w v
  assume "R w v"
  with sim_GetOrder obtain x w1 v1 where
    1: "GetOrder c req w = (x, w1)" "GetOrder d req v = (x, v1)" "R w1 v1" by (rule op_simD)
  have "op_sim R (addFinalizer r order) (addFinalizer q order)" for order
    unfolding addFinalizer_def assms(1,2) by (auto intro!: op_sim_bind)
  with 1 assms sim_reconcileDeletion [OF assms(1,2)] sim_reconcileArtifacts [OF assms]
  show "fst (OrderReconciler_Reconcile \<rho> \<pi> r req w) = fst (OrderReconciler_Reconcile \<rho> \<pi> q req v) \<and>
      R (snd (OrderReconciler_Reconcile \<rho> \<pi> r req w)) (snd (OrderReconciler_Reconcile \<rho> \<pi> q req v))"
    by (cases x) (auto simp: OrderReconciler_Reconcile_def op_sim_def)
qed

end


lemma recorded_run:
  "fst (OrderReconciler_Reconcile \<rho> \<pi> (recorded_OR r) req s) =
     fst (OrderReconciler_Reconcile \<rho> \<pi> r req (fst s)) \<and>
   fst (snd (OrderReconciler_Reconcile \<rho> \<pi> (recorded_OR r) req s)) =
     snd (OrderReconciler_Reconcile \<rho> \<pi> r req (fst s))"
  using transparent.sim_Reconcile [of "recorded_OR r" "OR_Client r" r \<rho> \<pi> req]
  by (cases s) (simp add: recorded_OR_simps op_sim_def)

subsection \<open>Deletion and finalizer\<close>

lemma deleteAll_recording:
  "deleteAll (recording c) order shas (w, t) =
     (fold drop_status shas order, snd (deleteAll c order shas w),
      t @ map (\<lambda>sha. ReqDeleteArtifactWorkflow (awObjectMeta order sha)) shas)"
proof (induction shas arbitrary: order w t)
  case (Cons sha shas)
  have "awObjectMeta (drop_status sha order) = awObjectMeta order"
    by (intro ext same_but_status_meta(1)) simp
  then show ?case by (simp add: client_simps case_prod_beta Cons.IH)
qed simp

lemma drop_status_Some:
  "drop_status sha (set_ArtifactWorkflows (Some m) order) = set_ArtifactWorkflows (Some (fmdrop sha m)) order"
  by (simp add: drop_status_def set_ArtifactWorkflows_def Order_ArtifactWorkflows_def)

lemma set_own_status: "Order_ArtifactWorkflows order = m \<Longrightarrow> set_ArtifactWorkflows m order = order"
  by (simp add: set_ArtifactWorkflows_def Order_ArtifactWorkflows_def)

lemma drop_all_statuses:
  assumes "set shas = fmdom' (statuses order)" and "statuses order \<noteq> fmempty"
  shows "fold drop_status shas order = set_ArtifactWorkflows (Some fmempty) order"
proof -
  obtain m where m: "Order_ArtifactWorkflows order = Some m"
    using assms(2) by (auto simp: statuses_def entries_def split: option.splits)
  have fold: "fold drop_status xs (set_ArtifactWorkflows (Some n) order) =
      set_ArtifactWorkflows (Some (fold fmdrop xs n)) order" for xs n
    by (induction xs arbitrary: n) (simp_all add: drop_status_Some)
  have lookup: "fmlookup (fold fmdrop xs n) k = (if k \<in> set xs then None else fmlookup n k)" for xs n k
    by (induction xs arbitrary: n) auto
  have "fold fmdrop shas m = fmempty"
    using assms(1) m by (intro fmap_ext) (auto simp: lookup statuses_def fmlookup_dom'_iff)
  then show ?thesis
    using fold [of shas m] set_own_status [OF m] by simp
qed

lemma reconcileDeletion_requests:
  assumes "range_ok \<rho>"
  shows "snd (snd (reconcileDeletion \<rho> (recorded_OR r) order (w, t))) = t @
    (if statuses order \<noteq> fmempty then
       map (\<lambda>sha. ReqDeleteArtifactWorkflow (awObjectMeta order sha)) (\<rho> ''deletion'' (fmdom (statuses order))) @
       [ReqUpdateOrderStatus (set_ArtifactWorkflows (Some fmempty) order)]
     else if orderFinalizer \<in> set (Order_Finalizers order) then
       [ReqUpdateOrder (set_Order_Finalizers (filter (\<lambda>f. f \<noteq> orderFinalizer) (Order_Finalizers order)) order)]
     else [])"
proof -
  have "statuses order \<noteq> fmempty \<Longrightarrow>
      fold drop_status (\<rho> ''deletion'' (fmdom (statuses order))) order = set_ArtifactWorkflows (Some fmempty) order"
    using assms by (intro drop_all_statuses) (simp_all add: fmdom'_alt_def)
  then show ?thesis
    by (simp add: reconcileDeletion_def client_simps deleteAll_recording bind_io_def put_io_def
        split: option.splits sum.splits prod.splits)
qed


subsection \<open>What the main branch may ask for\<close>

text \<open>The object created for a missing key, and the status an update may write.\<close>

definition made :: "range_order \<Rightarrow> entry_order \<Rightarrow> 'w OrderReconciler \<Rightarrow> Order \<Rightarrow>
    (string, desiredAW) fmap \<Rightarrow> string \<Rightarrow> ArtifactWorkflow \<Rightarrow> bool" where
  "made \<rho> \<pi> r order desired sha aw \<longleftrightarrow>
     (\<exists>daw o1. fmlookup desired sha = Some daw \<and> same_but_status o1 order \<and>
        ownedWorkflow \<rho> \<pi> r o1 daw = Inr aw)"

lemma madeI:
  "fmlookup desired sha = Some daw \<Longrightarrow> same_but_status o1 order \<Longrightarrow>
   ownedWorkflow \<rho> \<pi> r o1 daw = Inr aw \<Longrightarrow> made \<rho> \<pi> r order desired sha aw"
  by (auto simp: made_def)

definition status_matches :: "(string, desiredAW) fmap \<Rightarrow> Order \<Rightarrow> Order \<Rightarrow> bool" where
  "status_matches desired order o1 \<longleftrightarrow>
     same_but_status o1 order \<and> fmdom' (statuses o1) = fmdom' desired \<and>
     (\<forall>sha daw. fmlookup desired sha = Some daw \<longrightarrow>
        OAWStatus_ArtifactIndex (status_of o1 sha) = daw_index daw)"

fun main_permits :: "range_order \<Rightarrow> entry_order \<Rightarrow> 'w OrderReconciler \<Rightarrow> Order \<Rightarrow>
    (string, desiredAW) fmap \<Rightarrow> request \<Rightarrow> bool" where
  "main_permits \<rho> \<pi> r order desired (ReqCreateArtifactWorkflow aw) \<longleftrightarrow>
     (\<exists>sha \<in> fmdom' desired - fmdom' (statuses order). made \<rho> \<pi> r order desired sha aw)"
| "main_permits \<rho> \<pi> r order desired (ReqDeleteArtifactWorkflow m) \<longleftrightarrow>
     (\<exists>sha \<in> fmdom' (statuses order) - fmdom' desired. m = awObjectMeta order sha)"
| "main_permits \<rho> \<pi> r order desired (ReqGetArtifactWorkflow n) \<longleftrightarrow>
     (\<exists>sha \<in> fmdom' desired \<inter> fmdom' (statuses order). n = (Order_Namespace order, awName order sha))"
| "main_permits \<rho> \<pi> r order desired (ReqUpdateOrderStatus o1) \<longleftrightarrow> status_matches desired order o1"
| "main_permits \<rho> \<pi> r order desired x \<longleftrightarrow> False"

lemma set_createAWs:
  "range_ok \<rho> \<Longrightarrow> set (createAWs \<rho> desired order) = fmdom' desired - fmdom' (statuses order)"
  by (auto simp: createAWs_def fmdom'_alt_def)

lemma set_deleteAWs:
  "range_ok \<rho> \<Longrightarrow> set (deleteAWs \<rho> desired order) = fmdom' (statuses order) - fmdom' desired"
  by (auto simp: deleteAWs_def fmdom'_alt_def)

text \<open>The status after the four loops.\<close>

lemma final_status:
  assumes "range_ok \<rho>"
    and "createLoop \<rho> \<pi> r desired (createAWs \<rho> desired order) (init_status order) w = (Inr order1, w1)"
    and "deleteLoop c (deleteAWs \<rho> desired (init_status order)) order1 w1 = (Inr order2, w2)"
    and "phaseLoop c desired (createAWs \<rho> desired order) (\<rho> ''phases'' (fmdom desired)) order2 False w2
      = (Inr (order3, b), w3)"
  shows "status_matches desired order (indexLoop desired (\<rho> ''index'' (fmdom desired)) order3)"
proof -
  have ph: "same_but_status order3 order2"
    "fmdom' (statuses order3) \<subseteq> fmdom' (statuses order2) \<union> fmdom' desired"
    using phaseLoop_status [OF assms(4), where k = "[]"] by auto
  have o2: "order2 = fold drop_status (deleteAWs \<rho> desired (init_status order)) order1"
    by (rule deleteLoop_status [OF assms(3)])
  have sub: "fmdom' (statuses order1) \<subseteq> fmdom' (statuses order) \<union> fmdom' desired"
    using createLoop_status(4) [OF assms(2)] set_createAWs [OF assms(1)] by fastforce
  have "fmdom' (statuses order2) \<subseteq> fmdom' desired"
  proof
    fix k
    assume "k \<in> fmdom' (statuses order2)"
    then have "k \<in> fmdom' (statuses order1)" and "k \<notin> set (deleteAWs \<rho> desired (init_status order))"
      by (auto simp: o2 fmlookup_dom'_iff drop_all_lookup split: if_splits)
    with sub show "k \<in> fmdom' desired"
      by (auto simp: set_deleteAWs [OF assms(1)])
  qed
  then have "fmdom' (statuses order3) \<subseteq> fmdom' desired"
    using ph(2) by blast
  moreover have "same_but_status order3 order"
  proof (rule same_but_status_trans)
    show "same_but_status order3 order2" by (rule ph(1))
    show "same_but_status order2 order" using createLoop_status(1) [OF assms(2)] by (simp add: o2)
  qed
  moreover have "set (\<rho> ''index'' (fmdom desired)) = fmdom' desired"
    using assms(1) by (simp add: fmdom'_alt_def)
  ultimately show ?thesis
    by (auto simp: status_matches_def indexLoop_dom intro!: indexLoop_index intro: fmdom'I)
qed

context request_invariant
begin

lemma keep_desiredLoop:
  assumes "\<And>n. P (ReqGetEndpoint (Order_Namespace order, n))"
    and "\<And>n. P (ReqGetSecret (Order_Namespace order, n))" and "I w"
  shows "I (snd (desiredLoop c order i arts acc w))"
  using assms(3)
proof (induction arts arbitrary: i acc w)
  case (Cons a arts)
  have "I (snd (desiredArtifact c order i a w))"
    unfolding desiredArtifact_def namespacedName_def Marshal_def Let_def sum.case
    using assms Cons.prems
    by (intro keep_bind_io keep_fetchSecret) (auto intro: keeps)
  with Cons.IH show ?case
    by (auto intro!: keep_bind_io split: prod.splits)
qed simp

lemma keep_createLoop:
  assumes "\<And>sha aw. sha \<in> set shas \<Longrightarrow> made \<rho> \<pi> r order desired sha aw \<Longrightarrow> P (ReqCreateArtifactWorkflow aw)"
    and "OR_Client r = c" and "same_but_status o1 order" and "I w"
  shows "I (snd (createLoop \<rho> \<pi> r desired shas o1 w))"
  using assms(1,3,4)
proof (induction shas arbitrary: o1 w)
  case (Cons sha shas)
  have "I (snd (createWorkflow c aw w))" if "made \<rho> \<pi> r order desired sha aw" for aw
  proof -
    have "P (ReqCreateArtifactWorkflow aw)" using Cons.prems(1) [of sha aw] that by simp
    from keep_CreateArtifactWorkflow [OF this] Cons.prems(3) show ?thesis
      by (fastforce simp: createWorkflow_def split: prod.splits option.splits)
  qed
  moreover have "I (snd (createLoop \<rho> \<pi> r desired shas o2 w2))"
    if "I w2" "same_but_status o2 order" for o2 w2
    by (rule Cons.IH [OF _ that(2,1)]) (use Cons.prems(1) in auto)
  ultimately show ?case
    using Cons.prems(2,3)
    by (auto simp: assms(2) intro: madeI intro!: keep_bind_io split: option.splits sum.splits)
qed simp

lemma keep_deleteLoop:
  assumes "\<And>sha. sha \<in> set shas \<Longrightarrow> P (ReqDeleteArtifactWorkflow (awObjectMeta order sha))"
    and "same_but_status o1 order" and "I w"
  shows "I (snd (deleteLoop c shas o1 w))"
  using assms
proof (induction shas arbitrary: o1 w)
  case (Cons sha shas)
  have "I (snd (deleteWorkflow c (awObjectMeta o1 sha) w))"
    using keep_DeleteArtifactWorkflow [of "awObjectMeta order sha" w] Cons.prems
      same_but_status_meta(1) [of o1 order]
    by (auto simp: deleteWorkflow_def split: prod.splits option.splits)
  with Cons show ?case by (auto intro!: keep_bind_io)
qed simp

lemma keep_phaseLoop:
  assumes "\<And>sha daw. sha \<in> set shas - set created \<Longrightarrow> fmlookup desired sha = Some daw \<Longrightarrow>
      P (ReqGetArtifactWorkflow (Meta_Namespace (daw_objectMeta daw), Meta_Name (daw_objectMeta daw)))"
    and "I w"
  shows "I (snd (phaseLoop c desired created shas o1 b w))"
  using assms
proof (induction shas arbitrary: o1 b w)
  case (Cons sha shas)
  have step: "I (snd (phaseLoop c desired created shas o2 b2 w2))" if "I w2" for o2 b2 w2
    by (rule Cons.IH [OF _ that]) (use Cons.prems(1) in auto)
  have "I (snd (GetArtifactWorkflow c (Meta_Namespace (daw_objectMeta daw), Meta_Name (daw_objectMeta daw)) w))"
    if "fmlookup desired sha = Some daw" "sha \<notin> set created" for daw
    using that Cons.prems by (intro keep_GetArtifactWorkflow) auto
  then show ?case
    using Cons.prems(2) by (auto simp: namespacedName_def intro!: keep_bind_io step split: option.splits)
qed simp

lemma keep_applyDesired:
  assumes "range_ok \<rho>" and "OR_Client r = c" and "I w"
    and "\<And>x. main_permits \<rho> \<pi> r order desired x \<Longrightarrow> P x"
    and "\<And>sha daw. fmlookup desired sha = Some daw \<Longrightarrow> daw_objectMeta daw = awObjectMeta order sha"
  shows "I (snd (applyDesired \<rho> \<pi> r order desired w))"
  unfolding applyDesired_def Let_def updateStatus_def assms(2)
proof (intro keep_bind_io)
  show "I (snd (createLoop \<rho> \<pi> r desired (createAWs \<rho> desired order) (init_status order) w))"
    using assms by (intro keep_createLoop [where order = order])
      (auto simp: set_createAWs [OF assms(1)] intro!: assms(4))
next
  fix order1 w1
  assume 1: "createLoop \<rho> \<pi> r desired (createAWs \<rho> desired order) (init_status order) w = (Inr order1, w1)"
    and "I w1"
  then show "I (snd (deleteLoop c (deleteAWs \<rho> desired (init_status order)) order1 w1))"
    using createLoop_status(1) [OF 1] by (intro keep_deleteLoop [where order = order])
      (auto simp: set_deleteAWs [OF assms(1)] intro!: assms(4))
  fix order2 w2
  assume 2: "deleteLoop c (deleteAWs \<rho> desired (init_status order)) order1 w1 = (Inr order2, w2)" and "I w2"
  then show "I (snd (phaseLoop c desired (createAWs \<rho> desired order) (\<rho> ''phases'' (fmdom desired)) order2 False w2))"
    by (intro keep_phaseLoop assms(4))
      (auto simp: set_createAWs [OF assms(1)] assms(5) fmlookup_dom'_iff)
  fix x w3
  assume 3: "phaseLoop c desired (createAWs \<rho> desired order) (\<rho> ''phases'' (fmdom desired)) order2 False w2 = (Inr x, w3)"
    and 4: "I w3"
  have "I (snd (UpdateOrderStatus c (indexLoop desired (\<rho> ''index'' (fmdom desired)) o3) w3))"
    if "x = (o3, b)" for o3 b
    using final_status [OF assms(1) 1 2] 3 4 that by (intro keep_UpdateOrderStatus assms(4)) auto
  then show "I (snd ((case x of (order3, anyPhaseChanged) \<Rightarrow>
      if createAWs \<rho> desired order \<noteq> [] \<or> deleteAWs \<rho> desired (init_status order) \<noteq> [] \<or> anyPhaseChanged
      then bind_io (put_io ''failed to update status''
             (UpdateOrderStatus c (indexLoop desired (\<rho> ''index'' (fmdom desired)) order3)))
             (\<lambda>_. return_io done_result)
      else return_io done_result) w3))"
    using 4 by (cases x) (auto intro!: keep_bind_io)
qed

end


subsection \<open>The exact requests of a run that succeeds\<close>

text \<open>The reads the desired state is computed from.\<close>

definition desired_read :: "Order \<Rightarrow> request \<Rightarrow> bool" where
  "desired_read order x \<longleftrightarrow>
     (\<exists>n. x = ReqGetEndpoint (Order_Namespace order, n) \<or> x = ReqGetSecret (Order_Namespace order, n))"

lemma desiredLoop_log:
  "log_within (desired_read order) t (snd (desiredLoop (recording c) order i arts acc (w, t)))"
  by (rule rec.keep_desiredLoop) (auto simp: desired_read_def)

lemma desiredLoop_recording:
  obtains ts where "desiredLoop (recording c) order i arts acc (w, t) =
      (fst (desiredLoop c order i arts acc w), snd (desiredLoop c order i arts acc w), t @ ts)"
    and "\<forall>x \<in> set ts. desired_read order x"
proof -
  have "op_sim (\<lambda>s w. fst s = w) (desiredLoop (recording c) order i arts acc) (desiredLoop c order i arts acc)"
    by (rule transparent.sim_desiredLoop)
  then have "fst (desiredLoop (recording c) order i arts acc (w, t)) = fst (desiredLoop c order i arts acc w)"
    and "fst (snd (desiredLoop (recording c) order i arts acc (w, t))) = snd (desiredLoop c order i arts acc w)"
    by (simp_all add: op_sim_def)
  moreover obtain ts where "snd (snd (desiredLoop (recording c) order i arts acc (w, t))) = t @ ts"
    "\<forall>x \<in> set ts. desired_read order x"
    using desiredLoop_log [of order t c i arts acc w] by (auto simp: log_within_def)
  ultimately show ?thesis using that [of ts] by (metis prod.collapse)
qed

lemma createWorkflow_recording:
  "createWorkflow (recording c) aw (w, t) =
     (fst (createWorkflow c aw w), snd (createWorkflow c aw w), t @ [ReqCreateArtifactWorkflow aw])"
  by (simp add: createWorkflow_def client_simps split: option.splits prod.splits)

lemma createLoop_log:
  assumes "createLoop \<rho> \<pi> (recorded_OR r) desired shas o1 (w, t) = (Inr o2, (w1, t1))"
    and "same_but_status o1 order"
  shows "\<exists>aws. t1 = t @ map ReqCreateArtifactWorkflow aws \<and> list_all2 (made \<rho> \<pi> r order desired) shas aws"
  using assms
proof (induction shas arbitrary: o1 w t)
  case (Cons sha shas)
  obtain daw aw where 1: "fmlookup desired sha = Some daw" "ownedWorkflow \<rho> \<pi> (recorded_OR r) o1 daw = Inr aw"
    using Cons.prems(1) by (auto split: option.splits sum.splits)
  with Cons.prems(1) obtain o3 w2 where
    2: "createLoop \<rho> \<pi> (recorded_OR r) desired shas o3 (w2, t @ [ReqCreateArtifactWorkflow aw]) = (Inr o2, (w1, t1))"
    and 3: "same_but_status o3 order"
    using Cons.prems(2) by (auto simp: bind_io_Inr createWorkflow_recording client_simps split: if_splits)
  have "made \<rho> \<pi> r order desired sha aw"
    using 1 Cons.prems(2) ownedWorkflow_cong [of "recorded_OR r" r \<rho> \<pi> o1 daw]
    by (intro madeI) (auto simp: client_simps)
  moreover from Cons.IH [OF 2 3] obtain aws where
    "t1 = (t @ [ReqCreateArtifactWorkflow aw]) @ map ReqCreateArtifactWorkflow aws"
    "list_all2 (made \<rho> \<pi> r order desired) shas aws"
    by blast
  ultimately show ?case by (intro exI [of _ "aw # aws"]) simp
qed simp

lemma deleteLoop_log:
  assumes "deleteLoop (recording c) shas o1 (w, t) = (Inr o2, (w1, t1))" and "same_but_status o1 order"
  shows "t1 = t @ map (\<lambda>sha. ReqDeleteArtifactWorkflow (awObjectMeta order sha)) shas"
  using assms
proof (induction shas arbitrary: o1 w t)
  case (Cons sha shas)
  obtain w2 where "deleteLoop (recording c) shas (drop_status sha o1)
      (w2, t @ [ReqDeleteArtifactWorkflow (awObjectMeta order sha)]) = (Inr o2, (w1, t1))"
    using Cons.prems same_but_status_meta(1) [OF Cons.prems(2)]
    by (auto simp: bind_io_Inr deleteWorkflow_def client_simps split: option.splits prod.splits)
  from Cons.IH [OF this] Cons.prems(2) show ?case by simp
qed simp

lemma phaseLoop_log:
  assumes "phaseLoop (recording c) desired created shas o1 b (w, t) = (Inr x, (w1, t1))"
    and "\<And>sha daw. fmlookup desired sha = Some daw \<Longrightarrow> daw_objectMeta daw = awObjectMeta order sha"
  shows "t1 = t @ map (\<lambda>sha. ReqGetArtifactWorkflow (Order_Namespace order, awName order sha))
      (filter (\<lambda>sha. sha \<notin> set created) shas)"
  using assms(1)
proof (induction shas arbitrary: o1 b w t)
  case (Cons sha shas)
  show ?case
  proof (cases "sha \<in> set created")
    case True
    with Cons show ?thesis by simp
  next
    case False
    then obtain o2 b2 w2 where "phaseLoop (recording c) desired created shas o2 b2
        (w2, t @ [ReqGetArtifactWorkflow (Order_Namespace order, awName order sha)]) = (Inr x, (w1, t1))"
      using Cons.prems assms(2)
      by (auto simp: bind_io_Inr get_io_Inr client_simps namespacedName_def
          split: option.splits prod.splits if_splits)
    from Cons.IH [OF this] False show ?thesis by simp
  qed
qed simp

end
