(* ===== verification/Order_Theorems.thy ===== *)
theory Order_Theorems
  imports Order_Requests Demo
begin

section \<open>Correctness of the order controller\<close>

text \<open>
  The properties of one run of \<open>OrderReconciler_Reconcile\<close>, branch by branch, with their instances.
\<close>

subsection \<open>Deletion\<close>

lemma Reconcile_recording_deleting:
  assumes "GetOrder (OR_Client r) req w = (Inr order, w1)" and "Order_deleting order"
  shows "OrderReconciler_Reconcile \<rho> \<pi> (recorded_OR r) req (w, t) =
    reconcileDeletion \<rho> (recorded_OR r) order (w1, t @ [ReqGetOrder req])"
  using assms by (simp add: OrderReconciler_Reconcile_def client_simps)

text \<open>
  C3: reconciling an order that is being deleted makes exactly these requests, whatever the cluster
  answers: while its status lists artifact workflows, one deletion for each of them and one status
  update that empties the list; once the list is empty, one update that removes the order's
  finalizer and no other; without the finalizer, none. In particular the finalizer is never removed
  in the run that still finds artifact workflows.
\<close>

theorem deletion_requests:
  assumes "range_ok \<rho>" and "GetOrder (OR_Client r) req w = (Inr order, w1)" and "Order_deleting order"
  shows "order_requests \<rho> \<pi> r req w = ReqGetOrder req #
    (if statuses order \<noteq> fmempty then
       map (\<lambda>sha. ReqDeleteArtifactWorkflow (awObjectMeta order sha)) (\<rho> ''deletion'' (fmdom (statuses order))) @
       [ReqUpdateOrderStatus (set_ArtifactWorkflows (Some fmempty) order)]
     else if orderFinalizer \<in> set (Order_Finalizers order) then
       [ReqUpdateOrder (set_Order_Finalizers (filter (\<lambda>f. f \<noteq> orderFinalizer) (Order_Finalizers order)) order)]
     else [])"
  using assms
  by (simp add: order_requests_def Reconcile_recording_deleting reconcileDeletion_requests)

theorem deletion_requests_witness:
  "order_requests sorted_range id
     (static_OR (static_client (Inr (demo_order [''keep'', orderFinalizer] (Some 1) [] None)) (\<lambda>n. Inr (demo_endpoint n)) [] None))
     (''default'', ''demo'') () =
   [ReqGetOrder (''default'', ''demo''),
    ReqUpdateOrder (set_Order_Finalizers [''keep''] (demo_order [''keep'', orderFinalizer] (Some 1) [] None))]"
  by (subst deletion_requests [OF sorted_range_ok, where order = "demo_order [''keep'', orderFinalizer] (Some 1) [] None"])
    (simp_all add: IsZero_def orderFinalizer_def)


subsection \<open>Adding the finalizer\<close>

lemma order_finalizer_log:
  assumes "GetOrder (OR_Client r) req w = (Inr order, w1)"
    and "\<not> Order_deleting order" and "orderFinalizer \<notin> set (Order_Finalizers order)"
  shows "order_requests \<rho> \<pi> r req w =
    [ReqGetOrder req, ReqUpdateOrder (set_Order_Finalizers (Order_Finalizers order @ [orderFinalizer]) order)]"
  using assms
  by (simp add: order_requests_def OrderReconciler_Reconcile_def addFinalizer_def client_simps bind_io_def
      put_io_def split: option.splits sum.splits prod.splits)

subsection \<open>The main branch\<close>

lemma Reconcile_recording_main:
  assumes "GetOrder (OR_Client r) req w = (Inr order, w1)"
    and "\<not> Order_deleting order" and "orderFinalizer \<in> set (Order_Finalizers order)"
  shows "OrderReconciler_Reconcile \<rho> \<pi> (recorded_OR r) req (w, t) =
    reconcileArtifacts \<rho> \<pi> (recorded_OR r) order (w1, t @ [ReqGetOrder req])"
  using assms by (simp add: OrderReconciler_Reconcile_def client_simps)

lemma made_recorded: "made \<rho> \<pi> (recorded_OR r) = made \<rho> \<pi> r"
  by (intro ext) (simp add: made_def ownedWorkflow_cong [of "recorded_OR r" r] client_simps)

lemma main_permits_recorded:
  "main_permits \<rho> \<pi> (recorded_OR r) order desired x = main_permits \<rho> \<pi> r order desired x"
  by (cases x) (simp_all add: made_recorded)

lemma desiredLoop_meta:
  assumes "desiredLoop c order 0 arts fmempty w = (Inr desired, w1)" and "fmlookup desired sha = Some daw"
  shows "daw_objectMeta daw = awObjectMeta order sha"
  using desiredLoop_ok0 [OF assms] by (simp add: daw_ok_def)

lemma reconcileArtifacts_log:
  assumes "range_ok \<rho>"
  obtains ts us where
    "snd (snd (reconcileArtifacts \<rho> \<pi> (recorded_OR r) order (w, t))) = t @ ts @ us"
    and "\<forall>x \<in> set ts. desired_read order x"
    and "\<forall>x \<in> set us. \<exists>desired w1.
      desiredLoop (OR_Client r) order 0 (OrderSpec_Artifacts (Order_Spec order)) fmempty w = (Inr desired, w1) \<and>
      main_permits \<rho> \<pi> r order desired x"
proof -
  let ?arts = "OrderSpec_Artifacts (Order_Spec order)"
  obtain ts where 1: "desiredLoop (recording (OR_Client r)) order 0 ?arts fmempty (w, t) =
      (fst (desiredLoop (OR_Client r) order 0 ?arts fmempty w),
       snd (desiredLoop (OR_Client r) order 0 ?arts fmempty w), t @ ts)"
    and 2: "\<forall>x \<in> set ts. desired_read order x"
    by (rule desiredLoop_recording)
  show ?thesis
  proof (cases "desiredLoop (OR_Client r) order 0 ?arts fmempty w")
    case (Pair x w1)
    show ?thesis
    proof (cases x)
      case (Inl f)
      with 1 2 Pair that [of ts "[]"] show ?thesis
        by (simp add: reconcileArtifacts_def client_simps bind_io_def)
    next
      case (Inr desired)
      have "log_within (main_permits \<rho> \<pi> r order desired) (t @ ts)
          (snd (applyDesired \<rho> \<pi> (recorded_OR r) order desired (w1, t @ ts)))"
        using assms desiredLoop_meta Pair Inr
        by (intro rec.keep_applyDesired) (auto simp: client_simps main_permits_recorded)
      then obtain us where "snd (snd (applyDesired \<rho> \<pi> (recorded_OR r) order desired (w1, t @ ts))) = (t @ ts) @ us"
        "\<forall>x \<in> set us. main_permits \<rho> \<pi> r order desired x"
        by (auto simp: log_within_def)
      with 1 2 Pair Inr that [of ts us] show ?thesis
        by (simp add: reconcileArtifacts_def client_simps bind_io_def)
    qed
  qed
qed


text \<open>
  C2: every request of a run of the main branch, whether it succeeds or fails, is the read of the
  order, the read of an endpoint or a secret in the order's namespace, or one the desired state
  allows: the creation of an artifact workflow that is desired and not in the status yet, made from
  the desired entry; the deletion of one that is in the status and not desired any more; the read of
  one that is both; an update that changes the order's status alone, to a map whose keys are exactly
  the desired ones, each with the index of its artifact.
\<close>

theorem main_requests_permitted:
  assumes "range_ok \<rho>" and "GetOrder (OR_Client r) req w = (Inr order, w1)"
    and "\<not> Order_deleting order" and "orderFinalizer \<in> set (Order_Finalizers order)"
    and "x \<in> set (order_requests \<rho> \<pi> r req w)"
  shows "x = ReqGetOrder req \<or> desired_read order x \<or>
    (\<exists>desired w2.
       desiredLoop (OR_Client r) order 0 (OrderSpec_Artifacts (Order_Spec order)) fmempty w1 = (Inr desired, w2) \<and>
       main_permits \<rho> \<pi> r order desired x)"
proof -
  obtain ts us where 1: "snd (snd (reconcileArtifacts \<rho> \<pi> (recorded_OR r) order (w1, [ReqGetOrder req])))
      = [ReqGetOrder req] @ ts @ us"
    and 2: "\<forall>x \<in> set ts. desired_read order x"
    and 3: "\<forall>x \<in> set us. \<exists>desired w2.
      desiredLoop (OR_Client r) order 0 (OrderSpec_Artifacts (Order_Spec order)) fmempty w1 = (Inr desired, w2) \<and>
      main_permits \<rho> \<pi> r order desired x"
    by (rule reconcileArtifacts_log [OF assms(1)])
  have "x = ReqGetOrder req \<or> x \<in> set ts \<or> x \<in> set us"
    using assms 1 by (auto simp: order_requests_def Reconcile_recording_main)
  with 2 3 show ?thesis by blast
qed

theorem main_requests_permitted_witness:
  "let order = demo_order [orderFinalizer] None [] (Some (fmupd ''old'' zero_OAWStatus fmempty));
       r = static_OR (static_client (Inr order) demo_view [] None) in
   \<forall>x \<in> set (order_requests sorted_range id r (''default'', ''demo'') ()).
     x = ReqGetOrder (''default'', ''demo'') \<or> desired_read order x \<or>
     main_permits sorted_range id r order fmempty x"
proof -
  let ?order = "demo_order [orderFinalizer] None [] (Some (fmupd ''old'' zero_OAWStatus fmempty))"
  let ?r = "static_OR (static_client (Inr ?order) demo_view [] None) :: unit OrderReconciler"
  have "x = ReqGetOrder (''default'', ''demo'') \<or> desired_read ?order x \<or>
      main_permits sorted_range id ?r ?order fmempty x"
    if "x \<in> set (order_requests sorted_range id ?r (''default'', ''demo'') ())" for x
    using main_requests_permitted [OF sorted_range_ok _ _ _ that, of ?order "()"]
    by (simp add: IsZero_def)
  then show ?thesis by (simp add: Let_def)
qed

lemma failed_desired_state:
  assumes "GetOrder (OR_Client r) req w = (Inr order, w1)"
    and "\<not> Order_deleting order" and "orderFinalizer \<in> set (Order_Finalizers order)"
    and "desiredLoop (OR_Client r) order 0 (OrderSpec_Artifacts (Order_Spec order)) fmempty w1 = (Inl f, w2)"
  shows "fst (OrderReconciler_Reconcile \<rho> \<pi> r req w) = Inl f \<and>
    (\<forall>x \<in> set (order_requests \<rho> \<pi> r req w). \<not> is_write x)"
proof -
  obtain ts where "desiredLoop (recording (OR_Client r)) order 0 (OrderSpec_Artifacts (Order_Spec order)) fmempty
      (w1, [ReqGetOrder req]) = (Inl f, w2, [ReqGetOrder req] @ ts)"
    and 2: "\<forall>x \<in> set ts. desired_read order x"
    using desiredLoop_recording [of "OR_Client r" order 0 "OrderSpec_Artifacts (Order_Spec order)" fmempty w1
        "[ReqGetOrder req]"] assms(4) by (metis fst_conv snd_conv)
  then have 1: "OrderReconciler_Reconcile \<rho> \<pi> (recorded_OR r) req (w, []) = (Inl f, w2, [ReqGetOrder req] @ ts)"
    using assms(1-3) by (simp add: Reconcile_recording_main reconcileArtifacts_def client_simps bind_io_def)
  then have "fst (OrderReconciler_Reconcile \<rho> \<pi> r req w) = Inl f"
    using recorded_run [of \<rho> \<pi> r req "(w, [])"] by simp
  with 1 2 show ?thesis by (auto simp: order_requests_def desired_read_def)
qed

text \<open>
  The fetches for one artifact as the client answers them, told apart from the code that makes them:
  both endpoints, then the secrets the endpoints name, all in the order's namespace.
\<close>

inductive secret_fetched :: "'w Client \<Rightarrow> string \<Rightarrow> Endpoint \<Rightarrow> 'w \<Rightarrow> 'w \<Rightarrow> bool"
  for c ns ep where
  none_named: "Ref_Name (EndpointSpec_SecretRef (Endpoint_Spec ep)) = [] \<Longrightarrow> secret_fetched c ns ep w w"
| fetched: "Ref_Name (EndpointSpec_SecretRef (Endpoint_Spec ep)) = n \<Longrightarrow> n \<noteq> [] \<Longrightarrow>
    GetSecret c (ns, n) w = (Inr s, w1) \<Longrightarrow> secret_fetched c ns ep w w1"

inductive all_fetched :: "'w Client \<Rightarrow> Order \<Rightarrow> OrderArtifact \<Rightarrow> 'w \<Rightarrow> 'w \<Rightarrow> bool"
  for c order artifact where
  all_fetched: "GetEndpoint c (Order_Namespace order, srcRefName order artifact) w = (Inr src, w1) \<Longrightarrow>
    GetEndpoint c (Order_Namespace order, dstRefName order artifact) w1 = (Inr dst, w2) \<Longrightarrow>
    secret_fetched c (Order_Namespace order) src w2 w3 \<Longrightarrow>
    secret_fetched c (Order_Namespace order) dst w3 w4 \<Longrightarrow> all_fetched c order artifact w w4"

inductive fetch_fails :: "'w Client \<Rightarrow> Order \<Rightarrow> OrderArtifact \<Rightarrow> 'w \<Rightarrow> string \<Rightarrow> api_error \<Rightarrow> bool"
  for c order artifact where
  src_endpoint: "GetEndpoint c (Order_Namespace order, srcRefName order artifact) w = (Inl e, w1) \<Longrightarrow>
    fetch_fails c order artifact w ''endpoint for source'' e"
| dst_endpoint: "GetEndpoint c (Order_Namespace order, srcRefName order artifact) w = (Inr src, w1) \<Longrightarrow>
    GetEndpoint c (Order_Namespace order, dstRefName order artifact) w1 = (Inl e, w2) \<Longrightarrow>
    fetch_fails c order artifact w ''endpoint for destination'' e"
| src_secret: "GetEndpoint c (Order_Namespace order, srcRefName order artifact) w = (Inr src, w1) \<Longrightarrow>
    GetEndpoint c (Order_Namespace order, dstRefName order artifact) w1 = (Inr dst, w2) \<Longrightarrow>
    Ref_Name (EndpointSpec_SecretRef (Endpoint_Spec src)) = n \<Longrightarrow> n \<noteq> [] \<Longrightarrow>
    GetSecret c (Order_Namespace order, n) w2 = (Inl e, w3) \<Longrightarrow>
    fetch_fails c order artifact w ''secret for source'' e"
| dst_secret: "GetEndpoint c (Order_Namespace order, srcRefName order artifact) w = (Inr src, w1) \<Longrightarrow>
    GetEndpoint c (Order_Namespace order, dstRefName order artifact) w1 = (Inr dst, w2) \<Longrightarrow>
    secret_fetched c (Order_Namespace order) src w2 w3 \<Longrightarrow>
    Ref_Name (EndpointSpec_SecretRef (Endpoint_Spec dst)) = n \<Longrightarrow> n \<noteq> [] \<Longrightarrow>
    GetSecret c (Order_Namespace order, n) w3 = (Inl e, w4) \<Longrightarrow>
    fetch_fails c order artifact w ''secret for destination'' e"

text \<open>Some artifact has a fetch that fails, and those before it have none.\<close>

inductive some_fetch_fails :: "'w Client \<Rightarrow> Order \<Rightarrow> OrderArtifact list \<Rightarrow> 'w \<Rightarrow> string \<Rightarrow> api_error \<Rightarrow> bool"
  for c order where
  first: "fetch_fails c order a w what e \<Longrightarrow> some_fetch_fails c order (a # as) w what e"
| later: "all_fetched c order a w w1 \<Longrightarrow> some_fetch_fails c order as w1 what e \<Longrightarrow>
    some_fetch_fails c order (a # as) w what e"

lemma fetchSecret_fetched: "secret_fetched c ns ep w w1 \<Longrightarrow> \<exists>s. fetchSecret c ns (secretRefName ep) text w = (Inr s, w1)"
  by (auto simp: fetchSecret_def secretRefName_def get_io_def return_io_def namespacedName_def elim: secret_fetched.cases)

lemma desiredArtifact_fetched:
  assumes "all_fetched c order a w w4"
  shows "\<exists>sha daw. desiredArtifact c order i a w = (Inr (sha, daw), w4)"
  using assms
proof cases
  case (all_fetched src w1 dst w2 w3)
  obtain s t where
    "fetchSecret c (Order_Namespace order) (secretRefName src) ''failed to fetch secret for source'' w2 = (Inr s, w3)"
    "fetchSecret c (Order_Namespace order) (secretRefName dst) ''failed to fetch secret for destination'' w3 = (Inr t, w4)"
    using fetchSecret_fetched [OF all_fetched(3)] fetchSecret_fetched [OF all_fetched(4)] by blast
  with all_fetched show ?thesis
    by (simp add: desiredArtifact_def bind_io_def get_io_def namespacedName_def Marshal_def Let_def)
qed

lemma desiredArtifact_fails:
  assumes "fetch_fails c order a w what e"
  shows "fst (desiredArtifact c order i a w) = Inl (wrapApi e (''failed to fetch '' @ what))"
  using assms
proof cases
  case (dst_secret src w1 dst w2 w3 n w4)
  obtain s where "fetchSecret c (Order_Namespace order) (secretRefName src) ''failed to fetch secret for source'' w2 = (Inr s, w3)"
    using fetchSecret_fetched [OF dst_secret(4)] by blast
  moreover have "fetchSecret c (Order_Namespace order) (secretRefName dst) ''failed to fetch secret for destination'' w3 =
      (Inl (wrapApi e ''failed to fetch secret for destination''), w4)"
    using dst_secret by (simp add: fetchSecret_def secretRefName_def get_io_def namespacedName_def)
  ultimately show ?thesis
    using dst_secret(1-3) by (simp add: desiredArtifact_def bind_io_def get_io_def namespacedName_def)
qed (auto simp: desiredArtifact_def bind_io_def get_io_def namespacedName_def fetchSecret_def secretRefName_def)

lemma desiredLoop_fails:
  "some_fetch_fails c order as w what e \<Longrightarrow>
    fst (desiredLoop c order i as desired w) = Inl (wrapApi e (''failed to fetch '' @ what))"
proof (induction arbitrary: i desired rule: some_fetch_fails.induct)
  case (first a w what e as)
  from desiredArtifact_fails [OF this, of i] show ?case
    by (cases "desiredArtifact c order i a w") (simp add: bind_io_def)
next
  case (later a w w1 as what e)
  from desiredArtifact_fetched [OF later(1), of i] obtain sha daw where
    "desiredArtifact c order i a w = (Inr (sha, daw), w1)" by blast
  with later(3) show ?case by (simp add: bind_io_def)
qed

text \<open>
  C16: when the API server refuses or does not have an endpoint or a secret that some artifact of the
  order needs, the run fails with the API server's error wrapped in a text that says which of the four
  fetches it was, and it has written nothing, not even for the artifacts before: the desired state is
  computed in full before anything is changed.
\<close>

theorem no_writes_without_desired_state:
  assumes "GetOrder (OR_Client r) req w = (Inr order, w1)"
    and "\<not> Order_deleting order" and "orderFinalizer \<in> set (Order_Finalizers order)"
    and "some_fetch_fails (OR_Client r) order (OrderSpec_Artifacts (Order_Spec order)) w1 what e"
  shows "fst (OrderReconciler_Reconcile \<rho> \<pi> r req w) = Inl (wrapApi e (''failed to fetch '' @ what)) \<and>
    (\<forall>x \<in> set (order_requests \<rho> \<pi> r req w). \<not> is_write x)"
  using failed_desired_state [OF assms(1-3)] desiredLoop_fails [OF assms(4), of 0 fmempty]
  by (metis prod.collapse)

theorem no_writes_without_desired_state_witness:
  "let order = demo_order [orderFinalizer] None
         [demo_artifact, demo_artifact\<lparr>OrderArtifact_DstRef := \<lparr>Ref_Name = ''gone''\<rparr>\<rparr>] None;
       r = static_OR (static_client (Inr order) demo_view [] None);
       f = wrapApi \<lparr>api_reason = NotFound, api_message = ''not found''\<rparr> ''failed to fetch endpoint for destination'' in
   fst (OrderReconciler_Reconcile sorted_range id r (''default'', ''demo'') ()) = Inl f \<and>
   (\<forall>x \<in> set (order_requests sorted_range id r (''default'', ''demo'') ()). \<not> is_write x)"
proof -
  let ?gone = "demo_artifact\<lparr>OrderArtifact_DstRef := \<lparr>Ref_Name = ''gone''\<rparr>\<rparr>"
  let ?order = "demo_order [orderFinalizer] None [demo_artifact, ?gone] None"
  let ?r = "static_OR (static_client (Inr ?order) demo_view [] None) :: unit OrderReconciler"
  let ?e = "\<lparr>api_reason = NotFound, api_message = ''not found''\<rparr>"
  have "all_fetched (OR_Client ?r) ?order demo_artifact () ()"
    by (rule all_fetched.intros [where src = "demo_endpoint ''src''" and dst = "demo_endpoint ''other''"])
      (simp_all add: srcRefName_def dstRefName_def refName_def demo_artifact_def demo_view_def demo_endpoint_def
        secret_fetched.none_named)
  moreover have "fetch_fails (OR_Client ?r) ?order ?gone () ''endpoint for destination'' ?e"
    by (rule fetch_fails.dst_endpoint [where src = "demo_endpoint ''src''"])
      (simp_all add: srcRefName_def dstRefName_def refName_def demo_artifact_def demo_view_def)
  ultimately have "some_fetch_fails (OR_Client ?r) ?order [demo_artifact, ?gone] () ''endpoint for destination'' ?e"
    by (blast intro: some_fetch_fails.intros)
  then show ?thesis
    using no_writes_without_desired_state [where r = ?r and order = ?order and w = "()" and ?w1.0 = "()" and
        req = "(''default'', ''demo'')" and \<rho> = sorted_range and \<pi> = id and what = "''endpoint for destination''" and e = ?e]
    by (simp add: Let_def IsZero_def)
qed

subsection \<open>Runs that succeed\<close>


lemma deleteAWs_init [simp]: "deleteAWs \<rho> desired (init_status order) = deleteAWs \<rho> desired order"
  by (simp add: deleteAWs_def)





lemma sorted_range_single [simp]: "sorted_range at {|k|} = [k]"
  by (simp add: sorted_range_def)

lemma Unmarshal_empty: "Unmarshal id ''{}'' = Inr []"
  by code_simp

lemmas demo_run_defs = OrderReconciler_Reconcile_def reconcileArtifacts_def IsZero_def bind_io_def
  desiredArtifact_def get_io_def namespacedName_def srcRefName_def dstRefName_def refName_def demo_artifact_def
  demo_view_def fetchSecret_def secretRefName_def demo_endpoint_def Marshal_def Let_def applyDesired_def
  createAWs_def deleteAWs_def range_ok_empty ownedWorkflow_def hydrateArtifactWorkflow_def
  dawToParameters_def endpointParameters_eq raw_document_def Unmarshal_empty createWorkflow_def
  updateStatus_def put_io_def




subsection \<open>A settled order\<close>

lemma phaseLoop_settled:
  assumes "\<And>sha w. sha \<in> set shas \<Longrightarrow> J w \<Longrightarrow>
      \<exists>daw aw w1. fmlookup desired sha = Some daw \<and>
        GetArtifactWorkflow c (Meta_Namespace (daw_objectMeta daw), Meta_Name (daw_objectMeta daw)) w = (Inr aw, w1) \<and>
        J w1 \<and> AWStatus_Phase (AW_Status aw) = OAWStatus_Phase (status_of order sha)"
    and "J w"
  shows "\<exists>w1. phaseLoop c desired created shas order b w = (Inr (order, b), w1)"
  using assms
proof (induction shas arbitrary: w)
  case (Cons sha shas)
  have rest: "\<exists>w1. phaseLoop c desired created shas order b w2 = (Inr (order, b), w1)" if "J w2" for w2
    by (rule Cons.IH [OF Cons.prems(1) that]) auto
  obtain daw aw w2 where "fmlookup desired sha = Some daw" "J w2"
    "GetArtifactWorkflow c (Meta_Namespace (daw_objectMeta daw), Meta_Name (daw_objectMeta daw)) w = (Inr aw, w2)"
    "AWStatus_Phase (AW_Status aw) = OAWStatus_Phase (status_of order sha)"
    using Cons.prems(1) [OF _ Cons.prems(2), of sha] by auto
  with rest [OF Cons.prems(2)] rest [of w2] show ?case
    by (auto simp: bind_io_Inr get_io_Inr namespacedName_def)
qed simp

lemma no_loops_when_settled:
  assumes "range_ok \<rho>" and "fmdom (statuses order) = fmdom desired"
  shows "createAWs \<rho> desired order = []" and "deleteAWs \<rho> desired order = []"
  using assms by (simp_all add: createAWs_def deleteAWs_def filter_empty_conv)

lemma status_of_init [simp]: "status_of (init_status order) sha = status_of order sha"
  by (simp add: status_of_def)

lemma applyDesired_settled:
  assumes "range_ok \<rho>" and "fmdom (statuses order) = fmdom desired"
    and "phaseLoop (OR_Client r) desired [] (\<rho> ''phases'' (fmdom desired)) (init_status order) False w
      = (Inr (init_status order, False), w1)"
  shows "applyDesired \<rho> \<pi> r order desired w = (Inr done_result, w1)"
  using assms(3) no_loops_when_settled [OF assms(1,2)]
  by (simp add: applyDesired_def Let_def updateStatus_def bind_io_def)

lemma settled_run:
  assumes "range_ok \<rho>" and "GetOrder (OR_Client r) req w = (Inr order, w1)"
    and "\<not> Order_deleting order" and "orderFinalizer \<in> set (Order_Finalizers order)"
    and "desiredLoop (OR_Client r) order 0 (OrderSpec_Artifacts (Order_Spec order)) fmempty w1 = (Inr desired, w2)"
    and "fmdom (statuses order) = fmdom desired" and "J w2"
    and "\<And>sha v. sha |\<in>| fmdom desired \<Longrightarrow> J v \<Longrightarrow>
      \<exists>aw v1. GetArtifactWorkflow (OR_Client r) (Order_Namespace order, awName order sha) v = (Inr aw, v1) \<and>
        J v1 \<and> AWStatus_Phase (AW_Status aw) = OAWStatus_Phase (status_of order sha)"
  shows "fst (OrderReconciler_Reconcile \<rho> \<pi> r req w) = Inr done_result \<and>
    (\<forall>x \<in> set (order_requests \<rho> \<pi> r req w). \<not> is_write x)"
proof -
  obtain ts where 1: "desiredLoop (recording (OR_Client r)) order 0 (OrderSpec_Artifacts (Order_Spec order)) fmempty
      (w1, [ReqGetOrder req]) = (Inr desired, w2, [ReqGetOrder req] @ ts)"
    and 2: "\<forall>x \<in> set ts. desired_read order x"
    using desiredLoop_recording [of "OR_Client r" order 0 "OrderSpec_Artifacts (Order_Spec order)" fmempty w1
        "[ReqGetOrder req]"] assms(5) by (metis fst_conv snd_conv)
  note meta = desiredLoop_meta [OF assms(5)]
  have "\<exists>s. phaseLoop (recording (OR_Client r)) desired [] (\<rho> ''phases'' (fmdom desired)) (init_status order) False
      (w2, [ReqGetOrder req] @ ts) = (Inr (init_status order, False), s)"
  proof (rule phaseLoop_settled [where J = "\<lambda>s. J (fst s)"])
    fix sha and s :: "'a \<times> request list"
    assume "sha \<in> set (\<rho> ''phases'' (fmdom desired))" and J: "J (fst s)"
    then have sha: "sha |\<in>| fmdom desired" using range_okD [OF assms(1)] by simp
    then obtain daw where "fmlookup desired sha = Some daw" by (auto simp: fmlookup_dom_iff)
    with meta assms(8) [OF sha J] show "\<exists>daw aw s1. fmlookup desired sha = Some daw \<and>
        GetArtifactWorkflow (recording (OR_Client r))
          (Meta_Namespace (daw_objectMeta daw), Meta_Name (daw_objectMeta daw)) s = (Inr aw, s1) \<and>
        J (fst s1) \<and> AWStatus_Phase (AW_Status aw) = OAWStatus_Phase (status_of (init_status order) sha)"
      by (cases s) (auto simp: client_simps)
  qed (simp add: assms(7))
  then obtain w3 t3 where 3: "phaseLoop (recording (OR_Client r)) desired [] (\<rho> ''phases'' (fmdom desired))
      (init_status order) False (w2, [ReqGetOrder req] @ ts) = (Inr (init_status order, False), (w3, t3))"
    by (metis prod.collapse)
  have 4: "OrderReconciler_Reconcile \<rho> \<pi> (recorded_OR r) req (w, []) = (Inr done_result, (w3, t3))"
    using assms(2-4) 1 3 applyDesired_settled [OF assms(1,6), of "recorded_OR r"]
    by (simp add: Reconcile_recording_main reconcileArtifacts_def client_simps bind_io_def)
  have "fst (OrderReconciler_Reconcile \<rho> \<pi> r req w) = Inr done_result"
    using recorded_run [of \<rho> \<pi> r req "(w, [])"] 4 by simp
  moreover have "\<forall>x \<in> set t3. \<not> is_write x"
    using 2 phaseLoop_log [OF 3 meta] by (auto simp: desired_read_def)
  ultimately show ?thesis using 4 by (simp add: order_requests_def)
qed

text \<open>
  C6: if the keys of the status are the desired ones and each artifact workflow reports the phase the
  status has for it, a run succeeds without writing anything: reconciling is idempotent on a settled
  order. The indices in the status do not matter for this, so an index that became stale because the
  artifacts of the order were only reordered is not corrected.
\<close>

theorem settled_order_untouched:
  assumes "range_ok \<rho>" and "GetOrder (OR_Client r) req w = (Inr order, w1)"
    and "\<not> Order_deleting order" and "orderFinalizer \<in> set (Order_Finalizers order)"
    and "desiredLoop (OR_Client r) order 0 (OrderSpec_Artifacts (Order_Spec order)) fmempty w1 = (Inr desired, w2)"
    and "fmdom (statuses order) = fmdom desired" and "J w2"
    and "\<And>sha v. sha |\<in>| fmdom desired \<Longrightarrow> J v \<Longrightarrow>
      \<exists>aw v1. GetArtifactWorkflow (OR_Client r) (Order_Namespace order, awName order sha) v = (Inr aw, v1) \<and>
        J v1 \<and> AWStatus_Phase (AW_Status aw) = OAWStatus_Phase (status_of order sha)"
  shows "fst (OrderReconciler_Reconcile \<rho> \<pi> r req w) = Inr done_result \<and>
    (\<forall>x \<in> set (order_requests \<rho> \<pi> r req w). \<not> is_write x)"
  using assms by (rule settled_run)

definition demo_sha :: string where
  "demo_sha = shaOf (marshal_array (hashData (demo_order [] None [] None) demo_artifact
     (demo_endpoint ''src'') (demo_endpoint ''other'') zero_Secret zero_Secret))"

lemma demo_desired:
  "desiredLoop (OR_Client (static_OR (static_client x demo_view ph ans))) (demo_order fs d [demo_artifact] m) 0
     (OrderSpec_Artifacts (Order_Spec (demo_order fs d [demo_artifact] m))) fmempty w =
     (Inr (fmupd demo_sha
        \<lparr>daw_index = 0, daw_objectMeta = awObjectMeta (demo_order fs d [demo_artifact] m) demo_sha,
         daw_artifact = demo_artifact, daw_srcEndpoint = demo_endpoint ''src'',
         daw_dstEndpoint = demo_endpoint ''other'', daw_srcSecret = zero_Secret, daw_dstSecret = zero_Secret\<rparr>
        fmempty), w)"
  by (simp add: demo_run_defs demo_sha_def hashData_def)

theorem settled_order_untouched_witness:
  "let order = demo_order [orderFinalizer] None [demo_artifact]
         (Some (fmupd demo_sha
            \<lparr>OAWStatus_ArtifactIndex = 7, OAWStatus_Phase = WorkflowRunning, OAWStatus_Message = []\<rparr> fmempty));
       r = static_OR (static_client (Inr order) demo_view WorkflowRunning None) in
   (fst (OrderReconciler_Reconcile sorted_range id r (''default'', ''demo'') ()) = Inr done_result \<and>
    (\<forall>x \<in> set (order_requests sorted_range id r (''default'', ''demo'') ()). \<not> is_write x)) \<and>
   OAWStatus_ArtifactIndex (status_of order demo_sha) = 7"
  unfolding Let_def
  by (rule conjI, rule settled_order_untouched [OF sorted_range_ok _ _ _ demo_desired, where J = "\<lambda>_. True"])
    (auto simp: IsZero_def status_of_def get_or_def static_client_def)

subsection \<open>The desired state\<close>

text \<open>
  C8: in a cluster that answers reads of endpoints and secrets from a fixed view, the desired state
  is computed exactly when every artifact resolves there (its own endpoint references, or the
  order's defaults where it has none, and the secrets these endpoints name), and it then holds one
  entry for each artifact under its hash, the last artifact winning where hashes agree. Nothing is
  changed on the way.
\<close>

theorem desired_state_spec:
  assumes "answers c v w"
  shows "desiredLoop c order 0 (OrderSpec_Artifacts (Order_Spec order)) fmempty w = (Inr desired, w1) \<longleftrightarrow>
    w1 = w \<and> (\<exists>daws. resolve_all v order 0 (OrderSpec_Artifacts (Order_Spec order)) daws \<and>
      desired = fold (\<lambda>(k, d). fmupd k d) (keyed order daws) fmempty)"
  by (rule desiredLoop_answers [OF assms])

theorem desired_state_spec_witness:
  "\<exists>daws. resolve_all \<lparr>view_Endpoint = \<lambda>n. demo_view (snd n), view_Secret = \<lambda>n. Inr zero_Secret\<rparr>
     (demo_order [] None [demo_artifact] None) 0 [demo_artifact] daws"
proof -
  have "answers (OR_Client (static_OR (static_client (Inr (demo_order [] None [demo_artifact] None)) demo_view [] None)))
      \<lparr>view_Endpoint = \<lambda>n. demo_view (snd n), view_Secret = \<lambda>n. Inr zero_Secret\<rparr> ()"
    by (simp add: answers_def)
  from desired_state_spec [OF this, THEN iffD1, OF demo_desired [of _ _ _ "[]" None None]] show ?thesis
    by (simp only: demo_order_simps) blast
qed

text \<open>
  C12: the artifact workflows that two orders want have the same namespace and name only if it is the
  same order (by namespace and name) and the same key, so two orders never compete for one object.
\<close>

theorem workflow_names_unique:
  assumes "desiredLoop c a 0 (OrderSpec_Artifacts (Order_Spec a)) fmempty w = (Inr da, w1)"
    and "desiredLoop c b 0 (OrderSpec_Artifacts (Order_Spec b)) fmempty v = (Inr db, v1)"
    and "fmlookup da s = Some x" and "fmlookup db t = Some y"
    and "Meta_Namespace (daw_objectMeta x) = Meta_Namespace (daw_objectMeta y)"
    and "Meta_Name (daw_objectMeta x) = Meta_Name (daw_objectMeta y)"
  shows "Order_Namespace a = Order_Namespace b \<and> Order_Name a = Order_Name b \<and> s = t"
proof -
  have "daw_ok a (OrderSpec_Artifacts (Order_Spec a)) s x" "daw_ok b (OrderSpec_Artifacts (Order_Spec b)) t y"
    using assms(1-4) by (blast intro: desiredLoop_ok0)+
  then have "length s = 16" "length t = 16" and "daw_objectMeta x = awObjectMeta a s" "daw_objectMeta y = awObjectMeta b t"
    by (auto simp: daw_ok_def daw_sha_def)
  with assms(5,6) awName_inj [of a s b t] show ?thesis by simp
qed

theorem workflow_names_unique_witness:
  "Order_Namespace (demo_order [] None [demo_artifact] None) =
     Order_Namespace (demo_order [orderFinalizer] None [demo_artifact] None) \<and>
   Order_Name (demo_order [] None [demo_artifact] None) =
     Order_Name (demo_order [orderFinalizer] None [demo_artifact] None) \<and> demo_sha = demo_sha"
proof -
  have upd: "fmlookup (fmupd k v m) k = Some v" for k :: string and v :: desiredAW and m by simp
  show ?thesis
    by (rule workflow_names_unique [OF demo_desired demo_desired upd upd]) (simp_all add: awName_def)
qed


text \<open>
  C11: the text that is hashed determines everything it is made from: if two artifacts give the same
  text (and the names are valid UTF-8, as the API server guarantees), they agree in namespace, type,
  raw spec and in the names and generations of both endpoints and both secrets. Different data can
  only meet in a collision of the truncated SHA-256.
\<close>

theorem hash_input_injective:
  assumes "marshal_array (hashData order artifact srcEp dstEp srcSec dstSec) =
      marshal_array (hashData order' artifact' srcEp' dstEp' srcSec' dstSec')"
    and "valid_utf8 (Order_Namespace order)" "valid_utf8 (Order_Namespace order')"
    and "valid_utf8 (OrderArtifact_Type artifact)" "valid_utf8 (OrderArtifact_Type artifact')"
    and "\<And>m. m \<in> {Endpoint_ObjectMeta srcEp, Endpoint_ObjectMeta dstEp, Endpoint_ObjectMeta srcEp',
        Endpoint_ObjectMeta dstEp', Secret_ObjectMeta srcSec, Secret_ObjectMeta dstSec,
        Secret_ObjectMeta srcSec', Secret_ObjectMeta dstSec'} \<Longrightarrow> valid_utf8 (Meta_Name m)"
  shows "Order_Namespace order = Order_Namespace order' \<and>
    OrderArtifact_Type artifact = OrderArtifact_Type artifact' \<and>
    Raw (OrderArtifact_Spec artifact) = Raw (OrderArtifact_Spec artifact') \<and>
    list_all2 (\<lambda>m m'. Meta_Name m = Meta_Name m' \<and> Meta_Generation m = Meta_Generation m')
      [Endpoint_ObjectMeta srcEp, Endpoint_ObjectMeta dstEp, Secret_ObjectMeta srcSec, Secret_ObjectMeta dstSec]
      [Endpoint_ObjectMeta srcEp', Endpoint_ObjectMeta dstEp', Secret_ObjectMeta srcSec', Secret_ObjectMeta dstSec']"
proof -
  have "list_all2 same_kind (hashData order artifact srcEp dstEp srcSec dstSec)
      (hashData order' artifact' srcEp' dstEp' srcSec' dstSec')"
    using assms(2-6) by (simp add: hashData_def same_kind_def)
  from marshal_array_inj [OF this assms(1)] show ?thesis
    by (simp add: hashData_def)
qed

theorem hash_input_injective_witness:
  "let artifact = demo_artifact\<lparr>OrderArtifact_SrcRef := \<lparr>Ref_Name = ''src''\<rparr>\<rparr> in
   marshal_array (hashData (demo_order [] None [] None) demo_artifact (demo_endpoint ''src'') (demo_endpoint ''dst'')
     zero_Secret zero_Secret) =
   marshal_array (hashData (demo_order [''f''] None [] None) artifact (demo_endpoint ''src'') (demo_endpoint ''dst'')
     zero_Secret zero_Secret) \<and>
   OrderArtifact_Type demo_artifact = OrderArtifact_Type artifact \<and>
   Raw (OrderArtifact_Spec demo_artifact) = Raw (OrderArtifact_Spec artifact)"
proof -
  let ?artifact = "demo_artifact\<lparr>OrderArtifact_SrcRef := \<lparr>Ref_Name = ''src''\<rparr>\<rparr>"
  have utf8: "valid_utf8 ''default''" "valid_utf8 ''oci''" "valid_utf8 ''src''" "valid_utf8 ''dst''" "valid_utf8 []"
    by code_simp+
  have same: "marshal_array (hashData (demo_order [] None [] None) demo_artifact (demo_endpoint ''src'')
      (demo_endpoint ''dst'') zero_Secret zero_Secret) =
    marshal_array (hashData (demo_order [''f''] None [] None) ?artifact (demo_endpoint ''src'')
      (demo_endpoint ''dst'') zero_Secret zero_Secret)"
    by (simp add: hashData_def)
  have "Order_Namespace (demo_order [] None [] None) = Order_Namespace (demo_order [''f''] None [] None) \<and>
    OrderArtifact_Type demo_artifact = OrderArtifact_Type ?artifact \<and>
    Raw (OrderArtifact_Spec demo_artifact) = Raw (OrderArtifact_Spec ?artifact) \<and>
    list_all2 (\<lambda>m m'. Meta_Name m = Meta_Name m' \<and> Meta_Generation m = Meta_Generation m')
      [Endpoint_ObjectMeta (demo_endpoint ''src''), Endpoint_ObjectMeta (demo_endpoint ''dst''),
       Secret_ObjectMeta zero_Secret, Secret_ObjectMeta zero_Secret]
      [Endpoint_ObjectMeta (demo_endpoint ''src''), Endpoint_ObjectMeta (demo_endpoint ''dst''),
       Secret_ObjectMeta zero_Secret, Secret_ObjectMeta zero_Secret]"
    by (rule hash_input_injective [OF same])
      (auto simp: demo_artifact_def demo_endpoint_def zero_Secret_def zero_ObjectMeta_def utf8)
  with same show ?thesis by (simp add: Let_def)
qed

subsection \<open>Deletion, twice\<close>

lemma deleteAll_fst: "fst (deleteAll c order shas w) = fold drop_status shas order"
  by (induction shas arbitrary: order w) (simp_all split: prod.splits)

text \<open>
  Deleting artifact workflows is tried once. Whatever the cluster answers to the deletions, the run
  clears the status and asks to be called again; and a run that reads an order with an empty status
  removes the finalizer, whatever became of the artifact workflows.
\<close>

lemma deletion_not_retried:
  assumes "range_ok \<rho>" and "GetOrder (OR_Client r) req w = (Inr order, w1)" and "Order_deleting order"
    and "statuses order \<noteq> fmempty"
    and "\<And>v. fst (UpdateOrderStatus (OR_Client r) (set_ArtifactWorkflows (Some fmempty) order) v) = None"
  shows "fst (OrderReconciler_Reconcile \<rho> \<pi> r req w) = Inr \<lparr>Requeue = True\<rparr>"
proof -
  let ?o = "set_ArtifactWorkflows (Some fmempty) order"
  have del: "fst (deleteAll (OR_Client r) order (\<rho> ''deletion'' (fmdom (statuses order))) v) = ?o" for v
    using drop_all_statuses [of "\<rho> ''deletion'' (fmdom (statuses order))" order] assms(1,4)
    by (simp add: deleteAll_fst fmdom'_alt_def)
  have "fst (reconcileDeletion \<rho> r order w1) = Inr \<lparr>Requeue = True\<rparr>"
    using del [of w1] assms(4,5)
    by (auto simp: reconcileDeletion_def bind_io_def put_io_def split: prod.splits option.splits) (metis fst_conv option.distinct(1))+
  then show ?thesis using assms(2,3) by (simp add: OrderReconciler_Reconcile_def)
qed

end
