(* ===== verification/ArtifactWorkflow_Theorems.thy ===== *)
theory ArtifactWorkflow_Theorems
  imports ArtifactWorkflow_Controller Demo
begin

section \<open>Correctness of the artifact workflow controller\<close>

text \<open>The properties of \<open>ArtifactWorkflowReconciler_Reconcile\<close>, with their instances.\<close>

text \<open>
  C15: reconciling an artifact workflow that is being deleted asks for the deletion of its Argo
  workflow, and removes its finalizer exactly if that deletion succeeded or found nothing; the other
  finalizers are kept.
\<close>

theorem aw_deletion_requests:
  assumes "GetArtifactWorkflow (AWR_Client r) req w = (Inr aw, w1)" and "AW_deleting aw"
  shows "aw_requests r req w =
    [ReqGetArtifactWorkflow req, ReqDeleteWorkflow (workflowMeta aw)] @
    (if IgnoreNotFound (fst (DeleteWorkflow (AWR_Client r) (workflowMeta aw) w1)) = None \<and>
        artifactWorkflowFinalizer \<in> set (AW_Finalizers aw)
     then [ReqUpdateArtifactWorkflow
             (set_AW_Finalizers (filter (\<lambda>f. f \<noteq> artifactWorkflowFinalizer) (AW_Finalizers aw)) aw)]
     else [])"
  using assms by (rule aw_deletion_log)

theorem aw_deletion_requests_witness:
  "aw_requests (demo_AWR (demo_aw [artifactWorkflowFinalizer, ''keep''] (Some 1) []) [] None) (''default'', ''demo-0'') () =
   [ReqGetArtifactWorkflow (''default'', ''demo-0''),
    ReqDeleteWorkflow (workflowMeta (demo_aw [artifactWorkflowFinalizer, ''keep''] (Some 1) [])),
    ReqUpdateArtifactWorkflow (set_AW_Finalizers [''keep''] (demo_aw [artifactWorkflowFinalizer, ''keep''] (Some 1) []))]"
  by (subst aw_deletion_requests [OF demo_AWR_simps(1)])
    (simp_all add: IsZero_def IgnoreNotFound_def artifactWorkflowFinalizer_def)

text \<open>
  C14: an artifact workflow whose phase is completed, or no phase the controller knows, is left
  alone. While it is in progress, each run reads the Argo workflow of its name and, if that succeeds,
  writes the phase it found there, and changes nothing else. This includes the empty phase Argo
  reports before it has seen the workflow, which takes a pending artifact workflow back to unknown.
\<close>

theorem aw_follows_argo:
  assumes "GetArtifactWorkflow (AWR_Client r) req w = (Inr aw, w1)" and "main_branch aw"
    and "AW_Phase aw \<noteq> WorkflowUnknown"
  shows "aw_requests r req w = ReqGetArtifactWorkflow req #
    (if \<not> InProgress (AW_Phase aw) then []
     else ReqGetWorkflow (AW_Namespace aw, AW_Name aw) #
       (case GetWorkflow (AWR_Client r) (AW_Namespace aw, AW_Name aw) w1 of
          (Inl e, _) \<Rightarrow> []
        | (Inr wfl, _) \<Rightarrow> [ReqUpdateArtifactWorkflowStatus (set_AW_Phase (Workflow_Phase wfl) aw)]))"
  using assms by (rule aw_follow_log)

theorem aw_follows_argo_witness:
  "let aw = demo_aw [artifactWorkflowFinalizer] None WorkflowPending in
   aw_requests (demo_AWR aw [] None) (''default'', ''demo-0'') () =
   [ReqGetArtifactWorkflow (''default'', ''demo-0''), ReqGetWorkflow (''default'', ''demo-0''),
    ReqUpdateArtifactWorkflowStatus (set_AW_Phase WorkflowUnknown aw)]"
  unfolding Let_def
  by (subst aw_follows_argo [OF demo_AWR_simps(1)]) (simp_all add: main_branch_def IsZero_def phase_defs InProgress_def)

text \<open>
  C13: a run on an artifact workflow of unknown phase that ends without error has read the artifact
  type (cluster-wide, by the type's name) and the secrets the spec names, created one Argo workflow
  made from them and owned by the artifact workflow, and set the phase to pending; an Argo workflow
  that existed already counts as created.
\<close>

theorem aw_creates_argo:
  assumes "GetArtifactWorkflow (AWR_Client r) req w = (Inr aw, w1)" and "main_branch aw"
    and "AW_Phase aw = WorkflowUnknown" and "fst (ArtifactWorkflowReconciler_Reconcile r req w) = Inr res"
  shows "res = done_result \<and> (\<exists>wfl. argo_made_from r aw w1 wfl \<and>
    aw_requests r req w = ReqGetArtifactWorkflow req # argo_reads aw @
      [ReqCreateWorkflow wfl, ReqUpdateArtifactWorkflowStatus (set_AW_Phase WorkflowPending aw)])"
  using assms by (rule aw_create_log)

theorem aw_creates_argo_witness:
  "let aw = demo_aw [artifactWorkflowFinalizer] None WorkflowUnknown;
       r = demo_AWR aw [] (Some \<lparr>api_reason = AlreadyExists, api_message = ''exists''\<rparr>) in
   \<exists>wfl. argo_made_from r aw () wfl \<and>
    aw_requests r (''default'', ''demo-0'') () = ReqGetArtifactWorkflow (''default'', ''demo-0'') # argo_reads aw @
      [ReqCreateWorkflow wfl, ReqUpdateArtifactWorkflowStatus (set_AW_Phase WorkflowPending aw)]"
  unfolding Let_def
  by (rule aw_creates_argo [OF demo_AWR_simps(1), THEN conjunct2])
    (simp_all add: main_branch_def IsZero_def ArtifactWorkflowReconciler_Reconcile_def reconcilePhase_def
      createArgoWorkflow_def bind_io_def get_io_def put_io_def fetchSecret_def createArgo_def
      IgnoreAlreadyExists_def IsAlreadyExists_def)


text \<open>
  C7: over any number of runs, the status updates change the phase of an artifact workflow and
  nothing else, along the steps unknown to pending and in progress to what Argo reports. A completed
  artifact workflow stays as it is, so no Argo workflow is created for it again; and if Argo reports
  only its own six phases, the phase is always one of these.
\<close>

theorem aw_phase_machine:
  assumes "aw_history r req a b"
  shows "(\<exists>q. b = set_AW_Phase q a \<and> (phase_step (argo_reports (AWR_Client r) a))\<^sup>*\<^sup>* (AW_Phase a) q) \<and>
    (Completed (AW_Phase a) \<longrightarrow> b = a) \<and>
    ((\<forall>q. argo_reports (AWR_Client r) a q \<longrightarrow> ArgoPhase q) \<and> ArgoPhase (AW_Phase a) \<longrightarrow> ArgoPhase (AW_Phase b))"
proof -
  obtain q where q: "b = set_AW_Phase q a" "(phase_step (argo_reports (AWR_Client r) a))\<^sup>*\<^sup>* (AW_Phase a) q"
    using aw_history_steps [OF assms] by blast
  with phase_steps_Completed [OF q(2)] phase_steps_known [OF q(2)] set_AW_Phase_own [of a] show ?thesis
    by auto
qed

theorem aw_phase_machine_witness:
  "let a = demo_aw [artifactWorkflowFinalizer] None WorkflowPending; r = demo_AWR a WorkflowSucceeded None in
   aw_history r (''default'', ''demo-0'') a (set_AW_Phase WorkflowSucceeded a) \<and>
   (\<exists>q. set_AW_Phase WorkflowSucceeded a = set_AW_Phase q a \<and>
      (phase_step (argo_reports (AWR_Client r) a))\<^sup>*\<^sup>* (AW_Phase a) q)"
proof -
  let ?a = "demo_aw [artifactWorkflowFinalizer] None WorkflowPending"
  let ?r = "demo_AWR ?a WorkflowSucceeded None"
  have "aw_requests ?r (''default'', ''demo-0'') () =
     [ReqGetArtifactWorkflow (''default'', ''demo-0''), ReqGetWorkflow (''default'', ''demo-0''),
      ReqUpdateArtifactWorkflowStatus (set_AW_Phase WorkflowSucceeded ?a)]"
    by (subst aw_follow_log [OF demo_AWR_simps(1)]) (simp_all add: main_branch_def IsZero_def)
  then have h: "aw_history ?r (''default'', ''demo-0'') ?a (set_AW_Phase WorkflowSucceeded ?a)"
    by (intro aw_history.run [OF aw_history.start demo_AWR_simps(1)]) simp
  from aw_phase_machine [OF h] h show ?thesis by (simp add: Let_def)
qed

end
