(* ===== verification/Arc_Types.thy ===== *)
theory Arc_Types
  imports Api_Types
begin

section \<open>The internal API types (package \<^verbatim>\<open>arc\<close>)\<close>

text \<open>
  The API server works on an unversioned copy of the types, package \<^verbatim>\<open>api/arc\<close>, and converts to and
  from \<open>v1alpha1\<close>. The structs have the same fields; they are records of their own here, with the
  prefix \<open>arc_\<close>, because they are types of their own in Go. \<open>WorkflowPhase\<close> and \<open>EndpointUsage\<close> are
  string types in both packages.
\<close>

subsection \<open>Orders\<close>

record arc_OrderDefaults =
  arc_OrderDefaults_SrcRef :: LocalObjectReference
  arc_OrderDefaults_DstRef :: LocalObjectReference

record arc_OrderArtifact =
  arc_OrderArtifact_Type :: string
  arc_OrderArtifact_SrcRef :: LocalObjectReference
  arc_OrderArtifact_DstRef :: LocalObjectReference
  arc_OrderArtifact_Spec :: RawExtension

record arc_OrderSpec =
  arc_OrderSpec_Defaults :: arc_OrderDefaults
  arc_OrderSpec_Artifacts :: "arc_OrderArtifact list"

record arc_OrderArtifactWorkflowStatus =
  arc_OAWStatus_ArtifactIndex :: int
  arc_OAWStatus_Phase :: WorkflowPhase
  arc_OAWStatus_Message :: string

record arc_OrderStatus =
  arc_OrderStatus_ArtifactWorkflows :: "arc_OrderArtifactWorkflowStatus gomap"

record arc_Order =
  arc_Order_TypeMeta :: TypeMeta
  arc_Order_ObjectMeta :: ObjectMeta
  arc_Order_Spec :: arc_OrderSpec
  arc_Order_Status :: arc_OrderStatus

record arc_OrderList =
  arc_OrderList_TypeMeta :: TypeMeta
  arc_OrderList_ListMeta :: ListMeta
  arc_OrderList_Items :: "arc_Order list"

subsection \<open>Artifact workflows\<close>

record arc_ArtifactWorkflowParameter =
  arc_Parameter_Name :: string
  arc_Parameter_Value :: string

record arc_ArtifactWorkflowSpec =
  arc_AWSpec_Type :: string
  arc_AWSpec_Parameters :: "arc_ArtifactWorkflowParameter list"
  arc_AWSpec_SrcSecretRef :: LocalObjectReference
  arc_AWSpec_DstSecretRef :: LocalObjectReference

record arc_ArtifactWorkflowStatus =
  arc_AWStatus_Phase :: WorkflowPhase
  arc_AWStatus_Message :: string

record arc_ArtifactWorkflow =
  arc_AW_TypeMeta :: TypeMeta
  arc_AW_ObjectMeta :: ObjectMeta
  arc_AW_Spec :: arc_ArtifactWorkflowSpec
  arc_AW_Status :: arc_ArtifactWorkflowStatus

record arc_ArtifactWorkflowList =
  arc_AWList_TypeMeta :: TypeMeta
  arc_AWList_ListMeta :: ListMeta
  arc_AWList_Items :: "arc_ArtifactWorkflow list"

subsection \<open>Endpoints\<close>

type_synonym arc_EndpointStatus = unit

record arc_EndpointSpec =
  arc_EndpointSpec_Type :: string
  arc_EndpointSpec_RemoteURL :: string
  arc_EndpointSpec_SecretRef :: LocalObjectReference
  arc_EndpointSpec_Usage :: EndpointUsage

record arc_Endpoint =
  arc_Endpoint_TypeMeta :: TypeMeta
  arc_Endpoint_ObjectMeta :: ObjectMeta
  arc_Endpoint_Spec :: arc_EndpointSpec
  arc_Endpoint_Status :: arc_EndpointStatus

record arc_EndpointList =
  arc_EndpointList_TypeMeta :: TypeMeta
  arc_EndpointList_ListMeta :: ListMeta
  arc_EndpointList_Items :: "arc_Endpoint list"

subsection \<open>Artifact types\<close>

type_synonym arc_ArtifactTypeStatus = unit

record arc_ArtifactTypeRules =
  arc_Rules_SrcTypes :: "string list"
  arc_Rules_DstTypes :: "string list"

record arc_ArtifactTypeSpec =
  arc_ATSpec_Rules :: arc_ArtifactTypeRules
  arc_ATSpec_Parameters :: "arc_ArtifactWorkflowParameter list"
  arc_ATSpec_WorkflowTemplateRef :: LocalObjectReference

record arc_ArtifactType =
  arc_AT_TypeMeta :: TypeMeta
  arc_AT_ObjectMeta :: ObjectMeta
  arc_AT_Spec :: arc_ArtifactTypeSpec
  arc_AT_Status :: arc_ArtifactTypeStatus

record arc_ArtifactTypeList =
  arc_ATList_TypeMeta :: TypeMeta
  arc_ATList_ListMeta :: ListMeta
  arc_ATList_Items :: "arc_ArtifactType list"

subsection \<open>Phases\<close>

definition arc_Completed :: "WorkflowPhase \<Rightarrow> bool" where
  "arc_Completed p \<longleftrightarrow> p = WorkflowSucceeded \<or> p = WorkflowFailed \<or> p = WorkflowError"

end
