(* ===== verification/Conversion.thy ===== *)
theory Conversion
  imports Arc_Types Errors
begin

section \<open>Conversions (\<^verbatim>\<open>api/arc/v1alpha1/zz_generated.conversion.go\<close>)\<close>

text \<open>
  A conversion function takes the value to convert and the value it writes into, and returns an
  error or that value with the fields it assigned. It does not assign \<open>TypeMeta\<close>, which keeps what
  the output had. Slices and maps are not copied but reinterpreted with \<open>unsafe.Pointer\<close>, which is
  sound because both structs have the same layout: \<open>to_arc_X\<close> and \<open>of_arc_X\<close> are that reading of a
  whole value of type \<open>X\<close> as the other package's type, \<open>TypeMeta\<close> included.
\<close>

subsection \<open>Reading a value as the other package's type\<close>

definition to_arc_OrderDefaults :: "OrderDefaults \<Rightarrow> arc_OrderDefaults" where
  "to_arc_OrderDefaults x =
     \<lparr>arc_OrderDefaults_SrcRef = OrderDefaults_SrcRef x,
      arc_OrderDefaults_DstRef = OrderDefaults_DstRef x\<rparr>"

definition to_arc_OrderArtifact :: "OrderArtifact \<Rightarrow> arc_OrderArtifact" where
  "to_arc_OrderArtifact x =
     \<lparr>arc_OrderArtifact_Type = OrderArtifact_Type x,
      arc_OrderArtifact_SrcRef = OrderArtifact_SrcRef x,
      arc_OrderArtifact_DstRef = OrderArtifact_DstRef x,
      arc_OrderArtifact_Spec = OrderArtifact_Spec x\<rparr>"

definition to_arc_OrderSpec :: "OrderSpec \<Rightarrow> arc_OrderSpec" where
  "to_arc_OrderSpec x =
     \<lparr>arc_OrderSpec_Defaults = to_arc_OrderDefaults (OrderSpec_Defaults x),
      arc_OrderSpec_Artifacts = map to_arc_OrderArtifact (OrderSpec_Artifacts x)\<rparr>"

definition to_arc_OrderArtifactWorkflowStatus :: "OrderArtifactWorkflowStatus \<Rightarrow> arc_OrderArtifactWorkflowStatus" where
  "to_arc_OrderArtifactWorkflowStatus x =
     \<lparr>arc_OAWStatus_ArtifactIndex = OAWStatus_ArtifactIndex x,
      arc_OAWStatus_Phase = OAWStatus_Phase x,
      arc_OAWStatus_Message = OAWStatus_Message x\<rparr>"

definition to_arc_OrderStatus :: "OrderStatus \<Rightarrow> arc_OrderStatus" where
  "to_arc_OrderStatus x =
     \<lparr>arc_OrderStatus_ArtifactWorkflows = map_option (fmmap to_arc_OrderArtifactWorkflowStatus) (OrderStatus_ArtifactWorkflows x)\<rparr>"

definition to_arc_Order :: "Order \<Rightarrow> arc_Order" where
  "to_arc_Order x =
     \<lparr>arc_Order_TypeMeta = Order_TypeMeta x,
      arc_Order_ObjectMeta = Order_ObjectMeta x,
      arc_Order_Spec = to_arc_OrderSpec (Order_Spec x),
      arc_Order_Status = to_arc_OrderStatus (Order_Status x)\<rparr>"

definition to_arc_ArtifactWorkflowParameter :: "ArtifactWorkflowParameter \<Rightarrow> arc_ArtifactWorkflowParameter" where
  "to_arc_ArtifactWorkflowParameter x =
     \<lparr>arc_Parameter_Name = Parameter_Name x,
      arc_Parameter_Value = Parameter_Value x\<rparr>"

definition to_arc_ArtifactWorkflowSpec :: "ArtifactWorkflowSpec \<Rightarrow> arc_ArtifactWorkflowSpec" where
  "to_arc_ArtifactWorkflowSpec x =
     \<lparr>arc_AWSpec_Type = AWSpec_Type x,
      arc_AWSpec_Parameters = map to_arc_ArtifactWorkflowParameter (AWSpec_Parameters x),
      arc_AWSpec_SrcSecretRef = AWSpec_SrcSecretRef x,
      arc_AWSpec_DstSecretRef = AWSpec_DstSecretRef x\<rparr>"

definition to_arc_ArtifactWorkflowStatus :: "ArtifactWorkflowStatus \<Rightarrow> arc_ArtifactWorkflowStatus" where
  "to_arc_ArtifactWorkflowStatus x =
     \<lparr>arc_AWStatus_Phase = AWStatus_Phase x,
      arc_AWStatus_Message = AWStatus_Message x\<rparr>"

definition to_arc_ArtifactWorkflow :: "ArtifactWorkflow \<Rightarrow> arc_ArtifactWorkflow" where
  "to_arc_ArtifactWorkflow x =
     \<lparr>arc_AW_TypeMeta = AW_TypeMeta x,
      arc_AW_ObjectMeta = AW_ObjectMeta x,
      arc_AW_Spec = to_arc_ArtifactWorkflowSpec (AW_Spec x),
      arc_AW_Status = to_arc_ArtifactWorkflowStatus (AW_Status x)\<rparr>"

definition to_arc_EndpointSpec :: "EndpointSpec \<Rightarrow> arc_EndpointSpec" where
  "to_arc_EndpointSpec x =
     \<lparr>arc_EndpointSpec_Type = EndpointSpec_Type x,
      arc_EndpointSpec_RemoteURL = EndpointSpec_RemoteURL x,
      arc_EndpointSpec_SecretRef = EndpointSpec_SecretRef x,
      arc_EndpointSpec_Usage = EndpointSpec_Usage x\<rparr>"

definition to_arc_Endpoint :: "Endpoint \<Rightarrow> arc_Endpoint" where
  "to_arc_Endpoint x =
     \<lparr>arc_Endpoint_TypeMeta = Endpoint_TypeMeta x,
      arc_Endpoint_ObjectMeta = Endpoint_ObjectMeta x,
      arc_Endpoint_Spec = to_arc_EndpointSpec (Endpoint_Spec x),
      arc_Endpoint_Status = Endpoint_Status x\<rparr>"

definition to_arc_ArtifactTypeRules :: "ArtifactTypeRules \<Rightarrow> arc_ArtifactTypeRules" where
  "to_arc_ArtifactTypeRules x =
     \<lparr>arc_Rules_SrcTypes = Rules_SrcTypes x,
      arc_Rules_DstTypes = Rules_DstTypes x\<rparr>"

definition to_arc_ArtifactTypeSpec :: "ArtifactTypeSpec \<Rightarrow> arc_ArtifactTypeSpec" where
  "to_arc_ArtifactTypeSpec x =
     \<lparr>arc_ATSpec_Rules = to_arc_ArtifactTypeRules (ATSpec_Rules x),
      arc_ATSpec_Parameters = map to_arc_ArtifactWorkflowParameter (ATSpec_Parameters x),
      arc_ATSpec_WorkflowTemplateRef = ATSpec_WorkflowTemplateRef x\<rparr>"

definition to_arc_ArtifactType :: "ArtifactType \<Rightarrow> arc_ArtifactType" where
  "to_arc_ArtifactType x =
     \<lparr>arc_AT_TypeMeta = AT_TypeMeta x,
      arc_AT_ObjectMeta = AT_ObjectMeta x,
      arc_AT_Spec = to_arc_ArtifactTypeSpec (AT_Spec x),
      arc_AT_Status = AT_Status x\<rparr>"

definition of_arc_OrderDefaults :: "arc_OrderDefaults \<Rightarrow> OrderDefaults" where
  "of_arc_OrderDefaults x =
     \<lparr>OrderDefaults_SrcRef = arc_OrderDefaults_SrcRef x,
      OrderDefaults_DstRef = arc_OrderDefaults_DstRef x\<rparr>"

definition of_arc_OrderArtifact :: "arc_OrderArtifact \<Rightarrow> OrderArtifact" where
  "of_arc_OrderArtifact x =
     \<lparr>OrderArtifact_Type = arc_OrderArtifact_Type x,
      OrderArtifact_SrcRef = arc_OrderArtifact_SrcRef x,
      OrderArtifact_DstRef = arc_OrderArtifact_DstRef x,
      OrderArtifact_Spec = arc_OrderArtifact_Spec x\<rparr>"

definition of_arc_OrderSpec :: "arc_OrderSpec \<Rightarrow> OrderSpec" where
  "of_arc_OrderSpec x =
     \<lparr>OrderSpec_Defaults = of_arc_OrderDefaults (arc_OrderSpec_Defaults x),
      OrderSpec_Artifacts = map of_arc_OrderArtifact (arc_OrderSpec_Artifacts x)\<rparr>"

definition of_arc_OrderArtifactWorkflowStatus :: "arc_OrderArtifactWorkflowStatus \<Rightarrow> OrderArtifactWorkflowStatus" where
  "of_arc_OrderArtifactWorkflowStatus x =
     \<lparr>OAWStatus_ArtifactIndex = arc_OAWStatus_ArtifactIndex x,
      OAWStatus_Phase = arc_OAWStatus_Phase x,
      OAWStatus_Message = arc_OAWStatus_Message x\<rparr>"

definition of_arc_OrderStatus :: "arc_OrderStatus \<Rightarrow> OrderStatus" where
  "of_arc_OrderStatus x =
     \<lparr>OrderStatus_ArtifactWorkflows = map_option (fmmap of_arc_OrderArtifactWorkflowStatus) (arc_OrderStatus_ArtifactWorkflows x)\<rparr>"

definition of_arc_Order :: "arc_Order \<Rightarrow> Order" where
  "of_arc_Order x =
     \<lparr>Order_TypeMeta = arc_Order_TypeMeta x,
      Order_ObjectMeta = arc_Order_ObjectMeta x,
      Order_Spec = of_arc_OrderSpec (arc_Order_Spec x),
      Order_Status = of_arc_OrderStatus (arc_Order_Status x)\<rparr>"

definition of_arc_ArtifactWorkflowParameter :: "arc_ArtifactWorkflowParameter \<Rightarrow> ArtifactWorkflowParameter" where
  "of_arc_ArtifactWorkflowParameter x =
     \<lparr>Parameter_Name = arc_Parameter_Name x,
      Parameter_Value = arc_Parameter_Value x\<rparr>"

definition of_arc_ArtifactWorkflowSpec :: "arc_ArtifactWorkflowSpec \<Rightarrow> ArtifactWorkflowSpec" where
  "of_arc_ArtifactWorkflowSpec x =
     \<lparr>AWSpec_Type = arc_AWSpec_Type x,
      AWSpec_Parameters = map of_arc_ArtifactWorkflowParameter (arc_AWSpec_Parameters x),
      AWSpec_SrcSecretRef = arc_AWSpec_SrcSecretRef x,
      AWSpec_DstSecretRef = arc_AWSpec_DstSecretRef x\<rparr>"

definition of_arc_ArtifactWorkflowStatus :: "arc_ArtifactWorkflowStatus \<Rightarrow> ArtifactWorkflowStatus" where
  "of_arc_ArtifactWorkflowStatus x =
     \<lparr>AWStatus_Phase = arc_AWStatus_Phase x,
      AWStatus_Message = arc_AWStatus_Message x\<rparr>"

definition of_arc_ArtifactWorkflow :: "arc_ArtifactWorkflow \<Rightarrow> ArtifactWorkflow" where
  "of_arc_ArtifactWorkflow x =
     \<lparr>AW_TypeMeta = arc_AW_TypeMeta x,
      AW_ObjectMeta = arc_AW_ObjectMeta x,
      AW_Spec = of_arc_ArtifactWorkflowSpec (arc_AW_Spec x),
      AW_Status = of_arc_ArtifactWorkflowStatus (arc_AW_Status x)\<rparr>"

definition of_arc_EndpointSpec :: "arc_EndpointSpec \<Rightarrow> EndpointSpec" where
  "of_arc_EndpointSpec x =
     \<lparr>EndpointSpec_Type = arc_EndpointSpec_Type x,
      EndpointSpec_RemoteURL = arc_EndpointSpec_RemoteURL x,
      EndpointSpec_SecretRef = arc_EndpointSpec_SecretRef x,
      EndpointSpec_Usage = arc_EndpointSpec_Usage x\<rparr>"

definition of_arc_Endpoint :: "arc_Endpoint \<Rightarrow> Endpoint" where
  "of_arc_Endpoint x =
     \<lparr>Endpoint_TypeMeta = arc_Endpoint_TypeMeta x,
      Endpoint_ObjectMeta = arc_Endpoint_ObjectMeta x,
      Endpoint_Spec = of_arc_EndpointSpec (arc_Endpoint_Spec x),
      Endpoint_Status = arc_Endpoint_Status x\<rparr>"

definition of_arc_ArtifactTypeRules :: "arc_ArtifactTypeRules \<Rightarrow> ArtifactTypeRules" where
  "of_arc_ArtifactTypeRules x =
     \<lparr>Rules_SrcTypes = arc_Rules_SrcTypes x,
      Rules_DstTypes = arc_Rules_DstTypes x\<rparr>"

definition of_arc_ArtifactTypeSpec :: "arc_ArtifactTypeSpec \<Rightarrow> ArtifactTypeSpec" where
  "of_arc_ArtifactTypeSpec x =
     \<lparr>ATSpec_Rules = of_arc_ArtifactTypeRules (arc_ATSpec_Rules x),
      ATSpec_Parameters = map of_arc_ArtifactWorkflowParameter (arc_ATSpec_Parameters x),
      ATSpec_WorkflowTemplateRef = arc_ATSpec_WorkflowTemplateRef x\<rparr>"

definition of_arc_ArtifactType :: "arc_ArtifactType \<Rightarrow> ArtifactType" where
  "of_arc_ArtifactType x =
     \<lparr>AT_TypeMeta = arc_AT_TypeMeta x,
      AT_ObjectMeta = arc_AT_ObjectMeta x,
      AT_Spec = of_arc_ArtifactTypeSpec (arc_AT_Spec x),
      AT_Status = arc_AT_Status x\<rparr>"

subsection \<open>The conversion functions\<close>

text \<open>From v1alpha1 to the internal types.\<close>

definition autoConvert_v1alpha1_OrderDefaults_To_arc_OrderDefaults ::
  "OrderDefaults \<Rightarrow> arc_OrderDefaults \<Rightarrow> go_error + arc_OrderDefaults" where
  "autoConvert_v1alpha1_OrderDefaults_To_arc_OrderDefaults in1 out =
     Inr (out\<lparr>arc_OrderDefaults_SrcRef := OrderDefaults_SrcRef in1,
         arc_OrderDefaults_DstRef := OrderDefaults_DstRef in1\<rparr>)"

definition Convert_v1alpha1_OrderDefaults_To_arc_OrderDefaults ::
  "OrderDefaults \<Rightarrow> arc_OrderDefaults \<Rightarrow> go_error + arc_OrderDefaults" where
  "Convert_v1alpha1_OrderDefaults_To_arc_OrderDefaults in1 out =
     autoConvert_v1alpha1_OrderDefaults_To_arc_OrderDefaults in1 out"

definition autoConvert_v1alpha1_OrderArtifact_To_arc_OrderArtifact ::
  "OrderArtifact \<Rightarrow> arc_OrderArtifact \<Rightarrow> go_error + arc_OrderArtifact" where
  "autoConvert_v1alpha1_OrderArtifact_To_arc_OrderArtifact in1 out =
     Inr (out\<lparr>arc_OrderArtifact_Type := OrderArtifact_Type in1,
         arc_OrderArtifact_SrcRef := OrderArtifact_SrcRef in1,
         arc_OrderArtifact_DstRef := OrderArtifact_DstRef in1,
         arc_OrderArtifact_Spec := OrderArtifact_Spec in1\<rparr>)"

definition Convert_v1alpha1_OrderArtifact_To_arc_OrderArtifact ::
  "OrderArtifact \<Rightarrow> arc_OrderArtifact \<Rightarrow> go_error + arc_OrderArtifact" where
  "Convert_v1alpha1_OrderArtifact_To_arc_OrderArtifact in1 out =
     autoConvert_v1alpha1_OrderArtifact_To_arc_OrderArtifact in1 out"

definition autoConvert_v1alpha1_OrderSpec_To_arc_OrderSpec ::
  "OrderSpec \<Rightarrow> arc_OrderSpec \<Rightarrow> go_error + arc_OrderSpec" where
  "autoConvert_v1alpha1_OrderSpec_To_arc_OrderSpec in1 out =
     (case Convert_v1alpha1_OrderDefaults_To_arc_OrderDefaults (OrderSpec_Defaults in1) (arc_OrderSpec_Defaults out) of
        Inl err \<Rightarrow> Inl err
      | Inr x_OrderSpec_Defaults \<Rightarrow>
     Inr (out\<lparr>arc_OrderSpec_Defaults := x_OrderSpec_Defaults,
         arc_OrderSpec_Artifacts := map to_arc_OrderArtifact (OrderSpec_Artifacts in1)\<rparr>))"

definition Convert_v1alpha1_OrderSpec_To_arc_OrderSpec ::
  "OrderSpec \<Rightarrow> arc_OrderSpec \<Rightarrow> go_error + arc_OrderSpec" where
  "Convert_v1alpha1_OrderSpec_To_arc_OrderSpec in1 out =
     autoConvert_v1alpha1_OrderSpec_To_arc_OrderSpec in1 out"

definition autoConvert_v1alpha1_OrderArtifactWorkflowStatus_To_arc_OrderArtifactWorkflowStatus ::
  "OrderArtifactWorkflowStatus \<Rightarrow> arc_OrderArtifactWorkflowStatus \<Rightarrow> go_error + arc_OrderArtifactWorkflowStatus" where
  "autoConvert_v1alpha1_OrderArtifactWorkflowStatus_To_arc_OrderArtifactWorkflowStatus in1 out =
     Inr (out\<lparr>arc_OAWStatus_ArtifactIndex := OAWStatus_ArtifactIndex in1,
         arc_OAWStatus_Phase := OAWStatus_Phase in1,
         arc_OAWStatus_Message := OAWStatus_Message in1\<rparr>)"

definition Convert_v1alpha1_OrderArtifactWorkflowStatus_To_arc_OrderArtifactWorkflowStatus ::
  "OrderArtifactWorkflowStatus \<Rightarrow> arc_OrderArtifactWorkflowStatus \<Rightarrow> go_error + arc_OrderArtifactWorkflowStatus" where
  "Convert_v1alpha1_OrderArtifactWorkflowStatus_To_arc_OrderArtifactWorkflowStatus in1 out =
     autoConvert_v1alpha1_OrderArtifactWorkflowStatus_To_arc_OrderArtifactWorkflowStatus in1 out"

definition autoConvert_v1alpha1_OrderStatus_To_arc_OrderStatus ::
  "OrderStatus \<Rightarrow> arc_OrderStatus \<Rightarrow> go_error + arc_OrderStatus" where
  "autoConvert_v1alpha1_OrderStatus_To_arc_OrderStatus in1 out =
     Inr (out\<lparr>arc_OrderStatus_ArtifactWorkflows := map_option (fmmap to_arc_OrderArtifactWorkflowStatus) (OrderStatus_ArtifactWorkflows in1)\<rparr>)"

definition Convert_v1alpha1_OrderStatus_To_arc_OrderStatus ::
  "OrderStatus \<Rightarrow> arc_OrderStatus \<Rightarrow> go_error + arc_OrderStatus" where
  "Convert_v1alpha1_OrderStatus_To_arc_OrderStatus in1 out =
     autoConvert_v1alpha1_OrderStatus_To_arc_OrderStatus in1 out"

definition autoConvert_v1alpha1_Order_To_arc_Order ::
  "Order \<Rightarrow> arc_Order \<Rightarrow> go_error + arc_Order" where
  "autoConvert_v1alpha1_Order_To_arc_Order in1 out =
     (case Convert_v1alpha1_OrderSpec_To_arc_OrderSpec (Order_Spec in1) (arc_Order_Spec out) of
        Inl err \<Rightarrow> Inl err
      | Inr x_Order_Spec \<Rightarrow>
     (case Convert_v1alpha1_OrderStatus_To_arc_OrderStatus (Order_Status in1) (arc_Order_Status out) of
        Inl err \<Rightarrow> Inl err
      | Inr x_Order_Status \<Rightarrow>
     Inr (out\<lparr>arc_Order_ObjectMeta := Order_ObjectMeta in1,
         arc_Order_Spec := x_Order_Spec,
         arc_Order_Status := x_Order_Status\<rparr>)))"

definition Convert_v1alpha1_Order_To_arc_Order ::
  "Order \<Rightarrow> arc_Order \<Rightarrow> go_error + arc_Order" where
  "Convert_v1alpha1_Order_To_arc_Order in1 out =
     autoConvert_v1alpha1_Order_To_arc_Order in1 out"

definition autoConvert_v1alpha1_OrderList_To_arc_OrderList ::
  "OrderList \<Rightarrow> arc_OrderList \<Rightarrow> go_error + arc_OrderList" where
  "autoConvert_v1alpha1_OrderList_To_arc_OrderList in1 out =
     Inr (out\<lparr>arc_OrderList_ListMeta := OrderList_ListMeta in1,
         arc_OrderList_Items := map to_arc_Order (OrderList_Items in1)\<rparr>)"

definition Convert_v1alpha1_OrderList_To_arc_OrderList ::
  "OrderList \<Rightarrow> arc_OrderList \<Rightarrow> go_error + arc_OrderList" where
  "Convert_v1alpha1_OrderList_To_arc_OrderList in1 out =
     autoConvert_v1alpha1_OrderList_To_arc_OrderList in1 out"

definition autoConvert_v1alpha1_ArtifactWorkflowParameter_To_arc_ArtifactWorkflowParameter ::
  "ArtifactWorkflowParameter \<Rightarrow> arc_ArtifactWorkflowParameter \<Rightarrow> go_error + arc_ArtifactWorkflowParameter" where
  "autoConvert_v1alpha1_ArtifactWorkflowParameter_To_arc_ArtifactWorkflowParameter in1 out =
     Inr (out\<lparr>arc_Parameter_Name := Parameter_Name in1,
         arc_Parameter_Value := Parameter_Value in1\<rparr>)"

definition Convert_v1alpha1_ArtifactWorkflowParameter_To_arc_ArtifactWorkflowParameter ::
  "ArtifactWorkflowParameter \<Rightarrow> arc_ArtifactWorkflowParameter \<Rightarrow> go_error + arc_ArtifactWorkflowParameter" where
  "Convert_v1alpha1_ArtifactWorkflowParameter_To_arc_ArtifactWorkflowParameter in1 out =
     autoConvert_v1alpha1_ArtifactWorkflowParameter_To_arc_ArtifactWorkflowParameter in1 out"

definition autoConvert_v1alpha1_ArtifactWorkflowSpec_To_arc_ArtifactWorkflowSpec ::
  "ArtifactWorkflowSpec \<Rightarrow> arc_ArtifactWorkflowSpec \<Rightarrow> go_error + arc_ArtifactWorkflowSpec" where
  "autoConvert_v1alpha1_ArtifactWorkflowSpec_To_arc_ArtifactWorkflowSpec in1 out =
     Inr (out\<lparr>arc_AWSpec_Type := AWSpec_Type in1,
         arc_AWSpec_Parameters := map to_arc_ArtifactWorkflowParameter (AWSpec_Parameters in1),
         arc_AWSpec_SrcSecretRef := AWSpec_SrcSecretRef in1,
         arc_AWSpec_DstSecretRef := AWSpec_DstSecretRef in1\<rparr>)"

definition Convert_v1alpha1_ArtifactWorkflowSpec_To_arc_ArtifactWorkflowSpec ::
  "ArtifactWorkflowSpec \<Rightarrow> arc_ArtifactWorkflowSpec \<Rightarrow> go_error + arc_ArtifactWorkflowSpec" where
  "Convert_v1alpha1_ArtifactWorkflowSpec_To_arc_ArtifactWorkflowSpec in1 out =
     autoConvert_v1alpha1_ArtifactWorkflowSpec_To_arc_ArtifactWorkflowSpec in1 out"

definition autoConvert_v1alpha1_ArtifactWorkflowStatus_To_arc_ArtifactWorkflowStatus ::
  "ArtifactWorkflowStatus \<Rightarrow> arc_ArtifactWorkflowStatus \<Rightarrow> go_error + arc_ArtifactWorkflowStatus" where
  "autoConvert_v1alpha1_ArtifactWorkflowStatus_To_arc_ArtifactWorkflowStatus in1 out =
     Inr (out\<lparr>arc_AWStatus_Phase := AWStatus_Phase in1,
         arc_AWStatus_Message := AWStatus_Message in1\<rparr>)"

definition Convert_v1alpha1_ArtifactWorkflowStatus_To_arc_ArtifactWorkflowStatus ::
  "ArtifactWorkflowStatus \<Rightarrow> arc_ArtifactWorkflowStatus \<Rightarrow> go_error + arc_ArtifactWorkflowStatus" where
  "Convert_v1alpha1_ArtifactWorkflowStatus_To_arc_ArtifactWorkflowStatus in1 out =
     autoConvert_v1alpha1_ArtifactWorkflowStatus_To_arc_ArtifactWorkflowStatus in1 out"

definition autoConvert_v1alpha1_ArtifactWorkflow_To_arc_ArtifactWorkflow ::
  "ArtifactWorkflow \<Rightarrow> arc_ArtifactWorkflow \<Rightarrow> go_error + arc_ArtifactWorkflow" where
  "autoConvert_v1alpha1_ArtifactWorkflow_To_arc_ArtifactWorkflow in1 out =
     (case Convert_v1alpha1_ArtifactWorkflowSpec_To_arc_ArtifactWorkflowSpec (AW_Spec in1) (arc_AW_Spec out) of
        Inl err \<Rightarrow> Inl err
      | Inr x_AW_Spec \<Rightarrow>
     (case Convert_v1alpha1_ArtifactWorkflowStatus_To_arc_ArtifactWorkflowStatus (AW_Status in1) (arc_AW_Status out) of
        Inl err \<Rightarrow> Inl err
      | Inr x_AW_Status \<Rightarrow>
     Inr (out\<lparr>arc_AW_ObjectMeta := AW_ObjectMeta in1,
         arc_AW_Spec := x_AW_Spec,
         arc_AW_Status := x_AW_Status\<rparr>)))"

definition Convert_v1alpha1_ArtifactWorkflow_To_arc_ArtifactWorkflow ::
  "ArtifactWorkflow \<Rightarrow> arc_ArtifactWorkflow \<Rightarrow> go_error + arc_ArtifactWorkflow" where
  "Convert_v1alpha1_ArtifactWorkflow_To_arc_ArtifactWorkflow in1 out =
     autoConvert_v1alpha1_ArtifactWorkflow_To_arc_ArtifactWorkflow in1 out"

definition autoConvert_v1alpha1_ArtifactWorkflowList_To_arc_ArtifactWorkflowList ::
  "ArtifactWorkflowList \<Rightarrow> arc_ArtifactWorkflowList \<Rightarrow> go_error + arc_ArtifactWorkflowList" where
  "autoConvert_v1alpha1_ArtifactWorkflowList_To_arc_ArtifactWorkflowList in1 out =
     Inr (out\<lparr>arc_AWList_ListMeta := AWList_ListMeta in1,
         arc_AWList_Items := map to_arc_ArtifactWorkflow (AWList_Items in1)\<rparr>)"

definition Convert_v1alpha1_ArtifactWorkflowList_To_arc_ArtifactWorkflowList ::
  "ArtifactWorkflowList \<Rightarrow> arc_ArtifactWorkflowList \<Rightarrow> go_error + arc_ArtifactWorkflowList" where
  "Convert_v1alpha1_ArtifactWorkflowList_To_arc_ArtifactWorkflowList in1 out =
     autoConvert_v1alpha1_ArtifactWorkflowList_To_arc_ArtifactWorkflowList in1 out"

definition autoConvert_v1alpha1_EndpointSpec_To_arc_EndpointSpec ::
  "EndpointSpec \<Rightarrow> arc_EndpointSpec \<Rightarrow> go_error + arc_EndpointSpec" where
  "autoConvert_v1alpha1_EndpointSpec_To_arc_EndpointSpec in1 out =
     Inr (out\<lparr>arc_EndpointSpec_Type := EndpointSpec_Type in1,
         arc_EndpointSpec_RemoteURL := EndpointSpec_RemoteURL in1,
         arc_EndpointSpec_SecretRef := EndpointSpec_SecretRef in1,
         arc_EndpointSpec_Usage := EndpointSpec_Usage in1\<rparr>)"

definition Convert_v1alpha1_EndpointSpec_To_arc_EndpointSpec ::
  "EndpointSpec \<Rightarrow> arc_EndpointSpec \<Rightarrow> go_error + arc_EndpointSpec" where
  "Convert_v1alpha1_EndpointSpec_To_arc_EndpointSpec in1 out =
     autoConvert_v1alpha1_EndpointSpec_To_arc_EndpointSpec in1 out"

definition autoConvert_v1alpha1_EndpointStatus_To_arc_EndpointStatus :: "EndpointStatus \<Rightarrow> arc_EndpointStatus \<Rightarrow> go_error + arc_EndpointStatus" where
  "autoConvert_v1alpha1_EndpointStatus_To_arc_EndpointStatus in1 out = Inr out"

definition Convert_v1alpha1_EndpointStatus_To_arc_EndpointStatus ::
  "EndpointStatus \<Rightarrow> arc_EndpointStatus \<Rightarrow> go_error + arc_EndpointStatus" where
  "Convert_v1alpha1_EndpointStatus_To_arc_EndpointStatus in1 out =
     autoConvert_v1alpha1_EndpointStatus_To_arc_EndpointStatus in1 out"

definition autoConvert_v1alpha1_Endpoint_To_arc_Endpoint ::
  "Endpoint \<Rightarrow> arc_Endpoint \<Rightarrow> go_error + arc_Endpoint" where
  "autoConvert_v1alpha1_Endpoint_To_arc_Endpoint in1 out =
     (case Convert_v1alpha1_EndpointSpec_To_arc_EndpointSpec (Endpoint_Spec in1) (arc_Endpoint_Spec out) of
        Inl err \<Rightarrow> Inl err
      | Inr x_Endpoint_Spec \<Rightarrow>
     (case Convert_v1alpha1_EndpointStatus_To_arc_EndpointStatus (Endpoint_Status in1) (arc_Endpoint_Status out) of
        Inl err \<Rightarrow> Inl err
      | Inr x_Endpoint_Status \<Rightarrow>
     Inr (out\<lparr>arc_Endpoint_ObjectMeta := Endpoint_ObjectMeta in1,
         arc_Endpoint_Spec := x_Endpoint_Spec,
         arc_Endpoint_Status := x_Endpoint_Status\<rparr>)))"

definition Convert_v1alpha1_Endpoint_To_arc_Endpoint ::
  "Endpoint \<Rightarrow> arc_Endpoint \<Rightarrow> go_error + arc_Endpoint" where
  "Convert_v1alpha1_Endpoint_To_arc_Endpoint in1 out =
     autoConvert_v1alpha1_Endpoint_To_arc_Endpoint in1 out"

definition autoConvert_v1alpha1_EndpointList_To_arc_EndpointList ::
  "EndpointList \<Rightarrow> arc_EndpointList \<Rightarrow> go_error + arc_EndpointList" where
  "autoConvert_v1alpha1_EndpointList_To_arc_EndpointList in1 out =
     Inr (out\<lparr>arc_EndpointList_ListMeta := EndpointList_ListMeta in1,
         arc_EndpointList_Items := map to_arc_Endpoint (EndpointList_Items in1)\<rparr>)"

definition Convert_v1alpha1_EndpointList_To_arc_EndpointList ::
  "EndpointList \<Rightarrow> arc_EndpointList \<Rightarrow> go_error + arc_EndpointList" where
  "Convert_v1alpha1_EndpointList_To_arc_EndpointList in1 out =
     autoConvert_v1alpha1_EndpointList_To_arc_EndpointList in1 out"

definition autoConvert_v1alpha1_ArtifactTypeRules_To_arc_ArtifactTypeRules ::
  "ArtifactTypeRules \<Rightarrow> arc_ArtifactTypeRules \<Rightarrow> go_error + arc_ArtifactTypeRules" where
  "autoConvert_v1alpha1_ArtifactTypeRules_To_arc_ArtifactTypeRules in1 out =
     Inr (out\<lparr>arc_Rules_SrcTypes := Rules_SrcTypes in1,
         arc_Rules_DstTypes := Rules_DstTypes in1\<rparr>)"

definition Convert_v1alpha1_ArtifactTypeRules_To_arc_ArtifactTypeRules ::
  "ArtifactTypeRules \<Rightarrow> arc_ArtifactTypeRules \<Rightarrow> go_error + arc_ArtifactTypeRules" where
  "Convert_v1alpha1_ArtifactTypeRules_To_arc_ArtifactTypeRules in1 out =
     autoConvert_v1alpha1_ArtifactTypeRules_To_arc_ArtifactTypeRules in1 out"

definition autoConvert_v1alpha1_ArtifactTypeSpec_To_arc_ArtifactTypeSpec ::
  "ArtifactTypeSpec \<Rightarrow> arc_ArtifactTypeSpec \<Rightarrow> go_error + arc_ArtifactTypeSpec" where
  "autoConvert_v1alpha1_ArtifactTypeSpec_To_arc_ArtifactTypeSpec in1 out =
     (case Convert_v1alpha1_ArtifactTypeRules_To_arc_ArtifactTypeRules (ATSpec_Rules in1) (arc_ATSpec_Rules out) of
        Inl err \<Rightarrow> Inl err
      | Inr x_ATSpec_Rules \<Rightarrow>
     Inr (out\<lparr>arc_ATSpec_Rules := x_ATSpec_Rules,
         arc_ATSpec_Parameters := map to_arc_ArtifactWorkflowParameter (ATSpec_Parameters in1),
         arc_ATSpec_WorkflowTemplateRef := ATSpec_WorkflowTemplateRef in1\<rparr>))"

definition Convert_v1alpha1_ArtifactTypeSpec_To_arc_ArtifactTypeSpec ::
  "ArtifactTypeSpec \<Rightarrow> arc_ArtifactTypeSpec \<Rightarrow> go_error + arc_ArtifactTypeSpec" where
  "Convert_v1alpha1_ArtifactTypeSpec_To_arc_ArtifactTypeSpec in1 out =
     autoConvert_v1alpha1_ArtifactTypeSpec_To_arc_ArtifactTypeSpec in1 out"

definition autoConvert_v1alpha1_ArtifactTypeStatus_To_arc_ArtifactTypeStatus :: "ArtifactTypeStatus \<Rightarrow> arc_ArtifactTypeStatus \<Rightarrow> go_error + arc_ArtifactTypeStatus" where
  "autoConvert_v1alpha1_ArtifactTypeStatus_To_arc_ArtifactTypeStatus in1 out = Inr out"

definition Convert_v1alpha1_ArtifactTypeStatus_To_arc_ArtifactTypeStatus ::
  "ArtifactTypeStatus \<Rightarrow> arc_ArtifactTypeStatus \<Rightarrow> go_error + arc_ArtifactTypeStatus" where
  "Convert_v1alpha1_ArtifactTypeStatus_To_arc_ArtifactTypeStatus in1 out =
     autoConvert_v1alpha1_ArtifactTypeStatus_To_arc_ArtifactTypeStatus in1 out"

definition autoConvert_v1alpha1_ArtifactType_To_arc_ArtifactType ::
  "ArtifactType \<Rightarrow> arc_ArtifactType \<Rightarrow> go_error + arc_ArtifactType" where
  "autoConvert_v1alpha1_ArtifactType_To_arc_ArtifactType in1 out =
     (case Convert_v1alpha1_ArtifactTypeSpec_To_arc_ArtifactTypeSpec (AT_Spec in1) (arc_AT_Spec out) of
        Inl err \<Rightarrow> Inl err
      | Inr x_AT_Spec \<Rightarrow>
     (case Convert_v1alpha1_ArtifactTypeStatus_To_arc_ArtifactTypeStatus (AT_Status in1) (arc_AT_Status out) of
        Inl err \<Rightarrow> Inl err
      | Inr x_AT_Status \<Rightarrow>
     Inr (out\<lparr>arc_AT_ObjectMeta := AT_ObjectMeta in1,
         arc_AT_Spec := x_AT_Spec,
         arc_AT_Status := x_AT_Status\<rparr>)))"

definition Convert_v1alpha1_ArtifactType_To_arc_ArtifactType ::
  "ArtifactType \<Rightarrow> arc_ArtifactType \<Rightarrow> go_error + arc_ArtifactType" where
  "Convert_v1alpha1_ArtifactType_To_arc_ArtifactType in1 out =
     autoConvert_v1alpha1_ArtifactType_To_arc_ArtifactType in1 out"

definition autoConvert_v1alpha1_ArtifactTypeList_To_arc_ArtifactTypeList ::
  "ArtifactTypeList \<Rightarrow> arc_ArtifactTypeList \<Rightarrow> go_error + arc_ArtifactTypeList" where
  "autoConvert_v1alpha1_ArtifactTypeList_To_arc_ArtifactTypeList in1 out =
     Inr (out\<lparr>arc_ATList_ListMeta := ATList_ListMeta in1,
         arc_ATList_Items := map to_arc_ArtifactType (ATList_Items in1)\<rparr>)"

definition Convert_v1alpha1_ArtifactTypeList_To_arc_ArtifactTypeList ::
  "ArtifactTypeList \<Rightarrow> arc_ArtifactTypeList \<Rightarrow> go_error + arc_ArtifactTypeList" where
  "Convert_v1alpha1_ArtifactTypeList_To_arc_ArtifactTypeList in1 out =
     autoConvert_v1alpha1_ArtifactTypeList_To_arc_ArtifactTypeList in1 out"

text \<open>From the internal types to v1alpha1.\<close>

definition autoConvert_arc_OrderDefaults_To_v1alpha1_OrderDefaults ::
  "arc_OrderDefaults \<Rightarrow> OrderDefaults \<Rightarrow> go_error + OrderDefaults" where
  "autoConvert_arc_OrderDefaults_To_v1alpha1_OrderDefaults in1 out =
     Inr (out\<lparr>OrderDefaults_SrcRef := arc_OrderDefaults_SrcRef in1,
         OrderDefaults_DstRef := arc_OrderDefaults_DstRef in1\<rparr>)"

definition Convert_arc_OrderDefaults_To_v1alpha1_OrderDefaults ::
  "arc_OrderDefaults \<Rightarrow> OrderDefaults \<Rightarrow> go_error + OrderDefaults" where
  "Convert_arc_OrderDefaults_To_v1alpha1_OrderDefaults in1 out =
     autoConvert_arc_OrderDefaults_To_v1alpha1_OrderDefaults in1 out"

definition autoConvert_arc_OrderArtifact_To_v1alpha1_OrderArtifact ::
  "arc_OrderArtifact \<Rightarrow> OrderArtifact \<Rightarrow> go_error + OrderArtifact" where
  "autoConvert_arc_OrderArtifact_To_v1alpha1_OrderArtifact in1 out =
     Inr (out\<lparr>OrderArtifact_Type := arc_OrderArtifact_Type in1,
         OrderArtifact_SrcRef := arc_OrderArtifact_SrcRef in1,
         OrderArtifact_DstRef := arc_OrderArtifact_DstRef in1,
         OrderArtifact_Spec := arc_OrderArtifact_Spec in1\<rparr>)"

definition Convert_arc_OrderArtifact_To_v1alpha1_OrderArtifact ::
  "arc_OrderArtifact \<Rightarrow> OrderArtifact \<Rightarrow> go_error + OrderArtifact" where
  "Convert_arc_OrderArtifact_To_v1alpha1_OrderArtifact in1 out =
     autoConvert_arc_OrderArtifact_To_v1alpha1_OrderArtifact in1 out"

definition autoConvert_arc_OrderSpec_To_v1alpha1_OrderSpec ::
  "arc_OrderSpec \<Rightarrow> OrderSpec \<Rightarrow> go_error + OrderSpec" where
  "autoConvert_arc_OrderSpec_To_v1alpha1_OrderSpec in1 out =
     (case Convert_arc_OrderDefaults_To_v1alpha1_OrderDefaults (arc_OrderSpec_Defaults in1) (OrderSpec_Defaults out) of
        Inl err \<Rightarrow> Inl err
      | Inr x_OrderSpec_Defaults \<Rightarrow>
     Inr (out\<lparr>OrderSpec_Defaults := x_OrderSpec_Defaults,
         OrderSpec_Artifacts := map of_arc_OrderArtifact (arc_OrderSpec_Artifacts in1)\<rparr>))"

definition Convert_arc_OrderSpec_To_v1alpha1_OrderSpec ::
  "arc_OrderSpec \<Rightarrow> OrderSpec \<Rightarrow> go_error + OrderSpec" where
  "Convert_arc_OrderSpec_To_v1alpha1_OrderSpec in1 out =
     autoConvert_arc_OrderSpec_To_v1alpha1_OrderSpec in1 out"

definition autoConvert_arc_OrderArtifactWorkflowStatus_To_v1alpha1_OrderArtifactWorkflowStatus ::
  "arc_OrderArtifactWorkflowStatus \<Rightarrow> OrderArtifactWorkflowStatus \<Rightarrow> go_error + OrderArtifactWorkflowStatus" where
  "autoConvert_arc_OrderArtifactWorkflowStatus_To_v1alpha1_OrderArtifactWorkflowStatus in1 out =
     Inr (out\<lparr>OAWStatus_ArtifactIndex := arc_OAWStatus_ArtifactIndex in1,
         OAWStatus_Phase := arc_OAWStatus_Phase in1,
         OAWStatus_Message := arc_OAWStatus_Message in1\<rparr>)"

definition Convert_arc_OrderArtifactWorkflowStatus_To_v1alpha1_OrderArtifactWorkflowStatus ::
  "arc_OrderArtifactWorkflowStatus \<Rightarrow> OrderArtifactWorkflowStatus \<Rightarrow> go_error + OrderArtifactWorkflowStatus" where
  "Convert_arc_OrderArtifactWorkflowStatus_To_v1alpha1_OrderArtifactWorkflowStatus in1 out =
     autoConvert_arc_OrderArtifactWorkflowStatus_To_v1alpha1_OrderArtifactWorkflowStatus in1 out"

definition autoConvert_arc_OrderStatus_To_v1alpha1_OrderStatus ::
  "arc_OrderStatus \<Rightarrow> OrderStatus \<Rightarrow> go_error + OrderStatus" where
  "autoConvert_arc_OrderStatus_To_v1alpha1_OrderStatus in1 out =
     Inr (out\<lparr>OrderStatus_ArtifactWorkflows := map_option (fmmap of_arc_OrderArtifactWorkflowStatus) (arc_OrderStatus_ArtifactWorkflows in1)\<rparr>)"

definition Convert_arc_OrderStatus_To_v1alpha1_OrderStatus ::
  "arc_OrderStatus \<Rightarrow> OrderStatus \<Rightarrow> go_error + OrderStatus" where
  "Convert_arc_OrderStatus_To_v1alpha1_OrderStatus in1 out =
     autoConvert_arc_OrderStatus_To_v1alpha1_OrderStatus in1 out"

definition autoConvert_arc_Order_To_v1alpha1_Order ::
  "arc_Order \<Rightarrow> Order \<Rightarrow> go_error + Order" where
  "autoConvert_arc_Order_To_v1alpha1_Order in1 out =
     (case Convert_arc_OrderSpec_To_v1alpha1_OrderSpec (arc_Order_Spec in1) (Order_Spec out) of
        Inl err \<Rightarrow> Inl err
      | Inr x_Order_Spec \<Rightarrow>
     (case Convert_arc_OrderStatus_To_v1alpha1_OrderStatus (arc_Order_Status in1) (Order_Status out) of
        Inl err \<Rightarrow> Inl err
      | Inr x_Order_Status \<Rightarrow>
     Inr (out\<lparr>Order_ObjectMeta := arc_Order_ObjectMeta in1,
         Order_Spec := x_Order_Spec,
         Order_Status := x_Order_Status\<rparr>)))"

definition Convert_arc_Order_To_v1alpha1_Order ::
  "arc_Order \<Rightarrow> Order \<Rightarrow> go_error + Order" where
  "Convert_arc_Order_To_v1alpha1_Order in1 out =
     autoConvert_arc_Order_To_v1alpha1_Order in1 out"

definition autoConvert_arc_OrderList_To_v1alpha1_OrderList ::
  "arc_OrderList \<Rightarrow> OrderList \<Rightarrow> go_error + OrderList" where
  "autoConvert_arc_OrderList_To_v1alpha1_OrderList in1 out =
     Inr (out\<lparr>OrderList_ListMeta := arc_OrderList_ListMeta in1,
         OrderList_Items := map of_arc_Order (arc_OrderList_Items in1)\<rparr>)"

definition Convert_arc_OrderList_To_v1alpha1_OrderList ::
  "arc_OrderList \<Rightarrow> OrderList \<Rightarrow> go_error + OrderList" where
  "Convert_arc_OrderList_To_v1alpha1_OrderList in1 out =
     autoConvert_arc_OrderList_To_v1alpha1_OrderList in1 out"

definition autoConvert_arc_ArtifactWorkflowParameter_To_v1alpha1_ArtifactWorkflowParameter ::
  "arc_ArtifactWorkflowParameter \<Rightarrow> ArtifactWorkflowParameter \<Rightarrow> go_error + ArtifactWorkflowParameter" where
  "autoConvert_arc_ArtifactWorkflowParameter_To_v1alpha1_ArtifactWorkflowParameter in1 out =
     Inr (out\<lparr>Parameter_Name := arc_Parameter_Name in1,
         Parameter_Value := arc_Parameter_Value in1\<rparr>)"

definition Convert_arc_ArtifactWorkflowParameter_To_v1alpha1_ArtifactWorkflowParameter ::
  "arc_ArtifactWorkflowParameter \<Rightarrow> ArtifactWorkflowParameter \<Rightarrow> go_error + ArtifactWorkflowParameter" where
  "Convert_arc_ArtifactWorkflowParameter_To_v1alpha1_ArtifactWorkflowParameter in1 out =
     autoConvert_arc_ArtifactWorkflowParameter_To_v1alpha1_ArtifactWorkflowParameter in1 out"

definition autoConvert_arc_ArtifactWorkflowSpec_To_v1alpha1_ArtifactWorkflowSpec ::
  "arc_ArtifactWorkflowSpec \<Rightarrow> ArtifactWorkflowSpec \<Rightarrow> go_error + ArtifactWorkflowSpec" where
  "autoConvert_arc_ArtifactWorkflowSpec_To_v1alpha1_ArtifactWorkflowSpec in1 out =
     Inr (out\<lparr>AWSpec_Type := arc_AWSpec_Type in1,
         AWSpec_Parameters := map of_arc_ArtifactWorkflowParameter (arc_AWSpec_Parameters in1),
         AWSpec_SrcSecretRef := arc_AWSpec_SrcSecretRef in1,
         AWSpec_DstSecretRef := arc_AWSpec_DstSecretRef in1\<rparr>)"

definition Convert_arc_ArtifactWorkflowSpec_To_v1alpha1_ArtifactWorkflowSpec ::
  "arc_ArtifactWorkflowSpec \<Rightarrow> ArtifactWorkflowSpec \<Rightarrow> go_error + ArtifactWorkflowSpec" where
  "Convert_arc_ArtifactWorkflowSpec_To_v1alpha1_ArtifactWorkflowSpec in1 out =
     autoConvert_arc_ArtifactWorkflowSpec_To_v1alpha1_ArtifactWorkflowSpec in1 out"

definition autoConvert_arc_ArtifactWorkflowStatus_To_v1alpha1_ArtifactWorkflowStatus ::
  "arc_ArtifactWorkflowStatus \<Rightarrow> ArtifactWorkflowStatus \<Rightarrow> go_error + ArtifactWorkflowStatus" where
  "autoConvert_arc_ArtifactWorkflowStatus_To_v1alpha1_ArtifactWorkflowStatus in1 out =
     Inr (out\<lparr>AWStatus_Phase := arc_AWStatus_Phase in1,
         AWStatus_Message := arc_AWStatus_Message in1\<rparr>)"

definition Convert_arc_ArtifactWorkflowStatus_To_v1alpha1_ArtifactWorkflowStatus ::
  "arc_ArtifactWorkflowStatus \<Rightarrow> ArtifactWorkflowStatus \<Rightarrow> go_error + ArtifactWorkflowStatus" where
  "Convert_arc_ArtifactWorkflowStatus_To_v1alpha1_ArtifactWorkflowStatus in1 out =
     autoConvert_arc_ArtifactWorkflowStatus_To_v1alpha1_ArtifactWorkflowStatus in1 out"

definition autoConvert_arc_ArtifactWorkflow_To_v1alpha1_ArtifactWorkflow ::
  "arc_ArtifactWorkflow \<Rightarrow> ArtifactWorkflow \<Rightarrow> go_error + ArtifactWorkflow" where
  "autoConvert_arc_ArtifactWorkflow_To_v1alpha1_ArtifactWorkflow in1 out =
     (case Convert_arc_ArtifactWorkflowSpec_To_v1alpha1_ArtifactWorkflowSpec (arc_AW_Spec in1) (AW_Spec out) of
        Inl err \<Rightarrow> Inl err
      | Inr x_AW_Spec \<Rightarrow>
     (case Convert_arc_ArtifactWorkflowStatus_To_v1alpha1_ArtifactWorkflowStatus (arc_AW_Status in1) (AW_Status out) of
        Inl err \<Rightarrow> Inl err
      | Inr x_AW_Status \<Rightarrow>
     Inr (out\<lparr>AW_ObjectMeta := arc_AW_ObjectMeta in1,
         AW_Spec := x_AW_Spec,
         AW_Status := x_AW_Status\<rparr>)))"

definition Convert_arc_ArtifactWorkflow_To_v1alpha1_ArtifactWorkflow ::
  "arc_ArtifactWorkflow \<Rightarrow> ArtifactWorkflow \<Rightarrow> go_error + ArtifactWorkflow" where
  "Convert_arc_ArtifactWorkflow_To_v1alpha1_ArtifactWorkflow in1 out =
     autoConvert_arc_ArtifactWorkflow_To_v1alpha1_ArtifactWorkflow in1 out"

definition autoConvert_arc_ArtifactWorkflowList_To_v1alpha1_ArtifactWorkflowList ::
  "arc_ArtifactWorkflowList \<Rightarrow> ArtifactWorkflowList \<Rightarrow> go_error + ArtifactWorkflowList" where
  "autoConvert_arc_ArtifactWorkflowList_To_v1alpha1_ArtifactWorkflowList in1 out =
     Inr (out\<lparr>AWList_ListMeta := arc_AWList_ListMeta in1,
         AWList_Items := map of_arc_ArtifactWorkflow (arc_AWList_Items in1)\<rparr>)"

definition Convert_arc_ArtifactWorkflowList_To_v1alpha1_ArtifactWorkflowList ::
  "arc_ArtifactWorkflowList \<Rightarrow> ArtifactWorkflowList \<Rightarrow> go_error + ArtifactWorkflowList" where
  "Convert_arc_ArtifactWorkflowList_To_v1alpha1_ArtifactWorkflowList in1 out =
     autoConvert_arc_ArtifactWorkflowList_To_v1alpha1_ArtifactWorkflowList in1 out"

definition autoConvert_arc_EndpointSpec_To_v1alpha1_EndpointSpec ::
  "arc_EndpointSpec \<Rightarrow> EndpointSpec \<Rightarrow> go_error + EndpointSpec" where
  "autoConvert_arc_EndpointSpec_To_v1alpha1_EndpointSpec in1 out =
     Inr (out\<lparr>EndpointSpec_Type := arc_EndpointSpec_Type in1,
         EndpointSpec_RemoteURL := arc_EndpointSpec_RemoteURL in1,
         EndpointSpec_SecretRef := arc_EndpointSpec_SecretRef in1,
         EndpointSpec_Usage := arc_EndpointSpec_Usage in1\<rparr>)"

definition Convert_arc_EndpointSpec_To_v1alpha1_EndpointSpec ::
  "arc_EndpointSpec \<Rightarrow> EndpointSpec \<Rightarrow> go_error + EndpointSpec" where
  "Convert_arc_EndpointSpec_To_v1alpha1_EndpointSpec in1 out =
     autoConvert_arc_EndpointSpec_To_v1alpha1_EndpointSpec in1 out"

definition autoConvert_arc_EndpointStatus_To_v1alpha1_EndpointStatus :: "arc_EndpointStatus \<Rightarrow> EndpointStatus \<Rightarrow> go_error + EndpointStatus" where
  "autoConvert_arc_EndpointStatus_To_v1alpha1_EndpointStatus in1 out = Inr out"

definition Convert_arc_EndpointStatus_To_v1alpha1_EndpointStatus ::
  "arc_EndpointStatus \<Rightarrow> EndpointStatus \<Rightarrow> go_error + EndpointStatus" where
  "Convert_arc_EndpointStatus_To_v1alpha1_EndpointStatus in1 out =
     autoConvert_arc_EndpointStatus_To_v1alpha1_EndpointStatus in1 out"

definition autoConvert_arc_Endpoint_To_v1alpha1_Endpoint ::
  "arc_Endpoint \<Rightarrow> Endpoint \<Rightarrow> go_error + Endpoint" where
  "autoConvert_arc_Endpoint_To_v1alpha1_Endpoint in1 out =
     (case Convert_arc_EndpointSpec_To_v1alpha1_EndpointSpec (arc_Endpoint_Spec in1) (Endpoint_Spec out) of
        Inl err \<Rightarrow> Inl err
      | Inr x_Endpoint_Spec \<Rightarrow>
     (case Convert_arc_EndpointStatus_To_v1alpha1_EndpointStatus (arc_Endpoint_Status in1) (Endpoint_Status out) of
        Inl err \<Rightarrow> Inl err
      | Inr x_Endpoint_Status \<Rightarrow>
     Inr (out\<lparr>Endpoint_ObjectMeta := arc_Endpoint_ObjectMeta in1,
         Endpoint_Spec := x_Endpoint_Spec,
         Endpoint_Status := x_Endpoint_Status\<rparr>)))"

definition Convert_arc_Endpoint_To_v1alpha1_Endpoint ::
  "arc_Endpoint \<Rightarrow> Endpoint \<Rightarrow> go_error + Endpoint" where
  "Convert_arc_Endpoint_To_v1alpha1_Endpoint in1 out =
     autoConvert_arc_Endpoint_To_v1alpha1_Endpoint in1 out"

definition autoConvert_arc_EndpointList_To_v1alpha1_EndpointList ::
  "arc_EndpointList \<Rightarrow> EndpointList \<Rightarrow> go_error + EndpointList" where
  "autoConvert_arc_EndpointList_To_v1alpha1_EndpointList in1 out =
     Inr (out\<lparr>EndpointList_ListMeta := arc_EndpointList_ListMeta in1,
         EndpointList_Items := map of_arc_Endpoint (arc_EndpointList_Items in1)\<rparr>)"

definition Convert_arc_EndpointList_To_v1alpha1_EndpointList ::
  "arc_EndpointList \<Rightarrow> EndpointList \<Rightarrow> go_error + EndpointList" where
  "Convert_arc_EndpointList_To_v1alpha1_EndpointList in1 out =
     autoConvert_arc_EndpointList_To_v1alpha1_EndpointList in1 out"

definition autoConvert_arc_ArtifactTypeRules_To_v1alpha1_ArtifactTypeRules ::
  "arc_ArtifactTypeRules \<Rightarrow> ArtifactTypeRules \<Rightarrow> go_error + ArtifactTypeRules" where
  "autoConvert_arc_ArtifactTypeRules_To_v1alpha1_ArtifactTypeRules in1 out =
     Inr (out\<lparr>Rules_SrcTypes := arc_Rules_SrcTypes in1,
         Rules_DstTypes := arc_Rules_DstTypes in1\<rparr>)"

definition Convert_arc_ArtifactTypeRules_To_v1alpha1_ArtifactTypeRules ::
  "arc_ArtifactTypeRules \<Rightarrow> ArtifactTypeRules \<Rightarrow> go_error + ArtifactTypeRules" where
  "Convert_arc_ArtifactTypeRules_To_v1alpha1_ArtifactTypeRules in1 out =
     autoConvert_arc_ArtifactTypeRules_To_v1alpha1_ArtifactTypeRules in1 out"

definition autoConvert_arc_ArtifactTypeSpec_To_v1alpha1_ArtifactTypeSpec ::
  "arc_ArtifactTypeSpec \<Rightarrow> ArtifactTypeSpec \<Rightarrow> go_error + ArtifactTypeSpec" where
  "autoConvert_arc_ArtifactTypeSpec_To_v1alpha1_ArtifactTypeSpec in1 out =
     (case Convert_arc_ArtifactTypeRules_To_v1alpha1_ArtifactTypeRules (arc_ATSpec_Rules in1) (ATSpec_Rules out) of
        Inl err \<Rightarrow> Inl err
      | Inr x_ATSpec_Rules \<Rightarrow>
     Inr (out\<lparr>ATSpec_Rules := x_ATSpec_Rules,
         ATSpec_Parameters := map of_arc_ArtifactWorkflowParameter (arc_ATSpec_Parameters in1),
         ATSpec_WorkflowTemplateRef := arc_ATSpec_WorkflowTemplateRef in1\<rparr>))"

definition Convert_arc_ArtifactTypeSpec_To_v1alpha1_ArtifactTypeSpec ::
  "arc_ArtifactTypeSpec \<Rightarrow> ArtifactTypeSpec \<Rightarrow> go_error + ArtifactTypeSpec" where
  "Convert_arc_ArtifactTypeSpec_To_v1alpha1_ArtifactTypeSpec in1 out =
     autoConvert_arc_ArtifactTypeSpec_To_v1alpha1_ArtifactTypeSpec in1 out"

definition autoConvert_arc_ArtifactTypeStatus_To_v1alpha1_ArtifactTypeStatus :: "arc_ArtifactTypeStatus \<Rightarrow> ArtifactTypeStatus \<Rightarrow> go_error + ArtifactTypeStatus" where
  "autoConvert_arc_ArtifactTypeStatus_To_v1alpha1_ArtifactTypeStatus in1 out = Inr out"

definition Convert_arc_ArtifactTypeStatus_To_v1alpha1_ArtifactTypeStatus ::
  "arc_ArtifactTypeStatus \<Rightarrow> ArtifactTypeStatus \<Rightarrow> go_error + ArtifactTypeStatus" where
  "Convert_arc_ArtifactTypeStatus_To_v1alpha1_ArtifactTypeStatus in1 out =
     autoConvert_arc_ArtifactTypeStatus_To_v1alpha1_ArtifactTypeStatus in1 out"

definition autoConvert_arc_ArtifactType_To_v1alpha1_ArtifactType ::
  "arc_ArtifactType \<Rightarrow> ArtifactType \<Rightarrow> go_error + ArtifactType" where
  "autoConvert_arc_ArtifactType_To_v1alpha1_ArtifactType in1 out =
     (case Convert_arc_ArtifactTypeSpec_To_v1alpha1_ArtifactTypeSpec (arc_AT_Spec in1) (AT_Spec out) of
        Inl err \<Rightarrow> Inl err
      | Inr x_AT_Spec \<Rightarrow>
     (case Convert_arc_ArtifactTypeStatus_To_v1alpha1_ArtifactTypeStatus (arc_AT_Status in1) (AT_Status out) of
        Inl err \<Rightarrow> Inl err
      | Inr x_AT_Status \<Rightarrow>
     Inr (out\<lparr>AT_ObjectMeta := arc_AT_ObjectMeta in1,
         AT_Spec := x_AT_Spec,
         AT_Status := x_AT_Status\<rparr>)))"

definition Convert_arc_ArtifactType_To_v1alpha1_ArtifactType ::
  "arc_ArtifactType \<Rightarrow> ArtifactType \<Rightarrow> go_error + ArtifactType" where
  "Convert_arc_ArtifactType_To_v1alpha1_ArtifactType in1 out =
     autoConvert_arc_ArtifactType_To_v1alpha1_ArtifactType in1 out"

definition autoConvert_arc_ArtifactTypeList_To_v1alpha1_ArtifactTypeList ::
  "arc_ArtifactTypeList \<Rightarrow> ArtifactTypeList \<Rightarrow> go_error + ArtifactTypeList" where
  "autoConvert_arc_ArtifactTypeList_To_v1alpha1_ArtifactTypeList in1 out =
     Inr (out\<lparr>ATList_ListMeta := arc_ATList_ListMeta in1,
         ATList_Items := map of_arc_ArtifactType (arc_ATList_Items in1)\<rparr>)"

definition Convert_arc_ArtifactTypeList_To_v1alpha1_ArtifactTypeList ::
  "arc_ArtifactTypeList \<Rightarrow> ArtifactTypeList \<Rightarrow> go_error + ArtifactTypeList" where
  "Convert_arc_ArtifactTypeList_To_v1alpha1_ArtifactTypeList in1 out =
     autoConvert_arc_ArtifactTypeList_To_v1alpha1_ArtifactTypeList in1 out"

subsection \<open>Both readings are inverse\<close>

lemma fmmap_inverse: "(\<And>x. g (f x) = x) \<Longrightarrow> fmmap g (fmmap f m) = m"
  by (rule fmap_ext) (simp add: option.map_comp comp_def option.map_ident)

lemma map_inverse: "(\<And>x. g (f x) = x) \<Longrightarrow> map g (map f xs) = xs"
  by (induction xs) simp_all

lemmas inverse_simps = map_inverse fmmap_inverse option.map_comp comp_def option.map_ident

lemma cast_OrderDefaults [simp]:
  "of_arc_OrderDefaults (to_arc_OrderDefaults x) = x" "to_arc_OrderDefaults (of_arc_OrderDefaults y) = y"
  by (simp_all add: of_arc_OrderDefaults_def to_arc_OrderDefaults_def inverse_simps)

lemma cast_OrderArtifact [simp]:
  "of_arc_OrderArtifact (to_arc_OrderArtifact x) = x" "to_arc_OrderArtifact (of_arc_OrderArtifact y) = y"
  by (simp_all add: of_arc_OrderArtifact_def to_arc_OrderArtifact_def inverse_simps)

lemma cast_OrderSpec [simp]:
  "of_arc_OrderSpec (to_arc_OrderSpec x) = x" "to_arc_OrderSpec (of_arc_OrderSpec y) = y"
  by (simp_all add: of_arc_OrderSpec_def to_arc_OrderSpec_def inverse_simps)

lemma cast_OrderArtifactWorkflowStatus [simp]:
  "of_arc_OrderArtifactWorkflowStatus (to_arc_OrderArtifactWorkflowStatus x) = x" "to_arc_OrderArtifactWorkflowStatus (of_arc_OrderArtifactWorkflowStatus y) = y"
  by (simp_all add: of_arc_OrderArtifactWorkflowStatus_def to_arc_OrderArtifactWorkflowStatus_def inverse_simps)

lemma cast_OrderStatus [simp]:
  "of_arc_OrderStatus (to_arc_OrderStatus x) = x" "to_arc_OrderStatus (of_arc_OrderStatus y) = y"
  by (simp_all add: of_arc_OrderStatus_def to_arc_OrderStatus_def inverse_simps)

lemma cast_Order [simp]:
  "of_arc_Order (to_arc_Order x) = x" "to_arc_Order (of_arc_Order y) = y"
  by (simp_all add: of_arc_Order_def to_arc_Order_def inverse_simps)

lemma cast_ArtifactWorkflowParameter [simp]:
  "of_arc_ArtifactWorkflowParameter (to_arc_ArtifactWorkflowParameter x) = x" "to_arc_ArtifactWorkflowParameter (of_arc_ArtifactWorkflowParameter y) = y"
  by (simp_all add: of_arc_ArtifactWorkflowParameter_def to_arc_ArtifactWorkflowParameter_def inverse_simps)

lemma cast_ArtifactWorkflowSpec [simp]:
  "of_arc_ArtifactWorkflowSpec (to_arc_ArtifactWorkflowSpec x) = x" "to_arc_ArtifactWorkflowSpec (of_arc_ArtifactWorkflowSpec y) = y"
  by (simp_all add: of_arc_ArtifactWorkflowSpec_def to_arc_ArtifactWorkflowSpec_def inverse_simps)

lemma cast_ArtifactWorkflowStatus [simp]:
  "of_arc_ArtifactWorkflowStatus (to_arc_ArtifactWorkflowStatus x) = x" "to_arc_ArtifactWorkflowStatus (of_arc_ArtifactWorkflowStatus y) = y"
  by (simp_all add: of_arc_ArtifactWorkflowStatus_def to_arc_ArtifactWorkflowStatus_def inverse_simps)

lemma cast_ArtifactWorkflow [simp]:
  "of_arc_ArtifactWorkflow (to_arc_ArtifactWorkflow x) = x" "to_arc_ArtifactWorkflow (of_arc_ArtifactWorkflow y) = y"
  by (simp_all add: of_arc_ArtifactWorkflow_def to_arc_ArtifactWorkflow_def inverse_simps)

lemma cast_EndpointSpec [simp]:
  "of_arc_EndpointSpec (to_arc_EndpointSpec x) = x" "to_arc_EndpointSpec (of_arc_EndpointSpec y) = y"
  by (simp_all add: of_arc_EndpointSpec_def to_arc_EndpointSpec_def inverse_simps)

lemma cast_Endpoint [simp]:
  "of_arc_Endpoint (to_arc_Endpoint x) = x" "to_arc_Endpoint (of_arc_Endpoint y) = y"
  by (simp_all add: of_arc_Endpoint_def to_arc_Endpoint_def inverse_simps)

lemma cast_ArtifactTypeRules [simp]:
  "of_arc_ArtifactTypeRules (to_arc_ArtifactTypeRules x) = x" "to_arc_ArtifactTypeRules (of_arc_ArtifactTypeRules y) = y"
  by (simp_all add: of_arc_ArtifactTypeRules_def to_arc_ArtifactTypeRules_def inverse_simps)

lemma cast_ArtifactTypeSpec [simp]:
  "of_arc_ArtifactTypeSpec (to_arc_ArtifactTypeSpec x) = x" "to_arc_ArtifactTypeSpec (of_arc_ArtifactTypeSpec y) = y"
  by (simp_all add: of_arc_ArtifactTypeSpec_def to_arc_ArtifactTypeSpec_def inverse_simps)

lemma cast_ArtifactType [simp]:
  "of_arc_ArtifactType (to_arc_ArtifactType x) = x" "to_arc_ArtifactType (of_arc_ArtifactType y) = y"
  by (simp_all add: of_arc_ArtifactType_def to_arc_ArtifactType_def inverse_simps)

subsection \<open>The contract of a pair of conversions\<close>

text \<open>
  Two conversion functions in opposite directions: they never fail, and converting there and back
  gives the value again, but for what the functions do not assign, which \<open>retype\<close> takes from the
  second output.
\<close>

locale conversion_pair =
  fixes conv :: "'a \<Rightarrow> 'b \<Rightarrow> go_error + 'b" and unconv :: "'b \<Rightarrow> 'a \<Rightarrow> go_error + 'a"
    and retype :: "'a \<Rightarrow> 'a \<Rightarrow> 'a"
  assumes total: "\<exists>y. conv x out = Inr y"
    and unconv_conv: "conv x out = Inr y \<Longrightarrow> unconv y out2 = Inr (retype x out2)"
begin

lemma round_trip: "\<exists>y. conv x out = Inr y \<and> unconv y out2 = Inr (retype x out2)"
  using total unconv_conv by blast

lemma nothing_lost:
  assumes "conv x out = conv y out"
  shows "retype x z = retype y z"
  using total [of x out] unconv_conv [of x out _ z] unconv_conv [of y out _ z] assms by auto

end

lemmas convert_OrderDefaults_defs =
      autoConvert_v1alpha1_OrderDefaults_To_arc_OrderDefaults_def
      autoConvert_arc_OrderDefaults_To_v1alpha1_OrderDefaults_def
      Convert_v1alpha1_OrderDefaults_To_arc_OrderDefaults_def
      Convert_arc_OrderDefaults_To_v1alpha1_OrderDefaults_def

interpretation v_OrderDefaults: conversion_pair
  Convert_v1alpha1_OrderDefaults_To_arc_OrderDefaults
  Convert_arc_OrderDefaults_To_v1alpha1_OrderDefaults "\<lambda>x out. x"
  by unfold_locales (auto simp: convert_OrderDefaults_defs inverse_simps)

interpretation a_OrderDefaults: conversion_pair
  Convert_arc_OrderDefaults_To_v1alpha1_OrderDefaults
  Convert_v1alpha1_OrderDefaults_To_arc_OrderDefaults "\<lambda>x out. x"
  by unfold_locales (auto simp: convert_OrderDefaults_defs inverse_simps)

lemmas convert_OrderArtifact_defs =
      autoConvert_v1alpha1_OrderArtifact_To_arc_OrderArtifact_def
      autoConvert_arc_OrderArtifact_To_v1alpha1_OrderArtifact_def
      Convert_v1alpha1_OrderArtifact_To_arc_OrderArtifact_def
      Convert_arc_OrderArtifact_To_v1alpha1_OrderArtifact_def

interpretation v_OrderArtifact: conversion_pair
  Convert_v1alpha1_OrderArtifact_To_arc_OrderArtifact
  Convert_arc_OrderArtifact_To_v1alpha1_OrderArtifact "\<lambda>x out. x"
  by unfold_locales (auto simp: convert_OrderArtifact_defs inverse_simps)

interpretation a_OrderArtifact: conversion_pair
  Convert_arc_OrderArtifact_To_v1alpha1_OrderArtifact
  Convert_v1alpha1_OrderArtifact_To_arc_OrderArtifact "\<lambda>x out. x"
  by unfold_locales (auto simp: convert_OrderArtifact_defs inverse_simps)

lemmas convert_OrderSpec_defs =
      autoConvert_v1alpha1_OrderSpec_To_arc_OrderSpec_def
      autoConvert_arc_OrderSpec_To_v1alpha1_OrderSpec_def Convert_v1alpha1_OrderSpec_To_arc_OrderSpec_def
      Convert_arc_OrderSpec_To_v1alpha1_OrderSpec_def
      autoConvert_v1alpha1_OrderDefaults_To_arc_OrderDefaults_def
      autoConvert_arc_OrderDefaults_To_v1alpha1_OrderDefaults_def
      Convert_v1alpha1_OrderDefaults_To_arc_OrderDefaults_def
      Convert_arc_OrderDefaults_To_v1alpha1_OrderDefaults_def

interpretation v_OrderSpec: conversion_pair
  Convert_v1alpha1_OrderSpec_To_arc_OrderSpec
  Convert_arc_OrderSpec_To_v1alpha1_OrderSpec "\<lambda>x out. x"
  by unfold_locales (auto simp: convert_OrderSpec_defs inverse_simps)

interpretation a_OrderSpec: conversion_pair
  Convert_arc_OrderSpec_To_v1alpha1_OrderSpec
  Convert_v1alpha1_OrderSpec_To_arc_OrderSpec "\<lambda>x out. x"
  by unfold_locales (auto simp: convert_OrderSpec_defs inverse_simps)

lemmas convert_OrderArtifactWorkflowStatus_defs =
      autoConvert_v1alpha1_OrderArtifactWorkflowStatus_To_arc_OrderArtifactWorkflowStatus_def
      autoConvert_arc_OrderArtifactWorkflowStatus_To_v1alpha1_OrderArtifactWorkflowStatus_def
      Convert_v1alpha1_OrderArtifactWorkflowStatus_To_arc_OrderArtifactWorkflowStatus_def
      Convert_arc_OrderArtifactWorkflowStatus_To_v1alpha1_OrderArtifactWorkflowStatus_def

interpretation v_OrderArtifactWorkflowStatus: conversion_pair
  Convert_v1alpha1_OrderArtifactWorkflowStatus_To_arc_OrderArtifactWorkflowStatus
  Convert_arc_OrderArtifactWorkflowStatus_To_v1alpha1_OrderArtifactWorkflowStatus "\<lambda>x out. x"
  by unfold_locales (auto simp: convert_OrderArtifactWorkflowStatus_defs inverse_simps)

interpretation a_OrderArtifactWorkflowStatus: conversion_pair
  Convert_arc_OrderArtifactWorkflowStatus_To_v1alpha1_OrderArtifactWorkflowStatus
  Convert_v1alpha1_OrderArtifactWorkflowStatus_To_arc_OrderArtifactWorkflowStatus "\<lambda>x out. x"
  by unfold_locales (auto simp: convert_OrderArtifactWorkflowStatus_defs inverse_simps)

lemmas convert_OrderStatus_defs =
      autoConvert_v1alpha1_OrderStatus_To_arc_OrderStatus_def
      autoConvert_arc_OrderStatus_To_v1alpha1_OrderStatus_def
      Convert_v1alpha1_OrderStatus_To_arc_OrderStatus_def
      Convert_arc_OrderStatus_To_v1alpha1_OrderStatus_def

interpretation v_OrderStatus: conversion_pair
  Convert_v1alpha1_OrderStatus_To_arc_OrderStatus
  Convert_arc_OrderStatus_To_v1alpha1_OrderStatus "\<lambda>x out. x"
  by unfold_locales (auto simp: convert_OrderStatus_defs inverse_simps)

interpretation a_OrderStatus: conversion_pair
  Convert_arc_OrderStatus_To_v1alpha1_OrderStatus
  Convert_v1alpha1_OrderStatus_To_arc_OrderStatus "\<lambda>x out. x"
  by unfold_locales (auto simp: convert_OrderStatus_defs inverse_simps)

lemmas convert_Order_defs =
      autoConvert_v1alpha1_Order_To_arc_Order_def autoConvert_arc_Order_To_v1alpha1_Order_def
      Convert_v1alpha1_Order_To_arc_Order_def Convert_arc_Order_To_v1alpha1_Order_def
      autoConvert_v1alpha1_OrderSpec_To_arc_OrderSpec_def
      autoConvert_arc_OrderSpec_To_v1alpha1_OrderSpec_def Convert_v1alpha1_OrderSpec_To_arc_OrderSpec_def
      Convert_arc_OrderSpec_To_v1alpha1_OrderSpec_def
      autoConvert_v1alpha1_OrderDefaults_To_arc_OrderDefaults_def
      autoConvert_arc_OrderDefaults_To_v1alpha1_OrderDefaults_def
      Convert_v1alpha1_OrderDefaults_To_arc_OrderDefaults_def
      Convert_arc_OrderDefaults_To_v1alpha1_OrderDefaults_def
      autoConvert_v1alpha1_OrderStatus_To_arc_OrderStatus_def
      autoConvert_arc_OrderStatus_To_v1alpha1_OrderStatus_def
      Convert_v1alpha1_OrderStatus_To_arc_OrderStatus_def
      Convert_arc_OrderStatus_To_v1alpha1_OrderStatus_def

interpretation v_Order: conversion_pair
  Convert_v1alpha1_Order_To_arc_Order
  Convert_arc_Order_To_v1alpha1_Order "\<lambda>x out. x\<lparr>Order_TypeMeta := Order_TypeMeta out\<rparr>"
  by unfold_locales (auto simp: convert_Order_defs inverse_simps)

interpretation a_Order: conversion_pair
  Convert_arc_Order_To_v1alpha1_Order
  Convert_v1alpha1_Order_To_arc_Order "\<lambda>x out. x\<lparr>arc_Order_TypeMeta := arc_Order_TypeMeta out\<rparr>"
  by unfold_locales (auto simp: convert_Order_defs inverse_simps)

lemmas convert_OrderList_defs =
      autoConvert_v1alpha1_OrderList_To_arc_OrderList_def
      autoConvert_arc_OrderList_To_v1alpha1_OrderList_def Convert_v1alpha1_OrderList_To_arc_OrderList_def
      Convert_arc_OrderList_To_v1alpha1_OrderList_def

interpretation v_OrderList: conversion_pair
  Convert_v1alpha1_OrderList_To_arc_OrderList
  Convert_arc_OrderList_To_v1alpha1_OrderList "\<lambda>x out. x\<lparr>OrderList_TypeMeta := OrderList_TypeMeta out\<rparr>"
  by unfold_locales (auto simp: convert_OrderList_defs inverse_simps)

interpretation a_OrderList: conversion_pair
  Convert_arc_OrderList_To_v1alpha1_OrderList
  Convert_v1alpha1_OrderList_To_arc_OrderList "\<lambda>x out. x\<lparr>arc_OrderList_TypeMeta := arc_OrderList_TypeMeta out\<rparr>"
  by unfold_locales (auto simp: convert_OrderList_defs inverse_simps)

lemmas convert_ArtifactWorkflowParameter_defs =
      autoConvert_v1alpha1_ArtifactWorkflowParameter_To_arc_ArtifactWorkflowParameter_def
      autoConvert_arc_ArtifactWorkflowParameter_To_v1alpha1_ArtifactWorkflowParameter_def
      Convert_v1alpha1_ArtifactWorkflowParameter_To_arc_ArtifactWorkflowParameter_def
      Convert_arc_ArtifactWorkflowParameter_To_v1alpha1_ArtifactWorkflowParameter_def

interpretation v_ArtifactWorkflowParameter: conversion_pair
  Convert_v1alpha1_ArtifactWorkflowParameter_To_arc_ArtifactWorkflowParameter
  Convert_arc_ArtifactWorkflowParameter_To_v1alpha1_ArtifactWorkflowParameter "\<lambda>x out. x"
  by unfold_locales (auto simp: convert_ArtifactWorkflowParameter_defs inverse_simps)

interpretation a_ArtifactWorkflowParameter: conversion_pair
  Convert_arc_ArtifactWorkflowParameter_To_v1alpha1_ArtifactWorkflowParameter
  Convert_v1alpha1_ArtifactWorkflowParameter_To_arc_ArtifactWorkflowParameter "\<lambda>x out. x"
  by unfold_locales (auto simp: convert_ArtifactWorkflowParameter_defs inverse_simps)

lemmas convert_ArtifactWorkflowSpec_defs =
      autoConvert_v1alpha1_ArtifactWorkflowSpec_To_arc_ArtifactWorkflowSpec_def
      autoConvert_arc_ArtifactWorkflowSpec_To_v1alpha1_ArtifactWorkflowSpec_def
      Convert_v1alpha1_ArtifactWorkflowSpec_To_arc_ArtifactWorkflowSpec_def
      Convert_arc_ArtifactWorkflowSpec_To_v1alpha1_ArtifactWorkflowSpec_def

interpretation v_ArtifactWorkflowSpec: conversion_pair
  Convert_v1alpha1_ArtifactWorkflowSpec_To_arc_ArtifactWorkflowSpec
  Convert_arc_ArtifactWorkflowSpec_To_v1alpha1_ArtifactWorkflowSpec "\<lambda>x out. x"
  by unfold_locales (auto simp: convert_ArtifactWorkflowSpec_defs inverse_simps)

interpretation a_ArtifactWorkflowSpec: conversion_pair
  Convert_arc_ArtifactWorkflowSpec_To_v1alpha1_ArtifactWorkflowSpec
  Convert_v1alpha1_ArtifactWorkflowSpec_To_arc_ArtifactWorkflowSpec "\<lambda>x out. x"
  by unfold_locales (auto simp: convert_ArtifactWorkflowSpec_defs inverse_simps)

lemmas convert_ArtifactWorkflowStatus_defs =
      autoConvert_v1alpha1_ArtifactWorkflowStatus_To_arc_ArtifactWorkflowStatus_def
      autoConvert_arc_ArtifactWorkflowStatus_To_v1alpha1_ArtifactWorkflowStatus_def
      Convert_v1alpha1_ArtifactWorkflowStatus_To_arc_ArtifactWorkflowStatus_def
      Convert_arc_ArtifactWorkflowStatus_To_v1alpha1_ArtifactWorkflowStatus_def

interpretation v_ArtifactWorkflowStatus: conversion_pair
  Convert_v1alpha1_ArtifactWorkflowStatus_To_arc_ArtifactWorkflowStatus
  Convert_arc_ArtifactWorkflowStatus_To_v1alpha1_ArtifactWorkflowStatus "\<lambda>x out. x"
  by unfold_locales (auto simp: convert_ArtifactWorkflowStatus_defs inverse_simps)

interpretation a_ArtifactWorkflowStatus: conversion_pair
  Convert_arc_ArtifactWorkflowStatus_To_v1alpha1_ArtifactWorkflowStatus
  Convert_v1alpha1_ArtifactWorkflowStatus_To_arc_ArtifactWorkflowStatus "\<lambda>x out. x"
  by unfold_locales (auto simp: convert_ArtifactWorkflowStatus_defs inverse_simps)

lemmas convert_ArtifactWorkflow_defs =
      autoConvert_v1alpha1_ArtifactWorkflow_To_arc_ArtifactWorkflow_def
      autoConvert_arc_ArtifactWorkflow_To_v1alpha1_ArtifactWorkflow_def
      Convert_v1alpha1_ArtifactWorkflow_To_arc_ArtifactWorkflow_def
      Convert_arc_ArtifactWorkflow_To_v1alpha1_ArtifactWorkflow_def
      autoConvert_v1alpha1_ArtifactWorkflowSpec_To_arc_ArtifactWorkflowSpec_def
      autoConvert_arc_ArtifactWorkflowSpec_To_v1alpha1_ArtifactWorkflowSpec_def
      Convert_v1alpha1_ArtifactWorkflowSpec_To_arc_ArtifactWorkflowSpec_def
      Convert_arc_ArtifactWorkflowSpec_To_v1alpha1_ArtifactWorkflowSpec_def
      autoConvert_v1alpha1_ArtifactWorkflowStatus_To_arc_ArtifactWorkflowStatus_def
      autoConvert_arc_ArtifactWorkflowStatus_To_v1alpha1_ArtifactWorkflowStatus_def
      Convert_v1alpha1_ArtifactWorkflowStatus_To_arc_ArtifactWorkflowStatus_def
      Convert_arc_ArtifactWorkflowStatus_To_v1alpha1_ArtifactWorkflowStatus_def

interpretation v_ArtifactWorkflow: conversion_pair
  Convert_v1alpha1_ArtifactWorkflow_To_arc_ArtifactWorkflow
  Convert_arc_ArtifactWorkflow_To_v1alpha1_ArtifactWorkflow "\<lambda>x out. x\<lparr>AW_TypeMeta := AW_TypeMeta out\<rparr>"
  by unfold_locales (auto simp: convert_ArtifactWorkflow_defs inverse_simps)

interpretation a_ArtifactWorkflow: conversion_pair
  Convert_arc_ArtifactWorkflow_To_v1alpha1_ArtifactWorkflow
  Convert_v1alpha1_ArtifactWorkflow_To_arc_ArtifactWorkflow "\<lambda>x out. x\<lparr>arc_AW_TypeMeta := arc_AW_TypeMeta out\<rparr>"
  by unfold_locales (auto simp: convert_ArtifactWorkflow_defs inverse_simps)

lemmas convert_ArtifactWorkflowList_defs =
      autoConvert_v1alpha1_ArtifactWorkflowList_To_arc_ArtifactWorkflowList_def
      autoConvert_arc_ArtifactWorkflowList_To_v1alpha1_ArtifactWorkflowList_def
      Convert_v1alpha1_ArtifactWorkflowList_To_arc_ArtifactWorkflowList_def
      Convert_arc_ArtifactWorkflowList_To_v1alpha1_ArtifactWorkflowList_def

interpretation v_ArtifactWorkflowList: conversion_pair
  Convert_v1alpha1_ArtifactWorkflowList_To_arc_ArtifactWorkflowList
  Convert_arc_ArtifactWorkflowList_To_v1alpha1_ArtifactWorkflowList "\<lambda>x out. x\<lparr>AWList_TypeMeta := AWList_TypeMeta out\<rparr>"
  by unfold_locales (auto simp: convert_ArtifactWorkflowList_defs inverse_simps)

interpretation a_ArtifactWorkflowList: conversion_pair
  Convert_arc_ArtifactWorkflowList_To_v1alpha1_ArtifactWorkflowList
  Convert_v1alpha1_ArtifactWorkflowList_To_arc_ArtifactWorkflowList "\<lambda>x out. x\<lparr>arc_AWList_TypeMeta := arc_AWList_TypeMeta out\<rparr>"
  by unfold_locales (auto simp: convert_ArtifactWorkflowList_defs inverse_simps)

lemmas convert_EndpointSpec_defs =
      autoConvert_v1alpha1_EndpointSpec_To_arc_EndpointSpec_def
      autoConvert_arc_EndpointSpec_To_v1alpha1_EndpointSpec_def
      Convert_v1alpha1_EndpointSpec_To_arc_EndpointSpec_def
      Convert_arc_EndpointSpec_To_v1alpha1_EndpointSpec_def

interpretation v_EndpointSpec: conversion_pair
  Convert_v1alpha1_EndpointSpec_To_arc_EndpointSpec
  Convert_arc_EndpointSpec_To_v1alpha1_EndpointSpec "\<lambda>x out. x"
  by unfold_locales (auto simp: convert_EndpointSpec_defs inverse_simps)

interpretation a_EndpointSpec: conversion_pair
  Convert_arc_EndpointSpec_To_v1alpha1_EndpointSpec
  Convert_v1alpha1_EndpointSpec_To_arc_EndpointSpec "\<lambda>x out. x"
  by unfold_locales (auto simp: convert_EndpointSpec_defs inverse_simps)

lemmas convert_EndpointStatus_defs =
      autoConvert_v1alpha1_EndpointStatus_To_arc_EndpointStatus_def
      autoConvert_arc_EndpointStatus_To_v1alpha1_EndpointStatus_def
      Convert_v1alpha1_EndpointStatus_To_arc_EndpointStatus_def
      Convert_arc_EndpointStatus_To_v1alpha1_EndpointStatus_def

interpretation v_EndpointStatus: conversion_pair
  Convert_v1alpha1_EndpointStatus_To_arc_EndpointStatus
  Convert_arc_EndpointStatus_To_v1alpha1_EndpointStatus "\<lambda>x out. x"
  by unfold_locales (auto simp: convert_EndpointStatus_defs inverse_simps)

interpretation a_EndpointStatus: conversion_pair
  Convert_arc_EndpointStatus_To_v1alpha1_EndpointStatus
  Convert_v1alpha1_EndpointStatus_To_arc_EndpointStatus "\<lambda>x out. x"
  by unfold_locales (auto simp: convert_EndpointStatus_defs inverse_simps)

lemmas convert_Endpoint_defs =
      autoConvert_v1alpha1_Endpoint_To_arc_Endpoint_def autoConvert_arc_Endpoint_To_v1alpha1_Endpoint_def
      Convert_v1alpha1_Endpoint_To_arc_Endpoint_def Convert_arc_Endpoint_To_v1alpha1_Endpoint_def
      autoConvert_v1alpha1_EndpointSpec_To_arc_EndpointSpec_def
      autoConvert_arc_EndpointSpec_To_v1alpha1_EndpointSpec_def
      Convert_v1alpha1_EndpointSpec_To_arc_EndpointSpec_def
      Convert_arc_EndpointSpec_To_v1alpha1_EndpointSpec_def
      autoConvert_v1alpha1_EndpointStatus_To_arc_EndpointStatus_def
      autoConvert_arc_EndpointStatus_To_v1alpha1_EndpointStatus_def
      Convert_v1alpha1_EndpointStatus_To_arc_EndpointStatus_def
      Convert_arc_EndpointStatus_To_v1alpha1_EndpointStatus_def

interpretation v_Endpoint: conversion_pair
  Convert_v1alpha1_Endpoint_To_arc_Endpoint
  Convert_arc_Endpoint_To_v1alpha1_Endpoint "\<lambda>x out. x\<lparr>Endpoint_TypeMeta := Endpoint_TypeMeta out\<rparr>"
  by unfold_locales (auto simp: convert_Endpoint_defs inverse_simps)

interpretation a_Endpoint: conversion_pair
  Convert_arc_Endpoint_To_v1alpha1_Endpoint
  Convert_v1alpha1_Endpoint_To_arc_Endpoint "\<lambda>x out. x\<lparr>arc_Endpoint_TypeMeta := arc_Endpoint_TypeMeta out\<rparr>"
  by unfold_locales (auto simp: convert_Endpoint_defs inverse_simps)

lemmas convert_EndpointList_defs =
      autoConvert_v1alpha1_EndpointList_To_arc_EndpointList_def
      autoConvert_arc_EndpointList_To_v1alpha1_EndpointList_def
      Convert_v1alpha1_EndpointList_To_arc_EndpointList_def
      Convert_arc_EndpointList_To_v1alpha1_EndpointList_def

interpretation v_EndpointList: conversion_pair
  Convert_v1alpha1_EndpointList_To_arc_EndpointList
  Convert_arc_EndpointList_To_v1alpha1_EndpointList "\<lambda>x out. x\<lparr>EndpointList_TypeMeta := EndpointList_TypeMeta out\<rparr>"
  by unfold_locales (auto simp: convert_EndpointList_defs inverse_simps)

interpretation a_EndpointList: conversion_pair
  Convert_arc_EndpointList_To_v1alpha1_EndpointList
  Convert_v1alpha1_EndpointList_To_arc_EndpointList "\<lambda>x out. x\<lparr>arc_EndpointList_TypeMeta := arc_EndpointList_TypeMeta out\<rparr>"
  by unfold_locales (auto simp: convert_EndpointList_defs inverse_simps)

lemmas convert_ArtifactTypeRules_defs =
      autoConvert_v1alpha1_ArtifactTypeRules_To_arc_ArtifactTypeRules_def
      autoConvert_arc_ArtifactTypeRules_To_v1alpha1_ArtifactTypeRules_def
      Convert_v1alpha1_ArtifactTypeRules_To_arc_ArtifactTypeRules_def
      Convert_arc_ArtifactTypeRules_To_v1alpha1_ArtifactTypeRules_def

interpretation v_ArtifactTypeRules: conversion_pair
  Convert_v1alpha1_ArtifactTypeRules_To_arc_ArtifactTypeRules
  Convert_arc_ArtifactTypeRules_To_v1alpha1_ArtifactTypeRules "\<lambda>x out. x"
  by unfold_locales (auto simp: convert_ArtifactTypeRules_defs inverse_simps)

interpretation a_ArtifactTypeRules: conversion_pair
  Convert_arc_ArtifactTypeRules_To_v1alpha1_ArtifactTypeRules
  Convert_v1alpha1_ArtifactTypeRules_To_arc_ArtifactTypeRules "\<lambda>x out. x"
  by unfold_locales (auto simp: convert_ArtifactTypeRules_defs inverse_simps)

lemmas convert_ArtifactTypeSpec_defs =
      autoConvert_v1alpha1_ArtifactTypeSpec_To_arc_ArtifactTypeSpec_def
      autoConvert_arc_ArtifactTypeSpec_To_v1alpha1_ArtifactTypeSpec_def
      Convert_v1alpha1_ArtifactTypeSpec_To_arc_ArtifactTypeSpec_def
      Convert_arc_ArtifactTypeSpec_To_v1alpha1_ArtifactTypeSpec_def
      autoConvert_v1alpha1_ArtifactTypeRules_To_arc_ArtifactTypeRules_def
      autoConvert_arc_ArtifactTypeRules_To_v1alpha1_ArtifactTypeRules_def
      Convert_v1alpha1_ArtifactTypeRules_To_arc_ArtifactTypeRules_def
      Convert_arc_ArtifactTypeRules_To_v1alpha1_ArtifactTypeRules_def

interpretation v_ArtifactTypeSpec: conversion_pair
  Convert_v1alpha1_ArtifactTypeSpec_To_arc_ArtifactTypeSpec
  Convert_arc_ArtifactTypeSpec_To_v1alpha1_ArtifactTypeSpec "\<lambda>x out. x"
  by unfold_locales (auto simp: convert_ArtifactTypeSpec_defs inverse_simps)

interpretation a_ArtifactTypeSpec: conversion_pair
  Convert_arc_ArtifactTypeSpec_To_v1alpha1_ArtifactTypeSpec
  Convert_v1alpha1_ArtifactTypeSpec_To_arc_ArtifactTypeSpec "\<lambda>x out. x"
  by unfold_locales (auto simp: convert_ArtifactTypeSpec_defs inverse_simps)

lemmas convert_ArtifactTypeStatus_defs =
      autoConvert_v1alpha1_ArtifactTypeStatus_To_arc_ArtifactTypeStatus_def
      autoConvert_arc_ArtifactTypeStatus_To_v1alpha1_ArtifactTypeStatus_def
      Convert_v1alpha1_ArtifactTypeStatus_To_arc_ArtifactTypeStatus_def
      Convert_arc_ArtifactTypeStatus_To_v1alpha1_ArtifactTypeStatus_def

interpretation v_ArtifactTypeStatus: conversion_pair
  Convert_v1alpha1_ArtifactTypeStatus_To_arc_ArtifactTypeStatus
  Convert_arc_ArtifactTypeStatus_To_v1alpha1_ArtifactTypeStatus "\<lambda>x out. x"
  by unfold_locales (auto simp: convert_ArtifactTypeStatus_defs inverse_simps)

interpretation a_ArtifactTypeStatus: conversion_pair
  Convert_arc_ArtifactTypeStatus_To_v1alpha1_ArtifactTypeStatus
  Convert_v1alpha1_ArtifactTypeStatus_To_arc_ArtifactTypeStatus "\<lambda>x out. x"
  by unfold_locales (auto simp: convert_ArtifactTypeStatus_defs inverse_simps)

lemmas convert_ArtifactType_defs =
      autoConvert_v1alpha1_ArtifactType_To_arc_ArtifactType_def
      autoConvert_arc_ArtifactType_To_v1alpha1_ArtifactType_def
      Convert_v1alpha1_ArtifactType_To_arc_ArtifactType_def
      Convert_arc_ArtifactType_To_v1alpha1_ArtifactType_def
      autoConvert_v1alpha1_ArtifactTypeSpec_To_arc_ArtifactTypeSpec_def
      autoConvert_arc_ArtifactTypeSpec_To_v1alpha1_ArtifactTypeSpec_def
      Convert_v1alpha1_ArtifactTypeSpec_To_arc_ArtifactTypeSpec_def
      Convert_arc_ArtifactTypeSpec_To_v1alpha1_ArtifactTypeSpec_def
      autoConvert_v1alpha1_ArtifactTypeRules_To_arc_ArtifactTypeRules_def
      autoConvert_arc_ArtifactTypeRules_To_v1alpha1_ArtifactTypeRules_def
      Convert_v1alpha1_ArtifactTypeRules_To_arc_ArtifactTypeRules_def
      Convert_arc_ArtifactTypeRules_To_v1alpha1_ArtifactTypeRules_def
      autoConvert_v1alpha1_ArtifactTypeStatus_To_arc_ArtifactTypeStatus_def
      autoConvert_arc_ArtifactTypeStatus_To_v1alpha1_ArtifactTypeStatus_def
      Convert_v1alpha1_ArtifactTypeStatus_To_arc_ArtifactTypeStatus_def
      Convert_arc_ArtifactTypeStatus_To_v1alpha1_ArtifactTypeStatus_def

interpretation v_ArtifactType: conversion_pair
  Convert_v1alpha1_ArtifactType_To_arc_ArtifactType
  Convert_arc_ArtifactType_To_v1alpha1_ArtifactType "\<lambda>x out. x\<lparr>AT_TypeMeta := AT_TypeMeta out\<rparr>"
  by unfold_locales (auto simp: convert_ArtifactType_defs inverse_simps)

interpretation a_ArtifactType: conversion_pair
  Convert_arc_ArtifactType_To_v1alpha1_ArtifactType
  Convert_v1alpha1_ArtifactType_To_arc_ArtifactType "\<lambda>x out. x\<lparr>arc_AT_TypeMeta := arc_AT_TypeMeta out\<rparr>"
  by unfold_locales (auto simp: convert_ArtifactType_defs inverse_simps)

lemmas convert_ArtifactTypeList_defs =
      autoConvert_v1alpha1_ArtifactTypeList_To_arc_ArtifactTypeList_def
      autoConvert_arc_ArtifactTypeList_To_v1alpha1_ArtifactTypeList_def
      Convert_v1alpha1_ArtifactTypeList_To_arc_ArtifactTypeList_def
      Convert_arc_ArtifactTypeList_To_v1alpha1_ArtifactTypeList_def

interpretation v_ArtifactTypeList: conversion_pair
  Convert_v1alpha1_ArtifactTypeList_To_arc_ArtifactTypeList
  Convert_arc_ArtifactTypeList_To_v1alpha1_ArtifactTypeList "\<lambda>x out. x\<lparr>ATList_TypeMeta := ATList_TypeMeta out\<rparr>"
  by unfold_locales (auto simp: convert_ArtifactTypeList_defs inverse_simps)

interpretation a_ArtifactTypeList: conversion_pair
  Convert_arc_ArtifactTypeList_To_v1alpha1_ArtifactTypeList
  Convert_v1alpha1_ArtifactTypeList_To_arc_ArtifactTypeList "\<lambda>x out. x\<lparr>arc_ATList_TypeMeta := arc_ATList_TypeMeta out\<rparr>"
  by unfold_locales (auto simp: convert_ArtifactTypeList_defs inverse_simps)

subsection \<open>Properties\<close>

text \<open>
  C23: converting an object of any of the four kinds to the internal type and back never fails and
  gives the object again, but for \<open>TypeMeta\<close>, which the conversions leave to their caller; and
  likewise in the other direction. So storing an object in one version and serving it in another
  loses nothing.
\<close>

theorem conversion_round_trip:
  "(\<exists>y. Convert_v1alpha1_Order_To_arc_Order order ao = Inr y \<and>
     Convert_arc_Order_To_v1alpha1_Order y o1 = Inr (order\<lparr>Order_TypeMeta := Order_TypeMeta o1\<rparr>)) \<and>
   (\<exists>y. Convert_v1alpha1_ArtifactWorkflow_To_arc_ArtifactWorkflow aw aaw = Inr y \<and>
     Convert_arc_ArtifactWorkflow_To_v1alpha1_ArtifactWorkflow y aw1 = Inr (aw\<lparr>AW_TypeMeta := AW_TypeMeta aw1\<rparr>)) \<and>
   (\<exists>y. Convert_v1alpha1_Endpoint_To_arc_Endpoint ep aep = Inr y \<and>
     Convert_arc_Endpoint_To_v1alpha1_Endpoint y ep1 = Inr (ep\<lparr>Endpoint_TypeMeta := Endpoint_TypeMeta ep1\<rparr>)) \<and>
   (\<exists>y. Convert_v1alpha1_ArtifactType_To_arc_ArtifactType at aat = Inr y \<and>
     Convert_arc_ArtifactType_To_v1alpha1_ArtifactType y at1 = Inr (at\<lparr>AT_TypeMeta := AT_TypeMeta at1\<rparr>)) \<and>
   (\<exists>y. Convert_arc_Order_To_v1alpha1_Order ao o1 = Inr y \<and>
     Convert_v1alpha1_Order_To_arc_Order y ao1 = Inr (ao\<lparr>arc_Order_TypeMeta := arc_Order_TypeMeta ao1\<rparr>)) \<and>
   (\<exists>y. Convert_arc_ArtifactWorkflow_To_v1alpha1_ArtifactWorkflow aaw aw1 = Inr y \<and>
     Convert_v1alpha1_ArtifactWorkflow_To_arc_ArtifactWorkflow y aaw1 = Inr (aaw\<lparr>arc_AW_TypeMeta := arc_AW_TypeMeta aaw1\<rparr>)) \<and>
   (\<exists>y. Convert_arc_Endpoint_To_v1alpha1_Endpoint aep ep1 = Inr y \<and>
     Convert_v1alpha1_Endpoint_To_arc_Endpoint y aep1 = Inr (aep\<lparr>arc_Endpoint_TypeMeta := arc_Endpoint_TypeMeta aep1\<rparr>)) \<and>
   (\<exists>y. Convert_arc_ArtifactType_To_v1alpha1_ArtifactType aat at1 = Inr y \<and>
     Convert_v1alpha1_ArtifactType_To_arc_ArtifactType y aat1 = Inr (aat\<lparr>arc_AT_TypeMeta := arc_AT_TypeMeta aat1\<rparr>))"
  by (intro conjI v_Order.round_trip v_ArtifactWorkflow.round_trip v_Endpoint.round_trip v_ArtifactType.round_trip
      a_Order.round_trip a_ArtifactWorkflow.round_trip a_Endpoint.round_trip a_ArtifactType.round_trip)

lemma OrderList_items:
  "\<exists>y. Convert_v1alpha1_OrderList_To_arc_OrderList l al = Inr y \<and>
     map arc_Order_TypeMeta (arc_OrderList_Items y) = map Order_TypeMeta (OrderList_Items l) \<and>
     Convert_arc_OrderList_To_v1alpha1_OrderList y l1 = Inr (l\<lparr>OrderList_TypeMeta := OrderList_TypeMeta l1\<rparr>)"
  using v_OrderList.round_trip [of l al l1] by (auto simp: convert_OrderList_defs to_arc_Order_def comp_def)

lemma ArtifactWorkflowList_items:
  "\<exists>y. Convert_v1alpha1_ArtifactWorkflowList_To_arc_ArtifactWorkflowList k ak = Inr y \<and>
     map arc_AW_TypeMeta (arc_AWList_Items y) = map AW_TypeMeta (AWList_Items k) \<and>
     Convert_arc_ArtifactWorkflowList_To_v1alpha1_ArtifactWorkflowList y k1 = Inr (k\<lparr>AWList_TypeMeta := AWList_TypeMeta k1\<rparr>)"
  using v_ArtifactWorkflowList.round_trip [of k ak k1] by (auto simp: convert_ArtifactWorkflowList_defs to_arc_ArtifactWorkflow_def comp_def)

lemma EndpointList_items:
  "\<exists>y. Convert_v1alpha1_EndpointList_To_arc_EndpointList m am = Inr y \<and>
     map arc_Endpoint_TypeMeta (arc_EndpointList_Items y) = map Endpoint_TypeMeta (EndpointList_Items m) \<and>
     Convert_arc_EndpointList_To_v1alpha1_EndpointList y m1 = Inr (m\<lparr>EndpointList_TypeMeta := EndpointList_TypeMeta m1\<rparr>)"
  using v_EndpointList.round_trip [of m am m1] by (auto simp: convert_EndpointList_defs to_arc_Endpoint_def comp_def)

lemma ArtifactTypeList_items:
  "\<exists>y. Convert_v1alpha1_ArtifactTypeList_To_arc_ArtifactTypeList n an = Inr y \<and>
     map arc_AT_TypeMeta (arc_ATList_Items y) = map AT_TypeMeta (ATList_Items n) \<and>
     Convert_arc_ArtifactTypeList_To_v1alpha1_ArtifactTypeList y n1 = Inr (n\<lparr>ATList_TypeMeta := ATList_TypeMeta n1\<rparr>)"
  using v_ArtifactTypeList.round_trip [of n an n1] by (auto simp: convert_ArtifactTypeList_defs to_arc_ArtifactType_def comp_def)

text \<open>
  C24: the items of a list are reinterpreted as they are: for all four kinds, converting a list to the internal
  version keeps the \<open>TypeMeta\<close> of every item (which converting the item by itself does not), and converting it back
  gives the list with the same items in the same order, but for the \<open>TypeMeta\<close> of the list itself.
\<close>

theorem list_conversion_exact:
  "(\<exists>y. Convert_v1alpha1_OrderList_To_arc_OrderList l al = Inr y \<and>
     map arc_Order_TypeMeta (arc_OrderList_Items y) = map Order_TypeMeta (OrderList_Items l) \<and>
     Convert_arc_OrderList_To_v1alpha1_OrderList y l1 = Inr (l\<lparr>OrderList_TypeMeta := OrderList_TypeMeta l1\<rparr>)) \<and>
   (\<exists>y. Convert_v1alpha1_ArtifactWorkflowList_To_arc_ArtifactWorkflowList k ak = Inr y \<and>
     map arc_AW_TypeMeta (arc_AWList_Items y) = map AW_TypeMeta (AWList_Items k) \<and>
     Convert_arc_ArtifactWorkflowList_To_v1alpha1_ArtifactWorkflowList y k1 = Inr (k\<lparr>AWList_TypeMeta := AWList_TypeMeta k1\<rparr>)) \<and>
   (\<exists>y. Convert_v1alpha1_EndpointList_To_arc_EndpointList m am = Inr y \<and>
     map arc_Endpoint_TypeMeta (arc_EndpointList_Items y) = map Endpoint_TypeMeta (EndpointList_Items m) \<and>
     Convert_arc_EndpointList_To_v1alpha1_EndpointList y m1 = Inr (m\<lparr>EndpointList_TypeMeta := EndpointList_TypeMeta m1\<rparr>)) \<and>
   (\<exists>y. Convert_v1alpha1_ArtifactTypeList_To_arc_ArtifactTypeList n an = Inr y \<and>
     map arc_AT_TypeMeta (arc_ATList_Items y) = map AT_TypeMeta (ATList_Items n) \<and>
     Convert_arc_ArtifactTypeList_To_v1alpha1_ArtifactTypeList y n1 = Inr (n\<lparr>ATList_TypeMeta := ATList_TypeMeta n1\<rparr>))"
  by (intro conjI OrderList_items ArtifactWorkflowList_items EndpointList_items ArtifactTypeList_items)

end
