(* ===== verification/Registry.thy ===== *)
theory Registry
  imports Arc_Types Errors
begin

section \<open>Registry and storage (\<^verbatim>\<open>pkg/registry\<close>, \<^verbatim>\<open>pkg/apiserver/apiserver.go\<close>)\<close>

text \<open>
  How the API server treats the four kinds: their strategies (what is prepared, validated and
  allowed on create and update), the stores built from them and the map from resource names to
  stores that the server installs. The generic store, its options and the generic server belong to
  the Kubernetes libraries; what the code asks of them is a parameter.
\<close>

subsection \<open>Objects and strategies\<close>

text \<open>\<open>runtime.Object\<close>, as far as the registry tells objects apart.\<close>

datatype Object =
    ObjOrder arc_Order
  | ObjOrderList arc_OrderList
  | ObjArtifactWorkflow arc_ArtifactWorkflow
  | ObjArtifactWorkflowList arc_ArtifactWorkflowList
  | ObjEndpoint arc_Endpoint
  | ObjEndpointList arc_EndpointList
  | ObjArtifactType arc_ArtifactType
  | ObjArtifactTypeList arc_ArtifactTypeList
  | ObjOther string

text \<open>
  A strategy is an interface value: \<open>Strategy_Type\<close> is its dynamic type, which tells two strategies
  apart that behave alike, and the rest are its methods.
\<close>

record Strategy =
  Strategy_Type :: string
  NamespaceScoped :: bool
  PrepareForCreate :: "Object \<Rightarrow> Object res"
  PrepareForUpdate :: "Object \<Rightarrow> Object \<Rightarrow> Object res"
  Validate :: "Object \<Rightarrow> string list"
  WarningsOnCreate :: "Object \<Rightarrow> string list"
  AllowCreateOnUpdate :: bool
  AllowUnconditionalUpdate :: bool
  Canonicalize :: "Object \<Rightarrow> Object"
  ValidateUpdate :: "Object \<Rightarrow> Object \<Rightarrow> string list"
  WarningsOnUpdate :: "Object \<Rightarrow> Object \<Rightarrow> string list"

type_synonym ResetFields = "(string \<times> string list) list"

definition type_assertion :: failure where
  "type_assertion = Panic ''interface conversion''"

definition orderStrategy :: Strategy where
  "orderStrategy =
     \<lparr>Strategy_Type = ''order.orderStrategy'',
      NamespaceScoped = True,
      PrepareForCreate = (\<lambda>obj. Inr obj), PrepareForUpdate = (\<lambda>obj old. Inr obj),
      Validate = (\<lambda>obj. []), WarningsOnCreate = (\<lambda>obj. []),
      AllowCreateOnUpdate = False, AllowUnconditionalUpdate = False,
      Canonicalize = (\<lambda>obj. obj), ValidateUpdate = (\<lambda>obj old. []), WarningsOnUpdate = (\<lambda>obj old. [])\<rparr>"

definition fragmentStrategy :: Strategy where
  "fragmentStrategy =
     \<lparr>Strategy_Type = ''fragment.fragmentStrategy'',
      NamespaceScoped = True,
      PrepareForCreate = (\<lambda>obj. Inr obj), PrepareForUpdate = (\<lambda>obj old. Inr obj),
      Validate = (\<lambda>obj. []), WarningsOnCreate = (\<lambda>obj. []),
      AllowCreateOnUpdate = False, AllowUnconditionalUpdate = False,
      Canonicalize = (\<lambda>obj. obj), ValidateUpdate = (\<lambda>obj old. []), WarningsOnUpdate = (\<lambda>obj old. [])\<rparr>"

definition endpointStrategy :: Strategy where
  "endpointStrategy =
     \<lparr>Strategy_Type = ''endpoint.endpointStrategy'',
      NamespaceScoped = True,
      PrepareForCreate = (\<lambda>obj. Inr obj), PrepareForUpdate = (\<lambda>obj old. Inr obj),
      Validate = (\<lambda>obj. []), WarningsOnCreate = (\<lambda>obj. []),
      AllowCreateOnUpdate = False, AllowUnconditionalUpdate = False,
      Canonicalize = (\<lambda>obj. obj), ValidateUpdate = (\<lambda>obj old. []), WarningsOnUpdate = (\<lambda>obj old. [])\<rparr>"

definition artifactTypeDefinitionStrategy :: Strategy where
  "artifactTypeDefinitionStrategy =
     \<lparr>Strategy_Type = ''artifacttypedefinition.artifactTypeDefinitionStrategy'',
      NamespaceScoped = False,
      PrepareForCreate = (\<lambda>obj. Inr obj), PrepareForUpdate = (\<lambda>obj old. Inr obj),
      Validate = (\<lambda>obj. []), WarningsOnCreate = (\<lambda>obj. []),
      AllowCreateOnUpdate = False, AllowUnconditionalUpdate = False,
      Canonicalize = (\<lambda>obj. obj), ValidateUpdate = (\<lambda>obj old. []), WarningsOnUpdate = (\<lambda>obj old. [])\<rparr>"

text \<open>
  The status strategies embed the main ones and replace \<open>PrepareForUpdate\<close>: the new object gets the
  old one's spec. A type assertion that fails panics.
\<close>

definition orderStatus_PrepareForUpdate :: "Object \<Rightarrow> Object \<Rightarrow> Object res" where
  "orderStatus_PrepareForUpdate obj old =
     (case obj of
        ObjOrder newOrder \<Rightarrow>
          (case old of
             ObjOrder oldOrder \<Rightarrow> Inr (ObjOrder (newOrder\<lparr>arc_Order_Spec := arc_Order_Spec oldOrder\<rparr>))
           | _ \<Rightarrow> Inl type_assertion)
      | _ \<Rightarrow> Inl type_assertion)"

definition orderStatusStrategy :: Strategy where
  "orderStatusStrategy =
     orderStrategy\<lparr>Strategy_Type := ''order.orderStatusStrategy'',
                   PrepareForUpdate := orderStatus_PrepareForUpdate,
                   ValidateUpdate := \<lambda>obj old. [], WarningsOnUpdate := \<lambda>obj old. []\<rparr>"

definition orderStatus_GetResetFields :: ResetFields where
  "orderStatus_GetResetFields = [(''arc.bwi.de/v1alpha1'', [''spec''])]"

definition fragmentStatus_PrepareForUpdate :: "Object \<Rightarrow> Object \<Rightarrow> Object res" where
  "fragmentStatus_PrepareForUpdate obj old =
     (case obj of
        ObjArtifactWorkflow newAW \<Rightarrow>
          (case old of
             ObjArtifactWorkflow oldAW \<Rightarrow> Inr (ObjArtifactWorkflow (newAW\<lparr>arc_AW_Spec := arc_AW_Spec oldAW\<rparr>))
           | _ \<Rightarrow> Inl type_assertion)
      | _ \<Rightarrow> Inl type_assertion)"

definition fragmentStatusStrategy :: Strategy where
  "fragmentStatusStrategy =
     fragmentStrategy\<lparr>Strategy_Type := ''fragment.fragmentStatusStrategy'',
                      PrepareForUpdate := fragmentStatus_PrepareForUpdate,
                      ValidateUpdate := \<lambda>obj old. [], WarningsOnUpdate := \<lambda>obj old. []\<rparr>"

definition fragmentStatus_GetResetFields :: ResetFields where
  "fragmentStatus_GetResetFields = [(''arc.bwi.de/v1alpha1'', [''spec''])]"

subsection \<open>Attributes and predicates\<close>

text \<open>
  The selectable fields are those the library derives from the metadata; \<open>metaFields\<close> is
  \<open>generic.ObjectMetaFieldsSet\<close>.
\<close>

type_synonym field_set = "(string, string) fmap"
type_synonym attributes = "string gomap \<times> field_set"
type_synonym meta_fields = "ObjectMeta \<Rightarrow> bool \<Rightarrow> field_set"

definition order_SelectableFields :: "meta_fields \<Rightarrow> arc_Order \<Rightarrow> field_set" where
  "order_SelectableFields metaFields obj = metaFields (arc_Order_ObjectMeta obj) True"

definition order_GetAttrs :: "meta_fields \<Rightarrow> Object \<Rightarrow> go_error + attributes" where
  "order_GetAttrs metaFields obj =
     (case obj of
        ObjOrder order \<Rightarrow> Inr (Meta_Labels (arc_Order_ObjectMeta order), order_SelectableFields metaFields order)
      | _ \<Rightarrow> Inl (LibError ''given object is not an Order''))"

definition fragment_SelectableFields :: "meta_fields \<Rightarrow> arc_ArtifactWorkflow \<Rightarrow> field_set" where
  "fragment_SelectableFields metaFields obj = metaFields (arc_AW_ObjectMeta obj) True"

definition fragment_GetAttrs :: "meta_fields \<Rightarrow> Object \<Rightarrow> go_error + attributes" where
  "fragment_GetAttrs metaFields obj =
     (case obj of
        ObjArtifactWorkflow aw \<Rightarrow> Inr (Meta_Labels (arc_AW_ObjectMeta aw), fragment_SelectableFields metaFields aw)
      | _ \<Rightarrow> Inl (LibError ''given object is not an ArtifactWorkflow''))"

definition endpoint_SelectableFields :: "meta_fields \<Rightarrow> arc_Endpoint \<Rightarrow> field_set" where
  "endpoint_SelectableFields metaFields obj = metaFields (arc_Endpoint_ObjectMeta obj) True"

definition endpoint_GetAttrs :: "meta_fields \<Rightarrow> Object \<Rightarrow> go_error + attributes" where
  "endpoint_GetAttrs metaFields obj =
     (case obj of
        ObjEndpoint ep \<Rightarrow> Inr (Meta_Labels (arc_Endpoint_ObjectMeta ep), endpoint_SelectableFields metaFields ep)
      | _ \<Rightarrow> Inl (LibError ''given object is not an Endpoint''))"

definition artifacttype_SelectableFields :: "meta_fields \<Rightarrow> arc_ArtifactType \<Rightarrow> field_set" where
  "artifacttype_SelectableFields metaFields obj = metaFields (arc_AT_ObjectMeta obj) True"

definition artifacttype_GetAttrs :: "meta_fields \<Rightarrow> Object \<Rightarrow> go_error + attributes" where
  "artifacttype_GetAttrs metaFields obj =
     (case obj of
        ObjArtifactType at \<Rightarrow> Inr (Meta_Labels (arc_AT_ObjectMeta at), artifacttype_SelectableFields metaFields at)
      | _ \<Rightarrow> Inl (LibError ''given object is not an ArtifactType''))"

text \<open>\<open>storage.SelectionPredicate\<close>, with selectors as predicates on labels and on fields.\<close>

record SelectionPredicate =
  Pred_Label :: "string gomap \<Rightarrow> bool"
  Pred_Field :: "field_set \<Rightarrow> bool"
  Pred_GetAttrs :: "Object \<Rightarrow> go_error + attributes"

definition MatchOrder :: "meta_fields \<Rightarrow> (string gomap \<Rightarrow> bool) \<Rightarrow> (field_set \<Rightarrow> bool) \<Rightarrow> SelectionPredicate" where
  "MatchOrder metaFields label field =
     \<lparr>Pred_Label = label, Pred_Field = field, Pred_GetAttrs = order_GetAttrs metaFields\<rparr>"

definition MatchArtifactWorkflow :: "meta_fields \<Rightarrow> (string gomap \<Rightarrow> bool) \<Rightarrow> (field_set \<Rightarrow> bool) \<Rightarrow> SelectionPredicate" where
  "MatchArtifactWorkflow metaFields label field =
     \<lparr>Pred_Label = label, Pred_Field = field, Pred_GetAttrs = fragment_GetAttrs metaFields\<rparr>"

definition MatchEndpoint :: "meta_fields \<Rightarrow> (string gomap \<Rightarrow> bool) \<Rightarrow> (field_set \<Rightarrow> bool) \<Rightarrow> SelectionPredicate" where
  "MatchEndpoint metaFields label field =
     \<lparr>Pred_Label = label, Pred_Field = field, Pred_GetAttrs = endpoint_GetAttrs metaFields\<rparr>"

definition MatchArtifactType :: "meta_fields \<Rightarrow> (string gomap \<Rightarrow> bool) \<Rightarrow> (field_set \<Rightarrow> bool) \<Rightarrow> SelectionPredicate" where
  "MatchArtifactType metaFields label field =
     \<lparr>Pred_Label = label, Pred_Field = field, Pred_GetAttrs = artifacttype_GetAttrs metaFields\<rparr>"


subsection \<open>Stores\<close>

text \<open>
  A \<open>genericregistry.Store\<close> with the fields the code sets. \<open>complete\<close> is \<open>CompleteWithOptions\<close> for the
  server's options getter; it may fail and it fills in what the code leaves open. \<open>ResetFieldsStrategy\<close>
  is set for status stores only.
\<close>

type_synonym GroupResource = "string \<times> string"

definition GroupName :: string where
  "GroupName = ''arc.bwi.de''"

definition arc_Resource :: "string \<Rightarrow> GroupResource" where
  "arc_Resource resource = (GroupName, resource)"

record Store =
  Store_NewFunc :: Object
  Store_NewListFunc :: Object
  Store_PredicateFunc :: "(string gomap \<Rightarrow> bool) \<Rightarrow> (field_set \<Rightarrow> bool) \<Rightarrow> SelectionPredicate"
  Store_DefaultQualifiedResource :: GroupResource
  Store_SingularQualifiedResource :: GroupResource
  Store_CreateStrategy :: Strategy
  Store_UpdateStrategy :: Strategy
  Store_DeleteStrategy :: Strategy
  Store_ResetFields :: "ResetFields option"
  Store_TableConvertor :: GroupResource

type_synonym complete = "Store \<Rightarrow> (Object \<Rightarrow> go_error + attributes) \<Rightarrow> go_error + Store"

text \<open>Go's zero values \<open>&arc.Order{}\<close> and so on; the code only hands them to the store.\<close>

definition zero_LocalObjectReference :: LocalObjectReference where
  "zero_LocalObjectReference = \<lparr>Ref_Name = []\<rparr>"

definition zero_ListMeta :: ListMeta where
  "zero_ListMeta = \<lparr>ListMeta_ResourceVersion = [], ListMeta_Continue = []\<rparr>"

definition zero_arc_Order :: arc_Order where
  "zero_arc_Order =
     \<lparr>arc_Order_TypeMeta = zero_TypeMeta, arc_Order_ObjectMeta = zero_ObjectMeta,
      arc_Order_Spec =
        \<lparr>arc_OrderSpec_Defaults =
           \<lparr>arc_OrderDefaults_SrcRef = zero_LocalObjectReference,
            arc_OrderDefaults_DstRef = zero_LocalObjectReference\<rparr>,
         arc_OrderSpec_Artifacts = []\<rparr>,
      arc_Order_Status = \<lparr>arc_OrderStatus_ArtifactWorkflows = None\<rparr>\<rparr>"

definition zero_arc_OrderList :: arc_OrderList where
  "zero_arc_OrderList =
     \<lparr>arc_OrderList_TypeMeta = zero_TypeMeta, arc_OrderList_ListMeta = zero_ListMeta, arc_OrderList_Items = []\<rparr>"

definition zero_arc_ArtifactWorkflow :: arc_ArtifactWorkflow where
  "zero_arc_ArtifactWorkflow =
     \<lparr>arc_AW_TypeMeta = zero_TypeMeta, arc_AW_ObjectMeta = zero_ObjectMeta,
      arc_AW_Spec =
        \<lparr>arc_AWSpec_Type = [], arc_AWSpec_Parameters = [],
         arc_AWSpec_SrcSecretRef = zero_LocalObjectReference, arc_AWSpec_DstSecretRef = zero_LocalObjectReference\<rparr>,
      arc_AW_Status = \<lparr>arc_AWStatus_Phase = [], arc_AWStatus_Message = []\<rparr>\<rparr>"

definition zero_arc_ArtifactWorkflowList :: arc_ArtifactWorkflowList where
  "zero_arc_ArtifactWorkflowList =
     \<lparr>arc_AWList_TypeMeta = zero_TypeMeta, arc_AWList_ListMeta = zero_ListMeta, arc_AWList_Items = []\<rparr>"

definition zero_arc_Endpoint :: arc_Endpoint where
  "zero_arc_Endpoint =
     \<lparr>arc_Endpoint_TypeMeta = zero_TypeMeta, arc_Endpoint_ObjectMeta = zero_ObjectMeta,
      arc_Endpoint_Spec =
        \<lparr>arc_EndpointSpec_Type = [], arc_EndpointSpec_RemoteURL = [],
         arc_EndpointSpec_SecretRef = zero_LocalObjectReference, arc_EndpointSpec_Usage = []\<rparr>,
      arc_Endpoint_Status = ()\<rparr>"

definition zero_arc_EndpointList :: arc_EndpointList where
  "zero_arc_EndpointList =
     \<lparr>arc_EndpointList_TypeMeta = zero_TypeMeta, arc_EndpointList_ListMeta = zero_ListMeta,
      arc_EndpointList_Items = []\<rparr>"

definition zero_arc_ArtifactType :: arc_ArtifactType where
  "zero_arc_ArtifactType =
     \<lparr>arc_AT_TypeMeta = zero_TypeMeta, arc_AT_ObjectMeta = zero_ObjectMeta,
      arc_AT_Spec =
        \<lparr>arc_ATSpec_Rules = \<lparr>arc_Rules_SrcTypes = [], arc_Rules_DstTypes = []\<rparr>,
         arc_ATSpec_Parameters = [], arc_ATSpec_WorkflowTemplateRef = zero_LocalObjectReference\<rparr>,
      arc_AT_Status = ()\<rparr>"

definition zero_arc_ArtifactTypeList :: arc_ArtifactTypeList where
  "zero_arc_ArtifactTypeList =
     \<lparr>arc_ATList_TypeMeta = zero_TypeMeta, arc_ATList_ListMeta = zero_ListMeta, arc_ATList_Items = []\<rparr>"

definition order_NewREST :: "complete \<Rightarrow> meta_fields \<Rightarrow> go_error + Store" where
  "order_NewREST complete metaFields =
     complete
       \<lparr>Store_NewFunc = ObjOrder zero_arc_Order, Store_NewListFunc = ObjOrderList zero_arc_OrderList,
        Store_PredicateFunc = MatchOrder metaFields,
        Store_DefaultQualifiedResource = arc_Resource ''orders'',
        Store_SingularQualifiedResource = arc_Resource ''order'',
        Store_CreateStrategy = orderStrategy, Store_UpdateStrategy = orderStrategy,
        Store_DeleteStrategy = orderStrategy, Store_ResetFields = None,
        Store_TableConvertor = arc_Resource ''orders''\<rparr>
       (order_GetAttrs metaFields)"

definition order_NewStatusREST :: "complete \<Rightarrow> meta_fields \<Rightarrow> go_error + Store" where
  "order_NewStatusREST complete metaFields =
     (case order_NewREST complete metaFields of
        Inl err \<Rightarrow> Inl err
      | Inr rest \<Rightarrow>
          Inr (rest\<lparr>Store_UpdateStrategy := orderStatusStrategy,
                    Store_ResetFields := Some orderStatus_GetResetFields\<rparr>))"

definition fragment_NewREST :: "complete \<Rightarrow> meta_fields \<Rightarrow> go_error + Store" where
  "fragment_NewREST complete metaFields =
     complete
       \<lparr>Store_NewFunc = ObjArtifactWorkflow zero_arc_ArtifactWorkflow,
        Store_NewListFunc = ObjArtifactWorkflowList zero_arc_ArtifactWorkflowList,
        Store_PredicateFunc = MatchArtifactWorkflow metaFields,
        Store_DefaultQualifiedResource = arc_Resource ''fragments'',
        Store_SingularQualifiedResource = arc_Resource ''fragment'',
        Store_CreateStrategy = fragmentStrategy, Store_UpdateStrategy = fragmentStrategy,
        Store_DeleteStrategy = fragmentStrategy, Store_ResetFields = None,
        Store_TableConvertor = arc_Resource ''fragments''\<rparr>
       (fragment_GetAttrs metaFields)"

definition fragment_NewStatusREST :: "complete \<Rightarrow> meta_fields \<Rightarrow> go_error + Store" where
  "fragment_NewStatusREST complete metaFields =
     (case fragment_NewREST complete metaFields of
        Inl err \<Rightarrow> Inl err
      | Inr rest \<Rightarrow>
          Inr (rest\<lparr>Store_UpdateStrategy := fragmentStatusStrategy,
                    Store_ResetFields := Some fragmentStatus_GetResetFields\<rparr>))"

definition endpoint_NewREST :: "complete \<Rightarrow> meta_fields \<Rightarrow> go_error + Store" where
  "endpoint_NewREST complete metaFields =
     complete
       \<lparr>Store_NewFunc = ObjEndpoint zero_arc_Endpoint, Store_NewListFunc = ObjEndpointList zero_arc_EndpointList,
        Store_PredicateFunc = MatchEndpoint metaFields,
        Store_DefaultQualifiedResource = arc_Resource ''endpoints'',
        Store_SingularQualifiedResource = arc_Resource ''endpoint'',
        Store_CreateStrategy = endpointStrategy, Store_UpdateStrategy = endpointStrategy,
        Store_DeleteStrategy = endpointStrategy, Store_ResetFields = None,
        Store_TableConvertor = arc_Resource ''endpoints''\<rparr>
       (endpoint_GetAttrs metaFields)"

definition artifacttype_NewREST :: "complete \<Rightarrow> meta_fields \<Rightarrow> go_error + Store" where
  "artifacttype_NewREST complete metaFields =
     complete
       \<lparr>Store_NewFunc = ObjArtifactType zero_arc_ArtifactType,
        Store_NewListFunc = ObjArtifactTypeList zero_arc_ArtifactTypeList,
        Store_PredicateFunc = MatchArtifactType metaFields,
        Store_DefaultQualifiedResource = arc_Resource ''artifacttypedefinitions'',
        Store_SingularQualifiedResource = arc_Resource ''artifacttypedefinition'',
        Store_CreateStrategy = artifactTypeDefinitionStrategy, Store_UpdateStrategy = artifactTypeDefinitionStrategy,
        Store_DeleteStrategy = artifactTypeDefinitionStrategy, Store_ResetFields = None,
        Store_TableConvertor = arc_Resource ''artifacttypedefinitions''\<rparr>
       (artifacttype_GetAttrs metaFields)"

subsection \<open>The server's storage map\<close>

text \<open>\<open>RESTInPeace\<close> turns the error of a store that could not be built into a panic.\<close>

definition RESTInPeace :: "go_error + Store \<Rightarrow> Store res" where
  "RESTInPeace r =
     (case r of
        Inl err \<Rightarrow>
          Inl (Panic (''unable to create REST storage for a resource due to '' @ error_text err @ '', will die''))
      | Inr storage \<Rightarrow> Inr storage)"

fun build_storage :: "(string \<times> (go_error + Store)) list \<Rightarrow> (string, Store) fmap \<Rightarrow> (string, Store) fmap res" where
  "build_storage [] m = Inr m"
| "build_storage ((name, r) # rs) m = bind_res (RESTInPeace r) (\<lambda>s. build_storage rs (fmupd name s m))"

definition v1alpha1storage :: "complete \<Rightarrow> meta_fields \<Rightarrow> (string, Store) fmap res" where
  "v1alpha1storage complete metaFields =
     build_storage
       [(''orders'', order_NewREST complete metaFields),
        (''orders/status'', order_NewStatusREST complete metaFields),
        (''artifactworkflows'', fragment_NewREST complete metaFields),
        (''artifactworkflows/status'', fragment_NewStatusREST complete metaFields),
        (''endpoints'', endpoint_NewREST complete metaFields),
        (''artifacttypes'', artifacttype_NewREST complete metaFields)] fmempty"

text \<open>
  \<open>completedConfig.New\<close>: \<open>newServer\<close> is \<open>GenericConfig.New\<close>, \<open>install\<close> is \<open>InstallAPIGroup\<close> with the group
  and the storage of each version.
\<close>

type_synonym api_group = "string \<times> (string, (string, Store) fmap) fmap"

definition ARCServer_New ::
  "(string \<Rightarrow> go_error + 's) \<Rightarrow> ('s \<Rightarrow> api_group \<Rightarrow> go_error + 's) \<Rightarrow> complete \<Rightarrow> meta_fields \<Rightarrow> 's res" where
  "ARCServer_New newServer install complete metaFields =
     (case newServer ''arc-apiserver'' of
        Inl err \<Rightarrow> Inl (Err err)
      | Inr server \<Rightarrow>
          bind_res (v1alpha1storage complete metaFields) (\<lambda>storage.
            case install server (GroupName, fmupd ''v1alpha1'' storage fmempty) of
              Inl err \<Rightarrow> Inl (Err err)
            | Inr server1 \<Rightarrow> Inr server1))"


subsection \<open>The contract of a status strategy\<close>

text \<open>
  What the status subresource relies on: preparing an update takes the spec from the stored object
  and everything else from the new one. The consequences for one update and for any number of them
  are proved once.
\<close>

fun run_updates :: "(Object \<Rightarrow> Object \<Rightarrow> Object res) \<Rightarrow> Object list \<Rightarrow> Object \<Rightarrow> Object res" where
  "run_updates prepare [] old = Inr old"
| "run_updates prepare (obj # objs) old = bind_res (prepare obj old) (run_updates prepare objs)"

locale status_strategy =
  fixes prepare :: "Object \<Rightarrow> Object \<Rightarrow> Object res" and wrap :: "'o \<Rightarrow> Object"
    and spec :: "'o \<Rightarrow> 's" and set_spec :: "'s \<Rightarrow> 'o \<Rightarrow> 'o"
  assumes prepare_wrap: "prepare (wrap new) (wrap old) = Inr (wrap (set_spec (spec old) new))"
    and prepare_other: "prepare obj stored = Inr r \<Longrightarrow> obj \<in> range wrap \<and> stored \<in> range wrap"
    and spec_set [simp]: "spec (set_spec s x) = s"
    and set_spec_same [simp]: "set_spec (spec x) x = x"
    and set_spec_set [simp]: "set_spec s (set_spec t x) = set_spec s x"
begin

lemma update_nothing: "prepare (wrap x) (wrap x) = Inr (wrap x)"
  by (simp add: prepare_wrap)

lemma prepare_twice: "bind_res (prepare (wrap new) (wrap old)) (\<lambda>r. prepare r (wrap old)) = prepare (wrap new) (wrap old)"
  by (simp add: prepare_wrap)

lemma updates_keep_spec:
  "run_updates prepare (map wrap objs) (wrap x) =
     Inr (wrap (if objs = [] then x else set_spec (spec x) (last objs)))"
  by (induction objs arbitrary: x) (simp_all add: prepare_wrap)

end

interpretation order_status: status_strategy "PrepareForUpdate orderStatusStrategy" ObjOrder arc_Order_Spec
  "\<lambda>s x. x\<lparr>arc_Order_Spec := s\<rparr>"
  by unfold_locales (auto simp: orderStatusStrategy_def orderStatus_PrepareForUpdate_def split: Object.splits)

interpretation fragment_status: status_strategy "PrepareForUpdate fragmentStatusStrategy" ObjArtifactWorkflow arc_AW_Spec
  "\<lambda>s x. x\<lparr>arc_AW_Spec := s\<rparr>"
  by unfold_locales (auto simp: fragmentStatusStrategy_def fragmentStatus_PrepareForUpdate_def split: Object.splits)

lemma NewStatusREST_strategy:
  "order_NewStatusREST complete mf = Inr store \<Longrightarrow> Store_UpdateStrategy store = orderStatusStrategy"
  "fragment_NewStatusREST complete mf = Inr store \<Longrightarrow> Store_UpdateStrategy store = fragmentStatusStrategy"
  by (auto simp: order_NewStatusREST_def fragment_NewStatusREST_def split: sum.splits)

text \<open>
  C21: through the status stores of orders and artifact workflows, no sequence of updates changes the
  spec: the stored object ends with its original spec and with the status and metadata of the last
  update.
\<close>

theorem status_updates_keep_spec:
  assumes "order_NewStatusREST complete mf = Inr store" and "fragment_NewStatusREST complete mf = Inr fstore"
  shows "run_updates (PrepareForUpdate (Store_UpdateStrategy store)) (map ObjOrder orders) (ObjOrder x) =
      Inr (ObjOrder (if orders = [] then x else (last orders)\<lparr>arc_Order_Spec := arc_Order_Spec x\<rparr>)) \<and>
    run_updates (PrepareForUpdate (Store_UpdateStrategy fstore)) (map ObjArtifactWorkflow aws) (ObjArtifactWorkflow y) =
      Inr (ObjArtifactWorkflow (if aws = [] then y else (last aws)\<lparr>arc_AW_Spec := arc_AW_Spec y\<rparr>))"
  unfolding NewStatusREST_strategy(1) [OF assms(1)] NewStatusREST_strategy(2) [OF assms(2)]
  using order_status.updates_keep_spec fragment_status.updates_keep_spec by blast

theorem status_updates_keep_spec_witness:
  "\<exists>store fstore. order_NewStatusREST (\<lambda>s attrs. Inr s) (\<lambda>m b. fmempty) = Inr store \<and>
     fragment_NewStatusREST (\<lambda>s attrs. Inr s) (\<lambda>m b. fmempty) = Inr fstore \<and>
     run_updates (PrepareForUpdate (Store_UpdateStrategy store)) [ObjOrder zero_arc_Order] (ObjOrder zero_arc_Order) =
       Inr (ObjOrder zero_arc_Order)"
proof -
  obtain store fstore where *: "order_NewStatusREST (\<lambda>s attrs. Inr s) (\<lambda>m b. fmempty) = Inr store"
    "fragment_NewStatusREST (\<lambda>s attrs. Inr s) (\<lambda>m b. fmempty) = Inr fstore"
    by (auto simp: order_NewStatusREST_def fragment_NewStatusREST_def order_NewREST_def fragment_NewREST_def)
  show ?thesis
    using status_updates_keep_spec [OF *, of "[zero_arc_Order]" zero_arc_Order] * by auto
qed

subsection \<open>The installed resources\<close>

lemma ARCServer_New_Inr:
  "ARCServer_New newServer install complete mf = Inr server \<longleftrightarrow>
     (\<exists>s0 m. newServer ''arc-apiserver'' = Inr s0 \<and> v1alpha1storage complete mf = Inr m \<and>
        install s0 (GroupName, fmupd ''v1alpha1'' m fmempty) = Inr server)"
proof -
  have "(case x of Inl err \<Rightarrow> Inl (Err err) | Inr y \<Rightarrow> Inr y) = Inr server \<longleftrightarrow> x = Inr server" for x :: "go_error + 'a"
    by (cases x) auto
  then show ?thesis
    by (cases "newServer ''arc-apiserver''") (simp_all add: ARCServer_New_def bind_res_Inr)
qed

lemma RESTInPeace_Inr [simp]: "RESTInPeace r = Inr s \<longleftrightarrow> r = Inr s"
  by (auto simp: RESTInPeace_def split: sum.splits)

text \<open>
  \<open>CompleteWithOptions\<close> fills in what a store leaves open and keeps the fields that are set.
\<close>

definition keeps_set_fields :: "complete \<Rightarrow> bool" where
  "keeps_set_fields complete \<longleftrightarrow>
     (\<forall>s a s1. complete s a = Inr s1 \<longrightarrow> (\<exists>rf. s1 = s\<lparr>Store_ResetFields := rf\<rparr>))"

text \<open>
  A store for the objects of one kind: it makes new objects and lists of that kind, selects objects by
  that kind's attributes, and creates and deletes with that kind's strategy.
\<close>

definition store_for :: "Store \<Rightarrow> Object \<Rightarrow> Object \<Rightarrow> (Object \<Rightarrow> go_error + attributes) \<Rightarrow> string \<Rightarrow> string \<Rightarrow> Strategy \<Rightarrow> bool" where
  "store_for st new newList attrs plural singular strategy \<longleftrightarrow>
     Store_NewFunc st = new \<and> Store_NewListFunc st = newList \<and>
     (\<forall>label field. Store_PredicateFunc st label field =
        \<lparr>Pred_Label = label, Pred_Field = field, Pred_GetAttrs = attrs\<rparr>) \<and>
     Store_DefaultQualifiedResource st = (''arc.bwi.de'', plural) \<and>
     Store_SingularQualifiedResource st = (''arc.bwi.de'', singular) \<and>
     Store_TableConvertor st = (''arc.bwi.de'', plural) \<and>
     Store_CreateStrategy st = strategy \<and> Store_DeleteStrategy st = strategy"

lemma NewREST_stores:
  assumes "keeps_set_fields complete"
  shows "order_NewREST complete mf = Inr st \<Longrightarrow> Store_UpdateStrategy st = orderStrategy \<and>
      store_for st (ObjOrder zero_arc_Order) (ObjOrderList zero_arc_OrderList) (order_GetAttrs mf)
        ''orders'' ''order'' orderStrategy"
    and "fragment_NewREST complete mf = Inr st \<Longrightarrow> Store_UpdateStrategy st = fragmentStrategy \<and>
      store_for st (ObjArtifactWorkflow zero_arc_ArtifactWorkflow) (ObjArtifactWorkflowList zero_arc_ArtifactWorkflowList)
        (fragment_GetAttrs mf) ''fragments'' ''fragment'' fragmentStrategy"
    and "endpoint_NewREST complete mf = Inr st \<Longrightarrow> Store_UpdateStrategy st = endpointStrategy \<and>
      store_for st (ObjEndpoint zero_arc_Endpoint) (ObjEndpointList zero_arc_EndpointList) (endpoint_GetAttrs mf)
        ''endpoints'' ''endpoint'' endpointStrategy"
    and "artifacttype_NewREST complete mf = Inr st \<Longrightarrow> Store_UpdateStrategy st = artifactTypeDefinitionStrategy \<and>
      store_for st (ObjArtifactType zero_arc_ArtifactType) (ObjArtifactTypeList zero_arc_ArtifactTypeList)
        (artifacttype_GetAttrs mf) ''artifacttypedefinitions'' ''artifacttypedefinition'' artifactTypeDefinitionStrategy"
proof -
  have keep: "complete s a = Inr st \<Longrightarrow> \<exists>rf. st = s\<lparr>Store_ResetFields := rf\<rparr>" for s a
    using assms unfolding keeps_set_fields_def by blast
  note names = store_for_def arc_Resource_def GroupName_def
  show "order_NewREST complete mf = Inr st \<Longrightarrow> Store_UpdateStrategy st = orderStrategy \<and>
      store_for st (ObjOrder zero_arc_Order) (ObjOrderList zero_arc_OrderList) (order_GetAttrs mf)
        ''orders'' ''order'' orderStrategy"
    unfolding order_NewREST_def by (drule keep) (auto simp: names MatchOrder_def)
  show "fragment_NewREST complete mf = Inr st \<Longrightarrow> Store_UpdateStrategy st = fragmentStrategy \<and>
      store_for st (ObjArtifactWorkflow zero_arc_ArtifactWorkflow) (ObjArtifactWorkflowList zero_arc_ArtifactWorkflowList)
        (fragment_GetAttrs mf) ''fragments'' ''fragment'' fragmentStrategy"
    unfolding fragment_NewREST_def by (drule keep) (auto simp: names MatchArtifactWorkflow_def)
  show "endpoint_NewREST complete mf = Inr st \<Longrightarrow> Store_UpdateStrategy st = endpointStrategy \<and>
      store_for st (ObjEndpoint zero_arc_Endpoint) (ObjEndpointList zero_arc_EndpointList) (endpoint_GetAttrs mf)
        ''endpoints'' ''endpoint'' endpointStrategy"
    unfolding endpoint_NewREST_def by (drule keep) (auto simp: names MatchEndpoint_def)
  show "artifacttype_NewREST complete mf = Inr st \<Longrightarrow> Store_UpdateStrategy st = artifactTypeDefinitionStrategy \<and>
      store_for st (ObjArtifactType zero_arc_ArtifactType) (ObjArtifactTypeList zero_arc_ArtifactTypeList)
        (artifacttype_GetAttrs mf) ''artifacttypedefinitions'' ''artifacttypedefinition'' artifactTypeDefinitionStrategy"
    unfolding artifacttype_NewREST_def by (drule keep) (auto simp: names MatchArtifactType_def)
qed

lemma NewStatusREST_store:
  "order_NewStatusREST complete mf = Inr st \<Longrightarrow> \<exists>s. order_NewREST complete mf = Inr s \<and>
     st = s\<lparr>Store_UpdateStrategy := orderStatusStrategy, Store_ResetFields := Some orderStatus_GetResetFields\<rparr>"
  "fragment_NewStatusREST complete mf = Inr st \<Longrightarrow> \<exists>s. fragment_NewREST complete mf = Inr s \<and>
     st = s\<lparr>Store_UpdateStrategy := fragmentStatusStrategy, Store_ResetFields := Some fragmentStatus_GetResetFields\<rparr>"
  by (auto simp: order_NewStatusREST_def fragment_NewStatusREST_def split: sum.splits)

lemma store_for_status [simp]:
  "store_for (st\<lparr>Store_UpdateStrategy := u, Store_ResetFields := rf\<rparr>) = store_for st"
  by (simp add: fun_eq_iff store_for_def)

text \<open>
  C22: a server that starts has installed the group with exactly six resources under v1alpha1: the four
  kinds and the status of orders and artifact workflows. If completing a store keeps the fields that
  are set, each resource has the store of its own kind: it makes objects and lists of that kind,
  selects by that kind's attributes (which refuse objects of other kinds), has that kind's resource
  names and creates, deletes and, but for the status, updates with that kind's strategy. The status
  stores update with the status strategy of their kind and reset the spec. All are namespaced but
  artifact types.
\<close>

theorem installed_resources:
  assumes "ARCServer_New newServer install complete mf = Inr server" and "keeps_set_fields complete"
  shows "\<exists>s0 m o1 o2 f1 f2 e1 t1. newServer ''arc-apiserver'' = Inr s0 \<and>
    install s0 (''arc.bwi.de'', fmupd ''v1alpha1'' m fmempty) = Inr server \<and>
    fmdom' m = {''orders'', ''orders/status'', ''artifactworkflows'', ''artifactworkflows/status'',
      ''endpoints'', ''artifacttypes''} \<and>
    map (fmlookup m) [''orders'', ''orders/status'', ''artifactworkflows'', ''artifactworkflows/status'',
      ''endpoints'', ''artifacttypes''] = map Some [o1, o2, f1, f2, e1, t1] \<and>
    store_for o1 (ObjOrder zero_arc_Order) (ObjOrderList zero_arc_OrderList) (order_GetAttrs mf)
      ''orders'' ''order'' orderStrategy \<and>
    store_for o2 (ObjOrder zero_arc_Order) (ObjOrderList zero_arc_OrderList) (order_GetAttrs mf)
      ''orders'' ''order'' orderStrategy \<and>
    store_for f1 (ObjArtifactWorkflow zero_arc_ArtifactWorkflow) (ObjArtifactWorkflowList zero_arc_ArtifactWorkflowList)
      (fragment_GetAttrs mf) ''fragments'' ''fragment'' fragmentStrategy \<and>
    store_for f2 (ObjArtifactWorkflow zero_arc_ArtifactWorkflow) (ObjArtifactWorkflowList zero_arc_ArtifactWorkflowList)
      (fragment_GetAttrs mf) ''fragments'' ''fragment'' fragmentStrategy \<and>
    store_for e1 (ObjEndpoint zero_arc_Endpoint) (ObjEndpointList zero_arc_EndpointList) (endpoint_GetAttrs mf)
      ''endpoints'' ''endpoint'' endpointStrategy \<and>
    store_for t1 (ObjArtifactType zero_arc_ArtifactType) (ObjArtifactTypeList zero_arc_ArtifactTypeList)
      (artifacttype_GetAttrs mf) ''artifacttypedefinitions'' ''artifacttypedefinition'' artifactTypeDefinitionStrategy \<and>
    map (\<lambda>st. Strategy_Type (Store_UpdateStrategy st)) [o1, o2, f1, f2, e1, t1] =
      [''order.orderStrategy'', ''order.orderStatusStrategy'', ''fragment.fragmentStrategy'',
       ''fragment.fragmentStatusStrategy'', ''endpoint.endpointStrategy'',
       ''artifacttypedefinition.artifactTypeDefinitionStrategy''] \<and>
    map Store_UpdateStrategy [o1, o2, f1, f2, e1, t1] =
      [orderStrategy, orderStatusStrategy, fragmentStrategy, fragmentStatusStrategy, endpointStrategy,
       artifactTypeDefinitionStrategy] \<and>
    map Store_ResetFields [o2, f2] =
      [Some [(''arc.bwi.de/v1alpha1'', [''spec''])], Some [(''arc.bwi.de/v1alpha1'', [''spec''])]] \<and>
    map (\<lambda>st. NamespaceScoped (Store_CreateStrategy st)) [o1, o2, f1, f2, e1, t1] =
      [True, True, True, True, True, False]"
proof -
  obtain s0 m where 1: "newServer ''arc-apiserver'' = Inr s0" "v1alpha1storage complete mf = Inr m"
    "install s0 (''arc.bwi.de'', fmupd ''v1alpha1'' m fmempty) = Inr server"
    using assms(1) by (auto simp: ARCServer_New_Inr GroupName_def)
  obtain o1 o2 f1 f2 e1 t1 where
    2: "order_NewREST complete mf = Inr o1" "order_NewStatusREST complete mf = Inr o2"
      "fragment_NewREST complete mf = Inr f1" "fragment_NewStatusREST complete mf = Inr f2"
      "endpoint_NewREST complete mf = Inr e1" "artifacttype_NewREST complete mf = Inr t1"
    and m: "m = fmupd ''artifacttypes'' t1 (fmupd ''endpoints'' e1 (fmupd ''artifactworkflows/status'' f2
      (fmupd ''artifactworkflows'' f1 (fmupd ''orders/status'' o2 (fmupd ''orders'' o1 fmempty)))))"
    using 1(2) by (auto simp: v1alpha1storage_def bind_res_Inr)
  note stores = NewREST_stores(1) [OF assms(2) 2(1)] NewREST_stores(2) [OF assms(2) 2(3)]
    NewREST_stores(3) [OF assms(2) 2(5)] NewREST_stores(4) [OF assms(2) 2(6)]
  have status: "o2 = o1\<lparr>Store_UpdateStrategy := orderStatusStrategy, Store_ResetFields := Some orderStatus_GetResetFields\<rparr>"
    "f2 = f1\<lparr>Store_UpdateStrategy := fragmentStatusStrategy, Store_ResetFields := Some fragmentStatus_GetResetFields\<rparr>"
    using NewStatusREST_store(1) [OF 2(2)] NewStatusREST_store(2) [OF 2(4)] 2(1,3) by auto
  have types: "Strategy_Type orderStrategy = ''order.orderStrategy''" "NamespaceScoped orderStrategy"
    "Strategy_Type orderStatusStrategy = ''order.orderStatusStrategy''"
    "Strategy_Type fragmentStrategy = ''fragment.fragmentStrategy''" "NamespaceScoped fragmentStrategy"
    "Strategy_Type fragmentStatusStrategy = ''fragment.fragmentStatusStrategy''"
    "Strategy_Type endpointStrategy = ''endpoint.endpointStrategy''" "NamespaceScoped endpointStrategy"
    "Strategy_Type artifactTypeDefinitionStrategy = ''artifacttypedefinition.artifactTypeDefinitionStrategy''"
    "\<not> NamespaceScoped artifactTypeDefinitionStrategy"
    by (simp_all add: orderStrategy_def orderStatusStrategy_def fragmentStrategy_def fragmentStatusStrategy_def
        endpointStrategy_def artifactTypeDefinitionStrategy_def)
  have create: "Store_CreateStrategy o1 = orderStrategy" "Store_CreateStrategy f1 = fragmentStrategy"
    "Store_CreateStrategy e1 = endpointStrategy" "Store_CreateStrategy t1 = artifactTypeDefinitionStrategy"
    using stores by (simp_all add: store_for_def)
  have reset: "Store_ResetFields o2 = Some [(''arc.bwi.de/v1alpha1'', [''spec''])]"
    "Store_ResetFields f2 = Some [(''arc.bwi.de/v1alpha1'', [''spec''])]"
    by (simp_all add: status orderStatus_GetResetFields_def fragmentStatus_GetResetFields_def)
  have dom: "fmdom' m = {''orders'', ''orders/status'', ''artifactworkflows'', ''artifactworkflows/status'',
      ''endpoints'', ''artifacttypes''}" by (auto simp: m)
  show ?thesis
    by (rule exI [of _ s0], rule exI [of _ m], rule exI [of _ o1], rule exI [of _ o2], rule exI [of _ f1],
        rule exI [of _ f2], rule exI [of _ e1], rule exI [of _ t1], intro conjI)
      (use 1(1,3) stores dom reset in \<open>simp_all add: m status types create\<close>)
qed

theorem installed_resources_witness:
  "\<exists>m. ARCServer_New (\<lambda>n. Inr fmempty) (\<lambda>s g. Inr (snd g)) (\<lambda>s a. Inr s) (\<lambda>m b. fmempty) = Inr (fmupd ''v1alpha1'' m fmempty) \<and>
     map_option Store_UpdateStrategy (fmlookup m ''orders/status'') = Some orderStatusStrategy \<and>
     map_option Store_NewFunc (fmlookup m ''endpoints'') = Some (ObjEndpoint zero_arc_Endpoint)"
proof -
  obtain server where s: "ARCServer_New (\<lambda>n. Inr fmempty) (\<lambda>s g. Inr (snd g)) (\<lambda>s a. Inr s) (\<lambda>m b. fmempty) = Inr server"
    by (auto simp: ARCServer_New_def v1alpha1storage_def order_NewREST_def order_NewStatusREST_def fragment_NewREST_def
        fragment_NewStatusREST_def endpoint_NewREST_def artifacttype_NewREST_def RESTInPeace_def)
  have "keeps_set_fields (\<lambda>s a. Inr s)"
    unfolding keeps_set_fields_def
  proof (intro allI impI)
    fix s s1 :: Store
    assume "Inr s = (Inr s1 :: go_error + Store)"
    then show "\<exists>rf. s1 = s\<lparr>Store_ResetFields := rf\<rparr>" by (intro exI [of _ "Store_ResetFields s"]) simp
  qed
  from installed_resources [OF s this] s show ?thesis by (auto simp: store_for_def)
qed

end
