(* ===== verification/Go_Heap.thy ===== *)
theory Go_Heap
  imports Prelude
begin

section \<open>A heap for slices, maps and pointers\<close>

text \<open>
  Deep copies are about sharing, which the records of the other theories do not show. Here a Go value
  is a string, a number, a struct of values, nil, or a reference to a cell of the heap; a cell holds
  the elements of a slice, the entries of a map or the target of a pointer. The heap is a list, an
  address its position; allocating appends a cell. \<open>gtype\<close> describes the static type of a value;
  \<open>typed\<close>, the abstract value \<open>val\<close> and the addresses a value can reach, \<open>addrs\<close>, are defined along it.
\<close>

datatype gval = GStr string | GInt int | GNil | GStruct "gval list" | GRef nat

datatype cell = CSlice "gval list" | CMap "(string \<times> gval) list" | CTarget gval

type_synonym heap = "cell list"

datatype gtype = TStr | TInt | TStruct "gtype list" | TSlice gtype | TMap gtype | TPtr gtype

text \<open>The abstract value: what can be read, without the addresses.\<close>

datatype tree = LStr string | LInt int | LNil | LNode "tree list" | LMap "(string \<times> tree) list" | LBad

fun typed :: "heap \<Rightarrow> gtype \<Rightarrow> gval \<Rightarrow> bool" where
  "typed h TStr v \<longleftrightarrow> (case v of GStr s \<Rightarrow> True | _ \<Rightarrow> False)"
| "typed h TInt v \<longleftrightarrow> (case v of GInt i \<Rightarrow> True | _ \<Rightarrow> False)"
| "typed h (TStruct Ts) v \<longleftrightarrow> (case v of GStruct vs \<Rightarrow> list_all2 (\<lambda>T w. typed h T w) Ts vs | _ \<Rightarrow> False)"
| "typed h (TSlice T) v \<longleftrightarrow>
     (case v of GNil \<Rightarrow> True
      | GRef a \<Rightarrow> a < length h \<and> (case h ! a of CSlice vs \<Rightarrow> \<forall>w \<in> set vs. typed h T w | _ \<Rightarrow> False)
      | _ \<Rightarrow> False)"
| "typed h (TMap T) v \<longleftrightarrow>
     (case v of GNil \<Rightarrow> True
      | GRef a \<Rightarrow> a < length h \<and> (case h ! a of CMap kvs \<Rightarrow> \<forall>w \<in> set (map snd kvs). typed h T w | _ \<Rightarrow> False)
      | _ \<Rightarrow> False)"
| "typed h (TPtr T) v \<longleftrightarrow>
     (case v of GNil \<Rightarrow> True
      | GRef a \<Rightarrow> a < length h \<and> (case h ! a of CTarget w \<Rightarrow> typed h T w | _ \<Rightarrow> False)
      | _ \<Rightarrow> False)"

lemma size_list_member_less: "x \<in> set xs \<Longrightarrow> size x < Suc (size_list size xs)"
  by (simp add: less_Suc_eq_le size_list_estimation')

function (sequential) val :: "gtype \<Rightarrow> heap \<Rightarrow> gval \<Rightarrow> tree" where
  "val TStr h v = (case v of GStr s \<Rightarrow> LStr s | _ \<Rightarrow> LBad)"
| "val TInt h v = (case v of GInt i \<Rightarrow> LInt i | _ \<Rightarrow> LBad)"
| "val (TStruct Ts) h v =
     (case v of GStruct vs \<Rightarrow> LNode (map (\<lambda>(T, w). val T h w) (zip Ts vs)) | _ \<Rightarrow> LBad)"
| "val (TSlice T) h v =
     (case v of GNil \<Rightarrow> LNil
      | GRef a \<Rightarrow> if a < length h then (case h ! a of CSlice vs \<Rightarrow> LNode (map (val T h) vs) | _ \<Rightarrow> LBad) else LBad
      | _ \<Rightarrow> LBad)"
| "val (TMap T) h v =
     (case v of GNil \<Rightarrow> LNil
      | GRef a \<Rightarrow> if a < length h then (case h ! a of CMap kvs \<Rightarrow> LMap (map (map_prod id (val T h)) kvs) | _ \<Rightarrow> LBad) else LBad
      | _ \<Rightarrow> LBad)"
| "val (TPtr T) h v =
     (case v of GNil \<Rightarrow> LNil
      | GRef a \<Rightarrow> if a < length h then (case h ! a of CTarget w \<Rightarrow> LNode [val T h w] | _ \<Rightarrow> LBad) else LBad
      | _ \<Rightarrow> LBad)"
  by pat_completeness auto
termination val
  by (relation "measure (\<lambda>(T, h, v). size T)")
     (auto dest!: set_zip_leftD intro: size_list_member_less)

function (sequential) addrs :: "gtype \<Rightarrow> heap \<Rightarrow> gval \<Rightarrow> nat set" where
  "addrs TStr h v = {}"
| "addrs TInt h v = {}"
| "addrs (TStruct Ts) h v =
     (case v of GStruct vs \<Rightarrow> (\<Union>(T, w) \<in> set (zip Ts vs). addrs T h w) | _ \<Rightarrow> {})"
| "addrs (TSlice T) h v =
     (case v of GRef a \<Rightarrow> insert a (if a < length h then (case h ! a of CSlice vs \<Rightarrow> \<Union>w \<in> set vs. addrs T h w | _ \<Rightarrow> {}) else {})
      | _ \<Rightarrow> {})"
| "addrs (TMap T) h v =
     (case v of GRef a \<Rightarrow> insert a (if a < length h then (case h ! a of CMap kvs \<Rightarrow> \<Union>w \<in> set (map snd kvs). addrs T h w | _ \<Rightarrow> {}) else {})
      | _ \<Rightarrow> {})"
| "addrs (TPtr T) h v =
     (case v of GRef a \<Rightarrow> insert a (if a < length h then (case h ! a of CTarget w \<Rightarrow> addrs T h w | _ \<Rightarrow> {}) else {})
      | _ \<Rightarrow> {})"
  by pat_completeness auto
termination addrs
  by (relation "measure (\<lambda>(T, h, v). size T)")
     (auto dest!: set_zip_leftD intro: size_list_member_less)

text \<open>Two heaps that agree on the cells a value reaches show the same value.\<close>

lemma same_cells:
  assumes "typed h T v" and "\<forall>a \<in> addrs T h v. a < length g \<and> g ! a = h ! a"
  shows "typed g T v \<and> val T g v = val T h v \<and> addrs T g v = addrs T h v"
  using assms
proof (induction T arbitrary: v)
  case (TStruct Ts)
  then obtain vs where v: "v = GStruct vs" and l: "list_all2 (\<lambda>T w. typed h T w) Ts vs"
    by (auto split: gval.splits)
  have "typed g T w \<and> val T g w = val T h w \<and> addrs T g w = addrs T h w" if "(T, w) \<in> set (zip Ts vs)" for T w
  proof (rule TStruct.IH)
    show "T \<in> set Ts" using that by (rule set_zip_leftD)
    show "typed h T w" using l that by (auto simp: list_all2_iff)
    show "\<forall>a \<in> addrs T h w. a < length g \<and> g ! a = h ! a" using TStruct.prems(2) that by (auto simp: v)
  qed
  then show ?case using l by (fastforce simp: v list_all2_iff)
next
  case (TSlice T)
  then show ?case by (auto split: gval.splits cell.splits)
next
  case (TMap T)
  then show ?case by (fastforce split: gval.splits cell.splits)
next
  case (TPtr T)
  then show ?case by (auto split: gval.splits cell.splits)
qed auto

lemma typed_addrs: "typed h T v \<Longrightarrow> a \<in> addrs T h v \<Longrightarrow> a < length h"
proof (induction T arbitrary: v)
  case (TStruct Ts)
  then show ?case by (fastforce simp: list_all2_iff dest: set_zip_leftD split: gval.splits)
qed (fastforce split: gval.splits cell.splits)+

lemma heap_grows:
  assumes "typed h T v" and "prefix h g"
  shows "typed g T v" and "val T g v = val T h v" and "addrs T g v = addrs T h v"
proof -
  obtain ext where "g = h @ ext" using assms(2) by (auto elim: prefixE)
  then have "\<forall>a \<in> addrs T h v. a < length g \<and> g ! a = h ! a"
    using typed_addrs [OF assms(1)] by (auto simp: nth_append trans_less_add1)
  from same_cells [OF assms(1) this] show "typed g T v" "val T g v = val T h v" "addrs T g v = addrs T h v"
    by auto
qed

text \<open>Whatever is written outside the cells a value reaches, the value reads the same.\<close>

lemma read_elsewhere:
  assumes "typed h T v" and "length h \<le> length g" and "\<forall>a < length h. a \<in> addrs T h v \<longrightarrow> g ! a = h ! a"
  shows "val T g v = val T h v"
proof -
  have "\<forall>a \<in> addrs T h v. a < length g \<and> g ! a = h ! a"
    using typed_addrs [OF assms(1)] assms(2,3) by (meson less_le_trans)
  from same_cells [OF assms(1) this] show ?thesis by simp
qed

end
