(* ===== verification/Deep_Copy.thy ===== *)
theory Deep_Copy
  imports Go_Heap
begin

section \<open>Deep copies\<close>

text \<open>
  The statements deepcopy-gen writes, on the heap of \<open>Go_Heap\<close>: \<open>into\<close> is the body of a \<open>DeepCopyInto\<close>
  (\<open>*out = *in\<close> and then one statement per listed field), \<open>assign\<close> a plain assignment, \<open>slice_copy\<close> and
  \<open>map_copy\<close> the guarded \<open>make\<close> with its loop, \<open>ptr_copy\<close> the body of a \<open>DeepCopy\<close> (nil stays nil, else
  \<open>new\<close> and \<open>DeepCopyInto\<close>), \<open>object_copy\<close> the body of a \<open>DeepCopyObject\<close>, whose result is an interface
  value: nil, or a pointer with its dynamic type. \<open>None\<close> as the outer result stands for a value that does
  not have the static type. A new cell is written when its content is complete; the generated code
  allocates it first, but reads it only afterwards.

  The locale \<open>deep_copier\<close> is the contract: the copy exists, reads like the original, lies in new cells
  only, and no old cell changes.
\<close>

type_synonym copier = "heap \<Rightarrow> gval \<Rightarrow> (heap \<times> gval) option"

definition assign :: copier where
  "assign h v = Some (h, v)"

fun into_fields :: "(nat \<times> copier) list \<Rightarrow> heap \<Rightarrow> gval list \<Rightarrow> gval list \<Rightarrow> (heap \<times> gval list) option" where
  "into_fields [] h ins outs = Some (h, outs)"
| "into_fields ((i, c) # fs) h ins outs =
     (if i < length ins then
        (case c h (ins ! i) of
           None \<Rightarrow> None
         | Some (h', w) \<Rightarrow> into_fields fs h' ins (outs[i := w]))
      else None)"

definition into :: "(nat \<times> copier) list \<Rightarrow> copier" where
  "into fs h v =
     (case v of
        GStruct vs \<Rightarrow> map_option (\<lambda>(h', ws). (h', GStruct ws)) (into_fields fs h vs vs)
      | _ \<Rightarrow> None)"

fun copy_list :: "copier \<Rightarrow> heap \<Rightarrow> gval list \<Rightarrow> (heap \<times> gval list) option" where
  "copy_list c h [] = Some (h, [])"
| "copy_list c h (v # vs) =
     (case c h v of
        None \<Rightarrow> None
      | Some (h', w) \<Rightarrow> map_option (\<lambda>(h'', ws). (h'', w # ws)) (copy_list c h' vs))"

definition slice_copy :: "copier \<Rightarrow> copier" where
  "slice_copy c h v =
     (case v of
        GNil \<Rightarrow> Some (h, GNil)
      | GRef a \<Rightarrow>
          if a < length h then
            (case h ! a of
               CSlice vs \<Rightarrow> map_option (\<lambda>(h', ws). (h' @ [CSlice ws], GRef (length h'))) (copy_list c h vs)
             | _ \<Rightarrow> None)
          else None
      | _ \<Rightarrow> None)"

definition map_copy :: "copier \<Rightarrow> copier" where
  "map_copy c h v =
     (case v of
        GNil \<Rightarrow> Some (h, GNil)
      | GRef a \<Rightarrow>
          if a < length h then
            (case h ! a of
               CMap kvs \<Rightarrow>
                 map_option (\<lambda>(h', ws). (h' @ [CMap (zip (map fst kvs) ws)], GRef (length h')))
                   (copy_list c h (map snd kvs))
             | _ \<Rightarrow> None)
          else None
      | _ \<Rightarrow> None)"

definition ptr_copy :: "copier \<Rightarrow> copier" where
  "ptr_copy c h v =
     (case v of
        GNil \<Rightarrow> Some (h, GNil)
      | GRef a \<Rightarrow>
          if a < length h then
            (case h ! a of
               CTarget w \<Rightarrow> map_option (\<lambda>(h', w'). (h' @ [CTarget w'], GRef (length h'))) (c h w)
             | _ \<Rightarrow> None)
          else None
      | _ \<Rightarrow> None)"

text \<open>An interface value: nil, or the name of the dynamic type with the pointer.\<close>

type_synonym runtime_Object = "(string \<times> gval) option"

definition object_copy :: "string \<Rightarrow> copier \<Rightarrow> heap \<Rightarrow> gval \<Rightarrow> (heap \<times> runtime_Object) option" where
  "object_copy kind c h v =
     map_option (\<lambda>(h', w). (h', if w \<noteq> GNil then Some (kind, w) else None)) (c h v)"

subsection \<open>The contract\<close>

definition copy_of :: "heap \<Rightarrow> gtype \<Rightarrow> gval \<Rightarrow> heap \<Rightarrow> gval \<Rightarrow> bool" where
  "copy_of h T v h' w \<longleftrightarrow>
     prefix h h' \<and> typed h' T w \<and> val T h' w = val T h v \<and> (\<forall>a \<in> addrs T h' w. length h \<le> a)"

lemma copy_of_grow: "copy_of h T v h' w \<Longrightarrow> prefix h' g \<Longrightarrow> copy_of h T v g w"
  using heap_grows [of h' T w g] prefix_order.trans [of h h' g] by (auto simp: copy_of_def)

lemma copy_of_weaken:
  "copy_of h T v h' w \<Longrightarrow> prefix h0 h \<Longrightarrow> typed h0 T v \<Longrightarrow> copy_of h0 T v h' w"
  using heap_grows [of h0 T v h] prefix_order.trans [of h0 h h'] prefix_length_le [of h0 h]
  by (force simp: copy_of_def)

locale deep_copier =
  fixes T :: gtype and copier :: copier
  assumes copies: "typed h T v \<Longrightarrow> \<exists>h' w. copier h v = Some (h', w) \<and> copy_of h T v h' w"
begin

text \<open>The copy does not notice writes to the old cells, the original none to the new cells.\<close>

lemma copy_unaffected:
  assumes "typed h T v" and "copier h v = Some (h', w)"
    and "length h' \<le> length g" and "\<forall>a. length h \<le> a \<and> a < length h' \<longrightarrow> g ! a = h' ! a"
  shows "val T g w = val T h v"
proof -
  have c: "copy_of h T v h' w" using copies [OF assms(1)] assms(2) by auto
  then have "val T g w = val T h' w"
    using assms(3,4) by (intro read_elsewhere) (auto simp: copy_of_def)
  then show ?thesis using c by (simp add: copy_of_def)
qed

lemma original_unaffected:
  assumes "typed h T v" and "copier h v = Some (h', w)"
    and "length h \<le> length g" and "\<forall>a. a < length h \<longrightarrow> g ! a = h' ! a"
  shows "val T g v = val T h v"
proof -
  have "copy_of h T v h' w" using copies [OF assms(1)] assms(2) by auto
  then obtain ext where "h' = h @ ext" by (auto simp: copy_of_def elim: prefixE)
  then show ?thesis using assms(1,3,4) by (intro read_elsewhere) (auto simp: nth_append)
qed

end

subsection \<open>The statements meet the contract\<close>

fun flat :: "gtype \<Rightarrow> bool" where
  "flat TStr \<longleftrightarrow> True"
| "flat TInt \<longleftrightarrow> True"
| "flat (TStruct Ts) \<longleftrightarrow> (\<forall>T \<in> set Ts. flat T)"
| "flat _ \<longleftrightarrow> False"

lemma flat_addrs: "flat T \<Longrightarrow> addrs T h v = {}"
  by (induction T arbitrary: v) (auto split: gval.splits dest: set_zip_leftD)

lemma deep_copier_assign: "flat T \<Longrightarrow> deep_copier T assign"
  by unfold_locales (simp add: assign_def copy_of_def flat_addrs)

lemma deep_copier_list:
  assumes "deep_copier T c" and "\<forall>v \<in> set vs. typed h T v"
  shows "\<exists>h' ws. copy_list c h vs = Some (h', ws) \<and> prefix h h' \<and> list_all2 (\<lambda>v w. copy_of h T v h' w) vs ws"
  using assms(2)
proof (induction vs arbitrary: h)
  case (Cons v vs)
  obtain h1 w where w: "c h v = Some (h1, w)" "copy_of h T v h1 w"
    using deep_copier.copies [OF assms(1), of h v] Cons.prems by auto
  then have p: "prefix h h1" by (simp add: copy_of_def)
  have ty: "\<forall>u \<in> set vs. typed h1 T u" using Cons.prems heap_grows(1) [OF _ p] by simp
  obtain h2 ws where ws: "copy_list c h1 vs = Some (h2, ws)" "prefix h1 h2"
      "list_all2 (\<lambda>v w. copy_of h1 T v h2 w) vs ws"
    using Cons.IH [OF ty] by auto
  have "list_all2 (\<lambda>v w. copy_of h T v h2 w) vs ws"
    using ws(3) by (rule list.rel_mono_strong) (use Cons.prems p in \<open>auto intro: copy_of_weaken\<close>)
  then show ?case using w ws copy_of_grow [OF w(2) ws(2)] prefix_order.trans [OF p ws(2)] by simp
qed simp

lemma copies_val:
  assumes "list_all2 (\<lambda>v w. copy_of h T v h' w) vs ws"
  shows "map (val T h') ws = map (val T h) vs" and "\<forall>w \<in> set ws. typed h' T w"
    and "\<forall>w \<in> set ws. \<forall>a \<in> addrs T h' w. length h \<le> a" and "length ws = length vs"
  using assms by (induction rule: list_all2_induct) (auto simp: copy_of_def)

lemma deep_copier_slice:
  assumes "deep_copier T c"
  shows "deep_copier (TSlice T) (slice_copy c)"
proof
  fix h v
  assume t: "typed h (TSlice T) v"
  show "\<exists>h' w. slice_copy c h v = Some (h', w) \<and> copy_of h (TSlice T) v h' w"
  proof (cases v)
    case (GRef a)
    then obtain vs where a: "a < length h" "h ! a = CSlice vs" and vs: "\<forall>w \<in> set vs. typed h T w"
      using t by (auto split: cell.splits)
    obtain h' ws where ws: "copy_list c h vs = Some (h', ws)" "prefix h h'"
        "list_all2 (\<lambda>v w. copy_of h T v h' w) vs ws"
      using deep_copier_list [OF assms vs] by auto
    let ?g = "h' @ [CSlice ws]"
    have g: "list_all2 (\<lambda>v w. copy_of h T v ?g w) vs ws"
      using ws(3) by (rule list_all2_mono) (auto intro: copy_of_grow)
    have "copy_of h (TSlice T) v ?g (GRef (length h'))"
      using copies_val [OF g] ws(2) a prefix_length_le [OF ws(2)] by (auto simp: copy_of_def GRef nth_append)
    then show ?thesis using ws(1) a by (simp add: slice_copy_def GRef)
  qed (use t in \<open>auto simp: slice_copy_def copy_of_def\<close>)
qed

lemma deep_copier_map:
  assumes "deep_copier T c"
  shows "deep_copier (TMap T) (map_copy c)"
proof
  fix h v
  assume t: "typed h (TMap T) v"
  show "\<exists>h' w. map_copy c h v = Some (h', w) \<and> copy_of h (TMap T) v h' w"
  proof (cases v)
    case (GRef a)
    then obtain kvs where a: "a < length h" "h ! a = CMap kvs" and vs: "\<forall>w \<in> set (map snd kvs). typed h T w"
      using t by (auto split: cell.splits)
    obtain h' ws where ws: "copy_list c h (map snd kvs) = Some (h', ws)" "prefix h h'"
        "list_all2 (\<lambda>v w. copy_of h T v h' w) (map snd kvs) ws"
      using deep_copier_list [OF assms vs] by auto
    let ?g = "h' @ [CMap (zip (map fst kvs) ws)]"
    have g: "list_all2 (\<lambda>v w. copy_of h T v ?g w) (map snd kvs) ws"
      using ws(3) by (rule list_all2_mono) (auto intro: copy_of_grow)
    note cv = copies_val [OF g]
    have "map (map_prod id (val T ?g)) (zip (map fst kvs) ws) = zip (map fst kvs) (map (val T ?g) ws)"
      by (simp add: zip_map2 map_prod_def id_def)
    also have "\<dots> = map (map_prod id (val T h)) kvs"
      unfolding cv(1) by (induction kvs) auto
    finally have "copy_of h (TMap T) v ?g (GRef (length h'))"
      using cv(2-4) ws(2) a prefix_length_le [OF ws(2)]
      by (auto simp: copy_of_def GRef nth_append dest!: set_zip_rightD)
    then show ?thesis using ws(1) a by (simp add: map_copy_def GRef)
  qed (use t in \<open>auto simp: map_copy_def copy_of_def\<close>)
qed

lemma deep_copier_ptr:
  assumes "deep_copier T c"
  shows "deep_copier (TPtr T) (ptr_copy c)"
proof
  fix h v
  assume t: "typed h (TPtr T) v"
  show "\<exists>h' w. ptr_copy c h v = Some (h', w) \<and> copy_of h (TPtr T) v h' w"
  proof (cases v)
    case (GRef a)
    then obtain u where a: "a < length h" "h ! a = CTarget u" and u: "typed h T u"
      using t by (auto split: cell.splits)
    obtain h' w where w: "c h u = Some (h', w)" "copy_of h T u h' w"
      using deep_copier.copies [OF assms u] by auto
    let ?g = "h' @ [CTarget w]"
    have "copy_of h T u ?g w" using w(2) by (auto intro: copy_of_grow)
    then have "copy_of h (TPtr T) v ?g (GRef (length h'))"
      using a w(2) prefix_length_le [of h h'] by (auto simp: copy_of_def GRef nth_append)
    then show ?thesis using w(1) a by (simp add: ptr_copy_def GRef)
  qed (use t in \<open>auto simp: ptr_copy_def copy_of_def\<close>)
qed

text \<open>
  A struct: every listed statement has to copy its field deeply, and a field no statement mentions is
  shared with the original, so it has to be flat.
\<close>

definition fields_ok :: "gtype list \<Rightarrow> (nat \<times> copier) list \<Rightarrow> bool" where
  "fields_ok Ts fs \<longleftrightarrow>
     (\<forall>(i, c) \<in> set fs. i < length Ts \<and> deep_copier (Ts ! i) c) \<and>
     (\<forall>i < length Ts. i \<notin> fst ` set fs \<longrightarrow> flat (Ts ! i))"

lemma into_fields_copies:
  assumes "\<forall>(i, c) \<in> set fs. i < length Ts \<and> deep_copier (Ts ! i) c"
    and "list_all2 (typed h) Ts ins" and "length outs = length ins"
  shows "\<exists>h' ws. into_fields fs h ins outs = Some (h', ws) \<and> prefix h h' \<and> length ws = length ins \<and>
    (\<forall>j < length ins. if j \<in> fst ` set fs then copy_of h (Ts ! j) (ins ! j) h' (ws ! j) else ws ! j = outs ! j)"
  using assms
proof (induction fs arbitrary: h outs)
  case (Cons f fs)
  obtain i c where f: "f = (i, c)" by force
  have i: "i < length ins" "deep_copier (Ts ! i) c" "typed h (Ts ! i) (ins ! i)"
    using Cons.prems(1,2) by (auto simp: f list_all2_conv_all_nth)
  obtain h1 w where w: "c h (ins ! i) = Some (h1, w)" "copy_of h (Ts ! i) (ins ! i) h1 w"
    using deep_copier.copies [OF i(2,3)] by auto
  then have p: "prefix h h1" by (simp add: copy_of_def)
  have ty: "list_all2 (typed h1) Ts ins"
    using Cons.prems(2) by (rule list_all2_mono) (auto intro: heap_grows p)
  obtain h2 ws where ws: "into_fields fs h1 ins (outs[i := w]) = Some (h2, ws)" "prefix h1 h2" "length ws = length ins"
      "\<forall>j < length ins. if j \<in> fst ` set fs then copy_of h1 (Ts ! j) (ins ! j) h2 (ws ! j) else ws ! j = outs[i := w] ! j"
    using Cons.IH [OF _ ty, of "outs[i := w]"] Cons.prems(1,3) by auto
  have "copy_of h (Ts ! j) (ins ! j) h2 (ws ! j)" if "j < length ins" "j \<in> fst ` set fs" for j
  proof (rule copy_of_weaken [OF _ p])
    show "copy_of h1 (Ts ! j) (ins ! j) h2 (ws ! j)" using that ws(4) by simp
    show "typed h (Ts ! j) (ins ! j)" using that Cons.prems(2) by (simp add: list_all2_conv_all_nth)
  qed
  moreover have "copy_of h (Ts ! i) (ins ! i) h2 (ws ! i)" if "i \<notin> fst ` set fs"
    using that ws(2,4) i(1) Cons.prems(3) copy_of_grow [OF w(2)] by auto
  ultimately have "\<forall>j < length ins. if j \<in> fst ` set (f # fs) then copy_of h (Ts ! j) (ins ! j) h2 (ws ! j)
      else ws ! j = outs ! j"
    using ws(4) by (auto simp: f)
  then show ?case using w(1) ws(1,3) i(1) prefix_order.trans [OF p ws(2)] by (simp add: f)
qed simp

lemma struct_copy_of:
  assumes "prefix h h'" and "length ws = length vs" and "length Ts = length vs"
    and "\<forall>j < length vs. copy_of h (Ts ! j) (vs ! j) h' (ws ! j)"
  shows "copy_of h (TStruct Ts) (GStruct vs) h' (GStruct ws)"
  using assms by (auto simp: copy_of_def list_all2_conv_all_nth set_zip intro!: nth_equalityI)

lemma deep_copier_struct:
  assumes "fields_ok Ts fs"
  shows "deep_copier (TStruct Ts) (into fs)"
proof
  fix h v
  assume "typed h (TStruct Ts) v"
  then obtain vs where v: "v = GStruct vs" and ty: "list_all2 (typed h) Ts vs" by (auto split: gval.splits)
  then have len: "length Ts = length vs" by (simp add: list_all2_lengthD)
  obtain h' ws where ws: "into_fields fs h vs vs = Some (h', ws)" "prefix h h'" "length ws = length vs"
      "\<forall>j < length vs. if j \<in> fst ` set fs then copy_of h (Ts ! j) (vs ! j) h' (ws ! j) else ws ! j = vs ! j"
    using into_fields_copies [OF _ ty, of fs vs] assms by (auto simp: fields_ok_def)
  have "copy_of h (Ts ! j) (vs ! j) h' (ws ! j)" if "j < length vs" for j
  proof (cases "j \<in> fst ` set fs")
    case False
    then have "flat (Ts ! j)" "ws ! j = vs ! j" using assms ws(4) that len by (auto simp: fields_ok_def)
    then show ?thesis
      using heap_grows [of h "Ts ! j" "vs ! j", OF _ ws(2)] ty that len ws(2)
      by (auto simp: copy_of_def flat_addrs list_all2_conv_all_nth)
  qed (use ws(4) that in auto)
  then have "copy_of h (TStruct Ts) v h' (GStruct ws)"
    unfolding v using ws(2,3) len by (intro struct_copy_of) auto
  then show "\<exists>h' w. into fs h v = Some (h', w) \<and> copy_of h (TStruct Ts) v h' w"
    using ws(1) by (simp add: into_def v)
qed

subsection \<open>A reference copy for every type\<close>

fun deep_copy :: "gtype \<Rightarrow> copier" where
  "deep_copy TStr = assign"
| "deep_copy TInt = assign"
| "deep_copy (TStruct Ts) = into (zip [0..<length Ts] (map deep_copy Ts))"
| "deep_copy (TSlice T) = slice_copy (deep_copy T)"
| "deep_copy (TMap T) = map_copy (deep_copy T)"
| "deep_copy (TPtr T) = ptr_copy (deep_copy T)"

lemma deep_copier_deep_copy: "deep_copier T (deep_copy T)"
proof (induction T)
  case (TStruct Ts)
  moreover have "fst ` set (zip [0..<length Ts] (map deep_copy Ts)) = {..<length Ts}"
    by (simp flip: set_map) auto
  ultimately have "fields_ok Ts (zip [0..<length Ts] (map deep_copy Ts))"
    by (auto simp: fields_ok_def set_zip)
  then show ?case using deep_copier_struct by simp
qed (auto intro: deep_copier_assign deep_copier_slice deep_copier_map deep_copier_ptr)

interpretation reference: deep_copier T "deep_copy T" for T
  by (rule deep_copier_deep_copy)

text \<open>\<open>DeepCopyObject\<close>: an interface is nil exactly for the nil pointer, else it holds the copy.\<close>

lemma object_copy_spec:
  assumes "deep_copier (TPtr T) c" and "typed h (TPtr T) v"
  shows "\<exists>h' w. object_copy kind c h v = Some (h', if v = GNil then None else Some (kind, w)) \<and>
    c h v = Some (h', w) \<and> copy_of h (TPtr T) v h' w"
proof -
  obtain h' w where w: "c h v = Some (h', w)" "copy_of h (TPtr T) v h' w"
    using deep_copier.copies [OF assms] by auto
  have "w = GNil \<longleftrightarrow> v = GNil"
    using w(2) assms(2) by (auto simp: copy_of_def split: gval.splits cell.splits if_splits)
  then show ?thesis using w by (auto simp: object_copy_def)
qed

end
