(* ===== verification/Deep_Copy_Types.thy ===== *)
theory Deep_Copy_Types
  imports Deep_Copy
begin

section \<open>The types the generated deep copies work on\<close>

text \<open>
  The structs of the API packages as \<open>gtype\<close>s, fields in the order of the source. The packages \<open>arc\<close>
  and \<open>v1alpha1\<close> declare the same fields, so both use these. Three structs of the Kubernetes libraries
  are opaque: \<open>library\<close> holds their types and their \<open>DeepCopyInto\<close> methods, and \<open>library_copiers\<close> states
  what the generated code relies on, that these methods make deep copies.
\<close>

record library =
  ObjectMeta_type :: gtype
  ListMeta_type :: gtype
  RawExtension_type :: gtype
  ObjectMeta_DeepCopyInto :: copier
  ListMeta_DeepCopyInto :: copier
  RawExtension_DeepCopyInto :: copier

type_synonym object_copier = "heap \<Rightarrow> gval \<Rightarrow> (heap \<times> runtime_Object) option"

definition type_TypeMeta :: gtype where
  "type_TypeMeta = TStruct [TStr, TStr]"

definition type_LocalObjectReference :: gtype where
  "type_LocalObjectReference = TStruct [TStr]"

definition type_OrderDefaults :: gtype where
  "type_OrderDefaults = TStruct [type_LocalObjectReference, type_LocalObjectReference]"

definition type_OrderArtifact :: "library \<Rightarrow> gtype" where
  "type_OrderArtifact L = TStruct [TStr, type_LocalObjectReference, type_LocalObjectReference,
     RawExtension_type L]"

definition type_OrderSpec :: "library \<Rightarrow> gtype" where
  "type_OrderSpec L = TStruct [type_OrderDefaults, TSlice (type_OrderArtifact L)]"

definition type_OrderArtifactWorkflowStatus :: gtype where
  "type_OrderArtifactWorkflowStatus = TStruct [TInt, TStr, TStr]"

definition type_OrderStatus :: gtype where
  "type_OrderStatus = TStruct [TMap type_OrderArtifactWorkflowStatus]"

definition type_Order :: "library \<Rightarrow> gtype" where
  "type_Order L = TStruct [type_TypeMeta, ObjectMeta_type L, type_OrderSpec L, type_OrderStatus]"

definition type_OrderList :: "library \<Rightarrow> gtype" where
  "type_OrderList L = TStruct [type_TypeMeta, ListMeta_type L, TSlice (type_Order L)]"

definition type_ArtifactWorkflowParameter :: gtype where
  "type_ArtifactWorkflowParameter = TStruct [TStr, TStr]"

definition type_ArtifactWorkflowSpec :: gtype where
  "type_ArtifactWorkflowSpec = TStruct [TStr, TSlice type_ArtifactWorkflowParameter,
     type_LocalObjectReference, type_LocalObjectReference]"

definition type_ArtifactWorkflowStatus :: gtype where
  "type_ArtifactWorkflowStatus = TStruct [TStr, TStr]"

definition type_ArtifactWorkflow :: "library \<Rightarrow> gtype" where
  "type_ArtifactWorkflow L = TStruct [type_TypeMeta, ObjectMeta_type L, type_ArtifactWorkflowSpec,
     type_ArtifactWorkflowStatus]"

definition type_ArtifactWorkflowList :: "library \<Rightarrow> gtype" where
  "type_ArtifactWorkflowList L = TStruct [type_TypeMeta, ListMeta_type L, TSlice (type_ArtifactWorkflow L)]"

definition type_EndpointSpec :: gtype where
  "type_EndpointSpec = TStruct [TStr, TStr, type_LocalObjectReference, TStr]"

definition type_EndpointStatus :: gtype where
  "type_EndpointStatus = TStruct []"

definition type_Endpoint :: "library \<Rightarrow> gtype" where
  "type_Endpoint L = TStruct [type_TypeMeta, ObjectMeta_type L, type_EndpointSpec, type_EndpointStatus]"

definition type_EndpointList :: "library \<Rightarrow> gtype" where
  "type_EndpointList L = TStruct [type_TypeMeta, ListMeta_type L, TSlice (type_Endpoint L)]"

definition type_ArtifactTypeRules :: gtype where
  "type_ArtifactTypeRules = TStruct [TSlice TStr, TSlice TStr]"

definition type_ArtifactTypeSpec :: gtype where
  "type_ArtifactTypeSpec = TStruct [type_ArtifactTypeRules, TSlice type_ArtifactWorkflowParameter,
     type_LocalObjectReference]"

definition type_ArtifactTypeStatus :: gtype where
  "type_ArtifactTypeStatus = TStruct []"

definition type_ArtifactType :: "library \<Rightarrow> gtype" where
  "type_ArtifactType L = TStruct [type_TypeMeta, ObjectMeta_type L, type_ArtifactTypeSpec,
     type_ArtifactTypeStatus]"

definition type_ArtifactTypeList :: "library \<Rightarrow> gtype" where
  "type_ArtifactTypeList L = TStruct [type_TypeMeta, ListMeta_type L, TSlice (type_ArtifactType L)]"


locale library_copiers =
  fixes L :: library
  assumes ObjectMeta_copied: "deep_copier (ObjectMeta_type L) (ObjectMeta_DeepCopyInto L)"
    and ListMeta_copied: "deep_copier (ListMeta_type L) (ListMeta_DeepCopyInto L)"
    and RawExtension_copied: "deep_copier (RawExtension_type L) (RawExtension_DeepCopyInto L)"

text \<open>The reference copies of \<open>Deep_Copy\<close> are such methods, whatever the types are.\<close>

definition reference_library :: "gtype \<Rightarrow> gtype \<Rightarrow> gtype \<Rightarrow> library" where
  "reference_library o_type l_type r_type =
     \<lparr>ObjectMeta_type = o_type, ListMeta_type = l_type, RawExtension_type = r_type,
      ObjectMeta_DeepCopyInto = deep_copy o_type, ListMeta_DeepCopyInto = deep_copy l_type,
      RawExtension_DeepCopyInto = deep_copy r_type\<rparr>"

interpretation reference_copiers: library_copiers "reference_library o_type l_type r_type"
    for o_type l_type r_type
  by (rule library_copiers.intro) (simp_all add: reference_library_def deep_copier_deep_copy)

text \<open>The structs an assignment copies completely.\<close>

lemma flat_types [simp]:
  "flat type_TypeMeta"
  "flat type_LocalObjectReference"
  "flat type_OrderDefaults"
  "flat type_OrderArtifactWorkflowStatus"
  "flat type_ArtifactWorkflowParameter"
  "flat type_ArtifactWorkflowStatus"
  "flat type_EndpointSpec"
  "flat type_EndpointStatus"
  "flat type_ArtifactTypeStatus"
  by (simp_all add: type_TypeMeta_def type_LocalObjectReference_def type_OrderDefaults_def type_OrderArtifactWorkflowStatus_def type_ArtifactWorkflowParameter_def type_ArtifactWorkflowStatus_def type_EndpointSpec_def type_EndpointStatus_def type_ArtifactTypeStatus_def)

lemmas copy_statements = fields_ok_def All_less_Suc deep_copier_assign deep_copier_slice deep_copier_map

end
