(* ===== verification/Deep_Copy_V1alpha1.thy ===== *)
theory Deep_Copy_V1alpha1
  imports Deep_Copy_Types
begin

section \<open>Deep copies of the package v1alpha1\<close>

text \<open>
  \<^verbatim>\<open>api/arc/v1alpha1/zz_generated.deepcopy.go\<close>, method by method: the list given to \<open>into\<close> has the
  statements after \<open>*out = *in\<close>, each with the position of its field.
\<close>

definition OrderDefaults_DeepCopyInto :: copier where
  "OrderDefaults_DeepCopyInto = into [(0, assign), (1, assign)]"

definition OrderDefaults_DeepCopy :: copier where
  "OrderDefaults_DeepCopy = ptr_copy OrderDefaults_DeepCopyInto"

definition OrderArtifact_DeepCopyInto :: "library \<Rightarrow> copier" where
  "OrderArtifact_DeepCopyInto L = into [(1, assign), (2, assign), (3, RawExtension_DeepCopyInto L)]"

definition OrderArtifact_DeepCopy :: "library \<Rightarrow> copier" where
  "OrderArtifact_DeepCopy L = ptr_copy (OrderArtifact_DeepCopyInto L)"

definition OrderSpec_DeepCopyInto :: "library \<Rightarrow> copier" where
  "OrderSpec_DeepCopyInto L = into [(0, assign), (1, slice_copy (OrderArtifact_DeepCopyInto L))]"

definition OrderSpec_DeepCopy :: "library \<Rightarrow> copier" where
  "OrderSpec_DeepCopy L = ptr_copy (OrderSpec_DeepCopyInto L)"

definition OrderArtifactWorkflowStatus_DeepCopyInto :: copier where
  "OrderArtifactWorkflowStatus_DeepCopyInto = into []"

definition OrderArtifactWorkflowStatus_DeepCopy :: copier where
  "OrderArtifactWorkflowStatus_DeepCopy = ptr_copy OrderArtifactWorkflowStatus_DeepCopyInto"

definition OrderStatus_DeepCopyInto :: copier where
  "OrderStatus_DeepCopyInto = into [(0, map_copy assign)]"

definition OrderStatus_DeepCopy :: copier where
  "OrderStatus_DeepCopy = ptr_copy OrderStatus_DeepCopyInto"

definition Order_DeepCopyInto :: "library \<Rightarrow> copier" where
  "Order_DeepCopyInto L = into [(0, assign), (1, ObjectMeta_DeepCopyInto L), (2,
     OrderSpec_DeepCopyInto L), (3, OrderStatus_DeepCopyInto)]"

definition Order_DeepCopy :: "library \<Rightarrow> copier" where
  "Order_DeepCopy L = ptr_copy (Order_DeepCopyInto L)"

definition Order_DeepCopyObject :: "library \<Rightarrow> object_copier" where
  "Order_DeepCopyObject L = object_copy ''Order'' (Order_DeepCopy L)"

definition OrderList_DeepCopyInto :: "library \<Rightarrow> copier" where
  "OrderList_DeepCopyInto L = into [(0, assign), (1, ListMeta_DeepCopyInto L), (2,
     slice_copy (Order_DeepCopyInto L))]"

definition OrderList_DeepCopy :: "library \<Rightarrow> copier" where
  "OrderList_DeepCopy L = ptr_copy (OrderList_DeepCopyInto L)"

definition OrderList_DeepCopyObject :: "library \<Rightarrow> object_copier" where
  "OrderList_DeepCopyObject L = object_copy ''OrderList'' (OrderList_DeepCopy L)"

definition ArtifactWorkflowParameter_DeepCopyInto :: copier where
  "ArtifactWorkflowParameter_DeepCopyInto = into []"

definition ArtifactWorkflowParameter_DeepCopy :: copier where
  "ArtifactWorkflowParameter_DeepCopy = ptr_copy ArtifactWorkflowParameter_DeepCopyInto"

definition ArtifactWorkflowSpec_DeepCopyInto :: copier where
  "ArtifactWorkflowSpec_DeepCopyInto = into [(1, slice_copy assign), (2, assign), (3, assign)]"

definition ArtifactWorkflowSpec_DeepCopy :: copier where
  "ArtifactWorkflowSpec_DeepCopy = ptr_copy ArtifactWorkflowSpec_DeepCopyInto"

definition ArtifactWorkflowStatus_DeepCopyInto :: copier where
  "ArtifactWorkflowStatus_DeepCopyInto = into []"

definition ArtifactWorkflowStatus_DeepCopy :: copier where
  "ArtifactWorkflowStatus_DeepCopy = ptr_copy ArtifactWorkflowStatus_DeepCopyInto"

definition ArtifactWorkflow_DeepCopyInto :: "library \<Rightarrow> copier" where
  "ArtifactWorkflow_DeepCopyInto L = into [(0, assign), (1, ObjectMeta_DeepCopyInto L), (2,
     ArtifactWorkflowSpec_DeepCopyInto), (3, assign)]"

definition ArtifactWorkflow_DeepCopy :: "library \<Rightarrow> copier" where
  "ArtifactWorkflow_DeepCopy L = ptr_copy (ArtifactWorkflow_DeepCopyInto L)"

definition ArtifactWorkflow_DeepCopyObject :: "library \<Rightarrow> object_copier" where
  "ArtifactWorkflow_DeepCopyObject L = object_copy ''ArtifactWorkflow'' (ArtifactWorkflow_DeepCopy L)"

definition ArtifactWorkflowList_DeepCopyInto :: "library \<Rightarrow> copier" where
  "ArtifactWorkflowList_DeepCopyInto L = into [(0, assign), (1, ListMeta_DeepCopyInto L), (2,
     slice_copy (ArtifactWorkflow_DeepCopyInto L))]"

definition ArtifactWorkflowList_DeepCopy :: "library \<Rightarrow> copier" where
  "ArtifactWorkflowList_DeepCopy L = ptr_copy (ArtifactWorkflowList_DeepCopyInto L)"

definition ArtifactWorkflowList_DeepCopyObject :: "library \<Rightarrow> object_copier" where
  "ArtifactWorkflowList_DeepCopyObject L = object_copy ''ArtifactWorkflowList'' (ArtifactWorkflowList_DeepCopy L)"

definition EndpointSpec_DeepCopyInto :: copier where
  "EndpointSpec_DeepCopyInto = into [(2, assign)]"

definition EndpointSpec_DeepCopy :: copier where
  "EndpointSpec_DeepCopy = ptr_copy EndpointSpec_DeepCopyInto"

definition EndpointStatus_DeepCopyInto :: copier where
  "EndpointStatus_DeepCopyInto = into []"

definition EndpointStatus_DeepCopy :: copier where
  "EndpointStatus_DeepCopy = ptr_copy EndpointStatus_DeepCopyInto"

definition Endpoint_DeepCopyInto :: "library \<Rightarrow> copier" where
  "Endpoint_DeepCopyInto L = into [(0, assign), (1, ObjectMeta_DeepCopyInto L), (2, assign), (3, assign)]"

definition Endpoint_DeepCopy :: "library \<Rightarrow> copier" where
  "Endpoint_DeepCopy L = ptr_copy (Endpoint_DeepCopyInto L)"

definition Endpoint_DeepCopyObject :: "library \<Rightarrow> object_copier" where
  "Endpoint_DeepCopyObject L = object_copy ''Endpoint'' (Endpoint_DeepCopy L)"

definition EndpointList_DeepCopyInto :: "library \<Rightarrow> copier" where
  "EndpointList_DeepCopyInto L = into [(0, assign), (1, ListMeta_DeepCopyInto L), (2,
     slice_copy (Endpoint_DeepCopyInto L))]"

definition EndpointList_DeepCopy :: "library \<Rightarrow> copier" where
  "EndpointList_DeepCopy L = ptr_copy (EndpointList_DeepCopyInto L)"

definition EndpointList_DeepCopyObject :: "library \<Rightarrow> object_copier" where
  "EndpointList_DeepCopyObject L = object_copy ''EndpointList'' (EndpointList_DeepCopy L)"

definition ArtifactTypeRules_DeepCopyInto :: copier where
  "ArtifactTypeRules_DeepCopyInto = into [(0, slice_copy assign), (1, slice_copy assign)]"

definition ArtifactTypeRules_DeepCopy :: copier where
  "ArtifactTypeRules_DeepCopy = ptr_copy ArtifactTypeRules_DeepCopyInto"

definition ArtifactTypeSpec_DeepCopyInto :: copier where
  "ArtifactTypeSpec_DeepCopyInto = into [(0, ArtifactTypeRules_DeepCopyInto), (1, slice_copy assign), (2,
     assign)]"

definition ArtifactTypeSpec_DeepCopy :: copier where
  "ArtifactTypeSpec_DeepCopy = ptr_copy ArtifactTypeSpec_DeepCopyInto"

definition ArtifactTypeStatus_DeepCopyInto :: copier where
  "ArtifactTypeStatus_DeepCopyInto = into []"

definition ArtifactTypeStatus_DeepCopy :: copier where
  "ArtifactTypeStatus_DeepCopy = ptr_copy ArtifactTypeStatus_DeepCopyInto"

definition ArtifactType_DeepCopyInto :: "library \<Rightarrow> copier" where
  "ArtifactType_DeepCopyInto L = into [(0, assign), (1, ObjectMeta_DeepCopyInto L), (2,
     ArtifactTypeSpec_DeepCopyInto), (3, assign)]"

definition ArtifactType_DeepCopy :: "library \<Rightarrow> copier" where
  "ArtifactType_DeepCopy L = ptr_copy (ArtifactType_DeepCopyInto L)"

definition ArtifactType_DeepCopyObject :: "library \<Rightarrow> object_copier" where
  "ArtifactType_DeepCopyObject L = object_copy ''ArtifactType'' (ArtifactType_DeepCopy L)"

definition ArtifactTypeList_DeepCopyInto :: "library \<Rightarrow> copier" where
  "ArtifactTypeList_DeepCopyInto L = into [(0, assign), (1, ListMeta_DeepCopyInto L), (2,
     slice_copy (ArtifactType_DeepCopyInto L))]"

definition ArtifactTypeList_DeepCopy :: "library \<Rightarrow> copier" where
  "ArtifactTypeList_DeepCopy L = ptr_copy (ArtifactTypeList_DeepCopyInto L)"

definition ArtifactTypeList_DeepCopyObject :: "library \<Rightarrow> object_copier" where
  "ArtifactTypeList_DeepCopyObject L = object_copy ''ArtifactTypeList'' (ArtifactTypeList_DeepCopy L)"

definition v1alpha1_objects :: "library \<Rightarrow> (string \<times> gtype \<times> object_copier) list" where
  "v1alpha1_objects L =
     [(''ArtifactType'', type_ArtifactType L, ArtifactType_DeepCopyObject L),
      (''ArtifactTypeList'', type_ArtifactTypeList L, ArtifactTypeList_DeepCopyObject L),
      (''ArtifactWorkflow'', type_ArtifactWorkflow L, ArtifactWorkflow_DeepCopyObject L),
      (''ArtifactWorkflowList'', type_ArtifactWorkflowList L, ArtifactWorkflowList_DeepCopyObject L),
      (''Endpoint'', type_Endpoint L, Endpoint_DeepCopyObject L),
      (''EndpointList'', type_EndpointList L, EndpointList_DeepCopyObject L),
      (''Order'', type_Order L, Order_DeepCopyObject L),
      (''OrderList'', type_OrderList L, OrderList_DeepCopyObject L)]"

subsection \<open>They are deep copies\<close>

interpretation cv_OrderDefaults: deep_copier type_OrderDefaults OrderDefaults_DeepCopyInto
  unfolding type_OrderDefaults_def OrderDefaults_DeepCopyInto_def
  by (rule deep_copier_struct) (simp add: copy_statements)

interpretation cv_OrderArtifactWorkflowStatus: deep_copier type_OrderArtifactWorkflowStatus OrderArtifactWorkflowStatus_DeepCopyInto
  unfolding type_OrderArtifactWorkflowStatus_def OrderArtifactWorkflowStatus_DeepCopyInto_def
  by (rule deep_copier_struct) (simp add: copy_statements)

interpretation cv_OrderStatus: deep_copier type_OrderStatus OrderStatus_DeepCopyInto
  unfolding type_OrderStatus_def OrderStatus_DeepCopyInto_def
  by (rule deep_copier_struct) (simp add: copy_statements)

interpretation cv_ArtifactWorkflowParameter: deep_copier type_ArtifactWorkflowParameter ArtifactWorkflowParameter_DeepCopyInto
  unfolding type_ArtifactWorkflowParameter_def ArtifactWorkflowParameter_DeepCopyInto_def
  by (rule deep_copier_struct) (simp add: copy_statements)

interpretation cv_ArtifactWorkflowSpec: deep_copier type_ArtifactWorkflowSpec ArtifactWorkflowSpec_DeepCopyInto
  unfolding type_ArtifactWorkflowSpec_def ArtifactWorkflowSpec_DeepCopyInto_def
  by (rule deep_copier_struct) (simp add: copy_statements)

interpretation cv_ArtifactWorkflowStatus: deep_copier type_ArtifactWorkflowStatus ArtifactWorkflowStatus_DeepCopyInto
  unfolding type_ArtifactWorkflowStatus_def ArtifactWorkflowStatus_DeepCopyInto_def
  by (rule deep_copier_struct) (simp add: copy_statements)

interpretation cv_EndpointSpec: deep_copier type_EndpointSpec EndpointSpec_DeepCopyInto
  unfolding type_EndpointSpec_def EndpointSpec_DeepCopyInto_def
  by (rule deep_copier_struct) (simp add: copy_statements)

interpretation cv_EndpointStatus: deep_copier type_EndpointStatus EndpointStatus_DeepCopyInto
  unfolding type_EndpointStatus_def EndpointStatus_DeepCopyInto_def
  by (rule deep_copier_struct) (simp add: copy_statements)

interpretation cv_ArtifactTypeRules: deep_copier type_ArtifactTypeRules ArtifactTypeRules_DeepCopyInto
  unfolding type_ArtifactTypeRules_def ArtifactTypeRules_DeepCopyInto_def
  by (rule deep_copier_struct) (simp add: copy_statements)

interpretation cv_ArtifactTypeSpec: deep_copier type_ArtifactTypeSpec ArtifactTypeSpec_DeepCopyInto
  unfolding type_ArtifactTypeSpec_def ArtifactTypeSpec_DeepCopyInto_def
  by (rule deep_copier_struct) (simp add: copy_statements cv_ArtifactTypeRules.deep_copier_axioms)

interpretation cv_ArtifactTypeStatus: deep_copier type_ArtifactTypeStatus ArtifactTypeStatus_DeepCopyInto
  unfolding type_ArtifactTypeStatus_def ArtifactTypeStatus_DeepCopyInto_def
  by (rule deep_copier_struct) (simp add: copy_statements)

sublocale library_copiers < cv_OrderArtifact: deep_copier "type_OrderArtifact L" "OrderArtifact_DeepCopyInto L"
  unfolding type_OrderArtifact_def OrderArtifact_DeepCopyInto_def
  by (rule deep_copier_struct) (simp add: copy_statements RawExtension_copied)

sublocale library_copiers < cv_OrderSpec: deep_copier "type_OrderSpec L" "OrderSpec_DeepCopyInto L"
  unfolding type_OrderSpec_def OrderSpec_DeepCopyInto_def
  by (rule deep_copier_struct) (simp add: copy_statements cv_OrderArtifact.deep_copier_axioms)

sublocale library_copiers < cv_Order: deep_copier "type_Order L" "Order_DeepCopyInto L"
  unfolding type_Order_def Order_DeepCopyInto_def
  by (rule deep_copier_struct)
    (simp add: copy_statements cv_OrderSpec.deep_copier_axioms cv_OrderStatus.deep_copier_axioms ObjectMeta_copied)

sublocale library_copiers < cv_OrderList: deep_copier "type_OrderList L" "OrderList_DeepCopyInto L"
  unfolding type_OrderList_def OrderList_DeepCopyInto_def
  by (rule deep_copier_struct) (simp add: copy_statements cv_Order.deep_copier_axioms ListMeta_copied)

sublocale library_copiers < cv_ArtifactWorkflow: deep_copier "type_ArtifactWorkflow L" "ArtifactWorkflow_DeepCopyInto L"
  unfolding type_ArtifactWorkflow_def ArtifactWorkflow_DeepCopyInto_def
  by (rule deep_copier_struct)
    (simp add: copy_statements cv_ArtifactWorkflowSpec.deep_copier_axioms ObjectMeta_copied)

sublocale library_copiers < cv_ArtifactWorkflowList: deep_copier "type_ArtifactWorkflowList L" "ArtifactWorkflowList_DeepCopyInto L"
  unfolding type_ArtifactWorkflowList_def ArtifactWorkflowList_DeepCopyInto_def
  by (rule deep_copier_struct)
    (simp add: copy_statements cv_ArtifactWorkflow.deep_copier_axioms ListMeta_copied)

sublocale library_copiers < cv_Endpoint: deep_copier "type_Endpoint L" "Endpoint_DeepCopyInto L"
  unfolding type_Endpoint_def Endpoint_DeepCopyInto_def
  by (rule deep_copier_struct) (simp add: copy_statements ObjectMeta_copied)

sublocale library_copiers < cv_EndpointList: deep_copier "type_EndpointList L" "EndpointList_DeepCopyInto L"
  unfolding type_EndpointList_def EndpointList_DeepCopyInto_def
  by (rule deep_copier_struct) (simp add: copy_statements cv_Endpoint.deep_copier_axioms ListMeta_copied)

sublocale library_copiers < cv_ArtifactType: deep_copier "type_ArtifactType L" "ArtifactType_DeepCopyInto L"
  unfolding type_ArtifactType_def ArtifactType_DeepCopyInto_def
  by (rule deep_copier_struct)
    (simp add: copy_statements cv_ArtifactTypeSpec.deep_copier_axioms ObjectMeta_copied)

sublocale library_copiers < cv_ArtifactTypeList: deep_copier "type_ArtifactTypeList L" "ArtifactTypeList_DeepCopyInto L"
  unfolding type_ArtifactTypeList_def ArtifactTypeList_DeepCopyInto_def
  by (rule deep_copier_struct)
    (simp add: copy_statements cv_ArtifactType.deep_copier_axioms ListMeta_copied)

end
