(* ===== verification/Deep_Copy_Arc.thy ===== *)
theory Deep_Copy_Arc
  imports Deep_Copy_Types
begin

section \<open>Deep copies of the internal package\<close>

text \<open>
  \<^verbatim>\<open>api/arc/zz_generated.deepcopy.go\<close>, method by method, as \<open>Deep_Copy_V1alpha1\<close> does for the versioned
  package.
\<close>

definition arc_OrderDefaults_DeepCopyInto :: copier where
  "arc_OrderDefaults_DeepCopyInto = into [(0, assign), (1, assign)]"

definition arc_OrderDefaults_DeepCopy :: copier where
  "arc_OrderDefaults_DeepCopy = ptr_copy arc_OrderDefaults_DeepCopyInto"

definition arc_OrderArtifact_DeepCopyInto :: "library \<Rightarrow> copier" where
  "arc_OrderArtifact_DeepCopyInto L = into [(1, assign), (2, assign), (3, RawExtension_DeepCopyInto L)]"

definition arc_OrderArtifact_DeepCopy :: "library \<Rightarrow> copier" where
  "arc_OrderArtifact_DeepCopy L = ptr_copy (arc_OrderArtifact_DeepCopyInto L)"

definition arc_OrderSpec_DeepCopyInto :: "library \<Rightarrow> copier" where
  "arc_OrderSpec_DeepCopyInto L = into [(0, assign), (1, slice_copy (arc_OrderArtifact_DeepCopyInto L))]"

definition arc_OrderSpec_DeepCopy :: "library \<Rightarrow> copier" where
  "arc_OrderSpec_DeepCopy L = ptr_copy (arc_OrderSpec_DeepCopyInto L)"

definition arc_OrderArtifactWorkflowStatus_DeepCopyInto :: copier where
  "arc_OrderArtifactWorkflowStatus_DeepCopyInto = into []"

definition arc_OrderArtifactWorkflowStatus_DeepCopy :: copier where
  "arc_OrderArtifactWorkflowStatus_DeepCopy = ptr_copy arc_OrderArtifactWorkflowStatus_DeepCopyInto"

definition arc_OrderStatus_DeepCopyInto :: copier where
  "arc_OrderStatus_DeepCopyInto = into [(0, map_copy assign)]"

definition arc_OrderStatus_DeepCopy :: copier where
  "arc_OrderStatus_DeepCopy = ptr_copy arc_OrderStatus_DeepCopyInto"

definition arc_Order_DeepCopyInto :: "library \<Rightarrow> copier" where
  "arc_Order_DeepCopyInto L = into [(0, assign), (1, ObjectMeta_DeepCopyInto L), (2,
     arc_OrderSpec_DeepCopyInto L), (3, arc_OrderStatus_DeepCopyInto)]"

definition arc_Order_DeepCopy :: "library \<Rightarrow> copier" where
  "arc_Order_DeepCopy L = ptr_copy (arc_Order_DeepCopyInto L)"

definition arc_Order_DeepCopyObject :: "library \<Rightarrow> object_copier" where
  "arc_Order_DeepCopyObject L = object_copy ''Order'' (arc_Order_DeepCopy L)"

definition arc_OrderList_DeepCopyInto :: "library \<Rightarrow> copier" where
  "arc_OrderList_DeepCopyInto L = into [(0, assign), (1, ListMeta_DeepCopyInto L), (2,
     slice_copy (arc_Order_DeepCopyInto L))]"

definition arc_OrderList_DeepCopy :: "library \<Rightarrow> copier" where
  "arc_OrderList_DeepCopy L = ptr_copy (arc_OrderList_DeepCopyInto L)"

definition arc_OrderList_DeepCopyObject :: "library \<Rightarrow> object_copier" where
  "arc_OrderList_DeepCopyObject L = object_copy ''OrderList'' (arc_OrderList_DeepCopy L)"

definition arc_ArtifactWorkflowParameter_DeepCopyInto :: copier where
  "arc_ArtifactWorkflowParameter_DeepCopyInto = into []"

definition arc_ArtifactWorkflowParameter_DeepCopy :: copier where
  "arc_ArtifactWorkflowParameter_DeepCopy = ptr_copy arc_ArtifactWorkflowParameter_DeepCopyInto"

definition arc_ArtifactWorkflowSpec_DeepCopyInto :: copier where
  "arc_ArtifactWorkflowSpec_DeepCopyInto = into [(1, slice_copy assign), (2, assign), (3, assign)]"

definition arc_ArtifactWorkflowSpec_DeepCopy :: copier where
  "arc_ArtifactWorkflowSpec_DeepCopy = ptr_copy arc_ArtifactWorkflowSpec_DeepCopyInto"

definition arc_ArtifactWorkflowStatus_DeepCopyInto :: copier where
  "arc_ArtifactWorkflowStatus_DeepCopyInto = into []"

definition arc_ArtifactWorkflowStatus_DeepCopy :: copier where
  "arc_ArtifactWorkflowStatus_DeepCopy = ptr_copy arc_ArtifactWorkflowStatus_DeepCopyInto"

definition arc_ArtifactWorkflow_DeepCopyInto :: "library \<Rightarrow> copier" where
  "arc_ArtifactWorkflow_DeepCopyInto L = into [(0, assign), (1, ObjectMeta_DeepCopyInto L), (2,
     arc_ArtifactWorkflowSpec_DeepCopyInto), (3, assign)]"

definition arc_ArtifactWorkflow_DeepCopy :: "library \<Rightarrow> copier" where
  "arc_ArtifactWorkflow_DeepCopy L = ptr_copy (arc_ArtifactWorkflow_DeepCopyInto L)"

definition arc_ArtifactWorkflow_DeepCopyObject :: "library \<Rightarrow> object_copier" where
  "arc_ArtifactWorkflow_DeepCopyObject L = object_copy ''ArtifactWorkflow'' (arc_ArtifactWorkflow_DeepCopy L)"

definition arc_ArtifactWorkflowList_DeepCopyInto :: "library \<Rightarrow> copier" where
  "arc_ArtifactWorkflowList_DeepCopyInto L = into [(0, assign), (1, ListMeta_DeepCopyInto L), (2,
     slice_copy (arc_ArtifactWorkflow_DeepCopyInto L))]"

definition arc_ArtifactWorkflowList_DeepCopy :: "library \<Rightarrow> copier" where
  "arc_ArtifactWorkflowList_DeepCopy L = ptr_copy (arc_ArtifactWorkflowList_DeepCopyInto L)"

definition arc_ArtifactWorkflowList_DeepCopyObject :: "library \<Rightarrow> object_copier" where
  "arc_ArtifactWorkflowList_DeepCopyObject L = object_copy ''ArtifactWorkflowList'' (arc_ArtifactWorkflowList_DeepCopy L)"

definition arc_EndpointSpec_DeepCopyInto :: copier where
  "arc_EndpointSpec_DeepCopyInto = into [(2, assign)]"

definition arc_EndpointSpec_DeepCopy :: copier where
  "arc_EndpointSpec_DeepCopy = ptr_copy arc_EndpointSpec_DeepCopyInto"

definition arc_EndpointStatus_DeepCopyInto :: copier where
  "arc_EndpointStatus_DeepCopyInto = into []"

definition arc_EndpointStatus_DeepCopy :: copier where
  "arc_EndpointStatus_DeepCopy = ptr_copy arc_EndpointStatus_DeepCopyInto"

definition arc_Endpoint_DeepCopyInto :: "library \<Rightarrow> copier" where
  "arc_Endpoint_DeepCopyInto L = into [(0, assign), (1, ObjectMeta_DeepCopyInto L), (2, assign), (3,
     assign)]"

definition arc_Endpoint_DeepCopy :: "library \<Rightarrow> copier" where
  "arc_Endpoint_DeepCopy L = ptr_copy (arc_Endpoint_DeepCopyInto L)"

definition arc_Endpoint_DeepCopyObject :: "library \<Rightarrow> object_copier" where
  "arc_Endpoint_DeepCopyObject L = object_copy ''Endpoint'' (arc_Endpoint_DeepCopy L)"

definition arc_EndpointList_DeepCopyInto :: "library \<Rightarrow> copier" where
  "arc_EndpointList_DeepCopyInto L = into [(0, assign), (1, ListMeta_DeepCopyInto L), (2,
     slice_copy (arc_Endpoint_DeepCopyInto L))]"

definition arc_EndpointList_DeepCopy :: "library \<Rightarrow> copier" where
  "arc_EndpointList_DeepCopy L = ptr_copy (arc_EndpointList_DeepCopyInto L)"

definition arc_EndpointList_DeepCopyObject :: "library \<Rightarrow> object_copier" where
  "arc_EndpointList_DeepCopyObject L = object_copy ''EndpointList'' (arc_EndpointList_DeepCopy L)"

definition arc_ArtifactTypeRules_DeepCopyInto :: copier where
  "arc_ArtifactTypeRules_DeepCopyInto = into [(0, slice_copy assign), (1, slice_copy assign)]"

definition arc_ArtifactTypeRules_DeepCopy :: copier where
  "arc_ArtifactTypeRules_DeepCopy = ptr_copy arc_ArtifactTypeRules_DeepCopyInto"

definition arc_ArtifactTypeSpec_DeepCopyInto :: copier where
  "arc_ArtifactTypeSpec_DeepCopyInto = into [(0, arc_ArtifactTypeRules_DeepCopyInto), (1,
     slice_copy assign), (2, assign)]"

definition arc_ArtifactTypeSpec_DeepCopy :: copier where
  "arc_ArtifactTypeSpec_DeepCopy = ptr_copy arc_ArtifactTypeSpec_DeepCopyInto"

definition arc_ArtifactTypeStatus_DeepCopyInto :: copier where
  "arc_ArtifactTypeStatus_DeepCopyInto = into []"

definition arc_ArtifactTypeStatus_DeepCopy :: copier where
  "arc_ArtifactTypeStatus_DeepCopy = ptr_copy arc_ArtifactTypeStatus_DeepCopyInto"

definition arc_ArtifactType_DeepCopyInto :: "library \<Rightarrow> copier" where
  "arc_ArtifactType_DeepCopyInto L = into [(0, assign), (1, ObjectMeta_DeepCopyInto L), (2,
     arc_ArtifactTypeSpec_DeepCopyInto), (3, assign)]"

definition arc_ArtifactType_DeepCopy :: "library \<Rightarrow> copier" where
  "arc_ArtifactType_DeepCopy L = ptr_copy (arc_ArtifactType_DeepCopyInto L)"

definition arc_ArtifactType_DeepCopyObject :: "library \<Rightarrow> object_copier" where
  "arc_ArtifactType_DeepCopyObject L = object_copy ''ArtifactType'' (arc_ArtifactType_DeepCopy L)"

definition arc_ArtifactTypeList_DeepCopyInto :: "library \<Rightarrow> copier" where
  "arc_ArtifactTypeList_DeepCopyInto L = into [(0, assign), (1, ListMeta_DeepCopyInto L), (2,
     slice_copy (arc_ArtifactType_DeepCopyInto L))]"

definition arc_ArtifactTypeList_DeepCopy :: "library \<Rightarrow> copier" where
  "arc_ArtifactTypeList_DeepCopy L = ptr_copy (arc_ArtifactTypeList_DeepCopyInto L)"

definition arc_ArtifactTypeList_DeepCopyObject :: "library \<Rightarrow> object_copier" where
  "arc_ArtifactTypeList_DeepCopyObject L = object_copy ''ArtifactTypeList'' (arc_ArtifactTypeList_DeepCopy L)"

definition arc_objects :: "library \<Rightarrow> (string \<times> gtype \<times> object_copier) list" where
  "arc_objects L =
     [(''ArtifactType'', type_ArtifactType L, arc_ArtifactType_DeepCopyObject L),
      (''ArtifactTypeList'', type_ArtifactTypeList L, arc_ArtifactTypeList_DeepCopyObject L),
      (''ArtifactWorkflow'', type_ArtifactWorkflow L, arc_ArtifactWorkflow_DeepCopyObject L),
      (''ArtifactWorkflowList'', type_ArtifactWorkflowList L, arc_ArtifactWorkflowList_DeepCopyObject L),
      (''Endpoint'', type_Endpoint L, arc_Endpoint_DeepCopyObject L),
      (''EndpointList'', type_EndpointList L, arc_EndpointList_DeepCopyObject L),
      (''Order'', type_Order L, arc_Order_DeepCopyObject L),
      (''OrderList'', type_OrderList L, arc_OrderList_DeepCopyObject L)]"

subsection \<open>They are deep copies\<close>

interpretation ca_OrderDefaults: deep_copier type_OrderDefaults arc_OrderDefaults_DeepCopyInto
  unfolding type_OrderDefaults_def arc_OrderDefaults_DeepCopyInto_def
  by (rule deep_copier_struct) (simp add: copy_statements)

interpretation ca_OrderArtifactWorkflowStatus: deep_copier type_OrderArtifactWorkflowStatus arc_OrderArtifactWorkflowStatus_DeepCopyInto
  unfolding type_OrderArtifactWorkflowStatus_def arc_OrderArtifactWorkflowStatus_DeepCopyInto_def
  by (rule deep_copier_struct) (simp add: copy_statements)

interpretation ca_OrderStatus: deep_copier type_OrderStatus arc_OrderStatus_DeepCopyInto
  unfolding type_OrderStatus_def arc_OrderStatus_DeepCopyInto_def
  by (rule deep_copier_struct) (simp add: copy_statements)

interpretation ca_ArtifactWorkflowParameter: deep_copier type_ArtifactWorkflowParameter arc_ArtifactWorkflowParameter_DeepCopyInto
  unfolding type_ArtifactWorkflowParameter_def arc_ArtifactWorkflowParameter_DeepCopyInto_def
  by (rule deep_copier_struct) (simp add: copy_statements)

interpretation ca_ArtifactWorkflowSpec: deep_copier type_ArtifactWorkflowSpec arc_ArtifactWorkflowSpec_DeepCopyInto
  unfolding type_ArtifactWorkflowSpec_def arc_ArtifactWorkflowSpec_DeepCopyInto_def
  by (rule deep_copier_struct) (simp add: copy_statements)

interpretation ca_ArtifactWorkflowStatus: deep_copier type_ArtifactWorkflowStatus arc_ArtifactWorkflowStatus_DeepCopyInto
  unfolding type_ArtifactWorkflowStatus_def arc_ArtifactWorkflowStatus_DeepCopyInto_def
  by (rule deep_copier_struct) (simp add: copy_statements)

interpretation ca_EndpointSpec: deep_copier type_EndpointSpec arc_EndpointSpec_DeepCopyInto
  unfolding type_EndpointSpec_def arc_EndpointSpec_DeepCopyInto_def
  by (rule deep_copier_struct) (simp add: copy_statements)

interpretation ca_EndpointStatus: deep_copier type_EndpointStatus arc_EndpointStatus_DeepCopyInto
  unfolding type_EndpointStatus_def arc_EndpointStatus_DeepCopyInto_def
  by (rule deep_copier_struct) (simp add: copy_statements)

interpretation ca_ArtifactTypeRules: deep_copier type_ArtifactTypeRules arc_ArtifactTypeRules_DeepCopyInto
  unfolding type_ArtifactTypeRules_def arc_ArtifactTypeRules_DeepCopyInto_def
  by (rule deep_copier_struct) (simp add: copy_statements)

interpretation ca_ArtifactTypeSpec: deep_copier type_ArtifactTypeSpec arc_ArtifactTypeSpec_DeepCopyInto
  unfolding type_ArtifactTypeSpec_def arc_ArtifactTypeSpec_DeepCopyInto_def
  by (rule deep_copier_struct) (simp add: copy_statements ca_ArtifactTypeRules.deep_copier_axioms)

interpretation ca_ArtifactTypeStatus: deep_copier type_ArtifactTypeStatus arc_ArtifactTypeStatus_DeepCopyInto
  unfolding type_ArtifactTypeStatus_def arc_ArtifactTypeStatus_DeepCopyInto_def
  by (rule deep_copier_struct) (simp add: copy_statements)

sublocale library_copiers < ca_OrderArtifact: deep_copier "type_OrderArtifact L" "arc_OrderArtifact_DeepCopyInto L"
  unfolding type_OrderArtifact_def arc_OrderArtifact_DeepCopyInto_def
  by (rule deep_copier_struct) (simp add: copy_statements RawExtension_copied)

sublocale library_copiers < ca_OrderSpec: deep_copier "type_OrderSpec L" "arc_OrderSpec_DeepCopyInto L"
  unfolding type_OrderSpec_def arc_OrderSpec_DeepCopyInto_def
  by (rule deep_copier_struct) (simp add: copy_statements ca_OrderArtifact.deep_copier_axioms)

sublocale library_copiers < ca_Order: deep_copier "type_Order L" "arc_Order_DeepCopyInto L"
  unfolding type_Order_def arc_Order_DeepCopyInto_def
  by (rule deep_copier_struct)
    (simp add: copy_statements ca_OrderSpec.deep_copier_axioms ca_OrderStatus.deep_copier_axioms ObjectMeta_copied)

sublocale library_copiers < ca_OrderList: deep_copier "type_OrderList L" "arc_OrderList_DeepCopyInto L"
  unfolding type_OrderList_def arc_OrderList_DeepCopyInto_def
  by (rule deep_copier_struct) (simp add: copy_statements ca_Order.deep_copier_axioms ListMeta_copied)

sublocale library_copiers < ca_ArtifactWorkflow: deep_copier "type_ArtifactWorkflow L" "arc_ArtifactWorkflow_DeepCopyInto L"
  unfolding type_ArtifactWorkflow_def arc_ArtifactWorkflow_DeepCopyInto_def
  by (rule deep_copier_struct)
    (simp add: copy_statements ca_ArtifactWorkflowSpec.deep_copier_axioms ObjectMeta_copied)

sublocale library_copiers < ca_ArtifactWorkflowList: deep_copier "type_ArtifactWorkflowList L" "arc_ArtifactWorkflowList_DeepCopyInto L"
  unfolding type_ArtifactWorkflowList_def arc_ArtifactWorkflowList_DeepCopyInto_def
  by (rule deep_copier_struct)
    (simp add: copy_statements ca_ArtifactWorkflow.deep_copier_axioms ListMeta_copied)

sublocale library_copiers < ca_Endpoint: deep_copier "type_Endpoint L" "arc_Endpoint_DeepCopyInto L"
  unfolding type_Endpoint_def arc_Endpoint_DeepCopyInto_def
  by (rule deep_copier_struct) (simp add: copy_statements ObjectMeta_copied)

sublocale library_copiers < ca_EndpointList: deep_copier "type_EndpointList L" "arc_EndpointList_DeepCopyInto L"
  unfolding type_EndpointList_def arc_EndpointList_DeepCopyInto_def
  by (rule deep_copier_struct) (simp add: copy_statements ca_Endpoint.deep_copier_axioms ListMeta_copied)

sublocale library_copiers < ca_ArtifactType: deep_copier "type_ArtifactType L" "arc_ArtifactType_DeepCopyInto L"
  unfolding type_ArtifactType_def arc_ArtifactType_DeepCopyInto_def
  by (rule deep_copier_struct)
    (simp add: copy_statements ca_ArtifactTypeSpec.deep_copier_axioms ObjectMeta_copied)

sublocale library_copiers < ca_ArtifactTypeList: deep_copier "type_ArtifactTypeList L" "arc_ArtifactTypeList_DeepCopyInto L"
  unfolding type_ArtifactTypeList_def arc_ArtifactTypeList_DeepCopyInto_def
  by (rule deep_copier_struct)
    (simp add: copy_statements ca_ArtifactType.deep_copier_axioms ListMeta_copied)

end
