(* ===== verification/Deep_Copy_Theorems.thy ===== *)
theory Deep_Copy_Theorems
  imports Deep_Copy_V1alpha1 Deep_Copy_Arc
begin

section \<open>What a deep copy promises\<close>

text \<open>
  The property of all \<open>DeepCopyObject\<close> methods of both packages. Its proof has the deep copiers of the
  \<open>DeepCopy\<close> methods from the sublocales of \<open>library_copiers\<close>.
\<close>

lemma pointed:
  "deep_copier T c \<Longrightarrow> \<exists>c'. deep_copier (TPtr T) c' \<and> object_copy kind (ptr_copy c) = object_copy kind c'"
  by (blast intro: deep_copier_ptr)

context library_copiers
begin

lemma v1alpha1_copiers:
  "\<forall>(kind, T, copy) \<in> set (v1alpha1_objects L). \<exists>c. deep_copier (TPtr T) c \<and> copy = object_copy kind c"
  unfolding v1alpha1_objects_def
  by (simp add:
      pointed [OF cv_ArtifactType.deep_copier_axioms] pointed [OF cv_ArtifactTypeList.deep_copier_axioms]
      pointed [OF cv_ArtifactWorkflow.deep_copier_axioms]
      pointed [OF cv_ArtifactWorkflowList.deep_copier_axioms] pointed [OF cv_Endpoint.deep_copier_axioms]
      pointed [OF cv_EndpointList.deep_copier_axioms] pointed [OF cv_Order.deep_copier_axioms]
      pointed [OF cv_OrderList.deep_copier_axioms] ArtifactType_DeepCopyObject_def
      ArtifactTypeList_DeepCopyObject_def ArtifactWorkflow_DeepCopyObject_def
      ArtifactWorkflowList_DeepCopyObject_def Endpoint_DeepCopyObject_def
      EndpointList_DeepCopyObject_def Order_DeepCopyObject_def OrderList_DeepCopyObject_def
      ArtifactType_DeepCopy_def ArtifactTypeList_DeepCopy_def ArtifactWorkflow_DeepCopy_def
      ArtifactWorkflowList_DeepCopy_def Endpoint_DeepCopy_def EndpointList_DeepCopy_def
      Order_DeepCopy_def OrderList_DeepCopy_def)

lemma arc_copiers:
  "\<forall>(kind, T, copy) \<in> set (arc_objects L). \<exists>c. deep_copier (TPtr T) c \<and> copy = object_copy kind c"
  unfolding arc_objects_def
  by (simp add:
      pointed [OF ca_ArtifactType.deep_copier_axioms] pointed [OF ca_ArtifactTypeList.deep_copier_axioms]
      pointed [OF ca_ArtifactWorkflow.deep_copier_axioms]
      pointed [OF ca_ArtifactWorkflowList.deep_copier_axioms] pointed [OF ca_Endpoint.deep_copier_axioms]
      pointed [OF ca_EndpointList.deep_copier_axioms] pointed [OF ca_Order.deep_copier_axioms]
      pointed [OF ca_OrderList.deep_copier_axioms] arc_ArtifactType_DeepCopyObject_def
      arc_ArtifactTypeList_DeepCopyObject_def arc_ArtifactWorkflow_DeepCopyObject_def
      arc_ArtifactWorkflowList_DeepCopyObject_def arc_Endpoint_DeepCopyObject_def
      arc_EndpointList_DeepCopyObject_def arc_Order_DeepCopyObject_def arc_OrderList_DeepCopyObject_def
      arc_ArtifactType_DeepCopy_def arc_ArtifactTypeList_DeepCopy_def arc_ArtifactWorkflow_DeepCopy_def
      arc_ArtifactWorkflowList_DeepCopy_def arc_Endpoint_DeepCopy_def arc_EndpointList_DeepCopy_def
      arc_Order_DeepCopy_def arc_OrderList_DeepCopy_def)

end

lemma object_copy_independent:
  assumes "deep_copier (TPtr T) c" and "typed h (TPtr T) p"
  shows "\<exists>h' q. object_copy kind c h p = Some (h', if p = GNil then None else Some (kind, q)) \<and>
     prefix h h' \<and> (\<forall>a \<in> addrs (TPtr T) h' q. length h \<le> a) \<and>
     (\<forall>g. length h' \<le> length g \<and> (\<forall>a. length h \<le> a \<and> a < length h' \<longrightarrow> g ! a = h' ! a) \<longrightarrow>
        val (TPtr T) g q = val (TPtr T) h p) \<and>
     (\<forall>g. length h \<le> length g \<and> (\<forall>a < length h. g ! a = h' ! a) \<longrightarrow>
        val (TPtr T) g p = val (TPtr T) h p)"
proof -
  obtain h' q where q: "object_copy kind c h p = Some (h', if p = GNil then None else Some (kind, q))"
      "c h p = Some (h', q)" "copy_of h (TPtr T) p h' q"
    using object_copy_spec [OF assms] by blast
  show ?thesis
    using q deep_copier.copy_unaffected [OF assms q(2)] deep_copier.original_unaffected [OF assms q(2)]
    by (auto simp: copy_of_def)
qed

text \<open>
  C20: a deep copy is independent of its original. For every kind of both packages, \<open>DeepCopyObject\<close> of a
  pointer returns a nil interface exactly for nil (never an interface holding a nil pointer), leaves
  the old cells as they are, and the copy reaches new cells only. The copy reads like the original did,
  whatever is written to the old cells later, and the original keeps its value whatever is written to
  the new ones. The hypothesis is that the \<open>DeepCopyInto\<close> methods of \<open>ObjectMeta\<close>, \<open>ListMeta\<close> and
  \<open>RawExtension\<close>, which are library code, make deep copies.
\<close>

theorem deep_copies_independent:
  assumes "library_copiers L"
    and "(kind, T, copy) \<in> set (v1alpha1_objects L @ arc_objects L)"
    and "typed h (TPtr T) p"
  shows "\<exists>h' q. copy h p = Some (h', if p = GNil then None else Some (kind, q)) \<and>
     prefix h h' \<and> (\<forall>a \<in> addrs (TPtr T) h' q. length h \<le> a) \<and>
     (\<forall>g. length h' \<le> length g \<and> (\<forall>a. length h \<le> a \<and> a < length h' \<longrightarrow> g ! a = h' ! a) \<longrightarrow>
        val (TPtr T) g q = val (TPtr T) h p) \<and>
     (\<forall>g. length h \<le> length g \<and> (\<forall>a < length h. g ! a = h' ! a) \<longrightarrow>
        val (TPtr T) g p = val (TPtr T) h p)"
proof -
  obtain c where "deep_copier (TPtr T) c" "copy = object_copy kind c"
    using assms(2) library_copiers.v1alpha1_copiers [OF assms(1)] library_copiers.arc_copiers [OF assms(1)]
    by (auto dest!: bspec)
  then show ?thesis using object_copy_independent assms(3) by blast
qed

text \<open>
  An order with one artifact and one entry in its status, with the reference copies for the library's
  structs.
\<close>

definition demo_library :: library where
  "demo_library = reference_library (TStruct [TStr, TMap TStr]) (TStruct [TStr]) (TStruct [TSlice TInt])"

definition demo_heap :: heap where
  "demo_heap =
     [CMap [(''team'', GStr ''a'')],
      CSlice [GInt 123, GInt 125],
      CSlice [GStruct [GStr ''oci'', GStruct [GStr ''src''], GStruct [GStr ''dst''], GStruct [GRef 1]]],
      CMap [(''f00'', GStruct [GInt 0, GStr ''Running'', GStr ''''])],
      CTarget (GStruct [GStruct [GStr ''Order'', GStr ''v1alpha1''], GStruct [GStr ''order-1'', GRef 0],
                        GStruct [GStruct [GStruct [GStr ''''], GStruct [GStr '''']], GRef 2],
                        GStruct [GRef 3]])]"

theorem deep_copies_independent_witness:
  "(''Order'', type_Order demo_library, Order_DeepCopyObject demo_library)
      \<in> set (v1alpha1_objects demo_library @ arc_objects demo_library) \<and>
   (\<exists>h' q. Order_DeepCopyObject demo_library demo_heap (GRef 4) = Some (h', Some (''Order'', q)) \<and>
      (\<forall>a \<in> addrs (TPtr (type_Order demo_library)) h' q. 5 \<le> a) \<and>
      val (TPtr (type_Order demo_library)) (h'[3 := CMap []]) q
        = val (TPtr (type_Order demo_library)) demo_heap (GRef 4))"
proof -
  have m: "(''Order'', type_Order demo_library, Order_DeepCopyObject demo_library)
      \<in> set (v1alpha1_objects demo_library @ arc_objects demo_library)"
    by (simp add: v1alpha1_objects_def)
  have l: "library_copiers demo_library"
    unfolding demo_library_def by (rule reference_copiers.library_copiers_axioms)
  have t: "typed demo_heap (TPtr (type_Order demo_library)) (GRef 4)"
    by code_simp
  have len: "length demo_heap = 5" by (simp add: demo_heap_def)
  show ?thesis using m deep_copies_independent [OF l m t] by (fastforce simp: len)
qed

end
