(* ===== verification/Conversion_Registry.thy ===== *)
theory Conversion_Registry
  imports Conversion Registry
begin

section \<open>Registration of the conversions\<close>

text \<open>
  \<open>RegisterConversions\<close> hands the scheme one closure per pair of types. A closure asserts the dynamic types
  of its two arguments, which panics for another type, and calls the conversion function. The values of
  the two packages are the datatypes below, with the asserted types as their constructors. The scheme is
  the Kubernetes library's: \<open>add\<close> is its \<open>AddGeneratedConversionFunc\<close>.
\<close>

datatype v1alpha1_value =
    is_V_ArtifactType: V_ArtifactType (un_V_ArtifactType: ArtifactType)
  | is_V_ArtifactTypeList: V_ArtifactTypeList (un_V_ArtifactTypeList: ArtifactTypeList)
  | is_V_ArtifactTypeRules: V_ArtifactTypeRules (un_V_ArtifactTypeRules: ArtifactTypeRules)
  | is_V_ArtifactTypeSpec: V_ArtifactTypeSpec (un_V_ArtifactTypeSpec: ArtifactTypeSpec)
  | is_V_ArtifactTypeStatus: V_ArtifactTypeStatus (un_V_ArtifactTypeStatus: ArtifactTypeStatus)
  | is_V_ArtifactWorkflow: V_ArtifactWorkflow (un_V_ArtifactWorkflow: ArtifactWorkflow)
  | is_V_ArtifactWorkflowList: V_ArtifactWorkflowList (un_V_ArtifactWorkflowList: ArtifactWorkflowList)
  | is_V_ArtifactWorkflowParameter: V_ArtifactWorkflowParameter (un_V_ArtifactWorkflowParameter: ArtifactWorkflowParameter)
  | is_V_ArtifactWorkflowSpec: V_ArtifactWorkflowSpec (un_V_ArtifactWorkflowSpec: ArtifactWorkflowSpec)
  | is_V_ArtifactWorkflowStatus: V_ArtifactWorkflowStatus (un_V_ArtifactWorkflowStatus: ArtifactWorkflowStatus)
  | is_V_Endpoint: V_Endpoint (un_V_Endpoint: Endpoint)
  | is_V_EndpointList: V_EndpointList (un_V_EndpointList: EndpointList)
  | is_V_EndpointSpec: V_EndpointSpec (un_V_EndpointSpec: EndpointSpec)
  | is_V_EndpointStatus: V_EndpointStatus (un_V_EndpointStatus: EndpointStatus)
  | is_V_Order: V_Order (un_V_Order: Order)
  | is_V_OrderArtifact: V_OrderArtifact (un_V_OrderArtifact: OrderArtifact)
  | is_V_OrderArtifactWorkflowStatus: V_OrderArtifactWorkflowStatus (un_V_OrderArtifactWorkflowStatus: OrderArtifactWorkflowStatus)
  | is_V_OrderDefaults: V_OrderDefaults (un_V_OrderDefaults: OrderDefaults)
  | is_V_OrderList: V_OrderList (un_V_OrderList: OrderList)
  | is_V_OrderSpec: V_OrderSpec (un_V_OrderSpec: OrderSpec)
  | is_V_OrderStatus: V_OrderStatus (un_V_OrderStatus: OrderStatus)

datatype arc_value =
    is_A_ArtifactType: A_ArtifactType (un_A_ArtifactType: arc_ArtifactType)
  | is_A_ArtifactTypeList: A_ArtifactTypeList (un_A_ArtifactTypeList: arc_ArtifactTypeList)
  | is_A_ArtifactTypeRules: A_ArtifactTypeRules (un_A_ArtifactTypeRules: arc_ArtifactTypeRules)
  | is_A_ArtifactTypeSpec: A_ArtifactTypeSpec (un_A_ArtifactTypeSpec: arc_ArtifactTypeSpec)
  | is_A_ArtifactTypeStatus: A_ArtifactTypeStatus (un_A_ArtifactTypeStatus: arc_ArtifactTypeStatus)
  | is_A_ArtifactWorkflow: A_ArtifactWorkflow (un_A_ArtifactWorkflow: arc_ArtifactWorkflow)
  | is_A_ArtifactWorkflowList: A_ArtifactWorkflowList (un_A_ArtifactWorkflowList: arc_ArtifactWorkflowList)
  | is_A_ArtifactWorkflowParameter: A_ArtifactWorkflowParameter (un_A_ArtifactWorkflowParameter: arc_ArtifactWorkflowParameter)
  | is_A_ArtifactWorkflowSpec: A_ArtifactWorkflowSpec (un_A_ArtifactWorkflowSpec: arc_ArtifactWorkflowSpec)
  | is_A_ArtifactWorkflowStatus: A_ArtifactWorkflowStatus (un_A_ArtifactWorkflowStatus: arc_ArtifactWorkflowStatus)
  | is_A_Endpoint: A_Endpoint (un_A_Endpoint: arc_Endpoint)
  | is_A_EndpointList: A_EndpointList (un_A_EndpointList: arc_EndpointList)
  | is_A_EndpointSpec: A_EndpointSpec (un_A_EndpointSpec: arc_EndpointSpec)
  | is_A_EndpointStatus: A_EndpointStatus (un_A_EndpointStatus: arc_EndpointStatus)
  | is_A_Order: A_Order (un_A_Order: arc_Order)
  | is_A_OrderArtifact: A_OrderArtifact (un_A_OrderArtifact: arc_OrderArtifact)
  | is_A_OrderArtifactWorkflowStatus: A_OrderArtifactWorkflowStatus (un_A_OrderArtifactWorkflowStatus: arc_OrderArtifactWorkflowStatus)
  | is_A_OrderDefaults: A_OrderDefaults (un_A_OrderDefaults: arc_OrderDefaults)
  | is_A_OrderList: A_OrderList (un_A_OrderList: arc_OrderList)
  | is_A_OrderSpec: A_OrderSpec (un_A_OrderSpec: arc_OrderSpec)
  | is_A_OrderStatus: A_OrderStatus (un_A_OrderStatus: arc_OrderStatus)

definition v1alpha1_type :: "string \<Rightarrow> string" where
  "v1alpha1_type t = ''*v1alpha1.'' @ t"

definition arc_type :: "string \<Rightarrow> string" where
  "arc_type t = ''*arc.'' @ t"

fun type_of_v1alpha1 :: "v1alpha1_value \<Rightarrow> string" where
  "type_of_v1alpha1 (V_ArtifactType x) = v1alpha1_type ''ArtifactType''"
| "type_of_v1alpha1 (V_ArtifactTypeList x) = v1alpha1_type ''ArtifactTypeList''"
| "type_of_v1alpha1 (V_ArtifactTypeRules x) = v1alpha1_type ''ArtifactTypeRules''"
| "type_of_v1alpha1 (V_ArtifactTypeSpec x) = v1alpha1_type ''ArtifactTypeSpec''"
| "type_of_v1alpha1 (V_ArtifactTypeStatus x) = v1alpha1_type ''ArtifactTypeStatus''"
| "type_of_v1alpha1 (V_ArtifactWorkflow x) = v1alpha1_type ''ArtifactWorkflow''"
| "type_of_v1alpha1 (V_ArtifactWorkflowList x) = v1alpha1_type ''ArtifactWorkflowList''"
| "type_of_v1alpha1 (V_ArtifactWorkflowParameter x) = v1alpha1_type ''ArtifactWorkflowParameter''"
| "type_of_v1alpha1 (V_ArtifactWorkflowSpec x) = v1alpha1_type ''ArtifactWorkflowSpec''"
| "type_of_v1alpha1 (V_ArtifactWorkflowStatus x) = v1alpha1_type ''ArtifactWorkflowStatus''"
| "type_of_v1alpha1 (V_Endpoint x) = v1alpha1_type ''Endpoint''"
| "type_of_v1alpha1 (V_EndpointList x) = v1alpha1_type ''EndpointList''"
| "type_of_v1alpha1 (V_EndpointSpec x) = v1alpha1_type ''EndpointSpec''"
| "type_of_v1alpha1 (V_EndpointStatus x) = v1alpha1_type ''EndpointStatus''"
| "type_of_v1alpha1 (V_Order x) = v1alpha1_type ''Order''"
| "type_of_v1alpha1 (V_OrderArtifact x) = v1alpha1_type ''OrderArtifact''"
| "type_of_v1alpha1 (V_OrderArtifactWorkflowStatus x) = v1alpha1_type ''OrderArtifactWorkflowStatus''"
| "type_of_v1alpha1 (V_OrderDefaults x) = v1alpha1_type ''OrderDefaults''"
| "type_of_v1alpha1 (V_OrderList x) = v1alpha1_type ''OrderList''"
| "type_of_v1alpha1 (V_OrderSpec x) = v1alpha1_type ''OrderSpec''"
| "type_of_v1alpha1 (V_OrderStatus x) = v1alpha1_type ''OrderStatus''"

fun type_of_arc :: "arc_value \<Rightarrow> string" where
  "type_of_arc (A_ArtifactType x) = arc_type ''ArtifactType''"
| "type_of_arc (A_ArtifactTypeList x) = arc_type ''ArtifactTypeList''"
| "type_of_arc (A_ArtifactTypeRules x) = arc_type ''ArtifactTypeRules''"
| "type_of_arc (A_ArtifactTypeSpec x) = arc_type ''ArtifactTypeSpec''"
| "type_of_arc (A_ArtifactTypeStatus x) = arc_type ''ArtifactTypeStatus''"
| "type_of_arc (A_ArtifactWorkflow x) = arc_type ''ArtifactWorkflow''"
| "type_of_arc (A_ArtifactWorkflowList x) = arc_type ''ArtifactWorkflowList''"
| "type_of_arc (A_ArtifactWorkflowParameter x) = arc_type ''ArtifactWorkflowParameter''"
| "type_of_arc (A_ArtifactWorkflowSpec x) = arc_type ''ArtifactWorkflowSpec''"
| "type_of_arc (A_ArtifactWorkflowStatus x) = arc_type ''ArtifactWorkflowStatus''"
| "type_of_arc (A_Endpoint x) = arc_type ''Endpoint''"
| "type_of_arc (A_EndpointList x) = arc_type ''EndpointList''"
| "type_of_arc (A_EndpointSpec x) = arc_type ''EndpointSpec''"
| "type_of_arc (A_EndpointStatus x) = arc_type ''EndpointStatus''"
| "type_of_arc (A_Order x) = arc_type ''Order''"
| "type_of_arc (A_OrderArtifact x) = arc_type ''OrderArtifact''"
| "type_of_arc (A_OrderArtifactWorkflowStatus x) = arc_type ''OrderArtifactWorkflowStatus''"
| "type_of_arc (A_OrderDefaults x) = arc_type ''OrderDefaults''"
| "type_of_arc (A_OrderList x) = arc_type ''OrderList''"
| "type_of_arc (A_OrderSpec x) = arc_type ''OrderSpec''"
| "type_of_arc (A_OrderStatus x) = arc_type ''OrderStatus''"

text \<open>A conversion function as the scheme stores it.\<close>

datatype conversion_fn =
    ToArc "v1alpha1_value \<Rightarrow> arc_value \<Rightarrow> arc_value res"
  | ToV1alpha1 "arc_value \<Rightarrow> v1alpha1_value \<Rightarrow> v1alpha1_value res"

definition closure ::
  "('p \<Rightarrow> bool) \<Rightarrow> ('p \<Rightarrow> 'a) \<Rightarrow> ('q \<Rightarrow> bool) \<Rightarrow> ('q \<Rightarrow> 'b) \<Rightarrow> ('b \<Rightarrow> 'q) \<Rightarrow> ('a \<Rightarrow> 'b \<Rightarrow> go_error + 'b) \<Rightarrow> 'p \<Rightarrow> 'q \<Rightarrow> 'q res" where
  "closure isIn asIn isOut asOut wrap conv a b =
     (if isIn a \<and> isOut b then
        (case conv (asIn a) (asOut b) of Inl err \<Rightarrow> Inl (Err err) | Inr out \<Rightarrow> Inr (wrap out))
      else Inl type_assertion)"

text \<open>The calls of \<open>RegisterConversions\<close>, in its order.\<close>

definition generated_conversions :: "(string \<times> string \<times> conversion_fn) list" where
  "generated_conversions =
     [(v1alpha1_type ''ArtifactType'', arc_type ''ArtifactType'',
       ToArc (closure is_V_ArtifactType un_V_ArtifactType is_A_ArtifactType un_A_ArtifactType A_ArtifactType
         Convert_v1alpha1_ArtifactType_To_arc_ArtifactType)),
      (arc_type ''ArtifactType'', v1alpha1_type ''ArtifactType'',
       ToV1alpha1 (closure is_A_ArtifactType un_A_ArtifactType is_V_ArtifactType un_V_ArtifactType V_ArtifactType
         Convert_arc_ArtifactType_To_v1alpha1_ArtifactType)),
      (v1alpha1_type ''ArtifactTypeList'', arc_type ''ArtifactTypeList'',
       ToArc (closure is_V_ArtifactTypeList un_V_ArtifactTypeList is_A_ArtifactTypeList un_A_ArtifactTypeList A_ArtifactTypeList
         Convert_v1alpha1_ArtifactTypeList_To_arc_ArtifactTypeList)),
      (arc_type ''ArtifactTypeList'', v1alpha1_type ''ArtifactTypeList'',
       ToV1alpha1 (closure is_A_ArtifactTypeList un_A_ArtifactTypeList is_V_ArtifactTypeList un_V_ArtifactTypeList V_ArtifactTypeList
         Convert_arc_ArtifactTypeList_To_v1alpha1_ArtifactTypeList)),
      (v1alpha1_type ''ArtifactTypeRules'', arc_type ''ArtifactTypeRules'',
       ToArc (closure is_V_ArtifactTypeRules un_V_ArtifactTypeRules is_A_ArtifactTypeRules un_A_ArtifactTypeRules A_ArtifactTypeRules
         Convert_v1alpha1_ArtifactTypeRules_To_arc_ArtifactTypeRules)),
      (arc_type ''ArtifactTypeRules'', v1alpha1_type ''ArtifactTypeRules'',
       ToV1alpha1 (closure is_A_ArtifactTypeRules un_A_ArtifactTypeRules is_V_ArtifactTypeRules un_V_ArtifactTypeRules V_ArtifactTypeRules
         Convert_arc_ArtifactTypeRules_To_v1alpha1_ArtifactTypeRules)),
      (v1alpha1_type ''ArtifactTypeSpec'', arc_type ''ArtifactTypeSpec'',
       ToArc (closure is_V_ArtifactTypeSpec un_V_ArtifactTypeSpec is_A_ArtifactTypeSpec un_A_ArtifactTypeSpec A_ArtifactTypeSpec
         Convert_v1alpha1_ArtifactTypeSpec_To_arc_ArtifactTypeSpec)),
      (arc_type ''ArtifactTypeSpec'', v1alpha1_type ''ArtifactTypeSpec'',
       ToV1alpha1 (closure is_A_ArtifactTypeSpec un_A_ArtifactTypeSpec is_V_ArtifactTypeSpec un_V_ArtifactTypeSpec V_ArtifactTypeSpec
         Convert_arc_ArtifactTypeSpec_To_v1alpha1_ArtifactTypeSpec)),
      (v1alpha1_type ''ArtifactTypeStatus'', arc_type ''ArtifactTypeStatus'',
       ToArc (closure is_V_ArtifactTypeStatus un_V_ArtifactTypeStatus is_A_ArtifactTypeStatus un_A_ArtifactTypeStatus A_ArtifactTypeStatus
         Convert_v1alpha1_ArtifactTypeStatus_To_arc_ArtifactTypeStatus)),
      (arc_type ''ArtifactTypeStatus'', v1alpha1_type ''ArtifactTypeStatus'',
       ToV1alpha1 (closure is_A_ArtifactTypeStatus un_A_ArtifactTypeStatus is_V_ArtifactTypeStatus un_V_ArtifactTypeStatus V_ArtifactTypeStatus
         Convert_arc_ArtifactTypeStatus_To_v1alpha1_ArtifactTypeStatus)),
      (v1alpha1_type ''ArtifactWorkflow'', arc_type ''ArtifactWorkflow'',
       ToArc (closure is_V_ArtifactWorkflow un_V_ArtifactWorkflow is_A_ArtifactWorkflow un_A_ArtifactWorkflow A_ArtifactWorkflow
         Convert_v1alpha1_ArtifactWorkflow_To_arc_ArtifactWorkflow)),
      (arc_type ''ArtifactWorkflow'', v1alpha1_type ''ArtifactWorkflow'',
       ToV1alpha1 (closure is_A_ArtifactWorkflow un_A_ArtifactWorkflow is_V_ArtifactWorkflow un_V_ArtifactWorkflow V_ArtifactWorkflow
         Convert_arc_ArtifactWorkflow_To_v1alpha1_ArtifactWorkflow)),
      (v1alpha1_type ''ArtifactWorkflowList'', arc_type ''ArtifactWorkflowList'',
       ToArc (closure is_V_ArtifactWorkflowList un_V_ArtifactWorkflowList is_A_ArtifactWorkflowList un_A_ArtifactWorkflowList A_ArtifactWorkflowList
         Convert_v1alpha1_ArtifactWorkflowList_To_arc_ArtifactWorkflowList)),
      (arc_type ''ArtifactWorkflowList'', v1alpha1_type ''ArtifactWorkflowList'',
       ToV1alpha1 (closure is_A_ArtifactWorkflowList un_A_ArtifactWorkflowList is_V_ArtifactWorkflowList un_V_ArtifactWorkflowList V_ArtifactWorkflowList
         Convert_arc_ArtifactWorkflowList_To_v1alpha1_ArtifactWorkflowList)),
      (v1alpha1_type ''ArtifactWorkflowParameter'', arc_type ''ArtifactWorkflowParameter'',
       ToArc (closure is_V_ArtifactWorkflowParameter un_V_ArtifactWorkflowParameter is_A_ArtifactWorkflowParameter un_A_ArtifactWorkflowParameter A_ArtifactWorkflowParameter
         Convert_v1alpha1_ArtifactWorkflowParameter_To_arc_ArtifactWorkflowParameter)),
      (arc_type ''ArtifactWorkflowParameter'', v1alpha1_type ''ArtifactWorkflowParameter'',
       ToV1alpha1 (closure is_A_ArtifactWorkflowParameter un_A_ArtifactWorkflowParameter is_V_ArtifactWorkflowParameter un_V_ArtifactWorkflowParameter V_ArtifactWorkflowParameter
         Convert_arc_ArtifactWorkflowParameter_To_v1alpha1_ArtifactWorkflowParameter)),
      (v1alpha1_type ''ArtifactWorkflowSpec'', arc_type ''ArtifactWorkflowSpec'',
       ToArc (closure is_V_ArtifactWorkflowSpec un_V_ArtifactWorkflowSpec is_A_ArtifactWorkflowSpec un_A_ArtifactWorkflowSpec A_ArtifactWorkflowSpec
         Convert_v1alpha1_ArtifactWorkflowSpec_To_arc_ArtifactWorkflowSpec)),
      (arc_type ''ArtifactWorkflowSpec'', v1alpha1_type ''ArtifactWorkflowSpec'',
       ToV1alpha1 (closure is_A_ArtifactWorkflowSpec un_A_ArtifactWorkflowSpec is_V_ArtifactWorkflowSpec un_V_ArtifactWorkflowSpec V_ArtifactWorkflowSpec
         Convert_arc_ArtifactWorkflowSpec_To_v1alpha1_ArtifactWorkflowSpec)),
      (v1alpha1_type ''ArtifactWorkflowStatus'', arc_type ''ArtifactWorkflowStatus'',
       ToArc (closure is_V_ArtifactWorkflowStatus un_V_ArtifactWorkflowStatus is_A_ArtifactWorkflowStatus un_A_ArtifactWorkflowStatus A_ArtifactWorkflowStatus
         Convert_v1alpha1_ArtifactWorkflowStatus_To_arc_ArtifactWorkflowStatus)),
      (arc_type ''ArtifactWorkflowStatus'', v1alpha1_type ''ArtifactWorkflowStatus'',
       ToV1alpha1 (closure is_A_ArtifactWorkflowStatus un_A_ArtifactWorkflowStatus is_V_ArtifactWorkflowStatus un_V_ArtifactWorkflowStatus V_ArtifactWorkflowStatus
         Convert_arc_ArtifactWorkflowStatus_To_v1alpha1_ArtifactWorkflowStatus)),
      (v1alpha1_type ''Endpoint'', arc_type ''Endpoint'',
       ToArc (closure is_V_Endpoint un_V_Endpoint is_A_Endpoint un_A_Endpoint A_Endpoint
         Convert_v1alpha1_Endpoint_To_arc_Endpoint)),
      (arc_type ''Endpoint'', v1alpha1_type ''Endpoint'',
       ToV1alpha1 (closure is_A_Endpoint un_A_Endpoint is_V_Endpoint un_V_Endpoint V_Endpoint
         Convert_arc_Endpoint_To_v1alpha1_Endpoint)),
      (v1alpha1_type ''EndpointList'', arc_type ''EndpointList'',
       ToArc (closure is_V_EndpointList un_V_EndpointList is_A_EndpointList un_A_EndpointList A_EndpointList
         Convert_v1alpha1_EndpointList_To_arc_EndpointList)),
      (arc_type ''EndpointList'', v1alpha1_type ''EndpointList'',
       ToV1alpha1 (closure is_A_EndpointList un_A_EndpointList is_V_EndpointList un_V_EndpointList V_EndpointList
         Convert_arc_EndpointList_To_v1alpha1_EndpointList)),
      (v1alpha1_type ''EndpointSpec'', arc_type ''EndpointSpec'',
       ToArc (closure is_V_EndpointSpec un_V_EndpointSpec is_A_EndpointSpec un_A_EndpointSpec A_EndpointSpec
         Convert_v1alpha1_EndpointSpec_To_arc_EndpointSpec)),
      (arc_type ''EndpointSpec'', v1alpha1_type ''EndpointSpec'',
       ToV1alpha1 (closure is_A_EndpointSpec un_A_EndpointSpec is_V_EndpointSpec un_V_EndpointSpec V_EndpointSpec
         Convert_arc_EndpointSpec_To_v1alpha1_EndpointSpec)),
      (v1alpha1_type ''EndpointStatus'', arc_type ''EndpointStatus'',
       ToArc (closure is_V_EndpointStatus un_V_EndpointStatus is_A_EndpointStatus un_A_EndpointStatus A_EndpointStatus
         Convert_v1alpha1_EndpointStatus_To_arc_EndpointStatus)),
      (arc_type ''EndpointStatus'', v1alpha1_type ''EndpointStatus'',
       ToV1alpha1 (closure is_A_EndpointStatus un_A_EndpointStatus is_V_EndpointStatus un_V_EndpointStatus V_EndpointStatus
         Convert_arc_EndpointStatus_To_v1alpha1_EndpointStatus)),
      (v1alpha1_type ''Order'', arc_type ''Order'',
       ToArc (closure is_V_Order un_V_Order is_A_Order un_A_Order A_Order
         Convert_v1alpha1_Order_To_arc_Order)),
      (arc_type ''Order'', v1alpha1_type ''Order'',
       ToV1alpha1 (closure is_A_Order un_A_Order is_V_Order un_V_Order V_Order
         Convert_arc_Order_To_v1alpha1_Order)),
      (v1alpha1_type ''OrderArtifact'', arc_type ''OrderArtifact'',
       ToArc (closure is_V_OrderArtifact un_V_OrderArtifact is_A_OrderArtifact un_A_OrderArtifact A_OrderArtifact
         Convert_v1alpha1_OrderArtifact_To_arc_OrderArtifact)),
      (arc_type ''OrderArtifact'', v1alpha1_type ''OrderArtifact'',
       ToV1alpha1 (closure is_A_OrderArtifact un_A_OrderArtifact is_V_OrderArtifact un_V_OrderArtifact V_OrderArtifact
         Convert_arc_OrderArtifact_To_v1alpha1_OrderArtifact)),
      (v1alpha1_type ''OrderArtifactWorkflowStatus'', arc_type ''OrderArtifactWorkflowStatus'',
       ToArc (closure is_V_OrderArtifactWorkflowStatus un_V_OrderArtifactWorkflowStatus is_A_OrderArtifactWorkflowStatus un_A_OrderArtifactWorkflowStatus A_OrderArtifactWorkflowStatus
         Convert_v1alpha1_OrderArtifactWorkflowStatus_To_arc_OrderArtifactWorkflowStatus)),
      (arc_type ''OrderArtifactWorkflowStatus'', v1alpha1_type ''OrderArtifactWorkflowStatus'',
       ToV1alpha1 (closure is_A_OrderArtifactWorkflowStatus un_A_OrderArtifactWorkflowStatus is_V_OrderArtifactWorkflowStatus un_V_OrderArtifactWorkflowStatus V_OrderArtifactWorkflowStatus
         Convert_arc_OrderArtifactWorkflowStatus_To_v1alpha1_OrderArtifactWorkflowStatus)),
      (v1alpha1_type ''OrderDefaults'', arc_type ''OrderDefaults'',
       ToArc (closure is_V_OrderDefaults un_V_OrderDefaults is_A_OrderDefaults un_A_OrderDefaults A_OrderDefaults
         Convert_v1alpha1_OrderDefaults_To_arc_OrderDefaults)),
      (arc_type ''OrderDefaults'', v1alpha1_type ''OrderDefaults'',
       ToV1alpha1 (closure is_A_OrderDefaults un_A_OrderDefaults is_V_OrderDefaults un_V_OrderDefaults V_OrderDefaults
         Convert_arc_OrderDefaults_To_v1alpha1_OrderDefaults)),
      (v1alpha1_type ''OrderList'', arc_type ''OrderList'',
       ToArc (closure is_V_OrderList un_V_OrderList is_A_OrderList un_A_OrderList A_OrderList
         Convert_v1alpha1_OrderList_To_arc_OrderList)),
      (arc_type ''OrderList'', v1alpha1_type ''OrderList'',
       ToV1alpha1 (closure is_A_OrderList un_A_OrderList is_V_OrderList un_V_OrderList V_OrderList
         Convert_arc_OrderList_To_v1alpha1_OrderList)),
      (v1alpha1_type ''OrderSpec'', arc_type ''OrderSpec'',
       ToArc (closure is_V_OrderSpec un_V_OrderSpec is_A_OrderSpec un_A_OrderSpec A_OrderSpec
         Convert_v1alpha1_OrderSpec_To_arc_OrderSpec)),
      (arc_type ''OrderSpec'', v1alpha1_type ''OrderSpec'',
       ToV1alpha1 (closure is_A_OrderSpec un_A_OrderSpec is_V_OrderSpec un_V_OrderSpec V_OrderSpec
         Convert_arc_OrderSpec_To_v1alpha1_OrderSpec)),
      (v1alpha1_type ''OrderStatus'', arc_type ''OrderStatus'',
       ToArc (closure is_V_OrderStatus un_V_OrderStatus is_A_OrderStatus un_A_OrderStatus A_OrderStatus
         Convert_v1alpha1_OrderStatus_To_arc_OrderStatus)),
      (arc_type ''OrderStatus'', v1alpha1_type ''OrderStatus'',
       ToV1alpha1 (closure is_A_OrderStatus un_A_OrderStatus is_V_OrderStatus un_V_OrderStatus V_OrderStatus
         Convert_arc_OrderStatus_To_v1alpha1_OrderStatus))]"

fun add_conversions ::
  "(string \<Rightarrow> string \<Rightarrow> conversion_fn \<Rightarrow> 's \<Rightarrow> go_error + 's) \<Rightarrow> (string \<times> string \<times> conversion_fn) list \<Rightarrow> 's \<Rightarrow> go_error + 's" where
  "add_conversions add [] s = Inr s"
| "add_conversions add ((a, b, f) # ps) s =
     (case add a b f s of Inl err \<Rightarrow> Inl err | Inr s1 \<Rightarrow> add_conversions add ps s1)"

definition RegisterConversions ::
  "(string \<Rightarrow> string \<Rightarrow> conversion_fn \<Rightarrow> 's \<Rightarrow> go_error + 's) \<Rightarrow> 's \<Rightarrow> go_error + 's" where
  "RegisterConversions add s = add_conversions add generated_conversions s"

subsection \<open>What is registered\<close>

text \<open>A value with the \<open>TypeMeta\<close> of another one of its type, which the conversions do not assign.\<close>

definition retyped :: "v1alpha1_value \<Rightarrow> v1alpha1_value \<Rightarrow> v1alpha1_value" where
  "retyped p out =
     (case p of
        V_ArtifactType x \<Rightarrow> V_ArtifactType (x\<lparr>AT_TypeMeta := AT_TypeMeta (un_V_ArtifactType out)\<rparr>)
      | V_ArtifactWorkflow x \<Rightarrow> V_ArtifactWorkflow (x\<lparr>AW_TypeMeta := AW_TypeMeta (un_V_ArtifactWorkflow out)\<rparr>)
      | V_Endpoint x \<Rightarrow> V_Endpoint (x\<lparr>Endpoint_TypeMeta := Endpoint_TypeMeta (un_V_Endpoint out)\<rparr>)
      | V_Order x \<Rightarrow> V_Order (x\<lparr>Order_TypeMeta := Order_TypeMeta (un_V_Order out)\<rparr>)
      | V_ArtifactTypeList x \<Rightarrow> V_ArtifactTypeList (x\<lparr>ATList_TypeMeta := ATList_TypeMeta (un_V_ArtifactTypeList out)\<rparr>)
      | V_ArtifactWorkflowList x \<Rightarrow> V_ArtifactWorkflowList (x\<lparr>AWList_TypeMeta := AWList_TypeMeta (un_V_ArtifactWorkflowList out)\<rparr>)
      | V_EndpointList x \<Rightarrow> V_EndpointList (x\<lparr>EndpointList_TypeMeta := EndpointList_TypeMeta (un_V_EndpointList out)\<rparr>)
      | V_OrderList x \<Rightarrow> V_OrderList (x\<lparr>OrderList_TypeMeta := OrderList_TypeMeta (un_V_OrderList out)\<rparr>)
      | _ \<Rightarrow> p)"

definition closures_ok ::
  "string \<Rightarrow> string \<Rightarrow> (v1alpha1_value \<Rightarrow> arc_value \<Rightarrow> arc_value res) \<Rightarrow> (arc_value \<Rightarrow> v1alpha1_value \<Rightarrow> v1alpha1_value res) \<Rightarrow> bool" where
  "closures_ok tv ta f g \<longleftrightarrow>
     (\<forall>p q. type_of_v1alpha1 p = tv \<and> type_of_arc q = ta \<longrightarrow>
        (\<exists>y. f p q = Inr y \<and> type_of_arc y = ta \<and> (\<forall>p'. type_of_v1alpha1 p' = tv \<longrightarrow> g y p' = Inr (retyped p p')))) \<and>
     (\<forall>p q. type_of_v1alpha1 p \<noteq> tv \<or> type_of_arc q \<noteq> ta \<longrightarrow> f p q = Inl type_assertion \<and> g q p = Inl type_assertion)"

lemma closures_okI:
  assumes "conversion_pair conv unconv retype"
    and "\<And>p. type_of_v1alpha1 p = tv \<longleftrightarrow> isV p" and "\<And>q. type_of_arc q = ta \<longleftrightarrow> isA q"
    and "\<And>y. isA (wrapA y)" and "\<And>y. asA (wrapA y) = y"
    and "\<And>p p'. isV p \<Longrightarrow> isV p' \<Longrightarrow> retyped p p' = wrapV (retype (asV p) (asV p'))"
  shows "closures_ok tv ta (closure isV asV isA asA wrapA conv) (closure isA asA isV asV wrapV unconv)"
proof -
  have "\<exists>y. closure isV asV isA asA wrapA conv p q = Inr y \<and> type_of_arc y = ta \<and>
      (\<forall>p'. type_of_v1alpha1 p' = tv \<longrightarrow> closure isA asA isV asV wrapV unconv y p' = Inr (retyped p p'))"
    if "isV p" "isA q" for p q
  proof -
    obtain y where y: "conv (asV p) (asA q) = Inr y" using conversion_pair.total [OF assms(1)] by blast
    have "unconv y out = Inr (retype (asV p) out)" for out
      using conversion_pair.unconv_conv [OF assms(1) y] .
    then show ?thesis
      using y that by (intro exI [of _ "wrapA y"]) (simp add: closure_def assms(2-6))
  qed
  then show ?thesis by (auto simp: closures_ok_def closure_def assms(2,3))
qed

lemmas type_names = v1alpha1_type_def arc_type_def

lemma closures_ArtifactType:
  "closures_ok (v1alpha1_type ''ArtifactType'') (arc_type ''ArtifactType'')
     (closure is_V_ArtifactType un_V_ArtifactType is_A_ArtifactType un_A_ArtifactType A_ArtifactType
        Convert_v1alpha1_ArtifactType_To_arc_ArtifactType)
     (closure is_A_ArtifactType un_A_ArtifactType is_V_ArtifactType un_V_ArtifactType V_ArtifactType
        Convert_arc_ArtifactType_To_v1alpha1_ArtifactType)"
proof (rule closures_okI [OF v_ArtifactType.conversion_pair_axioms])
  show "type_of_v1alpha1 p = v1alpha1_type ''ArtifactType'' \<longleftrightarrow> is_V_ArtifactType p" for p
    by (cases p) (simp_all add: type_names)
  show "type_of_arc q = arc_type ''ArtifactType'' \<longleftrightarrow> is_A_ArtifactType q" for q
    by (cases q) (simp_all add: type_names)
qed (auto simp: is_V_ArtifactType_def retyped_def)

lemma closures_ArtifactTypeList:
  "closures_ok (v1alpha1_type ''ArtifactTypeList'') (arc_type ''ArtifactTypeList'')
     (closure is_V_ArtifactTypeList un_V_ArtifactTypeList is_A_ArtifactTypeList un_A_ArtifactTypeList A_ArtifactTypeList
        Convert_v1alpha1_ArtifactTypeList_To_arc_ArtifactTypeList)
     (closure is_A_ArtifactTypeList un_A_ArtifactTypeList is_V_ArtifactTypeList un_V_ArtifactTypeList V_ArtifactTypeList
        Convert_arc_ArtifactTypeList_To_v1alpha1_ArtifactTypeList)"
proof (rule closures_okI [OF v_ArtifactTypeList.conversion_pair_axioms])
  show "type_of_v1alpha1 p = v1alpha1_type ''ArtifactTypeList'' \<longleftrightarrow> is_V_ArtifactTypeList p" for p
    by (cases p) (simp_all add: type_names)
  show "type_of_arc q = arc_type ''ArtifactTypeList'' \<longleftrightarrow> is_A_ArtifactTypeList q" for q
    by (cases q) (simp_all add: type_names)
qed (auto simp: is_V_ArtifactTypeList_def retyped_def)

lemma closures_ArtifactTypeRules:
  "closures_ok (v1alpha1_type ''ArtifactTypeRules'') (arc_type ''ArtifactTypeRules'')
     (closure is_V_ArtifactTypeRules un_V_ArtifactTypeRules is_A_ArtifactTypeRules un_A_ArtifactTypeRules A_ArtifactTypeRules
        Convert_v1alpha1_ArtifactTypeRules_To_arc_ArtifactTypeRules)
     (closure is_A_ArtifactTypeRules un_A_ArtifactTypeRules is_V_ArtifactTypeRules un_V_ArtifactTypeRules V_ArtifactTypeRules
        Convert_arc_ArtifactTypeRules_To_v1alpha1_ArtifactTypeRules)"
proof (rule closures_okI [OF v_ArtifactTypeRules.conversion_pair_axioms])
  show "type_of_v1alpha1 p = v1alpha1_type ''ArtifactTypeRules'' \<longleftrightarrow> is_V_ArtifactTypeRules p" for p
    by (cases p) (simp_all add: type_names)
  show "type_of_arc q = arc_type ''ArtifactTypeRules'' \<longleftrightarrow> is_A_ArtifactTypeRules q" for q
    by (cases q) (simp_all add: type_names)
qed (auto simp: is_V_ArtifactTypeRules_def retyped_def)

lemma closures_ArtifactTypeSpec:
  "closures_ok (v1alpha1_type ''ArtifactTypeSpec'') (arc_type ''ArtifactTypeSpec'')
     (closure is_V_ArtifactTypeSpec un_V_ArtifactTypeSpec is_A_ArtifactTypeSpec un_A_ArtifactTypeSpec A_ArtifactTypeSpec
        Convert_v1alpha1_ArtifactTypeSpec_To_arc_ArtifactTypeSpec)
     (closure is_A_ArtifactTypeSpec un_A_ArtifactTypeSpec is_V_ArtifactTypeSpec un_V_ArtifactTypeSpec V_ArtifactTypeSpec
        Convert_arc_ArtifactTypeSpec_To_v1alpha1_ArtifactTypeSpec)"
proof (rule closures_okI [OF v_ArtifactTypeSpec.conversion_pair_axioms])
  show "type_of_v1alpha1 p = v1alpha1_type ''ArtifactTypeSpec'' \<longleftrightarrow> is_V_ArtifactTypeSpec p" for p
    by (cases p) (simp_all add: type_names)
  show "type_of_arc q = arc_type ''ArtifactTypeSpec'' \<longleftrightarrow> is_A_ArtifactTypeSpec q" for q
    by (cases q) (simp_all add: type_names)
qed (auto simp: is_V_ArtifactTypeSpec_def retyped_def)

lemma closures_ArtifactTypeStatus:
  "closures_ok (v1alpha1_type ''ArtifactTypeStatus'') (arc_type ''ArtifactTypeStatus'')
     (closure is_V_ArtifactTypeStatus un_V_ArtifactTypeStatus is_A_ArtifactTypeStatus un_A_ArtifactTypeStatus A_ArtifactTypeStatus
        Convert_v1alpha1_ArtifactTypeStatus_To_arc_ArtifactTypeStatus)
     (closure is_A_ArtifactTypeStatus un_A_ArtifactTypeStatus is_V_ArtifactTypeStatus un_V_ArtifactTypeStatus V_ArtifactTypeStatus
        Convert_arc_ArtifactTypeStatus_To_v1alpha1_ArtifactTypeStatus)"
proof (rule closures_okI [OF v_ArtifactTypeStatus.conversion_pair_axioms])
  show "type_of_v1alpha1 p = v1alpha1_type ''ArtifactTypeStatus'' \<longleftrightarrow> is_V_ArtifactTypeStatus p" for p
    by (cases p) (simp_all add: type_names)
  show "type_of_arc q = arc_type ''ArtifactTypeStatus'' \<longleftrightarrow> is_A_ArtifactTypeStatus q" for q
    by (cases q) (simp_all add: type_names)
qed (auto simp: is_V_ArtifactTypeStatus_def retyped_def)

lemma closures_ArtifactWorkflow:
  "closures_ok (v1alpha1_type ''ArtifactWorkflow'') (arc_type ''ArtifactWorkflow'')
     (closure is_V_ArtifactWorkflow un_V_ArtifactWorkflow is_A_ArtifactWorkflow un_A_ArtifactWorkflow A_ArtifactWorkflow
        Convert_v1alpha1_ArtifactWorkflow_To_arc_ArtifactWorkflow)
     (closure is_A_ArtifactWorkflow un_A_ArtifactWorkflow is_V_ArtifactWorkflow un_V_ArtifactWorkflow V_ArtifactWorkflow
        Convert_arc_ArtifactWorkflow_To_v1alpha1_ArtifactWorkflow)"
proof (rule closures_okI [OF v_ArtifactWorkflow.conversion_pair_axioms])
  show "type_of_v1alpha1 p = v1alpha1_type ''ArtifactWorkflow'' \<longleftrightarrow> is_V_ArtifactWorkflow p" for p
    by (cases p) (simp_all add: type_names)
  show "type_of_arc q = arc_type ''ArtifactWorkflow'' \<longleftrightarrow> is_A_ArtifactWorkflow q" for q
    by (cases q) (simp_all add: type_names)
qed (auto simp: is_V_ArtifactWorkflow_def retyped_def)

lemma closures_ArtifactWorkflowList:
  "closures_ok (v1alpha1_type ''ArtifactWorkflowList'') (arc_type ''ArtifactWorkflowList'')
     (closure is_V_ArtifactWorkflowList un_V_ArtifactWorkflowList is_A_ArtifactWorkflowList un_A_ArtifactWorkflowList A_ArtifactWorkflowList
        Convert_v1alpha1_ArtifactWorkflowList_To_arc_ArtifactWorkflowList)
     (closure is_A_ArtifactWorkflowList un_A_ArtifactWorkflowList is_V_ArtifactWorkflowList un_V_ArtifactWorkflowList V_ArtifactWorkflowList
        Convert_arc_ArtifactWorkflowList_To_v1alpha1_ArtifactWorkflowList)"
proof (rule closures_okI [OF v_ArtifactWorkflowList.conversion_pair_axioms])
  show "type_of_v1alpha1 p = v1alpha1_type ''ArtifactWorkflowList'' \<longleftrightarrow> is_V_ArtifactWorkflowList p" for p
    by (cases p) (simp_all add: type_names)
  show "type_of_arc q = arc_type ''ArtifactWorkflowList'' \<longleftrightarrow> is_A_ArtifactWorkflowList q" for q
    by (cases q) (simp_all add: type_names)
qed (auto simp: is_V_ArtifactWorkflowList_def retyped_def)

lemma closures_ArtifactWorkflowParameter:
  "closures_ok (v1alpha1_type ''ArtifactWorkflowParameter'') (arc_type ''ArtifactWorkflowParameter'')
     (closure is_V_ArtifactWorkflowParameter un_V_ArtifactWorkflowParameter is_A_ArtifactWorkflowParameter un_A_ArtifactWorkflowParameter A_ArtifactWorkflowParameter
        Convert_v1alpha1_ArtifactWorkflowParameter_To_arc_ArtifactWorkflowParameter)
     (closure is_A_ArtifactWorkflowParameter un_A_ArtifactWorkflowParameter is_V_ArtifactWorkflowParameter un_V_ArtifactWorkflowParameter V_ArtifactWorkflowParameter
        Convert_arc_ArtifactWorkflowParameter_To_v1alpha1_ArtifactWorkflowParameter)"
proof (rule closures_okI [OF v_ArtifactWorkflowParameter.conversion_pair_axioms])
  show "type_of_v1alpha1 p = v1alpha1_type ''ArtifactWorkflowParameter'' \<longleftrightarrow> is_V_ArtifactWorkflowParameter p" for p
    by (cases p) (simp_all add: type_names)
  show "type_of_arc q = arc_type ''ArtifactWorkflowParameter'' \<longleftrightarrow> is_A_ArtifactWorkflowParameter q" for q
    by (cases q) (simp_all add: type_names)
qed (auto simp: is_V_ArtifactWorkflowParameter_def retyped_def)

lemma closures_ArtifactWorkflowSpec:
  "closures_ok (v1alpha1_type ''ArtifactWorkflowSpec'') (arc_type ''ArtifactWorkflowSpec'')
     (closure is_V_ArtifactWorkflowSpec un_V_ArtifactWorkflowSpec is_A_ArtifactWorkflowSpec un_A_ArtifactWorkflowSpec A_ArtifactWorkflowSpec
        Convert_v1alpha1_ArtifactWorkflowSpec_To_arc_ArtifactWorkflowSpec)
     (closure is_A_ArtifactWorkflowSpec un_A_ArtifactWorkflowSpec is_V_ArtifactWorkflowSpec un_V_ArtifactWorkflowSpec V_ArtifactWorkflowSpec
        Convert_arc_ArtifactWorkflowSpec_To_v1alpha1_ArtifactWorkflowSpec)"
proof (rule closures_okI [OF v_ArtifactWorkflowSpec.conversion_pair_axioms])
  show "type_of_v1alpha1 p = v1alpha1_type ''ArtifactWorkflowSpec'' \<longleftrightarrow> is_V_ArtifactWorkflowSpec p" for p
    by (cases p) (simp_all add: type_names)
  show "type_of_arc q = arc_type ''ArtifactWorkflowSpec'' \<longleftrightarrow> is_A_ArtifactWorkflowSpec q" for q
    by (cases q) (simp_all add: type_names)
qed (auto simp: is_V_ArtifactWorkflowSpec_def retyped_def)

lemma closures_ArtifactWorkflowStatus:
  "closures_ok (v1alpha1_type ''ArtifactWorkflowStatus'') (arc_type ''ArtifactWorkflowStatus'')
     (closure is_V_ArtifactWorkflowStatus un_V_ArtifactWorkflowStatus is_A_ArtifactWorkflowStatus un_A_ArtifactWorkflowStatus A_ArtifactWorkflowStatus
        Convert_v1alpha1_ArtifactWorkflowStatus_To_arc_ArtifactWorkflowStatus)
     (closure is_A_ArtifactWorkflowStatus un_A_ArtifactWorkflowStatus is_V_ArtifactWorkflowStatus un_V_ArtifactWorkflowStatus V_ArtifactWorkflowStatus
        Convert_arc_ArtifactWorkflowStatus_To_v1alpha1_ArtifactWorkflowStatus)"
proof (rule closures_okI [OF v_ArtifactWorkflowStatus.conversion_pair_axioms])
  show "type_of_v1alpha1 p = v1alpha1_type ''ArtifactWorkflowStatus'' \<longleftrightarrow> is_V_ArtifactWorkflowStatus p" for p
    by (cases p) (simp_all add: type_names)
  show "type_of_arc q = arc_type ''ArtifactWorkflowStatus'' \<longleftrightarrow> is_A_ArtifactWorkflowStatus q" for q
    by (cases q) (simp_all add: type_names)
qed (auto simp: is_V_ArtifactWorkflowStatus_def retyped_def)

lemma closures_Endpoint:
  "closures_ok (v1alpha1_type ''Endpoint'') (arc_type ''Endpoint'')
     (closure is_V_Endpoint un_V_Endpoint is_A_Endpoint un_A_Endpoint A_Endpoint
        Convert_v1alpha1_Endpoint_To_arc_Endpoint)
     (closure is_A_Endpoint un_A_Endpoint is_V_Endpoint un_V_Endpoint V_Endpoint
        Convert_arc_Endpoint_To_v1alpha1_Endpoint)"
proof (rule closures_okI [OF v_Endpoint.conversion_pair_axioms])
  show "type_of_v1alpha1 p = v1alpha1_type ''Endpoint'' \<longleftrightarrow> is_V_Endpoint p" for p
    by (cases p) (simp_all add: type_names)
  show "type_of_arc q = arc_type ''Endpoint'' \<longleftrightarrow> is_A_Endpoint q" for q
    by (cases q) (simp_all add: type_names)
qed (auto simp: is_V_Endpoint_def retyped_def)

lemma closures_EndpointList:
  "closures_ok (v1alpha1_type ''EndpointList'') (arc_type ''EndpointList'')
     (closure is_V_EndpointList un_V_EndpointList is_A_EndpointList un_A_EndpointList A_EndpointList
        Convert_v1alpha1_EndpointList_To_arc_EndpointList)
     (closure is_A_EndpointList un_A_EndpointList is_V_EndpointList un_V_EndpointList V_EndpointList
        Convert_arc_EndpointList_To_v1alpha1_EndpointList)"
proof (rule closures_okI [OF v_EndpointList.conversion_pair_axioms])
  show "type_of_v1alpha1 p = v1alpha1_type ''EndpointList'' \<longleftrightarrow> is_V_EndpointList p" for p
    by (cases p) (simp_all add: type_names)
  show "type_of_arc q = arc_type ''EndpointList'' \<longleftrightarrow> is_A_EndpointList q" for q
    by (cases q) (simp_all add: type_names)
qed (auto simp: is_V_EndpointList_def retyped_def)

lemma closures_EndpointSpec:
  "closures_ok (v1alpha1_type ''EndpointSpec'') (arc_type ''EndpointSpec'')
     (closure is_V_EndpointSpec un_V_EndpointSpec is_A_EndpointSpec un_A_EndpointSpec A_EndpointSpec
        Convert_v1alpha1_EndpointSpec_To_arc_EndpointSpec)
     (closure is_A_EndpointSpec un_A_EndpointSpec is_V_EndpointSpec un_V_EndpointSpec V_EndpointSpec
        Convert_arc_EndpointSpec_To_v1alpha1_EndpointSpec)"
proof (rule closures_okI [OF v_EndpointSpec.conversion_pair_axioms])
  show "type_of_v1alpha1 p = v1alpha1_type ''EndpointSpec'' \<longleftrightarrow> is_V_EndpointSpec p" for p
    by (cases p) (simp_all add: type_names)
  show "type_of_arc q = arc_type ''EndpointSpec'' \<longleftrightarrow> is_A_EndpointSpec q" for q
    by (cases q) (simp_all add: type_names)
qed (auto simp: is_V_EndpointSpec_def retyped_def)

lemma closures_EndpointStatus:
  "closures_ok (v1alpha1_type ''EndpointStatus'') (arc_type ''EndpointStatus'')
     (closure is_V_EndpointStatus un_V_EndpointStatus is_A_EndpointStatus un_A_EndpointStatus A_EndpointStatus
        Convert_v1alpha1_EndpointStatus_To_arc_EndpointStatus)
     (closure is_A_EndpointStatus un_A_EndpointStatus is_V_EndpointStatus un_V_EndpointStatus V_EndpointStatus
        Convert_arc_EndpointStatus_To_v1alpha1_EndpointStatus)"
proof (rule closures_okI [OF v_EndpointStatus.conversion_pair_axioms])
  show "type_of_v1alpha1 p = v1alpha1_type ''EndpointStatus'' \<longleftrightarrow> is_V_EndpointStatus p" for p
    by (cases p) (simp_all add: type_names)
  show "type_of_arc q = arc_type ''EndpointStatus'' \<longleftrightarrow> is_A_EndpointStatus q" for q
    by (cases q) (simp_all add: type_names)
qed (auto simp: is_V_EndpointStatus_def retyped_def)

lemma closures_Order:
  "closures_ok (v1alpha1_type ''Order'') (arc_type ''Order'')
     (closure is_V_Order un_V_Order is_A_Order un_A_Order A_Order
        Convert_v1alpha1_Order_To_arc_Order)
     (closure is_A_Order un_A_Order is_V_Order un_V_Order V_Order
        Convert_arc_Order_To_v1alpha1_Order)"
proof (rule closures_okI [OF v_Order.conversion_pair_axioms])
  show "type_of_v1alpha1 p = v1alpha1_type ''Order'' \<longleftrightarrow> is_V_Order p" for p
    by (cases p) (simp_all add: type_names)
  show "type_of_arc q = arc_type ''Order'' \<longleftrightarrow> is_A_Order q" for q
    by (cases q) (simp_all add: type_names)
qed (auto simp: is_V_Order_def retyped_def)

lemma closures_OrderArtifact:
  "closures_ok (v1alpha1_type ''OrderArtifact'') (arc_type ''OrderArtifact'')
     (closure is_V_OrderArtifact un_V_OrderArtifact is_A_OrderArtifact un_A_OrderArtifact A_OrderArtifact
        Convert_v1alpha1_OrderArtifact_To_arc_OrderArtifact)
     (closure is_A_OrderArtifact un_A_OrderArtifact is_V_OrderArtifact un_V_OrderArtifact V_OrderArtifact
        Convert_arc_OrderArtifact_To_v1alpha1_OrderArtifact)"
proof (rule closures_okI [OF v_OrderArtifact.conversion_pair_axioms])
  show "type_of_v1alpha1 p = v1alpha1_type ''OrderArtifact'' \<longleftrightarrow> is_V_OrderArtifact p" for p
    by (cases p) (simp_all add: type_names)
  show "type_of_arc q = arc_type ''OrderArtifact'' \<longleftrightarrow> is_A_OrderArtifact q" for q
    by (cases q) (simp_all add: type_names)
qed (auto simp: is_V_OrderArtifact_def retyped_def)

lemma closures_OrderArtifactWorkflowStatus:
  "closures_ok (v1alpha1_type ''OrderArtifactWorkflowStatus'') (arc_type ''OrderArtifactWorkflowStatus'')
     (closure is_V_OrderArtifactWorkflowStatus un_V_OrderArtifactWorkflowStatus is_A_OrderArtifactWorkflowStatus un_A_OrderArtifactWorkflowStatus A_OrderArtifactWorkflowStatus
        Convert_v1alpha1_OrderArtifactWorkflowStatus_To_arc_OrderArtifactWorkflowStatus)
     (closure is_A_OrderArtifactWorkflowStatus un_A_OrderArtifactWorkflowStatus is_V_OrderArtifactWorkflowStatus un_V_OrderArtifactWorkflowStatus V_OrderArtifactWorkflowStatus
        Convert_arc_OrderArtifactWorkflowStatus_To_v1alpha1_OrderArtifactWorkflowStatus)"
proof (rule closures_okI [OF v_OrderArtifactWorkflowStatus.conversion_pair_axioms])
  show "type_of_v1alpha1 p = v1alpha1_type ''OrderArtifactWorkflowStatus'' \<longleftrightarrow> is_V_OrderArtifactWorkflowStatus p" for p
    by (cases p) (simp_all add: type_names)
  show "type_of_arc q = arc_type ''OrderArtifactWorkflowStatus'' \<longleftrightarrow> is_A_OrderArtifactWorkflowStatus q" for q
    by (cases q) (simp_all add: type_names)
qed (auto simp: is_V_OrderArtifactWorkflowStatus_def retyped_def)

lemma closures_OrderDefaults:
  "closures_ok (v1alpha1_type ''OrderDefaults'') (arc_type ''OrderDefaults'')
     (closure is_V_OrderDefaults un_V_OrderDefaults is_A_OrderDefaults un_A_OrderDefaults A_OrderDefaults
        Convert_v1alpha1_OrderDefaults_To_arc_OrderDefaults)
     (closure is_A_OrderDefaults un_A_OrderDefaults is_V_OrderDefaults un_V_OrderDefaults V_OrderDefaults
        Convert_arc_OrderDefaults_To_v1alpha1_OrderDefaults)"
proof (rule closures_okI [OF v_OrderDefaults.conversion_pair_axioms])
  show "type_of_v1alpha1 p = v1alpha1_type ''OrderDefaults'' \<longleftrightarrow> is_V_OrderDefaults p" for p
    by (cases p) (simp_all add: type_names)
  show "type_of_arc q = arc_type ''OrderDefaults'' \<longleftrightarrow> is_A_OrderDefaults q" for q
    by (cases q) (simp_all add: type_names)
qed (auto simp: is_V_OrderDefaults_def retyped_def)

lemma closures_OrderList:
  "closures_ok (v1alpha1_type ''OrderList'') (arc_type ''OrderList'')
     (closure is_V_OrderList un_V_OrderList is_A_OrderList un_A_OrderList A_OrderList
        Convert_v1alpha1_OrderList_To_arc_OrderList)
     (closure is_A_OrderList un_A_OrderList is_V_OrderList un_V_OrderList V_OrderList
        Convert_arc_OrderList_To_v1alpha1_OrderList)"
proof (rule closures_okI [OF v_OrderList.conversion_pair_axioms])
  show "type_of_v1alpha1 p = v1alpha1_type ''OrderList'' \<longleftrightarrow> is_V_OrderList p" for p
    by (cases p) (simp_all add: type_names)
  show "type_of_arc q = arc_type ''OrderList'' \<longleftrightarrow> is_A_OrderList q" for q
    by (cases q) (simp_all add: type_names)
qed (auto simp: is_V_OrderList_def retyped_def)

lemma closures_OrderSpec:
  "closures_ok (v1alpha1_type ''OrderSpec'') (arc_type ''OrderSpec'')
     (closure is_V_OrderSpec un_V_OrderSpec is_A_OrderSpec un_A_OrderSpec A_OrderSpec
        Convert_v1alpha1_OrderSpec_To_arc_OrderSpec)
     (closure is_A_OrderSpec un_A_OrderSpec is_V_OrderSpec un_V_OrderSpec V_OrderSpec
        Convert_arc_OrderSpec_To_v1alpha1_OrderSpec)"
proof (rule closures_okI [OF v_OrderSpec.conversion_pair_axioms])
  show "type_of_v1alpha1 p = v1alpha1_type ''OrderSpec'' \<longleftrightarrow> is_V_OrderSpec p" for p
    by (cases p) (simp_all add: type_names)
  show "type_of_arc q = arc_type ''OrderSpec'' \<longleftrightarrow> is_A_OrderSpec q" for q
    by (cases q) (simp_all add: type_names)
qed (auto simp: is_V_OrderSpec_def retyped_def)

lemma closures_OrderStatus:
  "closures_ok (v1alpha1_type ''OrderStatus'') (arc_type ''OrderStatus'')
     (closure is_V_OrderStatus un_V_OrderStatus is_A_OrderStatus un_A_OrderStatus A_OrderStatus
        Convert_v1alpha1_OrderStatus_To_arc_OrderStatus)
     (closure is_A_OrderStatus un_A_OrderStatus is_V_OrderStatus un_V_OrderStatus V_OrderStatus
        Convert_arc_OrderStatus_To_v1alpha1_OrderStatus)"
proof (rule closures_okI [OF v_OrderStatus.conversion_pair_axioms])
  show "type_of_v1alpha1 p = v1alpha1_type ''OrderStatus'' \<longleftrightarrow> is_V_OrderStatus p" for p
    by (cases p) (simp_all add: type_names)
  show "type_of_arc q = arc_type ''OrderStatus'' \<longleftrightarrow> is_A_OrderStatus q" for q
    by (cases q) (simp_all add: type_names)
qed (auto simp: is_V_OrderStatus_def retyped_def)

lemmas closures =
  closures_ArtifactType
  closures_ArtifactTypeList
  closures_ArtifactTypeRules
  closures_ArtifactTypeSpec
  closures_ArtifactTypeStatus
  closures_ArtifactWorkflow
  closures_ArtifactWorkflowList
  closures_ArtifactWorkflowParameter
  closures_ArtifactWorkflowSpec
  closures_ArtifactWorkflowStatus
  closures_Endpoint
  closures_EndpointList
  closures_EndpointSpec
  closures_EndpointStatus
  closures_Order
  closures_OrderArtifact
  closures_OrderArtifactWorkflowStatus
  closures_OrderDefaults
  closures_OrderList
  closures_OrderSpec
  closures_OrderStatus

lemma add_conversions_registered:
  assumes "\<And>a b f s s1. add a b f s = Inr s1 \<Longrightarrow> reg s1 = (reg s)((a, b) \<mapsto> f)"
    and "add_conversions add ps s = Inr t" and "distinct (map (\<lambda>(a, b, f). (a, b)) ps)" and "(a, b, f) \<in> set ps"
  shows "reg t (a, b) = Some f"
proof -
  have kept: "reg t k = reg s k" if "add_conversions add ps s = Inr t" "k \<notin> set (map (\<lambda>(a, b, f). (a, b)) ps)" for ps s t k
    using that
  proof (induction ps arbitrary: s)
    case (Cons p ps)
    obtain a b f where "p = (a, b, f)" by (cases p)
    with Cons show ?case by (auto split: sum.splits dest: assms(1))
  qed simp
  show ?thesis using assms(2-4)
  proof (induction ps arbitrary: s)
    case (Cons p ps)
    obtain a1 b1 f1 where p: "p = (a1, b1, f1)" by (cases p)
    obtain s1 where s1: "add a1 b1 f1 s = Inr s1" "add_conversions add ps s1 = Inr t"
      using Cons.prems(1) by (auto simp: p split: sum.splits)
    show ?case
    proof (cases "(a, b, f) \<in> set ps")
      case True
      then show ?thesis using Cons.IH [OF s1(2)] Cons.prems(2) by simp
    next
      case False
      then have "(a, b, f) = (a1, b1, f1)" using Cons.prems(3) by (simp add: p)
      then show ?thesis using kept [OF s1(2), of "(a1, b1)"] Cons.prems(2) assms(1) [OF s1(1)] by (auto simp: p)
    qed
  qed simp
qed

definition conversion_types :: "string list" where
  "conversion_types =
     [''ArtifactType'', ''ArtifactTypeList'', ''ArtifactTypeRules'', ''ArtifactTypeSpec'', ''ArtifactTypeStatus'',
      ''ArtifactWorkflow'', ''ArtifactWorkflowList'', ''ArtifactWorkflowParameter'', ''ArtifactWorkflowSpec'',
      ''ArtifactWorkflowStatus'', ''Endpoint'', ''EndpointList'', ''EndpointSpec'', ''EndpointStatus'', ''Order'',
      ''OrderArtifact'', ''OrderArtifactWorkflowStatus'', ''OrderDefaults'', ''OrderList'', ''OrderSpec'', ''OrderStatus'']"

lemma distinct_conversions: "distinct (map (\<lambda>(a, b, f). (a, b)) generated_conversions)"
  by (simp add: generated_conversions_def type_names)

definition paired :: "string \<Rightarrow> bool" where
  "paired x \<longleftrightarrow> (\<exists>f g. (v1alpha1_type x, arc_type x, ToArc f) \<in> set generated_conversions \<and>
     (arc_type x, v1alpha1_type x, ToV1alpha1 g) \<in> set generated_conversions \<and>
     closures_ok (v1alpha1_type x) (arc_type x) f g)"

lemma pairedI:
  "closures_ok (v1alpha1_type x) (arc_type x) f g \<Longrightarrow>
   (v1alpha1_type x, arc_type x, ToArc f) \<in> set generated_conversions \<Longrightarrow>
   (arc_type x, v1alpha1_type x, ToV1alpha1 g) \<in> set generated_conversions \<Longrightarrow> paired x"
  by (auto simp: paired_def)

lemma generated_pairs: "list_all paired conversion_types"
  unfolding conversion_types_def list.pred_inject(2)
  by (intro conjI list.pred_inject(1);
      ((rule pairedI, rule closures); (simp only: generated_conversions_def list.set insert_iff simp_thms)))

text \<open>
  For a scheme that keeps the function added last for a pair of types, registration ends without error
  only with all 21 types registered in both directions, by functions that belong together: given values of
  their types they never fail, the first returns a value of the internal type, and the second turns it
  back into the value converted, with the \<open>TypeMeta\<close> of its output; given a value of another type they
  panic in the type assertion.
\<close>

lemma registered_both_ways:
  assumes "\<And>a b f s s1. add a b f s = Inr s1 \<Longrightarrow> reg s1 = (reg s)((a, b) \<mapsto> f)"
    and "RegisterConversions add s = Inr t" and "x \<in> set conversion_types"
  shows "\<exists>f g. reg t (v1alpha1_type x, arc_type x) = Some (ToArc f) \<and>
    reg t (arc_type x, v1alpha1_type x) = Some (ToV1alpha1 g) \<and>
    (\<forall>p q. type_of_v1alpha1 p = v1alpha1_type x \<and> type_of_arc q = arc_type x \<longrightarrow>
       (\<exists>y. f p q = Inr y \<and> type_of_arc y = arc_type x \<and>
          (\<forall>p'. type_of_v1alpha1 p' = v1alpha1_type x \<longrightarrow> g y p' = Inr (retyped p p')))) \<and>
    (\<forall>p q. type_of_v1alpha1 p \<noteq> v1alpha1_type x \<or> type_of_arc q \<noteq> arc_type x \<longrightarrow>
       f p q = Inl type_assertion \<and> g q p = Inl type_assertion)"
proof -
  obtain f g where fg: "(v1alpha1_type x, arc_type x, ToArc f) \<in> set generated_conversions"
      "(arc_type x, v1alpha1_type x, ToV1alpha1 g) \<in> set generated_conversions"
      "closures_ok (v1alpha1_type x) (arc_type x) f g"
    using generated_pairs assms(3) unfolding list_all_iff paired_def by blast
  have "reg t (v1alpha1_type x, arc_type x) = Some (ToArc f)" "reg t (arc_type x, v1alpha1_type x) = Some (ToV1alpha1 g)"
    using add_conversions_registered [OF assms(1) _ distinct_conversions] assms(2) fg(1,2)
    by (auto simp: RegisterConversions_def)
  with fg(3) show ?thesis by (auto simp: closures_ok_def)
qed

end
