(* ===== verification/Clientset.thy ===== *)
theory Clientset
  imports Complex_Main Registry
begin

section \<open>The clientset (\<^verbatim>\<open>client-go/clientset/versioned\<close>)\<close>

text \<open>
  How a client for the API group is built from a \<open>rest.Config\<close> and what its four typed clients ask for.
  The REST and discovery clients, the HTTP transport and the rate limiter are library code:
  \<open>rest_library\<close> holds the constructors the code calls, as functions of what they are given. A request
  a typed client makes is an \<open>api_call\<close>: the verb, the resource, the namespace, the context and the list
  options.
\<close>

subsection \<open>Configuration\<close>

text \<open>
  The fields of \<open>rest.Config\<close> the code reads or sets. \<open>QPS\<close> is a float32 in Go; the code only asks
  whether it is positive.
\<close>

record 'l rest_config =
  Config_Host :: string
  Config_UserAgent :: string
  Config_GroupVersion :: "(string \<times> string) option"
  Config_APIPath :: string
  Config_NegotiatedSerializer :: "string option"
  Config_QPS :: rat
  Config_Burst :: int
  Config_RateLimiter :: "'l option"
  Config_Timeout :: int

record ('l, 'h, 'r, 'd) rest_library =
  DefaultKubernetesUserAgent :: string
  HTTPClientFor :: "'l rest_config \<Rightarrow> go_error + 'h"
  RESTClientForConfigAndClient :: "'l rest_config \<Rightarrow> 'h \<Rightarrow> go_error + 'r"
  NewDiscoveryClientForConfigAndClient :: "'l rest_config \<Rightarrow> 'h \<Rightarrow> go_error + 'd"
  NewDiscoveryClient :: "'r \<Rightarrow> 'd"
  NewTokenBucketRateLimiter :: "rat \<Rightarrow> int \<Rightarrow> 'l"

definition v1alpha1_SchemeGroupVersion :: "string \<times> string" where
  "v1alpha1_SchemeGroupVersion = (GroupName, ''v1alpha1'')"

subsection \<open>The client of the group version\<close>

text \<open>\<open>rest.Interface\<close> may be nil, as may the client itself.\<close>

record 'r ArcV1alpha1Client =
  ArcClient_restClient :: "'r option"

definition setConfigDefaults :: "('l, 'h, 'r, 'd) rest_library \<Rightarrow> 'l rest_config \<Rightarrow> 'l rest_config" where
  "setConfigDefaults lib config =
     config\<lparr>Config_GroupVersion := Some v1alpha1_SchemeGroupVersion,
            Config_APIPath := ''/apis'',
            Config_NegotiatedSerializer := Some ''WithoutConversion'',
            Config_UserAgent :=
              if Config_UserAgent config = '''' then DefaultKubernetesUserAgent lib else Config_UserAgent config\<rparr>"

definition ArcClient_NewForConfigAndClient ::
  "('l, 'h, 'r, 'd) rest_library \<Rightarrow> 'l rest_config \<Rightarrow> 'h \<Rightarrow> go_error + 'r ArcV1alpha1Client" where
  "ArcClient_NewForConfigAndClient lib c h =
     (case RESTClientForConfigAndClient lib (setConfigDefaults lib c) h of
        Inl err \<Rightarrow> Inl err
      | Inr client \<Rightarrow> Inr \<lparr>ArcClient_restClient = Some client\<rparr>)"

definition ArcClient_NewForConfig ::
  "('l, 'h, 'r, 'd) rest_library \<Rightarrow> 'l rest_config \<Rightarrow> go_error + 'r ArcV1alpha1Client" where
  "ArcClient_NewForConfig lib c =
     (let config = setConfigDefaults lib c in
      case HTTPClientFor lib config of
        Inl err \<Rightarrow> Inl err
      | Inr httpClient \<Rightarrow> ArcClient_NewForConfigAndClient lib config httpClient)"

definition ArcClient_NewForConfigOrDie ::
  "('l, 'h, 'r, 'd) rest_library \<Rightarrow> 'l rest_config \<Rightarrow> 'r ArcV1alpha1Client res" where
  "ArcClient_NewForConfigOrDie lib c =
     (case ArcClient_NewForConfig lib c of Inl err \<Rightarrow> Inl (Panic (error_text err)) | Inr client \<Rightarrow> Inr client)"

definition ArcClient_New :: "'r option \<Rightarrow> 'r ArcV1alpha1Client" where
  "ArcClient_New c = \<lparr>ArcClient_restClient = c\<rparr>"

definition ArcClient_RESTClient :: "'r ArcV1alpha1Client option \<Rightarrow> 'r option" where
  "ArcClient_RESTClient c = (case c of None \<Rightarrow> None | Some x \<Rightarrow> ArcClient_restClient x)"

subsection \<open>Typed clients\<close>

text \<open>\<open>gentype.ClientWithListAndApply\<close> with what the code passes to it.\<close>

record 'r typed_client =
  Typed_resource :: string
  Typed_client :: "'r option"
  Typed_namespace :: string
  Typed_object :: string
  Typed_list :: string

definition newArtifactTypes :: "'r ArcV1alpha1Client option \<Rightarrow> 'r typed_client" where
  "newArtifactTypes c =
     \<lparr>Typed_resource = ''artifacttypes'', Typed_client = ArcClient_RESTClient c, Typed_namespace = '''',
      Typed_object = ''ArtifactType'', Typed_list = ''ArtifactTypeList''\<rparr>"

definition newArtifactWorkflows :: "'r ArcV1alpha1Client option \<Rightarrow> string \<Rightarrow> 'r typed_client" where
  "newArtifactWorkflows c namespace =
     \<lparr>Typed_resource = ''artifactworkflows'', Typed_client = ArcClient_RESTClient c, Typed_namespace = namespace,
      Typed_object = ''ArtifactWorkflow'', Typed_list = ''ArtifactWorkflowList''\<rparr>"

definition newEndpoints :: "'r ArcV1alpha1Client option \<Rightarrow> string \<Rightarrow> 'r typed_client" where
  "newEndpoints c namespace =
     \<lparr>Typed_resource = ''endpoints'', Typed_client = ArcClient_RESTClient c, Typed_namespace = namespace,
      Typed_object = ''Endpoint'', Typed_list = ''EndpointList''\<rparr>"

definition newOrders :: "'r ArcV1alpha1Client option \<Rightarrow> string \<Rightarrow> 'r typed_client" where
  "newOrders c namespace =
     \<lparr>Typed_resource = ''orders'', Typed_client = ArcClient_RESTClient c, Typed_namespace = namespace,
      Typed_object = ''Order'', Typed_list = ''OrderList''\<rparr>"

definition ArcClient_ArtifactTypes :: "'r ArcV1alpha1Client option \<Rightarrow> 'r typed_client" where
  "ArcClient_ArtifactTypes c = newArtifactTypes c"

definition ArcClient_ArtifactWorkflows :: "'r ArcV1alpha1Client option \<Rightarrow> string \<Rightarrow> 'r typed_client" where
  "ArcClient_ArtifactWorkflows c namespace = newArtifactWorkflows c namespace"

definition ArcClient_Endpoints :: "'r ArcV1alpha1Client option \<Rightarrow> string \<Rightarrow> 'r typed_client" where
  "ArcClient_Endpoints c namespace = newEndpoints c namespace"

definition ArcClient_Orders :: "'r ArcV1alpha1Client option \<Rightarrow> string \<Rightarrow> 'r typed_client" where
  "ArcClient_Orders c namespace = newOrders c namespace"

subsection \<open>The clientset\<close>

record ('r, 'd) Clientset =
  Clientset_DiscoveryClient :: "'d option"
  Clientset_arcV1alpha1 :: "'r ArcV1alpha1Client option"

definition Clientset_ArcV1alpha1 :: "('r, 'd) Clientset \<Rightarrow> 'r ArcV1alpha1Client option" where
  "Clientset_ArcV1alpha1 c = Clientset_arcV1alpha1 c"

definition Clientset_Discovery :: "('r, 'd) Clientset option \<Rightarrow> 'd option" where
  "Clientset_Discovery c = (case c of None \<Rightarrow> None | Some cs \<Rightarrow> Clientset_DiscoveryClient cs)"

definition Clientset_NewForConfigAndClient ::
  "('l, 'h, 'r, 'd) rest_library \<Rightarrow> 'l rest_config \<Rightarrow> 'h \<Rightarrow> go_error + ('r, 'd) Clientset" where
  "Clientset_NewForConfigAndClient lib c httpClient =
     (if Config_RateLimiter c = None \<and> 0 < Config_QPS c \<and> Config_Burst c \<le> 0 then
        Inl (LibError ''burst is required to be greater than 0 when RateLimiter is not set and QPS is set to greater than 0'')
      else
        let configShallowCopy =
              if Config_RateLimiter c = None \<and> 0 < Config_QPS c then
                c\<lparr>Config_RateLimiter := Some (NewTokenBucketRateLimiter lib (Config_QPS c) (Config_Burst c))\<rparr>
              else c in
        case ArcClient_NewForConfigAndClient lib configShallowCopy httpClient of
          Inl err \<Rightarrow> Inl err
        | Inr arcV1alpha1 \<Rightarrow>
            (case NewDiscoveryClientForConfigAndClient lib configShallowCopy httpClient of
               Inl err \<Rightarrow> Inl err
             | Inr discovery \<Rightarrow>
                 Inr \<lparr>Clientset_DiscoveryClient = Some discovery, Clientset_arcV1alpha1 = Some arcV1alpha1\<rparr>))"

definition Clientset_NewForConfig ::
  "('l, 'h, 'r, 'd) rest_library \<Rightarrow> 'l rest_config \<Rightarrow> go_error + ('r, 'd) Clientset" where
  "Clientset_NewForConfig lib c =
     (let configShallowCopy =
            if Config_UserAgent c = '''' then c\<lparr>Config_UserAgent := DefaultKubernetesUserAgent lib\<rparr> else c in
      case HTTPClientFor lib configShallowCopy of
        Inl err \<Rightarrow> Inl err
      | Inr httpClient \<Rightarrow> Clientset_NewForConfigAndClient lib configShallowCopy httpClient)"

definition Clientset_NewForConfigOrDie ::
  "('l, 'h, 'r, 'd) rest_library \<Rightarrow> 'l rest_config \<Rightarrow> ('r, 'd) Clientset res" where
  "Clientset_NewForConfigOrDie lib c =
     (case Clientset_NewForConfig lib c of Inl err \<Rightarrow> Inl (Panic (error_text err)) | Inr cs \<Rightarrow> Inr cs)"

definition Clientset_New :: "('l, 'h, 'r, 'd) rest_library \<Rightarrow> 'r \<Rightarrow> ('r, 'd) Clientset" where
  "Clientset_New lib c =
     \<lparr>Clientset_DiscoveryClient = Some (NewDiscoveryClient lib c), Clientset_arcV1alpha1 = Some (ArcClient_New (Some c))\<rparr>"

subsection \<open>Properties\<close>

text \<open>The configuration both clients of a clientset are made from.\<close>

definition limited_config :: "('l, 'h, 'r, 'd) rest_library \<Rightarrow> 'l rest_config \<Rightarrow> 'l rest_config" where
  "limited_config lib c =
     c\<lparr>Config_UserAgent := if Config_UserAgent c = '''' then DefaultKubernetesUserAgent lib else Config_UserAgent c,
       Config_RateLimiter :=
         if Config_RateLimiter c = None \<and> 0 < Config_QPS c
         then Some (NewTokenBucketRateLimiter lib (Config_QPS c) (Config_Burst c)) else Config_RateLimiter c\<rparr>"

lemmas typed_client_defs =
  Clientset_ArcV1alpha1_def ArcClient_Orders_def ArcClient_ArtifactWorkflows_def ArcClient_Endpoints_def
  ArcClient_ArtifactTypes_def newOrders_def newArtifactWorkflows_def newEndpoints_def newArtifactTypes_def
  ArcClient_RESTClient_def

lemma ArcClient_NewForConfigAndClient_Inr:
  "ArcClient_NewForConfigAndClient lib c h = Inr a \<longleftrightarrow>
     (\<exists>r. RESTClientForConfigAndClient lib (setConfigDefaults lib c) h = Inr r \<and> a = \<lparr>ArcClient_restClient = Some r\<rparr>)"
  by (auto simp: ArcClient_NewForConfigAndClient_def split: sum.splits)

definition with_limiter :: "('l, 'h, 'r, 'd) rest_library \<Rightarrow> 'l rest_config \<Rightarrow> 'l rest_config" where
  "with_limiter lib c =
     (if Config_RateLimiter c = None \<and> 0 < Config_QPS c
      then c\<lparr>Config_RateLimiter := Some (NewTokenBucketRateLimiter lib (Config_QPS c) (Config_Burst c))\<rparr> else c)"

lemma Clientset_NewForConfigAndClient_Inr:
  "Clientset_NewForConfigAndClient lib c h = Inr cs \<longleftrightarrow>
     (Config_RateLimiter c \<noteq> None \<or> Config_QPS c \<le> 0 \<or> 0 < Config_Burst c) \<and>
     (\<exists>a d. ArcClient_NewForConfigAndClient lib (with_limiter lib c) h = Inr a \<and>
        NewDiscoveryClientForConfigAndClient lib (with_limiter lib c) h = Inr d \<and>
        cs = \<lparr>Clientset_DiscoveryClient = Some d, Clientset_arcV1alpha1 = Some a\<rparr>)"
  unfolding Clientset_NewForConfigAndClient_def Let_def with_limiter_def [symmetric]
  by (auto split: sum.splits)

lemma with_limiter_limited:
  "with_limiter lib (if Config_UserAgent c = '''' then c\<lparr>Config_UserAgent := DefaultKubernetesUserAgent lib\<rparr> else c)
     = limited_config lib c"
  by (cases c) (simp add: with_limiter_def limited_config_def)

lemma setConfigDefaults_limited:
  assumes "DefaultKubernetesUserAgent lib \<noteq> ''''"
  shows "setConfigDefaults lib (limited_config lib c) =
    (limited_config lib c)\<lparr>Config_GroupVersion := Some (''arc.bwi.de'', ''v1alpha1''),
             Config_APIPath := ''/apis'', Config_NegotiatedSerializer := Some ''WithoutConversion''\<rparr>"
  using assms
  by (cases c) (simp add: setConfigDefaults_def limited_config_def v1alpha1_SchemeGroupVersion_def GroupName_def)

lemma NewForConfig_Inr:
  assumes "DefaultKubernetesUserAgent lib \<noteq> ''''"
  shows "Clientset_NewForConfig lib c = Inr cs \<longleftrightarrow>
     (Config_RateLimiter c \<noteq> None \<or> Config_QPS c \<le> 0 \<or> 0 < Config_Burst c) \<and>
     (\<exists>h r d. HTTPClientFor lib (c\<lparr>Config_UserAgent := Config_UserAgent (limited_config lib c)\<rparr>) = Inr h \<and>
        RESTClientForConfigAndClient lib
          ((limited_config lib c)\<lparr>Config_GroupVersion := Some (''arc.bwi.de'', ''v1alpha1''),
             Config_APIPath := ''/apis'', Config_NegotiatedSerializer := Some ''WithoutConversion''\<rparr>) h = Inr r \<and>
        NewDiscoveryClientForConfigAndClient lib (limited_config lib c) h = Inr d \<and>
        cs = \<lparr>Clientset_DiscoveryClient = Some d, Clientset_arcV1alpha1 = Some \<lparr>ArcClient_restClient = Some r\<rparr>\<rparr>)"
proof -
  let ?c = "if Config_UserAgent c = '''' then c\<lparr>Config_UserAgent := DefaultKubernetesUserAgent lib\<rparr> else c"
  have c: "?c = c\<lparr>Config_UserAgent := Config_UserAgent (limited_config lib c)\<rparr>"
    by (cases c) (simp add: limited_config_def)
  have "Config_RateLimiter ?c = Config_RateLimiter c" "Config_QPS ?c = Config_QPS c" "Config_Burst ?c = Config_Burst c"
    by simp_all
  moreover obtain c1 where c1: "?c = c1" by blast
  ultimately have c2: "Config_RateLimiter c1 = Config_RateLimiter c" "Config_QPS c1 = Config_QPS c"
      "Config_Burst c1 = Config_Burst c" "with_limiter lib c1 = limited_config lib c"
    using with_limiter_limited [of lib c] unfolding c1 by (simp_all only:)
  show ?thesis
    unfolding Clientset_NewForConfig_def Let_def c [symmetric] c1
    by (cases "HTTPClientFor lib c1")
      (auto simp: Clientset_NewForConfigAndClient_Inr ArcClient_NewForConfigAndClient_Inr c2
        setConfigDefaults_limited [OF assms])
qed

text \<open>
  C29: when \<open>NewForConfig\<close> succeeds. Without a rate limiter and with a positive \<open>QPS\<close> the \<open>Burst\<close> has to be
  positive; then the transport, the REST client and the discovery client have to be made without error.
  Both clients share the HTTP client and the limiter; the REST client is for arc.bwi.de/v1alpha1 under
  /apis, and every typed client of the set uses it: for its own resource, in the namespace asked for,
  artifact types without one. The hypothesis is that the library's user agent is not empty.
\<close>

theorem clientset_NewForConfig:
  assumes "DefaultKubernetesUserAgent lib \<noteq> ''''"
  shows "(\<exists>cs. Clientset_NewForConfig lib c = Inr cs) \<longleftrightarrow>
     (Config_RateLimiter c \<noteq> None \<or> Config_QPS c \<le> 0 \<or> 0 < Config_Burst c) \<and>
     (\<exists>h r d. HTTPClientFor lib (c\<lparr>Config_UserAgent := Config_UserAgent (limited_config lib c)\<rparr>) = Inr h \<and>
        RESTClientForConfigAndClient lib
          ((limited_config lib c)\<lparr>Config_GroupVersion := Some (''arc.bwi.de'', ''v1alpha1''),
             Config_APIPath := ''/apis'', Config_NegotiatedSerializer := Some ''WithoutConversion''\<rparr>) h = Inr r \<and>
        NewDiscoveryClientForConfigAndClient lib (limited_config lib c) h = Inr d \<and>
        (\<forall>cs ns. Clientset_NewForConfig lib c = Inr cs \<longrightarrow>
           Clientset_Discovery (Some cs) = Some d \<and>
           map (\<lambda>t. (Typed_resource t, Typed_client t, Typed_namespace t))
             [ArcClient_Orders (Clientset_ArcV1alpha1 cs) ns, ArcClient_ArtifactWorkflows (Clientset_ArcV1alpha1 cs) ns,
              ArcClient_Endpoints (Clientset_ArcV1alpha1 cs) ns, ArcClient_ArtifactTypes (Clientset_ArcV1alpha1 cs)]
           = [(''orders'', Some r, ns), (''artifactworkflows'', Some r, ns), (''endpoints'', Some r, ns),
              (''artifacttypes'', Some r, '''')]))"
  unfolding NewForConfig_Inr [OF assms]
  by (auto simp: Clientset_Discovery_def typed_client_defs)

theorem clientset_NewForConfig_witness:
  "\<exists>cs. Clientset_NewForConfig
      \<lparr>DefaultKubernetesUserAgent = ''kube'', HTTPClientFor = (\<lambda>c. Inr ()),
       RESTClientForConfigAndClient = (\<lambda>c h. Inr (Config_GroupVersion c)),
       NewDiscoveryClientForConfigAndClient = (\<lambda>c h. Inr (Config_RateLimiter c)), NewDiscoveryClient = (\<lambda>r. None),
       NewTokenBucketRateLimiter = (\<lambda>q b. b)\<rparr>
      \<lparr>Config_Host = ''h'', Config_UserAgent = '''', Config_GroupVersion = None, Config_APIPath = '''',
       Config_NegotiatedSerializer = None, Config_QPS = 5, Config_Burst = 10, Config_RateLimiter = None,
       Config_Timeout = 0\<rparr> = Inr cs"
  by (subst clientset_NewForConfig)
    (auto simp: limited_config_def NewForConfig_Inr Clientset_Discovery_def typed_client_defs)

end
