(* ===== verification/Install.thy ===== *)
theory Install
  imports Conversion_Registry Clientset
begin

section \<open>Registration with the scheme\<close>

text \<open>
  What the packages register with a \<open>runtime.Scheme\<close>: the known types of both versions, the defaulting and
  conversion functions and the priority of versions (\<^verbatim>\<open>api/arc/register.go\<close>, \<^verbatim>\<open>api/arc/v1alpha1/register.go\<close>,
  \<^verbatim>\<open>defaults.go\<close>, \<^verbatim>\<open>zz_generated.defaults.go\<close>, \<^verbatim>\<open>api/arc/install\<close>), and the \<open>init\<close> functions that do so for the
  schemes of the API server and of the clientset. The scheme and its builder are library code:
  \<open>scheme_ops\<close> are the operations the code calls, and the locale \<open>scheme_library\<close> says what it relies on, that
  the builder runs its functions in order until one fails, and that each operation records what it is
  given and leaves the rest.
\<close>

type_synonym GroupVersion = "string \<times> string"

record 's scheme_ops =
  AddKnownTypes :: "GroupVersion \<Rightarrow> string list \<Rightarrow> 's \<Rightarrow> 's"
  AddUnversionedTypes :: "GroupVersion \<Rightarrow> string list \<Rightarrow> 's \<Rightarrow> 's"
  AddToGroupVersion :: "GroupVersion \<Rightarrow> 's \<Rightarrow> 's"
  AddTypeDefaultingFunc :: "string \<Rightarrow> (v1alpha1_value \<Rightarrow> v1alpha1_value res) \<Rightarrow> 's \<Rightarrow> 's"
  AddGeneratedConversionFunc :: "string \<Rightarrow> string \<Rightarrow> conversion_fn \<Rightarrow> 's \<Rightarrow> go_error + 's"
  SetVersionPriority :: "GroupVersion list \<Rightarrow> 's \<Rightarrow> go_error + 's"
  SchemeBuilder_AddToScheme :: "('s \<Rightarrow> go_error + 's) list \<Rightarrow> 's \<Rightarrow> go_error + 's"

text \<open>\<open>utilruntime.Must\<close> panics on an error.\<close>

definition Must :: "go_error + 'a \<Rightarrow> 'a res" where
  "Must r = (case r of Inl err \<Rightarrow> Inl (Panic (error_text err)) | Inr x \<Rightarrow> Inr x)"

subsection \<open>Defaults\<close>

text \<open>The functions written by hand are empty; the generated ones call them for every object.\<close>

definition SetDefaults_OrderSpec :: "OrderSpec \<Rightarrow> OrderSpec" where
  "SetDefaults_OrderSpec obj = obj"

definition SetDefaults_ArtifactWorkflowSpec :: "ArtifactWorkflowSpec \<Rightarrow> ArtifactWorkflowSpec" where
  "SetDefaults_ArtifactWorkflowSpec obj = obj"

definition SetDefaults_EndpointSpec :: "EndpointSpec \<Rightarrow> EndpointSpec" where
  "SetDefaults_EndpointSpec obj = obj"

definition SetDefaults_ArtifactTypeSpec :: "ArtifactTypeSpec \<Rightarrow> ArtifactTypeSpec" where
  "SetDefaults_ArtifactTypeSpec obj = obj"

definition SetObjectDefaults_ArtifactType :: "ArtifactType \<Rightarrow> ArtifactType" where
  "SetObjectDefaults_ArtifactType in1 = in1\<lparr>AT_Spec := SetDefaults_ArtifactTypeSpec (AT_Spec in1)\<rparr>"

definition SetObjectDefaults_ArtifactTypeList :: "ArtifactTypeList \<Rightarrow> ArtifactTypeList" where
  "SetObjectDefaults_ArtifactTypeList in1 = in1\<lparr>ATList_Items := map SetObjectDefaults_ArtifactType (ATList_Items in1)\<rparr>"

definition SetObjectDefaults_ArtifactWorkflow :: "ArtifactWorkflow \<Rightarrow> ArtifactWorkflow" where
  "SetObjectDefaults_ArtifactWorkflow in1 = in1\<lparr>AW_Spec := SetDefaults_ArtifactWorkflowSpec (AW_Spec in1)\<rparr>"

definition SetObjectDefaults_ArtifactWorkflowList :: "ArtifactWorkflowList \<Rightarrow> ArtifactWorkflowList" where
  "SetObjectDefaults_ArtifactWorkflowList in1 = in1\<lparr>AWList_Items := map SetObjectDefaults_ArtifactWorkflow (AWList_Items in1)\<rparr>"

definition SetObjectDefaults_Endpoint :: "Endpoint \<Rightarrow> Endpoint" where
  "SetObjectDefaults_Endpoint in1 = in1\<lparr>Endpoint_Spec := SetDefaults_EndpointSpec (Endpoint_Spec in1)\<rparr>"

definition SetObjectDefaults_EndpointList :: "EndpointList \<Rightarrow> EndpointList" where
  "SetObjectDefaults_EndpointList in1 = in1\<lparr>EndpointList_Items := map SetObjectDefaults_Endpoint (EndpointList_Items in1)\<rparr>"

definition SetObjectDefaults_Order :: "Order \<Rightarrow> Order" where
  "SetObjectDefaults_Order in1 = in1\<lparr>Order_Spec := SetDefaults_OrderSpec (Order_Spec in1)\<rparr>"

definition SetObjectDefaults_OrderList :: "OrderList \<Rightarrow> OrderList" where
  "SetObjectDefaults_OrderList in1 = in1\<lparr>OrderList_Items := map SetObjectDefaults_Order (OrderList_Items in1)\<rparr>"

definition default_closure :: "(v1alpha1_value \<Rightarrow> bool) \<Rightarrow> (v1alpha1_value \<Rightarrow> 'a) \<Rightarrow> ('a \<Rightarrow> v1alpha1_value) \<Rightarrow>
  ('a \<Rightarrow> 'a) \<Rightarrow> v1alpha1_value \<Rightarrow> v1alpha1_value res" where
  "default_closure isT asT wrap f obj = (if isT obj then Inr (wrap (f (asT obj))) else Inl type_assertion)"

definition default_functions :: "(string \<times> (v1alpha1_value \<Rightarrow> v1alpha1_value res)) list" where
  "default_functions =
     [(v1alpha1_type ''ArtifactType'', default_closure is_V_ArtifactType un_V_ArtifactType V_ArtifactType SetObjectDefaults_ArtifactType),
      (v1alpha1_type ''ArtifactTypeList'', default_closure is_V_ArtifactTypeList un_V_ArtifactTypeList V_ArtifactTypeList SetObjectDefaults_ArtifactTypeList),
      (v1alpha1_type ''ArtifactWorkflow'', default_closure is_V_ArtifactWorkflow un_V_ArtifactWorkflow V_ArtifactWorkflow SetObjectDefaults_ArtifactWorkflow),
      (v1alpha1_type ''ArtifactWorkflowList'', default_closure is_V_ArtifactWorkflowList un_V_ArtifactWorkflowList V_ArtifactWorkflowList SetObjectDefaults_ArtifactWorkflowList),
      (v1alpha1_type ''Endpoint'', default_closure is_V_Endpoint un_V_Endpoint V_Endpoint SetObjectDefaults_Endpoint),
      (v1alpha1_type ''EndpointList'', default_closure is_V_EndpointList un_V_EndpointList V_EndpointList SetObjectDefaults_EndpointList),
      (v1alpha1_type ''Order'', default_closure is_V_Order un_V_Order V_Order SetObjectDefaults_Order),
      (v1alpha1_type ''OrderList'', default_closure is_V_OrderList un_V_OrderList V_OrderList SetObjectDefaults_OrderList)]"

definition RegisterDefaults :: "'s scheme_ops \<Rightarrow> 's \<Rightarrow> go_error + 's" where
  "RegisterDefaults ops s = Inr (fold (\<lambda>(t, f). AddTypeDefaultingFunc ops t f) default_functions s)"

definition addDefaultingFuncs :: "'s scheme_ops \<Rightarrow> 's \<Rightarrow> go_error + 's" where
  "addDefaultingFuncs ops s = RegisterDefaults ops s"

subsection \<open>Known types and builders\<close>

definition arc_SchemeGroupVersion :: GroupVersion where
  "arc_SchemeGroupVersion = (GroupName, ''__internal'')"

definition arc_Kind :: "string \<Rightarrow> string \<times> string" where
  "arc_Kind kind = (fst arc_SchemeGroupVersion, kind)"

definition arc_addKnownTypes :: "'s scheme_ops \<Rightarrow> 's \<Rightarrow> go_error + 's" where
  "arc_addKnownTypes ops s =
     Inr (AddKnownTypes ops arc_SchemeGroupVersion
            [''Order'', ''OrderList'', ''ArtifactWorkflow'', ''ArtifactWorkflowList'', ''Endpoint'', ''EndpointList'', ''ArtifactType'', ''ArtifactTypeList''] s)"

definition v1alpha1_addKnownTypes :: "'s scheme_ops \<Rightarrow> 's \<Rightarrow> go_error + 's" where
  "v1alpha1_addKnownTypes ops s =
     Inr (AddToGroupVersion ops v1alpha1_SchemeGroupVersion
            (AddKnownTypes ops v1alpha1_SchemeGroupVersion
               [''Order'', ''OrderList'', ''ArtifactWorkflow'', ''ArtifactWorkflowList'', ''Endpoint'', ''EndpointList'', ''ArtifactType'', ''ArtifactTypeList''] s))"

text \<open>
  The builders. In package v1alpha1 the \<open>init\<close> of register.go registers its two functions, then the one of
  the generated file its conversions.
\<close>

definition arc_SchemeBuilder :: "'s scheme_ops \<Rightarrow> ('s \<Rightarrow> go_error + 's) list" where
  "arc_SchemeBuilder ops = [arc_addKnownTypes ops]"

definition localSchemeBuilder :: "'s scheme_ops \<Rightarrow> ('s \<Rightarrow> go_error + 's) list" where
  "localSchemeBuilder ops =
     [v1alpha1_addKnownTypes ops, addDefaultingFuncs ops] @ [RegisterConversions (AddGeneratedConversionFunc ops)]"

definition arc_AddToScheme :: "'s scheme_ops \<Rightarrow> 's \<Rightarrow> go_error + 's" where
  "arc_AddToScheme ops s = SchemeBuilder_AddToScheme ops (arc_SchemeBuilder ops) s"

definition v1alpha1_AddToScheme :: "'s scheme_ops \<Rightarrow> 's \<Rightarrow> go_error + 's" where
  "v1alpha1_AddToScheme ops s = SchemeBuilder_AddToScheme ops (localSchemeBuilder ops) s"

definition install_Install :: "'s scheme_ops \<Rightarrow> 's \<Rightarrow> 's res" where
  "install_Install ops scheme =
     bind_res (Must (arc_AddToScheme ops scheme)) (\<lambda>s1.
     bind_res (Must (v1alpha1_AddToScheme ops s1)) (\<lambda>s2.
     Must (SetVersionPriority ops [v1alpha1_SchemeGroupVersion] s2)))"

subsection \<open>The schemes of the server and of the clientset\<close>

definition apiserver_init :: "'s scheme_ops \<Rightarrow> 's \<Rightarrow> 's res" where
  "apiserver_init ops scheme =
     bind_res (install_Install ops scheme) (\<lambda>s.
       Inr (AddUnversionedTypes ops ('''', ''v1'')
              [''Status'', ''APIVersions'', ''APIGroupList'', ''APIGroup'', ''APIResourceList'']
              (AddToGroupVersion ops ('''', ''v1'') s)))"

definition clientset_SchemeBuilder :: "'s scheme_ops \<Rightarrow> ('s \<Rightarrow> go_error + 's) list" where
  "clientset_SchemeBuilder ops = [v1alpha1_AddToScheme ops]"

definition clientset_scheme_init :: "'s scheme_ops \<Rightarrow> 's \<Rightarrow> 's res" where
  "clientset_scheme_init ops scheme =
     Must (SchemeBuilder_AddToScheme ops (clientset_SchemeBuilder ops) (AddToGroupVersion ops ('''', ''v1'') scheme))"

subsection \<open>The contract of the scheme\<close>

fun run_builder :: "('s \<Rightarrow> go_error + 's) list \<Rightarrow> 's \<Rightarrow> go_error + 's" where
  "run_builder [] s = Inr s"
| "run_builder (f # fs) s = (case f s of Inl err \<Rightarrow> Inl err | Inr s1 \<Rightarrow> run_builder fs s1)"

record registrations =
  Reg_known :: "(GroupVersion \<times> string) set"
  Reg_defaults :: "string \<Rightarrow> (v1alpha1_value \<Rightarrow> v1alpha1_value res) option"
  Reg_conversions :: "string \<times> string \<Rightarrow> conversion_fn option"
  Reg_priority :: "GroupVersion list"

locale scheme_library =
  fixes ops :: "'s scheme_ops" and regs :: "'s \<Rightarrow> registrations"
  assumes builder: "SchemeBuilder_AddToScheme ops fs s = run_builder fs s"
    and known: "regs (AddKnownTypes ops gv ts s) = (regs s)\<lparr>Reg_known := Reg_known (regs s) \<union> {gv} \<times> set ts\<rparr>"
    and unversioned: "\<exists>K. regs (AddUnversionedTypes ops gv ts s) = (regs s)\<lparr>Reg_known := Reg_known (regs s) \<union> K\<rparr>"
    and groupversion: "\<exists>K. regs (AddToGroupVersion ops gv s) = (regs s)\<lparr>Reg_known := Reg_known (regs s) \<union> K\<rparr>"
    and defaulting: "regs (AddTypeDefaultingFunc ops t f s) = (regs s)\<lparr>Reg_defaults := (Reg_defaults (regs s))(t \<mapsto> f)\<rparr>"
    and conversion: "AddGeneratedConversionFunc ops a b g s = Inr s1 \<Longrightarrow>
      regs s1 = (regs s)\<lparr>Reg_conversions := (Reg_conversions (regs s))((a, b) \<mapsto> g)\<rparr>"
    and priority: "SetVersionPriority ops gvs s = Inr s1 \<Longrightarrow> regs s1 = (regs s)\<lparr>Reg_priority := gvs\<rparr>"
begin

lemma defaults_fold:
  "regs (fold (\<lambda>(t, f). AddTypeDefaultingFunc ops t f) fs s) =
     (regs s)\<lparr>Reg_defaults := fold (\<lambda>(t, f) m. m(t \<mapsto> f)) fs (Reg_defaults (regs s))\<rparr>"
  by (induction fs arbitrary: s) (auto simp: defaulting)

lemma conversions_only:
  assumes "add_conversions (AddGeneratedConversionFunc ops) ps s = Inr t"
  shows "Reg_known (regs t) = Reg_known (regs s) \<and> Reg_defaults (regs t) = Reg_defaults (regs s) \<and>
    Reg_priority (regs t) = Reg_priority (regs s)"
  using assms
proof (induction ps arbitrary: s)
  case (Cons p ps)
  obtain a b f where p: "p = (a, b, f)" by (cases p)
  obtain s1 where "AddGeneratedConversionFunc ops a b f s = Inr s1" "add_conversions (AddGeneratedConversionFunc ops) ps s1 = Inr t"
    using Cons.prems by (auto simp: p split: sum.splits)
  then show ?case using Cons.IH conversion by simp
qed simp

lemma conversions_registered:
  assumes "RegisterConversions (AddGeneratedConversionFunc ops) s = Inr t" and "(a, b, f) \<in> set generated_conversions"
  shows "Reg_conversions (regs t) (a, b) = Some f"
proof (rule add_conversions_registered [where reg = "\<lambda>s. Reg_conversions (regs s)"
      and add = "AddGeneratedConversionFunc ops", OF _ _ distinct_conversions assms(2)])
  show "add_conversions (AddGeneratedConversionFunc ops) generated_conversions s = Inr t"
    using assms(1) by (simp add: RegisterConversions_def)
qed (use conversion in simp)

text \<open>What \<open>AddToScheme\<close> of package v1alpha1 registers.\<close>

lemma v1alpha1_registered:
  assumes "v1alpha1_AddToScheme ops s = Inr t"
  shows "\<exists>K. Reg_known (regs t) = Reg_known (regs s) \<union>
        {v1alpha1_SchemeGroupVersion} \<times> {''Order'', ''OrderList'', ''ArtifactWorkflow'', ''ArtifactWorkflowList'',
          ''Endpoint'', ''EndpointList'', ''ArtifactType'', ''ArtifactTypeList''} \<union> K"
    and "Reg_defaults (regs t) = fold (\<lambda>(t, f) m. m(t \<mapsto> f)) default_functions (Reg_defaults (regs s))"
    and "(a, b, f) \<in> set generated_conversions \<Longrightarrow> Reg_conversions (regs t) (a, b) = Some f"
    and "Reg_priority (regs t) = Reg_priority (regs s)"
proof -
  let ?k = "AddKnownTypes ops v1alpha1_SchemeGroupVersion
     [''Order'', ''OrderList'', ''ArtifactWorkflow'', ''ArtifactWorkflowList'', ''Endpoint'', ''EndpointList'', ''ArtifactType'', ''ArtifactTypeList''] s"
  let ?g = "AddToGroupVersion ops v1alpha1_SchemeGroupVersion ?k"
  let ?d = "fold (\<lambda>(t, f). AddTypeDefaultingFunc ops t f) default_functions ?g"
  have c: "RegisterConversions (AddGeneratedConversionFunc ops) ?d = Inr t"
    using assms by (simp add: v1alpha1_AddToScheme_def localSchemeBuilder_def builder v1alpha1_addKnownTypes_def
        addDefaultingFuncs_def RegisterDefaults_def split: sum.splits)
  obtain K where K: "regs ?g = (regs ?k)\<lparr>Reg_known := Reg_known (regs ?k) \<union> K\<rparr>" using groupversion by blast
  note t = conversions_only [OF c [unfolded RegisterConversions_def]]
  show "\<exists>K. Reg_known (regs t) = Reg_known (regs s) \<union>
        {v1alpha1_SchemeGroupVersion} \<times> {''Order'', ''OrderList'', ''ArtifactWorkflow'', ''ArtifactWorkflowList'',
          ''Endpoint'', ''EndpointList'', ''ArtifactType'', ''ArtifactTypeList''} \<union> K"
    using t by (intro exI [of _ K]) (simp add: defaults_fold K known)
  show "Reg_defaults (regs t) = fold (\<lambda>(t, f) m. m(t \<mapsto> f)) default_functions (Reg_defaults (regs s))"
    using t by (simp add: defaults_fold K known)
  show "Reg_priority (regs t) = Reg_priority (regs s)"
    using t by (simp add: defaults_fold K known)
  show "Reg_conversions (regs t) (a, b) = Some f" if "(a, b, f) \<in> set generated_conversions"
    using conversions_registered [OF c that] .
qed

end

text \<open>A scheme that only records is such a library.\<close>

definition recording_scheme :: "registrations scheme_ops" where
  "recording_scheme =
     \<lparr>AddKnownTypes = (\<lambda>gv ts s. s\<lparr>Reg_known := Reg_known s \<union> {gv} \<times> set ts\<rparr>),
      AddUnversionedTypes = (\<lambda>gv ts s. s\<lparr>Reg_known := Reg_known s \<union> {gv} \<times> set ts\<rparr>),
      AddToGroupVersion = (\<lambda>gv s. s),
      AddTypeDefaultingFunc = (\<lambda>t f s. s\<lparr>Reg_defaults := (Reg_defaults s)(t \<mapsto> f)\<rparr>),
      AddGeneratedConversionFunc = (\<lambda>a b g s. Inr (s\<lparr>Reg_conversions := (Reg_conversions s)((a, b) \<mapsto> g)\<rparr>)),
      SetVersionPriority = (\<lambda>gvs s. Inr (s\<lparr>Reg_priority := gvs\<rparr>)),
      SchemeBuilder_AddToScheme = run_builder\<rparr>"

interpretation recording: scheme_library recording_scheme "\<lambda>s. s"
proof
  show "\<exists>K. AddToGroupVersion recording_scheme gv s = s\<lparr>Reg_known := Reg_known s \<union> K\<rparr>" for gv s
    by (rule exI [of _ "{}"]) (simp add: recording_scheme_def)
qed (auto simp: recording_scheme_def)

subsection \<open>Properties\<close>

definition default_ok :: "string \<Rightarrow> (v1alpha1_value \<Rightarrow> v1alpha1_value res) \<Rightarrow> bool" where
  "default_ok t f \<longleftrightarrow> (\<forall>x. f x = (if type_of_v1alpha1 x = t then Inr x else Inl type_assertion))"

lemma default_okI:
  assumes "\<And>x. is x \<longleftrightarrow> type_of_v1alpha1 x = t" and "\<And>y. f y = y" and "\<And>x. is x \<Longrightarrow> wrap (as x) = x"
  shows "default_ok t (default_closure is as wrap f)"
  using assms by (simp add: default_closure_def default_ok_def)

lemma defaults_identity:
  "SetObjectDefaults_Order a = a" "SetObjectDefaults_ArtifactWorkflow b = b"
  "SetObjectDefaults_Endpoint c = c" "SetObjectDefaults_ArtifactType d = d"
  "SetObjectDefaults_OrderList as = as" "SetObjectDefaults_ArtifactWorkflowList bs = bs"
  "SetObjectDefaults_EndpointList cs = cs" "SetObjectDefaults_ArtifactTypeList ds = ds"
proof -
  show a: "SetObjectDefaults_Order a = a" and b: "SetObjectDefaults_ArtifactWorkflow b = b"
    and c: "SetObjectDefaults_Endpoint c = c" and d: "SetObjectDefaults_ArtifactType d = d" for a b c d
    by (simp_all add: SetObjectDefaults_Order_def SetDefaults_OrderSpec_def SetObjectDefaults_ArtifactWorkflow_def
        SetDefaults_ArtifactWorkflowSpec_def SetObjectDefaults_Endpoint_def SetDefaults_EndpointSpec_def
        SetObjectDefaults_ArtifactType_def SetDefaults_ArtifactTypeSpec_def)
  show "SetObjectDefaults_OrderList as = as" "SetObjectDefaults_ArtifactWorkflowList bs = bs"
    "SetObjectDefaults_EndpointList cs = cs" "SetObjectDefaults_ArtifactTypeList ds = ds"
    by (simp_all add: SetObjectDefaults_OrderList_def SetObjectDefaults_ArtifactWorkflowList_def
        SetObjectDefaults_EndpointList_def SetObjectDefaults_ArtifactTypeList_def a b c d map_idI)
qed

lemma is_V_types:
  "is_V_Order x \<longleftrightarrow> type_of_v1alpha1 x = v1alpha1_type ''Order''"
  "is_V_OrderList x \<longleftrightarrow> type_of_v1alpha1 x = v1alpha1_type ''OrderList''"
  "is_V_ArtifactWorkflow x \<longleftrightarrow> type_of_v1alpha1 x = v1alpha1_type ''ArtifactWorkflow''"
  "is_V_ArtifactWorkflowList x \<longleftrightarrow> type_of_v1alpha1 x = v1alpha1_type ''ArtifactWorkflowList''"
  "is_V_Endpoint x \<longleftrightarrow> type_of_v1alpha1 x = v1alpha1_type ''Endpoint''"
  "is_V_EndpointList x \<longleftrightarrow> type_of_v1alpha1 x = v1alpha1_type ''EndpointList''"
  "is_V_ArtifactType x \<longleftrightarrow> type_of_v1alpha1 x = v1alpha1_type ''ArtifactType''"
  "is_V_ArtifactTypeList x \<longleftrightarrow> type_of_v1alpha1 x = v1alpha1_type ''ArtifactTypeList''"
  by (cases x; simp add: type_names)+

lemma default_functions_ok: "list_all (\<lambda>(t, f). default_ok t f) default_functions"
  unfolding default_functions_def list.pred_inject(2) prod.case
  by (intro conjI list.pred_inject(1) default_okI is_V_types defaults_identity v1alpha1_value.collapse)

lemma default_lookup:
  assumes "t \<in> set (map fst default_functions)"
  shows "\<exists>f. fold (\<lambda>(t, f) m. m(t \<mapsto> f)) default_functions m t = Some f \<and> default_ok t f"
proof -
  have "\<exists>f. fold (\<lambda>(t, f) m. m(t \<mapsto> f)) fs m t = Some f \<and> P t f"
    if "list_all (\<lambda>(t, f). P t f) fs" "t \<in> set (map fst fs) \<or> (\<exists>f. m t = Some f \<and> P t f)" for P and fs :: "(string \<times> 'x) list" and m
    using that
  proof (induction fs arbitrary: m)
    case (Cons p fs)
    obtain u f where p: "p = (u, f)" by (cases p)
    have "t \<in> set (map fst fs) \<or> (\<exists>g. (m(u \<mapsto> f)) t = Some g \<and> P t g)" using Cons.prems by (auto simp: p)
    then show ?case using Cons.IH [of "m(u \<mapsto> f)"] Cons.prems(1) by (simp add: p)
  qed simp
  from this [OF default_functions_ok] assms show ?thesis by blast
qed

text \<open>What \<open>init\<close> adds after the registration of v1alpha1: the priority and some unversioned kinds.\<close>

lemma init_after_v1alpha1:
  assumes "scheme_library ops regs" and "apiserver_init ops s = Inr s'"
  obtains s1 s2 K where "arc_AddToScheme ops s = Inr s1" and "v1alpha1_AddToScheme ops s1 = Inr s2"
    and "regs s' = (regs s2)\<lparr>Reg_priority := [v1alpha1_SchemeGroupVersion], Reg_known := Reg_known (regs s2) \<union> K\<rparr>"
proof -
  obtain s1 s2 s3 where st: "arc_AddToScheme ops s = Inr s1" "v1alpha1_AddToScheme ops s1 = Inr s2"
      "SetVersionPriority ops [v1alpha1_SchemeGroupVersion] s2 = Inr s3"
      "s' = AddUnversionedTypes ops ('''', ''v1'') [''Status'', ''APIVersions'', ''APIGroupList'', ''APIGroup'', ''APIResourceList'']
              (AddToGroupVersion ops ('''', ''v1'') s3)"
    using assms(2) by (auto simp: apiserver_init_def install_Install_def bind_res_Inr Must_def split: sum.splits)
  note lib = assms(1)
  obtain K1 where K1: "regs (AddToGroupVersion ops ('''', ''v1'') s3) = (regs s3)\<lparr>Reg_known := Reg_known (regs s3) \<union> K1\<rparr>"
    using scheme_library.groupversion [OF lib] by blast
  obtain K2 where K2: "regs s' = (regs (AddToGroupVersion ops ('''', ''v1'') s3))
      \<lparr>Reg_known := Reg_known (regs (AddToGroupVersion ops ('''', ''v1'') s3)) \<union> K2\<rparr>"
    using scheme_library.unversioned [OF lib] unfolding st(4) by blast
  have "regs s' = (regs s2)\<lparr>Reg_priority := [v1alpha1_SchemeGroupVersion], Reg_known := Reg_known (regs s2) \<union> (K1 \<union> K2)\<rparr>"
    by (simp add: K1 K2 Un_assoc scheme_library.priority [OF lib st(3)])
  with st(1,2) show thesis by (rule that)
qed

definition served_kinds :: "string set" where
  "served_kinds = {''Order'', ''OrderList'', ''ArtifactWorkflow'', ''ArtifactWorkflowList'', ''Endpoint'', ''EndpointList'',
     ''ArtifactType'', ''ArtifactTypeList''}"

lemma known_after_v1alpha1:
  assumes "scheme_library ops regs" and "arc_AddToScheme ops s = Inr s1" and "v1alpha1_AddToScheme ops s1 = Inr s2"
  shows "{arc_SchemeGroupVersion, v1alpha1_SchemeGroupVersion} \<times> served_kinds \<subseteq> Reg_known (regs s2)"
proof -
  have s1: "s1 = AddKnownTypes ops arc_SchemeGroupVersion
      [''Order'', ''OrderList'', ''ArtifactWorkflow'', ''ArtifactWorkflowList'', ''Endpoint'', ''EndpointList'', ''ArtifactType'', ''ArtifactTypeList''] s"
    using assms(2)
    by (simp add: arc_AddToScheme_def arc_SchemeBuilder_def scheme_library.builder [OF assms(1)] arc_addKnownTypes_def)
  have "Reg_known (regs s1) = Reg_known (regs s) \<union> {arc_SchemeGroupVersion} \<times> served_kinds"
    unfolding s1 scheme_library.known [OF assms(1)] by (simp add: served_kinds_def)
  moreover obtain K where "Reg_known (regs s2) = Reg_known (regs s1) \<union> {v1alpha1_SchemeGroupVersion} \<times> served_kinds \<union> K"
    using scheme_library.v1alpha1_registered(1) [OF assms(1,3)] unfolding served_kinds_def by blast
  ultimately show ?thesis by blast
qed

lemma defaults_after_v1alpha1:
  assumes "scheme_library ops regs" and "v1alpha1_AddToScheme ops s1 = Inr s2" and "k \<in> served_kinds"
  shows "\<exists>f. Reg_defaults (regs s2) (v1alpha1_type k) = Some f \<and> default_ok (v1alpha1_type k) f"
proof -
  have "v1alpha1_type k \<in> set (map fst default_functions)"
    using assms(3) by (auto simp: served_kinds_def default_functions_def)
  from default_lookup [OF this] show ?thesis unfolding scheme_library.v1alpha1_registered(2) [OF assms(1,2)] .
qed

text \<open>
  C31: what a scheme holds after the API server's \<open>init\<close>, if it ends without panic: the eight kinds in the
  internal version and in v1alpha1, v1alpha1 as the preferred version, for each kind a defaulting function
  that leaves every object of its type as it is and panics on any other, and for every convertible type
  the two conversions, which undo each other.
\<close>

theorem apiserver_scheme:
  assumes "scheme_library ops regs" and "apiserver_init ops s = Inr s'"
  shows "{(''arc.bwi.de'', ''__internal''), (''arc.bwi.de'', ''v1alpha1'')} \<times> served_kinds \<subseteq> Reg_known (regs s') \<and>
    Reg_priority (regs s') = [(''arc.bwi.de'', ''v1alpha1'')] \<and>
    (\<forall>k \<in> served_kinds. \<exists>f. Reg_defaults (regs s') (v1alpha1_type k) = Some f \<and>
       (\<forall>x. f x = (if type_of_v1alpha1 x = v1alpha1_type k then Inr x else Inl type_assertion))) \<and>
    (\<forall>t \<in> set conversion_types. \<exists>f g. Reg_conversions (regs s') (v1alpha1_type t, arc_type t) = Some (ToArc f) \<and>
       Reg_conversions (regs s') (arc_type t, v1alpha1_type t) = Some (ToV1alpha1 g) \<and>
       closures_ok (v1alpha1_type t) (arc_type t) f g)"
proof -
  obtain s1 s2 K where st: "arc_AddToScheme ops s = Inr s1" "v1alpha1_AddToScheme ops s1 = Inr s2"
    and s': "regs s' = (regs s2)\<lparr>Reg_priority := [v1alpha1_SchemeGroupVersion], Reg_known := Reg_known (regs s2) \<union> K\<rparr>"
    using assms by (rule init_after_v1alpha1)
  have names: "v1alpha1_SchemeGroupVersion = (''arc.bwi.de'', ''v1alpha1'')" "arc_SchemeGroupVersion = (''arc.bwi.de'', ''__internal'')"
    by (simp_all add: v1alpha1_SchemeGroupVersion_def arc_SchemeGroupVersion_def GroupName_def)
  have "\<exists>f g. Reg_conversions (regs s') (v1alpha1_type t, arc_type t) = Some (ToArc f) \<and>
       Reg_conversions (regs s') (arc_type t, v1alpha1_type t) = Some (ToV1alpha1 g) \<and>
       closures_ok (v1alpha1_type t) (arc_type t) f g" if "t \<in> set conversion_types" for t
    using generated_pairs that scheme_library.v1alpha1_registered(3) [OF assms(1) st(2)]
    unfolding list_all_iff paired_def by (fastforce simp: s')
  moreover have "{(''arc.bwi.de'', ''__internal''), (''arc.bwi.de'', ''v1alpha1'')} \<times> served_kinds \<subseteq> Reg_known (regs s')"
    using known_after_v1alpha1 [OF assms(1) st] unfolding names s' by auto
  moreover have "\<exists>f. Reg_defaults (regs s') (v1alpha1_type k) = Some f \<and>
       (\<forall>x. f x = (if type_of_v1alpha1 x = v1alpha1_type k then Inr x else Inl type_assertion))" if "k \<in> served_kinds" for k
    using defaults_after_v1alpha1 [OF assms(1) st(2) that] by (simp add: s' default_ok_def)
  ultimately show ?thesis by (simp add: s' names)
qed

lemma recording_conversions: "\<exists>t. add_conversions (AddGeneratedConversionFunc recording_scheme) ps s = Inr t"
  by (induction ps arbitrary: s) (auto simp: recording_scheme_def)

theorem apiserver_scheme_witness:
  "\<exists>s'. apiserver_init recording_scheme
      \<lparr>Reg_known = {}, Reg_defaults = Map.empty, Reg_conversions = Map.empty, Reg_priority = []\<rparr> = Inr s' \<and>
     ((''arc.bwi.de'', ''v1alpha1''), ''Order'') \<in> Reg_known s' \<and> Reg_priority s' = [(''arc.bwi.de'', ''v1alpha1'')]"
proof -
  let ?s = "\<lparr>Reg_known = {}, Reg_defaults = Map.empty, Reg_conversions = Map.empty, Reg_priority = []\<rparr> :: registrations"
  have v: "\<exists>t. v1alpha1_AddToScheme recording_scheme s = Inr t" for s
    using recording_conversions [of generated_conversions]
    by (auto simp: v1alpha1_AddToScheme_def localSchemeBuilder_def recording.builder v1alpha1_addKnownTypes_def
        addDefaultingFuncs_def RegisterDefaults_def RegisterConversions_def split: sum.split) (metis Inr_Inl_False)
  have "\<exists>s'. apiserver_init recording_scheme ?s = Inr s'"
  proof -
    obtain s1 where s1: "arc_AddToScheme recording_scheme ?s = Inr s1"
      by (simp add: arc_AddToScheme_def arc_SchemeBuilder_def recording.builder arc_addKnownTypes_def)
    obtain s2 where "v1alpha1_AddToScheme recording_scheme s1 = Inr s2" using v by blast
    with s1 show ?thesis
      by (simp add: apiserver_init_def install_Install_def Must_def) (simp add: recording_scheme_def)
  qed
  then obtain s' where s': "apiserver_init recording_scheme ?s = Inr s'" by blast
  note scheme = apiserver_scheme [OF recording.scheme_library_axioms s']
  have "''Order'' \<in> served_kinds" by (simp add: served_kinds_def)
  then have "((''arc.bwi.de'', ''v1alpha1''), ''Order'') \<in> {(''arc.bwi.de'', ''__internal''), (''arc.bwi.de'', ''v1alpha1'')} \<times> served_kinds"
    by simp
  from subsetD [OF scheme [THEN conjunct1] this] scheme [THEN conjunct2, THEN conjunct1] s'
  show ?thesis by (intro exI [of _ s'] conjI)
qed

end
