(* ===== verification/Informer_Factory.thy ===== *)
theory Informer_Factory
  imports Clientset "HOL-Library.Multiset"
begin

section \<open>The shared informer factory (\<^verbatim>\<open>client-go/informers/externalversions/factory.go\<close>)\<close>

text \<open>
  The factory hands out one informer per type and starts each in a goroutine of its own. An informer is
  an object of the cache library: here it is a position in the list of all informers made so far, where
  its configuration is kept (what \<open>cache.NewSharedIndexInformer\<close> and \<open>SetTransform\<close> were given). A
  goroutine is the informer it runs and its stop channel.

  Every method takes the factory's lock for the work it does on the factory, so its locked part is one
  atomic step of the system \<open>factory_step\<close> below. \<open>Shutdown\<close> has two parts, the locked one and the wait for the
  counter \<open>wg\<close>. A goroutine ends, and counts down, when its stop channel is closed; \<open>informer.Run\<close> is
  the library's.
\<close>

subsection \<open>Informers\<close>

datatype go_context = Background | Context nat

datatype verb = ListVerb | WatchVerb

text \<open>A request of a typed client for a collection: \<open>'o\<close> are the list options.\<close>

record 'o api_call =
  Call_Verb :: verb
  Call_Resource :: string
  Call_Namespace :: string
  Call_Context :: go_context
  Call_Options :: 'o

definition Typed_List :: "'r typed_client \<Rightarrow> go_context \<Rightarrow> 'o \<Rightarrow> 'o api_call" where
  "Typed_List t ctx options =
     \<lparr>Call_Verb = ListVerb, Call_Resource = Typed_resource t, Call_Namespace = Typed_namespace t,
      Call_Context = ctx, Call_Options = options\<rparr>"

definition Typed_Watch :: "'r typed_client \<Rightarrow> go_context \<Rightarrow> 'o \<Rightarrow> 'o api_call" where
  "Typed_Watch t ctx options =
     \<lparr>Call_Verb = WatchVerb, Call_Resource = Typed_resource t, Call_Namespace = Typed_namespace t,
      Call_Context = ctx, Call_Options = options\<rparr>"

record 'o ListWatch =
  ListFunc :: "'o \<Rightarrow> 'o api_call"
  WatchFunc :: "'o \<Rightarrow> 'o api_call"
  ListWithContextFunc :: "go_context \<Rightarrow> 'o \<Rightarrow> 'o api_call"
  WatchFuncWithContext :: "go_context \<Rightarrow> 'o \<Rightarrow> 'o api_call"

record ('o, 'f) informer =
  Informer_ListWatch :: "'o ListWatch"
  Informer_Object :: string
  Informer_Resync :: int
  Informer_Indexers :: "(string \<times> string) list"
  Informer_Transform :: "'f option"

type_synonym 'o TweakListOptionsFunc = "('o \<Rightarrow> 'o) option"

subsection \<open>The factory\<close>

text \<open>
  Maps keyed by \<open>reflect.Type\<close> are keyed by the name of the type. A key of \<open>customResync\<close> that occurs
  twice in \<open>WithCustomResyncConfig\<close> (two objects of one type) gets the value ranged over last, so the
  argument is the list in the order of the range.
\<close>

record ('r, 'd, 'o, 'f) sharedInformerFactory =
  Factory_client :: "('r, 'd) Clientset"
  Factory_namespace :: string
  Factory_tweakListOptions :: "'o TweakListOptionsFunc"
  Factory_defaultResync :: int
  Factory_customResync :: "(string, int) fmap"
  Factory_transform :: "'f option"
  Factory_informers :: "(string, nat) fmap"
  Factory_startedInformers :: "(string, bool) fmap"
  Factory_wg :: nat
  Factory_shuttingDown :: bool

type_synonym ('r, 'd, 'o, 'f) SharedInformerOption =
  "('r, 'd, 'o, 'f) sharedInformerFactory \<Rightarrow> ('r, 'd, 'o, 'f) sharedInformerFactory"

definition WithCustomResyncConfig :: "(string \<times> int) list \<Rightarrow> ('r, 'd, 'o, 'f) SharedInformerOption" where
  "WithCustomResyncConfig resyncConfig factory =
     factory\<lparr>Factory_customResync := fold (\<lambda>(k, v). fmupd k v) resyncConfig (Factory_customResync factory)\<rparr>"

definition WithTweakListOptions :: "'o TweakListOptionsFunc \<Rightarrow> ('r, 'd, 'o, 'f) SharedInformerOption" where
  "WithTweakListOptions tweakListOptions factory = factory\<lparr>Factory_tweakListOptions := tweakListOptions\<rparr>"

definition WithNamespace :: "string \<Rightarrow> ('r, 'd, 'o, 'f) SharedInformerOption" where
  "WithNamespace namespace factory = factory\<lparr>Factory_namespace := namespace\<rparr>"

definition WithTransform :: "'f option \<Rightarrow> ('r, 'd, 'o, 'f) SharedInformerOption" where
  "WithTransform transform factory = factory\<lparr>Factory_transform := transform\<rparr>"

definition NewSharedInformerFactoryWithOptions ::
  "('r, 'd) Clientset \<Rightarrow> int \<Rightarrow> ('r, 'd, 'o, 'f) SharedInformerOption list \<Rightarrow> ('r, 'd, 'o, 'f) sharedInformerFactory" where
  "NewSharedInformerFactoryWithOptions client defaultResync options =
     fold (\<lambda>opt. opt) options
       \<lparr>Factory_client = client, Factory_namespace = '''', Factory_tweakListOptions = None,
        Factory_defaultResync = defaultResync, Factory_customResync = fmempty, Factory_transform = None,
        Factory_informers = fmempty, Factory_startedInformers = fmempty, Factory_wg = 0,
        Factory_shuttingDown = False\<rparr>"

definition NewSharedInformerFactory ::
  "('r, 'd) Clientset \<Rightarrow> int \<Rightarrow> ('r, 'd, 'o, 'f) sharedInformerFactory" where
  "NewSharedInformerFactory client defaultResync = NewSharedInformerFactoryWithOptions client defaultResync []"

definition NewFilteredSharedInformerFactory ::
  "('r, 'd) Clientset \<Rightarrow> int \<Rightarrow> string \<Rightarrow> 'o TweakListOptionsFunc \<Rightarrow> ('r, 'd, 'o, 'f) sharedInformerFactory" where
  "NewFilteredSharedInformerFactory client defaultResync namespace tweakListOptions =
     NewSharedInformerFactoryWithOptions client defaultResync
       [WithNamespace namespace, WithTweakListOptions tweakListOptions]"

text \<open>
  The system: the factory, the informers made so far, the goroutines that run, all goroutines ever
  started (type, informer, stop channel) and the closed channels. Channels are numbered.
\<close>

record ('r, 'd, 'o, 'f) informer_system =
  Sys_factory :: "('r, 'd, 'o, 'f) sharedInformerFactory"
  Sys_informers :: "('o, 'f) informer list"
  Sys_running :: "(nat \<times> nat) list"
  Sys_history :: "(string \<times> nat \<times> nat) list"
  Sys_closed :: "nat set"

definition new_system :: "('r, 'd, 'o, 'f) sharedInformerFactory \<Rightarrow> ('r, 'd, 'o, 'f) informer_system" where
  "new_system factory =
     \<lparr>Sys_factory = factory, Sys_informers = [], Sys_running = [], Sys_history = [], Sys_closed = {}\<rparr>"

definition InformerFor ::
  "string \<Rightarrow> (('r, 'd) Clientset \<Rightarrow> int \<Rightarrow> ('o, 'f) informer) \<Rightarrow>
   ('r, 'd, 'o, 'f) informer_system \<Rightarrow> nat \<times> ('r, 'd, 'o, 'f) informer_system" where
  "InformerFor informerType newFunc s =
     (let f = Sys_factory s in
      case fmlookup (Factory_informers f) informerType of
        Some informer \<Rightarrow> (informer, s)
      | None \<Rightarrow>
          let resyncPeriod =
                (case fmlookup (Factory_customResync f) informerType of
                   None \<Rightarrow> Factory_defaultResync f
                 | Some period \<Rightarrow> period);
              informer = length (Sys_informers s) in
          (informer,
           s\<lparr>Sys_informers := Sys_informers s @
               [(newFunc (Factory_client f) resyncPeriod)\<lparr>Informer_Transform := Factory_transform f\<rparr>],
             Sys_factory := f\<lparr>Factory_informers := fmupd informerType informer (Factory_informers f)\<rparr>\<rparr>))"

text \<open>The loop of \<open>Start\<close> over the types, in the order of the range.\<close>

definition is_started :: "('r, 'd, 'o, 'f) sharedInformerFactory \<Rightarrow> string \<Rightarrow> bool" where
  "is_started f t = get_or False (Factory_startedInformers f) t"

definition start_one ::
  "nat \<Rightarrow> string \<Rightarrow> ('r, 'd, 'o, 'f) informer_system \<Rightarrow> ('r, 'd, 'o, 'f) informer_system" where
  "start_one stopCh informerType s =
     (case fmlookup (Factory_informers (Sys_factory s)) informerType of
        None \<Rightarrow> s
      | Some informer \<Rightarrow>
          if is_started (Sys_factory s) informerType then s
          else s\<lparr>Sys_factory := (Sys_factory s)
                   \<lparr>Factory_wg := Suc (Factory_wg (Sys_factory s)),
                    Factory_startedInformers := fmupd informerType True (Factory_startedInformers (Sys_factory s))\<rparr>,
                 Sys_running := Sys_running s @ [(informer, stopCh)],
                 Sys_history := Sys_history s @ [(informerType, informer, stopCh)]\<rparr>)"

definition Factory_Start ::
  "range_order \<Rightarrow> nat \<Rightarrow> ('r, 'd, 'o, 'f) informer_system \<Rightarrow> ('r, 'd, 'o, 'f) informer_system" where
  "Factory_Start \<rho> stopCh s =
     (if Factory_shuttingDown (Sys_factory s) then s
      else fold (start_one stopCh) (\<rho> ''Start'' (fmdom (Factory_informers (Sys_factory s)))) s)"

text \<open>\<open>Shutdown\<close> marks the factory and then returns as soon as \<open>wg\<close> is zero.\<close>

definition Shutdown_mark :: "('r, 'd, 'o, 'f) informer_system \<Rightarrow> ('r, 'd, 'o, 'f) informer_system" where
  "Shutdown_mark s = s\<lparr>Sys_factory := (Sys_factory s)\<lparr>Factory_shuttingDown := True\<rparr>\<rparr>"

definition Shutdown_returns :: "('r, 'd, 'o, 'f) informer_system \<Rightarrow> bool" where
  "Shutdown_returns s \<longleftrightarrow> Factory_wg (Sys_factory s) = 0"

text \<open>
  \<open>WaitForCacheSync\<close>: the informers that are started, then the library's wait for each of them;
  \<open>wait informer\<close> is its answer.
\<close>

definition started_informers :: "('r, 'd, 'o, 'f) sharedInformerFactory \<Rightarrow> (string, nat) fmap" where
  "started_informers f = fmfilter (is_started f) (Factory_informers f)"

definition Factory_WaitForCacheSync :: "(nat \<Rightarrow> bool) \<Rightarrow> ('r, 'd, 'o, 'f) informer_system \<Rightarrow> (string, bool) fmap" where
  "Factory_WaitForCacheSync wait s = fmmap wait (started_informers (Sys_factory s))"

text \<open>The end of a goroutine: \<open>informer.Run\<close> has returned and the deferred \<open>wg.Done\<close> counts down.\<close>

definition goroutine_done :: "nat \<times> nat \<Rightarrow> ('r, 'd, 'o, 'f) informer_system \<Rightarrow> ('r, 'd, 'o, 'f) informer_system" where
  "goroutine_done g s =
     s\<lparr>Sys_running := remove1 g (Sys_running s),
       Sys_factory := (Sys_factory s)\<lparr>Factory_wg := Factory_wg (Sys_factory s) - 1\<rparr>\<rparr>"

inductive factory_step :: "('r, 'd, 'o, 'f) informer_system \<Rightarrow> ('r, 'd, 'o, 'f) informer_system \<Rightarrow> bool" where
  informer_for: "factory_step s (snd (InformerFor informerType newFunc s))"
| start: "range_ok \<rho> \<Longrightarrow> factory_step s (Factory_Start \<rho> stopCh s)"
| shutdown: "factory_step s (Shutdown_mark s)"
| close: "factory_step s (s\<lparr>Sys_closed := insert ch (Sys_closed s)\<rparr>)"
| finished: "(i, ch) \<in> set (Sys_running s) \<Longrightarrow> ch \<in> Sys_closed s \<Longrightarrow> factory_step s (goroutine_done (i, ch) s)"

inductive_cases factory_stepE: "factory_step s s'"

subsection \<open>The invariant\<close>

definition factory_ok :: "('r, 'd, 'o, 'f) informer_system \<Rightarrow> bool" where
  "factory_ok s \<longleftrightarrow>
     (\<forall>i. i < length (Sys_informers s) \<longleftrightarrow> i \<in> fmran' (Factory_informers (Sys_factory s))) \<and>
     inj_on (fmlookup (Factory_informers (Sys_factory s))) (fmdom' (Factory_informers (Sys_factory s))) \<and>
     distinct (map fst (Sys_history s)) \<and>
     (\<forall>t. is_started (Sys_factory s) t \<longleftrightarrow> t \<in> fst ` set (Sys_history s)) \<and>
     (\<forall>x \<in> set (Sys_history s). fmlookup (Factory_informers (Sys_factory s)) (fst x) = Some (fst (snd x))) \<and>
     Factory_wg (Sys_factory s) = length (Sys_running s) \<and>
     mset (Sys_running s) \<subseteq># mset (map snd (Sys_history s))"

lemma is_started_upd [simp]:
  "is_started (f\<lparr>Factory_startedInformers := fmupd t True (Factory_startedInformers f)\<rparr>) u \<longleftrightarrow> u = t \<or> is_started f u"
  by (auto simp: is_started_def)

lemma is_started_cong [simp]:
  "is_started (f\<lparr>Factory_wg := n\<rparr>) t = is_started f t"
  "is_started (f\<lparr>Factory_informers := m\<rparr>) t = is_started f t"
  "is_started (f\<lparr>Factory_shuttingDown := b\<rparr>) t = is_started f t"
  by (simp_all add: is_started_def)

lemma fmran_new: "fmlookup m t = None \<Longrightarrow> fmran' (fmupd t n m) = insert n (fmran' m)"
  by (rule set_eqI) (auto simp: fmlookup_ran'_iff, metis option.distinct(1))

lemma fcard_inj:
  assumes "\<forall>i. i < n \<longleftrightarrow> i \<in> fmran' m" and "inj_on (fmlookup m) (fmdom' m)"
  shows "fcard (fmdom m) = n"
proof -
  have "fmlookup m ` fmdom' m = Some ` {..<n}"
    using assms(1) by (force simp: fmlookup_ran'_iff fmlookup_dom'_iff image_iff)
  then have "card (fmdom' m) = card (Some ` {..<n})" using card_image [OF assms(2)] by simp
  then show ?thesis by (simp add: card_image fcard.rep_eq fmdom'_alt_def)
qed

lemma ok_InformerFor:
  assumes "factory_ok s"
  shows "factory_ok (snd (InformerFor t newFunc s))"
proof (cases "fmlookup (Factory_informers (Sys_factory s)) t")
  case None
  let ?m = "Factory_informers (Sys_factory s)" and ?n = "length (Sys_informers s)"
  have new: "?n \<notin> fmran' ?m" and t: "t \<notin> fmdom' ?m" using assms None by (auto simp: factory_ok_def fmlookup_dom'_iff)
  have ran: "fmran' (fmupd t ?n ?m) = insert ?n (fmran' ?m)"
    using None by (rule fmran_new)
  have inj: "inj_on (fmlookup (fmupd t ?n ?m)) (fmdom' (fmupd t ?n ?m))"
    using assms new t by (auto simp: factory_ok_def inj_on_def intro: fmran'I)
  show ?thesis
    using assms None ran inj by (auto simp: InformerFor_def Let_def factory_ok_def less_Suc_eq)
qed (use assms in \<open>simp add: InformerFor_def\<close>)

lemma start_one_started [simp]:
  "is_started (Sys_factory (start_one ch t s)) u \<longleftrightarrow>
     is_started (Sys_factory s) u \<or> u = t \<and> t \<in> fmdom' (Factory_informers (Sys_factory s))"
  by (auto simp: start_one_def is_started_def fmlookup_dom'_iff split: option.split)

lemma start_one_informers [simp]:
  "Factory_informers (Sys_factory (start_one ch t s)) = Factory_informers (Sys_factory s)"
  "Sys_informers (start_one ch t s) = Sys_informers s"
  by (simp_all add: start_one_def split: option.split)

lemma ok_start_one:
  assumes "factory_ok s"
  shows "factory_ok (start_one ch t s)"
proof (cases "t \<in> fmdom' (Factory_informers (Sys_factory s)) \<and> \<not> is_started (Sys_factory s) t")
  case True
  then obtain i where i: "fmlookup (Factory_informers (Sys_factory s)) t = Some i" by (auto simp: fmlookup_dom'_iff)
  have "t \<notin> fst ` set (Sys_history s)" using assms True by (simp add: factory_ok_def)
  moreover have "Sys_history (start_one ch t s) = Sys_history s @ [(t, i, ch)]"
    "Sys_running (start_one ch t s) = Sys_running s @ [(i, ch)]"
    "Factory_wg (Sys_factory (start_one ch t s)) = Suc (Factory_wg (Sys_factory s))"
    using True i by (simp_all add: start_one_def)
  ultimately show ?thesis using assms i True by (auto simp: factory_ok_def)
next
  case False
  then have "start_one ch t s = s" by (auto simp: start_one_def fmlookup_dom'_iff split: option.split)
  then show ?thesis using assms by simp
qed

lemma ok_start_loop: "factory_ok s \<Longrightarrow> factory_ok (fold (start_one ch) ts s)"
  by (induction ts arbitrary: s) (auto intro: ok_start_one)

lemma ok_goroutine_done:
  assumes "factory_ok s" and "(i, ch) \<in> set (Sys_running s)"
  shows "factory_ok (goroutine_done (i, ch) s)"
proof -
  have "mset (remove1 (i, ch) (Sys_running s)) \<subseteq># mset (map snd (Sys_history s))"
    using assms(1) by (auto simp: factory_ok_def intro: subset_mset.order_trans [OF diff_subset_eq_self])
  then show ?thesis
    using assms by (auto simp: goroutine_done_def factory_ok_def length_remove1)
qed

lemma factory_step_ok: "factory_step s s' \<Longrightarrow> factory_ok s \<Longrightarrow> factory_ok s'"
proof (induction rule: factory_step.induct)
  case (start \<rho> s stopCh)
  then show ?case by (simp add: Factory_Start_def ok_start_loop)
qed (auto simp: ok_InformerFor ok_goroutine_done Shutdown_mark_def, simp_all add: factory_ok_def)

lemma factory_steps_ok: "factory_step\<^sup>*\<^sup>* s s' \<Longrightarrow> factory_ok s \<Longrightarrow> factory_ok s'"
  by (induction rule: rtranclp_induct) (auto intro: factory_step_ok)

text \<open>The options the package offers; they leave the informers and the state of the factory alone.\<close>

inductive factory_option :: "('r, 'd, 'o, 'f) SharedInformerOption \<Rightarrow> bool" where
  "factory_option (WithCustomResyncConfig cfg)"
| "factory_option (WithTweakListOptions tw)"
| "factory_option (WithNamespace ns)"
| "factory_option (WithTransform tr)"

definition unused :: "('r, 'd, 'o, 'f) sharedInformerFactory \<Rightarrow> bool" where
  "unused f \<longleftrightarrow> Factory_informers f = fmempty \<and> Factory_startedInformers f = fmempty \<and> Factory_wg f = 0 \<and>
     \<not> Factory_shuttingDown f"

lemma unused_option: "factory_option opt \<Longrightarrow> unused f \<Longrightarrow> unused (opt f)"
  by (erule factory_option.cases)
    (auto simp: unused_def WithCustomResyncConfig_def WithTweakListOptions_def WithNamespace_def WithTransform_def)

lemma unused_options:
  "\<forall>opt \<in> set opts. factory_option opt \<Longrightarrow> unused f \<Longrightarrow> unused (fold (\<lambda>opt. opt) opts f)"
  by (induction opts arbitrary: f) (auto intro: unused_option)

lemma ok_new_system:
  assumes "\<forall>opt \<in> set opts. factory_option opt"
  shows "factory_ok (new_system (NewSharedInformerFactoryWithOptions c r opts))"
proof -
  have "unused (NewSharedInformerFactoryWithOptions c r opts)"
    unfolding NewSharedInformerFactoryWithOptions_def
    by (rule unused_options [OF assms]) (simp add: unused_def)
  then show ?thesis
    by (auto simp: factory_ok_def new_system_def unused_def is_started_def get_or_def fmran'_def)
qed

subsection \<open>Properties\<close>

text \<open>
  C25: the state of a factory, whatever sequence of \<open>InformerFor\<close>, \<open>Start\<close>, \<open>Shutdown\<close>, closed channels and
  ending goroutines led to it. There is one informer per type asked for and no other; no type and no
  informer was ever run twice, only informers of the factory were run; the goroutines that run are among
  those started, and the counter \<open>Shutdown\<close> waits for is their number.
\<close>

theorem factory_invariant:
  assumes "\<forall>opt \<in> set opts. factory_option opt"
    and "factory_step\<^sup>*\<^sup>* (new_system (NewSharedInformerFactoryWithOptions c r opts)) s"
  shows "distinct (map fst (Sys_history s)) \<and> distinct (map (fst \<circ> snd) (Sys_history s)) \<and>
    (\<forall>(t, i, ch) \<in> set (Sys_history s). fmlookup (Factory_informers (Sys_factory s)) t = Some i \<and> i < length (Sys_informers s)) \<and>
    length (Sys_informers s) = fcard (fmdom (Factory_informers (Sys_factory s))) \<and>
    mset (Sys_running s) \<subseteq># mset (map snd (Sys_history s)) \<and>
    Factory_wg (Sys_factory s) = length (Sys_running s)"
proof -
  let ?m = "Factory_informers (Sys_factory s)"
  have ok: "factory_ok s" using factory_steps_ok [OF assms(2)] ok_new_system [OF assms(1)] by blast
  have inj: "inj_on (\<lambda>x. fst (snd x)) (set (Sys_history s))"
  proof (rule inj_onI)
    fix x y
    assume x: "x \<in> set (Sys_history s)" "y \<in> set (Sys_history s)" "fst (snd x) = fst (snd y)"
    then have "fmlookup ?m (fst x) = fmlookup ?m (fst y)" "fst x \<in> fmdom' ?m" "fst y \<in> fmdom' ?m"
      using ok by (auto simp: factory_ok_def fmlookup_dom'_iff)
    then have "fst x = fst y" using ok by (auto simp: factory_ok_def dest: inj_onD)
    then show "x = y" using ok x by (auto simp: factory_ok_def distinct_map inj_on_def)
  qed
  have "distinct (Sys_history s)" using ok by (auto simp: factory_ok_def distinct_map)
  with inj have "distinct (map (fst \<circ> snd) (Sys_history s))" by (simp add: distinct_map comp_def)
  moreover have "length (Sys_informers s) = fcard (fmdom ?m)"
    using ok fcard_inj [of "length (Sys_informers s)" ?m] by (simp add: factory_ok_def)
  moreover have "fmlookup ?m t = Some i \<and> i < length (Sys_informers s)" if "(t, i, ch) \<in> set (Sys_history s)" for t i ch
  proof -
    have "fmlookup ?m t = Some i" using ok that by (force simp: factory_ok_def)
    then show ?thesis using ok by (auto simp: factory_ok_def fmlookup_ran'_iff)
  qed
  ultimately show ?thesis
    using ok by (auto simp: factory_ok_def)
qed

text \<open>A run for the witnesses: one informer, started on channel 7, which is then closed after \<open>Shutdown\<close>.\<close>

definition demo_clientset :: "(unit, unit) Clientset" where
  "demo_clientset = \<lparr>Clientset_DiscoveryClient = None, Clientset_arcV1alpha1 = None\<rparr>"

definition demo_informer :: "(unit, unit) Clientset \<Rightarrow> int \<Rightarrow> (unit, unit) informer" where
  "demo_informer c resync =
     \<lparr>Informer_ListWatch =
        \<lparr>ListFunc = Typed_List (newOrders (Clientset_ArcV1alpha1 c) '''') Background, WatchFunc = Typed_Watch (newOrders (Clientset_ArcV1alpha1 c) '''') Background,
         ListWithContextFunc = Typed_List (newOrders (Clientset_ArcV1alpha1 c) ''''), WatchFuncWithContext = Typed_Watch (newOrders (Clientset_ArcV1alpha1 c) '''')\<rparr>,
      Informer_Object = ''Order'', Informer_Resync = resync, Informer_Indexers = [], Informer_Transform = None\<rparr>"

definition demo_factory :: "(unit, unit, unit, unit) sharedInformerFactory" where
  "demo_factory = NewSharedInformerFactoryWithOptions demo_clientset 30 [WithNamespace ''team-a'']"

definition demo_created :: "(unit, unit, unit, unit) informer_system" where
  "demo_created = snd (InformerFor ''Order'' demo_informer (new_system demo_factory))"

definition demo_started :: "(unit, unit, unit, unit) informer_system" where
  "demo_started = Factory_Start sorted_range 7 demo_created"

definition demo_stopping :: "(unit, unit, unit, unit) informer_system" where
  "demo_stopping = (Shutdown_mark demo_started)\<lparr>Sys_closed := {7}\<rparr>"

lemma demo_started_eval:
  "Sys_running demo_started = [(0, 7)]" "Sys_history demo_started = [(''Order'', 0, 7)]" "Sys_closed demo_started = {}"
  "Factory_wg (Sys_factory demo_started) = 1"
  by (simp_all add: demo_started_def demo_created_def demo_factory_def Factory_Start_def new_system_def InformerFor_def
      NewSharedInformerFactoryWithOptions_def WithNamespace_def Let_def sorted_range_def start_one_def is_started_def get_or_def)

lemma demo_options: "\<forall>opt \<in> set [WithNamespace ''team-a'']. factory_option opt"
  by (simp add: factory_option.intros)

lemma demo_reachable:
  shows demo_started_reachable: "factory_step\<^sup>*\<^sup>* (new_system demo_factory) demo_started"
    and demo_stopping_reachable: "factory_step\<^sup>*\<^sup>* (new_system demo_factory) demo_stopping"
proof -
  have "factory_step (new_system demo_factory) demo_created"
    unfolding demo_created_def by (rule factory_step.informer_for)
  moreover have "factory_step demo_created demo_started"
    unfolding demo_started_def by (rule factory_step.start) simp
  ultimately show 1: "factory_step\<^sup>*\<^sup>* (new_system demo_factory) demo_started" by simp
  have "factory_step demo_started (Shutdown_mark demo_started)" by (rule factory_step.shutdown)
  moreover have "factory_step (Shutdown_mark demo_started) demo_stopping"
    using factory_step.close [of "Shutdown_mark demo_started" 7]
    by (simp add: demo_stopping_def Shutdown_mark_def demo_started_eval)
  ultimately show "factory_step\<^sup>*\<^sup>* (new_system demo_factory) demo_stopping"
    using 1 by (meson rtranclp.rtrancl_into_rtrancl)
qed

theorem factory_invariant_witness:
  "Sys_running demo_started = [(0, 7)] \<and> Factory_wg (Sys_factory demo_started) = 1 \<and>
   length (Sys_informers demo_started) = fcard (fmdom (Factory_informers (Sys_factory demo_started)))"
  using factory_invariant [OF demo_options demo_started_reachable [unfolded demo_factory_def]] demo_started_eval
  by simp

text \<open>Once a shutdown has begun, nothing is started any more and the counter only goes down.\<close>

definition winds_down :: "('r, 'd, 'o, 'f) informer_system \<Rightarrow> ('r, 'd, 'o, 'f) informer_system \<Rightarrow> bool" where
  "winds_down s s' \<longleftrightarrow> Factory_shuttingDown (Sys_factory s') \<and> Sys_history s' = Sys_history s \<and>
     Factory_wg (Sys_factory s') \<le> Factory_wg (Sys_factory s) \<and>
     set (Sys_running s') \<subseteq> set (Sys_running s) \<and> Sys_closed s \<subseteq> Sys_closed s'"

lemma goroutine_done_simps [simp]:
  "Factory_wg (Sys_factory (goroutine_done g s)) = Factory_wg (Sys_factory s) - 1"
  "Factory_shuttingDown (Sys_factory (goroutine_done g s)) = Factory_shuttingDown (Sys_factory s)"
  "Sys_running (goroutine_done g s) = remove1 g (Sys_running s)"
  "Sys_history (goroutine_done g s) = Sys_history s" "Sys_closed (goroutine_done g s) = Sys_closed s"
  by (simp_all add: goroutine_done_def)

lemma stopping_step:
  assumes "factory_step s s'" and "Factory_shuttingDown (Sys_factory s)"
  shows "winds_down s s'"
  using assms
proof (cases rule: factory_step.cases)
  case (informer_for t newFunc)
  then show ?thesis using assms(2) by (simp add: winds_down_def InformerFor_def Let_def split: option.split)
next
  case (finished i ch)
  then show ?thesis using assms(2) set_remove1_subset [of "(i, ch)" "Sys_running s"] by (simp add: winds_down_def)
qed (use assms(2) in \<open>auto simp: winds_down_def Factory_Start_def Shutdown_mark_def\<close>)

lemma stopping_steps:
  assumes "factory_step\<^sup>*\<^sup>* s s'" and "Factory_shuttingDown (Sys_factory s)"
  shows "winds_down s s'"
  using assms
proof (induction rule: rtranclp_induct)
  case (step y z)
  then have "winds_down s y" "winds_down y z" using stopping_step [OF step.hyps(2)] by (auto simp: winds_down_def)
  then show ?case by (auto simp: winds_down_def)
qed (simp add: winds_down_def)

text \<open>
  C26: after \<open>Shutdown\<close> has marked the factory, no interleaving of later calls starts an informer: the
  goroutines ever started stay the same, those running and the counter only become fewer, and the mark
  stays. So no \<open>wg.Add\<close> races with the \<open>wg.Wait\<close> of \<open>Shutdown\<close>.
\<close>

theorem no_start_after_shutdown:
  assumes "factory_step\<^sup>*\<^sup>* (Shutdown_mark s) s'"
  shows "Factory_shuttingDown (Sys_factory s') \<and> Sys_history s' = Sys_history s \<and>
    Factory_wg (Sys_factory s') \<le> Factory_wg (Sys_factory s) \<and> set (Sys_running s') \<subseteq> set (Sys_running s)"
  using stopping_steps [OF assms] by (simp add: winds_down_def Shutdown_mark_def)

theorem no_start_after_shutdown_witness:
  "Sys_history (Factory_Start sorted_range 9 (snd (InformerFor ''Endpoint'' demo_informer (Shutdown_mark demo_started))))
     = Sys_history demo_started"
proof -
  have "factory_step\<^sup>*\<^sup>* (Shutdown_mark demo_started)
      (Factory_Start sorted_range 9 (snd (InformerFor ''Endpoint'' demo_informer (Shutdown_mark demo_started))))"
    by (rule rtranclp.rtrancl_into_rtrancl [OF r_into_rtranclp])
      (rule factory_step.informer_for, rule factory_step.start, simp)
  from no_start_after_shutdown [OF this] show ?thesis by simp
qed

text \<open>The goroutines whose channels are closed can all end.\<close>

lemma some_can_finish:
  assumes "factory_ok s" and "\<forall>(i, ch) \<in> set (Sys_running s). ch \<in> Sys_closed s" and "\<not> Shutdown_returns s"
  obtains g where "g \<in> set (Sys_running s)" "factory_step s (goroutine_done g s)"
proof -
  have "Sys_running s \<noteq> []" using assms(1,3) by (auto simp: Shutdown_returns_def factory_ok_def)
  then obtain i ch where g: "(i, ch) \<in> set (Sys_running s)" by (cases "Sys_running s") auto
  then have "factory_step s (goroutine_done (i, ch) s)" using assms(2) by (auto intro: factory_step.finished)
  with g show thesis by (rule that)
qed

lemma all_can_finish:
  assumes "factory_ok s" and "\<forall>(i, ch) \<in> set (Sys_running s). ch \<in> Sys_closed s"
  shows "\<exists>s'. factory_step\<^sup>*\<^sup>* s s' \<and> Shutdown_returns s'"
  using assms
proof (induction "Factory_wg (Sys_factory s)" arbitrary: s)
  case 0
  then show ?case by (auto simp: Shutdown_returns_def)
next
  case (Suc n)
  have "\<not> Shutdown_returns s" using Suc.hyps(2) by (simp add: Shutdown_returns_def)
  then obtain g where g: "g \<in> set (Sys_running s)" "factory_step s (goroutine_done g s)"
    using some_can_finish Suc.prems by blast
  have "n = Factory_wg (Sys_factory (goroutine_done g s))" using Suc.hyps(2) by simp
  moreover have "factory_ok (goroutine_done g s)" using Suc.prems(1) g(2) by (rule factory_step_ok [rotated])
  moreover have "\<forall>(i, ch) \<in> set (Sys_running (goroutine_done g s)). ch \<in> Sys_closed (goroutine_done g s)"
    using Suc.prems(2) set_remove1_subset by fastforce
  ultimately obtain s' where "factory_step\<^sup>*\<^sup>* (goroutine_done g s) s'" "Shutdown_returns s'"
    using Suc.hyps(1) by blast
  then show ?case using g(2) by (meson converse_rtranclp_into_rtranclp)
qed

text \<open>Goroutines that end one after the other, each when its stop channel is closed.\<close>

fun ends :: "(nat \<times> nat) list \<Rightarrow> ('r, 'd, 'o, 'f) informer_system \<Rightarrow> bool" where
  "ends [] s \<longleftrightarrow> True"
| "ends (g # gs) s \<longleftrightarrow> g \<in> set (Sys_running s) \<and> snd g \<in> Sys_closed s \<and> ends gs (goroutine_done g s)"

lemma goroutine_done_ok:
  assumes "factory_ok s" and "g \<in> set (Sys_running s)" and "snd g \<in> Sys_closed s"
  shows "factory_ok (goroutine_done g s)"
proof -
  have "factory_step s (goroutine_done (fst g, snd g) s)" using assms(2,3) by (intro factory_step.finished) simp_all
  then show ?thesis using assms(1) by (simp add: factory_step_ok)
qed

lemma ends_counter:
  assumes "factory_ok s" and "ends gs s"
  shows "Factory_wg (Sys_factory (fold goroutine_done gs s)) + length gs = Factory_wg (Sys_factory s)"
  using assms
proof (induction gs arbitrary: s)
  case (Cons g gs)
  have "0 < Factory_wg (Sys_factory s)" using Cons.prems by (auto simp: factory_ok_def)
  moreover have "factory_ok (goroutine_done g s)" using Cons.prems by (simp add: goroutine_done_ok)
  ultimately show ?case using Cons.IH [of "goroutine_done g s"] Cons.prems(2) by simp
qed simp

lemma all_end:
  assumes "factory_ok s" and "\<forall>(i, ch) \<in> set (Sys_running s). ch \<in> Sys_closed s"
  shows "\<exists>gs. ends gs s \<and> Shutdown_returns (fold goroutine_done gs s)"
  using assms
proof (induction "Factory_wg (Sys_factory s)" arbitrary: s)
  case 0
  then show ?case by (intro exI [of _ "[]"]) (simp add: Shutdown_returns_def)
next
  case (Suc n)
  have "\<not> Shutdown_returns s" using Suc.hyps(2) by (simp add: Shutdown_returns_def)
  then obtain g where g: "g \<in> set (Sys_running s)" using some_can_finish Suc.prems by blast
  with Suc.prems(2) have c: "snd g \<in> Sys_closed s" by auto
  have "\<forall>(i, ch) \<in> set (Sys_running (goroutine_done g s)). ch \<in> Sys_closed (goroutine_done g s)"
    using Suc.prems(2) set_remove1_subset by fastforce
  moreover have "n = Factory_wg (Sys_factory (goroutine_done g s))" using Suc.hyps(2) by simp
  ultimately obtain gs where "ends gs (goroutine_done g s)"
    "Shutdown_returns (fold goroutine_done gs (goroutine_done g s))"
    using Suc.hyps(1) goroutine_done_ok [OF Suc.prems(1) g c] by blast
  with g c show ?case by (intro exI [of _ "g # gs"]) simp
qed

text \<open>
  C27: \<open>Shutdown\<close> returns once the callers have closed the stop channels, which \<open>Shutdown\<close> itself does
  not do. Take a factory that is shutting down and whose running informers all have closed stop
  channels, and whatever happens next. Then \<open>Shutdown\<close> can return, or there is a goroutine that can end
  and that brings the counter closer to zero; nothing ever takes the counter up again, and from every
  state one gets to one in which \<open>Shutdown\<close> returns. However the goroutines end, there are no more ends
  than the counter says, \<open>Shutdown\<close> returns after exactly that many of them, and they can all end.
\<close>

theorem shutdown_returns:
  assumes "\<forall>opt \<in> set opts. factory_option opt"
    and "factory_step\<^sup>*\<^sup>* (new_system (NewSharedInformerFactoryWithOptions c r opts)) s"
    and "Factory_shuttingDown (Sys_factory s)"
    and "\<forall>(i, ch) \<in> set (Sys_running s). ch \<in> Sys_closed s"
    and "factory_step\<^sup>*\<^sup>* s s'"
  shows "(Shutdown_returns s' \<or>
     (\<exists>g. factory_step s' (goroutine_done g s') \<and>
        Factory_wg (Sys_factory (goroutine_done g s')) < Factory_wg (Sys_factory s'))) \<and>
    Factory_wg (Sys_factory s') \<le> Factory_wg (Sys_factory s) \<and>
    (\<exists>s''. factory_step\<^sup>*\<^sup>* s' s'' \<and> Shutdown_returns s'') \<and>
    (\<forall>gs. ends gs s' \<longrightarrow> length gs \<le> Factory_wg (Sys_factory s') \<and>
       (Shutdown_returns (fold goroutine_done gs s') \<longleftrightarrow> length gs = Factory_wg (Sys_factory s'))) \<and>
    (\<exists>gs. ends gs s' \<and> Shutdown_returns (fold goroutine_done gs s'))"
proof -
  have ok: "factory_ok s'"
    using factory_steps_ok [OF rtranclp_trans [OF assms(2,5)]] ok_new_system [OF assms(1)] by blast
  note st = stopping_steps [OF assms(5,3)]
  have closed: "\<forall>(i, ch) \<in> set (Sys_running s'). ch \<in> Sys_closed s'"
    using st assms(4) unfolding winds_down_def by blast
  have "\<exists>g. factory_step s' (goroutine_done g s') \<and>
      Factory_wg (Sys_factory (goroutine_done g s')) < Factory_wg (Sys_factory s')" if nr: "\<not> Shutdown_returns s'"
  proof -
    obtain g where "factory_step s' (goroutine_done g s')" using some_can_finish [OF ok closed nr] by blast
    then show ?thesis using nr by (intro exI [of _ g]) (simp add: Shutdown_returns_def)
  qed
  moreover have "length gs \<le> Factory_wg (Sys_factory s') \<and>
      (Shutdown_returns (fold goroutine_done gs s') \<longleftrightarrow> length gs = Factory_wg (Sys_factory s'))" if "ends gs s'" for gs
    using ends_counter [OF ok that] by (auto simp: Shutdown_returns_def)
  ultimately show ?thesis
    using st all_can_finish [OF ok closed] all_end [OF ok closed] unfolding winds_down_def by blast
qed

theorem shutdown_returns_witness:
  "Factory_wg (Sys_factory demo_stopping) = 1 \<and> (\<exists>s''. factory_step\<^sup>*\<^sup>* demo_stopping s'' \<and> Shutdown_returns s'')"
proof -
  have "Factory_shuttingDown (Sys_factory demo_stopping)" "Sys_running demo_stopping = [(0, 7)]" "Sys_closed demo_stopping = {7}"
    "Factory_wg (Sys_factory demo_stopping) = 1"
    by (simp_all add: demo_stopping_def Shutdown_mark_def demo_started_eval)
  then show ?thesis
    using shutdown_returns [OF demo_options demo_stopping_reachable [unfolded demo_factory_def], of demo_stopping] by simp
qed

subsection \<open>Starting and sharing\<close>

lemma fold_start_informers [simp]:
  "Factory_informers (Sys_factory (fold (start_one ch) ts s)) = Factory_informers (Sys_factory s)"
  by (induction ts arbitrary: s) simp_all

lemma fold_start_started:
  "is_started (Sys_factory (fold (start_one ch) ts s)) t \<longleftrightarrow>
     is_started (Sys_factory s) t \<or> t \<in> set ts \<and> t \<in> fmdom' (Factory_informers (Sys_factory s))"
  by (induction ts arbitrary: s) auto

lemma fold_start_nothing:
  assumes "\<forall>t \<in> set ts. is_started (Sys_factory s) t"
  shows "fold (start_one ch) ts s = s"
proof -
  have "start_one ch t s = s" if "t \<in> set ts" for t
    using assms that by (auto simp: start_one_def split: option.split)
  then show ?thesis by (induction ts) simp_all
qed

lemma start_one_history:
  "Sys_history (start_one ch t s) = Sys_history s @
     (if t \<in> fmdom' (Factory_informers (Sys_factory s)) \<and> \<not> is_started (Sys_factory s) t
      then [(t, the (fmlookup (Factory_informers (Sys_factory s)) t), ch)] else [])"
  by (auto simp: start_one_def fmlookup_dom'_iff split: option.split)

lemma fold_start_history:
  assumes "distinct ts" and "set ts \<subseteq> fmdom' (Factory_informers (Sys_factory s))"
  shows "Sys_history (fold (start_one ch) ts s) = Sys_history s @
     map (\<lambda>t. (t, the (fmlookup (Factory_informers (Sys_factory s)) t), ch)) (filter (\<lambda>t. \<not> is_started (Sys_factory s) t) ts)"
  using assms
proof (induction ts arbitrary: s)
  case (Cons t ts)
  have "filter (\<lambda>u. \<not> is_started (Sys_factory (start_one ch t s)) u) ts = filter (\<lambda>u. \<not> is_started (Sys_factory s) u) ts"
    using Cons.prems(1) by (intro filter_cong) auto
  then show ?case using Cons.IH [of "start_one ch t s"] Cons.prems by (auto simp: start_one_history)
qed simp

lemma Start_shuttingDown [simp]:
  "Factory_shuttingDown (Sys_factory (fold (start_one ch) ts s)) = Factory_shuttingDown (Sys_factory s)"
  by (induction ts arbitrary: s) (simp_all add: start_one_def split: option.split)

text \<open>
  \<open>Start\<close> on a factory that is not shutting down starts exactly the informers that were not started
  yet, each once, on the given channel; afterwards all of them are started, which is what
  \<open>WaitForCacheSync\<close> then waits for, and another \<open>Start\<close>, in whatever order and with whatever channel,
  changes nothing.
\<close>

lemma start_starts_the_rest:
  assumes "range_ok \<rho>" and "range_ok \<sigma>" and "\<not> Factory_shuttingDown (Sys_factory s)"
  shows "Sys_history (Factory_Start \<rho> ch s) = Sys_history s @
      map (\<lambda>t. (t, the (fmlookup (Factory_informers (Sys_factory s)) t), ch))
        (filter (\<lambda>t. \<not> is_started (Sys_factory s) t) (\<rho> ''Start'' (fmdom (Factory_informers (Sys_factory s))))) \<and>
    fmdom (Factory_WaitForCacheSync wait (Factory_Start \<rho> ch s)) = fmdom (Factory_informers (Sys_factory s)) \<and>
    Factory_Start \<sigma> ch' (Factory_Start \<rho> ch s) = Factory_Start \<rho> ch s"
proof -
  let ?m = "Factory_informers (Sys_factory s)" and ?s = "Factory_Start \<rho> ch s"
  have s: "?s = fold (start_one ch) (\<rho> ''Start'' (fmdom ?m)) s" using assms(3) by (simp add: Factory_Start_def)
  have all: "is_started (Sys_factory ?s) t" if "t |\<in>| fmdom ?m" for t
    using that assms(1) by (simp add: s fold_start_started fmdom'_alt_def)
  have "ffilter (is_started (Sys_factory ?s)) (fmdom ?m) = fmdom ?m"
    using all by (intro fset_eqI) auto
  then have "fmdom (Factory_WaitForCacheSync wait ?s) = fmdom ?m"
    by (simp add: Factory_WaitForCacheSync_def started_informers_def s)
  moreover have "Factory_Start \<sigma> ch' ?s = ?s"
    using all assms(2) s by (simp add: Factory_Start_def fold_start_nothing)
  ultimately show ?thesis
    using assms(1) by (simp add: s fold_start_history fmdom'_alt_def)
qed

end
