(* ===== verification/Informers.thy ===== *)
theory Informers
  imports Informer_Factory
begin

section \<open>Typed informers and listers\<close>

text \<open>
  The informers of the four kinds (\<^verbatim>\<open>client-go/informers/externalversions/arc\<close>), the way to them from the
  factory (\<open>Arc().V1alpha1().Orders()\<close>), the generic access by resource (\<^verbatim>\<open>generic.go\<close>) and the listers
  (\<^verbatim>\<open>client-go/listers\<close>). The Go structs carry a pointer to the factory; here the system with the factory
  is passed along. A lister reads the index of an informer, which is named by the informer.
\<close>

definition tweaked :: "'o TweakListOptionsFunc \<Rightarrow> 'o \<Rightarrow> 'o" where
  "tweaked tweakListOptions options = (case tweakListOptions of None \<Rightarrow> options | Some f \<Rightarrow> f options)"

definition namespace_indexers :: "(string \<times> string) list" where
  "namespace_indexers = [(''namespace'', ''MetaNamespaceIndexFunc'')]"

subsection \<open>Listers\<close>

definition v1alpha1_Resource :: "string \<Rightarrow> GroupResource" where
  "v1alpha1_Resource resource = (fst v1alpha1_SchemeGroupVersion, resource)"

record lister =
  Lister_Indexer :: nat
  Lister_Resource :: GroupResource
  Lister_Namespace :: "string option"

definition NewArtifactTypeLister :: "nat \<Rightarrow> lister" where
  "NewArtifactTypeLister indexer =
     \<lparr>Lister_Indexer = indexer, Lister_Resource = v1alpha1_Resource ''artifacttype'', Lister_Namespace = None\<rparr>"

definition NewArtifactWorkflowLister :: "nat \<Rightarrow> lister" where
  "NewArtifactWorkflowLister indexer =
     \<lparr>Lister_Indexer = indexer, Lister_Resource = v1alpha1_Resource ''artifactworkflow'', Lister_Namespace = None\<rparr>"

definition artifactWorkflowLister_ArtifactWorkflows :: "lister \<Rightarrow> string \<Rightarrow> lister" where
  "artifactWorkflowLister_ArtifactWorkflows s namespace = s\<lparr>Lister_Namespace := Some namespace\<rparr>"

definition NewEndpointLister :: "nat \<Rightarrow> lister" where
  "NewEndpointLister indexer =
     \<lparr>Lister_Indexer = indexer, Lister_Resource = v1alpha1_Resource ''endpoint'', Lister_Namespace = None\<rparr>"

definition endpointLister_Endpoints :: "lister \<Rightarrow> string \<Rightarrow> lister" where
  "endpointLister_Endpoints s namespace = s\<lparr>Lister_Namespace := Some namespace\<rparr>"

definition NewOrderLister :: "nat \<Rightarrow> lister" where
  "NewOrderLister indexer =
     \<lparr>Lister_Indexer = indexer, Lister_Resource = v1alpha1_Resource ''order'', Lister_Namespace = None\<rparr>"

definition orderLister_Orders :: "lister \<Rightarrow> string \<Rightarrow> lister" where
  "orderLister_Orders s namespace = s\<lparr>Lister_Namespace := Some namespace\<rparr>"

subsection \<open>Informers\<close>

definition NewFilteredArtifactTypeInformer ::
  "('r, 'd) Clientset \<Rightarrow> int \<Rightarrow> (string \<times> string) list \<Rightarrow> 'o TweakListOptionsFunc \<Rightarrow> ('o, 'f) informer" where
  "NewFilteredArtifactTypeInformer client resyncPeriod indexers tweakListOptions =
     \<lparr>Informer_ListWatch =
        \<lparr>ListFunc = (\<lambda>options. Typed_List (ArcClient_ArtifactTypes (Clientset_ArcV1alpha1 client)) Background (tweaked tweakListOptions options)),
         WatchFunc = (\<lambda>options. Typed_Watch (ArcClient_ArtifactTypes (Clientset_ArcV1alpha1 client)) Background (tweaked tweakListOptions options)),
         ListWithContextFunc =
           (\<lambda>ctx options. Typed_List (ArcClient_ArtifactTypes (Clientset_ArcV1alpha1 client)) ctx (tweaked tweakListOptions options)),
         WatchFuncWithContext =
           (\<lambda>ctx options. Typed_Watch (ArcClient_ArtifactTypes (Clientset_ArcV1alpha1 client)) ctx (tweaked tweakListOptions options))\<rparr>,
      Informer_Object = ''*v1alpha1.ArtifactType'', Informer_Resync = resyncPeriod, Informer_Indexers = indexers,
      Informer_Transform = None\<rparr>"

definition NewArtifactTypeInformer ::
  "('r, 'd) Clientset \<Rightarrow> int \<Rightarrow> (string \<times> string) list \<Rightarrow> ('o, 'f) informer" where
  "NewArtifactTypeInformer client resyncPeriod indexers =
     NewFilteredArtifactTypeInformer client resyncPeriod indexers None"

record 'o artifactTypeInformer =
  artifactTypeInformer_tweakListOptions :: "'o TweakListOptionsFunc"

definition artifactTypeInformer_defaultInformer ::
  "'o artifactTypeInformer \<Rightarrow> ('r, 'd) Clientset \<Rightarrow> int \<Rightarrow> ('o, 'f) informer" where
  "artifactTypeInformer_defaultInformer f client resyncPeriod =
     NewFilteredArtifactTypeInformer client resyncPeriod namespace_indexers
       (artifactTypeInformer_tweakListOptions f)"

definition artifactTypeInformer_Informer ::
  "'o artifactTypeInformer \<Rightarrow> ('r, 'd, 'o, 'f) informer_system \<Rightarrow> nat \<times> ('r, 'd, 'o, 'f) informer_system" where
  "artifactTypeInformer_Informer f s = InformerFor ''*v1alpha1.ArtifactType'' (artifactTypeInformer_defaultInformer f) s"

definition artifactTypeInformer_Lister ::
  "'o artifactTypeInformer \<Rightarrow> ('r, 'd, 'o, 'f) informer_system \<Rightarrow> lister \<times> ('r, 'd, 'o, 'f) informer_system" where
  "artifactTypeInformer_Lister f s = (case artifactTypeInformer_Informer f s of (informer, s') \<Rightarrow> (NewArtifactTypeLister informer, s'))"

definition NewFilteredArtifactWorkflowInformer ::
  "('r, 'd) Clientset \<Rightarrow> string \<Rightarrow> int \<Rightarrow> (string \<times> string) list \<Rightarrow> 'o TweakListOptionsFunc \<Rightarrow> ('o, 'f) informer" where
  "NewFilteredArtifactWorkflowInformer client namespace resyncPeriod indexers tweakListOptions =
     \<lparr>Informer_ListWatch =
        \<lparr>ListFunc = (\<lambda>options. Typed_List (ArcClient_ArtifactWorkflows (Clientset_ArcV1alpha1 client) namespace) Background (tweaked tweakListOptions options)),
         WatchFunc = (\<lambda>options. Typed_Watch (ArcClient_ArtifactWorkflows (Clientset_ArcV1alpha1 client) namespace) Background (tweaked tweakListOptions options)),
         ListWithContextFunc =
           (\<lambda>ctx options. Typed_List (ArcClient_ArtifactWorkflows (Clientset_ArcV1alpha1 client) namespace) ctx (tweaked tweakListOptions options)),
         WatchFuncWithContext =
           (\<lambda>ctx options. Typed_Watch (ArcClient_ArtifactWorkflows (Clientset_ArcV1alpha1 client) namespace) ctx (tweaked tweakListOptions options))\<rparr>,
      Informer_Object = ''*v1alpha1.ArtifactWorkflow'', Informer_Resync = resyncPeriod, Informer_Indexers = indexers,
      Informer_Transform = None\<rparr>"

definition NewArtifactWorkflowInformer ::
  "('r, 'd) Clientset \<Rightarrow> string \<Rightarrow> int \<Rightarrow> (string \<times> string) list \<Rightarrow> ('o, 'f) informer" where
  "NewArtifactWorkflowInformer client namespace resyncPeriod indexers =
     NewFilteredArtifactWorkflowInformer client namespace resyncPeriod indexers None"

record 'o artifactWorkflowInformer =
  artifactWorkflowInformer_tweakListOptions :: "'o TweakListOptionsFunc"
  artifactWorkflowInformer_namespace :: string

definition artifactWorkflowInformer_defaultInformer ::
  "'o artifactWorkflowInformer \<Rightarrow> ('r, 'd) Clientset \<Rightarrow> int \<Rightarrow> ('o, 'f) informer" where
  "artifactWorkflowInformer_defaultInformer f client resyncPeriod =
     NewFilteredArtifactWorkflowInformer client (artifactWorkflowInformer_namespace f) resyncPeriod namespace_indexers
       (artifactWorkflowInformer_tweakListOptions f)"

definition artifactWorkflowInformer_Informer ::
  "'o artifactWorkflowInformer \<Rightarrow> ('r, 'd, 'o, 'f) informer_system \<Rightarrow> nat \<times> ('r, 'd, 'o, 'f) informer_system" where
  "artifactWorkflowInformer_Informer f s = InformerFor ''*v1alpha1.ArtifactWorkflow'' (artifactWorkflowInformer_defaultInformer f) s"

definition artifactWorkflowInformer_Lister ::
  "'o artifactWorkflowInformer \<Rightarrow> ('r, 'd, 'o, 'f) informer_system \<Rightarrow> lister \<times> ('r, 'd, 'o, 'f) informer_system" where
  "artifactWorkflowInformer_Lister f s = (case artifactWorkflowInformer_Informer f s of (informer, s') \<Rightarrow> (NewArtifactWorkflowLister informer, s'))"

definition NewFilteredEndpointInformer ::
  "('r, 'd) Clientset \<Rightarrow> string \<Rightarrow> int \<Rightarrow> (string \<times> string) list \<Rightarrow> 'o TweakListOptionsFunc \<Rightarrow> ('o, 'f) informer" where
  "NewFilteredEndpointInformer client namespace resyncPeriod indexers tweakListOptions =
     \<lparr>Informer_ListWatch =
        \<lparr>ListFunc = (\<lambda>options. Typed_List (ArcClient_Endpoints (Clientset_ArcV1alpha1 client) namespace) Background (tweaked tweakListOptions options)),
         WatchFunc = (\<lambda>options. Typed_Watch (ArcClient_Endpoints (Clientset_ArcV1alpha1 client) namespace) Background (tweaked tweakListOptions options)),
         ListWithContextFunc =
           (\<lambda>ctx options. Typed_List (ArcClient_Endpoints (Clientset_ArcV1alpha1 client) namespace) ctx (tweaked tweakListOptions options)),
         WatchFuncWithContext =
           (\<lambda>ctx options. Typed_Watch (ArcClient_Endpoints (Clientset_ArcV1alpha1 client) namespace) ctx (tweaked tweakListOptions options))\<rparr>,
      Informer_Object = ''*v1alpha1.Endpoint'', Informer_Resync = resyncPeriod, Informer_Indexers = indexers,
      Informer_Transform = None\<rparr>"

definition NewEndpointInformer ::
  "('r, 'd) Clientset \<Rightarrow> string \<Rightarrow> int \<Rightarrow> (string \<times> string) list \<Rightarrow> ('o, 'f) informer" where
  "NewEndpointInformer client namespace resyncPeriod indexers =
     NewFilteredEndpointInformer client namespace resyncPeriod indexers None"

record 'o endpointInformer =
  endpointInformer_tweakListOptions :: "'o TweakListOptionsFunc"
  endpointInformer_namespace :: string

definition endpointInformer_defaultInformer ::
  "'o endpointInformer \<Rightarrow> ('r, 'd) Clientset \<Rightarrow> int \<Rightarrow> ('o, 'f) informer" where
  "endpointInformer_defaultInformer f client resyncPeriod =
     NewFilteredEndpointInformer client (endpointInformer_namespace f) resyncPeriod namespace_indexers
       (endpointInformer_tweakListOptions f)"

definition endpointInformer_Informer ::
  "'o endpointInformer \<Rightarrow> ('r, 'd, 'o, 'f) informer_system \<Rightarrow> nat \<times> ('r, 'd, 'o, 'f) informer_system" where
  "endpointInformer_Informer f s = InformerFor ''*v1alpha1.Endpoint'' (endpointInformer_defaultInformer f) s"

definition endpointInformer_Lister ::
  "'o endpointInformer \<Rightarrow> ('r, 'd, 'o, 'f) informer_system \<Rightarrow> lister \<times> ('r, 'd, 'o, 'f) informer_system" where
  "endpointInformer_Lister f s = (case endpointInformer_Informer f s of (informer, s') \<Rightarrow> (NewEndpointLister informer, s'))"

definition NewFilteredOrderInformer ::
  "('r, 'd) Clientset \<Rightarrow> string \<Rightarrow> int \<Rightarrow> (string \<times> string) list \<Rightarrow> 'o TweakListOptionsFunc \<Rightarrow> ('o, 'f) informer" where
  "NewFilteredOrderInformer client namespace resyncPeriod indexers tweakListOptions =
     \<lparr>Informer_ListWatch =
        \<lparr>ListFunc = (\<lambda>options. Typed_List (ArcClient_Orders (Clientset_ArcV1alpha1 client) namespace) Background (tweaked tweakListOptions options)),
         WatchFunc = (\<lambda>options. Typed_Watch (ArcClient_Orders (Clientset_ArcV1alpha1 client) namespace) Background (tweaked tweakListOptions options)),
         ListWithContextFunc =
           (\<lambda>ctx options. Typed_List (ArcClient_Orders (Clientset_ArcV1alpha1 client) namespace) ctx (tweaked tweakListOptions options)),
         WatchFuncWithContext =
           (\<lambda>ctx options. Typed_Watch (ArcClient_Orders (Clientset_ArcV1alpha1 client) namespace) ctx (tweaked tweakListOptions options))\<rparr>,
      Informer_Object = ''*v1alpha1.Order'', Informer_Resync = resyncPeriod, Informer_Indexers = indexers,
      Informer_Transform = None\<rparr>"

definition NewOrderInformer ::
  "('r, 'd) Clientset \<Rightarrow> string \<Rightarrow> int \<Rightarrow> (string \<times> string) list \<Rightarrow> ('o, 'f) informer" where
  "NewOrderInformer client namespace resyncPeriod indexers =
     NewFilteredOrderInformer client namespace resyncPeriod indexers None"

record 'o orderInformer =
  orderInformer_tweakListOptions :: "'o TweakListOptionsFunc"
  orderInformer_namespace :: string

definition orderInformer_defaultInformer ::
  "'o orderInformer \<Rightarrow> ('r, 'd) Clientset \<Rightarrow> int \<Rightarrow> ('o, 'f) informer" where
  "orderInformer_defaultInformer f client resyncPeriod =
     NewFilteredOrderInformer client (orderInformer_namespace f) resyncPeriod namespace_indexers
       (orderInformer_tweakListOptions f)"

definition orderInformer_Informer ::
  "'o orderInformer \<Rightarrow> ('r, 'd, 'o, 'f) informer_system \<Rightarrow> nat \<times> ('r, 'd, 'o, 'f) informer_system" where
  "orderInformer_Informer f s = InformerFor ''*v1alpha1.Order'' (orderInformer_defaultInformer f) s"

definition orderInformer_Lister ::
  "'o orderInformer \<Rightarrow> ('r, 'd, 'o, 'f) informer_system \<Rightarrow> lister \<times> ('r, 'd, 'o, 'f) informer_system" where
  "orderInformer_Lister f s = (case orderInformer_Informer f s of (informer, s') \<Rightarrow> (NewOrderLister informer, s'))"

subsection \<open>From the factory to the informers\<close>

record 'o group =
  Group_namespace :: string
  Group_tweakListOptions :: "'o TweakListOptionsFunc"

record 'o group_version =
  Version_namespace :: string
  Version_tweakListOptions :: "'o TweakListOptionsFunc"

definition group_New :: "string \<Rightarrow> 'o TweakListOptionsFunc \<Rightarrow> 'o group" where
  "group_New namespace tweakListOptions = \<lparr>Group_namespace = namespace, Group_tweakListOptions = tweakListOptions\<rparr>"

definition version_New :: "string \<Rightarrow> 'o TweakListOptionsFunc \<Rightarrow> 'o group_version" where
  "version_New namespace tweakListOptions =
     \<lparr>Version_namespace = namespace, Version_tweakListOptions = tweakListOptions\<rparr>"

definition group_V1alpha1 :: "'o group \<Rightarrow> 'o group_version" where
  "group_V1alpha1 g = version_New (Group_namespace g) (Group_tweakListOptions g)"

definition version_ArtifactTypes :: "'o group_version \<Rightarrow> 'o artifactTypeInformer" where
  "version_ArtifactTypes v =
     \<lparr>artifactTypeInformer_tweakListOptions = Version_tweakListOptions v\<rparr>"

definition version_ArtifactWorkflows :: "'o group_version \<Rightarrow> 'o artifactWorkflowInformer" where
  "version_ArtifactWorkflows v =
     \<lparr>artifactWorkflowInformer_tweakListOptions = Version_tweakListOptions v, artifactWorkflowInformer_namespace = Version_namespace v\<rparr>"

definition version_Endpoints :: "'o group_version \<Rightarrow> 'o endpointInformer" where
  "version_Endpoints v =
     \<lparr>endpointInformer_tweakListOptions = Version_tweakListOptions v, endpointInformer_namespace = Version_namespace v\<rparr>"

definition version_Orders :: "'o group_version \<Rightarrow> 'o orderInformer" where
  "version_Orders v =
     \<lparr>orderInformer_tweakListOptions = Version_tweakListOptions v, orderInformer_namespace = Version_namespace v\<rparr>"

definition Factory_Arc :: "('r, 'd, 'o, 'f) sharedInformerFactory \<Rightarrow> 'o group" where
  "Factory_Arc f = group_New (Factory_namespace f) (Factory_tweakListOptions f)"

definition V1alpha1_of :: "('r, 'd, 'o, 'f) informer_system \<Rightarrow> 'o group_version" where
  "V1alpha1_of s = group_V1alpha1 (Factory_Arc (Sys_factory s))"

subsection \<open>Generic access\<close>

text \<open>
  \<open>ForResource\<close> compares with the four resources of the group version; for another one it returns an
  error, whose text holds what \<open>show\<close> (the library's \<open>String\<close> method) makes of the resource.
\<close>

type_synonym GroupVersionResource = "(string \<times> string) \<times> string"

record genericInformer =
  Generic_informer :: nat
  Generic_resource :: GroupResource

definition genericInformer_Informer :: "genericInformer \<Rightarrow> nat" where
  "genericInformer_Informer f = Generic_informer f"

definition genericInformer_Lister :: "genericInformer \<Rightarrow> lister" where
  "genericInformer_Lister f =
     \<lparr>Lister_Indexer = genericInformer_Informer f, Lister_Resource = Generic_resource f, Lister_Namespace = None\<rparr>"

definition generic_of ::
  "GroupVersionResource \<Rightarrow> nat \<times> ('r, 'd, 'o, 'f) informer_system \<Rightarrow>
   (go_error + genericInformer) \<times> ('r, 'd, 'o, 'f) informer_system" where
  "generic_of resource r =
     (Inr \<lparr>Generic_informer = fst r, Generic_resource = (fst (fst resource), snd resource)\<rparr>, snd r)"

definition ForResource ::
  "(GroupVersionResource \<Rightarrow> string) \<Rightarrow> GroupVersionResource \<Rightarrow> ('r, 'd, 'o, 'f) informer_system \<Rightarrow>
   (go_error + genericInformer) \<times> ('r, 'd, 'o, 'f) informer_system" where
  "ForResource show resource s =
     (if resource = (v1alpha1_SchemeGroupVersion, ''artifacttypes'') then
        generic_of resource (artifactTypeInformer_Informer (version_ArtifactTypes (V1alpha1_of s)) s)
      else if resource = (v1alpha1_SchemeGroupVersion, ''artifactworkflows'') then
        generic_of resource (artifactWorkflowInformer_Informer (version_ArtifactWorkflows (V1alpha1_of s)) s)
      else if resource = (v1alpha1_SchemeGroupVersion, ''endpoints'') then
        generic_of resource (endpointInformer_Informer (version_Endpoints (V1alpha1_of s)) s)
      else if resource = (v1alpha1_SchemeGroupVersion, ''orders'') then
        generic_of resource (orderInformer_Informer (version_Orders (V1alpha1_of s)) s)
      else (Inl (LibError (''no informer found for '' @ show resource)), s))"

subsection \<open>The contract of a typed informer\<close>

text \<open>
  What the informer of a collection is: all four functions ask for the collection in the namespace, with
  the tweaked options.
\<close>

definition collection_call :: "verb \<Rightarrow> string \<Rightarrow> string \<Rightarrow> 'o TweakListOptionsFunc \<Rightarrow> go_context \<Rightarrow> 'o \<Rightarrow> 'o api_call" where
  "collection_call vb resource ns tw ctx options =
     \<lparr>Call_Verb = vb, Call_Resource = resource, Call_Namespace = ns, Call_Context = ctx,
      Call_Options = tweaked tw options\<rparr>"

definition collection_informer ::
  "string \<Rightarrow> string \<Rightarrow> string \<Rightarrow> 'o TweakListOptionsFunc \<Rightarrow> int \<Rightarrow> 'f option \<Rightarrow> ('o, 'f) informer" where
  "collection_informer ty resource ns tw resync transform =
     \<lparr>Informer_ListWatch =
        \<lparr>ListFunc = collection_call ListVerb resource ns tw Background,
         WatchFunc = collection_call WatchVerb resource ns tw Background,
         ListWithContextFunc = collection_call ListVerb resource ns tw,
         WatchFuncWithContext = collection_call WatchVerb resource ns tw\<rparr>,
      Informer_Object = ty, Informer_Resync = resync,
      Informer_Indexers = [(''namespace'', ''MetaNamespaceIndexFunc'')], Informer_Transform = transform\<rparr>"

definition resync_of :: "('r, 'd, 'o, 'f) sharedInformerFactory \<Rightarrow> string \<Rightarrow> int" where
  "resync_of f t = (case fmlookup (Factory_customResync f) t of None \<Rightarrow> Factory_defaultResync f | Some r \<Rightarrow> r)"

definition same_settings :: "('r, 'd, 'o, 'f) sharedInformerFactory \<Rightarrow> ('r, 'd, 'o, 'f) sharedInformerFactory \<Rightarrow> bool" where
  "same_settings f g \<longleftrightarrow> Factory_customResync f = Factory_customResync g \<and> Factory_defaultResync f = Factory_defaultResync g \<and>
     Factory_transform f = Factory_transform g \<and> Factory_namespace f = Factory_namespace g \<and>
     Factory_tweakListOptions f = Factory_tweakListOptions g"

locale typed_informer =
  fixes ty resource ns :: string and tw :: "'o TweakListOptionsFunc"
    and access :: "('r, 'd, 'o, 'f) informer_system \<Rightarrow> nat \<times> ('r, 'd, 'o, 'f) informer_system"
    and make :: "('r, 'd) Clientset \<Rightarrow> int \<Rightarrow> ('o, 'f) informer"
  assumes access: "access s = InformerFor ty make s"
    and make: "make c resync = collection_informer ty resource ns tw resync None"
begin

lemma access_again: "access (snd (access s)) = (fst (access s), snd (access s))"
  by (auto simp: access InformerFor_def Let_def split: option.split)

lemma access_settings: "same_settings (Sys_factory (snd (access s))) (Sys_factory s)"
  by (auto simp: access InformerFor_def Let_def same_settings_def split: option.split)

lemma access_known: "fmlookup (Factory_informers (Sys_factory s)) ty = Some i \<Longrightarrow> access s = (i, s)"
  by (simp add: access InformerFor_def)

lemma access_new:
  assumes "fmlookup (Factory_informers (Sys_factory s)) ty = None"
  shows "fst (access s) = length (Sys_informers s)"
    and "Sys_informers (snd (access s)) = Sys_informers s @
      [collection_informer ty resource ns tw (resync_of (Sys_factory s) ty) (Factory_transform (Sys_factory s))]"
    and "Factory_informers (Sys_factory (snd (access s))) = fmupd ty (length (Sys_informers s)) (Factory_informers (Sys_factory s))"
  using assms by (simp_all add: access InformerFor_def make collection_informer_def resync_of_def Let_def)

end

lemmas collection_defs = collection_informer_def collection_call_def Typed_List_def Typed_Watch_def typed_client_defs
  namespace_indexers_def

interpretation order_informer: typed_informer "''*v1alpha1.Order''" "''orders''" "orderInformer_namespace f"
  "orderInformer_tweakListOptions f" "orderInformer_Informer f" "orderInformer_defaultInformer f" for f
  by unfold_locales (simp_all add: orderInformer_Informer_def orderInformer_defaultInformer_def
      NewFilteredOrderInformer_def collection_defs fun_eq_iff)

interpretation workflow_informer: typed_informer "''*v1alpha1.ArtifactWorkflow''" "''artifactworkflows''"
  "artifactWorkflowInformer_namespace f" "artifactWorkflowInformer_tweakListOptions f"
  "artifactWorkflowInformer_Informer f" "artifactWorkflowInformer_defaultInformer f" for f
  by unfold_locales (simp_all add: artifactWorkflowInformer_Informer_def artifactWorkflowInformer_defaultInformer_def
      NewFilteredArtifactWorkflowInformer_def collection_defs fun_eq_iff)

interpretation endpoint_informer: typed_informer "''*v1alpha1.Endpoint''" "''endpoints''" "endpointInformer_namespace f"
  "endpointInformer_tweakListOptions f" "endpointInformer_Informer f" "endpointInformer_defaultInformer f" for f
  by unfold_locales (simp_all add: endpointInformer_Informer_def endpointInformer_defaultInformer_def
      NewFilteredEndpointInformer_def collection_defs fun_eq_iff)

interpretation type_informer: typed_informer "''*v1alpha1.ArtifactType''" "''artifacttypes''" "''''"
  "artifactTypeInformer_tweakListOptions f" "artifactTypeInformer_Informer f" "artifactTypeInformer_defaultInformer f" for f
  by unfold_locales (simp_all add: artifactTypeInformer_Informer_def artifactTypeInformer_defaultInformer_def
      NewFilteredArtifactTypeInformer_def collection_defs fun_eq_iff)

subsection \<open>Properties\<close>

text \<open>The four ways through the factory, each with the type, the resource and the namespace it stands for.\<close>

definition typed_accesses ::
  "('r, 'd, 'o, 'f) sharedInformerFactory \<Rightarrow>
   (string \<times> string \<times> string \<times> (('r, 'd, 'o, 'f) informer_system \<Rightarrow> nat \<times> ('r, 'd, 'o, 'f) informer_system)) list" where
  "typed_accesses f =
     [(''*v1alpha1.Order'', ''orders'', Factory_namespace f, orderInformer_Informer (version_Orders (group_V1alpha1 (Factory_Arc f)))),
      (''*v1alpha1.ArtifactWorkflow'', ''artifactworkflows'', Factory_namespace f,
         artifactWorkflowInformer_Informer (version_ArtifactWorkflows (group_V1alpha1 (Factory_Arc f)))),
      (''*v1alpha1.Endpoint'', ''endpoints'', Factory_namespace f,
         endpointInformer_Informer (version_Endpoints (group_V1alpha1 (Factory_Arc f)))),
      (''*v1alpha1.ArtifactType'', ''artifacttypes'', '''',
         artifactTypeInformer_Informer (version_ArtifactTypes (group_V1alpha1 (Factory_Arc f))))]"

lemmas access_defs = group_V1alpha1_def Factory_Arc_def group_New_def version_New_def version_Orders_def
  version_ArtifactWorkflows_def version_Endpoints_def version_ArtifactTypes_def

lemma typed_accesses_informers:
  assumes "(ty, res, ns, acc) \<in> set (typed_accesses f)"
  shows "\<exists>make. typed_informer ty res ns (Factory_tweakListOptions f) acc make"
  using assms order_informer.typed_informer_axioms [of "version_Orders (group_V1alpha1 (Factory_Arc f))"]
    workflow_informer.typed_informer_axioms [of "version_ArtifactWorkflows (group_V1alpha1 (Factory_Arc f))"]
    endpoint_informer.typed_informer_axioms [of "version_Endpoints (group_V1alpha1 (Factory_Arc f))"]
    type_informer.typed_informer_axioms [of "version_ArtifactTypes (group_V1alpha1 (Factory_Arc f))"]
  by (auto simp: typed_accesses_def access_defs)

lemma typed_accesses_cong: "same_settings f g \<Longrightarrow> typed_accesses f = typed_accesses g"
  by (simp add: same_settings_def typed_accesses_def access_defs)

lemma resync_of_cong: "same_settings f g \<Longrightarrow> resync_of f t = resync_of g t"
  by (simp add: same_settings_def resync_of_def split: option.split)

text \<open>Every informer of the factory is the one its type stands for.\<close>

definition typed_ok :: "('r, 'd, 'o, 'f) sharedInformerFactory \<Rightarrow> ('r, 'd, 'o, 'f) informer_system \<Rightarrow> bool" where
  "typed_ok f s \<longleftrightarrow> same_settings (Sys_factory s) f \<and>
     (\<forall>(ty, res, ns, acc) \<in> set (typed_accesses f). \<forall>i. fmlookup (Factory_informers (Sys_factory s)) ty = Some i \<longrightarrow>
        i < length (Sys_informers s) \<and>
        Sys_informers s ! i = collection_informer ty res ns (Factory_tweakListOptions f) (resync_of f ty) (Factory_transform f))"

lemma typed_ok_access:
  assumes "typed_ok f s" and "(ty, res, ns, acc) \<in> set (typed_accesses f)"
  shows "typed_ok f (snd (acc s))" and "\<exists>i. fmlookup (Factory_informers (Sys_factory (snd (acc s)))) ty = Some i"
    and "\<And>u j. fmlookup (Factory_informers (Sys_factory s)) u = Some j \<Longrightarrow>
      fmlookup (Factory_informers (Sys_factory (snd (acc s)))) u = Some j"
proof -
  obtain make where ti: "typed_informer ty res ns (Factory_tweakListOptions f) acc make"
    using typed_accesses_informers [OF assms(2)] by blast
  have set: "same_settings (Sys_factory (snd (acc s))) f"
    using typed_informer.access_settings [OF ti, of s] assms(1) by (auto simp: typed_ok_def same_settings_def)
  have "distinct (map fst (typed_accesses f))" by (simp add: typed_accesses_def)
  then have uniq: "res' = res \<and> ns' = ns" if "(ty, res', ns', acc') \<in> set (typed_accesses f)" for res' ns' acc'
    using that assms(2) by (auto dest: eq_key_imp_eq_value)
  have same: "resync_of (Sys_factory s) ty = resync_of f ty" "Factory_transform (Sys_factory s) = Factory_transform f"
    using assms(1) resync_of_cong by (auto simp: typed_ok_def same_settings_def)
  have "typed_ok f (snd (acc s)) \<and> (\<exists>i. fmlookup (Factory_informers (Sys_factory (snd (acc s)))) ty = Some i) \<and>
      (\<forall>u j. fmlookup (Factory_informers (Sys_factory s)) u = Some j \<longrightarrow>
        fmlookup (Factory_informers (Sys_factory (snd (acc s)))) u = Some j)"
  proof (cases "fmlookup (Factory_informers (Sys_factory s)) ty")
    case None
    note new = typed_informer.access_new(2,3) [OF ti None]
    have "i < length (Sys_informers (snd (acc s))) \<and> Sys_informers (snd (acc s)) ! i =
        collection_informer ty' res' ns' (Factory_tweakListOptions f) (resync_of f ty') (Factory_transform f)"
      if "(ty', res', ns', acc') \<in> set (typed_accesses f)"
        and i: "fmlookup (Factory_informers (Sys_factory (snd (acc s)))) ty' = Some i" for ty' res' ns' acc' i
    proof (cases "ty' = ty")
      case True
      then show ?thesis using that uniq by (auto simp: new same)
    next
      case False
      then have "i < length (Sys_informers s) \<and> Sys_informers s ! i =
          collection_informer ty' res' ns' (Factory_tweakListOptions f) (resync_of f ty') (Factory_transform f)"
        using assms(1) that by (auto simp: typed_ok_def new)
      then show ?thesis by (simp add: new nth_append)
    qed
    then show ?thesis using set None unfolding typed_ok_def by (auto simp: new)
  next
    case (Some i)
    then show ?thesis using typed_informer.access_known [OF ti Some] assms(1) by simp
  qed
  then show "typed_ok f (snd (acc s))"
    "\<exists>i. fmlookup (Factory_informers (Sys_factory (snd (acc s)))) ty = Some i"
    "\<And>u j. fmlookup (Factory_informers (Sys_factory s)) u = Some j \<Longrightarrow>
      fmlookup (Factory_informers (Sys_factory (snd (acc s)))) u = Some j"
    by blast+
qed

text \<open>The accesses of a program, one after the other.\<close>

fun access_all ::
  "(string \<times> string \<times> string \<times> (('r, 'd, 'o, 'f) informer_system \<Rightarrow> nat \<times> ('r, 'd, 'o, 'f) informer_system)) list \<Rightarrow>
   ('r, 'd, 'o, 'f) informer_system \<Rightarrow> ('r, 'd, 'o, 'f) informer_system" where
  "access_all [] s = s"
| "access_all ((ty, res, ns, acc) # as) s = access_all as (snd (acc s))"

lemma access_all_ok:
  assumes "set as \<subseteq> set (typed_accesses f)" and "typed_ok f s"
  shows "typed_ok f (access_all as s) \<and>
    (\<forall>u j. fmlookup (Factory_informers (Sys_factory s)) u = Some j \<longrightarrow>
       fmlookup (Factory_informers (Sys_factory (access_all as s))) u = Some j) \<and>
    (\<forall>(ty, res, ns, acc) \<in> set as. \<exists>i. fmlookup (Factory_informers (Sys_factory (access_all as s))) ty = Some i)"
  using assms
proof (induction as arbitrary: s)
  case (Cons a as)
  obtain ty res ns acc where a: "a = (ty, res, ns, acc)" by (metis surj_pair)
  have m: "(ty, res, ns, acc) \<in> set (typed_accesses f)" using Cons.prems(1) by (simp add: a)
  note step = typed_ok_access [OF Cons.prems(2) m]
  have "typed_ok f (access_all as (snd (acc s)))"
    "\<forall>u j. fmlookup (Factory_informers (Sys_factory (snd (acc s)))) u = Some j \<longrightarrow>
       fmlookup (Factory_informers (Sys_factory (access_all as (snd (acc s))))) u = Some j"
    "\<forall>(ty, res, ns, acc') \<in> set as. \<exists>i. fmlookup (Factory_informers (Sys_factory (access_all as (snd (acc s))))) ty = Some i"
    using Cons.IH [OF _ step(1)] Cons.prems(1) by auto
  then show ?case using step(2,3) by (auto simp: a)
qed simp

text \<open>
  C28: after any accesses to typed informers of a new factory, each accessed kind has an informer, a
  further access returns it without making another one, and it lists and watches its kind's resource in
  the namespace of the factory (artifact types without namespace), through the factory's tweak function,
  with the resync period configured for the type or else the default, and with the factory's transform.
\<close>

theorem typed_informers_shared:
  assumes "\<forall>opt \<in> set opts. factory_option opt"
    and "f = NewSharedInformerFactoryWithOptions c r opts"
    and "set as \<subseteq> set (typed_accesses f)"
    and "(ty, res, ns, acc) \<in> set as"
  shows "\<exists>i. acc (access_all as (new_system f)) = (i, access_all as (new_system f)) \<and>
    Sys_informers (access_all as (new_system f)) ! i =
      collection_informer ty res ns (Factory_tweakListOptions f)
        (case fmlookup (Factory_customResync f) ty of None \<Rightarrow> Factory_defaultResync f | Some period \<Rightarrow> period)
        (Factory_transform f)"
proof -
  have "unused f" unfolding assms(2) NewSharedInformerFactoryWithOptions_def
    by (rule unused_options [OF assms(1)]) (simp add: unused_def)
  then have ok: "typed_ok f (new_system f)" by (simp add: typed_ok_def new_system_def unused_def same_settings_def)
  obtain i where i: "typed_ok f (access_all as (new_system f))"
      "fmlookup (Factory_informers (Sys_factory (access_all as (new_system f)))) ty = Some i"
    using access_all_ok [OF assms(3) ok] assms(4) by fastforce
  have m: "(ty, res, ns, acc) \<in> set (typed_accesses f)" using assms(3,4) by blast
  then obtain make where "typed_informer ty res ns (Factory_tweakListOptions f) acc make"
    using typed_accesses_informers by blast
  from typed_informer.access_known [OF this i(2)] i m show ?thesis
    by (auto simp: typed_ok_def resync_of_def)
qed

theorem typed_informers_shared_witness:
  "\<exists>i. orderInformer_Informer \<lparr>orderInformer_tweakListOptions = None, orderInformer_namespace = ''team-a''\<rparr>
        (access_all (typed_accesses demo_factory) (new_system demo_factory))
      = (i, access_all (typed_accesses demo_factory) (new_system demo_factory)) \<and>
    Sys_informers (access_all (typed_accesses demo_factory) (new_system demo_factory)) ! i =
      collection_informer ''*v1alpha1.Order'' ''orders'' ''team-a'' None 30 None"
proof -
  have f: "Factory_namespace demo_factory = ''team-a''" "Factory_tweakListOptions demo_factory = None"
    "Factory_customResync demo_factory = fmempty" "Factory_defaultResync demo_factory = 30" "Factory_transform demo_factory = None"
    by (simp_all add: demo_factory_def NewSharedInformerFactoryWithOptions_def WithNamespace_def)
  have m: "(''*v1alpha1.Order'', ''orders'', ''team-a'',
      orderInformer_Informer \<lparr>orderInformer_tweakListOptions = None, orderInformer_namespace = ''team-a''\<rparr>)
      \<in> set (typed_accesses demo_factory)"
    by (simp add: typed_accesses_def access_defs f)
  show ?thesis
    using typed_informers_shared [OF demo_options demo_factory_def subset_refl m] by (simp add: f)
qed

text \<open>
  \<open>ForResource\<close> knows exactly the four resources of arc.bwi.de/v1alpha1. For one of them it returns the
  informer its typed access returns, now and later, under the group resource asked for, and no second
  one is made; for any other resource it returns an error and makes nothing.
\<close>

lemma ForResource_spec:
  "(case ForResource show gvr s of
      (Inl err, s') \<Rightarrow> s' = s \<and> error_text err = ''no informer found for '' @ show gvr \<and>
        gvr \<notin> (\<lambda>(ty, res, ns, acc). ((''arc.bwi.de'', ''v1alpha1''), res)) ` set (typed_accesses (Sys_factory s))
    | (Inr g, s') \<Rightarrow>
        Generic_resource g = (fst (fst gvr), snd gvr) \<and>
        (\<exists>ty res ns acc. (ty, res, ns, acc) \<in> set (typed_accesses (Sys_factory s)) \<and>
           gvr = ((''arc.bwi.de'', ''v1alpha1''), res) \<and>
           acc s = (genericInformer_Informer g, s') \<and> acc s' = (genericInformer_Informer g, s')))"
proof -
  have ex: "P (ForResource show gvr s)"
    if "\<And>ty res ns acc. (ty, res, ns, acc) \<in> set (typed_accesses (Sys_factory s)) \<Longrightarrow>
          gvr = (v1alpha1_SchemeGroupVersion, res) \<Longrightarrow> P (generic_of gvr (acc s))"
      and "gvr \<notin> (\<lambda>(ty, res, ns, acc). (v1alpha1_SchemeGroupVersion, res)) ` set (typed_accesses (Sys_factory s)) \<Longrightarrow>
        P (Inl (LibError (''no informer found for '' @ show gvr)), s)" for P
    using that by (auto simp: ForResource_def typed_accesses_def V1alpha1_of_def)
  show ?thesis
  proof (rule ex, goal_cases)
    case (1 ty res ns acc)
    then obtain make where "typed_informer ty res ns (Factory_tweakListOptions (Sys_factory s)) acc make"
      using typed_accesses_informers by blast
    from typed_informer.access_again [OF this, of s] 1 show ?case
      unfolding generic_of_def genericInformer_Informer_def v1alpha1_SchemeGroupVersion_def GroupName_def
      by (simp del: split_paired_Ex) metis
  next
    case 2
    then show ?case by (simp add: v1alpha1_SchemeGroupVersion_def GroupName_def)
  qed
qed

end
