(* ===== verification/Apply_Meta.thy ===== *)
theory Apply_Meta
  imports Api_Types
begin

section \<open>Apply configurations: metadata and the loops of the builders\<close>

text \<open>
  The builders of \<^verbatim>\<open>client-go/applyconfigurations/arc/v1alpha1\<close> fill in structs of pointers, where nil
  says that a field is not part of the configuration. This theory has what they share:
  the structs \<open>TypeMetaApplyConfiguration\<close>, \<open>ObjectMetaApplyConfiguration\<close> and
  \<open>OwnerReferenceApplyConfiguration\<close> of the Kubernetes client library, the three loops
  every builder is made of (put the entries of a map, append values, append what pointers point to),
  and what a sequence of calls on the metadata has to do, as the interface \<open>meta_builder\<close>.

  A pointer is an option. A builder that stores a pointer it is given (\<open>WithSpec\<close>) stores the value
  it points to at that time: callers that go on writing through their own copy are not modelled.
  A panic is a value \<open>Inl\<close>; what was written before it is lost with the receiver.
\<close>

record TypeMetaApplyConfiguration =
  TypeMetaApply_Kind :: "string option"
  TypeMetaApply_APIVersion :: "string option"

record OwnerReferenceApplyConfiguration =
  OwnerApply_APIVersion :: "string option"
  OwnerApply_Kind :: "string option"
  OwnerApply_Name :: "string option"
  OwnerApply_UID :: "string option"
  OwnerApply_Controller :: "bool option"
  OwnerApply_BlockOwnerDeletion :: "bool option"

record ObjectMetaApplyConfiguration =
  MetaApply_Name :: "string option"
  MetaApply_GenerateName :: "string option"
  MetaApply_Namespace :: "string option"
  MetaApply_UID :: "string option"
  MetaApply_ResourceVersion :: "string option"
  MetaApply_Generation :: "int option"
  MetaApply_CreationTimestamp :: "nat option"
  MetaApply_DeletionTimestamp :: "nat option"
  MetaApply_DeletionGracePeriodSeconds :: "int option"
  MetaApply_Labels :: "string gomap"
  MetaApply_Annotations :: "string gomap"
  MetaApply_OwnerReferences :: "OwnerReferenceApplyConfiguration list"
  MetaApply_Finalizers :: "string list"

definition zero_TypeMetaApply :: TypeMetaApplyConfiguration where
  "zero_TypeMetaApply = \<lparr>TypeMetaApply_Kind = None, TypeMetaApply_APIVersion = None\<rparr>"

definition zero_ObjectMetaApply :: ObjectMetaApplyConfiguration where
  "zero_ObjectMetaApply =
     \<lparr>MetaApply_Name = None, MetaApply_GenerateName = None, MetaApply_Namespace = None, MetaApply_UID = None,
      MetaApply_ResourceVersion = None, MetaApply_Generation = None, MetaApply_CreationTimestamp = None,
      MetaApply_DeletionTimestamp = None, MetaApply_DeletionGracePeriodSeconds = None,
      MetaApply_Labels = None, MetaApply_Annotations = None,
      MetaApply_OwnerReferences = [], MetaApply_Finalizers = []\<rparr>"

subsection \<open>The loops\<close>

text \<open>\<open>for k, v := range entries { m[k] = v }\<close>; writing to a nil map panics.\<close>

fun put_loop :: "string list \<Rightarrow> (string, 'v) fmap \<Rightarrow> 'v gomap \<Rightarrow> 'v gomap res" where
  "put_loop [] es m = Inr m"
| "put_loop (k # ks) es m =
     (case (m, fmlookup es k) of
        (None, _) \<Rightarrow> Inl (Panic ''assignment to entry in nil map'')
      | (Some f, None) \<Rightarrow> put_loop ks es m
      | (Some f, Some v) \<Rightarrow> put_loop ks es (Some (fmupd k v f)))"

text \<open>The body of the builders for maps: allocate if needed, then the loop.\<close>

definition put_entries :: "range_order \<Rightarrow> string \<Rightarrow> 'v gomap \<Rightarrow> 'v gomap \<Rightarrow> 'v gomap res" where
  "put_entries \<rho> at es m =
     (let m = (if m = None \<and> fcard (fmdom (entries es)) > 0 then Some fmempty else m)
      in put_loop (\<rho> at (fmdom (entries es))) (entries es) m)"

text \<open>The body of the builders for slices of strings.\<close>

fun append_strings :: "string list \<Rightarrow> string list \<Rightarrow> string list" where
  "append_strings [] xs = xs"
| "append_strings (v # vs) xs = append_strings vs (xs @ [v])"

text \<open>The body of the builders for slices of structs: a nil pointer panics.\<close>

fun append_values :: "string \<Rightarrow> 'a option list \<Rightarrow> 'a list \<Rightarrow> 'a list res" where
  "append_values name [] xs = Inr xs"
| "append_values name (None # vs) xs = Inl (Panic (''nil value passed to '' @ name))"
| "append_values name (Some v # vs) xs = append_values name vs (xs @ [v])"

definition merge :: "'v gomap \<Rightarrow> 'v gomap \<Rightarrow> 'v gomap" where
  "merge m es = (if fmdom (entries es) = {||} then m else Some (entries m ++\<^sub>f entries es))"

lemma fmlookup_fmadd:
  "fmlookup (f ++\<^sub>f g) x = (case fmlookup g x of None \<Rightarrow> fmlookup f x | Some v \<Rightarrow> Some v)"
  by (cases "fmlookup g x") (auto simp: fmdom_notI fmdomI)

lemma put_loop_Some:
  assumes "distinct ks" and "set ks \<subseteq> fset (fmdom es)"
  shows "put_loop ks es (Some f) = Inr (Some (f ++\<^sub>f fmrestrict_set (set ks) es))"
  using assms
proof (induction ks arbitrary: f)
  case Nil
  then show ?case by (simp add: fmap_ext)
next
  case (Cons k ks)
  then obtain v where v: "fmlookup es k = Some v" by (auto dest: fmdomE)
  have "fmupd k v f ++\<^sub>f fmrestrict_set (set ks) es = f ++\<^sub>f fmrestrict_set (set (k # ks)) es"
    using v Cons.prems(1) by (intro fmap_ext) (auto simp: fmlookup_fmadd simp del: fmlookup_add split: option.splits)
  then show ?case using Cons v by simp
qed

lemma put_entries_merge:
  assumes "range_ok \<rho>"
  shows "put_entries \<rho> at es m = Inr (merge m es)"
proof (cases "fmdom (entries es) = {||}")
  case True
  then show ?thesis by (simp add: put_entries_def merge_def range_ok_empty [OF assms])
next
  case False
  have "put_loop (\<rho> at (fmdom (entries es))) (entries es) (Some (entries m)) = Inr (Some (entries m ++\<^sub>f entries es))"
    using assms by (subst put_loop_Some) (auto intro!: fmap_ext simp: fmlookup_fmadd simp del: fmlookup_add split: option.splits dest: fmdomI)
  moreover have "fcard (fmdom (entries es)) > 0" using False by (metis fcard_0_eq gr0I)
  ultimately show ?thesis using False by (cases m) (simp_all add: put_entries_def merge_def)
qed

lemma append_strings_eq [simp]: "append_strings vs xs = xs @ vs"
  by (induction vs arbitrary: xs) simp_all

lemma append_values_eq:
  "append_values name vs xs =
     (if None \<in> set vs then Inl (Panic (''nil value passed to '' @ name)) else Inr (xs @ List.map_filter (\<lambda>v. v) vs))"
  by (induction name vs xs rule: append_values.induct) (simp_all add: List.map_filter_simps)


subsection \<open>Calls on the metadata\<close>

text \<open>The builder methods every root type has for its metadata, with their arguments.\<close>

datatype meta_call =
    WithKind string
  | WithAPIVersion string
  | WithName string
  | WithGenerateName string
  | WithNamespace string
  | WithUID string
  | WithResourceVersion string
  | WithGeneration int
  | WithCreationTimestamp nat
  | WithDeletionTimestamp nat
  | WithDeletionGracePeriodSeconds int
  | WithLabels "string gomap"
  | WithAnnotations "string gomap"
  | WithOwnerReferences "OwnerReferenceApplyConfiguration option list"
  | WithFinalizers "string list"

definition nil_owner :: "meta_call \<Rightarrow> bool" where
  "nil_owner c \<longleftrightarrow> (case c of WithOwnerReferences vs \<Rightarrow> None \<in> set vs | _ \<Rightarrow> False)"

definition type_call :: "meta_call \<Rightarrow> bool" where
  "type_call c \<longleftrightarrow> (case c of WithKind _ \<Rightarrow> True | WithAPIVersion _ \<Rightarrow> True | _ \<Rightarrow> False)"

text \<open>What one call is to do.\<close>

definition type_effect :: "meta_call \<Rightarrow> TypeMetaApplyConfiguration \<Rightarrow> TypeMetaApplyConfiguration" where
  "type_effect c t =
     (case c of
        WithKind v \<Rightarrow> t\<lparr>TypeMetaApply_Kind := Some v\<rparr>
      | WithAPIVersion v \<Rightarrow> t\<lparr>TypeMetaApply_APIVersion := Some v\<rparr>
      | _ \<Rightarrow> t)"

definition meta_effect :: "meta_call \<Rightarrow> ObjectMetaApplyConfiguration \<Rightarrow> ObjectMetaApplyConfiguration" where
  "meta_effect c m =
     (case c of
        WithKind _ \<Rightarrow> m
      | WithAPIVersion _ \<Rightarrow> m
      | WithName v \<Rightarrow> m\<lparr>MetaApply_Name := Some v\<rparr>
      | WithGenerateName v \<Rightarrow> m\<lparr>MetaApply_GenerateName := Some v\<rparr>
      | WithNamespace v \<Rightarrow> m\<lparr>MetaApply_Namespace := Some v\<rparr>
      | WithUID v \<Rightarrow> m\<lparr>MetaApply_UID := Some v\<rparr>
      | WithResourceVersion v \<Rightarrow> m\<lparr>MetaApply_ResourceVersion := Some v\<rparr>
      | WithGeneration v \<Rightarrow> m\<lparr>MetaApply_Generation := Some v\<rparr>
      | WithCreationTimestamp v \<Rightarrow> m\<lparr>MetaApply_CreationTimestamp := Some v\<rparr>
      | WithDeletionTimestamp v \<Rightarrow> m\<lparr>MetaApply_DeletionTimestamp := Some v\<rparr>
      | WithDeletionGracePeriodSeconds v \<Rightarrow> m\<lparr>MetaApply_DeletionGracePeriodSeconds := Some v\<rparr>
      | WithLabels es \<Rightarrow> m\<lparr>MetaApply_Labels := merge (MetaApply_Labels m) es\<rparr>
      | WithAnnotations es \<Rightarrow> m\<lparr>MetaApply_Annotations := merge (MetaApply_Annotations m) es\<rparr>
      | WithOwnerReferences vs \<Rightarrow>
          m\<lparr>MetaApply_OwnerReferences := MetaApply_OwnerReferences m @ List.map_filter (\<lambda>v. v) vs\<rparr>
      | WithFinalizers vs \<Rightarrow> m\<lparr>MetaApply_Finalizers := MetaApply_Finalizers m @ vs\<rparr>)"

definition meta_or_zero :: "ObjectMetaApplyConfiguration option \<Rightarrow> ObjectMetaApplyConfiguration" where
  "meta_or_zero p = (case p of None \<Rightarrow> zero_ObjectMetaApply | Some m \<Rightarrow> m)"

definition object_effect ::
    "meta_call \<Rightarrow> ObjectMetaApplyConfiguration option \<Rightarrow> ObjectMetaApplyConfiguration option" where
  "object_effect c p = (if type_call c then p else Some (meta_effect c (meta_or_zero p)))"

text \<open>
  What a sequence of calls is to do, field by field: the last value given to a scalar field, the
  entries of all maps with the later ones winning, and all values of a slice in order.
\<close>

definition last_of :: "(meta_call \<Rightarrow> 'v option) \<Rightarrow> meta_call list \<Rightarrow> 'v option \<Rightarrow> 'v option" where
  "last_of arg cs old = (case List.map_filter arg cs of [] \<Rightarrow> old | vs \<Rightarrow> Some (last vs))"

definition type_after :: "meta_call list \<Rightarrow> TypeMetaApplyConfiguration \<Rightarrow> TypeMetaApplyConfiguration" where
  "type_after cs t =
     \<lparr>TypeMetaApply_Kind =
        last_of (\<lambda>c. case c of WithKind v \<Rightarrow> Some v | _ \<Rightarrow> None) cs (TypeMetaApply_Kind t),
      TypeMetaApply_APIVersion =
        last_of (\<lambda>c. case c of WithAPIVersion v \<Rightarrow> Some v | _ \<Rightarrow> None) cs (TypeMetaApply_APIVersion t)\<rparr>"

definition meta_after :: "meta_call list \<Rightarrow> ObjectMetaApplyConfiguration \<Rightarrow> ObjectMetaApplyConfiguration" where
  "meta_after cs m =
     \<lparr>MetaApply_Name =
        last_of (\<lambda>c. case c of WithName v \<Rightarrow> Some v | _ \<Rightarrow> None) cs (MetaApply_Name m),
      MetaApply_GenerateName =
        last_of (\<lambda>c. case c of WithGenerateName v \<Rightarrow> Some v | _ \<Rightarrow> None) cs (MetaApply_GenerateName m),
      MetaApply_Namespace =
        last_of (\<lambda>c. case c of WithNamespace v \<Rightarrow> Some v | _ \<Rightarrow> None) cs (MetaApply_Namespace m),
      MetaApply_UID =
        last_of (\<lambda>c. case c of WithUID v \<Rightarrow> Some v | _ \<Rightarrow> None) cs (MetaApply_UID m),
      MetaApply_ResourceVersion =
        last_of (\<lambda>c. case c of WithResourceVersion v \<Rightarrow> Some v | _ \<Rightarrow> None) cs (MetaApply_ResourceVersion m),
      MetaApply_Generation =
        last_of (\<lambda>c. case c of WithGeneration v \<Rightarrow> Some v | _ \<Rightarrow> None) cs (MetaApply_Generation m),
      MetaApply_CreationTimestamp =
        last_of (\<lambda>c. case c of WithCreationTimestamp v \<Rightarrow> Some v | _ \<Rightarrow> None) cs (MetaApply_CreationTimestamp m),
      MetaApply_DeletionTimestamp =
        last_of (\<lambda>c. case c of WithDeletionTimestamp v \<Rightarrow> Some v | _ \<Rightarrow> None) cs (MetaApply_DeletionTimestamp m),
      MetaApply_DeletionGracePeriodSeconds =
        last_of (\<lambda>c. case c of WithDeletionGracePeriodSeconds v \<Rightarrow> Some v | _ \<Rightarrow> None) cs (MetaApply_DeletionGracePeriodSeconds m),
      MetaApply_Labels =
        foldl merge (MetaApply_Labels m) (List.map_filter (\<lambda>c. case c of WithLabels es \<Rightarrow> Some es | _ \<Rightarrow> None) cs),
      MetaApply_Annotations =
        foldl merge (MetaApply_Annotations m) (List.map_filter (\<lambda>c. case c of WithAnnotations es \<Rightarrow> Some es | _ \<Rightarrow> None) cs),
      MetaApply_OwnerReferences = MetaApply_OwnerReferences m @
        concat (List.map_filter
          (\<lambda>c. case c of WithOwnerReferences vs \<Rightarrow> Some (List.map_filter (\<lambda>v. v) vs) | _ \<Rightarrow> None) cs),
      MetaApply_Finalizers = MetaApply_Finalizers m @
        concat (List.map_filter (\<lambda>c. case c of WithFinalizers vs \<Rightarrow> Some vs | _ \<Rightarrow> None) cs)\<rparr>"

definition object_after ::
    "meta_call list \<Rightarrow> ObjectMetaApplyConfiguration option \<Rightarrow> ObjectMetaApplyConfiguration option" where
  "object_after cs p = (if \<forall>c \<in> set cs. type_call c then p else Some (meta_after cs (meta_or_zero p)))"

lemma last_of_simps [simp]:
  "last_of arg [] old = old"
  "last_of arg (c # cs) old = last_of arg cs (case arg c of None \<Rightarrow> old | Some v \<Rightarrow> Some v)"
  by (auto simp: last_of_def List.map_filter_simps split: option.splits list.splits)

lemma type_after_simps [simp]:
  "type_after [] t = t"
  "type_after (c # cs) t = type_after cs (type_effect c t)"
  by (simp add: type_after_def) (cases c; simp add: type_after_def type_effect_def)

lemma meta_after_simps [simp]:
  "meta_after [] m = m"
  "meta_after (c # cs) m = meta_after cs (meta_effect c m)"
  by (simp add: meta_after_def List.map_filter_simps)
    (cases c; simp add: meta_after_def meta_effect_def List.map_filter_simps)

lemma meta_effect_type_call: "type_call c \<Longrightarrow> meta_effect c m = m"
  by (cases c) (simp_all add: type_call_def meta_effect_def)

lemma meta_after_type_calls: "\<forall>c \<in> set cs. type_call c \<Longrightarrow> meta_after cs m = m"
  by (induction cs) (simp_all add: meta_effect_type_call)

lemma object_after_simps [simp]:
  "object_after [] p = p"
  "object_after (c # cs) p = object_after cs (object_effect c p)"
  by (auto simp: object_after_def object_effect_def meta_or_zero_def meta_effect_type_call meta_after_type_calls)

lemmas invoke_effects = nil_owner_def type_call_def type_effect_def object_effect_def meta_effect_def meta_or_zero_def

subsection \<open>The interface of the builders\<close>

fun invoke_all :: "('c \<Rightarrow> 'b \<Rightarrow> 'b res) \<Rightarrow> 'c list \<Rightarrow> 'b \<Rightarrow> 'b res" where
  "invoke_all invoke [] b = Inr b"
| "invoke_all invoke (c # cs) b = bind_res (invoke c b) (invoke_all invoke cs)"

text \<open>What a sequence of calls leaves, for a builder with the given views of its receiver.\<close>

definition built ::
    "('b \<Rightarrow> TypeMetaApplyConfiguration) \<Rightarrow> ('b \<Rightarrow> ObjectMetaApplyConfiguration option) \<Rightarrow> ('b \<Rightarrow> 'c) \<Rightarrow>
     meta_call list \<Rightarrow> 'b \<Rightarrow> 'b res \<Rightarrow> bool" where
  "built type_meta object_meta content cs b r \<longleftrightarrow>
     (if \<exists>c \<in> set cs. nil_owner c then r = Inl (Panic ''nil value passed to WithOwnerReferences'')
      else \<exists>b'. r = Inr b' \<and> type_meta b' = type_after cs (type_meta b) \<and>
                object_meta b' = object_after cs (object_meta b) \<and> content b' = content b)"

text \<open>
  A builder has its two metadata structs and other content, and promises that a call does what
  \<open>type_effect\<close> and \<open>object_effect\<close> say, leaves the content alone and panics on a nil owner reference.
\<close>

locale meta_builder =
  fixes type_meta :: "'b \<Rightarrow> TypeMetaApplyConfiguration"
    and object_meta :: "'b \<Rightarrow> ObjectMetaApplyConfiguration option"
    and content :: "'b \<Rightarrow> 'c"
    and invoke :: "range_order \<Rightarrow> meta_call \<Rightarrow> 'b \<Rightarrow> 'b res"
  assumes invoke_ok: "\<lbrakk>range_ok \<rho>; \<not> nil_owner c\<rbrakk> \<Longrightarrow>
      \<exists>b'. invoke \<rho> c b = Inr b' \<and> type_meta b' = type_effect c (type_meta b) \<and>
           object_meta b' = object_effect c (object_meta b) \<and> content b' = content b"
    and invoke_nil: "nil_owner c \<Longrightarrow> invoke \<rho> c b = Inl (Panic ''nil value passed to WithOwnerReferences'')"
begin

lemma calls_built:
  assumes "range_ok \<rho>"
  shows "built type_meta object_meta content cs b (invoke_all (invoke \<rho>) cs b)"
proof (induction cs arbitrary: b)
  case (Cons c cs)
  show ?case
  proof (cases "nil_owner c")
    case True
    then show ?thesis by (simp add: invoke_nil built_def)
  next
    case False
    then obtain b1 where b1: "invoke \<rho> c b = Inr b1" "type_meta b1 = type_effect c (type_meta b)"
        "object_meta b1 = object_effect c (object_meta b)" "content b1 = content b"
      using invoke_ok [OF assms] by blast
    show ?thesis using Cons.IH [of b1] False by (auto simp: b1 built_def)
  qed
qed (simp add: built_def)

end

end
