(* ===== verification/Apply_Specs.thy ===== *)
theory Apply_Specs
  imports Apply_Meta
begin

section \<open>Apply configurations of the parts of objects\<close>

text \<open>
  The configurations of \<^verbatim>\<open>client-go/applyconfigurations/arc/v1alpha1\<close> that are not objects of their own:
  a record per struct, the constructor of the empty configuration and a definition per
  builder method. The methods for slices of structs can panic, those for maps take the order of
  the range over the entries.
\<close>

subsection \<open>OrderDefaults\<close>

record OrderDefaultsApplyConfiguration =
  OrderDefaultsApply_SrcRef :: "LocalObjectReference option"
  OrderDefaultsApply_DstRef :: "LocalObjectReference option"

definition Apply_OrderDefaults :: OrderDefaultsApplyConfiguration where
  "Apply_OrderDefaults = \<lparr>OrderDefaultsApply_SrcRef = None, OrderDefaultsApply_DstRef = None\<rparr>"

definition OrderDefaultsApply_WithSrcRef :: "LocalObjectReference \<Rightarrow> OrderDefaultsApplyConfiguration \<Rightarrow> OrderDefaultsApplyConfiguration" where
  "OrderDefaultsApply_WithSrcRef value b = b\<lparr>OrderDefaultsApply_SrcRef := Some value\<rparr>"

definition OrderDefaultsApply_WithDstRef :: "LocalObjectReference \<Rightarrow> OrderDefaultsApplyConfiguration \<Rightarrow> OrderDefaultsApplyConfiguration" where
  "OrderDefaultsApply_WithDstRef value b = b\<lparr>OrderDefaultsApply_DstRef := Some value\<rparr>"

subsection \<open>OrderArtifact\<close>

record OrderArtifactApplyConfiguration =
  OrderArtifactApply_Type :: "string option"
  OrderArtifactApply_SrcRef :: "LocalObjectReference option"
  OrderArtifactApply_DstRef :: "LocalObjectReference option"
  OrderArtifactApply_Spec :: "RawExtension option"

definition Apply_OrderArtifact :: OrderArtifactApplyConfiguration where
  "Apply_OrderArtifact = \<lparr>OrderArtifactApply_Type = None, OrderArtifactApply_SrcRef = None, OrderArtifactApply_DstRef = None, OrderArtifactApply_Spec = None\<rparr>"

definition OrderArtifactApply_WithType :: "string \<Rightarrow> OrderArtifactApplyConfiguration \<Rightarrow> OrderArtifactApplyConfiguration" where
  "OrderArtifactApply_WithType value b = b\<lparr>OrderArtifactApply_Type := Some value\<rparr>"

definition OrderArtifactApply_WithSrcRef :: "LocalObjectReference \<Rightarrow> OrderArtifactApplyConfiguration \<Rightarrow> OrderArtifactApplyConfiguration" where
  "OrderArtifactApply_WithSrcRef value b = b\<lparr>OrderArtifactApply_SrcRef := Some value\<rparr>"

definition OrderArtifactApply_WithDstRef :: "LocalObjectReference \<Rightarrow> OrderArtifactApplyConfiguration \<Rightarrow> OrderArtifactApplyConfiguration" where
  "OrderArtifactApply_WithDstRef value b = b\<lparr>OrderArtifactApply_DstRef := Some value\<rparr>"

definition OrderArtifactApply_WithSpec :: "RawExtension \<Rightarrow> OrderArtifactApplyConfiguration \<Rightarrow> OrderArtifactApplyConfiguration" where
  "OrderArtifactApply_WithSpec value b = b\<lparr>OrderArtifactApply_Spec := Some value\<rparr>"

subsection \<open>OrderSpec\<close>

record OrderSpecApplyConfiguration =
  OrderSpecApply_Defaults :: "OrderDefaultsApplyConfiguration option"
  OrderSpecApply_Artifacts :: "OrderArtifactApplyConfiguration list"

definition Apply_OrderSpec :: OrderSpecApplyConfiguration where
  "Apply_OrderSpec = \<lparr>OrderSpecApply_Defaults = None, OrderSpecApply_Artifacts = []\<rparr>"

definition OrderSpecApply_WithDefaults :: "OrderDefaultsApplyConfiguration option \<Rightarrow> OrderSpecApplyConfiguration \<Rightarrow> OrderSpecApplyConfiguration" where
  "OrderSpecApply_WithDefaults value b = b\<lparr>OrderSpecApply_Defaults := value\<rparr>"

definition OrderSpecApply_WithArtifacts :: "OrderArtifactApplyConfiguration option list \<Rightarrow> OrderSpecApplyConfiguration \<Rightarrow> OrderSpecApplyConfiguration res" where
  "OrderSpecApply_WithArtifacts values b =
     bind_res (append_values ''WithArtifacts'' values (OrderSpecApply_Artifacts b)) (\<lambda>xs. Inr (b\<lparr>OrderSpecApply_Artifacts := xs\<rparr>))"

subsection \<open>OrderArtifactWorkflowStatus\<close>

record OrderArtifactWorkflowStatusApplyConfiguration =
  OAWStatusApply_ArtifactIndex :: "int option"
  OAWStatusApply_Phase :: "WorkflowPhase option"
  OAWStatusApply_Message :: "string option"

definition Apply_OrderArtifactWorkflowStatus :: OrderArtifactWorkflowStatusApplyConfiguration where
  "Apply_OrderArtifactWorkflowStatus = \<lparr>OAWStatusApply_ArtifactIndex = None, OAWStatusApply_Phase = None, OAWStatusApply_Message = None\<rparr>"

definition OAWStatusApply_WithArtifactIndex :: "int \<Rightarrow> OrderArtifactWorkflowStatusApplyConfiguration \<Rightarrow> OrderArtifactWorkflowStatusApplyConfiguration" where
  "OAWStatusApply_WithArtifactIndex value b = b\<lparr>OAWStatusApply_ArtifactIndex := Some value\<rparr>"

definition OAWStatusApply_WithPhase :: "WorkflowPhase \<Rightarrow> OrderArtifactWorkflowStatusApplyConfiguration \<Rightarrow> OrderArtifactWorkflowStatusApplyConfiguration" where
  "OAWStatusApply_WithPhase value b = b\<lparr>OAWStatusApply_Phase := Some value\<rparr>"

definition OAWStatusApply_WithMessage :: "string \<Rightarrow> OrderArtifactWorkflowStatusApplyConfiguration \<Rightarrow> OrderArtifactWorkflowStatusApplyConfiguration" where
  "OAWStatusApply_WithMessage value b = b\<lparr>OAWStatusApply_Message := Some value\<rparr>"

subsection \<open>OrderStatus\<close>

record OrderStatusApplyConfiguration =
  OrderStatusApply_ArtifactWorkflows :: "OrderArtifactWorkflowStatusApplyConfiguration gomap"

definition Apply_OrderStatus :: OrderStatusApplyConfiguration where
  "Apply_OrderStatus = \<lparr>OrderStatusApply_ArtifactWorkflows = None\<rparr>"

definition OrderStatusApply_WithArtifactWorkflows :: "range_order \<Rightarrow> OrderArtifactWorkflowStatusApplyConfiguration gomap \<Rightarrow> OrderStatusApplyConfiguration \<Rightarrow> OrderStatusApplyConfiguration res" where
  "OrderStatusApply_WithArtifactWorkflows \<rho> es b =
     bind_res (put_entries \<rho> ''WithArtifactWorkflows'' es (OrderStatusApply_ArtifactWorkflows b)) (\<lambda>m. Inr (b\<lparr>OrderStatusApply_ArtifactWorkflows := m\<rparr>))"

subsection \<open>ArtifactWorkflowParameter\<close>

record ArtifactWorkflowParameterApplyConfiguration =
  ParameterApply_Name :: "string option"
  ParameterApply_Value :: "string option"

definition Apply_ArtifactWorkflowParameter :: ArtifactWorkflowParameterApplyConfiguration where
  "Apply_ArtifactWorkflowParameter = \<lparr>ParameterApply_Name = None, ParameterApply_Value = None\<rparr>"

definition ParameterApply_WithName :: "string \<Rightarrow> ArtifactWorkflowParameterApplyConfiguration \<Rightarrow> ArtifactWorkflowParameterApplyConfiguration" where
  "ParameterApply_WithName value b = b\<lparr>ParameterApply_Name := Some value\<rparr>"

definition ParameterApply_WithValue :: "string \<Rightarrow> ArtifactWorkflowParameterApplyConfiguration \<Rightarrow> ArtifactWorkflowParameterApplyConfiguration" where
  "ParameterApply_WithValue value b = b\<lparr>ParameterApply_Value := Some value\<rparr>"

subsection \<open>ArtifactWorkflowSpec\<close>

record ArtifactWorkflowSpecApplyConfiguration =
  AWSpecApply_Type :: "string option"
  AWSpecApply_Parameters :: "ArtifactWorkflowParameterApplyConfiguration list"
  AWSpecApply_SrcSecretRef :: "LocalObjectReference option"
  AWSpecApply_DstSecretRef :: "LocalObjectReference option"

definition Apply_ArtifactWorkflowSpec :: ArtifactWorkflowSpecApplyConfiguration where
  "Apply_ArtifactWorkflowSpec = \<lparr>AWSpecApply_Type = None, AWSpecApply_Parameters = [], AWSpecApply_SrcSecretRef = None, AWSpecApply_DstSecretRef = None\<rparr>"

definition AWSpecApply_WithType :: "string \<Rightarrow> ArtifactWorkflowSpecApplyConfiguration \<Rightarrow> ArtifactWorkflowSpecApplyConfiguration" where
  "AWSpecApply_WithType value b = b\<lparr>AWSpecApply_Type := Some value\<rparr>"

definition AWSpecApply_WithParameters :: "ArtifactWorkflowParameterApplyConfiguration option list \<Rightarrow> ArtifactWorkflowSpecApplyConfiguration \<Rightarrow> ArtifactWorkflowSpecApplyConfiguration res" where
  "AWSpecApply_WithParameters values b =
     bind_res (append_values ''WithParameters'' values (AWSpecApply_Parameters b)) (\<lambda>xs. Inr (b\<lparr>AWSpecApply_Parameters := xs\<rparr>))"

definition AWSpecApply_WithSrcSecretRef :: "LocalObjectReference \<Rightarrow> ArtifactWorkflowSpecApplyConfiguration \<Rightarrow> ArtifactWorkflowSpecApplyConfiguration" where
  "AWSpecApply_WithSrcSecretRef value b = b\<lparr>AWSpecApply_SrcSecretRef := Some value\<rparr>"

definition AWSpecApply_WithDstSecretRef :: "LocalObjectReference \<Rightarrow> ArtifactWorkflowSpecApplyConfiguration \<Rightarrow> ArtifactWorkflowSpecApplyConfiguration" where
  "AWSpecApply_WithDstSecretRef value b = b\<lparr>AWSpecApply_DstSecretRef := Some value\<rparr>"

subsection \<open>ArtifactWorkflowStatus\<close>

record ArtifactWorkflowStatusApplyConfiguration =
  AWStatusApply_Phase :: "WorkflowPhase option"
  AWStatusApply_Message :: "string option"

definition Apply_ArtifactWorkflowStatus :: ArtifactWorkflowStatusApplyConfiguration where
  "Apply_ArtifactWorkflowStatus = \<lparr>AWStatusApply_Phase = None, AWStatusApply_Message = None\<rparr>"

definition AWStatusApply_WithPhase :: "WorkflowPhase \<Rightarrow> ArtifactWorkflowStatusApplyConfiguration \<Rightarrow> ArtifactWorkflowStatusApplyConfiguration" where
  "AWStatusApply_WithPhase value b = b\<lparr>AWStatusApply_Phase := Some value\<rparr>"

definition AWStatusApply_WithMessage :: "string \<Rightarrow> ArtifactWorkflowStatusApplyConfiguration \<Rightarrow> ArtifactWorkflowStatusApplyConfiguration" where
  "AWStatusApply_WithMessage value b = b\<lparr>AWStatusApply_Message := Some value\<rparr>"

subsection \<open>EndpointSpec\<close>

record EndpointSpecApplyConfiguration =
  EndpointSpecApply_Type :: "string option"
  EndpointSpecApply_RemoteURL :: "string option"
  EndpointSpecApply_SecretRef :: "LocalObjectReference option"
  EndpointSpecApply_Usage :: "EndpointUsage option"

definition Apply_EndpointSpec :: EndpointSpecApplyConfiguration where
  "Apply_EndpointSpec = \<lparr>EndpointSpecApply_Type = None, EndpointSpecApply_RemoteURL = None, EndpointSpecApply_SecretRef = None, EndpointSpecApply_Usage = None\<rparr>"

definition EndpointSpecApply_WithType :: "string \<Rightarrow> EndpointSpecApplyConfiguration \<Rightarrow> EndpointSpecApplyConfiguration" where
  "EndpointSpecApply_WithType value b = b\<lparr>EndpointSpecApply_Type := Some value\<rparr>"

definition EndpointSpecApply_WithRemoteURL :: "string \<Rightarrow> EndpointSpecApplyConfiguration \<Rightarrow> EndpointSpecApplyConfiguration" where
  "EndpointSpecApply_WithRemoteURL value b = b\<lparr>EndpointSpecApply_RemoteURL := Some value\<rparr>"

definition EndpointSpecApply_WithSecretRef :: "LocalObjectReference \<Rightarrow> EndpointSpecApplyConfiguration \<Rightarrow> EndpointSpecApplyConfiguration" where
  "EndpointSpecApply_WithSecretRef value b = b\<lparr>EndpointSpecApply_SecretRef := Some value\<rparr>"

definition EndpointSpecApply_WithUsage :: "EndpointUsage \<Rightarrow> EndpointSpecApplyConfiguration \<Rightarrow> EndpointSpecApplyConfiguration" where
  "EndpointSpecApply_WithUsage value b = b\<lparr>EndpointSpecApply_Usage := Some value\<rparr>"

subsection \<open>ArtifactTypeRules\<close>

record ArtifactTypeRulesApplyConfiguration =
  RulesApply_SrcTypes :: "string list"
  RulesApply_DstTypes :: "string list"

definition Apply_ArtifactTypeRules :: ArtifactTypeRulesApplyConfiguration where
  "Apply_ArtifactTypeRules = \<lparr>RulesApply_SrcTypes = [], RulesApply_DstTypes = []\<rparr>"

definition RulesApply_WithSrcTypes :: "string list \<Rightarrow> ArtifactTypeRulesApplyConfiguration \<Rightarrow> ArtifactTypeRulesApplyConfiguration" where
  "RulesApply_WithSrcTypes values b = b\<lparr>RulesApply_SrcTypes := append_strings values (RulesApply_SrcTypes b)\<rparr>"

definition RulesApply_WithDstTypes :: "string list \<Rightarrow> ArtifactTypeRulesApplyConfiguration \<Rightarrow> ArtifactTypeRulesApplyConfiguration" where
  "RulesApply_WithDstTypes values b = b\<lparr>RulesApply_DstTypes := append_strings values (RulesApply_DstTypes b)\<rparr>"

subsection \<open>ArtifactTypeSpec\<close>

record ArtifactTypeSpecApplyConfiguration =
  ATSpecApply_Rules :: "ArtifactTypeRulesApplyConfiguration option"
  ATSpecApply_Parameters :: "ArtifactWorkflowParameterApplyConfiguration list"
  ATSpecApply_WorkflowTemplateRef :: "LocalObjectReference option"

definition Apply_ArtifactTypeSpec :: ArtifactTypeSpecApplyConfiguration where
  "Apply_ArtifactTypeSpec = \<lparr>ATSpecApply_Rules = None, ATSpecApply_Parameters = [], ATSpecApply_WorkflowTemplateRef = None\<rparr>"

definition ATSpecApply_WithRules :: "ArtifactTypeRulesApplyConfiguration option \<Rightarrow> ArtifactTypeSpecApplyConfiguration \<Rightarrow> ArtifactTypeSpecApplyConfiguration" where
  "ATSpecApply_WithRules value b = b\<lparr>ATSpecApply_Rules := value\<rparr>"

definition ATSpecApply_WithParameters :: "ArtifactWorkflowParameterApplyConfiguration option list \<Rightarrow> ArtifactTypeSpecApplyConfiguration \<Rightarrow> ArtifactTypeSpecApplyConfiguration res" where
  "ATSpecApply_WithParameters values b =
     bind_res (append_values ''WithParameters'' values (ATSpecApply_Parameters b)) (\<lambda>xs. Inr (b\<lparr>ATSpecApply_Parameters := xs\<rparr>))"

definition ATSpecApply_WithWorkflowTemplateRef :: "LocalObjectReference \<Rightarrow> ArtifactTypeSpecApplyConfiguration \<Rightarrow> ArtifactTypeSpecApplyConfiguration" where
  "ATSpecApply_WithWorkflowTemplateRef value b = b\<lparr>ATSpecApply_WorkflowTemplateRef := Some value\<rparr>"

end
