(* ===== verification/Apply_Roots.thy ===== *)
theory Apply_Roots
  imports Apply_Specs
begin

section \<open>Apply configurations of the four kinds\<close>

text \<open>
  The configurations of orders, endpoints, artifact workflows and artifact types with all their
  builder methods and getters, as \<^verbatim>\<open>client-go/applyconfigurations/arc/v1alpha1\<close> has them. The metadata
  hangs off a pointer that \<open>ensureObjectMetaApplyConfigurationExists\<close> allocates on demand; a method
  that follows the pointer while it is nil panics. The getters of the name and the
  namespace allocate it as well and return the receiver they leave behind beside the value.
\<close>

subsection \<open>Order\<close>

record OrderApplyConfiguration =
  OrderApply_TypeMeta :: TypeMetaApplyConfiguration
  OrderApply_ObjectMeta :: "ObjectMetaApplyConfiguration option"
  OrderApply_Spec :: "OrderSpecApplyConfiguration option"
  OrderApply_Status :: "OrderStatusApplyConfiguration option"

definition OrderApply_ensureObjectMetaApplyConfigurationExists :: "OrderApplyConfiguration \<Rightarrow> OrderApplyConfiguration" where
  "OrderApply_ensureObjectMetaApplyConfigurationExists b =
     (if OrderApply_ObjectMeta b = None then b\<lparr>OrderApply_ObjectMeta := Some zero_ObjectMetaApply\<rparr> else b)"

text \<open>A write through the metadata pointer.\<close>

definition OrderApply_meta :: "(ObjectMetaApplyConfiguration \<Rightarrow> ObjectMetaApplyConfiguration res) \<Rightarrow> OrderApplyConfiguration \<Rightarrow> OrderApplyConfiguration res" where
  "OrderApply_meta f b =
     (case OrderApply_ObjectMeta b of
        None \<Rightarrow> Inl nil_panic
      | Some m \<Rightarrow> bind_res (f m) (\<lambda>m'. Inr (b\<lparr>OrderApply_ObjectMeta := Some m'\<rparr>)))"

definition OrderApply_WithKind :: "string \<Rightarrow> OrderApplyConfiguration \<Rightarrow> OrderApplyConfiguration" where
  "OrderApply_WithKind value b = b\<lparr>OrderApply_TypeMeta := (OrderApply_TypeMeta b)\<lparr>TypeMetaApply_Kind := Some value\<rparr>\<rparr>"

definition OrderApply_WithAPIVersion :: "string \<Rightarrow> OrderApplyConfiguration \<Rightarrow> OrderApplyConfiguration" where
  "OrderApply_WithAPIVersion value b = b\<lparr>OrderApply_TypeMeta := (OrderApply_TypeMeta b)\<lparr>TypeMetaApply_APIVersion := Some value\<rparr>\<rparr>"

definition OrderApply_WithName :: "string \<Rightarrow> OrderApplyConfiguration \<Rightarrow> OrderApplyConfiguration res" where
  "OrderApply_WithName value b =
     OrderApply_meta (\<lambda>m. Inr (m\<lparr>MetaApply_Name := Some value\<rparr>)) (OrderApply_ensureObjectMetaApplyConfigurationExists b)"

definition OrderApply_WithGenerateName :: "string \<Rightarrow> OrderApplyConfiguration \<Rightarrow> OrderApplyConfiguration res" where
  "OrderApply_WithGenerateName value b =
     OrderApply_meta (\<lambda>m. Inr (m\<lparr>MetaApply_GenerateName := Some value\<rparr>)) (OrderApply_ensureObjectMetaApplyConfigurationExists b)"

definition OrderApply_WithNamespace :: "string \<Rightarrow> OrderApplyConfiguration \<Rightarrow> OrderApplyConfiguration res" where
  "OrderApply_WithNamespace value b =
     OrderApply_meta (\<lambda>m. Inr (m\<lparr>MetaApply_Namespace := Some value\<rparr>)) (OrderApply_ensureObjectMetaApplyConfigurationExists b)"

definition OrderApply_WithUID :: "string \<Rightarrow> OrderApplyConfiguration \<Rightarrow> OrderApplyConfiguration res" where
  "OrderApply_WithUID value b =
     OrderApply_meta (\<lambda>m. Inr (m\<lparr>MetaApply_UID := Some value\<rparr>)) (OrderApply_ensureObjectMetaApplyConfigurationExists b)"

definition OrderApply_WithResourceVersion :: "string \<Rightarrow> OrderApplyConfiguration \<Rightarrow> OrderApplyConfiguration res" where
  "OrderApply_WithResourceVersion value b =
     OrderApply_meta (\<lambda>m. Inr (m\<lparr>MetaApply_ResourceVersion := Some value\<rparr>)) (OrderApply_ensureObjectMetaApplyConfigurationExists b)"

definition OrderApply_WithGeneration :: "int \<Rightarrow> OrderApplyConfiguration \<Rightarrow> OrderApplyConfiguration res" where
  "OrderApply_WithGeneration value b =
     OrderApply_meta (\<lambda>m. Inr (m\<lparr>MetaApply_Generation := Some value\<rparr>)) (OrderApply_ensureObjectMetaApplyConfigurationExists b)"

definition OrderApply_WithCreationTimestamp :: "nat \<Rightarrow> OrderApplyConfiguration \<Rightarrow> OrderApplyConfiguration res" where
  "OrderApply_WithCreationTimestamp value b =
     OrderApply_meta (\<lambda>m. Inr (m\<lparr>MetaApply_CreationTimestamp := Some value\<rparr>)) (OrderApply_ensureObjectMetaApplyConfigurationExists b)"

definition OrderApply_WithDeletionTimestamp :: "nat \<Rightarrow> OrderApplyConfiguration \<Rightarrow> OrderApplyConfiguration res" where
  "OrderApply_WithDeletionTimestamp value b =
     OrderApply_meta (\<lambda>m. Inr (m\<lparr>MetaApply_DeletionTimestamp := Some value\<rparr>)) (OrderApply_ensureObjectMetaApplyConfigurationExists b)"

definition OrderApply_WithDeletionGracePeriodSeconds :: "int \<Rightarrow> OrderApplyConfiguration \<Rightarrow> OrderApplyConfiguration res" where
  "OrderApply_WithDeletionGracePeriodSeconds value b =
     OrderApply_meta (\<lambda>m. Inr (m\<lparr>MetaApply_DeletionGracePeriodSeconds := Some value\<rparr>)) (OrderApply_ensureObjectMetaApplyConfigurationExists b)"

definition OrderApply_WithLabels :: "range_order \<Rightarrow> string gomap \<Rightarrow> OrderApplyConfiguration \<Rightarrow> OrderApplyConfiguration res" where
  "OrderApply_WithLabels \<rho> es b =
     OrderApply_meta
       (\<lambda>m. bind_res (put_entries \<rho> ''WithLabels'' es (MetaApply_Labels m)) (\<lambda>x. Inr (m\<lparr>MetaApply_Labels := x\<rparr>)))
       (OrderApply_ensureObjectMetaApplyConfigurationExists b)"

definition OrderApply_WithAnnotations :: "range_order \<Rightarrow> string gomap \<Rightarrow> OrderApplyConfiguration \<Rightarrow> OrderApplyConfiguration res" where
  "OrderApply_WithAnnotations \<rho> es b =
     OrderApply_meta
       (\<lambda>m. bind_res (put_entries \<rho> ''WithAnnotations'' es (MetaApply_Annotations m)) (\<lambda>x. Inr (m\<lparr>MetaApply_Annotations := x\<rparr>)))
       (OrderApply_ensureObjectMetaApplyConfigurationExists b)"

definition OrderApply_WithOwnerReferences :: "OwnerReferenceApplyConfiguration option list \<Rightarrow> OrderApplyConfiguration \<Rightarrow> OrderApplyConfiguration res" where
  "OrderApply_WithOwnerReferences values b =
     OrderApply_meta
       (\<lambda>m. bind_res (append_values ''WithOwnerReferences'' values (MetaApply_OwnerReferences m))
          (\<lambda>xs. Inr (m\<lparr>MetaApply_OwnerReferences := xs\<rparr>)))
       (OrderApply_ensureObjectMetaApplyConfigurationExists b)"

definition OrderApply_WithFinalizers :: "string list \<Rightarrow> OrderApplyConfiguration \<Rightarrow> OrderApplyConfiguration res" where
  "OrderApply_WithFinalizers values b =
     OrderApply_meta (\<lambda>m. Inr (m\<lparr>MetaApply_Finalizers := append_strings values (MetaApply_Finalizers m)\<rparr>)) (OrderApply_ensureObjectMetaApplyConfigurationExists b)"

definition OrderApply_WithSpec :: "OrderSpecApplyConfiguration option \<Rightarrow> OrderApplyConfiguration \<Rightarrow> OrderApplyConfiguration" where
  "OrderApply_WithSpec value b = b\<lparr>OrderApply_Spec := value\<rparr>"

definition OrderApply_WithStatus :: "OrderStatusApplyConfiguration option \<Rightarrow> OrderApplyConfiguration \<Rightarrow> OrderApplyConfiguration" where
  "OrderApply_WithStatus value b = b\<lparr>OrderApply_Status := value\<rparr>"

definition OrderApply_GetKind :: "OrderApplyConfiguration \<Rightarrow> string option" where
  "OrderApply_GetKind b = TypeMetaApply_Kind (OrderApply_TypeMeta b)"

definition OrderApply_GetAPIVersion :: "OrderApplyConfiguration \<Rightarrow> string option" where
  "OrderApply_GetAPIVersion b = TypeMetaApply_APIVersion (OrderApply_TypeMeta b)"

definition OrderApply_GetName :: "OrderApplyConfiguration \<Rightarrow> (string option \<times> OrderApplyConfiguration) res" where
  "OrderApply_GetName b =
     (let b = OrderApply_ensureObjectMetaApplyConfigurationExists b
      in case OrderApply_ObjectMeta b of None \<Rightarrow> Inl nil_panic | Some m \<Rightarrow> Inr (MetaApply_Name m, b))"

definition OrderApply_GetNamespace :: "OrderApplyConfiguration \<Rightarrow> (string option \<times> OrderApplyConfiguration) res" where
  "OrderApply_GetNamespace b =
     (let b = OrderApply_ensureObjectMetaApplyConfigurationExists b
      in case OrderApply_ObjectMeta b of None \<Rightarrow> Inl nil_panic | Some m \<Rightarrow> Inr (MetaApply_Namespace m, b))"

definition zero_OrderApply :: OrderApplyConfiguration where
  "zero_OrderApply =
     \<lparr>OrderApply_TypeMeta = zero_TypeMetaApply, OrderApply_ObjectMeta = None, OrderApply_Spec = None, OrderApply_Status = None\<rparr>"

definition Apply_Order :: "string \<Rightarrow> string \<Rightarrow> OrderApplyConfiguration res" where
  "Apply_Order name namespace =
     bind_res (OrderApply_WithName name zero_OrderApply) (\<lambda>b.
     bind_res (OrderApply_WithNamespace namespace b) (\<lambda>b.
     Inr (OrderApply_WithAPIVersion ''arc.bwi.de/v1alpha1'' (OrderApply_WithKind ''Order'' b))))"

text \<open>A call by its name, for sequences of calls.\<close>

definition OrderApply_invoke :: "range_order \<Rightarrow> meta_call \<Rightarrow> OrderApplyConfiguration \<Rightarrow> OrderApplyConfiguration res" where
  "OrderApply_invoke \<rho> c b =
     (case c of
        WithKind v \<Rightarrow> Inr (OrderApply_WithKind v b)
      | WithAPIVersion v \<Rightarrow> Inr (OrderApply_WithAPIVersion v b)
      | WithName v \<Rightarrow> OrderApply_WithName v b
      | WithGenerateName v \<Rightarrow> OrderApply_WithGenerateName v b
      | WithNamespace v \<Rightarrow> OrderApply_WithNamespace v b
      | WithUID v \<Rightarrow> OrderApply_WithUID v b
      | WithResourceVersion v \<Rightarrow> OrderApply_WithResourceVersion v b
      | WithGeneration v \<Rightarrow> OrderApply_WithGeneration v b
      | WithCreationTimestamp v \<Rightarrow> OrderApply_WithCreationTimestamp v b
      | WithDeletionTimestamp v \<Rightarrow> OrderApply_WithDeletionTimestamp v b
      | WithDeletionGracePeriodSeconds v \<Rightarrow> OrderApply_WithDeletionGracePeriodSeconds v b
      | WithLabels es \<Rightarrow> OrderApply_WithLabels \<rho> es b
      | WithAnnotations es \<Rightarrow> OrderApply_WithAnnotations \<rho> es b
      | WithOwnerReferences vs \<Rightarrow> OrderApply_WithOwnerReferences vs b
      | WithFinalizers vs \<Rightarrow> OrderApply_WithFinalizers vs b)"

lemmas OrderApply_defs =
  OrderApply_meta_def OrderApply_ensureObjectMetaApplyConfigurationExists_def
  OrderApply_WithKind_def OrderApply_WithAPIVersion_def OrderApply_WithName_def
  OrderApply_WithGenerateName_def OrderApply_WithNamespace_def OrderApply_WithUID_def
  OrderApply_WithResourceVersion_def OrderApply_WithGeneration_def
  OrderApply_WithCreationTimestamp_def OrderApply_WithDeletionTimestamp_def
  OrderApply_WithDeletionGracePeriodSeconds_def OrderApply_WithLabels_def
  OrderApply_WithAnnotations_def OrderApply_WithOwnerReferences_def OrderApply_WithFinalizers_def

interpretation order_apply: meta_builder OrderApply_TypeMeta OrderApply_ObjectMeta "\<lambda>b. (OrderApply_Spec b, OrderApply_Status b)" OrderApply_invoke
proof
  fix \<rho> c b
  assume "range_ok \<rho>" and "\<not> nil_owner c"
  then show "\<exists>b'. OrderApply_invoke \<rho> c b = Inr b' \<and> OrderApply_TypeMeta b' = type_effect c (OrderApply_TypeMeta b) \<and>
      OrderApply_ObjectMeta b' = object_effect c (OrderApply_ObjectMeta b) \<and> (OrderApply_Spec b', OrderApply_Status b') = (OrderApply_Spec b, OrderApply_Status b)"
    by (cases c; cases "OrderApply_ObjectMeta b")
      (simp_all add: OrderApply_invoke_def OrderApply_defs invoke_effects put_entries_merge append_values_eq)
next
  fix \<rho> c b
  assume "nil_owner c"
  then show "OrderApply_invoke \<rho> c b = Inl (Panic ''nil value passed to WithOwnerReferences'')"
    by (cases c; cases "OrderApply_ObjectMeta b") (simp_all add: OrderApply_invoke_def OrderApply_defs invoke_effects append_values_eq)
qed

subsection \<open>Endpoint\<close>

record EndpointApplyConfiguration =
  EndpointApply_TypeMeta :: TypeMetaApplyConfiguration
  EndpointApply_ObjectMeta :: "ObjectMetaApplyConfiguration option"
  EndpointApply_Spec :: "EndpointSpecApplyConfiguration option"
  EndpointApply_Status :: "EndpointStatus option"

definition EndpointApply_ensureObjectMetaApplyConfigurationExists :: "EndpointApplyConfiguration \<Rightarrow> EndpointApplyConfiguration" where
  "EndpointApply_ensureObjectMetaApplyConfigurationExists b =
     (if EndpointApply_ObjectMeta b = None then b\<lparr>EndpointApply_ObjectMeta := Some zero_ObjectMetaApply\<rparr> else b)"

text \<open>A write through the metadata pointer.\<close>

definition EndpointApply_meta :: "(ObjectMetaApplyConfiguration \<Rightarrow> ObjectMetaApplyConfiguration res) \<Rightarrow> EndpointApplyConfiguration \<Rightarrow> EndpointApplyConfiguration res" where
  "EndpointApply_meta f b =
     (case EndpointApply_ObjectMeta b of
        None \<Rightarrow> Inl nil_panic
      | Some m \<Rightarrow> bind_res (f m) (\<lambda>m'. Inr (b\<lparr>EndpointApply_ObjectMeta := Some m'\<rparr>)))"

definition EndpointApply_WithKind :: "string \<Rightarrow> EndpointApplyConfiguration \<Rightarrow> EndpointApplyConfiguration" where
  "EndpointApply_WithKind value b = b\<lparr>EndpointApply_TypeMeta := (EndpointApply_TypeMeta b)\<lparr>TypeMetaApply_Kind := Some value\<rparr>\<rparr>"

definition EndpointApply_WithAPIVersion :: "string \<Rightarrow> EndpointApplyConfiguration \<Rightarrow> EndpointApplyConfiguration" where
  "EndpointApply_WithAPIVersion value b = b\<lparr>EndpointApply_TypeMeta := (EndpointApply_TypeMeta b)\<lparr>TypeMetaApply_APIVersion := Some value\<rparr>\<rparr>"

definition EndpointApply_WithName :: "string \<Rightarrow> EndpointApplyConfiguration \<Rightarrow> EndpointApplyConfiguration res" where
  "EndpointApply_WithName value b =
     EndpointApply_meta (\<lambda>m. Inr (m\<lparr>MetaApply_Name := Some value\<rparr>)) (EndpointApply_ensureObjectMetaApplyConfigurationExists b)"

definition EndpointApply_WithGenerateName :: "string \<Rightarrow> EndpointApplyConfiguration \<Rightarrow> EndpointApplyConfiguration res" where
  "EndpointApply_WithGenerateName value b =
     EndpointApply_meta (\<lambda>m. Inr (m\<lparr>MetaApply_GenerateName := Some value\<rparr>)) (EndpointApply_ensureObjectMetaApplyConfigurationExists b)"

definition EndpointApply_WithNamespace :: "string \<Rightarrow> EndpointApplyConfiguration \<Rightarrow> EndpointApplyConfiguration res" where
  "EndpointApply_WithNamespace value b =
     EndpointApply_meta (\<lambda>m. Inr (m\<lparr>MetaApply_Namespace := Some value\<rparr>)) (EndpointApply_ensureObjectMetaApplyConfigurationExists b)"

definition EndpointApply_WithUID :: "string \<Rightarrow> EndpointApplyConfiguration \<Rightarrow> EndpointApplyConfiguration res" where
  "EndpointApply_WithUID value b =
     EndpointApply_meta (\<lambda>m. Inr (m\<lparr>MetaApply_UID := Some value\<rparr>)) (EndpointApply_ensureObjectMetaApplyConfigurationExists b)"

definition EndpointApply_WithResourceVersion :: "string \<Rightarrow> EndpointApplyConfiguration \<Rightarrow> EndpointApplyConfiguration res" where
  "EndpointApply_WithResourceVersion value b =
     EndpointApply_meta (\<lambda>m. Inr (m\<lparr>MetaApply_ResourceVersion := Some value\<rparr>)) (EndpointApply_ensureObjectMetaApplyConfigurationExists b)"

definition EndpointApply_WithGeneration :: "int \<Rightarrow> EndpointApplyConfiguration \<Rightarrow> EndpointApplyConfiguration res" where
  "EndpointApply_WithGeneration value b =
     EndpointApply_meta (\<lambda>m. Inr (m\<lparr>MetaApply_Generation := Some value\<rparr>)) (EndpointApply_ensureObjectMetaApplyConfigurationExists b)"

definition EndpointApply_WithCreationTimestamp :: "nat \<Rightarrow> EndpointApplyConfiguration \<Rightarrow> EndpointApplyConfiguration res" where
  "EndpointApply_WithCreationTimestamp value b =
     EndpointApply_meta (\<lambda>m. Inr (m\<lparr>MetaApply_CreationTimestamp := Some value\<rparr>)) (EndpointApply_ensureObjectMetaApplyConfigurationExists b)"

definition EndpointApply_WithDeletionTimestamp :: "nat \<Rightarrow> EndpointApplyConfiguration \<Rightarrow> EndpointApplyConfiguration res" where
  "EndpointApply_WithDeletionTimestamp value b =
     EndpointApply_meta (\<lambda>m. Inr (m\<lparr>MetaApply_DeletionTimestamp := Some value\<rparr>)) (EndpointApply_ensureObjectMetaApplyConfigurationExists b)"

definition EndpointApply_WithDeletionGracePeriodSeconds :: "int \<Rightarrow> EndpointApplyConfiguration \<Rightarrow> EndpointApplyConfiguration res" where
  "EndpointApply_WithDeletionGracePeriodSeconds value b =
     EndpointApply_meta (\<lambda>m. Inr (m\<lparr>MetaApply_DeletionGracePeriodSeconds := Some value\<rparr>)) (EndpointApply_ensureObjectMetaApplyConfigurationExists b)"

definition EndpointApply_WithLabels :: "range_order \<Rightarrow> string gomap \<Rightarrow> EndpointApplyConfiguration \<Rightarrow> EndpointApplyConfiguration res" where
  "EndpointApply_WithLabels \<rho> es b =
     EndpointApply_meta
       (\<lambda>m. bind_res (put_entries \<rho> ''WithLabels'' es (MetaApply_Labels m)) (\<lambda>x. Inr (m\<lparr>MetaApply_Labels := x\<rparr>)))
       (EndpointApply_ensureObjectMetaApplyConfigurationExists b)"

definition EndpointApply_WithAnnotations :: "range_order \<Rightarrow> string gomap \<Rightarrow> EndpointApplyConfiguration \<Rightarrow> EndpointApplyConfiguration res" where
  "EndpointApply_WithAnnotations \<rho> es b =
     EndpointApply_meta
       (\<lambda>m. bind_res (put_entries \<rho> ''WithAnnotations'' es (MetaApply_Annotations m)) (\<lambda>x. Inr (m\<lparr>MetaApply_Annotations := x\<rparr>)))
       (EndpointApply_ensureObjectMetaApplyConfigurationExists b)"

definition EndpointApply_WithOwnerReferences :: "OwnerReferenceApplyConfiguration option list \<Rightarrow> EndpointApplyConfiguration \<Rightarrow> EndpointApplyConfiguration res" where
  "EndpointApply_WithOwnerReferences values b =
     EndpointApply_meta
       (\<lambda>m. bind_res (append_values ''WithOwnerReferences'' values (MetaApply_OwnerReferences m))
          (\<lambda>xs. Inr (m\<lparr>MetaApply_OwnerReferences := xs\<rparr>)))
       (EndpointApply_ensureObjectMetaApplyConfigurationExists b)"

definition EndpointApply_WithFinalizers :: "string list \<Rightarrow> EndpointApplyConfiguration \<Rightarrow> EndpointApplyConfiguration res" where
  "EndpointApply_WithFinalizers values b =
     EndpointApply_meta (\<lambda>m. Inr (m\<lparr>MetaApply_Finalizers := append_strings values (MetaApply_Finalizers m)\<rparr>)) (EndpointApply_ensureObjectMetaApplyConfigurationExists b)"

definition EndpointApply_WithSpec :: "EndpointSpecApplyConfiguration option \<Rightarrow> EndpointApplyConfiguration \<Rightarrow> EndpointApplyConfiguration" where
  "EndpointApply_WithSpec value b = b\<lparr>EndpointApply_Spec := value\<rparr>"

definition EndpointApply_WithStatus :: "EndpointStatus \<Rightarrow> EndpointApplyConfiguration \<Rightarrow> EndpointApplyConfiguration" where
  "EndpointApply_WithStatus value b = b\<lparr>EndpointApply_Status := Some value\<rparr>"

definition EndpointApply_GetKind :: "EndpointApplyConfiguration \<Rightarrow> string option" where
  "EndpointApply_GetKind b = TypeMetaApply_Kind (EndpointApply_TypeMeta b)"

definition EndpointApply_GetAPIVersion :: "EndpointApplyConfiguration \<Rightarrow> string option" where
  "EndpointApply_GetAPIVersion b = TypeMetaApply_APIVersion (EndpointApply_TypeMeta b)"

definition EndpointApply_GetName :: "EndpointApplyConfiguration \<Rightarrow> (string option \<times> EndpointApplyConfiguration) res" where
  "EndpointApply_GetName b =
     (let b = EndpointApply_ensureObjectMetaApplyConfigurationExists b
      in case EndpointApply_ObjectMeta b of None \<Rightarrow> Inl nil_panic | Some m \<Rightarrow> Inr (MetaApply_Name m, b))"

definition EndpointApply_GetNamespace :: "EndpointApplyConfiguration \<Rightarrow> (string option \<times> EndpointApplyConfiguration) res" where
  "EndpointApply_GetNamespace b =
     (let b = EndpointApply_ensureObjectMetaApplyConfigurationExists b
      in case EndpointApply_ObjectMeta b of None \<Rightarrow> Inl nil_panic | Some m \<Rightarrow> Inr (MetaApply_Namespace m, b))"

definition zero_EndpointApply :: EndpointApplyConfiguration where
  "zero_EndpointApply =
     \<lparr>EndpointApply_TypeMeta = zero_TypeMetaApply, EndpointApply_ObjectMeta = None, EndpointApply_Spec = None, EndpointApply_Status = None\<rparr>"

definition Apply_Endpoint :: "string \<Rightarrow> string \<Rightarrow> EndpointApplyConfiguration res" where
  "Apply_Endpoint name namespace =
     bind_res (EndpointApply_WithName name zero_EndpointApply) (\<lambda>b.
     bind_res (EndpointApply_WithNamespace namespace b) (\<lambda>b.
     Inr (EndpointApply_WithAPIVersion ''arc.bwi.de/v1alpha1'' (EndpointApply_WithKind ''Endpoint'' b))))"

text \<open>A call by its name, for sequences of calls.\<close>

definition EndpointApply_invoke :: "range_order \<Rightarrow> meta_call \<Rightarrow> EndpointApplyConfiguration \<Rightarrow> EndpointApplyConfiguration res" where
  "EndpointApply_invoke \<rho> c b =
     (case c of
        WithKind v \<Rightarrow> Inr (EndpointApply_WithKind v b)
      | WithAPIVersion v \<Rightarrow> Inr (EndpointApply_WithAPIVersion v b)
      | WithName v \<Rightarrow> EndpointApply_WithName v b
      | WithGenerateName v \<Rightarrow> EndpointApply_WithGenerateName v b
      | WithNamespace v \<Rightarrow> EndpointApply_WithNamespace v b
      | WithUID v \<Rightarrow> EndpointApply_WithUID v b
      | WithResourceVersion v \<Rightarrow> EndpointApply_WithResourceVersion v b
      | WithGeneration v \<Rightarrow> EndpointApply_WithGeneration v b
      | WithCreationTimestamp v \<Rightarrow> EndpointApply_WithCreationTimestamp v b
      | WithDeletionTimestamp v \<Rightarrow> EndpointApply_WithDeletionTimestamp v b
      | WithDeletionGracePeriodSeconds v \<Rightarrow> EndpointApply_WithDeletionGracePeriodSeconds v b
      | WithLabels es \<Rightarrow> EndpointApply_WithLabels \<rho> es b
      | WithAnnotations es \<Rightarrow> EndpointApply_WithAnnotations \<rho> es b
      | WithOwnerReferences vs \<Rightarrow> EndpointApply_WithOwnerReferences vs b
      | WithFinalizers vs \<Rightarrow> EndpointApply_WithFinalizers vs b)"

lemmas EndpointApply_defs =
  EndpointApply_meta_def EndpointApply_ensureObjectMetaApplyConfigurationExists_def
  EndpointApply_WithKind_def EndpointApply_WithAPIVersion_def EndpointApply_WithName_def
  EndpointApply_WithGenerateName_def EndpointApply_WithNamespace_def EndpointApply_WithUID_def
  EndpointApply_WithResourceVersion_def EndpointApply_WithGeneration_def
  EndpointApply_WithCreationTimestamp_def EndpointApply_WithDeletionTimestamp_def
  EndpointApply_WithDeletionGracePeriodSeconds_def EndpointApply_WithLabels_def
  EndpointApply_WithAnnotations_def EndpointApply_WithOwnerReferences_def
  EndpointApply_WithFinalizers_def

interpretation endpoint_apply: meta_builder EndpointApply_TypeMeta EndpointApply_ObjectMeta "\<lambda>b. (EndpointApply_Spec b, EndpointApply_Status b)" EndpointApply_invoke
proof
  fix \<rho> c b
  assume "range_ok \<rho>" and "\<not> nil_owner c"
  then show "\<exists>b'. EndpointApply_invoke \<rho> c b = Inr b' \<and> EndpointApply_TypeMeta b' = type_effect c (EndpointApply_TypeMeta b) \<and>
      EndpointApply_ObjectMeta b' = object_effect c (EndpointApply_ObjectMeta b) \<and> (EndpointApply_Spec b', EndpointApply_Status b') = (EndpointApply_Spec b, EndpointApply_Status b)"
    by (cases c; cases "EndpointApply_ObjectMeta b")
      (simp_all add: EndpointApply_invoke_def EndpointApply_defs invoke_effects put_entries_merge append_values_eq)
next
  fix \<rho> c b
  assume "nil_owner c"
  then show "EndpointApply_invoke \<rho> c b = Inl (Panic ''nil value passed to WithOwnerReferences'')"
    by (cases c; cases "EndpointApply_ObjectMeta b") (simp_all add: EndpointApply_invoke_def EndpointApply_defs invoke_effects append_values_eq)
qed

subsection \<open>ArtifactWorkflow\<close>

record ArtifactWorkflowApplyConfiguration =
  AWApply_TypeMeta :: TypeMetaApplyConfiguration
  AWApply_ObjectMeta :: "ObjectMetaApplyConfiguration option"
  AWApply_Spec :: "ArtifactWorkflowSpecApplyConfiguration option"
  AWApply_Status :: "ArtifactWorkflowStatusApplyConfiguration option"

definition AWApply_ensureObjectMetaApplyConfigurationExists :: "ArtifactWorkflowApplyConfiguration \<Rightarrow> ArtifactWorkflowApplyConfiguration" where
  "AWApply_ensureObjectMetaApplyConfigurationExists b =
     (if AWApply_ObjectMeta b = None then b\<lparr>AWApply_ObjectMeta := Some zero_ObjectMetaApply\<rparr> else b)"

text \<open>A write through the metadata pointer.\<close>

definition AWApply_meta :: "(ObjectMetaApplyConfiguration \<Rightarrow> ObjectMetaApplyConfiguration res) \<Rightarrow> ArtifactWorkflowApplyConfiguration \<Rightarrow> ArtifactWorkflowApplyConfiguration res" where
  "AWApply_meta f b =
     (case AWApply_ObjectMeta b of
        None \<Rightarrow> Inl nil_panic
      | Some m \<Rightarrow> bind_res (f m) (\<lambda>m'. Inr (b\<lparr>AWApply_ObjectMeta := Some m'\<rparr>)))"

definition AWApply_WithKind :: "string \<Rightarrow> ArtifactWorkflowApplyConfiguration \<Rightarrow> ArtifactWorkflowApplyConfiguration" where
  "AWApply_WithKind value b = b\<lparr>AWApply_TypeMeta := (AWApply_TypeMeta b)\<lparr>TypeMetaApply_Kind := Some value\<rparr>\<rparr>"

definition AWApply_WithAPIVersion :: "string \<Rightarrow> ArtifactWorkflowApplyConfiguration \<Rightarrow> ArtifactWorkflowApplyConfiguration" where
  "AWApply_WithAPIVersion value b = b\<lparr>AWApply_TypeMeta := (AWApply_TypeMeta b)\<lparr>TypeMetaApply_APIVersion := Some value\<rparr>\<rparr>"

definition AWApply_WithName :: "string \<Rightarrow> ArtifactWorkflowApplyConfiguration \<Rightarrow> ArtifactWorkflowApplyConfiguration res" where
  "AWApply_WithName value b =
     AWApply_meta (\<lambda>m. Inr (m\<lparr>MetaApply_Name := Some value\<rparr>)) (AWApply_ensureObjectMetaApplyConfigurationExists b)"

definition AWApply_WithGenerateName :: "string \<Rightarrow> ArtifactWorkflowApplyConfiguration \<Rightarrow> ArtifactWorkflowApplyConfiguration res" where
  "AWApply_WithGenerateName value b =
     AWApply_meta (\<lambda>m. Inr (m\<lparr>MetaApply_GenerateName := Some value\<rparr>)) (AWApply_ensureObjectMetaApplyConfigurationExists b)"

definition AWApply_WithNamespace :: "string \<Rightarrow> ArtifactWorkflowApplyConfiguration \<Rightarrow> ArtifactWorkflowApplyConfiguration res" where
  "AWApply_WithNamespace value b =
     AWApply_meta (\<lambda>m. Inr (m\<lparr>MetaApply_Namespace := Some value\<rparr>)) (AWApply_ensureObjectMetaApplyConfigurationExists b)"

definition AWApply_WithUID :: "string \<Rightarrow> ArtifactWorkflowApplyConfiguration \<Rightarrow> ArtifactWorkflowApplyConfiguration res" where
  "AWApply_WithUID value b =
     AWApply_meta (\<lambda>m. Inr (m\<lparr>MetaApply_UID := Some value\<rparr>)) (AWApply_ensureObjectMetaApplyConfigurationExists b)"

definition AWApply_WithResourceVersion :: "string \<Rightarrow> ArtifactWorkflowApplyConfiguration \<Rightarrow> ArtifactWorkflowApplyConfiguration res" where
  "AWApply_WithResourceVersion value b =
     AWApply_meta (\<lambda>m. Inr (m\<lparr>MetaApply_ResourceVersion := Some value\<rparr>)) (AWApply_ensureObjectMetaApplyConfigurationExists b)"

definition AWApply_WithGeneration :: "int \<Rightarrow> ArtifactWorkflowApplyConfiguration \<Rightarrow> ArtifactWorkflowApplyConfiguration res" where
  "AWApply_WithGeneration value b =
     AWApply_meta (\<lambda>m. Inr (m\<lparr>MetaApply_Generation := Some value\<rparr>)) (AWApply_ensureObjectMetaApplyConfigurationExists b)"

definition AWApply_WithCreationTimestamp :: "nat \<Rightarrow> ArtifactWorkflowApplyConfiguration \<Rightarrow> ArtifactWorkflowApplyConfiguration res" where
  "AWApply_WithCreationTimestamp value b =
     AWApply_meta (\<lambda>m. Inr (m\<lparr>MetaApply_CreationTimestamp := Some value\<rparr>)) (AWApply_ensureObjectMetaApplyConfigurationExists b)"

definition AWApply_WithDeletionTimestamp :: "nat \<Rightarrow> ArtifactWorkflowApplyConfiguration \<Rightarrow> ArtifactWorkflowApplyConfiguration res" where
  "AWApply_WithDeletionTimestamp value b =
     AWApply_meta (\<lambda>m. Inr (m\<lparr>MetaApply_DeletionTimestamp := Some value\<rparr>)) (AWApply_ensureObjectMetaApplyConfigurationExists b)"

definition AWApply_WithDeletionGracePeriodSeconds :: "int \<Rightarrow> ArtifactWorkflowApplyConfiguration \<Rightarrow> ArtifactWorkflowApplyConfiguration res" where
  "AWApply_WithDeletionGracePeriodSeconds value b =
     AWApply_meta (\<lambda>m. Inr (m\<lparr>MetaApply_DeletionGracePeriodSeconds := Some value\<rparr>)) (AWApply_ensureObjectMetaApplyConfigurationExists b)"

definition AWApply_WithLabels :: "range_order \<Rightarrow> string gomap \<Rightarrow> ArtifactWorkflowApplyConfiguration \<Rightarrow> ArtifactWorkflowApplyConfiguration res" where
  "AWApply_WithLabels \<rho> es b =
     AWApply_meta
       (\<lambda>m. bind_res (put_entries \<rho> ''WithLabels'' es (MetaApply_Labels m)) (\<lambda>x. Inr (m\<lparr>MetaApply_Labels := x\<rparr>)))
       (AWApply_ensureObjectMetaApplyConfigurationExists b)"

definition AWApply_WithAnnotations :: "range_order \<Rightarrow> string gomap \<Rightarrow> ArtifactWorkflowApplyConfiguration \<Rightarrow> ArtifactWorkflowApplyConfiguration res" where
  "AWApply_WithAnnotations \<rho> es b =
     AWApply_meta
       (\<lambda>m. bind_res (put_entries \<rho> ''WithAnnotations'' es (MetaApply_Annotations m)) (\<lambda>x. Inr (m\<lparr>MetaApply_Annotations := x\<rparr>)))
       (AWApply_ensureObjectMetaApplyConfigurationExists b)"

definition AWApply_WithOwnerReferences :: "OwnerReferenceApplyConfiguration option list \<Rightarrow> ArtifactWorkflowApplyConfiguration \<Rightarrow> ArtifactWorkflowApplyConfiguration res" where
  "AWApply_WithOwnerReferences values b =
     AWApply_meta
       (\<lambda>m. bind_res (append_values ''WithOwnerReferences'' values (MetaApply_OwnerReferences m))
          (\<lambda>xs. Inr (m\<lparr>MetaApply_OwnerReferences := xs\<rparr>)))
       (AWApply_ensureObjectMetaApplyConfigurationExists b)"

definition AWApply_WithFinalizers :: "string list \<Rightarrow> ArtifactWorkflowApplyConfiguration \<Rightarrow> ArtifactWorkflowApplyConfiguration res" where
  "AWApply_WithFinalizers values b =
     AWApply_meta (\<lambda>m. Inr (m\<lparr>MetaApply_Finalizers := append_strings values (MetaApply_Finalizers m)\<rparr>)) (AWApply_ensureObjectMetaApplyConfigurationExists b)"

definition AWApply_WithSpec :: "ArtifactWorkflowSpecApplyConfiguration option \<Rightarrow> ArtifactWorkflowApplyConfiguration \<Rightarrow> ArtifactWorkflowApplyConfiguration" where
  "AWApply_WithSpec value b = b\<lparr>AWApply_Spec := value\<rparr>"

definition AWApply_WithStatus :: "ArtifactWorkflowStatusApplyConfiguration option \<Rightarrow> ArtifactWorkflowApplyConfiguration \<Rightarrow> ArtifactWorkflowApplyConfiguration" where
  "AWApply_WithStatus value b = b\<lparr>AWApply_Status := value\<rparr>"

definition AWApply_GetKind :: "ArtifactWorkflowApplyConfiguration \<Rightarrow> string option" where
  "AWApply_GetKind b = TypeMetaApply_Kind (AWApply_TypeMeta b)"

definition AWApply_GetAPIVersion :: "ArtifactWorkflowApplyConfiguration \<Rightarrow> string option" where
  "AWApply_GetAPIVersion b = TypeMetaApply_APIVersion (AWApply_TypeMeta b)"

definition AWApply_GetName :: "ArtifactWorkflowApplyConfiguration \<Rightarrow> (string option \<times> ArtifactWorkflowApplyConfiguration) res" where
  "AWApply_GetName b =
     (let b = AWApply_ensureObjectMetaApplyConfigurationExists b
      in case AWApply_ObjectMeta b of None \<Rightarrow> Inl nil_panic | Some m \<Rightarrow> Inr (MetaApply_Name m, b))"

definition AWApply_GetNamespace :: "ArtifactWorkflowApplyConfiguration \<Rightarrow> (string option \<times> ArtifactWorkflowApplyConfiguration) res" where
  "AWApply_GetNamespace b =
     (let b = AWApply_ensureObjectMetaApplyConfigurationExists b
      in case AWApply_ObjectMeta b of None \<Rightarrow> Inl nil_panic | Some m \<Rightarrow> Inr (MetaApply_Namespace m, b))"

definition zero_AWApply :: ArtifactWorkflowApplyConfiguration where
  "zero_AWApply =
     \<lparr>AWApply_TypeMeta = zero_TypeMetaApply, AWApply_ObjectMeta = None, AWApply_Spec = None, AWApply_Status = None\<rparr>"

definition Apply_ArtifactWorkflow :: "string \<Rightarrow> string \<Rightarrow> ArtifactWorkflowApplyConfiguration res" where
  "Apply_ArtifactWorkflow name namespace =
     bind_res (AWApply_WithName name zero_AWApply) (\<lambda>b.
     bind_res (AWApply_WithNamespace namespace b) (\<lambda>b.
     Inr (AWApply_WithAPIVersion ''arc.bwi.de/v1alpha1'' (AWApply_WithKind ''ArtifactWorkflow'' b))))"

text \<open>A call by its name, for sequences of calls.\<close>

definition AWApply_invoke :: "range_order \<Rightarrow> meta_call \<Rightarrow> ArtifactWorkflowApplyConfiguration \<Rightarrow> ArtifactWorkflowApplyConfiguration res" where
  "AWApply_invoke \<rho> c b =
     (case c of
        WithKind v \<Rightarrow> Inr (AWApply_WithKind v b)
      | WithAPIVersion v \<Rightarrow> Inr (AWApply_WithAPIVersion v b)
      | WithName v \<Rightarrow> AWApply_WithName v b
      | WithGenerateName v \<Rightarrow> AWApply_WithGenerateName v b
      | WithNamespace v \<Rightarrow> AWApply_WithNamespace v b
      | WithUID v \<Rightarrow> AWApply_WithUID v b
      | WithResourceVersion v \<Rightarrow> AWApply_WithResourceVersion v b
      | WithGeneration v \<Rightarrow> AWApply_WithGeneration v b
      | WithCreationTimestamp v \<Rightarrow> AWApply_WithCreationTimestamp v b
      | WithDeletionTimestamp v \<Rightarrow> AWApply_WithDeletionTimestamp v b
      | WithDeletionGracePeriodSeconds v \<Rightarrow> AWApply_WithDeletionGracePeriodSeconds v b
      | WithLabels es \<Rightarrow> AWApply_WithLabels \<rho> es b
      | WithAnnotations es \<Rightarrow> AWApply_WithAnnotations \<rho> es b
      | WithOwnerReferences vs \<Rightarrow> AWApply_WithOwnerReferences vs b
      | WithFinalizers vs \<Rightarrow> AWApply_WithFinalizers vs b)"

lemmas AWApply_defs =
  AWApply_meta_def AWApply_ensureObjectMetaApplyConfigurationExists_def AWApply_WithKind_def
  AWApply_WithAPIVersion_def AWApply_WithName_def AWApply_WithGenerateName_def
  AWApply_WithNamespace_def AWApply_WithUID_def AWApply_WithResourceVersion_def
  AWApply_WithGeneration_def AWApply_WithCreationTimestamp_def AWApply_WithDeletionTimestamp_def
  AWApply_WithDeletionGracePeriodSeconds_def AWApply_WithLabels_def AWApply_WithAnnotations_def
  AWApply_WithOwnerReferences_def AWApply_WithFinalizers_def

interpretation aw_apply: meta_builder AWApply_TypeMeta AWApply_ObjectMeta "\<lambda>b. (AWApply_Spec b, AWApply_Status b)" AWApply_invoke
proof
  fix \<rho> c b
  assume "range_ok \<rho>" and "\<not> nil_owner c"
  then show "\<exists>b'. AWApply_invoke \<rho> c b = Inr b' \<and> AWApply_TypeMeta b' = type_effect c (AWApply_TypeMeta b) \<and>
      AWApply_ObjectMeta b' = object_effect c (AWApply_ObjectMeta b) \<and> (AWApply_Spec b', AWApply_Status b') = (AWApply_Spec b, AWApply_Status b)"
    by (cases c; cases "AWApply_ObjectMeta b")
      (simp_all add: AWApply_invoke_def AWApply_defs invoke_effects put_entries_merge append_values_eq)
next
  fix \<rho> c b
  assume "nil_owner c"
  then show "AWApply_invoke \<rho> c b = Inl (Panic ''nil value passed to WithOwnerReferences'')"
    by (cases c; cases "AWApply_ObjectMeta b") (simp_all add: AWApply_invoke_def AWApply_defs invoke_effects append_values_eq)
qed

subsection \<open>ArtifactType\<close>

record ArtifactTypeApplyConfiguration =
  ATApply_TypeMeta :: TypeMetaApplyConfiguration
  ATApply_ObjectMeta :: "ObjectMetaApplyConfiguration option"
  ATApply_Spec :: "ArtifactTypeSpecApplyConfiguration option"
  ATApply_Status :: "ArtifactTypeStatus option"

definition ATApply_ensureObjectMetaApplyConfigurationExists :: "ArtifactTypeApplyConfiguration \<Rightarrow> ArtifactTypeApplyConfiguration" where
  "ATApply_ensureObjectMetaApplyConfigurationExists b =
     (if ATApply_ObjectMeta b = None then b\<lparr>ATApply_ObjectMeta := Some zero_ObjectMetaApply\<rparr> else b)"

text \<open>A write through the metadata pointer.\<close>

definition ATApply_meta :: "(ObjectMetaApplyConfiguration \<Rightarrow> ObjectMetaApplyConfiguration res) \<Rightarrow> ArtifactTypeApplyConfiguration \<Rightarrow> ArtifactTypeApplyConfiguration res" where
  "ATApply_meta f b =
     (case ATApply_ObjectMeta b of
        None \<Rightarrow> Inl nil_panic
      | Some m \<Rightarrow> bind_res (f m) (\<lambda>m'. Inr (b\<lparr>ATApply_ObjectMeta := Some m'\<rparr>)))"

definition ATApply_WithKind :: "string \<Rightarrow> ArtifactTypeApplyConfiguration \<Rightarrow> ArtifactTypeApplyConfiguration" where
  "ATApply_WithKind value b = b\<lparr>ATApply_TypeMeta := (ATApply_TypeMeta b)\<lparr>TypeMetaApply_Kind := Some value\<rparr>\<rparr>"

definition ATApply_WithAPIVersion :: "string \<Rightarrow> ArtifactTypeApplyConfiguration \<Rightarrow> ArtifactTypeApplyConfiguration" where
  "ATApply_WithAPIVersion value b = b\<lparr>ATApply_TypeMeta := (ATApply_TypeMeta b)\<lparr>TypeMetaApply_APIVersion := Some value\<rparr>\<rparr>"

definition ATApply_WithName :: "string \<Rightarrow> ArtifactTypeApplyConfiguration \<Rightarrow> ArtifactTypeApplyConfiguration res" where
  "ATApply_WithName value b =
     ATApply_meta (\<lambda>m. Inr (m\<lparr>MetaApply_Name := Some value\<rparr>)) (ATApply_ensureObjectMetaApplyConfigurationExists b)"

definition ATApply_WithGenerateName :: "string \<Rightarrow> ArtifactTypeApplyConfiguration \<Rightarrow> ArtifactTypeApplyConfiguration res" where
  "ATApply_WithGenerateName value b =
     ATApply_meta (\<lambda>m. Inr (m\<lparr>MetaApply_GenerateName := Some value\<rparr>)) (ATApply_ensureObjectMetaApplyConfigurationExists b)"

definition ATApply_WithNamespace :: "string \<Rightarrow> ArtifactTypeApplyConfiguration \<Rightarrow> ArtifactTypeApplyConfiguration res" where
  "ATApply_WithNamespace value b =
     ATApply_meta (\<lambda>m. Inr (m\<lparr>MetaApply_Namespace := Some value\<rparr>)) (ATApply_ensureObjectMetaApplyConfigurationExists b)"

definition ATApply_WithUID :: "string \<Rightarrow> ArtifactTypeApplyConfiguration \<Rightarrow> ArtifactTypeApplyConfiguration res" where
  "ATApply_WithUID value b =
     ATApply_meta (\<lambda>m. Inr (m\<lparr>MetaApply_UID := Some value\<rparr>)) (ATApply_ensureObjectMetaApplyConfigurationExists b)"

definition ATApply_WithResourceVersion :: "string \<Rightarrow> ArtifactTypeApplyConfiguration \<Rightarrow> ArtifactTypeApplyConfiguration res" where
  "ATApply_WithResourceVersion value b =
     ATApply_meta (\<lambda>m. Inr (m\<lparr>MetaApply_ResourceVersion := Some value\<rparr>)) (ATApply_ensureObjectMetaApplyConfigurationExists b)"

definition ATApply_WithGeneration :: "int \<Rightarrow> ArtifactTypeApplyConfiguration \<Rightarrow> ArtifactTypeApplyConfiguration res" where
  "ATApply_WithGeneration value b =
     ATApply_meta (\<lambda>m. Inr (m\<lparr>MetaApply_Generation := Some value\<rparr>)) (ATApply_ensureObjectMetaApplyConfigurationExists b)"

definition ATApply_WithCreationTimestamp :: "nat \<Rightarrow> ArtifactTypeApplyConfiguration \<Rightarrow> ArtifactTypeApplyConfiguration res" where
  "ATApply_WithCreationTimestamp value b =
     ATApply_meta (\<lambda>m. Inr (m\<lparr>MetaApply_CreationTimestamp := Some value\<rparr>)) (ATApply_ensureObjectMetaApplyConfigurationExists b)"

definition ATApply_WithDeletionTimestamp :: "nat \<Rightarrow> ArtifactTypeApplyConfiguration \<Rightarrow> ArtifactTypeApplyConfiguration res" where
  "ATApply_WithDeletionTimestamp value b =
     ATApply_meta (\<lambda>m. Inr (m\<lparr>MetaApply_DeletionTimestamp := Some value\<rparr>)) (ATApply_ensureObjectMetaApplyConfigurationExists b)"

definition ATApply_WithDeletionGracePeriodSeconds :: "int \<Rightarrow> ArtifactTypeApplyConfiguration \<Rightarrow> ArtifactTypeApplyConfiguration res" where
  "ATApply_WithDeletionGracePeriodSeconds value b =
     ATApply_meta (\<lambda>m. Inr (m\<lparr>MetaApply_DeletionGracePeriodSeconds := Some value\<rparr>)) (ATApply_ensureObjectMetaApplyConfigurationExists b)"

definition ATApply_WithLabels :: "range_order \<Rightarrow> string gomap \<Rightarrow> ArtifactTypeApplyConfiguration \<Rightarrow> ArtifactTypeApplyConfiguration res" where
  "ATApply_WithLabels \<rho> es b =
     ATApply_meta
       (\<lambda>m. bind_res (put_entries \<rho> ''WithLabels'' es (MetaApply_Labels m)) (\<lambda>x. Inr (m\<lparr>MetaApply_Labels := x\<rparr>)))
       (ATApply_ensureObjectMetaApplyConfigurationExists b)"

definition ATApply_WithAnnotations :: "range_order \<Rightarrow> string gomap \<Rightarrow> ArtifactTypeApplyConfiguration \<Rightarrow> ArtifactTypeApplyConfiguration res" where
  "ATApply_WithAnnotations \<rho> es b =
     ATApply_meta
       (\<lambda>m. bind_res (put_entries \<rho> ''WithAnnotations'' es (MetaApply_Annotations m)) (\<lambda>x. Inr (m\<lparr>MetaApply_Annotations := x\<rparr>)))
       (ATApply_ensureObjectMetaApplyConfigurationExists b)"

definition ATApply_WithOwnerReferences :: "OwnerReferenceApplyConfiguration option list \<Rightarrow> ArtifactTypeApplyConfiguration \<Rightarrow> ArtifactTypeApplyConfiguration res" where
  "ATApply_WithOwnerReferences values b =
     ATApply_meta
       (\<lambda>m. bind_res (append_values ''WithOwnerReferences'' values (MetaApply_OwnerReferences m))
          (\<lambda>xs. Inr (m\<lparr>MetaApply_OwnerReferences := xs\<rparr>)))
       (ATApply_ensureObjectMetaApplyConfigurationExists b)"

definition ATApply_WithFinalizers :: "string list \<Rightarrow> ArtifactTypeApplyConfiguration \<Rightarrow> ArtifactTypeApplyConfiguration res" where
  "ATApply_WithFinalizers values b =
     ATApply_meta (\<lambda>m. Inr (m\<lparr>MetaApply_Finalizers := append_strings values (MetaApply_Finalizers m)\<rparr>)) (ATApply_ensureObjectMetaApplyConfigurationExists b)"

definition ATApply_WithSpec :: "ArtifactTypeSpecApplyConfiguration option \<Rightarrow> ArtifactTypeApplyConfiguration \<Rightarrow> ArtifactTypeApplyConfiguration" where
  "ATApply_WithSpec value b = b\<lparr>ATApply_Spec := value\<rparr>"

definition ATApply_WithStatus :: "ArtifactTypeStatus \<Rightarrow> ArtifactTypeApplyConfiguration \<Rightarrow> ArtifactTypeApplyConfiguration" where
  "ATApply_WithStatus value b = b\<lparr>ATApply_Status := Some value\<rparr>"

definition ATApply_GetKind :: "ArtifactTypeApplyConfiguration \<Rightarrow> string option" where
  "ATApply_GetKind b = TypeMetaApply_Kind (ATApply_TypeMeta b)"

definition ATApply_GetAPIVersion :: "ArtifactTypeApplyConfiguration \<Rightarrow> string option" where
  "ATApply_GetAPIVersion b = TypeMetaApply_APIVersion (ATApply_TypeMeta b)"

definition ATApply_GetName :: "ArtifactTypeApplyConfiguration \<Rightarrow> (string option \<times> ArtifactTypeApplyConfiguration) res" where
  "ATApply_GetName b =
     (let b = ATApply_ensureObjectMetaApplyConfigurationExists b
      in case ATApply_ObjectMeta b of None \<Rightarrow> Inl nil_panic | Some m \<Rightarrow> Inr (MetaApply_Name m, b))"

definition ATApply_GetNamespace :: "ArtifactTypeApplyConfiguration \<Rightarrow> (string option \<times> ArtifactTypeApplyConfiguration) res" where
  "ATApply_GetNamespace b =
     (let b = ATApply_ensureObjectMetaApplyConfigurationExists b
      in case ATApply_ObjectMeta b of None \<Rightarrow> Inl nil_panic | Some m \<Rightarrow> Inr (MetaApply_Namespace m, b))"

definition zero_ATApply :: ArtifactTypeApplyConfiguration where
  "zero_ATApply =
     \<lparr>ATApply_TypeMeta = zero_TypeMetaApply, ATApply_ObjectMeta = None, ATApply_Spec = None, ATApply_Status = None\<rparr>"

definition Apply_ArtifactType :: "string \<Rightarrow> ArtifactTypeApplyConfiguration res" where
  "Apply_ArtifactType name =
     bind_res (ATApply_WithName name zero_ATApply) (\<lambda>b.
     Inr (ATApply_WithAPIVersion ''arc.bwi.de/v1alpha1'' (ATApply_WithKind ''ArtifactType'' b)))"

text \<open>A call by its name, for sequences of calls.\<close>

definition ATApply_invoke :: "range_order \<Rightarrow> meta_call \<Rightarrow> ArtifactTypeApplyConfiguration \<Rightarrow> ArtifactTypeApplyConfiguration res" where
  "ATApply_invoke \<rho> c b =
     (case c of
        WithKind v \<Rightarrow> Inr (ATApply_WithKind v b)
      | WithAPIVersion v \<Rightarrow> Inr (ATApply_WithAPIVersion v b)
      | WithName v \<Rightarrow> ATApply_WithName v b
      | WithGenerateName v \<Rightarrow> ATApply_WithGenerateName v b
      | WithNamespace v \<Rightarrow> ATApply_WithNamespace v b
      | WithUID v \<Rightarrow> ATApply_WithUID v b
      | WithResourceVersion v \<Rightarrow> ATApply_WithResourceVersion v b
      | WithGeneration v \<Rightarrow> ATApply_WithGeneration v b
      | WithCreationTimestamp v \<Rightarrow> ATApply_WithCreationTimestamp v b
      | WithDeletionTimestamp v \<Rightarrow> ATApply_WithDeletionTimestamp v b
      | WithDeletionGracePeriodSeconds v \<Rightarrow> ATApply_WithDeletionGracePeriodSeconds v b
      | WithLabels es \<Rightarrow> ATApply_WithLabels \<rho> es b
      | WithAnnotations es \<Rightarrow> ATApply_WithAnnotations \<rho> es b
      | WithOwnerReferences vs \<Rightarrow> ATApply_WithOwnerReferences vs b
      | WithFinalizers vs \<Rightarrow> ATApply_WithFinalizers vs b)"

lemmas ATApply_defs =
  ATApply_meta_def ATApply_ensureObjectMetaApplyConfigurationExists_def ATApply_WithKind_def
  ATApply_WithAPIVersion_def ATApply_WithName_def ATApply_WithGenerateName_def
  ATApply_WithNamespace_def ATApply_WithUID_def ATApply_WithResourceVersion_def
  ATApply_WithGeneration_def ATApply_WithCreationTimestamp_def ATApply_WithDeletionTimestamp_def
  ATApply_WithDeletionGracePeriodSeconds_def ATApply_WithLabels_def ATApply_WithAnnotations_def
  ATApply_WithOwnerReferences_def ATApply_WithFinalizers_def

interpretation at_apply: meta_builder ATApply_TypeMeta ATApply_ObjectMeta "\<lambda>b. (ATApply_Spec b, ATApply_Status b)" ATApply_invoke
proof
  fix \<rho> c b
  assume "range_ok \<rho>" and "\<not> nil_owner c"
  then show "\<exists>b'. ATApply_invoke \<rho> c b = Inr b' \<and> ATApply_TypeMeta b' = type_effect c (ATApply_TypeMeta b) \<and>
      ATApply_ObjectMeta b' = object_effect c (ATApply_ObjectMeta b) \<and> (ATApply_Spec b', ATApply_Status b') = (ATApply_Spec b, ATApply_Status b)"
    by (cases c; cases "ATApply_ObjectMeta b")
      (simp_all add: ATApply_invoke_def ATApply_defs invoke_effects put_entries_merge append_values_eq)
next
  fix \<rho> c b
  assume "nil_owner c"
  then show "ATApply_invoke \<rho> c b = Inl (Panic ''nil value passed to WithOwnerReferences'')"
    by (cases c; cases "ATApply_ObjectMeta b") (simp_all add: ATApply_invoke_def ATApply_defs invoke_effects append_values_eq)
qed

end
