(* ===== verification/Apply_Theorems.thy ===== *)
theory Apply_Theorems
  imports Apply_Roots Clientset
begin

section \<open>Apply configurations: looking them up and building them\<close>

text \<open>
  \<open>ForKind\<close> of \<^verbatim>\<open>client-go/applyconfigurations/utils.go\<close>, which finds the type of configuration of a kind, and
  the properties of the builders: what sequences of calls on the metadata, on slices of structs and
  on maps amount to, and that the constructors and \<open>ForKind\<close> agree.
\<close>

subsection \<open>ForKind\<close>

type_synonym GroupVersionKind = "(string \<times> string) \<times> string"

text \<open>The \<open>interface{}\<close> that \<open>ForKind\<close> returns: a pointer to an empty configuration of one of these types.\<close>

datatype apply_configuration =
    Config_ArtifactType ArtifactTypeApplyConfiguration
  | Config_ArtifactTypeRules ArtifactTypeRulesApplyConfiguration
  | Config_ArtifactTypeSpec ArtifactTypeSpecApplyConfiguration
  | Config_ArtifactWorkflow ArtifactWorkflowApplyConfiguration
  | Config_ArtifactWorkflowParameter ArtifactWorkflowParameterApplyConfiguration
  | Config_ArtifactWorkflowSpec ArtifactWorkflowSpecApplyConfiguration
  | Config_ArtifactWorkflowStatus ArtifactWorkflowStatusApplyConfiguration
  | Config_Endpoint EndpointApplyConfiguration
  | Config_EndpointSpec EndpointSpecApplyConfiguration
  | Config_Order OrderApplyConfiguration
  | Config_OrderArtifact OrderArtifactApplyConfiguration
  | Config_OrderArtifactWorkflowStatus OrderArtifactWorkflowStatusApplyConfiguration
  | Config_OrderDefaults OrderDefaultsApplyConfiguration
  | Config_OrderSpec OrderSpecApplyConfiguration
  | Config_OrderStatus OrderStatusApplyConfiguration

text \<open>\<open>GroupVersion.WithKind\<close> of apimachinery.\<close>

definition GroupVersion_WithKind :: "string \<times> string \<Rightarrow> string \<Rightarrow> GroupVersionKind" where
  "GroupVersion_WithKind gv kind = (gv, kind)"

definition ForKind :: "GroupVersionKind \<Rightarrow> apply_configuration option" where
  "ForKind kind =
     (let is = (\<lambda>k. kind = GroupVersion_WithKind v1alpha1_SchemeGroupVersion k)
      in if is ''ArtifactType'' then Some (Config_ArtifactType zero_ATApply)
         else if is ''ArtifactTypeRules'' then Some (Config_ArtifactTypeRules Apply_ArtifactTypeRules)
         else if is ''ArtifactTypeSpec'' then Some (Config_ArtifactTypeSpec Apply_ArtifactTypeSpec)
         else if is ''ArtifactWorkflow'' then Some (Config_ArtifactWorkflow zero_AWApply)
         else if is ''ArtifactWorkflowParameter'' then Some (Config_ArtifactWorkflowParameter Apply_ArtifactWorkflowParameter)
         else if is ''ArtifactWorkflowSpec'' then Some (Config_ArtifactWorkflowSpec Apply_ArtifactWorkflowSpec)
         else if is ''ArtifactWorkflowStatus'' then Some (Config_ArtifactWorkflowStatus Apply_ArtifactWorkflowStatus)
         else if is ''Endpoint'' then Some (Config_Endpoint zero_EndpointApply)
         else if is ''EndpointSpec'' then Some (Config_EndpointSpec Apply_EndpointSpec)
         else if is ''Order'' then Some (Config_Order zero_OrderApply)
         else if is ''OrderArtifact'' then Some (Config_OrderArtifact Apply_OrderArtifact)
         else if is ''OrderArtifactWorkflowStatus'' then Some (Config_OrderArtifactWorkflowStatus Apply_OrderArtifactWorkflowStatus)
         else if is ''OrderDefaults'' then Some (Config_OrderDefaults Apply_OrderDefaults)
         else if is ''OrderSpec'' then Some (Config_OrderSpec Apply_OrderSpec)
         else if is ''OrderStatus'' then Some (Config_OrderStatus Apply_OrderStatus)
         else None)"

text \<open>The kind a configuration is for, after the name of its type.\<close>

primrec config_kind :: "apply_configuration \<Rightarrow> string" where
  "config_kind (Config_ArtifactType _) = ''ArtifactType''"
| "config_kind (Config_ArtifactTypeRules _) = ''ArtifactTypeRules''"
| "config_kind (Config_ArtifactTypeSpec _) = ''ArtifactTypeSpec''"
| "config_kind (Config_ArtifactWorkflow _) = ''ArtifactWorkflow''"
| "config_kind (Config_ArtifactWorkflowParameter _) = ''ArtifactWorkflowParameter''"
| "config_kind (Config_ArtifactWorkflowSpec _) = ''ArtifactWorkflowSpec''"
| "config_kind (Config_ArtifactWorkflowStatus _) = ''ArtifactWorkflowStatus''"
| "config_kind (Config_Endpoint _) = ''Endpoint''"
| "config_kind (Config_EndpointSpec _) = ''EndpointSpec''"
| "config_kind (Config_Order _) = ''Order''"
| "config_kind (Config_OrderArtifact _) = ''OrderArtifact''"
| "config_kind (Config_OrderArtifactWorkflowStatus _) = ''OrderArtifactWorkflowStatus''"
| "config_kind (Config_OrderDefaults _) = ''OrderDefaults''"
| "config_kind (Config_OrderSpec _) = ''OrderSpec''"
| "config_kind (Config_OrderStatus _) = ''OrderStatus''"

definition apply_kinds :: "string list" where
  "apply_kinds =
     [''ArtifactType'',
      ''ArtifactTypeRules'',
      ''ArtifactTypeSpec'',
      ''ArtifactWorkflow'',
      ''ArtifactWorkflowParameter'',
      ''ArtifactWorkflowSpec'',
      ''ArtifactWorkflowStatus'',
      ''Endpoint'',
      ''EndpointSpec'',
      ''Order'',
      ''OrderArtifact'',
      ''OrderArtifactWorkflowStatus'',
      ''OrderDefaults'',
      ''OrderSpec'',
      ''OrderStatus'']"

text \<open>\<open>GroupVersion.String\<close> of apimachinery, for a group that is not empty.\<close>

definition GroupVersion_String :: "string \<times> string \<Rightarrow> string" where
  "GroupVersion_String gv = fst gv @ ''/'' @ snd gv"

lemmas constructor_defs = GroupVersion_String_def v1alpha1_SchemeGroupVersion_def GroupName_def
  ForKind_def GroupVersion_WithKind_def zero_TypeMetaApply_def zero_ObjectMetaApply_def
  Apply_Order_def zero_OrderApply_def OrderApply_defs OrderApply_GetKind_def OrderApply_GetAPIVersion_def OrderApply_GetName_def OrderApply_GetNamespace_def
  Apply_Endpoint_def zero_EndpointApply_def EndpointApply_defs EndpointApply_GetKind_def EndpointApply_GetAPIVersion_def EndpointApply_GetName_def EndpointApply_GetNamespace_def
  Apply_ArtifactWorkflow_def zero_AWApply_def AWApply_defs AWApply_GetKind_def AWApply_GetAPIVersion_def AWApply_GetName_def AWApply_GetNamespace_def
  Apply_ArtifactType_def zero_ATApply_def ATApply_defs ATApply_GetKind_def ATApply_GetAPIVersion_def ATApply_GetName_def ATApply_GetNamespace_def

lemma ForKind_kind:
  "map_option config_kind (ForKind (gv, kind)) =
     (if gv = v1alpha1_SchemeGroupVersion \<and> kind \<in> set apply_kinds then Some kind else None)"
  by (simp add: ForKind_def GroupVersion_WithKind_def Let_def apply_kinds_def)

text \<open>
  The constructors and \<open>ForKind\<close> agree. \<open>ForKind\<close> returns a configuration for exactly the fifteen kinds
  of arc.bwi.de/v1alpha1 that have one, and it is of the type of that kind. Each constructor ends without a
  panic with a configuration that has the given name and namespace (an artifact type: no namespace), the kind and
  API version under which \<open>ForKind\<close> finds its own type, and neither spec nor status.
\<close>

lemma apply_constructors:
  "(map_option config_kind (ForKind (gv, kind)) =
     (if gv = v1alpha1_SchemeGroupVersion \<and> kind \<in> set apply_kinds then Some kind else None)) \<and>
   (\<exists>b. Apply_Order name namespace = Inr b \<and> OrderApply_GetName b = Inr (Some name, b) \<and>
     OrderApply_GetNamespace b = Inr (Some namespace, b) \<and> OrderApply_GetKind b = Some ''Order'' \<and>
     OrderApply_GetAPIVersion b = Some (GroupVersion_String v1alpha1_SchemeGroupVersion) \<and>
     OrderApply_Spec b = None \<and> OrderApply_Status b = None \<and>
     ForKind (v1alpha1_SchemeGroupVersion, ''Order'') = Some (Config_Order zero_OrderApply)) \<and>
   (\<exists>b. Apply_Endpoint name namespace = Inr b \<and> EndpointApply_GetName b = Inr (Some name, b) \<and>
     EndpointApply_GetNamespace b = Inr (Some namespace, b) \<and> EndpointApply_GetKind b = Some ''Endpoint'' \<and>
     EndpointApply_GetAPIVersion b = Some (GroupVersion_String v1alpha1_SchemeGroupVersion) \<and>
     EndpointApply_Spec b = None \<and> EndpointApply_Status b = None \<and>
     ForKind (v1alpha1_SchemeGroupVersion, ''Endpoint'') = Some (Config_Endpoint zero_EndpointApply)) \<and>
   (\<exists>b. Apply_ArtifactWorkflow name namespace = Inr b \<and> AWApply_GetName b = Inr (Some name, b) \<and>
     AWApply_GetNamespace b = Inr (Some namespace, b) \<and> AWApply_GetKind b = Some ''ArtifactWorkflow'' \<and>
     AWApply_GetAPIVersion b = Some (GroupVersion_String v1alpha1_SchemeGroupVersion) \<and>
     AWApply_Spec b = None \<and> AWApply_Status b = None \<and>
     ForKind (v1alpha1_SchemeGroupVersion, ''ArtifactWorkflow'') = Some (Config_ArtifactWorkflow zero_AWApply)) \<and>
   (\<exists>b. Apply_ArtifactType name = Inr b \<and> ATApply_GetName b = Inr (Some name, b) \<and>
     ATApply_GetNamespace b = Inr (None, b) \<and> ATApply_GetKind b = Some ''ArtifactType'' \<and>
     ATApply_GetAPIVersion b = Some (GroupVersion_String v1alpha1_SchemeGroupVersion) \<and>
     ATApply_Spec b = None \<and> ATApply_Status b = None \<and>
     ForKind (v1alpha1_SchemeGroupVersion, ''ArtifactType'') = Some (Config_ArtifactType zero_ATApply))"
  by (intro conjI ForKind_kind) (simp_all add: constructor_defs)

subsection \<open>Sequences of calls\<close>

text \<open>
  C40: Chains of builder calls on the metadata of all four kinds. Whatever calls are made in whatever order, starting
  from any configuration, a nil owner reference panics and otherwise no call does (no write to a nil map, no
  nil metadata pointer): the scalar fields have the last value given to them, labels and annotations all entries with
  later calls winning whatever the order of the range, owner references and finalizers all values in
  order; fields no call named, the spec and the status are as before.
\<close>

theorem apply_calls:
  assumes "range_ok \<rho>"
  shows
    "built OrderApply_TypeMeta OrderApply_ObjectMeta (\<lambda>b. (OrderApply_Spec b, OrderApply_Status b))
       cs order (invoke_all (OrderApply_invoke \<rho>) cs order) \<and>
     built EndpointApply_TypeMeta EndpointApply_ObjectMeta (\<lambda>b. (EndpointApply_Spec b, EndpointApply_Status b))
       cs endpoint (invoke_all (EndpointApply_invoke \<rho>) cs endpoint) \<and>
     built AWApply_TypeMeta AWApply_ObjectMeta (\<lambda>b. (AWApply_Spec b, AWApply_Status b))
       cs aw (invoke_all (AWApply_invoke \<rho>) cs aw) \<and>
     built ATApply_TypeMeta ATApply_ObjectMeta (\<lambda>b. (ATApply_Spec b, ATApply_Status b))
       cs artifact_type (invoke_all (ATApply_invoke \<rho>) cs artifact_type)"
  by (intro conjI order_apply.calls_built endpoint_apply.calls_built aw_apply.calls_built at_apply.calls_built assms)

definition demo_calls :: "meta_call list" where
  "demo_calls =
     [WithName ''first'', WithLabels (Some (fmap_of_list [(''tier'', ''a''), (''team'', ''x'')])), WithFinalizers [''f''],
      WithName ''second'', WithLabels (Some (fmap_of_list [(''tier'', ''b'')])), WithFinalizers [''g'', ''h'']]"

theorem apply_calls_witness:
  "range_ok sorted_range \<and>
   (\<exists>b m. invoke_all (OrderApply_invoke sorted_range) demo_calls zero_OrderApply = Inr b \<and>
        OrderApply_ObjectMeta b = Some m \<and> MetaApply_Name m = Some ''second'' \<and>
        fmlookup (entries (MetaApply_Labels m)) ''tier'' = Some ''b'' \<and>
        fmlookup (entries (MetaApply_Labels m)) ''team'' = Some ''x'' \<and>
        MetaApply_Finalizers m = [''f'', ''g'', ''h''] \<and> OrderApply_Spec b = None)"
proof -
  have "built OrderApply_TypeMeta OrderApply_ObjectMeta (\<lambda>b. (OrderApply_Spec b, OrderApply_Status b))
      demo_calls zero_OrderApply (invoke_all (OrderApply_invoke sorted_range) demo_calls zero_OrderApply)"
    by (rule apply_calls [OF sorted_range_ok, THEN conjunct1])
  then obtain b where b: "invoke_all (OrderApply_invoke sorted_range) demo_calls zero_OrderApply = Inr b"
      "OrderApply_ObjectMeta b = object_after demo_calls None" "OrderApply_Spec b = None"
    by (auto simp: built_def demo_calls_def nil_owner_def zero_OrderApply_def simp del: invoke_all.simps)
  moreover obtain m where "object_after demo_calls None = Some m" "MetaApply_Name m = Some ''second''"
      "fmlookup (entries (MetaApply_Labels m)) ''tier'' = Some ''b''"
      "fmlookup (entries (MetaApply_Labels m)) ''team'' = Some ''x''" "MetaApply_Finalizers m = [''f'', ''g'', ''h'']"
    by (simp add: demo_calls_def invoke_effects merge_def zero_ObjectMetaApply_def)
  ultimately show ?thesis by auto
qed

subsection \<open>Slices and maps of the parts\<close>

lemma append_values_append:
  "append_values name (us @ vs) xs = bind_res (append_values name us xs) (append_values name vs)"
  by (induction name us xs rule: append_values.induct) simp_all

text \<open>
  The methods that append structs, by the slice they work on: repeated calls give all the structs in
  order, however they are cut into calls, or panic if one of the pointers is nil.
\<close>

locale slice_builder =
  fixes slice :: "'b \<Rightarrow> 'a list"
    and with_slice :: "'a list \<Rightarrow> 'b \<Rightarrow> 'b"
    and mname :: string
    and append_method :: "'a option list \<Rightarrow> 'b \<Rightarrow> 'b res"
  assumes slice_with [simp]: "slice (with_slice xs b) = xs"
    and with_slice_with [simp]: "with_slice ys (with_slice xs b) = with_slice ys b"
    and with_slice_same [simp]: "with_slice (slice b) b = b"
    and append_method: "append_method vs b =
      bind_res (append_values mname vs (slice b)) (\<lambda>xs. Inr (with_slice xs b))"
begin

lemma appends_as_one: "invoke_all append_method vss b = append_method (concat vss) b"
proof (induction vss arbitrary: b)
  case (Cons vs vss)
  show ?case
    by (cases "append_values mname vs (slice b)") (simp_all add: Cons.IH append_values_append
        append_method [of vs] append_method [of "concat vss"] append_method [of "vs @ concat vss"])
qed (simp add: append_method)

lemma appends_all:
  "invoke_all append_method vss b =
     (if None \<in> \<Union> (set ` set vss) then Inl (Panic (''nil value passed to '' @ mname))
      else Inr (with_slice (slice b @ List.map_filter (\<lambda>v. v) (concat vss)) b))"
  by (simp add: appends_as_one append_method append_values_eq)

end

interpretation artifacts: slice_builder OrderSpecApply_Artifacts "\<lambda>xs b. b\<lparr>OrderSpecApply_Artifacts := xs\<rparr>"
    "''WithArtifacts''" OrderSpecApply_WithArtifacts
  by unfold_locales (simp_all add: OrderSpecApply_WithArtifacts_def)

interpretation aw_parameters: slice_builder AWSpecApply_Parameters "\<lambda>xs b. b\<lparr>AWSpecApply_Parameters := xs\<rparr>"
    "''WithParameters''" AWSpecApply_WithParameters
  by unfold_locales (simp_all add: AWSpecApply_WithParameters_def)

interpretation at_parameters: slice_builder ATSpecApply_Parameters "\<lambda>xs b. b\<lparr>ATSpecApply_Parameters := xs\<rparr>"
    "''WithParameters''" ATSpecApply_WithParameters
  by unfold_locales (simp_all add: ATSpecApply_WithParameters_def)

lemma OrderStatusApply_workflows:
  assumes "range_ok \<rho>"
  shows "invoke_all (OrderStatusApply_WithArtifactWorkflows \<rho>) ess b =
     Inr (b\<lparr>OrderStatusApply_ArtifactWorkflows := foldl merge (OrderStatusApply_ArtifactWorkflows b) ess\<rparr>)"
proof (induction ess arbitrary: b)
  case (Cons es ess)
  then show ?case
    by (simp add: OrderStatusApply_WithArtifactWorkflows_def put_entries_merge [OF assms])
qed simp

end
