(* ===== verification/Api_Version.thy ===== *)
theory Api_Version
  imports Prelude "HOL-Library.Word"
begin

section \<open>The version of Kubernetes an ARC version stands for\<close>

text \<open>
  \<open>ARCVersionToKubeVersion\<close> of \<^verbatim>\<open>pkg/apiserver/start.go\<close>, with Go's \<open>uint\<close> and \<open>int\<close> as 64-bit words: the
  conversion of the minor version to \<open>int\<close> keeps the bits, the subtraction wraps around.

  \<open>version.Version\<close> belongs to apimachinery: its operations are the parameter \<open>version_library\<close>, and what
  the code relies on of them is \<open>version_laws\<close>, after their documentation.
\<close>

record 'v version_library =
  Version_Major :: "'v \<Rightarrow> 64 word"
  Version_Minor :: "'v \<Rightarrow> 64 word"
  Version_OffsetMinor :: "'v \<Rightarrow> 64 word \<Rightarrow> 'v"
  Version_GreaterThan :: "'v \<Rightarrow> 'v \<Rightarrow> bool"
  Version_MustParse :: "string \<Rightarrow> 'v"

text \<open>\<open>kube\<close> is \<open>baseversion.DefaultKubeBinaryVersion\<close>.\<close>

definition ARCVersionToKubeVersion :: "'v version_library \<Rightarrow> string \<Rightarrow> 'v \<Rightarrow> 'v option" where
  "ARCVersionToKubeVersion lib kube ver =
     (if Version_Major lib ver \<noteq> 1 then None
      else
        let kubeVer = Version_MustParse lib kube;
            offset = Version_Minor lib ver - 2;
            mappedVer = Version_OffsetMinor lib kubeVer offset
        in if Version_GreaterThan lib mappedVer kubeVer then Some kubeVer else Some mappedVer)"

text \<open>
  \<open>OffsetMinor\<close> keeps the major version and adds the signed offset to the minor one, stopping at 0 (stated
  where the sum is no overflow); \<open>GreaterThan\<close> compares the major, then the minor version, before anything else.
\<close>

definition version_laws :: "'v version_library \<Rightarrow> bool" where
  "version_laws lib \<longleftrightarrow>
     (\<forall>v offset. Version_Major lib (Version_OffsetMinor lib v offset) = Version_Major lib v) \<and>
     (\<forall>v offset. uint (Version_Minor lib v) + sint offset < 2 ^ 64 \<longrightarrow>
        uint (Version_Minor lib (Version_OffsetMinor lib v offset)) = max 0 (uint (Version_Minor lib v) + sint offset)) \<and>
     (\<forall>v w. Version_Major lib v = Version_Major lib w \<longrightarrow> Version_Minor lib w < Version_Minor lib v \<longrightarrow>
        Version_GreaterThan lib v w) \<and>
     (\<forall>v w. Version_Major lib v = Version_Major lib w \<longrightarrow> Version_Minor lib v < Version_Minor lib w \<longrightarrow>
        \<not> Version_GreaterThan lib v w)"

lemma version_lawsD:
  assumes "version_laws lib"
  shows "Version_Major lib (Version_OffsetMinor lib v offset) = Version_Major lib v"
    and "uint (Version_Minor lib v) + sint offset < 2 ^ 64 \<Longrightarrow>
      uint (Version_Minor lib (Version_OffsetMinor lib v offset)) = max 0 (uint (Version_Minor lib v) + sint offset)"
    and "Version_Major lib v = Version_Major lib w \<Longrightarrow> Version_Minor lib w < Version_Minor lib v \<Longrightarrow>
      Version_GreaterThan lib v w"
    and "Version_Major lib v = Version_Major lib w \<Longrightarrow> Version_Minor lib v < Version_Minor lib w \<Longrightarrow>
      \<not> Version_GreaterThan lib v w"
  using assms by (auto simp: version_laws_def)

text \<open>The offset as a number: no wrap-around below \<open>2\<^sup>6\<^sup>3\<close>.\<close>

lemma sint_minus_two:
  fixes w :: "64 word"
  assumes "uint w < 2 ^ 63"
  shows "sint (w - 2) = uint w - 2"
proof -
  have "0 \<le> uint w" by simp
  moreover have "sint (w - 2) = ((uint w - 2) mod 2 ^ 64 + 2 ^ 63) mod 2 ^ 64 - 2 ^ 63"
    by (simp add: sint_uint uint_word_ariths signed_take_bit_eq_take_bit_shift take_bit_eq_mod)
  ultimately show ?thesis
    using assms by (simp only: mod_add_left_eq) (simp add: mod_pos_pos_trivial)
qed

lemma mapped_minor:
  assumes "version_laws lib" and "uint (Version_Minor lib v) < 2 ^ 63"
  shows "uint (Version_Minor lib (Version_OffsetMinor lib v offset)) = max 0 (uint (Version_Minor lib v) + sint offset)"
proof -
  have "sint offset < 2 ^ 63" using sint_lt [of offset] by simp
  then show ?thesis using assms by (intro version_lawsD(2)) simp_all
qed

lemma kube_version_for:
  assumes "version_laws lib" and "uint (Version_Minor lib (Version_MustParse lib kube)) < 2 ^ 63"
  shows "if Version_Major lib ver \<noteq> 1 then ARCVersionToKubeVersion lib kube ver = None
    else \<exists>k. ARCVersionToKubeVersion lib kube ver = Some k \<and>
      Version_Major lib k = Version_Major lib (Version_MustParse lib kube) \<and>
      Version_Minor lib k \<le> Version_Minor lib (Version_MustParse lib kube) \<and>
      (if uint (Version_Minor lib ver) < 2 ^ 63
       then uint (Version_Minor lib k) = max 0 (min (uint (Version_Minor lib (Version_MustParse lib kube)))
              (uint (Version_Minor lib (Version_MustParse lib kube)) + uint (Version_Minor lib ver) - 2))
       else True)"
proof (cases "Version_Major lib ver = 1")
  case True
  let ?kube = "Version_MustParse lib kube" and ?off = "Version_Minor lib ver - 2"
  let ?mapped = "Version_OffsetMinor lib ?kube ?off"
  have major: "Version_Major lib ?mapped = Version_Major lib ?kube" by (rule version_lawsD(1) [OF assms(1)])
  have minor: "uint (Version_Minor lib ?mapped) = max 0 (uint (Version_Minor lib ?kube) + sint ?off)"
    by (rule mapped_minor [OF assms])
  have off: "sint ?off = uint (Version_Minor lib ver) - 2" if "uint (Version_Minor lib ver) < 2 ^ 63"
    using that by (rule sint_minus_two)
  show ?thesis
  proof (cases "Version_GreaterThan lib ?mapped ?kube")
    case gt: True
    then have "Version_Minor lib ?kube \<le> Version_Minor lib ?mapped"
      using version_lawsD(4) [OF assms(1) major] by (auto simp: not_less [symmetric])
    then have "uint (Version_Minor lib ?kube) \<le> max 0 (uint (Version_Minor lib ?kube) + sint ?off)"
      by (simp add: word_le_def minor)
    then have "uint (Version_Minor lib ?kube) = max 0 (min (uint (Version_Minor lib ?kube))
        (uint (Version_Minor lib ?kube) + uint (Version_Minor lib ver) - 2))" if "uint (Version_Minor lib ver) < 2 ^ 63"
      using off [OF that] uint_ge_0 [of "Version_Minor lib ?kube"] by linarith
    then show ?thesis using gt True by (simp add: ARCVersionToKubeVersion_def Let_def)
  next
    case le: False
    then have "Version_Minor lib ?mapped \<le> Version_Minor lib ?kube"
      using version_lawsD(3) [OF assms(1) major] by (auto simp: not_less [symmetric])
    then show ?thesis
      using le True off minor major by (auto simp: ARCVersionToKubeVersion_def Let_def word_le_def)
  qed
qed (simp add: ARCVersionToKubeVersion_def)

text \<open>
  C36: The version of Kubernetes an ARC version is emulated by. There is one exactly for major version 1. It has the major
  version of the Kubernetes release the server is built with, and it is never newer than that release, for
  every 64-bit minor version, also where the conversion to \<open>int\<close> or the subtraction wraps around. Below \<open>2\<^sup>6\<^sup>3\<close> the minor
  versions run in step: 1.2 stands for the minor version of the release, 1.1 and 1.0 for the one and two before (not
  below 0), and everything after 1.2 for the release itself.
\<close>

theorem ARCVersionToKubeVersion_bounds:
  assumes "version_laws lib" and "uint (Version_Minor lib (Version_MustParse lib kube)) < 2 ^ 63"
  shows "if Version_Major lib ver \<noteq> 1 then ARCVersionToKubeVersion lib kube ver = None
    else \<exists>k. ARCVersionToKubeVersion lib kube ver = Some k \<and>
      Version_Major lib k = Version_Major lib (Version_MustParse lib kube) \<and>
      Version_Minor lib k \<le> Version_Minor lib (Version_MustParse lib kube) \<and>
      (if uint (Version_Minor lib ver) < 2 ^ 63
       then uint (Version_Minor lib k) = max 0 (min (uint (Version_Minor lib (Version_MustParse lib kube)))
              (uint (Version_Minor lib (Version_MustParse lib kube)) + uint (Version_Minor lib ver) - 2))
       else True)"
  by (rule kube_version_for [OF assms])

definition demo_versions :: "(64 word \<times> 64 word) version_library" where
  "demo_versions =
     \<lparr>Version_Major = fst, Version_Minor = snd,
      Version_OffsetMinor = (\<lambda>v offset. (fst v, word_of_int (max 0 (uint (snd v) + sint offset)))),
      Version_GreaterThan = (\<lambda>v w. fst w < fst v \<or> fst v = fst w \<and> snd w < snd v),
      Version_MustParse = (\<lambda>s. (1, 34))\<rparr>"

lemma demo_versions_laws: "version_laws demo_versions"
  by (auto simp: version_laws_def demo_versions_def uint_word_of_int mod_pos_pos_trivial)

theorem ARCVersionToKubeVersion_bounds_witness:
  "(\<exists>k. ARCVersionToKubeVersion demo_versions ''1.34'' (1, 1) = Some k \<and> uint (snd k) = 33) \<and>
   ARCVersionToKubeVersion demo_versions ''1.34'' (2, 0) = None"
  using ARCVersionToKubeVersion_bounds [OF demo_versions_laws, of "''1.34''" "(1, 1)"]
    ARCVersionToKubeVersion_bounds [OF demo_versions_laws, of "''1.34''" "(2, 0)"]
  by (auto simp: demo_versions_def)

end
