(* ===== verification/Api_Server.thy ===== *)
theory Api_Server
  imports Api_Version Informer_Factory
begin

section \<open>Starting the API server\<close>

text \<open>
  \<^verbatim>\<open>pkg/apiserver/start.go\<close>, \<open>Config.Complete\<close> of \<^verbatim>\<open>pkg/apiserver/apiserver.go\<close> and the admission initializer of
  \<^verbatim>\<open>pkg/admission/orderinitializer\<close>. What is followed is the one piece of state these files share: the informer
  factory that \<open>Config\<close> creates inside a callback, hands to the admission plugins and stores in the options,
  and that the post-start hook starts. Factories are cells in a list and a reference is an index.

  The generic API server is the parameter \<open>apiserver_library\<close>. \<open>Scheme\<close> and \<open>Codecs\<close> are the ones of
  \<open>apiserver_init\<close>; the OpenAPI definitions appear by title and version only.
\<close>

subsection \<open>The admission initializer\<close>

text \<open>
  A plugin that wants the factory has a setter; \<open>Initialize\<close> finds out by a type assertion.
\<close>

record 'ref pluginInitializer =
  Initializer_informers :: 'ref

record ('ref, 'p) admission_plugin =
  Plugin_state :: 'p
  Plugin_SetInternalOrderInformerFactory :: "('ref \<Rightarrow> 'p \<Rightarrow> 'p) option"

definition orderinitializer_New :: "'ref \<Rightarrow> 'ref pluginInitializer" where
  "orderinitializer_New informers = \<lparr>Initializer_informers = informers\<rparr>"

definition Initialize :: "'ref pluginInitializer \<Rightarrow> ('ref, 'p) admission_plugin \<Rightarrow> ('ref, 'p) admission_plugin" where
  "Initialize i plugin =
     (case Plugin_SetInternalOrderInformerFactory plugin of
        None \<Rightarrow> plugin
      | Some set_factory \<Rightarrow> plugin\<lparr>Plugin_state := set_factory (Initializer_informers i) (Plugin_state plugin)\<rparr>)"

subsection \<open>Options and the library\<close>

text \<open>
  The fields of \<open>RecommendedConfig\<close> the code touches; its informer factory for the Kubernetes types is a
  state of the library's own type.
\<close>

record ('l, 'k, 'g, 'e) RecommendedConfig =
  RConfig_OpenAPI :: "(string \<times> string) option"
  RConfig_OpenAPIV3 :: "(string \<times> string) option"
  RConfig_FeatureGate :: "'g option"
  RConfig_EffectiveVersion :: "'e option"
  RConfig_LoopbackClientConfig :: "'l rest_config option"
  RConfig_SharedInformerFactory :: "'k option"

text \<open>All informer factories of the process, and the one in the options.\<close>

record ('r, 'd, 'o, 'f) factory_cells =
  Cells :: "('r, 'd, 'o, 'f) informer_system list"
  Options_SharedInformerFactory :: "nat option"

record 'ro ARCServerOptions =
  Options_RecommendedOptions :: 'ro
  Options_StdOut :: string
  Options_StdErr :: string
  Options_AlternateDNS :: "string list"

type_synonym ('l, 'k, 'g, 'e, 'st) initializer_callback =
  "('l, 'k, 'g, 'e) RecommendedConfig \<Rightarrow> 'st \<Rightarrow> (failure + nat pluginInitializer list) \<times> 'st"

text \<open>
  A hook the server calls once it is up: from its stop channel and the state to the core API's factory
  and the state after it; the order of the maps it ranges over is an argument, as elsewhere.
\<close>

type_synonym ('k, 'st) post_start_hook = "range_order \<Rightarrow> nat \<Rightarrow> 'st \<Rightarrow> ('k \<times> 'st) res"

record ('ro, 'cg, 'l, 'k, 'g, 'e, 'st, 'cc, 's) apiserver_library =
  NewRecommendedOptions :: "string \<Rightarrow> string \<times> string \<Rightarrow> 'ro"
  set_EncodeVersioner :: "string \<times> string \<Rightarrow> string \<Rightarrow> 'ro \<Rightarrow> 'ro"
  RecommendedOptions_Validate :: "'ro \<Rightarrow> go_error list"
  MaybeDefaultWithSelfSignedCerts :: "string \<Rightarrow> string list \<Rightarrow> string list \<Rightarrow> 'ro \<Rightarrow> go_error + 'ro"
  RecommendedOptions_ApplyTo :: "'ro \<Rightarrow> ('l, 'k, 'g, 'e, 'st) initializer_callback \<Rightarrow>
     ('l, 'k, 'g, 'e) RecommendedConfig \<Rightarrow> 'st \<Rightarrow> (failure + ('l, 'k, 'g, 'e) RecommendedConfig) \<times> 'st"
  NewRecommendedConfig :: "('l, 'k, 'g, 'e) RecommendedConfig"
  Registry_Validate :: "'cg \<Rightarrow> go_error list"
  Registry_Set :: "'cg \<Rightarrow> go_error option"
  FeatureGateFor :: "'cg \<Rightarrow> string \<Rightarrow> 'g option"
  EffectiveVersionFor :: "'cg \<Rightarrow> string \<Rightarrow> 'e option"
  NewAggregate :: "go_error list \<Rightarrow> go_error option"
  RecommendedConfig_Complete :: "('l, 'k, 'g, 'e) RecommendedConfig \<Rightarrow> 'cc"
  CompletedConfig_New :: "'cc \<Rightarrow> string \<Rightarrow> go_error + 's"
  CompletedConfig_Store :: "'cc \<Rightarrow> complete"
  InstallAPIGroup :: "'s \<Rightarrow> api_group \<Rightarrow> go_error + 's"
  AddPostStartHookOrDie :: "string \<Rightarrow> ('k, 'st) post_start_hook \<Rightarrow> 's \<Rightarrow> 's res"
  RunWithContext :: "'s \<Rightarrow> go_error option"
  KubeFactory_Start :: "nat \<Rightarrow> 'k \<Rightarrow> 'k"

definition defaultEtcdPathPrefix :: string where
  "defaultEtcdPathPrefix = ''/registry/arc.bwi.de''"

definition ARCComponentName :: string where
  "ARCComponentName = ''arc''"

definition DefaultKubeComponent :: string where
  "DefaultKubeComponent = ''kube''"

definition NewARCServerOptions ::
  "('ro, 'cg, 'l, 'k, 'g, 'e, 'st, 'cc, 's) apiserver_library \<Rightarrow> string \<Rightarrow> string \<Rightarrow> 'ro ARCServerOptions" where
  "NewARCServerOptions lib out errOut =
     \<lparr>Options_RecommendedOptions =
        set_EncodeVersioner lib v1alpha1_SchemeGroupVersion GroupName
          (NewRecommendedOptions lib defaultEtcdPathPrefix v1alpha1_SchemeGroupVersion),
      Options_StdOut = out, Options_StdErr = errOut, Options_AlternateDNS = []\<rparr>"

definition Options_Validate ::
  "('ro, 'cg, 'l, 'k, 'g, 'e, 'st, 'cc, 's) apiserver_library \<Rightarrow> 'cg \<Rightarrow> 'ro ARCServerOptions \<Rightarrow> go_error option" where
  "Options_Validate lib registry opts =
     NewAggregate lib (([] @ RecommendedOptions_Validate lib (Options_RecommendedOptions opts)) @ Registry_Validate lib registry)"

definition Options_Complete :: "'ro ARCServerOptions \<Rightarrow> go_error option \<times> 'ro ARCServerOptions" where
  "Options_Complete opts = (None, opts)"


subsection \<open>The configuration of the server\<close>

record ('l, 'k, 'g, 'e) Config =
  Config_GenericConfig :: "('l, 'k, 'g, 'e) RecommendedConfig"
  Config_ExtraConfig :: unit

record 'cc completedConfig =
  Completed_GenericConfig :: 'cc
  Completed_ExtraConfig :: unit

definition Config_Complete ::
  "('ro, 'cg, 'l, 'k, 'g, 'e, 'st, 'cc, 's) apiserver_library \<Rightarrow> ('l, 'k, 'g, 'e) Config \<Rightarrow> 'cc completedConfig" where
  "Config_Complete lib cfg =
     \<lparr>Completed_GenericConfig = RecommendedConfig_Complete lib (Config_GenericConfig cfg),
      Completed_ExtraConfig = Config_ExtraConfig cfg\<rparr>"

text \<open>The callback \<open>ExtraAdmissionInitializers\<close>: it allocates the factory and stores it in the options.\<close>

definition ExtraAdmissionInitializers ::
  "('l, 'h, 'r, 'd) rest_library \<Rightarrow> ('l, 'k, 'g, 'e, ('r, 'd, 'o, 'f) factory_cells) initializer_callback" where
  "ExtraAdmissionInitializers rest c st =
     (case RConfig_LoopbackClientConfig c of
        None \<Rightarrow> (Inl nil_panic, st)
      | Some loopback \<Rightarrow>
          (case Clientset_NewForConfig rest loopback of
             Inl err \<Rightarrow> (Inl (Err err), st)
           | Inr client \<Rightarrow>
               let informerFactory = length (Cells st)
               in (Inr [orderinitializer_New informerFactory],
                   st\<lparr>Cells := Cells st @ [new_system (NewSharedInformerFactory client (Config_Timeout loopback))],
                      Options_SharedInformerFactory := Some informerFactory\<rparr>)))"

definition Options_Config ::
  "('ro, 'cg, 'l, 'k, 'g, 'e, ('r, 'd, 'o, 'f) factory_cells, 'cc, 's) apiserver_library \<Rightarrow> ('l, 'h, 'r, 'd) rest_library \<Rightarrow>
   'cg \<Rightarrow> 'ro ARCServerOptions \<Rightarrow> ('r, 'd, 'o, 'f) factory_cells \<Rightarrow>
   (failure + ('l, 'k, 'g, 'e) Config) \<times> 'ro ARCServerOptions \<times> ('r, 'd, 'o, 'f) factory_cells" where
  "Options_Config lib rest registry opts st =
     (case MaybeDefaultWithSelfSignedCerts lib ''localhost'' (Options_AlternateDNS opts) [''127.0.0.1'']
             (Options_RecommendedOptions opts) of
        Inl err \<Rightarrow> (Inl (Err (Wrapped ''error creating self-signed certificates: '' err)), opts, st)
      | Inr recommended \<Rightarrow>
          let opts = opts\<lparr>Options_RecommendedOptions := recommended\<rparr>;
              serverConfig = (NewRecommendedConfig lib)
                \<lparr>RConfig_OpenAPI := Some (''ARC'', ''0.1''), RConfig_OpenAPIV3 := Some (''ARC'', ''0.1''),
                 RConfig_FeatureGate := FeatureGateFor lib registry DefaultKubeComponent,
                 RConfig_EffectiveVersion := EffectiveVersionFor lib registry ARCComponentName\<rparr>
          in case RecommendedOptions_ApplyTo lib recommended (ExtraAdmissionInitializers rest) serverConfig st of
               (Inl f, st) \<Rightarrow> (Inl f, opts, st)
             | (Inr serverConfig, st) \<Rightarrow>
                 (Inr \<lparr>Config_GenericConfig = serverConfig, Config_ExtraConfig = ()\<rparr>, opts, st))"

subsection \<open>Running the server\<close>

text \<open>The hook the server calls once it is up, with its stop channel.\<close>

definition start_informers_hook ::
  "('ro, 'cg, 'l, 'k, 'g, 'e, ('r, 'd, 'o, 'f) factory_cells, 'cc, 's) apiserver_library \<Rightarrow> range_order \<Rightarrow>
   ('l, 'k, 'g, 'e) Config \<Rightarrow> nat \<Rightarrow> ('r, 'd, 'o, 'f) factory_cells \<Rightarrow> ('k \<times> ('r, 'd, 'o, 'f) factory_cells) res" where
  "start_informers_hook lib \<rho> config stopCh st =
     (case RConfig_SharedInformerFactory (Config_GenericConfig config) of
        None \<Rightarrow> Inl nil_panic
      | Some kube \<Rightarrow>
          (case Options_SharedInformerFactory st of
             None \<Rightarrow> Inl nil_panic
           | Some i \<Rightarrow>
               Inr (KubeFactory_Start lib stopCh kube,
                    st\<lparr>Cells := (Cells st)[i := Factory_Start \<rho> stopCh (Cells st ! i)]\<rparr>)))"

text \<open>\<open>RunARCServer\<close> up to the point where the server runs: the server with its hook in place, and the configuration.\<close>

definition prepareARCServer ::
  "('ro, 'cg, 'l, 'k, 'g, 'e, ('r, 'd, 'o, 'f) factory_cells, 'cc, 's) apiserver_library \<Rightarrow> ('l, 'h, 'r, 'd) rest_library \<Rightarrow>
   meta_fields \<Rightarrow> 'cg \<Rightarrow> 'ro ARCServerOptions \<Rightarrow> ('r, 'd, 'o, 'f) factory_cells \<Rightarrow>
   (failure + 's \<times> ('l, 'k, 'g, 'e) Config) \<times> ('r, 'd, 'o, 'f) factory_cells" where
  "prepareARCServer lib rest metaFields registry opts st =
     (case Options_Config lib rest registry opts st of
        (Inl f, _, st) \<Rightarrow> (Inl f, st)
      | (Inr config, _, st) \<Rightarrow>
          let completed = Completed_GenericConfig (Config_Complete lib config)
          in (bind_res
                (ARCServer_New (CompletedConfig_New lib completed) (InstallAPIGroup lib)
                   (CompletedConfig_Store lib completed) metaFields) (\<lambda>server.
              bind_res (AddPostStartHookOrDie lib ''start-sample-server-informers''
                  (\<lambda>\<rho>. start_informers_hook lib \<rho> config) server) (\<lambda>server.
              Inr (server, config))), st))"

definition RunARCServer ::
  "('ro, 'cg, 'l, 'k, 'g, 'e, ('r, 'd, 'o, 'f) factory_cells, 'cc, 's) apiserver_library \<Rightarrow> ('l, 'h, 'r, 'd) rest_library \<Rightarrow>
   meta_fields \<Rightarrow> 'cg \<Rightarrow> 'ro ARCServerOptions \<Rightarrow> ('r, 'd, 'o, 'f) factory_cells \<Rightarrow>
   failure option \<times> ('r, 'd, 'o, 'f) factory_cells" where
  "RunARCServer lib rest metaFields registry opts st =
     (case prepareARCServer lib rest metaFields registry opts st of
        (Inl f, st) \<Rightarrow> (Some f, st)
      | (Inr (server, config), st) \<Rightarrow> (map_option Err (RunWithContext lib server), st))"

text \<open>The two callbacks of the command that \<open>NewCommandStartARCServer\<close> builds.\<close>

definition command_PersistentPreRunE ::
  "('ro, 'cg, 'l, 'k, 'g, 'e, 'st, 'cc, 's) apiserver_library \<Rightarrow> bool \<Rightarrow> 'cg \<Rightarrow> go_error option" where
  "command_PersistentPreRunE lib skipDefaultComponentGlobalsRegistrySet registry =
     (if skipDefaultComponentGlobalsRegistrySet then None else Registry_Set lib registry)"

definition command_RunE ::
  "('ro, 'cg, 'l, 'k, 'g, 'e, ('r, 'd, 'o, 'f) factory_cells, 'cc, 's) apiserver_library \<Rightarrow> ('l, 'h, 'r, 'd) rest_library \<Rightarrow>
   meta_fields \<Rightarrow> 'cg \<Rightarrow> 'ro ARCServerOptions \<Rightarrow> ('r, 'd, 'o, 'f) factory_cells \<Rightarrow>
   failure option \<times> ('r, 'd, 'o, 'f) factory_cells" where
  "command_RunE lib rest metaFields registry opts st =
     (case Options_Complete opts of
        (Some err, opts) \<Rightarrow> (Some (Err err), st)
      | (None, opts) \<Rightarrow>
          (case Options_Validate lib registry opts of
             Some err \<Rightarrow> (Some (Err err), st)
           | None \<Rightarrow> RunARCServer lib rest metaFields registry opts st))"

subsection \<open>The informers of the admission plugins\<close>

text \<open>
  What the server relies on of \<open>RecommendedOptions.ApplyTo\<close>: if it succeeds, it has called the callback once and
  initialized the plugins with what it returned, the plugins have done no more to the factory than
  ask it for informers, and the informer factory of the core API is set.
\<close>

definition asks_informers :: "('r, 'd, 'o, 'f) informer_system \<Rightarrow> ('r, 'd, 'o, 'f) informer_system \<Rightarrow> bool" where
  "asks_informers s s' \<longleftrightarrow> (\<exists>t newFunc. s' = snd (InformerFor t newFunc s))"

definition plugins_ran ::
  "nat pluginInitializer list \<Rightarrow> ('r, 'd, 'o, 'f) factory_cells \<Rightarrow> ('r, 'd, 'o, 'f) factory_cells \<Rightarrow> bool" where
  "plugins_ran inits st st' \<longleftrightarrow>
     Options_SharedInformerFactory st' = Options_SharedInformerFactory st \<and> length (Cells st') = length (Cells st) \<and>
     (\<forall>i < length (Cells st).
        if i \<in> Initializer_informers ` set inits then asks_informers\<^sup>*\<^sup>* (Cells st ! i) (Cells st' ! i)
        else Cells st' ! i = Cells st ! i)"

definition applies_recommended ::
  "('ro, 'cg, 'l, 'k, 'g, 'e, ('r, 'd, 'o, 'f) factory_cells, 'cc, 's) apiserver_library \<Rightarrow> bool" where
  "applies_recommended lib \<longleftrightarrow>
     (\<forall>ro callback c st c' st'. RecommendedOptions_ApplyTo lib ro callback c st = (Inr c', st') \<longrightarrow>
        RConfig_SharedInformerFactory c' \<noteq> None \<and>
        (\<exists>c1 inits st1. callback c1 st = (Inr inits, st1) \<and> plugins_ran inits st1 st'))"

lemma applies_recommendedD:
  assumes "applies_recommended lib" and "RecommendedOptions_ApplyTo lib ro callback c st = (Inr c', st')"
  shows "\<exists>kube. RConfig_SharedInformerFactory c' = Some kube"
    and "\<exists>c1 inits st1. callback c1 st = (Inr inits, st1) \<and> plugins_ran inits st1 st'"
  using assms by (simp_all add: applies_recommended_def)

lemma asks_informers_settings:
  "asks_informers\<^sup>*\<^sup>* s s' \<Longrightarrow> Factory_shuttingDown (Sys_factory s') = Factory_shuttingDown (Sys_factory s)"
  by (induction rule: rtranclp_induct)
    (auto simp: asks_informers_def InformerFor_def Let_def split: option.splits)

lemma Start_starts_all:
  assumes "range_ok \<rho>" and "\<not> Factory_shuttingDown (Sys_factory s)"
  shows "Factory_informers (Sys_factory (Factory_Start \<rho> ch s)) = Factory_informers (Sys_factory s)"
    and "t \<in> fmdom' (Factory_informers (Sys_factory s)) \<Longrightarrow> is_started (Sys_factory (Factory_Start \<rho> ch s)) t"
  using assms by (simp_all add: Factory_Start_def fold_start_started fmdom'_alt_def)

lemma prepared_Config:
  assumes "prepareARCServer lib rest mf registry opts st = (Inr (server, config), st')"
  obtains opts' where "Options_Config lib rest registry opts st = (Inr config, opts', st')"
proof -
  obtain r opts' st1 where c: "Options_Config lib rest registry opts st = (r, opts', st1)" by (metis prod_cases3)
  then show ?thesis
    using assms that by (cases r) (auto simp: prepareARCServer_def Let_def bind_res_Inr)
qed

lemma Config_applied:
  assumes "Options_Config lib rest registry opts st = (Inr config, opts', st')"
  shows "\<exists>ro c. RecommendedOptions_ApplyTo lib ro (ExtraAdmissionInitializers rest) c st =
    (Inr (Config_GenericConfig config), st')"
  using assms by (auto simp: Options_Config_def Let_def split: sum.splits prod.splits) blast

lemma callback_allocates:
  assumes "ExtraAdmissionInitializers rest c st = (Inr inits, st')"
  shows "inits = [orderinitializer_New (length (Cells st))]"
    and "Options_SharedInformerFactory st' = Some (length (Cells st))"
    and "\<exists>f. Cells st' = Cells st @ [new_system f] \<and> \<not> Factory_shuttingDown f"
  using assms
  by (auto simp: ExtraAdmissionInitializers_def Let_def NewSharedInformerFactory_def
      NewSharedInformerFactoryWithOptions_def split: option.splits sum.splits)


lemma applied_allocates:
  fixes lib :: "('ro, 'cg, 'l, 'k, 'g, 'e, ('r, 'd, 'o, 'f) factory_cells, 'cc, 's) apiserver_library"
  assumes "applies_recommended lib"
    and "RecommendedOptions_ApplyTo lib ro (ExtraAdmissionInitializers rest) c st = (Inr c', st')"
  shows "Options_SharedInformerFactory st' = Some (length (Cells st))"
    and "length (Cells st') = Suc (length (Cells st))"
    and "take (length (Cells st)) (Cells st') = Cells st"
    and "\<not> Factory_shuttingDown (Sys_factory (Cells st' ! length (Cells st)))"
proof -
  let ?i = "length (Cells st)"
  obtain c1 :: "('l, 'k, 'g, 'e) RecommendedConfig" and inits st1
    where init: "ExtraAdmissionInitializers rest c1 st = (Inr inits, st1)" and ran: "plugins_ran inits st1 st'"
    using applies_recommendedD(2) [OF assms] by blast
  obtain f where f: "Cells st1 = Cells st @ [new_system f]" "\<not> Factory_shuttingDown f"
    using callback_allocates(3) [OF init] by blast
  note ran = ran [unfolded plugins_ran_def callback_allocates(1) [OF init] callback_allocates(2) [OF init] f(1)]
  show "Options_SharedInformerFactory st' = Some ?i" and len: "length (Cells st') = Suc ?i" using ran by simp_all
  have "asks_informers\<^sup>*\<^sup>* (new_system f) (Cells st' ! ?i)"
    using ran by (auto simp: orderinitializer_New_def split: if_splits)
  from asks_informers_settings [OF this] show "\<not> Factory_shuttingDown (Sys_factory (Cells st' ! ?i))"
    using f(2) by (simp add: new_system_def)
  show "take ?i (Cells st') = Cells st"
    using ran len by (intro nth_equalityI) (auto simp: orderinitializer_New_def nth_append split: if_splits)
qed

text \<open>The hooks of a server, as far as adding one under a name puts it there.\<close>

definition registers_hooks ::
  "('ro, 'cg, 'l, 'k, 'g, 'e, 'st, 'cc, 's) apiserver_library \<Rightarrow> ('s \<Rightarrow> string \<Rightarrow> ('k, 'st) post_start_hook option) \<Rightarrow> bool" where
  "registers_hooks lib hooks \<longleftrightarrow>
     (\<forall>n h s s1. AddPostStartHookOrDie lib n h s = Inr s1 \<longrightarrow> hooks s1 = (hooks s)(n \<mapsto> h))"

lemma prepared_hook:
  assumes "prepareARCServer lib rest mf registry opts st = (Inr (server, config), st')" and "registers_hooks lib hooks"
  shows "hooks server ''start-sample-server-informers'' = Some (\<lambda>\<rho>. start_informers_hook lib \<rho> config)"
proof -
  obtain s where "AddPostStartHookOrDie lib ''start-sample-server-informers''
      (\<lambda>\<rho>. start_informers_hook lib \<rho> config) s = Inr server"
    using assms(1) by (auto simp: prepareARCServer_def Let_def bind_res_Inr split: prod.splits sum.splits)
  then have "hooks server = (hooks s)(''start-sample-server-informers'' \<mapsto> (\<lambda>\<rho>. start_informers_hook lib \<rho> config))"
    using assms(2) unfolding registers_hooks_def by blast
  then show ?thesis by simp
qed

text \<open>
  C37: A server that gets as far as running has the informer factory its hook needs. The factory is the one the
  configuration allocated for the admission plugins, no other factory of the process is touched, and when the hook
  runs it does not panic on a nil factory: it starts the informers of the core API and every informer an admission plugin
  has asked for. This hook is the one the server has under its name when it runs, if adding a hook puts it there.
\<close>

theorem server_informers_started:
  assumes "applies_recommended lib" and "range_ok \<rho>"
    and "prepareARCServer lib rest metaFields registry opts st = (Inr (server, config), st')"
  shows "\<exists>kube st''. start_informers_hook lib \<rho> config stopCh st' = Inr (KubeFactory_Start lib stopCh kube, st'') \<and>
    RConfig_SharedInformerFactory (Config_GenericConfig config) = Some kube \<and>
    Options_SharedInformerFactory st' = Some (length (Cells st)) \<and>
    length (Cells st'') = Suc (length (Cells st)) \<and> take (length (Cells st)) (Cells st'') = Cells st \<and>
    (\<forall>t \<in> fmdom' (Factory_informers (Sys_factory (Cells st' ! length (Cells st)))).
       is_started (Sys_factory (Cells st'' ! length (Cells st))) t) \<and>
    (\<forall>hooks. registers_hooks lib hooks \<longrightarrow>
       hooks server ''start-sample-server-informers'' = Some (\<lambda>\<rho>. start_informers_hook lib \<rho> config))"
proof -
  obtain opts' where "Options_Config lib rest registry opts st = (Inr config, opts', st')"
    using assms(3) by (rule prepared_Config)
  from Config_applied [OF this] obtain ro c where a: "RecommendedOptions_ApplyTo lib ro (ExtraAdmissionInitializers rest) c st =
      (Inr (Config_GenericConfig config), st')"
    by blast
  obtain kube where kube: "RConfig_SharedInformerFactory (Config_GenericConfig config) = Some kube"
    using applies_recommendedD(1) [OF assms(1) a] by blast
  note alloc = applied_allocates [OF assms(1) a]
  note started = Start_starts_all(2) [OF assms(2) alloc(4)]
  show ?thesis
    using started alloc(1-3) prepared_hook [OF assms(3)] by (simp add: start_informers_hook_def kube)
qed

definition demo_loopback :: "unit rest_config" where
  "demo_loopback =
     \<lparr>Config_Host = ''localhost'', Config_UserAgent = [], Config_GroupVersion = None, Config_APIPath = [],
      Config_NegotiatedSerializer = None, Config_QPS = 0, Config_Burst = 0, Config_RateLimiter = None,
      Config_Timeout = 0\<rparr>"

definition demo_rest :: "(unit, unit, unit, unit) rest_library" where
  "demo_rest =
     \<lparr>DefaultKubernetesUserAgent = ''kube'', HTTPClientFor = (\<lambda>c. Inr ()), RESTClientForConfigAndClient = (\<lambda>c h. Inr ()),
      NewDiscoveryClientForConfigAndClient = (\<lambda>c h. Inr ()), NewDiscoveryClient = (\<lambda>r. ()),
      NewTokenBucketRateLimiter = (\<lambda>q b. ())\<rparr>"

text \<open>A library that sets the loopback configuration, calls the callback and has one plugin ask for orders.\<close>

definition demo_ask :: "nat \<Rightarrow> (unit, unit, unit, unit) factory_cells \<Rightarrow> (unit, unit, unit, unit) factory_cells" where
  "demo_ask i st = st\<lparr>Cells := (Cells st)[i := snd (InformerFor ''Order'' demo_informer (Cells st ! i))]\<rparr>"

definition demo_apiserver ::
  "(unit, unit, unit, nat, unit, unit, (unit, unit, unit, unit) factory_cells, unit,
    string \<Rightarrow> (nat, (unit, unit, unit, unit) factory_cells) post_start_hook option) apiserver_library" where
  "demo_apiserver =
     \<lparr>NewRecommendedOptions = (\<lambda>p gv. ()), set_EncodeVersioner = (\<lambda>gv g ro. ()), RecommendedOptions_Validate = (\<lambda>ro. []),
      MaybeDefaultWithSelfSignedCerts = (\<lambda>h dns ips ro. Inr ro),
      RecommendedOptions_ApplyTo = (\<lambda>ro callback c st.
        let c = c\<lparr>RConfig_LoopbackClientConfig := Some demo_loopback, RConfig_SharedInformerFactory := Some 0\<rparr>
        in case callback c st of
             (Inl f, st) \<Rightarrow> (Inl f, st)
           | (Inr inits, st) \<Rightarrow> (Inr c, case inits of [i] \<Rightarrow> demo_ask (Initializer_informers i) st | _ \<Rightarrow> st)),
      NewRecommendedConfig = \<lparr>RConfig_OpenAPI = None, RConfig_OpenAPIV3 = None, RConfig_FeatureGate = None,
        RConfig_EffectiveVersion = None, RConfig_LoopbackClientConfig = None, RConfig_SharedInformerFactory = None\<rparr>,
      Registry_Validate = (\<lambda>cg. []), Registry_Set = (\<lambda>cg. None), FeatureGateFor = (\<lambda>cg n. Some ()),
      EffectiveVersionFor = (\<lambda>cg n. Some ()), NewAggregate = (\<lambda>es. if es = [] then None else Some (hd es)),
      RecommendedConfig_Complete = (\<lambda>c. ()), CompletedConfig_New = (\<lambda>c n. Inr Map.empty),
      CompletedConfig_Store = (\<lambda>c s a. Inr s), InstallAPIGroup = (\<lambda>s g. Inr s),
      AddPostStartHookOrDie = (\<lambda>n h s. Inr (s(n \<mapsto> h))),
      RunWithContext = (\<lambda>s. None), KubeFactory_Start = (\<lambda>ch k. Suc k)\<rparr>"

lemma demo_apiserver_applies: "applies_recommended demo_apiserver"
proof -
  have "plugins_ran inits st (case inits of [i] \<Rightarrow> demo_ask (Initializer_informers i) st | _ \<Rightarrow> st)" for inits st
  proof -
    have "asks_informers\<^sup>*\<^sup>* s (snd (InformerFor t newFunc s))" for s :: "(unit, unit, unit, unit) informer_system" and t newFunc
      by (rule r_into_rtranclp) (auto simp: asks_informers_def)
    then show ?thesis
      by (auto simp: plugins_ran_def demo_ask_def nth_list_update split: list.split)
  qed
  then show ?thesis
    by (auto simp: applies_recommended_def demo_apiserver_def Let_def split: sum.splits prod.splits) blast
qed

theorem server_informers_started_witness:
  "\<exists>server config st' st''.
     prepareARCServer demo_apiserver demo_rest (\<lambda>m b. fmempty) () (NewARCServerOptions demo_apiserver ''out'' ''err'')
       \<lparr>Cells = [], Options_SharedInformerFactory = None\<rparr> = (Inr (server, config), st') \<and>
     start_informers_hook demo_apiserver sorted_range config 5 st' = Inr (1, st'') \<and>
     is_started (Sys_factory (Cells st'' ! 0)) ''Order'' \<and>
     map_option (\<lambda>h. h sorted_range 5 st') (server ''start-sample-server-informers'') = Some (Inr (1, st''))"
proof -
  let ?st = "\<lparr>Cells = [], Options_SharedInformerFactory = None\<rparr> :: (unit, unit, unit, unit) factory_cells"
  let ?p = "prepareARCServer demo_apiserver demo_rest (\<lambda>m b. fmempty) () (NewARCServerOptions demo_apiserver ''out'' ''err'') ?st"
  obtain server config st' where p: "?p = (Inr (server, config), st')"
      "RConfig_SharedInformerFactory (Config_GenericConfig config) = Some 0"
      "''Order'' \<in> fmdom' (Factory_informers (Sys_factory (Cells st' ! 0)))"
    by (auto simp: prepareARCServer_def Options_Config_def demo_apiserver_def ExtraAdmissionInitializers_def demo_rest_def
        demo_loopback_def Clientset_NewForConfig_def Clientset_NewForConfigAndClient_def
        ArcClient_NewForConfigAndClient_def setConfigDefaults_def Let_def ARCServer_New_def v1alpha1storage_def
        order_NewREST_def order_NewStatusREST_def fragment_NewREST_def fragment_NewStatusREST_def
        endpoint_NewREST_def artifacttype_NewREST_def RESTInPeace_def orderinitializer_New_def demo_ask_def
        InformerFor_def new_system_def NewSharedInformerFactory_def NewSharedInformerFactoryWithOptions_def)
  have "KubeFactory_Start demo_apiserver 5 0 = 1" by (simp add: demo_apiserver_def)
  moreover have "registers_hooks demo_apiserver (\<lambda>s. s)" by (simp add: registers_hooks_def demo_apiserver_def)
  ultimately show ?thesis
    using server_informers_started [OF demo_apiserver_applies sorted_range_ok p(1), of 5] p
    by (auto dest!: spec [of _ "\<lambda>s. s"])
qed

end
