(* ===== verification/Controller_Manager.thy ===== *)
theory Controller_Manager
  imports Prelude
begin

section \<open>The controller manager\<close>

text \<open>
  \<open>main\<close> of \<^verbatim>\<open>cmd/arc-controller-manager/main.go\<close> and the \<open>SetupWithManager\<close> methods of \<^verbatim>\<open>pkg/controller\<close>: from the parsed
  flags to the options of the metrics server and the manager, and the sequence of steps, each of which ends the
  process with exit code 1 if it fails. The manager of controller-runtime, the certificate watcher and Argo's types
  are the parameter \<open>manager_library\<close> (\<open>NewManager\<close> includes \<open>GetConfigOrDie\<close>); a manager is a state \<open>'m\<close> that the
  steps change.

  Logging, the signal handler and the four timeout flags that nothing reads are left out.
\<close>

subsection \<open>Flags and options\<close>

record manager_flags =
  Flag_metricsAddr :: string
  Flag_secureMetrics :: bool
  Flag_metricsCertPath :: string
  Flag_metricsCertName :: string
  Flag_metricsCertKey :: string
  Flag_enableHTTP2 :: bool
  Flag_enableLeaderElection :: bool
  Flag_probeAddr :: string
  Flag_pprofAddr :: string

text \<open>The values without command-line arguments.\<close>

definition default_flags :: manager_flags where
  "default_flags =
     \<lparr>Flag_metricsAddr = ''0'', Flag_secureMetrics = True, Flag_metricsCertPath = [], Flag_metricsCertName = ''tls.crt'',
      Flag_metricsCertKey = ''tls.key'', Flag_enableHTTP2 = False, Flag_enableLeaderElection = False,
      Flag_probeAddr = '':8081'', Flag_pprofAddr = []\<rparr>"

text \<open>The fields of \<open>tls.Config\<close> the program sets; a certificate callback is named by its watcher.\<close>

record 'c tls_Config =
  TLS_NextProtos :: "string list"
  TLS_GetCertificate :: "'c option"

type_synonym 'c tls_option = "'c tls_Config \<Rightarrow> 'c tls_Config"

record 'c metrics_Options =
  Metrics_BindAddress :: string
  Metrics_SecureServing :: bool
  Metrics_TLSOpts :: "'c tls_option list"
  Metrics_FilterProvider :: "string option"

record 'c manager_Options =
  Manager_Metrics :: "'c metrics_Options"
  Manager_HealthProbeBindAddress :: string
  Manager_PprofBindAddress :: string
  Manager_LeaderElection :: bool
  Manager_LeaderElectionID :: string

text \<open>What a builder of controller-runtime is told: the kind reconciled, the kinds watched and the kinds owned.\<close>

record controller_setup =
  Setup_For :: string
  Setup_Watches :: "(string \<times> string) list"
  Setup_Owns :: "string list"

record ('c, 'm) manager_library =
  filepath_Join :: "string \<Rightarrow> string \<Rightarrow> string"
  certwatcher_New :: "string \<Rightarrow> string \<Rightarrow> go_error + 'c"
  NewManager :: "'c manager_Options \<Rightarrow> go_error + 'm"
  Manager_Add :: "'c \<Rightarrow> 'm \<Rightarrow> go_error + 'm"
  argo_AddToScheme :: "'m \<Rightarrow> go_error + 'm"
  Builder_Complete :: "controller_setup \<Rightarrow> 'm \<Rightarrow> go_error + 'm"
  AddHealthzCheck :: "string \<Rightarrow> 'm \<Rightarrow> go_error + 'm"
  AddReadyzCheck :: "string \<Rightarrow> 'm \<Rightarrow> go_error + 'm"
  Manager_Start :: "'m \<Rightarrow> go_error option"

definition disableHTTP2 :: "'c tls_option" where
  "disableHTTP2 c = c\<lparr>TLS_NextProtos := [''http/1.1'']\<rparr>"

definition metricsServerOptions :: "manager_flags \<Rightarrow> 'c metrics_Options" where
  "metricsServerOptions flags =
     (let tlsOpts = (if \<not> Flag_enableHTTP2 flags then [] @ [disableHTTP2] else []);
          opts = \<lparr>Metrics_BindAddress = Flag_metricsAddr flags, Metrics_SecureServing = Flag_secureMetrics flags,
                  Metrics_TLSOpts = tlsOpts, Metrics_FilterProvider = None\<rparr>
      in if Flag_secureMetrics flags
         then opts\<lparr>Metrics_FilterProvider := Some ''WithAuthenticationAndAuthorization''\<rparr> else opts)"

subsection \<open>The steps\<close>

text \<open>How the process ends: with exit code 1 after a logged error, or when the manager was stopped.\<close>

datatype 'm outcome = Exit_1 string go_error | Stopped 'm

definition or_exit :: "string \<Rightarrow> go_error + 'a \<Rightarrow> ('a \<Rightarrow> 'm outcome) \<Rightarrow> 'm outcome" where
  "or_exit text r k = (case r of Inl err \<Rightarrow> Exit_1 text err | Inr x \<Rightarrow> k x)"

definition OrderReconciler_SetupWithManager :: "('c, 'm) manager_library \<Rightarrow> 'm \<Rightarrow> go_error + 'm" where
  "OrderReconciler_SetupWithManager lib mgr =
     Builder_Complete lib
       \<lparr>Setup_For = ''Order'', Setup_Watches = [(''Endpoint'', ''ResourceVersionChangedPredicate'')],
        Setup_Owns = [''ArtifactWorkflow'']\<rparr> mgr"

definition ArtifactWorkflowReconciler_SetupWithManager :: "('c, 'm) manager_library \<Rightarrow> 'm \<Rightarrow> go_error + 'm" where
  "ArtifactWorkflowReconciler_SetupWithManager lib mgr =
     Builder_Complete lib \<lparr>Setup_For = ''ArtifactWorkflow'', Setup_Watches = [], Setup_Owns = [''Workflow'']\<rparr> mgr"

text \<open>The certificate watcher, if there is a path, and the metrics options with its callback.\<close>

definition metricsCertWatcher ::
  "('c, 'm) manager_library \<Rightarrow> manager_flags \<Rightarrow> 'c metrics_Options \<Rightarrow> go_error + 'c option \<times> 'c metrics_Options" where
  "metricsCertWatcher lib flags opts =
     (if length (Flag_metricsCertPath flags) > 0 then
        (case certwatcher_New lib (filepath_Join lib (Flag_metricsCertPath flags) (Flag_metricsCertName flags))
                (filepath_Join lib (Flag_metricsCertPath flags) (Flag_metricsCertKey flags)) of
           Inl err \<Rightarrow> Inl err
         | Inr watcher \<Rightarrow>
             Inr (Some watcher, opts\<lparr>Metrics_TLSOpts :=
               Metrics_TLSOpts opts @ [\<lambda>config. config\<lparr>TLS_GetCertificate := Some watcher\<rparr>]\<rparr>))
      else Inr (None, opts))"

text \<open>The controllers, the checks and the run of the manager.\<close>

definition run_manager :: "('c, 'm) manager_library \<Rightarrow> 'm \<Rightarrow> 'm outcome" where
  "run_manager lib mgr =
     or_exit ''failed to add Argo Workflows types to scheme'' (argo_AddToScheme lib mgr) (\<lambda>mgr.
     or_exit ''unable to create controller'' (OrderReconciler_SetupWithManager lib mgr) (\<lambda>mgr.
     or_exit ''unable to create controller'' (ArtifactWorkflowReconciler_SetupWithManager lib mgr) (\<lambda>mgr.
     or_exit ''unable to set up health check'' (AddHealthzCheck lib ''healthz'' mgr) (\<lambda>mgr.
     or_exit ''unable to set up ready check'' (AddReadyzCheck lib ''readyz'' mgr) (\<lambda>mgr.
       case Manager_Start lib mgr of
         Some err \<Rightarrow> Exit_1 ''problem running manager'' err
       | None \<Rightarrow> Stopped mgr)))))"

definition manager_main :: "('c, 'm) manager_library \<Rightarrow> manager_flags \<Rightarrow> 'm outcome" where
  "manager_main lib flags =
     or_exit ''to initialize metrics certificate watcher'' (metricsCertWatcher lib flags (metricsServerOptions flags))
       (\<lambda>(watcher, metrics).
     or_exit ''unable to create manager''
       (NewManager lib
          \<lparr>Manager_Metrics = metrics, Manager_HealthProbeBindAddress = Flag_probeAddr flags,
           Manager_PprofBindAddress = Flag_pprofAddr flags, Manager_LeaderElection = Flag_enableLeaderElection flags,
           Manager_LeaderElectionID = ''arc.bwi.de''\<rparr>) (\<lambda>mgr.
       case watcher of
         None \<Rightarrow> run_manager lib mgr
       | Some w \<Rightarrow>
           or_exit ''unable to add metrics certificate watcher to manager'' (Manager_Add lib w mgr) (run_manager lib)))"

subsection \<open>What runs\<close>

lemma or_exit_Stopped: "or_exit text r k = Stopped m \<longleftrightarrow> (\<exists>x. r = Inr x \<and> k x = Stopped m)"
  by (cases r) (simp_all add: or_exit_def)

lemma run_manager_Stopped:
  "run_manager lib m0 = Stopped m \<longleftrightarrow>
     (\<exists>m1 m2 m3 m4. argo_AddToScheme lib m0 = Inr m1 \<and> OrderReconciler_SetupWithManager lib m1 = Inr m2 \<and>
        ArtifactWorkflowReconciler_SetupWithManager lib m2 = Inr m3 \<and> AddHealthzCheck lib ''healthz'' m3 = Inr m4 \<and>
        AddReadyzCheck lib ''readyz'' m4 = Inr m \<and> Manager_Start lib m = None)"
  by (auto simp: run_manager_def or_exit_Stopped split: option.splits)

text \<open>What the TLS options make of a configuration.\<close>

definition tls_of :: "'c metrics_Options \<Rightarrow> 'c tls_Config \<Rightarrow> 'c tls_Config" where
  "tls_of opts = fold (\<lambda>opt. opt) (Metrics_TLSOpts opts)"

lemma metrics_tls:
  assumes "metricsCertWatcher lib flags (metricsServerOptions flags) = Inr (watcher, metrics)"
  shows "TLS_NextProtos (tls_of metrics c) = (if Flag_enableHTTP2 flags then TLS_NextProtos c else [''http/1.1''])"
    and "TLS_GetCertificate (tls_of metrics c) = (if watcher = None then TLS_GetCertificate c else watcher)"
    and "Metrics_FilterProvider metrics =
      (if Flag_secureMetrics flags then Some ''WithAuthenticationAndAuthorization'' else None)"
    and "Metrics_SecureServing metrics = Flag_secureMetrics flags"
    and "watcher = None \<longleftrightarrow> Flag_metricsCertPath flags = []"
  using assms
  by (auto simp: metricsCertWatcher_def metricsServerOptions_def tls_of_def disableHTTP2_def Let_def
      split: if_splits sum.splits)

text \<open>
  C39: What a manager that was started runs with, for all flags and whatever the library answers. Unless HTTP/2 was
  enabled by its flag, every TLS configuration of the metrics server negotiates HTTP/1.1 only; if metrics are
  served securely, which is the default, they are behind authentication and authorization; a certificate path, and
  nothing else, makes the server use the watcher's certificate, and the watcher runs in the manager. Argo's types are in
  the scheme before both controllers are set up, and both checks are there before the manager starts; any step that
  fails ends the process instead.
\<close>

theorem manager_started:
  assumes "manager_main lib flags = Stopped m"
  shows "\<exists>watcher metrics m0 m1 m2 m3 m4 m5.
    metricsCertWatcher lib flags (metricsServerOptions flags) = Inr (watcher, metrics) \<and>
    (\<forall>c. TLS_NextProtos (tls_of metrics c) = (if Flag_enableHTTP2 flags then TLS_NextProtos c else [''http/1.1''])) \<and>
    Metrics_SecureServing metrics = Flag_secureMetrics flags \<and>
    Metrics_FilterProvider metrics =
      (if Flag_secureMetrics flags then Some ''WithAuthenticationAndAuthorization'' else None) \<and>
    (\<forall>c. TLS_GetCertificate (tls_of metrics c) = (if Flag_metricsCertPath flags = [] then TLS_GetCertificate c else watcher)) \<and>
    NewManager lib
      \<lparr>Manager_Metrics = metrics, Manager_HealthProbeBindAddress = Flag_probeAddr flags,
       Manager_PprofBindAddress = Flag_pprofAddr flags, Manager_LeaderElection = Flag_enableLeaderElection flags,
       Manager_LeaderElectionID = ''arc.bwi.de''\<rparr> = Inr m0 \<and>
    (case watcher of None \<Rightarrow> m1 = m0 | Some w \<Rightarrow> Manager_Add lib w m0 = Inr m1) \<and>
    argo_AddToScheme lib m1 = Inr m2 \<and> OrderReconciler_SetupWithManager lib m2 = Inr m3 \<and>
    ArtifactWorkflowReconciler_SetupWithManager lib m3 = Inr m4 \<and> AddHealthzCheck lib ''healthz'' m4 = Inr m5 \<and>
    AddReadyzCheck lib ''readyz'' m5 = Inr m \<and> Manager_Start lib m = None"
proof -
  obtain watcher metrics where w: "metricsCertWatcher lib flags (metricsServerOptions flags) = Inr (watcher, metrics)"
    using assms by (auto simp: manager_main_def or_exit_Stopped)
  obtain m0 m1 where m0: "NewManager lib
      \<lparr>Manager_Metrics = metrics, Manager_HealthProbeBindAddress = Flag_probeAddr flags,
       Manager_PprofBindAddress = Flag_pprofAddr flags, Manager_LeaderElection = Flag_enableLeaderElection flags,
       Manager_LeaderElectionID = ''arc.bwi.de''\<rparr> = Inr m0"
    and m1: "case watcher of None \<Rightarrow> m1 = m0 | Some w \<Rightarrow> Manager_Add lib w m0 = Inr m1" "run_manager lib m1 = Stopped m"
    using assms w by (cases watcher) (auto simp: manager_main_def or_exit_Stopped)
  from m1(2) [unfolded run_manager_Stopped] show ?thesis
    using w m0 m1(1) metrics_tls [OF w] by (auto 0 4)
qed

definition demo_manager :: "(string \<times> string, string list) manager_library" where
  "demo_manager =
     \<lparr>filepath_Join = (\<lambda>a b. a @ ''/'' @ b), certwatcher_New = (\<lambda>cert key. Inr (cert, key)), NewManager = (\<lambda>opts. Inr []),
      Manager_Add = (\<lambda>w m. Inr (m @ [fst w])), argo_AddToScheme = (\<lambda>m. Inr (m @ [''argo''])),
      Builder_Complete = (\<lambda>setup m. Inr (m @ [Setup_For setup])), AddHealthzCheck = (\<lambda>n m. Inr (m @ [n])),
      AddReadyzCheck = (\<lambda>n m. Inr (m @ [n])), Manager_Start = (\<lambda>m. None)\<rparr>"

theorem manager_started_witness:
  "\<exists>watcher metrics. metricsCertWatcher demo_manager (default_flags\<lparr>Flag_metricsCertPath := ''/certs''\<rparr>)
       (metricsServerOptions (default_flags\<lparr>Flag_metricsCertPath := ''/certs''\<rparr>)) = Inr (watcher, metrics) \<and>
     TLS_NextProtos (tls_of metrics \<lparr>TLS_NextProtos = [''h2''], TLS_GetCertificate = None\<rparr>) = [''http/1.1''] \<and>
     TLS_GetCertificate (tls_of metrics \<lparr>TLS_NextProtos = [''h2''], TLS_GetCertificate = None\<rparr>) = watcher"
proof -
  have "manager_main demo_manager (default_flags\<lparr>Flag_metricsCertPath := ''/certs''\<rparr>) =
      Stopped [''/certs/tls.crt'', ''argo'', ''Order'', ''ArtifactWorkflow'', ''healthz'', ''readyz'']"
    by (simp add: manager_main_def run_manager_def or_exit_def metricsCertWatcher_def demo_manager_def default_flags_def
        OrderReconciler_SetupWithManager_def ArtifactWorkflowReconciler_SetupWithManager_def)
  from manager_started [OF this] obtain watcher metrics where
    "metricsCertWatcher demo_manager (default_flags\<lparr>Flag_metricsCertPath := ''/certs''\<rparr>)
       (metricsServerOptions (default_flags\<lparr>Flag_metricsCertPath := ''/certs''\<rparr>)) = Inr (watcher, metrics)"
    "TLS_NextProtos (tls_of metrics c) = [''http/1.1'']" "TLS_GetCertificate (tls_of metrics c) = watcher" for c
    by (auto simp: default_flags_def)
  then show ?thesis by blast
qed

end
