(* ===== verification/Endpoint_Updates.thy ===== *)
theory Endpoint_Updates
  imports Order_Theorems Conversion Registry
begin

section \<open>Updates of endpoints and the desired state of orders\<close>

text \<open>
  How three components meet: an update of an endpoint goes through \<open>endpointStrategy\<close> of the registry, the stored
  endpoint is converted to v1alpha1 for the order controller, and the controller computes the keys of the
  desired artifact workflows from it. The key depends on the name and the generation of an endpoint, and the
  strategy leaves the generation as the generic store hands it in.
\<close>

text \<open>What the key of an artifact workflow, and the choice of secrets, see of an endpoint.\<close>

definition same_for_key :: "Endpoint \<Rightarrow> Endpoint \<Rightarrow> bool" where
  "same_for_key a b \<longleftrightarrow>
     Meta_Name (Endpoint_ObjectMeta a) = Meta_Name (Endpoint_ObjectMeta b) \<and>
     Meta_Generation (Endpoint_ObjectMeta a) = Meta_Generation (Endpoint_ObjectMeta b) \<and>
     secretRefName a = secretRefName b"

lemma same_for_key_refl [simp]: "same_for_key a a"
  by (simp add: same_for_key_def)

lemma hashData_same_for_key:
  assumes "same_for_key a a'" and "same_for_key b b'"
  shows "hashData order artifact a b s t = hashData order artifact a' b' s t"
  using assms by (simp add: hashData_def same_for_key_def)

text \<open>Two views of the cluster with the same secrets, whose endpoints look the same to the key.\<close>

definition same_view_for_key :: "cluster_view \<Rightarrow> cluster_view \<Rightarrow> bool" where
  "same_view_for_key v v' \<longleftrightarrow>
     view_Secret v' = view_Secret v \<and>
     (\<forall>n ep. view_Endpoint v n = Inr ep \<longrightarrow> (\<exists>ep'. view_Endpoint v' n = Inr ep' \<and> same_for_key ep ep'))"

lemma secret_resolves_same:
  assumes "same_view_for_key v v'" and "same_for_key a b"
  shows "secret_resolves v' ns b s = secret_resolves v ns a s"
  using assms by (simp add: secret_resolves_def same_view_for_key_def same_for_key_def)

lemma resolves_same_view:
  assumes "same_view_for_key v v'" and "resolves v order i artifact daw"
  shows "\<exists>daw'. resolves v' order i artifact daw' \<and> daw_sha order daw' = daw_sha order daw"
proof -
  obtain src dst where
    src: "view_Endpoint v' (Order_Namespace order, srcRefName order artifact) = Inr src" "same_for_key (daw_srcEndpoint daw) src"
    and dst: "view_Endpoint v' (Order_Namespace order, dstRefName order artifact) = Inr dst" "same_for_key (daw_dstEndpoint daw) dst"
    using assms unfolding same_view_for_key_def resolves_def by meson
  let ?daw = "daw\<lparr>daw_srcEndpoint := src, daw_dstEndpoint := dst\<rparr>"
  have sha: "daw_sha order ?daw = daw_sha order daw"
    using hashData_same_for_key [OF src(2) dst(2)] by (simp add: daw_sha_def)
  have "resolves v' order i artifact ?daw"
    using assms(2) src(1) dst(1) unfolding resolves_def sha
    by (simp add: secret_resolves_same [OF assms(1) src(2)] secret_resolves_same [OF assms(1) dst(2)])
  with sha show ?thesis by blast
qed

lemma resolve_all_same_view:
  assumes "same_view_for_key v v'" and "resolve_all v order i artifacts daws"
  shows "\<exists>daws'. resolve_all v' order i artifacts daws' \<and> map (daw_sha order) daws' = map (daw_sha order) daws"
  using assms(2)
proof (induction artifacts arbitrary: i daws)
  case (Cons a as)
  obtain d ds where d: "daws = d # ds" "resolves v order i a d" "resolve_all v order (i + 1) as ds"
    using Cons.prems by (auto split: list.splits)
  obtain d' where d': "resolves v' order i a d'" "daw_sha order d' = daw_sha order d"
    using resolves_same_view [OF assms(1) d(2)] by blast
  obtain ds' where ds': "resolve_all v' order (i + 1) as ds'" "map (daw_sha order) ds' = map (daw_sha order) ds"
    using Cons.IH [OF d(3)] by blast
  show ?case by (rule exI [of _ "d' # ds'"]) (simp add: d d' ds')
qed simp

lemma fmdom_fold_upd: "fmdom (fold (\<lambda>(k, d). fmupd k d) kds m) = fmdom m |\<union>| fset_of_list (map fst kds)"
  by (induction kds arbitrary: m) auto

lemma desiredLoop_same_view:
  assumes "answers c v w" and "answers c' v' w'" and "same_view_for_key v v'"
    and "desiredLoop c order i artifacts fmempty w = (Inr desired, w1)"
  shows "\<exists>desired'. desiredLoop c' order i artifacts fmempty w' = (Inr desired', w') \<and> fmdom desired' = fmdom desired"
proof -
  obtain daws where daws: "resolve_all v order i artifacts daws"
      "desired = fold (\<lambda>(k, d). fmupd k d) (keyed order daws) fmempty"
    using assms(4) desiredLoop_answers [OF assms(1)] by blast
  obtain daws' where daws': "resolve_all v' order i artifacts daws'" "map (daw_sha order) daws' = map (daw_sha order) daws"
    using resolve_all_same_view [OF assms(3) daws(1)] by blast
  have "map fst (keyed order daws') = map fst (keyed order daws)"
    using daws'(2) by (simp add: keyed_def comp_def)
  then have "fmdom (fold (\<lambda>(k, d). fmupd k d) (keyed order daws') fmempty) = fmdom desired"
    by (simp only: daws(2) fmdom_fold_upd)
  then show ?thesis using daws'(1) desiredLoop_answers [OF assms(2)] by blast
qed

lemma stored_same_for_key:
  assumes "PrepareForUpdate endpointStrategy (ObjEndpoint new) (ObjEndpoint old) = Inr (ObjEndpoint stored)"
    and "Meta_Name (arc_Endpoint_ObjectMeta new) = Meta_Name (arc_Endpoint_ObjectMeta old)"
    and "Meta_Generation (arc_Endpoint_ObjectMeta new) = Meta_Generation (arc_Endpoint_ObjectMeta old)"
    and "arc_EndpointSpec_SecretRef (arc_Endpoint_Spec new) = arc_EndpointSpec_SecretRef (arc_Endpoint_Spec old)"
    and "Convert_arc_Endpoint_To_v1alpha1_Endpoint old out = Inr ep"
    and "Convert_arc_Endpoint_To_v1alpha1_Endpoint stored out' = Inr ep'"
  shows "same_for_key ep ep'"
  using assms
  by (auto simp: same_for_key_def secretRefName_def endpointStrategy_def convert_Endpoint_defs split: sum.splits)

text \<open>
  C35: An update of an endpoint that leaves the reference to its secret alone is not seen by the artifact workflows of any
  order. The update goes through the strategy of endpoints after the generic store has put back name and
  generation; whatever becomes of the URL, the type or the usage, each order that had a desired state has one with the
  same keys afterwards, and the same artifact workflows are to be created and to be deleted as without the update.
\<close>

theorem endpoint_update_keeps_workflows:
  assumes "PrepareForUpdate endpointStrategy (ObjEndpoint new) (ObjEndpoint old) = Inr (ObjEndpoint stored)"
    and "Meta_Name (arc_Endpoint_ObjectMeta new) = Meta_Name (arc_Endpoint_ObjectMeta old)"
    and "Meta_Generation (arc_Endpoint_ObjectMeta new) = Meta_Generation (arc_Endpoint_ObjectMeta old)"
    and "arc_EndpointSpec_SecretRef (arc_Endpoint_Spec new) = arc_EndpointSpec_SecretRef (arc_Endpoint_Spec old)"
    and "Convert_arc_Endpoint_To_v1alpha1_Endpoint old out = Inr ep"
    and "Convert_arc_Endpoint_To_v1alpha1_Endpoint stored out' = Inr ep'"
    and "answers c v w" and "view_Endpoint v name = Inr ep"
    and "answers c' (v\<lparr>view_Endpoint := (view_Endpoint v)(name := Inr ep')\<rparr>) w'"
    and "desiredLoop c order 0 (OrderSpec_Artifacts (Order_Spec order)) fmempty w = (Inr desired, w1)"
  shows "\<exists>desired'. desiredLoop c' order 0 (OrderSpec_Artifacts (Order_Spec order)) fmempty w' = (Inr desired', w') \<and>
    createAWs \<rho> desired' order = createAWs \<rho> desired order \<and> deleteAWs \<rho> desired' order = deleteAWs \<rho> desired order"
proof -
  have "same_view_for_key v (v\<lparr>view_Endpoint := (view_Endpoint v)(name := Inr ep')\<rparr>)"
    using stored_same_for_key [OF assms(1-6)] assms(8) by (simp add: same_view_for_key_def)
  from desiredLoop_same_view [OF assms(7,9) this assms(10)] show ?thesis
    by (auto simp: createAWs_def deleteAWs_def)
qed


definition demo_arc_endpoint :: "string \<Rightarrow> string \<Rightarrow> arc_Endpoint" where
  "demo_arc_endpoint name url =
     \<lparr>arc_Endpoint_TypeMeta = zero_TypeMeta,
      arc_Endpoint_ObjectMeta = zero_ObjectMeta\<lparr>Meta_Name := name, Meta_Namespace := ''default''\<rparr>,
      arc_Endpoint_Spec = \<lparr>arc_EndpointSpec_Type = ''oci'', arc_EndpointSpec_RemoteURL = url,
        arc_EndpointSpec_SecretRef = \<lparr>Ref_Name = []\<rparr>, arc_EndpointSpec_Usage = EndpointUsageAll\<rparr>,
      arc_Endpoint_Status = ()\<rparr>"

definition demo_moved :: Endpoint where
  "demo_moved = (demo_endpoint ''other'')
     \<lparr>Endpoint_Spec := (Endpoint_Spec (demo_endpoint ''other''))\<lparr>EndpointSpec_RemoteURL := ''https://moved.example.org''\<rparr>\<rparr>"

definition demo_client :: "bool \<Rightarrow> unit Client" where
  "demo_client moved = (static_client (Inr (demo_order [] None [demo_artifact] None)) demo_view [] None)
     \<lparr>GetEndpoint := \<lambda>n w.
        (if moved \<and> n = (''default'', ''other'') then Inr demo_moved else demo_view (snd n), w)\<rparr>"

theorem endpoint_update_keeps_workflows_witness:
  "let order = demo_order [] None [demo_artifact] None in
   \<exists>desired desired'. desiredLoop (demo_client False) order 0 [demo_artifact] fmempty () = (Inr desired, ()) \<and>
     desiredLoop (demo_client True) order 0 [demo_artifact] fmempty () = (Inr desired', ()) \<and>
     createAWs sorted_range desired' order = createAWs sorted_range desired order"
proof -
  let ?order = "demo_order [] None [demo_artifact] None"
  let ?old = "demo_arc_endpoint ''other'' ''https://example.org''" and ?new = "demo_arc_endpoint ''other'' ''https://moved.example.org''"
  let ?v = "\<lparr>view_Endpoint = \<lambda>n. demo_view (snd n), view_Secret = \<lambda>n. Inr zero_Secret\<rparr>"
  let ?name = "(''default'', ''other'')"
  have "demo_client False = OR_Client (static_OR (static_client (Inr ?order) demo_view [] None))"
    by (simp add: demo_client_def static_client_def)
  with demo_desired obtain desired where
    d: "desiredLoop (demo_client False) ?order 0 (OrderSpec_Artifacts (Order_Spec ?order)) fmempty () = (Inr desired, ())"
    by metis
  have p: "PrepareForUpdate endpointStrategy (ObjEndpoint ?new) (ObjEndpoint ?old) = Inr (ObjEndpoint ?new)"
    by (simp add: endpointStrategy_def)
  have e: "Convert_arc_Endpoint_To_v1alpha1_Endpoint ?old (demo_endpoint ''other'') = Inr (demo_endpoint ''other'')"
    by (simp add: convert_Endpoint_defs demo_arc_endpoint_def demo_endpoint_def)
  have e': "Convert_arc_Endpoint_To_v1alpha1_Endpoint ?new (demo_endpoint ''other'') = Inr demo_moved"
    by (simp add: convert_Endpoint_defs demo_arc_endpoint_def demo_endpoint_def demo_moved_def)
  have a: "answers (demo_client False) ?v ()"
    by (simp add: answers_def demo_client_def)
  have a': "answers (demo_client True) (?v\<lparr>view_Endpoint := (view_Endpoint ?v)(?name := Inr demo_moved)\<rparr>) ()"
    by (simp add: answers_def demo_client_def)
  have v: "view_Endpoint ?v ?name = Inr (demo_endpoint ''other'')" by (simp add: demo_view_def)
  have same: "Meta_Name (arc_Endpoint_ObjectMeta ?new) = Meta_Name (arc_Endpoint_ObjectMeta ?old)"
    "Meta_Generation (arc_Endpoint_ObjectMeta ?new) = Meta_Generation (arc_Endpoint_ObjectMeta ?old)"
    "arc_EndpointSpec_SecretRef (arc_Endpoint_Spec ?new) = arc_EndpointSpec_SecretRef (arc_Endpoint_Spec ?old)"
    by (simp_all add: demo_arc_endpoint_def)
  from endpoint_update_keeps_workflows [OF p same e e' a v a' d, of sorted_range] d show ?thesis
    by (auto simp: Let_def)
qed

end
