(* ===== verification/Order_Cluster.thy ===== *)
theory Order_Cluster
  imports Order_Theorems
begin

section \<open>The order controller in a cluster that keeps its promises\<close>

text \<open>
  The cluster is still a client over an unknown type of worlds. The controller is given the manager's
  client (\<^verbatim>\<open>mgr.GetClient()\<close> in \<^verbatim>\<open>cmd/arc-controller-manager/main.go\<close>), which writes to the API server
  but reads from the informers' caches, so two things are read off a world: \<open>view\<close> is what the API
  server stores and \<open>cache\<close> what the client has heard of it. \<open>api_laws\<close> says how requests act on them:
  reads answer from the cache, which may lag behind; writes act on the store, and afterwards the
  cache has each artifact workflow as before the write or as the store has it now. A
  creation fails with \<open>AlreadyExists\<close> exactly if the name is taken, an update of the version that is
  stored succeeds, and an order that is being deleted vanishes with its last finalizer. What an
  update stores agrees with what was sent in all the controller reads, the spec excepted in a status
  update, where the strategy in \<^verbatim>\<open>pkg/registry/order\<close> keeps the old one. A deletion may leave the
  object behind, as the API server does while it has finalizers.

  The lemmas follow the loops of one run in such a cluster that starts with a cache that has caught
  up with the store: the loops succeed although the cache need not learn of what they write, and what
  the store holds afterwards is known as far as later runs depend on it. A run on a stale cache may do
  otherwise: it may find no order, or write an old version and be refused.
\<close>

subsection \<open>What the API server stores and promises\<close>

record cluster =
  cl_Reads :: cluster_view
  cl_Orders :: "NamespacedName \<rightharpoonup> Order"
  cl_AWs :: "NamespacedName \<rightharpoonup> ArtifactWorkflow"

definition order_key :: "Order \<Rightarrow> NamespacedName" where
  "order_key order = (Order_Namespace order, Order_Name order)"

definition meta_key :: "ObjectMeta \<Rightarrow> NamespacedName" where
  "meta_key m = (Meta_Namespace m, Meta_Name m)"

definition order_agrees :: "Order \<Rightarrow> Order \<Rightarrow> bool" where
  "order_agrees a b \<longleftrightarrow>
     order_key a = order_key b \<and> Order_Spec a = Order_Spec b \<and> Order_Finalizers a = Order_Finalizers b \<and>
     Meta_DeletionTimestamp (Order_ObjectMeta a) = Meta_DeletionTimestamp (Order_ObjectMeta b) \<and>
     statuses a = statuses b"

definition reads :: "(NamespacedName \<Rightarrow> 'w \<Rightarrow> (api_error + 'a) \<times> 'w) \<Rightarrow> ('w \<Rightarrow> NamespacedName \<rightharpoonup> 'a) \<Rightarrow> bool" where
  "reads get m \<longleftrightarrow> (\<forall>n w. case m w n of
     None \<Rightarrow> \<exists>e. IsNotFound e \<and> get n w = (Inl e, w) | Some x \<Rightarrow> get n w = (Inr x, w))"

definition create_law :: "'w Client \<Rightarrow> ('w \<Rightarrow> cluster) \<Rightarrow> bool" where
  "create_law c view \<longleftrightarrow> (\<forall>aw w. case cl_AWs (view w) (meta_key (AW_ObjectMeta aw)) of
     None \<Rightarrow> \<exists>aw1 w1. CreateArtifactWorkflow c aw w = (None, w1) \<and>
       view w1 = (view w)\<lparr>cl_AWs := (cl_AWs (view w))(meta_key (AW_ObjectMeta aw) \<mapsto> aw1)\<rparr>
   | Some _ \<Rightarrow> \<exists>e w1. CreateArtifactWorkflow c aw w = (Some e, w1) \<and> IsAlreadyExists e \<and> view w1 = view w)"

definition delete_law :: "'w Client \<Rightarrow> ('w \<Rightarrow> cluster) \<Rightarrow> bool" where
  "delete_law c view \<longleftrightarrow> (\<forall>m w. \<exists>e w1 left. DeleteArtifactWorkflow c m w = (e, w1) \<and> IgnoreNotFound e = None \<and>
     view w1 = (view w)\<lparr>cl_AWs := (cl_AWs (view w))(meta_key m := left)\<rparr>)"

definition current :: "('w \<Rightarrow> cluster) \<Rightarrow> 'w \<Rightarrow> Order \<Rightarrow> Order \<Rightarrow> bool" where
  "current view w old order \<longleftrightarrow> cl_Orders (view w) (order_key order) = Some old \<and>
     Meta_ResourceVersion (Order_ObjectMeta old) = Meta_ResourceVersion (Order_ObjectMeta order)"

definition stored :: "('w \<Rightarrow> cluster) \<Rightarrow> 'w \<Rightarrow> Order \<Rightarrow> 'w \<Rightarrow> bool" where
  "stored view w order w1 \<longleftrightarrow>
     (if Order_deleting order \<and> Order_Finalizers order = []
      then view w1 = (view w)\<lparr>cl_Orders := (cl_Orders (view w))(order_key order := None)\<rparr>
      else \<exists>new. order_agrees new order \<and>
        view w1 = (view w)\<lparr>cl_Orders := (cl_Orders (view w))(order_key order \<mapsto> new)\<rparr>)"

definition update_law :: "'w Client \<Rightarrow> ('w \<Rightarrow> cluster) \<Rightarrow> bool" where
  "update_law c view \<longleftrightarrow> (\<forall>old order w. current view w old order \<longrightarrow>
     (\<exists>w1. UpdateOrder c order w = (None, w1) \<and> stored view w order w1))"

definition status_law :: "'w Client \<Rightarrow> ('w \<Rightarrow> cluster) \<Rightarrow> bool" where
  "status_law c view \<longleftrightarrow> (\<forall>old order w. current view w old order \<longrightarrow>
     (\<exists>w1. UpdateOrderStatus c order w = (None, w1) \<and>
        stored view w (order\<lparr>Order_Spec := Order_Spec old\<rparr>) w1))"

definition catches_up :: "('w \<Rightarrow> cluster) \<Rightarrow> ('w \<Rightarrow> cluster) \<Rightarrow> 'w \<Rightarrow> 'w \<Rightarrow> bool" where
  "catches_up view cache w w1 \<longleftrightarrow>
     (\<forall>n. cl_AWs (cache w1) n = cl_AWs (cache w) n \<or> cl_AWs (cache w1) n = cl_AWs (view w1) n)"

definition cache_law :: "'w Client \<Rightarrow> ('w \<Rightarrow> cluster) \<Rightarrow> ('w \<Rightarrow> cluster) \<Rightarrow> bool" where
  "cache_law c view cache \<longleftrightarrow>
     (\<forall>aw w. catches_up view cache w (snd (CreateArtifactWorkflow c aw w))) \<and>
     (\<forall>m w. catches_up view cache w (snd (DeleteArtifactWorkflow c m w)))"

definition api_laws :: "'w Client \<Rightarrow> ('w \<Rightarrow> cluster) \<Rightarrow> ('w \<Rightarrow> cluster) \<Rightarrow> bool" where
  "api_laws c view cache \<longleftrightarrow>
     reads (GetOrder c) (\<lambda>w. cl_Orders (cache w)) \<and> reads (GetArtifactWorkflow c) (\<lambda>w. cl_AWs (cache w)) \<and>
     (\<forall>w. answers c (cl_Reads (cache w)) w) \<and> cache_law c view cache \<and>
     create_law c view \<and> delete_law c view \<and> update_law c view \<and> status_law c view"

text \<open>
  \<open>controllerutil.SetControllerReference\<close> succeeds on an object in the owner's namespace that has no
  owner yet, and only changes its owner references.
\<close>

definition owner_law :: "'w OrderReconciler \<Rightarrow> bool" where
  "owner_law r \<longleftrightarrow> (\<forall>order aw.
     Meta_Namespace (AW_ObjectMeta aw) = Order_Namespace order \<and> Meta_OwnerReferences (AW_ObjectMeta aw) = [] \<longrightarrow>
     (\<exists>refs. OR_SetControllerReference r order aw =
        Inr (aw\<lparr>AW_ObjectMeta := (AW_ObjectMeta aw)\<lparr>Meta_OwnerReferences := refs\<rparr>\<rparr>)))"

subsection \<open>Orders the controller can serve\<close>

definition wants :: "cluster \<Rightarrow> Order \<Rightarrow> (string, desiredAW) fmap \<Rightarrow> bool" where
  "wants cl order desired \<longleftrightarrow>
     (\<exists>daws. resolve_all (cl_Reads cl) order 0 (OrderSpec_Artifacts (Order_Spec order)) daws \<and>
        desired = fold (\<lambda>(k, d). fmupd k d) (keyed order daws) fmempty)"

definition hydratable :: "desiredAW \<Rightarrow> bool" where
  "hydratable daw \<longleftrightarrow> (\<forall>\<rho> \<pi>. range_ok \<rho> \<and> order_ok \<pi> \<longrightarrow> (\<exists>aw. hydrateArtifactWorkflow \<rho> \<pi> daw = Inr aw))"

text \<open>
  An order can be served if it is being deleted, or its artifacts resolve and have parameters, and
  the artifact workflows its status lists and that are still wanted exist.
\<close>

definition servable :: "cluster \<Rightarrow> Order \<Rightarrow> bool" where
  "servable cl order \<longleftrightarrow> Order_deleting order \<or>
     (\<exists>desired. wants cl order desired \<and>
        (\<forall>sha daw. fmlookup desired sha = Some daw \<longrightarrow> hydratable daw) \<and>
        (\<forall>sha. sha |\<in>| fmdom desired \<and> sha |\<in>| fmdom (statuses order) \<longrightarrow>
           cl_AWs cl (Order_Namespace order, awName order sha) \<noteq> None))"

definition serves :: "cluster \<Rightarrow> NamespacedName \<Rightarrow> bool" where
  "serves cl req \<longleftrightarrow>
     (case cl_Orders cl req of None \<Rightarrow> True | Some order \<Rightarrow> order_key order = req \<and> servable cl order)"

definition keys_right :: "cluster \<Rightarrow> Order \<Rightarrow> bool" where
  "keys_right cl order \<longleftrightarrow> (\<exists>desired. wants cl order desired \<and> fmdom (statuses order) = fmdom desired)"

definition phases_right :: "cluster \<Rightarrow> Order \<Rightarrow> bool" where
  "phases_right cl order \<longleftrightarrow> (\<forall>sha. sha |\<in>| fmdom (statuses order) \<longrightarrow>
     (\<exists>aw. cl_AWs cl (Order_Namespace order, awName order sha) = Some aw \<and>
        AWStatus_Phase (AW_Status aw) = OAWStatus_Phase (status_of order sha)))"

subsection \<open>Consequences of the laws\<close>

lemma reads_Some: "reads get m \<Longrightarrow> m w n = Some x \<Longrightarrow> get n w = (Inr x, w)"
  unfolding reads_def by (drule spec [of _ n], drule spec [of _ w]) simp

lemma reads_None: "reads get m \<Longrightarrow> m w n = None \<Longrightarrow> \<exists>e. IsNotFound e \<and> get n w = (Inl e, w)"
  unfolding reads_def by (drule spec [of _ n], drule spec [of _ w]) simp

lemma api_laws_reads:
  assumes "api_laws c view cache"
  shows "cl_Orders (cache w) n = Some order \<Longrightarrow> GetOrder c n w = (Inr order, w)"
    and "cl_Orders (cache w) n = None \<Longrightarrow> \<exists>e. IsNotFound e \<and> GetOrder c n w = (Inl e, w)"
    and "cl_AWs (cache w) n = Some aw \<Longrightarrow> GetArtifactWorkflow c n w = (Inr aw, w)"
    and "answers c (cl_Reads (cache w)) w"
  using assms reads_Some [of "GetOrder c" "\<lambda>w. cl_Orders (cache w)"]
    reads_None [of "GetOrder c" "\<lambda>w. cl_Orders (cache w)"]
    reads_Some [of "GetArtifactWorkflow c" "\<lambda>w. cl_AWs (cache w)"]
  by (auto simp: api_laws_def)

lemma create_lawD:
  "create_law c view \<Longrightarrow> case cl_AWs (view w) (meta_key (AW_ObjectMeta aw)) of
     None \<Rightarrow> \<exists>aw1 w1. CreateArtifactWorkflow c aw w = (None, w1) \<and>
       view w1 = (view w)\<lparr>cl_AWs := (cl_AWs (view w))(meta_key (AW_ObjectMeta aw) \<mapsto> aw1)\<rparr>
   | Some _ \<Rightarrow> \<exists>e w1. CreateArtifactWorkflow c aw w = (Some e, w1) \<and> IsAlreadyExists e \<and> view w1 = view w"
  unfolding create_law_def by (drule spec [of _ aw], drule spec [of _ w])

lemma api_laws_create:
  assumes "api_laws c view cache"
  obtains b w1 aws where "createWorkflow c aw w = (Inr b, w1)" and "view w1 = (view w)\<lparr>cl_AWs := aws\<rparr>"
    and "\<And>n. cl_AWs (view w) n \<noteq> None \<or> n \<noteq> meta_key (AW_ObjectMeta aw) \<Longrightarrow> aws n = cl_AWs (view w) n"
    and "aws (meta_key (AW_ObjectMeta aw)) \<noteq> None" and "catches_up view cache w w1"
proof -
  have law: "create_law c view" and lag: "catches_up view cache w (snd (CreateArtifactWorkflow c aw w))"
    using assms by (simp_all add: api_laws_def cache_law_def)
  show ?thesis
  proof (cases "cl_AWs (view w) (meta_key (AW_ObjectMeta aw))")
    case None
    with create_lawD [OF law, where w = w and aw = aw] obtain aw1 w1 where "CreateArtifactWorkflow c aw w = (None, w1)"
      "view w1 = (view w)\<lparr>cl_AWs := (cl_AWs (view w))(meta_key (AW_ObjectMeta aw) \<mapsto> aw1)\<rparr>"
      by auto
    then show ?thesis
      by (intro that [of True w1 "(cl_AWs (view w))(meta_key (AW_ObjectMeta aw) \<mapsto> aw1)"])
        (use None lag in \<open>auto simp: createWorkflow_def\<close>)
  next
    case (Some x)
    with create_lawD [OF law, where w = w and aw = aw] obtain e w1 where
      "CreateArtifactWorkflow c aw w = (Some e, w1)" "IsAlreadyExists e" "view w1 = view w"
      by auto
    with Some lag that [of False w1 "cl_AWs (view w)"] show ?thesis
      by (auto simp: createWorkflow_def)
  qed
qed

lemma api_laws_delete:
  assumes "api_laws c view cache"
  obtains e w1 aws where "DeleteArtifactWorkflow c m w = (e, w1)" and "IgnoreNotFound e = None"
    and "view w1 = (view w)\<lparr>cl_AWs := aws\<rparr>" and "\<And>n. n \<noteq> meta_key m \<Longrightarrow> aws n = cl_AWs (view w) n"
    and "catches_up view cache w w1"
proof -
  have "catches_up view cache w (snd (DeleteArtifactWorkflow c m w))"
    using assms by (simp add: api_laws_def cache_law_def)
  moreover from assms obtain e w1 left where "DeleteArtifactWorkflow c m w = (e, w1)" "IgnoreNotFound e = None"
    "view w1 = (view w)\<lparr>cl_AWs := (cl_AWs (view w))(meta_key m := left)\<rparr>"
    unfolding api_laws_def delete_law_def by metis
  ultimately show ?thesis using that by auto
qed

lemma api_laws_update:
  assumes "api_laws c view cache" and "current view w old order"
  obtains w1 where "UpdateOrder c order w = (None, w1)" and "stored view w order w1"
  using assms unfolding api_laws_def update_law_def by metis

lemma api_laws_status:
  assumes "api_laws c view cache" and "current view w old order" and "Order_Spec order = Order_Spec old"
  obtains w1 where "UpdateOrderStatus c order w = (None, w1)" and "stored view w order w1"
proof -
  from assms(1,2) obtain w1 where "UpdateOrderStatus c order w = (None, w1)"
    "stored view w (order\<lparr>Order_Spec := Order_Spec old\<rparr>) w1"
    unfolding api_laws_def status_law_def by metis
  moreover have "order\<lparr>Order_Spec := Order_Spec old\<rparr> = order" using assms(3) by simp
  ultimately show ?thesis using that by metis
qed

lemma desiredLoop_wants:
  assumes "api_laws c view cache"
  shows "desiredLoop c order 0 (OrderSpec_Artifacts (Order_Spec order)) fmempty w = (Inr desired, w1) \<longleftrightarrow>
    w1 = w \<and> wants (cache w) order desired"
  using desiredLoop_answers [OF api_laws_reads(4) [OF assms], of order 0] by (simp add: wants_def)

lemma wants_unique:
  assumes "api_laws c view cache" and "wants (cache w) order d1" and "wants (cache w) order d2"
  shows "d1 = d2"
  using desiredLoop_wants [OF assms(1)] assms(2,3) by (metis Inr_inject fst_conv)

subsection \<open>Orders that agree\<close>

lemma resolve_all_cong:
  assumes "order_key a = order_key b" and "Order_Spec a = Order_Spec b"
  shows "resolve_all v a i as daws = resolve_all v b i as daws" and "daw_sha a = daw_sha b"
    and "awObjectMeta a = awObjectMeta b"
proof -
  have meta: "awObjectMeta a = awObjectMeta b" and sha: "daw_sha a = daw_sha b"
    using assms by (auto simp: fun_eq_iff awObjectMeta_def awName_def daw_sha_def hashData_def order_key_def)
  have "resolves v a i x d = resolves v b i x d" for i x d
    using assms meta sha by (simp add: resolves_def srcRefName_def dstRefName_def order_key_def)
  then show "resolve_all v a i as daws = resolve_all v b i as daws"
    by (induction as arbitrary: i daws) (auto split: list.splits)
qed (use assms in \<open>auto simp: fun_eq_iff awObjectMeta_def awName_def daw_sha_def hashData_def order_key_def\<close>)

lemma order_agreesD:
  assumes "order_agrees a b"
  shows "wants cl a d = wants cl b d" and "order_key a = order_key b"
    and "Order_deleting a = Order_deleting b" and "Order_Finalizers a = Order_Finalizers b"
    and "statuses a = statuses b" and "awName a = awName b" and "Order_Namespace a = Order_Namespace b"
    and "status_of a = status_of b"
proof -
  have k: "order_key a = order_key b" "Order_Spec a = Order_Spec b"
    using assms by (auto simp: order_agrees_def)
  show "wants cl a d = wants cl b d"
    unfolding wants_def keyed_def by (simp add: resolve_all_cong [OF k] k(2))
qed (use assms in \<open>auto simp: order_agrees_def order_key_def Order_deleting_def awName_def fun_eq_iff status_of_def\<close>)

lemma wants_reads: "cl_Reads cl1 = cl_Reads cl \<Longrightarrow> wants cl1 order d = wants cl order d"
  by (simp add: wants_def)

lemma wants_same:
  assumes "same_but_status a b"
  shows "wants cl a d = wants cl b d"
proof -
  have k: "order_key a = order_key b" "Order_Spec a = Order_Spec b"
    using same_but_status_meta [OF assms] by (auto simp: order_key_def)
  show ?thesis
    unfolding wants_def keyed_def by (simp add: resolve_all_cong [OF k] k(2))
qed

lemma wants_meta:
  assumes "api_laws c view cache" and "wants (cache w) order desired" and "fmlookup desired sha = Some daw"
  shows "daw_objectMeta daw = awObjectMeta order sha"
  using desiredLoop_wants [OF assms(1), of order w desired w] desiredLoop_meta assms(2,3) by metis

subsection \<open>The loops in such a cluster\<close>

abbreviation awKey :: "Order \<Rightarrow> string \<Rightarrow> NamespacedName" where
  "awKey order sha \<equiv> (Order_Namespace order, awName order sha)"

lemma meta_key_aw [simp]: "meta_key (awObjectMeta order sha) = awKey order sha"
  by (simp add: meta_key_def)

lemma awKey_inj [simp]: "awKey order s = awKey order t \<longleftrightarrow> s = t"
  by (simp add: awName_def)

lemma ownedWorkflow_runs:
  assumes "owner_law r" and "range_ok \<rho>" and "order_ok \<pi>" and "hydratable daw"
    and "daw_objectMeta daw = awObjectMeta order sha"
  obtains aw where "ownedWorkflow \<rho> \<pi> r order daw = Inr aw" and "meta_key (AW_ObjectMeta aw) = awKey order sha"
proof -
  obtain aw where 1: "hydrateArtifactWorkflow \<rho> \<pi> daw = Inr aw"
    using assms(2-4) by (auto simp: hydratable_def)
  then have 2: "AW_ObjectMeta aw = awObjectMeta order sha"
    using assms(5) by (auto simp: hydrateArtifactWorkflow_def bind_res_def split: sum.splits)
  then have "Meta_Namespace (AW_ObjectMeta aw) = Order_Namespace order"
    "Meta_OwnerReferences (AW_ObjectMeta aw) = []"
    by (simp_all add: awObjectMeta_def zero_ObjectMeta_def)
  then obtain refs where "OR_SetControllerReference r order aw =
      Inr (aw\<lparr>AW_ObjectMeta := (AW_ObjectMeta aw)\<lparr>Meta_OwnerReferences := refs\<rparr>\<rparr>)"
    using assms(1) unfolding owner_law_def by blast
  with that 1 2 show ?thesis by (simp add: ownedWorkflow_def meta_key_def)
qed

definition creatable :: "(string, desiredAW) fmap \<Rightarrow> Order \<Rightarrow> string \<Rightarrow> bool" where
  "creatable desired order sha \<longleftrightarrow>
     (\<exists>daw. fmlookup desired sha = Some daw \<and> hydratable daw \<and> daw_objectMeta daw = awObjectMeta order sha)"

text \<open>The artifact workflows the cache may be behind on are among those the run wrote to.\<close>

definition fresh :: "('w \<Rightarrow> cluster) \<Rightarrow> ('w \<Rightarrow> cluster) \<Rightarrow> NamespacedName set \<Rightarrow> 'w \<Rightarrow> bool" where
  "fresh view cache K w \<longleftrightarrow> (\<forall>n. n \<notin> K \<longrightarrow> cl_AWs (cache w) n = cl_AWs (view w) n)"

lemma fresh_step:
  assumes "fresh view cache K w" and "catches_up view cache w w1" and "view w1 = (view w)\<lparr>cl_AWs := aws\<rparr>"
    and "k \<in> K" and "\<And>n. n \<noteq> k \<Longrightarrow> aws n = cl_AWs (view w) n"
  shows "fresh view cache K w1"
  unfolding fresh_def
proof (intro allI impI)
  fix n
  assume "n \<notin> K"
  with assms(4) have "n \<noteq> k" by blast
  then have "aws n = cl_AWs (view w) n" by (rule assms(5))
  moreover have "cl_AWs (cache w) n = cl_AWs (view w) n" using assms(1) \<open>n \<notin> K\<close> unfolding fresh_def by blast
  moreover have "cl_AWs (cache w1) n = cl_AWs (cache w) n \<or> cl_AWs (cache w1) n = cl_AWs (view w1) n"
    using assms(2) unfolding catches_up_def by blast
  ultimately show "cl_AWs (cache w1) n = cl_AWs (view w1) n" using assms(3) by auto
qed

lemma createLoop_runs:
  assumes "api_laws (OR_Client r) view cache" and "owner_law r" and "range_ok \<rho>" and "order_ok \<pi>"
    and "\<forall>sha \<in> set shas. creatable desired order sha" and "same_but_status o1 order"
    and "awKey order ` set shas \<subseteq> K" and "fresh view cache K w"
  shows "\<exists>o2 w1 aws. createLoop \<rho> \<pi> r desired shas o1 w = (Inr o2, w1) \<and> view w1 = (view w)\<lparr>cl_AWs := aws\<rparr> \<and>
    (\<forall>n. cl_AWs (view w) n \<noteq> None \<longrightarrow> aws n = cl_AWs (view w) n) \<and>
    (\<forall>sha \<in> set shas. aws (awKey order sha) \<noteq> None) \<and> fresh view cache K w1"
  using assms(5-8)
proof (induction shas arbitrary: o1 w)
  case Nil
  then show ?case by (auto intro!: exI [of _ "cl_AWs (view w)"])
next
  case (Cons sha shas)
  obtain daw where daw: "fmlookup desired sha = Some daw" "hydratable daw" "daw_objectMeta daw = awObjectMeta o1 sha"
    using Cons.prems(1) same_but_status_meta(1) [OF Cons.prems(2)] by (auto simp: creatable_def)
  obtain aw where aw: "ownedWorkflow \<rho> \<pi> r o1 daw = Inr aw" "meta_key (AW_ObjectMeta aw) = awKey o1 sha"
    using ownedWorkflow_runs [OF assms(2-4) daw(2,3)] by metis
  have key: "meta_key (AW_ObjectMeta aw) = awKey order sha"
    using aw(2) same_but_status_meta [OF Cons.prems(2)] by (simp add: awName_def)
  obtain b w1 aws where w1: "createWorkflow (OR_Client r) aw w = (Inr b, w1)" "view w1 = (view w)\<lparr>cl_AWs := aws\<rparr>"
    "\<And>n. cl_AWs (view w) n \<noteq> None \<or> n \<noteq> awKey order sha \<Longrightarrow> aws n = cl_AWs (view w) n"
    "aws (awKey order sha) \<noteq> None" "catches_up view cache w w1"
    by (rule api_laws_create [OF assms(1), where aw = aw and w = w, unfolded key]) (rule that)
  have fresh1: "fresh view cache K w1"
    by (rule fresh_step [OF Cons.prems(4) w1(5,2), of "awKey order sha"]) (use w1(3) Cons.prems(3) in simp_all)
  define o3 where "o3 = (if b then put_status sha (zero_OAWStatus\<lparr>OAWStatus_ArtifactIndex := daw_index daw,
      OAWStatus_Phase := WorkflowUnknown\<rparr>) o1 else o1)"
  have "same_but_status o3 order" using Cons.prems(2) by (simp add: o3_def)
  from Cons.IH [OF _ this _ fresh1] Cons.prems(1,3) obtain o2 w2 aws2 where
    w2: "createLoop \<rho> \<pi> r desired shas o3 w1 = (Inr o2, w2)" "view w2 = (view w1)\<lparr>cl_AWs := aws2\<rparr>"
    "\<forall>n. aws n \<noteq> None \<longrightarrow> aws2 n = aws n" "\<forall>sha \<in> set shas. aws2 (awKey order sha) \<noteq> None"
    "fresh view cache K w2"
    using w1(2) by auto
  have "createLoop \<rho> \<pi> r desired (sha # shas) o1 w = (Inr o2, w2)"
    using daw(1) aw(1) w1(1) w2(1) by (simp add: bind_io_def o3_def)
  moreover have "\<forall>n. cl_AWs (view w) n \<noteq> None \<longrightarrow> aws2 n = cl_AWs (view w) n"
    using w1(3) w2(3) by metis
  moreover have "\<forall>s \<in> set (sha # shas). aws2 (awKey order s) \<noteq> None"
    using w1(4) w2(3,4) by (metis set_ConsD)
  ultimately show ?case using w1(2) w2(2,5) by (intro exI [of _ o2] exI [of _ w2] exI [of _ aws2]) simp
qed

lemma deleteLoop_runs:
  assumes "api_laws c view cache" and "same_but_status o1 order"
    and "awKey order ` set shas \<subseteq> K" and "fresh view cache K w"
  shows "\<exists>w1 aws. deleteLoop c shas o1 w = (Inr (fold drop_status shas o1), w1) \<and>
    view w1 = (view w)\<lparr>cl_AWs := aws\<rparr> \<and> (\<forall>n. n \<notin> awKey order ` set shas \<longrightarrow> aws n = cl_AWs (view w) n) \<and>
    fresh view cache K w1"
  using assms(2-4)
proof (induction shas arbitrary: o1 w)
  case Nil
  then show ?case by (auto intro!: exI [of _ "cl_AWs (view w)"])
next
  case (Cons sha shas)
  have key: "meta_key (awObjectMeta o1 sha) = awKey order sha"
    using same_but_status_meta(1) [OF Cons.prems(1)] by simp
  obtain e w1 aws where w1: "DeleteArtifactWorkflow c (awObjectMeta o1 sha) w = (e, w1)" "IgnoreNotFound e = None"
    "view w1 = (view w)\<lparr>cl_AWs := aws\<rparr>" "\<And>n. n \<noteq> awKey order sha \<Longrightarrow> aws n = cl_AWs (view w) n"
    "catches_up view cache w w1"
    by (rule api_laws_delete [OF assms(1), where m = "awObjectMeta o1 sha" and w = w, unfolded key]) (rule that)
  have fresh1: "fresh view cache K w1"
    by (rule fresh_step [OF Cons.prems(3) w1(5,3), of "awKey order sha"]) (use w1(4) Cons.prems(2) in simp_all)
  have "same_but_status (drop_status sha o1) order" using Cons.prems(1) by simp
  from Cons.IH [OF this _ fresh1] Cons.prems(2) obtain w2 aws2 where
    w2: "deleteLoop c shas (drop_status sha o1) w1 = (Inr (fold drop_status shas (drop_status sha o1)), w2)"
    "view w2 = (view w1)\<lparr>cl_AWs := aws2\<rparr>" "\<forall>n. n \<notin> awKey order ` set shas \<longrightarrow> aws2 n = aws n"
    "fresh view cache K w2"
    using w1(3) by auto
  have "deleteLoop c (sha # shas) o1 w = (Inr (fold drop_status (sha # shas) o1), w2)"
    using w1(1,2) w2(1) by (simp add: bind_io_def deleteWorkflow_def)
  then show ?case using w1(3,4) w2(2-4) by (intro exI [of _ w2] exI [of _ aws2]) simp
qed

lemma deleteAll_runs:
  assumes "api_laws c view cache"
  shows "\<exists>w1 aws. deleteAll c o1 shas w = (fold drop_status shas o1, w1) \<and> view w1 = (view w)\<lparr>cl_AWs := aws\<rparr>"
proof (induction shas arbitrary: o1 w)
  case Nil
  then show ?case by (auto intro!: exI [of _ "cl_AWs (view w)"])
next
  case (Cons sha shas)
  obtain e w1 aws where w1: "DeleteArtifactWorkflow c (awObjectMeta o1 sha) w = (e, w1)"
    "view w1 = (view w)\<lparr>cl_AWs := aws\<rparr>"
    using api_laws_delete [OF assms, of "awObjectMeta o1 sha" w] by metis
  from Cons.IH [of "drop_status sha o1" w1] w1 show ?case by auto
qed

lemma phaseLoop_runs:
  assumes "api_laws c view cache" and "distinct shas" and "same_but_status o1 order"
    and "\<And>sha. sha \<in> set shas \<Longrightarrow> sha \<notin> set created \<Longrightarrow>
      creatable desired order sha \<and> cl_AWs (cache w) (awKey order sha) \<noteq> None"
  shows "\<exists>o2 b2. phaseLoop c desired created shas o1 b w = (Inr (o2, b2), w) \<and>
    (\<forall>sha \<in> set shas - set created. \<exists>aw. cl_AWs (cache w) (awKey order sha) = Some aw \<and>
       AWStatus_Phase (AW_Status aw) = OAWStatus_Phase (status_of o2 sha))"
  using assms(2-4)
proof (induction shas arbitrary: o1 b)
  case (Cons sha shas)
  show ?case
  proof (cases "sha \<in> set created")
    case True
    with Cons.IH [of o1 b] Cons.prems show ?thesis by auto
  next
    case False
    then obtain daw aw where 1: "fmlookup desired sha = Some daw" "daw_objectMeta daw = awObjectMeta order sha"
      "cl_AWs (cache w) (awKey order sha) = Some aw"
      using Cons.prems(3) [of sha] by (auto simp: creatable_def)
    define o3 where "o3 = (if OAWStatus_Phase (status_of o1 sha) \<noteq> AWStatus_Phase (AW_Status aw)
      then put_status sha ((status_of o1 sha)\<lparr>OAWStatus_Phase := AWStatus_Phase (AW_Status aw)\<rparr>) o1 else o1)"
    define b3 where "b3 = (b \<or> OAWStatus_Phase (status_of o1 sha) \<noteq> AWStatus_Phase (AW_Status aw))"
    have o3: "same_but_status o3 order" "OAWStatus_Phase (status_of o3 sha) = AWStatus_Phase (AW_Status aw)"
      using Cons.prems(2) by (auto simp: o3_def)
    with Cons.IH [of o3 b3] Cons.prems obtain o2 b2 where
      2: "phaseLoop c desired created shas o3 b3 w = (Inr (o2, b2), w)"
      and 3: "\<forall>sha \<in> set shas - set created. \<exists>aw. cl_AWs (cache w) (awKey order sha) = Some aw \<and>
        AWStatus_Phase (AW_Status aw) = OAWStatus_Phase (status_of o2 sha)"
      by auto
    have "phaseLoop c desired created (sha # shas) o1 b w = (Inr (o2, b2), w)"
      using 1 2 False api_laws_reads(3) [OF assms(1) 1(3)]
      by (auto simp: bind_io_def get_io_def namespacedName_def o3_def b3_def split: if_splits)
    moreover have "status_of o2 sha = status_of o3 sha"
      using phaseLoop_status [OF 2, of sha] Cons.prems(1) by (simp add: status_of_def get_or_def)
    ultimately show ?thesis using 1(3) o3(2) 3 by auto
  qed
qed simp

subsection \<open>The main branch in such a cluster\<close>

lemma loops_run:
  assumes laws: "api_laws (OR_Client r) view cache" and "owner_law r" and \<rho>: "range_ok \<rho>" and "order_ok \<pi>"
    and now: "cache w = view w"
    and make: "\<forall>sha. sha |\<in>| fmdom desired \<longrightarrow> creatable desired order sha"
    and exist: "\<forall>sha. sha |\<in>| fmdom desired \<and> sha |\<in>| fmdom (statuses order) \<longrightarrow>
      cl_AWs (view w) (awKey order sha) \<noteq> None"
  shows "\<exists>o1 w1 o2 w2 o3 b aws.
    createLoop \<rho> \<pi> r desired (createAWs \<rho> desired order) (init_status order) w = (Inr o1, w1) \<and>
    deleteLoop (OR_Client r) (deleteAWs \<rho> desired (init_status order)) o1 w1 = (Inr o2, w2) \<and>
    phaseLoop (OR_Client r) desired (createAWs \<rho> desired order) (\<rho> ''phases'' (fmdom desired)) o2 False w2
      = (Inr (o3, b), w2) \<and>
    view w2 = (view w)\<lparr>cl_AWs := aws\<rparr> \<and>
    (\<forall>sha. sha |\<in>| fmdom desired \<longrightarrow> aws (awKey order sha) \<noteq> None) \<and>
    (\<forall>sha. sha |\<in>| fmdom desired \<and> sha |\<in>| fmdom (statuses order) \<longrightarrow>
      (\<exists>aw. aws (awKey order sha) = Some aw \<and> AWStatus_Phase (AW_Status aw) = OAWStatus_Phase (status_of o3 sha)))"
proof -
  note new = set_createAWs [OF \<rho>, of desired order] and old = set_deleteAWs [OF \<rho>, of desired order]
  note dom = fmdom'_alt_def
  have mk: "\<forall>sha \<in> set (createAWs \<rho> desired order). creatable desired order sha"
    using make new by (auto simp: dom)
  let ?K = "awKey order ` (set (createAWs \<rho> desired order) \<union> set (deleteAWs \<rho> desired order))"
  have "same_but_status (init_status order) order" "awKey order ` set (createAWs \<rho> desired order) \<subseteq> ?K"
    "awKey order ` set (deleteAWs \<rho> desired order) \<subseteq> ?K" "fresh view cache ?K w"
    by (auto simp: fresh_def now)
  note K = this
  from createLoop_runs [OF laws assms(2) \<rho> assms(4) mk K(1,2,4)] obtain o1 w1 aws1 where 1:
    "createLoop \<rho> \<pi> r desired (createAWs \<rho> desired order) (init_status order) w = (Inr o1, w1)"
    "view w1 = (view w)\<lparr>cl_AWs := aws1\<rparr>" "\<forall>n. cl_AWs (view w) n \<noteq> None \<longrightarrow> aws1 n = cl_AWs (view w) n"
    "\<forall>sha \<in> set (createAWs \<rho> desired order). aws1 (awKey order sha) \<noteq> None" "fresh view cache ?K w1"
    by blast
  have o1: "same_but_status o1 order" using createLoop_status(1) [OF 1(1)] by simp
  from deleteLoop_runs [OF laws o1 K(3) 1(5)] obtain w2 aws2 where
    2: "deleteLoop (OR_Client r) (deleteAWs \<rho> desired order) o1 w1 =
      (Inr (fold drop_status (deleteAWs \<rho> desired order) o1), w2)"
    "view w2 = (view w1)\<lparr>cl_AWs := aws2\<rparr>"
    "\<forall>n. n \<notin> awKey order ` set (deleteAWs \<rho> desired order) \<longrightarrow> aws2 n = cl_AWs (view w1) n"
    "fresh view cache ?K w2"
    by blast
  have all: "aws2 (awKey order sha) \<noteq> None" if "sha |\<in>| fmdom desired" for sha
  proof -
    have "awKey order sha \<notin> awKey order ` set (deleteAWs \<rho> desired order)"
      using that old by (auto simp: dom awName_def)
    then have "aws2 (awKey order sha) = aws1 (awKey order sha)" using 2(3) 1(2) by simp
    moreover have "aws1 (awKey order sha) \<noteq> None"
      using that exist 1(3,4) new by (cases "sha |\<in>| fmdom (statuses order)") (auto simp: dom)
    ultimately show ?thesis by simp
  qed
  have seen: "cl_AWs (cache w2) (awKey order sha) = aws2 (awKey order sha)"
    if "sha |\<in>| fmdom desired" "sha \<notin> set (createAWs \<rho> desired order)" for sha
  proof -
    have "awKey order sha \<notin> ?K" using that old by (auto simp: dom awName_def)
    then show ?thesis using 2(2,4) by (simp add: fresh_def)
  qed
  obtain o3 b where 3: "phaseLoop (OR_Client r) desired (createAWs \<rho> desired order)
      (\<rho> ''phases'' (fmdom desired)) (fold drop_status (deleteAWs \<rho> desired order) o1) False w2 = (Inr (o3, b), w2)"
    "\<forall>sha \<in> set (\<rho> ''phases'' (fmdom desired)) - set (createAWs \<rho> desired order).
      \<exists>aw. cl_AWs (cache w2) (awKey order sha) = Some aw \<and>
        AWStatus_Phase (AW_Status aw) = OAWStatus_Phase (status_of o3 sha)"
    using phaseLoop_runs [OF laws, of "\<rho> ''phases'' (fmdom desired)"
        "fold drop_status (deleteAWs \<rho> desired order) o1" order "createAWs \<rho> desired order" desired w2 False]
      \<rho> o1 make all seen by auto
  have "view w2 = (view w)\<lparr>cl_AWs := aws2\<rparr>" using 1(2) 2(2) by simp
  moreover have "\<exists>aw. aws2 (awKey order sha) = Some aw \<and>
      AWStatus_Phase (AW_Status aw) = OAWStatus_Phase (status_of o3 sha)"
    if "sha |\<in>| fmdom desired" "sha |\<in>| fmdom (statuses order)" for sha
    using that 3(2) \<rho> new seen by (auto simp: dom)
  ultimately show ?thesis using 1(1) 2(1) 3(1) all by (intro exI conjI) auto
qed

text \<open>What is left of an order when only its status changed.\<close>

definition kept :: "Order \<Rightarrow> Order \<Rightarrow> bool" where
  "kept a b \<longleftrightarrow> order_key a = order_key b \<and> Order_Spec a = Order_Spec b \<and> Order_Finalizers a = Order_Finalizers b \<and>
     Order_deleting a = Order_deleting b"

lemma kept_refl [simp]: "kept a a"
  by (simp add: kept_def)

lemma kept_agrees: "order_agrees a b \<Longrightarrow> same_but_status b order \<Longrightarrow> kept a order"
  using same_but_status_meta [of b order]
  by (auto simp: kept_def order_agrees_def order_key_def Order_deleting_def Order_Finalizers_def)

lemma kept_names:
  assumes "kept a b"
  shows "wants cl a d = wants cl b d" and "awName a = awName b" and "Order_Namespace a = Order_Namespace b"
proof -
  have k: "order_key a = order_key b" "Order_Spec a = Order_Spec b"
    using assms by (auto simp: kept_def)
  show "wants cl a d = wants cl b d"
    unfolding wants_def keyed_def by (simp add: resolve_all_cong [OF k] k(2))
  show "awName a = awName b" "Order_Namespace a = Order_Namespace b"
    using k(1) by (auto simp: order_key_def awName_def fun_eq_iff)
qed

lemma current_same:
  assumes "cl_Orders (view w) (order_key order) = Some order" and "same_but_status o1 order"
    and "view w2 = (view w)\<lparr>cl_AWs := aws\<rparr>"
  shows "current view w2 order o1"
  using assms same_but_status_meta [OF assms(2)] by (simp add: current_def order_key_def)

lemma applyDesired_runs:
  assumes laws: "api_laws (OR_Client r) view cache" and owner: "owner_law r" and \<rho>: "range_ok \<rho>"
    and \<pi>: "order_ok \<pi>" and now: "cache w = view w"
    and own: "cl_Orders (view w) (order_key order) = Some order" and live: "\<not> Order_deleting order"
    and make: "\<forall>sha. sha |\<in>| fmdom desired \<longrightarrow> creatable desired order sha"
    and exist: "\<forall>sha. sha |\<in>| fmdom desired \<and> sha |\<in>| fmdom (statuses order) \<longrightarrow>
      cl_AWs (view w) (awKey order sha) \<noteq> None"
  shows "\<exists>w1 new. applyDesired \<rho> \<pi> r order desired w = (Inr done_result, w1) \<and>
    cl_Reads (view w1) = cl_Reads (view w) \<and> cl_Orders (view w1) (order_key order) = Some new \<and>
    kept new order \<and> fmdom (statuses new) = fmdom desired \<and>
    (\<forall>sha. sha |\<in>| fmdom desired \<longrightarrow> cl_AWs (view w1) (awKey order sha) \<noteq> None) \<and>
    (fmdom (statuses order) = fmdom desired \<longrightarrow> phases_right (view w1) new)"
proof -
  from loops_run [where view = view and cache = cache, OF laws owner \<rho> \<pi> now make exist] obtain o1 w1 o2 w2 o3 b aws where
    1: "createLoop \<rho> \<pi> r desired (createAWs \<rho> desired order) (init_status order) w = (Inr o1, w1)"
    and 2: "deleteLoop (OR_Client r) (deleteAWs \<rho> desired (init_status order)) o1 w1 = (Inr o2, w2)"
    and 3: "phaseLoop (OR_Client r) desired (createAWs \<rho> desired order) (\<rho> ''phases'' (fmdom desired)) o2 False w2
      = (Inr (o3, b), w2)"
    and w2: "view w2 = (view w)\<lparr>cl_AWs := aws\<rparr>"
    and all: "\<forall>sha. sha |\<in>| fmdom desired \<longrightarrow> aws (awKey order sha) \<noteq> None"
    and phases: "\<forall>sha. sha |\<in>| fmdom desired \<and> sha |\<in>| fmdom (statuses order) \<longrightarrow>
      (\<exists>aw. aws (awKey order sha) = Some aw \<and> AWStatus_Phase (AW_Status aw) = OAWStatus_Phase (status_of o3 sha))"
    by blast
  let ?changed = "createAWs \<rho> desired order \<noteq> [] \<or> deleteAWs \<rho> desired order \<noteq> [] \<or> b"
  let ?o4 = "indexLoop desired (\<rho> ''index'' (fmdom desired)) o3"
  have run: "applyDesired \<rho> \<pi> r order desired w = updateStatus \<rho> (OR_Client r) desired ?changed o3 w2"
    using 1 2 3 by (simp add: applyDesired_def Let_def bind_io_def)
  have m: "status_matches desired order ?o4" by (rule final_status [OF \<rho> 1 2 3])
  then have same: "same_but_status ?o4 order" and dom4: "fmdom (statuses ?o4) = fmdom desired"
    by (auto simp: status_matches_def fmdom'_alt_def)
  show ?thesis
  proof (cases ?changed)
    case True
    have cur: "current view w2 order ?o4" by (rule current_same [where view = view and w = w, OF own same w2])
    have spec: "Order_Spec ?o4 = Order_Spec order" "Order_deleting ?o4 = Order_deleting order"
      "order_key ?o4 = order_key order"
      using same_but_status_meta [OF same] by (simp_all add: Order_deleting_def order_key_def)
    obtain w3 where w3: "UpdateOrderStatus (OR_Client r) ?o4 w2 = (None, w3)" "stored view w2 ?o4 w3"
      using api_laws_status [OF laws cur spec(1)] by metis
    then obtain new where new: "order_agrees new ?o4"
      "view w3 = (view w2)\<lparr>cl_Orders := (cl_Orders (view w2))(order_key order \<mapsto> new)\<rparr>"
      using live spec by (auto simp: stored_def)
    have k: "kept new order" by (rule kept_agrees [OF new(1) same])
    have "phases_right (view w3) new" if "fmdom (statuses order) = fmdom desired"
      using phases that dom4 order_agreesD [OF new(1)] kept_names [OF k] new(2) w2
      by (simp add: phases_right_def indexLoop_phase)
    moreover have "applyDesired \<rho> \<pi> r order desired w = (Inr done_result, w3)"
      using run True w3(1) by (simp add: updateStatus_def bind_io_def put_io_def)
    ultimately show ?thesis
      using new(2) w2 k dom4 order_agreesD(5) [OF new(1)] all by (intro exI [of _ w3] exI [of _ new]) simp
  next
    case False
    have "o1 = init_status order" "o2 = init_status order" using 1 2 False by auto
    moreover have "o3 = o2" using phaseLoop_status [OF 3, of "[]"] False by simp
    ultimately have "status_of o3 = status_of order" by (simp add: fun_eq_iff)
    moreover have "fmdom (statuses order) = fmdom desired"
      using False set_createAWs [OF \<rho>, of desired order] set_deleteAWs [OF \<rho>, of desired order]
      by (auto simp: fmdom'_alt_def)
    moreover have "applyDesired \<rho> \<pi> r order desired w = (Inr done_result, w2)"
      using run False by (simp add: updateStatus_def)
    ultimately show ?thesis
      using own w2 all phases by (intro exI [of _ w2] exI [of _ order]) (simp add: phases_right_def)
  qed
qed

end
