(* ===== verification/Order_Convergence.thy ===== *)
theory Order_Convergence
  imports Order_Cluster
begin

section \<open>Reconciling an order comes to rest\<close>

text \<open>
  The order controller is called again whenever the order or one of its artifact workflows changes,
  so it must not keep changing them itself. This theory follows it over many runs, with other actors
  acting between them, in a cluster that keeps the laws of \<open>Order_Cluster\<close>. The client's cache lags
  behind the store: \<open>Sync\<close> is the arrival of watch events, and \<open>timely\<close> says of a schedule that every
  run of it finds the cache caught up, as the runs after the last watch event do.

  \<open>potential\<close> counts the writing runs an order is away from rest. A run of the controller that
  writes lowers it, an artifact workflow that changes its phase raises it by at most one, and it is
  never above three.
\<close>

subsection \<open>The distance from rest\<close>

definition order_potential :: "cluster \<Rightarrow> Order \<Rightarrow> nat" where
  "order_potential cl order =
     (if Order_deleting order then
        if statuses order \<noteq> fmempty then 2
        else if orderFinalizer \<in> set (Order_Finalizers order) then 1 else 0
      else if orderFinalizer \<notin> set (Order_Finalizers order) then 3
      else if \<not> keys_right cl order then 2 else if \<not> phases_right cl order then 1 else 0)"

definition potential :: "cluster \<Rightarrow> NamespacedName \<Rightarrow> nat" where
  "potential cl req = (case cl_Orders cl req of None \<Rightarrow> 0 | Some order \<Rightarrow> order_potential cl order)"

subsection \<open>Runs and other actors\<close>

text \<open>
  \<open>Progress\<close> is what other actors do to artifact workflows (the artifact workflow controller
  reporting a phase, say), \<open>Edit\<close> is anything else, such as a user who changes the order or an
  endpoint, and leaves the order one that can be served. \<open>Sync\<close> changes nothing in the store. A run is
  one step: the others act between runs and not during one.
\<close>

datatype 'w event = Run range_order entry_order | Progress "'w \<Rightarrow> 'w" | Edit "'w \<Rightarrow> 'w" | Sync "'w \<Rightarrow> 'w"

fun event_step :: "'w OrderReconciler \<Rightarrow> NamespacedName \<Rightarrow> 'w event \<Rightarrow> 'w \<Rightarrow> 'w" where
  "event_step r req (Run \<rho> \<pi>) w = snd (OrderReconciler_Reconcile \<rho> \<pi> r req w)"
| "event_step r req (Progress f) w = f w"
| "event_step r req (Edit f) w = f w"
| "event_step r req (Sync f) w = f w"

definition after :: "'w OrderReconciler \<Rightarrow> NamespacedName \<Rightarrow> 'w event list \<Rightarrow> 'w \<Rightarrow> 'w" where
  "after r req es w = fold (event_step r req) es w"

fun writes_in :: "'w OrderReconciler \<Rightarrow> NamespacedName \<Rightarrow> 'w event \<Rightarrow> 'w \<Rightarrow> bool" where
  "writes_in r req (Run \<rho> \<pi>) w \<longleftrightarrow> (\<exists>x \<in> set (order_requests \<rho> \<pi> r req w). is_write x)"
| "writes_in r req e w \<longleftrightarrow> False"

fun writing_runs :: "'w OrderReconciler \<Rightarrow> NamespacedName \<Rightarrow> 'w event list \<Rightarrow> 'w \<Rightarrow> nat" where
  "writing_runs r req [] w = 0"
| "writing_runs r req (e # es) w =
     (if writes_in r req e w then 1 else 0) + writing_runs r req es (event_step r req e w)"

fun failed_in :: "'w OrderReconciler \<Rightarrow> NamespacedName \<Rightarrow> 'w event \<Rightarrow> 'w \<Rightarrow> bool" where
  "failed_in r req (Run \<rho> \<pi>) w \<longleftrightarrow> (\<exists>e. fst (OrderReconciler_Reconcile \<rho> \<pi> r req w) = Inl e)"
| "failed_in r req e w \<longleftrightarrow> False"

fun failed_runs :: "'w OrderReconciler \<Rightarrow> NamespacedName \<Rightarrow> 'w event list \<Rightarrow> 'w \<Rightarrow> nat" where
  "failed_runs r req [] w = 0"
| "failed_runs r req (e # es) w =
     (if failed_in r req e w then 1 else 0) + failed_runs r req es (event_step r req e w)"

fun event_ok :: "('w \<Rightarrow> cluster) \<Rightarrow> NamespacedName \<Rightarrow> 'w event \<Rightarrow> bool" where
  "event_ok view req (Run \<rho> \<pi>) \<longleftrightarrow> range_ok \<rho> \<and> order_ok \<pi>"
| "event_ok view req (Progress f) \<longleftrightarrow>
     (\<forall>w. \<exists>aws. view (f w) = (view w)\<lparr>cl_AWs := aws\<rparr> \<and> dom (cl_AWs (view w)) \<subseteq> dom aws)"
| "event_ok view req (Edit f) \<longleftrightarrow> (\<forall>w. serves (view w) req \<longrightarrow> serves (view (f w)) req)"
| "event_ok view req (Sync f) \<longleftrightarrow> (\<forall>w. view (f w) = view w)"

fun is_Run :: "'w event \<Rightarrow> bool" where
  "is_Run (Run \<rho> \<pi>) \<longleftrightarrow> True"
| "is_Run e \<longleftrightarrow> False"

fun is_Sync :: "'w event \<Rightarrow> bool" where
  "is_Sync (Sync f) \<longleftrightarrow> True"
| "is_Sync e \<longleftrightarrow> False"

fun is_Progress :: "'w event \<Rightarrow> bool" where
  "is_Progress (Progress f) \<longleftrightarrow> True"
| "is_Progress e \<longleftrightarrow> False"

fun is_Edit :: "'w event \<Rightarrow> bool" where
  "is_Edit (Edit f) \<longleftrightarrow> True"
| "is_Edit e \<longleftrightarrow> False"

fun timely :: "('w \<Rightarrow> cluster) \<Rightarrow> ('w \<Rightarrow> cluster) \<Rightarrow> 'w OrderReconciler \<Rightarrow> NamespacedName \<Rightarrow> 'w event list \<Rightarrow> 'w \<Rightarrow> bool" where
  "timely view cache r req [] w \<longleftrightarrow> True"
| "timely view cache r req (e # es) w \<longleftrightarrow>
     (is_Run e \<longrightarrow> cache w = view w) \<and> timely view cache r req es (event_step r req e w)"

subsection \<open>A run lowers the potential\<close>

definition lowers :: "('w \<Rightarrow> cluster) \<Rightarrow> 'w OrderReconciler \<Rightarrow> NamespacedName \<Rightarrow> 'w event \<Rightarrow> 'w \<Rightarrow> bool" where
  "lowers view r req e w \<longleftrightarrow>
     \<not> failed_in r req e w \<and> serves (view (event_step r req e w)) req \<and>
     potential (view (event_step r req e w)) req \<le> potential (view w) req - 1 \<and>
     (potential (view w) req = 0 \<longrightarrow> \<not> writes_in r req e w)"

lemma lowersI:
  assumes "OrderReconciler_Reconcile \<rho> \<pi> r req w = (Inr res, w1)" and "serves (view w1) req"
    and "potential (view w1) req \<le> potential (view w) req - 1"
    and "potential (view w) req = 0 \<Longrightarrow> \<forall>x \<in> set (order_requests \<rho> \<pi> r req w). \<not> is_write x"
  shows "lowers view r req (Run \<rho> \<pi>) w"
  using assms by (auto simp: lowers_def)

lemma lowers_absent:
  assumes "api_laws (OR_Client r) view cache" and "cache w = view w" and "cl_Orders (view w) req = None"
  shows "lowers view r req (Run \<rho> \<pi>) w"
proof -
  obtain e where e: "IsNotFound e" "GetOrder (OR_Client r) req w = (Inl e, w)"
    using api_laws_reads(2) [where w = w and n = req, OF assms(1)] assms(2,3) by auto
  then have "OrderReconciler_Reconcile \<rho> \<pi> r req w = (Inr done_result, w)"
    and "order_requests \<rho> \<pi> r req w = [ReqGetOrder req]"
    by (simp_all add: OrderReconciler_Reconcile_def order_requests_def client_simps)
  moreover have "serves (view w) req" and "potential (view w) req = 0"
    by (simp_all add: serves_def potential_def assms(3))
  ultimately show ?thesis by (intro lowersI) auto
qed

lemma cached_order:
  assumes "api_laws c view cache" and "cache w = view w" and "cl_Orders (view w) req = Some order"
  shows "GetOrder c req w = (Inr order, w)"
  by (rule api_laws_reads(1) [where cache = cache, OF assms(1)]) (simp add: assms(2,3))

lemma set_status_simps [simp]:
  "order_key (set_ArtifactWorkflows m order) = order_key order"
  "Order_deleting (set_ArtifactWorkflows m order) = Order_deleting order"
  "Order_Finalizers (set_ArtifactWorkflows m order) = Order_Finalizers order"
  "Order_Spec (set_ArtifactWorkflows m order) = Order_Spec order"
  "Order_ObjectMeta (set_ArtifactWorkflows m order) = Order_ObjectMeta order"
  "order_key (set_Order_Finalizers fs order) = order_key order"
  "Order_deleting (set_Order_Finalizers fs order) = Order_deleting order"
  "Order_Finalizers (set_Order_Finalizers fs order) = fs"
  "Order_Spec (set_Order_Finalizers fs order) = Order_Spec order"
  "Meta_ResourceVersion (Order_ObjectMeta (set_Order_Finalizers fs order)) =
     Meta_ResourceVersion (Order_ObjectMeta order)"
  by (simp_all add: set_ArtifactWorkflows_def set_Order_Finalizers_def order_key_def api_defs)

lemma stored_deleting:
  assumes "stored view w o1 w1" and "Order_deleting o1" and "order_key o1 = req"
    and "statuses o1 = fmempty" and "orderFinalizer \<in> set (Order_Finalizers o1) \<Longrightarrow> 0 < k"
  shows "serves (view w1) req" and "potential (view w1) req \<le> k"
proof -
  have "cl_Orders (view w1) req = None \<or> (\<exists>new. cl_Orders (view w1) req = Some new \<and> order_agrees new o1)"
    using assms(1,3) by (auto simp: stored_def split: if_splits)
  then show "serves (view w1) req" "potential (view w1) req \<le> k"
    using assms(2-5) order_agreesD
    by (auto simp: serves_def servable_def potential_def order_potential_def)
qed

lemma lowers_deleting:
  assumes laws: "api_laws (OR_Client r) view cache" and now: "cache w = view w" and \<rho>: "range_ok \<rho>"
    and o: "cl_Orders (view w) req = Some order" and key: "order_key order = req" and del: "Order_deleting order"
  shows "lowers view r req (Run \<rho> \<pi>) w"
proof -
  have get: "GetOrder (OR_Client r) req w = (Inr order, w)" by (rule cached_order [OF laws now o])
  have run: "OrderReconciler_Reconcile \<rho> \<pi> r req w = reconcileDeletion \<rho> r order w"
    using get del by (simp add: OrderReconciler_Reconcile_def)
  have pot: "potential (view w) req =
      (if statuses order \<noteq> fmempty then 2 else if orderFinalizer \<in> set (Order_Finalizers order) then 1 else 0)"
    using o del by (simp add: potential_def order_potential_def)
  consider (list) "statuses order \<noteq> fmempty"
    | (fin) "statuses order = fmempty" "orderFinalizer \<in> set (Order_Finalizers order)"
    | (rest) "statuses order = fmempty" "orderFinalizer \<notin> set (Order_Finalizers order)" by blast
  then show ?thesis
  proof cases
    case list
    let ?o1 = "set_ArtifactWorkflows (Some fmempty) order" and ?shas = "\<rho> ''deletion'' (fmdom (statuses order))"
    have "fold drop_status ?shas order = ?o1"
      using \<rho> list by (intro drop_all_statuses) (simp_all add: fmdom'_alt_def)
    then obtain w1 aws where w1: "deleteAll (OR_Client r) order ?shas w = (?o1, w1)" "view w1 = (view w)\<lparr>cl_AWs := aws\<rparr>"
      using deleteAll_runs [OF laws, of order ?shas w] by auto
    have "current view w1 order ?o1" using o key w1(2) by (simp add: current_def)
    then obtain w2 where w2: "UpdateOrderStatus (OR_Client r) ?o1 w1 = (None, w2)" "stored view w1 ?o1 w2"
      using api_laws_status [OF laws, of w1 order ?o1] by auto
    have "OrderReconciler_Reconcile \<rho> \<pi> r req w = (Inr \<lparr>Requeue = True\<rparr>, w2)"
      using run list w1(1) w2(1) by (simp add: reconcileDeletion_def bind_io_def put_io_def)
    then show ?thesis
      by (rule lowersI) (use stored_deleting [OF w2(2), of req 1] key del pot list in simp_all)
  next
    case fin
    let ?o1 = "set_Order_Finalizers (filter (\<lambda>f. f \<noteq> orderFinalizer) (Order_Finalizers order)) order"
    have "current view w order ?o1" using o key by (simp add: current_def)
    then obtain w2 where w2: "UpdateOrder (OR_Client r) ?o1 w = (None, w2)" "stored view w ?o1 w2"
      using api_laws_update [OF laws, of w order ?o1] by auto
    have "OrderReconciler_Reconcile \<rho> \<pi> r req w = (Inr done_result, w2)"
      using run fin w2(1) by (simp add: reconcileDeletion_def bind_io_def put_io_def)
    then show ?thesis
      by (rule lowersI) (use stored_deleting [OF w2(2), of req 0] key del pot fin in simp_all)
  next
    case rest
    have "OrderReconciler_Reconcile \<rho> \<pi> r req w = (Inr done_result, w)"
      using run rest by (simp add: reconcileDeletion_def)
    moreover have "order_requests \<rho> \<pi> r req w = [ReqGetOrder req]"
      using rest by (simp add: order_requests_def Reconcile_recording_deleting [OF get del]
          reconcileDeletion_requests [OF \<rho>])
    ultimately show ?thesis
      by (intro lowersI) (use o key del pot rest in \<open>simp_all add: serves_def servable_def\<close>)
  qed
qed

lemma lowers_finalizer:
  assumes laws: "api_laws (OR_Client r) view cache" and now: "cache w = view w"
    and o: "cl_Orders (view w) req = Some order"
    and key: "order_key order = req" and serv: "servable (view w) order"
    and live: "\<not> Order_deleting order" and fin: "orderFinalizer \<notin> set (Order_Finalizers order)"
  shows "lowers view r req (Run \<rho> \<pi>) w"
proof -
  let ?o1 = "set_Order_Finalizers (Order_Finalizers order @ [orderFinalizer]) order"
  have get: "GetOrder (OR_Client r) req w = (Inr order, w)" by (rule cached_order [OF laws now o])
  have "current view w order ?o1" using o key by (simp add: current_def)
  then obtain w1 where w1: "UpdateOrder (OR_Client r) ?o1 w = (None, w1)" "stored view w ?o1 w1"
    using api_laws_update [OF laws, of w order ?o1] by auto
  then obtain new where new: "order_agrees new ?o1" "view w1 = (view w)\<lparr>cl_Orders := (cl_Orders (view w))(req \<mapsto> new)\<rparr>"
    using live key by (auto simp: stored_def)
  note a = order_agreesD [OF new(1)]
  have k: "order_key new = order_key order" "Order_Spec new = Order_Spec order"
    using new(1) by (simp_all add: order_agrees_def)
  have "wants cl new d = wants (view w) order d" if "cl_Reads cl = cl_Reads (view w)" for cl d
    unfolding wants_def keyed_def by (simp add: resolve_all_cong [OF k] k(2) that)
  then have "servable (view w1) new"
    using serv live a k(1) new(2) by (simp add: servable_def order_key_def awName_def)
  then have "serves (view w1) req" using new(2) k(1) key by (simp add: serves_def)
  moreover have "OrderReconciler_Reconcile \<rho> \<pi> r req w = (Inr done_result, w1)"
    using get live fin w1(1)
    by (simp add: OrderReconciler_Reconcile_def addFinalizer_def bind_io_def put_io_def)
  moreover have "potential (view w) req = 3" and "potential (view w1) req \<le> 2"
    using o live fin new(2) a by (simp_all add: potential_def order_potential_def)
  ultimately show ?thesis by (intro lowersI) auto
qed

lemma settled_no_writes:
  assumes "api_laws (OR_Client r) view cache" and "range_ok \<rho>" and "cl_Orders (view w) req = Some order"
    and "\<not> Order_deleting order" and "orderFinalizer \<in> set (Order_Finalizers order)"
    and "wants (view w) order desired" and "fmdom (statuses order) = fmdom desired" and "phases_right (view w) order"
    and now: "cache w = view w"
  shows "\<forall>x \<in> set (order_requests \<rho> \<pi> r req w). \<not> is_write x"
proof -
  have get: "GetOrder (OR_Client r) req w = (Inr order, w)" by (rule cached_order [OF assms(1) now assms(3)])
  have d: "desiredLoop (OR_Client r) order 0 (OrderSpec_Artifacts (Order_Spec order)) fmempty w = (Inr desired, w)"
    using assms(6) by (simp add: desiredLoop_wants [OF assms(1)] now)
  show ?thesis
  proof (rule settled_run [OF assms(2) get assms(4,5) d assms(7), where J = "\<lambda>v. v = w", THEN conjunct2])
    fix sha v
    assume "sha |\<in>| fmdom desired" and "v = w"
    then obtain aw where "cl_AWs (view w) (awKey order sha) = Some aw"
      "AWStatus_Phase (AW_Status aw) = OAWStatus_Phase (status_of order sha)"
      using assms(7,8) by (auto simp: phases_right_def)
    moreover from this(1) have "GetArtifactWorkflow (OR_Client r) (awKey order sha) w = (Inr aw, w)"
      by (intro api_laws_reads(3) [OF assms(1)]) (simp only: now)
    ultimately
    show "\<exists>aw v1. GetArtifactWorkflow (OR_Client r) (awKey order sha) v = (Inr aw, v1) \<and>
        v1 = w \<and> AWStatus_Phase (AW_Status aw) = OAWStatus_Phase (status_of order sha)"
      using \<open>v = w\<close> by blast
  qed simp
qed

lemma lowers_main:
  assumes laws: "api_laws (OR_Client r) view cache" and owner: "owner_law r" and \<rho>: "range_ok \<rho>" and \<pi>: "order_ok \<pi>"
    and now: "cache w = view w" and o: "cl_Orders (view w) req = Some order" and key: "order_key order = req" and serv: "servable (view w) order"
    and live: "\<not> Order_deleting order" and fin: "orderFinalizer \<in> set (Order_Finalizers order)"
  shows "lowers view r req (Run \<rho> \<pi>) w"
proof -
  obtain desired where d: "wants (view w) order desired"
    and hyd: "\<forall>sha daw. fmlookup desired sha = Some daw \<longrightarrow> hydratable daw"
    and exist: "\<forall>sha. sha |\<in>| fmdom desired \<and> sha |\<in>| fmdom (statuses order) \<longrightarrow>
      cl_AWs (view w) (awKey order sha) \<noteq> None"
    using serv live by (auto simp: servable_def)
  have make: "\<forall>sha. sha |\<in>| fmdom desired \<longrightarrow> creatable desired order sha"
    using hyd wants_meta [where w = w, OF laws] d now by (auto simp: creatable_def fmlookup_dom_iff)
  have own: "cl_Orders (view w) (order_key order) = Some order" using o key by simp
  from applyDesired_runs [where view = view and cache = cache and w = w, OF laws owner \<rho> \<pi> now own live make exist]
  obtain w1 new where 1: "applyDesired \<rho> \<pi> r order desired w = (Inr done_result, w1)"
    "cl_Reads (view w1) = cl_Reads (view w)" "cl_Orders (view w1) req = Some new" "kept new order"
    "fmdom (statuses new) = fmdom desired"
    "\<forall>sha. sha |\<in>| fmdom desired \<longrightarrow> cl_AWs (view w1) (awKey order sha) \<noteq> None"
    "fmdom (statuses order) = fmdom desired \<longrightarrow> phases_right (view w1) new"
    unfolding key by blast
  have run: "OrderReconciler_Reconcile \<rho> \<pi> r req w = (Inr done_result, w1)"
    using cached_order [OF laws now o] live fin d 1(1)
    by (simp add: OrderReconciler_Reconcile_def reconcileArtifacts_def bind_io_def now desiredLoop_wants [OF laws, THEN iffD2])
  have d1: "wants (view w1) new desired"
    using d 1(2) kept_names(1) [OF 1(4)] by (simp add: wants_def)
  have "servable (view w1) new"
    using d1 hyd 1(6) kept_names [OF 1(4)] by (auto simp: servable_def)
  then have serves1: "serves (view w1) req" using 1(3,4) key by (simp add: serves_def kept_def)
  have keys1: "keys_right (view w1) new" using d1 1(5) by (auto simp: keys_right_def)
  have pot: "potential (view w) req = (if \<not> keys_right (view w) order then 2 else if \<not> phases_right (view w) order then 1 else 0)"
    and pot1: "potential (view w1) req = (if \<not> phases_right (view w1) new then 1 else 0)"
    using o 1(3,4) live fin keys1 by (simp_all add: potential_def order_potential_def kept_def)
  have same: "fmdom (statuses order) = fmdom desired" if "keys_right (view w) order"
    using that wants_unique [where w = w, OF laws] d now by (auto simp: keys_right_def)
  show ?thesis
  proof (rule lowersI [where view = view, OF run serves1])
    show "potential (view w1) req \<le> potential (view w) req - 1"
      using same 1(7) unfolding pot pot1 by auto
    show "\<forall>x \<in> set (order_requests \<rho> \<pi> r req w). \<not> is_write x" if "potential (view w) req = 0"
      using settled_no_writes [OF laws \<rho> o live fin d _ _ now] same that unfolding pot by (auto split: if_splits)
  qed
qed

lemma lowers_run:
  assumes "api_laws (OR_Client r) view cache" and "owner_law r" and "range_ok \<rho>" and "order_ok \<pi>"
    and "cache w = view w" and "serves (view w) req"
  shows "lowers view r req (Run \<rho> \<pi>) w"
proof (cases "cl_Orders (view w) req")
  case None
  with assms(1,5) show ?thesis by (rule lowers_absent)
next
  case (Some order)
  with assms(6) have "order_key order = req" "servable (view w) order" by (simp_all add: serves_def)
  with assms(1-5) Some show ?thesis
    by (cases "Order_deleting order"; cases "orderFinalizer \<in> set (Order_Finalizers order)")
      (blast intro: lowers_deleting lowers_finalizer lowers_main)+
qed

subsection \<open>Other actors\<close>

lemma potential_le: "potential cl req \<le> 3"
  by (simp add: potential_def order_potential_def split: option.split)

lemma progress_step:
  assumes "cl1 = cl\<lparr>cl_AWs := aws\<rparr>" and "dom (cl_AWs cl) \<subseteq> dom aws"
  shows "serves cl req \<Longrightarrow> serves cl1 req" and "potential cl1 req \<le> potential cl req + 1"
proof -
  have w: "wants cl1 order d = wants cl order d" for order d using assms(1) by (simp add: wants_def)
  have "aws n \<noteq> None" if "cl_AWs cl n \<noteq> None" for n
    using that assms(2) by (meson domI domIff subsetD)
  then have "servable cl1 order" if "servable cl order" for order
    using that w assms(1) unfolding servable_def by auto
  then show "serves cl req \<Longrightarrow> serves cl1 req"
    using assms(1) by (simp add: serves_def split: option.splits)
  show "potential cl1 req \<le> potential cl req + 1"
    using assms(1) w by (simp add: potential_def order_potential_def keys_right_def split: option.split)
qed

lemma event_steps:
  assumes "api_laws (OR_Client r) view cache" and "owner_law r" and "event_ok view req e" and "serves (view w) req"
    and "is_Run e \<Longrightarrow> cache w = view w"
  shows "serves (view (event_step r req e w)) req" and "\<not> failed_in r req e w"
    and "(if writes_in r req e w then 1 else 0) + potential (view (event_step r req e w)) req \<le>
      potential (view w) req + (if is_Progress e then 1 else 0) + (if is_Edit e then 3 else 0)"
proof -
  have "serves (view (event_step r req e w)) req \<and> \<not> failed_in r req e w \<and>
    (if writes_in r req e w then 1 else 0) + potential (view (event_step r req e w)) req \<le>
      potential (view w) req + (if is_Progress e then 1 else 0) + (if is_Edit e then 3 else 0)"
  proof (cases e)
    case (Run \<rho> \<pi>)
    with assms(3) have "range_ok \<rho>" "order_ok \<pi>" by simp_all
    from lowers_run [where view = view and w = w, OF assms(1,2) this assms(5,4)] Run show ?thesis
      by (cases "potential (view w) req") (auto simp: lowers_def)
  next
    case (Progress f)
    with assms(3) have "\<exists>aws. view (f w) = (view w)\<lparr>cl_AWs := aws\<rparr> \<and> dom (cl_AWs (view w)) \<subseteq> dom aws"
      by (simp only: event_ok.simps)
    then obtain aws where "view (f w) = (view w)\<lparr>cl_AWs := aws\<rparr>" "dom (cl_AWs (view w)) \<subseteq> dom aws"
      by blast
    from progress_step [OF this] assms(4) Progress show ?thesis by simp
  next
    case (Edit f)
    with assms(3,4) have "serves (view (f w)) req" by simp
    with Edit potential_le [of "view (f w)" req] show ?thesis by simp
  next
    case (Sync f)
    with assms(3,4) show ?thesis by simp
  qed
  then show "serves (view (event_step r req e w)) req" and "\<not> failed_in r req e w"
    and "(if writes_in r req e w then 1 else 0) + potential (view (event_step r req e w)) req \<le>
      potential (view w) req + (if is_Progress e then 1 else 0) + (if is_Edit e then 3 else 0)"
    by auto
qed

lemma schedule_bound:
  assumes "api_laws (OR_Client r) view cache" and "owner_law r" and "\<forall>e \<in> set es. event_ok view req e"
    and "serves (view w) req" and "timely view cache r req es w"
  shows "failed_runs r req es w = 0 \<and> serves (view (after r req es w)) req \<and>
    writing_runs r req es w + potential (view (after r req es w)) req \<le>
      potential (view w) req + length (filter is_Progress es) + 3 * length (filter is_Edit es)"
  using assms(3-5)
proof (induction es arbitrary: w)
  case Nil
  then show ?case by (simp add: after_def)
next
  case (Cons e es)
  let ?w = "event_step r req e w"
  have ok: "event_ok view req e" using Cons.prems(1) by simp
  have now: "is_Run e \<Longrightarrow> cache w = view w" and rest: "timely view cache r req es ?w"
    using Cons.prems(3) by simp_all
  note step = event_steps [where view = view and w = w, OF assms(1,2) ok Cons.prems(2) now]
  from Cons.IH [OF _ step(1) rest] Cons.prems(1) step(2,3) show ?case
    by (auto simp: after_def split: if_splits)
qed

lemma quiet_schedule:
  assumes "api_laws (OR_Client r) view cache" and "owner_law r"
    and "\<forall>e \<in> set es. event_ok view req e \<and> (is_Run e \<or> is_Sync e)"
    and "serves (view w) req" and "timely view cache r req es w"
  shows "potential (view (after r req es w)) req \<le> potential (view w) req - length (filter is_Run es)"
  using assms(3-5)
proof (induction es arbitrary: w)
  case Nil
  then show ?case by (simp add: after_def)
next
  case (Cons e es)
  let ?w = "event_step r req e w"
  have now: "is_Run e \<Longrightarrow> cache w = view w" and rest: "timely view cache r req es ?w"
    and ok: "event_ok view req e" and es: "\<forall>e \<in> set es. event_ok view req e \<and> (is_Run e \<or> is_Sync e)"
    and kind: "is_Run e \<or> is_Sync e"
    using Cons.prems(1,3) by simp_all
  have serves1: "serves (view ?w) req"
    by (rule event_steps(1) [where view = view and w = w, OF assms(1,2) ok Cons.prems(2) now])
  have "potential (view ?w) req \<le> potential (view w) req - (if is_Run e then 1 else 0)"
  proof (cases e)
    case (Run \<rho> \<pi>)
    with ok now have "range_ok \<rho>" "order_ok \<pi>" "cache w = view w" by simp_all
    from lowers_run [where view = view and w = w, OF assms(1,2) this Cons.prems(2)] Run
    show ?thesis by (simp add: lowers_def)
  qed (use kind ok in simp_all)
  with Cons.IH [OF es serves1 rest] show ?case by (auto simp: after_def)
qed

subsection \<open>Coming to rest\<close>

text \<open>
  C4: the controller does not keep itself busy. Take any interleaving of runs for one order, of other
  actors' changes between the runs and of watch events reaching the client's cache, under these
  conditions: the requests act on the API server's store as documented while reads answer from the
  cache; every run starts with a cache that has caught up with the store (\<open>timely\<close>; it need not learn
  of the run's own writes during the run); the order can be served at the start, that is, its
  endpoints and secrets resolve, its parameters can be computed and the artifact workflows its status
  lists and that are still wanted exist; and the other actors keep it so and remove no artifact
  workflow. Then no run fails, and at most three runs write anything, plus one for each time artifact
  workflows changed and three for each time something else did. Outside these conditions runs do
  fail, as the theorems on failed fetches and on lost artifact workflows show.
\<close>

theorem reconciliation_terminates:
  assumes "api_laws (OR_Client r) view cache" and "owner_law r" and "\<forall>e \<in> set es. event_ok view req e"
    and "serves (view w) req" and "timely view cache r req es w"
  shows "failed_runs r req es w = 0 \<and>
    writing_runs r req es w \<le> 3 + length (filter is_Progress es) + 3 * length (filter is_Edit es)"
  using schedule_bound [where view = view and w = w, OF assms] potential_le [of "view w" req] by simp

definition at_rest :: "cluster \<Rightarrow> NamespacedName \<Rightarrow> bool" where
  "at_rest cl req \<longleftrightarrow>
     (case cl_Orders cl req of
        None \<Rightarrow> True
      | Some order \<Rightarrow>
          if Order_deleting order then statuses order = fmempty \<and> orderFinalizer \<notin> set (Order_Finalizers order)
          else orderFinalizer \<in> set (Order_Finalizers order) \<and> keys_right cl order \<and> phases_right cl order)"

lemma at_rest_potential: "at_rest cl req \<longleftrightarrow> potential cl req = 0"
  by (auto simp: at_rest_def potential_def order_potential_def split: option.split)

text \<open>
  C5: three runs bring an order to rest, whatever happened to it before, if the order can be served
  (its endpoints and secrets resolve, its parameters can be computed, and the artifact workflows its
  status lists and that are still wanted exist), nobody else changes the store meanwhile and every
  run starts with a cache that has caught up. At rest means: the order is gone, or only waits for
  other finalizers if it is being deleted, and otherwise has its finalizer, the keys of its status are
  exactly the desired ones and each has the phase its artifact workflow reports in the store. No
  later run with such a cache writes anything.
\<close>

theorem order_comes_to_rest:
  assumes "api_laws (OR_Client r) view cache" and "owner_law r"
    and "\<forall>e \<in> set es. event_ok view req e \<and> (is_Run e \<or> is_Sync e)" and "serves (view w) req"
    and "3 \<le> length (filter is_Run es)" and "timely view cache r req (es @ [Run \<rho> \<pi>]) w"
    and "range_ok \<rho>" and "order_ok \<pi>"
  shows "at_rest (view (after r req es w)) req \<and> \<not> writes_in r req (Run \<rho> \<pi>) (after r req es w)"
proof -
  have split: "timely view cache r req (es @ es1) w \<longleftrightarrow>
      timely view cache r req es w \<and> timely view cache r req es1 (after r req es w)" for es es1 w
    by (induction es arbitrary: w) (simp_all add: after_def)
  have t: "timely view cache r req es w" and now: "cache (after r req es w) = view (after r req es w)"
    using assms(6) by (simp_all add: split)
  have zero: "potential (view (after r req es w)) req = 0"
    using quiet_schedule [where view = view and w = w, OF assms(1-4) t] potential_le [of "view w" req] assms(5)
    by simp
  have "\<forall>e \<in> set es. event_ok view req e" using assms(3) by blast
  then have "serves (view (after r req es w)) req"
    using schedule_bound [where view = view and w = w, OF assms(1,2) _ assms(4) t] by simp
  from lowers_run [where view = view, OF assms(1,2,7,8) now this] zero show ?thesis
    by (simp add: at_rest_potential lowers_def)
qed

subsection \<open>An in-memory API server\<close>

text \<open>
  The laws hold of a client whose world is a store and a cache that only changes when it is told to:
  reads use the second, writes the first.
\<close>

definition not_found :: api_error where
  "not_found = \<lparr>api_reason = NotFound, api_message = ''not found''\<rparr>"

definition already_exists :: api_error where
  "already_exists = \<lparr>api_reason = AlreadyExists, api_message = ''already exists''\<rparr>"

definition store_order :: "Order \<Rightarrow> cluster \<Rightarrow> cluster" where
  "store_order order cl =
     cl\<lparr>cl_Orders := (cl_Orders cl)(order_key order :=
        if Order_deleting order \<and> Order_Finalizers order = [] then None else Some order)\<rparr>"

definition memory_client :: "(cluster \<times> cluster) Client" where
  "memory_client =
     (static_client (Inl not_found) (\<lambda>n. Inl not_found) [] None)
       \<lparr>GetOrder := \<lambda>n w. (case cl_Orders (snd w) n of None \<Rightarrow> Inl not_found | Some x \<Rightarrow> Inr x, w),
        GetEndpoint := \<lambda>n w. (view_Endpoint (cl_Reads (snd w)) n, w),
        GetSecret := \<lambda>n w. (view_Secret (cl_Reads (snd w)) n, w),
        GetArtifactWorkflow := \<lambda>n w. (case cl_AWs (snd w) n of None \<Rightarrow> Inl not_found | Some x \<Rightarrow> Inr x, w),
        CreateArtifactWorkflow := \<lambda>aw w. (case cl_AWs (fst w) (meta_key (AW_ObjectMeta aw)) of
            None \<Rightarrow> (None, (fst w)\<lparr>cl_AWs := (cl_AWs (fst w))(meta_key (AW_ObjectMeta aw) \<mapsto> aw)\<rparr>, snd w)
          | Some _ \<Rightarrow> (Some already_exists, w)),
        DeleteArtifactWorkflow := \<lambda>m w. (if cl_AWs (fst w) (meta_key m) = None then Some not_found else None,
            (fst w)\<lparr>cl_AWs := (cl_AWs (fst w))(meta_key m := None)\<rparr>, snd w),
        UpdateOrder := \<lambda>order w. (case cl_Orders (fst w) (order_key order) of
            None \<Rightarrow> (Some not_found, w) | Some old \<Rightarrow> (None, store_order order (fst w), snd w)),
        UpdateOrderStatus := \<lambda>order w. (case cl_Orders (fst w) (order_key order) of
            None \<Rightarrow> (Some not_found, w)
          | Some old \<Rightarrow> (None, store_order (order\<lparr>Order_Spec := Order_Spec old\<rparr>) (fst w), snd w))\<rparr>"

lemma order_agrees_refl [simp]: "order_agrees a a"
  by (simp add: order_agrees_def)

lemma stored_memory: "stored fst w order (store_order order (fst w), c)"
  by (auto simp: stored_def store_order_def intro!: exI [of _ order])

lemma memory_laws: "api_laws memory_client fst snd"
proof -
  have "create_law memory_client fst"
    by (auto simp: create_law_def memory_client_def already_exists_def IsAlreadyExists_def split: option.splits)
  moreover have "delete_law memory_client fst"
    by (auto simp: delete_law_def memory_client_def not_found_def IgnoreNotFound_def IsNotFound_def)
  moreover have "update_law memory_client fst"
    by (auto simp: update_law_def memory_client_def current_def stored_memory)
  moreover have "status_law memory_client fst"
    by (auto simp: status_law_def memory_client_def current_def stored_memory)
  moreover have "cache_law memory_client fst snd"
    by (auto simp: cache_law_def catches_up_def memory_client_def split: option.splits)
  ultimately show ?thesis
    by (auto simp: api_laws_def reads_def answers_def memory_client_def not_found_def IsNotFound_def
        split: option.splits)
qed

lemma memory_owner: "owner_law (static_OR c)"
  unfolding owner_law_def
proof (intro allI impI)
  fix order aw
  show "\<exists>refs. OR_SetControllerReference (static_OR c) order aw =
      Inr (aw\<lparr>AW_ObjectMeta := (AW_ObjectMeta aw)\<lparr>Meta_OwnerReferences := refs\<rparr>\<rparr>)"
    by (rule exI [of _ "Meta_OwnerReferences (AW_ObjectMeta aw)"]) simp
qed

definition demo_cluster :: cluster where
  "demo_cluster =
     \<lparr>cl_Reads = \<lparr>view_Endpoint = \<lambda>n. Inr (demo_endpoint (snd n)), view_Secret = \<lambda>n. Inl not_found\<rparr>,
      cl_Orders = [(''default'', ''demo'') \<mapsto> demo_order [] None [demo_artifact] None],
      cl_AWs = Map.empty\<rparr>"

text \<open>All artifact workflows start running; the user deletes the order; the cache catches up.\<close>

definition demo_progress :: "cluster \<times> cluster \<Rightarrow> cluster \<times> cluster" where
  "demo_progress w = ((fst w)\<lparr>cl_AWs := \<lambda>n. map_option
     (\<lambda>aw. aw\<lparr>AW_Status := (AW_Status aw)\<lparr>AWStatus_Phase := WorkflowRunning\<rparr>\<rparr>) (cl_AWs (fst w) n)\<rparr>, snd w)"

definition demo_edit :: "cluster \<times> cluster \<Rightarrow> cluster \<times> cluster" where
  "demo_edit w = ((fst w)\<lparr>cl_Orders := \<lambda>n. map_option
     (\<lambda>order. order\<lparr>Order_ObjectMeta := (Order_ObjectMeta order)\<lparr>Meta_DeletionTimestamp := Some 1\<rparr>\<rparr>)
     (cl_Orders (fst w) n)\<rparr>, snd w)"

definition demo_sync :: "cluster \<times> cluster \<Rightarrow> cluster \<times> cluster" where
  "demo_sync w = (fst w, fst w)"

lemma demo_sync_simps [simp]: "fst (demo_sync w) = fst w" "snd (demo_sync w) = fst w"
  by (simp_all add: demo_sync_def)

lemma Unmarshal_empty_object: "Unmarshal \<pi> ''{}'' = Inr []"
  by (simp add: Unmarshal_def skip_space_def is_space_def byte_val_def numeral_eq_Suc Let_def)

lemma demo_hydratable: "daw_artifact daw = demo_artifact \<Longrightarrow> hydratable daw"
  by (simp add: hydratable_def hydrateArtifactWorkflow_def dawToParameters_def endpointParameters_eq
      raw_document_def demo_artifact_def Unmarshal_empty_object)

lemma demo_serves: "serves demo_cluster (''default'', ''demo'')"
proof -
  let ?order = "demo_order [] None [demo_artifact] None"
  let ?daw = "\<lparr>daw_index = 0, daw_objectMeta = awObjectMeta ?order demo_sha, daw_artifact = demo_artifact,
    daw_srcEndpoint = demo_endpoint ''src'', daw_dstEndpoint = demo_endpoint ''other'',
    daw_srcSecret = zero_Secret, daw_dstSecret = zero_Secret\<rparr>"
  have sha: "daw_sha ?order ?daw = demo_sha" by (simp add: daw_sha_def demo_sha_def hashData_def)
  have refs: "srcRefName ?order demo_artifact = ''src''" "dstRefName ?order demo_artifact = ''other''"
    "secretRefName (demo_endpoint n) = []" for n
    by (simp_all add: srcRefName_def dstRefName_def refName_def demo_artifact_def demo_endpoint_def secretRefName_def)
  have "resolve_all (cl_Reads demo_cluster) ?order 0 [demo_artifact] [?daw]"
    by (simp add: resolves_def sha refs secret_resolves_def demo_cluster_def)
  then have "wants demo_cluster ?order (fmupd demo_sha ?daw fmempty)"
    unfolding wants_def keyed_def by (intro exI [of _ "[?daw]"]) (simp add: sha)
  moreover have "\<forall>sha daw. fmlookup (fmupd demo_sha ?daw fmempty) sha = Some daw \<longrightarrow> hydratable daw"
    by (auto intro: demo_hydratable)
  ultimately have "servable demo_cluster ?order"
    unfolding servable_def by (intro disjI2 exI [of _ "fmupd demo_sha ?daw fmempty"]) simp
  then show ?thesis by (simp add: serves_def demo_cluster_def order_key_def)
qed

lemma demo_events_ok:
  "event_ok fst req (Run sorted_range id)" "event_ok fst req (Progress demo_progress)"
  "event_ok fst req (Edit demo_edit)" "event_ok fst req (Sync demo_sync)"
proof -
  show "event_ok fst req (Run sorted_range id)" by (simp add: order_ok_def)
  show "event_ok fst req (Progress demo_progress)" by (auto simp: demo_progress_def)
  show "event_ok fst req (Edit demo_edit)"
    by (auto simp: serves_def demo_edit_def order_key_def servable_def api_defs split: option.splits)
  show "event_ok fst req (Sync demo_sync)" by simp
qed

text \<open>A run after the cache has caught up.\<close>

abbreviation demo_turn :: "(cluster \<times> cluster) event list" where
  "demo_turn \<equiv> [Sync demo_sync, Run sorted_range id]"

theorem reconciliation_terminates_witness:
  "let es = demo_turn @ demo_turn @ [Progress demo_progress] @ demo_turn @ [Edit demo_edit] @ demo_turn @ demo_turn @
       demo_turn;
       w = (demo_cluster, demo_cluster) in
   failed_runs (static_OR memory_client) (''default'', ''demo'') es w = 0 \<and>
   writing_runs (static_OR memory_client) (''default'', ''demo'') es w \<le> 7"
  using reconciliation_terminates [where r = "static_OR memory_client" and view = fst and cache = snd and
      req = "(''default'', ''demo'')" and w = "(demo_cluster, demo_cluster)" and
      es = "demo_turn @ demo_turn @ [Progress demo_progress] @ demo_turn @ [Edit demo_edit] @ demo_turn @ demo_turn @
       demo_turn"]
    memory_laws memory_owner [of memory_client] demo_serves demo_events_ok [of "(''default'', ''demo'')"]
  by (simp add: Let_def del: event_ok.simps failed_runs.simps writing_runs.simps event_step.simps(1-3))

theorem order_comes_to_rest_witness:
  "let r = static_OR memory_client; req = (''default'', ''demo'');
       w = after r req (demo_turn @ demo_turn @ demo_turn @ [Sync demo_sync]) (demo_cluster, demo_cluster) in
   at_rest (fst w) req \<and> \<not> writes_in r req (Run sorted_range id) w"
  using order_comes_to_rest [where r = "static_OR memory_client" and view = fst and cache = snd and
      req = "(''default'', ''demo'')" and w = "(demo_cluster, demo_cluster)" and \<rho> = sorted_range and \<pi> = id and
      es = "demo_turn @ demo_turn @ demo_turn @ [Sync demo_sync]"]
    memory_laws memory_owner [of memory_client] demo_serves demo_events_ok [of "(''default'', ''demo'')"]
  by (simp add: Let_def order_ok_def del: event_ok.simps writes_in.simps event_step.simps(1-3))

subsection \<open>A lost artifact workflow\<close>





end
