(* ===== verification/Openapi_Schema.thy ===== *)
theory Openapi_Schema
  imports Go_Json
begin

section \<open>OpenAPI schemas\<close>

text \<open>
  The part of \<^verbatim>\<open>k8s.io/kube-openapi\<close> that the generated definitions are written in: a schema is the
  list of the keyed fields its Go literal sets, in the order of the source, with the vendor
  extensions as one more field. Descriptions are prose and left out. A reference is what the
  callback the definitions take makes of a name, hence the type variable \<open>'r\<close>.

  The definitions of a few Kubernetes types call functions of their libraries, which are a parameter:
  \<open>openapi_library\<close>.
\<close>

datatype go_value =
    VNull
  | VBool bool
  | VInt int
  | VNum f64
  | VStr string
  | VArr "go_value list"
  | VObj "(string \<times> go_value) list"

datatype 'r schema = SchemaProps "'r attr list"
and 'r attr =
    Type "string list"
  | Format string
  | Default go_value
  | Enum "go_value list"
  | Ref 'r
  | Properties "(string \<times> 'r schema) list"
  | Required "string list"
  | Items "'r schema"
  | AdditionalProperties bool "'r schema"
  | OneOf "'r schema list"
  | Extensions "(string \<times> go_value) list"

datatype 'r OpenAPIDefinition = OpenAPIDefinition (Schema: "'r schema") (Dependencies: "string list")

record 'r openapi_library =
  lib_constant :: "string \<Rightarrow> string"
  lib_OpenAPISchemaType :: "string \<Rightarrow> string list"
  lib_OpenAPISchemaFormat :: "string \<Rightarrow> string"
  lib_OpenAPIV3OneOfTypes :: "string \<Rightarrow> string list"
  lib_GenerateOpenAPIV3OneOfSchema :: "string list \<Rightarrow> 'r schema list"
  lib_EmbedOpenAPIDefinitionIntoV2Extension ::
    "'r OpenAPIDefinition \<Rightarrow> 'r OpenAPIDefinition \<Rightarrow> 'r OpenAPIDefinition"

named_theorems model_names and schema_defs

text \<open>The packages whose types have definitions.\<close>

definition core_v1 :: "string \<Rightarrow> string" where
  "core_v1 name = ''k8s.io/api/core/v1.'' @ name"

definition meta_v1 :: "string \<Rightarrow> string" where
  "meta_v1 name = ''k8s.io/apimachinery/pkg/apis/meta/v1.'' @ name"

definition pkg_runtime :: "string \<Rightarrow> string" where
  "pkg_runtime name = ''k8s.io/apimachinery/pkg/runtime.'' @ name"

definition pkg_version :: "string \<Rightarrow> string" where
  "pkg_version name = ''k8s.io/apimachinery/pkg/version.'' @ name"

definition pkg_resource :: "string \<Rightarrow> string" where
  "pkg_resource name = ''k8s.io/apimachinery/pkg/api/resource.'' @ name"

definition pkg_intstr :: "string \<Rightarrow> string" where
  "pkg_intstr name = ''k8s.io/apimachinery/pkg/util/intstr.'' @ name"

subsection \<open>The references of a schema\<close>

fun schema_refs :: "'r schema \<Rightarrow> 'r list"
  and attrs_refs :: "'r attr list \<Rightarrow> 'r list"
  and attr_refs :: "'r attr \<Rightarrow> 'r list"
  and props_refs :: "(string \<times> 'r schema) list \<Rightarrow> 'r list"
  and schemas_refs :: "'r schema list \<Rightarrow> 'r list" where
  "schema_refs (SchemaProps attrs) = attrs_refs attrs"
| "attrs_refs [] = []"
| "attrs_refs (a # as) = attr_refs a @ attrs_refs as"
| "attr_refs (Ref r) = [r]"
| "attr_refs (Properties ps) = props_refs ps"
| "attr_refs (Items s) = schema_refs s"
| "attr_refs (AdditionalProperties b s) = schema_refs s"
| "attr_refs (OneOf ss) = schemas_refs ss"
| "attr_refs a = []"
| "props_refs [] = []"
| "props_refs ((k, s) # ps) = schema_refs s @ props_refs ps"
| "schemas_refs [] = []"
| "schemas_refs (s # ss) = schema_refs s @ schemas_refs ss"

subsection \<open>Well-formed definitions\<close>

fun attr_required :: "'r attr \<Rightarrow> string list" where
  "attr_required (Required ks) = ks"
| "attr_required a = []"

fun attr_keys :: "'r attr \<Rightarrow> string list" where
  "attr_keys (Properties ps) = map fst ps"
| "attr_keys a = []"

fun required_listed :: "'r schema \<Rightarrow> bool"
  and attrs_listed :: "'r attr list \<Rightarrow> bool"
  and attr_listed :: "'r attr \<Rightarrow> bool"
  and props_listed :: "(string \<times> 'r schema) list \<Rightarrow> bool"
  and schemas_listed :: "'r schema list \<Rightarrow> bool" where
  "required_listed (SchemaProps attrs) \<longleftrightarrow>
     set (concat (map attr_required attrs)) \<subseteq> set (concat (map attr_keys attrs)) \<and> attrs_listed attrs"
| "attrs_listed [] \<longleftrightarrow> True"
| "attrs_listed (a # as) \<longleftrightarrow> attr_listed a \<and> attrs_listed as"
| "attr_listed (Properties ps) \<longleftrightarrow> props_listed ps"
| "attr_listed (Items s) \<longleftrightarrow> required_listed s"
| "attr_listed (AdditionalProperties b s) \<longleftrightarrow> required_listed s"
| "attr_listed (OneOf ss) \<longleftrightarrow> schemas_listed ss"
| "attr_listed a \<longleftrightarrow> True"
| "props_listed [] \<longleftrightarrow> True"
| "props_listed ((k, s) # ps) \<longleftrightarrow> required_listed s \<and> props_listed ps"
| "schemas_listed [] \<longleftrightarrow> True"
| "schemas_listed (s # ss) \<longleftrightarrow> required_listed s \<and> schemas_listed ss"

text \<open>
  A definition declares as its dependencies exactly the definitions it refers to, and the fields it
  requires are fields it describes.
\<close>

definition def_sound :: "(string \<Rightarrow> 'r) \<Rightarrow> 'r OpenAPIDefinition \<Rightarrow> bool" where
  "def_sound ref d \<longleftrightarrow>
     set (schema_refs (Schema d)) = ref ` set (Dependencies d) \<and> required_listed (Schema d)"

lemma def_sound_iff [simp]:
  "def_sound ref (OpenAPIDefinition s deps) \<longleftrightarrow> set (schema_refs s) = ref ` set deps \<and> required_listed s"
  by (simp add: def_sound_def)

lemma package_names [simp]:
  "core_v1 a = core_v1 b \<longleftrightarrow> a = b" "meta_v1 a = meta_v1 b \<longleftrightarrow> a = b"
  "pkg_runtime a = pkg_runtime b \<longleftrightarrow> a = b" "pkg_version a = pkg_version b \<longleftrightarrow> a = b"
  "pkg_resource a = pkg_resource b \<longleftrightarrow> a = b" "pkg_intstr a = pkg_intstr b \<longleftrightarrow> a = b"
  "core_v1 a \<noteq> meta_v1 b" "core_v1 a \<noteq> pkg_runtime b" "core_v1 a \<noteq> pkg_version b" "core_v1 a \<noteq> pkg_resource b"
  "core_v1 a \<noteq> pkg_intstr b" "meta_v1 a \<noteq> core_v1 b" "meta_v1 a \<noteq> pkg_runtime b" "meta_v1 a \<noteq> pkg_version b"
  "meta_v1 a \<noteq> pkg_resource b" "meta_v1 a \<noteq> pkg_intstr b" "pkg_runtime a \<noteq> core_v1 b"
  "pkg_runtime a \<noteq> meta_v1 b" "pkg_runtime a \<noteq> pkg_version b" "pkg_runtime a \<noteq> pkg_resource b"
  "pkg_runtime a \<noteq> pkg_intstr b" "pkg_version a \<noteq> core_v1 b" "pkg_version a \<noteq> meta_v1 b"
  "pkg_version a \<noteq> pkg_runtime b" "pkg_version a \<noteq> pkg_resource b" "pkg_version a \<noteq> pkg_intstr b"
  "pkg_resource a \<noteq> core_v1 b" "pkg_resource a \<noteq> meta_v1 b" "pkg_resource a \<noteq> pkg_runtime b"
  "pkg_resource a \<noteq> pkg_version b" "pkg_resource a \<noteq> pkg_intstr b" "pkg_intstr a \<noteq> core_v1 b"
  "pkg_intstr a \<noteq> meta_v1 b" "pkg_intstr a \<noteq> pkg_runtime b" "pkg_intstr a \<noteq> pkg_version b"
  "pkg_intstr a \<noteq> pkg_resource b"
  "core_v1 a \<noteq> CHR ''d'' # s" "meta_v1 a \<noteq> CHR ''d'' # s" "pkg_runtime a \<noteq> CHR ''d'' # s"
  "pkg_version a \<noteq> CHR ''d'' # s" "pkg_resource a \<noteq> CHR ''d'' # s" "pkg_intstr a \<noteq> CHR ''d'' # s"
  "CHR ''d'' # s \<noteq> core_v1 a" "CHR ''d'' # s \<noteq> meta_v1 a" "CHR ''d'' # s \<noteq> pkg_runtime a"
  "CHR ''d'' # s \<noteq> pkg_version a" "CHR ''d'' # s \<noteq> pkg_resource a" "CHR ''d'' # s \<noteq> pkg_intstr a"
  by (simp_all add: core_v1_def meta_v1_def pkg_runtime_def pkg_version_def pkg_resource_def pkg_intstr_def)

end
