(* ===== verification/Openapi_Arc.thy ===== *)
theory Openapi_Arc
  imports Openapi_Schema
begin

section \<open>OpenAPI definitions of the API types of arc.bwi.de/v1alpha1\<close>

text \<open>
  The names of the definitions (\<^verbatim>\<open>api/arc/v1alpha1/zz_generated.openapi.go\<close>), and the definitions
  themselves from \<^verbatim>\<open>client-go/openapi/zz_generated.openapi.go\<close>, one for each struct.
\<close>

subsection \<open>Names\<close>

definition ArtifactType_OpenAPIModelName :: string where
  [model_names]: "ArtifactType_OpenAPIModelName = ''de.bwi.arc.v1alpha1.ArtifactType''"

definition ArtifactTypeList_OpenAPIModelName :: string where
  [model_names]: "ArtifactTypeList_OpenAPIModelName = ''de.bwi.arc.v1alpha1.ArtifactTypeList''"

definition ArtifactTypeRules_OpenAPIModelName :: string where
  [model_names]: "ArtifactTypeRules_OpenAPIModelName = ''de.bwi.arc.v1alpha1.ArtifactTypeRules''"

definition ArtifactTypeSpec_OpenAPIModelName :: string where
  [model_names]: "ArtifactTypeSpec_OpenAPIModelName = ''de.bwi.arc.v1alpha1.ArtifactTypeSpec''"

definition ArtifactTypeStatus_OpenAPIModelName :: string where
  [model_names]: "ArtifactTypeStatus_OpenAPIModelName = ''de.bwi.arc.v1alpha1.ArtifactTypeStatus''"

definition ArtifactWorkflow_OpenAPIModelName :: string where
  [model_names]: "ArtifactWorkflow_OpenAPIModelName = ''de.bwi.arc.v1alpha1.ArtifactWorkflow''"

definition ArtifactWorkflowList_OpenAPIModelName :: string where
  [model_names]: "ArtifactWorkflowList_OpenAPIModelName = ''de.bwi.arc.v1alpha1.ArtifactWorkflowList''"

definition ArtifactWorkflowParameter_OpenAPIModelName :: string where
  [model_names]: "ArtifactWorkflowParameter_OpenAPIModelName = ''de.bwi.arc.v1alpha1.ArtifactWorkflowParameter''"

definition ArtifactWorkflowSpec_OpenAPIModelName :: string where
  [model_names]: "ArtifactWorkflowSpec_OpenAPIModelName = ''de.bwi.arc.v1alpha1.ArtifactWorkflowSpec''"

definition ArtifactWorkflowStatus_OpenAPIModelName :: string where
  [model_names]: "ArtifactWorkflowStatus_OpenAPIModelName = ''de.bwi.arc.v1alpha1.ArtifactWorkflowStatus''"

definition Endpoint_OpenAPIModelName :: string where
  [model_names]: "Endpoint_OpenAPIModelName = ''de.bwi.arc.v1alpha1.Endpoint''"

definition EndpointList_OpenAPIModelName :: string where
  [model_names]: "EndpointList_OpenAPIModelName = ''de.bwi.arc.v1alpha1.EndpointList''"

definition EndpointSpec_OpenAPIModelName :: string where
  [model_names]: "EndpointSpec_OpenAPIModelName = ''de.bwi.arc.v1alpha1.EndpointSpec''"

definition EndpointStatus_OpenAPIModelName :: string where
  [model_names]: "EndpointStatus_OpenAPIModelName = ''de.bwi.arc.v1alpha1.EndpointStatus''"

definition Order_OpenAPIModelName :: string where
  [model_names]: "Order_OpenAPIModelName = ''de.bwi.arc.v1alpha1.Order''"

definition OrderArtifact_OpenAPIModelName :: string where
  [model_names]: "OrderArtifact_OpenAPIModelName = ''de.bwi.arc.v1alpha1.OrderArtifact''"

definition OrderArtifactWorkflowStatus_OpenAPIModelName :: string where
  [model_names]: "OrderArtifactWorkflowStatus_OpenAPIModelName = ''de.bwi.arc.v1alpha1.OrderArtifactWorkflowStatus''"

definition OrderDefaults_OpenAPIModelName :: string where
  [model_names]: "OrderDefaults_OpenAPIModelName = ''de.bwi.arc.v1alpha1.OrderDefaults''"

definition OrderList_OpenAPIModelName :: string where
  [model_names]: "OrderList_OpenAPIModelName = ''de.bwi.arc.v1alpha1.OrderList''"

definition OrderSpec_OpenAPIModelName :: string where
  [model_names]: "OrderSpec_OpenAPIModelName = ''de.bwi.arc.v1alpha1.OrderSpec''"

definition OrderStatus_OpenAPIModelName :: string where
  [model_names]: "OrderStatus_OpenAPIModelName = ''de.bwi.arc.v1alpha1.OrderStatus''"

subsection \<open>Definitions\<close>

definition schema_arc_api_arc_v1alpha1_ArtifactType ::
  "(string \<Rightarrow> 'r) \<Rightarrow> 'r OpenAPIDefinition" where
  [schema_defs]: "schema_arc_api_arc_v1alpha1_ArtifactType ref =
     OpenAPIDefinition
       (SchemaProps
         [Type [''object''],
          Properties
             [(''kind'', SchemaProps [Type [''string''], Format []]),
              (''apiVersion'', SchemaProps [Type [''string''], Format []]),
              (''metadata'', SchemaProps [Default (VObj []), Ref (ref (meta_v1 ''ObjectMeta''))]),
              (''spec'', SchemaProps [Default (VObj []), Ref (ref ArtifactTypeSpec_OpenAPIModelName)]),
              (''status'', SchemaProps [Default (VObj []), Ref (ref ArtifactTypeStatus_OpenAPIModelName)])]])
       [ArtifactTypeSpec_OpenAPIModelName, ArtifactTypeStatus_OpenAPIModelName,
        meta_v1 ''ObjectMeta'']"

definition schema_arc_api_arc_v1alpha1_ArtifactTypeList ::
  "(string \<Rightarrow> 'r) \<Rightarrow> 'r OpenAPIDefinition" where
  [schema_defs]: "schema_arc_api_arc_v1alpha1_ArtifactTypeList ref =
     OpenAPIDefinition
       (SchemaProps
         [Type [''object''],
          Properties
             [(''kind'', SchemaProps [Type [''string''], Format []]),
              (''apiVersion'', SchemaProps [Type [''string''], Format []]),
              (''metadata'', SchemaProps [Default (VObj []), Ref (ref (meta_v1 ''ListMeta''))]),
              (''items'', SchemaProps
                   [Type [''array''],
                    Items (SchemaProps [Default (VObj []), Ref (ref ArtifactType_OpenAPIModelName)])])],
          Required [''items'']])
       [ArtifactType_OpenAPIModelName, meta_v1 ''ListMeta'']"

definition schema_arc_api_arc_v1alpha1_ArtifactTypeRules ::
  "(string \<Rightarrow> 'r) \<Rightarrow> 'r OpenAPIDefinition" where
  [schema_defs]: "schema_arc_api_arc_v1alpha1_ArtifactTypeRules ref =
     OpenAPIDefinition
       (SchemaProps
         [Type [''object''],
          Properties
             [(''srcTypes'', SchemaProps
                   [Type [''array''],
                    Items (SchemaProps [Default (VStr []), Type [''string''], Format []])]),
              (''dstTypes'', SchemaProps
                   [Type [''array''],
                    Items (SchemaProps [Default (VStr []), Type [''string''], Format []])])]])
       []"

definition schema_arc_api_arc_v1alpha1_ArtifactTypeSpec ::
  "(string \<Rightarrow> 'r) \<Rightarrow> 'r OpenAPIDefinition" where
  [schema_defs]: "schema_arc_api_arc_v1alpha1_ArtifactTypeSpec ref =
     OpenAPIDefinition
       (SchemaProps
         [Type [''object''],
          Properties
             [(''rules'', SchemaProps [Default (VObj []), Ref (ref ArtifactTypeRules_OpenAPIModelName)]),
              (''parameters'', SchemaProps
                   [Type [''array''],
                    Items (SchemaProps
                           [Default (VObj []),
                            Ref (ref ArtifactWorkflowParameter_OpenAPIModelName)])]),
              (''workflowTemplateRef'', SchemaProps [Default (VObj []), Ref (ref (core_v1 ''LocalObjectReference''))])],
          Required [''rules'', ''parameters'', ''workflowTemplateRef'']])
       [ArtifactTypeRules_OpenAPIModelName, ArtifactWorkflowParameter_OpenAPIModelName,
        core_v1 ''LocalObjectReference'']"

definition schema_arc_api_arc_v1alpha1_ArtifactTypeStatus ::
  "(string \<Rightarrow> 'r) \<Rightarrow> 'r OpenAPIDefinition" where
  [schema_defs]: "schema_arc_api_arc_v1alpha1_ArtifactTypeStatus ref =
     OpenAPIDefinition
       (SchemaProps [Type [''object'']])
       []"

definition schema_arc_api_arc_v1alpha1_ArtifactWorkflow ::
  "(string \<Rightarrow> 'r) \<Rightarrow> 'r OpenAPIDefinition" where
  [schema_defs]: "schema_arc_api_arc_v1alpha1_ArtifactWorkflow ref =
     OpenAPIDefinition
       (SchemaProps
         [Type [''object''],
          Properties
             [(''kind'', SchemaProps [Type [''string''], Format []]),
              (''apiVersion'', SchemaProps [Type [''string''], Format []]),
              (''metadata'', SchemaProps [Default (VObj []), Ref (ref (meta_v1 ''ObjectMeta''))]),
              (''spec'', SchemaProps [Default (VObj []), Ref (ref ArtifactWorkflowSpec_OpenAPIModelName)]),
              (''status'', SchemaProps [Default (VObj []), Ref (ref ArtifactWorkflowStatus_OpenAPIModelName)])]])
       [ArtifactWorkflowSpec_OpenAPIModelName, ArtifactWorkflowStatus_OpenAPIModelName,
        meta_v1 ''ObjectMeta'']"

definition schema_arc_api_arc_v1alpha1_ArtifactWorkflowList ::
  "(string \<Rightarrow> 'r) \<Rightarrow> 'r OpenAPIDefinition" where
  [schema_defs]: "schema_arc_api_arc_v1alpha1_ArtifactWorkflowList ref =
     OpenAPIDefinition
       (SchemaProps
         [Type [''object''],
          Properties
             [(''kind'', SchemaProps [Type [''string''], Format []]),
              (''apiVersion'', SchemaProps [Type [''string''], Format []]),
              (''metadata'', SchemaProps [Default (VObj []), Ref (ref (meta_v1 ''ListMeta''))]),
              (''items'', SchemaProps
                   [Type [''array''],
                    Items (SchemaProps
                           [Default (VObj []),
                            Ref (ref ArtifactWorkflow_OpenAPIModelName)])])],
          Required [''items'']])
       [ArtifactWorkflow_OpenAPIModelName, meta_v1 ''ListMeta'']"

definition schema_arc_api_arc_v1alpha1_ArtifactWorkflowParameter ::
  "(string \<Rightarrow> 'r) \<Rightarrow> 'r OpenAPIDefinition" where
  [schema_defs]: "schema_arc_api_arc_v1alpha1_ArtifactWorkflowParameter ref =
     OpenAPIDefinition
       (SchemaProps
         [Type [''object''],
          Properties
             [(''name'', SchemaProps [Default (VStr []), Type [''string''], Format []]),
              (''value'', SchemaProps [Default (VStr []), Type [''string''], Format []])],
          Required [''name'', ''value'']])
       []"

definition schema_arc_api_arc_v1alpha1_ArtifactWorkflowSpec ::
  "(string \<Rightarrow> 'r) \<Rightarrow> 'r OpenAPIDefinition" where
  [schema_defs]: "schema_arc_api_arc_v1alpha1_ArtifactWorkflowSpec ref =
     OpenAPIDefinition
       (SchemaProps
         [Type [''object''],
          Properties
             [(''type'', SchemaProps [Default (VStr []), Type [''string''], Format []]),
              (''parameters'', SchemaProps
                   [Type [''array''],
                    Items (SchemaProps
                           [Default (VObj []),
                            Ref (ref ArtifactWorkflowParameter_OpenAPIModelName)])]),
              (''srcSecretRef'', SchemaProps [Default (VObj []), Ref (ref (core_v1 ''LocalObjectReference''))]),
              (''dstSecretRef'', SchemaProps [Default (VObj []), Ref (ref (core_v1 ''LocalObjectReference''))])],
          Required [''type'', ''srcSecretRef'', ''dstSecretRef'']])
       [ArtifactWorkflowParameter_OpenAPIModelName, core_v1 ''LocalObjectReference'']"

definition schema_arc_api_arc_v1alpha1_ArtifactWorkflowStatus ::
  "(string \<Rightarrow> 'r) \<Rightarrow> 'r OpenAPIDefinition" where
  [schema_defs]: "schema_arc_api_arc_v1alpha1_ArtifactWorkflowStatus ref =
     OpenAPIDefinition
       (SchemaProps
         [Type [''object''],
          Properties
             [(''phase'', SchemaProps
                   [Type [''string''],
                    Format [],
                    Enum [VStr [], VStr ''Error'', VStr ''Failed'', VStr ''Pending'', VStr ''Running'', VStr ''Succeeded'']]),
              (''message'', SchemaProps [Type [''string''], Format []])]])
       []"

definition schema_arc_api_arc_v1alpha1_Endpoint ::
  "(string \<Rightarrow> 'r) \<Rightarrow> 'r OpenAPIDefinition" where
  [schema_defs]: "schema_arc_api_arc_v1alpha1_Endpoint ref =
     OpenAPIDefinition
       (SchemaProps
         [Type [''object''],
          Properties
             [(''kind'', SchemaProps [Type [''string''], Format []]),
              (''apiVersion'', SchemaProps [Type [''string''], Format []]),
              (''metadata'', SchemaProps [Default (VObj []), Ref (ref (meta_v1 ''ObjectMeta''))]),
              (''spec'', SchemaProps [Default (VObj []), Ref (ref EndpointSpec_OpenAPIModelName)]),
              (''status'', SchemaProps [Default (VObj []), Ref (ref EndpointStatus_OpenAPIModelName)])]])
       [EndpointSpec_OpenAPIModelName, EndpointStatus_OpenAPIModelName, meta_v1 ''ObjectMeta'']"

definition schema_arc_api_arc_v1alpha1_EndpointList ::
  "(string \<Rightarrow> 'r) \<Rightarrow> 'r OpenAPIDefinition" where
  [schema_defs]: "schema_arc_api_arc_v1alpha1_EndpointList ref =
     OpenAPIDefinition
       (SchemaProps
         [Type [''object''],
          Properties
             [(''kind'', SchemaProps [Type [''string''], Format []]),
              (''apiVersion'', SchemaProps [Type [''string''], Format []]),
              (''metadata'', SchemaProps [Default (VObj []), Ref (ref (meta_v1 ''ListMeta''))]),
              (''items'', SchemaProps
                   [Type [''array''],
                    Items (SchemaProps [Default (VObj []), Ref (ref Endpoint_OpenAPIModelName)])])],
          Required [''items'']])
       [Endpoint_OpenAPIModelName, meta_v1 ''ListMeta'']"

definition schema_arc_api_arc_v1alpha1_EndpointSpec ::
  "(string \<Rightarrow> 'r) \<Rightarrow> 'r OpenAPIDefinition" where
  [schema_defs]: "schema_arc_api_arc_v1alpha1_EndpointSpec ref =
     OpenAPIDefinition
       (SchemaProps
         [Type [''object''],
          Properties
             [(''type'', SchemaProps [Default (VStr []), Type [''string''], Format []]),
              (''remoteURL'', SchemaProps [Default (VStr []), Type [''string''], Format []]),
              (''secretRef'', SchemaProps [Default (VObj []), Ref (ref (core_v1 ''LocalObjectReference''))]),
              (''usage'', SchemaProps
                   [Default (VStr []),
                    Type [''string''],
                    Format [],
                    Enum [VStr ''All'', VStr ''PullOnly'', VStr ''PushOnly'']])],
          Required [''type'', ''remoteURL'', ''usage'']])
       [core_v1 ''LocalObjectReference'']"

definition schema_arc_api_arc_v1alpha1_EndpointStatus ::
  "(string \<Rightarrow> 'r) \<Rightarrow> 'r OpenAPIDefinition" where
  [schema_defs]: "schema_arc_api_arc_v1alpha1_EndpointStatus ref =
     OpenAPIDefinition
       (SchemaProps [Type [''object'']])
       []"

definition schema_arc_api_arc_v1alpha1_Order ::
  "(string \<Rightarrow> 'r) \<Rightarrow> 'r OpenAPIDefinition" where
  [schema_defs]: "schema_arc_api_arc_v1alpha1_Order ref =
     OpenAPIDefinition
       (SchemaProps
         [Type [''object''],
          Properties
             [(''kind'', SchemaProps [Type [''string''], Format []]),
              (''apiVersion'', SchemaProps [Type [''string''], Format []]),
              (''metadata'', SchemaProps [Default (VObj []), Ref (ref (meta_v1 ''ObjectMeta''))]),
              (''spec'', SchemaProps [Default (VObj []), Ref (ref OrderSpec_OpenAPIModelName)]),
              (''status'', SchemaProps [Default (VObj []), Ref (ref OrderStatus_OpenAPIModelName)])]])
       [OrderSpec_OpenAPIModelName, OrderStatus_OpenAPIModelName, meta_v1 ''ObjectMeta'']"

definition schema_arc_api_arc_v1alpha1_OrderArtifact ::
  "(string \<Rightarrow> 'r) \<Rightarrow> 'r OpenAPIDefinition" where
  [schema_defs]: "schema_arc_api_arc_v1alpha1_OrderArtifact ref =
     OpenAPIDefinition
       (SchemaProps
         [Type [''object''],
          Properties
             [(''type'', SchemaProps [Default (VStr []), Type [''string''], Format []]),
              (''srcRef'', SchemaProps [Default (VObj []), Ref (ref (core_v1 ''LocalObjectReference''))]),
              (''dstRef'', SchemaProps [Default (VObj []), Ref (ref (core_v1 ''LocalObjectReference''))]),
              (''spec'', SchemaProps [Ref (ref (pkg_runtime ''RawExtension''))])],
          Required [''type'']])
       [core_v1 ''LocalObjectReference'', pkg_runtime ''RawExtension'']"

definition schema_arc_api_arc_v1alpha1_OrderArtifactWorkflowStatus ::
  "(string \<Rightarrow> 'r) \<Rightarrow> 'r OpenAPIDefinition" where
  [schema_defs]: "schema_arc_api_arc_v1alpha1_OrderArtifactWorkflowStatus ref =
     OpenAPIDefinition
       (SchemaProps
         [Type [''object''],
          Properties
             [(''artifactIndex'', SchemaProps [Default (VInt 0), Type [''integer''], Format ''int32'']),
              (''phase'', SchemaProps
                   [Default (VStr []),
                    Type [''string''],
                    Format [],
                    Enum [VStr [], VStr ''Error'', VStr ''Failed'', VStr ''Pending'', VStr ''Running'', VStr ''Succeeded'']]),
              (''message'', SchemaProps [Type [''string''], Format []])],
          Required [''artifactIndex'', ''phase'']])
       []"

definition schema_arc_api_arc_v1alpha1_OrderDefaults ::
  "(string \<Rightarrow> 'r) \<Rightarrow> 'r OpenAPIDefinition" where
  [schema_defs]: "schema_arc_api_arc_v1alpha1_OrderDefaults ref =
     OpenAPIDefinition
       (SchemaProps
         [Type [''object''],
          Properties
             [(''srcRef'', SchemaProps [Default (VObj []), Ref (ref (core_v1 ''LocalObjectReference''))]),
              (''dstRef'', SchemaProps [Default (VObj []), Ref (ref (core_v1 ''LocalObjectReference''))])]])
       [core_v1 ''LocalObjectReference'']"

definition schema_arc_api_arc_v1alpha1_OrderList ::
  "(string \<Rightarrow> 'r) \<Rightarrow> 'r OpenAPIDefinition" where
  [schema_defs]: "schema_arc_api_arc_v1alpha1_OrderList ref =
     OpenAPIDefinition
       (SchemaProps
         [Type [''object''],
          Properties
             [(''kind'', SchemaProps [Type [''string''], Format []]),
              (''apiVersion'', SchemaProps [Type [''string''], Format []]),
              (''metadata'', SchemaProps [Default (VObj []), Ref (ref (meta_v1 ''ListMeta''))]),
              (''items'', SchemaProps
                   [Type [''array''],
                    Items (SchemaProps [Default (VObj []), Ref (ref Order_OpenAPIModelName)])])],
          Required [''items'']])
       [Order_OpenAPIModelName, meta_v1 ''ListMeta'']"

definition schema_arc_api_arc_v1alpha1_OrderSpec ::
  "(string \<Rightarrow> 'r) \<Rightarrow> 'r OpenAPIDefinition" where
  [schema_defs]: "schema_arc_api_arc_v1alpha1_OrderSpec ref =
     OpenAPIDefinition
       (SchemaProps
         [Type [''object''],
          Properties
             [(''defaults'', SchemaProps [Default (VObj []), Ref (ref OrderDefaults_OpenAPIModelName)]),
              (''artifacts'', SchemaProps
                   [Type [''array''],
                    Items (SchemaProps [Default (VObj []), Ref (ref OrderArtifact_OpenAPIModelName)])])]])
       [OrderArtifact_OpenAPIModelName, OrderDefaults_OpenAPIModelName]"

definition schema_arc_api_arc_v1alpha1_OrderStatus ::
  "(string \<Rightarrow> 'r) \<Rightarrow> 'r OpenAPIDefinition" where
  [schema_defs]: "schema_arc_api_arc_v1alpha1_OrderStatus ref =
     OpenAPIDefinition
       (SchemaProps
         [Type [''object''],
          Properties
             [(''artifactWorkflows'', SchemaProps
                   [Type [''object''],
                    AdditionalProperties True (SchemaProps
                           [Default (VObj []),
                            Ref (ref OrderArtifactWorkflowStatus_OpenAPIModelName)])])]])
       [OrderArtifactWorkflowStatus_OpenAPIModelName]"

lemma arc_sound:
  "def_sound ref (schema_arc_api_arc_v1alpha1_ArtifactType ref)"
  "def_sound ref (schema_arc_api_arc_v1alpha1_ArtifactTypeList ref)"
  "def_sound ref (schema_arc_api_arc_v1alpha1_ArtifactTypeRules ref)"
  "def_sound ref (schema_arc_api_arc_v1alpha1_ArtifactTypeSpec ref)"
  "def_sound ref (schema_arc_api_arc_v1alpha1_ArtifactTypeStatus ref)"
  "def_sound ref (schema_arc_api_arc_v1alpha1_ArtifactWorkflow ref)"
  "def_sound ref (schema_arc_api_arc_v1alpha1_ArtifactWorkflowList ref)"
  "def_sound ref (schema_arc_api_arc_v1alpha1_ArtifactWorkflowParameter ref)"
  "def_sound ref (schema_arc_api_arc_v1alpha1_ArtifactWorkflowSpec ref)"
  "def_sound ref (schema_arc_api_arc_v1alpha1_ArtifactWorkflowStatus ref)"
  "def_sound ref (schema_arc_api_arc_v1alpha1_Endpoint ref)"
  "def_sound ref (schema_arc_api_arc_v1alpha1_EndpointList ref)"
  "def_sound ref (schema_arc_api_arc_v1alpha1_EndpointSpec ref)"
  "def_sound ref (schema_arc_api_arc_v1alpha1_EndpointStatus ref)"
  "def_sound ref (schema_arc_api_arc_v1alpha1_Order ref)"
  "def_sound ref (schema_arc_api_arc_v1alpha1_OrderArtifact ref)"
  "def_sound ref (schema_arc_api_arc_v1alpha1_OrderArtifactWorkflowStatus ref)"
  "def_sound ref (schema_arc_api_arc_v1alpha1_OrderDefaults ref)"
  "def_sound ref (schema_arc_api_arc_v1alpha1_OrderList ref)"
  "def_sound ref (schema_arc_api_arc_v1alpha1_OrderSpec ref)"
  "def_sound ref (schema_arc_api_arc_v1alpha1_OrderStatus ref)"
  by (auto simp: schema_defs)

end
