(* ===== verification/Openapi_Core1.thy ===== *)
theory Openapi_Core1
  imports Openapi_Schema
begin

section \<open>OpenAPI definitions of the core types, AWSElasticBlockStoreVolumeSource to Event\<close>

text \<open>
  From \<^verbatim>\<open>client-go/openapi/zz_generated.openapi.go\<close>: the definitions of the Kubernetes types the
  file lists beside the repository's own.
\<close>

definition schema_k8sio_api_core_v1_AWSElasticBlockStoreVolumeSource ::
  "(string \<Rightarrow> 'r) \<Rightarrow> 'r OpenAPIDefinition" where
  [schema_defs]: "schema_k8sio_api_core_v1_AWSElasticBlockStoreVolumeSource ref =
     OpenAPIDefinition
       (SchemaProps
         [Type [''object''],
          Properties
             [(''volumeID'', SchemaProps [Default (VStr []), Type [''string''], Format []]),
              (''fsType'', SchemaProps [Type [''string''], Format []]),
              (''partition'', SchemaProps [Type [''integer''], Format ''int32'']),
              (''readOnly'', SchemaProps [Type [''boolean''], Format []])],
          Required [''volumeID'']])
       []"

definition schema_k8sio_api_core_v1_Affinity ::
  "(string \<Rightarrow> 'r) \<Rightarrow> 'r OpenAPIDefinition" where
  [schema_defs]: "schema_k8sio_api_core_v1_Affinity ref =
     OpenAPIDefinition
       (SchemaProps
         [Type [''object''],
          Properties
             [(''nodeAffinity'', SchemaProps [Ref (ref (core_v1 ''NodeAffinity''))]),
              (''podAffinity'', SchemaProps [Ref (ref (core_v1 ''PodAffinity''))]),
              (''podAntiAffinity'', SchemaProps [Ref (ref (core_v1 ''PodAntiAffinity''))])]])
       [core_v1 ''NodeAffinity'', core_v1 ''PodAffinity'', core_v1 ''PodAntiAffinity'']"

definition schema_k8sio_api_core_v1_AppArmorProfile ::
  "(string \<Rightarrow> 'r) \<Rightarrow> 'r OpenAPIDefinition" where
  [schema_defs]: "schema_k8sio_api_core_v1_AppArmorProfile ref =
     OpenAPIDefinition
       (SchemaProps
         [Type [''object''],
          Properties
             [(''type'', SchemaProps
                   [Default (VStr []),
                    Type [''string''],
                    Format [],
                    Enum [VStr ''Localhost'', VStr ''RuntimeDefault'', VStr ''Unconfined'']]),
              (''localhostProfile'', SchemaProps [Type [''string''], Format []])],
          Required [''type''],
          Extensions [(''x-kubernetes-unions'', VArr [VObj [(''discriminator'', VStr ''type''), (''fields-to-discriminateBy'', VObj [(''localhostProfile'', VStr ''LocalhostProfile'')])]])]])
       []"

definition schema_k8sio_api_core_v1_AttachedVolume ::
  "(string \<Rightarrow> 'r) \<Rightarrow> 'r OpenAPIDefinition" where
  [schema_defs]: "schema_k8sio_api_core_v1_AttachedVolume ref =
     OpenAPIDefinition
       (SchemaProps
         [Type [''object''],
          Properties
             [(''name'', SchemaProps [Default (VStr []), Type [''string''], Format []]),
              (''devicePath'', SchemaProps [Default (VStr []), Type [''string''], Format []])],
          Required [''name'', ''devicePath'']])
       []"

definition schema_k8sio_api_core_v1_AvoidPods ::
  "(string \<Rightarrow> 'r) \<Rightarrow> 'r OpenAPIDefinition" where
  [schema_defs]: "schema_k8sio_api_core_v1_AvoidPods ref =
     OpenAPIDefinition
       (SchemaProps
         [Type [''object''],
          Properties
             [(''preferAvoidPods'', SchemaProps
                   [Type [''array''],
                    Items (SchemaProps
                           [Default (VObj []),
                            Ref (ref (core_v1 ''PreferAvoidPodsEntry''))]),
                    Extensions [(''x-kubernetes-list-type'', VStr ''atomic'')]])]])
       [core_v1 ''PreferAvoidPodsEntry'']"

definition schema_k8sio_api_core_v1_AzureDiskVolumeSource ::
  "'r openapi_library \<Rightarrow> (string \<Rightarrow> 'r) \<Rightarrow> 'r OpenAPIDefinition" where
  [schema_defs]: "schema_k8sio_api_core_v1_AzureDiskVolumeSource lib ref =
     OpenAPIDefinition
       (SchemaProps
         [Type [''object''],
          Properties
             [(''diskName'', SchemaProps [Default (VStr []), Type [''string''], Format []]),
              (''diskURI'', SchemaProps [Default (VStr []), Type [''string''], Format []]),
              (''cachingMode'', SchemaProps
                   [Default (VStr (lib_constant lib ''v1.AzureDataDiskCachingReadWrite'')),
                    Type [''string''],
                    Format [],
                    Enum [VStr ''None'', VStr ''ReadOnly'', VStr ''ReadWrite'']]),
              (''fsType'', SchemaProps [Default (VStr ''ext4''), Type [''string''], Format []]),
              (''readOnly'', SchemaProps [Default (VBool False), Type [''boolean''], Format []]),
              (''kind'', SchemaProps
                   [Default (VStr (lib_constant lib ''v1.AzureSharedBlobDisk'')),
                    Type [''string''],
                    Format [],
                    Enum [VStr ''Dedicated'', VStr ''Managed'', VStr ''Shared'']])],
          Required [''diskName'', ''diskURI'']])
       []"

definition schema_k8sio_api_core_v1_AzureFilePersistentVolumeSource ::
  "(string \<Rightarrow> 'r) \<Rightarrow> 'r OpenAPIDefinition" where
  [schema_defs]: "schema_k8sio_api_core_v1_AzureFilePersistentVolumeSource ref =
     OpenAPIDefinition
       (SchemaProps
         [Type [''object''],
          Properties
             [(''secretName'', SchemaProps [Default (VStr []), Type [''string''], Format []]),
              (''shareName'', SchemaProps [Default (VStr []), Type [''string''], Format []]),
              (''readOnly'', SchemaProps [Type [''boolean''], Format []]),
              (''secretNamespace'', SchemaProps [Type [''string''], Format []])],
          Required [''secretName'', ''shareName'']])
       []"

definition schema_k8sio_api_core_v1_AzureFileVolumeSource ::
  "(string \<Rightarrow> 'r) \<Rightarrow> 'r OpenAPIDefinition" where
  [schema_defs]: "schema_k8sio_api_core_v1_AzureFileVolumeSource ref =
     OpenAPIDefinition
       (SchemaProps
         [Type [''object''],
          Properties
             [(''secretName'', SchemaProps [Default (VStr []), Type [''string''], Format []]),
              (''shareName'', SchemaProps [Default (VStr []), Type [''string''], Format []]),
              (''readOnly'', SchemaProps [Type [''boolean''], Format []])],
          Required [''secretName'', ''shareName'']])
       []"

definition schema_k8sio_api_core_v1_Binding ::
  "(string \<Rightarrow> 'r) \<Rightarrow> 'r OpenAPIDefinition" where
  [schema_defs]: "schema_k8sio_api_core_v1_Binding ref =
     OpenAPIDefinition
       (SchemaProps
         [Type [''object''],
          Properties
             [(''kind'', SchemaProps [Type [''string''], Format []]),
              (''apiVersion'', SchemaProps [Type [''string''], Format []]),
              (''metadata'', SchemaProps [Default (VObj []), Ref (ref (meta_v1 ''ObjectMeta''))]),
              (''target'', SchemaProps [Default (VObj []), Ref (ref (core_v1 ''ObjectReference''))])],
          Required [''target'']])
       [core_v1 ''ObjectReference'', meta_v1 ''ObjectMeta'']"

definition schema_k8sio_api_core_v1_CSIPersistentVolumeSource ::
  "(string \<Rightarrow> 'r) \<Rightarrow> 'r OpenAPIDefinition" where
  [schema_defs]: "schema_k8sio_api_core_v1_CSIPersistentVolumeSource ref =
     OpenAPIDefinition
       (SchemaProps
         [Type [''object''],
          Properties
             [(''driver'', SchemaProps [Default (VStr []), Type [''string''], Format []]),
              (''volumeHandle'', SchemaProps [Default (VStr []), Type [''string''], Format []]),
              (''readOnly'', SchemaProps [Type [''boolean''], Format []]),
              (''fsType'', SchemaProps [Type [''string''], Format []]),
              (''volumeAttributes'', SchemaProps
                   [Type [''object''],
                    AdditionalProperties True (SchemaProps [Default (VStr []), Type [''string''], Format []])]),
              (''controllerPublishSecretRef'', SchemaProps [Ref (ref (core_v1 ''SecretReference''))]),
              (''nodeStageSecretRef'', SchemaProps [Ref (ref (core_v1 ''SecretReference''))]),
              (''nodePublishSecretRef'', SchemaProps [Ref (ref (core_v1 ''SecretReference''))]),
              (''controllerExpandSecretRef'', SchemaProps [Ref (ref (core_v1 ''SecretReference''))]),
              (''nodeExpandSecretRef'', SchemaProps [Ref (ref (core_v1 ''SecretReference''))])],
          Required [''driver'', ''volumeHandle'']])
       [core_v1 ''SecretReference'']"

definition schema_k8sio_api_core_v1_CSIVolumeSource ::
  "(string \<Rightarrow> 'r) \<Rightarrow> 'r OpenAPIDefinition" where
  [schema_defs]: "schema_k8sio_api_core_v1_CSIVolumeSource ref =
     OpenAPIDefinition
       (SchemaProps
         [Type [''object''],
          Properties
             [(''driver'', SchemaProps [Default (VStr []), Type [''string''], Format []]),
              (''readOnly'', SchemaProps [Type [''boolean''], Format []]),
              (''fsType'', SchemaProps [Type [''string''], Format []]),
              (''volumeAttributes'', SchemaProps
                   [Type [''object''],
                    AdditionalProperties True (SchemaProps [Default (VStr []), Type [''string''], Format []])]),
              (''nodePublishSecretRef'', SchemaProps [Ref (ref (core_v1 ''LocalObjectReference''))])],
          Required [''driver'']])
       [core_v1 ''LocalObjectReference'']"

definition schema_k8sio_api_core_v1_Capabilities ::
  "(string \<Rightarrow> 'r) \<Rightarrow> 'r OpenAPIDefinition" where
  [schema_defs]: "schema_k8sio_api_core_v1_Capabilities ref =
     OpenAPIDefinition
       (SchemaProps
         [Type [''object''],
          Properties
             [(''add'', SchemaProps
                   [Type [''array''],
                    Items (SchemaProps [Default (VStr []), Type [''string''], Format []]),
                    Extensions [(''x-kubernetes-list-type'', VStr ''atomic'')]]),
              (''drop'', SchemaProps
                   [Type [''array''],
                    Items (SchemaProps [Default (VStr []), Type [''string''], Format []]),
                    Extensions [(''x-kubernetes-list-type'', VStr ''atomic'')]])]])
       []"

definition schema_k8sio_api_core_v1_CephFSPersistentVolumeSource ::
  "(string \<Rightarrow> 'r) \<Rightarrow> 'r OpenAPIDefinition" where
  [schema_defs]: "schema_k8sio_api_core_v1_CephFSPersistentVolumeSource ref =
     OpenAPIDefinition
       (SchemaProps
         [Type [''object''],
          Properties
             [(''monitors'', SchemaProps
                   [Type [''array''],
                    Items (SchemaProps [Default (VStr []), Type [''string''], Format []]),
                    Extensions [(''x-kubernetes-list-type'', VStr ''atomic'')]]),
              (''path'', SchemaProps [Type [''string''], Format []]),
              (''user'', SchemaProps [Type [''string''], Format []]),
              (''secretFile'', SchemaProps [Type [''string''], Format []]),
              (''secretRef'', SchemaProps [Ref (ref (core_v1 ''SecretReference''))]),
              (''readOnly'', SchemaProps [Type [''boolean''], Format []])],
          Required [''monitors'']])
       [core_v1 ''SecretReference'']"

definition schema_k8sio_api_core_v1_CephFSVolumeSource ::
  "(string \<Rightarrow> 'r) \<Rightarrow> 'r OpenAPIDefinition" where
  [schema_defs]: "schema_k8sio_api_core_v1_CephFSVolumeSource ref =
     OpenAPIDefinition
       (SchemaProps
         [Type [''object''],
          Properties
             [(''monitors'', SchemaProps
                   [Type [''array''],
                    Items (SchemaProps [Default (VStr []), Type [''string''], Format []]),
                    Extensions [(''x-kubernetes-list-type'', VStr ''atomic'')]]),
              (''path'', SchemaProps [Type [''string''], Format []]),
              (''user'', SchemaProps [Type [''string''], Format []]),
              (''secretFile'', SchemaProps [Type [''string''], Format []]),
              (''secretRef'', SchemaProps [Ref (ref (core_v1 ''LocalObjectReference''))]),
              (''readOnly'', SchemaProps [Type [''boolean''], Format []])],
          Required [''monitors'']])
       [core_v1 ''LocalObjectReference'']"

definition schema_k8sio_api_core_v1_CinderPersistentVolumeSource ::
  "(string \<Rightarrow> 'r) \<Rightarrow> 'r OpenAPIDefinition" where
  [schema_defs]: "schema_k8sio_api_core_v1_CinderPersistentVolumeSource ref =
     OpenAPIDefinition
       (SchemaProps
         [Type [''object''],
          Properties
             [(''volumeID'', SchemaProps [Default (VStr []), Type [''string''], Format []]),
              (''fsType'', SchemaProps [Type [''string''], Format []]),
              (''readOnly'', SchemaProps [Type [''boolean''], Format []]),
              (''secretRef'', SchemaProps [Ref (ref (core_v1 ''SecretReference''))])],
          Required [''volumeID'']])
       [core_v1 ''SecretReference'']"

definition schema_k8sio_api_core_v1_CinderVolumeSource ::
  "(string \<Rightarrow> 'r) \<Rightarrow> 'r OpenAPIDefinition" where
  [schema_defs]: "schema_k8sio_api_core_v1_CinderVolumeSource ref =
     OpenAPIDefinition
       (SchemaProps
         [Type [''object''],
          Properties
             [(''volumeID'', SchemaProps [Default (VStr []), Type [''string''], Format []]),
              (''fsType'', SchemaProps [Type [''string''], Format []]),
              (''readOnly'', SchemaProps [Type [''boolean''], Format []]),
              (''secretRef'', SchemaProps [Ref (ref (core_v1 ''LocalObjectReference''))])],
          Required [''volumeID'']])
       [core_v1 ''LocalObjectReference'']"

definition schema_k8sio_api_core_v1_ClientIPConfig ::
  "(string \<Rightarrow> 'r) \<Rightarrow> 'r OpenAPIDefinition" where
  [schema_defs]: "schema_k8sio_api_core_v1_ClientIPConfig ref =
     OpenAPIDefinition
       (SchemaProps
         [Type [''object''],
          Properties
             [(''timeoutSeconds'', SchemaProps [Type [''integer''], Format ''int32''])]])
       []"

definition schema_k8sio_api_core_v1_ClusterTrustBundleProjection ::
  "(string \<Rightarrow> 'r) \<Rightarrow> 'r OpenAPIDefinition" where
  [schema_defs]: "schema_k8sio_api_core_v1_ClusterTrustBundleProjection ref =
     OpenAPIDefinition
       (SchemaProps
         [Type [''object''],
          Properties
             [(''name'', SchemaProps [Type [''string''], Format []]),
              (''signerName'', SchemaProps [Type [''string''], Format []]),
              (''labelSelector'', SchemaProps [Ref (ref (meta_v1 ''LabelSelector''))]),
              (''optional'', SchemaProps [Type [''boolean''], Format []]),
              (''path'', SchemaProps [Default (VStr []), Type [''string''], Format []])],
          Required [''path'']])
       [meta_v1 ''LabelSelector'']"

definition schema_k8sio_api_core_v1_ComponentCondition ::
  "(string \<Rightarrow> 'r) \<Rightarrow> 'r OpenAPIDefinition" where
  [schema_defs]: "schema_k8sio_api_core_v1_ComponentCondition ref =
     OpenAPIDefinition
       (SchemaProps
         [Type [''object''],
          Properties
             [(''type'', SchemaProps [Default (VStr []), Type [''string''], Format []]),
              (''status'', SchemaProps [Default (VStr []), Type [''string''], Format []]),
              (''message'', SchemaProps [Type [''string''], Format []]),
              (''error'', SchemaProps [Type [''string''], Format []])],
          Required [''type'', ''status'']])
       []"

definition schema_k8sio_api_core_v1_ComponentStatus ::
  "(string \<Rightarrow> 'r) \<Rightarrow> 'r OpenAPIDefinition" where
  [schema_defs]: "schema_k8sio_api_core_v1_ComponentStatus ref =
     OpenAPIDefinition
       (SchemaProps
         [Type [''object''],
          Properties
             [(''kind'', SchemaProps [Type [''string''], Format []]),
              (''apiVersion'', SchemaProps [Type [''string''], Format []]),
              (''metadata'', SchemaProps [Default (VObj []), Ref (ref (meta_v1 ''ObjectMeta''))]),
              (''conditions'', SchemaProps
                   [Type [''array''],
                    Items (SchemaProps
                           [Default (VObj []),
                            Ref (ref (core_v1 ''ComponentCondition''))]),
                    Extensions [(''x-kubernetes-list-map-keys'', VArr [VStr ''type'']), (''x-kubernetes-list-type'', VStr ''map''), (''x-kubernetes-patch-merge-key'', VStr ''type''), (''x-kubernetes-patch-strategy'', VStr ''merge'')]])]])
       [core_v1 ''ComponentCondition'', meta_v1 ''ObjectMeta'']"

definition schema_k8sio_api_core_v1_ComponentStatusList ::
  "(string \<Rightarrow> 'r) \<Rightarrow> 'r OpenAPIDefinition" where
  [schema_defs]: "schema_k8sio_api_core_v1_ComponentStatusList ref =
     OpenAPIDefinition
       (SchemaProps
         [Type [''object''],
          Properties
             [(''kind'', SchemaProps [Type [''string''], Format []]),
              (''apiVersion'', SchemaProps [Type [''string''], Format []]),
              (''metadata'', SchemaProps [Default (VObj []), Ref (ref (meta_v1 ''ListMeta''))]),
              (''items'', SchemaProps
                   [Type [''array''],
                    Items (SchemaProps [Default (VObj []), Ref (ref (core_v1 ''ComponentStatus''))])])],
          Required [''items'']])
       [core_v1 ''ComponentStatus'', meta_v1 ''ListMeta'']"

definition schema_k8sio_api_core_v1_ConfigMap ::
  "(string \<Rightarrow> 'r) \<Rightarrow> 'r OpenAPIDefinition" where
  [schema_defs]: "schema_k8sio_api_core_v1_ConfigMap ref =
     OpenAPIDefinition
       (SchemaProps
         [Type [''object''],
          Properties
             [(''kind'', SchemaProps [Type [''string''], Format []]),
              (''apiVersion'', SchemaProps [Type [''string''], Format []]),
              (''metadata'', SchemaProps [Default (VObj []), Ref (ref (meta_v1 ''ObjectMeta''))]),
              (''immutable'', SchemaProps [Type [''boolean''], Format []]),
              (''data'', SchemaProps
                   [Type [''object''],
                    AdditionalProperties True (SchemaProps [Default (VStr []), Type [''string''], Format []])]),
              (''binaryData'', SchemaProps
                   [Type [''object''],
                    AdditionalProperties True (SchemaProps [Type [''string''], Format ''byte''])])]])
       [meta_v1 ''ObjectMeta'']"

definition schema_k8sio_api_core_v1_ConfigMapEnvSource ::
  "(string \<Rightarrow> 'r) \<Rightarrow> 'r OpenAPIDefinition" where
  [schema_defs]: "schema_k8sio_api_core_v1_ConfigMapEnvSource ref =
     OpenAPIDefinition
       (SchemaProps
         [Type [''object''],
          Properties
             [(''name'', SchemaProps [Default (VStr []), Type [''string''], Format []]),
              (''optional'', SchemaProps [Type [''boolean''], Format []])]])
       []"

definition schema_k8sio_api_core_v1_ConfigMapKeySelector ::
  "(string \<Rightarrow> 'r) \<Rightarrow> 'r OpenAPIDefinition" where
  [schema_defs]: "schema_k8sio_api_core_v1_ConfigMapKeySelector ref =
     OpenAPIDefinition
       (SchemaProps
         [Type [''object''],
          Properties
             [(''name'', SchemaProps [Default (VStr []), Type [''string''], Format []]),
              (''key'', SchemaProps [Default (VStr []), Type [''string''], Format []]),
              (''optional'', SchemaProps [Type [''boolean''], Format []])],
          Required [''key''],
          Extensions [(''x-kubernetes-map-type'', VStr ''atomic'')]])
       []"

definition schema_k8sio_api_core_v1_ConfigMapList ::
  "(string \<Rightarrow> 'r) \<Rightarrow> 'r OpenAPIDefinition" where
  [schema_defs]: "schema_k8sio_api_core_v1_ConfigMapList ref =
     OpenAPIDefinition
       (SchemaProps
         [Type [''object''],
          Properties
             [(''kind'', SchemaProps [Type [''string''], Format []]),
              (''apiVersion'', SchemaProps [Type [''string''], Format []]),
              (''metadata'', SchemaProps [Default (VObj []), Ref (ref (meta_v1 ''ListMeta''))]),
              (''items'', SchemaProps
                   [Type [''array''],
                    Items (SchemaProps [Default (VObj []), Ref (ref (core_v1 ''ConfigMap''))])])],
          Required [''items'']])
       [core_v1 ''ConfigMap'', meta_v1 ''ListMeta'']"

definition schema_k8sio_api_core_v1_ConfigMapNodeConfigSource ::
  "(string \<Rightarrow> 'r) \<Rightarrow> 'r OpenAPIDefinition" where
  [schema_defs]: "schema_k8sio_api_core_v1_ConfigMapNodeConfigSource ref =
     OpenAPIDefinition
       (SchemaProps
         [Type [''object''],
          Properties
             [(''namespace'', SchemaProps [Default (VStr []), Type [''string''], Format []]),
              (''name'', SchemaProps [Default (VStr []), Type [''string''], Format []]),
              (''uid'', SchemaProps [Type [''string''], Format []]),
              (''resourceVersion'', SchemaProps [Type [''string''], Format []]),
              (''kubeletConfigKey'', SchemaProps [Default (VStr []), Type [''string''], Format []])],
          Required [''namespace'', ''name'', ''kubeletConfigKey'']])
       []"

definition schema_k8sio_api_core_v1_ConfigMapProjection ::
  "(string \<Rightarrow> 'r) \<Rightarrow> 'r OpenAPIDefinition" where
  [schema_defs]: "schema_k8sio_api_core_v1_ConfigMapProjection ref =
     OpenAPIDefinition
       (SchemaProps
         [Type [''object''],
          Properties
             [(''name'', SchemaProps [Default (VStr []), Type [''string''], Format []]),
              (''items'', SchemaProps
                   [Type [''array''],
                    Items (SchemaProps [Default (VObj []), Ref (ref (core_v1 ''KeyToPath''))]),
                    Extensions [(''x-kubernetes-list-type'', VStr ''atomic'')]]),
              (''optional'', SchemaProps [Type [''boolean''], Format []])]])
       [core_v1 ''KeyToPath'']"

definition schema_k8sio_api_core_v1_ConfigMapVolumeSource ::
  "(string \<Rightarrow> 'r) \<Rightarrow> 'r OpenAPIDefinition" where
  [schema_defs]: "schema_k8sio_api_core_v1_ConfigMapVolumeSource ref =
     OpenAPIDefinition
       (SchemaProps
         [Type [''object''],
          Properties
             [(''name'', SchemaProps [Default (VStr []), Type [''string''], Format []]),
              (''items'', SchemaProps
                   [Type [''array''],
                    Items (SchemaProps [Default (VObj []), Ref (ref (core_v1 ''KeyToPath''))]),
                    Extensions [(''x-kubernetes-list-type'', VStr ''atomic'')]]),
              (''defaultMode'', SchemaProps [Type [''integer''], Format ''int32'']),
              (''optional'', SchemaProps [Type [''boolean''], Format []])]])
       [core_v1 ''KeyToPath'']"

definition schema_k8sio_api_core_v1_Container ::
  "(string \<Rightarrow> 'r) \<Rightarrow> 'r OpenAPIDefinition" where
  [schema_defs]: "schema_k8sio_api_core_v1_Container ref =
     OpenAPIDefinition
       (SchemaProps
         [Type [''object''],
          Properties
             [(''name'', SchemaProps [Default (VStr []), Type [''string''], Format []]),
              (''image'', SchemaProps [Type [''string''], Format []]),
              (''command'', SchemaProps
                   [Type [''array''],
                    Items (SchemaProps [Default (VStr []), Type [''string''], Format []]),
                    Extensions [(''x-kubernetes-list-type'', VStr ''atomic'')]]),
              (''args'', SchemaProps
                   [Type [''array''],
                    Items (SchemaProps [Default (VStr []), Type [''string''], Format []]),
                    Extensions [(''x-kubernetes-list-type'', VStr ''atomic'')]]),
              (''workingDir'', SchemaProps [Type [''string''], Format []]),
              (''ports'', SchemaProps
                   [Type [''array''],
                    Items (SchemaProps [Default (VObj []), Ref (ref (core_v1 ''ContainerPort''))]),
                    Extensions [(''x-kubernetes-list-map-keys'', VArr [VStr ''containerPort'', VStr ''protocol'']), (''x-kubernetes-list-type'', VStr ''map''), (''x-kubernetes-patch-merge-key'', VStr ''containerPort''), (''x-kubernetes-patch-strategy'', VStr ''merge'')]]),
              (''envFrom'', SchemaProps
                   [Type [''array''],
                    Items (SchemaProps [Default (VObj []), Ref (ref (core_v1 ''EnvFromSource''))]),
                    Extensions [(''x-kubernetes-list-type'', VStr ''atomic'')]]),
              (''env'', SchemaProps
                   [Type [''array''],
                    Items (SchemaProps [Default (VObj []), Ref (ref (core_v1 ''EnvVar''))]),
                    Extensions [(''x-kubernetes-list-map-keys'', VArr [VStr ''name'']), (''x-kubernetes-list-type'', VStr ''map''), (''x-kubernetes-patch-merge-key'', VStr ''name''), (''x-kubernetes-patch-strategy'', VStr ''merge'')]]),
              (''resources'', SchemaProps [Default (VObj []), Ref (ref (core_v1 ''ResourceRequirements''))]),
              (''resizePolicy'', SchemaProps
                   [Type [''array''],
                    Items (SchemaProps
                           [Default (VObj []),
                            Ref (ref (core_v1 ''ContainerResizePolicy''))]),
                    Extensions [(''x-kubernetes-list-type'', VStr ''atomic'')]]),
              (''restartPolicy'', SchemaProps [Type [''string''], Format []]),
              (''restartPolicyRules'', SchemaProps
                   [Type [''array''],
                    Items (SchemaProps
                           [Default (VObj []),
                            Ref (ref (core_v1 ''ContainerRestartRule''))]),
                    Extensions [(''x-kubernetes-list-type'', VStr ''atomic'')]]),
              (''volumeMounts'', SchemaProps
                   [Type [''array''],
                    Items (SchemaProps [Default (VObj []), Ref (ref (core_v1 ''VolumeMount''))]),
                    Extensions [(''x-kubernetes-list-map-keys'', VArr [VStr ''mountPath'']), (''x-kubernetes-list-type'', VStr ''map''), (''x-kubernetes-patch-merge-key'', VStr ''mountPath''), (''x-kubernetes-patch-strategy'', VStr ''merge'')]]),
              (''volumeDevices'', SchemaProps
                   [Type [''array''],
                    Items (SchemaProps [Default (VObj []), Ref (ref (core_v1 ''VolumeDevice''))]),
                    Extensions [(''x-kubernetes-list-map-keys'', VArr [VStr ''devicePath'']), (''x-kubernetes-list-type'', VStr ''map''), (''x-kubernetes-patch-merge-key'', VStr ''devicePath''), (''x-kubernetes-patch-strategy'', VStr ''merge'')]]),
              (''livenessProbe'', SchemaProps [Ref (ref (core_v1 ''Probe''))]),
              (''readinessProbe'', SchemaProps [Ref (ref (core_v1 ''Probe''))]),
              (''startupProbe'', SchemaProps [Ref (ref (core_v1 ''Probe''))]),
              (''lifecycle'', SchemaProps [Ref (ref (core_v1 ''Lifecycle''))]),
              (''terminationMessagePath'', SchemaProps [Type [''string''], Format []]),
              (''terminationMessagePolicy'', SchemaProps
                   [Type [''string''],
                    Format [],
                    Enum [VStr ''FallbackToLogsOnError'', VStr ''File'']]),
              (''imagePullPolicy'', SchemaProps
                   [Type [''string''],
                    Format [],
                    Enum [VStr ''Always'', VStr ''IfNotPresent'', VStr ''Never'']]),
              (''securityContext'', SchemaProps [Ref (ref (core_v1 ''SecurityContext''))]),
              (''stdin'', SchemaProps [Type [''boolean''], Format []]),
              (''stdinOnce'', SchemaProps [Type [''boolean''], Format []]),
              (''tty'', SchemaProps [Type [''boolean''], Format []])],
          Required [''name'']])
       [core_v1 ''ContainerPort'', core_v1 ''ContainerResizePolicy'',
        core_v1 ''ContainerRestartRule'', core_v1 ''EnvFromSource'', core_v1 ''EnvVar'',
        core_v1 ''Lifecycle'', core_v1 ''Probe'', core_v1 ''ResourceRequirements'',
        core_v1 ''SecurityContext'', core_v1 ''VolumeDevice'', core_v1 ''VolumeMount'']"

definition schema_k8sio_api_core_v1_ContainerExtendedResourceRequest ::
  "(string \<Rightarrow> 'r) \<Rightarrow> 'r OpenAPIDefinition" where
  [schema_defs]: "schema_k8sio_api_core_v1_ContainerExtendedResourceRequest ref =
     OpenAPIDefinition
       (SchemaProps
         [Type [''object''],
          Properties
             [(''containerName'', SchemaProps [Default (VStr []), Type [''string''], Format []]),
              (''resourceName'', SchemaProps [Default (VStr []), Type [''string''], Format []]),
              (''requestName'', SchemaProps [Default (VStr []), Type [''string''], Format []])],
          Required [''containerName'', ''resourceName'', ''requestName'']])
       []"

definition schema_k8sio_api_core_v1_ContainerImage ::
  "(string \<Rightarrow> 'r) \<Rightarrow> 'r OpenAPIDefinition" where
  [schema_defs]: "schema_k8sio_api_core_v1_ContainerImage ref =
     OpenAPIDefinition
       (SchemaProps
         [Type [''object''],
          Properties
             [(''names'', SchemaProps
                   [Type [''array''],
                    Items (SchemaProps [Default (VStr []), Type [''string''], Format []]),
                    Extensions [(''x-kubernetes-list-type'', VStr ''atomic'')]]),
              (''sizeBytes'', SchemaProps [Type [''integer''], Format ''int64''])]])
       []"

definition schema_k8sio_api_core_v1_ContainerPort ::
  "(string \<Rightarrow> 'r) \<Rightarrow> 'r OpenAPIDefinition" where
  [schema_defs]: "schema_k8sio_api_core_v1_ContainerPort ref =
     OpenAPIDefinition
       (SchemaProps
         [Type [''object''],
          Properties
             [(''name'', SchemaProps [Type [''string''], Format []]),
              (''hostPort'', SchemaProps [Type [''integer''], Format ''int32'']),
              (''containerPort'', SchemaProps [Default (VInt 0), Type [''integer''], Format ''int32'']),
              (''protocol'', SchemaProps
                   [Default (VStr ''TCP''),
                    Type [''string''],
                    Format [],
                    Enum [VStr ''SCTP'', VStr ''TCP'', VStr ''UDP'']]),
              (''hostIP'', SchemaProps [Type [''string''], Format []])],
          Required [''containerPort'']])
       []"

definition schema_k8sio_api_core_v1_ContainerResizePolicy ::
  "(string \<Rightarrow> 'r) \<Rightarrow> 'r OpenAPIDefinition" where
  [schema_defs]: "schema_k8sio_api_core_v1_ContainerResizePolicy ref =
     OpenAPIDefinition
       (SchemaProps
         [Type [''object''],
          Properties
             [(''resourceName'', SchemaProps [Default (VStr []), Type [''string''], Format []]),
              (''restartPolicy'', SchemaProps [Default (VStr []), Type [''string''], Format []])],
          Required [''resourceName'', ''restartPolicy'']])
       []"

definition schema_k8sio_api_core_v1_ContainerRestartRule ::
  "(string \<Rightarrow> 'r) \<Rightarrow> 'r OpenAPIDefinition" where
  [schema_defs]: "schema_k8sio_api_core_v1_ContainerRestartRule ref =
     OpenAPIDefinition
       (SchemaProps
         [Type [''object''],
          Properties
             [(''action'', SchemaProps [Type [''string''], Format []]),
              (''exitCodes'', SchemaProps [Ref (ref (core_v1 ''ContainerRestartRuleOnExitCodes''))])],
          Required [''action'']])
       [core_v1 ''ContainerRestartRuleOnExitCodes'']"

definition schema_k8sio_api_core_v1_ContainerRestartRuleOnExitCodes ::
  "(string \<Rightarrow> 'r) \<Rightarrow> 'r OpenAPIDefinition" where
  [schema_defs]: "schema_k8sio_api_core_v1_ContainerRestartRuleOnExitCodes ref =
     OpenAPIDefinition
       (SchemaProps
         [Type [''object''],
          Properties
             [(''operator'', SchemaProps [Type [''string''], Format []]),
              (''values'', SchemaProps
                   [Type [''array''],
                    Items (SchemaProps [Default (VInt 0), Type [''integer''], Format ''int32'']),
                    Extensions [(''x-kubernetes-list-type'', VStr ''set'')]])],
          Required [''operator'']])
       []"

definition schema_k8sio_api_core_v1_ContainerState ::
  "(string \<Rightarrow> 'r) \<Rightarrow> 'r OpenAPIDefinition" where
  [schema_defs]: "schema_k8sio_api_core_v1_ContainerState ref =
     OpenAPIDefinition
       (SchemaProps
         [Type [''object''],
          Properties
             [(''waiting'', SchemaProps [Ref (ref (core_v1 ''ContainerStateWaiting''))]),
              (''running'', SchemaProps [Ref (ref (core_v1 ''ContainerStateRunning''))]),
              (''terminated'', SchemaProps [Ref (ref (core_v1 ''ContainerStateTerminated''))])]])
       [core_v1 ''ContainerStateRunning'', core_v1 ''ContainerStateTerminated'',
        core_v1 ''ContainerStateWaiting'']"

definition schema_k8sio_api_core_v1_ContainerStateRunning ::
  "(string \<Rightarrow> 'r) \<Rightarrow> 'r OpenAPIDefinition" where
  [schema_defs]: "schema_k8sio_api_core_v1_ContainerStateRunning ref =
     OpenAPIDefinition
       (SchemaProps
         [Type [''object''],
          Properties
             [(''startedAt'', SchemaProps [Ref (ref (meta_v1 ''Time''))])]])
       [meta_v1 ''Time'']"

definition schema_k8sio_api_core_v1_ContainerStateTerminated ::
  "(string \<Rightarrow> 'r) \<Rightarrow> 'r OpenAPIDefinition" where
  [schema_defs]: "schema_k8sio_api_core_v1_ContainerStateTerminated ref =
     OpenAPIDefinition
       (SchemaProps
         [Type [''object''],
          Properties
             [(''exitCode'', SchemaProps [Default (VInt 0), Type [''integer''], Format ''int32'']),
              (''signal'', SchemaProps [Type [''integer''], Format ''int32'']),
              (''reason'', SchemaProps [Type [''string''], Format []]),
              (''message'', SchemaProps [Type [''string''], Format []]),
              (''startedAt'', SchemaProps [Ref (ref (meta_v1 ''Time''))]),
              (''finishedAt'', SchemaProps [Ref (ref (meta_v1 ''Time''))]),
              (''containerID'', SchemaProps [Type [''string''], Format []])],
          Required [''exitCode'']])
       [meta_v1 ''Time'']"

definition schema_k8sio_api_core_v1_ContainerStateWaiting ::
  "(string \<Rightarrow> 'r) \<Rightarrow> 'r OpenAPIDefinition" where
  [schema_defs]: "schema_k8sio_api_core_v1_ContainerStateWaiting ref =
     OpenAPIDefinition
       (SchemaProps
         [Type [''object''],
          Properties
             [(''reason'', SchemaProps [Type [''string''], Format []]),
              (''message'', SchemaProps [Type [''string''], Format []])]])
       []"

definition schema_k8sio_api_core_v1_ContainerStatus ::
  "(string \<Rightarrow> 'r) \<Rightarrow> 'r OpenAPIDefinition" where
  [schema_defs]: "schema_k8sio_api_core_v1_ContainerStatus ref =
     OpenAPIDefinition
       (SchemaProps
         [Type [''object''],
          Properties
             [(''name'', SchemaProps [Default (VStr []), Type [''string''], Format []]),
              (''state'', SchemaProps [Default (VObj []), Ref (ref (core_v1 ''ContainerState''))]),
              (''lastState'', SchemaProps [Default (VObj []), Ref (ref (core_v1 ''ContainerState''))]),
              (''ready'', SchemaProps [Default (VBool False), Type [''boolean''], Format []]),
              (''restartCount'', SchemaProps [Default (VInt 0), Type [''integer''], Format ''int32'']),
              (''image'', SchemaProps [Default (VStr []), Type [''string''], Format []]),
              (''imageID'', SchemaProps [Default (VStr []), Type [''string''], Format []]),
              (''containerID'', SchemaProps [Type [''string''], Format []]),
              (''started'', SchemaProps [Type [''boolean''], Format []]),
              (''allocatedResources'', SchemaProps
                   [Type [''object''],
                    AdditionalProperties True (SchemaProps [Ref (ref (pkg_resource ''Quantity''))])]),
              (''resources'', SchemaProps [Ref (ref (core_v1 ''ResourceRequirements''))]),
              (''volumeMounts'', SchemaProps
                   [Type [''array''],
                    Items (SchemaProps [Default (VObj []), Ref (ref (core_v1 ''VolumeMountStatus''))]),
                    Extensions [(''x-kubernetes-list-map-keys'', VArr [VStr ''mountPath'']), (''x-kubernetes-list-type'', VStr ''map''), (''x-kubernetes-patch-merge-key'', VStr ''mountPath''), (''x-kubernetes-patch-strategy'', VStr ''merge'')]]),
              (''user'', SchemaProps [Ref (ref (core_v1 ''ContainerUser''))]),
              (''allocatedResourcesStatus'', SchemaProps
                   [Type [''array''],
                    Items (SchemaProps [Default (VObj []), Ref (ref (core_v1 ''ResourceStatus''))]),
                    Extensions [(''x-kubernetes-list-map-keys'', VArr [VStr ''name'']), (''x-kubernetes-list-type'', VStr ''map''), (''x-kubernetes-patch-merge-key'', VStr ''name''), (''x-kubernetes-patch-strategy'', VStr ''merge'')]]),
              (''stopSignal'', SchemaProps
                   [Type [''string''],
                    Format [],
                    Enum [VStr ''SIGABRT'', VStr ''SIGALRM'', VStr ''SIGBUS'', VStr ''SIGCHLD'', VStr ''SIGCLD'', VStr ''SIGCONT'', VStr ''SIGFPE'', VStr ''SIGHUP'', VStr ''SIGILL'', VStr ''SIGINT'', VStr ''SIGIO'', VStr ''SIGIOT'', VStr ''SIGKILL'', VStr ''SIGPIPE'', VStr ''SIGPOLL'', VStr ''SIGPROF'', VStr ''SIGPWR'', VStr ''SIGQUIT'', VStr ''SIGRTMAX'', VStr ''SIGRTMAX-1'', VStr ''SIGRTMAX-10'', VStr ''SIGRTMAX-11'', VStr ''SIGRTMAX-12'', VStr ''SIGRTMAX-13'', VStr ''SIGRTMAX-14'', VStr ''SIGRTMAX-2'', VStr ''SIGRTMAX-3'', VStr ''SIGRTMAX-4'', VStr ''SIGRTMAX-5'', VStr ''SIGRTMAX-6'', VStr ''SIGRTMAX-7'', VStr ''SIGRTMAX-8'', VStr ''SIGRTMAX-9'', VStr ''SIGRTMIN'', VStr ''SIGRTMIN+1'', VStr ''SIGRTMIN+10'', VStr ''SIGRTMIN+11'', VStr ''SIGRTMIN+12'', VStr ''SIGRTMIN+13'', VStr ''SIGRTMIN+14'', VStr ''SIGRTMIN+15'', VStr ''SIGRTMIN+2'', VStr ''SIGRTMIN+3'', VStr ''SIGRTMIN+4'', VStr ''SIGRTMIN+5'', VStr ''SIGRTMIN+6'', VStr ''SIGRTMIN+7'', VStr ''SIGRTMIN+8'', VStr ''SIGRTMIN+9'', VStr ''SIGSEGV'', VStr ''SIGSTKFLT'', VStr ''SIGSTOP'', VStr ''SIGSYS'', VStr ''SIGTERM'', VStr ''SIGTRAP'', VStr ''SIGTSTP'', VStr ''SIGTTIN'', VStr ''SIGTTOU'', VStr ''SIGURG'', VStr ''SIGUSR1'', VStr ''SIGUSR2'', VStr ''SIGVTALRM'', VStr ''SIGWINCH'', VStr ''SIGXCPU'', VStr ''SIGXFSZ'']])],
          Required [''name'', ''ready'', ''restartCount'', ''image'', ''imageID'']])
       [core_v1 ''ContainerState'', core_v1 ''ContainerUser'', core_v1 ''ResourceRequirements'',
        core_v1 ''ResourceStatus'', core_v1 ''VolumeMountStatus'', pkg_resource ''Quantity'']"

definition schema_k8sio_api_core_v1_ContainerUser ::
  "(string \<Rightarrow> 'r) \<Rightarrow> 'r OpenAPIDefinition" where
  [schema_defs]: "schema_k8sio_api_core_v1_ContainerUser ref =
     OpenAPIDefinition
       (SchemaProps
         [Type [''object''],
          Properties
             [(''linux'', SchemaProps [Ref (ref (core_v1 ''LinuxContainerUser''))])]])
       [core_v1 ''LinuxContainerUser'']"

definition schema_k8sio_api_core_v1_DaemonEndpoint ::
  "(string \<Rightarrow> 'r) \<Rightarrow> 'r OpenAPIDefinition" where
  [schema_defs]: "schema_k8sio_api_core_v1_DaemonEndpoint ref =
     OpenAPIDefinition
       (SchemaProps
         [Type [''object''],
          Properties
             [(''Port'', SchemaProps [Default (VInt 0), Type [''integer''], Format ''int32''])],
          Required [''Port'']])
       []"

definition schema_k8sio_api_core_v1_DownwardAPIProjection ::
  "(string \<Rightarrow> 'r) \<Rightarrow> 'r OpenAPIDefinition" where
  [schema_defs]: "schema_k8sio_api_core_v1_DownwardAPIProjection ref =
     OpenAPIDefinition
       (SchemaProps
         [Type [''object''],
          Properties
             [(''items'', SchemaProps
                   [Type [''array''],
                    Items (SchemaProps
                           [Default (VObj []),
                            Ref (ref (core_v1 ''DownwardAPIVolumeFile''))]),
                    Extensions [(''x-kubernetes-list-type'', VStr ''atomic'')]])]])
       [core_v1 ''DownwardAPIVolumeFile'']"

definition schema_k8sio_api_core_v1_DownwardAPIVolumeFile ::
  "(string \<Rightarrow> 'r) \<Rightarrow> 'r OpenAPIDefinition" where
  [schema_defs]: "schema_k8sio_api_core_v1_DownwardAPIVolumeFile ref =
     OpenAPIDefinition
       (SchemaProps
         [Type [''object''],
          Properties
             [(''path'', SchemaProps [Default (VStr []), Type [''string''], Format []]),
              (''fieldRef'', SchemaProps [Ref (ref (core_v1 ''ObjectFieldSelector''))]),
              (''resourceFieldRef'', SchemaProps [Ref (ref (core_v1 ''ResourceFieldSelector''))]),
              (''mode'', SchemaProps [Type [''integer''], Format ''int32''])],
          Required [''path'']])
       [core_v1 ''ObjectFieldSelector'', core_v1 ''ResourceFieldSelector'']"

definition schema_k8sio_api_core_v1_DownwardAPIVolumeSource ::
  "(string \<Rightarrow> 'r) \<Rightarrow> 'r OpenAPIDefinition" where
  [schema_defs]: "schema_k8sio_api_core_v1_DownwardAPIVolumeSource ref =
     OpenAPIDefinition
       (SchemaProps
         [Type [''object''],
          Properties
             [(''items'', SchemaProps
                   [Type [''array''],
                    Items (SchemaProps
                           [Default (VObj []),
                            Ref (ref (core_v1 ''DownwardAPIVolumeFile''))]),
                    Extensions [(''x-kubernetes-list-type'', VStr ''atomic'')]]),
              (''defaultMode'', SchemaProps [Type [''integer''], Format ''int32''])]])
       [core_v1 ''DownwardAPIVolumeFile'']"

definition schema_k8sio_api_core_v1_EmptyDirVolumeSource ::
  "(string \<Rightarrow> 'r) \<Rightarrow> 'r OpenAPIDefinition" where
  [schema_defs]: "schema_k8sio_api_core_v1_EmptyDirVolumeSource ref =
     OpenAPIDefinition
       (SchemaProps
         [Type [''object''],
          Properties
             [(''medium'', SchemaProps [Type [''string''], Format []]),
              (''sizeLimit'', SchemaProps [Ref (ref (pkg_resource ''Quantity''))])]])
       [pkg_resource ''Quantity'']"

definition schema_k8sio_api_core_v1_EndpointAddress ::
  "(string \<Rightarrow> 'r) \<Rightarrow> 'r OpenAPIDefinition" where
  [schema_defs]: "schema_k8sio_api_core_v1_EndpointAddress ref =
     OpenAPIDefinition
       (SchemaProps
         [Type [''object''],
          Properties
             [(''ip'', SchemaProps [Default (VStr []), Type [''string''], Format []]),
              (''hostname'', SchemaProps [Type [''string''], Format []]),
              (''nodeName'', SchemaProps [Type [''string''], Format []]),
              (''targetRef'', SchemaProps [Ref (ref (core_v1 ''ObjectReference''))])],
          Required [''ip''],
          Extensions [(''x-kubernetes-map-type'', VStr ''atomic'')]])
       [core_v1 ''ObjectReference'']"

definition schema_k8sio_api_core_v1_EndpointPort ::
  "(string \<Rightarrow> 'r) \<Rightarrow> 'r OpenAPIDefinition" where
  [schema_defs]: "schema_k8sio_api_core_v1_EndpointPort ref =
     OpenAPIDefinition
       (SchemaProps
         [Type [''object''],
          Properties
             [(''name'', SchemaProps [Type [''string''], Format []]),
              (''port'', SchemaProps [Default (VInt 0), Type [''integer''], Format ''int32'']),
              (''protocol'', SchemaProps
                   [Type [''string''],
                    Format [],
                    Enum [VStr ''SCTP'', VStr ''TCP'', VStr ''UDP'']]),
              (''appProtocol'', SchemaProps [Type [''string''], Format []])],
          Required [''port''],
          Extensions [(''x-kubernetes-map-type'', VStr ''atomic'')]])
       []"

definition schema_k8sio_api_core_v1_EndpointSubset ::
  "(string \<Rightarrow> 'r) \<Rightarrow> 'r OpenAPIDefinition" where
  [schema_defs]: "schema_k8sio_api_core_v1_EndpointSubset ref =
     OpenAPIDefinition
       (SchemaProps
         [Type [''object''],
          Properties
             [(''addresses'', SchemaProps
                   [Type [''array''],
                    Items (SchemaProps [Default (VObj []), Ref (ref (core_v1 ''EndpointAddress''))]),
                    Extensions [(''x-kubernetes-list-type'', VStr ''atomic'')]]),
              (''notReadyAddresses'', SchemaProps
                   [Type [''array''],
                    Items (SchemaProps [Default (VObj []), Ref (ref (core_v1 ''EndpointAddress''))]),
                    Extensions [(''x-kubernetes-list-type'', VStr ''atomic'')]]),
              (''ports'', SchemaProps
                   [Type [''array''],
                    Items (SchemaProps [Default (VObj []), Ref (ref (core_v1 ''EndpointPort''))]),
                    Extensions [(''x-kubernetes-list-type'', VStr ''atomic'')]])]])
       [core_v1 ''EndpointAddress'', core_v1 ''EndpointPort'']"

definition schema_k8sio_api_core_v1_Endpoints ::
  "(string \<Rightarrow> 'r) \<Rightarrow> 'r OpenAPIDefinition" where
  [schema_defs]: "schema_k8sio_api_core_v1_Endpoints ref =
     OpenAPIDefinition
       (SchemaProps
         [Type [''object''],
          Properties
             [(''kind'', SchemaProps [Type [''string''], Format []]),
              (''apiVersion'', SchemaProps [Type [''string''], Format []]),
              (''metadata'', SchemaProps [Default (VObj []), Ref (ref (meta_v1 ''ObjectMeta''))]),
              (''subsets'', SchemaProps
                   [Type [''array''],
                    Items (SchemaProps [Default (VObj []), Ref (ref (core_v1 ''EndpointSubset''))]),
                    Extensions [(''x-kubernetes-list-type'', VStr ''atomic'')]])]])
       [core_v1 ''EndpointSubset'', meta_v1 ''ObjectMeta'']"

definition schema_k8sio_api_core_v1_EndpointsList ::
  "(string \<Rightarrow> 'r) \<Rightarrow> 'r OpenAPIDefinition" where
  [schema_defs]: "schema_k8sio_api_core_v1_EndpointsList ref =
     OpenAPIDefinition
       (SchemaProps
         [Type [''object''],
          Properties
             [(''kind'', SchemaProps [Type [''string''], Format []]),
              (''apiVersion'', SchemaProps [Type [''string''], Format []]),
              (''metadata'', SchemaProps [Default (VObj []), Ref (ref (meta_v1 ''ListMeta''))]),
              (''items'', SchemaProps
                   [Type [''array''],
                    Items (SchemaProps [Default (VObj []), Ref (ref (core_v1 ''Endpoints''))])])],
          Required [''items'']])
       [core_v1 ''Endpoints'', meta_v1 ''ListMeta'']"

definition schema_k8sio_api_core_v1_EnvFromSource ::
  "(string \<Rightarrow> 'r) \<Rightarrow> 'r OpenAPIDefinition" where
  [schema_defs]: "schema_k8sio_api_core_v1_EnvFromSource ref =
     OpenAPIDefinition
       (SchemaProps
         [Type [''object''],
          Properties
             [(''prefix'', SchemaProps [Type [''string''], Format []]),
              (''configMapRef'', SchemaProps [Ref (ref (core_v1 ''ConfigMapEnvSource''))]),
              (''secretRef'', SchemaProps [Ref (ref (core_v1 ''SecretEnvSource''))])]])
       [core_v1 ''ConfigMapEnvSource'', core_v1 ''SecretEnvSource'']"

definition schema_k8sio_api_core_v1_EnvVar ::
  "(string \<Rightarrow> 'r) \<Rightarrow> 'r OpenAPIDefinition" where
  [schema_defs]: "schema_k8sio_api_core_v1_EnvVar ref =
     OpenAPIDefinition
       (SchemaProps
         [Type [''object''],
          Properties
             [(''name'', SchemaProps [Default (VStr []), Type [''string''], Format []]),
              (''value'', SchemaProps [Type [''string''], Format []]),
              (''valueFrom'', SchemaProps [Ref (ref (core_v1 ''EnvVarSource''))])],
          Required [''name'']])
       [core_v1 ''EnvVarSource'']"

definition schema_k8sio_api_core_v1_EnvVarSource ::
  "(string \<Rightarrow> 'r) \<Rightarrow> 'r OpenAPIDefinition" where
  [schema_defs]: "schema_k8sio_api_core_v1_EnvVarSource ref =
     OpenAPIDefinition
       (SchemaProps
         [Type [''object''],
          Properties
             [(''fieldRef'', SchemaProps [Ref (ref (core_v1 ''ObjectFieldSelector''))]),
              (''resourceFieldRef'', SchemaProps [Ref (ref (core_v1 ''ResourceFieldSelector''))]),
              (''configMapKeyRef'', SchemaProps [Ref (ref (core_v1 ''ConfigMapKeySelector''))]),
              (''secretKeyRef'', SchemaProps [Ref (ref (core_v1 ''SecretKeySelector''))]),
              (''fileKeyRef'', SchemaProps [Ref (ref (core_v1 ''FileKeySelector''))])]])
       [core_v1 ''ConfigMapKeySelector'', core_v1 ''FileKeySelector'',
        core_v1 ''ObjectFieldSelector'', core_v1 ''ResourceFieldSelector'',
        core_v1 ''SecretKeySelector'']"

definition schema_k8sio_api_core_v1_EphemeralContainer ::
  "(string \<Rightarrow> 'r) \<Rightarrow> 'r OpenAPIDefinition" where
  [schema_defs]: "schema_k8sio_api_core_v1_EphemeralContainer ref =
     OpenAPIDefinition
       (SchemaProps
         [Type [''object''],
          Properties
             [(''name'', SchemaProps [Default (VStr []), Type [''string''], Format []]),
              (''image'', SchemaProps [Type [''string''], Format []]),
              (''command'', SchemaProps
                   [Type [''array''],
                    Items (SchemaProps [Default (VStr []), Type [''string''], Format []]),
                    Extensions [(''x-kubernetes-list-type'', VStr ''atomic'')]]),
              (''args'', SchemaProps
                   [Type [''array''],
                    Items (SchemaProps [Default (VStr []), Type [''string''], Format []]),
                    Extensions [(''x-kubernetes-list-type'', VStr ''atomic'')]]),
              (''workingDir'', SchemaProps [Type [''string''], Format []]),
              (''ports'', SchemaProps
                   [Type [''array''],
                    Items (SchemaProps [Default (VObj []), Ref (ref (core_v1 ''ContainerPort''))]),
                    Extensions [(''x-kubernetes-list-map-keys'', VArr [VStr ''containerPort'', VStr ''protocol'']), (''x-kubernetes-list-type'', VStr ''map''), (''x-kubernetes-patch-merge-key'', VStr ''containerPort''), (''x-kubernetes-patch-strategy'', VStr ''merge'')]]),
              (''envFrom'', SchemaProps
                   [Type [''array''],
                    Items (SchemaProps [Default (VObj []), Ref (ref (core_v1 ''EnvFromSource''))]),
                    Extensions [(''x-kubernetes-list-type'', VStr ''atomic'')]]),
              (''env'', SchemaProps
                   [Type [''array''],
                    Items (SchemaProps [Default (VObj []), Ref (ref (core_v1 ''EnvVar''))]),
                    Extensions [(''x-kubernetes-list-map-keys'', VArr [VStr ''name'']), (''x-kubernetes-list-type'', VStr ''map''), (''x-kubernetes-patch-merge-key'', VStr ''name''), (''x-kubernetes-patch-strategy'', VStr ''merge'')]]),
              (''resources'', SchemaProps [Default (VObj []), Ref (ref (core_v1 ''ResourceRequirements''))]),
              (''resizePolicy'', SchemaProps
                   [Type [''array''],
                    Items (SchemaProps
                           [Default (VObj []),
                            Ref (ref (core_v1 ''ContainerResizePolicy''))]),
                    Extensions [(''x-kubernetes-list-type'', VStr ''atomic'')]]),
              (''restartPolicy'', SchemaProps [Type [''string''], Format []]),
              (''restartPolicyRules'', SchemaProps
                   [Type [''array''],
                    Items (SchemaProps
                           [Default (VObj []),
                            Ref (ref (core_v1 ''ContainerRestartRule''))]),
                    Extensions [(''x-kubernetes-list-type'', VStr ''atomic'')]]),
              (''volumeMounts'', SchemaProps
                   [Type [''array''],
                    Items (SchemaProps [Default (VObj []), Ref (ref (core_v1 ''VolumeMount''))]),
                    Extensions [(''x-kubernetes-list-map-keys'', VArr [VStr ''mountPath'']), (''x-kubernetes-list-type'', VStr ''map''), (''x-kubernetes-patch-merge-key'', VStr ''mountPath''), (''x-kubernetes-patch-strategy'', VStr ''merge'')]]),
              (''volumeDevices'', SchemaProps
                   [Type [''array''],
                    Items (SchemaProps [Default (VObj []), Ref (ref (core_v1 ''VolumeDevice''))]),
                    Extensions [(''x-kubernetes-list-map-keys'', VArr [VStr ''devicePath'']), (''x-kubernetes-list-type'', VStr ''map''), (''x-kubernetes-patch-merge-key'', VStr ''devicePath''), (''x-kubernetes-patch-strategy'', VStr ''merge'')]]),
              (''livenessProbe'', SchemaProps [Ref (ref (core_v1 ''Probe''))]),
              (''readinessProbe'', SchemaProps [Ref (ref (core_v1 ''Probe''))]),
              (''startupProbe'', SchemaProps [Ref (ref (core_v1 ''Probe''))]),
              (''lifecycle'', SchemaProps [Ref (ref (core_v1 ''Lifecycle''))]),
              (''terminationMessagePath'', SchemaProps [Type [''string''], Format []]),
              (''terminationMessagePolicy'', SchemaProps
                   [Type [''string''],
                    Format [],
                    Enum [VStr ''FallbackToLogsOnError'', VStr ''File'']]),
              (''imagePullPolicy'', SchemaProps
                   [Type [''string''],
                    Format [],
                    Enum [VStr ''Always'', VStr ''IfNotPresent'', VStr ''Never'']]),
              (''securityContext'', SchemaProps [Ref (ref (core_v1 ''SecurityContext''))]),
              (''stdin'', SchemaProps [Type [''boolean''], Format []]),
              (''stdinOnce'', SchemaProps [Type [''boolean''], Format []]),
              (''tty'', SchemaProps [Type [''boolean''], Format []]),
              (''targetContainerName'', SchemaProps [Type [''string''], Format []])],
          Required [''name'']])
       [core_v1 ''ContainerPort'', core_v1 ''ContainerResizePolicy'',
        core_v1 ''ContainerRestartRule'', core_v1 ''EnvFromSource'', core_v1 ''EnvVar'',
        core_v1 ''Lifecycle'', core_v1 ''Probe'', core_v1 ''ResourceRequirements'',
        core_v1 ''SecurityContext'', core_v1 ''VolumeDevice'', core_v1 ''VolumeMount'']"

definition schema_k8sio_api_core_v1_EphemeralContainerCommon ::
  "(string \<Rightarrow> 'r) \<Rightarrow> 'r OpenAPIDefinition" where
  [schema_defs]: "schema_k8sio_api_core_v1_EphemeralContainerCommon ref =
     OpenAPIDefinition
       (SchemaProps
         [Type [''object''],
          Properties
             [(''name'', SchemaProps [Default (VStr []), Type [''string''], Format []]),
              (''image'', SchemaProps [Type [''string''], Format []]),
              (''command'', SchemaProps
                   [Type [''array''],
                    Items (SchemaProps [Default (VStr []), Type [''string''], Format []]),
                    Extensions [(''x-kubernetes-list-type'', VStr ''atomic'')]]),
              (''args'', SchemaProps
                   [Type [''array''],
                    Items (SchemaProps [Default (VStr []), Type [''string''], Format []]),
                    Extensions [(''x-kubernetes-list-type'', VStr ''atomic'')]]),
              (''workingDir'', SchemaProps [Type [''string''], Format []]),
              (''ports'', SchemaProps
                   [Type [''array''],
                    Items (SchemaProps [Default (VObj []), Ref (ref (core_v1 ''ContainerPort''))]),
                    Extensions [(''x-kubernetes-list-map-keys'', VArr [VStr ''containerPort'', VStr ''protocol'']), (''x-kubernetes-list-type'', VStr ''map''), (''x-kubernetes-patch-merge-key'', VStr ''containerPort''), (''x-kubernetes-patch-strategy'', VStr ''merge'')]]),
              (''envFrom'', SchemaProps
                   [Type [''array''],
                    Items (SchemaProps [Default (VObj []), Ref (ref (core_v1 ''EnvFromSource''))]),
                    Extensions [(''x-kubernetes-list-type'', VStr ''atomic'')]]),
              (''env'', SchemaProps
                   [Type [''array''],
                    Items (SchemaProps [Default (VObj []), Ref (ref (core_v1 ''EnvVar''))]),
                    Extensions [(''x-kubernetes-list-map-keys'', VArr [VStr ''name'']), (''x-kubernetes-list-type'', VStr ''map''), (''x-kubernetes-patch-merge-key'', VStr ''name''), (''x-kubernetes-patch-strategy'', VStr ''merge'')]]),
              (''resources'', SchemaProps [Default (VObj []), Ref (ref (core_v1 ''ResourceRequirements''))]),
              (''resizePolicy'', SchemaProps
                   [Type [''array''],
                    Items (SchemaProps
                           [Default (VObj []),
                            Ref (ref (core_v1 ''ContainerResizePolicy''))]),
                    Extensions [(''x-kubernetes-list-type'', VStr ''atomic'')]]),
              (''restartPolicy'', SchemaProps [Type [''string''], Format []]),
              (''restartPolicyRules'', SchemaProps
                   [Type [''array''],
                    Items (SchemaProps
                           [Default (VObj []),
                            Ref (ref (core_v1 ''ContainerRestartRule''))]),
                    Extensions [(''x-kubernetes-list-type'', VStr ''atomic'')]]),
              (''volumeMounts'', SchemaProps
                   [Type [''array''],
                    Items (SchemaProps [Default (VObj []), Ref (ref (core_v1 ''VolumeMount''))]),
                    Extensions [(''x-kubernetes-list-map-keys'', VArr [VStr ''mountPath'']), (''x-kubernetes-list-type'', VStr ''map''), (''x-kubernetes-patch-merge-key'', VStr ''mountPath''), (''x-kubernetes-patch-strategy'', VStr ''merge'')]]),
              (''volumeDevices'', SchemaProps
                   [Type [''array''],
                    Items (SchemaProps [Default (VObj []), Ref (ref (core_v1 ''VolumeDevice''))]),
                    Extensions [(''x-kubernetes-list-map-keys'', VArr [VStr ''devicePath'']), (''x-kubernetes-list-type'', VStr ''map''), (''x-kubernetes-patch-merge-key'', VStr ''devicePath''), (''x-kubernetes-patch-strategy'', VStr ''merge'')]]),
              (''livenessProbe'', SchemaProps [Ref (ref (core_v1 ''Probe''))]),
              (''readinessProbe'', SchemaProps [Ref (ref (core_v1 ''Probe''))]),
              (''startupProbe'', SchemaProps [Ref (ref (core_v1 ''Probe''))]),
              (''lifecycle'', SchemaProps [Ref (ref (core_v1 ''Lifecycle''))]),
              (''terminationMessagePath'', SchemaProps [Type [''string''], Format []]),
              (''terminationMessagePolicy'', SchemaProps
                   [Type [''string''],
                    Format [],
                    Enum [VStr ''FallbackToLogsOnError'', VStr ''File'']]),
              (''imagePullPolicy'', SchemaProps
                   [Type [''string''],
                    Format [],
                    Enum [VStr ''Always'', VStr ''IfNotPresent'', VStr ''Never'']]),
              (''securityContext'', SchemaProps [Ref (ref (core_v1 ''SecurityContext''))]),
              (''stdin'', SchemaProps [Type [''boolean''], Format []]),
              (''stdinOnce'', SchemaProps [Type [''boolean''], Format []]),
              (''tty'', SchemaProps [Type [''boolean''], Format []])],
          Required [''name'']])
       [core_v1 ''ContainerPort'', core_v1 ''ContainerResizePolicy'',
        core_v1 ''ContainerRestartRule'', core_v1 ''EnvFromSource'', core_v1 ''EnvVar'',
        core_v1 ''Lifecycle'', core_v1 ''Probe'', core_v1 ''ResourceRequirements'',
        core_v1 ''SecurityContext'', core_v1 ''VolumeDevice'', core_v1 ''VolumeMount'']"

definition schema_k8sio_api_core_v1_EphemeralVolumeSource ::
  "(string \<Rightarrow> 'r) \<Rightarrow> 'r OpenAPIDefinition" where
  [schema_defs]: "schema_k8sio_api_core_v1_EphemeralVolumeSource ref =
     OpenAPIDefinition
       (SchemaProps
         [Type [''object''],
          Properties
             [(''volumeClaimTemplate'', SchemaProps [Ref (ref (core_v1 ''PersistentVolumeClaimTemplate''))])]])
       [core_v1 ''PersistentVolumeClaimTemplate'']"

definition schema_k8sio_api_core_v1_Event ::
  "(string \<Rightarrow> 'r) \<Rightarrow> 'r OpenAPIDefinition" where
  [schema_defs]: "schema_k8sio_api_core_v1_Event ref =
     OpenAPIDefinition
       (SchemaProps
         [Type [''object''],
          Properties
             [(''kind'', SchemaProps [Type [''string''], Format []]),
              (''apiVersion'', SchemaProps [Type [''string''], Format []]),
              (''metadata'', SchemaProps [Default (VObj []), Ref (ref (meta_v1 ''ObjectMeta''))]),
              (''involvedObject'', SchemaProps [Default (VObj []), Ref (ref (core_v1 ''ObjectReference''))]),
              (''reason'', SchemaProps [Type [''string''], Format []]),
              (''message'', SchemaProps [Type [''string''], Format []]),
              (''source'', SchemaProps [Default (VObj []), Ref (ref (core_v1 ''EventSource''))]),
              (''firstTimestamp'', SchemaProps [Ref (ref (meta_v1 ''Time''))]),
              (''lastTimestamp'', SchemaProps [Ref (ref (meta_v1 ''Time''))]),
              (''count'', SchemaProps [Type [''integer''], Format ''int32'']),
              (''type'', SchemaProps [Type [''string''], Format []]),
              (''eventTime'', SchemaProps [Ref (ref (meta_v1 ''MicroTime''))]),
              (''series'', SchemaProps [Ref (ref (core_v1 ''EventSeries''))]),
              (''action'', SchemaProps [Type [''string''], Format []]),
              (''related'', SchemaProps [Ref (ref (core_v1 ''ObjectReference''))]),
              (''reportingComponent'', SchemaProps [Default (VStr []), Type [''string''], Format []]),
              (''reportingInstance'', SchemaProps [Default (VStr []), Type [''string''], Format []])],
          Required [''metadata'', ''involvedObject'']])
       [core_v1 ''EventSeries'', core_v1 ''EventSource'', core_v1 ''ObjectReference'',
        meta_v1 ''MicroTime'', meta_v1 ''ObjectMeta'', meta_v1 ''Time'']"

lemma core1_sound:
  "def_sound ref (schema_k8sio_api_core_v1_AWSElasticBlockStoreVolumeSource ref)"
  "def_sound ref (schema_k8sio_api_core_v1_Affinity ref)"
  "def_sound ref (schema_k8sio_api_core_v1_AppArmorProfile ref)"
  "def_sound ref (schema_k8sio_api_core_v1_AttachedVolume ref)"
  "def_sound ref (schema_k8sio_api_core_v1_AvoidPods ref)"
  "def_sound ref (schema_k8sio_api_core_v1_AzureDiskVolumeSource lib ref)"
  "def_sound ref (schema_k8sio_api_core_v1_AzureFilePersistentVolumeSource ref)"
  "def_sound ref (schema_k8sio_api_core_v1_AzureFileVolumeSource ref)"
  "def_sound ref (schema_k8sio_api_core_v1_Binding ref)"
  "def_sound ref (schema_k8sio_api_core_v1_CSIPersistentVolumeSource ref)"
  "def_sound ref (schema_k8sio_api_core_v1_CSIVolumeSource ref)"
  "def_sound ref (schema_k8sio_api_core_v1_Capabilities ref)"
  "def_sound ref (schema_k8sio_api_core_v1_CephFSPersistentVolumeSource ref)"
  "def_sound ref (schema_k8sio_api_core_v1_CephFSVolumeSource ref)"
  "def_sound ref (schema_k8sio_api_core_v1_CinderPersistentVolumeSource ref)"
  "def_sound ref (schema_k8sio_api_core_v1_CinderVolumeSource ref)"
  "def_sound ref (schema_k8sio_api_core_v1_ClientIPConfig ref)"
  "def_sound ref (schema_k8sio_api_core_v1_ClusterTrustBundleProjection ref)"
  "def_sound ref (schema_k8sio_api_core_v1_ComponentCondition ref)"
  "def_sound ref (schema_k8sio_api_core_v1_ComponentStatus ref)"
  "def_sound ref (schema_k8sio_api_core_v1_ComponentStatusList ref)"
  "def_sound ref (schema_k8sio_api_core_v1_ConfigMap ref)"
  "def_sound ref (schema_k8sio_api_core_v1_ConfigMapEnvSource ref)"
  "def_sound ref (schema_k8sio_api_core_v1_ConfigMapKeySelector ref)"
  "def_sound ref (schema_k8sio_api_core_v1_ConfigMapList ref)"
  "def_sound ref (schema_k8sio_api_core_v1_ConfigMapNodeConfigSource ref)"
  "def_sound ref (schema_k8sio_api_core_v1_ConfigMapProjection ref)"
  "def_sound ref (schema_k8sio_api_core_v1_ConfigMapVolumeSource ref)"
  "def_sound ref (schema_k8sio_api_core_v1_Container ref)"
  "def_sound ref (schema_k8sio_api_core_v1_ContainerExtendedResourceRequest ref)"
  "def_sound ref (schema_k8sio_api_core_v1_ContainerImage ref)"
  "def_sound ref (schema_k8sio_api_core_v1_ContainerPort ref)"
  "def_sound ref (schema_k8sio_api_core_v1_ContainerResizePolicy ref)"
  "def_sound ref (schema_k8sio_api_core_v1_ContainerRestartRule ref)"
  "def_sound ref (schema_k8sio_api_core_v1_ContainerRestartRuleOnExitCodes ref)"
  "def_sound ref (schema_k8sio_api_core_v1_ContainerState ref)"
  "def_sound ref (schema_k8sio_api_core_v1_ContainerStateRunning ref)"
  "def_sound ref (schema_k8sio_api_core_v1_ContainerStateTerminated ref)"
  "def_sound ref (schema_k8sio_api_core_v1_ContainerStateWaiting ref)"
  "def_sound ref (schema_k8sio_api_core_v1_ContainerStatus ref)"
  "def_sound ref (schema_k8sio_api_core_v1_ContainerUser ref)"
  "def_sound ref (schema_k8sio_api_core_v1_DaemonEndpoint ref)"
  "def_sound ref (schema_k8sio_api_core_v1_DownwardAPIProjection ref)"
  "def_sound ref (schema_k8sio_api_core_v1_DownwardAPIVolumeFile ref)"
  "def_sound ref (schema_k8sio_api_core_v1_DownwardAPIVolumeSource ref)"
  "def_sound ref (schema_k8sio_api_core_v1_EmptyDirVolumeSource ref)"
  "def_sound ref (schema_k8sio_api_core_v1_EndpointAddress ref)"
  "def_sound ref (schema_k8sio_api_core_v1_EndpointPort ref)"
  "def_sound ref (schema_k8sio_api_core_v1_EndpointSubset ref)"
  "def_sound ref (schema_k8sio_api_core_v1_Endpoints ref)"
  "def_sound ref (schema_k8sio_api_core_v1_EndpointsList ref)"
  "def_sound ref (schema_k8sio_api_core_v1_EnvFromSource ref)"
  "def_sound ref (schema_k8sio_api_core_v1_EnvVar ref)"
  "def_sound ref (schema_k8sio_api_core_v1_EnvVarSource ref)"
  "def_sound ref (schema_k8sio_api_core_v1_EphemeralContainer ref)"
  "def_sound ref (schema_k8sio_api_core_v1_EphemeralContainerCommon ref)"
  "def_sound ref (schema_k8sio_api_core_v1_EphemeralVolumeSource ref)"
  "def_sound ref (schema_k8sio_api_core_v1_Event ref)"
  by (auto simp: schema_defs)

end
