(* ===== verification/Openapi_Core2.thy ===== *)
theory Openapi_Core2
  imports Openapi_Schema
begin

section \<open>OpenAPI definitions of the core types, EventList to PersistentVolumeClaimSpec\<close>

text \<open>
  From \<^verbatim>\<open>client-go/openapi/zz_generated.openapi.go\<close>: the definitions of the Kubernetes types the
  file lists beside the repository's own.
\<close>

definition schema_k8sio_api_core_v1_EventList ::
  "(string \<Rightarrow> 'r) \<Rightarrow> 'r OpenAPIDefinition" where
  [schema_defs]: "schema_k8sio_api_core_v1_EventList ref =
     OpenAPIDefinition
       (SchemaProps
         [Type [''object''],
          Properties
             [(''kind'', SchemaProps [Type [''string''], Format []]),
              (''apiVersion'', SchemaProps [Type [''string''], Format []]),
              (''metadata'', SchemaProps [Default (VObj []), Ref (ref (meta_v1 ''ListMeta''))]),
              (''items'', SchemaProps
                   [Type [''array''],
                    Items (SchemaProps [Default (VObj []), Ref (ref (core_v1 ''Event''))])])],
          Required [''items'']])
       [core_v1 ''Event'', meta_v1 ''ListMeta'']"

definition schema_k8sio_api_core_v1_EventSeries ::
  "(string \<Rightarrow> 'r) \<Rightarrow> 'r OpenAPIDefinition" where
  [schema_defs]: "schema_k8sio_api_core_v1_EventSeries ref =
     OpenAPIDefinition
       (SchemaProps
         [Type [''object''],
          Properties
             [(''count'', SchemaProps [Type [''integer''], Format ''int32'']),
              (''lastObservedTime'', SchemaProps [Ref (ref (meta_v1 ''MicroTime''))])]])
       [meta_v1 ''MicroTime'']"

definition schema_k8sio_api_core_v1_EventSource ::
  "(string \<Rightarrow> 'r) \<Rightarrow> 'r OpenAPIDefinition" where
  [schema_defs]: "schema_k8sio_api_core_v1_EventSource ref =
     OpenAPIDefinition
       (SchemaProps
         [Type [''object''],
          Properties
             [(''component'', SchemaProps [Type [''string''], Format []]),
              (''host'', SchemaProps [Type [''string''], Format []])]])
       []"

definition schema_k8sio_api_core_v1_ExecAction ::
  "(string \<Rightarrow> 'r) \<Rightarrow> 'r OpenAPIDefinition" where
  [schema_defs]: "schema_k8sio_api_core_v1_ExecAction ref =
     OpenAPIDefinition
       (SchemaProps
         [Type [''object''],
          Properties
             [(''command'', SchemaProps
                   [Type [''array''],
                    Items (SchemaProps [Default (VStr []), Type [''string''], Format []]),
                    Extensions [(''x-kubernetes-list-type'', VStr ''atomic'')]])]])
       []"

definition schema_k8sio_api_core_v1_FCVolumeSource ::
  "(string \<Rightarrow> 'r) \<Rightarrow> 'r OpenAPIDefinition" where
  [schema_defs]: "schema_k8sio_api_core_v1_FCVolumeSource ref =
     OpenAPIDefinition
       (SchemaProps
         [Type [''object''],
          Properties
             [(''targetWWNs'', SchemaProps
                   [Type [''array''],
                    Items (SchemaProps [Default (VStr []), Type [''string''], Format []]),
                    Extensions [(''x-kubernetes-list-type'', VStr ''atomic'')]]),
              (''lun'', SchemaProps [Type [''integer''], Format ''int32'']),
              (''fsType'', SchemaProps [Type [''string''], Format []]),
              (''readOnly'', SchemaProps [Type [''boolean''], Format []]),
              (''wwids'', SchemaProps
                   [Type [''array''],
                    Items (SchemaProps [Default (VStr []), Type [''string''], Format []]),
                    Extensions [(''x-kubernetes-list-type'', VStr ''atomic'')]])]])
       []"

definition schema_k8sio_api_core_v1_FileKeySelector ::
  "(string \<Rightarrow> 'r) \<Rightarrow> 'r OpenAPIDefinition" where
  [schema_defs]: "schema_k8sio_api_core_v1_FileKeySelector ref =
     OpenAPIDefinition
       (SchemaProps
         [Type [''object''],
          Properties
             [(''volumeName'', SchemaProps [Default (VStr []), Type [''string''], Format []]),
              (''path'', SchemaProps [Default (VStr []), Type [''string''], Format []]),
              (''key'', SchemaProps [Default (VStr []), Type [''string''], Format []]),
              (''optional'', SchemaProps [Default (VBool False), Type [''boolean''], Format []])],
          Required [''volumeName'', ''path'', ''key''],
          Extensions [(''x-kubernetes-map-type'', VStr ''atomic'')]])
       []"

definition schema_k8sio_api_core_v1_FlexPersistentVolumeSource ::
  "(string \<Rightarrow> 'r) \<Rightarrow> 'r OpenAPIDefinition" where
  [schema_defs]: "schema_k8sio_api_core_v1_FlexPersistentVolumeSource ref =
     OpenAPIDefinition
       (SchemaProps
         [Type [''object''],
          Properties
             [(''driver'', SchemaProps [Default (VStr []), Type [''string''], Format []]),
              (''fsType'', SchemaProps [Type [''string''], Format []]),
              (''secretRef'', SchemaProps [Ref (ref (core_v1 ''SecretReference''))]),
              (''readOnly'', SchemaProps [Type [''boolean''], Format []]),
              (''options'', SchemaProps
                   [Type [''object''],
                    AdditionalProperties True (SchemaProps [Default (VStr []), Type [''string''], Format []])])],
          Required [''driver'']])
       [core_v1 ''SecretReference'']"

definition schema_k8sio_api_core_v1_FlexVolumeSource ::
  "(string \<Rightarrow> 'r) \<Rightarrow> 'r OpenAPIDefinition" where
  [schema_defs]: "schema_k8sio_api_core_v1_FlexVolumeSource ref =
     OpenAPIDefinition
       (SchemaProps
         [Type [''object''],
          Properties
             [(''driver'', SchemaProps [Default (VStr []), Type [''string''], Format []]),
              (''fsType'', SchemaProps [Type [''string''], Format []]),
              (''secretRef'', SchemaProps [Ref (ref (core_v1 ''LocalObjectReference''))]),
              (''readOnly'', SchemaProps [Type [''boolean''], Format []]),
              (''options'', SchemaProps
                   [Type [''object''],
                    AdditionalProperties True (SchemaProps [Default (VStr []), Type [''string''], Format []])])],
          Required [''driver'']])
       [core_v1 ''LocalObjectReference'']"

definition schema_k8sio_api_core_v1_FlockerVolumeSource ::
  "(string \<Rightarrow> 'r) \<Rightarrow> 'r OpenAPIDefinition" where
  [schema_defs]: "schema_k8sio_api_core_v1_FlockerVolumeSource ref =
     OpenAPIDefinition
       (SchemaProps
         [Type [''object''],
          Properties
             [(''datasetName'', SchemaProps [Type [''string''], Format []]),
              (''datasetUUID'', SchemaProps [Type [''string''], Format []])]])
       []"

definition schema_k8sio_api_core_v1_GCEPersistentDiskVolumeSource ::
  "(string \<Rightarrow> 'r) \<Rightarrow> 'r OpenAPIDefinition" where
  [schema_defs]: "schema_k8sio_api_core_v1_GCEPersistentDiskVolumeSource ref =
     OpenAPIDefinition
       (SchemaProps
         [Type [''object''],
          Properties
             [(''pdName'', SchemaProps [Default (VStr []), Type [''string''], Format []]),
              (''fsType'', SchemaProps [Type [''string''], Format []]),
              (''partition'', SchemaProps [Type [''integer''], Format ''int32'']),
              (''readOnly'', SchemaProps [Type [''boolean''], Format []])],
          Required [''pdName'']])
       []"

definition schema_k8sio_api_core_v1_GRPCAction ::
  "(string \<Rightarrow> 'r) \<Rightarrow> 'r OpenAPIDefinition" where
  [schema_defs]: "schema_k8sio_api_core_v1_GRPCAction ref =
     OpenAPIDefinition
       (SchemaProps
         [Type [''object''],
          Properties
             [(''port'', SchemaProps [Default (VInt 0), Type [''integer''], Format ''int32'']),
              (''service'', SchemaProps [Default (VStr []), Type [''string''], Format []])],
          Required [''port'']])
       []"

definition schema_k8sio_api_core_v1_GitRepoVolumeSource ::
  "(string \<Rightarrow> 'r) \<Rightarrow> 'r OpenAPIDefinition" where
  [schema_defs]: "schema_k8sio_api_core_v1_GitRepoVolumeSource ref =
     OpenAPIDefinition
       (SchemaProps
         [Type [''object''],
          Properties
             [(''repository'', SchemaProps [Default (VStr []), Type [''string''], Format []]),
              (''revision'', SchemaProps [Type [''string''], Format []]),
              (''directory'', SchemaProps [Type [''string''], Format []])],
          Required [''repository'']])
       []"

definition schema_k8sio_api_core_v1_GlusterfsPersistentVolumeSource ::
  "(string \<Rightarrow> 'r) \<Rightarrow> 'r OpenAPIDefinition" where
  [schema_defs]: "schema_k8sio_api_core_v1_GlusterfsPersistentVolumeSource ref =
     OpenAPIDefinition
       (SchemaProps
         [Type [''object''],
          Properties
             [(''endpoints'', SchemaProps [Default (VStr []), Type [''string''], Format []]),
              (''path'', SchemaProps [Default (VStr []), Type [''string''], Format []]),
              (''readOnly'', SchemaProps [Type [''boolean''], Format []]),
              (''endpointsNamespace'', SchemaProps [Type [''string''], Format []])],
          Required [''endpoints'', ''path'']])
       []"

definition schema_k8sio_api_core_v1_GlusterfsVolumeSource ::
  "(string \<Rightarrow> 'r) \<Rightarrow> 'r OpenAPIDefinition" where
  [schema_defs]: "schema_k8sio_api_core_v1_GlusterfsVolumeSource ref =
     OpenAPIDefinition
       (SchemaProps
         [Type [''object''],
          Properties
             [(''endpoints'', SchemaProps [Default (VStr []), Type [''string''], Format []]),
              (''path'', SchemaProps [Default (VStr []), Type [''string''], Format []]),
              (''readOnly'', SchemaProps [Type [''boolean''], Format []])],
          Required [''endpoints'', ''path'']])
       []"

definition schema_k8sio_api_core_v1_HTTPGetAction ::
  "(string \<Rightarrow> 'r) \<Rightarrow> 'r OpenAPIDefinition" where
  [schema_defs]: "schema_k8sio_api_core_v1_HTTPGetAction ref =
     OpenAPIDefinition
       (SchemaProps
         [Type [''object''],
          Properties
             [(''path'', SchemaProps [Type [''string''], Format []]),
              (''port'', SchemaProps [Ref (ref (pkg_intstr ''IntOrString''))]),
              (''host'', SchemaProps [Type [''string''], Format []]),
              (''scheme'', SchemaProps [Type [''string''], Format [], Enum [VStr ''HTTP'', VStr ''HTTPS'']]),
              (''httpHeaders'', SchemaProps
                   [Type [''array''],
                    Items (SchemaProps [Default (VObj []), Ref (ref (core_v1 ''HTTPHeader''))]),
                    Extensions [(''x-kubernetes-list-type'', VStr ''atomic'')]])],
          Required [''port'']])
       [core_v1 ''HTTPHeader'', pkg_intstr ''IntOrString'']"

definition schema_k8sio_api_core_v1_HTTPHeader ::
  "(string \<Rightarrow> 'r) \<Rightarrow> 'r OpenAPIDefinition" where
  [schema_defs]: "schema_k8sio_api_core_v1_HTTPHeader ref =
     OpenAPIDefinition
       (SchemaProps
         [Type [''object''],
          Properties
             [(''name'', SchemaProps [Default (VStr []), Type [''string''], Format []]),
              (''value'', SchemaProps [Default (VStr []), Type [''string''], Format []])],
          Required [''name'', ''value'']])
       []"

definition schema_k8sio_api_core_v1_HostAlias ::
  "(string \<Rightarrow> 'r) \<Rightarrow> 'r OpenAPIDefinition" where
  [schema_defs]: "schema_k8sio_api_core_v1_HostAlias ref =
     OpenAPIDefinition
       (SchemaProps
         [Type [''object''],
          Properties
             [(''ip'', SchemaProps [Default (VStr []), Type [''string''], Format []]),
              (''hostnames'', SchemaProps
                   [Type [''array''],
                    Items (SchemaProps [Default (VStr []), Type [''string''], Format []]),
                    Extensions [(''x-kubernetes-list-type'', VStr ''atomic'')]])],
          Required [''ip'']])
       []"

definition schema_k8sio_api_core_v1_HostIP ::
  "(string \<Rightarrow> 'r) \<Rightarrow> 'r OpenAPIDefinition" where
  [schema_defs]: "schema_k8sio_api_core_v1_HostIP ref =
     OpenAPIDefinition
       (SchemaProps
         [Type [''object''],
          Properties
             [(''ip'', SchemaProps [Default (VStr []), Type [''string''], Format []])],
          Required [''ip'']])
       []"

definition schema_k8sio_api_core_v1_HostPathVolumeSource ::
  "(string \<Rightarrow> 'r) \<Rightarrow> 'r OpenAPIDefinition" where
  [schema_defs]: "schema_k8sio_api_core_v1_HostPathVolumeSource ref =
     OpenAPIDefinition
       (SchemaProps
         [Type [''object''],
          Properties
             [(''path'', SchemaProps [Default (VStr []), Type [''string''], Format []]),
              (''type'', SchemaProps
                   [Type [''string''],
                    Format [],
                    Enum [VStr [], VStr ''BlockDevice'', VStr ''CharDevice'', VStr ''Directory'', VStr ''DirectoryOrCreate'', VStr ''File'', VStr ''FileOrCreate'', VStr ''Socket'']])],
          Required [''path'']])
       []"

definition schema_k8sio_api_core_v1_ISCSIPersistentVolumeSource ::
  "(string \<Rightarrow> 'r) \<Rightarrow> 'r OpenAPIDefinition" where
  [schema_defs]: "schema_k8sio_api_core_v1_ISCSIPersistentVolumeSource ref =
     OpenAPIDefinition
       (SchemaProps
         [Type [''object''],
          Properties
             [(''targetPortal'', SchemaProps [Default (VStr []), Type [''string''], Format []]),
              (''iqn'', SchemaProps [Default (VStr []), Type [''string''], Format []]),
              (''lun'', SchemaProps [Default (VInt 0), Type [''integer''], Format ''int32'']),
              (''iscsiInterface'', SchemaProps [Default (VStr ''default''), Type [''string''], Format []]),
              (''fsType'', SchemaProps [Type [''string''], Format []]),
              (''readOnly'', SchemaProps [Type [''boolean''], Format []]),
              (''portals'', SchemaProps
                   [Type [''array''],
                    Items (SchemaProps [Default (VStr []), Type [''string''], Format []]),
                    Extensions [(''x-kubernetes-list-type'', VStr ''atomic'')]]),
              (''chapAuthDiscovery'', SchemaProps [Type [''boolean''], Format []]),
              (''chapAuthSession'', SchemaProps [Type [''boolean''], Format []]),
              (''secretRef'', SchemaProps [Ref (ref (core_v1 ''SecretReference''))]),
              (''initiatorName'', SchemaProps [Type [''string''], Format []])],
          Required [''targetPortal'', ''iqn'', ''lun'']])
       [core_v1 ''SecretReference'']"

definition schema_k8sio_api_core_v1_ISCSIVolumeSource ::
  "(string \<Rightarrow> 'r) \<Rightarrow> 'r OpenAPIDefinition" where
  [schema_defs]: "schema_k8sio_api_core_v1_ISCSIVolumeSource ref =
     OpenAPIDefinition
       (SchemaProps
         [Type [''object''],
          Properties
             [(''targetPortal'', SchemaProps [Default (VStr []), Type [''string''], Format []]),
              (''iqn'', SchemaProps [Default (VStr []), Type [''string''], Format []]),
              (''lun'', SchemaProps [Default (VInt 0), Type [''integer''], Format ''int32'']),
              (''iscsiInterface'', SchemaProps [Default (VStr ''default''), Type [''string''], Format []]),
              (''fsType'', SchemaProps [Type [''string''], Format []]),
              (''readOnly'', SchemaProps [Type [''boolean''], Format []]),
              (''portals'', SchemaProps
                   [Type [''array''],
                    Items (SchemaProps [Default (VStr []), Type [''string''], Format []]),
                    Extensions [(''x-kubernetes-list-type'', VStr ''atomic'')]]),
              (''chapAuthDiscovery'', SchemaProps [Type [''boolean''], Format []]),
              (''chapAuthSession'', SchemaProps [Type [''boolean''], Format []]),
              (''secretRef'', SchemaProps [Ref (ref (core_v1 ''LocalObjectReference''))]),
              (''initiatorName'', SchemaProps [Type [''string''], Format []])],
          Required [''targetPortal'', ''iqn'', ''lun'']])
       [core_v1 ''LocalObjectReference'']"

definition schema_k8sio_api_core_v1_ImageVolumeSource ::
  "(string \<Rightarrow> 'r) \<Rightarrow> 'r OpenAPIDefinition" where
  [schema_defs]: "schema_k8sio_api_core_v1_ImageVolumeSource ref =
     OpenAPIDefinition
       (SchemaProps
         [Type [''object''],
          Properties
             [(''reference'', SchemaProps [Type [''string''], Format []]),
              (''pullPolicy'', SchemaProps
                   [Type [''string''],
                    Format [],
                    Enum [VStr ''Always'', VStr ''IfNotPresent'', VStr ''Never'']])]])
       []"

definition schema_k8sio_api_core_v1_KeyToPath ::
  "(string \<Rightarrow> 'r) \<Rightarrow> 'r OpenAPIDefinition" where
  [schema_defs]: "schema_k8sio_api_core_v1_KeyToPath ref =
     OpenAPIDefinition
       (SchemaProps
         [Type [''object''],
          Properties
             [(''key'', SchemaProps [Default (VStr []), Type [''string''], Format []]),
              (''path'', SchemaProps [Default (VStr []), Type [''string''], Format []]),
              (''mode'', SchemaProps [Type [''integer''], Format ''int32''])],
          Required [''key'', ''path'']])
       []"

definition schema_k8sio_api_core_v1_Lifecycle ::
  "(string \<Rightarrow> 'r) \<Rightarrow> 'r OpenAPIDefinition" where
  [schema_defs]: "schema_k8sio_api_core_v1_Lifecycle ref =
     OpenAPIDefinition
       (SchemaProps
         [Type [''object''],
          Properties
             [(''postStart'', SchemaProps [Ref (ref (core_v1 ''LifecycleHandler''))]),
              (''preStop'', SchemaProps [Ref (ref (core_v1 ''LifecycleHandler''))]),
              (''stopSignal'', SchemaProps
                   [Type [''string''],
                    Format [],
                    Enum [VStr ''SIGABRT'', VStr ''SIGALRM'', VStr ''SIGBUS'', VStr ''SIGCHLD'', VStr ''SIGCLD'', VStr ''SIGCONT'', VStr ''SIGFPE'', VStr ''SIGHUP'', VStr ''SIGILL'', VStr ''SIGINT'', VStr ''SIGIO'', VStr ''SIGIOT'', VStr ''SIGKILL'', VStr ''SIGPIPE'', VStr ''SIGPOLL'', VStr ''SIGPROF'', VStr ''SIGPWR'', VStr ''SIGQUIT'', VStr ''SIGRTMAX'', VStr ''SIGRTMAX-1'', VStr ''SIGRTMAX-10'', VStr ''SIGRTMAX-11'', VStr ''SIGRTMAX-12'', VStr ''SIGRTMAX-13'', VStr ''SIGRTMAX-14'', VStr ''SIGRTMAX-2'', VStr ''SIGRTMAX-3'', VStr ''SIGRTMAX-4'', VStr ''SIGRTMAX-5'', VStr ''SIGRTMAX-6'', VStr ''SIGRTMAX-7'', VStr ''SIGRTMAX-8'', VStr ''SIGRTMAX-9'', VStr ''SIGRTMIN'', VStr ''SIGRTMIN+1'', VStr ''SIGRTMIN+10'', VStr ''SIGRTMIN+11'', VStr ''SIGRTMIN+12'', VStr ''SIGRTMIN+13'', VStr ''SIGRTMIN+14'', VStr ''SIGRTMIN+15'', VStr ''SIGRTMIN+2'', VStr ''SIGRTMIN+3'', VStr ''SIGRTMIN+4'', VStr ''SIGRTMIN+5'', VStr ''SIGRTMIN+6'', VStr ''SIGRTMIN+7'', VStr ''SIGRTMIN+8'', VStr ''SIGRTMIN+9'', VStr ''SIGSEGV'', VStr ''SIGSTKFLT'', VStr ''SIGSTOP'', VStr ''SIGSYS'', VStr ''SIGTERM'', VStr ''SIGTRAP'', VStr ''SIGTSTP'', VStr ''SIGTTIN'', VStr ''SIGTTOU'', VStr ''SIGURG'', VStr ''SIGUSR1'', VStr ''SIGUSR2'', VStr ''SIGVTALRM'', VStr ''SIGWINCH'', VStr ''SIGXCPU'', VStr ''SIGXFSZ'']])]])
       [core_v1 ''LifecycleHandler'']"

definition schema_k8sio_api_core_v1_LifecycleHandler ::
  "(string \<Rightarrow> 'r) \<Rightarrow> 'r OpenAPIDefinition" where
  [schema_defs]: "schema_k8sio_api_core_v1_LifecycleHandler ref =
     OpenAPIDefinition
       (SchemaProps
         [Type [''object''],
          Properties
             [(''exec'', SchemaProps [Ref (ref (core_v1 ''ExecAction''))]),
              (''httpGet'', SchemaProps [Ref (ref (core_v1 ''HTTPGetAction''))]),
              (''tcpSocket'', SchemaProps [Ref (ref (core_v1 ''TCPSocketAction''))]),
              (''sleep'', SchemaProps [Ref (ref (core_v1 ''SleepAction''))])]])
       [core_v1 ''ExecAction'', core_v1 ''HTTPGetAction'', core_v1 ''SleepAction'',
        core_v1 ''TCPSocketAction'']"

definition schema_k8sio_api_core_v1_LimitRange ::
  "(string \<Rightarrow> 'r) \<Rightarrow> 'r OpenAPIDefinition" where
  [schema_defs]: "schema_k8sio_api_core_v1_LimitRange ref =
     OpenAPIDefinition
       (SchemaProps
         [Type [''object''],
          Properties
             [(''kind'', SchemaProps [Type [''string''], Format []]),
              (''apiVersion'', SchemaProps [Type [''string''], Format []]),
              (''metadata'', SchemaProps [Default (VObj []), Ref (ref (meta_v1 ''ObjectMeta''))]),
              (''spec'', SchemaProps [Default (VObj []), Ref (ref (core_v1 ''LimitRangeSpec''))])]])
       [core_v1 ''LimitRangeSpec'', meta_v1 ''ObjectMeta'']"

definition schema_k8sio_api_core_v1_LimitRangeItem ::
  "(string \<Rightarrow> 'r) \<Rightarrow> 'r OpenAPIDefinition" where
  [schema_defs]: "schema_k8sio_api_core_v1_LimitRangeItem ref =
     OpenAPIDefinition
       (SchemaProps
         [Type [''object''],
          Properties
             [(''type'', SchemaProps [Default (VStr []), Type [''string''], Format []]),
              (''max'', SchemaProps
                   [Type [''object''],
                    AdditionalProperties True (SchemaProps [Ref (ref (pkg_resource ''Quantity''))])]),
              (''min'', SchemaProps
                   [Type [''object''],
                    AdditionalProperties True (SchemaProps [Ref (ref (pkg_resource ''Quantity''))])]),
              (''default'', SchemaProps
                   [Type [''object''],
                    AdditionalProperties True (SchemaProps [Ref (ref (pkg_resource ''Quantity''))])]),
              (''defaultRequest'', SchemaProps
                   [Type [''object''],
                    AdditionalProperties True (SchemaProps [Ref (ref (pkg_resource ''Quantity''))])]),
              (''maxLimitRequestRatio'', SchemaProps
                   [Type [''object''],
                    AdditionalProperties True (SchemaProps [Ref (ref (pkg_resource ''Quantity''))])])],
          Required [''type'']])
       [pkg_resource ''Quantity'']"

definition schema_k8sio_api_core_v1_LimitRangeList ::
  "(string \<Rightarrow> 'r) \<Rightarrow> 'r OpenAPIDefinition" where
  [schema_defs]: "schema_k8sio_api_core_v1_LimitRangeList ref =
     OpenAPIDefinition
       (SchemaProps
         [Type [''object''],
          Properties
             [(''kind'', SchemaProps [Type [''string''], Format []]),
              (''apiVersion'', SchemaProps [Type [''string''], Format []]),
              (''metadata'', SchemaProps [Default (VObj []), Ref (ref (meta_v1 ''ListMeta''))]),
              (''items'', SchemaProps
                   [Type [''array''],
                    Items (SchemaProps [Default (VObj []), Ref (ref (core_v1 ''LimitRange''))])])],
          Required [''items'']])
       [core_v1 ''LimitRange'', meta_v1 ''ListMeta'']"

definition schema_k8sio_api_core_v1_LimitRangeSpec ::
  "(string \<Rightarrow> 'r) \<Rightarrow> 'r OpenAPIDefinition" where
  [schema_defs]: "schema_k8sio_api_core_v1_LimitRangeSpec ref =
     OpenAPIDefinition
       (SchemaProps
         [Type [''object''],
          Properties
             [(''limits'', SchemaProps
                   [Type [''array''],
                    Items (SchemaProps [Default (VObj []), Ref (ref (core_v1 ''LimitRangeItem''))]),
                    Extensions [(''x-kubernetes-list-type'', VStr ''atomic'')]])],
          Required [''limits'']])
       [core_v1 ''LimitRangeItem'']"

definition schema_k8sio_api_core_v1_LinuxContainerUser ::
  "(string \<Rightarrow> 'r) \<Rightarrow> 'r OpenAPIDefinition" where
  [schema_defs]: "schema_k8sio_api_core_v1_LinuxContainerUser ref =
     OpenAPIDefinition
       (SchemaProps
         [Type [''object''],
          Properties
             [(''uid'', SchemaProps [Default (VInt 0), Type [''integer''], Format ''int64'']),
              (''gid'', SchemaProps [Default (VInt 0), Type [''integer''], Format ''int64'']),
              (''supplementalGroups'', SchemaProps
                   [Type [''array''],
                    Items (SchemaProps [Default (VInt 0), Type [''integer''], Format ''int64'']),
                    Extensions [(''x-kubernetes-list-type'', VStr ''atomic'')]])],
          Required [''uid'', ''gid'']])
       []"

definition schema_k8sio_api_core_v1_List ::
  "(string \<Rightarrow> 'r) \<Rightarrow> 'r OpenAPIDefinition" where
  [schema_defs]: "schema_k8sio_api_core_v1_List ref =
     OpenAPIDefinition
       (SchemaProps
         [Type [''object''],
          Properties
             [(''kind'', SchemaProps [Type [''string''], Format []]),
              (''apiVersion'', SchemaProps [Type [''string''], Format []]),
              (''metadata'', SchemaProps [Default (VObj []), Ref (ref (meta_v1 ''ListMeta''))]),
              (''items'', SchemaProps
                   [Type [''array''],
                    Items (SchemaProps [Ref (ref (pkg_runtime ''RawExtension''))])])],
          Required [''items'']])
       [meta_v1 ''ListMeta'', pkg_runtime ''RawExtension'']"

definition schema_k8sio_api_core_v1_LoadBalancerIngress ::
  "(string \<Rightarrow> 'r) \<Rightarrow> 'r OpenAPIDefinition" where
  [schema_defs]: "schema_k8sio_api_core_v1_LoadBalancerIngress ref =
     OpenAPIDefinition
       (SchemaProps
         [Type [''object''],
          Properties
             [(''ip'', SchemaProps [Type [''string''], Format []]),
              (''hostname'', SchemaProps [Type [''string''], Format []]),
              (''ipMode'', SchemaProps [Type [''string''], Format []]),
              (''ports'', SchemaProps
                   [Type [''array''],
                    Items (SchemaProps [Default (VObj []), Ref (ref (core_v1 ''PortStatus''))]),
                    Extensions [(''x-kubernetes-list-type'', VStr ''atomic'')]])]])
       [core_v1 ''PortStatus'']"

definition schema_k8sio_api_core_v1_LoadBalancerStatus ::
  "(string \<Rightarrow> 'r) \<Rightarrow> 'r OpenAPIDefinition" where
  [schema_defs]: "schema_k8sio_api_core_v1_LoadBalancerStatus ref =
     OpenAPIDefinition
       (SchemaProps
         [Type [''object''],
          Properties
             [(''ingress'', SchemaProps
                   [Type [''array''],
                    Items (SchemaProps
                           [Default (VObj []),
                            Ref (ref (core_v1 ''LoadBalancerIngress''))]),
                    Extensions [(''x-kubernetes-list-type'', VStr ''atomic'')]])]])
       [core_v1 ''LoadBalancerIngress'']"

definition schema_k8sio_api_core_v1_LocalObjectReference ::
  "(string \<Rightarrow> 'r) \<Rightarrow> 'r OpenAPIDefinition" where
  [schema_defs]: "schema_k8sio_api_core_v1_LocalObjectReference ref =
     OpenAPIDefinition
       (SchemaProps
         [Type [''object''],
          Properties
             [(''name'', SchemaProps [Default (VStr []), Type [''string''], Format []])],
          Extensions [(''x-kubernetes-map-type'', VStr ''atomic'')]])
       []"

definition schema_k8sio_api_core_v1_LocalVolumeSource ::
  "(string \<Rightarrow> 'r) \<Rightarrow> 'r OpenAPIDefinition" where
  [schema_defs]: "schema_k8sio_api_core_v1_LocalVolumeSource ref =
     OpenAPIDefinition
       (SchemaProps
         [Type [''object''],
          Properties
             [(''path'', SchemaProps [Default (VStr []), Type [''string''], Format []]),
              (''fsType'', SchemaProps [Type [''string''], Format []])],
          Required [''path'']])
       []"

definition schema_k8sio_api_core_v1_ModifyVolumeStatus ::
  "(string \<Rightarrow> 'r) \<Rightarrow> 'r OpenAPIDefinition" where
  [schema_defs]: "schema_k8sio_api_core_v1_ModifyVolumeStatus ref =
     OpenAPIDefinition
       (SchemaProps
         [Type [''object''],
          Properties
             [(''targetVolumeAttributesClassName'', SchemaProps [Type [''string''], Format []]),
              (''status'', SchemaProps
                   [Default (VStr []),
                    Type [''string''],
                    Format [],
                    Enum [VStr ''InProgress'', VStr ''Infeasible'', VStr ''Pending'']])],
          Required [''status'']])
       []"

definition schema_k8sio_api_core_v1_NFSVolumeSource ::
  "(string \<Rightarrow> 'r) \<Rightarrow> 'r OpenAPIDefinition" where
  [schema_defs]: "schema_k8sio_api_core_v1_NFSVolumeSource ref =
     OpenAPIDefinition
       (SchemaProps
         [Type [''object''],
          Properties
             [(''server'', SchemaProps [Default (VStr []), Type [''string''], Format []]),
              (''path'', SchemaProps [Default (VStr []), Type [''string''], Format []]),
              (''readOnly'', SchemaProps [Type [''boolean''], Format []])],
          Required [''server'', ''path'']])
       []"

definition schema_k8sio_api_core_v1_Namespace ::
  "(string \<Rightarrow> 'r) \<Rightarrow> 'r OpenAPIDefinition" where
  [schema_defs]: "schema_k8sio_api_core_v1_Namespace ref =
     OpenAPIDefinition
       (SchemaProps
         [Type [''object''],
          Properties
             [(''kind'', SchemaProps [Type [''string''], Format []]),
              (''apiVersion'', SchemaProps [Type [''string''], Format []]),
              (''metadata'', SchemaProps [Default (VObj []), Ref (ref (meta_v1 ''ObjectMeta''))]),
              (''spec'', SchemaProps [Default (VObj []), Ref (ref (core_v1 ''NamespaceSpec''))]),
              (''status'', SchemaProps [Default (VObj []), Ref (ref (core_v1 ''NamespaceStatus''))])]])
       [core_v1 ''NamespaceSpec'', core_v1 ''NamespaceStatus'', meta_v1 ''ObjectMeta'']"

definition schema_k8sio_api_core_v1_NamespaceCondition ::
  "(string \<Rightarrow> 'r) \<Rightarrow> 'r OpenAPIDefinition" where
  [schema_defs]: "schema_k8sio_api_core_v1_NamespaceCondition ref =
     OpenAPIDefinition
       (SchemaProps
         [Type [''object''],
          Properties
             [(''type'', SchemaProps [Default (VStr []), Type [''string''], Format []]),
              (''status'', SchemaProps [Default (VStr []), Type [''string''], Format []]),
              (''lastTransitionTime'', SchemaProps [Ref (ref (meta_v1 ''Time''))]),
              (''reason'', SchemaProps [Type [''string''], Format []]),
              (''message'', SchemaProps [Type [''string''], Format []])],
          Required [''type'', ''status'']])
       [meta_v1 ''Time'']"

definition schema_k8sio_api_core_v1_NamespaceList ::
  "(string \<Rightarrow> 'r) \<Rightarrow> 'r OpenAPIDefinition" where
  [schema_defs]: "schema_k8sio_api_core_v1_NamespaceList ref =
     OpenAPIDefinition
       (SchemaProps
         [Type [''object''],
          Properties
             [(''kind'', SchemaProps [Type [''string''], Format []]),
              (''apiVersion'', SchemaProps [Type [''string''], Format []]),
              (''metadata'', SchemaProps [Default (VObj []), Ref (ref (meta_v1 ''ListMeta''))]),
              (''items'', SchemaProps
                   [Type [''array''],
                    Items (SchemaProps [Default (VObj []), Ref (ref (core_v1 ''Namespace''))])])],
          Required [''items'']])
       [core_v1 ''Namespace'', meta_v1 ''ListMeta'']"

definition schema_k8sio_api_core_v1_NamespaceSpec ::
  "(string \<Rightarrow> 'r) \<Rightarrow> 'r OpenAPIDefinition" where
  [schema_defs]: "schema_k8sio_api_core_v1_NamespaceSpec ref =
     OpenAPIDefinition
       (SchemaProps
         [Type [''object''],
          Properties
             [(''finalizers'', SchemaProps
                   [Type [''array''],
                    Items (SchemaProps [Default (VStr []), Type [''string''], Format []]),
                    Extensions [(''x-kubernetes-list-type'', VStr ''atomic'')]])]])
       []"

definition schema_k8sio_api_core_v1_NamespaceStatus ::
  "(string \<Rightarrow> 'r) \<Rightarrow> 'r OpenAPIDefinition" where
  [schema_defs]: "schema_k8sio_api_core_v1_NamespaceStatus ref =
     OpenAPIDefinition
       (SchemaProps
         [Type [''object''],
          Properties
             [(''phase'', SchemaProps
                   [Type [''string''],
                    Format [],
                    Enum [VStr ''Active'', VStr ''Terminating'']]),
              (''conditions'', SchemaProps
                   [Type [''array''],
                    Items (SchemaProps
                           [Default (VObj []),
                            Ref (ref (core_v1 ''NamespaceCondition''))]),
                    Extensions [(''x-kubernetes-list-map-keys'', VArr [VStr ''type'']), (''x-kubernetes-list-type'', VStr ''map''), (''x-kubernetes-patch-merge-key'', VStr ''type''), (''x-kubernetes-patch-strategy'', VStr ''merge'')]])]])
       [core_v1 ''NamespaceCondition'']"

definition schema_k8sio_api_core_v1_Node ::
  "(string \<Rightarrow> 'r) \<Rightarrow> 'r OpenAPIDefinition" where
  [schema_defs]: "schema_k8sio_api_core_v1_Node ref =
     OpenAPIDefinition
       (SchemaProps
         [Type [''object''],
          Properties
             [(''kind'', SchemaProps [Type [''string''], Format []]),
              (''apiVersion'', SchemaProps [Type [''string''], Format []]),
              (''metadata'', SchemaProps [Default (VObj []), Ref (ref (meta_v1 ''ObjectMeta''))]),
              (''spec'', SchemaProps [Default (VObj []), Ref (ref (core_v1 ''NodeSpec''))]),
              (''status'', SchemaProps [Default (VObj []), Ref (ref (core_v1 ''NodeStatus''))])]])
       [core_v1 ''NodeSpec'', core_v1 ''NodeStatus'', meta_v1 ''ObjectMeta'']"

definition schema_k8sio_api_core_v1_NodeAddress ::
  "(string \<Rightarrow> 'r) \<Rightarrow> 'r OpenAPIDefinition" where
  [schema_defs]: "schema_k8sio_api_core_v1_NodeAddress ref =
     OpenAPIDefinition
       (SchemaProps
         [Type [''object''],
          Properties
             [(''type'', SchemaProps [Default (VStr []), Type [''string''], Format []]),
              (''address'', SchemaProps [Default (VStr []), Type [''string''], Format []])],
          Required [''type'', ''address'']])
       []"

definition schema_k8sio_api_core_v1_NodeAffinity ::
  "(string \<Rightarrow> 'r) \<Rightarrow> 'r OpenAPIDefinition" where
  [schema_defs]: "schema_k8sio_api_core_v1_NodeAffinity ref =
     OpenAPIDefinition
       (SchemaProps
         [Type [''object''],
          Properties
             [(''requiredDuringSchedulingIgnoredDuringExecution'', SchemaProps [Ref (ref (core_v1 ''NodeSelector''))]),
              (''preferredDuringSchedulingIgnoredDuringExecution'', SchemaProps
                   [Type [''array''],
                    Items (SchemaProps
                           [Default (VObj []),
                            Ref (ref (core_v1 ''PreferredSchedulingTerm''))]),
                    Extensions [(''x-kubernetes-list-type'', VStr ''atomic'')]])]])
       [core_v1 ''NodeSelector'', core_v1 ''PreferredSchedulingTerm'']"

definition schema_k8sio_api_core_v1_NodeCondition ::
  "(string \<Rightarrow> 'r) \<Rightarrow> 'r OpenAPIDefinition" where
  [schema_defs]: "schema_k8sio_api_core_v1_NodeCondition ref =
     OpenAPIDefinition
       (SchemaProps
         [Type [''object''],
          Properties
             [(''type'', SchemaProps [Default (VStr []), Type [''string''], Format []]),
              (''status'', SchemaProps [Default (VStr []), Type [''string''], Format []]),
              (''lastHeartbeatTime'', SchemaProps [Ref (ref (meta_v1 ''Time''))]),
              (''lastTransitionTime'', SchemaProps [Ref (ref (meta_v1 ''Time''))]),
              (''reason'', SchemaProps [Type [''string''], Format []]),
              (''message'', SchemaProps [Type [''string''], Format []])],
          Required [''type'', ''status'']])
       [meta_v1 ''Time'']"

definition schema_k8sio_api_core_v1_NodeConfigSource ::
  "(string \<Rightarrow> 'r) \<Rightarrow> 'r OpenAPIDefinition" where
  [schema_defs]: "schema_k8sio_api_core_v1_NodeConfigSource ref =
     OpenAPIDefinition
       (SchemaProps
         [Type [''object''],
          Properties
             [(''configMap'', SchemaProps [Ref (ref (core_v1 ''ConfigMapNodeConfigSource''))])]])
       [core_v1 ''ConfigMapNodeConfigSource'']"

definition schema_k8sio_api_core_v1_NodeConfigStatus ::
  "(string \<Rightarrow> 'r) \<Rightarrow> 'r OpenAPIDefinition" where
  [schema_defs]: "schema_k8sio_api_core_v1_NodeConfigStatus ref =
     OpenAPIDefinition
       (SchemaProps
         [Type [''object''],
          Properties
             [(''assigned'', SchemaProps [Ref (ref (core_v1 ''NodeConfigSource''))]),
              (''active'', SchemaProps [Ref (ref (core_v1 ''NodeConfigSource''))]),
              (''lastKnownGood'', SchemaProps [Ref (ref (core_v1 ''NodeConfigSource''))]),
              (''error'', SchemaProps [Type [''string''], Format []])]])
       [core_v1 ''NodeConfigSource'']"

definition schema_k8sio_api_core_v1_NodeDaemonEndpoints ::
  "(string \<Rightarrow> 'r) \<Rightarrow> 'r OpenAPIDefinition" where
  [schema_defs]: "schema_k8sio_api_core_v1_NodeDaemonEndpoints ref =
     OpenAPIDefinition
       (SchemaProps
         [Type [''object''],
          Properties
             [(''kubeletEndpoint'', SchemaProps [Default (VObj []), Ref (ref (core_v1 ''DaemonEndpoint''))])]])
       [core_v1 ''DaemonEndpoint'']"

definition schema_k8sio_api_core_v1_NodeFeatures ::
  "(string \<Rightarrow> 'r) \<Rightarrow> 'r OpenAPIDefinition" where
  [schema_defs]: "schema_k8sio_api_core_v1_NodeFeatures ref =
     OpenAPIDefinition
       (SchemaProps
         [Type [''object''],
          Properties
             [(''supplementalGroupsPolicy'', SchemaProps [Type [''boolean''], Format []])]])
       []"

definition schema_k8sio_api_core_v1_NodeList ::
  "(string \<Rightarrow> 'r) \<Rightarrow> 'r OpenAPIDefinition" where
  [schema_defs]: "schema_k8sio_api_core_v1_NodeList ref =
     OpenAPIDefinition
       (SchemaProps
         [Type [''object''],
          Properties
             [(''kind'', SchemaProps [Type [''string''], Format []]),
              (''apiVersion'', SchemaProps [Type [''string''], Format []]),
              (''metadata'', SchemaProps [Default (VObj []), Ref (ref (meta_v1 ''ListMeta''))]),
              (''items'', SchemaProps
                   [Type [''array''],
                    Items (SchemaProps [Default (VObj []), Ref (ref (core_v1 ''Node''))])])],
          Required [''items'']])
       [core_v1 ''Node'', meta_v1 ''ListMeta'']"

definition schema_k8sio_api_core_v1_NodeProxyOptions ::
  "(string \<Rightarrow> 'r) \<Rightarrow> 'r OpenAPIDefinition" where
  [schema_defs]: "schema_k8sio_api_core_v1_NodeProxyOptions ref =
     OpenAPIDefinition
       (SchemaProps
         [Type [''object''],
          Properties
             [(''kind'', SchemaProps [Type [''string''], Format []]),
              (''apiVersion'', SchemaProps [Type [''string''], Format []]),
              (''path'', SchemaProps [Type [''string''], Format []])]])
       []"

definition schema_k8sio_api_core_v1_NodeRuntimeHandler ::
  "(string \<Rightarrow> 'r) \<Rightarrow> 'r OpenAPIDefinition" where
  [schema_defs]: "schema_k8sio_api_core_v1_NodeRuntimeHandler ref =
     OpenAPIDefinition
       (SchemaProps
         [Type [''object''],
          Properties
             [(''name'', SchemaProps [Default (VStr []), Type [''string''], Format []]),
              (''features'', SchemaProps [Ref (ref (core_v1 ''NodeRuntimeHandlerFeatures''))])]])
       [core_v1 ''NodeRuntimeHandlerFeatures'']"

definition schema_k8sio_api_core_v1_NodeRuntimeHandlerFeatures ::
  "(string \<Rightarrow> 'r) \<Rightarrow> 'r OpenAPIDefinition" where
  [schema_defs]: "schema_k8sio_api_core_v1_NodeRuntimeHandlerFeatures ref =
     OpenAPIDefinition
       (SchemaProps
         [Type [''object''],
          Properties
             [(''recursiveReadOnlyMounts'', SchemaProps [Type [''boolean''], Format []]),
              (''userNamespaces'', SchemaProps [Type [''boolean''], Format []])]])
       []"

definition schema_k8sio_api_core_v1_NodeSelector ::
  "(string \<Rightarrow> 'r) \<Rightarrow> 'r OpenAPIDefinition" where
  [schema_defs]: "schema_k8sio_api_core_v1_NodeSelector ref =
     OpenAPIDefinition
       (SchemaProps
         [Type [''object''],
          Properties
             [(''nodeSelectorTerms'', SchemaProps
                   [Type [''array''],
                    Items (SchemaProps [Default (VObj []), Ref (ref (core_v1 ''NodeSelectorTerm''))]),
                    Extensions [(''x-kubernetes-list-type'', VStr ''atomic'')]])],
          Required [''nodeSelectorTerms''],
          Extensions [(''x-kubernetes-map-type'', VStr ''atomic'')]])
       [core_v1 ''NodeSelectorTerm'']"

definition schema_k8sio_api_core_v1_NodeSelectorRequirement ::
  "(string \<Rightarrow> 'r) \<Rightarrow> 'r OpenAPIDefinition" where
  [schema_defs]: "schema_k8sio_api_core_v1_NodeSelectorRequirement ref =
     OpenAPIDefinition
       (SchemaProps
         [Type [''object''],
          Properties
             [(''key'', SchemaProps [Default (VStr []), Type [''string''], Format []]),
              (''operator'', SchemaProps
                   [Default (VStr []),
                    Type [''string''],
                    Format [],
                    Enum [VStr ''DoesNotExist'', VStr ''Exists'', VStr ''Gt'', VStr ''In'', VStr ''Lt'', VStr ''NotIn'']]),
              (''values'', SchemaProps
                   [Type [''array''],
                    Items (SchemaProps [Default (VStr []), Type [''string''], Format []]),
                    Extensions [(''x-kubernetes-list-type'', VStr ''atomic'')]])],
          Required [''key'', ''operator'']])
       []"

definition schema_k8sio_api_core_v1_NodeSelectorTerm ::
  "(string \<Rightarrow> 'r) \<Rightarrow> 'r OpenAPIDefinition" where
  [schema_defs]: "schema_k8sio_api_core_v1_NodeSelectorTerm ref =
     OpenAPIDefinition
       (SchemaProps
         [Type [''object''],
          Properties
             [(''matchExpressions'', SchemaProps
                   [Type [''array''],
                    Items (SchemaProps
                           [Default (VObj []),
                            Ref (ref (core_v1 ''NodeSelectorRequirement''))]),
                    Extensions [(''x-kubernetes-list-type'', VStr ''atomic'')]]),
              (''matchFields'', SchemaProps
                   [Type [''array''],
                    Items (SchemaProps
                           [Default (VObj []),
                            Ref (ref (core_v1 ''NodeSelectorRequirement''))]),
                    Extensions [(''x-kubernetes-list-type'', VStr ''atomic'')]])],
          Extensions [(''x-kubernetes-map-type'', VStr ''atomic'')]])
       [core_v1 ''NodeSelectorRequirement'']"

definition schema_k8sio_api_core_v1_NodeSpec ::
  "(string \<Rightarrow> 'r) \<Rightarrow> 'r OpenAPIDefinition" where
  [schema_defs]: "schema_k8sio_api_core_v1_NodeSpec ref =
     OpenAPIDefinition
       (SchemaProps
         [Type [''object''],
          Properties
             [(''podCIDR'', SchemaProps [Type [''string''], Format []]),
              (''podCIDRs'', SchemaProps
                   [Type [''array''],
                    Items (SchemaProps [Default (VStr []), Type [''string''], Format []]),
                    Extensions [(''x-kubernetes-list-type'', VStr ''set''), (''x-kubernetes-patch-strategy'', VStr ''merge'')]]),
              (''providerID'', SchemaProps [Type [''string''], Format []]),
              (''unschedulable'', SchemaProps [Type [''boolean''], Format []]),
              (''taints'', SchemaProps
                   [Type [''array''],
                    Items (SchemaProps [Default (VObj []), Ref (ref (core_v1 ''Taint''))]),
                    Extensions [(''x-kubernetes-list-type'', VStr ''atomic'')]]),
              (''configSource'', SchemaProps [Ref (ref (core_v1 ''NodeConfigSource''))]),
              (''externalID'', SchemaProps [Type [''string''], Format []])]])
       [core_v1 ''NodeConfigSource'', core_v1 ''Taint'']"

definition schema_k8sio_api_core_v1_NodeStatus ::
  "(string \<Rightarrow> 'r) \<Rightarrow> 'r OpenAPIDefinition" where
  [schema_defs]: "schema_k8sio_api_core_v1_NodeStatus ref =
     OpenAPIDefinition
       (SchemaProps
         [Type [''object''],
          Properties
             [(''capacity'', SchemaProps
                   [Type [''object''],
                    AdditionalProperties True (SchemaProps [Ref (ref (pkg_resource ''Quantity''))])]),
              (''allocatable'', SchemaProps
                   [Type [''object''],
                    AdditionalProperties True (SchemaProps [Ref (ref (pkg_resource ''Quantity''))])]),
              (''phase'', SchemaProps
                   [Type [''string''],
                    Format [],
                    Enum [VStr ''Pending'', VStr ''Running'', VStr ''Terminated'']]),
              (''conditions'', SchemaProps
                   [Type [''array''],
                    Items (SchemaProps [Default (VObj []), Ref (ref (core_v1 ''NodeCondition''))]),
                    Extensions [(''x-kubernetes-list-map-keys'', VArr [VStr ''type'']), (''x-kubernetes-list-type'', VStr ''map''), (''x-kubernetes-patch-merge-key'', VStr ''type''), (''x-kubernetes-patch-strategy'', VStr ''merge'')]]),
              (''addresses'', SchemaProps
                   [Type [''array''],
                    Items (SchemaProps [Default (VObj []), Ref (ref (core_v1 ''NodeAddress''))]),
                    Extensions [(''x-kubernetes-list-map-keys'', VArr [VStr ''type'']), (''x-kubernetes-list-type'', VStr ''map''), (''x-kubernetes-patch-merge-key'', VStr ''type''), (''x-kubernetes-patch-strategy'', VStr ''merge'')]]),
              (''daemonEndpoints'', SchemaProps [Default (VObj []), Ref (ref (core_v1 ''NodeDaemonEndpoints''))]),
              (''nodeInfo'', SchemaProps [Default (VObj []), Ref (ref (core_v1 ''NodeSystemInfo''))]),
              (''images'', SchemaProps
                   [Type [''array''],
                    Items (SchemaProps [Default (VObj []), Ref (ref (core_v1 ''ContainerImage''))]),
                    Extensions [(''x-kubernetes-list-type'', VStr ''atomic'')]]),
              (''volumesInUse'', SchemaProps
                   [Type [''array''],
                    Items (SchemaProps [Default (VStr []), Type [''string''], Format []]),
                    Extensions [(''x-kubernetes-list-type'', VStr ''atomic'')]]),
              (''volumesAttached'', SchemaProps
                   [Type [''array''],
                    Items (SchemaProps [Default (VObj []), Ref (ref (core_v1 ''AttachedVolume''))]),
                    Extensions [(''x-kubernetes-list-type'', VStr ''atomic'')]]),
              (''config'', SchemaProps [Ref (ref (core_v1 ''NodeConfigStatus''))]),
              (''runtimeHandlers'', SchemaProps
                   [Type [''array''],
                    Items (SchemaProps
                           [Default (VObj []),
                            Ref (ref (core_v1 ''NodeRuntimeHandler''))]),
                    Extensions [(''x-kubernetes-list-type'', VStr ''atomic'')]]),
              (''features'', SchemaProps [Ref (ref (core_v1 ''NodeFeatures''))])]])
       [core_v1 ''AttachedVolume'', core_v1 ''ContainerImage'', core_v1 ''NodeAddress'',
        core_v1 ''NodeCondition'', core_v1 ''NodeConfigStatus'', core_v1 ''NodeDaemonEndpoints'',
        core_v1 ''NodeFeatures'', core_v1 ''NodeRuntimeHandler'', core_v1 ''NodeSystemInfo'',
        pkg_resource ''Quantity'']"

definition schema_k8sio_api_core_v1_NodeSwapStatus ::
  "(string \<Rightarrow> 'r) \<Rightarrow> 'r OpenAPIDefinition" where
  [schema_defs]: "schema_k8sio_api_core_v1_NodeSwapStatus ref =
     OpenAPIDefinition
       (SchemaProps
         [Type [''object''],
          Properties
             [(''capacity'', SchemaProps [Type [''integer''], Format ''int64''])]])
       []"

definition schema_k8sio_api_core_v1_NodeSystemInfo ::
  "(string \<Rightarrow> 'r) \<Rightarrow> 'r OpenAPIDefinition" where
  [schema_defs]: "schema_k8sio_api_core_v1_NodeSystemInfo ref =
     OpenAPIDefinition
       (SchemaProps
         [Type [''object''],
          Properties
             [(''machineID'', SchemaProps [Default (VStr []), Type [''string''], Format []]),
              (''systemUUID'', SchemaProps [Default (VStr []), Type [''string''], Format []]),
              (''bootID'', SchemaProps [Default (VStr []), Type [''string''], Format []]),
              (''kernelVersion'', SchemaProps [Default (VStr []), Type [''string''], Format []]),
              (''osImage'', SchemaProps [Default (VStr []), Type [''string''], Format []]),
              (''containerRuntimeVersion'', SchemaProps [Default (VStr []), Type [''string''], Format []]),
              (''kubeletVersion'', SchemaProps [Default (VStr []), Type [''string''], Format []]),
              (''kubeProxyVersion'', SchemaProps [Default (VStr []), Type [''string''], Format []]),
              (''operatingSystem'', SchemaProps [Default (VStr []), Type [''string''], Format []]),
              (''architecture'', SchemaProps [Default (VStr []), Type [''string''], Format []]),
              (''swap'', SchemaProps [Ref (ref (core_v1 ''NodeSwapStatus''))])],
          Required [''machineID'', ''systemUUID'', ''bootID'', ''kernelVersion'', ''osImage'', ''containerRuntimeVersion'', ''kubeletVersion'', ''kubeProxyVersion'', ''operatingSystem'', ''architecture'']])
       [core_v1 ''NodeSwapStatus'']"

definition schema_k8sio_api_core_v1_ObjectFieldSelector ::
  "(string \<Rightarrow> 'r) \<Rightarrow> 'r OpenAPIDefinition" where
  [schema_defs]: "schema_k8sio_api_core_v1_ObjectFieldSelector ref =
     OpenAPIDefinition
       (SchemaProps
         [Type [''object''],
          Properties
             [(''apiVersion'', SchemaProps [Type [''string''], Format []]),
              (''fieldPath'', SchemaProps [Default (VStr []), Type [''string''], Format []])],
          Required [''fieldPath''],
          Extensions [(''x-kubernetes-map-type'', VStr ''atomic'')]])
       []"

definition schema_k8sio_api_core_v1_ObjectReference ::
  "(string \<Rightarrow> 'r) \<Rightarrow> 'r OpenAPIDefinition" where
  [schema_defs]: "schema_k8sio_api_core_v1_ObjectReference ref =
     OpenAPIDefinition
       (SchemaProps
         [Type [''object''],
          Properties
             [(''kind'', SchemaProps [Type [''string''], Format []]),
              (''namespace'', SchemaProps [Type [''string''], Format []]),
              (''name'', SchemaProps [Type [''string''], Format []]),
              (''uid'', SchemaProps [Type [''string''], Format []]),
              (''apiVersion'', SchemaProps [Type [''string''], Format []]),
              (''resourceVersion'', SchemaProps [Type [''string''], Format []]),
              (''fieldPath'', SchemaProps [Type [''string''], Format []])],
          Extensions [(''x-kubernetes-map-type'', VStr ''atomic'')]])
       []"

definition schema_k8sio_api_core_v1_PersistentVolume ::
  "(string \<Rightarrow> 'r) \<Rightarrow> 'r OpenAPIDefinition" where
  [schema_defs]: "schema_k8sio_api_core_v1_PersistentVolume ref =
     OpenAPIDefinition
       (SchemaProps
         [Type [''object''],
          Properties
             [(''kind'', SchemaProps [Type [''string''], Format []]),
              (''apiVersion'', SchemaProps [Type [''string''], Format []]),
              (''metadata'', SchemaProps [Default (VObj []), Ref (ref (meta_v1 ''ObjectMeta''))]),
              (''spec'', SchemaProps [Default (VObj []), Ref (ref (core_v1 ''PersistentVolumeSpec''))]),
              (''status'', SchemaProps [Default (VObj []), Ref (ref (core_v1 ''PersistentVolumeStatus''))])]])
       [core_v1 ''PersistentVolumeSpec'', core_v1 ''PersistentVolumeStatus'', meta_v1 ''ObjectMeta'']"

definition schema_k8sio_api_core_v1_PersistentVolumeClaim ::
  "(string \<Rightarrow> 'r) \<Rightarrow> 'r OpenAPIDefinition" where
  [schema_defs]: "schema_k8sio_api_core_v1_PersistentVolumeClaim ref =
     OpenAPIDefinition
       (SchemaProps
         [Type [''object''],
          Properties
             [(''kind'', SchemaProps [Type [''string''], Format []]),
              (''apiVersion'', SchemaProps [Type [''string''], Format []]),
              (''metadata'', SchemaProps [Default (VObj []), Ref (ref (meta_v1 ''ObjectMeta''))]),
              (''spec'', SchemaProps [Default (VObj []), Ref (ref (core_v1 ''PersistentVolumeClaimSpec''))]),
              (''status'', SchemaProps
                   [Default (VObj []),
                    Ref (ref (core_v1 ''PersistentVolumeClaimStatus''))])]])
       [core_v1 ''PersistentVolumeClaimSpec'', core_v1 ''PersistentVolumeClaimStatus'',
        meta_v1 ''ObjectMeta'']"

definition schema_k8sio_api_core_v1_PersistentVolumeClaimCondition ::
  "(string \<Rightarrow> 'r) \<Rightarrow> 'r OpenAPIDefinition" where
  [schema_defs]: "schema_k8sio_api_core_v1_PersistentVolumeClaimCondition ref =
     OpenAPIDefinition
       (SchemaProps
         [Type [''object''],
          Properties
             [(''type'', SchemaProps [Default (VStr []), Type [''string''], Format []]),
              (''status'', SchemaProps [Default (VStr []), Type [''string''], Format []]),
              (''lastProbeTime'', SchemaProps [Ref (ref (meta_v1 ''Time''))]),
              (''lastTransitionTime'', SchemaProps [Ref (ref (meta_v1 ''Time''))]),
              (''reason'', SchemaProps [Type [''string''], Format []]),
              (''message'', SchemaProps [Type [''string''], Format []])],
          Required [''type'', ''status'']])
       [meta_v1 ''Time'']"

definition schema_k8sio_api_core_v1_PersistentVolumeClaimList ::
  "(string \<Rightarrow> 'r) \<Rightarrow> 'r OpenAPIDefinition" where
  [schema_defs]: "schema_k8sio_api_core_v1_PersistentVolumeClaimList ref =
     OpenAPIDefinition
       (SchemaProps
         [Type [''object''],
          Properties
             [(''kind'', SchemaProps [Type [''string''], Format []]),
              (''apiVersion'', SchemaProps [Type [''string''], Format []]),
              (''metadata'', SchemaProps [Default (VObj []), Ref (ref (meta_v1 ''ListMeta''))]),
              (''items'', SchemaProps
                   [Type [''array''],
                    Items (SchemaProps
                           [Default (VObj []),
                            Ref (ref (core_v1 ''PersistentVolumeClaim''))])])],
          Required [''items'']])
       [core_v1 ''PersistentVolumeClaim'', meta_v1 ''ListMeta'']"

definition schema_k8sio_api_core_v1_PersistentVolumeClaimSpec ::
  "(string \<Rightarrow> 'r) \<Rightarrow> 'r OpenAPIDefinition" where
  [schema_defs]: "schema_k8sio_api_core_v1_PersistentVolumeClaimSpec ref =
     OpenAPIDefinition
       (SchemaProps
         [Type [''object''],
          Properties
             [(''accessModes'', SchemaProps
                   [Type [''array''],
                    Items (SchemaProps
                           [Default (VStr []),
                            Type [''string''],
                            Format [],
                            Enum [VStr ''ReadOnlyMany'', VStr ''ReadWriteMany'', VStr ''ReadWriteOnce'', VStr ''ReadWriteOncePod'']]),
                    Extensions [(''x-kubernetes-list-type'', VStr ''atomic'')]]),
              (''selector'', SchemaProps [Ref (ref (meta_v1 ''LabelSelector''))]),
              (''resources'', SchemaProps
                   [Default (VObj []),
                    Ref (ref (core_v1 ''VolumeResourceRequirements''))]),
              (''volumeName'', SchemaProps [Type [''string''], Format []]),
              (''storageClassName'', SchemaProps [Type [''string''], Format []]),
              (''volumeMode'', SchemaProps
                   [Type [''string''],
                    Format [],
                    Enum [VStr ''Block'', VStr ''Filesystem'']]),
              (''dataSource'', SchemaProps [Ref (ref (core_v1 ''TypedLocalObjectReference''))]),
              (''dataSourceRef'', SchemaProps [Ref (ref (core_v1 ''TypedObjectReference''))]),
              (''volumeAttributesClassName'', SchemaProps [Type [''string''], Format []])]])
       [core_v1 ''TypedLocalObjectReference'', core_v1 ''TypedObjectReference'',
        core_v1 ''VolumeResourceRequirements'', meta_v1 ''LabelSelector'']"

lemma core2_sound:
  "def_sound ref (schema_k8sio_api_core_v1_EventList ref)"
  "def_sound ref (schema_k8sio_api_core_v1_EventSeries ref)"
  "def_sound ref (schema_k8sio_api_core_v1_EventSource ref)"
  "def_sound ref (schema_k8sio_api_core_v1_ExecAction ref)"
  "def_sound ref (schema_k8sio_api_core_v1_FCVolumeSource ref)"
  "def_sound ref (schema_k8sio_api_core_v1_FileKeySelector ref)"
  "def_sound ref (schema_k8sio_api_core_v1_FlexPersistentVolumeSource ref)"
  "def_sound ref (schema_k8sio_api_core_v1_FlexVolumeSource ref)"
  "def_sound ref (schema_k8sio_api_core_v1_FlockerVolumeSource ref)"
  "def_sound ref (schema_k8sio_api_core_v1_GCEPersistentDiskVolumeSource ref)"
  "def_sound ref (schema_k8sio_api_core_v1_GRPCAction ref)"
  "def_sound ref (schema_k8sio_api_core_v1_GitRepoVolumeSource ref)"
  "def_sound ref (schema_k8sio_api_core_v1_GlusterfsPersistentVolumeSource ref)"
  "def_sound ref (schema_k8sio_api_core_v1_GlusterfsVolumeSource ref)"
  "def_sound ref (schema_k8sio_api_core_v1_HTTPGetAction ref)"
  "def_sound ref (schema_k8sio_api_core_v1_HTTPHeader ref)"
  "def_sound ref (schema_k8sio_api_core_v1_HostAlias ref)"
  "def_sound ref (schema_k8sio_api_core_v1_HostIP ref)"
  "def_sound ref (schema_k8sio_api_core_v1_HostPathVolumeSource ref)"
  "def_sound ref (schema_k8sio_api_core_v1_ISCSIPersistentVolumeSource ref)"
  "def_sound ref (schema_k8sio_api_core_v1_ISCSIVolumeSource ref)"
  "def_sound ref (schema_k8sio_api_core_v1_ImageVolumeSource ref)"
  "def_sound ref (schema_k8sio_api_core_v1_KeyToPath ref)"
  "def_sound ref (schema_k8sio_api_core_v1_Lifecycle ref)"
  "def_sound ref (schema_k8sio_api_core_v1_LifecycleHandler ref)"
  "def_sound ref (schema_k8sio_api_core_v1_LimitRange ref)"
  "def_sound ref (schema_k8sio_api_core_v1_LimitRangeItem ref)"
  "def_sound ref (schema_k8sio_api_core_v1_LimitRangeList ref)"
  "def_sound ref (schema_k8sio_api_core_v1_LimitRangeSpec ref)"
  "def_sound ref (schema_k8sio_api_core_v1_LinuxContainerUser ref)"
  "def_sound ref (schema_k8sio_api_core_v1_List ref)"
  "def_sound ref (schema_k8sio_api_core_v1_LoadBalancerIngress ref)"
  "def_sound ref (schema_k8sio_api_core_v1_LoadBalancerStatus ref)"
  "def_sound ref (schema_k8sio_api_core_v1_LocalObjectReference ref)"
  "def_sound ref (schema_k8sio_api_core_v1_LocalVolumeSource ref)"
  "def_sound ref (schema_k8sio_api_core_v1_ModifyVolumeStatus ref)"
  "def_sound ref (schema_k8sio_api_core_v1_NFSVolumeSource ref)"
  "def_sound ref (schema_k8sio_api_core_v1_Namespace ref)"
  "def_sound ref (schema_k8sio_api_core_v1_NamespaceCondition ref)"
  "def_sound ref (schema_k8sio_api_core_v1_NamespaceList ref)"
  "def_sound ref (schema_k8sio_api_core_v1_NamespaceSpec ref)"
  "def_sound ref (schema_k8sio_api_core_v1_NamespaceStatus ref)"
  "def_sound ref (schema_k8sio_api_core_v1_Node ref)"
  "def_sound ref (schema_k8sio_api_core_v1_NodeAddress ref)"
  "def_sound ref (schema_k8sio_api_core_v1_NodeAffinity ref)"
  "def_sound ref (schema_k8sio_api_core_v1_NodeCondition ref)"
  "def_sound ref (schema_k8sio_api_core_v1_NodeConfigSource ref)"
  "def_sound ref (schema_k8sio_api_core_v1_NodeConfigStatus ref)"
  "def_sound ref (schema_k8sio_api_core_v1_NodeDaemonEndpoints ref)"
  "def_sound ref (schema_k8sio_api_core_v1_NodeFeatures ref)"
  "def_sound ref (schema_k8sio_api_core_v1_NodeList ref)"
  "def_sound ref (schema_k8sio_api_core_v1_NodeProxyOptions ref)"
  "def_sound ref (schema_k8sio_api_core_v1_NodeRuntimeHandler ref)"
  "def_sound ref (schema_k8sio_api_core_v1_NodeRuntimeHandlerFeatures ref)"
  "def_sound ref (schema_k8sio_api_core_v1_NodeSelector ref)"
  "def_sound ref (schema_k8sio_api_core_v1_NodeSelectorRequirement ref)"
  "def_sound ref (schema_k8sio_api_core_v1_NodeSelectorTerm ref)"
  "def_sound ref (schema_k8sio_api_core_v1_NodeSpec ref)"
  "def_sound ref (schema_k8sio_api_core_v1_NodeStatus ref)"
  "def_sound ref (schema_k8sio_api_core_v1_NodeSwapStatus ref)"
  "def_sound ref (schema_k8sio_api_core_v1_NodeSystemInfo ref)"
  "def_sound ref (schema_k8sio_api_core_v1_ObjectFieldSelector ref)"
  "def_sound ref (schema_k8sio_api_core_v1_ObjectReference ref)"
  "def_sound ref (schema_k8sio_api_core_v1_PersistentVolume ref)"
  "def_sound ref (schema_k8sio_api_core_v1_PersistentVolumeClaim ref)"
  "def_sound ref (schema_k8sio_api_core_v1_PersistentVolumeClaimCondition ref)"
  "def_sound ref (schema_k8sio_api_core_v1_PersistentVolumeClaimList ref)"
  "def_sound ref (schema_k8sio_api_core_v1_PersistentVolumeClaimSpec ref)"
  by (auto simp: schema_defs)

end
