(* ===== verification/Openapi_Core3.thy ===== *)
theory Openapi_Core3
  imports Openapi_Schema
begin

section \<open>OpenAPI definitions of the core types, PersistentVolumeClaimStatus to ReplicationControllerSpec\<close>

text \<open>
  From \<^verbatim>\<open>client-go/openapi/zz_generated.openapi.go\<close>: the definitions of the Kubernetes types the
  file lists beside the repository's own.
\<close>

definition schema_k8sio_api_core_v1_PersistentVolumeClaimStatus ::
  "(string \<Rightarrow> 'r) \<Rightarrow> 'r OpenAPIDefinition" where
  [schema_defs]: "schema_k8sio_api_core_v1_PersistentVolumeClaimStatus ref =
     OpenAPIDefinition
       (SchemaProps
         [Type [''object''],
          Properties
             [(''phase'', SchemaProps
                   [Type [''string''],
                    Format [],
                    Enum [VStr ''Bound'', VStr ''Lost'', VStr ''Pending'']]),
              (''accessModes'', SchemaProps
                   [Type [''array''],
                    Items (SchemaProps
                           [Default (VStr []),
                            Type [''string''],
                            Format [],
                            Enum [VStr ''ReadOnlyMany'', VStr ''ReadWriteMany'', VStr ''ReadWriteOnce'', VStr ''ReadWriteOncePod'']]),
                    Extensions [(''x-kubernetes-list-type'', VStr ''atomic'')]]),
              (''capacity'', SchemaProps
                   [Type [''object''],
                    AdditionalProperties True (SchemaProps [Ref (ref (pkg_resource ''Quantity''))])]),
              (''conditions'', SchemaProps
                   [Type [''array''],
                    Items (SchemaProps
                           [Default (VObj []),
                            Ref (ref (core_v1 ''PersistentVolumeClaimCondition''))]),
                    Extensions [(''x-kubernetes-list-map-keys'', VArr [VStr ''type'']), (''x-kubernetes-list-type'', VStr ''map''), (''x-kubernetes-patch-merge-key'', VStr ''type''), (''x-kubernetes-patch-strategy'', VStr ''merge'')]]),
              (''allocatedResources'', SchemaProps
                   [Type [''object''],
                    AdditionalProperties True (SchemaProps [Ref (ref (pkg_resource ''Quantity''))])]),
              (''allocatedResourceStatuses'', SchemaProps
                   [Type [''object''],
                    AdditionalProperties True (SchemaProps
                           [Default (VStr []),
                            Type [''string''],
                            Format [],
                            Enum [VStr ''ControllerResizeInProgress'', VStr ''ControllerResizeInfeasible'', VStr ''NodeResizeInProgress'', VStr ''NodeResizeInfeasible'', VStr ''NodeResizePending'']]),
                    Extensions [(''x-kubernetes-map-type'', VStr ''granular'')]]),
              (''currentVolumeAttributesClassName'', SchemaProps [Type [''string''], Format []]),
              (''modifyVolumeStatus'', SchemaProps [Ref (ref (core_v1 ''ModifyVolumeStatus''))])]])
       [core_v1 ''ModifyVolumeStatus'', core_v1 ''PersistentVolumeClaimCondition'',
        pkg_resource ''Quantity'']"

definition schema_k8sio_api_core_v1_PersistentVolumeClaimTemplate ::
  "(string \<Rightarrow> 'r) \<Rightarrow> 'r OpenAPIDefinition" where
  [schema_defs]: "schema_k8sio_api_core_v1_PersistentVolumeClaimTemplate ref =
     OpenAPIDefinition
       (SchemaProps
         [Type [''object''],
          Properties
             [(''metadata'', SchemaProps [Default (VObj []), Ref (ref (meta_v1 ''ObjectMeta''))]),
              (''spec'', SchemaProps [Default (VObj []), Ref (ref (core_v1 ''PersistentVolumeClaimSpec''))])],
          Required [''spec'']])
       [core_v1 ''PersistentVolumeClaimSpec'', meta_v1 ''ObjectMeta'']"

definition schema_k8sio_api_core_v1_PersistentVolumeClaimVolumeSource ::
  "(string \<Rightarrow> 'r) \<Rightarrow> 'r OpenAPIDefinition" where
  [schema_defs]: "schema_k8sio_api_core_v1_PersistentVolumeClaimVolumeSource ref =
     OpenAPIDefinition
       (SchemaProps
         [Type [''object''],
          Properties
             [(''claimName'', SchemaProps [Default (VStr []), Type [''string''], Format []]),
              (''readOnly'', SchemaProps [Type [''boolean''], Format []])],
          Required [''claimName'']])
       []"

definition schema_k8sio_api_core_v1_PersistentVolumeList ::
  "(string \<Rightarrow> 'r) \<Rightarrow> 'r OpenAPIDefinition" where
  [schema_defs]: "schema_k8sio_api_core_v1_PersistentVolumeList ref =
     OpenAPIDefinition
       (SchemaProps
         [Type [''object''],
          Properties
             [(''kind'', SchemaProps [Type [''string''], Format []]),
              (''apiVersion'', SchemaProps [Type [''string''], Format []]),
              (''metadata'', SchemaProps [Default (VObj []), Ref (ref (meta_v1 ''ListMeta''))]),
              (''items'', SchemaProps
                   [Type [''array''],
                    Items (SchemaProps [Default (VObj []), Ref (ref (core_v1 ''PersistentVolume''))])])],
          Required [''items'']])
       [core_v1 ''PersistentVolume'', meta_v1 ''ListMeta'']"

definition schema_k8sio_api_core_v1_PersistentVolumeSource ::
  "(string \<Rightarrow> 'r) \<Rightarrow> 'r OpenAPIDefinition" where
  [schema_defs]: "schema_k8sio_api_core_v1_PersistentVolumeSource ref =
     OpenAPIDefinition
       (SchemaProps
         [Type [''object''],
          Properties
             [(''gcePersistentDisk'', SchemaProps [Ref (ref (core_v1 ''GCEPersistentDiskVolumeSource''))]),
              (''awsElasticBlockStore'', SchemaProps [Ref (ref (core_v1 ''AWSElasticBlockStoreVolumeSource''))]),
              (''hostPath'', SchemaProps [Ref (ref (core_v1 ''HostPathVolumeSource''))]),
              (''glusterfs'', SchemaProps [Ref (ref (core_v1 ''GlusterfsPersistentVolumeSource''))]),
              (''nfs'', SchemaProps [Ref (ref (core_v1 ''NFSVolumeSource''))]),
              (''rbd'', SchemaProps [Ref (ref (core_v1 ''RBDPersistentVolumeSource''))]),
              (''iscsi'', SchemaProps [Ref (ref (core_v1 ''ISCSIPersistentVolumeSource''))]),
              (''cinder'', SchemaProps [Ref (ref (core_v1 ''CinderPersistentVolumeSource''))]),
              (''cephfs'', SchemaProps [Ref (ref (core_v1 ''CephFSPersistentVolumeSource''))]),
              (''fc'', SchemaProps [Ref (ref (core_v1 ''FCVolumeSource''))]),
              (''flocker'', SchemaProps [Ref (ref (core_v1 ''FlockerVolumeSource''))]),
              (''flexVolume'', SchemaProps [Ref (ref (core_v1 ''FlexPersistentVolumeSource''))]),
              (''azureFile'', SchemaProps [Ref (ref (core_v1 ''AzureFilePersistentVolumeSource''))]),
              (''vsphereVolume'', SchemaProps [Ref (ref (core_v1 ''VsphereVirtualDiskVolumeSource''))]),
              (''quobyte'', SchemaProps [Ref (ref (core_v1 ''QuobyteVolumeSource''))]),
              (''azureDisk'', SchemaProps [Ref (ref (core_v1 ''AzureDiskVolumeSource''))]),
              (''photonPersistentDisk'', SchemaProps [Ref (ref (core_v1 ''PhotonPersistentDiskVolumeSource''))]),
              (''portworxVolume'', SchemaProps [Ref (ref (core_v1 ''PortworxVolumeSource''))]),
              (''scaleIO'', SchemaProps [Ref (ref (core_v1 ''ScaleIOPersistentVolumeSource''))]),
              (''local'', SchemaProps [Ref (ref (core_v1 ''LocalVolumeSource''))]),
              (''storageos'', SchemaProps [Ref (ref (core_v1 ''StorageOSPersistentVolumeSource''))]),
              (''csi'', SchemaProps [Ref (ref (core_v1 ''CSIPersistentVolumeSource''))])]])
       [core_v1 ''AWSElasticBlockStoreVolumeSource'', core_v1 ''AzureDiskVolumeSource'',
        core_v1 ''AzureFilePersistentVolumeSource'', core_v1 ''CSIPersistentVolumeSource'',
        core_v1 ''CephFSPersistentVolumeSource'', core_v1 ''CinderPersistentVolumeSource'',
        core_v1 ''FCVolumeSource'', core_v1 ''FlexPersistentVolumeSource'',
        core_v1 ''FlockerVolumeSource'', core_v1 ''GCEPersistentDiskVolumeSource'',
        core_v1 ''GlusterfsPersistentVolumeSource'', core_v1 ''HostPathVolumeSource'',
        core_v1 ''ISCSIPersistentVolumeSource'', core_v1 ''LocalVolumeSource'',
        core_v1 ''NFSVolumeSource'', core_v1 ''PhotonPersistentDiskVolumeSource'',
        core_v1 ''PortworxVolumeSource'', core_v1 ''QuobyteVolumeSource'',
        core_v1 ''RBDPersistentVolumeSource'', core_v1 ''ScaleIOPersistentVolumeSource'',
        core_v1 ''StorageOSPersistentVolumeSource'', core_v1 ''VsphereVirtualDiskVolumeSource'']"

definition schema_k8sio_api_core_v1_PersistentVolumeSpec ::
  "(string \<Rightarrow> 'r) \<Rightarrow> 'r OpenAPIDefinition" where
  [schema_defs]: "schema_k8sio_api_core_v1_PersistentVolumeSpec ref =
     OpenAPIDefinition
       (SchemaProps
         [Type [''object''],
          Properties
             [(''capacity'', SchemaProps
                   [Type [''object''],
                    AdditionalProperties True (SchemaProps [Ref (ref (pkg_resource ''Quantity''))])]),
              (''gcePersistentDisk'', SchemaProps [Ref (ref (core_v1 ''GCEPersistentDiskVolumeSource''))]),
              (''awsElasticBlockStore'', SchemaProps [Ref (ref (core_v1 ''AWSElasticBlockStoreVolumeSource''))]),
              (''hostPath'', SchemaProps [Ref (ref (core_v1 ''HostPathVolumeSource''))]),
              (''glusterfs'', SchemaProps [Ref (ref (core_v1 ''GlusterfsPersistentVolumeSource''))]),
              (''nfs'', SchemaProps [Ref (ref (core_v1 ''NFSVolumeSource''))]),
              (''rbd'', SchemaProps [Ref (ref (core_v1 ''RBDPersistentVolumeSource''))]),
              (''iscsi'', SchemaProps [Ref (ref (core_v1 ''ISCSIPersistentVolumeSource''))]),
              (''cinder'', SchemaProps [Ref (ref (core_v1 ''CinderPersistentVolumeSource''))]),
              (''cephfs'', SchemaProps [Ref (ref (core_v1 ''CephFSPersistentVolumeSource''))]),
              (''fc'', SchemaProps [Ref (ref (core_v1 ''FCVolumeSource''))]),
              (''flocker'', SchemaProps [Ref (ref (core_v1 ''FlockerVolumeSource''))]),
              (''flexVolume'', SchemaProps [Ref (ref (core_v1 ''FlexPersistentVolumeSource''))]),
              (''azureFile'', SchemaProps [Ref (ref (core_v1 ''AzureFilePersistentVolumeSource''))]),
              (''vsphereVolume'', SchemaProps [Ref (ref (core_v1 ''VsphereVirtualDiskVolumeSource''))]),
              (''quobyte'', SchemaProps [Ref (ref (core_v1 ''QuobyteVolumeSource''))]),
              (''azureDisk'', SchemaProps [Ref (ref (core_v1 ''AzureDiskVolumeSource''))]),
              (''photonPersistentDisk'', SchemaProps [Ref (ref (core_v1 ''PhotonPersistentDiskVolumeSource''))]),
              (''portworxVolume'', SchemaProps [Ref (ref (core_v1 ''PortworxVolumeSource''))]),
              (''scaleIO'', SchemaProps [Ref (ref (core_v1 ''ScaleIOPersistentVolumeSource''))]),
              (''local'', SchemaProps [Ref (ref (core_v1 ''LocalVolumeSource''))]),
              (''storageos'', SchemaProps [Ref (ref (core_v1 ''StorageOSPersistentVolumeSource''))]),
              (''csi'', SchemaProps [Ref (ref (core_v1 ''CSIPersistentVolumeSource''))]),
              (''accessModes'', SchemaProps
                   [Type [''array''],
                    Items (SchemaProps
                           [Default (VStr []),
                            Type [''string''],
                            Format [],
                            Enum [VStr ''ReadOnlyMany'', VStr ''ReadWriteMany'', VStr ''ReadWriteOnce'', VStr ''ReadWriteOncePod'']]),
                    Extensions [(''x-kubernetes-list-type'', VStr ''atomic'')]]),
              (''claimRef'', SchemaProps
                   [Ref (ref (core_v1 ''ObjectReference'')),
                    Extensions [(''x-kubernetes-map-type'', VStr ''granular'')]]),
              (''persistentVolumeReclaimPolicy'', SchemaProps
                   [Type [''string''],
                    Format [],
                    Enum [VStr ''Delete'', VStr ''Recycle'', VStr ''Retain'']]),
              (''storageClassName'', SchemaProps [Type [''string''], Format []]),
              (''mountOptions'', SchemaProps
                   [Type [''array''],
                    Items (SchemaProps [Default (VStr []), Type [''string''], Format []]),
                    Extensions [(''x-kubernetes-list-type'', VStr ''atomic'')]]),
              (''volumeMode'', SchemaProps
                   [Type [''string''],
                    Format [],
                    Enum [VStr ''Block'', VStr ''Filesystem'']]),
              (''nodeAffinity'', SchemaProps [Ref (ref (core_v1 ''VolumeNodeAffinity''))]),
              (''volumeAttributesClassName'', SchemaProps [Type [''string''], Format []])]])
       [core_v1 ''AWSElasticBlockStoreVolumeSource'', core_v1 ''AzureDiskVolumeSource'',
        core_v1 ''AzureFilePersistentVolumeSource'', core_v1 ''CSIPersistentVolumeSource'',
        core_v1 ''CephFSPersistentVolumeSource'', core_v1 ''CinderPersistentVolumeSource'',
        core_v1 ''FCVolumeSource'', core_v1 ''FlexPersistentVolumeSource'',
        core_v1 ''FlockerVolumeSource'', core_v1 ''GCEPersistentDiskVolumeSource'',
        core_v1 ''GlusterfsPersistentVolumeSource'', core_v1 ''HostPathVolumeSource'',
        core_v1 ''ISCSIPersistentVolumeSource'', core_v1 ''LocalVolumeSource'',
        core_v1 ''NFSVolumeSource'', core_v1 ''ObjectReference'',
        core_v1 ''PhotonPersistentDiskVolumeSource'', core_v1 ''PortworxVolumeSource'',
        core_v1 ''QuobyteVolumeSource'', core_v1 ''RBDPersistentVolumeSource'',
        core_v1 ''ScaleIOPersistentVolumeSource'', core_v1 ''StorageOSPersistentVolumeSource'',
        core_v1 ''VolumeNodeAffinity'', core_v1 ''VsphereVirtualDiskVolumeSource'',
        pkg_resource ''Quantity'']"

definition schema_k8sio_api_core_v1_PersistentVolumeStatus ::
  "(string \<Rightarrow> 'r) \<Rightarrow> 'r OpenAPIDefinition" where
  [schema_defs]: "schema_k8sio_api_core_v1_PersistentVolumeStatus ref =
     OpenAPIDefinition
       (SchemaProps
         [Type [''object''],
          Properties
             [(''phase'', SchemaProps
                   [Type [''string''],
                    Format [],
                    Enum [VStr ''Available'', VStr ''Bound'', VStr ''Failed'', VStr ''Pending'', VStr ''Released'']]),
              (''message'', SchemaProps [Type [''string''], Format []]),
              (''reason'', SchemaProps [Type [''string''], Format []]),
              (''lastPhaseTransitionTime'', SchemaProps [Ref (ref (meta_v1 ''Time''))])]])
       [meta_v1 ''Time'']"

definition schema_k8sio_api_core_v1_PhotonPersistentDiskVolumeSource ::
  "(string \<Rightarrow> 'r) \<Rightarrow> 'r OpenAPIDefinition" where
  [schema_defs]: "schema_k8sio_api_core_v1_PhotonPersistentDiskVolumeSource ref =
     OpenAPIDefinition
       (SchemaProps
         [Type [''object''],
          Properties
             [(''pdID'', SchemaProps [Default (VStr []), Type [''string''], Format []]),
              (''fsType'', SchemaProps [Type [''string''], Format []])],
          Required [''pdID'']])
       []"

definition schema_k8sio_api_core_v1_Pod ::
  "(string \<Rightarrow> 'r) \<Rightarrow> 'r OpenAPIDefinition" where
  [schema_defs]: "schema_k8sio_api_core_v1_Pod ref =
     OpenAPIDefinition
       (SchemaProps
         [Type [''object''],
          Properties
             [(''kind'', SchemaProps [Type [''string''], Format []]),
              (''apiVersion'', SchemaProps [Type [''string''], Format []]),
              (''metadata'', SchemaProps [Default (VObj []), Ref (ref (meta_v1 ''ObjectMeta''))]),
              (''spec'', SchemaProps [Default (VObj []), Ref (ref (core_v1 ''PodSpec''))]),
              (''status'', SchemaProps [Default (VObj []), Ref (ref (core_v1 ''PodStatus''))])]])
       [core_v1 ''PodSpec'', core_v1 ''PodStatus'', meta_v1 ''ObjectMeta'']"

definition schema_k8sio_api_core_v1_PodAffinity ::
  "(string \<Rightarrow> 'r) \<Rightarrow> 'r OpenAPIDefinition" where
  [schema_defs]: "schema_k8sio_api_core_v1_PodAffinity ref =
     OpenAPIDefinition
       (SchemaProps
         [Type [''object''],
          Properties
             [(''requiredDuringSchedulingIgnoredDuringExecution'', SchemaProps
                   [Type [''array''],
                    Items (SchemaProps [Default (VObj []), Ref (ref (core_v1 ''PodAffinityTerm''))]),
                    Extensions [(''x-kubernetes-list-type'', VStr ''atomic'')]]),
              (''preferredDuringSchedulingIgnoredDuringExecution'', SchemaProps
                   [Type [''array''],
                    Items (SchemaProps
                           [Default (VObj []),
                            Ref (ref (core_v1 ''WeightedPodAffinityTerm''))]),
                    Extensions [(''x-kubernetes-list-type'', VStr ''atomic'')]])]])
       [core_v1 ''PodAffinityTerm'', core_v1 ''WeightedPodAffinityTerm'']"

definition schema_k8sio_api_core_v1_PodAffinityTerm ::
  "(string \<Rightarrow> 'r) \<Rightarrow> 'r OpenAPIDefinition" where
  [schema_defs]: "schema_k8sio_api_core_v1_PodAffinityTerm ref =
     OpenAPIDefinition
       (SchemaProps
         [Type [''object''],
          Properties
             [(''labelSelector'', SchemaProps [Ref (ref (meta_v1 ''LabelSelector''))]),
              (''namespaces'', SchemaProps
                   [Type [''array''],
                    Items (SchemaProps [Default (VStr []), Type [''string''], Format []]),
                    Extensions [(''x-kubernetes-list-type'', VStr ''atomic'')]]),
              (''topologyKey'', SchemaProps [Default (VStr []), Type [''string''], Format []]),
              (''namespaceSelector'', SchemaProps [Ref (ref (meta_v1 ''LabelSelector''))]),
              (''matchLabelKeys'', SchemaProps
                   [Type [''array''],
                    Items (SchemaProps [Default (VStr []), Type [''string''], Format []]),
                    Extensions [(''x-kubernetes-list-type'', VStr ''atomic'')]]),
              (''mismatchLabelKeys'', SchemaProps
                   [Type [''array''],
                    Items (SchemaProps [Default (VStr []), Type [''string''], Format []]),
                    Extensions [(''x-kubernetes-list-type'', VStr ''atomic'')]])],
          Required [''topologyKey'']])
       [meta_v1 ''LabelSelector'']"

definition schema_k8sio_api_core_v1_PodAntiAffinity ::
  "(string \<Rightarrow> 'r) \<Rightarrow> 'r OpenAPIDefinition" where
  [schema_defs]: "schema_k8sio_api_core_v1_PodAntiAffinity ref =
     OpenAPIDefinition
       (SchemaProps
         [Type [''object''],
          Properties
             [(''requiredDuringSchedulingIgnoredDuringExecution'', SchemaProps
                   [Type [''array''],
                    Items (SchemaProps [Default (VObj []), Ref (ref (core_v1 ''PodAffinityTerm''))]),
                    Extensions [(''x-kubernetes-list-type'', VStr ''atomic'')]]),
              (''preferredDuringSchedulingIgnoredDuringExecution'', SchemaProps
                   [Type [''array''],
                    Items (SchemaProps
                           [Default (VObj []),
                            Ref (ref (core_v1 ''WeightedPodAffinityTerm''))]),
                    Extensions [(''x-kubernetes-list-type'', VStr ''atomic'')]])]])
       [core_v1 ''PodAffinityTerm'', core_v1 ''WeightedPodAffinityTerm'']"

definition schema_k8sio_api_core_v1_PodAttachOptions ::
  "(string \<Rightarrow> 'r) \<Rightarrow> 'r OpenAPIDefinition" where
  [schema_defs]: "schema_k8sio_api_core_v1_PodAttachOptions ref =
     OpenAPIDefinition
       (SchemaProps
         [Type [''object''],
          Properties
             [(''kind'', SchemaProps [Type [''string''], Format []]),
              (''apiVersion'', SchemaProps [Type [''string''], Format []]),
              (''stdin'', SchemaProps [Type [''boolean''], Format []]),
              (''stdout'', SchemaProps [Type [''boolean''], Format []]),
              (''stderr'', SchemaProps [Type [''boolean''], Format []]),
              (''tty'', SchemaProps [Type [''boolean''], Format []]),
              (''container'', SchemaProps [Type [''string''], Format []])]])
       []"

definition schema_k8sio_api_core_v1_PodCertificateProjection ::
  "(string \<Rightarrow> 'r) \<Rightarrow> 'r OpenAPIDefinition" where
  [schema_defs]: "schema_k8sio_api_core_v1_PodCertificateProjection ref =
     OpenAPIDefinition
       (SchemaProps
         [Type [''object''],
          Properties
             [(''signerName'', SchemaProps [Type [''string''], Format []]),
              (''keyType'', SchemaProps [Type [''string''], Format []]),
              (''maxExpirationSeconds'', SchemaProps [Type [''integer''], Format ''int32'']),
              (''credentialBundlePath'', SchemaProps [Type [''string''], Format []]),
              (''keyPath'', SchemaProps [Type [''string''], Format []]),
              (''certificateChainPath'', SchemaProps [Type [''string''], Format []])],
          Required [''signerName'', ''keyType'']])
       []"

definition schema_k8sio_api_core_v1_PodCondition ::
  "(string \<Rightarrow> 'r) \<Rightarrow> 'r OpenAPIDefinition" where
  [schema_defs]: "schema_k8sio_api_core_v1_PodCondition ref =
     OpenAPIDefinition
       (SchemaProps
         [Type [''object''],
          Properties
             [(''type'', SchemaProps [Default (VStr []), Type [''string''], Format []]),
              (''observedGeneration'', SchemaProps [Type [''integer''], Format ''int64'']),
              (''status'', SchemaProps [Default (VStr []), Type [''string''], Format []]),
              (''lastProbeTime'', SchemaProps [Ref (ref (meta_v1 ''Time''))]),
              (''lastTransitionTime'', SchemaProps [Ref (ref (meta_v1 ''Time''))]),
              (''reason'', SchemaProps [Type [''string''], Format []]),
              (''message'', SchemaProps [Type [''string''], Format []])],
          Required [''type'', ''status'']])
       [meta_v1 ''Time'']"

definition schema_k8sio_api_core_v1_PodDNSConfig ::
  "(string \<Rightarrow> 'r) \<Rightarrow> 'r OpenAPIDefinition" where
  [schema_defs]: "schema_k8sio_api_core_v1_PodDNSConfig ref =
     OpenAPIDefinition
       (SchemaProps
         [Type [''object''],
          Properties
             [(''nameservers'', SchemaProps
                   [Type [''array''],
                    Items (SchemaProps [Default (VStr []), Type [''string''], Format []]),
                    Extensions [(''x-kubernetes-list-type'', VStr ''atomic'')]]),
              (''searches'', SchemaProps
                   [Type [''array''],
                    Items (SchemaProps [Default (VStr []), Type [''string''], Format []]),
                    Extensions [(''x-kubernetes-list-type'', VStr ''atomic'')]]),
              (''options'', SchemaProps
                   [Type [''array''],
                    Items (SchemaProps
                           [Default (VObj []),
                            Ref (ref (core_v1 ''PodDNSConfigOption''))]),
                    Extensions [(''x-kubernetes-list-type'', VStr ''atomic'')]])]])
       [core_v1 ''PodDNSConfigOption'']"

definition schema_k8sio_api_core_v1_PodDNSConfigOption ::
  "(string \<Rightarrow> 'r) \<Rightarrow> 'r OpenAPIDefinition" where
  [schema_defs]: "schema_k8sio_api_core_v1_PodDNSConfigOption ref =
     OpenAPIDefinition
       (SchemaProps
         [Type [''object''],
          Properties
             [(''name'', SchemaProps [Type [''string''], Format []]),
              (''value'', SchemaProps [Type [''string''], Format []])]])
       []"

definition schema_k8sio_api_core_v1_PodExecOptions ::
  "(string \<Rightarrow> 'r) \<Rightarrow> 'r OpenAPIDefinition" where
  [schema_defs]: "schema_k8sio_api_core_v1_PodExecOptions ref =
     OpenAPIDefinition
       (SchemaProps
         [Type [''object''],
          Properties
             [(''kind'', SchemaProps [Type [''string''], Format []]),
              (''apiVersion'', SchemaProps [Type [''string''], Format []]),
              (''stdin'', SchemaProps [Type [''boolean''], Format []]),
              (''stdout'', SchemaProps [Type [''boolean''], Format []]),
              (''stderr'', SchemaProps [Type [''boolean''], Format []]),
              (''tty'', SchemaProps [Type [''boolean''], Format []]),
              (''container'', SchemaProps [Type [''string''], Format []]),
              (''command'', SchemaProps
                   [Type [''array''],
                    Items (SchemaProps [Default (VStr []), Type [''string''], Format []]),
                    Extensions [(''x-kubernetes-list-type'', VStr ''atomic'')]])],
          Required [''command'']])
       []"

definition schema_k8sio_api_core_v1_PodExtendedResourceClaimStatus ::
  "(string \<Rightarrow> 'r) \<Rightarrow> 'r OpenAPIDefinition" where
  [schema_defs]: "schema_k8sio_api_core_v1_PodExtendedResourceClaimStatus ref =
     OpenAPIDefinition
       (SchemaProps
         [Type [''object''],
          Properties
             [(''requestMappings'', SchemaProps
                   [Type [''array''],
                    Items (SchemaProps
                           [Default (VObj []),
                            Ref (ref (core_v1 ''ContainerExtendedResourceRequest''))]),
                    Extensions [(''x-kubernetes-list-type'', VStr ''atomic'')]]),
              (''resourceClaimName'', SchemaProps [Default (VStr []), Type [''string''], Format []])],
          Required [''requestMappings'', ''resourceClaimName'']])
       [core_v1 ''ContainerExtendedResourceRequest'']"

definition schema_k8sio_api_core_v1_PodIP ::
  "(string \<Rightarrow> 'r) \<Rightarrow> 'r OpenAPIDefinition" where
  [schema_defs]: "schema_k8sio_api_core_v1_PodIP ref =
     OpenAPIDefinition
       (SchemaProps
         [Type [''object''],
          Properties
             [(''ip'', SchemaProps [Default (VStr []), Type [''string''], Format []])],
          Required [''ip'']])
       []"

definition schema_k8sio_api_core_v1_PodList ::
  "(string \<Rightarrow> 'r) \<Rightarrow> 'r OpenAPIDefinition" where
  [schema_defs]: "schema_k8sio_api_core_v1_PodList ref =
     OpenAPIDefinition
       (SchemaProps
         [Type [''object''],
          Properties
             [(''kind'', SchemaProps [Type [''string''], Format []]),
              (''apiVersion'', SchemaProps [Type [''string''], Format []]),
              (''metadata'', SchemaProps [Default (VObj []), Ref (ref (meta_v1 ''ListMeta''))]),
              (''items'', SchemaProps
                   [Type [''array''],
                    Items (SchemaProps [Default (VObj []), Ref (ref (core_v1 ''Pod''))])])],
          Required [''items'']])
       [core_v1 ''Pod'', meta_v1 ''ListMeta'']"

definition schema_k8sio_api_core_v1_PodLogOptions ::
  "(string \<Rightarrow> 'r) \<Rightarrow> 'r OpenAPIDefinition" where
  [schema_defs]: "schema_k8sio_api_core_v1_PodLogOptions ref =
     OpenAPIDefinition
       (SchemaProps
         [Type [''object''],
          Properties
             [(''kind'', SchemaProps [Type [''string''], Format []]),
              (''apiVersion'', SchemaProps [Type [''string''], Format []]),
              (''container'', SchemaProps [Type [''string''], Format []]),
              (''follow'', SchemaProps [Type [''boolean''], Format []]),
              (''previous'', SchemaProps [Type [''boolean''], Format []]),
              (''sinceSeconds'', SchemaProps [Type [''integer''], Format ''int64'']),
              (''sinceTime'', SchemaProps [Ref (ref (meta_v1 ''Time''))]),
              (''timestamps'', SchemaProps [Type [''boolean''], Format []]),
              (''tailLines'', SchemaProps [Type [''integer''], Format ''int64'']),
              (''limitBytes'', SchemaProps [Type [''integer''], Format ''int64'']),
              (''insecureSkipTLSVerifyBackend'', SchemaProps [Type [''boolean''], Format []]),
              (''stream'', SchemaProps [Type [''string''], Format []])]])
       [meta_v1 ''Time'']"

definition schema_k8sio_api_core_v1_PodOS ::
  "(string \<Rightarrow> 'r) \<Rightarrow> 'r OpenAPIDefinition" where
  [schema_defs]: "schema_k8sio_api_core_v1_PodOS ref =
     OpenAPIDefinition
       (SchemaProps
         [Type [''object''],
          Properties
             [(''name'', SchemaProps [Default (VStr []), Type [''string''], Format []])],
          Required [''name'']])
       []"

definition schema_k8sio_api_core_v1_PodPortForwardOptions ::
  "(string \<Rightarrow> 'r) \<Rightarrow> 'r OpenAPIDefinition" where
  [schema_defs]: "schema_k8sio_api_core_v1_PodPortForwardOptions ref =
     OpenAPIDefinition
       (SchemaProps
         [Type [''object''],
          Properties
             [(''kind'', SchemaProps [Type [''string''], Format []]),
              (''apiVersion'', SchemaProps [Type [''string''], Format []]),
              (''ports'', SchemaProps
                   [Type [''array''],
                    Items (SchemaProps [Default (VInt 0), Type [''integer''], Format ''int32'']),
                    Extensions [(''x-kubernetes-list-type'', VStr ''atomic'')]])]])
       []"

definition schema_k8sio_api_core_v1_PodProxyOptions ::
  "(string \<Rightarrow> 'r) \<Rightarrow> 'r OpenAPIDefinition" where
  [schema_defs]: "schema_k8sio_api_core_v1_PodProxyOptions ref =
     OpenAPIDefinition
       (SchemaProps
         [Type [''object''],
          Properties
             [(''kind'', SchemaProps [Type [''string''], Format []]),
              (''apiVersion'', SchemaProps [Type [''string''], Format []]),
              (''path'', SchemaProps [Type [''string''], Format []])]])
       []"

definition schema_k8sio_api_core_v1_PodReadinessGate ::
  "(string \<Rightarrow> 'r) \<Rightarrow> 'r OpenAPIDefinition" where
  [schema_defs]: "schema_k8sio_api_core_v1_PodReadinessGate ref =
     OpenAPIDefinition
       (SchemaProps
         [Type [''object''],
          Properties
             [(''conditionType'', SchemaProps [Default (VStr []), Type [''string''], Format []])],
          Required [''conditionType'']])
       []"

definition schema_k8sio_api_core_v1_PodResourceClaim ::
  "(string \<Rightarrow> 'r) \<Rightarrow> 'r OpenAPIDefinition" where
  [schema_defs]: "schema_k8sio_api_core_v1_PodResourceClaim ref =
     OpenAPIDefinition
       (SchemaProps
         [Type [''object''],
          Properties
             [(''name'', SchemaProps [Default (VStr []), Type [''string''], Format []]),
              (''resourceClaimName'', SchemaProps [Type [''string''], Format []]),
              (''resourceClaimTemplateName'', SchemaProps [Type [''string''], Format []])],
          Required [''name'']])
       []"

definition schema_k8sio_api_core_v1_PodResourceClaimStatus ::
  "(string \<Rightarrow> 'r) \<Rightarrow> 'r OpenAPIDefinition" where
  [schema_defs]: "schema_k8sio_api_core_v1_PodResourceClaimStatus ref =
     OpenAPIDefinition
       (SchemaProps
         [Type [''object''],
          Properties
             [(''name'', SchemaProps [Default (VStr []), Type [''string''], Format []]),
              (''resourceClaimName'', SchemaProps [Type [''string''], Format []])],
          Required [''name'']])
       []"

definition schema_k8sio_api_core_v1_PodSchedulingGate ::
  "(string \<Rightarrow> 'r) \<Rightarrow> 'r OpenAPIDefinition" where
  [schema_defs]: "schema_k8sio_api_core_v1_PodSchedulingGate ref =
     OpenAPIDefinition
       (SchemaProps
         [Type [''object''],
          Properties
             [(''name'', SchemaProps [Default (VStr []), Type [''string''], Format []])],
          Required [''name'']])
       []"

definition schema_k8sio_api_core_v1_PodSecurityContext ::
  "(string \<Rightarrow> 'r) \<Rightarrow> 'r OpenAPIDefinition" where
  [schema_defs]: "schema_k8sio_api_core_v1_PodSecurityContext ref =
     OpenAPIDefinition
       (SchemaProps
         [Type [''object''],
          Properties
             [(''seLinuxOptions'', SchemaProps [Ref (ref (core_v1 ''SELinuxOptions''))]),
              (''windowsOptions'', SchemaProps [Ref (ref (core_v1 ''WindowsSecurityContextOptions''))]),
              (''runAsUser'', SchemaProps [Type [''integer''], Format ''int64'']),
              (''runAsGroup'', SchemaProps [Type [''integer''], Format ''int64'']),
              (''runAsNonRoot'', SchemaProps [Type [''boolean''], Format []]),
              (''supplementalGroups'', SchemaProps
                   [Type [''array''],
                    Items (SchemaProps [Default (VInt 0), Type [''integer''], Format ''int64'']),
                    Extensions [(''x-kubernetes-list-type'', VStr ''atomic'')]]),
              (''supplementalGroupsPolicy'', SchemaProps [Type [''string''], Format [], Enum [VStr ''Merge'', VStr ''Strict'']]),
              (''fsGroup'', SchemaProps [Type [''integer''], Format ''int64'']),
              (''sysctls'', SchemaProps
                   [Type [''array''],
                    Items (SchemaProps [Default (VObj []), Ref (ref (core_v1 ''Sysctl''))]),
                    Extensions [(''x-kubernetes-list-type'', VStr ''atomic'')]]),
              (''fsGroupChangePolicy'', SchemaProps
                   [Type [''string''],
                    Format [],
                    Enum [VStr ''Always'', VStr ''OnRootMismatch'']]),
              (''seccompProfile'', SchemaProps [Ref (ref (core_v1 ''SeccompProfile''))]),
              (''appArmorProfile'', SchemaProps [Ref (ref (core_v1 ''AppArmorProfile''))]),
              (''seLinuxChangePolicy'', SchemaProps [Type [''string''], Format []])]])
       [core_v1 ''AppArmorProfile'', core_v1 ''SELinuxOptions'', core_v1 ''SeccompProfile'',
        core_v1 ''Sysctl'', core_v1 ''WindowsSecurityContextOptions'']"

definition schema_k8sio_api_core_v1_PodSignature ::
  "(string \<Rightarrow> 'r) \<Rightarrow> 'r OpenAPIDefinition" where
  [schema_defs]: "schema_k8sio_api_core_v1_PodSignature ref =
     OpenAPIDefinition
       (SchemaProps
         [Type [''object''],
          Properties
             [(''podController'', SchemaProps [Ref (ref (meta_v1 ''OwnerReference''))])]])
       [meta_v1 ''OwnerReference'']"

definition schema_k8sio_api_core_v1_PodSpec ::
  "(string \<Rightarrow> 'r) \<Rightarrow> 'r OpenAPIDefinition" where
  [schema_defs]: "schema_k8sio_api_core_v1_PodSpec ref =
     OpenAPIDefinition
       (SchemaProps
         [Type [''object''],
          Properties
             [(''volumes'', SchemaProps
                   [Type [''array''],
                    Items (SchemaProps [Default (VObj []), Ref (ref (core_v1 ''Volume''))]),
                    Extensions [(''x-kubernetes-list-map-keys'', VArr [VStr ''name'']), (''x-kubernetes-list-type'', VStr ''map''), (''x-kubernetes-patch-merge-key'', VStr ''name''), (''x-kubernetes-patch-strategy'', VStr ''merge,retainKeys'')]]),
              (''initContainers'', SchemaProps
                   [Type [''array''],
                    Items (SchemaProps [Default (VObj []), Ref (ref (core_v1 ''Container''))]),
                    Extensions [(''x-kubernetes-list-map-keys'', VArr [VStr ''name'']), (''x-kubernetes-list-type'', VStr ''map''), (''x-kubernetes-patch-merge-key'', VStr ''name''), (''x-kubernetes-patch-strategy'', VStr ''merge'')]]),
              (''containers'', SchemaProps
                   [Type [''array''],
                    Items (SchemaProps [Default (VObj []), Ref (ref (core_v1 ''Container''))]),
                    Extensions [(''x-kubernetes-list-map-keys'', VArr [VStr ''name'']), (''x-kubernetes-list-type'', VStr ''map''), (''x-kubernetes-patch-merge-key'', VStr ''name''), (''x-kubernetes-patch-strategy'', VStr ''merge'')]]),
              (''ephemeralContainers'', SchemaProps
                   [Type [''array''],
                    Items (SchemaProps
                           [Default (VObj []),
                            Ref (ref (core_v1 ''EphemeralContainer''))]),
                    Extensions [(''x-kubernetes-list-map-keys'', VArr [VStr ''name'']), (''x-kubernetes-list-type'', VStr ''map''), (''x-kubernetes-patch-merge-key'', VStr ''name''), (''x-kubernetes-patch-strategy'', VStr ''merge'')]]),
              (''restartPolicy'', SchemaProps
                   [Type [''string''],
                    Format [],
                    Enum [VStr ''Always'', VStr ''Never'', VStr ''OnFailure'']]),
              (''terminationGracePeriodSeconds'', SchemaProps [Type [''integer''], Format ''int64'']),
              (''activeDeadlineSeconds'', SchemaProps [Type [''integer''], Format ''int64'']),
              (''dnsPolicy'', SchemaProps
                   [Type [''string''],
                    Format [],
                    Enum [VStr ''ClusterFirst'', VStr ''ClusterFirstWithHostNet'', VStr ''Default'', VStr ''None'']]),
              (''nodeSelector'', SchemaProps
                   [Type [''object''],
                    AdditionalProperties True (SchemaProps [Default (VStr []), Type [''string''], Format []]),
                    Extensions [(''x-kubernetes-map-type'', VStr ''atomic'')]]),
              (''serviceAccountName'', SchemaProps [Type [''string''], Format []]),
              (''serviceAccount'', SchemaProps [Type [''string''], Format []]),
              (''automountServiceAccountToken'', SchemaProps [Type [''boolean''], Format []]),
              (''nodeName'', SchemaProps [Type [''string''], Format []]),
              (''hostNetwork'', SchemaProps [Type [''boolean''], Format []]),
              (''hostPID'', SchemaProps [Type [''boolean''], Format []]),
              (''hostIPC'', SchemaProps [Type [''boolean''], Format []]),
              (''shareProcessNamespace'', SchemaProps [Type [''boolean''], Format []]),
              (''securityContext'', SchemaProps [Ref (ref (core_v1 ''PodSecurityContext''))]),
              (''imagePullSecrets'', SchemaProps
                   [Type [''array''],
                    Items (SchemaProps
                           [Default (VObj []),
                            Ref (ref (core_v1 ''LocalObjectReference''))]),
                    Extensions [(''x-kubernetes-list-map-keys'', VArr [VStr ''name'']), (''x-kubernetes-list-type'', VStr ''map''), (''x-kubernetes-patch-merge-key'', VStr ''name''), (''x-kubernetes-patch-strategy'', VStr ''merge'')]]),
              (''hostname'', SchemaProps [Type [''string''], Format []]),
              (''subdomain'', SchemaProps [Type [''string''], Format []]),
              (''affinity'', SchemaProps [Ref (ref (core_v1 ''Affinity''))]),
              (''schedulerName'', SchemaProps [Type [''string''], Format []]),
              (''tolerations'', SchemaProps
                   [Type [''array''],
                    Items (SchemaProps [Default (VObj []), Ref (ref (core_v1 ''Toleration''))]),
                    Extensions [(''x-kubernetes-list-type'', VStr ''atomic'')]]),
              (''hostAliases'', SchemaProps
                   [Type [''array''],
                    Items (SchemaProps [Default (VObj []), Ref (ref (core_v1 ''HostAlias''))]),
                    Extensions [(''x-kubernetes-list-map-keys'', VArr [VStr ''ip'']), (''x-kubernetes-list-type'', VStr ''map''), (''x-kubernetes-patch-merge-key'', VStr ''ip''), (''x-kubernetes-patch-strategy'', VStr ''merge'')]]),
              (''priorityClassName'', SchemaProps [Type [''string''], Format []]),
              (''priority'', SchemaProps [Type [''integer''], Format ''int32'']),
              (''dnsConfig'', SchemaProps [Ref (ref (core_v1 ''PodDNSConfig''))]),
              (''readinessGates'', SchemaProps
                   [Type [''array''],
                    Items (SchemaProps [Default (VObj []), Ref (ref (core_v1 ''PodReadinessGate''))]),
                    Extensions [(''x-kubernetes-list-type'', VStr ''atomic'')]]),
              (''runtimeClassName'', SchemaProps [Type [''string''], Format []]),
              (''enableServiceLinks'', SchemaProps [Type [''boolean''], Format []]),
              (''preemptionPolicy'', SchemaProps
                   [Type [''string''],
                    Format [],
                    Enum [VStr ''Never'', VStr ''PreemptLowerPriority'']]),
              (''overhead'', SchemaProps
                   [Type [''object''],
                    AdditionalProperties True (SchemaProps [Ref (ref (pkg_resource ''Quantity''))])]),
              (''topologySpreadConstraints'', SchemaProps
                   [Type [''array''],
                    Items (SchemaProps
                           [Default (VObj []),
                            Ref (ref (core_v1 ''TopologySpreadConstraint''))]),
                    Extensions [(''x-kubernetes-list-map-keys'', VArr [VStr ''topologyKey'', VStr ''whenUnsatisfiable'']), (''x-kubernetes-list-type'', VStr ''map''), (''x-kubernetes-patch-merge-key'', VStr ''topologyKey''), (''x-kubernetes-patch-strategy'', VStr ''merge'')]]),
              (''setHostnameAsFQDN'', SchemaProps [Type [''boolean''], Format []]),
              (''os'', SchemaProps [Ref (ref (core_v1 ''PodOS''))]),
              (''hostUsers'', SchemaProps [Type [''boolean''], Format []]),
              (''schedulingGates'', SchemaProps
                   [Type [''array''],
                    Items (SchemaProps [Default (VObj []), Ref (ref (core_v1 ''PodSchedulingGate''))]),
                    Extensions [(''x-kubernetes-list-map-keys'', VArr [VStr ''name'']), (''x-kubernetes-list-type'', VStr ''map''), (''x-kubernetes-patch-merge-key'', VStr ''name''), (''x-kubernetes-patch-strategy'', VStr ''merge'')]]),
              (''resourceClaims'', SchemaProps
                   [Type [''array''],
                    Items (SchemaProps [Default (VObj []), Ref (ref (core_v1 ''PodResourceClaim''))]),
                    Extensions [(''x-kubernetes-list-map-keys'', VArr [VStr ''name'']), (''x-kubernetes-list-type'', VStr ''map''), (''x-kubernetes-patch-merge-key'', VStr ''name''), (''x-kubernetes-patch-strategy'', VStr ''merge,retainKeys'')]]),
              (''resources'', SchemaProps [Ref (ref (core_v1 ''ResourceRequirements''))]),
              (''hostnameOverride'', SchemaProps [Type [''string''], Format []])],
          Required [''containers'']])
       [core_v1 ''Affinity'', core_v1 ''Container'', core_v1 ''EphemeralContainer'',
        core_v1 ''HostAlias'', core_v1 ''LocalObjectReference'', core_v1 ''PodDNSConfig'',
        core_v1 ''PodOS'', core_v1 ''PodReadinessGate'', core_v1 ''PodResourceClaim'',
        core_v1 ''PodSchedulingGate'', core_v1 ''PodSecurityContext'',
        core_v1 ''ResourceRequirements'', core_v1 ''Toleration'',
        core_v1 ''TopologySpreadConstraint'', core_v1 ''Volume'', pkg_resource ''Quantity'']"

definition schema_k8sio_api_core_v1_PodStatus ::
  "(string \<Rightarrow> 'r) \<Rightarrow> 'r OpenAPIDefinition" where
  [schema_defs]: "schema_k8sio_api_core_v1_PodStatus ref =
     OpenAPIDefinition
       (SchemaProps
         [Type [''object''],
          Properties
             [(''observedGeneration'', SchemaProps [Type [''integer''], Format ''int64'']),
              (''phase'', SchemaProps
                   [Type [''string''],
                    Format [],
                    Enum [VStr ''Failed'', VStr ''Pending'', VStr ''Running'', VStr ''Succeeded'', VStr ''Unknown'']]),
              (''conditions'', SchemaProps
                   [Type [''array''],
                    Items (SchemaProps [Default (VObj []), Ref (ref (core_v1 ''PodCondition''))]),
                    Extensions [(''x-kubernetes-list-map-keys'', VArr [VStr ''type'']), (''x-kubernetes-list-type'', VStr ''map''), (''x-kubernetes-patch-merge-key'', VStr ''type''), (''x-kubernetes-patch-strategy'', VStr ''merge'')]]),
              (''message'', SchemaProps [Type [''string''], Format []]),
              (''reason'', SchemaProps [Type [''string''], Format []]),
              (''nominatedNodeName'', SchemaProps [Type [''string''], Format []]),
              (''hostIP'', SchemaProps [Type [''string''], Format []]),
              (''hostIPs'', SchemaProps
                   [Type [''array''],
                    Items (SchemaProps [Default (VObj []), Ref (ref (core_v1 ''HostIP''))]),
                    Extensions [(''x-kubernetes-list-type'', VStr ''atomic''), (''x-kubernetes-patch-merge-key'', VStr ''ip''), (''x-kubernetes-patch-strategy'', VStr ''merge'')]]),
              (''podIP'', SchemaProps [Type [''string''], Format []]),
              (''podIPs'', SchemaProps
                   [Type [''array''],
                    Items (SchemaProps [Default (VObj []), Ref (ref (core_v1 ''PodIP''))]),
                    Extensions [(''x-kubernetes-list-map-keys'', VArr [VStr ''ip'']), (''x-kubernetes-list-type'', VStr ''map''), (''x-kubernetes-patch-merge-key'', VStr ''ip''), (''x-kubernetes-patch-strategy'', VStr ''merge'')]]),
              (''startTime'', SchemaProps [Ref (ref (meta_v1 ''Time''))]),
              (''initContainerStatuses'', SchemaProps
                   [Type [''array''],
                    Items (SchemaProps [Default (VObj []), Ref (ref (core_v1 ''ContainerStatus''))]),
                    Extensions [(''x-kubernetes-list-type'', VStr ''atomic'')]]),
              (''containerStatuses'', SchemaProps
                   [Type [''array''],
                    Items (SchemaProps [Default (VObj []), Ref (ref (core_v1 ''ContainerStatus''))]),
                    Extensions [(''x-kubernetes-list-type'', VStr ''atomic'')]]),
              (''qosClass'', SchemaProps
                   [Type [''string''],
                    Format [],
                    Enum [VStr ''BestEffort'', VStr ''Burstable'', VStr ''Guaranteed'']]),
              (''ephemeralContainerStatuses'', SchemaProps
                   [Type [''array''],
                    Items (SchemaProps [Default (VObj []), Ref (ref (core_v1 ''ContainerStatus''))]),
                    Extensions [(''x-kubernetes-list-type'', VStr ''atomic'')]]),
              (''resize'', SchemaProps [Type [''string''], Format []]),
              (''resourceClaimStatuses'', SchemaProps
                   [Type [''array''],
                    Items (SchemaProps
                           [Default (VObj []),
                            Ref (ref (core_v1 ''PodResourceClaimStatus''))]),
                    Extensions [(''x-kubernetes-list-map-keys'', VArr [VStr ''name'']), (''x-kubernetes-list-type'', VStr ''map''), (''x-kubernetes-patch-merge-key'', VStr ''name''), (''x-kubernetes-patch-strategy'', VStr ''merge,retainKeys'')]]),
              (''extendedResourceClaimStatus'', SchemaProps [Ref (ref (core_v1 ''PodExtendedResourceClaimStatus''))])]])
       [core_v1 ''ContainerStatus'', core_v1 ''HostIP'', core_v1 ''PodCondition'',
        core_v1 ''PodExtendedResourceClaimStatus'', core_v1 ''PodIP'',
        core_v1 ''PodResourceClaimStatus'', meta_v1 ''Time'']"

definition schema_k8sio_api_core_v1_PodStatusResult ::
  "(string \<Rightarrow> 'r) \<Rightarrow> 'r OpenAPIDefinition" where
  [schema_defs]: "schema_k8sio_api_core_v1_PodStatusResult ref =
     OpenAPIDefinition
       (SchemaProps
         [Type [''object''],
          Properties
             [(''kind'', SchemaProps [Type [''string''], Format []]),
              (''apiVersion'', SchemaProps [Type [''string''], Format []]),
              (''metadata'', SchemaProps [Default (VObj []), Ref (ref (meta_v1 ''ObjectMeta''))]),
              (''status'', SchemaProps [Default (VObj []), Ref (ref (core_v1 ''PodStatus''))])]])
       [core_v1 ''PodStatus'', meta_v1 ''ObjectMeta'']"

definition schema_k8sio_api_core_v1_PodTemplate ::
  "(string \<Rightarrow> 'r) \<Rightarrow> 'r OpenAPIDefinition" where
  [schema_defs]: "schema_k8sio_api_core_v1_PodTemplate ref =
     OpenAPIDefinition
       (SchemaProps
         [Type [''object''],
          Properties
             [(''kind'', SchemaProps [Type [''string''], Format []]),
              (''apiVersion'', SchemaProps [Type [''string''], Format []]),
              (''metadata'', SchemaProps [Default (VObj []), Ref (ref (meta_v1 ''ObjectMeta''))]),
              (''template'', SchemaProps [Default (VObj []), Ref (ref (core_v1 ''PodTemplateSpec''))])]])
       [core_v1 ''PodTemplateSpec'', meta_v1 ''ObjectMeta'']"

definition schema_k8sio_api_core_v1_PodTemplateList ::
  "(string \<Rightarrow> 'r) \<Rightarrow> 'r OpenAPIDefinition" where
  [schema_defs]: "schema_k8sio_api_core_v1_PodTemplateList ref =
     OpenAPIDefinition
       (SchemaProps
         [Type [''object''],
          Properties
             [(''kind'', SchemaProps [Type [''string''], Format []]),
              (''apiVersion'', SchemaProps [Type [''string''], Format []]),
              (''metadata'', SchemaProps [Default (VObj []), Ref (ref (meta_v1 ''ListMeta''))]),
              (''items'', SchemaProps
                   [Type [''array''],
                    Items (SchemaProps [Default (VObj []), Ref (ref (core_v1 ''PodTemplate''))])])],
          Required [''items'']])
       [core_v1 ''PodTemplate'', meta_v1 ''ListMeta'']"

definition schema_k8sio_api_core_v1_PodTemplateSpec ::
  "(string \<Rightarrow> 'r) \<Rightarrow> 'r OpenAPIDefinition" where
  [schema_defs]: "schema_k8sio_api_core_v1_PodTemplateSpec ref =
     OpenAPIDefinition
       (SchemaProps
         [Type [''object''],
          Properties
             [(''metadata'', SchemaProps [Default (VObj []), Ref (ref (meta_v1 ''ObjectMeta''))]),
              (''spec'', SchemaProps [Default (VObj []), Ref (ref (core_v1 ''PodSpec''))])]])
       [core_v1 ''PodSpec'', meta_v1 ''ObjectMeta'']"

definition schema_k8sio_api_core_v1_PortStatus ::
  "(string \<Rightarrow> 'r) \<Rightarrow> 'r OpenAPIDefinition" where
  [schema_defs]: "schema_k8sio_api_core_v1_PortStatus ref =
     OpenAPIDefinition
       (SchemaProps
         [Type [''object''],
          Properties
             [(''port'', SchemaProps [Default (VInt 0), Type [''integer''], Format ''int32'']),
              (''protocol'', SchemaProps
                   [Default (VStr []),
                    Type [''string''],
                    Format [],
                    Enum [VStr ''SCTP'', VStr ''TCP'', VStr ''UDP'']]),
              (''error'', SchemaProps [Type [''string''], Format []])],
          Required [''port'', ''protocol'']])
       []"

definition schema_k8sio_api_core_v1_PortworxVolumeSource ::
  "(string \<Rightarrow> 'r) \<Rightarrow> 'r OpenAPIDefinition" where
  [schema_defs]: "schema_k8sio_api_core_v1_PortworxVolumeSource ref =
     OpenAPIDefinition
       (SchemaProps
         [Type [''object''],
          Properties
             [(''volumeID'', SchemaProps [Default (VStr []), Type [''string''], Format []]),
              (''fsType'', SchemaProps [Type [''string''], Format []]),
              (''readOnly'', SchemaProps [Type [''boolean''], Format []])],
          Required [''volumeID'']])
       []"

definition schema_k8sio_api_core_v1_PreferAvoidPodsEntry ::
  "(string \<Rightarrow> 'r) \<Rightarrow> 'r OpenAPIDefinition" where
  [schema_defs]: "schema_k8sio_api_core_v1_PreferAvoidPodsEntry ref =
     OpenAPIDefinition
       (SchemaProps
         [Type [''object''],
          Properties
             [(''podSignature'', SchemaProps [Default (VObj []), Ref (ref (core_v1 ''PodSignature''))]),
              (''evictionTime'', SchemaProps [Ref (ref (meta_v1 ''Time''))]),
              (''reason'', SchemaProps [Type [''string''], Format []]),
              (''message'', SchemaProps [Type [''string''], Format []])],
          Required [''podSignature'']])
       [core_v1 ''PodSignature'', meta_v1 ''Time'']"

definition schema_k8sio_api_core_v1_PreferredSchedulingTerm ::
  "(string \<Rightarrow> 'r) \<Rightarrow> 'r OpenAPIDefinition" where
  [schema_defs]: "schema_k8sio_api_core_v1_PreferredSchedulingTerm ref =
     OpenAPIDefinition
       (SchemaProps
         [Type [''object''],
          Properties
             [(''weight'', SchemaProps [Default (VInt 0), Type [''integer''], Format ''int32'']),
              (''preference'', SchemaProps [Default (VObj []), Ref (ref (core_v1 ''NodeSelectorTerm''))])],
          Required [''weight'', ''preference'']])
       [core_v1 ''NodeSelectorTerm'']"

definition schema_k8sio_api_core_v1_Probe ::
  "(string \<Rightarrow> 'r) \<Rightarrow> 'r OpenAPIDefinition" where
  [schema_defs]: "schema_k8sio_api_core_v1_Probe ref =
     OpenAPIDefinition
       (SchemaProps
         [Type [''object''],
          Properties
             [(''exec'', SchemaProps [Ref (ref (core_v1 ''ExecAction''))]),
              (''httpGet'', SchemaProps [Ref (ref (core_v1 ''HTTPGetAction''))]),
              (''tcpSocket'', SchemaProps [Ref (ref (core_v1 ''TCPSocketAction''))]),
              (''grpc'', SchemaProps [Ref (ref (core_v1 ''GRPCAction''))]),
              (''initialDelaySeconds'', SchemaProps [Type [''integer''], Format ''int32'']),
              (''timeoutSeconds'', SchemaProps [Type [''integer''], Format ''int32'']),
              (''periodSeconds'', SchemaProps [Type [''integer''], Format ''int32'']),
              (''successThreshold'', SchemaProps [Type [''integer''], Format ''int32'']),
              (''failureThreshold'', SchemaProps [Type [''integer''], Format ''int32'']),
              (''terminationGracePeriodSeconds'', SchemaProps [Type [''integer''], Format ''int64''])]])
       [core_v1 ''ExecAction'', core_v1 ''GRPCAction'', core_v1 ''HTTPGetAction'',
        core_v1 ''TCPSocketAction'']"

definition schema_k8sio_api_core_v1_ProbeHandler ::
  "(string \<Rightarrow> 'r) \<Rightarrow> 'r OpenAPIDefinition" where
  [schema_defs]: "schema_k8sio_api_core_v1_ProbeHandler ref =
     OpenAPIDefinition
       (SchemaProps
         [Type [''object''],
          Properties
             [(''exec'', SchemaProps [Ref (ref (core_v1 ''ExecAction''))]),
              (''httpGet'', SchemaProps [Ref (ref (core_v1 ''HTTPGetAction''))]),
              (''tcpSocket'', SchemaProps [Ref (ref (core_v1 ''TCPSocketAction''))]),
              (''grpc'', SchemaProps [Ref (ref (core_v1 ''GRPCAction''))])]])
       [core_v1 ''ExecAction'', core_v1 ''GRPCAction'', core_v1 ''HTTPGetAction'',
        core_v1 ''TCPSocketAction'']"

definition schema_k8sio_api_core_v1_ProjectedVolumeSource ::
  "(string \<Rightarrow> 'r) \<Rightarrow> 'r OpenAPIDefinition" where
  [schema_defs]: "schema_k8sio_api_core_v1_ProjectedVolumeSource ref =
     OpenAPIDefinition
       (SchemaProps
         [Type [''object''],
          Properties
             [(''sources'', SchemaProps
                   [Type [''array''],
                    Items (SchemaProps [Default (VObj []), Ref (ref (core_v1 ''VolumeProjection''))]),
                    Extensions [(''x-kubernetes-list-type'', VStr ''atomic'')]]),
              (''defaultMode'', SchemaProps [Type [''integer''], Format ''int32''])]])
       [core_v1 ''VolumeProjection'']"

definition schema_k8sio_api_core_v1_QuobyteVolumeSource ::
  "(string \<Rightarrow> 'r) \<Rightarrow> 'r OpenAPIDefinition" where
  [schema_defs]: "schema_k8sio_api_core_v1_QuobyteVolumeSource ref =
     OpenAPIDefinition
       (SchemaProps
         [Type [''object''],
          Properties
             [(''registry'', SchemaProps [Default (VStr []), Type [''string''], Format []]),
              (''volume'', SchemaProps [Default (VStr []), Type [''string''], Format []]),
              (''readOnly'', SchemaProps [Type [''boolean''], Format []]),
              (''user'', SchemaProps [Type [''string''], Format []]),
              (''group'', SchemaProps [Type [''string''], Format []]),
              (''tenant'', SchemaProps [Type [''string''], Format []])],
          Required [''registry'', ''volume'']])
       []"

definition schema_k8sio_api_core_v1_RBDPersistentVolumeSource ::
  "(string \<Rightarrow> 'r) \<Rightarrow> 'r OpenAPIDefinition" where
  [schema_defs]: "schema_k8sio_api_core_v1_RBDPersistentVolumeSource ref =
     OpenAPIDefinition
       (SchemaProps
         [Type [''object''],
          Properties
             [(''monitors'', SchemaProps
                   [Type [''array''],
                    Items (SchemaProps [Default (VStr []), Type [''string''], Format []]),
                    Extensions [(''x-kubernetes-list-type'', VStr ''atomic'')]]),
              (''image'', SchemaProps [Default (VStr []), Type [''string''], Format []]),
              (''fsType'', SchemaProps [Type [''string''], Format []]),
              (''pool'', SchemaProps [Default (VStr ''rbd''), Type [''string''], Format []]),
              (''user'', SchemaProps [Default (VStr ''admin''), Type [''string''], Format []]),
              (''keyring'', SchemaProps [Default (VStr ''/etc/ceph/keyring''), Type [''string''], Format []]),
              (''secretRef'', SchemaProps [Ref (ref (core_v1 ''SecretReference''))]),
              (''readOnly'', SchemaProps [Type [''boolean''], Format []])],
          Required [''monitors'', ''image'']])
       [core_v1 ''SecretReference'']"

definition schema_k8sio_api_core_v1_RBDVolumeSource ::
  "(string \<Rightarrow> 'r) \<Rightarrow> 'r OpenAPIDefinition" where
  [schema_defs]: "schema_k8sio_api_core_v1_RBDVolumeSource ref =
     OpenAPIDefinition
       (SchemaProps
         [Type [''object''],
          Properties
             [(''monitors'', SchemaProps
                   [Type [''array''],
                    Items (SchemaProps [Default (VStr []), Type [''string''], Format []]),
                    Extensions [(''x-kubernetes-list-type'', VStr ''atomic'')]]),
              (''image'', SchemaProps [Default (VStr []), Type [''string''], Format []]),
              (''fsType'', SchemaProps [Type [''string''], Format []]),
              (''pool'', SchemaProps [Default (VStr ''rbd''), Type [''string''], Format []]),
              (''user'', SchemaProps [Default (VStr ''admin''), Type [''string''], Format []]),
              (''keyring'', SchemaProps [Default (VStr ''/etc/ceph/keyring''), Type [''string''], Format []]),
              (''secretRef'', SchemaProps [Ref (ref (core_v1 ''LocalObjectReference''))]),
              (''readOnly'', SchemaProps [Type [''boolean''], Format []])],
          Required [''monitors'', ''image'']])
       [core_v1 ''LocalObjectReference'']"

definition schema_k8sio_api_core_v1_RangeAllocation ::
  "(string \<Rightarrow> 'r) \<Rightarrow> 'r OpenAPIDefinition" where
  [schema_defs]: "schema_k8sio_api_core_v1_RangeAllocation ref =
     OpenAPIDefinition
       (SchemaProps
         [Type [''object''],
          Properties
             [(''kind'', SchemaProps [Type [''string''], Format []]),
              (''apiVersion'', SchemaProps [Type [''string''], Format []]),
              (''metadata'', SchemaProps [Default (VObj []), Ref (ref (meta_v1 ''ObjectMeta''))]),
              (''range'', SchemaProps [Default (VStr []), Type [''string''], Format []]),
              (''data'', SchemaProps [Type [''string''], Format ''byte''])],
          Required [''range'', ''data'']])
       [meta_v1 ''ObjectMeta'']"

definition schema_k8sio_api_core_v1_ReplicationController ::
  "(string \<Rightarrow> 'r) \<Rightarrow> 'r OpenAPIDefinition" where
  [schema_defs]: "schema_k8sio_api_core_v1_ReplicationController ref =
     OpenAPIDefinition
       (SchemaProps
         [Type [''object''],
          Properties
             [(''kind'', SchemaProps [Type [''string''], Format []]),
              (''apiVersion'', SchemaProps [Type [''string''], Format []]),
              (''metadata'', SchemaProps [Default (VObj []), Ref (ref (meta_v1 ''ObjectMeta''))]),
              (''spec'', SchemaProps [Default (VObj []), Ref (ref (core_v1 ''ReplicationControllerSpec''))]),
              (''status'', SchemaProps
                   [Default (VObj []),
                    Ref (ref (core_v1 ''ReplicationControllerStatus''))])]])
       [core_v1 ''ReplicationControllerSpec'', core_v1 ''ReplicationControllerStatus'',
        meta_v1 ''ObjectMeta'']"

definition schema_k8sio_api_core_v1_ReplicationControllerCondition ::
  "(string \<Rightarrow> 'r) \<Rightarrow> 'r OpenAPIDefinition" where
  [schema_defs]: "schema_k8sio_api_core_v1_ReplicationControllerCondition ref =
     OpenAPIDefinition
       (SchemaProps
         [Type [''object''],
          Properties
             [(''type'', SchemaProps [Default (VStr []), Type [''string''], Format []]),
              (''status'', SchemaProps [Default (VStr []), Type [''string''], Format []]),
              (''lastTransitionTime'', SchemaProps [Ref (ref (meta_v1 ''Time''))]),
              (''reason'', SchemaProps [Type [''string''], Format []]),
              (''message'', SchemaProps [Type [''string''], Format []])],
          Required [''type'', ''status'']])
       [meta_v1 ''Time'']"

definition schema_k8sio_api_core_v1_ReplicationControllerList ::
  "(string \<Rightarrow> 'r) \<Rightarrow> 'r OpenAPIDefinition" where
  [schema_defs]: "schema_k8sio_api_core_v1_ReplicationControllerList ref =
     OpenAPIDefinition
       (SchemaProps
         [Type [''object''],
          Properties
             [(''kind'', SchemaProps [Type [''string''], Format []]),
              (''apiVersion'', SchemaProps [Type [''string''], Format []]),
              (''metadata'', SchemaProps [Default (VObj []), Ref (ref (meta_v1 ''ListMeta''))]),
              (''items'', SchemaProps
                   [Type [''array''],
                    Items (SchemaProps
                           [Default (VObj []),
                            Ref (ref (core_v1 ''ReplicationController''))])])],
          Required [''items'']])
       [core_v1 ''ReplicationController'', meta_v1 ''ListMeta'']"

definition schema_k8sio_api_core_v1_ReplicationControllerSpec ::
  "(string \<Rightarrow> 'r) \<Rightarrow> 'r OpenAPIDefinition" where
  [schema_defs]: "schema_k8sio_api_core_v1_ReplicationControllerSpec ref =
     OpenAPIDefinition
       (SchemaProps
         [Type [''object''],
          Properties
             [(''replicas'', SchemaProps [Default (VInt 1), Type [''integer''], Format ''int32'']),
              (''minReadySeconds'', SchemaProps [Default (VInt 0), Type [''integer''], Format ''int32'']),
              (''selector'', SchemaProps
                   [Type [''object''],
                    AdditionalProperties True (SchemaProps [Default (VStr []), Type [''string''], Format []]),
                    Extensions [(''x-kubernetes-map-type'', VStr ''atomic'')]]),
              (''template'', SchemaProps [Ref (ref (core_v1 ''PodTemplateSpec''))])]])
       [core_v1 ''PodTemplateSpec'']"

lemma core3_sound:
  "def_sound ref (schema_k8sio_api_core_v1_PersistentVolumeClaimStatus ref)"
  "def_sound ref (schema_k8sio_api_core_v1_PersistentVolumeClaimTemplate ref)"
  "def_sound ref (schema_k8sio_api_core_v1_PersistentVolumeClaimVolumeSource ref)"
  "def_sound ref (schema_k8sio_api_core_v1_PersistentVolumeList ref)"
  "def_sound ref (schema_k8sio_api_core_v1_PersistentVolumeSource ref)"
  "def_sound ref (schema_k8sio_api_core_v1_PersistentVolumeSpec ref)"
  "def_sound ref (schema_k8sio_api_core_v1_PersistentVolumeStatus ref)"
  "def_sound ref (schema_k8sio_api_core_v1_PhotonPersistentDiskVolumeSource ref)"
  "def_sound ref (schema_k8sio_api_core_v1_Pod ref)"
  "def_sound ref (schema_k8sio_api_core_v1_PodAffinity ref)"
  "def_sound ref (schema_k8sio_api_core_v1_PodAffinityTerm ref)"
  "def_sound ref (schema_k8sio_api_core_v1_PodAntiAffinity ref)"
  "def_sound ref (schema_k8sio_api_core_v1_PodAttachOptions ref)"
  "def_sound ref (schema_k8sio_api_core_v1_PodCertificateProjection ref)"
  "def_sound ref (schema_k8sio_api_core_v1_PodCondition ref)"
  "def_sound ref (schema_k8sio_api_core_v1_PodDNSConfig ref)"
  "def_sound ref (schema_k8sio_api_core_v1_PodDNSConfigOption ref)"
  "def_sound ref (schema_k8sio_api_core_v1_PodExecOptions ref)"
  "def_sound ref (schema_k8sio_api_core_v1_PodExtendedResourceClaimStatus ref)"
  "def_sound ref (schema_k8sio_api_core_v1_PodIP ref)"
  "def_sound ref (schema_k8sio_api_core_v1_PodList ref)"
  "def_sound ref (schema_k8sio_api_core_v1_PodLogOptions ref)"
  "def_sound ref (schema_k8sio_api_core_v1_PodOS ref)"
  "def_sound ref (schema_k8sio_api_core_v1_PodPortForwardOptions ref)"
  "def_sound ref (schema_k8sio_api_core_v1_PodProxyOptions ref)"
  "def_sound ref (schema_k8sio_api_core_v1_PodReadinessGate ref)"
  "def_sound ref (schema_k8sio_api_core_v1_PodResourceClaim ref)"
  "def_sound ref (schema_k8sio_api_core_v1_PodResourceClaimStatus ref)"
  "def_sound ref (schema_k8sio_api_core_v1_PodSchedulingGate ref)"
  "def_sound ref (schema_k8sio_api_core_v1_PodSecurityContext ref)"
  "def_sound ref (schema_k8sio_api_core_v1_PodSignature ref)"
  "def_sound ref (schema_k8sio_api_core_v1_PodSpec ref)"
  "def_sound ref (schema_k8sio_api_core_v1_PodStatus ref)"
  "def_sound ref (schema_k8sio_api_core_v1_PodStatusResult ref)"
  "def_sound ref (schema_k8sio_api_core_v1_PodTemplate ref)"
  "def_sound ref (schema_k8sio_api_core_v1_PodTemplateList ref)"
  "def_sound ref (schema_k8sio_api_core_v1_PodTemplateSpec ref)"
  "def_sound ref (schema_k8sio_api_core_v1_PortStatus ref)"
  "def_sound ref (schema_k8sio_api_core_v1_PortworxVolumeSource ref)"
  "def_sound ref (schema_k8sio_api_core_v1_PreferAvoidPodsEntry ref)"
  "def_sound ref (schema_k8sio_api_core_v1_PreferredSchedulingTerm ref)"
  "def_sound ref (schema_k8sio_api_core_v1_Probe ref)"
  "def_sound ref (schema_k8sio_api_core_v1_ProbeHandler ref)"
  "def_sound ref (schema_k8sio_api_core_v1_ProjectedVolumeSource ref)"
  "def_sound ref (schema_k8sio_api_core_v1_QuobyteVolumeSource ref)"
  "def_sound ref (schema_k8sio_api_core_v1_RBDPersistentVolumeSource ref)"
  "def_sound ref (schema_k8sio_api_core_v1_RBDVolumeSource ref)"
  "def_sound ref (schema_k8sio_api_core_v1_RangeAllocation ref)"
  "def_sound ref (schema_k8sio_api_core_v1_ReplicationController ref)"
  "def_sound ref (schema_k8sio_api_core_v1_ReplicationControllerCondition ref)"
  "def_sound ref (schema_k8sio_api_core_v1_ReplicationControllerList ref)"
  "def_sound ref (schema_k8sio_api_core_v1_ReplicationControllerSpec ref)"
  by (auto simp: schema_defs)

end
