(* ===== verification/Openapi_Core4.thy ===== *)
theory Openapi_Core4
  imports Openapi_Schema
begin

section \<open>OpenAPI definitions of the core types, ReplicationControllerStatus to WindowsSecurityContextOptions\<close>

text \<open>
  From \<^verbatim>\<open>client-go/openapi/zz_generated.openapi.go\<close>: the definitions of the Kubernetes types the
  file lists beside the repository's own.
\<close>

definition schema_k8sio_api_core_v1_ReplicationControllerStatus ::
  "(string \<Rightarrow> 'r) \<Rightarrow> 'r OpenAPIDefinition" where
  [schema_defs]: "schema_k8sio_api_core_v1_ReplicationControllerStatus ref =
     OpenAPIDefinition
       (SchemaProps
         [Type [''object''],
          Properties
             [(''replicas'', SchemaProps [Default (VInt 0), Type [''integer''], Format ''int32'']),
              (''fullyLabeledReplicas'', SchemaProps [Type [''integer''], Format ''int32'']),
              (''readyReplicas'', SchemaProps [Type [''integer''], Format ''int32'']),
              (''availableReplicas'', SchemaProps [Type [''integer''], Format ''int32'']),
              (''observedGeneration'', SchemaProps [Type [''integer''], Format ''int64'']),
              (''conditions'', SchemaProps
                   [Type [''array''],
                    Items (SchemaProps
                           [Default (VObj []),
                            Ref (ref (core_v1 ''ReplicationControllerCondition''))]),
                    Extensions [(''x-kubernetes-list-map-keys'', VArr [VStr ''type'']), (''x-kubernetes-list-type'', VStr ''map''), (''x-kubernetes-patch-merge-key'', VStr ''type''), (''x-kubernetes-patch-strategy'', VStr ''merge'')]])],
          Required [''replicas'']])
       [core_v1 ''ReplicationControllerCondition'']"

definition schema_k8sio_api_core_v1_ResourceClaim ::
  "(string \<Rightarrow> 'r) \<Rightarrow> 'r OpenAPIDefinition" where
  [schema_defs]: "schema_k8sio_api_core_v1_ResourceClaim ref =
     OpenAPIDefinition
       (SchemaProps
         [Type [''object''],
          Properties
             [(''name'', SchemaProps [Default (VStr []), Type [''string''], Format []]),
              (''request'', SchemaProps [Type [''string''], Format []])],
          Required [''name'']])
       []"

definition schema_k8sio_api_core_v1_ResourceFieldSelector ::
  "(string \<Rightarrow> 'r) \<Rightarrow> 'r OpenAPIDefinition" where
  [schema_defs]: "schema_k8sio_api_core_v1_ResourceFieldSelector ref =
     OpenAPIDefinition
       (SchemaProps
         [Type [''object''],
          Properties
             [(''containerName'', SchemaProps [Type [''string''], Format []]),
              (''resource'', SchemaProps [Default (VStr []), Type [''string''], Format []]),
              (''divisor'', SchemaProps [Ref (ref (pkg_resource ''Quantity''))])],
          Required [''resource''],
          Extensions [(''x-kubernetes-map-type'', VStr ''atomic'')]])
       [pkg_resource ''Quantity'']"

definition schema_k8sio_api_core_v1_ResourceHealth ::
  "(string \<Rightarrow> 'r) \<Rightarrow> 'r OpenAPIDefinition" where
  [schema_defs]: "schema_k8sio_api_core_v1_ResourceHealth ref =
     OpenAPIDefinition
       (SchemaProps
         [Type [''object''],
          Properties
             [(''resourceID'', SchemaProps [Default (VStr []), Type [''string''], Format []]),
              (''health'', SchemaProps [Type [''string''], Format []])],
          Required [''resourceID'']])
       []"

definition schema_k8sio_api_core_v1_ResourceQuota ::
  "(string \<Rightarrow> 'r) \<Rightarrow> 'r OpenAPIDefinition" where
  [schema_defs]: "schema_k8sio_api_core_v1_ResourceQuota ref =
     OpenAPIDefinition
       (SchemaProps
         [Type [''object''],
          Properties
             [(''kind'', SchemaProps [Type [''string''], Format []]),
              (''apiVersion'', SchemaProps [Type [''string''], Format []]),
              (''metadata'', SchemaProps [Default (VObj []), Ref (ref (meta_v1 ''ObjectMeta''))]),
              (''spec'', SchemaProps [Default (VObj []), Ref (ref (core_v1 ''ResourceQuotaSpec''))]),
              (''status'', SchemaProps [Default (VObj []), Ref (ref (core_v1 ''ResourceQuotaStatus''))])]])
       [core_v1 ''ResourceQuotaSpec'', core_v1 ''ResourceQuotaStatus'', meta_v1 ''ObjectMeta'']"

definition schema_k8sio_api_core_v1_ResourceQuotaList ::
  "(string \<Rightarrow> 'r) \<Rightarrow> 'r OpenAPIDefinition" where
  [schema_defs]: "schema_k8sio_api_core_v1_ResourceQuotaList ref =
     OpenAPIDefinition
       (SchemaProps
         [Type [''object''],
          Properties
             [(''kind'', SchemaProps [Type [''string''], Format []]),
              (''apiVersion'', SchemaProps [Type [''string''], Format []]),
              (''metadata'', SchemaProps [Default (VObj []), Ref (ref (meta_v1 ''ListMeta''))]),
              (''items'', SchemaProps
                   [Type [''array''],
                    Items (SchemaProps [Default (VObj []), Ref (ref (core_v1 ''ResourceQuota''))])])],
          Required [''items'']])
       [core_v1 ''ResourceQuota'', meta_v1 ''ListMeta'']"

definition schema_k8sio_api_core_v1_ResourceQuotaSpec ::
  "(string \<Rightarrow> 'r) \<Rightarrow> 'r OpenAPIDefinition" where
  [schema_defs]: "schema_k8sio_api_core_v1_ResourceQuotaSpec ref =
     OpenAPIDefinition
       (SchemaProps
         [Type [''object''],
          Properties
             [(''hard'', SchemaProps
                   [Type [''object''],
                    AdditionalProperties True (SchemaProps [Ref (ref (pkg_resource ''Quantity''))])]),
              (''scopes'', SchemaProps
                   [Type [''array''],
                    Items (SchemaProps
                           [Default (VStr []),
                            Type [''string''],
                            Format [],
                            Enum [VStr ''BestEffort'', VStr ''CrossNamespacePodAffinity'', VStr ''NotBestEffort'', VStr ''NotTerminating'', VStr ''PriorityClass'', VStr ''Terminating'', VStr ''VolumeAttributesClass'']]),
                    Extensions [(''x-kubernetes-list-type'', VStr ''atomic'')]]),
              (''scopeSelector'', SchemaProps [Ref (ref (core_v1 ''ScopeSelector''))])]])
       [core_v1 ''ScopeSelector'', pkg_resource ''Quantity'']"

definition schema_k8sio_api_core_v1_ResourceQuotaStatus ::
  "(string \<Rightarrow> 'r) \<Rightarrow> 'r OpenAPIDefinition" where
  [schema_defs]: "schema_k8sio_api_core_v1_ResourceQuotaStatus ref =
     OpenAPIDefinition
       (SchemaProps
         [Type [''object''],
          Properties
             [(''hard'', SchemaProps
                   [Type [''object''],
                    AdditionalProperties True (SchemaProps [Ref (ref (pkg_resource ''Quantity''))])]),
              (''used'', SchemaProps
                   [Type [''object''],
                    AdditionalProperties True (SchemaProps [Ref (ref (pkg_resource ''Quantity''))])])]])
       [pkg_resource ''Quantity'']"

definition schema_k8sio_api_core_v1_ResourceRequirements ::
  "(string \<Rightarrow> 'r) \<Rightarrow> 'r OpenAPIDefinition" where
  [schema_defs]: "schema_k8sio_api_core_v1_ResourceRequirements ref =
     OpenAPIDefinition
       (SchemaProps
         [Type [''object''],
          Properties
             [(''limits'', SchemaProps
                   [Type [''object''],
                    AdditionalProperties True (SchemaProps [Ref (ref (pkg_resource ''Quantity''))])]),
              (''requests'', SchemaProps
                   [Type [''object''],
                    AdditionalProperties True (SchemaProps [Ref (ref (pkg_resource ''Quantity''))])]),
              (''claims'', SchemaProps
                   [Type [''array''],
                    Items (SchemaProps [Default (VObj []), Ref (ref (core_v1 ''ResourceClaim''))]),
                    Extensions [(''x-kubernetes-list-map-keys'', VArr [VStr ''name'']), (''x-kubernetes-list-type'', VStr ''map'')]])]])
       [core_v1 ''ResourceClaim'', pkg_resource ''Quantity'']"

definition schema_k8sio_api_core_v1_ResourceStatus ::
  "(string \<Rightarrow> 'r) \<Rightarrow> 'r OpenAPIDefinition" where
  [schema_defs]: "schema_k8sio_api_core_v1_ResourceStatus ref =
     OpenAPIDefinition
       (SchemaProps
         [Type [''object''],
          Properties
             [(''name'', SchemaProps [Default (VStr []), Type [''string''], Format []]),
              (''resources'', SchemaProps
                   [Type [''array''],
                    Items (SchemaProps [Default (VObj []), Ref (ref (core_v1 ''ResourceHealth''))]),
                    Extensions [(''x-kubernetes-list-map-keys'', VArr [VStr ''resourceID'']), (''x-kubernetes-list-type'', VStr ''map'')]])],
          Required [''name'']])
       [core_v1 ''ResourceHealth'']"

definition schema_k8sio_api_core_v1_SELinuxOptions ::
  "(string \<Rightarrow> 'r) \<Rightarrow> 'r OpenAPIDefinition" where
  [schema_defs]: "schema_k8sio_api_core_v1_SELinuxOptions ref =
     OpenAPIDefinition
       (SchemaProps
         [Type [''object''],
          Properties
             [(''user'', SchemaProps [Type [''string''], Format []]),
              (''role'', SchemaProps [Type [''string''], Format []]),
              (''type'', SchemaProps [Type [''string''], Format []]),
              (''level'', SchemaProps [Type [''string''], Format []])]])
       []"

definition schema_k8sio_api_core_v1_ScaleIOPersistentVolumeSource ::
  "(string \<Rightarrow> 'r) \<Rightarrow> 'r OpenAPIDefinition" where
  [schema_defs]: "schema_k8sio_api_core_v1_ScaleIOPersistentVolumeSource ref =
     OpenAPIDefinition
       (SchemaProps
         [Type [''object''],
          Properties
             [(''gateway'', SchemaProps [Default (VStr []), Type [''string''], Format []]),
              (''system'', SchemaProps [Default (VStr []), Type [''string''], Format []]),
              (''secretRef'', SchemaProps [Ref (ref (core_v1 ''SecretReference''))]),
              (''sslEnabled'', SchemaProps [Type [''boolean''], Format []]),
              (''protectionDomain'', SchemaProps [Type [''string''], Format []]),
              (''storagePool'', SchemaProps [Type [''string''], Format []]),
              (''storageMode'', SchemaProps [Default (VStr ''ThinProvisioned''), Type [''string''], Format []]),
              (''volumeName'', SchemaProps [Type [''string''], Format []]),
              (''fsType'', SchemaProps [Default (VStr ''xfs''), Type [''string''], Format []]),
              (''readOnly'', SchemaProps [Type [''boolean''], Format []])],
          Required [''gateway'', ''system'', ''secretRef'']])
       [core_v1 ''SecretReference'']"

definition schema_k8sio_api_core_v1_ScaleIOVolumeSource ::
  "(string \<Rightarrow> 'r) \<Rightarrow> 'r OpenAPIDefinition" where
  [schema_defs]: "schema_k8sio_api_core_v1_ScaleIOVolumeSource ref =
     OpenAPIDefinition
       (SchemaProps
         [Type [''object''],
          Properties
             [(''gateway'', SchemaProps [Default (VStr []), Type [''string''], Format []]),
              (''system'', SchemaProps [Default (VStr []), Type [''string''], Format []]),
              (''secretRef'', SchemaProps [Ref (ref (core_v1 ''LocalObjectReference''))]),
              (''sslEnabled'', SchemaProps [Type [''boolean''], Format []]),
              (''protectionDomain'', SchemaProps [Type [''string''], Format []]),
              (''storagePool'', SchemaProps [Type [''string''], Format []]),
              (''storageMode'', SchemaProps [Default (VStr ''ThinProvisioned''), Type [''string''], Format []]),
              (''volumeName'', SchemaProps [Type [''string''], Format []]),
              (''fsType'', SchemaProps [Default (VStr ''xfs''), Type [''string''], Format []]),
              (''readOnly'', SchemaProps [Type [''boolean''], Format []])],
          Required [''gateway'', ''system'', ''secretRef'']])
       [core_v1 ''LocalObjectReference'']"

definition schema_k8sio_api_core_v1_ScopeSelector ::
  "(string \<Rightarrow> 'r) \<Rightarrow> 'r OpenAPIDefinition" where
  [schema_defs]: "schema_k8sio_api_core_v1_ScopeSelector ref =
     OpenAPIDefinition
       (SchemaProps
         [Type [''object''],
          Properties
             [(''matchExpressions'', SchemaProps
                   [Type [''array''],
                    Items (SchemaProps
                           [Default (VObj []),
                            Ref (ref (core_v1 ''ScopedResourceSelectorRequirement''))]),
                    Extensions [(''x-kubernetes-list-type'', VStr ''atomic'')]])],
          Extensions [(''x-kubernetes-map-type'', VStr ''atomic'')]])
       [core_v1 ''ScopedResourceSelectorRequirement'']"

definition schema_k8sio_api_core_v1_ScopedResourceSelectorRequirement ::
  "(string \<Rightarrow> 'r) \<Rightarrow> 'r OpenAPIDefinition" where
  [schema_defs]: "schema_k8sio_api_core_v1_ScopedResourceSelectorRequirement ref =
     OpenAPIDefinition
       (SchemaProps
         [Type [''object''],
          Properties
             [(''scopeName'', SchemaProps
                   [Default (VStr []),
                    Type [''string''],
                    Format [],
                    Enum [VStr ''BestEffort'', VStr ''CrossNamespacePodAffinity'', VStr ''NotBestEffort'', VStr ''NotTerminating'', VStr ''PriorityClass'', VStr ''Terminating'', VStr ''VolumeAttributesClass'']]),
              (''operator'', SchemaProps
                   [Default (VStr []),
                    Type [''string''],
                    Format [],
                    Enum [VStr ''DoesNotExist'', VStr ''Exists'', VStr ''In'', VStr ''NotIn'']]),
              (''values'', SchemaProps
                   [Type [''array''],
                    Items (SchemaProps [Default (VStr []), Type [''string''], Format []]),
                    Extensions [(''x-kubernetes-list-type'', VStr ''atomic'')]])],
          Required [''scopeName'', ''operator'']])
       []"

definition schema_k8sio_api_core_v1_SeccompProfile ::
  "(string \<Rightarrow> 'r) \<Rightarrow> 'r OpenAPIDefinition" where
  [schema_defs]: "schema_k8sio_api_core_v1_SeccompProfile ref =
     OpenAPIDefinition
       (SchemaProps
         [Type [''object''],
          Properties
             [(''type'', SchemaProps
                   [Default (VStr []),
                    Type [''string''],
                    Format [],
                    Enum [VStr ''Localhost'', VStr ''RuntimeDefault'', VStr ''Unconfined'']]),
              (''localhostProfile'', SchemaProps [Type [''string''], Format []])],
          Required [''type''],
          Extensions [(''x-kubernetes-unions'', VArr [VObj [(''discriminator'', VStr ''type''), (''fields-to-discriminateBy'', VObj [(''localhostProfile'', VStr ''LocalhostProfile'')])]])]])
       []"

definition schema_k8sio_api_core_v1_Secret ::
  "(string \<Rightarrow> 'r) \<Rightarrow> 'r OpenAPIDefinition" where
  [schema_defs]: "schema_k8sio_api_core_v1_Secret ref =
     OpenAPIDefinition
       (SchemaProps
         [Type [''object''],
          Properties
             [(''kind'', SchemaProps [Type [''string''], Format []]),
              (''apiVersion'', SchemaProps [Type [''string''], Format []]),
              (''metadata'', SchemaProps [Default (VObj []), Ref (ref (meta_v1 ''ObjectMeta''))]),
              (''immutable'', SchemaProps [Type [''boolean''], Format []]),
              (''data'', SchemaProps
                   [Type [''object''],
                    AdditionalProperties True (SchemaProps [Type [''string''], Format ''byte''])]),
              (''stringData'', SchemaProps
                   [Type [''object''],
                    AdditionalProperties True (SchemaProps [Default (VStr []), Type [''string''], Format []])]),
              (''type'', SchemaProps [Type [''string''], Format []])]])
       [meta_v1 ''ObjectMeta'']"

definition schema_k8sio_api_core_v1_SecretEnvSource ::
  "(string \<Rightarrow> 'r) \<Rightarrow> 'r OpenAPIDefinition" where
  [schema_defs]: "schema_k8sio_api_core_v1_SecretEnvSource ref =
     OpenAPIDefinition
       (SchemaProps
         [Type [''object''],
          Properties
             [(''name'', SchemaProps [Default (VStr []), Type [''string''], Format []]),
              (''optional'', SchemaProps [Type [''boolean''], Format []])]])
       []"

definition schema_k8sio_api_core_v1_SecretKeySelector ::
  "(string \<Rightarrow> 'r) \<Rightarrow> 'r OpenAPIDefinition" where
  [schema_defs]: "schema_k8sio_api_core_v1_SecretKeySelector ref =
     OpenAPIDefinition
       (SchemaProps
         [Type [''object''],
          Properties
             [(''name'', SchemaProps [Default (VStr []), Type [''string''], Format []]),
              (''key'', SchemaProps [Default (VStr []), Type [''string''], Format []]),
              (''optional'', SchemaProps [Type [''boolean''], Format []])],
          Required [''key''],
          Extensions [(''x-kubernetes-map-type'', VStr ''atomic'')]])
       []"

definition schema_k8sio_api_core_v1_SecretList ::
  "(string \<Rightarrow> 'r) \<Rightarrow> 'r OpenAPIDefinition" where
  [schema_defs]: "schema_k8sio_api_core_v1_SecretList ref =
     OpenAPIDefinition
       (SchemaProps
         [Type [''object''],
          Properties
             [(''kind'', SchemaProps [Type [''string''], Format []]),
              (''apiVersion'', SchemaProps [Type [''string''], Format []]),
              (''metadata'', SchemaProps [Default (VObj []), Ref (ref (meta_v1 ''ListMeta''))]),
              (''items'', SchemaProps
                   [Type [''array''],
                    Items (SchemaProps [Default (VObj []), Ref (ref (core_v1 ''Secret''))])])],
          Required [''items'']])
       [core_v1 ''Secret'', meta_v1 ''ListMeta'']"

definition schema_k8sio_api_core_v1_SecretProjection ::
  "(string \<Rightarrow> 'r) \<Rightarrow> 'r OpenAPIDefinition" where
  [schema_defs]: "schema_k8sio_api_core_v1_SecretProjection ref =
     OpenAPIDefinition
       (SchemaProps
         [Type [''object''],
          Properties
             [(''name'', SchemaProps [Default (VStr []), Type [''string''], Format []]),
              (''items'', SchemaProps
                   [Type [''array''],
                    Items (SchemaProps [Default (VObj []), Ref (ref (core_v1 ''KeyToPath''))]),
                    Extensions [(''x-kubernetes-list-type'', VStr ''atomic'')]]),
              (''optional'', SchemaProps [Type [''boolean''], Format []])]])
       [core_v1 ''KeyToPath'']"

definition schema_k8sio_api_core_v1_SecretReference ::
  "(string \<Rightarrow> 'r) \<Rightarrow> 'r OpenAPIDefinition" where
  [schema_defs]: "schema_k8sio_api_core_v1_SecretReference ref =
     OpenAPIDefinition
       (SchemaProps
         [Type [''object''],
          Properties
             [(''name'', SchemaProps [Type [''string''], Format []]),
              (''namespace'', SchemaProps [Type [''string''], Format []])],
          Extensions [(''x-kubernetes-map-type'', VStr ''atomic'')]])
       []"

definition schema_k8sio_api_core_v1_SecretVolumeSource ::
  "(string \<Rightarrow> 'r) \<Rightarrow> 'r OpenAPIDefinition" where
  [schema_defs]: "schema_k8sio_api_core_v1_SecretVolumeSource ref =
     OpenAPIDefinition
       (SchemaProps
         [Type [''object''],
          Properties
             [(''secretName'', SchemaProps [Type [''string''], Format []]),
              (''items'', SchemaProps
                   [Type [''array''],
                    Items (SchemaProps [Default (VObj []), Ref (ref (core_v1 ''KeyToPath''))]),
                    Extensions [(''x-kubernetes-list-type'', VStr ''atomic'')]]),
              (''defaultMode'', SchemaProps [Type [''integer''], Format ''int32'']),
              (''optional'', SchemaProps [Type [''boolean''], Format []])]])
       [core_v1 ''KeyToPath'']"

definition schema_k8sio_api_core_v1_SecurityContext ::
  "(string \<Rightarrow> 'r) \<Rightarrow> 'r OpenAPIDefinition" where
  [schema_defs]: "schema_k8sio_api_core_v1_SecurityContext ref =
     OpenAPIDefinition
       (SchemaProps
         [Type [''object''],
          Properties
             [(''capabilities'', SchemaProps [Ref (ref (core_v1 ''Capabilities''))]),
              (''privileged'', SchemaProps [Type [''boolean''], Format []]),
              (''seLinuxOptions'', SchemaProps [Ref (ref (core_v1 ''SELinuxOptions''))]),
              (''windowsOptions'', SchemaProps [Ref (ref (core_v1 ''WindowsSecurityContextOptions''))]),
              (''runAsUser'', SchemaProps [Type [''integer''], Format ''int64'']),
              (''runAsGroup'', SchemaProps [Type [''integer''], Format ''int64'']),
              (''runAsNonRoot'', SchemaProps [Type [''boolean''], Format []]),
              (''readOnlyRootFilesystem'', SchemaProps [Type [''boolean''], Format []]),
              (''allowPrivilegeEscalation'', SchemaProps [Type [''boolean''], Format []]),
              (''procMount'', SchemaProps
                   [Type [''string''],
                    Format [],
                    Enum [VStr ''Default'', VStr ''Unmasked'']]),
              (''seccompProfile'', SchemaProps [Ref (ref (core_v1 ''SeccompProfile''))]),
              (''appArmorProfile'', SchemaProps [Ref (ref (core_v1 ''AppArmorProfile''))])]])
       [core_v1 ''AppArmorProfile'', core_v1 ''Capabilities'', core_v1 ''SELinuxOptions'',
        core_v1 ''SeccompProfile'', core_v1 ''WindowsSecurityContextOptions'']"

definition schema_k8sio_api_core_v1_SerializedReference ::
  "(string \<Rightarrow> 'r) \<Rightarrow> 'r OpenAPIDefinition" where
  [schema_defs]: "schema_k8sio_api_core_v1_SerializedReference ref =
     OpenAPIDefinition
       (SchemaProps
         [Type [''object''],
          Properties
             [(''kind'', SchemaProps [Type [''string''], Format []]),
              (''apiVersion'', SchemaProps [Type [''string''], Format []]),
              (''reference'', SchemaProps [Default (VObj []), Ref (ref (core_v1 ''ObjectReference''))])]])
       [core_v1 ''ObjectReference'']"

definition schema_k8sio_api_core_v1_Service ::
  "(string \<Rightarrow> 'r) \<Rightarrow> 'r OpenAPIDefinition" where
  [schema_defs]: "schema_k8sio_api_core_v1_Service ref =
     OpenAPIDefinition
       (SchemaProps
         [Type [''object''],
          Properties
             [(''kind'', SchemaProps [Type [''string''], Format []]),
              (''apiVersion'', SchemaProps [Type [''string''], Format []]),
              (''metadata'', SchemaProps [Default (VObj []), Ref (ref (meta_v1 ''ObjectMeta''))]),
              (''spec'', SchemaProps [Default (VObj []), Ref (ref (core_v1 ''ServiceSpec''))]),
              (''status'', SchemaProps [Default (VObj []), Ref (ref (core_v1 ''ServiceStatus''))])]])
       [core_v1 ''ServiceSpec'', core_v1 ''ServiceStatus'', meta_v1 ''ObjectMeta'']"

definition schema_k8sio_api_core_v1_ServiceAccount ::
  "(string \<Rightarrow> 'r) \<Rightarrow> 'r OpenAPIDefinition" where
  [schema_defs]: "schema_k8sio_api_core_v1_ServiceAccount ref =
     OpenAPIDefinition
       (SchemaProps
         [Type [''object''],
          Properties
             [(''kind'', SchemaProps [Type [''string''], Format []]),
              (''apiVersion'', SchemaProps [Type [''string''], Format []]),
              (''metadata'', SchemaProps [Default (VObj []), Ref (ref (meta_v1 ''ObjectMeta''))]),
              (''secrets'', SchemaProps
                   [Type [''array''],
                    Items (SchemaProps [Default (VObj []), Ref (ref (core_v1 ''ObjectReference''))]),
                    Extensions [(''x-kubernetes-list-map-keys'', VArr [VStr ''name'']), (''x-kubernetes-list-type'', VStr ''map''), (''x-kubernetes-patch-merge-key'', VStr ''name''), (''x-kubernetes-patch-strategy'', VStr ''merge'')]]),
              (''imagePullSecrets'', SchemaProps
                   [Type [''array''],
                    Items (SchemaProps
                           [Default (VObj []),
                            Ref (ref (core_v1 ''LocalObjectReference''))]),
                    Extensions [(''x-kubernetes-list-type'', VStr ''atomic'')]]),
              (''automountServiceAccountToken'', SchemaProps [Type [''boolean''], Format []])]])
       [core_v1 ''LocalObjectReference'', core_v1 ''ObjectReference'', meta_v1 ''ObjectMeta'']"

definition schema_k8sio_api_core_v1_ServiceAccountList ::
  "(string \<Rightarrow> 'r) \<Rightarrow> 'r OpenAPIDefinition" where
  [schema_defs]: "schema_k8sio_api_core_v1_ServiceAccountList ref =
     OpenAPIDefinition
       (SchemaProps
         [Type [''object''],
          Properties
             [(''kind'', SchemaProps [Type [''string''], Format []]),
              (''apiVersion'', SchemaProps [Type [''string''], Format []]),
              (''metadata'', SchemaProps [Default (VObj []), Ref (ref (meta_v1 ''ListMeta''))]),
              (''items'', SchemaProps
                   [Type [''array''],
                    Items (SchemaProps [Default (VObj []), Ref (ref (core_v1 ''ServiceAccount''))])])],
          Required [''items'']])
       [core_v1 ''ServiceAccount'', meta_v1 ''ListMeta'']"

definition schema_k8sio_api_core_v1_ServiceAccountTokenProjection ::
  "(string \<Rightarrow> 'r) \<Rightarrow> 'r OpenAPIDefinition" where
  [schema_defs]: "schema_k8sio_api_core_v1_ServiceAccountTokenProjection ref =
     OpenAPIDefinition
       (SchemaProps
         [Type [''object''],
          Properties
             [(''audience'', SchemaProps [Type [''string''], Format []]),
              (''expirationSeconds'', SchemaProps [Type [''integer''], Format ''int64'']),
              (''path'', SchemaProps [Default (VStr []), Type [''string''], Format []])],
          Required [''path'']])
       []"

definition schema_k8sio_api_core_v1_ServiceList ::
  "(string \<Rightarrow> 'r) \<Rightarrow> 'r OpenAPIDefinition" where
  [schema_defs]: "schema_k8sio_api_core_v1_ServiceList ref =
     OpenAPIDefinition
       (SchemaProps
         [Type [''object''],
          Properties
             [(''kind'', SchemaProps [Type [''string''], Format []]),
              (''apiVersion'', SchemaProps [Type [''string''], Format []]),
              (''metadata'', SchemaProps [Default (VObj []), Ref (ref (meta_v1 ''ListMeta''))]),
              (''items'', SchemaProps
                   [Type [''array''],
                    Items (SchemaProps [Default (VObj []), Ref (ref (core_v1 ''Service''))])])],
          Required [''items'']])
       [core_v1 ''Service'', meta_v1 ''ListMeta'']"

definition schema_k8sio_api_core_v1_ServicePort ::
  "(string \<Rightarrow> 'r) \<Rightarrow> 'r OpenAPIDefinition" where
  [schema_defs]: "schema_k8sio_api_core_v1_ServicePort ref =
     OpenAPIDefinition
       (SchemaProps
         [Type [''object''],
          Properties
             [(''name'', SchemaProps [Type [''string''], Format []]),
              (''protocol'', SchemaProps
                   [Default (VStr ''TCP''),
                    Type [''string''],
                    Format [],
                    Enum [VStr ''SCTP'', VStr ''TCP'', VStr ''UDP'']]),
              (''appProtocol'', SchemaProps [Type [''string''], Format []]),
              (''port'', SchemaProps [Default (VInt 0), Type [''integer''], Format ''int32'']),
              (''targetPort'', SchemaProps [Ref (ref (pkg_intstr ''IntOrString''))]),
              (''nodePort'', SchemaProps [Type [''integer''], Format ''int32''])],
          Required [''port'']])
       [pkg_intstr ''IntOrString'']"

definition schema_k8sio_api_core_v1_ServiceProxyOptions ::
  "(string \<Rightarrow> 'r) \<Rightarrow> 'r OpenAPIDefinition" where
  [schema_defs]: "schema_k8sio_api_core_v1_ServiceProxyOptions ref =
     OpenAPIDefinition
       (SchemaProps
         [Type [''object''],
          Properties
             [(''kind'', SchemaProps [Type [''string''], Format []]),
              (''apiVersion'', SchemaProps [Type [''string''], Format []]),
              (''path'', SchemaProps [Type [''string''], Format []])]])
       []"

definition schema_k8sio_api_core_v1_ServiceSpec ::
  "(string \<Rightarrow> 'r) \<Rightarrow> 'r OpenAPIDefinition" where
  [schema_defs]: "schema_k8sio_api_core_v1_ServiceSpec ref =
     OpenAPIDefinition
       (SchemaProps
         [Type [''object''],
          Properties
             [(''ports'', SchemaProps
                   [Type [''array''],
                    Items (SchemaProps [Default (VObj []), Ref (ref (core_v1 ''ServicePort''))]),
                    Extensions [(''x-kubernetes-list-map-keys'', VArr [VStr ''port'', VStr ''protocol'']), (''x-kubernetes-list-type'', VStr ''map''), (''x-kubernetes-patch-merge-key'', VStr ''port''), (''x-kubernetes-patch-strategy'', VStr ''merge'')]]),
              (''selector'', SchemaProps
                   [Type [''object''],
                    AdditionalProperties True (SchemaProps [Default (VStr []), Type [''string''], Format []]),
                    Extensions [(''x-kubernetes-map-type'', VStr ''atomic'')]]),
              (''clusterIP'', SchemaProps [Type [''string''], Format []]),
              (''clusterIPs'', SchemaProps
                   [Type [''array''],
                    Items (SchemaProps [Default (VStr []), Type [''string''], Format []]),
                    Extensions [(''x-kubernetes-list-type'', VStr ''atomic'')]]),
              (''type'', SchemaProps
                   [Type [''string''],
                    Format [],
                    Enum [VStr ''ClusterIP'', VStr ''ExternalName'', VStr ''LoadBalancer'', VStr ''NodePort'']]),
              (''externalIPs'', SchemaProps
                   [Type [''array''],
                    Items (SchemaProps [Default (VStr []), Type [''string''], Format []]),
                    Extensions [(''x-kubernetes-list-type'', VStr ''atomic'')]]),
              (''sessionAffinity'', SchemaProps
                   [Type [''string''],
                    Format [],
                    Enum [VStr ''ClientIP'', VStr ''None'']]),
              (''loadBalancerIP'', SchemaProps [Type [''string''], Format []]),
              (''loadBalancerSourceRanges'', SchemaProps
                   [Type [''array''],
                    Items (SchemaProps [Default (VStr []), Type [''string''], Format []]),
                    Extensions [(''x-kubernetes-list-type'', VStr ''atomic'')]]),
              (''externalName'', SchemaProps [Type [''string''], Format []]),
              (''externalTrafficPolicy'', SchemaProps
                   [Type [''string''],
                    Format [],
                    Enum [VStr ''Cluster'', VStr ''Local'']]),
              (''healthCheckNodePort'', SchemaProps [Type [''integer''], Format ''int32'']),
              (''publishNotReadyAddresses'', SchemaProps [Type [''boolean''], Format []]),
              (''sessionAffinityConfig'', SchemaProps [Ref (ref (core_v1 ''SessionAffinityConfig''))]),
              (''ipFamilies'', SchemaProps
                   [Type [''array''],
                    Items (SchemaProps
                           [Default (VStr []),
                            Type [''string''],
                            Format [],
                            Enum [VStr [], VStr ''IPv4'', VStr ''IPv6'']]),
                    Extensions [(''x-kubernetes-list-type'', VStr ''atomic'')]]),
              (''ipFamilyPolicy'', SchemaProps
                   [Type [''string''],
                    Format [],
                    Enum [VStr ''PreferDualStack'', VStr ''RequireDualStack'', VStr ''SingleStack'']]),
              (''allocateLoadBalancerNodePorts'', SchemaProps [Type [''boolean''], Format []]),
              (''loadBalancerClass'', SchemaProps [Type [''string''], Format []]),
              (''internalTrafficPolicy'', SchemaProps
                   [Type [''string''],
                    Format [],
                    Enum [VStr ''Cluster'', VStr ''Local'']]),
              (''trafficDistribution'', SchemaProps [Type [''string''], Format []])]])
       [core_v1 ''ServicePort'', core_v1 ''SessionAffinityConfig'']"

definition schema_k8sio_api_core_v1_ServiceStatus ::
  "(string \<Rightarrow> 'r) \<Rightarrow> 'r OpenAPIDefinition" where
  [schema_defs]: "schema_k8sio_api_core_v1_ServiceStatus ref =
     OpenAPIDefinition
       (SchemaProps
         [Type [''object''],
          Properties
             [(''loadBalancer'', SchemaProps [Default (VObj []), Ref (ref (core_v1 ''LoadBalancerStatus''))]),
              (''conditions'', SchemaProps
                   [Type [''array''],
                    Items (SchemaProps [Default (VObj []), Ref (ref (meta_v1 ''Condition''))]),
                    Extensions [(''x-kubernetes-list-map-keys'', VArr [VStr ''type'']), (''x-kubernetes-list-type'', VStr ''map''), (''x-kubernetes-patch-merge-key'', VStr ''type''), (''x-kubernetes-patch-strategy'', VStr ''merge'')]])]])
       [core_v1 ''LoadBalancerStatus'', meta_v1 ''Condition'']"

definition schema_k8sio_api_core_v1_SessionAffinityConfig ::
  "(string \<Rightarrow> 'r) \<Rightarrow> 'r OpenAPIDefinition" where
  [schema_defs]: "schema_k8sio_api_core_v1_SessionAffinityConfig ref =
     OpenAPIDefinition
       (SchemaProps
         [Type [''object''],
          Properties
             [(''clientIP'', SchemaProps [Ref (ref (core_v1 ''ClientIPConfig''))])]])
       [core_v1 ''ClientIPConfig'']"

definition schema_k8sio_api_core_v1_SleepAction ::
  "(string \<Rightarrow> 'r) \<Rightarrow> 'r OpenAPIDefinition" where
  [schema_defs]: "schema_k8sio_api_core_v1_SleepAction ref =
     OpenAPIDefinition
       (SchemaProps
         [Type [''object''],
          Properties
             [(''seconds'', SchemaProps [Default (VInt 0), Type [''integer''], Format ''int64''])],
          Required [''seconds'']])
       []"

definition schema_k8sio_api_core_v1_StorageOSPersistentVolumeSource ::
  "(string \<Rightarrow> 'r) \<Rightarrow> 'r OpenAPIDefinition" where
  [schema_defs]: "schema_k8sio_api_core_v1_StorageOSPersistentVolumeSource ref =
     OpenAPIDefinition
       (SchemaProps
         [Type [''object''],
          Properties
             [(''volumeName'', SchemaProps [Type [''string''], Format []]),
              (''volumeNamespace'', SchemaProps [Type [''string''], Format []]),
              (''fsType'', SchemaProps [Type [''string''], Format []]),
              (''readOnly'', SchemaProps [Type [''boolean''], Format []]),
              (''secretRef'', SchemaProps [Ref (ref (core_v1 ''ObjectReference''))])]])
       [core_v1 ''ObjectReference'']"

definition schema_k8sio_api_core_v1_StorageOSVolumeSource ::
  "(string \<Rightarrow> 'r) \<Rightarrow> 'r OpenAPIDefinition" where
  [schema_defs]: "schema_k8sio_api_core_v1_StorageOSVolumeSource ref =
     OpenAPIDefinition
       (SchemaProps
         [Type [''object''],
          Properties
             [(''volumeName'', SchemaProps [Type [''string''], Format []]),
              (''volumeNamespace'', SchemaProps [Type [''string''], Format []]),
              (''fsType'', SchemaProps [Type [''string''], Format []]),
              (''readOnly'', SchemaProps [Type [''boolean''], Format []]),
              (''secretRef'', SchemaProps [Ref (ref (core_v1 ''LocalObjectReference''))])]])
       [core_v1 ''LocalObjectReference'']"

definition schema_k8sio_api_core_v1_Sysctl ::
  "(string \<Rightarrow> 'r) \<Rightarrow> 'r OpenAPIDefinition" where
  [schema_defs]: "schema_k8sio_api_core_v1_Sysctl ref =
     OpenAPIDefinition
       (SchemaProps
         [Type [''object''],
          Properties
             [(''name'', SchemaProps [Default (VStr []), Type [''string''], Format []]),
              (''value'', SchemaProps [Default (VStr []), Type [''string''], Format []])],
          Required [''name'', ''value'']])
       []"

definition schema_k8sio_api_core_v1_TCPSocketAction ::
  "(string \<Rightarrow> 'r) \<Rightarrow> 'r OpenAPIDefinition" where
  [schema_defs]: "schema_k8sio_api_core_v1_TCPSocketAction ref =
     OpenAPIDefinition
       (SchemaProps
         [Type [''object''],
          Properties
             [(''port'', SchemaProps [Ref (ref (pkg_intstr ''IntOrString''))]),
              (''host'', SchemaProps [Type [''string''], Format []])],
          Required [''port'']])
       [pkg_intstr ''IntOrString'']"

definition schema_k8sio_api_core_v1_Taint ::
  "(string \<Rightarrow> 'r) \<Rightarrow> 'r OpenAPIDefinition" where
  [schema_defs]: "schema_k8sio_api_core_v1_Taint ref =
     OpenAPIDefinition
       (SchemaProps
         [Type [''object''],
          Properties
             [(''key'', SchemaProps [Default (VStr []), Type [''string''], Format []]),
              (''value'', SchemaProps [Type [''string''], Format []]),
              (''effect'', SchemaProps
                   [Default (VStr []),
                    Type [''string''],
                    Format [],
                    Enum [VStr ''NoExecute'', VStr ''NoSchedule'', VStr ''PreferNoSchedule'']]),
              (''timeAdded'', SchemaProps [Ref (ref (meta_v1 ''Time''))])],
          Required [''key'', ''effect'']])
       [meta_v1 ''Time'']"

definition schema_k8sio_api_core_v1_Toleration ::
  "(string \<Rightarrow> 'r) \<Rightarrow> 'r OpenAPIDefinition" where
  [schema_defs]: "schema_k8sio_api_core_v1_Toleration ref =
     OpenAPIDefinition
       (SchemaProps
         [Type [''object''],
          Properties
             [(''key'', SchemaProps [Type [''string''], Format []]),
              (''operator'', SchemaProps [Type [''string''], Format [], Enum [VStr ''Equal'', VStr ''Exists'']]),
              (''value'', SchemaProps [Type [''string''], Format []]),
              (''effect'', SchemaProps
                   [Type [''string''],
                    Format [],
                    Enum [VStr ''NoExecute'', VStr ''NoSchedule'', VStr ''PreferNoSchedule'']]),
              (''tolerationSeconds'', SchemaProps [Type [''integer''], Format ''int64''])]])
       []"

definition schema_k8sio_api_core_v1_TopologySelectorLabelRequirement ::
  "(string \<Rightarrow> 'r) \<Rightarrow> 'r OpenAPIDefinition" where
  [schema_defs]: "schema_k8sio_api_core_v1_TopologySelectorLabelRequirement ref =
     OpenAPIDefinition
       (SchemaProps
         [Type [''object''],
          Properties
             [(''key'', SchemaProps [Default (VStr []), Type [''string''], Format []]),
              (''values'', SchemaProps
                   [Type [''array''],
                    Items (SchemaProps [Default (VStr []), Type [''string''], Format []]),
                    Extensions [(''x-kubernetes-list-type'', VStr ''atomic'')]])],
          Required [''key'', ''values'']])
       []"

definition schema_k8sio_api_core_v1_TopologySelectorTerm ::
  "(string \<Rightarrow> 'r) \<Rightarrow> 'r OpenAPIDefinition" where
  [schema_defs]: "schema_k8sio_api_core_v1_TopologySelectorTerm ref =
     OpenAPIDefinition
       (SchemaProps
         [Type [''object''],
          Properties
             [(''matchLabelExpressions'', SchemaProps
                   [Type [''array''],
                    Items (SchemaProps
                           [Default (VObj []),
                            Ref (ref (core_v1 ''TopologySelectorLabelRequirement''))]),
                    Extensions [(''x-kubernetes-list-type'', VStr ''atomic'')]])],
          Extensions [(''x-kubernetes-map-type'', VStr ''atomic'')]])
       [core_v1 ''TopologySelectorLabelRequirement'']"

definition schema_k8sio_api_core_v1_TopologySpreadConstraint ::
  "(string \<Rightarrow> 'r) \<Rightarrow> 'r OpenAPIDefinition" where
  [schema_defs]: "schema_k8sio_api_core_v1_TopologySpreadConstraint ref =
     OpenAPIDefinition
       (SchemaProps
         [Type [''object''],
          Properties
             [(''maxSkew'', SchemaProps [Default (VInt 0), Type [''integer''], Format ''int32'']),
              (''topologyKey'', SchemaProps [Default (VStr []), Type [''string''], Format []]),
              (''whenUnsatisfiable'', SchemaProps
                   [Default (VStr []),
                    Type [''string''],
                    Format [],
                    Enum [VStr ''DoNotSchedule'', VStr ''ScheduleAnyway'']]),
              (''labelSelector'', SchemaProps [Ref (ref (meta_v1 ''LabelSelector''))]),
              (''minDomains'', SchemaProps [Type [''integer''], Format ''int32'']),
              (''nodeAffinityPolicy'', SchemaProps [Type [''string''], Format [], Enum [VStr ''Honor'', VStr ''Ignore'']]),
              (''nodeTaintsPolicy'', SchemaProps [Type [''string''], Format [], Enum [VStr ''Honor'', VStr ''Ignore'']]),
              (''matchLabelKeys'', SchemaProps
                   [Type [''array''],
                    Items (SchemaProps [Default (VStr []), Type [''string''], Format []]),
                    Extensions [(''x-kubernetes-list-type'', VStr ''atomic'')]])],
          Required [''maxSkew'', ''topologyKey'', ''whenUnsatisfiable'']])
       [meta_v1 ''LabelSelector'']"

definition schema_k8sio_api_core_v1_TypedLocalObjectReference ::
  "(string \<Rightarrow> 'r) \<Rightarrow> 'r OpenAPIDefinition" where
  [schema_defs]: "schema_k8sio_api_core_v1_TypedLocalObjectReference ref =
     OpenAPIDefinition
       (SchemaProps
         [Type [''object''],
          Properties
             [(''apiGroup'', SchemaProps [Type [''string''], Format []]),
              (''kind'', SchemaProps [Default (VStr []), Type [''string''], Format []]),
              (''name'', SchemaProps [Default (VStr []), Type [''string''], Format []])],
          Required [''kind'', ''name''],
          Extensions [(''x-kubernetes-map-type'', VStr ''atomic'')]])
       []"

definition schema_k8sio_api_core_v1_TypedObjectReference ::
  "(string \<Rightarrow> 'r) \<Rightarrow> 'r OpenAPIDefinition" where
  [schema_defs]: "schema_k8sio_api_core_v1_TypedObjectReference ref =
     OpenAPIDefinition
       (SchemaProps
         [Type [''object''],
          Properties
             [(''apiGroup'', SchemaProps [Type [''string''], Format []]),
              (''kind'', SchemaProps [Default (VStr []), Type [''string''], Format []]),
              (''name'', SchemaProps [Default (VStr []), Type [''string''], Format []]),
              (''namespace'', SchemaProps [Type [''string''], Format []])],
          Required [''kind'', ''name'']])
       []"

definition schema_k8sio_api_core_v1_Volume ::
  "(string \<Rightarrow> 'r) \<Rightarrow> 'r OpenAPIDefinition" where
  [schema_defs]: "schema_k8sio_api_core_v1_Volume ref =
     OpenAPIDefinition
       (SchemaProps
         [Type [''object''],
          Properties
             [(''name'', SchemaProps [Default (VStr []), Type [''string''], Format []]),
              (''hostPath'', SchemaProps [Ref (ref (core_v1 ''HostPathVolumeSource''))]),
              (''emptyDir'', SchemaProps [Ref (ref (core_v1 ''EmptyDirVolumeSource''))]),
              (''gcePersistentDisk'', SchemaProps [Ref (ref (core_v1 ''GCEPersistentDiskVolumeSource''))]),
              (''awsElasticBlockStore'', SchemaProps [Ref (ref (core_v1 ''AWSElasticBlockStoreVolumeSource''))]),
              (''gitRepo'', SchemaProps [Ref (ref (core_v1 ''GitRepoVolumeSource''))]),
              (''secret'', SchemaProps [Ref (ref (core_v1 ''SecretVolumeSource''))]),
              (''nfs'', SchemaProps [Ref (ref (core_v1 ''NFSVolumeSource''))]),
              (''iscsi'', SchemaProps [Ref (ref (core_v1 ''ISCSIVolumeSource''))]),
              (''glusterfs'', SchemaProps [Ref (ref (core_v1 ''GlusterfsVolumeSource''))]),
              (''persistentVolumeClaim'', SchemaProps [Ref (ref (core_v1 ''PersistentVolumeClaimVolumeSource''))]),
              (''rbd'', SchemaProps [Ref (ref (core_v1 ''RBDVolumeSource''))]),
              (''flexVolume'', SchemaProps [Ref (ref (core_v1 ''FlexVolumeSource''))]),
              (''cinder'', SchemaProps [Ref (ref (core_v1 ''CinderVolumeSource''))]),
              (''cephfs'', SchemaProps [Ref (ref (core_v1 ''CephFSVolumeSource''))]),
              (''flocker'', SchemaProps [Ref (ref (core_v1 ''FlockerVolumeSource''))]),
              (''downwardAPI'', SchemaProps [Ref (ref (core_v1 ''DownwardAPIVolumeSource''))]),
              (''fc'', SchemaProps [Ref (ref (core_v1 ''FCVolumeSource''))]),
              (''azureFile'', SchemaProps [Ref (ref (core_v1 ''AzureFileVolumeSource''))]),
              (''configMap'', SchemaProps [Ref (ref (core_v1 ''ConfigMapVolumeSource''))]),
              (''vsphereVolume'', SchemaProps [Ref (ref (core_v1 ''VsphereVirtualDiskVolumeSource''))]),
              (''quobyte'', SchemaProps [Ref (ref (core_v1 ''QuobyteVolumeSource''))]),
              (''azureDisk'', SchemaProps [Ref (ref (core_v1 ''AzureDiskVolumeSource''))]),
              (''photonPersistentDisk'', SchemaProps [Ref (ref (core_v1 ''PhotonPersistentDiskVolumeSource''))]),
              (''projected'', SchemaProps [Ref (ref (core_v1 ''ProjectedVolumeSource''))]),
              (''portworxVolume'', SchemaProps [Ref (ref (core_v1 ''PortworxVolumeSource''))]),
              (''scaleIO'', SchemaProps [Ref (ref (core_v1 ''ScaleIOVolumeSource''))]),
              (''storageos'', SchemaProps [Ref (ref (core_v1 ''StorageOSVolumeSource''))]),
              (''csi'', SchemaProps [Ref (ref (core_v1 ''CSIVolumeSource''))]),
              (''ephemeral'', SchemaProps [Ref (ref (core_v1 ''EphemeralVolumeSource''))]),
              (''image'', SchemaProps [Ref (ref (core_v1 ''ImageVolumeSource''))])],
          Required [''name'']])
       [core_v1 ''AWSElasticBlockStoreVolumeSource'', core_v1 ''AzureDiskVolumeSource'',
        core_v1 ''AzureFileVolumeSource'', core_v1 ''CSIVolumeSource'',
        core_v1 ''CephFSVolumeSource'', core_v1 ''CinderVolumeSource'',
        core_v1 ''ConfigMapVolumeSource'', core_v1 ''DownwardAPIVolumeSource'',
        core_v1 ''EmptyDirVolumeSource'', core_v1 ''EphemeralVolumeSource'',
        core_v1 ''FCVolumeSource'', core_v1 ''FlexVolumeSource'', core_v1 ''FlockerVolumeSource'',
        core_v1 ''GCEPersistentDiskVolumeSource'', core_v1 ''GitRepoVolumeSource'',
        core_v1 ''GlusterfsVolumeSource'', core_v1 ''HostPathVolumeSource'',
        core_v1 ''ISCSIVolumeSource'', core_v1 ''ImageVolumeSource'', core_v1 ''NFSVolumeSource'',
        core_v1 ''PersistentVolumeClaimVolumeSource'',
        core_v1 ''PhotonPersistentDiskVolumeSource'', core_v1 ''PortworxVolumeSource'',
        core_v1 ''ProjectedVolumeSource'', core_v1 ''QuobyteVolumeSource'',
        core_v1 ''RBDVolumeSource'', core_v1 ''ScaleIOVolumeSource'',
        core_v1 ''SecretVolumeSource'', core_v1 ''StorageOSVolumeSource'',
        core_v1 ''VsphereVirtualDiskVolumeSource'']"

definition schema_k8sio_api_core_v1_VolumeDevice ::
  "(string \<Rightarrow> 'r) \<Rightarrow> 'r OpenAPIDefinition" where
  [schema_defs]: "schema_k8sio_api_core_v1_VolumeDevice ref =
     OpenAPIDefinition
       (SchemaProps
         [Type [''object''],
          Properties
             [(''name'', SchemaProps [Default (VStr []), Type [''string''], Format []]),
              (''devicePath'', SchemaProps [Default (VStr []), Type [''string''], Format []])],
          Required [''name'', ''devicePath'']])
       []"

definition schema_k8sio_api_core_v1_VolumeMount ::
  "(string \<Rightarrow> 'r) \<Rightarrow> 'r OpenAPIDefinition" where
  [schema_defs]: "schema_k8sio_api_core_v1_VolumeMount ref =
     OpenAPIDefinition
       (SchemaProps
         [Type [''object''],
          Properties
             [(''name'', SchemaProps [Default (VStr []), Type [''string''], Format []]),
              (''readOnly'', SchemaProps [Type [''boolean''], Format []]),
              (''recursiveReadOnly'', SchemaProps [Type [''string''], Format []]),
              (''mountPath'', SchemaProps [Default (VStr []), Type [''string''], Format []]),
              (''subPath'', SchemaProps [Type [''string''], Format []]),
              (''mountPropagation'', SchemaProps
                   [Type [''string''],
                    Format [],
                    Enum [VStr ''Bidirectional'', VStr ''HostToContainer'', VStr ''None'']]),
              (''subPathExpr'', SchemaProps [Type [''string''], Format []])],
          Required [''name'', ''mountPath'']])
       []"

definition schema_k8sio_api_core_v1_VolumeMountStatus ::
  "(string \<Rightarrow> 'r) \<Rightarrow> 'r OpenAPIDefinition" where
  [schema_defs]: "schema_k8sio_api_core_v1_VolumeMountStatus ref =
     OpenAPIDefinition
       (SchemaProps
         [Type [''object''],
          Properties
             [(''name'', SchemaProps [Default (VStr []), Type [''string''], Format []]),
              (''mountPath'', SchemaProps [Default (VStr []), Type [''string''], Format []]),
              (''readOnly'', SchemaProps [Type [''boolean''], Format []]),
              (''recursiveReadOnly'', SchemaProps [Type [''string''], Format []])],
          Required [''name'', ''mountPath'']])
       []"

definition schema_k8sio_api_core_v1_VolumeNodeAffinity ::
  "(string \<Rightarrow> 'r) \<Rightarrow> 'r OpenAPIDefinition" where
  [schema_defs]: "schema_k8sio_api_core_v1_VolumeNodeAffinity ref =
     OpenAPIDefinition
       (SchemaProps
         [Type [''object''],
          Properties
             [(''required'', SchemaProps [Ref (ref (core_v1 ''NodeSelector''))])]])
       [core_v1 ''NodeSelector'']"

definition schema_k8sio_api_core_v1_VolumeProjection ::
  "(string \<Rightarrow> 'r) \<Rightarrow> 'r OpenAPIDefinition" where
  [schema_defs]: "schema_k8sio_api_core_v1_VolumeProjection ref =
     OpenAPIDefinition
       (SchemaProps
         [Type [''object''],
          Properties
             [(''secret'', SchemaProps [Ref (ref (core_v1 ''SecretProjection''))]),
              (''downwardAPI'', SchemaProps [Ref (ref (core_v1 ''DownwardAPIProjection''))]),
              (''configMap'', SchemaProps [Ref (ref (core_v1 ''ConfigMapProjection''))]),
              (''serviceAccountToken'', SchemaProps [Ref (ref (core_v1 ''ServiceAccountTokenProjection''))]),
              (''clusterTrustBundle'', SchemaProps [Ref (ref (core_v1 ''ClusterTrustBundleProjection''))]),
              (''podCertificate'', SchemaProps [Ref (ref (core_v1 ''PodCertificateProjection''))])]])
       [core_v1 ''ClusterTrustBundleProjection'', core_v1 ''ConfigMapProjection'',
        core_v1 ''DownwardAPIProjection'', core_v1 ''PodCertificateProjection'',
        core_v1 ''SecretProjection'', core_v1 ''ServiceAccountTokenProjection'']"

definition schema_k8sio_api_core_v1_VolumeResourceRequirements ::
  "(string \<Rightarrow> 'r) \<Rightarrow> 'r OpenAPIDefinition" where
  [schema_defs]: "schema_k8sio_api_core_v1_VolumeResourceRequirements ref =
     OpenAPIDefinition
       (SchemaProps
         [Type [''object''],
          Properties
             [(''limits'', SchemaProps
                   [Type [''object''],
                    AdditionalProperties True (SchemaProps [Ref (ref (pkg_resource ''Quantity''))])]),
              (''requests'', SchemaProps
                   [Type [''object''],
                    AdditionalProperties True (SchemaProps [Ref (ref (pkg_resource ''Quantity''))])])]])
       [pkg_resource ''Quantity'']"

definition schema_k8sio_api_core_v1_VolumeSource ::
  "(string \<Rightarrow> 'r) \<Rightarrow> 'r OpenAPIDefinition" where
  [schema_defs]: "schema_k8sio_api_core_v1_VolumeSource ref =
     OpenAPIDefinition
       (SchemaProps
         [Type [''object''],
          Properties
             [(''hostPath'', SchemaProps [Ref (ref (core_v1 ''HostPathVolumeSource''))]),
              (''emptyDir'', SchemaProps [Ref (ref (core_v1 ''EmptyDirVolumeSource''))]),
              (''gcePersistentDisk'', SchemaProps [Ref (ref (core_v1 ''GCEPersistentDiskVolumeSource''))]),
              (''awsElasticBlockStore'', SchemaProps [Ref (ref (core_v1 ''AWSElasticBlockStoreVolumeSource''))]),
              (''gitRepo'', SchemaProps [Ref (ref (core_v1 ''GitRepoVolumeSource''))]),
              (''secret'', SchemaProps [Ref (ref (core_v1 ''SecretVolumeSource''))]),
              (''nfs'', SchemaProps [Ref (ref (core_v1 ''NFSVolumeSource''))]),
              (''iscsi'', SchemaProps [Ref (ref (core_v1 ''ISCSIVolumeSource''))]),
              (''glusterfs'', SchemaProps [Ref (ref (core_v1 ''GlusterfsVolumeSource''))]),
              (''persistentVolumeClaim'', SchemaProps [Ref (ref (core_v1 ''PersistentVolumeClaimVolumeSource''))]),
              (''rbd'', SchemaProps [Ref (ref (core_v1 ''RBDVolumeSource''))]),
              (''flexVolume'', SchemaProps [Ref (ref (core_v1 ''FlexVolumeSource''))]),
              (''cinder'', SchemaProps [Ref (ref (core_v1 ''CinderVolumeSource''))]),
              (''cephfs'', SchemaProps [Ref (ref (core_v1 ''CephFSVolumeSource''))]),
              (''flocker'', SchemaProps [Ref (ref (core_v1 ''FlockerVolumeSource''))]),
              (''downwardAPI'', SchemaProps [Ref (ref (core_v1 ''DownwardAPIVolumeSource''))]),
              (''fc'', SchemaProps [Ref (ref (core_v1 ''FCVolumeSource''))]),
              (''azureFile'', SchemaProps [Ref (ref (core_v1 ''AzureFileVolumeSource''))]),
              (''configMap'', SchemaProps [Ref (ref (core_v1 ''ConfigMapVolumeSource''))]),
              (''vsphereVolume'', SchemaProps [Ref (ref (core_v1 ''VsphereVirtualDiskVolumeSource''))]),
              (''quobyte'', SchemaProps [Ref (ref (core_v1 ''QuobyteVolumeSource''))]),
              (''azureDisk'', SchemaProps [Ref (ref (core_v1 ''AzureDiskVolumeSource''))]),
              (''photonPersistentDisk'', SchemaProps [Ref (ref (core_v1 ''PhotonPersistentDiskVolumeSource''))]),
              (''projected'', SchemaProps [Ref (ref (core_v1 ''ProjectedVolumeSource''))]),
              (''portworxVolume'', SchemaProps [Ref (ref (core_v1 ''PortworxVolumeSource''))]),
              (''scaleIO'', SchemaProps [Ref (ref (core_v1 ''ScaleIOVolumeSource''))]),
              (''storageos'', SchemaProps [Ref (ref (core_v1 ''StorageOSVolumeSource''))]),
              (''csi'', SchemaProps [Ref (ref (core_v1 ''CSIVolumeSource''))]),
              (''ephemeral'', SchemaProps [Ref (ref (core_v1 ''EphemeralVolumeSource''))]),
              (''image'', SchemaProps [Ref (ref (core_v1 ''ImageVolumeSource''))])]])
       [core_v1 ''AWSElasticBlockStoreVolumeSource'', core_v1 ''AzureDiskVolumeSource'',
        core_v1 ''AzureFileVolumeSource'', core_v1 ''CSIVolumeSource'',
        core_v1 ''CephFSVolumeSource'', core_v1 ''CinderVolumeSource'',
        core_v1 ''ConfigMapVolumeSource'', core_v1 ''DownwardAPIVolumeSource'',
        core_v1 ''EmptyDirVolumeSource'', core_v1 ''EphemeralVolumeSource'',
        core_v1 ''FCVolumeSource'', core_v1 ''FlexVolumeSource'', core_v1 ''FlockerVolumeSource'',
        core_v1 ''GCEPersistentDiskVolumeSource'', core_v1 ''GitRepoVolumeSource'',
        core_v1 ''GlusterfsVolumeSource'', core_v1 ''HostPathVolumeSource'',
        core_v1 ''ISCSIVolumeSource'', core_v1 ''ImageVolumeSource'', core_v1 ''NFSVolumeSource'',
        core_v1 ''PersistentVolumeClaimVolumeSource'',
        core_v1 ''PhotonPersistentDiskVolumeSource'', core_v1 ''PortworxVolumeSource'',
        core_v1 ''ProjectedVolumeSource'', core_v1 ''QuobyteVolumeSource'',
        core_v1 ''RBDVolumeSource'', core_v1 ''ScaleIOVolumeSource'',
        core_v1 ''SecretVolumeSource'', core_v1 ''StorageOSVolumeSource'',
        core_v1 ''VsphereVirtualDiskVolumeSource'']"

definition schema_k8sio_api_core_v1_VsphereVirtualDiskVolumeSource ::
  "(string \<Rightarrow> 'r) \<Rightarrow> 'r OpenAPIDefinition" where
  [schema_defs]: "schema_k8sio_api_core_v1_VsphereVirtualDiskVolumeSource ref =
     OpenAPIDefinition
       (SchemaProps
         [Type [''object''],
          Properties
             [(''volumePath'', SchemaProps [Default (VStr []), Type [''string''], Format []]),
              (''fsType'', SchemaProps [Type [''string''], Format []]),
              (''storagePolicyName'', SchemaProps [Type [''string''], Format []]),
              (''storagePolicyID'', SchemaProps [Type [''string''], Format []])],
          Required [''volumePath'']])
       []"

definition schema_k8sio_api_core_v1_WeightedPodAffinityTerm ::
  "(string \<Rightarrow> 'r) \<Rightarrow> 'r OpenAPIDefinition" where
  [schema_defs]: "schema_k8sio_api_core_v1_WeightedPodAffinityTerm ref =
     OpenAPIDefinition
       (SchemaProps
         [Type [''object''],
          Properties
             [(''weight'', SchemaProps [Default (VInt 0), Type [''integer''], Format ''int32'']),
              (''podAffinityTerm'', SchemaProps [Default (VObj []), Ref (ref (core_v1 ''PodAffinityTerm''))])],
          Required [''weight'', ''podAffinityTerm'']])
       [core_v1 ''PodAffinityTerm'']"

definition schema_k8sio_api_core_v1_WindowsSecurityContextOptions ::
  "(string \<Rightarrow> 'r) \<Rightarrow> 'r OpenAPIDefinition" where
  [schema_defs]: "schema_k8sio_api_core_v1_WindowsSecurityContextOptions ref =
     OpenAPIDefinition
       (SchemaProps
         [Type [''object''],
          Properties
             [(''gmsaCredentialSpecName'', SchemaProps [Type [''string''], Format []]),
              (''gmsaCredentialSpec'', SchemaProps [Type [''string''], Format []]),
              (''runAsUserName'', SchemaProps [Type [''string''], Format []]),
              (''hostProcess'', SchemaProps [Type [''boolean''], Format []])]])
       []"

lemma core4_sound:
  "def_sound ref (schema_k8sio_api_core_v1_ReplicationControllerStatus ref)"
  "def_sound ref (schema_k8sio_api_core_v1_ResourceClaim ref)"
  "def_sound ref (schema_k8sio_api_core_v1_ResourceFieldSelector ref)"
  "def_sound ref (schema_k8sio_api_core_v1_ResourceHealth ref)"
  "def_sound ref (schema_k8sio_api_core_v1_ResourceQuota ref)"
  "def_sound ref (schema_k8sio_api_core_v1_ResourceQuotaList ref)"
  "def_sound ref (schema_k8sio_api_core_v1_ResourceQuotaSpec ref)"
  "def_sound ref (schema_k8sio_api_core_v1_ResourceQuotaStatus ref)"
  "def_sound ref (schema_k8sio_api_core_v1_ResourceRequirements ref)"
  "def_sound ref (schema_k8sio_api_core_v1_ResourceStatus ref)"
  "def_sound ref (schema_k8sio_api_core_v1_SELinuxOptions ref)"
  "def_sound ref (schema_k8sio_api_core_v1_ScaleIOPersistentVolumeSource ref)"
  "def_sound ref (schema_k8sio_api_core_v1_ScaleIOVolumeSource ref)"
  "def_sound ref (schema_k8sio_api_core_v1_ScopeSelector ref)"
  "def_sound ref (schema_k8sio_api_core_v1_ScopedResourceSelectorRequirement ref)"
  "def_sound ref (schema_k8sio_api_core_v1_SeccompProfile ref)"
  "def_sound ref (schema_k8sio_api_core_v1_Secret ref)"
  "def_sound ref (schema_k8sio_api_core_v1_SecretEnvSource ref)"
  "def_sound ref (schema_k8sio_api_core_v1_SecretKeySelector ref)"
  "def_sound ref (schema_k8sio_api_core_v1_SecretList ref)"
  "def_sound ref (schema_k8sio_api_core_v1_SecretProjection ref)"
  "def_sound ref (schema_k8sio_api_core_v1_SecretReference ref)"
  "def_sound ref (schema_k8sio_api_core_v1_SecretVolumeSource ref)"
  "def_sound ref (schema_k8sio_api_core_v1_SecurityContext ref)"
  "def_sound ref (schema_k8sio_api_core_v1_SerializedReference ref)"
  "def_sound ref (schema_k8sio_api_core_v1_Service ref)"
  "def_sound ref (schema_k8sio_api_core_v1_ServiceAccount ref)"
  "def_sound ref (schema_k8sio_api_core_v1_ServiceAccountList ref)"
  "def_sound ref (schema_k8sio_api_core_v1_ServiceAccountTokenProjection ref)"
  "def_sound ref (schema_k8sio_api_core_v1_ServiceList ref)"
  "def_sound ref (schema_k8sio_api_core_v1_ServicePort ref)"
  "def_sound ref (schema_k8sio_api_core_v1_ServiceProxyOptions ref)"
  "def_sound ref (schema_k8sio_api_core_v1_ServiceSpec ref)"
  "def_sound ref (schema_k8sio_api_core_v1_ServiceStatus ref)"
  "def_sound ref (schema_k8sio_api_core_v1_SessionAffinityConfig ref)"
  "def_sound ref (schema_k8sio_api_core_v1_SleepAction ref)"
  "def_sound ref (schema_k8sio_api_core_v1_StorageOSPersistentVolumeSource ref)"
  "def_sound ref (schema_k8sio_api_core_v1_StorageOSVolumeSource ref)"
  "def_sound ref (schema_k8sio_api_core_v1_Sysctl ref)"
  "def_sound ref (schema_k8sio_api_core_v1_TCPSocketAction ref)"
  "def_sound ref (schema_k8sio_api_core_v1_Taint ref)"
  "def_sound ref (schema_k8sio_api_core_v1_Toleration ref)"
  "def_sound ref (schema_k8sio_api_core_v1_TopologySelectorLabelRequirement ref)"
  "def_sound ref (schema_k8sio_api_core_v1_TopologySelectorTerm ref)"
  "def_sound ref (schema_k8sio_api_core_v1_TopologySpreadConstraint ref)"
  "def_sound ref (schema_k8sio_api_core_v1_TypedLocalObjectReference ref)"
  "def_sound ref (schema_k8sio_api_core_v1_TypedObjectReference ref)"
  "def_sound ref (schema_k8sio_api_core_v1_Volume ref)"
  "def_sound ref (schema_k8sio_api_core_v1_VolumeDevice ref)"
  "def_sound ref (schema_k8sio_api_core_v1_VolumeMount ref)"
  "def_sound ref (schema_k8sio_api_core_v1_VolumeMountStatus ref)"
  "def_sound ref (schema_k8sio_api_core_v1_VolumeNodeAffinity ref)"
  "def_sound ref (schema_k8sio_api_core_v1_VolumeProjection ref)"
  "def_sound ref (schema_k8sio_api_core_v1_VolumeResourceRequirements ref)"
  "def_sound ref (schema_k8sio_api_core_v1_VolumeSource ref)"
  "def_sound ref (schema_k8sio_api_core_v1_VsphereVirtualDiskVolumeSource ref)"
  "def_sound ref (schema_k8sio_api_core_v1_WeightedPodAffinityTerm ref)"
  "def_sound ref (schema_k8sio_api_core_v1_WindowsSecurityContextOptions ref)"
  by (auto simp: schema_defs)

end
