(* ===== verification/Openapi_Meta.thy ===== *)
theory Openapi_Meta
  imports Openapi_Schema
begin

section \<open>OpenAPI definitions of the machinery types\<close>

text \<open>
  From \<^verbatim>\<open>client-go/openapi/zz_generated.openapi.go\<close>: quantities, \<open>meta/v1\<close>, \<open>runtime\<close> and \<open>version\<close>.
\<close>

definition schema_apimachinery_pkg_api_resource_Quantity ::
  "'r openapi_library \<Rightarrow> (string \<Rightarrow> 'r) \<Rightarrow> 'r OpenAPIDefinition" where
  [schema_defs]: "schema_apimachinery_pkg_api_resource_Quantity lib ref =
     lib_EmbedOpenAPIDefinitionIntoV2Extension lib
       (OpenAPIDefinition
          (SchemaProps
            [OneOf (lib_GenerateOpenAPIV3OneOfSchema lib (lib_OpenAPIV3OneOfTypes lib ''resource.Quantity'')),
             Format (lib_OpenAPISchemaFormat lib ''resource.Quantity'')])
          [])
       (OpenAPIDefinition
          (SchemaProps
            [Type (lib_OpenAPISchemaType lib ''resource.Quantity''),
             Format (lib_OpenAPISchemaFormat lib ''resource.Quantity'')])
          [])"

definition schema_apimachinery_pkg_api_resource_int64Amount ::
  "(string \<Rightarrow> 'r) \<Rightarrow> 'r OpenAPIDefinition" where
  [schema_defs]: "schema_apimachinery_pkg_api_resource_int64Amount ref =
     OpenAPIDefinition
       (SchemaProps
         [Type [''object''],
          Properties
             [(''value'', SchemaProps [Default (VInt 0), Type [''integer''], Format ''int64'']),
              (''scale'', SchemaProps [Default (VInt 0), Type [''integer''], Format ''int32''])],
          Required [''value'', ''scale'']])
       []"

definition schema_pkg_apis_meta_v1_APIGroup ::
  "(string \<Rightarrow> 'r) \<Rightarrow> 'r OpenAPIDefinition" where
  [schema_defs]: "schema_pkg_apis_meta_v1_APIGroup ref =
     OpenAPIDefinition
       (SchemaProps
         [Type [''object''],
          Properties
             [(''kind'', SchemaProps [Type [''string''], Format []]),
              (''apiVersion'', SchemaProps [Type [''string''], Format []]),
              (''name'', SchemaProps [Default (VStr []), Type [''string''], Format []]),
              (''versions'', SchemaProps
                   [Type [''array''],
                    Items (SchemaProps
                           [Default (VObj []),
                            Ref (ref (meta_v1 ''GroupVersionForDiscovery''))]),
                    Extensions [(''x-kubernetes-list-type'', VStr ''atomic'')]]),
              (''preferredVersion'', SchemaProps [Default (VObj []), Ref (ref (meta_v1 ''GroupVersionForDiscovery''))]),
              (''serverAddressByClientCIDRs'', SchemaProps
                   [Type [''array''],
                    Items (SchemaProps
                           [Default (VObj []),
                            Ref (ref (meta_v1 ''ServerAddressByClientCIDR''))]),
                    Extensions [(''x-kubernetes-list-type'', VStr ''atomic'')]])],
          Required [''name'', ''versions'']])
       [meta_v1 ''GroupVersionForDiscovery'', meta_v1 ''ServerAddressByClientCIDR'']"

definition schema_pkg_apis_meta_v1_APIGroupList ::
  "(string \<Rightarrow> 'r) \<Rightarrow> 'r OpenAPIDefinition" where
  [schema_defs]: "schema_pkg_apis_meta_v1_APIGroupList ref =
     OpenAPIDefinition
       (SchemaProps
         [Type [''object''],
          Properties
             [(''kind'', SchemaProps [Type [''string''], Format []]),
              (''apiVersion'', SchemaProps [Type [''string''], Format []]),
              (''groups'', SchemaProps
                   [Type [''array''],
                    Items (SchemaProps [Default (VObj []), Ref (ref (meta_v1 ''APIGroup''))]),
                    Extensions [(''x-kubernetes-list-type'', VStr ''atomic'')]])],
          Required [''groups'']])
       [meta_v1 ''APIGroup'']"

definition schema_pkg_apis_meta_v1_APIResource ::
  "(string \<Rightarrow> 'r) \<Rightarrow> 'r OpenAPIDefinition" where
  [schema_defs]: "schema_pkg_apis_meta_v1_APIResource ref =
     OpenAPIDefinition
       (SchemaProps
         [Type [''object''],
          Properties
             [(''name'', SchemaProps [Default (VStr []), Type [''string''], Format []]),
              (''singularName'', SchemaProps [Default (VStr []), Type [''string''], Format []]),
              (''namespaced'', SchemaProps [Default (VBool False), Type [''boolean''], Format []]),
              (''group'', SchemaProps [Type [''string''], Format []]),
              (''version'', SchemaProps [Type [''string''], Format []]),
              (''kind'', SchemaProps [Default (VStr []), Type [''string''], Format []]),
              (''verbs'', SchemaProps
                   [Type [''array''],
                    Items (SchemaProps [Default (VStr []), Type [''string''], Format []])]),
              (''shortNames'', SchemaProps
                   [Type [''array''],
                    Items (SchemaProps [Default (VStr []), Type [''string''], Format []]),
                    Extensions [(''x-kubernetes-list-type'', VStr ''atomic'')]]),
              (''categories'', SchemaProps
                   [Type [''array''],
                    Items (SchemaProps [Default (VStr []), Type [''string''], Format []]),
                    Extensions [(''x-kubernetes-list-type'', VStr ''atomic'')]]),
              (''storageVersionHash'', SchemaProps [Type [''string''], Format []])],
          Required [''name'', ''singularName'', ''namespaced'', ''kind'', ''verbs'']])
       []"

definition schema_pkg_apis_meta_v1_APIResourceList ::
  "(string \<Rightarrow> 'r) \<Rightarrow> 'r OpenAPIDefinition" where
  [schema_defs]: "schema_pkg_apis_meta_v1_APIResourceList ref =
     OpenAPIDefinition
       (SchemaProps
         [Type [''object''],
          Properties
             [(''kind'', SchemaProps [Type [''string''], Format []]),
              (''apiVersion'', SchemaProps [Type [''string''], Format []]),
              (''groupVersion'', SchemaProps [Default (VStr []), Type [''string''], Format []]),
              (''resources'', SchemaProps
                   [Type [''array''],
                    Items (SchemaProps [Default (VObj []), Ref (ref (meta_v1 ''APIResource''))]),
                    Extensions [(''x-kubernetes-list-type'', VStr ''atomic'')]])],
          Required [''groupVersion'', ''resources'']])
       [meta_v1 ''APIResource'']"

definition schema_pkg_apis_meta_v1_APIVersions ::
  "(string \<Rightarrow> 'r) \<Rightarrow> 'r OpenAPIDefinition" where
  [schema_defs]: "schema_pkg_apis_meta_v1_APIVersions ref =
     OpenAPIDefinition
       (SchemaProps
         [Type [''object''],
          Properties
             [(''kind'', SchemaProps [Type [''string''], Format []]),
              (''apiVersion'', SchemaProps [Type [''string''], Format []]),
              (''versions'', SchemaProps
                   [Type [''array''],
                    Items (SchemaProps [Default (VStr []), Type [''string''], Format []]),
                    Extensions [(''x-kubernetes-list-type'', VStr ''atomic'')]]),
              (''serverAddressByClientCIDRs'', SchemaProps
                   [Type [''array''],
                    Items (SchemaProps
                           [Default (VObj []),
                            Ref (ref (meta_v1 ''ServerAddressByClientCIDR''))]),
                    Extensions [(''x-kubernetes-list-type'', VStr ''atomic'')]])],
          Required [''versions'', ''serverAddressByClientCIDRs'']])
       [meta_v1 ''ServerAddressByClientCIDR'']"

definition schema_pkg_apis_meta_v1_ApplyOptions ::
  "(string \<Rightarrow> 'r) \<Rightarrow> 'r OpenAPIDefinition" where
  [schema_defs]: "schema_pkg_apis_meta_v1_ApplyOptions ref =
     OpenAPIDefinition
       (SchemaProps
         [Type [''object''],
          Properties
             [(''kind'', SchemaProps [Type [''string''], Format []]),
              (''apiVersion'', SchemaProps [Type [''string''], Format []]),
              (''dryRun'', SchemaProps
                   [Type [''array''],
                    Items (SchemaProps [Default (VStr []), Type [''string''], Format []]),
                    Extensions [(''x-kubernetes-list-type'', VStr ''atomic'')]]),
              (''force'', SchemaProps [Default (VBool False), Type [''boolean''], Format []]),
              (''fieldManager'', SchemaProps [Default (VStr []), Type [''string''], Format []])],
          Required [''force'', ''fieldManager'']])
       []"

definition schema_pkg_apis_meta_v1_Condition ::
  "(string \<Rightarrow> 'r) \<Rightarrow> 'r OpenAPIDefinition" where
  [schema_defs]: "schema_pkg_apis_meta_v1_Condition ref =
     OpenAPIDefinition
       (SchemaProps
         [Type [''object''],
          Properties
             [(''type'', SchemaProps [Default (VStr []), Type [''string''], Format []]),
              (''status'', SchemaProps [Default (VStr []), Type [''string''], Format []]),
              (''observedGeneration'', SchemaProps [Type [''integer''], Format ''int64'']),
              (''lastTransitionTime'', SchemaProps [Ref (ref (meta_v1 ''Time''))]),
              (''reason'', SchemaProps [Default (VStr []), Type [''string''], Format []]),
              (''message'', SchemaProps [Default (VStr []), Type [''string''], Format []])],
          Required [''type'', ''status'', ''lastTransitionTime'', ''reason'', ''message'']])
       [meta_v1 ''Time'']"

definition schema_pkg_apis_meta_v1_CreateOptions ::
  "(string \<Rightarrow> 'r) \<Rightarrow> 'r OpenAPIDefinition" where
  [schema_defs]: "schema_pkg_apis_meta_v1_CreateOptions ref =
     OpenAPIDefinition
       (SchemaProps
         [Type [''object''],
          Properties
             [(''kind'', SchemaProps [Type [''string''], Format []]),
              (''apiVersion'', SchemaProps [Type [''string''], Format []]),
              (''dryRun'', SchemaProps
                   [Type [''array''],
                    Items (SchemaProps [Default (VStr []), Type [''string''], Format []]),
                    Extensions [(''x-kubernetes-list-type'', VStr ''atomic'')]]),
              (''fieldManager'', SchemaProps [Type [''string''], Format []]),
              (''fieldValidation'', SchemaProps [Type [''string''], Format []])]])
       []"

definition schema_pkg_apis_meta_v1_DeleteOptions ::
  "(string \<Rightarrow> 'r) \<Rightarrow> 'r OpenAPIDefinition" where
  [schema_defs]: "schema_pkg_apis_meta_v1_DeleteOptions ref =
     OpenAPIDefinition
       (SchemaProps
         [Type [''object''],
          Properties
             [(''kind'', SchemaProps [Type [''string''], Format []]),
              (''apiVersion'', SchemaProps [Type [''string''], Format []]),
              (''gracePeriodSeconds'', SchemaProps [Type [''integer''], Format ''int64'']),
              (''preconditions'', SchemaProps [Ref (ref (meta_v1 ''Preconditions''))]),
              (''orphanDependents'', SchemaProps [Type [''boolean''], Format []]),
              (''propagationPolicy'', SchemaProps [Type [''string''], Format []]),
              (''dryRun'', SchemaProps
                   [Type [''array''],
                    Items (SchemaProps [Default (VStr []), Type [''string''], Format []]),
                    Extensions [(''x-kubernetes-list-type'', VStr ''atomic'')]]),
              (''ignoreStoreReadErrorWithClusterBreakingPotential'', SchemaProps [Type [''boolean''], Format []])]])
       [meta_v1 ''Preconditions'']"

definition schema_pkg_apis_meta_v1_Duration ::
  "'r openapi_library \<Rightarrow> (string \<Rightarrow> 'r) \<Rightarrow> 'r OpenAPIDefinition" where
  [schema_defs]: "schema_pkg_apis_meta_v1_Duration lib ref =
     OpenAPIDefinition
       (SchemaProps
         [Type (lib_OpenAPISchemaType lib ''metav1.Duration''),
          Format (lib_OpenAPISchemaFormat lib ''metav1.Duration'')])
       []"

definition schema_pkg_apis_meta_v1_FieldSelectorRequirement ::
  "(string \<Rightarrow> 'r) \<Rightarrow> 'r OpenAPIDefinition" where
  [schema_defs]: "schema_pkg_apis_meta_v1_FieldSelectorRequirement ref =
     OpenAPIDefinition
       (SchemaProps
         [Type [''object''],
          Properties
             [(''key'', SchemaProps [Default (VStr []), Type [''string''], Format []]),
              (''operator'', SchemaProps [Default (VStr []), Type [''string''], Format []]),
              (''values'', SchemaProps
                   [Type [''array''],
                    Items (SchemaProps [Default (VStr []), Type [''string''], Format []]),
                    Extensions [(''x-kubernetes-list-type'', VStr ''atomic'')]])],
          Required [''key'', ''operator'']])
       []"

definition schema_pkg_apis_meta_v1_FieldsV1 ::
  "(string \<Rightarrow> 'r) \<Rightarrow> 'r OpenAPIDefinition" where
  [schema_defs]: "schema_pkg_apis_meta_v1_FieldsV1 ref =
     OpenAPIDefinition
       (SchemaProps [Type [''object'']])
       []"

definition schema_pkg_apis_meta_v1_GetOptions ::
  "(string \<Rightarrow> 'r) \<Rightarrow> 'r OpenAPIDefinition" where
  [schema_defs]: "schema_pkg_apis_meta_v1_GetOptions ref =
     OpenAPIDefinition
       (SchemaProps
         [Type [''object''],
          Properties
             [(''kind'', SchemaProps [Type [''string''], Format []]),
              (''apiVersion'', SchemaProps [Type [''string''], Format []]),
              (''resourceVersion'', SchemaProps [Type [''string''], Format []])]])
       []"

definition schema_pkg_apis_meta_v1_GroupKind ::
  "(string \<Rightarrow> 'r) \<Rightarrow> 'r OpenAPIDefinition" where
  [schema_defs]: "schema_pkg_apis_meta_v1_GroupKind ref =
     OpenAPIDefinition
       (SchemaProps
         [Type [''object''],
          Properties
             [(''group'', SchemaProps [Default (VStr []), Type [''string''], Format []]),
              (''kind'', SchemaProps [Default (VStr []), Type [''string''], Format []])],
          Required [''group'', ''kind'']])
       []"

definition schema_pkg_apis_meta_v1_GroupResource ::
  "(string \<Rightarrow> 'r) \<Rightarrow> 'r OpenAPIDefinition" where
  [schema_defs]: "schema_pkg_apis_meta_v1_GroupResource ref =
     OpenAPIDefinition
       (SchemaProps
         [Type [''object''],
          Properties
             [(''group'', SchemaProps [Default (VStr []), Type [''string''], Format []]),
              (''resource'', SchemaProps [Default (VStr []), Type [''string''], Format []])],
          Required [''group'', ''resource'']])
       []"

definition schema_pkg_apis_meta_v1_GroupVersion ::
  "(string \<Rightarrow> 'r) \<Rightarrow> 'r OpenAPIDefinition" where
  [schema_defs]: "schema_pkg_apis_meta_v1_GroupVersion ref =
     OpenAPIDefinition
       (SchemaProps
         [Type [''object''],
          Properties
             [(''group'', SchemaProps [Default (VStr []), Type [''string''], Format []]),
              (''version'', SchemaProps [Default (VStr []), Type [''string''], Format []])],
          Required [''group'', ''version'']])
       []"

definition schema_pkg_apis_meta_v1_GroupVersionForDiscovery ::
  "(string \<Rightarrow> 'r) \<Rightarrow> 'r OpenAPIDefinition" where
  [schema_defs]: "schema_pkg_apis_meta_v1_GroupVersionForDiscovery ref =
     OpenAPIDefinition
       (SchemaProps
         [Type [''object''],
          Properties
             [(''groupVersion'', SchemaProps [Default (VStr []), Type [''string''], Format []]),
              (''version'', SchemaProps [Default (VStr []), Type [''string''], Format []])],
          Required [''groupVersion'', ''version'']])
       []"

definition schema_pkg_apis_meta_v1_GroupVersionKind ::
  "(string \<Rightarrow> 'r) \<Rightarrow> 'r OpenAPIDefinition" where
  [schema_defs]: "schema_pkg_apis_meta_v1_GroupVersionKind ref =
     OpenAPIDefinition
       (SchemaProps
         [Type [''object''],
          Properties
             [(''group'', SchemaProps [Default (VStr []), Type [''string''], Format []]),
              (''version'', SchemaProps [Default (VStr []), Type [''string''], Format []]),
              (''kind'', SchemaProps [Default (VStr []), Type [''string''], Format []])],
          Required [''group'', ''version'', ''kind'']])
       []"

definition schema_pkg_apis_meta_v1_GroupVersionResource ::
  "(string \<Rightarrow> 'r) \<Rightarrow> 'r OpenAPIDefinition" where
  [schema_defs]: "schema_pkg_apis_meta_v1_GroupVersionResource ref =
     OpenAPIDefinition
       (SchemaProps
         [Type [''object''],
          Properties
             [(''group'', SchemaProps [Default (VStr []), Type [''string''], Format []]),
              (''version'', SchemaProps [Default (VStr []), Type [''string''], Format []]),
              (''resource'', SchemaProps [Default (VStr []), Type [''string''], Format []])],
          Required [''group'', ''version'', ''resource'']])
       []"

definition schema_pkg_apis_meta_v1_InternalEvent ::
  "(string \<Rightarrow> 'r) \<Rightarrow> 'r OpenAPIDefinition" where
  [schema_defs]: "schema_pkg_apis_meta_v1_InternalEvent ref =
     OpenAPIDefinition
       (SchemaProps
         [Type [''object''],
          Properties
             [(''Type'', SchemaProps [Default (VStr []), Type [''string''], Format []]),
              (''Object'', SchemaProps [])],
          Required [''Type'', ''Object'']])
       []"

definition schema_pkg_apis_meta_v1_LabelSelector ::
  "(string \<Rightarrow> 'r) \<Rightarrow> 'r OpenAPIDefinition" where
  [schema_defs]: "schema_pkg_apis_meta_v1_LabelSelector ref =
     OpenAPIDefinition
       (SchemaProps
         [Type [''object''],
          Properties
             [(''matchLabels'', SchemaProps
                   [Type [''object''],
                    AdditionalProperties True (SchemaProps [Default (VStr []), Type [''string''], Format []])]),
              (''matchExpressions'', SchemaProps
                   [Type [''array''],
                    Items (SchemaProps
                           [Default (VObj []),
                            Ref (ref (meta_v1 ''LabelSelectorRequirement''))]),
                    Extensions [(''x-kubernetes-list-type'', VStr ''atomic'')]])],
          Extensions [(''x-kubernetes-map-type'', VStr ''atomic'')]])
       [meta_v1 ''LabelSelectorRequirement'']"

definition schema_pkg_apis_meta_v1_LabelSelectorRequirement ::
  "(string \<Rightarrow> 'r) \<Rightarrow> 'r OpenAPIDefinition" where
  [schema_defs]: "schema_pkg_apis_meta_v1_LabelSelectorRequirement ref =
     OpenAPIDefinition
       (SchemaProps
         [Type [''object''],
          Properties
             [(''key'', SchemaProps [Default (VStr []), Type [''string''], Format []]),
              (''operator'', SchemaProps [Default (VStr []), Type [''string''], Format []]),
              (''values'', SchemaProps
                   [Type [''array''],
                    Items (SchemaProps [Default (VStr []), Type [''string''], Format []]),
                    Extensions [(''x-kubernetes-list-type'', VStr ''atomic'')]])],
          Required [''key'', ''operator'']])
       []"

definition schema_pkg_apis_meta_v1_List ::
  "(string \<Rightarrow> 'r) \<Rightarrow> 'r OpenAPIDefinition" where
  [schema_defs]: "schema_pkg_apis_meta_v1_List ref =
     OpenAPIDefinition
       (SchemaProps
         [Type [''object''],
          Properties
             [(''kind'', SchemaProps [Type [''string''], Format []]),
              (''apiVersion'', SchemaProps [Type [''string''], Format []]),
              (''metadata'', SchemaProps [Default (VObj []), Ref (ref (meta_v1 ''ListMeta''))]),
              (''items'', SchemaProps
                   [Type [''array''],
                    Items (SchemaProps [Ref (ref (pkg_runtime ''RawExtension''))])])],
          Required [''items'']])
       [meta_v1 ''ListMeta'', pkg_runtime ''RawExtension'']"

definition schema_pkg_apis_meta_v1_ListMeta ::
  "(string \<Rightarrow> 'r) \<Rightarrow> 'r OpenAPIDefinition" where
  [schema_defs]: "schema_pkg_apis_meta_v1_ListMeta ref =
     OpenAPIDefinition
       (SchemaProps
         [Type [''object''],
          Properties
             [(''selfLink'', SchemaProps [Type [''string''], Format []]),
              (''resourceVersion'', SchemaProps [Type [''string''], Format []]),
              (''continue'', SchemaProps [Type [''string''], Format []]),
              (''remainingItemCount'', SchemaProps [Type [''integer''], Format ''int64''])]])
       []"

definition schema_pkg_apis_meta_v1_ListOptions ::
  "(string \<Rightarrow> 'r) \<Rightarrow> 'r OpenAPIDefinition" where
  [schema_defs]: "schema_pkg_apis_meta_v1_ListOptions ref =
     OpenAPIDefinition
       (SchemaProps
         [Type [''object''],
          Properties
             [(''kind'', SchemaProps [Type [''string''], Format []]),
              (''apiVersion'', SchemaProps [Type [''string''], Format []]),
              (''labelSelector'', SchemaProps [Type [''string''], Format []]),
              (''fieldSelector'', SchemaProps [Type [''string''], Format []]),
              (''watch'', SchemaProps [Type [''boolean''], Format []]),
              (''allowWatchBookmarks'', SchemaProps [Type [''boolean''], Format []]),
              (''resourceVersion'', SchemaProps [Type [''string''], Format []]),
              (''resourceVersionMatch'', SchemaProps [Type [''string''], Format []]),
              (''timeoutSeconds'', SchemaProps [Type [''integer''], Format ''int64'']),
              (''limit'', SchemaProps [Type [''integer''], Format ''int64'']),
              (''continue'', SchemaProps [Type [''string''], Format []]),
              (''sendInitialEvents'', SchemaProps [Type [''boolean''], Format []])]])
       []"

definition schema_pkg_apis_meta_v1_ManagedFieldsEntry ::
  "(string \<Rightarrow> 'r) \<Rightarrow> 'r OpenAPIDefinition" where
  [schema_defs]: "schema_pkg_apis_meta_v1_ManagedFieldsEntry ref =
     OpenAPIDefinition
       (SchemaProps
         [Type [''object''],
          Properties
             [(''manager'', SchemaProps [Type [''string''], Format []]),
              (''operation'', SchemaProps [Type [''string''], Format []]),
              (''apiVersion'', SchemaProps [Type [''string''], Format []]),
              (''time'', SchemaProps [Ref (ref (meta_v1 ''Time''))]),
              (''fieldsType'', SchemaProps [Type [''string''], Format []]),
              (''fieldsV1'', SchemaProps [Ref (ref (meta_v1 ''FieldsV1''))]),
              (''subresource'', SchemaProps [Type [''string''], Format []])]])
       [meta_v1 ''FieldsV1'', meta_v1 ''Time'']"

definition schema_pkg_apis_meta_v1_MicroTime ::
  "'r openapi_library \<Rightarrow> (string \<Rightarrow> 'r) \<Rightarrow> 'r OpenAPIDefinition" where
  [schema_defs]: "schema_pkg_apis_meta_v1_MicroTime lib ref =
     OpenAPIDefinition
       (SchemaProps
         [Type (lib_OpenAPISchemaType lib ''metav1.MicroTime''),
          Format (lib_OpenAPISchemaFormat lib ''metav1.MicroTime'')])
       []"

definition schema_pkg_apis_meta_v1_ObjectMeta ::
  "(string \<Rightarrow> 'r) \<Rightarrow> 'r OpenAPIDefinition" where
  [schema_defs]: "schema_pkg_apis_meta_v1_ObjectMeta ref =
     OpenAPIDefinition
       (SchemaProps
         [Type [''object''],
          Properties
             [(''name'', SchemaProps [Type [''string''], Format []]),
              (''generateName'', SchemaProps [Type [''string''], Format []]),
              (''namespace'', SchemaProps [Type [''string''], Format []]),
              (''selfLink'', SchemaProps [Type [''string''], Format []]),
              (''uid'', SchemaProps [Type [''string''], Format []]),
              (''resourceVersion'', SchemaProps [Type [''string''], Format []]),
              (''generation'', SchemaProps [Type [''integer''], Format ''int64'']),
              (''creationTimestamp'', SchemaProps [Ref (ref (meta_v1 ''Time''))]),
              (''deletionTimestamp'', SchemaProps [Ref (ref (meta_v1 ''Time''))]),
              (''deletionGracePeriodSeconds'', SchemaProps [Type [''integer''], Format ''int64'']),
              (''labels'', SchemaProps
                   [Type [''object''],
                    AdditionalProperties True (SchemaProps [Default (VStr []), Type [''string''], Format []])]),
              (''annotations'', SchemaProps
                   [Type [''object''],
                    AdditionalProperties True (SchemaProps [Default (VStr []), Type [''string''], Format []])]),
              (''ownerReferences'', SchemaProps
                   [Type [''array''],
                    Items (SchemaProps [Default (VObj []), Ref (ref (meta_v1 ''OwnerReference''))]),
                    Extensions [(''x-kubernetes-list-map-keys'', VArr [VStr ''uid'']), (''x-kubernetes-list-type'', VStr ''map''), (''x-kubernetes-patch-merge-key'', VStr ''uid''), (''x-kubernetes-patch-strategy'', VStr ''merge'')]]),
              (''finalizers'', SchemaProps
                   [Type [''array''],
                    Items (SchemaProps [Default (VStr []), Type [''string''], Format []]),
                    Extensions [(''x-kubernetes-list-type'', VStr ''set''), (''x-kubernetes-patch-strategy'', VStr ''merge'')]]),
              (''managedFields'', SchemaProps
                   [Type [''array''],
                    Items (SchemaProps
                           [Default (VObj []),
                            Ref (ref (meta_v1 ''ManagedFieldsEntry''))]),
                    Extensions [(''x-kubernetes-list-type'', VStr ''atomic'')]])]])
       [meta_v1 ''ManagedFieldsEntry'', meta_v1 ''OwnerReference'', meta_v1 ''Time'']"

definition schema_pkg_apis_meta_v1_OwnerReference ::
  "(string \<Rightarrow> 'r) \<Rightarrow> 'r OpenAPIDefinition" where
  [schema_defs]: "schema_pkg_apis_meta_v1_OwnerReference ref =
     OpenAPIDefinition
       (SchemaProps
         [Type [''object''],
          Properties
             [(''apiVersion'', SchemaProps [Default (VStr []), Type [''string''], Format []]),
              (''kind'', SchemaProps [Default (VStr []), Type [''string''], Format []]),
              (''name'', SchemaProps [Default (VStr []), Type [''string''], Format []]),
              (''uid'', SchemaProps [Default (VStr []), Type [''string''], Format []]),
              (''controller'', SchemaProps [Type [''boolean''], Format []]),
              (''blockOwnerDeletion'', SchemaProps [Type [''boolean''], Format []])],
          Required [''apiVersion'', ''kind'', ''name'', ''uid''],
          Extensions [(''x-kubernetes-map-type'', VStr ''atomic'')]])
       []"

definition schema_pkg_apis_meta_v1_PartialObjectMetadata ::
  "(string \<Rightarrow> 'r) \<Rightarrow> 'r OpenAPIDefinition" where
  [schema_defs]: "schema_pkg_apis_meta_v1_PartialObjectMetadata ref =
     OpenAPIDefinition
       (SchemaProps
         [Type [''object''],
          Properties
             [(''kind'', SchemaProps [Type [''string''], Format []]),
              (''apiVersion'', SchemaProps [Type [''string''], Format []]),
              (''metadata'', SchemaProps [Default (VObj []), Ref (ref (meta_v1 ''ObjectMeta''))])]])
       [meta_v1 ''ObjectMeta'']"

definition schema_pkg_apis_meta_v1_PartialObjectMetadataList ::
  "(string \<Rightarrow> 'r) \<Rightarrow> 'r OpenAPIDefinition" where
  [schema_defs]: "schema_pkg_apis_meta_v1_PartialObjectMetadataList ref =
     OpenAPIDefinition
       (SchemaProps
         [Type [''object''],
          Properties
             [(''kind'', SchemaProps [Type [''string''], Format []]),
              (''apiVersion'', SchemaProps [Type [''string''], Format []]),
              (''metadata'', SchemaProps [Default (VObj []), Ref (ref (meta_v1 ''ListMeta''))]),
              (''items'', SchemaProps
                   [Type [''array''],
                    Items (SchemaProps
                           [Default (VObj []),
                            Ref (ref (meta_v1 ''PartialObjectMetadata''))])])],
          Required [''items'']])
       [meta_v1 ''ListMeta'', meta_v1 ''PartialObjectMetadata'']"

definition schema_pkg_apis_meta_v1_Patch ::
  "(string \<Rightarrow> 'r) \<Rightarrow> 'r OpenAPIDefinition" where
  [schema_defs]: "schema_pkg_apis_meta_v1_Patch ref =
     OpenAPIDefinition
       (SchemaProps [Type [''object'']])
       []"

definition schema_pkg_apis_meta_v1_PatchOptions ::
  "(string \<Rightarrow> 'r) \<Rightarrow> 'r OpenAPIDefinition" where
  [schema_defs]: "schema_pkg_apis_meta_v1_PatchOptions ref =
     OpenAPIDefinition
       (SchemaProps
         [Type [''object''],
          Properties
             [(''kind'', SchemaProps [Type [''string''], Format []]),
              (''apiVersion'', SchemaProps [Type [''string''], Format []]),
              (''dryRun'', SchemaProps
                   [Type [''array''],
                    Items (SchemaProps [Default (VStr []), Type [''string''], Format []]),
                    Extensions [(''x-kubernetes-list-type'', VStr ''atomic'')]]),
              (''force'', SchemaProps [Type [''boolean''], Format []]),
              (''fieldManager'', SchemaProps [Type [''string''], Format []]),
              (''fieldValidation'', SchemaProps [Type [''string''], Format []])]])
       []"

definition schema_pkg_apis_meta_v1_Preconditions ::
  "(string \<Rightarrow> 'r) \<Rightarrow> 'r OpenAPIDefinition" where
  [schema_defs]: "schema_pkg_apis_meta_v1_Preconditions ref =
     OpenAPIDefinition
       (SchemaProps
         [Type [''object''],
          Properties
             [(''uid'', SchemaProps [Type [''string''], Format []]),
              (''resourceVersion'', SchemaProps [Type [''string''], Format []])]])
       []"

definition schema_pkg_apis_meta_v1_RootPaths ::
  "(string \<Rightarrow> 'r) \<Rightarrow> 'r OpenAPIDefinition" where
  [schema_defs]: "schema_pkg_apis_meta_v1_RootPaths ref =
     OpenAPIDefinition
       (SchemaProps
         [Type [''object''],
          Properties
             [(''paths'', SchemaProps
                   [Type [''array''],
                    Items (SchemaProps [Default (VStr []), Type [''string''], Format []]),
                    Extensions [(''x-kubernetes-list-type'', VStr ''atomic'')]])],
          Required [''paths'']])
       []"

definition schema_pkg_apis_meta_v1_ServerAddressByClientCIDR ::
  "(string \<Rightarrow> 'r) \<Rightarrow> 'r OpenAPIDefinition" where
  [schema_defs]: "schema_pkg_apis_meta_v1_ServerAddressByClientCIDR ref =
     OpenAPIDefinition
       (SchemaProps
         [Type [''object''],
          Properties
             [(''clientCIDR'', SchemaProps [Default (VStr []), Type [''string''], Format []]),
              (''serverAddress'', SchemaProps [Default (VStr []), Type [''string''], Format []])],
          Required [''clientCIDR'', ''serverAddress'']])
       []"

definition schema_pkg_apis_meta_v1_Status ::
  "(string \<Rightarrow> 'r) \<Rightarrow> 'r OpenAPIDefinition" where
  [schema_defs]: "schema_pkg_apis_meta_v1_Status ref =
     OpenAPIDefinition
       (SchemaProps
         [Type [''object''],
          Properties
             [(''kind'', SchemaProps [Type [''string''], Format []]),
              (''apiVersion'', SchemaProps [Type [''string''], Format []]),
              (''metadata'', SchemaProps [Default (VObj []), Ref (ref (meta_v1 ''ListMeta''))]),
              (''status'', SchemaProps [Type [''string''], Format []]),
              (''message'', SchemaProps [Type [''string''], Format []]),
              (''reason'', SchemaProps [Type [''string''], Format []]),
              (''details'', SchemaProps
                   [Ref (ref (meta_v1 ''StatusDetails'')),
                    Extensions [(''x-kubernetes-list-type'', VStr ''atomic'')]]),
              (''code'', SchemaProps [Type [''integer''], Format ''int32''])]])
       [meta_v1 ''ListMeta'', meta_v1 ''StatusDetails'']"

definition schema_pkg_apis_meta_v1_StatusCause ::
  "(string \<Rightarrow> 'r) \<Rightarrow> 'r OpenAPIDefinition" where
  [schema_defs]: "schema_pkg_apis_meta_v1_StatusCause ref =
     OpenAPIDefinition
       (SchemaProps
         [Type [''object''],
          Properties
             [(''reason'', SchemaProps [Type [''string''], Format []]),
              (''message'', SchemaProps [Type [''string''], Format []]),
              (''field'', SchemaProps [Type [''string''], Format []])]])
       []"

definition schema_pkg_apis_meta_v1_StatusDetails ::
  "(string \<Rightarrow> 'r) \<Rightarrow> 'r OpenAPIDefinition" where
  [schema_defs]: "schema_pkg_apis_meta_v1_StatusDetails ref =
     OpenAPIDefinition
       (SchemaProps
         [Type [''object''],
          Properties
             [(''name'', SchemaProps [Type [''string''], Format []]),
              (''group'', SchemaProps [Type [''string''], Format []]),
              (''kind'', SchemaProps [Type [''string''], Format []]),
              (''uid'', SchemaProps [Type [''string''], Format []]),
              (''causes'', SchemaProps
                   [Type [''array''],
                    Items (SchemaProps [Default (VObj []), Ref (ref (meta_v1 ''StatusCause''))]),
                    Extensions [(''x-kubernetes-list-type'', VStr ''atomic'')]]),
              (''retryAfterSeconds'', SchemaProps [Type [''integer''], Format ''int32''])]])
       [meta_v1 ''StatusCause'']"

definition schema_pkg_apis_meta_v1_Table ::
  "(string \<Rightarrow> 'r) \<Rightarrow> 'r OpenAPIDefinition" where
  [schema_defs]: "schema_pkg_apis_meta_v1_Table ref =
     OpenAPIDefinition
       (SchemaProps
         [Type [''object''],
          Properties
             [(''kind'', SchemaProps [Type [''string''], Format []]),
              (''apiVersion'', SchemaProps [Type [''string''], Format []]),
              (''metadata'', SchemaProps [Default (VObj []), Ref (ref (meta_v1 ''ListMeta''))]),
              (''columnDefinitions'', SchemaProps
                   [Type [''array''],
                    Items (SchemaProps
                           [Default (VObj []),
                            Ref (ref (meta_v1 ''TableColumnDefinition''))]),
                    Extensions [(''x-kubernetes-list-type'', VStr ''atomic'')]]),
              (''rows'', SchemaProps
                   [Type [''array''],
                    Items (SchemaProps [Default (VObj []), Ref (ref (meta_v1 ''TableRow''))]),
                    Extensions [(''x-kubernetes-list-type'', VStr ''atomic'')]])],
          Required [''columnDefinitions'', ''rows'']])
       [meta_v1 ''ListMeta'', meta_v1 ''TableColumnDefinition'', meta_v1 ''TableRow'']"

definition schema_pkg_apis_meta_v1_TableColumnDefinition ::
  "(string \<Rightarrow> 'r) \<Rightarrow> 'r OpenAPIDefinition" where
  [schema_defs]: "schema_pkg_apis_meta_v1_TableColumnDefinition ref =
     OpenAPIDefinition
       (SchemaProps
         [Type [''object''],
          Properties
             [(''name'', SchemaProps [Default (VStr []), Type [''string''], Format []]),
              (''type'', SchemaProps [Default (VStr []), Type [''string''], Format []]),
              (''format'', SchemaProps [Default (VStr []), Type [''string''], Format []]),
              (''description'', SchemaProps [Default (VStr []), Type [''string''], Format []]),
              (''priority'', SchemaProps [Default (VInt 0), Type [''integer''], Format ''int32''])],
          Required [''name'', ''type'', ''format'', ''description'', ''priority'']])
       []"

definition schema_pkg_apis_meta_v1_TableOptions ::
  "(string \<Rightarrow> 'r) \<Rightarrow> 'r OpenAPIDefinition" where
  [schema_defs]: "schema_pkg_apis_meta_v1_TableOptions ref =
     OpenAPIDefinition
       (SchemaProps
         [Type [''object''],
          Properties
             [(''kind'', SchemaProps [Type [''string''], Format []]),
              (''apiVersion'', SchemaProps [Type [''string''], Format []]),
              (''includeObject'', SchemaProps [Type [''string''], Format []])]])
       []"

definition schema_pkg_apis_meta_v1_TableRow ::
  "(string \<Rightarrow> 'r) \<Rightarrow> 'r OpenAPIDefinition" where
  [schema_defs]: "schema_pkg_apis_meta_v1_TableRow ref =
     OpenAPIDefinition
       (SchemaProps
         [Type [''object''],
          Properties
             [(''cells'', SchemaProps
                   [Type [''array''],
                    Items (SchemaProps [Type [''object''], Format []]),
                    Extensions [(''x-kubernetes-list-type'', VStr ''atomic'')]]),
              (''conditions'', SchemaProps
                   [Type [''array''],
                    Items (SchemaProps [Default (VObj []), Ref (ref (meta_v1 ''TableRowCondition''))]),
                    Extensions [(''x-kubernetes-list-type'', VStr ''atomic'')]]),
              (''object'', SchemaProps [Ref (ref (pkg_runtime ''RawExtension''))])],
          Required [''cells'']])
       [meta_v1 ''TableRowCondition'', pkg_runtime ''RawExtension'']"

definition schema_pkg_apis_meta_v1_TableRowCondition ::
  "(string \<Rightarrow> 'r) \<Rightarrow> 'r OpenAPIDefinition" where
  [schema_defs]: "schema_pkg_apis_meta_v1_TableRowCondition ref =
     OpenAPIDefinition
       (SchemaProps
         [Type [''object''],
          Properties
             [(''type'', SchemaProps [Default (VStr []), Type [''string''], Format []]),
              (''status'', SchemaProps [Default (VStr []), Type [''string''], Format []]),
              (''reason'', SchemaProps [Type [''string''], Format []]),
              (''message'', SchemaProps [Type [''string''], Format []])],
          Required [''type'', ''status'']])
       []"

definition schema_pkg_apis_meta_v1_Time ::
  "'r openapi_library \<Rightarrow> (string \<Rightarrow> 'r) \<Rightarrow> 'r OpenAPIDefinition" where
  [schema_defs]: "schema_pkg_apis_meta_v1_Time lib ref =
     OpenAPIDefinition
       (SchemaProps
         [Type (lib_OpenAPISchemaType lib ''metav1.Time''),
          Format (lib_OpenAPISchemaFormat lib ''metav1.Time'')])
       []"

definition schema_pkg_apis_meta_v1_Timestamp ::
  "(string \<Rightarrow> 'r) \<Rightarrow> 'r OpenAPIDefinition" where
  [schema_defs]: "schema_pkg_apis_meta_v1_Timestamp ref =
     OpenAPIDefinition
       (SchemaProps
         [Type [''object''],
          Properties
             [(''seconds'', SchemaProps [Default (VInt 0), Type [''integer''], Format ''int64'']),
              (''nanos'', SchemaProps [Default (VInt 0), Type [''integer''], Format ''int32''])],
          Required [''seconds'', ''nanos'']])
       []"

definition schema_pkg_apis_meta_v1_TypeMeta ::
  "(string \<Rightarrow> 'r) \<Rightarrow> 'r OpenAPIDefinition" where
  [schema_defs]: "schema_pkg_apis_meta_v1_TypeMeta ref =
     OpenAPIDefinition
       (SchemaProps
         [Type [''object''],
          Properties
             [(''kind'', SchemaProps [Type [''string''], Format []]),
              (''apiVersion'', SchemaProps [Type [''string''], Format []])]])
       []"

definition schema_pkg_apis_meta_v1_UpdateOptions ::
  "(string \<Rightarrow> 'r) \<Rightarrow> 'r OpenAPIDefinition" where
  [schema_defs]: "schema_pkg_apis_meta_v1_UpdateOptions ref =
     OpenAPIDefinition
       (SchemaProps
         [Type [''object''],
          Properties
             [(''kind'', SchemaProps [Type [''string''], Format []]),
              (''apiVersion'', SchemaProps [Type [''string''], Format []]),
              (''dryRun'', SchemaProps
                   [Type [''array''],
                    Items (SchemaProps [Default (VStr []), Type [''string''], Format []]),
                    Extensions [(''x-kubernetes-list-type'', VStr ''atomic'')]]),
              (''fieldManager'', SchemaProps [Type [''string''], Format []]),
              (''fieldValidation'', SchemaProps [Type [''string''], Format []])]])
       []"

definition schema_pkg_apis_meta_v1_WatchEvent ::
  "(string \<Rightarrow> 'r) \<Rightarrow> 'r OpenAPIDefinition" where
  [schema_defs]: "schema_pkg_apis_meta_v1_WatchEvent ref =
     OpenAPIDefinition
       (SchemaProps
         [Type [''object''],
          Properties
             [(''type'', SchemaProps [Default (VStr []), Type [''string''], Format []]),
              (''object'', SchemaProps [Ref (ref (pkg_runtime ''RawExtension''))])],
          Required [''type'', ''object'']])
       [pkg_runtime ''RawExtension'']"

definition schema_k8sio_apimachinery_pkg_runtime_RawExtension ::
  "(string \<Rightarrow> 'r) \<Rightarrow> 'r OpenAPIDefinition" where
  [schema_defs]: "schema_k8sio_apimachinery_pkg_runtime_RawExtension ref =
     OpenAPIDefinition
       (SchemaProps [Type [''object'']])
       []"

definition schema_k8sio_apimachinery_pkg_runtime_TypeMeta ::
  "(string \<Rightarrow> 'r) \<Rightarrow> 'r OpenAPIDefinition" where
  [schema_defs]: "schema_k8sio_apimachinery_pkg_runtime_TypeMeta ref =
     OpenAPIDefinition
       (SchemaProps
         [Type [''object''],
          Properties
             [(''apiVersion'', SchemaProps [Type [''string''], Format []]),
              (''kind'', SchemaProps [Type [''string''], Format []])]])
       []"

definition schema_k8sio_apimachinery_pkg_runtime_Unknown ::
  "(string \<Rightarrow> 'r) \<Rightarrow> 'r OpenAPIDefinition" where
  [schema_defs]: "schema_k8sio_apimachinery_pkg_runtime_Unknown ref =
     OpenAPIDefinition
       (SchemaProps
         [Type [''object''],
          Properties
             [(''apiVersion'', SchemaProps [Type [''string''], Format []]),
              (''kind'', SchemaProps [Type [''string''], Format []]),
              (''ContentEncoding'', SchemaProps [Default (VStr []), Type [''string''], Format []]),
              (''ContentType'', SchemaProps [Default (VStr []), Type [''string''], Format []])],
          Required [''ContentEncoding'', ''ContentType'']])
       []"

definition schema_k8sio_apimachinery_pkg_version_Info ::
  "(string \<Rightarrow> 'r) \<Rightarrow> 'r OpenAPIDefinition" where
  [schema_defs]: "schema_k8sio_apimachinery_pkg_version_Info ref =
     OpenAPIDefinition
       (SchemaProps
         [Type [''object''],
          Properties
             [(''major'', SchemaProps [Default (VStr []), Type [''string''], Format []]),
              (''minor'', SchemaProps [Default (VStr []), Type [''string''], Format []]),
              (''emulationMajor'', SchemaProps [Type [''string''], Format []]),
              (''emulationMinor'', SchemaProps [Type [''string''], Format []]),
              (''minCompatibilityMajor'', SchemaProps [Type [''string''], Format []]),
              (''minCompatibilityMinor'', SchemaProps [Type [''string''], Format []]),
              (''gitVersion'', SchemaProps [Default (VStr []), Type [''string''], Format []]),
              (''gitCommit'', SchemaProps [Default (VStr []), Type [''string''], Format []]),
              (''gitTreeState'', SchemaProps [Default (VStr []), Type [''string''], Format []]),
              (''buildDate'', SchemaProps [Default (VStr []), Type [''string''], Format []]),
              (''goVersion'', SchemaProps [Default (VStr []), Type [''string''], Format []]),
              (''compiler'', SchemaProps [Default (VStr []), Type [''string''], Format []]),
              (''platform'', SchemaProps [Default (VStr []), Type [''string''], Format []])],
          Required [''major'', ''minor'', ''gitVersion'', ''gitCommit'', ''gitTreeState'', ''buildDate'', ''goVersion'', ''compiler'', ''platform'']])
       []"

lemma meta_sound:
  "def_sound ref (schema_apimachinery_pkg_api_resource_int64Amount ref)"
  "def_sound ref (schema_pkg_apis_meta_v1_APIGroup ref)"
  "def_sound ref (schema_pkg_apis_meta_v1_APIGroupList ref)"
  "def_sound ref (schema_pkg_apis_meta_v1_APIResource ref)"
  "def_sound ref (schema_pkg_apis_meta_v1_APIResourceList ref)"
  "def_sound ref (schema_pkg_apis_meta_v1_APIVersions ref)"
  "def_sound ref (schema_pkg_apis_meta_v1_ApplyOptions ref)"
  "def_sound ref (schema_pkg_apis_meta_v1_Condition ref)"
  "def_sound ref (schema_pkg_apis_meta_v1_CreateOptions ref)"
  "def_sound ref (schema_pkg_apis_meta_v1_DeleteOptions ref)"
  "def_sound ref (schema_pkg_apis_meta_v1_Duration lib ref)"
  "def_sound ref (schema_pkg_apis_meta_v1_FieldSelectorRequirement ref)"
  "def_sound ref (schema_pkg_apis_meta_v1_FieldsV1 ref)"
  "def_sound ref (schema_pkg_apis_meta_v1_GetOptions ref)"
  "def_sound ref (schema_pkg_apis_meta_v1_GroupKind ref)"
  "def_sound ref (schema_pkg_apis_meta_v1_GroupResource ref)"
  "def_sound ref (schema_pkg_apis_meta_v1_GroupVersion ref)"
  "def_sound ref (schema_pkg_apis_meta_v1_GroupVersionForDiscovery ref)"
  "def_sound ref (schema_pkg_apis_meta_v1_GroupVersionKind ref)"
  "def_sound ref (schema_pkg_apis_meta_v1_GroupVersionResource ref)"
  "def_sound ref (schema_pkg_apis_meta_v1_InternalEvent ref)"
  "def_sound ref (schema_pkg_apis_meta_v1_LabelSelector ref)"
  "def_sound ref (schema_pkg_apis_meta_v1_LabelSelectorRequirement ref)"
  "def_sound ref (schema_pkg_apis_meta_v1_List ref)"
  "def_sound ref (schema_pkg_apis_meta_v1_ListMeta ref)"
  "def_sound ref (schema_pkg_apis_meta_v1_ListOptions ref)"
  "def_sound ref (schema_pkg_apis_meta_v1_ManagedFieldsEntry ref)"
  "def_sound ref (schema_pkg_apis_meta_v1_MicroTime lib ref)"
  "def_sound ref (schema_pkg_apis_meta_v1_ObjectMeta ref)"
  "def_sound ref (schema_pkg_apis_meta_v1_OwnerReference ref)"
  "def_sound ref (schema_pkg_apis_meta_v1_PartialObjectMetadata ref)"
  "def_sound ref (schema_pkg_apis_meta_v1_PartialObjectMetadataList ref)"
  "def_sound ref (schema_pkg_apis_meta_v1_Patch ref)"
  "def_sound ref (schema_pkg_apis_meta_v1_PatchOptions ref)"
  "def_sound ref (schema_pkg_apis_meta_v1_Preconditions ref)"
  "def_sound ref (schema_pkg_apis_meta_v1_RootPaths ref)"
  "def_sound ref (schema_pkg_apis_meta_v1_ServerAddressByClientCIDR ref)"
  "def_sound ref (schema_pkg_apis_meta_v1_Status ref)"
  "def_sound ref (schema_pkg_apis_meta_v1_StatusCause ref)"
  "def_sound ref (schema_pkg_apis_meta_v1_StatusDetails ref)"
  "def_sound ref (schema_pkg_apis_meta_v1_Table ref)"
  "def_sound ref (schema_pkg_apis_meta_v1_TableColumnDefinition ref)"
  "def_sound ref (schema_pkg_apis_meta_v1_TableOptions ref)"
  "def_sound ref (schema_pkg_apis_meta_v1_TableRow ref)"
  "def_sound ref (schema_pkg_apis_meta_v1_TableRowCondition ref)"
  "def_sound ref (schema_pkg_apis_meta_v1_Time lib ref)"
  "def_sound ref (schema_pkg_apis_meta_v1_Timestamp ref)"
  "def_sound ref (schema_pkg_apis_meta_v1_TypeMeta ref)"
  "def_sound ref (schema_pkg_apis_meta_v1_UpdateOptions ref)"
  "def_sound ref (schema_pkg_apis_meta_v1_WatchEvent ref)"
  "def_sound ref (schema_k8sio_apimachinery_pkg_runtime_RawExtension ref)"
  "def_sound ref (schema_k8sio_apimachinery_pkg_runtime_TypeMeta ref)"
  "def_sound ref (schema_k8sio_apimachinery_pkg_runtime_Unknown ref)"
  "def_sound ref (schema_k8sio_apimachinery_pkg_version_Info ref)"
  by (auto simp: schema_defs)

end
