(* ===== verification/Openapi.thy ===== *)
theory Openapi
  imports Openapi_Arc Openapi_Core1 Openapi_Core2 Openapi_Core3 Openapi_Core4 Openapi_Meta
begin

section \<open>The table of OpenAPI definitions\<close>

text \<open>
  \<open>GetOpenAPIDefinitions\<close> of \<^verbatim>\<open>client-go/openapi/zz_generated.openapi.go\<close>, which the API server hands to
  the builder of its OpenAPI document. The builder starts from the types the server serves and
  follows the dependencies of their definitions; it fails on a name the table does not have. The
  table is an association list in the order of the source, cut into six pieces.
\<close>

named_theorems table_defs

subsection \<open>The table\<close>

definition arc_definitions ::
  "(string \<Rightarrow> 'r) \<Rightarrow> (string \<times> 'r OpenAPIDefinition) list" where
  [table_defs]: "arc_definitions ref =
     [(ArtifactType_OpenAPIModelName, schema_arc_api_arc_v1alpha1_ArtifactType ref),
      (ArtifactTypeList_OpenAPIModelName, schema_arc_api_arc_v1alpha1_ArtifactTypeList ref),
      (ArtifactTypeRules_OpenAPIModelName, schema_arc_api_arc_v1alpha1_ArtifactTypeRules ref),
      (ArtifactTypeSpec_OpenAPIModelName, schema_arc_api_arc_v1alpha1_ArtifactTypeSpec ref),
      (ArtifactTypeStatus_OpenAPIModelName, schema_arc_api_arc_v1alpha1_ArtifactTypeStatus ref),
      (ArtifactWorkflow_OpenAPIModelName, schema_arc_api_arc_v1alpha1_ArtifactWorkflow ref),
      (ArtifactWorkflowList_OpenAPIModelName, schema_arc_api_arc_v1alpha1_ArtifactWorkflowList ref),
      (ArtifactWorkflowParameter_OpenAPIModelName, schema_arc_api_arc_v1alpha1_ArtifactWorkflowParameter ref),
      (ArtifactWorkflowSpec_OpenAPIModelName, schema_arc_api_arc_v1alpha1_ArtifactWorkflowSpec ref),
      (ArtifactWorkflowStatus_OpenAPIModelName, schema_arc_api_arc_v1alpha1_ArtifactWorkflowStatus ref),
      (Endpoint_OpenAPIModelName, schema_arc_api_arc_v1alpha1_Endpoint ref),
      (EndpointList_OpenAPIModelName, schema_arc_api_arc_v1alpha1_EndpointList ref),
      (EndpointSpec_OpenAPIModelName, schema_arc_api_arc_v1alpha1_EndpointSpec ref),
      (EndpointStatus_OpenAPIModelName, schema_arc_api_arc_v1alpha1_EndpointStatus ref),
      (Order_OpenAPIModelName, schema_arc_api_arc_v1alpha1_Order ref),
      (OrderArtifact_OpenAPIModelName, schema_arc_api_arc_v1alpha1_OrderArtifact ref),
      (OrderArtifactWorkflowStatus_OpenAPIModelName, schema_arc_api_arc_v1alpha1_OrderArtifactWorkflowStatus ref),
      (OrderDefaults_OpenAPIModelName, schema_arc_api_arc_v1alpha1_OrderDefaults ref),
      (OrderList_OpenAPIModelName, schema_arc_api_arc_v1alpha1_OrderList ref),
      (OrderSpec_OpenAPIModelName, schema_arc_api_arc_v1alpha1_OrderSpec ref),
      (OrderStatus_OpenAPIModelName, schema_arc_api_arc_v1alpha1_OrderStatus ref)]"

definition core_definitions1 ::
  "'r openapi_library \<Rightarrow> (string \<Rightarrow> 'r) \<Rightarrow> (string \<times> 'r OpenAPIDefinition) list" where
  [table_defs]: "core_definitions1 lib ref =
     [(core_v1 ''AWSElasticBlockStoreVolumeSource'', schema_k8sio_api_core_v1_AWSElasticBlockStoreVolumeSource ref),
      (core_v1 ''Affinity'', schema_k8sio_api_core_v1_Affinity ref),
      (core_v1 ''AppArmorProfile'', schema_k8sio_api_core_v1_AppArmorProfile ref),
      (core_v1 ''AttachedVolume'', schema_k8sio_api_core_v1_AttachedVolume ref),
      (core_v1 ''AvoidPods'', schema_k8sio_api_core_v1_AvoidPods ref),
      (core_v1 ''AzureDiskVolumeSource'', schema_k8sio_api_core_v1_AzureDiskVolumeSource lib ref),
      (core_v1 ''AzureFilePersistentVolumeSource'', schema_k8sio_api_core_v1_AzureFilePersistentVolumeSource ref),
      (core_v1 ''AzureFileVolumeSource'', schema_k8sio_api_core_v1_AzureFileVolumeSource ref),
      (core_v1 ''Binding'', schema_k8sio_api_core_v1_Binding ref),
      (core_v1 ''CSIPersistentVolumeSource'', schema_k8sio_api_core_v1_CSIPersistentVolumeSource ref),
      (core_v1 ''CSIVolumeSource'', schema_k8sio_api_core_v1_CSIVolumeSource ref),
      (core_v1 ''Capabilities'', schema_k8sio_api_core_v1_Capabilities ref),
      (core_v1 ''CephFSPersistentVolumeSource'', schema_k8sio_api_core_v1_CephFSPersistentVolumeSource ref),
      (core_v1 ''CephFSVolumeSource'', schema_k8sio_api_core_v1_CephFSVolumeSource ref),
      (core_v1 ''CinderPersistentVolumeSource'', schema_k8sio_api_core_v1_CinderPersistentVolumeSource ref),
      (core_v1 ''CinderVolumeSource'', schema_k8sio_api_core_v1_CinderVolumeSource ref),
      (core_v1 ''ClientIPConfig'', schema_k8sio_api_core_v1_ClientIPConfig ref),
      (core_v1 ''ClusterTrustBundleProjection'', schema_k8sio_api_core_v1_ClusterTrustBundleProjection ref),
      (core_v1 ''ComponentCondition'', schema_k8sio_api_core_v1_ComponentCondition ref),
      (core_v1 ''ComponentStatus'', schema_k8sio_api_core_v1_ComponentStatus ref),
      (core_v1 ''ComponentStatusList'', schema_k8sio_api_core_v1_ComponentStatusList ref),
      (core_v1 ''ConfigMap'', schema_k8sio_api_core_v1_ConfigMap ref),
      (core_v1 ''ConfigMapEnvSource'', schema_k8sio_api_core_v1_ConfigMapEnvSource ref),
      (core_v1 ''ConfigMapKeySelector'', schema_k8sio_api_core_v1_ConfigMapKeySelector ref),
      (core_v1 ''ConfigMapList'', schema_k8sio_api_core_v1_ConfigMapList ref),
      (core_v1 ''ConfigMapNodeConfigSource'', schema_k8sio_api_core_v1_ConfigMapNodeConfigSource ref),
      (core_v1 ''ConfigMapProjection'', schema_k8sio_api_core_v1_ConfigMapProjection ref),
      (core_v1 ''ConfigMapVolumeSource'', schema_k8sio_api_core_v1_ConfigMapVolumeSource ref),
      (core_v1 ''Container'', schema_k8sio_api_core_v1_Container ref),
      (core_v1 ''ContainerExtendedResourceRequest'', schema_k8sio_api_core_v1_ContainerExtendedResourceRequest ref),
      (core_v1 ''ContainerImage'', schema_k8sio_api_core_v1_ContainerImage ref),
      (core_v1 ''ContainerPort'', schema_k8sio_api_core_v1_ContainerPort ref),
      (core_v1 ''ContainerResizePolicy'', schema_k8sio_api_core_v1_ContainerResizePolicy ref),
      (core_v1 ''ContainerRestartRule'', schema_k8sio_api_core_v1_ContainerRestartRule ref),
      (core_v1 ''ContainerRestartRuleOnExitCodes'', schema_k8sio_api_core_v1_ContainerRestartRuleOnExitCodes ref),
      (core_v1 ''ContainerState'', schema_k8sio_api_core_v1_ContainerState ref),
      (core_v1 ''ContainerStateRunning'', schema_k8sio_api_core_v1_ContainerStateRunning ref),
      (core_v1 ''ContainerStateTerminated'', schema_k8sio_api_core_v1_ContainerStateTerminated ref),
      (core_v1 ''ContainerStateWaiting'', schema_k8sio_api_core_v1_ContainerStateWaiting ref),
      (core_v1 ''ContainerStatus'', schema_k8sio_api_core_v1_ContainerStatus ref),
      (core_v1 ''ContainerUser'', schema_k8sio_api_core_v1_ContainerUser ref),
      (core_v1 ''DaemonEndpoint'', schema_k8sio_api_core_v1_DaemonEndpoint ref),
      (core_v1 ''DownwardAPIProjection'', schema_k8sio_api_core_v1_DownwardAPIProjection ref),
      (core_v1 ''DownwardAPIVolumeFile'', schema_k8sio_api_core_v1_DownwardAPIVolumeFile ref),
      (core_v1 ''DownwardAPIVolumeSource'', schema_k8sio_api_core_v1_DownwardAPIVolumeSource ref),
      (core_v1 ''EmptyDirVolumeSource'', schema_k8sio_api_core_v1_EmptyDirVolumeSource ref),
      (core_v1 ''EndpointAddress'', schema_k8sio_api_core_v1_EndpointAddress ref),
      (core_v1 ''EndpointPort'', schema_k8sio_api_core_v1_EndpointPort ref),
      (core_v1 ''EndpointSubset'', schema_k8sio_api_core_v1_EndpointSubset ref),
      (core_v1 ''Endpoints'', schema_k8sio_api_core_v1_Endpoints ref),
      (core_v1 ''EndpointsList'', schema_k8sio_api_core_v1_EndpointsList ref),
      (core_v1 ''EnvFromSource'', schema_k8sio_api_core_v1_EnvFromSource ref),
      (core_v1 ''EnvVar'', schema_k8sio_api_core_v1_EnvVar ref),
      (core_v1 ''EnvVarSource'', schema_k8sio_api_core_v1_EnvVarSource ref),
      (core_v1 ''EphemeralContainer'', schema_k8sio_api_core_v1_EphemeralContainer ref),
      (core_v1 ''EphemeralContainerCommon'', schema_k8sio_api_core_v1_EphemeralContainerCommon ref),
      (core_v1 ''EphemeralVolumeSource'', schema_k8sio_api_core_v1_EphemeralVolumeSource ref),
      (core_v1 ''Event'', schema_k8sio_api_core_v1_Event ref)]"

definition core_definitions2 ::
  "(string \<Rightarrow> 'r) \<Rightarrow> (string \<times> 'r OpenAPIDefinition) list" where
  [table_defs]: "core_definitions2 ref =
     [(core_v1 ''EventList'', schema_k8sio_api_core_v1_EventList ref),
      (core_v1 ''EventSeries'', schema_k8sio_api_core_v1_EventSeries ref),
      (core_v1 ''EventSource'', schema_k8sio_api_core_v1_EventSource ref),
      (core_v1 ''ExecAction'', schema_k8sio_api_core_v1_ExecAction ref),
      (core_v1 ''FCVolumeSource'', schema_k8sio_api_core_v1_FCVolumeSource ref),
      (core_v1 ''FileKeySelector'', schema_k8sio_api_core_v1_FileKeySelector ref),
      (core_v1 ''FlexPersistentVolumeSource'', schema_k8sio_api_core_v1_FlexPersistentVolumeSource ref),
      (core_v1 ''FlexVolumeSource'', schema_k8sio_api_core_v1_FlexVolumeSource ref),
      (core_v1 ''FlockerVolumeSource'', schema_k8sio_api_core_v1_FlockerVolumeSource ref),
      (core_v1 ''GCEPersistentDiskVolumeSource'', schema_k8sio_api_core_v1_GCEPersistentDiskVolumeSource ref),
      (core_v1 ''GRPCAction'', schema_k8sio_api_core_v1_GRPCAction ref),
      (core_v1 ''GitRepoVolumeSource'', schema_k8sio_api_core_v1_GitRepoVolumeSource ref),
      (core_v1 ''GlusterfsPersistentVolumeSource'', schema_k8sio_api_core_v1_GlusterfsPersistentVolumeSource ref),
      (core_v1 ''GlusterfsVolumeSource'', schema_k8sio_api_core_v1_GlusterfsVolumeSource ref),
      (core_v1 ''HTTPGetAction'', schema_k8sio_api_core_v1_HTTPGetAction ref),
      (core_v1 ''HTTPHeader'', schema_k8sio_api_core_v1_HTTPHeader ref),
      (core_v1 ''HostAlias'', schema_k8sio_api_core_v1_HostAlias ref),
      (core_v1 ''HostIP'', schema_k8sio_api_core_v1_HostIP ref),
      (core_v1 ''HostPathVolumeSource'', schema_k8sio_api_core_v1_HostPathVolumeSource ref),
      (core_v1 ''ISCSIPersistentVolumeSource'', schema_k8sio_api_core_v1_ISCSIPersistentVolumeSource ref),
      (core_v1 ''ISCSIVolumeSource'', schema_k8sio_api_core_v1_ISCSIVolumeSource ref),
      (core_v1 ''ImageVolumeSource'', schema_k8sio_api_core_v1_ImageVolumeSource ref),
      (core_v1 ''KeyToPath'', schema_k8sio_api_core_v1_KeyToPath ref),
      (core_v1 ''Lifecycle'', schema_k8sio_api_core_v1_Lifecycle ref),
      (core_v1 ''LifecycleHandler'', schema_k8sio_api_core_v1_LifecycleHandler ref),
      (core_v1 ''LimitRange'', schema_k8sio_api_core_v1_LimitRange ref),
      (core_v1 ''LimitRangeItem'', schema_k8sio_api_core_v1_LimitRangeItem ref),
      (core_v1 ''LimitRangeList'', schema_k8sio_api_core_v1_LimitRangeList ref),
      (core_v1 ''LimitRangeSpec'', schema_k8sio_api_core_v1_LimitRangeSpec ref),
      (core_v1 ''LinuxContainerUser'', schema_k8sio_api_core_v1_LinuxContainerUser ref),
      (core_v1 ''List'', schema_k8sio_api_core_v1_List ref),
      (core_v1 ''LoadBalancerIngress'', schema_k8sio_api_core_v1_LoadBalancerIngress ref),
      (core_v1 ''LoadBalancerStatus'', schema_k8sio_api_core_v1_LoadBalancerStatus ref),
      (core_v1 ''LocalObjectReference'', schema_k8sio_api_core_v1_LocalObjectReference ref),
      (core_v1 ''LocalVolumeSource'', schema_k8sio_api_core_v1_LocalVolumeSource ref),
      (core_v1 ''ModifyVolumeStatus'', schema_k8sio_api_core_v1_ModifyVolumeStatus ref),
      (core_v1 ''NFSVolumeSource'', schema_k8sio_api_core_v1_NFSVolumeSource ref),
      (core_v1 ''Namespace'', schema_k8sio_api_core_v1_Namespace ref),
      (core_v1 ''NamespaceCondition'', schema_k8sio_api_core_v1_NamespaceCondition ref),
      (core_v1 ''NamespaceList'', schema_k8sio_api_core_v1_NamespaceList ref),
      (core_v1 ''NamespaceSpec'', schema_k8sio_api_core_v1_NamespaceSpec ref),
      (core_v1 ''NamespaceStatus'', schema_k8sio_api_core_v1_NamespaceStatus ref),
      (core_v1 ''Node'', schema_k8sio_api_core_v1_Node ref),
      (core_v1 ''NodeAddress'', schema_k8sio_api_core_v1_NodeAddress ref),
      (core_v1 ''NodeAffinity'', schema_k8sio_api_core_v1_NodeAffinity ref),
      (core_v1 ''NodeCondition'', schema_k8sio_api_core_v1_NodeCondition ref),
      (core_v1 ''NodeConfigSource'', schema_k8sio_api_core_v1_NodeConfigSource ref),
      (core_v1 ''NodeConfigStatus'', schema_k8sio_api_core_v1_NodeConfigStatus ref),
      (core_v1 ''NodeDaemonEndpoints'', schema_k8sio_api_core_v1_NodeDaemonEndpoints ref),
      (core_v1 ''NodeFeatures'', schema_k8sio_api_core_v1_NodeFeatures ref),
      (core_v1 ''NodeList'', schema_k8sio_api_core_v1_NodeList ref),
      (core_v1 ''NodeProxyOptions'', schema_k8sio_api_core_v1_NodeProxyOptions ref),
      (core_v1 ''NodeRuntimeHandler'', schema_k8sio_api_core_v1_NodeRuntimeHandler ref),
      (core_v1 ''NodeRuntimeHandlerFeatures'', schema_k8sio_api_core_v1_NodeRuntimeHandlerFeatures ref),
      (core_v1 ''NodeSelector'', schema_k8sio_api_core_v1_NodeSelector ref),
      (core_v1 ''NodeSelectorRequirement'', schema_k8sio_api_core_v1_NodeSelectorRequirement ref),
      (core_v1 ''NodeSelectorTerm'', schema_k8sio_api_core_v1_NodeSelectorTerm ref),
      (core_v1 ''NodeSpec'', schema_k8sio_api_core_v1_NodeSpec ref),
      (core_v1 ''NodeStatus'', schema_k8sio_api_core_v1_NodeStatus ref),
      (core_v1 ''NodeSwapStatus'', schema_k8sio_api_core_v1_NodeSwapStatus ref),
      (core_v1 ''NodeSystemInfo'', schema_k8sio_api_core_v1_NodeSystemInfo ref),
      (core_v1 ''ObjectFieldSelector'', schema_k8sio_api_core_v1_ObjectFieldSelector ref),
      (core_v1 ''ObjectReference'', schema_k8sio_api_core_v1_ObjectReference ref),
      (core_v1 ''PersistentVolume'', schema_k8sio_api_core_v1_PersistentVolume ref),
      (core_v1 ''PersistentVolumeClaim'', schema_k8sio_api_core_v1_PersistentVolumeClaim ref),
      (core_v1 ''PersistentVolumeClaimCondition'', schema_k8sio_api_core_v1_PersistentVolumeClaimCondition ref),
      (core_v1 ''PersistentVolumeClaimList'', schema_k8sio_api_core_v1_PersistentVolumeClaimList ref),
      (core_v1 ''PersistentVolumeClaimSpec'', schema_k8sio_api_core_v1_PersistentVolumeClaimSpec ref)]"

definition core_definitions3 ::
  "(string \<Rightarrow> 'r) \<Rightarrow> (string \<times> 'r OpenAPIDefinition) list" where
  [table_defs]: "core_definitions3 ref =
     [(core_v1 ''PersistentVolumeClaimStatus'', schema_k8sio_api_core_v1_PersistentVolumeClaimStatus ref),
      (core_v1 ''PersistentVolumeClaimTemplate'', schema_k8sio_api_core_v1_PersistentVolumeClaimTemplate ref),
      (core_v1 ''PersistentVolumeClaimVolumeSource'', schema_k8sio_api_core_v1_PersistentVolumeClaimVolumeSource ref),
      (core_v1 ''PersistentVolumeList'', schema_k8sio_api_core_v1_PersistentVolumeList ref),
      (core_v1 ''PersistentVolumeSource'', schema_k8sio_api_core_v1_PersistentVolumeSource ref),
      (core_v1 ''PersistentVolumeSpec'', schema_k8sio_api_core_v1_PersistentVolumeSpec ref),
      (core_v1 ''PersistentVolumeStatus'', schema_k8sio_api_core_v1_PersistentVolumeStatus ref),
      (core_v1 ''PhotonPersistentDiskVolumeSource'', schema_k8sio_api_core_v1_PhotonPersistentDiskVolumeSource ref),
      (core_v1 ''Pod'', schema_k8sio_api_core_v1_Pod ref),
      (core_v1 ''PodAffinity'', schema_k8sio_api_core_v1_PodAffinity ref),
      (core_v1 ''PodAffinityTerm'', schema_k8sio_api_core_v1_PodAffinityTerm ref),
      (core_v1 ''PodAntiAffinity'', schema_k8sio_api_core_v1_PodAntiAffinity ref),
      (core_v1 ''PodAttachOptions'', schema_k8sio_api_core_v1_PodAttachOptions ref),
      (core_v1 ''PodCertificateProjection'', schema_k8sio_api_core_v1_PodCertificateProjection ref),
      (core_v1 ''PodCondition'', schema_k8sio_api_core_v1_PodCondition ref),
      (core_v1 ''PodDNSConfig'', schema_k8sio_api_core_v1_PodDNSConfig ref),
      (core_v1 ''PodDNSConfigOption'', schema_k8sio_api_core_v1_PodDNSConfigOption ref),
      (core_v1 ''PodExecOptions'', schema_k8sio_api_core_v1_PodExecOptions ref),
      (core_v1 ''PodExtendedResourceClaimStatus'', schema_k8sio_api_core_v1_PodExtendedResourceClaimStatus ref),
      (core_v1 ''PodIP'', schema_k8sio_api_core_v1_PodIP ref),
      (core_v1 ''PodList'', schema_k8sio_api_core_v1_PodList ref),
      (core_v1 ''PodLogOptions'', schema_k8sio_api_core_v1_PodLogOptions ref),
      (core_v1 ''PodOS'', schema_k8sio_api_core_v1_PodOS ref),
      (core_v1 ''PodPortForwardOptions'', schema_k8sio_api_core_v1_PodPortForwardOptions ref),
      (core_v1 ''PodProxyOptions'', schema_k8sio_api_core_v1_PodProxyOptions ref),
      (core_v1 ''PodReadinessGate'', schema_k8sio_api_core_v1_PodReadinessGate ref),
      (core_v1 ''PodResourceClaim'', schema_k8sio_api_core_v1_PodResourceClaim ref),
      (core_v1 ''PodResourceClaimStatus'', schema_k8sio_api_core_v1_PodResourceClaimStatus ref),
      (core_v1 ''PodSchedulingGate'', schema_k8sio_api_core_v1_PodSchedulingGate ref),
      (core_v1 ''PodSecurityContext'', schema_k8sio_api_core_v1_PodSecurityContext ref),
      (core_v1 ''PodSignature'', schema_k8sio_api_core_v1_PodSignature ref),
      (core_v1 ''PodSpec'', schema_k8sio_api_core_v1_PodSpec ref),
      (core_v1 ''PodStatus'', schema_k8sio_api_core_v1_PodStatus ref),
      (core_v1 ''PodStatusResult'', schema_k8sio_api_core_v1_PodStatusResult ref),
      (core_v1 ''PodTemplate'', schema_k8sio_api_core_v1_PodTemplate ref),
      (core_v1 ''PodTemplateList'', schema_k8sio_api_core_v1_PodTemplateList ref),
      (core_v1 ''PodTemplateSpec'', schema_k8sio_api_core_v1_PodTemplateSpec ref),
      (core_v1 ''PortStatus'', schema_k8sio_api_core_v1_PortStatus ref),
      (core_v1 ''PortworxVolumeSource'', schema_k8sio_api_core_v1_PortworxVolumeSource ref),
      (core_v1 ''PreferAvoidPodsEntry'', schema_k8sio_api_core_v1_PreferAvoidPodsEntry ref),
      (core_v1 ''PreferredSchedulingTerm'', schema_k8sio_api_core_v1_PreferredSchedulingTerm ref),
      (core_v1 ''Probe'', schema_k8sio_api_core_v1_Probe ref),
      (core_v1 ''ProbeHandler'', schema_k8sio_api_core_v1_ProbeHandler ref),
      (core_v1 ''ProjectedVolumeSource'', schema_k8sio_api_core_v1_ProjectedVolumeSource ref),
      (core_v1 ''QuobyteVolumeSource'', schema_k8sio_api_core_v1_QuobyteVolumeSource ref),
      (core_v1 ''RBDPersistentVolumeSource'', schema_k8sio_api_core_v1_RBDPersistentVolumeSource ref),
      (core_v1 ''RBDVolumeSource'', schema_k8sio_api_core_v1_RBDVolumeSource ref),
      (core_v1 ''RangeAllocation'', schema_k8sio_api_core_v1_RangeAllocation ref),
      (core_v1 ''ReplicationController'', schema_k8sio_api_core_v1_ReplicationController ref),
      (core_v1 ''ReplicationControllerCondition'', schema_k8sio_api_core_v1_ReplicationControllerCondition ref),
      (core_v1 ''ReplicationControllerList'', schema_k8sio_api_core_v1_ReplicationControllerList ref),
      (core_v1 ''ReplicationControllerSpec'', schema_k8sio_api_core_v1_ReplicationControllerSpec ref)]"

definition core_definitions4 ::
  "(string \<Rightarrow> 'r) \<Rightarrow> (string \<times> 'r OpenAPIDefinition) list" where
  [table_defs]: "core_definitions4 ref =
     [(core_v1 ''ReplicationControllerStatus'', schema_k8sio_api_core_v1_ReplicationControllerStatus ref),
      (core_v1 ''ResourceClaim'', schema_k8sio_api_core_v1_ResourceClaim ref),
      (core_v1 ''ResourceFieldSelector'', schema_k8sio_api_core_v1_ResourceFieldSelector ref),
      (core_v1 ''ResourceHealth'', schema_k8sio_api_core_v1_ResourceHealth ref),
      (core_v1 ''ResourceQuota'', schema_k8sio_api_core_v1_ResourceQuota ref),
      (core_v1 ''ResourceQuotaList'', schema_k8sio_api_core_v1_ResourceQuotaList ref),
      (core_v1 ''ResourceQuotaSpec'', schema_k8sio_api_core_v1_ResourceQuotaSpec ref),
      (core_v1 ''ResourceQuotaStatus'', schema_k8sio_api_core_v1_ResourceQuotaStatus ref),
      (core_v1 ''ResourceRequirements'', schema_k8sio_api_core_v1_ResourceRequirements ref),
      (core_v1 ''ResourceStatus'', schema_k8sio_api_core_v1_ResourceStatus ref),
      (core_v1 ''SELinuxOptions'', schema_k8sio_api_core_v1_SELinuxOptions ref),
      (core_v1 ''ScaleIOPersistentVolumeSource'', schema_k8sio_api_core_v1_ScaleIOPersistentVolumeSource ref),
      (core_v1 ''ScaleIOVolumeSource'', schema_k8sio_api_core_v1_ScaleIOVolumeSource ref),
      (core_v1 ''ScopeSelector'', schema_k8sio_api_core_v1_ScopeSelector ref),
      (core_v1 ''ScopedResourceSelectorRequirement'', schema_k8sio_api_core_v1_ScopedResourceSelectorRequirement ref),
      (core_v1 ''SeccompProfile'', schema_k8sio_api_core_v1_SeccompProfile ref),
      (core_v1 ''Secret'', schema_k8sio_api_core_v1_Secret ref),
      (core_v1 ''SecretEnvSource'', schema_k8sio_api_core_v1_SecretEnvSource ref),
      (core_v1 ''SecretKeySelector'', schema_k8sio_api_core_v1_SecretKeySelector ref),
      (core_v1 ''SecretList'', schema_k8sio_api_core_v1_SecretList ref),
      (core_v1 ''SecretProjection'', schema_k8sio_api_core_v1_SecretProjection ref),
      (core_v1 ''SecretReference'', schema_k8sio_api_core_v1_SecretReference ref),
      (core_v1 ''SecretVolumeSource'', schema_k8sio_api_core_v1_SecretVolumeSource ref),
      (core_v1 ''SecurityContext'', schema_k8sio_api_core_v1_SecurityContext ref),
      (core_v1 ''SerializedReference'', schema_k8sio_api_core_v1_SerializedReference ref),
      (core_v1 ''Service'', schema_k8sio_api_core_v1_Service ref),
      (core_v1 ''ServiceAccount'', schema_k8sio_api_core_v1_ServiceAccount ref),
      (core_v1 ''ServiceAccountList'', schema_k8sio_api_core_v1_ServiceAccountList ref),
      (core_v1 ''ServiceAccountTokenProjection'', schema_k8sio_api_core_v1_ServiceAccountTokenProjection ref),
      (core_v1 ''ServiceList'', schema_k8sio_api_core_v1_ServiceList ref),
      (core_v1 ''ServicePort'', schema_k8sio_api_core_v1_ServicePort ref),
      (core_v1 ''ServiceProxyOptions'', schema_k8sio_api_core_v1_ServiceProxyOptions ref),
      (core_v1 ''ServiceSpec'', schema_k8sio_api_core_v1_ServiceSpec ref),
      (core_v1 ''ServiceStatus'', schema_k8sio_api_core_v1_ServiceStatus ref),
      (core_v1 ''SessionAffinityConfig'', schema_k8sio_api_core_v1_SessionAffinityConfig ref),
      (core_v1 ''SleepAction'', schema_k8sio_api_core_v1_SleepAction ref),
      (core_v1 ''StorageOSPersistentVolumeSource'', schema_k8sio_api_core_v1_StorageOSPersistentVolumeSource ref),
      (core_v1 ''StorageOSVolumeSource'', schema_k8sio_api_core_v1_StorageOSVolumeSource ref),
      (core_v1 ''Sysctl'', schema_k8sio_api_core_v1_Sysctl ref),
      (core_v1 ''TCPSocketAction'', schema_k8sio_api_core_v1_TCPSocketAction ref),
      (core_v1 ''Taint'', schema_k8sio_api_core_v1_Taint ref),
      (core_v1 ''Toleration'', schema_k8sio_api_core_v1_Toleration ref),
      (core_v1 ''TopologySelectorLabelRequirement'', schema_k8sio_api_core_v1_TopologySelectorLabelRequirement ref),
      (core_v1 ''TopologySelectorTerm'', schema_k8sio_api_core_v1_TopologySelectorTerm ref),
      (core_v1 ''TopologySpreadConstraint'', schema_k8sio_api_core_v1_TopologySpreadConstraint ref),
      (core_v1 ''TypedLocalObjectReference'', schema_k8sio_api_core_v1_TypedLocalObjectReference ref),
      (core_v1 ''TypedObjectReference'', schema_k8sio_api_core_v1_TypedObjectReference ref),
      (core_v1 ''Volume'', schema_k8sio_api_core_v1_Volume ref),
      (core_v1 ''VolumeDevice'', schema_k8sio_api_core_v1_VolumeDevice ref),
      (core_v1 ''VolumeMount'', schema_k8sio_api_core_v1_VolumeMount ref),
      (core_v1 ''VolumeMountStatus'', schema_k8sio_api_core_v1_VolumeMountStatus ref),
      (core_v1 ''VolumeNodeAffinity'', schema_k8sio_api_core_v1_VolumeNodeAffinity ref),
      (core_v1 ''VolumeProjection'', schema_k8sio_api_core_v1_VolumeProjection ref),
      (core_v1 ''VolumeResourceRequirements'', schema_k8sio_api_core_v1_VolumeResourceRequirements ref),
      (core_v1 ''VolumeSource'', schema_k8sio_api_core_v1_VolumeSource ref),
      (core_v1 ''VsphereVirtualDiskVolumeSource'', schema_k8sio_api_core_v1_VsphereVirtualDiskVolumeSource ref),
      (core_v1 ''WeightedPodAffinityTerm'', schema_k8sio_api_core_v1_WeightedPodAffinityTerm ref),
      (core_v1 ''WindowsSecurityContextOptions'', schema_k8sio_api_core_v1_WindowsSecurityContextOptions ref)]"

definition machinery_definitions ::
  "'r openapi_library \<Rightarrow> (string \<Rightarrow> 'r) \<Rightarrow> (string \<times> 'r OpenAPIDefinition) list" where
  [table_defs]: "machinery_definitions lib ref =
     [(pkg_resource ''Quantity'', schema_apimachinery_pkg_api_resource_Quantity lib ref),
      (meta_v1 ''APIGroup'', schema_pkg_apis_meta_v1_APIGroup ref),
      (meta_v1 ''APIGroupList'', schema_pkg_apis_meta_v1_APIGroupList ref),
      (meta_v1 ''APIResource'', schema_pkg_apis_meta_v1_APIResource ref),
      (meta_v1 ''APIResourceList'', schema_pkg_apis_meta_v1_APIResourceList ref),
      (meta_v1 ''APIVersions'', schema_pkg_apis_meta_v1_APIVersions ref),
      (meta_v1 ''ApplyOptions'', schema_pkg_apis_meta_v1_ApplyOptions ref),
      (meta_v1 ''Condition'', schema_pkg_apis_meta_v1_Condition ref),
      (meta_v1 ''CreateOptions'', schema_pkg_apis_meta_v1_CreateOptions ref),
      (meta_v1 ''DeleteOptions'', schema_pkg_apis_meta_v1_DeleteOptions ref),
      (meta_v1 ''Duration'', schema_pkg_apis_meta_v1_Duration lib ref),
      (meta_v1 ''FieldSelectorRequirement'', schema_pkg_apis_meta_v1_FieldSelectorRequirement ref),
      (meta_v1 ''FieldsV1'', schema_pkg_apis_meta_v1_FieldsV1 ref),
      (meta_v1 ''GetOptions'', schema_pkg_apis_meta_v1_GetOptions ref),
      (meta_v1 ''GroupKind'', schema_pkg_apis_meta_v1_GroupKind ref),
      (meta_v1 ''GroupResource'', schema_pkg_apis_meta_v1_GroupResource ref),
      (meta_v1 ''GroupVersion'', schema_pkg_apis_meta_v1_GroupVersion ref),
      (meta_v1 ''GroupVersionForDiscovery'', schema_pkg_apis_meta_v1_GroupVersionForDiscovery ref),
      (meta_v1 ''GroupVersionKind'', schema_pkg_apis_meta_v1_GroupVersionKind ref),
      (meta_v1 ''GroupVersionResource'', schema_pkg_apis_meta_v1_GroupVersionResource ref),
      (meta_v1 ''InternalEvent'', schema_pkg_apis_meta_v1_InternalEvent ref),
      (meta_v1 ''LabelSelector'', schema_pkg_apis_meta_v1_LabelSelector ref),
      (meta_v1 ''LabelSelectorRequirement'', schema_pkg_apis_meta_v1_LabelSelectorRequirement ref),
      (meta_v1 ''List'', schema_pkg_apis_meta_v1_List ref),
      (meta_v1 ''ListMeta'', schema_pkg_apis_meta_v1_ListMeta ref),
      (meta_v1 ''ListOptions'', schema_pkg_apis_meta_v1_ListOptions ref),
      (meta_v1 ''ManagedFieldsEntry'', schema_pkg_apis_meta_v1_ManagedFieldsEntry ref),
      (meta_v1 ''MicroTime'', schema_pkg_apis_meta_v1_MicroTime lib ref),
      (meta_v1 ''ObjectMeta'', schema_pkg_apis_meta_v1_ObjectMeta ref),
      (meta_v1 ''OwnerReference'', schema_pkg_apis_meta_v1_OwnerReference ref),
      (meta_v1 ''PartialObjectMetadata'', schema_pkg_apis_meta_v1_PartialObjectMetadata ref),
      (meta_v1 ''PartialObjectMetadataList'', schema_pkg_apis_meta_v1_PartialObjectMetadataList ref),
      (meta_v1 ''Patch'', schema_pkg_apis_meta_v1_Patch ref),
      (meta_v1 ''PatchOptions'', schema_pkg_apis_meta_v1_PatchOptions ref),
      (meta_v1 ''Preconditions'', schema_pkg_apis_meta_v1_Preconditions ref),
      (meta_v1 ''RootPaths'', schema_pkg_apis_meta_v1_RootPaths ref),
      (meta_v1 ''ServerAddressByClientCIDR'', schema_pkg_apis_meta_v1_ServerAddressByClientCIDR ref),
      (meta_v1 ''Status'', schema_pkg_apis_meta_v1_Status ref),
      (meta_v1 ''StatusCause'', schema_pkg_apis_meta_v1_StatusCause ref),
      (meta_v1 ''StatusDetails'', schema_pkg_apis_meta_v1_StatusDetails ref),
      (meta_v1 ''Table'', schema_pkg_apis_meta_v1_Table ref),
      (meta_v1 ''TableColumnDefinition'', schema_pkg_apis_meta_v1_TableColumnDefinition ref),
      (meta_v1 ''TableOptions'', schema_pkg_apis_meta_v1_TableOptions ref),
      (meta_v1 ''TableRow'', schema_pkg_apis_meta_v1_TableRow ref),
      (meta_v1 ''TableRowCondition'', schema_pkg_apis_meta_v1_TableRowCondition ref),
      (meta_v1 ''Time'', schema_pkg_apis_meta_v1_Time lib ref),
      (meta_v1 ''Timestamp'', schema_pkg_apis_meta_v1_Timestamp ref),
      (meta_v1 ''TypeMeta'', schema_pkg_apis_meta_v1_TypeMeta ref),
      (meta_v1 ''UpdateOptions'', schema_pkg_apis_meta_v1_UpdateOptions ref),
      (meta_v1 ''WatchEvent'', schema_pkg_apis_meta_v1_WatchEvent ref),
      (pkg_runtime ''RawExtension'', schema_k8sio_apimachinery_pkg_runtime_RawExtension ref),
      (pkg_runtime ''TypeMeta'', schema_k8sio_apimachinery_pkg_runtime_TypeMeta ref),
      (pkg_runtime ''Unknown'', schema_k8sio_apimachinery_pkg_runtime_Unknown ref),
      (pkg_version ''Info'', schema_k8sio_apimachinery_pkg_version_Info ref)]"

definition GetOpenAPIDefinitions ::
  "'r openapi_library \<Rightarrow> (string \<Rightarrow> 'r) \<Rightarrow> (string \<times> 'r OpenAPIDefinition) list" where
  "GetOpenAPIDefinitions lib ref =
     arc_definitions ref @
     core_definitions1 lib ref @
     core_definitions2 ref @
     core_definitions3 ref @
     core_definitions4 ref @
     machinery_definitions lib ref"

subsection \<open>Names\<close>

definition definition_names :: "string list" where
  "definition_names =
     [ArtifactType_OpenAPIModelName, ArtifactTypeList_OpenAPIModelName,
      ArtifactTypeRules_OpenAPIModelName, ArtifactTypeSpec_OpenAPIModelName,
      ArtifactTypeStatus_OpenAPIModelName, ArtifactWorkflow_OpenAPIModelName,
      ArtifactWorkflowList_OpenAPIModelName, ArtifactWorkflowParameter_OpenAPIModelName,
      ArtifactWorkflowSpec_OpenAPIModelName, ArtifactWorkflowStatus_OpenAPIModelName,
      Endpoint_OpenAPIModelName, EndpointList_OpenAPIModelName, EndpointSpec_OpenAPIModelName,
      EndpointStatus_OpenAPIModelName, Order_OpenAPIModelName, OrderArtifact_OpenAPIModelName,
      OrderArtifactWorkflowStatus_OpenAPIModelName, OrderDefaults_OpenAPIModelName,
      OrderList_OpenAPIModelName, OrderSpec_OpenAPIModelName, OrderStatus_OpenAPIModelName,
      core_v1 ''AWSElasticBlockStoreVolumeSource'', core_v1 ''Affinity'',
      core_v1 ''AppArmorProfile'', core_v1 ''AttachedVolume'', core_v1 ''AvoidPods'',
      core_v1 ''AzureDiskVolumeSource'', core_v1 ''AzureFilePersistentVolumeSource'',
      core_v1 ''AzureFileVolumeSource'', core_v1 ''Binding'',
      core_v1 ''CSIPersistentVolumeSource'', core_v1 ''CSIVolumeSource'', core_v1 ''Capabilities'',
      core_v1 ''CephFSPersistentVolumeSource'', core_v1 ''CephFSVolumeSource'',
      core_v1 ''CinderPersistentVolumeSource'', core_v1 ''CinderVolumeSource'',
      core_v1 ''ClientIPConfig'', core_v1 ''ClusterTrustBundleProjection'',
      core_v1 ''ComponentCondition'', core_v1 ''ComponentStatus'', core_v1 ''ComponentStatusList'',
      core_v1 ''ConfigMap'', core_v1 ''ConfigMapEnvSource'', core_v1 ''ConfigMapKeySelector'',
      core_v1 ''ConfigMapList'', core_v1 ''ConfigMapNodeConfigSource'',
      core_v1 ''ConfigMapProjection'', core_v1 ''ConfigMapVolumeSource'', core_v1 ''Container'',
      core_v1 ''ContainerExtendedResourceRequest'', core_v1 ''ContainerImage'',
      core_v1 ''ContainerPort'', core_v1 ''ContainerResizePolicy'',
      core_v1 ''ContainerRestartRule'', core_v1 ''ContainerRestartRuleOnExitCodes'',
      core_v1 ''ContainerState'', core_v1 ''ContainerStateRunning'',
      core_v1 ''ContainerStateTerminated'', core_v1 ''ContainerStateWaiting'',
      core_v1 ''ContainerStatus'', core_v1 ''ContainerUser'', core_v1 ''DaemonEndpoint'',
      core_v1 ''DownwardAPIProjection'', core_v1 ''DownwardAPIVolumeFile'',
      core_v1 ''DownwardAPIVolumeSource'', core_v1 ''EmptyDirVolumeSource'',
      core_v1 ''EndpointAddress'', core_v1 ''EndpointPort'', core_v1 ''EndpointSubset'',
      core_v1 ''Endpoints'', core_v1 ''EndpointsList'', core_v1 ''EnvFromSource'',
      core_v1 ''EnvVar'', core_v1 ''EnvVarSource'', core_v1 ''EphemeralContainer'',
      core_v1 ''EphemeralContainerCommon'', core_v1 ''EphemeralVolumeSource'', core_v1 ''Event'',
      core_v1 ''EventList'', core_v1 ''EventSeries'', core_v1 ''EventSource'',
      core_v1 ''ExecAction'', core_v1 ''FCVolumeSource'', core_v1 ''FileKeySelector'',
      core_v1 ''FlexPersistentVolumeSource'', core_v1 ''FlexVolumeSource'',
      core_v1 ''FlockerVolumeSource'', core_v1 ''GCEPersistentDiskVolumeSource'',
      core_v1 ''GRPCAction'', core_v1 ''GitRepoVolumeSource'',
      core_v1 ''GlusterfsPersistentVolumeSource'', core_v1 ''GlusterfsVolumeSource'',
      core_v1 ''HTTPGetAction'', core_v1 ''HTTPHeader'', core_v1 ''HostAlias'', core_v1 ''HostIP'',
      core_v1 ''HostPathVolumeSource'', core_v1 ''ISCSIPersistentVolumeSource'',
      core_v1 ''ISCSIVolumeSource'', core_v1 ''ImageVolumeSource'', core_v1 ''KeyToPath'',
      core_v1 ''Lifecycle'', core_v1 ''LifecycleHandler'', core_v1 ''LimitRange'',
      core_v1 ''LimitRangeItem'', core_v1 ''LimitRangeList'', core_v1 ''LimitRangeSpec'',
      core_v1 ''LinuxContainerUser'', core_v1 ''List'', core_v1 ''LoadBalancerIngress'',
      core_v1 ''LoadBalancerStatus'', core_v1 ''LocalObjectReference'',
      core_v1 ''LocalVolumeSource'', core_v1 ''ModifyVolumeStatus'', core_v1 ''NFSVolumeSource'',
      core_v1 ''Namespace'', core_v1 ''NamespaceCondition'', core_v1 ''NamespaceList'',
      core_v1 ''NamespaceSpec'', core_v1 ''NamespaceStatus'', core_v1 ''Node'',
      core_v1 ''NodeAddress'', core_v1 ''NodeAffinity'', core_v1 ''NodeCondition'',
      core_v1 ''NodeConfigSource'', core_v1 ''NodeConfigStatus'', core_v1 ''NodeDaemonEndpoints'',
      core_v1 ''NodeFeatures'', core_v1 ''NodeList'', core_v1 ''NodeProxyOptions'',
      core_v1 ''NodeRuntimeHandler'', core_v1 ''NodeRuntimeHandlerFeatures'',
      core_v1 ''NodeSelector'', core_v1 ''NodeSelectorRequirement'', core_v1 ''NodeSelectorTerm'',
      core_v1 ''NodeSpec'', core_v1 ''NodeStatus'', core_v1 ''NodeSwapStatus'',
      core_v1 ''NodeSystemInfo'', core_v1 ''ObjectFieldSelector'', core_v1 ''ObjectReference'',
      core_v1 ''PersistentVolume'', core_v1 ''PersistentVolumeClaim'',
      core_v1 ''PersistentVolumeClaimCondition'', core_v1 ''PersistentVolumeClaimList'',
      core_v1 ''PersistentVolumeClaimSpec'', core_v1 ''PersistentVolumeClaimStatus'',
      core_v1 ''PersistentVolumeClaimTemplate'', core_v1 ''PersistentVolumeClaimVolumeSource'',
      core_v1 ''PersistentVolumeList'', core_v1 ''PersistentVolumeSource'',
      core_v1 ''PersistentVolumeSpec'', core_v1 ''PersistentVolumeStatus'',
      core_v1 ''PhotonPersistentDiskVolumeSource'', core_v1 ''Pod'', core_v1 ''PodAffinity'',
      core_v1 ''PodAffinityTerm'', core_v1 ''PodAntiAffinity'', core_v1 ''PodAttachOptions'',
      core_v1 ''PodCertificateProjection'', core_v1 ''PodCondition'', core_v1 ''PodDNSConfig'',
      core_v1 ''PodDNSConfigOption'', core_v1 ''PodExecOptions'',
      core_v1 ''PodExtendedResourceClaimStatus'', core_v1 ''PodIP'', core_v1 ''PodList'',
      core_v1 ''PodLogOptions'', core_v1 ''PodOS'', core_v1 ''PodPortForwardOptions'',
      core_v1 ''PodProxyOptions'', core_v1 ''PodReadinessGate'', core_v1 ''PodResourceClaim'',
      core_v1 ''PodResourceClaimStatus'', core_v1 ''PodSchedulingGate'',
      core_v1 ''PodSecurityContext'', core_v1 ''PodSignature'', core_v1 ''PodSpec'',
      core_v1 ''PodStatus'', core_v1 ''PodStatusResult'', core_v1 ''PodTemplate'',
      core_v1 ''PodTemplateList'', core_v1 ''PodTemplateSpec'', core_v1 ''PortStatus'',
      core_v1 ''PortworxVolumeSource'', core_v1 ''PreferAvoidPodsEntry'',
      core_v1 ''PreferredSchedulingTerm'', core_v1 ''Probe'', core_v1 ''ProbeHandler'',
      core_v1 ''ProjectedVolumeSource'', core_v1 ''QuobyteVolumeSource'',
      core_v1 ''RBDPersistentVolumeSource'', core_v1 ''RBDVolumeSource'',
      core_v1 ''RangeAllocation'', core_v1 ''ReplicationController'',
      core_v1 ''ReplicationControllerCondition'', core_v1 ''ReplicationControllerList'',
      core_v1 ''ReplicationControllerSpec'', core_v1 ''ReplicationControllerStatus'',
      core_v1 ''ResourceClaim'', core_v1 ''ResourceFieldSelector'', core_v1 ''ResourceHealth'',
      core_v1 ''ResourceQuota'', core_v1 ''ResourceQuotaList'', core_v1 ''ResourceQuotaSpec'',
      core_v1 ''ResourceQuotaStatus'', core_v1 ''ResourceRequirements'',
      core_v1 ''ResourceStatus'', core_v1 ''SELinuxOptions'',
      core_v1 ''ScaleIOPersistentVolumeSource'', core_v1 ''ScaleIOVolumeSource'',
      core_v1 ''ScopeSelector'', core_v1 ''ScopedResourceSelectorRequirement'',
      core_v1 ''SeccompProfile'', core_v1 ''Secret'', core_v1 ''SecretEnvSource'',
      core_v1 ''SecretKeySelector'', core_v1 ''SecretList'', core_v1 ''SecretProjection'',
      core_v1 ''SecretReference'', core_v1 ''SecretVolumeSource'', core_v1 ''SecurityContext'',
      core_v1 ''SerializedReference'', core_v1 ''Service'', core_v1 ''ServiceAccount'',
      core_v1 ''ServiceAccountList'', core_v1 ''ServiceAccountTokenProjection'',
      core_v1 ''ServiceList'', core_v1 ''ServicePort'', core_v1 ''ServiceProxyOptions'',
      core_v1 ''ServiceSpec'', core_v1 ''ServiceStatus'', core_v1 ''SessionAffinityConfig'',
      core_v1 ''SleepAction'', core_v1 ''StorageOSPersistentVolumeSource'',
      core_v1 ''StorageOSVolumeSource'', core_v1 ''Sysctl'', core_v1 ''TCPSocketAction'',
      core_v1 ''Taint'', core_v1 ''Toleration'', core_v1 ''TopologySelectorLabelRequirement'',
      core_v1 ''TopologySelectorTerm'', core_v1 ''TopologySpreadConstraint'',
      core_v1 ''TypedLocalObjectReference'', core_v1 ''TypedObjectReference'', core_v1 ''Volume'',
      core_v1 ''VolumeDevice'', core_v1 ''VolumeMount'', core_v1 ''VolumeMountStatus'',
      core_v1 ''VolumeNodeAffinity'', core_v1 ''VolumeProjection'',
      core_v1 ''VolumeResourceRequirements'', core_v1 ''VolumeSource'',
      core_v1 ''VsphereVirtualDiskVolumeSource'', core_v1 ''WeightedPodAffinityTerm'',
      core_v1 ''WindowsSecurityContextOptions'', pkg_resource ''Quantity'', meta_v1 ''APIGroup'',
      meta_v1 ''APIGroupList'', meta_v1 ''APIResource'', meta_v1 ''APIResourceList'',
      meta_v1 ''APIVersions'', meta_v1 ''ApplyOptions'', meta_v1 ''Condition'',
      meta_v1 ''CreateOptions'', meta_v1 ''DeleteOptions'', meta_v1 ''Duration'',
      meta_v1 ''FieldSelectorRequirement'', meta_v1 ''FieldsV1'', meta_v1 ''GetOptions'',
      meta_v1 ''GroupKind'', meta_v1 ''GroupResource'', meta_v1 ''GroupVersion'',
      meta_v1 ''GroupVersionForDiscovery'', meta_v1 ''GroupVersionKind'',
      meta_v1 ''GroupVersionResource'', meta_v1 ''InternalEvent'', meta_v1 ''LabelSelector'',
      meta_v1 ''LabelSelectorRequirement'', meta_v1 ''List'', meta_v1 ''ListMeta'',
      meta_v1 ''ListOptions'', meta_v1 ''ManagedFieldsEntry'', meta_v1 ''MicroTime'',
      meta_v1 ''ObjectMeta'', meta_v1 ''OwnerReference'', meta_v1 ''PartialObjectMetadata'',
      meta_v1 ''PartialObjectMetadataList'', meta_v1 ''Patch'', meta_v1 ''PatchOptions'',
      meta_v1 ''Preconditions'', meta_v1 ''RootPaths'', meta_v1 ''ServerAddressByClientCIDR'',
      meta_v1 ''Status'', meta_v1 ''StatusCause'', meta_v1 ''StatusDetails'', meta_v1 ''Table'',
      meta_v1 ''TableColumnDefinition'', meta_v1 ''TableOptions'', meta_v1 ''TableRow'',
      meta_v1 ''TableRowCondition'', meta_v1 ''Time'', meta_v1 ''Timestamp'', meta_v1 ''TypeMeta'',
      meta_v1 ''UpdateOptions'', meta_v1 ''WatchEvent'', pkg_runtime ''RawExtension'',
      pkg_runtime ''TypeMeta'', pkg_runtime ''Unknown'', pkg_version ''Info'']"

lemma definition_names_table: "map fst (GetOpenAPIDefinitions lib ref) = definition_names"
  by (simp add: GetOpenAPIDefinitions_def table_defs definition_names_def)

lemma definition_names_all:
  "list_all P definition_names \<Longrightarrow> list_all P
     [ArtifactType_OpenAPIModelName, ArtifactTypeList_OpenAPIModelName,
      ArtifactTypeRules_OpenAPIModelName, ArtifactTypeSpec_OpenAPIModelName,
      ArtifactTypeStatus_OpenAPIModelName, ArtifactWorkflow_OpenAPIModelName,
      ArtifactWorkflowList_OpenAPIModelName, ArtifactWorkflowParameter_OpenAPIModelName,
      ArtifactWorkflowSpec_OpenAPIModelName, ArtifactWorkflowStatus_OpenAPIModelName,
      Endpoint_OpenAPIModelName, EndpointList_OpenAPIModelName, EndpointSpec_OpenAPIModelName,
      EndpointStatus_OpenAPIModelName, Order_OpenAPIModelName, OrderArtifact_OpenAPIModelName,
      OrderArtifactWorkflowStatus_OpenAPIModelName, OrderDefaults_OpenAPIModelName,
      OrderList_OpenAPIModelName, OrderSpec_OpenAPIModelName, OrderStatus_OpenAPIModelName,
      core_v1 ''AWSElasticBlockStoreVolumeSource'', core_v1 ''Affinity'',
      core_v1 ''AppArmorProfile'', core_v1 ''AttachedVolume'', core_v1 ''AvoidPods'',
      core_v1 ''AzureDiskVolumeSource'', core_v1 ''AzureFilePersistentVolumeSource'',
      core_v1 ''AzureFileVolumeSource'', core_v1 ''Binding'',
      core_v1 ''CSIPersistentVolumeSource'', core_v1 ''CSIVolumeSource'', core_v1 ''Capabilities'',
      core_v1 ''CephFSPersistentVolumeSource'', core_v1 ''CephFSVolumeSource'',
      core_v1 ''CinderPersistentVolumeSource'', core_v1 ''CinderVolumeSource'',
      core_v1 ''ClientIPConfig'', core_v1 ''ClusterTrustBundleProjection'',
      core_v1 ''ComponentCondition'', core_v1 ''ComponentStatus'', core_v1 ''ComponentStatusList'',
      core_v1 ''ConfigMap'', core_v1 ''ConfigMapEnvSource'', core_v1 ''ConfigMapKeySelector'',
      core_v1 ''ConfigMapList'', core_v1 ''ConfigMapNodeConfigSource'',
      core_v1 ''ConfigMapProjection'', core_v1 ''ConfigMapVolumeSource'', core_v1 ''Container'',
      core_v1 ''ContainerExtendedResourceRequest'', core_v1 ''ContainerImage'',
      core_v1 ''ContainerPort'', core_v1 ''ContainerResizePolicy'',
      core_v1 ''ContainerRestartRule'', core_v1 ''ContainerRestartRuleOnExitCodes'',
      core_v1 ''ContainerState'', core_v1 ''ContainerStateRunning'',
      core_v1 ''ContainerStateTerminated'', core_v1 ''ContainerStateWaiting'',
      core_v1 ''ContainerStatus'', core_v1 ''ContainerUser'', core_v1 ''DaemonEndpoint'',
      core_v1 ''DownwardAPIProjection'', core_v1 ''DownwardAPIVolumeFile'',
      core_v1 ''DownwardAPIVolumeSource'', core_v1 ''EmptyDirVolumeSource'',
      core_v1 ''EndpointAddress'', core_v1 ''EndpointPort'', core_v1 ''EndpointSubset'',
      core_v1 ''Endpoints'', core_v1 ''EndpointsList'', core_v1 ''EnvFromSource'',
      core_v1 ''EnvVar'', core_v1 ''EnvVarSource'', core_v1 ''EphemeralContainer'',
      core_v1 ''EphemeralContainerCommon'', core_v1 ''EphemeralVolumeSource'', core_v1 ''Event'',
      core_v1 ''EventList'', core_v1 ''EventSeries'', core_v1 ''EventSource'',
      core_v1 ''ExecAction'', core_v1 ''FCVolumeSource'', core_v1 ''FileKeySelector'',
      core_v1 ''FlexPersistentVolumeSource'', core_v1 ''FlexVolumeSource'',
      core_v1 ''FlockerVolumeSource'', core_v1 ''GCEPersistentDiskVolumeSource'',
      core_v1 ''GRPCAction'', core_v1 ''GitRepoVolumeSource'',
      core_v1 ''GlusterfsPersistentVolumeSource'', core_v1 ''GlusterfsVolumeSource'',
      core_v1 ''HTTPGetAction'', core_v1 ''HTTPHeader'', core_v1 ''HostAlias'', core_v1 ''HostIP'',
      core_v1 ''HostPathVolumeSource'', core_v1 ''ISCSIPersistentVolumeSource'',
      core_v1 ''ISCSIVolumeSource'', core_v1 ''ImageVolumeSource'', core_v1 ''KeyToPath'',
      core_v1 ''Lifecycle'', core_v1 ''LifecycleHandler'', core_v1 ''LimitRange'',
      core_v1 ''LimitRangeItem'', core_v1 ''LimitRangeList'', core_v1 ''LimitRangeSpec'',
      core_v1 ''LinuxContainerUser'', core_v1 ''List'', core_v1 ''LoadBalancerIngress'',
      core_v1 ''LoadBalancerStatus'', core_v1 ''LocalObjectReference'',
      core_v1 ''LocalVolumeSource'', core_v1 ''ModifyVolumeStatus'', core_v1 ''NFSVolumeSource'',
      core_v1 ''Namespace'', core_v1 ''NamespaceCondition'', core_v1 ''NamespaceList'',
      core_v1 ''NamespaceSpec'', core_v1 ''NamespaceStatus'', core_v1 ''Node'',
      core_v1 ''NodeAddress'', core_v1 ''NodeAffinity'', core_v1 ''NodeCondition'',
      core_v1 ''NodeConfigSource'', core_v1 ''NodeConfigStatus'', core_v1 ''NodeDaemonEndpoints'',
      core_v1 ''NodeFeatures'', core_v1 ''NodeList'', core_v1 ''NodeProxyOptions'',
      core_v1 ''NodeRuntimeHandler'', core_v1 ''NodeRuntimeHandlerFeatures'',
      core_v1 ''NodeSelector'', core_v1 ''NodeSelectorRequirement'', core_v1 ''NodeSelectorTerm'',
      core_v1 ''NodeSpec'', core_v1 ''NodeStatus'', core_v1 ''NodeSwapStatus'',
      core_v1 ''NodeSystemInfo'', core_v1 ''ObjectFieldSelector'', core_v1 ''ObjectReference'',
      core_v1 ''PersistentVolume'', core_v1 ''PersistentVolumeClaim'',
      core_v1 ''PersistentVolumeClaimCondition'', core_v1 ''PersistentVolumeClaimList'',
      core_v1 ''PersistentVolumeClaimSpec'', core_v1 ''PersistentVolumeClaimStatus'',
      core_v1 ''PersistentVolumeClaimTemplate'', core_v1 ''PersistentVolumeClaimVolumeSource'',
      core_v1 ''PersistentVolumeList'', core_v1 ''PersistentVolumeSource'',
      core_v1 ''PersistentVolumeSpec'', core_v1 ''PersistentVolumeStatus'',
      core_v1 ''PhotonPersistentDiskVolumeSource'', core_v1 ''Pod'', core_v1 ''PodAffinity'',
      core_v1 ''PodAffinityTerm'', core_v1 ''PodAntiAffinity'', core_v1 ''PodAttachOptions'',
      core_v1 ''PodCertificateProjection'', core_v1 ''PodCondition'', core_v1 ''PodDNSConfig'',
      core_v1 ''PodDNSConfigOption'', core_v1 ''PodExecOptions'',
      core_v1 ''PodExtendedResourceClaimStatus'', core_v1 ''PodIP'', core_v1 ''PodList'',
      core_v1 ''PodLogOptions'', core_v1 ''PodOS'', core_v1 ''PodPortForwardOptions'',
      core_v1 ''PodProxyOptions'', core_v1 ''PodReadinessGate'', core_v1 ''PodResourceClaim'',
      core_v1 ''PodResourceClaimStatus'', core_v1 ''PodSchedulingGate'',
      core_v1 ''PodSecurityContext'', core_v1 ''PodSignature'', core_v1 ''PodSpec'',
      core_v1 ''PodStatus'', core_v1 ''PodStatusResult'', core_v1 ''PodTemplate'',
      core_v1 ''PodTemplateList'', core_v1 ''PodTemplateSpec'', core_v1 ''PortStatus'',
      core_v1 ''PortworxVolumeSource'', core_v1 ''PreferAvoidPodsEntry'',
      core_v1 ''PreferredSchedulingTerm'', core_v1 ''Probe'', core_v1 ''ProbeHandler'',
      core_v1 ''ProjectedVolumeSource'', core_v1 ''QuobyteVolumeSource'',
      core_v1 ''RBDPersistentVolumeSource'', core_v1 ''RBDVolumeSource'',
      core_v1 ''RangeAllocation'', core_v1 ''ReplicationController'',
      core_v1 ''ReplicationControllerCondition'', core_v1 ''ReplicationControllerList'',
      core_v1 ''ReplicationControllerSpec'', core_v1 ''ReplicationControllerStatus'',
      core_v1 ''ResourceClaim'', core_v1 ''ResourceFieldSelector'', core_v1 ''ResourceHealth'',
      core_v1 ''ResourceQuota'', core_v1 ''ResourceQuotaList'', core_v1 ''ResourceQuotaSpec'',
      core_v1 ''ResourceQuotaStatus'', core_v1 ''ResourceRequirements'',
      core_v1 ''ResourceStatus'', core_v1 ''SELinuxOptions'',
      core_v1 ''ScaleIOPersistentVolumeSource'', core_v1 ''ScaleIOVolumeSource'',
      core_v1 ''ScopeSelector'', core_v1 ''ScopedResourceSelectorRequirement'',
      core_v1 ''SeccompProfile'', core_v1 ''Secret'', core_v1 ''SecretEnvSource'',
      core_v1 ''SecretKeySelector'', core_v1 ''SecretList'', core_v1 ''SecretProjection'',
      core_v1 ''SecretReference'', core_v1 ''SecretVolumeSource'', core_v1 ''SecurityContext'',
      core_v1 ''SerializedReference'', core_v1 ''Service'', core_v1 ''ServiceAccount'',
      core_v1 ''ServiceAccountList'', core_v1 ''ServiceAccountTokenProjection'',
      core_v1 ''ServiceList'', core_v1 ''ServicePort'', core_v1 ''ServiceProxyOptions'',
      core_v1 ''ServiceSpec'', core_v1 ''ServiceStatus'', core_v1 ''SessionAffinityConfig'',
      core_v1 ''SleepAction'', core_v1 ''StorageOSPersistentVolumeSource'',
      core_v1 ''StorageOSVolumeSource'', core_v1 ''Sysctl'', core_v1 ''TCPSocketAction'',
      core_v1 ''Taint'', core_v1 ''Toleration'', core_v1 ''TopologySelectorLabelRequirement'',
      core_v1 ''TopologySelectorTerm'', core_v1 ''TopologySpreadConstraint'',
      core_v1 ''TypedLocalObjectReference'', core_v1 ''TypedObjectReference'', core_v1 ''Volume'',
      core_v1 ''VolumeDevice'', core_v1 ''VolumeMount'', core_v1 ''VolumeMountStatus'',
      core_v1 ''VolumeNodeAffinity'', core_v1 ''VolumeProjection'',
      core_v1 ''VolumeResourceRequirements'', core_v1 ''VolumeSource'',
      core_v1 ''VsphereVirtualDiskVolumeSource'', core_v1 ''WeightedPodAffinityTerm'',
      core_v1 ''WindowsSecurityContextOptions'', pkg_resource ''Quantity'', meta_v1 ''APIGroup'',
      meta_v1 ''APIGroupList'', meta_v1 ''APIResource'', meta_v1 ''APIResourceList'',
      meta_v1 ''APIVersions'', meta_v1 ''ApplyOptions'', meta_v1 ''Condition'',
      meta_v1 ''CreateOptions'', meta_v1 ''DeleteOptions'', meta_v1 ''Duration'',
      meta_v1 ''FieldSelectorRequirement'', meta_v1 ''FieldsV1'', meta_v1 ''GetOptions'',
      meta_v1 ''GroupKind'', meta_v1 ''GroupResource'', meta_v1 ''GroupVersion'',
      meta_v1 ''GroupVersionForDiscovery'', meta_v1 ''GroupVersionKind'',
      meta_v1 ''GroupVersionResource'', meta_v1 ''InternalEvent'', meta_v1 ''LabelSelector'',
      meta_v1 ''LabelSelectorRequirement'', meta_v1 ''List'', meta_v1 ''ListMeta'',
      meta_v1 ''ListOptions'', meta_v1 ''ManagedFieldsEntry'', meta_v1 ''MicroTime'',
      meta_v1 ''ObjectMeta'', meta_v1 ''OwnerReference'', meta_v1 ''PartialObjectMetadata'',
      meta_v1 ''PartialObjectMetadataList'', meta_v1 ''Patch'', meta_v1 ''PatchOptions'',
      meta_v1 ''Preconditions'', meta_v1 ''RootPaths'', meta_v1 ''ServerAddressByClientCIDR'',
      meta_v1 ''Status'', meta_v1 ''StatusCause'', meta_v1 ''StatusDetails'', meta_v1 ''Table'',
      meta_v1 ''TableColumnDefinition'', meta_v1 ''TableOptions'', meta_v1 ''TableRow'',
      meta_v1 ''TableRowCondition'', meta_v1 ''Time'', meta_v1 ''Timestamp'', meta_v1 ''TypeMeta'',
      meta_v1 ''UpdateOptions'', meta_v1 ''WatchEvent'', pkg_runtime ''RawExtension'',
      pkg_runtime ''TypeMeta'', pkg_runtime ''Unknown'', pkg_version ''Info'']"
  by (simp only: definition_names_def)

lemma all_known: "list_all (\<lambda>x. x \<in> set definition_names) definition_names"
  by (simp add: list_all_iff)

lemmas known_names = definition_names_all [OF all_known, simplified]

text \<open>
  The promises of the libraries the definitions of a few types rely on:
  \<open>common.EmbedOpenAPIDefinitionIntoV2Extension\<close> only adds a vendor extension to its first argument,
  and \<open>common.GenerateOpenAPIV3OneOfSchema\<close> makes schemas of plain types.
\<close>

definition library_laws :: "'r openapi_library \<Rightarrow> bool" where
  "library_laws lib \<longleftrightarrow>
     (\<forall>attrs deps d. \<exists>exts.
        lib_EmbedOpenAPIDefinitionIntoV2Extension lib (OpenAPIDefinition (SchemaProps attrs) deps) d =
        OpenAPIDefinition (SchemaProps (attrs @ [Extensions exts])) deps) \<and>
     (\<forall>types. lib_GenerateOpenAPIV3OneOfSchema lib types = map (\<lambda>t. SchemaProps [Type [t]]) types)"

lemma plain_schemas [simp]:
  "schemas_refs (map (\<lambda>t. SchemaProps [Type [t]]) ts) = []" "schemas_listed (map (\<lambda>t. SchemaProps [Type [t]]) ts)"
  by (induction ts) simp_all

lemma quantity_definition:
  assumes "library_laws lib"
  shows "def_sound ref (schema_apimachinery_pkg_api_resource_Quantity lib ref)"
    and "Dependencies (schema_apimachinery_pkg_api_resource_Quantity lib ref) = []"
proof -
  let ?attrs = "[OneOf (map (\<lambda>t. SchemaProps [Type [t]]) (lib_OpenAPIV3OneOfTypes lib ''resource.Quantity'')),
    Format (lib_OpenAPISchemaFormat lib ''resource.Quantity'')] :: 'a attr list"
  obtain exts where "schema_apimachinery_pkg_api_resource_Quantity lib ref =
      OpenAPIDefinition (SchemaProps (?attrs @ [Extensions exts])) []"
    using assms unfolding library_laws_def schema_apimachinery_pkg_api_resource_Quantity_def by metis
  then show "def_sound ref (schema_apimachinery_pkg_api_resource_Quantity lib ref)"
    and "Dependencies (schema_apimachinery_pkg_api_resource_Quantity lib ref) = []"
    by simp_all
qed

subsection \<open>Every definition is sound\<close>

lemma table_sound:
  assumes "library_laws lib"
  shows "list_all (\<lambda>d. def_sound ref (snd d)) (GetOpenAPIDefinitions lib ref)"
proof -
  have "list_all (\<lambda>d. def_sound ref (snd d)) (arc_definitions ref)"
    by (simp add: arc_definitions_def arc_sound)
  moreover have "list_all (\<lambda>d. def_sound ref (snd d)) (core_definitions1 lib ref)"
    by (simp add: core_definitions1_def core1_sound)
  moreover have "list_all (\<lambda>d. def_sound ref (snd d)) (core_definitions2 ref)"
    by (simp add: core_definitions2_def core2_sound)
  moreover have "list_all (\<lambda>d. def_sound ref (snd d)) (core_definitions3 ref)"
    by (simp add: core_definitions3_def core3_sound)
  moreover have "list_all (\<lambda>d. def_sound ref (snd d)) (core_definitions4 ref)"
    by (simp add: core_definitions4_def core4_sound)
  moreover have "list_all (\<lambda>d. def_sound ref (snd d)) (machinery_definitions lib ref)"
    by (simp add: machinery_definitions_def meta_sound quantity_definition [OF assms])
  ultimately show ?thesis by (simp add: GetOpenAPIDefinitions_def)
qed

subsection \<open>References that lead nowhere\<close>

definition dangling :: "(string \<times> 'r OpenAPIDefinition) list \<Rightarrow> (string \<times> string) set" where
  "dangling defs = {(k, x). \<exists>d. (k, d) \<in> set defs \<and> x \<in> set (Dependencies d) \<and> x \<notin> set (map fst defs)}"

definition int_or_string_users :: "(string \<times> string) set" where
  "int_or_string_users =
     {(core_v1 ''HTTPGetAction'', pkg_intstr ''IntOrString''), (core_v1 ''ServicePort'', pkg_intstr ''IntOrString''),
      (core_v1 ''TCPSocketAction'', pkg_intstr ''IntOrString'')}"

definition resolved :: "(string \<times> 'r OpenAPIDefinition) list \<Rightarrow> bool" where
  "resolved = list_all (\<lambda>d. list_all (\<lambda>x. x \<in> set definition_names \<or> (fst d, x) \<in> int_or_string_users)
     (Dependencies (snd d)))"

lemma resolved_Cons [simp]:
  "resolved [] \<longleftrightarrow> True"
  "resolved ((k, d) # ds) \<longleftrightarrow>
     list_all (\<lambda>x. x \<in> set definition_names \<or> (k, x) \<in> int_or_string_users) (Dependencies d) \<and> resolved ds"
  "resolved (xs @ ys) \<longleftrightarrow> resolved xs \<and> resolved ys"
  by (simp_all add: resolved_def)

lemma arc_resolved: "resolved (arc_definitions ref)"
  by (simp add: arc_definitions_def schema_defs known_names)

lemma core_resolved:
  "resolved (core_definitions1 lib ref)" "resolved (core_definitions2 ref)"
  "resolved (core_definitions3 ref)" "resolved (core_definitions4 ref)"
  by (simp_all add: table_defs schema_defs known_names int_or_string_users_def)

lemma machinery_resolved: "library_laws lib \<Longrightarrow> resolved (machinery_definitions lib ref)"
  by (simp add: machinery_definitions_def quantity_definition)
    (simp add: schema_defs known_names)

lemma table_resolved: "library_laws lib \<Longrightarrow> resolved (GetOpenAPIDefinitions lib ref)"
  by (simp add: GetOpenAPIDefinitions_def arc_resolved core_resolved machinery_resolved)

lemma no_int_or_string: "pkg_intstr ''IntOrString'' \<notin> set definition_names"
  by (simp add: definition_names_def model_names)

lemma int_or_string_used:
  "\<exists>d. (core_v1 ''HTTPGetAction'', d) \<in> set (GetOpenAPIDefinitions lib ref) \<and> pkg_intstr ''IntOrString'' \<in> set (Dependencies d)"
  "\<exists>d. (core_v1 ''ServicePort'', d) \<in> set (GetOpenAPIDefinitions lib ref) \<and> pkg_intstr ''IntOrString'' \<in> set (Dependencies d)"
  "\<exists>d. (core_v1 ''TCPSocketAction'', d) \<in> set (GetOpenAPIDefinitions lib ref) \<and> pkg_intstr ''IntOrString'' \<in> set (Dependencies d)"
proof -
  have "(core_v1 ''HTTPGetAction'', schema_k8sio_api_core_v1_HTTPGetAction ref) \<in> set (core_definitions2 ref)"
    "(core_v1 ''ServicePort'', schema_k8sio_api_core_v1_ServicePort ref) \<in> set (core_definitions4 ref)"
    "(core_v1 ''TCPSocketAction'', schema_k8sio_api_core_v1_TCPSocketAction ref) \<in> set (core_definitions4 ref)"
    by (simp_all add: core_definitions2_def core_definitions4_def)
  moreover have "pkg_intstr ''IntOrString'' \<in> set (Dependencies (schema_k8sio_api_core_v1_HTTPGetAction ref))"
    "pkg_intstr ''IntOrString'' \<in> set (Dependencies (schema_k8sio_api_core_v1_ServicePort ref))"
    "pkg_intstr ''IntOrString'' \<in> set (Dependencies (schema_k8sio_api_core_v1_TCPSocketAction ref))"
    by (simp_all add: schema_defs)
  ultimately show
    "\<exists>d. (core_v1 ''HTTPGetAction'', d) \<in> set (GetOpenAPIDefinitions lib ref) \<and> pkg_intstr ''IntOrString'' \<in> set (Dependencies d)"
    "\<exists>d. (core_v1 ''ServicePort'', d) \<in> set (GetOpenAPIDefinitions lib ref) \<and> pkg_intstr ''IntOrString'' \<in> set (Dependencies d)"
    "\<exists>d. (core_v1 ''TCPSocketAction'', d) \<in> set (GetOpenAPIDefinitions lib ref) \<and> pkg_intstr ''IntOrString'' \<in> set (Dependencies d)"
    unfolding GetOpenAPIDefinitions_def set_append by blast+
qed

text \<open>
  C34: every definition of the table declares as dependencies exactly the definitions it refers to,
  and requires only fields it describes; and every dependency of every definition is in the table,
  but for three definitions of core types that refer to \<open>IntOrString\<close>, which the table lacks.
\<close>

theorem openapi_table_sound:
  assumes "library_laws lib"
  shows "(\<forall>k d. (k, d) \<in> set (GetOpenAPIDefinitions lib ref) \<longrightarrow> def_sound ref d) \<and>
    dangling (GetOpenAPIDefinitions lib ref) =
      {(core_v1 ''HTTPGetAction'', pkg_intstr ''IntOrString''), (core_v1 ''ServicePort'', pkg_intstr ''IntOrString''),
       (core_v1 ''TCPSocketAction'', pkg_intstr ''IntOrString'')}"
proof
  show "\<forall>k d. (k, d) \<in> set (GetOpenAPIDefinitions lib ref) \<longrightarrow> def_sound ref d"
    using table_sound [OF assms, of ref] by (fastforce simp: list_all_iff)
  have "(k, x) \<in> int_or_string_users"
    if "(k, d) \<in> set (GetOpenAPIDefinitions lib ref)" "x \<in> set (Dependencies d)" "x \<notin> set definition_names" for k d x
    using table_resolved [OF assms, of ref] that by (fastforce simp: resolved_def list_all_iff)
  then show "dangling (GetOpenAPIDefinitions lib ref) =
      {(core_v1 ''HTTPGetAction'', pkg_intstr ''IntOrString''), (core_v1 ''ServicePort'', pkg_intstr ''IntOrString''),
       (core_v1 ''TCPSocketAction'', pkg_intstr ''IntOrString'')}"
    using int_or_string_used [of lib ref] no_int_or_string
    unfolding dangling_def definition_names_table int_or_string_users_def by blast
qed

subsection \<open>What the served types need\<close>

inductive depends :: "(string \<times> 'r OpenAPIDefinition) list \<Rightarrow> string \<Rightarrow> string \<Rightarrow> bool" for defs where
  "(k, d) \<in> set defs \<Longrightarrow> x \<in> set (Dependencies d) \<Longrightarrow> depends defs k x"

definition served_closure :: "string list" where
  "served_closure =
     map fst (arc_definitions id) @
     [core_v1 ''LocalObjectReference'', meta_v1 ''FieldsV1'', meta_v1 ''ListMeta'', meta_v1 ''ManagedFieldsEntry'',
      meta_v1 ''ObjectMeta'', meta_v1 ''OwnerReference'', meta_v1 ''Time'', pkg_runtime ''RawExtension'']"

definition closed_in :: "string set \<Rightarrow> (string \<times> 'r OpenAPIDefinition) list \<Rightarrow> bool" where
  "closed_in S = list_all (\<lambda>d. fst d \<in> S \<longrightarrow> list_all (\<lambda>x. x \<in> S) (Dependencies (snd d)))"

lemma closed_in_Cons [simp]:
  "closed_in S [] \<longleftrightarrow> True"
  "closed_in S ((k, d) # ds) \<longleftrightarrow> (k \<in> S \<longrightarrow> list_all (\<lambda>x. x \<in> S) (Dependencies d)) \<and> closed_in S ds"
  "closed_in S (xs @ ys) \<longleftrightarrow> closed_in S xs \<and> closed_in S ys"
  by (simp_all add: closed_in_def)

lemma arc_names: "map fst (arc_definitions ref) = map fst (arc_definitions id)"
  by (simp add: arc_definitions_def)

lemma served_packages:
  "core_v1 a \<in> set served_closure \<longleftrightarrow> a = ''LocalObjectReference''"
  "meta_v1 a \<in> set served_closure \<longleftrightarrow>
     a \<in> {''FieldsV1'', ''ListMeta'', ''ManagedFieldsEntry'', ''ObjectMeta'', ''OwnerReference'', ''Time''}"
  "pkg_runtime a \<in> set served_closure \<longleftrightarrow> a = ''RawExtension''"
  "pkg_version a \<in> set served_closure \<longleftrightarrow> False" "pkg_resource a \<in> set served_closure \<longleftrightarrow> False"
  by (auto simp: served_closure_def arc_definitions_def model_names)

lemma arc_served_all: "list_all (\<lambda>x. x \<in> set served_closure) (map fst (arc_definitions id))"
  by (simp add: list_all_iff served_closure_def)

lemmas arc_served = arc_served_all [unfolded arc_definitions_def, simplified]

lemma served_closed:
  "closed_in (set served_closure) (arc_definitions ref)"
  "closed_in (set served_closure) (core_definitions1 lib ref)"
  "closed_in (set served_closure) (core_definitions2 ref)"
  "closed_in (set served_closure) (core_definitions3 ref)"
  "closed_in (set served_closure) (core_definitions4 ref)"
  "closed_in (set served_closure) (machinery_definitions lib ref)"
  by (simp_all add: table_defs served_packages arc_served) (simp_all add: schema_defs served_packages arc_served)

lemma table_closed: "closed_in (set served_closure) (GetOpenAPIDefinitions lib ref)"
  by (simp add: GetOpenAPIDefinitions_def served_closed)

lemma closed_in_depends: "closed_in S defs \<Longrightarrow> depends defs y z \<Longrightarrow> y \<in> S \<Longrightarrow> z \<in> S"
  by (auto simp: closed_in_def list_all_iff elim!: depends.cases)

lemma served_known: "set served_closure \<subseteq> set definition_names"
  unfolding served_closure_def arc_definitions_def by (simp add: known_names)

text \<open>
  C33: the builder of the OpenAPI document never misses a definition: whatever the definitions of the
  served API types depend on, directly or through others, is in the table.
\<close>

theorem served_types_resolve:
  assumes "library_laws lib" and "k \<in> set (map fst (arc_definitions ref))"
    and "(depends (GetOpenAPIDefinitions lib ref))\<^sup>*\<^sup>* k x"
  shows "x \<in> set (map fst (GetOpenAPIDefinitions lib ref))"
proof -
  have "x \<in> set served_closure"
    using assms(3)
  proof (induction rule: rtranclp_induct)
    case base
    then show ?case using assms(2) unfolding arc_names [of ref] served_closure_def by simp
  next
    case (step y z)
    then show ?case
      using closed_in_depends [OF table_closed] by blast
  qed
  then show ?thesis unfolding definition_names_table using served_known by blast
qed

definition demo_library :: "'r openapi_library" where
  "demo_library =
     \<lparr>lib_constant = \<lambda>name. name, lib_OpenAPISchemaType = \<lambda>t. [''string''], lib_OpenAPISchemaFormat = \<lambda>t. [],
      lib_OpenAPIV3OneOfTypes = \<lambda>t. [''string'', ''number''],
      lib_GenerateOpenAPIV3OneOfSchema = map (\<lambda>t. SchemaProps [Type [t]]),
      lib_EmbedOpenAPIDefinitionIntoV2Extension = \<lambda>d e. case d of OpenAPIDefinition (SchemaProps attrs) deps \<Rightarrow>
        OpenAPIDefinition (SchemaProps (attrs @ [Extensions [(''x-kubernetes-v2-schema'', VNull)]])) deps\<rparr>"

lemma demo_library_laws: "library_laws demo_library"
  by (auto simp: library_laws_def demo_library_def)

theorem openapi_table_sound_witness:
  "(core_v1 ''ServicePort'', pkg_intstr ''IntOrString'') \<in> dangling (GetOpenAPIDefinitions demo_library (\<lambda>x. x)) \<and>
   def_sound (\<lambda>x. x) (schema_arc_api_arc_v1alpha1_OrderSpec (\<lambda>x. x))"
proof -
  have "(OrderSpec_OpenAPIModelName, schema_arc_api_arc_v1alpha1_OrderSpec (\<lambda>x. x)) \<in>
      set (GetOpenAPIDefinitions demo_library (\<lambda>x. x))"
    by (simp add: GetOpenAPIDefinitions_def arc_definitions_def)
  with openapi_table_sound [OF demo_library_laws, of "\<lambda>x. x"] show ?thesis by blast
qed

theorem served_types_resolve_witness:
  "OrderArtifact_OpenAPIModelName \<in> set (map fst (GetOpenAPIDefinitions demo_library (\<lambda>x. x)))"
proof (rule served_types_resolve [OF demo_library_laws])
  let ?table = "GetOpenAPIDefinitions demo_library (\<lambda>x. x)"
  show "OrderSpec_OpenAPIModelName \<in> set (map fst (arc_definitions (\<lambda>x. x)))"
    by (simp add: arc_definitions_def)
  have "(OrderSpec_OpenAPIModelName, schema_arc_api_arc_v1alpha1_OrderSpec (\<lambda>x. x)) \<in> set ?table"
    by (simp add: GetOpenAPIDefinitions_def arc_definitions_def)
  then have "depends ?table OrderSpec_OpenAPIModelName OrderArtifact_OpenAPIModelName"
    by (rule depends.intros) (simp add: schema_arc_api_arc_v1alpha1_OrderSpec_def)
  then show "(depends ?table)\<^sup>*\<^sup>* OrderSpec_OpenAPIModelName OrderArtifact_OpenAPIModelName" ..
qed

end
