(* ===== verification/Openapi_Documents.thy ===== *)
theory Openapi_Documents
  imports Openapi Api_Types
begin

section \<open>API objects as documents, and their OpenAPI definitions\<close>

text \<open>
  What \<open>encoding/json\<close> makes of the API types by their struct tags (\<^verbatim>\<open>api/arc/v1alpha1/*_types.go\<close>): a
  field with \<open>omitempty\<close> is left out if it is an empty string, slice or map, never if it is a struct; a
  nil slice is \<open>null\<close> and an empty one is \<open>[]\<close>, which the model does not tell apart, so what an empty
  slice without \<open>omitempty\<close> becomes is an argument \<open>nil\<close>. The document of an \<open>ObjectMeta\<close> is a
  parameter, \<open>meta\<close>. A \<open>RawExtension\<close> is its bytes, which must be a JSON text (a number beyond float64
  counts as none here), or \<open>null\<close>.

  Against that stand the definitions in the table: \<open>conforms\<close> is the check of a document against a
  schema, as JSON schema has it, with the formats of integers. It follows references, so it has fuel;
  \<open>valid\<close> says that it holds for all large amounts of fuel, and \<open>valid_iff\<close> unfolds it without any.
\<close>

subsection \<open>Checking a document\<close>

fun has_type :: "string \<Rightarrow> go_value \<Rightarrow> bool" where
  "has_type t (VObj kvs) \<longleftrightarrow> t = ''object''"
| "has_type t (VArr vs) \<longleftrightarrow> t = ''array''"
| "has_type t (VStr s) \<longleftrightarrow> t = ''string''"
| "has_type t (VBool b) \<longleftrightarrow> t = ''boolean''"
| "has_type t (VInt i) \<longleftrightarrow> t = ''integer'' \<or> t = ''number''"
| "has_type t (VNum x) \<longleftrightarrow> t = ''number''"
| "has_type t VNull \<longleftrightarrow> False"

definition in_bits :: "nat \<Rightarrow> int \<Rightarrow> bool" where
  "in_bits w i \<longleftrightarrow> - (2 ^ (w - 1)) \<le> i \<and> i < 2 ^ (w - 1)"

fun has_format :: "string \<Rightarrow> go_value \<Rightarrow> bool" where
  "has_format f (VInt i) \<longleftrightarrow> (f = ''int32'' \<longrightarrow> in_bits 32 i) \<and> (f = ''int64'' \<longrightarrow> in_bits 64 i)"
| "has_format f v \<longleftrightarrow> True"

fun members :: "go_value \<Rightarrow> (string \<times> go_value) list" where
  "members (VObj kvs) = kvs"
| "members v = []"

fun elements :: "go_value \<Rightarrow> go_value list" where
  "elements (VArr vs) = vs"
| "elements v = []"

fun is_object :: "go_value \<Rightarrow> bool" where
  "is_object (VObj kvs) \<longleftrightarrow> True"
| "is_object v \<longleftrightarrow> False"

type_synonym definitions = "string \<Rightarrow> string schema option"

fun attr_holds :: "(string schema \<Rightarrow> go_value \<Rightarrow> bool) \<Rightarrow> definitions \<Rightarrow> string list \<Rightarrow> go_value \<Rightarrow> string attr \<Rightarrow> bool" where
  "attr_holds c defs keys v (Type ts) \<longleftrightarrow> (\<exists>t \<in> set ts. has_type t v)"
| "attr_holds c defs keys v (Format f) \<longleftrightarrow> has_format f v"
| "attr_holds c defs keys v (Default d) \<longleftrightarrow> True"
| "attr_holds c defs keys v (Enum vs) \<longleftrightarrow> v \<in> set vs"
| "attr_holds c defs keys v (Ref r) \<longleftrightarrow> (case defs r of None \<Rightarrow> False | Some s \<Rightarrow> c s v)"
| "attr_holds c defs keys v (Properties ps) \<longleftrightarrow>
     list_all (\<lambda>p. case map_of (members v) (fst p) of None \<Rightarrow> True | Some x \<Rightarrow> c (snd p) x) ps"
| "attr_holds c defs keys v (Required ks) \<longleftrightarrow> (is_object v \<longrightarrow> set ks \<subseteq> fst ` set (members v))"
| "attr_holds c defs keys v (Items s) \<longleftrightarrow> list_all (c s) (elements v)"
| "attr_holds c defs keys v (AdditionalProperties b s) \<longleftrightarrow>
     list_all (\<lambda>m. fst m \<in> set keys \<or> b \<and> c s (snd m)) (members v)"
| "attr_holds c defs keys v (OneOf ss) \<longleftrightarrow> length (filter (\<lambda>s. c s v) ss) = 1"
| "attr_holds c defs keys v (Extensions es) \<longleftrightarrow> True"

fun conforms :: "definitions \<Rightarrow> nat \<Rightarrow> string schema \<Rightarrow> go_value \<Rightarrow> bool" where
  "conforms defs 0 s v \<longleftrightarrow> False"
| "conforms defs (Suc n) (SchemaProps attrs) v \<longleftrightarrow>
     list_all (attr_holds (conforms defs n) defs (concat (map attr_keys attrs)) v) attrs"

definition valid :: "definitions \<Rightarrow> string schema \<Rightarrow> go_value \<Rightarrow> bool" where
  "valid defs s v \<longleftrightarrow> eventually (\<lambda>n. conforms defs n s v) sequentially"

fun is_OneOf :: "'r attr \<Rightarrow> bool" where
  "is_OneOf (OneOf ss) \<longleftrightarrow> True"
| "is_OneOf a \<longleftrightarrow> False"

lemma eventually_list_all:
  "eventually (\<lambda>n. list_all (P n) xs) F \<longleftrightarrow> list_all (\<lambda>x. eventually (\<lambda>n. P n x) F) xs"
  by (induction xs) (simp_all add: eventually_conj_iff)

lemma eventually_attr:
  assumes "\<not> is_OneOf a"
  shows "eventually (\<lambda>n. attr_holds (conforms defs n) defs keys v a) sequentially \<longleftrightarrow>
    attr_holds (valid defs) defs keys v a"
proof (cases a)
  case (Ref r)
  then show ?thesis by (cases "defs r") (simp_all add: valid_def)
next
  case (Properties ps)
  have "eventually (\<lambda>n. case map_of (members v) k of None \<Rightarrow> True | Some x \<Rightarrow> conforms defs n s x) sequentially \<longleftrightarrow>
      (case map_of (members v) k of None \<Rightarrow> True | Some x \<Rightarrow> valid defs s x)" for k s
    by (cases "map_of (members v) k") (simp_all add: valid_def)
  with Properties show ?thesis by (simp add: eventually_list_all)
next
  case (AdditionalProperties b s)
  have "eventually (\<lambda>n. fst m \<in> set keys \<or> b \<and> conforms defs n s (snd m)) sequentially \<longleftrightarrow>
      fst m \<in> set keys \<or> b \<and> valid defs s (snd m)" for m
    by (cases "fst m \<in> set keys"; cases b) (simp_all add: valid_def)
  with AdditionalProperties show ?thesis by (simp add: eventually_list_all)
next
  case (Items s)
  then show ?thesis by (simp add: eventually_list_all valid_def [abs_def])
next
  case (Required ks)
  then show ?thesis by (cases "is_object v") simp_all
qed (use assms in \<open>simp_all add: eventually_list_all valid_def\<close>)

lemma valid_iff:
  assumes "list_all (\<lambda>a. \<not> is_OneOf a) attrs"
  shows "valid defs (SchemaProps attrs) v \<longleftrightarrow>
    list_all (attr_holds (valid defs) defs (concat (map attr_keys attrs)) v) attrs"
proof -
  have "valid defs (SchemaProps attrs) v \<longleftrightarrow> eventually (\<lambda>n. conforms defs (Suc n) (SchemaProps attrs) v) sequentially"
    unfolding valid_def by (rule eventually_sequentially_Suc [symmetric])
  also have "\<dots> \<longleftrightarrow> list_all (\<lambda>a. eventually (\<lambda>n. attr_holds (conforms defs n) defs (concat (map attr_keys attrs)) v a)
      sequentially) attrs"
    by (simp add: eventually_list_all)
  also have "\<dots> \<longleftrightarrow> list_all (attr_holds (valid defs) defs (concat (map attr_keys attrs)) v) attrs"
    using assms by (auto simp: list_all_iff eventually_attr)
  finally show ?thesis .
qed

subsection \<open>The documents\<close>

text \<open>The fields of a struct that are set, by name.\<close>

definition struct_doc :: "(string \<times> go_value option) list \<Rightarrow> go_value" where
  "struct_doc fs = VObj (concat (map (\<lambda>(k, v). case v of None \<Rightarrow> [] | Some x \<Rightarrow> [(k, x)]) fs))"

definition omit_string :: "string \<Rightarrow> go_value option" where
  "omit_string s = (if s = [] then None else Some (VStr s))"

definition omit_slice :: "go_value list \<Rightarrow> go_value option" where
  "omit_slice vs = (if vs = [] then None else Some (VArr vs))"

definition keep_slice :: "go_value \<Rightarrow> go_value list \<Rightarrow> go_value option" where
  "keep_slice nil vs = Some (if vs = [] then nil else VArr vs)"

definition encode_LocalObjectReference :: "LocalObjectReference \<Rightarrow> go_value" where
  "encode_LocalObjectReference r = struct_doc [(''name'', omit_string (Ref_Name r))]"

text \<open>A root object: the inlined type, its metadata, spec and status.\<close>

definition encode_root :: "TypeMeta \<Rightarrow> go_value \<Rightarrow> go_value \<Rightarrow> go_value \<Rightarrow> go_value" where
  "encode_root t m spec status =
     struct_doc [(''kind'', omit_string (TypeMeta_Kind t)), (''apiVersion'', omit_string (TypeMeta_APIVersion t)),
       (''metadata'', Some m), (''spec'', Some spec), (''status'', Some status)]"

function value_of :: "json \<Rightarrow> go_value" where
  "value_of JNull = VNull"
| "value_of (JBool b) = VBool b"
| "value_of (JNum x) = VNum x"
| "value_of (JStr s) = VStr s"
| "value_of (JArr vs) = VArr (map value_of vs)"
| "value_of (JObj kvs) = VObj (map (\<lambda>kv. (fst kv, value_of (snd kv))) kvs)"
  by pat_completeness auto
termination
proof (relation "measure size")
  show "(v, JArr vs) \<in> measure size" if "v \<in> set vs" for v vs
    using that by (auto dest: size_list_estimation' [where f = size, OF _ order_refl])
  show "(snd kv, JObj kvs) \<in> measure size" if "kv \<in> set kvs" for kv and kvs :: "(string \<times> json) list"
  proof -
    have "size (snd kv) \<le> size_prod (\<lambda>_. 0) size kv" by (cases kv) simp
    from size_list_estimation' [where f = "size_prod (\<lambda>_. 0) size", OF that this] show ?thesis by simp
  qed
qed simp

definition encode_RawExtension :: "RawExtension \<Rightarrow> go_value option" where
  "encode_RawExtension r =
     (case Raw r of
        None \<Rightarrow> Some VNull
      | Some bs \<Rightarrow>
          (case parse_value (2 * length bs + 2) 0 id bs of
             None \<Rightarrow> None
           | Some (v, rest) \<Rightarrow> if skip_space rest = [] then Some (value_of v) else None))"

definition encode_OrderDefaults :: "OrderDefaults \<Rightarrow> go_value" where
  "encode_OrderDefaults d =
     struct_doc [(''srcRef'', Some (encode_LocalObjectReference (OrderDefaults_SrcRef d))),
       (''dstRef'', Some (encode_LocalObjectReference (OrderDefaults_DstRef d)))]"

definition encode_OrderArtifact :: "OrderArtifact \<Rightarrow> go_value option" where
  "encode_OrderArtifact a =
     map_option (\<lambda>spec. struct_doc [(''type'', Some (VStr (OrderArtifact_Type a))),
         (''srcRef'', Some (encode_LocalObjectReference (OrderArtifact_SrcRef a))),
         (''dstRef'', Some (encode_LocalObjectReference (OrderArtifact_DstRef a))), (''spec'', Some spec)])
       (encode_RawExtension (OrderArtifact_Spec a))"

definition encode_OrderSpec :: "OrderSpec \<Rightarrow> go_value option" where
  "encode_OrderSpec s =
     map_option (\<lambda>artifacts. struct_doc [(''defaults'', Some (encode_OrderDefaults (OrderSpec_Defaults s))),
         (''artifacts'', omit_slice artifacts)])
       (those (map encode_OrderArtifact (OrderSpec_Artifacts s)))"

definition encode_OrderArtifactWorkflowStatus :: "OrderArtifactWorkflowStatus \<Rightarrow> go_value" where
  "encode_OrderArtifactWorkflowStatus s =
     struct_doc [(''artifactIndex'', Some (VInt (OAWStatus_ArtifactIndex s))),
       (''phase'', Some (VStr (OAWStatus_Phase s))), (''message'', omit_string (OAWStatus_Message s))]"

definition encode_OrderStatus :: "OrderStatus \<Rightarrow> go_value" where
  "encode_OrderStatus s =
     (let m = entries (OrderStatus_ArtifactWorkflows s) in
      struct_doc [(''artifactWorkflows'',
        if m = fmempty then None
        else Some (VObj (map (\<lambda>k. (k, encode_OrderArtifactWorkflowStatus (get_or zero_OAWStatus m k)))
               (sorted_range ''json'' (fmdom m)))))])"

definition encode_Order :: "(ObjectMeta \<Rightarrow> go_value) \<Rightarrow> Order \<Rightarrow> go_value option" where
  "encode_Order meta order =
     map_option (\<lambda>spec. encode_root (Order_TypeMeta order) (meta (Order_ObjectMeta order)) spec
         (encode_OrderStatus (Order_Status order)))
       (encode_OrderSpec (Order_Spec order))"

definition encode_ArtifactWorkflowParameter :: "ArtifactWorkflowParameter \<Rightarrow> go_value" where
  "encode_ArtifactWorkflowParameter p =
     struct_doc [(''name'', Some (VStr (Parameter_Name p))), (''value'', Some (VStr (Parameter_Value p)))]"

definition encode_ArtifactWorkflowSpec :: "ArtifactWorkflowSpec \<Rightarrow> go_value" where
  "encode_ArtifactWorkflowSpec s =
     struct_doc [(''type'', Some (VStr (AWSpec_Type s))),
       (''parameters'', omit_slice (map encode_ArtifactWorkflowParameter (AWSpec_Parameters s))),
       (''srcSecretRef'', Some (encode_LocalObjectReference (AWSpec_SrcSecretRef s))),
       (''dstSecretRef'', Some (encode_LocalObjectReference (AWSpec_DstSecretRef s)))]"

definition encode_ArtifactWorkflowStatus :: "ArtifactWorkflowStatus \<Rightarrow> go_value" where
  "encode_ArtifactWorkflowStatus s =
     struct_doc [(''phase'', omit_string (AWStatus_Phase s)), (''message'', omit_string (AWStatus_Message s))]"

definition encode_ArtifactWorkflow :: "(ObjectMeta \<Rightarrow> go_value) \<Rightarrow> ArtifactWorkflow \<Rightarrow> go_value" where
  "encode_ArtifactWorkflow meta aw =
     encode_root (AW_TypeMeta aw) (meta (AW_ObjectMeta aw)) (encode_ArtifactWorkflowSpec (AW_Spec aw))
       (encode_ArtifactWorkflowStatus (AW_Status aw))"

definition encode_EndpointSpec :: "EndpointSpec \<Rightarrow> go_value" where
  "encode_EndpointSpec s =
     struct_doc [(''type'', Some (VStr (EndpointSpec_Type s))), (''remoteURL'', Some (VStr (EndpointSpec_RemoteURL s))),
       (''secretRef'', Some (encode_LocalObjectReference (EndpointSpec_SecretRef s))),
       (''usage'', Some (VStr (EndpointSpec_Usage s)))]"

definition encode_Endpoint :: "(ObjectMeta \<Rightarrow> go_value) \<Rightarrow> Endpoint \<Rightarrow> go_value" where
  "encode_Endpoint meta ep =
     encode_root (Endpoint_TypeMeta ep) (meta (Endpoint_ObjectMeta ep)) (encode_EndpointSpec (Endpoint_Spec ep)) (VObj [])"

definition encode_ArtifactTypeRules :: "ArtifactTypeRules \<Rightarrow> go_value" where
  "encode_ArtifactTypeRules r =
     struct_doc [(''srcTypes'', omit_slice (map VStr (Rules_SrcTypes r))),
       (''dstTypes'', omit_slice (map VStr (Rules_DstTypes r)))]"

definition encode_ArtifactTypeSpec :: "go_value \<Rightarrow> ArtifactTypeSpec \<Rightarrow> go_value" where
  "encode_ArtifactTypeSpec nil s =
     struct_doc [(''rules'', Some (encode_ArtifactTypeRules (ATSpec_Rules s))),
       (''parameters'', keep_slice nil (map encode_ArtifactWorkflowParameter (ATSpec_Parameters s))),
       (''workflowTemplateRef'', Some (encode_LocalObjectReference (ATSpec_WorkflowTemplateRef s)))]"

definition encode_ArtifactType :: "go_value \<Rightarrow> (ObjectMeta \<Rightarrow> go_value) \<Rightarrow> ArtifactType \<Rightarrow> go_value" where
  "encode_ArtifactType nil meta at1 =
     encode_root (AT_TypeMeta at1) (meta (AT_ObjectMeta at1)) (encode_ArtifactTypeSpec nil (AT_Spec at1)) (VObj [])"

subsection \<open>Looking definitions up\<close>

definition served_definitions :: "string openapi_library \<Rightarrow> definitions" where
  "served_definitions lib = map_of (map (\<lambda>(k, d). (k, Schema d)) (GetOpenAPIDefinitions lib (\<lambda>name. name)))"

lemma map_of_lazy: "map_of ((a, b) # xs) k = (if k = a then Some b else map_of xs k)"
  by simp

lemma arc_lookups:
  "served_definitions lib OrderDefaults_OpenAPIModelName = Some (Schema (schema_arc_api_arc_v1alpha1_OrderDefaults (\<lambda>name. name)))"
  "served_definitions lib OrderArtifact_OpenAPIModelName = Some (Schema (schema_arc_api_arc_v1alpha1_OrderArtifact (\<lambda>name. name)))"
  "served_definitions lib OrderSpec_OpenAPIModelName = Some (Schema (schema_arc_api_arc_v1alpha1_OrderSpec (\<lambda>name. name)))"
  "served_definitions lib OrderStatus_OpenAPIModelName = Some (Schema (schema_arc_api_arc_v1alpha1_OrderStatus (\<lambda>name. name)))"
  "served_definitions lib OrderArtifactWorkflowStatus_OpenAPIModelName =
     Some (Schema (schema_arc_api_arc_v1alpha1_OrderArtifactWorkflowStatus (\<lambda>name. name)))"
  "served_definitions lib ArtifactWorkflowParameter_OpenAPIModelName =
     Some (Schema (schema_arc_api_arc_v1alpha1_ArtifactWorkflowParameter (\<lambda>name. name)))"
  "served_definitions lib ArtifactWorkflowSpec_OpenAPIModelName =
     Some (Schema (schema_arc_api_arc_v1alpha1_ArtifactWorkflowSpec (\<lambda>name. name)))"
  "served_definitions lib ArtifactWorkflowStatus_OpenAPIModelName =
     Some (Schema (schema_arc_api_arc_v1alpha1_ArtifactWorkflowStatus (\<lambda>name. name)))"
  "served_definitions lib EndpointSpec_OpenAPIModelName = Some (Schema (schema_arc_api_arc_v1alpha1_EndpointSpec (\<lambda>name. name)))"
  "served_definitions lib EndpointStatus_OpenAPIModelName =
     Some (Schema (schema_arc_api_arc_v1alpha1_EndpointStatus (\<lambda>name. name)))"
  "served_definitions lib ArtifactTypeRules_OpenAPIModelName =
     Some (Schema (schema_arc_api_arc_v1alpha1_ArtifactTypeRules (\<lambda>name. name)))"
  "served_definitions lib ArtifactTypeSpec_OpenAPIModelName =
     Some (Schema (schema_arc_api_arc_v1alpha1_ArtifactTypeSpec (\<lambda>name. name)))"
  "served_definitions lib ArtifactTypeStatus_OpenAPIModelName =
     Some (Schema (schema_arc_api_arc_v1alpha1_ArtifactTypeStatus (\<lambda>name. name)))"
  by (simp_all add: served_definitions_def GetOpenAPIDefinitions_def arc_definitions_def map_of_lazy model_names
      del: map_of.simps)

lemma lookup_unique:
  assumes "(k, d) \<in> set defs" and "list_all (\<lambda>e. fst e = k \<longrightarrow> snd e = d) defs"
  shows "map_of (map (\<lambda>(k, d). (k, Schema d)) defs) k = Some (Schema d)"
  using assms by (induction defs) auto

lemma package_rows:
  "(core_v1 ''LocalObjectReference'', schema_k8sio_api_core_v1_LocalObjectReference ref) \<in> set (core_definitions2 ref)"
  "(pkg_runtime ''RawExtension'', schema_k8sio_apimachinery_pkg_runtime_RawExtension ref) \<in> set (machinery_definitions lib ref)"
  "(meta_v1 ''ObjectMeta'', schema_pkg_apis_meta_v1_ObjectMeta ref) \<in> set (machinery_definitions lib ref)"
  by (simp_all add: core_definitions2_def machinery_definitions_def)

lemma package_lookups:
  "served_definitions lib (core_v1 ''LocalObjectReference'') =
     Some (Schema (schema_k8sio_api_core_v1_LocalObjectReference (\<lambda>name. name)))"
  "served_definitions lib (pkg_runtime ''RawExtension'') =
     Some (Schema (schema_k8sio_apimachinery_pkg_runtime_RawExtension (\<lambda>name. name)))"
  "served_definitions lib (meta_v1 ''ObjectMeta'') =
     Some (Schema (schema_pkg_apis_meta_v1_ObjectMeta (\<lambda>name. name)))"
  unfolding served_definitions_def
  by (rule lookup_unique, simp add: GetOpenAPIDefinitions_def package_rows,
      simp add: GetOpenAPIDefinitions_def table_defs model_names)+

lemmas lookups = arc_lookups package_lookups

subsection \<open>Which documents are valid\<close>

lemma members_struct [simp]:
  "is_object (struct_doc fs)" "has_type t (struct_doc fs) \<longleftrightarrow> t = ''object''" "elements (struct_doc fs) = []"
  by (simp_all add: struct_doc_def)

lemma lookup_struct:
  "distinct (map fst fs) \<Longrightarrow> map_of (members (struct_doc fs)) k = (case map_of fs k of None \<Rightarrow> None | Some v \<Rightarrow> v)"
proof (induction fs)
  case (Cons f fs)
  have "k \<notin> fst ` set fs \<Longrightarrow> map_of fs k = None" by (simp add: map_of_eq_None_iff)
  with Cons show ?case by (cases f) (auto simp: struct_doc_def split: option.splits)
qed (simp add: struct_doc_def)

lemma keys_struct: "fst ` set (members (struct_doc fs)) = {k. \<exists>v. (k, Some v) \<in> set fs}"
  by (induction fs) (force simp: struct_doc_def split: option.splits)+

lemma omit_cases [simp]:
  "(case omit_string s of None \<Rightarrow> True | Some x \<Rightarrow> P x) \<longleftrightarrow> s = [] \<or> P (VStr s)"
  "(case omit_slice vs of None \<Rightarrow> True | Some x \<Rightarrow> P x) \<longleftrightarrow> vs = [] \<or> P (VArr vs)"
  "(case keep_slice nil vs of None \<Rightarrow> True | Some x \<Rightarrow> P x) \<longleftrightarrow> (if vs = [] then P nil else P (VArr vs))"
  by (simp_all add: omit_string_def omit_slice_def keep_slice_def)

lemmas valid_simps = valid_iff lookup_struct keys_struct lookups

abbreviation string_schema :: "string schema" where
  "string_schema \<equiv> SchemaProps [Type [''string''], Format []]"

abbreviation default_string_schema :: "string schema" where
  "default_string_schema \<equiv> SchemaProps [Default (VStr []), Type [''string''], Format []]"

abbreviation ref_schema :: "string \<Rightarrow> string schema" where
  "ref_schema name \<equiv> SchemaProps [Default (VObj []), Ref name]"

lemma leaf_valid [simp]:
  "valid defs string_schema (VStr s)" "valid defs default_string_schema (VStr s)"
  "defs name = Some sch \<Longrightarrow> valid defs (ref_schema name) = valid defs sch"
  by (simp_all add: valid_iff fun_eq_iff)

lemma valid_LocalObjectReference [simp]:
  "valid (served_definitions lib) (Schema (schema_k8sio_api_core_v1_LocalObjectReference (\<lambda>name. name)))
     (encode_LocalObjectReference r)"
  by (simp add: schema_k8sio_api_core_v1_LocalObjectReference_def encode_LocalObjectReference_def valid_simps)

lemma valid_RawExtension [simp]:
  "valid (served_definitions lib) (Schema (schema_k8sio_apimachinery_pkg_runtime_RawExtension (\<lambda>name. name))) v \<longleftrightarrow>
   is_object v"
  by (cases v) (simp_all add: schema_k8sio_apimachinery_pkg_runtime_RawExtension_def valid_simps)

lemma valid_OrderDefaults [simp]:
  "valid (served_definitions lib) (Schema (schema_arc_api_arc_v1alpha1_OrderDefaults (\<lambda>name. name)))
     (encode_OrderDefaults d)"
  by (simp add: schema_arc_api_arc_v1alpha1_OrderDefaults_def encode_OrderDefaults_def valid_simps)

lemma valid_OrderArtifact [simp]:
  assumes "encode_OrderArtifact a = Some v"
  shows "valid (served_definitions lib) (Schema (schema_arc_api_arc_v1alpha1_OrderArtifact (\<lambda>name. name))) v \<longleftrightarrow>
    (\<exists>spec. encode_RawExtension (OrderArtifact_Spec a) = Some spec \<and> is_object spec)"
  using assms
  by (auto simp: schema_arc_api_arc_v1alpha1_OrderArtifact_def encode_OrderArtifact_def valid_simps)

lemma valid_OrderSpec:
  assumes "encode_OrderSpec s = Some v"
  shows "valid (served_definitions lib) (Schema (schema_arc_api_arc_v1alpha1_OrderSpec (\<lambda>name. name))) v \<longleftrightarrow>
    (\<forall>a \<in> set (OrderSpec_Artifacts s). \<exists>spec. encode_RawExtension (OrderArtifact_Spec a) = Some spec \<and> is_object spec)"
proof -
  obtain as where as: "those (map encode_OrderArtifact (OrderSpec_Artifacts s)) = Some as"
    and v: "v = struct_doc [(''defaults'', Some (encode_OrderDefaults (OrderSpec_Defaults s))), (''artifacts'', omit_slice as)]"
    using assms by (auto simp: encode_OrderSpec_def)
  have "list_all (\<lambda>x. valid (served_definitions lib) (Schema (schema_arc_api_arc_v1alpha1_OrderArtifact (\<lambda>name. name))) x) as \<longleftrightarrow>
      (\<forall>a \<in> set xs. \<exists>spec. encode_RawExtension (OrderArtifact_Spec a) = Some spec \<and> is_object spec)"
    if "those (map encode_OrderArtifact xs) = Some as" for xs
    using that by (induction xs arbitrary: as) (auto split: option.splits)
  from this [OF as] show ?thesis
    unfolding v by (cases "as = []") (simp_all add: schema_arc_api_arc_v1alpha1_OrderSpec_def valid_simps)
qed

definition phase_known :: "WorkflowPhase \<Rightarrow> bool" where
  "phase_known p \<longleftrightarrow> p \<in> {WorkflowUnknown, WorkflowError, WorkflowFailed, WorkflowPending, WorkflowRunning, WorkflowSucceeded}"

lemma valid_OrderArtifactWorkflowStatus [simp]:
  "valid (served_definitions lib) (Schema (schema_arc_api_arc_v1alpha1_OrderArtifactWorkflowStatus (\<lambda>name. name)))
     (encode_OrderArtifactWorkflowStatus s) \<longleftrightarrow>
   in_bits 32 (OAWStatus_ArtifactIndex s) \<and> phase_known (OAWStatus_Phase s)"
  by (auto simp: schema_arc_api_arc_v1alpha1_OrderArtifactWorkflowStatus_def encode_OrderArtifactWorkflowStatus_def
      valid_simps phase_known_def api_defs)

lemma valid_OrderStatus:
  "valid (served_definitions lib) (Schema (schema_arc_api_arc_v1alpha1_OrderStatus (\<lambda>name. name)))
     (encode_OrderStatus s) \<longleftrightarrow>
   (\<forall>k st. fmlookup (entries (OrderStatus_ArtifactWorkflows s)) k = Some st \<longrightarrow>
      in_bits 32 (OAWStatus_ArtifactIndex st) \<and> phase_known (OAWStatus_Phase st))"
proof (cases "entries (OrderStatus_ArtifactWorkflows s) = fmempty")
  case True
  then show ?thesis
    by (simp add: schema_arc_api_arc_v1alpha1_OrderStatus_def encode_OrderStatus_def valid_simps)
next
  case False
  let ?m = "entries (OrderStatus_ArtifactWorkflows s)"
  have "valid (served_definitions lib) (Schema (schema_arc_api_arc_v1alpha1_OrderStatus (\<lambda>name. name)))
      (encode_OrderStatus s) \<longleftrightarrow>
    list_all (\<lambda>k. in_bits 32 (OAWStatus_ArtifactIndex (get_or zero_OAWStatus ?m k)) \<and>
      phase_known (OAWStatus_Phase (get_or zero_OAWStatus ?m k))) (sorted_range ''json'' (fmdom ?m))"
    using False
    by (simp add: schema_arc_api_arc_v1alpha1_OrderStatus_def encode_OrderStatus_def valid_simps Let_def list.pred_map
        comp_def)
  then show ?thesis
    by (auto simp: list_all_iff get_or_def fmlookup_dom_iff split: option.splits)
qed

lemma valid_ArtifactWorkflowParameter [simp]:
  "valid (served_definitions lib) (Schema (schema_arc_api_arc_v1alpha1_ArtifactWorkflowParameter (\<lambda>name. name)))
     (encode_ArtifactWorkflowParameter p)"
  by (simp add: schema_arc_api_arc_v1alpha1_ArtifactWorkflowParameter_def encode_ArtifactWorkflowParameter_def valid_simps)

lemma valid_ArtifactWorkflowSpec [simp]:
  "valid (served_definitions lib) (Schema (schema_arc_api_arc_v1alpha1_ArtifactWorkflowSpec (\<lambda>name. name)))
     (encode_ArtifactWorkflowSpec s)"
  by (simp add: schema_arc_api_arc_v1alpha1_ArtifactWorkflowSpec_def encode_ArtifactWorkflowSpec_def valid_simps
      list.pred_map comp_def list.pred_True)

lemma valid_ArtifactWorkflowStatus [simp]:
  "valid (served_definitions lib) (Schema (schema_arc_api_arc_v1alpha1_ArtifactWorkflowStatus (\<lambda>name. name)))
     (encode_ArtifactWorkflowStatus s) \<longleftrightarrow> phase_known (AWStatus_Phase s)"
  by (auto simp: schema_arc_api_arc_v1alpha1_ArtifactWorkflowStatus_def encode_ArtifactWorkflowStatus_def
      valid_simps phase_known_def api_defs)

lemma valid_EndpointSpec [simp]:
  "valid (served_definitions lib) (Schema (schema_arc_api_arc_v1alpha1_EndpointSpec (\<lambda>name. name)))
     (encode_EndpointSpec s) \<longleftrightarrow>
   EndpointSpec_Usage s \<in> {EndpointUsageAll, EndpointUsagePullOnly, EndpointUsagePushOnly}"
  by (auto simp: schema_arc_api_arc_v1alpha1_EndpointSpec_def encode_EndpointSpec_def valid_simps api_defs)

lemma valid_ArtifactTypeRules [simp]:
  "valid (served_definitions lib) (Schema (schema_arc_api_arc_v1alpha1_ArtifactTypeRules (\<lambda>name. name)))
     (encode_ArtifactTypeRules r)"
  by (simp add: schema_arc_api_arc_v1alpha1_ArtifactTypeRules_def encode_ArtifactTypeRules_def valid_simps
      list.pred_map comp_def list.pred_True)

lemma valid_ArtifactTypeSpec [simp]:
  assumes "nil = VNull \<or> nil = VArr []"
  shows "valid (served_definitions lib) (Schema (schema_arc_api_arc_v1alpha1_ArtifactTypeSpec (\<lambda>name. name)))
     (encode_ArtifactTypeSpec nil s) \<longleftrightarrow> ATSpec_Parameters s \<noteq> [] \<or> nil = VArr []"
  using assms
  by (auto simp: schema_arc_api_arc_v1alpha1_ArtifactTypeSpec_def encode_ArtifactTypeSpec_def keep_slice_def valid_simps
      list.pred_map comp_def list.pred_True)

lemma valid_empty_status [simp]:
  "valid (served_definitions lib) (Schema (schema_arc_api_arc_v1alpha1_EndpointStatus (\<lambda>name. name))) (VObj [])"
  "valid (served_definitions lib) (Schema (schema_arc_api_arc_v1alpha1_ArtifactTypeStatus (\<lambda>name. name))) (VObj [])"
  by (simp_all add: schema_arc_api_arc_v1alpha1_EndpointStatus_def schema_arc_api_arc_v1alpha1_ArtifactTypeStatus_def
      valid_simps)

text \<open>The definitions of the four root types have one shape.\<close>

definition root_schema :: "string \<Rightarrow> string \<Rightarrow> string schema" where
  "root_schema spec status =
     SchemaProps
       [Type [''object''],
        Properties
          [(''kind'', string_schema), (''apiVersion'', string_schema), (''metadata'', ref_schema (meta_v1 ''ObjectMeta'')),
           (''spec'', ref_schema spec), (''status'', ref_schema status)]]"

lemma root_schemas:
  "Schema (schema_arc_api_arc_v1alpha1_Order (\<lambda>name. name)) = root_schema OrderSpec_OpenAPIModelName OrderStatus_OpenAPIModelName"
  "Schema (schema_arc_api_arc_v1alpha1_ArtifactWorkflow (\<lambda>name. name)) =
     root_schema ArtifactWorkflowSpec_OpenAPIModelName ArtifactWorkflowStatus_OpenAPIModelName"
  "Schema (schema_arc_api_arc_v1alpha1_Endpoint (\<lambda>name. name)) =
     root_schema EndpointSpec_OpenAPIModelName EndpointStatus_OpenAPIModelName"
  "Schema (schema_arc_api_arc_v1alpha1_ArtifactType (\<lambda>name. name)) =
     root_schema ArtifactTypeSpec_OpenAPIModelName ArtifactTypeStatus_OpenAPIModelName"
  by (simp_all add: schema_defs root_schema_def)

lemma valid_root:
  assumes "served_definitions lib a = Some sa" and "served_definitions lib b = Some sb"
  shows "valid (served_definitions lib) (root_schema a b) (encode_root t m spec status) \<longleftrightarrow>
    valid (served_definitions lib) (Schema (schema_pkg_apis_meta_v1_ObjectMeta (\<lambda>name. name))) m \<and>
    valid (served_definitions lib) sa spec \<and> valid (served_definitions lib) sb status"
  using assms by (simp add: root_schema_def encode_root_def valid_simps)

text \<open>
  C32: which API objects the OpenAPI definitions describe. With valid metadata, the document of an
  order is valid exactly if the spec of each artifact is a JSON object and each entry of the status
  has one of the six phases and an index that fits 32 bits; that of an artifact workflow exactly if
  it has one of the six phases; that of an endpoint exactly if its usage is one of the three named
  ones; that of an artifact type exactly if its parameters are not a nil slice.
\<close>

theorem documents_match_definitions:
  assumes "\<forall>m. valid (served_definitions lib) (Schema (schema_pkg_apis_meta_v1_ObjectMeta (\<lambda>name. name))) (meta m)"
    and "nil = VNull \<or> nil = VArr []"
  shows "(\<forall>order v. encode_Order meta order = Some v \<longrightarrow>
      (valid (served_definitions lib) (Schema (schema_arc_api_arc_v1alpha1_Order (\<lambda>name. name))) v \<longleftrightarrow>
       (\<forall>a \<in> set (OrderSpec_Artifacts (Order_Spec order)).
          \<exists>spec. encode_RawExtension (OrderArtifact_Spec a) = Some spec \<and> is_object spec) \<and>
       (\<forall>k st. fmlookup (entries (OrderStatus_ArtifactWorkflows (Order_Status order))) k = Some st \<longrightarrow>
          in_bits 32 (OAWStatus_ArtifactIndex st) \<and> phase_known (OAWStatus_Phase st)))) \<and>
    (\<forall>aw. valid (served_definitions lib) (Schema (schema_arc_api_arc_v1alpha1_ArtifactWorkflow (\<lambda>name. name)))
        (encode_ArtifactWorkflow meta aw) \<longleftrightarrow> phase_known (AWStatus_Phase (AW_Status aw))) \<and>
    (\<forall>ep. valid (served_definitions lib) (Schema (schema_arc_api_arc_v1alpha1_Endpoint (\<lambda>name. name)))
        (encode_Endpoint meta ep) \<longleftrightarrow>
      EndpointSpec_Usage (Endpoint_Spec ep) \<in> {EndpointUsageAll, EndpointUsagePullOnly, EndpointUsagePushOnly}) \<and>
    (\<forall>at1. valid (served_definitions lib) (Schema (schema_arc_api_arc_v1alpha1_ArtifactType (\<lambda>name. name)))
        (encode_ArtifactType nil meta at1) \<longleftrightarrow> ATSpec_Parameters (AT_Spec at1) \<noteq> [] \<or> nil = VArr [])"
  using assms
  by (auto simp: root_schemas valid_root [OF arc_lookups(3,4)] valid_root [OF arc_lookups(7,8)]
      valid_root [OF arc_lookups(9,10)] valid_root [OF arc_lookups(12,13)] encode_Order_def
      encode_ArtifactWorkflow_def encode_Endpoint_def encode_ArtifactType_def valid_OrderSpec valid_OrderStatus)

definition demo_meta :: "ObjectMeta \<Rightarrow> go_value" where
  "demo_meta m = struct_doc [(''name'', Some (VStr (Meta_Name m)))]"

lemma demo_meta_valid:
  "valid (served_definitions lib) (Schema (schema_pkg_apis_meta_v1_ObjectMeta (\<lambda>name. name))) (demo_meta m)"
  by (simp add: schema_pkg_apis_meta_v1_ObjectMeta_def demo_meta_def valid_simps)

theorem documents_match_definitions_witness:
  "let order = \<lparr>Order_TypeMeta = zero_TypeMeta, Order_ObjectMeta = zero_ObjectMeta,
     Order_Spec = \<lparr>OrderSpec_Defaults = \<lparr>OrderDefaults_SrcRef = \<lparr>Ref_Name = ''src''\<rparr>, OrderDefaults_DstRef = \<lparr>Ref_Name = []\<rparr>\<rparr>,
       OrderSpec_Artifacts = [\<lparr>OrderArtifact_Type = ''oci'', OrderArtifact_SrcRef = \<lparr>Ref_Name = []\<rparr>,
         OrderArtifact_DstRef = \<lparr>Ref_Name = ''dst''\<rparr>, OrderArtifact_Spec = \<lparr>Raw = None\<rparr>\<rparr>]\<rparr>,
     Order_Status = \<lparr>OrderStatus_ArtifactWorkflows = None\<rparr>\<rparr> in
   \<exists>v. encode_Order demo_meta order = Some v \<and>
     \<not> valid (served_definitions demo_library) (Schema (schema_arc_api_arc_v1alpha1_Order (\<lambda>name. name))) v"
proof -
  let ?a = "\<lparr>OrderArtifact_Type = ''oci'', OrderArtifact_SrcRef = \<lparr>Ref_Name = []\<rparr>,
    OrderArtifact_DstRef = \<lparr>Ref_Name = ''dst''\<rparr>, OrderArtifact_Spec = \<lparr>Raw = None\<rparr>\<rparr>"
  let ?order = "\<lparr>Order_TypeMeta = zero_TypeMeta, Order_ObjectMeta = zero_ObjectMeta,
    Order_Spec = \<lparr>OrderSpec_Defaults = \<lparr>OrderDefaults_SrcRef = \<lparr>Ref_Name = ''src''\<rparr>, OrderDefaults_DstRef = \<lparr>Ref_Name = []\<rparr>\<rparr>,
      OrderSpec_Artifacts = [?a]\<rparr>, Order_Status = \<lparr>OrderStatus_ArtifactWorkflows = None\<rparr>\<rparr>"
  have raw: "encode_RawExtension (OrderArtifact_Spec ?a) = Some VNull" by (simp add: encode_RawExtension_def)
  then obtain v where v: "encode_Order demo_meta ?order = Some v"
    by (simp add: encode_Order_def encode_OrderSpec_def encode_OrderArtifact_def)
  have "\<forall>m. valid (served_definitions demo_library) (Schema (schema_pkg_apis_meta_v1_ObjectMeta (\<lambda>name. name))) (demo_meta m)"
    by (simp add: demo_meta_valid)
  from documents_match_definitions [OF this, of VNull, THEN conjunct1, rule_format, OF _ v] raw
  have "\<not> valid (served_definitions demo_library) (Schema (schema_arc_api_arc_v1alpha1_Order (\<lambda>name. name))) v"
    by simp
  with v show ?thesis unfolding Let_def by blast
qed

text \<open>
  The default the definition of an endpoint's spec gives for the usage is the empty string, which is
  not one of the usages it lists.
\<close>

lemma usage_default_invalid:
  "\<exists>attrs. (''usage'', SchemaProps attrs) \<in>
     set (case Schema (schema_arc_api_arc_v1alpha1_EndpointSpec (\<lambda>name. name)) of
       SchemaProps [t, Properties ps, r] \<Rightarrow> ps | _ \<Rightarrow> []) \<and>
   Default (VStr []) \<in> set attrs \<and> \<not> valid (served_definitions lib) (SchemaProps attrs) (VStr [])"
  by (simp add: schema_arc_api_arc_v1alpha1_EndpointSpec_def valid_simps)

end
