(* ===== verification/Fake_Clientset.thy ===== *)
theory Fake_Clientset
  imports Install
begin

section \<open>The fake clientset\<close>

text \<open>
  \<^verbatim>\<open>client-go/clientset/versioned/fake\<close> and \<^verbatim>\<open>typed/arc/v1alpha1/fake\<close>: the clientset that programs using the
  API test against. It answers requests from an object tracker instead of a server. The tracker, the
  reaction chains of \<open>testing.Fake\<close> and the generic fake client belong to the testing library of client-go
  and are the parameter \<open>testing_library\<close>. \<open>applyconfigurations.NewTypeConverter\<close> and the parser behind it
  (\<^verbatim>\<open>client-go/applyconfigurations\<close>) are here too, as the fake clientset is what uses them.

  The code shares by pointer: the clientset, its discovery client and all typed clients have the same
  \<open>testing.Fake\<close>, and the reactors and the clientset the same tracker. A pointer to a \<open>testing.Fake\<close> or to a
  tracker is an index into the lists of \<open>fake_world\<close>, which also has the package variables of the parser.
\<close>

type_synonym GVR = "(string \<times> string) \<times> string"

subsection \<open>The testing library\<close>

text \<open>
  An action as the code looks at it; the list options are there if it is a \<open>WatchActionImpl\<close>. A watch
  reaction returns whether it handled the action, a watch and an error, and may change the trackers.
\<close>

record 'opts test_action =
  GetResource :: GVR
  GetNamespace :: string
  WatchAction_ListOptions :: "'opts option"

type_synonym ('opts, 'wa, 't) watch_reaction =
  "'opts test_action \<Rightarrow> 't list \<Rightarrow> (bool \<times> 'wa option \<times> go_error option) \<times> 't list"

record ('s, 'dec, 'pa, 'tc, 't, 'f, 're, 'obj, 'opts, 'wa) testing_library =
  UniversalDecoder :: "'s \<Rightarrow> 'dec"
  NewParser :: "string \<Rightarrow> go_error + 'pa"
  NewSchemeTypeConverter :: "'s \<Rightarrow> 'pa option \<Rightarrow> 'tc"
  NewObjectTracker :: "'s \<Rightarrow> 'dec \<Rightarrow> 't"
  NewFieldManagedObjectTracker :: "'s \<Rightarrow> 'dec \<Rightarrow> 'tc \<Rightarrow> 't"
  Tracker_Add :: "'obj \<Rightarrow> 't \<Rightarrow> go_error option \<times> 't"
  Tracker_Watch :: "GVR \<Rightarrow> string \<Rightarrow> 'opts \<Rightarrow> 't \<Rightarrow> (go_error + 'wa) \<times> 't"
  ObjectReaction :: "nat \<Rightarrow> 're"
  zero_Fake :: 'f
  AddReactor :: "string \<Rightarrow> string \<Rightarrow> 're \<Rightarrow> 'f \<Rightarrow> 'f"
  AddWatchReactor :: "string \<Rightarrow> ('opts, 'wa, 't) watch_reaction \<Rightarrow> 'f \<Rightarrow> 'f"
  zero_ListOptions :: 'opts

record ('f, 't, 'pa) fake_world =
  World_Fakes :: "'f list"
  World_Trackers :: "'t list"
  World_parserOnce :: bool
  World_parser :: "'pa option"

subsection \<open>The scheme of the fake clientset\<close>

definition fake_SchemeBuilder :: "'s scheme_ops \<Rightarrow> ('s \<Rightarrow> go_error + 's) list" where
  "fake_SchemeBuilder ops = [v1alpha1_AddToScheme ops]"

definition fake_AddToScheme :: "'s scheme_ops \<Rightarrow> 's \<Rightarrow> go_error + 's" where
  "fake_AddToScheme ops s = SchemeBuilder_AddToScheme ops (fake_SchemeBuilder ops) s"

definition fake_scheme_init :: "'s scheme_ops \<Rightarrow> 's \<Rightarrow> 's res" where
  "fake_scheme_init ops scheme = Must (fake_AddToScheme ops (AddToGroupVersion ops ('''', ''v1'') scheme))"

subsection \<open>The type converter of the apply configurations\<close>

text \<open>
  The schema the parser is made from, line by line. \<open>sync.Once\<close> counts a call that panicked as done: later
  calls return the parser as it is, which is then nil.
\<close>

definition yaml_lines :: "string list \<Rightarrow> string" where
  "yaml_lines ls = concat (map (\<lambda>l. l @ [CHR 0x0A]) ls)"

definition schemaYAML :: string where
  "schemaYAML =
     yaml_lines
       [''types:'',
        ''- name: __untyped_atomic_'',
        ''  scalar: untyped'',
        ''  list:'',
        ''    elementType:'',
        ''      namedType: __untyped_atomic_'',
        ''    elementRelationship: atomic'',
        ''  map:'',
        ''    elementType:'',
        ''      namedType: __untyped_atomic_'',
        ''    elementRelationship: atomic'',
        ''- name: __untyped_deduced_'',
        ''  scalar: untyped'',
        ''  list:'',
        ''    elementType:'',
        ''      namedType: __untyped_atomic_'',
        ''    elementRelationship: atomic'',
        ''  map:'',
        ''    elementType:'',
        ''      namedType: __untyped_deduced_'',
        ''    elementRelationship: separable'']"

definition internal_Parser ::
  "('s, 'dec, 'pa, 'tc, 't, 'f, 're, 'obj, 'opts, 'wa) testing_library \<Rightarrow> ('f, 't, 'pa) fake_world \<Rightarrow>
   'pa option res \<times> ('f, 't, 'pa) fake_world" where
  "internal_Parser lib w =
     (if World_parserOnce w then (Inr (World_parser w), w)
      else
        case NewParser lib schemaYAML of
          Inl err \<Rightarrow> (Inl (Panic (''Failed to parse schema: '' @ error_text err)),
             w\<lparr>World_parserOnce := True, World_parser := None\<rparr>)
        | Inr p \<Rightarrow> (Inr (Some p), w\<lparr>World_parserOnce := True, World_parser := Some p\<rparr>))"

definition NewTypeConverter ::
  "('s, 'dec, 'pa, 'tc, 't, 'f, 're, 'obj, 'opts, 'wa) testing_library \<Rightarrow> 's \<Rightarrow> ('f, 't, 'pa) fake_world \<Rightarrow>
   'tc res \<times> ('f, 't, 'pa) fake_world" where
  "NewTypeConverter lib scheme w =
     (case internal_Parser lib w of
        (Inl f, w) \<Rightarrow> (Inl f, w)
      | (Inr p, w) \<Rightarrow> (Inr (NewSchemeTypeConverter lib scheme p), w))"

subsection \<open>The clientset\<close>

record FakeClientset =
  FakeClientset_Fake :: nat
  FakeClientset_discovery :: "nat option"
  FakeClientset_tracker :: "nat option"

definition FakeClientset_Discovery :: "FakeClientset \<Rightarrow> nat option" where
  "FakeClientset_Discovery c = FakeClientset_discovery c"

definition FakeClientset_Tracker :: "FakeClientset \<Rightarrow> nat option" where
  "FakeClientset_Tracker c = FakeClientset_tracker c"

fun add_objects ::
  "('s, 'dec, 'pa, 'tc, 't, 'f, 're, 'obj, 'opts, 'wa) testing_library \<Rightarrow> 'obj list \<Rightarrow> 't \<Rightarrow> 't res" where
  "add_objects lib [] t = Inr t"
| "add_objects lib (obj # objects) t =
     (case Tracker_Add lib obj t of
        (Some err, t) \<Rightarrow> Inl (Panic (error_text err))
      | (None, t) \<Rightarrow> add_objects lib objects t)"

definition watch_reactor ::
  "('s, 'dec, 'pa, 'tc, 't, 'f, 're, 'obj, 'opts, 'wa) testing_library \<Rightarrow> nat \<Rightarrow> ('opts, 'wa, 't) watch_reaction" where
  "watch_reactor lib tracker action ts =
     (let opts = (case WatchAction_ListOptions action of None \<Rightarrow> zero_ListOptions lib | Some o1 \<Rightarrow> o1);
          gvr = GetResource action;
          ns = GetNamespace action
      in case Tracker_Watch lib gvr ns opts (ts ! tracker) of
           (Inl err, t) \<Rightarrow> ((False, None, Some err), ts[tracker := t])
         | (Inr watch, t) \<Rightarrow> ((True, Some watch, None), ts[tracker := t]))"

text \<open>What both constructors do once the tracker has its objects.\<close>

definition clientset_around ::
  "('s, 'dec, 'pa, 'tc, 't, 'f, 're, 'obj, 'opts, 'wa) testing_library \<Rightarrow> 't \<Rightarrow> ('f, 't, 'pa) fake_world \<Rightarrow>
   FakeClientset \<times> ('f, 't, 'pa) fake_world" where
  "clientset_around lib t w =
     (let tracker = length (World_Trackers w); fake = length (World_Fakes w);
          f = AddReactor lib ''*'' ''*'' (ObjectReaction lib tracker) (zero_Fake lib)
      in (\<lparr>FakeClientset_Fake = fake, FakeClientset_discovery = Some fake, FakeClientset_tracker = Some tracker\<rparr>,
          w\<lparr>World_Fakes := World_Fakes w @ [AddWatchReactor lib ''*'' (watch_reactor lib tracker) f],
            World_Trackers := World_Trackers w @ [t]\<rparr>))"

definition NewSimpleClientset ::
  "('s, 'dec, 'pa, 'tc, 't, 'f, 're, 'obj, 'opts, 'wa) testing_library \<Rightarrow> 's \<Rightarrow> 'obj list \<Rightarrow> ('f, 't, 'pa) fake_world \<Rightarrow>
   FakeClientset res \<times> ('f, 't, 'pa) fake_world" where
  "NewSimpleClientset lib scheme objects w =
     (case add_objects lib objects (NewObjectTracker lib scheme (UniversalDecoder lib scheme)) of
        Inl f \<Rightarrow> (Inl f, w)
      | Inr t \<Rightarrow> (let (cs, w) = clientset_around lib t w in (Inr cs, w)))"

definition NewClientset ::
  "('s, 'dec, 'pa, 'tc, 't, 'f, 're, 'obj, 'opts, 'wa) testing_library \<Rightarrow> 's \<Rightarrow> 'obj list \<Rightarrow> ('f, 't, 'pa) fake_world \<Rightarrow>
   FakeClientset res \<times> ('f, 't, 'pa) fake_world" where
  "NewClientset lib scheme objects w =
     (case NewTypeConverter lib scheme w of
        (Inl f, w) \<Rightarrow> (Inl f, w)
      | (Inr converter, w) \<Rightarrow>
          (case add_objects lib objects (NewFieldManagedObjectTracker lib scheme (UniversalDecoder lib scheme) converter) of
             Inl f \<Rightarrow> (Inl f, w)
           | Inr t \<Rightarrow> (let (cs, w) = clientset_around lib t w in (Inr cs, w))))"

subsection \<open>Typed clients\<close>

text \<open>
  \<open>gentype.NewFakeClientWithListAndApply\<close> with what the code passes to it: beside resource and kind the
  functions it uses to take lists apart and put them together. Their pointers to items are the items.
\<close>

record ('x, 'l) fake_typed_client =
  FakeTyped_Fake :: nat
  FakeTyped_namespace :: string
  FakeTyped_resource :: GVR
  FakeTyped_kind :: "(string \<times> string) \<times> string"
  FakeTyped_newObject :: string
  FakeTyped_newList :: 'l
  FakeTyped_copyListMeta :: "'l \<Rightarrow> 'l \<Rightarrow> 'l"
  FakeTyped_getItems :: "'l \<Rightarrow> 'x list"
  FakeTyped_setItems :: "'l \<Rightarrow> 'x list \<Rightarrow> 'l"

record FakeArcV1alpha1 =
  FakeArc_Fake :: nat

definition zero_ListMeta :: ListMeta where
  "zero_ListMeta = \<lparr>ListMeta_ResourceVersion = [], ListMeta_Continue = []\<rparr>"

definition newFakeArtifactTypes :: "FakeArcV1alpha1 \<Rightarrow> (ArtifactType, ArtifactTypeList) fake_typed_client" where
  "newFakeArtifactTypes fake =
     \<lparr>FakeTyped_Fake = FakeArc_Fake fake, FakeTyped_namespace = '''',
      FakeTyped_resource = (v1alpha1_SchemeGroupVersion, ''artifacttypes''), FakeTyped_kind = (v1alpha1_SchemeGroupVersion, ''ArtifactType''),
      FakeTyped_newObject = ''ArtifactType'',
      FakeTyped_newList = \<lparr>ATList_TypeMeta = zero_TypeMeta, ATList_ListMeta = zero_ListMeta, ATList_Items = []\<rparr>,
      FakeTyped_copyListMeta = (\<lambda>dst src. dst\<lparr>ATList_ListMeta := ATList_ListMeta src\<rparr>),
      FakeTyped_getItems = ATList_Items, FakeTyped_setItems = (\<lambda>list items. list\<lparr>ATList_Items := items\<rparr>)\<rparr>"

definition newFakeArtifactWorkflows :: "FakeArcV1alpha1 \<Rightarrow> string \<Rightarrow> (ArtifactWorkflow, ArtifactWorkflowList) fake_typed_client" where
  "newFakeArtifactWorkflows fake namespace =
     \<lparr>FakeTyped_Fake = FakeArc_Fake fake, FakeTyped_namespace = namespace,
      FakeTyped_resource = (v1alpha1_SchemeGroupVersion, ''artifactworkflows''), FakeTyped_kind = (v1alpha1_SchemeGroupVersion, ''ArtifactWorkflow''),
      FakeTyped_newObject = ''ArtifactWorkflow'',
      FakeTyped_newList = \<lparr>AWList_TypeMeta = zero_TypeMeta, AWList_ListMeta = zero_ListMeta, AWList_Items = []\<rparr>,
      FakeTyped_copyListMeta = (\<lambda>dst src. dst\<lparr>AWList_ListMeta := AWList_ListMeta src\<rparr>),
      FakeTyped_getItems = AWList_Items, FakeTyped_setItems = (\<lambda>list items. list\<lparr>AWList_Items := items\<rparr>)\<rparr>"

definition newFakeEndpoints :: "FakeArcV1alpha1 \<Rightarrow> string \<Rightarrow> (Endpoint, EndpointList) fake_typed_client" where
  "newFakeEndpoints fake namespace =
     \<lparr>FakeTyped_Fake = FakeArc_Fake fake, FakeTyped_namespace = namespace,
      FakeTyped_resource = (v1alpha1_SchemeGroupVersion, ''endpoints''), FakeTyped_kind = (v1alpha1_SchemeGroupVersion, ''Endpoint''),
      FakeTyped_newObject = ''Endpoint'',
      FakeTyped_newList = \<lparr>EndpointList_TypeMeta = zero_TypeMeta, EndpointList_ListMeta = zero_ListMeta, EndpointList_Items = []\<rparr>,
      FakeTyped_copyListMeta = (\<lambda>dst src. dst\<lparr>EndpointList_ListMeta := EndpointList_ListMeta src\<rparr>),
      FakeTyped_getItems = EndpointList_Items, FakeTyped_setItems = (\<lambda>list items. list\<lparr>EndpointList_Items := items\<rparr>)\<rparr>"

definition newFakeOrders :: "FakeArcV1alpha1 \<Rightarrow> string \<Rightarrow> (Order, OrderList) fake_typed_client" where
  "newFakeOrders fake namespace =
     \<lparr>FakeTyped_Fake = FakeArc_Fake fake, FakeTyped_namespace = namespace,
      FakeTyped_resource = (v1alpha1_SchemeGroupVersion, ''orders''), FakeTyped_kind = (v1alpha1_SchemeGroupVersion, ''Order''),
      FakeTyped_newObject = ''Order'',
      FakeTyped_newList = \<lparr>OrderList_TypeMeta = zero_TypeMeta, OrderList_ListMeta = zero_ListMeta, OrderList_Items = []\<rparr>,
      FakeTyped_copyListMeta = (\<lambda>dst src. dst\<lparr>OrderList_ListMeta := OrderList_ListMeta src\<rparr>),
      FakeTyped_getItems = OrderList_Items, FakeTyped_setItems = (\<lambda>list items. list\<lparr>OrderList_Items := items\<rparr>)\<rparr>"

definition FakeArc_ArtifactTypes :: "FakeArcV1alpha1 \<Rightarrow> (ArtifactType, ArtifactTypeList) fake_typed_client" where
  "FakeArc_ArtifactTypes c = newFakeArtifactTypes c"

definition FakeArc_ArtifactWorkflows :: "FakeArcV1alpha1 \<Rightarrow> string \<Rightarrow> (ArtifactWorkflow, ArtifactWorkflowList) fake_typed_client" where
  "FakeArc_ArtifactWorkflows c namespace = newFakeArtifactWorkflows c namespace"

definition FakeArc_Endpoints :: "FakeArcV1alpha1 \<Rightarrow> string \<Rightarrow> (Endpoint, EndpointList) fake_typed_client" where
  "FakeArc_Endpoints c namespace = newFakeEndpoints c namespace"

definition FakeArc_Orders :: "FakeArcV1alpha1 \<Rightarrow> string \<Rightarrow> (Order, OrderList) fake_typed_client" where
  "FakeArc_Orders c namespace = newFakeOrders c namespace"

text \<open>\<open>RESTClient\<close> of the fake returns a nil pointer.\<close>

definition FakeArc_RESTClient :: "FakeArcV1alpha1 \<Rightarrow> 'r option" where
  "FakeArc_RESTClient c = None"

definition FakeClientset_ArcV1alpha1 :: "FakeClientset \<Rightarrow> FakeArcV1alpha1" where
  "FakeClientset_ArcV1alpha1 c = \<lparr>FakeArc_Fake = FakeClientset_Fake c\<rparr>"

subsection \<open>The functions on lists\<close>

text \<open>What the generic fake client relies on when it filters a list, and what it gets from that.\<close>

locale list_access =
  fixes metaOf :: "'l \<Rightarrow> ListMeta" and copyListMeta :: "'l \<Rightarrow> 'l \<Rightarrow> 'l"
    and getItems :: "'l \<Rightarrow> 'x list" and setItems :: "'l \<Rightarrow> 'x list \<Rightarrow> 'l"
  assumes get_set: "getItems (setItems l xs) = xs"
    and set_get: "setItems l (getItems l) = l"
    and set_set: "setItems (setItems l xs) ys = setItems l ys"
    and meta_set: "metaOf (setItems l xs) = metaOf l"
    and meta_copy: "metaOf (copyListMeta dst src) = metaOf src"
    and get_copy: "getItems (copyListMeta dst src) = getItems dst"
begin

lemma filtered_items: "getItems (setItems (copyListMeta dst src) (filter P (getItems src))) = filter P (getItems src)"
  by (rule get_set)

lemma filtered_meta: "metaOf (setItems (copyListMeta dst src) (filter P (getItems src))) = metaOf src"
  by (simp add: meta_set meta_copy)

lemma filtered_twice:
  "let l1 = setItems l (filter P (getItems l)) in
   setItems l1 (filter Q (getItems l1)) = setItems l (filter (\<lambda>x. P x \<and> Q x) (getItems l))"
  by (simp add: get_set set_set conj_commute)

end

lemmas fake_client_defs = FakeArc_Orders_def FakeArc_ArtifactWorkflows_def FakeArc_Endpoints_def FakeArc_ArtifactTypes_def
  newFakeOrders_def newFakeArtifactWorkflows_def newFakeEndpoints_def newFakeArtifactTypes_def

interpretation fake_orders: list_access OrderList_ListMeta "FakeTyped_copyListMeta (FakeArc_Orders c namespace)"
  "FakeTyped_getItems (FakeArc_Orders c namespace)" "FakeTyped_setItems (FakeArc_Orders c namespace)"
  by unfold_locales (simp_all add: fake_client_defs)

interpretation fake_artifactWorkflows: list_access AWList_ListMeta
  "FakeTyped_copyListMeta (FakeArc_ArtifactWorkflows c namespace)"
  "FakeTyped_getItems (FakeArc_ArtifactWorkflows c namespace)" "FakeTyped_setItems (FakeArc_ArtifactWorkflows c namespace)"
  by unfold_locales (simp_all add: fake_client_defs)

interpretation fake_endpoints: list_access EndpointList_ListMeta "FakeTyped_copyListMeta (FakeArc_Endpoints c namespace)"
  "FakeTyped_getItems (FakeArc_Endpoints c namespace)" "FakeTyped_setItems (FakeArc_Endpoints c namespace)"
  by unfold_locales (simp_all add: fake_client_defs)

interpretation fake_artifactTypes: list_access ATList_ListMeta "FakeTyped_copyListMeta (FakeArc_ArtifactTypes c)"
  "FakeTyped_getItems (FakeArc_ArtifactTypes c)" "FakeTyped_setItems (FakeArc_ArtifactTypes c)"
  by unfold_locales (simp_all add: fake_client_defs)

text \<open>A list filtered with the functions of a client has the chosen items, in order, and the metadata of the source.\<close>

definition filters :: "('l \<Rightarrow> ListMeta) \<Rightarrow> ('x, 'l) fake_typed_client \<Rightarrow> bool" where
  "filters metaOf f \<longleftrightarrow>
     (\<forall>P src. let l = FakeTyped_setItems f (FakeTyped_copyListMeta f (FakeTyped_newList f) src)
                (filter P (FakeTyped_getItems f src))
       in FakeTyped_getItems f l = filter P (FakeTyped_getItems f src) \<and> metaOf l = metaOf src)"

lemma typed_filters:
  "filters OrderList_ListMeta (FakeArc_Orders c namespace)"
  "filters AWList_ListMeta (FakeArc_ArtifactWorkflows c namespace)"
  "filters EndpointList_ListMeta (FakeArc_Endpoints c namespace)"
  "filters ATList_ListMeta (FakeArc_ArtifactTypes c)"
  by (simp_all add: filters_def Let_def
      fake_orders.filtered_items fake_orders.filtered_meta
      fake_artifactWorkflows.filtered_items fake_artifactWorkflows.filtered_meta
      fake_endpoints.filtered_items fake_endpoints.filtered_meta
      fake_artifactTypes.filtered_items fake_artifactTypes.filtered_meta)

subsection \<open>What a new clientset is\<close>

text \<open>The tracker after a number of objects, and whether it takes them all.\<close>

definition tracked ::
  "('s, 'dec, 'pa, 'tc, 't, 'f, 're, 'obj, 'opts, 'wa) testing_library \<Rightarrow> 'obj list \<Rightarrow> 't \<Rightarrow> 't" where
  "tracked lib objects t = fold (\<lambda>x t. snd (Tracker_Add lib x t)) objects t"

definition accepts ::
  "('s, 'dec, 'pa, 'tc, 't, 'f, 're, 'obj, 'opts, 'wa) testing_library \<Rightarrow> 'obj list \<Rightarrow> 't \<Rightarrow> bool" where
  "accepts lib objects t \<longleftrightarrow>
     (\<forall>i < length objects. fst (Tracker_Add lib (objects ! i) (tracked lib (take i objects) t)) = None)"

lemma accepts_Cons:
  "accepts lib (x # xs) t \<longleftrightarrow> fst (Tracker_Add lib x t) = None \<and> accepts lib xs (snd (Tracker_Add lib x t))"
  by (auto simp: accepts_def All_less_Suc2 tracked_def)

lemma add_objects_eq:
  "add_objects lib objects t = Inr u \<longleftrightarrow> accepts lib objects t \<and> u = tracked lib objects t"
proof (induction objects arbitrary: t)
  case (Cons x xs)
  then show ?case
    by (cases "Tracker_Add lib x t") (auto simp: accepts_Cons tracked_def split: option.split)
qed (auto simp: accepts_def tracked_def)

text \<open>
  The documentation of \<open>testing.Fake\<close>: a new one has no reactors, and both operations append one.
\<close>

definition fake_laws ::
  "('s, 'dec, 'pa, 'tc, 't, 'f, 're, 'obj, 'opts, 'wa) testing_library \<Rightarrow> ('f \<Rightarrow> (string \<times> string \<times> 're) list) \<Rightarrow>
   ('f \<Rightarrow> (string \<times> ('opts, 'wa, 't) watch_reaction) list) \<Rightarrow> bool" where
  "fake_laws lib reactors watchers \<longleftrightarrow>
     reactors (zero_Fake lib) = [] \<and> watchers (zero_Fake lib) = [] \<and>
     (\<forall>v res r f. reactors (AddReactor lib v res r f) = reactors f @ [(v, res, r)] \<and>
        watchers (AddReactor lib v res r f) = watchers f) \<and>
     (\<forall>res r f. watchers (AddWatchReactor lib res r f) = watchers f @ [(res, r)] \<and>
        reactors (AddWatchReactor lib res r f) = reactors f)"

text \<open>A fake client asks for what the real client of its kind asks for.\<close>

definition mirrors :: "nat \<Rightarrow> ('x, 'l) fake_typed_client \<Rightarrow> 'r typed_client \<Rightarrow> bool" where
  "mirrors fake f c \<longleftrightarrow>
     FakeTyped_Fake f = fake \<and> FakeTyped_namespace f = Typed_namespace c \<and>
     FakeTyped_resource f = ((''arc.bwi.de'', ''v1alpha1''), Typed_resource c) \<and>
     FakeTyped_kind f = ((''arc.bwi.de'', ''v1alpha1''), Typed_object c) \<and> FakeTyped_newObject f = Typed_object c"

lemma typed_mirrors:
  "mirrors (FakeClientset_Fake cs) (FakeArc_Orders (FakeClientset_ArcV1alpha1 cs) ns) (ArcClient_Orders c ns)"
  "mirrors (FakeClientset_Fake cs) (FakeArc_ArtifactWorkflows (FakeClientset_ArcV1alpha1 cs) ns) (ArcClient_ArtifactWorkflows c ns)"
  "mirrors (FakeClientset_Fake cs) (FakeArc_Endpoints (FakeClientset_ArcV1alpha1 cs) ns) (ArcClient_Endpoints c ns)"
  "mirrors (FakeClientset_Fake cs) (FakeArc_ArtifactTypes (FakeClientset_ArcV1alpha1 cs)) (ArcClient_ArtifactTypes c)"
  by (simp_all add: mirrors_def fake_client_defs typed_client_defs FakeClientset_ArcV1alpha1_def
      v1alpha1_SchemeGroupVersion_def GroupName_def)

lemma clientset_around_wired:
  assumes "fake_laws lib reactors watchers" and "clientset_around lib t w = (cs, w')"
  shows "FakeClientset_Tracker cs = Some (length (World_Trackers w))"
    and "FakeClientset_Fake cs = length (World_Fakes w)" and "FakeClientset_Discovery cs = Some (length (World_Fakes w))"
    and "World_Trackers w' = World_Trackers w @ [t]"
    and "\<exists>f. World_Fakes w' = World_Fakes w @ [f] \<and>
      reactors f = [(''*'', ''*'', ObjectReaction lib (length (World_Trackers w)))] \<and>
      watchers f = [(''*'', watch_reactor lib (length (World_Trackers w)))]"
  using assms
  by (auto simp: clientset_around_def Let_def fake_laws_def FakeClientset_Tracker_def FakeClientset_Discovery_def)

lemma internal_Parser_world:
  "internal_Parser lib w = (r, w') \<Longrightarrow>
   World_Fakes w' = World_Fakes w \<and> World_Trackers w' = World_Trackers w \<and> (\<forall>f. r = Inl f \<longrightarrow> (\<exists>m. f = Panic m))"
  by (auto simp: internal_Parser_def split: if_splits sum.splits)

lemma add_objects_panic: "add_objects lib objects t = Inl f \<Longrightarrow> \<exists>m. f = Panic m"
proof (induction objects arbitrary: t)
  case (Cons x xs)
  then show ?case
    by (cases "Tracker_Add lib x t"; cases "fst (Tracker_Add lib x t)") auto
qed simp

lemma add_objects_cases:
  obtains (added) "accepts lib objects t" "add_objects lib objects t = Inr (tracked lib objects t)"
  | (refused) m where "\<not> accepts lib objects t" "add_objects lib objects t = Inl (Panic m)"
proof (cases "add_objects lib objects t")
  case (Inl f)
  with add_objects_eq [of lib objects t] add_objects_panic [OF Inl] refused show thesis by auto
next
  case (Inr u)
  with add_objects_eq [of lib objects t] added show thesis by auto
qed

text \<open>The result of a constructor that starts from a tracker.\<close>

definition started_from ::
  "('s, 'dec, 'pa, 'tc, 't, 'f, 're, 'obj, 'opts, 'wa) testing_library \<Rightarrow> 'obj list \<Rightarrow> ('f, 't, 'pa) fake_world \<Rightarrow> 't \<Rightarrow>
   FakeClientset res \<times> ('f, 't, 'pa) fake_world \<Rightarrow> bool" where
  "started_from lib objects w t0 r \<longleftrightarrow>
     (if accepts lib objects t0
      then r = (let (cs, w) = clientset_around lib (tracked lib objects t0) w in (Inr cs, w))
      else \<exists>m. r = (Inl (Panic m), w))"

lemma NewSimpleClientset_from:
  "started_from lib objects w (NewObjectTracker lib scheme (UniversalDecoder lib scheme))
     (NewSimpleClientset lib scheme objects w)"
  by (cases rule: add_objects_cases [of lib objects "NewObjectTracker lib scheme (UniversalDecoder lib scheme)"])
    (simp_all add: NewSimpleClientset_def started_from_def)

lemma NewClientset_from:
  assumes "NewTypeConverter lib scheme w = (Inr converter, w1)"
  shows "started_from lib objects w1 (NewFieldManagedObjectTracker lib scheme (UniversalDecoder lib scheme) converter)
     (NewClientset lib scheme objects w)"
  using assms
  by (cases rule: add_objects_cases [of lib objects
        "NewFieldManagedObjectTracker lib scheme (UniversalDecoder lib scheme) converter"])
    (simp_all add: NewClientset_def started_from_def)

lemma NewTypeConverter_world:
  "NewTypeConverter lib scheme w = (r, w1) \<Longrightarrow> World_Fakes w1 = World_Fakes w \<and> World_Trackers w1 = World_Trackers w"
  using internal_Parser_world [of lib w] by (auto simp: NewTypeConverter_def split: prod.splits sum.splits)

lemma NewTypeConverter_panic:
  "NewTypeConverter lib scheme w = (Inl f, w1) \<Longrightarrow>
   NewClientset lib scheme objects w = (Inl f, w1) \<and> (\<exists>m. f = Panic m) \<and>
   World_Fakes w1 = World_Fakes w \<and> World_Trackers w1 = World_Trackers w"
  using internal_Parser_world [of lib w]
  by (auto simp: NewClientset_def NewTypeConverter_def split: prod.splits sum.splits)

text \<open>
  C30: a new fake clientset, from either constructor, stands in for the real one. A constructor (for
  \<open>NewClientset\<close>: one that has got its type converter) panics exactly if the tracker refuses one of the objects
  given, and then no clientset is affected. Otherwise the clientset has a tracker of its own that holds all
  objects, added in order, and a \<open>testing.Fake\<close> of its own whose only reactors answer from that tracker. All clients
  of the set, the discovery client included, go through that \<open>testing.Fake\<close>, and each of the four typed
  clients asks for the resource, kind and namespace the real client asks for and filters lists without losing
  their metadata or the order of the items.
\<close>

theorem fake_clientset_wired:
  assumes "fake_laws lib reactors watchers"
    and "new_set = NewSimpleClientset lib scheme \<and> t0 = NewObjectTracker lib scheme (UniversalDecoder lib scheme) \<or>
      new_set = NewClientset lib scheme \<and> NewTypeConverter lib scheme w = (Inr converter, w1) \<and>
      t0 = NewFieldManagedObjectTracker lib scheme (UniversalDecoder lib scheme) converter"
  shows "case new_set objects w of
      (Inl f, w') \<Rightarrow> \<not> accepts lib objects t0 \<and> (\<exists>m. f = Panic m) \<and>
        World_Fakes w' = World_Fakes w \<and> World_Trackers w' = World_Trackers w
    | (Inr cs, w') \<Rightarrow> accepts lib objects t0 \<and>
        World_Trackers w' = World_Trackers w @ [tracked lib objects t0] \<and>
        FakeClientset_Tracker cs = Some (length (World_Trackers w)) \<and>
        (\<exists>f. World_Fakes w' = World_Fakes w @ [f] \<and>
           reactors f = [(''*'', ''*'', ObjectReaction lib (length (World_Trackers w)))] \<and>
           watchers f = [(''*'', watch_reactor lib (length (World_Trackers w)))]) \<and>
        FakeClientset_Fake cs = length (World_Fakes w) \<and> FakeClientset_Discovery cs = Some (length (World_Fakes w)) \<and>
        (let arc = FakeClientset_ArcV1alpha1 cs; fake = length (World_Fakes w) in
         mirrors fake (FakeArc_Orders arc ns) (ArcClient_Orders c ns) \<and>
         mirrors fake (FakeArc_ArtifactWorkflows arc ns) (ArcClient_ArtifactWorkflows c ns) \<and>
         mirrors fake (FakeArc_Endpoints arc ns) (ArcClient_Endpoints c ns) \<and>
         mirrors fake (FakeArc_ArtifactTypes arc) (ArcClient_ArtifactTypes c) \<and>
         filters OrderList_ListMeta (FakeArc_Orders arc ns) \<and> filters AWList_ListMeta (FakeArc_ArtifactWorkflows arc ns) \<and>
         filters EndpointList_ListMeta (FakeArc_Endpoints arc ns) \<and> filters ATList_ListMeta (FakeArc_ArtifactTypes arc))"
proof -
  obtain w2 where w2: "World_Fakes w2 = World_Fakes w" "World_Trackers w2 = World_Trackers w"
    and from2: "started_from lib objects w2 t0 (new_set objects w)"
    using assms(2) NewSimpleClientset_from [of lib objects w scheme] NewClientset_from [of lib scheme w converter w1 objects]
      NewTypeConverter_world [of lib scheme w "Inr converter" w1]
    by blast
  show ?thesis
  proof (cases "accepts lib objects t0")
    case False
    with from2 w2 show ?thesis by (auto simp: started_from_def)
  next
    case True
    obtain cs w' where a: "clientset_around lib (tracked lib objects t0) w2 = (cs, w')" by fastforce
    with from2 True have r: "new_set objects w = (Inr cs, w')" by (simp add: started_from_def)
    note wired = clientset_around_wired [OF assms(1) a, unfolded w2]
    show ?thesis
      unfolding r prod.case sum.case Let_def
      using True wired typed_mirrors(1-3) [of cs ns c, unfolded wired(2)] typed_mirrors(4) [of cs c, unfolded wired(2)]
      by (intro conjI typed_filters)
  qed
qed

subsection \<open>A tracker that keeps a list\<close>

definition demo_testing ::
  "(unit, unit, unit, unit, string list, (string \<times> string \<times> nat) list \<times> (string \<times> (unit, string, string list) watch_reaction) list,
    nat, string, unit, string) testing_library" where
  "demo_testing =
     \<lparr>UniversalDecoder = (\<lambda>s. ()), NewParser = (\<lambda>text. Inr ()), NewSchemeTypeConverter = (\<lambda>s p. ()),
      NewObjectTracker = (\<lambda>s d. []), NewFieldManagedObjectTracker = (\<lambda>s d c. []),
      Tracker_Add = (\<lambda>x t. if x = [] then (Some (LibError ''no name''), t) else (None, t @ [x])),
      Tracker_Watch = (\<lambda>gvr ns opts t. (Inr (snd gvr), t)), ObjectReaction = (\<lambda>i. i), zero_Fake = ([], []),
      AddReactor = (\<lambda>v res r f. (fst f @ [(v, res, r)], snd f)), AddWatchReactor = (\<lambda>res r f. (fst f, snd f @ [(res, r)])),
      zero_ListOptions = ()\<rparr>"

lemma demo_testing_laws: "fake_laws demo_testing fst snd"
  by (simp add: fake_laws_def demo_testing_def)

theorem fake_clientset_wired_witness:
  "case NewClientset demo_testing () [''a'', ''b'']
      \<lparr>World_Fakes = [], World_Trackers = [], World_parserOnce = False, World_parser = None\<rparr> of
     (Inl f, w') \<Rightarrow> False
   | (Inr cs, w') \<Rightarrow> World_Trackers w' = [[''a'', ''b'']] \<and> FakeClientset_Tracker cs = Some 0 \<and>
       mirrors 0 (FakeArc_Orders (FakeClientset_ArcV1alpha1 cs) ''team'') (ArcClient_Orders (None :: unit ArcV1alpha1Client option) ''team'')"
proof -
  let ?w = "\<lparr>World_Fakes = [], World_Trackers = [], World_parserOnce = False, World_parser = None\<rparr>"
  obtain w1 where "NewTypeConverter demo_testing () ?w = (Inr (), w1)"
    by (simp add: NewTypeConverter_def internal_Parser_def demo_testing_def)
  moreover have "accepts demo_testing [''a'', ''b''] []" "tracked demo_testing [''a'', ''b''] [] = [''a'', ''b'']"
    "NewFieldManagedObjectTracker demo_testing () (UniversalDecoder demo_testing ()) () = []"
    by (simp_all add: accepts_Cons tracked_def demo_testing_def) (simp add: accepts_def)
  ultimately show ?thesis
    using fake_clientset_wired [where new_set = "NewClientset demo_testing ()" and w = ?w and objects = "[''a'', ''b'']"
        and c = "None :: unit ArcV1alpha1Client option" and ns = "''team''", OF demo_testing_laws disjI2]
    by (fastforce simp: Let_def split: prod.splits sum.splits)
qed

end
