(* ===== verification/Api_Command.thy ===== *)
theory Api_Command
  imports Api_Server Install
begin

section \<open>The command of the API server\<close>

text \<open>
  \<open>NewCommandStartARCServer\<close> of \<^verbatim>\<open>pkg/apiserver/start.go\<close> and \<^verbatim>\<open>cmd/arc-apiserver/main.go\<close>: before any flag is
  parsed, the constructor of the command registers the component \<open>arc\<close> and the Kubernetes component with the
  process-wide registry of components, gives \<open>arc\<close> its feature, and ties the emulated version of the one to
  that of the other.

  The registry, with the feature gates it points to, is a state \<open>'cg\<close> of the library, a gate is a pointer \<open>'g\<close>; the
  operations of both, of flag sets and of the command-line library are the parameter \<open>command_library\<close>. The
  callbacks of the command take the registry and the options as they are when it runs, after its flags are parsed.
\<close>

subsection \<open>The library\<close>

text \<open>The stages of a feature, constants of the library, by name.\<close>

datatype prerelease = featuregate_Alpha | featuregate_Beta | featuregate_GA

record 'v FeatureSpec =
  FeatureSpec_Version :: 'v
  FeatureSpec_Default :: bool
  FeatureSpec_LockToDefault :: bool
  FeatureSpec_PreRelease :: prerelease

record ('cg, 'e, 'g, 'v, 'ro, 'fs) command_library =
  NewEffectiveVersionFromString :: "string \<Rightarrow> string \<Rightarrow> string \<Rightarrow> 'e"
  NewVersionedFeatureGate :: "'v \<Rightarrow> 'cg \<Rightarrow> 'g \<times> 'cg"
  ComponentGlobalsOrRegister :: "string \<Rightarrow> 'e \<Rightarrow> 'g \<Rightarrow> 'cg \<Rightarrow> ('e \<times> 'g) \<times> 'cg"
  AddVersioned :: "'g \<Rightarrow> (string \<times> 'v FeatureSpec list) list \<Rightarrow> 'cg \<Rightarrow> go_error + 'cg"
  SetEmulationVersionMapping :: "string \<Rightarrow> string \<Rightarrow> ('v \<Rightarrow> 'v option) \<Rightarrow> 'cg \<Rightarrow> go_error + 'cg"
  DefaultKubeBinaryVersion :: string
  DefaultMutableFeatureGate :: 'g
  zero_FlagSet :: 'fs
  RecommendedOptions_AddFlags :: "'ro \<Rightarrow> 'fs \<Rightarrow> 'fs"
  Registry_AddFlags :: "'cg \<Rightarrow> 'fs \<Rightarrow> 'fs"

record ('cg, 'ro, 'st, 'fs) Command =
  Command_Short :: string
  Command_Long :: string
  Command_PersistentPreRunE :: "'cg \<Rightarrow> go_error option"
  Command_RunE :: "'cg \<Rightarrow> 'ro ARCServerOptions \<Rightarrow> 'st \<Rightarrow> failure option \<times> 'st"
  Command_Flags :: 'fs

subsection \<open>Building the command\<close>

definition defaultARCVersion :: string where
  "defaultARCVersion = ''1.2''"

definition banFlunder :: "'v version_library \<Rightarrow> (string \<times> 'v FeatureSpec list) list" where
  "banFlunder versions =
     [(''BanFlunder'',
       [\<lparr>FeatureSpec_Version = Version_MustParse versions ''1.0'', FeatureSpec_Default = False,
         FeatureSpec_LockToDefault = False, FeatureSpec_PreRelease = featuregate_Alpha\<rparr>,
        \<lparr>FeatureSpec_Version = Version_MustParse versions ''1.1'', FeatureSpec_Default = True,
         FeatureSpec_LockToDefault = False, FeatureSpec_PreRelease = featuregate_Beta\<rparr>,
        \<lparr>FeatureSpec_Version = Version_MustParse versions ''1.2'', FeatureSpec_Default = True,
         FeatureSpec_LockToDefault = True, FeatureSpec_PreRelease = featuregate_GA\<rparr>])]"

text \<open>What the constructor does to the registry; \<open>Must\<close> panics on an error.\<close>

definition register_components ::
  "('cg, 'e, 'g, 'v, 'ro, 'fs) command_library \<Rightarrow> 'v version_library \<Rightarrow> 'cg \<Rightarrow> 'cg res" where
  "register_components cmds versions registry =
     (let (gate, registry) = NewVersionedFeatureGate cmds (Version_MustParse versions defaultARCVersion) registry;
          ((_, arcFeatureGate), registry) =
            ComponentGlobalsOrRegister cmds ARCComponentName
              (NewEffectiveVersionFromString cmds defaultARCVersion '''' '''') gate registry
      in bind_res (Must (AddVersioned cmds arcFeatureGate (banFlunder versions) registry)) (\<lambda>registry.
         let (_, registry) =
               ComponentGlobalsOrRegister cmds DefaultKubeComponent
                 (NewEffectiveVersionFromString cmds (DefaultKubeBinaryVersion cmds) '''' '''')
                 (DefaultMutableFeatureGate cmds) registry
         in Must (SetEmulationVersionMapping cmds ARCComponentName DefaultKubeComponent
              (ARCVersionToKubeVersion versions (DefaultKubeBinaryVersion cmds)) registry)))"

definition NewCommandStartARCServer ::
  "('ro, 'cg, 'l, 'k, 'g1, 'e1, ('r, 'd, 'o, 'f) factory_cells, 'cc, 's) apiserver_library \<Rightarrow> ('l, 'h, 'r, 'd) rest_library \<Rightarrow>
   meta_fields \<Rightarrow> ('cg, 'e, 'g, 'v, 'ro, 'fs) command_library \<Rightarrow> 'v version_library \<Rightarrow> 'ro ARCServerOptions \<Rightarrow> bool \<Rightarrow> 'cg \<Rightarrow>
   (('cg, 'ro, ('r, 'd, 'o, 'f) factory_cells, 'fs) Command \<times> 'cg) res" where
  "NewCommandStartARCServer lib rest metaFields cmds versions defaults skipDefaultComponentGlobalsRegistrySet registry =
     (let flags = RecommendedOptions_AddFlags cmds (Options_RecommendedOptions defaults) (zero_FlagSet cmds)
      in bind_res (register_components cmds versions registry) (\<lambda>registry.
           Inr (\<lparr>Command_Short = ''Launch a ARC API server'', Command_Long = ''Launch a ARC API server'',
                 Command_PersistentPreRunE = command_PersistentPreRunE lib skipDefaultComponentGlobalsRegistrySet,
                 Command_RunE = command_RunE lib rest metaFields,
                 Command_Flags = Registry_AddFlags cmds registry flags\<rparr>, registry)))"

text \<open>
  The program: \<open>cli_Run\<close> is the command-line library, from the command and the options its flags write to, to
  the exit code.
\<close>

definition apiserver_main ::
  "('ro, 'cg, 'l, 'k, 'g1, 'e1, ('r, 'd, 'o, 'f) factory_cells, 'cc, 's) apiserver_library \<Rightarrow> ('l, 'h, 'r, 'd) rest_library \<Rightarrow>
   meta_fields \<Rightarrow> ('cg, 'e, 'g, 'v, 'ro, 'fs) command_library \<Rightarrow> 'v version_library \<Rightarrow>
   (('cg, 'ro, ('r, 'd, 'o, 'f) factory_cells, 'fs) Command \<Rightarrow> 'ro ARCServerOptions \<Rightarrow> 'cg \<Rightarrow> int) \<Rightarrow> 'cg \<Rightarrow> int res" where
  "apiserver_main lib rest metaFields cmds versions cli_Run registry =
     (let options = NewARCServerOptions lib ''stdout'' ''stderr''
      in bind_res (NewCommandStartARCServer lib rest metaFields cmds versions options False registry) (\<lambda>(cmd, registry).
           Inr (cli_Run cmd options registry)))"

subsection \<open>What the registry holds\<close>

text \<open>
  What the documentation says of the registry and of feature gates, on a view of their state: the components with
  version and gate, the emulation mappings and the features of each gate. A component that is registered stays
  as it is.
\<close>

record ('e, 'g, 'v) registry_view =
  View_components :: "string \<Rightarrow> ('e \<times> 'g) option"
  View_mappings :: "string \<times> string \<Rightarrow> ('v \<Rightarrow> 'v option) option"
  View_features :: "'g \<Rightarrow> string \<Rightarrow> 'v FeatureSpec list option"

definition registry_laws ::
  "('cg, 'e, 'g, 'v, 'ro, 'fs) command_library \<Rightarrow> ('cg \<Rightarrow> ('e, 'g, 'v) registry_view) \<Rightarrow> bool" where
  "registry_laws cmds view \<longleftrightarrow>
     (\<forall>v cg g cg'. NewVersionedFeatureGate cmds v cg = (g, cg') \<longrightarrow>
        View_components (view cg') = View_components (view cg) \<and> View_mappings (view cg') = View_mappings (view cg)) \<and>
     (\<forall>n e g cg. let known = View_components (view cg) n in
        fst (ComponentGlobalsOrRegister cmds n e g cg) = (case known of None \<Rightarrow> (e, g) | Some c \<Rightarrow> c) \<and>
        view (snd (ComponentGlobalsOrRegister cmds n e g cg)) =
          (view cg)\<lparr>View_components := (View_components (view cg))(n \<mapsto> (case known of None \<Rightarrow> (e, g) | Some c \<Rightarrow> c))\<rparr>) \<and>
     (\<forall>g fs cg cg'. AddVersioned cmds g fs cg = Inr cg' \<longrightarrow>
        view cg' = (view cg)\<lparr>View_features := (View_features (view cg))(g := View_features (view cg) g ++ map_of fs)\<rparr>) \<and>
     (\<forall>a b f cg cg'. SetEmulationVersionMapping cmds a b f cg = Inr cg' \<longrightarrow>
        view cg' = (view cg)\<lparr>View_mappings := (View_mappings (view cg))((a, b) \<mapsto> f)\<rparr>)"

lemma registry_lawsD:
  assumes "registry_laws cmds view"
  shows "NewVersionedFeatureGate cmds v cg = (g, cg') \<Longrightarrow> View_components (view cg') = View_components (view cg)"
    and "fst (ComponentGlobalsOrRegister cmds n e g cg) = (case View_components (view cg) n of None \<Rightarrow> (e, g) | Some c \<Rightarrow> c)"
    and "view (snd (ComponentGlobalsOrRegister cmds n e g cg)) = (view cg)\<lparr>View_components :=
      (View_components (view cg))(n \<mapsto> (case View_components (view cg) n of None \<Rightarrow> (e, g) | Some c \<Rightarrow> c))\<rparr>"
    and "AddVersioned cmds g fs cg = Inr cg' \<Longrightarrow> view cg' = (view cg)\<lparr>View_features :=
      (View_features (view cg))(g := View_features (view cg) g ++ map_of fs)\<rparr>"
    and "SetEmulationVersionMapping cmds a b f cg = Inr cg' \<Longrightarrow>
      view cg' = (view cg)\<lparr>View_mappings := (View_mappings (view cg))((a, b) \<mapsto> f)\<rparr>"
  using assms by (auto simp: registry_laws_def Let_def)

lemma Must_Inr: "Must r = Inr x \<longleftrightarrow> r = Inr x"
  by (cases r) (simp_all add: Must_def)

text \<open>The components of a registry, or the ones given where it has none.\<close>

definition or_given :: "('e, 'g, 'v) registry_view \<Rightarrow> string \<Rightarrow> 'e \<times> 'g \<Rightarrow> 'e \<times> 'g" where
  "or_given v n c = (case View_components v n of None \<Rightarrow> c | Some c1 \<Rightarrow> c1)"

lemma register_components_view:
  assumes "registry_laws cmds view" and "register_components cmds versions cg = Inr cg'"
  shows "\<exists>gate fs. let arc = or_given (view cg) ''arc'' (NewEffectiveVersionFromString cmds ''1.2'' '''' '''', gate);
      kube = or_given (view cg) ''kube''
        (NewEffectiveVersionFromString cmds (DefaultKubeBinaryVersion cmds) '''' '''', DefaultMutableFeatureGate cmds) in
    View_components (view cg') = (View_components (view cg))(''arc'' \<mapsto> arc, ''kube'' \<mapsto> kube) \<and>
    View_mappings (view cg') (''arc'', ''kube'') =
      Some (ARCVersionToKubeVersion versions (DefaultKubeBinaryVersion cmds)) \<and>
    View_features (view cg') (snd arc) = fs ++ map_of (banFlunder versions)"
proof -
  obtain gate cg1 where 1: "NewVersionedFeatureGate cmds (Version_MustParse versions ''1.2'') cg = (gate, cg1)"
    by fastforce
  let ?e = "NewEffectiveVersionFromString cmds ''1.2'' '''' ''''"
  let ?k = "NewEffectiveVersionFromString cmds (DefaultKubeBinaryVersion cmds) '''' ''''"
  let ?kg = "DefaultMutableFeatureGate cmds"
  obtain e g cg2 where 2: "ComponentGlobalsOrRegister cmds ''arc'' ?e gate cg1 = ((e, g), cg2)" by (metis surj_pair)
  obtain cg3 where 3: "AddVersioned cmds g (banFlunder versions) cg2 = Inr cg3"
    using assms(2) by (auto simp: register_components_def Let_def 1 2 defaultARCVersion_def ARCComponentName_def bind_res_Inr Must_Inr)
  obtain c cg4 where 4: "ComponentGlobalsOrRegister cmds ''kube'' ?k ?kg cg3 = (c, cg4)" by fastforce
  have 5: "SetEmulationVersionMapping cmds ''arc'' ''kube''
      (ARCVersionToKubeVersion versions (DefaultKubeBinaryVersion cmds)) cg4 = Inr cg'"
    using assms(2)
    by (simp add: register_components_def Let_def 1 2 3 4 defaultARCVersion_def ARCComponentName_def
        DefaultKubeComponent_def bind_res_Inr Must_Inr)
  note v1 = registry_lawsD(1) [OF assms(1) 1]
  have v2: "(e, g) = or_given (view cg) ''arc'' (?e, gate)"
    "view cg2 = (view cg1)\<lparr>View_components := (View_components (view cg))(''arc'' \<mapsto> (e, g))\<rparr>"
    using registry_lawsD(2,3) [OF assms(1), where n = "''arc''" and e = ?e and g = gate and cg = cg1]
    by (simp_all add: 2 v1 or_given_def)
  note v3 = registry_lawsD(4) [OF assms(1) 3]
  have v4: "view cg4 = (view cg3)\<lparr>View_components := (View_components (view cg3))(''kube'' \<mapsto> or_given (view cg3) ''kube'' (?k, ?kg))\<rparr>"
    using registry_lawsD(3) [OF assms(1), where n = "''kube''" and e = ?k and g = ?kg and cg = cg3]
    by (simp add: 4 or_given_def)
  have v5: "or_given (view cg3) ''kube'' (?k, ?kg) = or_given (view cg) ''kube'' (?k, ?kg)"
    by (simp add: v3 v2(2) or_given_def)
  show ?thesis
    by (intro exI [of _ gate] exI [of _ "View_features (view cg2) g"])
      (simp add: registry_lawsD(5) [OF assms(1) 5] v4 [unfolded v5] v3 v2(2) v2(1) [symmetric] Let_def)
qed

lemma emulated_not_newer:
  "ARCVersionToKubeVersion versions kube v = Some k \<Longrightarrow>
   k = Version_MustParse versions kube \<or> \<not> Version_GreaterThan versions k (Version_MustParse versions kube)"
  by (auto simp: ARCVersionToKubeVersion_def Let_def split: if_splits)

lemma emulated_version:
  assumes "version_laws versions" and "release = Version_MustParse versions kube"
    and "uint (Version_Minor versions release) < 2 ^ 63"
  shows "if Version_Major versions v \<noteq> 1 then ARCVersionToKubeVersion versions kube v = None
    else \<exists>k. ARCVersionToKubeVersion versions kube v = Some k \<and>
      (k = release \<or> \<not> Version_GreaterThan versions k release) \<and>
      Version_Major versions k = Version_Major versions release \<and>
      Version_Minor versions k \<le> Version_Minor versions release \<and>
      (uint (Version_Minor versions v) < 2 ^ 63 \<longrightarrow>
         uint (Version_Minor versions k) = max 0 (min (uint (Version_Minor versions release))
           (uint (Version_Minor versions release) + uint (Version_Minor versions v) - 2)))"
  using kube_version_for [OF assms(1), of kube v] assms(2,3) emulated_not_newer [of versions kube v]
  by (auto split: if_splits)

text \<open>
  C38: when the program gets as far as running its command, the registry of components is set up. \<open>arc\<close> and
  \<open>kube\<close> are registered, as they were before if somebody else had registered them, otherwise with version 1.2 and
  the Kubernetes version of the build; no other component is touched. The gate of \<open>arc\<close> has the three specifications of
  its feature: alpha and off in 1.0, beta and on in 1.1, and on for good in 1.2. The emulated version of \<open>kube\<close>
  follows that of \<open>arc\<close>: there is one exactly for major version 1, it has the major version of the Kubernetes
  release of the build and is never newer than that release; below \<open>2\<^sup>6\<^sup>3\<close>, minor version 2 of \<open>arc\<close> stands for the
  minor version of the release, each one less for the one before (not below 0), and each later one for the
  release. What runs are the two callbacks, the first of which
  applies the settings of the registry, and the exit code is that of the command-line library.
\<close>

theorem main_configures_components:
  assumes "registry_laws cmds view"
    and "apiserver_main lib rest metaFields cmds versions cli_Run cg = Inr code"
    and "version_laws versions" and "release = Version_MustParse versions (DefaultKubeBinaryVersion cmds)"
    and "uint (Version_Minor versions release) < 2 ^ 63"
  shows "\<exists>cmd cg' arc kube f gate. code = cli_Run cmd (NewARCServerOptions lib ''stdout'' ''stderr'') cg' \<and>
    Command_PersistentPreRunE cmd = Registry_Set lib \<and> Command_RunE cmd = command_RunE lib rest metaFields \<and>
    View_components (view cg') = (View_components (view cg))(''arc'' \<mapsto> arc, ''kube'' \<mapsto> kube) \<and>
    arc = or_given (view cg) ''arc'' (NewEffectiveVersionFromString cmds ''1.2'' '''' '''', gate) \<and>
    kube = or_given (view cg) ''kube''
      (NewEffectiveVersionFromString cmds (DefaultKubeBinaryVersion cmds) '''' '''', DefaultMutableFeatureGate cmds) \<and>
    map_option (map (\<lambda>s. (FeatureSpec_Version s, FeatureSpec_Default s, FeatureSpec_LockToDefault s, FeatureSpec_PreRelease s)))
      (View_features (view cg') (snd arc) ''BanFlunder'') =
      Some [(Version_MustParse versions ''1.0'', False, False, featuregate_Alpha),
        (Version_MustParse versions ''1.1'', True, False, featuregate_Beta),
        (Version_MustParse versions ''1.2'', True, True, featuregate_GA)] \<and>
    View_mappings (view cg') (''arc'', ''kube'') = Some f \<and>
    (\<forall>v. if Version_Major versions v \<noteq> 1 then f v = None
      else \<exists>k. f v = Some k \<and> (k = release \<or> \<not> Version_GreaterThan versions k release) \<and>
        Version_Major versions k = Version_Major versions release \<and>
        Version_Minor versions k \<le> Version_Minor versions release \<and>
        (uint (Version_Minor versions v) < 2 ^ 63 \<longrightarrow>
           uint (Version_Minor versions k) = max 0 (min (uint (Version_Minor versions release))
             (uint (Version_Minor versions release) + uint (Version_Minor versions v) - 2))))"
proof -
  let ?opts = "NewARCServerOptions lib ''stdout'' ''stderr''"
  obtain cmd cg' where cmd: "NewCommandStartARCServer lib rest metaFields cmds versions ?opts False cg = Inr (cmd, cg')"
    and code: "code = cli_Run cmd ?opts cg'"
    using assms(2) by (auto simp: apiserver_main_def Let_def bind_res_Inr)
  have reg: "register_components cmds versions cg = Inr cg'"
    and callbacks: "Command_PersistentPreRunE cmd = Registry_Set lib" "Command_RunE cmd = command_RunE lib rest metaFields"
    using cmd by (auto simp: NewCommandStartARCServer_def Let_def bind_res_Inr command_PersistentPreRunE_def fun_eq_iff)
  obtain gate fs where view: "View_components (view cg') = (View_components (view cg))
      (''arc'' \<mapsto> or_given (view cg) ''arc'' (NewEffectiveVersionFromString cmds ''1.2'' '''' '''', gate),
       ''kube'' \<mapsto> or_given (view cg) ''kube'' (NewEffectiveVersionFromString cmds (DefaultKubeBinaryVersion cmds) '''' '''',
         DefaultMutableFeatureGate cmds))"
      "View_mappings (view cg') (''arc'', ''kube'') = Some (ARCVersionToKubeVersion versions (DefaultKubeBinaryVersion cmds))"
      "View_features (view cg') (snd (or_given (view cg) ''arc'' (NewEffectiveVersionFromString cmds ''1.2'' '''' '''', gate))) =
        fs ++ map_of (banFlunder versions)"
    using register_components_view [OF assms(1) reg] unfolding Let_def by blast
  have ban: "map_option (map (\<lambda>s. (FeatureSpec_Version s, FeatureSpec_Default s, FeatureSpec_LockToDefault s, FeatureSpec_PreRelease s)))
      ((fs ++ map_of (banFlunder versions)) ''BanFlunder'') =
      Some [(Version_MustParse versions ''1.0'', False, False, featuregate_Alpha),
        (Version_MustParse versions ''1.1'', True, False, featuregate_Beta),
        (Version_MustParse versions ''1.2'', True, True, featuregate_GA)]"
    by (simp add: banFlunder_def)
  show ?thesis
    by (intro exI conjI, rule code, rule callbacks(1), rule callbacks(2), rule view(1), rule refl, rule refl,
        simp only: view(3), rule ban, rule view(2), rule allI, rule emulated_version [OF assms(3-5)])
qed

subsection \<open>A registry that is its own view\<close>

type_synonym demo_registry = "(string, nat, 64 word \<times> 64 word) registry_view"

definition demo_commands :: "(demo_registry, string, nat, 64 word \<times> 64 word, unit, string list) command_library" where
  "demo_commands =
     \<lparr>NewEffectiveVersionFromString = (\<lambda>v a b. v), NewVersionedFeatureGate = (\<lambda>v cg. (1, cg)),
      ComponentGlobalsOrRegister = (\<lambda>n e g cg. let c = or_given cg n (e, g)
        in (c, cg\<lparr>View_components := (View_components cg)(n \<mapsto> c)\<rparr>)),
      AddVersioned = (\<lambda>g fs cg. Inr (cg\<lparr>View_features := (View_features cg)(g := View_features cg g ++ map_of fs)\<rparr>)),
      SetEmulationVersionMapping = (\<lambda>a b f cg. Inr (cg\<lparr>View_mappings := (View_mappings cg)((a, b) \<mapsto> f)\<rparr>)),
      DefaultKubeBinaryVersion = ''1.34'', DefaultMutableFeatureGate = 0, zero_FlagSet = [],
      RecommendedOptions_AddFlags = (\<lambda>ro fs. fs @ [''etcd-servers'']), Registry_AddFlags = (\<lambda>cg fs. fs @ [''emulated-version''])\<rparr>"

lemma demo_registry_laws: "registry_laws demo_commands (\<lambda>cg. cg)"
  by (auto simp: registry_laws_def demo_commands_def Let_def or_given_def)

text \<open>An API server library whose registry is the one above.\<close>

definition demo_server_library ::
  "(unit, demo_registry, unit, nat, unit, unit, (unit, unit, unit, unit) factory_cells, unit, unit) apiserver_library" where
  "demo_server_library =
     \<lparr>NewRecommendedOptions = (\<lambda>p gv. ()), set_EncodeVersioner = (\<lambda>gv g ro. ()), RecommendedOptions_Validate = (\<lambda>ro. []),
      MaybeDefaultWithSelfSignedCerts = (\<lambda>h dns ips ro. Inr ro), RecommendedOptions_ApplyTo = (\<lambda>ro callback c st. (Inr c, st)),
      NewRecommendedConfig = \<lparr>RConfig_OpenAPI = None, RConfig_OpenAPIV3 = None, RConfig_FeatureGate = None,
        RConfig_EffectiveVersion = None, RConfig_LoopbackClientConfig = None, RConfig_SharedInformerFactory = None\<rparr>,
      Registry_Validate = (\<lambda>cg. []), Registry_Set = (\<lambda>cg. None), FeatureGateFor = (\<lambda>cg n. Some ()),
      EffectiveVersionFor = (\<lambda>cg n. Some ()), NewAggregate = (\<lambda>es. if es = [] then None else Some (hd es)),
      RecommendedConfig_Complete = (\<lambda>c. ()), CompletedConfig_New = (\<lambda>c n. Inr ()),
      CompletedConfig_Store = (\<lambda>c s a. Inr s), InstallAPIGroup = (\<lambda>s g. Inr s), AddPostStartHookOrDie = (\<lambda>n h s. Inr s),
      RunWithContext = (\<lambda>s. None), KubeFactory_Start = (\<lambda>ch k. Suc k)\<rparr>"

text \<open>The exit code here tells whether \<open>kube\<close> is in place when the command runs and no version of it stands for \<open>arc\<close> 2.0.\<close>

theorem main_configures_components_witness:
  "apiserver_main demo_server_library demo_rest (\<lambda>m b. fmempty) demo_commands demo_versions
     (\<lambda>cmd opts cg. if View_components cg ''kube'' = Some (''1.34'', 0) \<and> map_option (\<lambda>f. f (2, 0)) (View_mappings cg (''arc'', ''kube'')) = Some None then 0 else 1)
     \<lparr>View_components = Map.empty, View_mappings = Map.empty, View_features = \<lambda>g. Map.empty\<rparr> = Inr 0"
proof -
  let ?cli = "\<lambda>(cmd :: (demo_registry, unit, (unit, unit, unit, unit) factory_cells, string list) Command)
    (opts :: unit ARCServerOptions) (cg :: demo_registry).
      if View_components cg ''kube'' = Some (''1.34'', 0) \<and> map_option (\<lambda>f. f (2, 0)) (View_mappings cg (''arc'', ''kube'')) = Some None then (0 :: int) else 1"
  let ?cg = "\<lparr>View_components = Map.empty, View_mappings = Map.empty, View_features = \<lambda>g. Map.empty\<rparr> :: demo_registry"
  obtain code where code: "apiserver_main demo_server_library demo_rest (\<lambda>m b. fmempty) demo_commands demo_versions ?cli ?cg = Inr code"
    by (simp add: apiserver_main_def NewCommandStartARCServer_def register_components_def demo_commands_def Let_def
        Must_def case_prod_beta)
  have kube: "or_given ?cg ''kube'' (NewEffectiveVersionFromString demo_commands (DefaultKubeBinaryVersion demo_commands) [] [],
      DefaultMutableFeatureGate demo_commands) = (''1.34'', 0)"
    by (simp add: or_given_def demo_commands_def)
  have "code = 0"
    using main_configures_components [OF demo_registry_laws code demo_versions_laws refl] unfolding kube
    by (auto simp: demo_versions_def dest!: spec [of _ "(2, 0)"])
  with code show ?thesis by simp
qed

end
