(* ===== verification/Test_Environment.thy ===== *)
theory Test_Environment
  imports Api_Types
begin

section \<open>The test environment (\<^verbatim>\<open>pkg/envtest/environment.go\<close>)\<close>

text \<open>
  Starting and stopping a control plane with the API server of this repository, for tests. The libraries are
  asked for things that take effect outside: each call is an \<open>env_call\<close> on a log, and the answer of a library may
  depend on all calls before it (\<open>env_library\<close>). An error made by \<open>errors.Join\<close> is the list of the errors it
  wraps, in order; no error is the empty list.
\<close>

datatype env_call =
  StartControlPlane | NewClient | NewAPIServer | StartAPIServer | StopAPIServer | StopControlPlane | WaitReady int

type_synonym env_log = "env_call list"

record apiserver_options =
  Options_MainPath :: string
  Options_BuildOptions :: "string list"
  Options_ETCDServers :: "string list"
  Options_Host :: string
  Options_Port :: int
  Options_CertDir :: string
  Options_Stdout :: string
  Options_Stderr :: string

record ('cfg, 's, 'cl, 'srv) env_library =
  StartWithExtensions :: "string list \<Rightarrow> (string list \<times> bool) option \<Rightarrow> env_log \<Rightarrow> go_error + 'cfg"
  StopWithExtensions :: "env_log \<Rightarrow> go_error option"
  client_New :: "'cfg \<Rightarrow> 's \<Rightarrow> env_log \<Rightarrow> go_error + 'cl"
  apiserver_New :: "'cfg \<Rightarrow> apiserver_options \<Rightarrow> env_log \<Rightarrow> go_error + 'srv"
  APIServer_Start :: "'srv \<Rightarrow> env_log \<Rightarrow> go_error option"
  APIServer_Stop :: "'srv \<Rightarrow> env_log \<Rightarrow> go_error option"
  WaitUntilAPIServicesReadyWithTimeout :: "int \<Rightarrow> 'cfg option \<Rightarrow> 'cl option \<Rightarrow> env_log \<Rightarrow> go_error option"
  Etcd_URL :: "env_log \<Rightarrow> string"
  LocalServing :: "env_log \<Rightarrow> string \<times> int \<times> string"

text \<open>
  The environment; of the two library structs it points to (\<open>env\<close>, \<open>ext\<close>) only the paths are set here, and \<open>ext\<close>
  may be nil in an environment that was not made by \<open>NewEnvironment\<close>; \<open>Start\<close> then panics where it reads it.
\<close>

record ('cfg, 'cl, 'srv) Environment =
  Env_cfg :: "'cfg option"
  Env_CRDDirectoryPaths :: "string list"
  Env_ext :: "(string list \<times> bool) option"
  Env_k8sClient :: "'cl option"
  Env_apiServer :: "'srv option"

datatype start_failure = StartErrors "go_error list" | StartPanic

definition NewEnvironment :: "go_error + ('cfg, 'cl, 'srv) Environment" where
  "NewEnvironment =
     Inr \<lparr>Env_cfg = None, Env_CRDDirectoryPaths = [''../../config/crd/external''],
          Env_ext = Some ([''../../config/apiserver/apiservice/bases''], True),
          Env_k8sClient = None, Env_apiServer = None\<rparr>"

definition join_errors :: "go_error list \<Rightarrow> go_error option \<Rightarrow> go_error list" where
  "join_errors errs err = errs @ (case err of None \<Rightarrow> [] | Some e \<Rightarrow> [e])"

definition Environment_Stop ::
  "('cfg, 's, 'cl, 'srv) env_library \<Rightarrow> ('cfg, 'cl, 'srv) Environment \<Rightarrow> env_log \<Rightarrow> go_error list \<times> env_log" where
  "Environment_Stop lib e log =
     (let (err, log) =
            (case Env_apiServer e of
               None \<Rightarrow> ([], log)
             | Some server \<Rightarrow> (join_errors [] (APIServer_Stop lib server log), log @ [StopAPIServer]))
      in if Env_ext e \<noteq> None then (join_errors err (StopWithExtensions lib log), log @ [StopControlPlane])
         else (err, log))"

definition Environment_Start ::
  "('cfg, 's, 'cl, 'srv) env_library \<Rightarrow> 's \<Rightarrow> string \<Rightarrow> ('cfg, 'cl, 'srv) Environment \<Rightarrow> env_log \<Rightarrow>
   (start_failure + 'cl) \<times> ('cfg, 'cl, 'srv) Environment \<times> env_log" where
  "Environment_Start lib scheme writer e log =
     (let stopped = (\<lambda>err log. let (errs, log) = Environment_Stop lib e log in (Inl (StartErrors ([err] @ errs)), e, log))
      in case StartWithExtensions lib (Env_CRDDirectoryPaths e) (Env_ext e) log of
           Inl err \<Rightarrow> (Inl (StartErrors [err]), e, log @ [StartControlPlane])
         | Inr cfg \<Rightarrow>
             let log = log @ [StartControlPlane] in
             case client_New lib cfg scheme log of
               Inl err \<Rightarrow> stopped err (log @ [NewClient])
             | Inr k8sClient \<Rightarrow>
                 let log = log @ [NewClient]; (host, port, certDir) = LocalServing lib log in
                 if Env_ext e = None then (Inl StartPanic, e, log) else
                 case apiserver_New lib cfg
                     \<lparr>Options_MainPath = ''go.opendefense.cloud/arc/cmd/arc-apiserver'', Options_BuildOptions = [''ModModeMod''],
                      Options_ETCDServers = [Etcd_URL lib log], Options_Host = host, Options_Port = port,
                      Options_CertDir = certDir, Options_Stdout = writer, Options_Stderr = writer\<rparr> log of
                   Inl err \<Rightarrow> stopped err (log @ [NewAPIServer])
                 | Inr apiServer \<Rightarrow>
                     let log = log @ [NewAPIServer] in
                     case APIServer_Start lib apiServer log of
                       Some err \<Rightarrow> stopped err (log @ [StartAPIServer])
                     | None \<Rightarrow>
                         (Inr k8sClient,
                          e\<lparr>Env_cfg := Some cfg, Env_k8sClient := Some k8sClient, Env_apiServer := Some apiServer\<rparr>,
                          log @ [StartAPIServer]))"

definition WaitUntilReadyWithTimeout ::
  "('cfg, 's, 'cl, 'srv) env_library \<Rightarrow> int \<Rightarrow> ('cfg, 'cl, 'srv) Environment \<Rightarrow> env_log \<Rightarrow> go_error option \<times> env_log" where
  "WaitUntilReadyWithTimeout lib timeout e log =
     (WaitUntilAPIServicesReadyWithTimeout lib timeout (Env_cfg e) (Env_k8sClient e) log, log @ [WaitReady timeout])"

definition GetRESTConfig :: "('cfg, 'cl, 'srv) Environment \<Rightarrow> 'cfg option" where
  "GetRESTConfig e = Env_cfg e"

subsection \<open>What is left running\<close>

text \<open>Starts that have no stop after them.\<close>

fun running :: "env_call \<Rightarrow> env_call \<Rightarrow> bool \<Rightarrow> env_log \<Rightarrow> bool" where
  "running start stop b [] = b"
| "running start stop b (c # cs) = running start stop (c = start \<or> b \<and> c \<noteq> stop) cs"

lemma running_append: "running a z b (xs @ ys) = running a z (running a z b xs) ys"
  by (induction xs arbitrary: b) simp_all

abbreviation control_plane_up :: "env_log \<Rightarrow> bool" where
  "control_plane_up log \<equiv> running StartControlPlane StopControlPlane False log"

abbreviation apiserver_up :: "env_log \<Rightarrow> bool" where
  "apiserver_up log \<equiv> running StartAPIServer StopAPIServer False log"

lemma Stop_log:
  "snd (Environment_Stop lib e log) =
     log @ (if Env_apiServer e = None then [] else [StopAPIServer]) @ (if Env_ext e = None then [] else [StopControlPlane])"
  by (auto simp: Environment_Stop_def Let_def split: option.split)

lemma Start_cases:
  assumes "Environment_Start lib scheme writer e log = (r, e', log')" and "Env_ext e \<noteq> None"
  obtains (failed) err where "r = Inl (StartErrors [err])" "e' = e" "log' = log @ [StartControlPlane]"
    "StartWithExtensions lib (Env_CRDDirectoryPaths e) (Env_ext e) log = Inl err"
  | (stopped) err calls where "e' = e" "calls \<in> {[NewClient], [NewClient, NewAPIServer], [NewClient, NewAPIServer, StartAPIServer]}"
    "r = Inl (StartErrors (err # fst (Environment_Stop lib e (log @ [StartControlPlane] @ calls))))"
    "log' = snd (Environment_Stop lib e (log @ [StartControlPlane] @ calls))"
  | (up) cfg client server where "r = Inr client" "log' = log @ [StartControlPlane, NewClient, NewAPIServer, StartAPIServer]"
    "e' = e\<lparr>Env_cfg := Some cfg, Env_k8sClient := Some client, Env_apiServer := Some server\<rparr>"
proof -
  let ?log = "log @ [StartControlPlane]"
  let ?options = "\<lparr>Options_MainPath = ''go.opendefense.cloud/arc/cmd/arc-apiserver'', Options_BuildOptions = [''ModModeMod''],
    Options_ETCDServers = [Etcd_URL lib (?log @ [NewClient])], Options_Host = fst (LocalServing lib (?log @ [NewClient])),
    Options_Port = fst (snd (LocalServing lib (?log @ [NewClient]))),
    Options_CertDir = snd (snd (LocalServing lib (?log @ [NewClient]))), Options_Stdout = writer, Options_Stderr = writer\<rparr>"
  note start = assms(2) assms(1) [symmetric, unfolded Environment_Start_def Let_def case_prod_beta]
  show thesis
  proof (cases "StartWithExtensions lib (Env_CRDDirectoryPaths e) (Env_ext e) log")
    case (Inl err)
    with start show thesis by (intro failed) auto
  next
    case cfg: (Inr cfg)
    show thesis
    proof (cases "client_New lib cfg scheme ?log")
      case (Inl err)
      with start cfg show thesis by (intro stopped [of "[NewClient]"]) auto
    next
      case client: (Inr client)
      show thesis
      proof (cases "apiserver_New lib cfg ?options (?log @ [NewClient])")
        case (Inl err)
        with start cfg client show thesis by (intro stopped [of "[NewClient, NewAPIServer]"]) auto
      next
        case server: (Inr server)
        show thesis
        proof (cases "APIServer_Start lib server (?log @ [NewClient] @ [NewAPIServer])")
          case None
          with start cfg client server show thesis by (intro up) auto
        next
          case (Some err)
          with start cfg client server show thesis
            by (intro stopped [of "[NewClient, NewAPIServer, StartAPIServer]"]) auto
        qed
      qed
    qed
  qed
qed

text \<open>
  A start that fails after the control plane is up takes it down again and reports why, together with
  the errors of stopping; the environment keeps no trace of the attempt. The one thing it does not stop is
  an API server whose start failed: the environment does not know it yet. A start that succeeds is undone by
  a stop, the API server first.
\<close>

lemma failed_start_stops:
  assumes "NewEnvironment = Inr e" and "Environment_Start lib scheme writer e [] = (r, e', log)"
  shows "(\<forall>f. r = Inl f \<longrightarrow> (\<exists>err errs. f = StartErrors (err # errs)) \<and> e' = e \<and> StopAPIServer \<notin> set log \<and>
      (log = [StartControlPlane] \<or> \<not> control_plane_up log)) \<and>
    (\<forall>client. r = Inr client \<longrightarrow>
      (let log1 = snd (Environment_Stop lib e' log) in
       control_plane_up log \<and> apiserver_up log \<and> \<not> control_plane_up log1 \<and> \<not> apiserver_up log1 \<and>
       log1 = log @ [StopAPIServer, StopControlPlane]))"
proof -
  have e: "Env_apiServer e = None" "Env_ext e \<noteq> None" using assms(1) by (auto simp: NewEnvironment_def)
  show ?thesis
    using assms(2) e(2)
  proof (cases rule: Start_cases)
    case failed
    then show ?thesis by simp
  next
    case (stopped err calls)
    with e show ?thesis by (auto simp: Stop_log)
  next
    case (up cfg client server)
    with e show ?thesis by (simp add: Stop_log Let_def)
  qed
qed

end
