(* ===== verification/Go_Json_Fuel.thy ===== *)
theory Go_Json_Fuel
  imports Go_Json
begin

section \<open>The fuel of the JSON decoder\<close>

text \<open>
  The decoder is recursive descent with fuel. Every call takes at least one byte off the input but that of an
  array for its first element, so two units per byte and one more are enough: with that much, more fuel does not
  change the result, neither a value nor an error. The same holds for the content of strings with a unit per byte.
\<close>

subsection \<open>What the scanners leave\<close>

lemma skip_space_le: "length (skip_space s) \<le> length s"
  by (simp add: skip_space_def length_dropWhile_le)

lemma skip_space_Cons: "skip_space s = b # bs \<Longrightarrow> length bs < length s"
  using skip_space_le [of s] by simp

lemma hex4_length: "hex4 s = Some (r, rest) \<Longrightarrow> length rest < length s"
  by (induction s rule: hex4.induct) (auto split: option.splits)

lemma unicode_escape_length:
  assumes "unicode_escape s = Some (r, rest)"
  shows "length rest < length s"
proof -
  obtain r1 rest1 where h: "hex4 s = Some (r1, rest1)"
    using assms by (cases "hex4 s") (auto simp: unicode_escape_def)
  have "rest = rest1 \<or> (\<exists>a b t r2. rest1 = a # b # t \<and> hex4 t = Some (r2, rest))"
    using assms h
    by (auto simp: unicode_escape_def split: if_splits list.splits option.splits)
  then show ?thesis using hex4_length [OF h] by (auto dest!: hex4_length)
qed

lemma scan_string_Cons:
  assumes "scan_string (Suc n) (b # bs) = Some (x, rest)"
  shows "rest = bs \<or> (\<exists>t y. length t \<le> length bs \<and> scan_string n t = Some (y, rest))"
proof -
  consider "rest = bs" | c cs r t y where "bs = c # cs" "unicode_escape cs = Some (r, t)" "scan_string n t = Some (y, rest)"
    | c cs y where "bs = c # cs" "scan_string n cs = Some (y, rest)"
    | y where "scan_string n bs = Some (y, rest)"
    | k y where "k \<noteq> 0" "scan_string n (drop k (b # bs)) = Some (y, rest)"
    using assms by (auto simp: Let_def split: if_splits list.splits option.splits)
  then show ?thesis
  proof cases
    case 2
    then have "length t \<le> length bs" by (simp add: less_imp_le less_SucI unicode_escape_length)
    with 2 show ?thesis by blast
  next
    case 3
    then show ?thesis by (intro disjI2 exI [of _ cs] exI [of _ y]) simp
  next
    case 5
    then show ?thesis by (intro disjI2 exI [of _ "drop k (b # bs)"] exI [of _ y]) simp
  qed blast+
qed

lemma scan_string_length: "scan_string n s = Some (x, rest) \<Longrightarrow> length rest < length s"
proof (induction n arbitrary: s x)
  case (Suc n)
  then obtain b bs where s: "s = b # bs" by (cases s) auto
  from scan_string_Cons [OF Suc.prems [unfolded s]] Suc.IH show ?case by (fastforce simp: s)
qed simp

lemma scan_string_fuel: "length s \<le> n \<Longrightarrow> length s \<le> m \<Longrightarrow> scan_string n s = scan_string m s"
proof (induction n arbitrary: s m)
  case 0
  then show ?case by (cases m) auto
next
  case (Suc n)
  show ?case
  proof (cases s)
    case Nil
    then show ?thesis by (cases m) auto
  next
    case (Cons b bs)
    with Suc.prems obtain m1 where m: "m = Suc m1" by (cases m) auto
    have IH: "length t \<le> length bs \<Longrightarrow> scan_string n t = scan_string m1 t" for t
      using Suc.prems by (intro Suc.IH) (auto simp: Cons m)
    have "scan_string n t = scan_string m1 t" if "bs = c # cs" "unicode_escape cs = Some (r, t)" for c cs r t
      using that by (intro IH) (simp add: less_imp_le less_SucI unicode_escape_length)
    moreover have "scan_string n (drop (utf8_len (b # bs)) (b # bs)) = scan_string m1 (drop (utf8_len (b # bs)) (b # bs))"
      if "utf8_len (b # bs) \<noteq> 0"
      using that by (intro IH) simp
    moreover have "scan_string n cs = scan_string m1 cs" if "bs = c # cs" for c cs using that by (intro IH) simp
    ultimately show ?thesis
      using IH [of bs] unfolding Cons m
      by (auto simp: Let_def split: list.split option.split)
  qed
qed

lemma literal_length: "w \<noteq> [] \<Longrightarrow> literal w s = Some rest \<Longrightarrow> length rest < length s"
  by (cases s) (auto simp: literal_def split: if_splits)

lemma digit_run_length: "digit_run s = (ds, rest) \<Longrightarrow> length s = length ds + length rest"
  by (auto simp: digit_run_def simp flip: length_append)

lemma scan_exponent_length: "scan_exponent s = Some (x, rest) \<Longrightarrow> length rest \<le> length s"
  by (auto simp: scan_exponent_def Let_def dest!: digit_run_length split: list.splits if_splits prod.splits)

lemma scan_number_length:
  assumes "scan_number s = Some (x, rest)"
  shows "length rest < length s"
proof -
  let ?neg = "s \<noteq> [] \<and> byte_val (hd s) = 45"
  obtain ip r1 where ip: "digit_run (if ?neg then tl s else s) = (ip, r1)" by fastforce
  obtain fp r2 where fp: "(if r1 \<noteq> [] \<and> byte_val (hd r1) = 46 then digit_run (tl r1) else ([], r1)) = (fp, r2)" by fastforce
  have "\<exists>x. scan_exponent r2 = Some (x, rest)" and "ip \<noteq> []"
    using assms by (auto simp: scan_number_def Let_def ip fp split: if_splits)
  then have "length rest \<le> length r2" "0 < length ip" by (auto dest: scan_exponent_length)
  moreover have "length r2 \<le> length r1"
    using fp by (auto dest!: digit_run_length split: if_splits)
  moreover have "length r1 + length ip \<le> length s"
    using digit_run_length [OF ip] by (cases s) (auto split: if_splits)
  ultimately show ?thesis by linarith
qed

subsection \<open>The decoder\<close>

definition consumes :: "('a \<times> byte list) option \<Rightarrow> byte list \<Rightarrow> bool" where
  "consumes r s \<longleftrightarrow> (\<forall>x rest. r = Some (x, rest) \<longrightarrow> length rest < length s)"

lemma consumes_map: "consumes r t \<Longrightarrow> length t \<le> length s \<Longrightarrow> consumes (map_option (apfst f) r) s"
  by (auto simp: consumes_def)

lemma consumes_Some: "consumes (Some (x, rest)) s \<longleftrightarrow> length rest < length s"
  by (simp add: consumes_def)

lemma consumes_None: "consumes None s"
  by (simp add: consumes_def)

lemma value_consumes:
  assumes "\<forall>d t. consumes (parse_elems n d \<pi> t) t" and "\<forall>d acc t. consumes (parse_members n d \<pi> acc t) t"
  shows "consumes (parse_value (Suc n) d \<pi> s) s"
proof (cases "skip_space s")
  case (Cons b bs)
  note len = skip_space_Cons [OF Cons] skip_space_le [of s, unfolded Cons]
  have inner: "consumes (map_option (apfst f) (parse_members n (Suc d) \<pi> [] (q # qs))) s"
    "consumes (map_option (apfst g) (parse_elems n (Suc d) \<pi> (q # qs))) s"
    "length qs < length s" if "skip_space bs = q # qs" for q qs and f :: "(string \<times> json) list \<Rightarrow> json" and g :: "json list \<Rightarrow> json"
    using that skip_space_le [of bs] len assms by (auto intro!: consumes_map [where t = "q # qs"])
  moreover have "consumes (map_option (apfst JStr) (scan_string (length bs) bs)) s"
    using len by (intro consumes_map [of _ bs]) (auto simp: consumes_def dest: scan_string_length)
  moreover have "consumes (map_option (Pair v) (literal w (b # bs))) s" if "w \<noteq> []" for v :: json and w
    using len literal_length [OF that, of "b # bs"] by (fastforce simp: consumes_def)
  moreover have "consumes (map_option (\<lambda>f. (JNum f, rest)) fl) s" if "scan_number (b # bs) = Some (x, rest)" for x rest fl
    using len scan_number_length [OF that] by (auto simp: consumes_def)
  ultimately show ?thesis
    using Cons by (auto simp: Let_def consumes_Some consumes_None split: list.split option.split)
qed (simp add: consumes_None)

lemma elems_consumes:
  assumes "\<forall>d t. consumes (parse_value n d \<pi> t) t" and "\<forall>d t. consumes (parse_elems n d \<pi> t) t"
  shows "consumes (parse_elems (Suc n) d \<pi> s) s"
proof (cases "parse_value n d \<pi> s")
  case (Some p)
  then obtain v rest where v: "parse_value n d \<pi> s = Some (v, rest)" by (cases p) simp
  then have "length rest < length s" using assms(1) by (simp add: consumes_def)
  then have "length bs < length s \<and> consumes (map_option (apfst f) (parse_elems n d \<pi> bs)) s"
    if "skip_space rest = b # bs" for b bs and f :: "json list \<Rightarrow> json list"
    using skip_space_Cons [OF that] assms(2) by (auto intro!: consumes_map [where t = bs])
  then show ?thesis by (simp add: v consumes_Some consumes_None split: list.split)
qed (simp add: consumes_None)

lemma members_consumes:
  assumes "\<forall>d t. consumes (parse_value n d \<pi> t) t" and "\<forall>d acc t. consumes (parse_members n d \<pi> acc t) t"
  shows "consumes (parse_members (Suc n) d \<pi> acc s) s"
proof -
  have "length es < length s \<and> consumes (parse_members n d \<pi> acc1 es) s"
    if "skip_space s = b # bs" "scan_string (length bs) bs = Some (k, r1)" "skip_space r1 = c # cs"
      "parse_value n d \<pi> cs = Some (v, r2)" "skip_space r2 = e # es" for b bs k r1 c cs v r2 e es acc1
  proof -
    have "length r2 < length cs" using assms(1) that(4) by (simp add: consumes_def)
    then have "length es < length s"
      using that(1,3,5) [THEN skip_space_Cons] scan_string_length [OF that(2)] by linarith
    moreover have "consumes (parse_members n d \<pi> acc1 es) es" using assms(2) by blast
    ultimately show ?thesis by (fastforce simp: consumes_def)
  qed
  then show ?thesis
    by (simp add: consumes_Some consumes_None split: list.split option.split)
qed

lemma parse_consumes:
  "(\<forall>d s. consumes (parse_value n d \<pi> s) s) \<and> (\<forall>d s. consumes (parse_elems n d \<pi> s) s) \<and>
   (\<forall>d acc s. consumes (parse_members n d \<pi> acc s) s)"
proof (induction n)
  case (Suc n)
  then show ?case by (blast intro: value_consumes elems_consumes members_consumes)
qed (simp add: consumes_None)

lemma parse_value_length: "parse_value n d \<pi> s = Some (v, rest) \<Longrightarrow> length rest < length s"
  using parse_consumes [of n \<pi>] by (simp add: consumes_def)

lemma value_fuel:
  assumes "\<forall>t. length t < length s \<longrightarrow> parse_elems n (Suc d) \<pi> t = parse_elems m (Suc d) \<pi> t"
    and "\<forall>t. length t < length s \<longrightarrow> parse_members n (Suc d) \<pi> [] t = parse_members m (Suc d) \<pi> [] t"
  shows "parse_value (Suc n) d \<pi> s = parse_value (Suc m) d \<pi> s"
proof -
  have "parse_elems n (Suc d) \<pi> (q # qs) = parse_elems m (Suc d) \<pi> (q # qs) \<and>
      parse_members n (Suc d) \<pi> [] (q # qs) = parse_members m (Suc d) \<pi> [] (q # qs)"
    if "skip_space s = b # bs" "skip_space bs = q # qs" for b bs q qs
    using assms skip_space_Cons [OF that(1)] skip_space_le [of bs] that(2) by simp
  then show ?thesis
    by (auto simp: Let_def split: list.split)
qed

lemma elems_fuel:
  assumes "parse_value n d \<pi> s = parse_value m d \<pi> s"
    and "\<forall>t. length t < length s \<longrightarrow> parse_elems n d \<pi> t = parse_elems m d \<pi> t"
  shows "parse_elems (Suc n) d \<pi> s = parse_elems (Suc m) d \<pi> s"
proof -
  have "parse_elems n d \<pi> bs = parse_elems m d \<pi> bs"
    if "parse_value m d \<pi> s = Some (v, rest)" "skip_space rest = b # bs" for v rest b bs
    using assms(2) parse_value_length [OF that(1)] skip_space_Cons [OF that(2)] by simp
  then show ?thesis by (simp add: assms(1) split: option.split list.split)
qed

lemma members_fuel:
  assumes "\<forall>t. length t < length s \<longrightarrow> parse_value n d \<pi> t = parse_value m d \<pi> t"
    and "\<forall>acc t. length t < length s \<longrightarrow> parse_members n d \<pi> acc t = parse_members m d \<pi> acc t"
  shows "parse_members (Suc n) d \<pi> acc s = parse_members (Suc m) d \<pi> acc s"
proof -
  have cs: "length cs < length s"
    if "skip_space s = b # bs" "scan_string (length bs) bs = Some (k, r1)" "skip_space r1 = c # cs" for b bs k r1 c cs
    using that(1,3) [THEN skip_space_Cons] scan_string_length [OF that(2)] by linarith
  have "parse_members n d \<pi> acc1 es = parse_members m d \<pi> acc1 es"
    if "skip_space s = b # bs" "scan_string (length bs) bs = Some (k, r1)" "skip_space r1 = c # cs"
      "parse_value m d \<pi> cs = Some (v, r2)" "skip_space r2 = e # es" for b bs k r1 c cs v r2 e es acc1
    using assms(2) cs [OF that(1-3)] parse_value_length [OF that(4)] skip_space_Cons [OF that(5)] by simp
  moreover have "parse_value n d \<pi> cs = parse_value m d \<pi> cs"
    if "skip_space s = b # bs" "scan_string (length bs) bs = Some (k, r1)" "skip_space r1 = c # cs" for b bs k r1 c cs
    using assms(1) cs [OF that] by simp
  ultimately show ?thesis by (simp split: option.split list.split)
qed

lemma parse_fuel:
  "(\<forall>d n m. 2 * length s + 1 \<le> n \<longrightarrow> 2 * length s + 1 \<le> m \<longrightarrow> parse_value n d \<pi> s = parse_value m d \<pi> s) \<and>
   (\<forall>d n m. 2 * length s + 2 \<le> n \<longrightarrow> 2 * length s + 2 \<le> m \<longrightarrow> parse_elems n d \<pi> s = parse_elems m d \<pi> s) \<and>
   (\<forall>d acc n m. 2 * length s + 2 \<le> n \<longrightarrow> 2 * length s + 2 \<le> m \<longrightarrow> parse_members n d \<pi> acc s = parse_members m d \<pi> acc s)"
proof (induction s rule: measure_induct_rule [of length])
  case (less s)
  have IH: "2 * length t + 1 \<le> n \<Longrightarrow> 2 * length t + 1 \<le> m \<Longrightarrow> parse_value n d \<pi> t = parse_value m d \<pi> t"
    "2 * length t + 2 \<le> n \<Longrightarrow> 2 * length t + 2 \<le> m \<Longrightarrow> parse_elems n d \<pi> t = parse_elems m d \<pi> t"
    "2 * length t + 2 \<le> n \<Longrightarrow> 2 * length t + 2 \<le> m \<Longrightarrow> parse_members n d \<pi> acc t = parse_members m d \<pi> acc t"
    if "length t < length s" for t n m d acc
    using less [OF that] by blast+
  have value_eq: "parse_value (Suc n) d \<pi> s = parse_value (Suc m) d \<pi> s" if "2 * length s \<le> n" "2 * length s \<le> m" for n m d
    by (rule value_fuel) (use that in \<open>auto intro!: IH(2,3)\<close>)
  have elems: "parse_elems (Suc n) d \<pi> s = parse_elems (Suc m) d \<pi> s"
    if "2 * length s + 1 \<le> n" "2 * length s + 1 \<le> m" for n m d
  proof (rule elems_fuel)
    show "parse_value n d \<pi> s = parse_value m d \<pi> s"
      using value_eq [of "n - 1" "m - 1" d] that by (cases n; cases m) auto
  qed (use that in \<open>auto intro!: IH(2)\<close>)
  have members: "parse_members (Suc n) d \<pi> acc s = parse_members (Suc m) d \<pi> acc s"
    if "2 * length s + 1 \<le> n" "2 * length s + 1 \<le> m" for n m d acc
    by (rule members_fuel) (use that in \<open>auto intro!: IH(1,3)\<close>)
  have pred: "\<exists>n1. n = Suc n1 \<and> k \<le> n1" if "k + 1 \<le> n" for n k :: nat using that by (cases n) auto
  show ?case
  proof (intro conjI allI impI)
    fix d n m assume "2 * length s + 1 \<le> n" "2 * length s + 1 \<le> m"
    then show "parse_value n d \<pi> s = parse_value m d \<pi> s" using pred value_eq by metis
  next
    fix d n m assume "2 * length s + 2 \<le> n" "2 * length s + 2 \<le> m"
    then show "parse_elems n d \<pi> s = parse_elems m d \<pi> s"
      using pred [of "2 * length s + 1"] elems by (metis add.assoc one_add_one)
  next
    fix d acc n m assume "2 * length s + 2 \<le> n" "2 * length s + 2 \<le> m"
    then show "parse_members n d \<pi> acc s = parse_members m d \<pi> acc s"
      using pred [of "2 * length s + 1"] members by (metis add.assoc one_add_one)
  qed
qed

text \<open>
  What \<open>Unmarshal\<close> returns is what the decoder returns with any larger amount of fuel.
\<close>

lemma Unmarshal_fuel:
  "2 * length s + 1 \<le> n \<Longrightarrow> parse_value n 0 \<pi> s = parse_value (2 * length s + 2) 0 \<pi> s"
  by (rule parse_fuel [THEN conjunct1, rule_format]) linarith+

end
