(* ===== verification/Order_To_Argo.thy ===== *)
theory Order_To_Argo
  imports Order_Theorems ArtifactWorkflow_Theorems Parameter_Theorems
begin

section \<open>From an order to its Argo workflows\<close>

text \<open>
  Both controllers together: what a run of the order controller puts into an artifact workflow, read
  back by the artifact workflow controller, determines the Argo workflow that does the work. The
  theorem follows one artifact of an order all the way, past the API server in between, which may add
  to the metadata of what it is sent but keeps name, namespace and spec.
\<close>

subsection \<open>What is relied on\<close>

text \<open>
  \<open>controllerutil.SetControllerReference\<close> changes the owner references of the object alone, and a read
  of a secret by name returns one of that name.
\<close>

definition references_only :: "'w OrderReconciler \<Rightarrow> 'v ArtifactWorkflowReconciler \<Rightarrow> bool" where
  "references_only r q \<longleftrightarrow>
     (\<forall>order aw aw1. OR_SetControllerReference r order aw = Inr aw1 \<longrightarrow>
        (\<exists>refs. aw1 = aw\<lparr>AW_ObjectMeta := (AW_ObjectMeta aw)\<lparr>Meta_OwnerReferences := refs\<rparr>\<rparr>)) \<and>
     (\<forall>aw wfl wfl1. AWR_SetControllerReference q aw wfl = Inr wfl1 \<longrightarrow>
        (\<exists>refs. wfl1 = wfl\<lparr>Workflow_ObjectMeta := (Workflow_ObjectMeta wfl)\<lparr>Meta_OwnerReferences := refs\<rparr>\<rparr>))"

definition secrets_named :: "'w Client \<Rightarrow> bool" where
  "secrets_named c \<longleftrightarrow>
     (\<forall>n w s w1. GetSecret c n w = (Inr s, w1) \<longrightarrow> Meta_Name (Secret_ObjectMeta s) = snd n)"

text \<open>The client returned this endpoint under this name in some state of the cluster.\<close>

definition reads_endpoint :: "'w Client \<Rightarrow> NamespacedName \<Rightarrow> Endpoint \<Rightarrow> bool" where
  "reads_endpoint c n ep \<longleftrightarrow> (\<exists>w w1. GetEndpoint c n w = (Inr ep, w1))"

subsection \<open>What the order controller creates\<close>

lemma desiredLoop_sources:
  assumes "desiredLoop c order i as acc w = (Inr desired, w1)" and "fmlookup desired k = Some daw"
  shows "fmlookup acc k = Some daw \<or>
    (daw_artifact daw \<in> set as \<and>
     reads_endpoint c (Order_Namespace order, srcRefName order (daw_artifact daw)) (daw_srcEndpoint daw) \<and>
     reads_endpoint c (Order_Namespace order, dstRefName order (daw_artifact daw)) (daw_dstEndpoint daw))"
  using assms
proof (induction as arbitrary: i acc w)
  case (Cons a as)
  obtain sha d w2 where 1: "desiredArtifact c order i a w = (Inr (sha, d), w2)"
    "desiredLoop c order (i + 1) as (fmupd sha d acc) w2 = (Inr desired, w1)"
    using Cons.prems(1) by (auto simp: bind_io_Inr)
  from Cons.IH [OF 1(2) Cons.prems(2)] 1(1) show ?case
    by (auto simp: desiredArtifact_Inr reads_endpoint_def split: if_splits)
qed simp

lemma created_from:
  assumes "range_ok \<rho>" and "GetOrder (OR_Client r) req w = (Inr order, w1)"
    and "\<not> Order_deleting order" and "orderFinalizer \<in> set (Order_Finalizers order)"
    and "ReqCreateArtifactWorkflow aw \<in> set (order_requests \<rho> \<pi> r req w)"
  obtains desired w2 k daw o1 where
    "desiredLoop (OR_Client r) order 0 (OrderSpec_Artifacts (Order_Spec order)) fmempty w1 = (Inr desired, w2)"
    and "fmlookup desired k = Some daw" and "ownedWorkflow \<rho> \<pi> r o1 daw = Inr aw"
proof -
  obtain ts us where 1: "snd (snd (reconcileArtifacts \<rho> \<pi> (recorded_OR r) order (w1, [ReqGetOrder req])))
      = [ReqGetOrder req] @ ts @ us"
    and 2: "\<forall>x \<in> set ts. desired_read order x"
    and 3: "\<forall>x \<in> set us. \<exists>desired w2.
      desiredLoop (OR_Client r) order 0 (OrderSpec_Artifacts (Order_Spec order)) fmempty w1 = (Inr desired, w2) \<and>
      main_permits \<rho> \<pi> r order desired x"
    by (rule reconcileArtifacts_log [OF assms(1)])
  have "ReqCreateArtifactWorkflow aw \<in> set ts \<or> ReqCreateArtifactWorkflow aw \<in> set us"
    using assms(2-5) 1 by (auto simp: order_requests_def Reconcile_recording_main)
  with 2 3 obtain desired w2 where
    "desiredLoop (OR_Client r) order 0 (OrderSpec_Artifacts (Order_Spec order)) fmempty w1 = (Inr desired, w2)"
    "main_permits \<rho> \<pi> r order desired (ReqCreateArtifactWorkflow aw)"
    by (fastforce simp: desired_read_def)
  with that show thesis by (auto simp: made_def)
qed

lemma ownedWorkflow_fields:
  assumes "references_only r q" and "ownedWorkflow \<rho> \<pi> r o1 daw = Inr aw"
  obtains ps where "dawToParameters \<rho> \<pi> daw = Inr ps"
    and "AW_Spec aw = \<lparr>AWSpec_Type = OrderArtifact_Type (daw_artifact daw), AWSpec_Parameters = ps,
      AWSpec_SrcSecretRef = EndpointSpec_SecretRef (Endpoint_Spec (daw_srcEndpoint daw)),
      AWSpec_DstSecretRef = EndpointSpec_SecretRef (Endpoint_Spec (daw_dstEndpoint daw))\<rparr>"
    and "AW_Name aw = Meta_Name (daw_objectMeta daw)" and "AW_Namespace aw = Meta_Namespace (daw_objectMeta daw)"
proof -
  obtain aw0 where aw0: "hydrateArtifactWorkflow \<rho> \<pi> daw = Inr aw0" "OR_SetControllerReference r o1 aw0 = Inr aw"
    using assms(2) by (auto simp: ownedWorkflow_def split: sum.splits failure.splits)
  then obtain refs where aw: "aw = aw0\<lparr>AW_ObjectMeta := (AW_ObjectMeta aw0)\<lparr>Meta_OwnerReferences := refs\<rparr>\<rparr>"
    using assms(1) unfolding references_only_def by blast
  obtain ps where "dawToParameters \<rho> \<pi> daw = Inr ps"
    using aw0(1) by (auto simp: hydrateArtifactWorkflow_def bind_res_Inr)
  with aw0(1) aw that show thesis by (auto simp: hydrateArtifactWorkflow_def AW_Name_def AW_Namespace_def)
qed

subsection \<open>What the artifact workflow controller makes of it\<close>

lemma read_secret_volume:
  assumes "secrets_named c" and "secret_read c ns n s"
  shows "secretVolume v s = \<lparr>Volume_Name = v, Volume_Source = (if n = [] then EmptyDir else SecretVolume n)\<rparr>"
proof -
  have "Meta_Name (Secret_ObjectMeta s) = n"
  proof (cases "n = []")
    case True
    with assms(2) show ?thesis by (simp add: secret_read_def zero_Secret_def zero_ObjectMeta_def)
  next
    case False
    with assms(2) obtain w w1 where "GetSecret c (ns, n) w = (Inr s, w1)" by (auto simp: secret_read_def)
    with assms(1) show ?thesis unfolding secrets_named_def by fastforce
  qed
  then show ?thesis by (simp add: secretVolume_def)
qed

lemma argo_fields:
  assumes "references_only r q" and "secrets_named (AWR_Client q)" and "argo_made_from q aw v wfl"
  obtains artifactType where
    "fst (GetArtifactType (AWR_Client q) ([], AWSpec_Type (AW_Spec aw)) v) = Inr artifactType"
    and "Meta_Name (Workflow_ObjectMeta wfl) = AW_Name aw" and "Meta_Namespace (Workflow_ObjectMeta wfl) = AW_Namespace aw"
    and "Workflow_TemplateRef wfl =
      \<lparr>TemplateRef_Name = Ref_Name (ATSpec_WorkflowTemplateRef (AT_Spec artifactType)), TemplateRef_ClusterScope = True\<rparr>"
    and "Workflow_Volumes wfl = map (\<lambda>(v, ref). \<lparr>Volume_Name = v,
        Volume_Source = (if Ref_Name ref = [] then EmptyDir else SecretVolume (Ref_Name ref))\<rparr>)
      [(''src-secret-vol'', AWSpec_SrcSecretRef (AW_Spec aw)), (''dst-secret-vol'', AWSpec_DstSecretRef (AW_Spec aw))]"
    and "Workflow_Parameters wfl =
      map name_value (AWSpec_Parameters (AW_Spec aw)) @ map name_value (ATSpec_Parameters (AT_Spec artifactType))"
proof -
  obtain artifactType src dst refs where
    1: "fst (GetArtifactType (AWR_Client q) ([], AWSpec_Type (AW_Spec aw)) v) = Inr artifactType"
    and 2: "secret_read (AWR_Client q) (AW_Namespace aw) (Ref_Name (AWSpec_SrcSecretRef (AW_Spec aw))) src"
    and 3: "secret_read (AWR_Client q) (AW_Namespace aw) (Ref_Name (AWSpec_DstSecretRef (AW_Spec aw))) dst"
    and 4: "wfl = (hydrateArgoWorkflow aw artifactType src dst)\<lparr>Workflow_ObjectMeta :=
      (Workflow_ObjectMeta (hydrateArgoWorkflow aw artifactType src dst))\<lparr>Meta_OwnerReferences := refs\<rparr>\<rparr>"
    using assms(1,3) unfolding argo_made_from_def references_only_def by blast
  show thesis
    by (rule that [OF 1])
      (simp_all add: 4 hydrateArgoWorkflow_def workflowMeta_def argoParameters_def
        read_secret_volume [OF assms(2) 2] read_secret_volume [OF assms(2) 3])
qed

subsection \<open>An artifact becomes an Argo workflow\<close>

text \<open>
  C19: an artifact of an order, followed through both controllers. Suppose a run of the order
  controller asks for the creation of an artifact workflow, the artifact workflow controller reads an
  object of that name, namespace and spec whose phase is still unknown, and its run ends without error.
  Then there is an artifact of the order, with the source and destination endpoints that its own
  references or else the order's defaults name in the order's namespace, such that this second run has
  asked for an Argo workflow in the order's namespace, named after the order, that refers to the
  template of the artifact's type cluster-wide, mounts the secret of each endpoint or an empty
  directory where the endpoint names none, and gets as arguments the type and the URL of both
  endpoints, whether they have secrets, what the artifact's spec assigns, and then the parameters of
  the artifact type. So a parameter of the type comes after one of the same name from the artifact.
\<close>

theorem order_artifact_reaches_argo:
  assumes "range_ok \<rho>" and "GetOrder (OR_Client r) req w = (Inr order, w1)"
    and "\<not> Order_deleting order" and "orderFinalizer \<in> set (Order_Finalizers order)"
    and "ReqCreateArtifactWorkflow created \<in> set (order_requests \<rho> \<pi> r req w)"
    and "GetArtifactWorkflow (AWR_Client q) req1 v = (Inr aw, v1)" and "AW_Spec aw = AW_Spec created"
    and "AW_Name aw = AW_Name created" and "AW_Namespace aw = AW_Namespace created"
    and "main_branch aw" and "AW_Phase aw = WorkflowUnknown"
    and "fst (ArtifactWorkflowReconciler_Reconcile q req1 v) = Inr res"
    and "references_only r q" and "secrets_named (AWR_Client q)"
  shows "\<exists>artifact src dst artifactType spec rest sha wfl.
    artifact \<in> set (OrderSpec_Artifacts (Order_Spec order)) \<and>
    reads_endpoint (OR_Client r) (Order_Namespace order,
      if Ref_Name (OrderArtifact_SrcRef artifact) \<noteq> [] then Ref_Name (OrderArtifact_SrcRef artifact)
      else Ref_Name (OrderDefaults_SrcRef (OrderSpec_Defaults (Order_Spec order)))) src \<and>
    reads_endpoint (OR_Client r) (Order_Namespace order,
      if Ref_Name (OrderArtifact_DstRef artifact) \<noteq> [] then Ref_Name (OrderArtifact_DstRef artifact)
      else Ref_Name (OrderDefaults_DstRef (OrderSpec_Defaults (Order_Spec order)))) dst \<and>
    fst (GetArtifactType (AWR_Client q) ([], OrderArtifact_Type artifact) v1) = Inr artifactType \<and>
    Unmarshal \<pi> (raw_document (OrderArtifact_Spec artifact)) = Inr spec \<and>
    ReqCreateWorkflow wfl \<in> set (aw_requests q req1 v) \<and>
    Meta_Namespace (Workflow_ObjectMeta wfl) = Order_Namespace order \<and>
    Meta_Name (Workflow_ObjectMeta wfl) = Order_Name order @ ''-'' @ sha \<and>
    Workflow_TemplateRef wfl =
      \<lparr>TemplateRef_Name = Ref_Name (ATSpec_WorkflowTemplateRef (AT_Spec artifactType)), TemplateRef_ClusterScope = True\<rparr> \<and>
    Workflow_Volumes wfl = map (\<lambda>(v, ep). \<lparr>Volume_Name = v,
        Volume_Source = (if Ref_Name (EndpointSpec_SecretRef (Endpoint_Spec ep)) = [] then EmptyDir
                         else SecretVolume (Ref_Name (EndpointSpec_SecretRef (Endpoint_Spec ep))))\<rparr>)
      [(''src-secret-vol'', src), (''dst-secret-vol'', dst)] \<and>
    Workflow_Parameters wfl =
      [(''srcType'', EndpointSpec_Type (Endpoint_Spec src)), (''srcRemoteURL'', EndpointSpec_RemoteURL (Endpoint_Spec src)),
       (''dstType'', EndpointSpec_Type (Endpoint_Spec dst)), (''dstRemoteURL'', EndpointSpec_RemoteURL (Endpoint_Spec dst)),
       (''srcSecret'', if Ref_Name (EndpointSpec_SecretRef (Endpoint_Spec src)) \<noteq> [] then ''true'' else ''false''),
       (''dstSecret'', if Ref_Name (EndpointSpec_SecretRef (Endpoint_Spec dst)) \<noteq> [] then ''true'' else ''false'')] @
      rest @ map (\<lambda>p. (Parameter_Name p, Parameter_Value p)) (ATSpec_Parameters (AT_Spec artifactType)) \<and>
    (\<forall>n v. (n, v) \<in> set rest \<longleftrightarrow>
       (\<exists>x. map_of (rev (flat_entries ''spec'' spec)) n = Some x \<and> v = fmt_v x))"
proof -
  obtain desired w2 k daw o1 where d: "fmlookup desired k = Some daw" "ownedWorkflow \<rho> \<pi> r o1 daw = Inr created"
    "desiredLoop (OR_Client r) order 0 (OrderSpec_Artifacts (Order_Spec order)) fmempty w1 = (Inr desired, w2)"
    by (rule created_from [OF assms(1-5)])
  obtain ps where ps: "dawToParameters \<rho> \<pi> daw = Inr ps"
    "AW_Spec created = \<lparr>AWSpec_Type = OrderArtifact_Type (daw_artifact daw), AWSpec_Parameters = ps,
      AWSpec_SrcSecretRef = EndpointSpec_SecretRef (Endpoint_Spec (daw_srcEndpoint daw)),
      AWSpec_DstSecretRef = EndpointSpec_SecretRef (Endpoint_Spec (daw_dstEndpoint daw))\<rparr>"
    "AW_Name created = Meta_Name (daw_objectMeta daw)" "AW_Namespace created = Meta_Namespace (daw_objectMeta daw)"
    by (rule ownedWorkflow_fields [OF assms(13) d(2)])
  obtain spec rest where sp: "Unmarshal \<pi> (raw_document (OrderArtifact_Spec (daw_artifact daw))) = Inr spec"
    "map name_value ps = fixed_values daw @ rest"
    "\<forall>n v. (n, v) \<in> set rest \<longleftrightarrow> (\<exists>x. map_of (rev (flat_entries ''spec'' spec)) n = Some x \<and> v = fmt_v x)"
    using dawToParameters_values [OF assms(1) ps(1)] by blast
  obtain wfl where wfl: "argo_made_from q aw v1 wfl" "ReqCreateWorkflow wfl \<in> set (aw_requests q req1 v)"
    using aw_create_log [OF assms(6,10,11,12)] by auto
  obtain artifactType where a: "fst (GetArtifactType (AWR_Client q) ([], AWSpec_Type (AW_Spec aw)) v1) = Inr artifactType"
    "Meta_Name (Workflow_ObjectMeta wfl) = AW_Name aw" "Meta_Namespace (Workflow_ObjectMeta wfl) = AW_Namespace aw"
    "Workflow_TemplateRef wfl =
      \<lparr>TemplateRef_Name = Ref_Name (ATSpec_WorkflowTemplateRef (AT_Spec artifactType)), TemplateRef_ClusterScope = True\<rparr>"
    "Workflow_Volumes wfl = map (\<lambda>(v, ref). \<lparr>Volume_Name = v,
        Volume_Source = (if Ref_Name ref = [] then EmptyDir else SecretVolume (Ref_Name ref))\<rparr>)
      [(''src-secret-vol'', AWSpec_SrcSecretRef (AW_Spec aw)), (''dst-secret-vol'', AWSpec_DstSecretRef (AW_Spec aw))]"
    "Workflow_Parameters wfl =
      map name_value (AWSpec_Parameters (AW_Spec aw)) @ map name_value (ATSpec_Parameters (AT_Spec artifactType))"
    by (rule argo_fields [OF assms(13,14) wfl(1)])
  note src = desiredLoop_sources [OF d(3,1)]
  show ?thesis
    by (rule exI [of _ "daw_artifact daw"], rule exI [of _ "daw_srcEndpoint daw"], rule exI [of _ "daw_dstEndpoint daw"],
        rule exI [of _ artifactType], rule exI [of _ spec], rule exI [of _ rest], rule exI [of _ k], rule exI [of _ wfl])
      (use src a sp wfl(2) ps(2-4) assms(7-9) desiredLoop_meta [OF d(3,1)] in
        \<open>simp add: fixed_values_def srcRefName_def dstRefName_def refName_def awName_def split: if_splits\<close>)
qed

text \<open>The API server has given the object its finalizer; secrets have the name they are asked by.\<close>

definition demo_stored :: "ArtifactWorkflow \<Rightarrow> ArtifactWorkflow" where
  "demo_stored created =
     \<lparr>AW_TypeMeta = zero_TypeMeta,
      AW_ObjectMeta = zero_ObjectMeta\<lparr>Meta_Name := AW_Name created, Meta_Namespace := AW_Namespace created,
        Meta_Finalizers := [artifactWorkflowFinalizer]\<rparr>,
      AW_Spec = AW_Spec created, AW_Status = zero_AWStatus\<rparr>"

definition demo_second :: "ArtifactWorkflow \<Rightarrow> unit ArtifactWorkflowReconciler" where
  "demo_second created = (demo_AWR (demo_stored created) [] None)\<lparr>AWR_Client :=
     (AWR_Client (demo_AWR (demo_stored created) [] None))
       \<lparr>GetSecret := \<lambda>n w. (Inr (zero_Secret\<lparr>Secret_ObjectMeta := zero_ObjectMeta\<lparr>Meta_Name := snd n\<rparr>\<rparr>), w)\<rparr>\<rparr>"

lemma demo_second_simps [simp]:
  "GetArtifactWorkflow (AWR_Client (demo_second created)) n w = (Inr (demo_stored created), w)"
  "GetArtifactType (AWR_Client (demo_second created)) n w = (Inr demo_type, w)"
  "GetSecret (AWR_Client (demo_second created)) n w =
     (Inr (zero_Secret\<lparr>Secret_ObjectMeta := zero_ObjectMeta\<lparr>Meta_Name := snd n\<rparr>\<rparr>), w)"
  "CreateWorkflow (AWR_Client (demo_second created)) x w = (None, w)"
  "UpdateArtifactWorkflowStatus (AWR_Client (demo_second created)) y w = (None, w)"
  "AWR_SetControllerReference (demo_second created) aw wfl = Inr wfl"
  by (simp_all add: demo_second_def demo_AWR_def static_client_def)

lemma demo_stored_simps [simp]:
  "AW_Spec (demo_stored created) = AW_Spec created" "AW_Name (demo_stored created) = AW_Name created"
  "AW_Namespace (demo_stored created) = AW_Namespace created" "main_branch (demo_stored created)"
  "AW_Phase (demo_stored created) = WorkflowUnknown"
  by (simp_all add: demo_stored_def main_branch_def api_defs zero_AWStatus_def zero_ObjectMeta_def IsZero_def)

lemma demo_second_run:
  "fst (ArtifactWorkflowReconciler_Reconcile (demo_second created) n ()) = Inr done_result"
  using demo_stored_simps(4) [of created]
  by (simp add: ArtifactWorkflowReconciler_Reconcile_def main_branch_def reconcilePhase_def createArgoWorkflow_def
      bind_io_def get_io_def put_io_def fetchSecret_def createArgo_def IgnoreAlreadyExists_def phase_defs)

lemma demo_created:
  "\<exists>created. ReqCreateArtifactWorkflow created \<in> set (order_requests sorted_range id
     (static_OR (static_client (Inr (demo_order [orderFinalizer] None [demo_artifact] None)) demo_view [] None))
     (''default'', ''demo'') ())"
  by (simp add: order_requests_def recorded_OR_def client_simps demo_run_defs recording_def)

theorem order_artifact_reaches_argo_witness:
  "let r = static_OR (static_client (Inr (demo_order [orderFinalizer] None [demo_artifact] None)) demo_view [] None) in
   \<exists>created wfl rest.
     ReqCreateArtifactWorkflow created \<in> set (order_requests sorted_range id r (''default'', ''demo'') ()) \<and>
     ReqCreateWorkflow wfl \<in> set (aw_requests (demo_second created) (''default'', AW_Name created) ()) \<and>
     Workflow_TemplateRef wfl = \<lparr>TemplateRef_Name = ''oci-template'', TemplateRef_ClusterScope = True\<rparr> \<and>
     Workflow_Parameters wfl =
       [(''srcType'', ''oci''), (''srcRemoteURL'', ''https://example.org''), (''dstType'', ''oci''),
        (''dstRemoteURL'', ''https://example.org''), (''srcSecret'', ''false''), (''dstSecret'', ''false'')] @
       rest @ [(''srcType'', ''helm'')]"
proof -
  let ?order = "demo_order [orderFinalizer] None [demo_artifact] None"
  let ?r = "static_OR (static_client (Inr ?order) demo_view [] None) :: unit OrderReconciler"
  obtain created where created: "ReqCreateArtifactWorkflow created \<in>
      set (order_requests sorted_range id ?r (''default'', ''demo'') ())"
    using demo_created by blast
  have refs: "references_only ?r (demo_second created)" "secrets_named (AWR_Client (demo_second created))"
  proof -
    have "\<exists>refs. aw = aw\<lparr>AW_ObjectMeta := (AW_ObjectMeta aw)\<lparr>Meta_OwnerReferences := refs\<rparr>\<rparr>" for aw :: ArtifactWorkflow
      by (rule exI [of _ "Meta_OwnerReferences (AW_ObjectMeta aw)"]) simp
    moreover have "\<exists>refs. wfl = wfl\<lparr>Workflow_ObjectMeta := (Workflow_ObjectMeta wfl)\<lparr>Meta_OwnerReferences := refs\<rparr>\<rparr>"
      for wfl :: Workflow
      by (rule exI [of _ "Meta_OwnerReferences (Workflow_ObjectMeta wfl)"]) simp
    ultimately show "references_only ?r (demo_second created)" by (simp add: references_only_def)
    show "secrets_named (AWR_Client (demo_second created))" by (auto simp: secrets_named_def)
  qed
  have "\<exists>wfl rest. ReqCreateWorkflow wfl \<in> set (aw_requests (demo_second created) (''default'', AW_Name created) ()) \<and>
     Workflow_TemplateRef wfl = \<lparr>TemplateRef_Name = ''oci-template'', TemplateRef_ClusterScope = True\<rparr> \<and>
     Workflow_Parameters wfl =
       [(''srcType'', ''oci''), (''srcRemoteURL'', ''https://example.org''), (''dstType'', ''oci''),
        (''dstRemoteURL'', ''https://example.org''), (''srcSecret'', ''false''), (''dstSecret'', ''false'')] @
       rest @ [(''srcType'', ''helm'')]"
    using order_artifact_reaches_argo [where order = ?order and w = "()" and ?w1.0 = "()" and ?v1.0 = "()" and v = "()"
        and aw = "demo_stored created", OF sorted_range_ok _ _ _ created _ _ _ _ _ _ demo_second_run refs]
    by (simp add: IsZero_def demo_artifact_def reads_endpoint_def demo_view_def demo_endpoint_def demo_type_def param_def)
      blast
  with created show ?thesis by (auto simp: Let_def)
qed

end
