(* ===== verification/Spec2Isabelle.thy ===== *)
theory Spec2Isabelle
  imports Errors Parameter_Theorems Order_Theorems ArtifactWorkflow_Theorems Conversion Registry Deep_Copy_Theorems
    Install Informers Apply_Theorems Api_Server Controller_Manager Endpoint_Updates Order_Convergence Openapi_Documents
    Fake_Clientset Api_Command Test_Environment Go_Json_Fuel Order_To_Argo
begin

text \<open>
  Artifact Conduit (ARC) moves artifacts between endpoints. A user writes an \<^emph>\<open>order\<close>: a list of artifacts, each with a
  source and a destination endpoint. The order controller makes an \<^emph>\<open>artifact workflow\<close> for each artifact, and the
  artifact workflow controller runs an Argo workflow for it, from the template its \<^emph>\<open>artifact type\<close> names. Orders,
  endpoints, artifact workflows and artifact types are served by an aggregated API server with its own registry;
  generated code has the conversions between the served and the internal version of the types, the
  deep copies, the OpenAPI definitions, the clients (real and fake), the informers and the apply configurations.

  This development models that Go code definition by definition and proves what makes it correct. Paths below are
  relative to \<^verbatim>\<open>src/\<close>.

  \<^bold>\<open>Foundations.\<close>
  \<^item> \<open>Prelude\<close>: errors and panics as values (\<open>failure + 'a\<close>), Go maps as optional finite maps, and
    the order in which Go ranges over a map as a parameter \<open>range_order\<close>. Theorems hold for every such order
    (\<open>range_ok\<close>); witnesses use \<open>sorted_range\<close>.
  \<^item> \<open>Go_Text\<close>, \<open>Go_Float\<close>, \<open>Go_Json\<close>, \<open>Go_Marshal\<close>, \<open>Go_Sha256\<close>: what the controllers use of Go's standard library:
    strings and \<open>fmt\<close>, float64 printing, decoding JSON to \<open>any\<close>, marshalling the list that is hashed, SHA-256 and hex.
  \<^item> \<open>Go_Heap\<close>: a heap of cells for slices, maps and pointers, for the deep copies.

  \<^bold>\<open>API types.\<close> \<open>Api_Types\<close> (\<^verbatim>\<open>api/arc/v1alpha1/*_types.go\<close>) and \<open>Arc_Types\<close> (\<^verbatim>\<open>api/arc/*_types.go\<close>) have a
  record per struct.

  \<^bold>\<open>Controllers\<close> (\<^verbatim>\<open>pkg/controller\<close>).
  \<^item> \<open>Client\<close> is the interface to the cluster: a record of operations on an unknown state \<open>'w\<close>, which may answer
    anything, and a recording client that logs the requests. Theorems about requests quantify over all clients.
  \<^item> \<open>Errors\<close> is \<open>errLogAndWrap\<close>; \<open>Parameters\<close> has \<open>paramName\<close>, \<open>flattenMap\<close> and \<open>dawToParameters\<close>.
    \<open>Parameter_Theorems\<close> compares the flattening with a reference list of assignments and states names, order and
    values of the parameters.
  \<^item> \<open>Order_Controller\<close> is \<open>OrderReconciler.Reconcile\<close>, one definition per loop, with all early returns, and the mapping
    from endpoints to orders. \<open>Order_Requests\<close> and \<open>Order_Theorems\<close> show which requests a run makes, when it
    succeeds, fails, deletes or has nothing to do, and that the hashed text and the names are unambiguous.
  \<^item> \<open>Order_Cluster\<close> says what an API server promises of the objects it stores and how the manager's client, which
    reads from a cache, may lag behind it (\<open>api_laws\<close>), and what each loop then does to them.
    \<open>Order_Convergence\<close> interleaves runs with progress of artifact workflows, changes by others and watch events
    that bring the cache up to date. For runs that each start with a cache that has caught up, on an order that
    can be served (what it refers to resolves, what its status lists exists): a potential of at most three, which
    every writing run lowers, bounds the writes, and undisturbed the order comes to rest in three runs. An artifact
    workflow that got lost blocks its order. Runs on a stale cache are covered by the statements about requests,
    which hold for every answer of the client, and not by those about convergence.
  \<^item> \<open>ArtifactWorkflow_Controller\<close> and \<open>ArtifactWorkflow_Theorems\<close> do the same for
    \<open>ArtifactWorkflowReconciler.Reconcile\<close>, with the phases as a state machine over any number of runs.
  \<^item> \<open>Order_To_Argo\<close> follows an artifact through both controllers, from the order to the Argo workflow made for it.
  \<^item> \<open>Demo\<close> has the objects and the client the witnesses use.

  \<^bold>\<open>API machinery.\<close>
  \<^item> \<open>Conversion\<close> (\<^verbatim>\<open>api/arc/v1alpha1/zz_generated.conversion.go\<close>): all conversions; the locale
    \<open>conversion_pair\<close> is interpreted for each pair. \<open>Conversion_Registry\<close>: their registration, with the type
    assertions of the closures. \<open>Install\<close>: scheme builders, known types, defaults and the \<open>init\<close> functions.
  \<^item> \<open>Deep_Copy\<close>, \<open>Deep_Copy_Types\<close>, \<open>Deep_Copy_V1alpha1\<close>, \<open>Deep_Copy_Arc\<close>, \<open>Deep_Copy_Theorems\<close>
    (\<^verbatim>\<open>zz_generated.deepcopy.go\<close> of both packages): the methods on the heap, and that copies are equal and share nothing.
  \<^item> \<open>Registry\<close> (\<^verbatim>\<open>pkg/registry\<close>, \<^verbatim>\<open>pkg/apiserver/apiserver.go\<close>): strategies (with their Go types),
    selectable fields, stores and the storage map.
  \<^item> \<open>Api_Version\<close>, \<open>Api_Server\<close>, \<open>Api_Command\<close> (\<^verbatim>\<open>pkg/apiserver/start.go\<close>, \<^verbatim>\<open>pkg/admission/orderinitializer\<close>,
    \<^verbatim>\<open>cmd/arc-apiserver/main.go\<close>): the emulated version of Kubernetes on 64-bit words; options, configuration and start of
    the server; the command with the components and features it registers.
  \<^item> \<open>Openapi_Schema\<close>, \<open>Openapi_Arc\<close>, \<open>Openapi_Core1\<close> to \<open>Openapi_Core4\<close>, \<open>Openapi_Meta\<close>, \<open>Openapi\<close>
    (\<^verbatim>\<open>client-go/openapi/zz_generated.openapi.go\<close>, \<^verbatim>\<open>api/arc/v1alpha1/zz_generated.openapi.go\<close>): one definition per schema
    function, under its name, and the table. Dependencies are declared exactly, required fields exist, and
    all the served types need is in the table. \<open>Openapi_Documents\<close> has the JSON documents of the API types by their
    struct tags and says which of them satisfy the published definitions.
  \<^item> \<open>Controller_Manager\<close> (\<^verbatim>\<open>cmd/arc-controller-manager/main.go\<close>): from the flags to the running manager.
  \<^item> \<open>Endpoint_Updates\<close>: registry, conversion and order controller together.

  \<^bold>\<open>Client library\<close> (\<^verbatim>\<open>client-go\<close>).
  \<^item> \<open>Clientset\<close>: building the clients from a configuration. \<open>Informer_Factory\<close>: the shared informer factory as a state
    with the steps of its callers and goroutines (\<open>factory_step\<close>), invariants by induction over the steps.
    \<open>Fake_Clientset\<close>: the clientset for tests, whose parts share a tracker and reactors by reference; the locale
    \<open>list_access\<close> is interpreted for the four typed fakes.
    \<open>Informers\<close>: typed informers, listers and \<open>ForResource\<close>; the locale \<open>typed_informer\<close> is interpreted for the four kinds.
  \<^item> \<open>Apply_Meta\<close>, \<open>Apply_Specs\<close>, \<open>Apply_Roots\<close>, \<open>Apply_Theorems\<close>: the apply configurations; the locale \<open>meta_builder\<close>
    says what sequences of calls on the metadata amount to and is interpreted for the four kinds.
  \<^item> \<open>Test_Environment\<close> (\<^verbatim>\<open>pkg/envtest/environment.go\<close>): starting and stopping a control plane for tests.

  \<^bold>\<open>Code outside the repository\<close> is a parameter: the cluster (\<open>Client\<close>), \<open>SetControllerReference\<close>, the REST and discovery clients
  (\<open>rest_library\<close>), the scheme (\<open>scheme_ops\<close>), the generic store and server (\<open>complete\<close>, \<open>apiserver_library\<close>),
  \<open>version.Version\<close> (\<open>version_library\<close>), the registry of components (\<open>command_library\<close>), the OpenAPI builder
  (\<open>openapi_library\<close>), the testing library (\<open>testing_library\<close>), the deep copies of library structs. Where a property needs something of them it
  is a hypothesis of the theorem, after their documentation, and a witness shows that it can hold.

  \<^bold>\<open>Bounds and fuel.\<close> The model of the repository's code takes no fuel: all loops range over lists, maps or JSON values and
  are structural. Fuel is in the standard library's JSON decoder, where \<open>Go_Json_Fuel\<close> proves that two units per
  byte are enough; in the printing of a float64, where it is the 17 digits that always suffice; and in the check of a
  document against a schema, as definitions may refer to each other: \<open>valid\<close> asks for it to hold with all large
  amounts, and \<open>valid_iff\<close> unfolds it without. The
  integers the controllers only copy and print are unbounded; the version arithmetic, the only place where the code
  computes with them, is on 64-bit words. The hash is cut to sixteen hexadecimal digits as in the code; statements about
  uniqueness are about the text hashed or say that the digests differ.

  \<^bold>\<open>Not modelled.\<close> The descriptions in the OpenAPI definitions are documentation and left out. \<^verbatim>\<open>test\<close>, the context of
  \<^verbatim>\<open>pkg/envtest\<close>, the fuzzer and \<^verbatim>\<open>hack\<close> are single calls of test libraries and a list of tools. Stored pointers in apply
  configurations are values: callers that write through a pointer after passing it are not followed. Log output other
  than that of \<open>errLogAndWrap\<close> is left out. Of the server's OpenAPI configuration only title and version are kept.
\<close>


section \<open>Both controllers\<close>

text \<open>
  C18: both controllers put their finalizer on an object before they do anything for it. An order or an artifact
  workflow that is not being deleted and lacks the finalizer gets it, after the finalizers it has, in one update;
  nothing else is asked for in that run. So no artifact workflow is ever created for an order, and no Argo
  workflow for an artifact workflow, whose deletion the controller could miss.
\<close>

theorem finalizers_first:
  assumes "GetOrder (OR_Client r) req w = (Inr order, w1)"
    and "\<not> Order_deleting order" and "orderFinalizer \<notin> set (Order_Finalizers order)"
    and "GetArtifactWorkflow (AWR_Client r') req' w' = (Inr aw, w1')"
    and "\<not> AW_deleting aw" and "artifactWorkflowFinalizer \<notin> set (AW_Finalizers aw)"
  shows "order_requests \<rho> \<pi> r req w =
      [ReqGetOrder req, ReqUpdateOrder (set_Order_Finalizers (Order_Finalizers order @ [orderFinalizer]) order)] \<and>
    aw_requests r' req' w' =
      [ReqGetArtifactWorkflow req',
       ReqUpdateArtifactWorkflow (set_AW_Finalizers (AW_Finalizers aw @ [artifactWorkflowFinalizer]) aw)]"
  using order_finalizer_log [OF assms(1-3)] aw_finalizer_log [OF assms(4-6)] by blast

theorem finalizers_first_witness:
  "order_requests sorted_range id
      (static_OR (static_client (Inr (demo_order [''keep''] None [] None)) (\<lambda>n. Inr (demo_endpoint n)) [] None))
      (''default'', ''demo'') () =
    [ReqGetOrder (''default'', ''demo''),
     ReqUpdateOrder (set_Order_Finalizers [''keep'', orderFinalizer] (demo_order [''keep''] None [] None))] \<and>
   aw_requests (demo_AWR (demo_aw [''keep''] None []) [] None) (''default'', ''demo-0'') () =
    [ReqGetArtifactWorkflow (''default'', ''demo-0''),
     ReqUpdateArtifactWorkflow (set_AW_Finalizers [''keep'', artifactWorkflowFinalizer] (demo_aw [''keep''] None []))]"
proof -
  have "\<not> Order_deleting (demo_order [''keep''] None [] None)" "orderFinalizer \<notin> set (Order_Finalizers (demo_order [''keep''] None [] None))"
    "\<not> AW_deleting (demo_aw [''keep''] None [])" "artifactWorkflowFinalizer \<notin> set (AW_Finalizers (demo_aw [''keep''] None []))"
    by (simp_all add: IsZero_def orderFinalizer_def artifactWorkflowFinalizer_def)
  note first = finalizers_first [OF _ this(1,2) demo_AWR_simps(1) this(3,4),
      where r = "static_OR (static_client (Inr (demo_order [''keep''] None [] None)) (\<lambda>n. Inr (demo_endpoint n)) [] None)"]
  show ?thesis by (subst first [THEN conjunct1], simp_all add: first [THEN conjunct2])
qed

end
